(* ===== verification/Prelude.thy ===== *)
theory Prelude
  imports Main "HOL-Library.List_Lexorder"
begin

section \<open>Prelude: results, validated construction, Python text and time\<close>

text \<open>
  What every component of the model shares.

  \<^item> A call that may raise returns \<open>'e + 'a\<close>: \<open>Inl\<close> is the exception, \<open>Inr\<close> the value.
    \<open>res_bind\<close> sequences two calls, \<open>raise_if\<close> is an \<open>if ...: raise\<close> statement,
    \<open>res_map\<close> is a comprehension whose element expression may raise.
  \<^item> A pydantic class is a \<open>record\<close>; constructing it is \<open>construct fields guards x\<close>:
    the declared field constraints are collected first (pydantic reports all of them together),
    and only when all hold does the \<open>mode="after"\<close> validator run, whose
    \<open>if ...: raise ValueError(msg)\<close> statements are the list \<open>guards\<close> in source order.
  \<^item> A Python \<open>str\<close> is the list of its code points (\<open>pystr\<close>), \<open>str ''abc''\<close> an ASCII literal.
  \<^item> A \<open>datetime\<close> is its instant in microseconds and its UTC offset (\<open>None\<close> for a naive one).
  \<^item> A \<open>UUID\<close> is the 128-bit number it stands for; the code only compares them.
\<close>

named_theorems unfold_ops \<open>definitions of operations, for symbolic execution\<close>
named_theorems record_checks \<open>what the constructor of a validated record accepts\<close>

subsection \<open>Results\<close>

definition res_bind :: "'e + 'a \<Rightarrow> ('a \<Rightarrow> 'e + 'b) \<Rightarrow> 'e + 'b" where
  "res_bind m f = (case m of Inl e \<Rightarrow> Inl e | Inr x \<Rightarrow> f x)"

definition raise_if :: "bool \<Rightarrow> 'e \<Rightarrow> 'e + unit" where
  "raise_if c e = (if c then Inl e else Inr ())"

fun res_map :: "('a \<Rightarrow> 'e + 'b) \<Rightarrow> 'a list \<Rightarrow> 'e + 'b list" where
  "res_map f [] = Inr []"
| "res_map f (x # xs) =
     (case f x of Inl e \<Rightarrow> Inl e
      | Inr y \<Rightarrow> (case res_map f xs of Inl e \<Rightarrow> Inl e | Inr ys \<Rightarrow> Inr (y # ys)))"

text \<open>\<open>try: m  except E: raise e\<close>: any failure of the call becomes the one given.\<close>

definition or_raise :: "'d + 'a \<Rightarrow> 'e \<Rightarrow> 'e + 'a" where
  "or_raise m e = (case m of Inl _ \<Rightarrow> Inl e | Inr x \<Rightarrow> Inr x)"

lemma res_bind_simps [simp]:
  "res_bind (Inl e) f = Inl e" "res_bind (Inr x) f = f x"
  by (simp_all add: res_bind_def)

lemma res_bind_Inr_iff: "res_bind m f = Inr y \<longleftrightarrow> (\<exists>x. m = Inr x \<and> f x = Inr y)"
  by (cases m) auto

lemma res_bind_Inl_iff:
  "res_bind m f = Inl e \<longleftrightarrow> m = Inl e \<or> (\<exists>x. m = Inr x \<and> f x = Inl e)"
  by (cases m) auto

lemma raise_if_Inr_iff [simp]: "raise_if c e = Inr u \<longleftrightarrow> \<not> c"
  by (simp add: raise_if_def)

lemma raise_if_Inl_iff [simp]: "raise_if c e = Inl e' \<longleftrightarrow> c \<and> e' = e"
  by (auto simp: raise_if_def)

lemma raise_if_simps [simp]: "raise_if True e = Inl e" "raise_if False e = Inr ()"
  by (simp_all add: raise_if_def)

lemma or_raise_simps [simp]: "or_raise (Inl d) e = Inl e" "or_raise (Inr x) e = Inr x"
  by (simp_all add: or_raise_def)

lemma or_raise_Inr_iff [simp]: "or_raise m e = Inr x \<longleftrightarrow> m = Inr x"
  by (cases m) auto

lemma or_raise_Inl_iff: "or_raise m e = Inl e' \<longleftrightarrow> e' = e \<and> (\<exists>d. m = Inl d)"
  by (cases m) auto

lemma res_map_Inr_iff:
  "res_map f xs = Inr ys \<longleftrightarrow> list_all2 (\<lambda>x y. f x = Inr y) xs ys"
proof (induction xs arbitrary: ys)
  case Nil
  then show ?case by auto
next
  case (Cons x xs)
  have "res_map f (x # xs) = Inr ys \<longleftrightarrow>
      (\<exists>z zs. ys = z # zs \<and> f x = Inr z \<and> res_map f xs = Inr zs)"
    by (auto split: sum.splits)
  then show ?case by (simp add: Cons.IH list_all2_Cons1)
qed

lemma res_map_length: "res_map f xs = Inr ys \<Longrightarrow> length ys = length xs"
  by (simp add: res_map_Inr_iff list_all2_lengthD)

lemma res_map_total:
  "(\<And>x. x \<in> set xs \<Longrightarrow> f x = Inr (g x)) \<Longrightarrow> res_map f xs = Inr (map g xs)"
  by (induction xs) auto

lemma res_map_Inl_member: "res_map f xs = Inl e \<Longrightarrow> \<exists>x\<in>set xs. f x = Inl e"
  by (induction xs) (auto split: sum.splits)

lemma res_map_map_eq:
  "res_map f xs = Inr ys \<Longrightarrow> (\<And>x y. x \<in> set xs \<Longrightarrow> f x = Inr y \<Longrightarrow> h y = k x) \<Longrightarrow> map h ys = map k xs"
  unfolding res_map_Inr_iff by (induction rule: list_all2_induct) auto

lemma res_map_set:
  "res_map f xs = Inr ys \<Longrightarrow> y \<in> set ys \<Longrightarrow> \<exists>x\<in>set xs. f x = Inr y"
  unfolding res_map_Inr_iff by (induction rule: list_all2_induct) auto

lemma res_map_cong [fundef_cong]:
  "xs = ys \<Longrightarrow> (\<And>x. x \<in> set ys \<Longrightarrow> f x = g x) \<Longrightarrow> res_map f xs = res_map g ys"
  by (induction ys arbitrary: xs) (auto split: sum.splits)

subsection \<open>Validated construction\<close>

text \<open>
  \<open>FieldErrors\<close>: the fields a pydantic \<open>ValidationError\<close> lists; \<open>ModelError\<close>: the message its
  model validator raised; \<open>PlainValueError\<close>: a \<open>ValueError\<close> raised outside a constructor.
\<close>

datatype validation_error = FieldErrors "string list" | ModelError string | PlainValueError string

definition failing :: "(string \<times> bool) list \<Rightarrow> string list" where
  "failing fields = map fst (filter (\<lambda>(_, ok). \<not> ok) fields)"

fun first_raise :: "(bool \<times> string) list \<Rightarrow> string option" where
  "first_raise [] = None"
| "first_raise ((c, msg) # gs) = (if c then Some msg else first_raise gs)"

definition checks :: "(bool \<times> string) list \<Rightarrow> string + unit" where
  "checks guards = (case first_raise guards of Some msg \<Rightarrow> Inl msg | None \<Rightarrow> Inr ())"

definition construct_with ::
  "(string \<times> bool) list \<Rightarrow> string + unit \<Rightarrow> 'a \<Rightarrow> validation_error + 'a" where
  "construct_with fields validator x =
     (if failing fields \<noteq> [] then Inl (FieldErrors (failing fields))
      else case validator of Inl msg \<Rightarrow> Inl (ModelError msg) | Inr _ \<Rightarrow> Inr x)"

definition construct ::
  "(string \<times> bool) list \<Rightarrow> (bool \<times> string) list \<Rightarrow> 'a \<Rightarrow> validation_error + 'a" where
  "construct fields guards x = construct_with fields (checks guards) x"

lemma failing_Nil_iff: "failing fields = [] \<longleftrightarrow> list_all snd fields"
  by (induction fields) (auto simp: failing_def)

lemma first_raise_None_iff: "first_raise gs = None \<longleftrightarrow> list_all (\<lambda>(c, _). \<not> c) gs"
  by (induction gs rule: first_raise.induct) simp_all

lemma checks_Inr_iff [simp]: "checks guards = Inr u \<longleftrightarrow> list_all (\<lambda>(c, _). \<not> c) guards"
  unfolding checks_def first_raise_None_iff[symmetric] by (cases u) (simp split: option.splits)

lemma construct_with_Inr_iff:
  "construct_with fields validator x = Inr y \<longleftrightarrow> y = x \<and> list_all snd fields \<and> validator = Inr ()"
  unfolding construct_with_def failing_Nil_iff[symmetric] by (auto split: sum.splits)

lemma construct_Inr_iff:
  "construct fields guards x = Inr y \<longleftrightarrow>
     y = x \<and> list_all snd fields \<and> list_all (\<lambda>(c, _). \<not> c) guards"
  by (simp add: construct_def construct_with_Inr_iff)

lemma construct_with_Inr [record_checks]:
  "list_all snd fields \<Longrightarrow> validator = Inr () \<Longrightarrow> construct_with fields validator x = Inr x"
  by (simp add: construct_with_Inr_iff)

lemma construct_Inr [record_checks]:
  "list_all snd fields \<Longrightarrow> list_all (\<lambda>(c, _). \<not> c) guards \<Longrightarrow> construct fields guards x = Inr x"
  by (simp add: construct_Inr_iff)

subsection \<open>The contract of a validated class\<close>

text \<open>
  What the code relies on when it validates an instance again (\<open>_is_exact_canonical_model\<close>,
  \<open>model_validate(vars(x))\<close>): a constructor accepts what it produced, unchanged. A class that
  rewrites no field on construction is a \<open>plain_record\<close>.
\<close>

locale validated_class =
  fixes make :: "'a \<Rightarrow> validation_error + 'a"
  assumes revalidates: "make x = Inr y \<Longrightarrow> make y = Inr y"
begin

lemma make_twice: "res_bind (make x) make = make x"
  by (cases "make x") (simp_all add: revalidates)

lemma made_list: "res_map make xs = Inr ys \<Longrightarrow> res_map make ys = Inr ys"
  using res_map_total[of ys make "\<lambda>y. y"] res_map_set[of make xs ys] revalidates by auto

end

locale plain_record = validated_class +
  assumes unchanged: "make x = Inr y \<Longrightarrow> y = x"
begin

lemma made_list_same: "res_map make xs = Inr ys \<Longrightarrow> ys = xs"
  using res_map_map_eq[of make xs ys "\<lambda>y. y" "\<lambda>x. x"] unchanged by auto

lemma accepts_or_raises: "make x = Inr x \<or> (\<exists>e. make x = Inl e)"
  using unchanged by (cases "make x") auto

end

lemma plain_recordI:
  assumes "\<And>x. \<exists>fields validator. make x = construct_with fields validator x"
  shows "plain_record make"
proof
  fix x y assume "make x = Inr y"
  with assms show "make y = Inr y" "y = x" by (metis construct_with_Inr_iff)+
qed

subsection \<open>Machines that only move forward\<close>

text \<open>
  A step relation whose states have a rank that every step raises and that never passes \<open>top\<close>:
  runs are finite, no state comes back, a state of the highest rank is final. An
  \<open>audited_machine\<close> also keeps a part of the state, compared by \<open>same\<close>.
\<close>

locale ranked_machine =
  fixes step :: "'s \<Rightarrow> 's \<Rightarrow> bool" and rank :: "'s \<Rightarrow> nat" and top :: nat
  assumes step_rank: "step s s' \<Longrightarrow> rank s < rank s'"
    and rank_top: "step s s' \<Longrightarrow> rank s' \<le> top"
begin

lemma final_at_top: "rank s = top \<Longrightarrow> \<not> step s s'"
  using step_rank rank_top by fastforce

lemma run_length: "(step ^^ n) s s' \<Longrightarrow> rank s + n \<le> rank s'"
proof (induction n arbitrary: s')
  case (Suc n)
  then obtain t where "(step ^^ n) s t" "step t s'" by auto
  with Suc.IH[of t] step_rank[of t s'] show ?case by simp
qed simp

lemma run_bound: "(step ^^ n) s s' \<Longrightarrow> 0 < n \<Longrightarrow> n \<le> top - rank s"
proof -
  assume r: "(step ^^ n) s s'" and n: "0 < n"
  then obtain t where "step t s'" by (cases n) auto
  with rank_top run_length[OF r] show ?thesis by force
qed

lemma no_return: "step\<^sup>+\<^sup>+ s s' \<Longrightarrow> s \<noteq> s'"
proof -
  assume "step\<^sup>+\<^sup>+ s s'"
  then have "rank s < rank s'"
    by (induction rule: tranclp_induct) (auto dest: step_rank)
  then show ?thesis by auto
qed

end

locale audited_machine = ranked_machine +
  fixes same :: "'s \<Rightarrow> 's \<Rightarrow> bool"
  assumes same_refl: "same s s"
    and same_trans: "same s t \<Longrightarrow> same t u \<Longrightarrow> same s u"
    and step_same: "step s s' \<Longrightarrow> same s s'"
begin

lemma run_same: "step\<^sup>*\<^sup>* s s' \<Longrightarrow> same s s'"
  by (induction rule: rtranclp_induct) (auto intro: same_refl same_trans dest: step_same)

lemma run_rank: "step\<^sup>*\<^sup>* s s' \<Longrightarrow> s = s' \<or> rank s < rank s'"
  by (induction rule: rtranclp_induct) (auto dest: step_rank)

end

subsection \<open>Text\<close>

type_synonym pystr = "nat list"

definition str :: "string \<Rightarrow> pystr" where
  "str s = map of_char s"

lemma str_eq_iff [simp]: "str s = str t \<longleftrightarrow> s = t"
  by (simp add: str_def inj_map_eq_map inj_of_char)

lemma str_Nil [simp]: "str s = [] \<longleftrightarrow> s = []" "[] = str s \<longleftrightarrow> s = []"
  by (auto simp: str_def)

lemma length_str [simp]: "length (str s) = length s"
  by (simp add: str_def)

lemma str_append: "str (s @ t) = str s @ str t"
  by (simp add: str_def)

text \<open>\<open>needle in hay\<close> and \<open>hay.find(needle, from)\<close> (the latter \<open>None\<close> where Python gives \<open>-1\<close>).\<close>

definition occurs_at :: "pystr \<Rightarrow> pystr \<Rightarrow> nat \<Rightarrow> bool" where
  "occurs_at needle hay i \<longleftrightarrow> i + length needle \<le> length hay \<and> take (length needle) (drop i hay) = needle"

definition py_find :: "pystr \<Rightarrow> pystr \<Rightarrow> nat \<Rightarrow> nat option" where
  "py_find needle hay start = find (occurs_at needle hay) [start..<Suc (length hay)]"

definition py_in :: "pystr \<Rightarrow> pystr \<Rightarrow> bool" where
  "py_in needle hay \<longleftrightarrow> (\<exists>i\<in>set [0..<Suc (length hay)]. occurs_at needle hay i)"

lemma find_upt_Some_iff:
  "find P [a..<b] = Some i \<longleftrightarrow> a \<le> i \<and> i < b \<and> P i \<and> (\<forall>j. a \<le> j \<and> j < i \<longrightarrow> \<not> P j)"
proof (induction "b - a" arbitrary: a)
  case 0
  then show ?case by auto
next
  case (Suc n)
  then have ab: "a < b" by simp
  have IH: "find P [Suc a..<b] = Some i \<longleftrightarrow>
      Suc a \<le> i \<and> i < b \<and> P i \<and> (\<forall>j. Suc a \<le> j \<and> j < i \<longrightarrow> \<not> P j)"
    using Suc by simp
  have eq: "find P [a..<b] = (if P a then Some a else find P [Suc a..<b])"
    using ab by (simp add: upt_rec[of a])
  show ?case
  proof (cases "P a")
    case True
    with ab show ?thesis unfolding eq by (auto intro: le_antisym simp: not_less[symmetric])
  next
    case False
    then have "(\<forall>j. a \<le> j \<and> j < i \<longrightarrow> \<not> P j) \<longleftrightarrow> (\<forall>j. Suc a \<le> j \<and> j < i \<longrightarrow> \<not> P j)"
      by (metis Suc_leD Suc_leI le_neq_implies_less)
    moreover have "P i \<and> a \<le> i \<longleftrightarrow> P i \<and> Suc a \<le> i"
      using False by (metis Suc_leD Suc_leI le_neq_implies_less)
    ultimately show ?thesis using False IH unfolding eq by auto
  qed
qed

lemma find_upt_None_iff: "find P [a..<b] = None \<longleftrightarrow> (\<forall>j. a \<le> j \<and> j < b \<longrightarrow> \<not> P j)"
  by (auto simp: find_None_iff)

lemma occurs_at_bound: "occurs_at needle hay i \<Longrightarrow> i < Suc (length hay)"
  by (simp add: occurs_at_def)

lemma py_find_Some_iff:
  "py_find needle hay start = Some i \<longleftrightarrow>
     start \<le> i \<and> occurs_at needle hay i \<and> (\<forall>j. start \<le> j \<and> j < i \<longrightarrow> \<not> occurs_at needle hay j)"
  unfolding py_find_def find_upt_Some_iff by (auto dest: occurs_at_bound)

lemma py_find_None_iff:
  "py_find needle hay start = None \<longleftrightarrow> (\<forall>j. start \<le> j \<longrightarrow> \<not> occurs_at needle hay j)"
  unfolding py_find_def find_upt_None_iff by (auto dest: occurs_at_bound)

lemma py_in_iff: "py_in needle hay \<longleftrightarrow> (\<exists>i. occurs_at needle hay i)"
proof
  assume "\<exists>i. occurs_at needle hay i"
  then obtain i where "occurs_at needle hay i" by blast
  moreover from this have "i \<in> set [0..<Suc (length hay)]"
    by (simp add: occurs_at_bound del: upt_Suc)
  ultimately show "py_in needle hay" unfolding py_in_def by blast
qed (auto simp: py_in_def)

lemma occurs_at_append_middle: "occurs_at n (xs @ n @ ys) (length xs)"
  by (simp add: occurs_at_def)

lemma py_in_append_middle: "py_in n (xs @ n @ ys)"
  unfolding py_in_iff using occurs_at_append_middle by blast

lemma occurs_at_split:
  assumes "occurs_at needle hay i"
  shows "hay = take i hay @ needle @ drop (i + length needle) hay"
  using assms append_take_drop_id[of i hay] append_take_drop_id[of "length needle" "drop i hay"]
  unfolding occurs_at_def by (metis drop_drop add.commute)

subsection \<open>Time and identities\<close>

datatype datetime = Datetime (instant: int) (utcoffset: "int option")

definition dt_less :: "datetime \<Rightarrow> datetime \<Rightarrow> bool" where
  "dt_less a b \<longleftrightarrow> instant a < instant b"

abbreviation utc_us :: "int \<Rightarrow> datetime" where
  "utc_us t \<equiv> Datetime t (Some 0)"

type_synonym uuid = nat

definition opt_all :: "('a \<Rightarrow> bool) \<Rightarrow> 'a option \<Rightarrow> bool" where
  "opt_all P x = (case x of None \<Rightarrow> True | Some y \<Rightarrow> P y)"

lemma opt_all_simps [simp]: "opt_all P None" "opt_all P (Some y) \<longleftrightarrow> P y"
  by (simp_all add: opt_all_def)

text \<open>\<open>len(xs) != len(set(xs))\<close> is how the code tests for duplicates.\<close>

definition has_duplicates :: "'a list \<Rightarrow> bool" where
  "has_duplicates xs \<longleftrightarrow> length xs \<noteq> length (remdups xs)"

lemma has_duplicates_iff [simp]: "has_duplicates xs \<longleftrightarrow> \<not> distinct xs"
  by (metis has_duplicates_def distinct_card length_remdups_card_conv card_distinct)

end
