(* ===== verification/Common.thy ===== *)
theory Common
  imports Prelude
begin

section \<open>Shared Core primitives (core/common.py)\<close>

text \<open>
  JSON values, the tuple-backed immutable JSON object, freezing and thawing, the recursive
  search for Runtime-private field names in model-proposed JSON, and the UTC check.

  A \<open>JDict\<close> holds the \<open>items()\<close> view of the object, in order. A Python float is given by
  its exact value (numerator and denominator of \<open>as_integer_ratio\<close>) and its \<open>repr\<close>, or is
  not finite. Cyclic containers cannot be built from the tree type \<open>json\<close>; freezing an
  object graph with sharing and cycles is modelled over an explicit store in theory
  \<open>Json_Store\<close>.
\<close>

datatype pyfloat = Finite int nat pystr | NonFinite pystr

datatype json =
    JNull
  | JBool bool
  | JInt int
  | JFloat pyfloat
  | JStr pystr
  | JList "json list"
  | JDict "(pystr \<times> json) list"

definition isfinite :: "pyfloat \<Rightarrow> bool" where
  "isfinite f = (case f of Finite _ _ _ \<Rightarrow> True | NonFinite _ \<Rightarrow> False)"

subsection \<open>Python dictionaries in insertion order\<close>

definition dict_set :: "('k \<times> 'v) list \<Rightarrow> 'k \<Rightarrow> 'v \<Rightarrow> ('k \<times> 'v) list" where
  "dict_set d k v =
     (if k \<in> set (map fst d) then map (\<lambda>(k', v'). if k' = k then (k', v) else (k', v')) d
      else d @ [(k, v)])"

definition dict_of_items :: "('k \<times> 'v) list \<Rightarrow> ('k \<times> 'v) list" where
  "dict_of_items xs = foldl (\<lambda>d (k, v). dict_set d k v) [] xs"

lemma dict_set_fresh: "k \<notin> fst ` set d \<Longrightarrow> dict_set d k v = d @ [(k, v)]"
  by (simp add: dict_set_def)

lemma foldl_dict_set_distinct:
  "distinct (map fst (d @ xs)) \<Longrightarrow> foldl (\<lambda>d (k, v). dict_set d k v) d xs = d @ xs"
proof (induction xs arbitrary: d)
  case (Cons x xs)
  obtain k v where x: "x = (k, v)" by (cases x)
  with Cons.prems have "dict_set d k v = d @ [x]"
    by (simp add: dict_set_fresh)
  with Cons.IH[of "d @ [x]"] Cons.prems x show ?case by simp
qed simp

lemma dict_of_items_distinct: "distinct (map fst xs) \<Longrightarrow> dict_of_items xs = xs"
  using foldl_dict_set_distinct[of "[]" xs] by (simp add: dict_of_items_def)

lemma map_fst_override:
  "map fst (map (\<lambda>(k', v'). if k' = k then (k', v) else (k', v')) d) = map fst d"
  by (induction d) auto

lemma map_fst_dict_set:
  "map fst (dict_set d k v) = (if k \<in> set (map fst d) then map fst d else map fst d @ [k])"
  unfolding dict_set_def using map_fst_override[of k v d] by (simp del: map_map)

lemma distinct_dict_set: "distinct (map fst d) \<Longrightarrow> distinct (map fst (dict_set d k v))"
  by (simp add: map_fst_dict_set del: set_map)

lemma distinct_dict_of_items: "distinct (map fst (dict_of_items xs))"
proof -
  have "distinct (map fst d) \<Longrightarrow> distinct (map fst (foldl (\<lambda>d (k, v). dict_set d k v) d xs))" for d
    by (induction xs arbitrary: d) (auto simp: distinct_dict_set)
  from this[of "[]"] show ?thesis by (simp add: dict_of_items_def)
qed

text \<open>A dictionary comprehension \<open>{key(x): x for x in xs}\<close>.\<close>

definition dict_by :: "('a \<Rightarrow> 'k) \<Rightarrow> 'a list \<Rightarrow> ('k \<times> 'a) list" where
  "dict_by key xs = dict_of_items (map (\<lambda>x. (key x, x)) xs)"

lemma dict_by_distinct: "distinct (map key xs) \<Longrightarrow> dict_by key xs = map (\<lambda>x. (key x, x)) xs"
  by (simp add: dict_by_def dict_of_items_distinct comp_def)

lemma map_of_dict_by:
  "distinct (map key xs) \<Longrightarrow> map_of (dict_by key xs) k = find (\<lambda>x. key x = k) xs"
  by (simp add: dict_by_distinct) (induction xs, auto)

lemma map_of_dict_by_mem:
  "distinct (map key xs) \<Longrightarrow> x \<in> set xs \<Longrightarrow> map_of (dict_by key xs) (key x) = Some x"
  by (auto simp: dict_by_distinct comp_def intro!: map_of_is_SomeI)

subsection \<open>FrozenJsonDict: the mapping protocol over its tuple storage\<close>

fun frozen_getitem :: "(pystr \<times> 'v) list \<Rightarrow> pystr \<Rightarrow> 'v option" where
  "frozen_getitem [] key = None"
| "frozen_getitem ((k, v) # rest) key = (if k = key then Some v else frozen_getitem rest key)"

definition frozen_iter :: "(pystr \<times> 'v) list \<Rightarrow> pystr list" where
  "frozen_iter storage = map fst storage"

definition frozen_contains :: "(pystr \<times> 'v) list \<Rightarrow> pystr \<Rightarrow> bool" where
  "frozen_contains storage key = list_ex (\<lambda>(k, _). k = key) storage"

text \<open>\<open>Mapping.items()\<close> pairs every key of the iteration with the value \<open>__getitem__\<close> returns.\<close>

definition frozen_items :: "(pystr \<times> 'v) list \<Rightarrow> (pystr \<times> 'v option) list" where
  "frozen_items storage = map (\<lambda>k. (k, frozen_getitem storage k)) (frozen_iter storage)"

lemma frozen_getitem_map_of: "frozen_getitem s = map_of s"
proof
  show "frozen_getitem s key = map_of s key" for key
    by (induction s key rule: frozen_getitem.induct) auto
qed

lemma frozen_contains_iff: "frozen_contains s key \<longleftrightarrow> frozen_getitem s key \<noteq> None"
  by (induction s) (auto simp: frozen_contains_def)

lemma frozen_items_distinct:
  "distinct (map fst s) \<Longrightarrow> frozen_items s = map (\<lambda>(k, v). (k, Some v)) s"
  by (auto simp: frozen_items_def frozen_iter_def frozen_getitem_map_of)

subsection \<open>Python equality of JSON values\<close>

text \<open>\<open>True == 1 == 1.0\<close>; objects compare as unordered dictionaries, arrays elementwise.\<close>

definition num_value :: "json \<Rightarrow> (int \<times> nat) option" where
  "num_value v = (case v of
      JBool b \<Rightarrow> Some (if b then 1 else 0, 1)
    | JInt i \<Rightarrow> Some (i, 1)
    | JFloat (Finite n d _) \<Rightarrow> Some (n, d)
    | _ \<Rightarrow> None)"

fun py_eq :: "json \<Rightarrow> json \<Rightarrow> bool"
  and py_eq_list :: "json list \<Rightarrow> json list \<Rightarrow> bool"
  and py_eq_entries :: "pystr list \<Rightarrow> (pystr \<times> json) list \<Rightarrow> (pystr \<times> json) list \<Rightarrow> bool"
where
  "py_eq JNull w = (w = JNull)"
| "py_eq (JStr s) w = (w = JStr s)"
| "py_eq (JList xs) w = (case w of JList ys \<Rightarrow> py_eq_list xs ys | _ \<Rightarrow> False)"
| "py_eq (JDict a) w = (case w of
      JDict b \<Rightarrow> set (map fst a) = set (map fst b) \<and> py_eq_entries [] a b
    | _ \<Rightarrow> False)"
| "py_eq v w = (num_value v \<noteq> None \<and> num_value v = num_value w)"
| "py_eq_list [] ys = (ys = [])"
| "py_eq_list (x # xs) ys = (case ys of [] \<Rightarrow> False | y # ys' \<Rightarrow> py_eq x y \<and> py_eq_list xs ys')"
| "py_eq_entries seen [] b = True"
| "py_eq_entries seen ((k, v) # a) b =
     ((k \<in> set seen \<or> (case map_of b k of None \<Rightarrow> False | Some w \<Rightarrow> py_eq v w))
      \<and> py_eq_entries (k # seen) a b)"

subsection \<open>Thawing: back to native JSON containers\<close>

definition non_finite_msg :: string where
  "non_finite_msg = ''JSON numbers must be finite''"

definition cyclic_msg :: string where
  "cyclic_msg = ''cyclic JSON container is not supported''"

fun thaw_json_value :: "json \<Rightarrow> string + json"
  and thaw_json_list :: "json list \<Rightarrow> string + json list"
  and thaw_json_items :: "(pystr \<times> json) list \<Rightarrow> string + (pystr \<times> json) list"
where
  "thaw_json_value (JFloat f) = (if \<not> isfinite f then Inl non_finite_msg else Inr (JFloat f))"
| "thaw_json_value (JDict kvs) =
     (case thaw_json_items kvs of Inl e \<Rightarrow> Inl e | Inr r \<Rightarrow> Inr (JDict (dict_of_items r)))"
| "thaw_json_value (JList xs) =
     (case thaw_json_list xs of Inl e \<Rightarrow> Inl e | Inr r \<Rightarrow> Inr (JList r))"
| "thaw_json_value v = Inr v"
| "thaw_json_list [] = Inr []"
| "thaw_json_list (x # xs) = (case thaw_json_value x of Inl e \<Rightarrow> Inl e
     | Inr y \<Rightarrow> (case thaw_json_list xs of Inl e \<Rightarrow> Inl e | Inr ys \<Rightarrow> Inr (y # ys)))"
| "thaw_json_items [] = Inr []"
| "thaw_json_items ((k, x) # xs) = (case thaw_json_value x of Inl e \<Rightarrow> Inl e
     | Inr y \<Rightarrow> (case thaw_json_items xs of Inl e \<Rightarrow> Inl e | Inr ys \<Rightarrow> Inr ((k, y) # ys)))"

text \<open>Native JSON: finite numbers, no key twice in an object.\<close>

fun native_json :: "json \<Rightarrow> bool"
  and native_json_list :: "json list \<Rightarrow> bool"
  and native_json_items :: "(pystr \<times> json) list \<Rightarrow> bool"
where
  "native_json (JFloat f) = isfinite f"
| "native_json (JDict kvs) = (distinct (map fst kvs) \<and> native_json_items kvs)"
| "native_json (JList xs) = native_json_list xs"
| "native_json v = True"
| "native_json_list [] = True"
| "native_json_list (x # xs) = (native_json x \<and> native_json_list xs)"
| "native_json_items [] = True"
| "native_json_items ((k, x) # xs) = (native_json x \<and> native_json_items xs)"

lemma thaw_native:
  "native_json v \<Longrightarrow> thaw_json_value v = Inr v"
  "native_json_list xs \<Longrightarrow> thaw_json_list xs = Inr xs"
  "native_json_items kvs \<Longrightarrow> thaw_json_items kvs = Inr kvs"
  by (induction v and xs and kvs rule: native_json_native_json_list_native_json_items.induct)
    (auto simp: dict_of_items_distinct)

lemma native_json_items_iff: "native_json_items kvs \<longleftrightarrow> (\<forall>v\<in>snd ` set kvs. native_json v)"
  by (induction kvs rule: list.induct) auto

lemma values_dict_set: "snd ` set (dict_set d k v) \<subseteq> insert v (snd ` set d)"
  by (auto simp: dict_set_def split: if_splits)

lemma values_dict_of_items: "snd ` set (dict_of_items xs) \<subseteq> snd ` set xs"
proof -
  have "snd ` set (foldl (\<lambda>d (k, v). dict_set d k v) d xs) \<subseteq> snd ` set d \<union> snd ` set xs" for d
  proof (induction xs arbitrary: d)
    case (Cons x xs)
    obtain k v where x: "x = (k, v)" by (cases x)
    from Cons[of "dict_set d k v"] values_dict_set[of d k v] x show ?case by auto
  qed simp
  from this[of "[]"] show ?thesis by (simp add: dict_of_items_def)
qed

lemma thaw_gives_native:
  "thaw_json_value v = Inr w \<Longrightarrow> native_json w"
  "thaw_json_list xs = Inr ws \<Longrightarrow> native_json_list ws"
  "thaw_json_items kvs = Inr us \<Longrightarrow> native_json_items us"
proof (induction v and xs and kvs arbitrary: w and ws and us
    rule: thaw_json_value_thaw_json_list_thaw_json_items.induct)
  case (2 kvs)
  then show ?case
    using values_dict_of_items
    by (fastforce simp: native_json_items_iff distinct_dict_of_items split: sum.splits)
qed (auto split: sum.splits if_splits)

subsection \<open>Runtime-private fields in model-proposed JSON\<close>

definition TRUSTED_ARGUMENT_FIELDS :: "string list" where
  "TRUSTED_ARGUMENT_FIELDS =
     [''auth_scope'', ''auth_scopes'', ''authorization_scope'', ''customer_id'',
      ''idempotency_key'', ''owner_customer_id'', ''run_id'', ''session_id'',
      ''session_ref_hash'', ''subject_ref'', ''trusted_context_ref'']"

text \<open>
  \<open>str.casefold\<close>. Written out are the ASCII capitals and every non-ASCII code point whose
  fold consists of ASCII characters only; any other code point folds to text that still
  contains a non-ASCII character, so leaving it unchanged cannot alter the outcome of a
  comparison with an ASCII string, which is the only use the code makes of the result.
\<close>

definition casefold_char :: "nat \<Rightarrow> pystr" where
  "casefold_char c =
     (if 65 \<le> c \<and> c \<le> 90 then [c + 32]
      else if c = 0xDF \<or> c = 0x1E9E then [115, 115]
      else if c = 0x17F then [115]
      else if c = 0x212A then [107]
      else if c = 0xFB00 then [102, 102]
      else if c = 0xFB01 then [102, 105]
      else if c = 0xFB02 then [102, 108]
      else if c = 0xFB03 then [102, 102, 105]
      else if c = 0xFB04 then [102, 102, 108]
      else if c = 0xFB05 \<or> c = 0xFB06 then [115, 116]
      else [c])"

definition casefold :: "pystr \<Rightarrow> pystr" where
  "casefold s = concat (map casefold_char s)"

definition is_trusted_name :: "pystr \<Rightarrow> bool" where
  "is_trusted_name k \<longleftrightarrow> k \<in> set (map str TRUSTED_ARGUMENT_FIELDS)"

fun find_trusted_argument_field :: "json \<Rightarrow> pystr option"
  and find_trusted_in_list :: "json list \<Rightarrow> pystr option"
  and find_trusted_in_items :: "(pystr \<times> json) list \<Rightarrow> pystr option"
where
  "find_trusted_argument_field (JDict kvs) = find_trusted_in_items kvs"
| "find_trusted_argument_field (JList xs) = find_trusted_in_list xs"
| "find_trusted_argument_field v = None"
| "find_trusted_in_list [] = None"
| "find_trusted_in_list (x # xs) =
     (case find_trusted_argument_field x of Some f \<Rightarrow> Some f | None \<Rightarrow> find_trusted_in_list xs)"
| "find_trusted_in_items [] = None"
| "find_trusted_in_items ((k, x) # xs) =
     (let normalized_key = casefold k in
      if is_trusted_name normalized_key then Some normalized_key
      else (case find_trusted_argument_field x of Some f \<Rightarrow> Some f | None \<Rightarrow> find_trusted_in_items xs))"

text \<open>The specification: the keys of the value at every depth, in document order.\<close>

fun json_keys :: "json \<Rightarrow> pystr list"
  and json_keys_list :: "json list \<Rightarrow> pystr list"
  and json_keys_items :: "(pystr \<times> json) list \<Rightarrow> pystr list"
where
  "json_keys (JDict kvs) = json_keys_items kvs"
| "json_keys (JList xs) = json_keys_list xs"
| "json_keys v = []"
| "json_keys_list [] = []"
| "json_keys_list (x # xs) = json_keys x @ json_keys_list xs"
| "json_keys_items [] = []"
| "json_keys_items ((k, x) # xs) = k # json_keys x @ json_keys_items xs"

lemma find_append: "find P (xs @ ys) = (case find P xs of Some x \<Rightarrow> Some x | None \<Rightarrow> find P ys)"
  by (induction xs) auto

lemma find_trusted_spec:
  "find_trusted_argument_field v = find is_trusted_name (map casefold (json_keys v))"
  "find_trusted_in_list xs = find is_trusted_name (map casefold (json_keys_list xs))"
  "find_trusted_in_items kvs = find is_trusted_name (map casefold (json_keys_items kvs))"
  by (induction v and xs and kvs rule: json_keys_json_keys_list_json_keys_items.induct)
    (auto simp: find_append Let_def split: option.splits)

lemma find_trusted_None_iff:
  "find_trusted_argument_field v = None \<longleftrightarrow> (\<forall>k\<in>set (json_keys v). \<not> is_trusted_name (casefold k))"
  by (auto simp: find_trusted_spec find_None_iff)

subsection \<open>UTC timestamps\<close>

definition require_utc :: "datetime \<Rightarrow> string \<Rightarrow> string + datetime" where
  "require_utc value field_name =
     (case utcoffset value of
        None \<Rightarrow> Inl (field_name @ '' must be timezone-aware UTC'')
      | Some off \<Rightarrow>
          if off \<noteq> 0 then Inl (field_name @ '' must use UTC offset +00:00'') else Inr value)"

definition is_utc :: "datetime \<Rightarrow> bool" where
  "is_utc d \<longleftrightarrow> utcoffset d = Some 0"

lemma require_utc_iff [simp]: "require_utc d name = Inr d' \<longleftrightarrow> is_utc d \<and> d' = d"
  by (auto simp: require_utc_def is_utc_def split: option.splits if_splits)

lemma is_utc_utc_us [simp]: "is_utc (utc_us t)"
  by (simp add: is_utc_def)

lemma is_utc_eq: "is_utc a \<Longrightarrow> is_utc b \<Longrightarrow> instant a = instant b \<longleftrightarrow> a = b"
  by (cases a; cases b) (auto simp: is_utc_def)

definition NonEmptyString :: "pystr \<Rightarrow> bool" where
  "NonEmptyString s \<longleftrightarrow> s \<noteq> []"

lemma NonEmptyString_simps [simp]:
  "\<not> NonEmptyString []" "NonEmptyString (c # s)" "NonEmptyString (str t) \<longleftrightarrow> t \<noteq> []"
  by (simp_all add: NonEmptyString_def)

definition Confidence :: "pyfloat \<Rightarrow> bool" where
  "Confidence f = (case f of Finite n d _ \<Rightarrow> 0 \<le> n \<and> n \<le> int d | NonFinite _ \<Rightarrow> False)"

end
