(* ===== verification/Py_Hash.thy ===== *)
theory Py_Hash
  imports Common "HOL-Library.Word"
begin

section \<open>Python standard library: UTF-8, SHA-256, canonical json.dumps\<close>

text \<open>
  The parts of Python's standard library whose results the Core stores or compares:
  \<open>str.encode("utf-8")\<close> on Unicode scalar values, \<open>hashlib.sha256(...).hexdigest()\<close>
  (FIPS 180-4 over 32-bit words) and \<open>json.dumps\<close> with \<open>sort_keys=True\<close>,
  \<open>ensure_ascii=False\<close> and \<open>separators=(",", ":")\<close>.
\<close>

unbundle bit_operations_syntax

subsection \<open>UTF-8\<close>

definition utf8_char :: "nat \<Rightarrow> nat list" where
  "utf8_char c =
     (if c < 0x80 then [c]
      else if c < 0x800 then [0xC0 + c div 64, 0x80 + c mod 64]
      else if c < 0x10000 then [0xE0 + c div 4096, 0x80 + c div 64 mod 64, 0x80 + c mod 64]
      else [0xF0 + c div 262144, 0x80 + c div 4096 mod 64, 0x80 + c div 64 mod 64, 0x80 + c mod 64])"

definition utf8 :: "pystr \<Rightarrow> nat list" where
  "utf8 s = concat (map utf8_char s)"

text \<open>\<open>str.encode\<close> refuses a surrogate code point.\<close>

definition utf8_text :: "pystr \<Rightarrow> bool" where
  "utf8_text s \<longleftrightarrow> list_all (\<lambda>c. c < 0xD800 \<or> 0xDFFF < c) s"

lemma utf8_str [simp]: "utf8_text (str s)"
proof -
  have "of_char c < (0xD800 :: nat)" for c :: char
    by (cases c) (simp add: of_char_def horner_sum_simps)
  then show ?thesis by (simp add: utf8_text_def str_def list_all_iff)
qed

subsection \<open>SHA-256\<close>

type_synonym w32 = "32 word"

text \<open>
  The constants of the standard: the first 32 bits of the fractional parts of the cube roots of the
  first 64 primes and of the square roots of the first eight. \<open>int_root k b 0 n\<close> is the integer
  \<open>k\<close>-th root of \<open>n\<close>, found bit by bit from the \<open>b\<close> lowest ones.
\<close>

fun int_root :: "nat \<Rightarrow> nat \<Rightarrow> nat \<Rightarrow> nat \<Rightarrow> nat" where
  "int_root k 0 acc n = acc"
| "int_root k (Suc b) acc n = int_root k b (if (acc + 2 ^ b) ^ k \<le> n then acc + 2 ^ b else acc) n"

definition root_fraction :: "nat \<Rightarrow> nat \<Rightarrow> w32" where
  "root_fraction k p = word_of_nat (int_root k 40 0 (p * 2 ^ (32 * k)))"

definition sha_primes :: "nat list" where
  "sha_primes = filter (\<lambda>n. list_all (\<lambda>d. n mod d \<noteq> 0) [2..<n]) [2..<312]"

definition sha_k :: "w32 list" where
  "sha_k = map (root_fraction 3) sha_primes"

definition sha_init :: "w32 list" where
  "sha_init = map (root_fraction 2) [2, 3, 5, 7, 11, 13, 17, 19]"

definition sha_pad :: "nat list \<Rightarrow> nat list" where
  "sha_pad bs =
     (let n = length bs; bits = 8 * n
      in bs @ [0x80] @ replicate ((119 - n mod 64) mod 64) 0
         @ map (\<lambda>i. bits div 256 ^ i mod 256) (rev [0..<8]))"

fun be_words :: "nat list \<Rightarrow> w32 list" where
  "be_words (a # b # c # d # rest) =
     of_nat (a * 16777216 + b * 65536 + c * 256 + d) # be_words rest"
| "be_words _ = []"

definition small_sigma0 :: "w32 \<Rightarrow> w32" where
  "small_sigma0 x = word_rotr 7 x XOR word_rotr 18 x XOR drop_bit 3 x"

definition small_sigma1 :: "w32 \<Rightarrow> w32" where
  "small_sigma1 x = word_rotr 17 x XOR word_rotr 19 x XOR drop_bit 10 x"

definition big_sigma0 :: "w32 \<Rightarrow> w32" where
  "big_sigma0 x = word_rotr 2 x XOR word_rotr 13 x XOR word_rotr 22 x"

definition big_sigma1 :: "w32 \<Rightarrow> w32" where
  "big_sigma1 x = word_rotr 6 x XOR word_rotr 11 x XOR word_rotr 25 x"

text \<open>The message schedule, latest word first.\<close>

fun sha_schedule :: "nat \<Rightarrow> w32 list \<Rightarrow> w32 list" where
  "sha_schedule 0 ws = ws"
| "sha_schedule (Suc n) ws =
     sha_schedule n ((small_sigma1 (ws ! 1) + ws ! 6 + small_sigma0 (ws ! 14) + ws ! 15) # ws)"

fun sha_round :: "w32 list \<Rightarrow> w32 \<times> w32 \<Rightarrow> w32 list" where
  "sha_round [a, b, c, d, e, f, g, h] (k, w) =
     (let t1 = h + big_sigma1 e + ((e AND f) XOR (NOT e AND g)) + k + w;
          t2 = big_sigma0 a + ((a AND b) XOR (a AND c) XOR (b AND c))
      in [t1 + t2, a, b, c, d + t1, e, f, g])"
| "sha_round s _ = s"

definition sha_block :: "w32 list \<Rightarrow> w32 list \<Rightarrow> w32 list" where
  "sha_block state block =
     map2 (+) state (foldl sha_round state (zip sha_k (rev (sha_schedule 48 (rev block)))))"

fun sha_blocks :: "nat \<Rightarrow> w32 list \<Rightarrow> w32 list \<Rightarrow> w32 list" where
  "sha_blocks 0 state ws = state"
| "sha_blocks (Suc n) state ws = sha_blocks n (sha_block state (take 16 ws)) (drop 16 ws)"

definition sha256 :: "nat list \<Rightarrow> w32 list" where
  "sha256 bs = (let ws = be_words (sha_pad bs) in sha_blocks (length ws div 16) sha_init ws)"

definition hex_digit :: "nat \<Rightarrow> nat" where
  "hex_digit d = (if d < 10 then 48 + d else 87 + d)"

definition hex_word :: "w32 \<Rightarrow> pystr" where
  "hex_word w = map (\<lambda>i. hex_digit (unat (drop_bit (4 * i) w) mod 16)) (rev [0..<8])"

definition sha256_hexdigest :: "nat list \<Rightarrow> pystr" where
  "sha256_hexdigest bs = concat (map hex_word (sha256 bs))"

definition is_lower_hex :: "nat \<Rightarrow> bool" where
  "is_lower_hex c \<longleftrightarrow> (48 \<le> c \<and> c \<le> 57) \<or> (97 \<le> c \<and> c \<le> 102)"

text \<open>\<open>^[0-9a-f]{64}$\<close>\<close>

definition is_hex64 :: "pystr \<Rightarrow> bool" where
  "is_hex64 s \<longleftrightarrow> length s = 64 \<and> list_all is_lower_hex s"

lemma length_sha_round: "length s = 8 \<Longrightarrow> length (sha_round s kw) = 8"
  by (cases "(s, kw)" rule: sha_round.cases) (auto simp: Let_def)

lemma length_foldl_sha_round: "length s = 8 \<Longrightarrow> length (foldl sha_round s kws) = 8"
  by (induction kws arbitrary: s) (auto simp: length_sha_round)

lemma length_sha_block: "length s = 8 \<Longrightarrow> length (sha_block s b) = 8"
  by (simp add: sha_block_def length_foldl_sha_round)

lemma length_sha_blocks: "length s = 8 \<Longrightarrow> length (sha_blocks n s ws) = 8"
  by (induction n arbitrary: s ws) (auto simp: length_sha_block)

lemma length_sha256: "length (sha256 bs) = 8"
  by (simp add: sha256_def Let_def length_sha_blocks sha_init_def)

lemma hex_digit_lower: "d < 16 \<Longrightarrow> is_lower_hex (hex_digit d)"
  by (auto simp: hex_digit_def is_lower_hex_def)

lemma sha256_hexdigest_is_hex64 [simp]: "is_hex64 (sha256_hexdigest bs)"
proof -
  have "length (concat (map hex_word ws)) = 8 * length ws" for ws
    by (induction ws) (auto simp: hex_word_def)
  moreover have "list_all is_lower_hex (concat (map hex_word ws))" for ws
    by (auto simp: list_all_iff hex_word_def hex_digit_lower)
  ultimately show ?thesis
    by (simp add: is_hex64_def sha256_hexdigest_def length_sha256)
qed

subsection \<open>json.dumps\<close>

fun nat_digits :: "nat \<Rightarrow> pystr" where
  "nat_digits n = (if n < 10 then [48 + n] else nat_digits (n div 10) @ [48 + n mod 10])"

declare nat_digits.simps [simp del]

definition int_repr :: "int \<Rightarrow> pystr" where
  "int_repr i = (if i < 0 then 45 # nat_digits (nat (- i)) else nat_digits (nat i))"

lemma nat_digits_nonempty: "nat_digits n \<noteq> []"
  by (subst nat_digits.simps) simp

definition json_escape :: "nat \<Rightarrow> pystr" where
  "json_escape c =
     (if c = 34 then [92, 34]
      else if c = 92 then [92, 92]
      else if c = 10 then [92, 110]
      else if c = 13 then [92, 114]
      else if c = 9 then [92, 116]
      else if c = 12 then [92, 102]
      else if c = 8 then [92, 98]
      else if c < 32 then [92, 117, 48, 48, hex_digit (c div 16), hex_digit (c mod 16)]
      else [c])"

definition json_string :: "pystr \<Rightarrow> pystr" where
  "json_string s = [34] @ concat (map json_escape s) @ [34]"

fun intersperse_concat :: "pystr \<Rightarrow> pystr list \<Rightarrow> pystr" where
  "intersperse_concat sep [] = []"
| "intersperse_concat sep [x] = x"
| "intersperse_concat sep (x # y # ys) = x @ sep @ intersperse_concat sep (y # ys)"

text \<open>The printed entries of an object are sorted by key; \<open>allow_nan=False\<close> rejects a non-finite number.\<close>

fun json_dumps :: "json \<Rightarrow> string + pystr"
  and json_dumps_list :: "json list \<Rightarrow> string + pystr list"
  and json_dumps_items :: "(pystr \<times> json) list \<Rightarrow> string + (pystr \<times> pystr) list"
where
  "json_dumps JNull = Inr (str ''null'')"
| "json_dumps (JBool b) = Inr (if b then str ''true'' else str ''false'')"
| "json_dumps (JInt i) = Inr (int_repr i)"
| "json_dumps (JFloat f) = (case f of Finite _ _ r \<Rightarrow> Inr r
     | NonFinite _ \<Rightarrow> Inl ''Out of range float values are not JSON compliant'')"
| "json_dumps (JStr s) = Inr (json_string s)"
| "json_dumps (JList xs) = (case json_dumps_list xs of Inl e \<Rightarrow> Inl e
     | Inr ps \<Rightarrow> Inr ([91] @ intersperse_concat [44] ps @ [93]))"
| "json_dumps (JDict kvs) = (case json_dumps_items kvs of Inl e \<Rightarrow> Inl e
     | Inr ps \<Rightarrow> Inr ([123] @ intersperse_concat [44]
          (map (\<lambda>(k, p). json_string k @ [58] @ p) (sort_key fst ps)) @ [125]))"
| "json_dumps_list [] = Inr []"
| "json_dumps_list (x # xs) = (case json_dumps x of Inl e \<Rightarrow> Inl e
     | Inr p \<Rightarrow> (case json_dumps_list xs of Inl e \<Rightarrow> Inl e | Inr ps \<Rightarrow> Inr (p # ps)))"
| "json_dumps_items [] = Inr []"
| "json_dumps_items ((k, x) # xs) = (case json_dumps x of Inl e \<Rightarrow> Inl e
     | Inr p \<Rightarrow> (case json_dumps_items xs of Inl e \<Rightarrow> Inl e | Inr ps \<Rightarrow> Inr ((k, p) # ps)))"

lemma json_dumps_native:
  "native_json v \<Longrightarrow> \<exists>p. json_dumps v = Inr p"
  "native_json_list xs \<Longrightarrow> \<exists>p. json_dumps_list xs = Inr p"
  "native_json_items kvs \<Longrightarrow> \<exists>p. json_dumps_items kvs = Inr p"
  by (induction v and xs and kvs rule: native_json_native_json_list_native_json_items.induct)
    (auto simp: isfinite_def split: pyfloat.splits)

end
