(* ===== verification/Tool_System.thy ===== *)
theory Tool_System
  imports Py_Hash
begin

section \<open>Tool contracts (core/tool_system.py)\<close>

text \<open>
  ToolSpec, execution policy and registration, the registry snapshot with its hash over the
  provider-visible projection, gate decisions, authorized commands, and the ToolCall and
  ToolAttempt records with the lifecycle rules their validators enforce. Each record is
  declared with the fields of its class (prefixed, since HOL fields share one name space)
  and its constructor is \<open>new_<class>\<close>.
\<close>

subsection \<open>String formats\<close>

definition is_az :: "nat \<Rightarrow> bool" where "is_az c \<longleftrightarrow> 97 \<le> c \<and> c \<le> 122"
definition is_AZ :: "nat \<Rightarrow> bool" where "is_AZ c \<longleftrightarrow> 65 \<le> c \<and> c \<le> 90"
definition is_09 :: "nat \<Rightarrow> bool" where "is_09 c \<longleftrightarrow> 48 \<le> c \<and> c \<le> 57"

text \<open>\<open>^[a-z][a-z0-9_]*$\<close>\<close>

definition ToolName :: "pystr \<Rightarrow> bool" where
  "ToolName s = (case s of [] \<Rightarrow> False
     | c # cs \<Rightarrow> is_az c \<and> list_all (\<lambda>d. is_az d \<or> is_09 d \<or> d = 95) cs)"

text \<open>\<open>^sha256:[0-9a-f]{64}$\<close>\<close>

definition ToolsetHash :: "pystr \<Rightarrow> bool" where
  "ToolsetHash s \<longleftrightarrow> take 7 s = str ''sha256:'' \<and> is_hex64 (drop 7 s)"

text \<open>\<open>^[A-Z][A-Z0-9_]{1,127}$\<close>\<close>

definition SafeReasonCode :: "pystr \<Rightarrow> bool" where
  "SafeReasonCode s = (case s of [] \<Rightarrow> False
     | c # cs \<Rightarrow> is_AZ c \<and> 1 \<le> length cs \<and> length cs \<le> 127
         \<and> list_all (\<lambda>d. is_AZ d \<or> is_09 d \<or> d = 95) cs)"

subsection \<open>ToolSpec\<close>

datatype tool_effect = READ | RETRIEVAL | ACTION

type_synonym json_object = "(pystr \<times> json) list"

record tool_spec =
  ts_name :: pystr
  ts_description :: pystr
  ts_input_schema :: json_object
  ts_output_schema :: json_object

definition thaw_object :: "json_object \<Rightarrow> string + json_object" where
  "thaw_object kvs = (case thaw_json_items kvs of Inl e \<Rightarrow> Inl e | Inr r \<Rightarrow> Inr (dict_of_items r))"

text \<open>What was thawed once is native, so thawing it again changes nothing.\<close>

lemma thaw_object_twice: "thaw_object kvs = Inr r \<Longrightarrow> thaw_object r = Inr r"
proof -
  assume "thaw_object kvs = Inr r"
  then obtain us where us: "thaw_json_items kvs = Inr us" "r = dict_of_items us"
    by (auto simp: thaw_object_def split: sum.splits)
  then have "native_json_items us" by (simp add: thaw_gives_native(3))
  then have "native_json_items r"
    using values_dict_of_items[of us] us(2) unfolding native_json_items_iff by blast
  then have "thaw_json_items r = Inr r" by (rule thaw_native(3))
  moreover have "distinct (map fst r)" by (simp add: us(2) distinct_dict_of_items)
  ultimately show ?thesis by (simp add: thaw_object_def dict_of_items_distinct)
qed

text \<open>The validators of one schema field, in the order pydantic runs them.\<close>

definition validate_schema :: "json_object \<Rightarrow> string + json_object" where
  "validate_schema value =
     res_bind (thaw_object value) (\<lambda>copied.
     res_bind (raise_if (map_of copied (str ''type'') \<noteq> Some (JStr (str ''object'')))
       ''tool schemas must declare type=object'') (\<lambda>_.
     res_bind (raise_if (map_of copied (str ''additionalProperties'') \<noteq> Some (JBool False))
       ''tool schemas must set additionalProperties=false'') (\<lambda>_.
     res_bind (raise_if (find_trusted_in_items copied \<noteq> None)
       ''model-visible ToolSpec cannot declare trusted field'') (\<lambda>_.
     Inr copied))))"

definition is_ok :: "'e + 'a \<Rightarrow> bool" where
  "is_ok r = (case r of Inl _ \<Rightarrow> False | Inr _ \<Rightarrow> True)"

definition ok_or :: "'a \<Rightarrow> 'e + 'a \<Rightarrow> 'a" where
  "ok_or d r = (case r of Inl _ \<Rightarrow> d | Inr x \<Rightarrow> x)"

definition new_tool_spec :: "tool_spec \<Rightarrow> validation_error + tool_spec" where
  "new_tool_spec s =
     (let input = validate_schema (ts_input_schema s);
          output = validate_schema (ts_output_schema s)
      in construct
        [(''name'', ToolName (ts_name s)),
         (''description'', NonEmptyString (ts_description s)),
         (''input_schema'', is_ok input),
         (''output_schema'', is_ok output)] []
        (s\<lparr>ts_input_schema := ok_or [] input, ts_output_schema := ok_or [] output\<rparr>))"

text \<open>Pydantic equality: field by field, the schemas as Python mappings.\<close>

definition tool_spec_eq :: "tool_spec \<Rightarrow> tool_spec \<Rightarrow> bool" where
  "tool_spec_eq a b \<longleftrightarrow>
     ts_name a = ts_name b \<and> ts_description a = ts_description b
     \<and> py_eq (JDict (ts_input_schema a)) (JDict (ts_input_schema b))
     \<and> py_eq (JDict (ts_output_schema a)) (JDict (ts_output_schema b))"

subsection \<open>Execution policy and registration\<close>

record execution_policy =
  ep_timeout_ms :: int
  ep_max_attempts :: int
  ep_retryable_failure_codes :: "pystr list"
  ep_interrupt_behavior :: pystr

definition new_execution_policy :: "execution_policy \<Rightarrow> validation_error + execution_policy" where
  "new_execution_policy p = construct
     [(''timeout_ms'', 0 < ep_timeout_ms p),
      (''max_attempts'', 1 \<le> ep_max_attempts p),
      (''retryable_failure_codes'', list_all NonEmptyString (ep_retryable_failure_codes p)),
      (''interrupt_behavior'', NonEmptyString (ep_interrupt_behavior p))] [] p"

record tool_registration =
  tr_tool_spec :: tool_spec
  tr_provider_visible_name :: pystr
  tr_effect :: tool_effect
  tr_risk :: pystr
  tr_idempotency :: pystr
  tr_unknown_result_recovery :: "pystr option"
  tr_handler_ref :: pystr
  tr_execution_policy :: execution_policy

definition new_tool_registration :: "tool_registration \<Rightarrow> validation_error + tool_registration" where
  "new_tool_registration r = construct
     [(''provider_visible_name'', ToolName (tr_provider_visible_name r)),
      (''risk'', NonEmptyString (tr_risk r)),
      (''idempotency'', NonEmptyString (tr_idempotency r)),
      (''unknown_result_recovery'', opt_all NonEmptyString (tr_unknown_result_recovery r)),
      (''handler_ref'', NonEmptyString (tr_handler_ref r))]
     [(tr_effect r = ACTION \<and> tr_unknown_result_recovery r = None,
       ''ACTION registration requires unknown-result recovery''),
      (tr_effect r = ACTION \<and> ep_max_attempts (tr_execution_policy r) \<noteq> 1,
       ''ACTION registration cannot use generic automatic retry'')] r"

record provider_tool_name_binding =
  pb_provider_visible_name :: pystr
  pb_canonical_tool_name :: pystr

definition new_provider_tool_name_binding ::
  "provider_tool_name_binding \<Rightarrow> validation_error + provider_tool_name_binding" where
  "new_provider_tool_name_binding b = construct
     [(''provider_visible_name'', ToolName (pb_provider_visible_name b)),
      (''canonical_tool_name'', ToolName (pb_canonical_tool_name b))] [] b"

subsection \<open>The hash of the model-visible toolset\<close>

definition MODEL_VISIBLE_TOOLSET_ARTIFACT_SCHEMA_VERSION :: pystr where
  "MODEL_VISIBLE_TOOLSET_ARTIFACT_SCHEMA_VERSION = str ''model-visible-toolset.p0.v1''"

text \<open>\<open>tool.model_dump(mode="json")\<close>: the schema serializer thaws the frozen mappings.\<close>

definition tool_spec_dump :: "tool_spec \<Rightarrow> string + json" where
  "tool_spec_dump s =
     res_bind (thaw_object (ts_input_schema s)) (\<lambda>input.
     res_bind (thaw_object (ts_output_schema s)) (\<lambda>output.
     Inr (JDict [(str ''name'', JStr (ts_name s)), (str ''description'', JStr (ts_description s)),
                 (str ''input_schema'', JDict input), (str ''output_schema'', JDict output)])))"

definition compute_model_visible_toolset_hash :: "tool_spec list \<Rightarrow> string + pystr" where
  "compute_model_visible_toolset_hash tools =
     (let sorted_tools = sort_key ts_name tools;
          names = map ts_name sorted_tools
      in res_bind (raise_if (names = []) ''model-visible toolset cannot be empty'') (\<lambda>_.
         res_bind (raise_if (has_duplicates names) ''provider-visible tool names must be unique'') (\<lambda>_.
         res_bind (res_map tool_spec_dump sorted_tools) (\<lambda>dumped.
         res_bind (json_dumps (JDict
             [(str ''artifact_schema_version'', JStr MODEL_VISIBLE_TOOLSET_ARTIFACT_SCHEMA_VERSION),
              (str ''tools'', JList dumped)])) (\<lambda>canonical_json.
         Inr (str ''sha256:'' @ sha256_hexdigest (utf8 canonical_json)))))))"

record toolset_artifact =
  ta_artifact_schema_version :: pystr
  ta_model_visible_toolset_hash :: pystr
  ta_provider_visible_tool_specs :: "tool_spec list"

definition hash_matches_projection :: "toolset_artifact \<Rightarrow> string + unit" where
  "hash_matches_projection a =
     res_bind (compute_model_visible_toolset_hash (ta_provider_visible_tool_specs a)) (\<lambda>expected.
     raise_if (ta_model_visible_toolset_hash a \<noteq> expected)
       ''model_visible_toolset_hash does not match ToolSpec payload'')"

definition new_toolset_artifact :: "toolset_artifact \<Rightarrow> validation_error + toolset_artifact" where
  "new_toolset_artifact a = construct_with
     [(''artifact_schema_version'',
        ta_artifact_schema_version a = MODEL_VISIBLE_TOOLSET_ARTIFACT_SCHEMA_VERSION),
      (''model_visible_toolset_hash'', ToolsetHash (ta_model_visible_toolset_hash a))]
     (hash_matches_projection a) a"

subsection \<open>RegistrySnapshot\<close>

record registry_snapshot =
  rs_tool_registry_version :: pystr
  rs_canonical_registrations :: "tool_registration list"
  rs_provider_visible_toolset :: "tool_spec list"
  rs_provider_name_to_canonical_name :: "provider_tool_name_binding list"
  rs_model_visible_toolset_hash :: pystr

definition snapshot_is_self_consistent :: "registry_snapshot \<Rightarrow> string + unit" where
  "snapshot_is_self_consistent s =
     res_bind (compute_model_visible_toolset_hash (rs_provider_visible_toolset s)) (\<lambda>expected_hash.
     res_bind (raise_if (rs_model_visible_toolset_hash s \<noteq> expected_hash)
       ''registry snapshot ToolSpec hash mismatch'') (\<lambda>_.
     let canonical_names = map (ts_name \<circ> tr_tool_spec) (rs_canonical_registrations s);
         provider_names = map tr_provider_visible_name (rs_canonical_registrations s);
         expected_bindings = dict_of_items (map (\<lambda>r. (tr_provider_visible_name r, ts_name (tr_tool_spec r)))
            (rs_canonical_registrations s));
         actual_bindings = dict_of_items (map (\<lambda>b. (pb_provider_visible_name b, pb_canonical_tool_name b))
            (rs_provider_name_to_canonical_name s))
     in checks
       [(has_duplicates canonical_names, ''canonical tool names must be unique''),
        (has_duplicates provider_names, ''provider-visible tool names must be unique''),
        (set actual_bindings \<noteq> set expected_bindings,
         ''provider name mapping does not match registrations''),
        (set (map ts_name (rs_provider_visible_toolset s)) \<noteq> set (map fst expected_bindings),
         ''provider-visible ToolSpec set does not match mapping'')]))"

definition new_registry_snapshot :: "registry_snapshot \<Rightarrow> validation_error + registry_snapshot" where
  "new_registry_snapshot s = construct_with
     [(''tool_registry_version'', NonEmptyString (rs_tool_registry_version s)),
      (''model_visible_toolset_hash'', ToolsetHash (rs_model_visible_toolset_hash s))]
     (snapshot_is_self_consistent s) s"

definition as_plain :: "string + 'a \<Rightarrow> validation_error + 'a" where
  "as_plain r = (case r of Inl msg \<Rightarrow> Inl (PlainValueError msg) | Inr x \<Rightarrow> Inr x)"

text \<open>The ToolSpec a registration shows to the model, under its provider-visible name.\<close>

definition visible_spec :: "tool_registration \<Rightarrow> tool_spec" where
  "visible_spec r = \<lparr>ts_name = tr_provider_visible_name r,
     ts_description = ts_description (tr_tool_spec r),
     ts_input_schema = ts_input_schema (tr_tool_spec r),
     ts_output_schema = ts_output_schema (tr_tool_spec r)\<rparr>"

definition registry_binding :: "tool_registration \<Rightarrow> provider_tool_name_binding" where
  "registry_binding r = \<lparr>pb_provider_visible_name = tr_provider_visible_name r,
     pb_canonical_tool_name = ts_name (tr_tool_spec r)\<rparr>"

definition build_registry_snapshot ::
  "pystr \<Rightarrow> tool_registration list \<Rightarrow> validation_error + registry_snapshot" where
  "build_registry_snapshot tool_registry_version registrations =
     (let canonical_names = map (ts_name \<circ> tr_tool_spec) registrations;
          provider_names = map tr_provider_visible_name registrations;
          ordered = sort_key tr_provider_visible_name registrations
      in res_bind (raise_if (registrations = [])
            (PlainValueError ''registry snapshot cannot be empty'')) (\<lambda>_.
         res_bind (raise_if (has_duplicates canonical_names)
            (PlainValueError ''canonical tool names must be unique'')) (\<lambda>_.
         res_bind (raise_if (has_duplicates provider_names)
            (PlainValueError ''provider-visible tool names must be unique'')) (\<lambda>_.
         res_bind (res_map (new_tool_spec \<circ> visible_spec) ordered) (\<lambda>provider_visible_toolset.
         res_bind (res_map (new_provider_tool_name_binding \<circ> registry_binding) ordered) (\<lambda>bindings.
         res_bind (as_plain (compute_model_visible_toolset_hash provider_visible_toolset)) (\<lambda>toolset_hash.
         new_registry_snapshot
           \<lparr>rs_tool_registry_version = tool_registry_version,
            rs_canonical_registrations = registrations,
            rs_provider_visible_toolset = provider_visible_toolset,
            rs_provider_name_to_canonical_name = bindings,
            rs_model_visible_toolset_hash = toolset_hash\<rparr>)))))))"

definition snapshot_artifact :: "registry_snapshot \<Rightarrow> validation_error + toolset_artifact" where
  "snapshot_artifact s = new_toolset_artifact
     \<lparr>ta_artifact_schema_version = MODEL_VISIBLE_TOOLSET_ARTIFACT_SCHEMA_VERSION,
      ta_model_visible_toolset_hash = rs_model_visible_toolset_hash s,
      ta_provider_visible_tool_specs = rs_provider_visible_toolset s\<rparr>"

subsection \<open>The get_order ToolSpec\<close>

definition get_order_description :: pystr where
  "get_order_description =
     [26597, 35810, 24403, 21069, 24050, 30331, 24405, 29992, 25143, 21487, 35775, 38382,
      30340, 21333, 20010, 35746, 21333, 65292, 24182, 36820, 22238, 26368, 23567, 35746, 21333,
      25688, 35201, 12290]"

definition get_order_input_schema :: json_object where
  "get_order_input_schema =
    [(str ''type'', JStr (str ''object'')),
     (str ''additionalProperties'', JBool False),
     (str ''properties'', JDict
       [(str ''order_id'', JDict
          [(str ''type'', JStr (str ''string'')),
           (str ''pattern'', JStr (str ''^O-[0-9]{4,20}$''))])]),
     (str ''required'', JList [JStr (str ''order_id'')])]"

definition order_line_schema :: json where
  "order_line_schema = JDict
    [(str ''type'', JStr (str ''object'')),
     (str ''additionalProperties'', JBool False),
     (str ''properties'', JDict
       [(str ''product_name'', JDict [(str ''type'', JStr (str ''string'')), (str ''minLength'', JInt 1)]),
        (str ''quantity'', JDict [(str ''type'', JStr (str ''integer'')), (str ''minimum'', JInt 1)])]),
     (str ''required'', JList [JStr (str ''product_name''), JStr (str ''quantity'')])]"

definition date_time_schema :: json where
  "date_time_schema = JDict [(str ''type'', JStr (str ''string'')), (str ''format'', JStr (str ''date-time''))]"

definition order_summary_schema :: json where
  "order_summary_schema = JDict
    [(str ''type'', JList [JStr (str ''object''), JStr (str ''null'')]),
     (str ''additionalProperties'', JBool False),
     (str ''properties'', JDict
       [(str ''order_number'', JDict [(str ''type'', JStr (str ''string''))]),
        (str ''status'', JDict [(str ''enum'', JList
           [JStr (str ''CREATED''), JStr (str ''PAID''), JStr (str ''FULFILLING''),
            JStr (str ''SHIPPED''), JStr (str ''DELIVERED''), JStr (str ''CANCELLED'')])]),
        (str ''line_items'', JDict
          [(str ''type'', JStr (str ''array'')), (str ''minItems'', JInt 1),
           (str ''items'', order_line_schema)]),
        (str ''ordered_at'', date_time_schema),
        (str ''status_updated_at'', date_time_schema)]),
     (str ''required'', JList
       [JStr (str ''order_number''), JStr (str ''status''), JStr (str ''line_items''),
        JStr (str ''ordered_at''), JStr (str ''status_updated_at'')])]"

definition get_order_output_schema :: json_object where
  "get_order_output_schema =
    [(str ''type'', JStr (str ''object'')),
     (str ''additionalProperties'', JBool False),
     (str ''properties'', JDict
       [(str ''outcome'', JDict [(str ''enum'', JList
           [JStr (str ''FOUND''), JStr (str ''NOT_FOUND_OR_NOT_ACCESSIBLE''),
            JStr (str ''SYSTEM_FAILURE'')])]),
        (str ''order_summary'', order_summary_schema),
        (str ''failure_code'', JDict
           [(str ''type'', JList [JStr (str ''string''), JStr (str ''null'')])])]),
     (str ''required'', JList [JStr (str ''outcome'')])]"

definition get_order_tool_spec :: tool_spec where
  "get_order_tool_spec = \<lparr>ts_name = str ''get_order'', ts_description = get_order_description,
     ts_input_schema = get_order_input_schema, ts_output_schema = get_order_output_schema\<rparr>"

end
