(* ===== verification/Tool_Calls.thy ===== *)
theory Tool_Calls
  imports Tool_System
begin

section \<open>Gate decisions, authorized commands and ToolCall records (core/tool_system.py)\<close>

text \<open>
  The second half of \<open>core/tool_system.py\<close>: the audit record of a gate decision, the command
  it authorizes, and the ToolCall / ToolAttempt / ToolResult records with their validators.
\<close>

subsection \<open>GateDecision\<close>

datatype gate_decision_value = GateAccept | GateReject

datatype gate_reason_code =
    ACTION_REQUIRES_PROPOSAL
  | ARGUMENT_BINDING_MISMATCH
  | BUDGET_EXCEEDED
  | NO_PROGRESS
  | SCHEMA_INVALID
  | SNAPSHOT_MISMATCH
  | STATE_VERSION_MISMATCH
  | TOOL_NOT_REGISTERED
  | TRUSTED_FIELD_INJECTION

record gate_decision =
  gd_gate_decision_id :: uuid
  gd_model_call_id :: uuid
  gd_context_manifest_id :: uuid
  gd_provider_tool_call_id :: "pystr option"
  gd_requested_provider_tool_name :: pystr
  gd_resolved_canonical_tool_name :: "pystr option"
  gd_snapshot_match :: bool
  gd_registration_valid :: bool
  gd_schema_valid :: bool
  gd_trusted_field_valid :: bool
  gd_argument_binding_valid :: bool
  gd_argument_binding_refs :: "uuid list"
  gd_budget_valid :: bool
  gd_progress_valid :: bool
  gd_proposed_base_task_state_version :: "int option"
  gd_validated_task_state_version :: "int option"
  gd_state_version_valid :: bool
  gd_action_boundary_valid :: bool
  gd_decision :: gate_decision_value
  gd_reason_code :: "gate_reason_code option"
  gd_decided_at :: datetime

text \<open>\<open>_GATE_REASON_TO_FAILED_CHECK\<close>, composed with the \<open>getattr\<close> that reads the field.\<close>

definition gate_reason_check :: "gate_reason_code \<Rightarrow> gate_decision \<Rightarrow> bool" where
  "gate_reason_check code = (case code of
      ACTION_REQUIRES_PROPOSAL \<Rightarrow> gd_action_boundary_valid
    | ARGUMENT_BINDING_MISMATCH \<Rightarrow> gd_argument_binding_valid
    | BUDGET_EXCEEDED \<Rightarrow> gd_budget_valid
    | NO_PROGRESS \<Rightarrow> gd_progress_valid
    | SCHEMA_INVALID \<Rightarrow> gd_schema_valid
    | SNAPSHOT_MISMATCH \<Rightarrow> gd_snapshot_match
    | STATE_VERSION_MISMATCH \<Rightarrow> gd_state_version_valid
    | TOOL_NOT_REGISTERED \<Rightarrow> gd_registration_valid
    | TRUSTED_FIELD_INJECTION \<Rightarrow> gd_trusted_field_valid)"

definition gate_checks :: "gate_decision \<Rightarrow> bool list" where
  "gate_checks g =
     [gd_snapshot_match g, gd_registration_valid g, gd_schema_valid g, gd_trusted_field_valid g,
      gd_argument_binding_valid g, gd_budget_valid g, gd_progress_valid g,
      gd_state_version_valid g, gd_action_boundary_valid g]"

definition decision_matches_checks :: "gate_decision \<Rightarrow> string + unit" where
  "decision_matches_checks g =
     (let all_pass = list_all (\<lambda>b. b) (gate_checks g)
      in case gd_decision g of
        GateAccept \<Rightarrow> checks
          [(\<not> all_pass, ''accepted GateDecision requires every Gate to pass''),
           (gd_resolved_canonical_tool_name g = None, ''accepted GateDecision requires a canonical tool''),
           (gd_validated_task_state_version g = None,
            ''accepted GateDecision requires a validated state version''),
           (gd_argument_binding_refs g = [], ''accepted GateDecision requires argument bindings''),
           (gd_reason_code g \<noteq> None, ''accepted GateDecision cannot carry a rejection reason'')]
      | GateReject \<Rightarrow> (case gd_reason_code g of
          None \<Rightarrow> Inl ''rejected GateDecision requires a stable reason code''
        | Some code \<Rightarrow> checks
          [(all_pass, ''rejected GateDecision requires at least one failed Gate check''),
           (gate_reason_check code g, ''GateDecision reason_code must match its failed Gate check''),
           (code = ARGUMENT_BINDING_MISMATCH \<and> gd_argument_binding_refs g = [],
            ''ARGUMENT_BINDING_MISMATCH requires argument_binding_refs'')]))"

definition new_gate_decision :: "gate_decision \<Rightarrow> validation_error + gate_decision" where
  "new_gate_decision g = construct_with
     [(''provider_tool_call_id'', opt_all NonEmptyString (gd_provider_tool_call_id g)),
      (''requested_provider_tool_name'', NonEmptyString (gd_requested_provider_tool_name g)),
      (''resolved_canonical_tool_name'', opt_all ToolName (gd_resolved_canonical_tool_name g)),
      (''proposed_base_task_state_version'', opt_all (\<lambda>v. 1 \<le> v) (gd_proposed_base_task_state_version g)),
      (''validated_task_state_version'', opt_all (\<lambda>v. 1 \<le> v) (gd_validated_task_state_version g)),
      (''decided_at'', is_utc (gd_decided_at g))]
     (decision_matches_checks g) g"

subsection \<open>AuthorizedToolCommand\<close>

record authorized_tool_command =
  ac_gate_decision_id :: uuid
  ac_canonical_tool_name :: pystr
  ac_validated_arguments :: json_object
  ac_argument_binding_refs :: "uuid list"
  ac_validated_task_state_version :: int
  ac_registry_snapshot_ref :: pystr
  ac_trusted_context_ref :: pystr

text \<open>Thawed, checked for trusted fields, frozen again: the stored arguments are native JSON.\<close>

definition validate_arguments :: "json_object \<Rightarrow> string + json_object" where
  "validate_arguments value =
     res_bind (thaw_object value) (\<lambda>copied.
     res_bind (raise_if (find_trusted_in_items copied \<noteq> None) ''trusted field'') (\<lambda>_.
     Inr copied))"

definition new_authorized_tool_command ::
  "authorized_tool_command \<Rightarrow> validation_error + authorized_tool_command" where
  "new_authorized_tool_command c =
     (let args = validate_arguments (ac_validated_arguments c)
      in construct
       [(''canonical_tool_name'', ToolName (ac_canonical_tool_name c)),
        (''validated_arguments'', is_ok args),
        (''argument_binding_refs'', ac_argument_binding_refs c \<noteq> []),
        (''validated_task_state_version'', 1 \<le> ac_validated_task_state_version c),
        (''registry_snapshot_ref'', NonEmptyString (ac_registry_snapshot_ref c)),
        (''trusted_context_ref'', NonEmptyString (ac_trusted_context_ref c))] []
       (c\<lparr>ac_validated_arguments := ok_or [] args\<rparr>))"

subsection \<open>ToolCallRecord\<close>

datatype tool_call_status =
    TC_CREATED | TC_RUNNING | TC_SUCCEEDED | TC_FAILED | TC_TIMED_OUT | TC_INTERRUPTED

datatype tool_timeout_phase = BEFORE_DISPATCH | AFTER_DISPATCH | PHASE_UNKNOWN

record tool_call_record =
  tc_tool_call_id :: uuid
  tc_run_id :: uuid
  tc_task_id :: uuid
  tc_request_unit_id :: uuid
  tc_model_call_id :: uuid
  tc_context_manifest_id :: uuid
  tc_gate_decision_id :: uuid
  tc_provider_tool_call_id :: "pystr option"
  tc_canonical_tool_name :: pystr
  tc_tool_registry_version :: pystr
  tc_validated_task_state_version :: int
  tc_argument_binding_refs :: "uuid list"
  tc_effect :: tool_effect
  tc_attempt_count :: int
  tc_status :: tool_call_status
  tc_started_at :: datetime
  tc_finished_at :: "datetime option"
  tc_failure_code :: "pystr option"
  tc_timeout_phase :: "tool_timeout_phase option"
  tc_interruption_reason :: "pystr option"
  tc_result_ref :: "uuid option"

definition terminal_statuses :: "tool_call_status list" where
  "terminal_statuses = [TC_SUCCEEDED, TC_FAILED, TC_TIMED_OUT, TC_INTERRUPTED]"

definition requires_attempt :: "tool_call_status list" where
  "requires_attempt = [TC_RUNNING, TC_SUCCEEDED, TC_FAILED, TC_TIMED_OUT]"

definition tool_call_lifecycle :: "tool_call_record \<Rightarrow> (bool \<times> string) list" where
  "tool_call_lifecycle r =
     (let status = tc_status r; terminal = status \<in> set terminal_statuses
      in [(status = TC_CREATED \<and> tc_attempt_count r \<noteq> 0, ''created ToolCall requires attempt_count = 0''),
          (status \<in> set requires_attempt \<and> tc_attempt_count r < 1,
           ''dispatched ToolCall requires attempt_count >= 1''),
          (terminal \<and> tc_finished_at r = None, ''terminal ToolCall requires finished_at''),
          (\<not> terminal \<and> tc_finished_at r \<noteq> None, ''non-terminal ToolCall cannot have finished_at''),
          (\<not> opt_all (\<lambda>f. \<not> dt_less f (tc_started_at r)) (tc_finished_at r),
           ''ToolCall finished_at cannot precede started_at''),
          (status = TC_SUCCEEDED \<and> tc_failure_code r \<noteq> None, ''succeeded ToolCall cannot carry failure_code''),
          (status = TC_TIMED_OUT \<and> tc_timeout_phase r = None, ''timed-out ToolCall requires a safe timeout_phase''),
          (status \<noteq> TC_TIMED_OUT \<and> tc_timeout_phase r \<noteq> None, ''only timed-out ToolCall can carry timeout_phase''),
          (status = TC_INTERRUPTED \<and> tc_interruption_reason r = None,
           ''interrupted ToolCall requires a safe interruption_reason''),
          (status \<noteq> TC_INTERRUPTED \<and> tc_interruption_reason r \<noteq> None,
           ''only interrupted ToolCall can carry interruption_reason'')])"

definition new_tool_call_record :: "tool_call_record \<Rightarrow> validation_error + tool_call_record" where
  "new_tool_call_record r = construct
     [(''provider_tool_call_id'', opt_all NonEmptyString (tc_provider_tool_call_id r)),
      (''canonical_tool_name'', ToolName (tc_canonical_tool_name r)),
      (''tool_registry_version'', NonEmptyString (tc_tool_registry_version r)),
      (''validated_task_state_version'', 1 \<le> tc_validated_task_state_version r),
      (''argument_binding_refs'', tc_argument_binding_refs r \<noteq> []),
      (''attempt_count'', 0 \<le> tc_attempt_count r),
      (''started_at'', is_utc (tc_started_at r)),
      (''finished_at'', opt_all is_utc (tc_finished_at r)),
      (''failure_code'', opt_all NonEmptyString (tc_failure_code r)),
      (''interruption_reason'', opt_all SafeReasonCode (tc_interruption_reason r))]
     (tool_call_lifecycle r) r"

subsection \<open>ToolAttemptRecord and ToolResult\<close>

datatype tool_result_outcome =
    TR_SUCCESS | TR_BUSINESS_FAILURE | TR_SYSTEM_FAILURE | TR_TIMEOUT | TR_INTERRUPTED | TR_RESULT_UNKNOWN

record tool_attempt_record =
  at_tool_call_id :: uuid
  at_attempt_no :: int
  at_started_at :: datetime
  at_finished_at :: "datetime option"
  at_outcome :: "tool_result_outcome option"
  at_failure_code :: "pystr option"

definition tool_attempt_lifecycle :: "tool_attempt_record \<Rightarrow> (bool \<times> string) list" where
  "tool_attempt_lifecycle a =
     (case at_finished_at a of
        None \<Rightarrow>
          [(at_outcome a \<noteq> None, ''active ToolAttempt cannot carry outcome''),
           (at_failure_code a \<noteq> None, ''active ToolAttempt cannot carry failure_code'')]
      | Some finished \<Rightarrow>
          [(at_outcome a = None, ''finalized ToolAttempt requires outcome''),
           (dt_less finished (at_started_at a), ''ToolAttempt finished_at cannot precede started_at''),
           (at_outcome a = Some TR_SUCCESS \<and> at_failure_code a \<noteq> None,
            ''successful ToolAttempt cannot carry failure_code'')])"

definition new_tool_attempt_record :: "tool_attempt_record \<Rightarrow> validation_error + tool_attempt_record" where
  "new_tool_attempt_record a = construct
     [(''attempt_no'', 1 \<le> at_attempt_no a),
      (''started_at'', is_utc (at_started_at a)),
      (''finished_at'', opt_all is_utc (at_finished_at a)),
      (''failure_code'', opt_all NonEmptyString (at_failure_code a))]
     (tool_attempt_lifecycle a) a"

record tool_result =
  tre_tool_call_id :: uuid
  tre_canonical_tool_name :: pystr
  tre_outcome :: tool_result_outcome
  tre_payload :: "json option"
  tre_error_code :: "pystr option"
  tre_retryable :: bool
  tre_raw_result_ref :: "pystr option"
  tre_observed_at :: "datetime option"
  tre_completed_at :: datetime

definition new_tool_result :: "tool_result \<Rightarrow> validation_error + tool_result" where
  "new_tool_result r =
     (let payload = (case tre_payload r of None \<Rightarrow> Inr None
        | Some v \<Rightarrow> (case thaw_json_value v of Inl e \<Rightarrow> Inl e | Inr w \<Rightarrow> Inr (Some w)))
      in construct
       [(''canonical_tool_name'', ToolName (tre_canonical_tool_name r)),
        (''payload'', is_ok payload),
        (''error_code'', opt_all NonEmptyString (tre_error_code r)),
        (''raw_result_ref'', opt_all NonEmptyString (tre_raw_result_ref r)),
        (''observed_at'', opt_all is_utc (tre_observed_at r)),
        (''completed_at'', is_utc (tre_completed_at r))] []
       (r\<lparr>tre_payload := ok_or None payload\<rparr>))"

subsection \<open>Validating again\<close>

lemma validate_arguments_twice: "validate_arguments v = Inr c \<Longrightarrow> validate_arguments c = Inr c"
  by (auto simp: validate_arguments_def res_bind_Inr_iff dest: thaw_object_twice)

interpretation gate_decision: plain_record new_gate_decision
  by (rule plain_recordI) (auto simp: new_gate_decision_def construct_def Let_def)
interpretation tool_call: plain_record new_tool_call_record
  by (rule plain_recordI) (auto simp: new_tool_call_record_def construct_def Let_def)
interpretation tool_attempt: plain_record new_tool_attempt_record
  by (rule plain_recordI) (auto simp: new_tool_attempt_record_def construct_def Let_def)

interpretation authorized_command: validated_class new_authorized_tool_command
proof
  fix x y assume h: "new_authorized_tool_command x = Inr y"
  then obtain c where "validate_arguments (ac_validated_arguments x) = Inr c"
    by (auto simp: new_authorized_tool_command_def construct_Inr_iff Let_def is_ok_def split: sum.splits)
  with h show "new_authorized_tool_command y = Inr y"
    using validate_arguments_twice[of "ac_validated_arguments x" c]
    by (auto simp: new_authorized_tool_command_def construct_Inr_iff Let_def is_ok_def ok_or_def)
qed

end
