(* ===== verification/Order_Core.thy ===== *)
theory Order_Core
  imports Tool_Calls
begin

section \<open>Customer identity, orders, observations and presentation plans\<close>

text \<open>
  \<open>core/identity.py\<close>, \<open>core/order.py\<close>, \<open>core/memory.py\<close>, \<open>core/presentation.py\<close> and the
  policy gate \<open>core/presentation_policy.py\<close>.

  Where the code distrusts the run-time shape of an object it received, the object is a
  \<open>pyobj\<close>: either an instance of exactly the expected class, with its field values and the
  names of state it carries beyond its declared fields (instance dictionary, extra or private
  state), or \<open>Foreign\<close>, an instance of any other type, subclasses included.
\<close>

datatype 'a pyobj = Foreign | Obj (fields_of: 'a) (undeclared: "pystr list")

definition is_exact_instance :: "'a pyobj \<Rightarrow> bool" where
  "is_exact_instance v = (case v of Foreign \<Rightarrow> False | Obj _ extra \<Rightarrow> extra = [])"

lemma is_exact_instance_iff: "is_exact_instance v \<longleftrightarrow> (\<exists>x. v = Obj x [])"
  by (cases v) (auto simp: is_exact_instance_def)

lemma is_exact_instance_simps [simp]:
  "\<not> is_exact_instance Foreign" "is_exact_instance (Obj x extra) \<longleftrightarrow> extra = []"
  by (simp_all add: is_exact_instance_def)

subsection \<open>core/identity.py\<close>

record customer_context =
  cc_provenance :: pystr
  cc_subject_ref :: pystr
  cc_customer_id :: pystr
  cc_auth_scopes :: "pystr list"
  cc_authenticated_at :: datetime
  cc_session_ref_hash :: pystr

definition new_customer_context :: "customer_context \<Rightarrow> validation_error + customer_context" where
  "new_customer_context c = construct
     [(''provenance'', cc_provenance c = str ''SERVER_AUTH_ADAPTER''),
      (''subject_ref'', NonEmptyString (cc_subject_ref c)),
      (''customer_id'', NonEmptyString (cc_customer_id c)),
      (''auth_scopes'', list_all NonEmptyString (cc_auth_scopes c)),
      (''authenticated_at'', is_utc (cc_authenticated_at c)),
      (''session_ref_hash'', NonEmptyString (cc_session_ref_hash c))] [] c"

subsection \<open>core/order.py\<close>

text \<open>\<open>^O-[0-9]{4,20}$\<close>, over the whole string.\<close>

definition OrderId :: "pystr \<Rightarrow> bool" where
  "OrderId s \<longleftrightarrow> take 2 s = str ''O-'' \<and> 4 \<le> length (drop 2 s) \<and> length (drop 2 s) \<le> 20
     \<and> list_all is_09 (drop 2 s)"

text \<open>\<open>^mock-order-source-version\.p0\.v1:sha256:[0-9a-f]{64}$\<close>\<close>

definition source_version_prefix :: pystr where
  "source_version_prefix = str ''mock-order-source-version.p0.v1:sha256:''"

definition GetOrderSourceVersion :: "pystr \<Rightarrow> bool" where
  "GetOrderSourceVersion s \<longleftrightarrow>
     take (length source_version_prefix) s = source_version_prefix
     \<and> is_hex64 (drop (length source_version_prefix) s)"

datatype order_status = CREATED | PAID | FULFILLING | SHIPPED | DELIVERED | CANCELLED

record order_line_summary =
  ol_product_name :: pystr
  ol_quantity :: int

definition new_order_line_summary :: "order_line_summary \<Rightarrow> validation_error + order_line_summary" where
  "new_order_line_summary l = construct
     [(''product_name'', NonEmptyString (ol_product_name l)), (''quantity'', 1 \<le> ol_quantity l)] [] l"

record order_summary_projection =
  os_order_number :: pystr
  os_status :: order_status
  os_line_items :: "order_line_summary pyobj list"
  os_ordered_at :: datetime
  os_status_updated_at :: datetime

definition new_order_summary_projection ::
  "order_summary_projection \<Rightarrow> validation_error + order_summary_projection" where
  "new_order_summary_projection s = construct
     [(''order_number'', OrderId (os_order_number s)),
      (''line_items'', 1 \<le> length (os_line_items s)),
      (''ordered_at'', is_utc (os_ordered_at s)),
      (''status_updated_at'', is_utc (os_status_updated_at s))]
     [(dt_less (os_status_updated_at s) (os_ordered_at s),
       ''status_updated_at cannot precede ordered_at'')] s"

record get_order_query =
  gq_customer_id :: pystr
  gq_order_id :: pystr

definition new_get_order_query :: "get_order_query \<Rightarrow> validation_error + get_order_query" where
  "new_get_order_query q = construct
     [(''customer_id'', NonEmptyString (gq_customer_id q)), (''order_id'', OrderId (gq_order_id q))] [] q"

datatype get_order_outcome = FOUND | NOT_FOUND_OR_NOT_ACCESSIBLE | SYSTEM_FAILURE

record get_order_result =
  gr_outcome :: get_order_outcome
  gr_order_summary :: "order_summary_projection pyobj option"
  gr_source_version :: "pystr option"
  gr_failure_code :: "pystr option"

definition result_shape_matches_outcome :: "get_order_result \<Rightarrow> (bool \<times> string) list" where
  "result_shape_matches_outcome r =
     (if gr_outcome r = FOUND then
        [(gr_order_summary r = None, ''FOUND result requires order_summary''),
         (gr_failure_code r \<noteq> None, ''FOUND result cannot carry failure_code''),
         (gr_source_version r = None, ''FOUND result requires source_version'')]
      else
        [(gr_order_summary r \<noteq> None, ''non-FOUND result cannot carry order_summary''),
         (gr_source_version r \<noteq> None, ''non-FOUND result cannot carry source_version''),
         (gr_outcome r = NOT_FOUND_OR_NOT_ACCESSIBLE \<and> gr_failure_code r \<noteq> None,
          ''safe not-found result cannot disclose a differentiated failure code'')])"

definition new_get_order_result :: "get_order_result \<Rightarrow> validation_error + get_order_result" where
  "new_get_order_result r = construct
     [(''source_version'', opt_all GetOrderSourceVersion (gr_source_version r)),
      (''failure_code'', opt_all NonEmptyString (gr_failure_code r))]
     (result_shape_matches_outcome r) r"

subsection \<open>core/memory.py\<close>

datatype observation_visibility = VIS_MODEL_VISIBLE | VIS_AUDIT_ONLY | VIS_USER_VISIBLE

record order_observation =
  oo_observation_id :: uuid
  oo_source_tool :: pystr
  oo_source_resource_ref :: pystr
  oo_source_version :: "pystr option"
  oo_normalized_type :: pystr
  oo_normalized_value :: "order_summary_projection pyobj"
  oo_observed_at :: datetime
  oo_recorded_at :: datetime
  oo_valid_until :: "datetime option"
  oo_supersedes :: "uuid option"
  oo_raw_result_ref :: "pystr option"
  oo_visibility :: observation_visibility

definition new_order_observation :: "order_observation \<Rightarrow> validation_error + order_observation" where
  "new_order_observation o' = construct
     [(''source_tool'', oo_source_tool o' = str ''get_order''),
      (''source_resource_ref'', NonEmptyString (oo_source_resource_ref o')),
      (''source_version'', opt_all NonEmptyString (oo_source_version o')),
      (''normalized_type'', oo_normalized_type o' = str ''ORDER_SUMMARY''),
      (''observed_at'', is_utc (oo_observed_at o')),
      (''recorded_at'', is_utc (oo_recorded_at o')),
      (''valid_until'', opt_all is_utc (oo_valid_until o')),
      (''raw_result_ref'', opt_all NonEmptyString (oo_raw_result_ref o'))]
     [(dt_less (oo_recorded_at o') (oo_observed_at o'), ''recorded_at cannot precede observed_at''),
      (\<not> opt_all (\<lambda>u. \<not> dt_less u (oo_observed_at o')) (oo_valid_until o'),
       ''valid_until cannot precede observed_at'')] o'"

record task_state_ref_and_version =
  tsr_task_id :: uuid
  tsr_state_version :: int

record versioned_record_ref =
  vr_record_ref :: uuid
  vr_version :: pystr

record truncation_decision =
  td_source_ref :: uuid
  td_reason_code :: pystr

record token_counts =
  tk_input_tokens :: "int option"
  tk_output_tokens :: "int option"

record context_manifest =
  cm_context_manifest_id :: uuid
  cm_run_id :: uuid
  cm_model_call_id :: uuid
  cm_tool_registry_version :: pystr
  cm_model_visible_toolset_hash :: pystr
  cm_selected_message_refs :: "uuid list"
  cm_task_state_ref_and_version :: "task_state_ref_and_version option"
  cm_observation_refs_and_versions :: "versioned_record_ref list"
  cm_evidence_refs_and_versions :: "versioned_record_ref list"
  cm_action_record_refs :: "uuid list"
  cm_redaction_policy_version :: pystr
  cm_truncation_decisions :: "truncation_decision list"
  cm_token_counts :: token_counts
  cm_assembled_at :: datetime

definition new_context_manifest :: "context_manifest \<Rightarrow> validation_error + context_manifest" where
  "new_context_manifest m = construct
     [(''tool_registry_version'', NonEmptyString (cm_tool_registry_version m)),
      (''model_visible_toolset_hash'', ToolsetHash (cm_model_visible_toolset_hash m)),
      (''redaction_policy_version'', NonEmptyString (cm_redaction_policy_version m)),
      (''assembled_at'', is_utc (cm_assembled_at m))] [] m"

subsection \<open>core/presentation.py\<close>

datatype presentation_tone = NEUTRAL | WARM
datatype opening_variant = DIRECT | ACKNOWLEDGE
datatype presentation_field = ORDER_NUMBER | STATUS | ITEMS | ORDERED_AT | STATUS_UPDATED_AT
datatype closing_variant = CLOSING_NONE | OFFER_FOLLOW_UP

definition presentation_fields :: "presentation_field list" where
  "presentation_fields = [ORDER_NUMBER, STATUS, ITEMS, ORDERED_AT, STATUS_UPDATED_AT]"

record presentation_plan =
  pp_schema_version :: pystr
  pp_template_id :: pystr
  pp_tone :: presentation_tone
  pp_opening_variant :: opening_variant
  pp_field_order :: "presentation_field list"
  pp_closing_variant :: closing_variant

text \<open>
  \<open>min_length=5, max_length=5\<close> and the validator \<open>set(value) == set(PresentationField)\<close>:
  together they make the field order a permutation of the five fields.
\<close>

definition new_presentation_plan :: "presentation_plan \<Rightarrow> validation_error + presentation_plan" where
  "new_presentation_plan p = construct
     [(''schema_version'', pp_schema_version p = str ''presentation-plan-v1''),
      (''template_id'', pp_template_id p = str ''ORDER_STATUS_SUMMARY_V1''),
      (''field_order'', length (pp_field_order p) = 5
         \<and> set (pp_field_order p) = set presentation_fields)] [] p"

lemma set_presentation_fields [simp]: "set presentation_fields = UNIV"
  by (auto simp: presentation_fields_def) (metis presentation_field.exhaust)

lemma distinct_presentation_fields: "distinct presentation_fields"
  by (simp add: presentation_fields_def)

lemma card_presentation_field: "card (UNIV :: presentation_field set) = 5"
  using distinct_card[OF distinct_presentation_fields] by (simp add: presentation_fields_def[symmetric])
    (simp add: presentation_fields_def)

lemma plan_field_order_distinct:
  "new_presentation_plan p = Inr q \<Longrightarrow> distinct (pp_field_order q) \<and> set (pp_field_order q) = UNIV"
  by (auto simp: new_presentation_plan_def construct_Inr_iff card_presentation_field intro!: card_distinct)

subsection \<open>core/presentation_policy.py\<close>

definition validate_presentation_plan ::
  "presentation_plan pyobj \<Rightarrow> order_observation pyobj \<Rightarrow> string + presentation_plan" where
  "validate_presentation_plan plan observation =
     (case plan of
        Foreign \<Rightarrow> Inl ''canonical PresentationPlan required''
      | Obj p extra \<Rightarrow>
        if extra \<noteq> [] then Inl ''PresentationPlan must remain fact-free''
        else (case new_presentation_plan p of
          Inl _ \<Rightarrow> Inl ''PresentationPlan must remain fact-free and canonical''
        | Inr canonical_plan \<Rightarrow>
          let safe_observation =
            (case observation of
               Obj ob [] \<Rightarrow>
                 oo_source_tool ob = str ''get_order''
                 \<and> oo_normalized_type ob = str ''ORDER_SUMMARY''
                 \<and> oo_visibility ob = VIS_MODEL_VISIBLE
                 \<and> (case oo_normalized_value ob of
                      Obj summary [] \<Rightarrow> list_all is_exact_instance (os_line_items summary)
                    | _ \<Rightarrow> False)
             | _ \<Rightarrow> False)
          in if \<not> safe_observation then Inl ''safe Observation provenance required''
             else Inr canonical_plan))"

lemma validate_presentation_plan_Inr:
  assumes "validate_presentation_plan plan observation = Inr q"
  obtains ob summary where "plan = Obj q []" "new_presentation_plan q = Inr q"
    "observation = Obj ob []" "oo_normalized_value ob = Obj summary []"
    "oo_visibility ob = VIS_MODEL_VISIBLE" "list_all is_exact_instance (os_line_items summary)"
  using assms
  by (auto simp: validate_presentation_plan_def Let_def new_presentation_plan_def construct_Inr_iff
      split: pyobj.splits if_splits sum.splits list.splits)

end
