(* ===== verification/Order_Id_Text.thy ===== *)
theory Order_Id_Text
  imports Order_Core
begin

section \<open>Order ids in text (core/request_processing.py, lines 39--116)\<close>

text \<open>
  Normalisation of an order id candidate and the search for order id tokens in a quote.
  The regular expression \<open>_ORDER_ID_IN_TEXT_PATTERN\<close> is given its backtracking meaning at one
  position (\<open>match_at\<close>: greedy digits, then fewer until the look-ahead holds) and \<open>finditer\<close>
  scans for non-overlapping matches from the left. \<open>finditer_complete\<close> shows that the scan
  misses no position at which the pattern matches.
\<close>

subsection \<open>str.strip and _normalize_order_id\<close>

definition is_space :: "nat \<Rightarrow> bool" where
  "is_space c \<longleftrightarrow> (9 \<le> c \<and> c \<le> 13) \<or> (28 \<le> c \<and> c \<le> 32) \<or> c = 0x85 \<or> c = 0xA0 \<or> c = 0x1680
     \<or> (0x2000 \<le> c \<and> c \<le> 0x200A) \<or> c = 0x2028 \<or> c = 0x2029 \<or> c = 0x202F \<or> c = 0x205F \<or> c = 0x3000"

definition py_strip :: "pystr \<Rightarrow> pystr" where
  "py_strip s = rev (dropWhile is_space (rev (dropWhile is_space s)))"

definition invalid_order_id_msg :: string where
  "invalid_order_id_msg = ''invalid order_id candidate''"

definition normalize_order_id :: "json \<Rightarrow> string + pystr" where
  "normalize_order_id value =
     (case value of
        JStr s \<Rightarrow>
          (let stripped = py_strip s;
               normalized = (if casefold (take 2 stripped) = str ''o-'' then str ''O-'' @ drop 2 stripped
                             else stripped)
           in if \<not> OrderId normalized then Inl invalid_order_id_msg else Inr normalized)
      | _ \<Rightarrow> Inl invalid_order_id_msg)"

definition candidate_order_id_or_none :: "json_object \<Rightarrow> pystr option" where
  "candidate_order_id_or_none arguments =
     (if set (map fst arguments) \<noteq> {str ''order_id''} then None
      else case map_of arguments (str ''order_id'') of
        None \<Rightarrow> None
      | Some v \<Rightarrow> (case normalize_order_id v of Inl _ \<Rightarrow> None | Inr n \<Rightarrow> Some n))"

lemma is_space_digit: "is_09 c \<Longrightarrow> \<not> is_space c"
  by (auto simp: is_09_def is_space_def)

lemma dropWhile_id: "(xs = [] \<or> \<not> P (hd xs)) \<Longrightarrow> dropWhile P xs = xs"
  by (cases xs) auto

lemma OrderId_shape:
  "OrderId s \<longleftrightarrow> (\<exists>ds. s = str ''O-'' @ ds \<and> 4 \<le> length ds \<and> length ds \<le> 20 \<and> list_all is_09 ds)"
proof
  assume "OrderId s"
  then show "\<exists>ds. s = str ''O-'' @ ds \<and> 4 \<le> length ds \<and> length ds \<le> 20 \<and> list_all is_09 ds"
    unfolding OrderId_def by (metis append_take_drop_id)
next
  assume "\<exists>ds. s = str ''O-'' @ ds \<and> 4 \<le> length ds \<and> length ds \<le> 20 \<and> list_all is_09 ds"
  then show "OrderId s" by (auto simp: OrderId_def str_def)
qed

lemma py_strip_OrderId: "OrderId s \<Longrightarrow> py_strip s = s"
proof -
  assume "OrderId s"
  then obtain ds where s: "s = str ''O-'' @ ds" and ds: "4 \<le> length ds" "list_all is_09 ds"
    by (auto simp: OrderId_shape)
  have front: "dropWhile is_space s = s"
    by (rule dropWhile_id) (simp add: s str_def is_space_def)
  have ne: "ds \<noteq> []" using ds by auto
  then have "last s \<in> set ds" by (simp add: s)
  then have "\<not> is_space (last s)" using ds(2) by (auto simp: list_all_iff is_space_digit)
  then have "dropWhile is_space (rev s) = rev s"
    by (intro dropWhile_id) (simp add: hd_rev)
  with front show ?thesis by (simp add: py_strip_def)
qed

lemma normalize_order_id_Inr: "normalize_order_id v = Inr n \<Longrightarrow> OrderId n"
  by (auto simp: normalize_order_id_def Let_def split: json.splits if_splits)

lemma normalize_canonical: "OrderId n \<Longrightarrow> normalize_order_id (JStr n) = Inr n"
proof -
  assume n: "OrderId n"
  then obtain ds where ds: "n = str ''O-'' @ ds" by (auto simp: OrderId_shape)
  have "casefold (take 2 n) = str ''o-''"
    by (simp add: ds str_def casefold_def casefold_char_def)
  then show ?thesis
    using n by (simp add: normalize_order_id_def Let_def py_strip_OrderId) (simp add: ds str_def)
qed

text \<open>
  The contract the reducer, revalidation and the gateway rely on: a normalised value is canonical
  and a canonical value is its own normal form.
\<close>

locale order_id_normalizer =
  fixes normalize :: "json \<Rightarrow> string + pystr" and canonical :: "pystr \<Rightarrow> bool"
  assumes normal_form: "normalize v = Inr n \<Longrightarrow> canonical n"
    and fixpoint: "canonical n \<Longrightarrow> normalize (JStr n) = Inr n"
begin

lemma idempotent: "normalize v = Inr n \<Longrightarrow> normalize (JStr n) = Inr n"
  by (rule fixpoint) (rule normal_form)

lemma canonical_iff: "canonical n \<longleftrightarrow> normalize (JStr n) = Inr n"
  using normal_form fixpoint by blast

lemma equal_normal_forms:
  "normalize v = Inr n \<Longrightarrow> normalize w = Inr m \<Longrightarrow> normalize (JStr n) = normalize (JStr m) \<longleftrightarrow> n = m"
  using idempotent by fastforce

end

interpretation order_id: order_id_normalizer normalize_order_id OrderId
  by unfold_locales (rule normalize_order_id_Inr, assumption, rule normalize_canonical, assumption)

text \<open>What the prefix test \<open>normalized[:2].casefold() == "o-"\<close> accepts.\<close>

lemma casefold_prefix_iff:
  "casefold (take 2 s) = str ''o-'' \<longleftrightarrow> (\<exists>rest. s = 79 # 45 # rest \<or> s = 111 # 45 # rest)"
proof
  assume "\<exists>rest. s = 79 # 45 # rest \<or> s = 111 # 45 # rest"
  then show "casefold (take 2 s) = str ''o-''"
    by (auto simp: casefold_def casefold_char_def str_def)
next
  assume c: "casefold (take 2 s) = str ''o-''"
  have one: "casefold_char a = 111 # r \<Longrightarrow> (a = 79 \<or> a = 111) \<and> r = []" for a r
    by (auto simp: casefold_char_def split: if_splits)
  have two: "casefold_char a = [45] \<Longrightarrow> a = 45" for a
    by (auto simp: casefold_char_def split: if_splits)
  have ne: "casefold_char a \<noteq> []" for a
    by (auto simp: casefold_char_def)
  show "\<exists>rest. s = 79 # 45 # rest \<or> s = 111 # 45 # rest"
  proof (cases s)
    case Nil
    with c show ?thesis by (simp add: casefold_def str_def)
  next
    case (Cons a s')
    with c have ca: "casefold_char a @ concat (map casefold_char (take 1 s')) = [111, 45]"
      by (simp add: casefold_def str_def numeral_2_eq_2)
    obtain x xs where x: "casefold_char a = x # xs" using ne by (meson list.exhaust)
    with ca have "x = 111" by simp
    with x one have a: "a = 79 \<or> a = 111" "xs = []" by auto
    show ?thesis
    proof (cases s')
      case Nil
      with ca x a show ?thesis by simp
    next
      case (Cons b s'')
      with ca x a \<open>x = 111\<close> have "b = 45" by (simp add: two)
      with Cons \<open>s = a # s'\<close> a show ?thesis by auto
    qed
  qed
qed

lemma normalize_order_id_iff:
  "normalize_order_id (JStr s) = Inr n \<longleftrightarrow>
     (\<exists>c ds. (c = 79 \<or> c = 111) \<and> py_strip s = c # 45 # ds \<and> n = str ''O-'' @ ds
        \<and> 4 \<le> length ds \<and> length ds \<le> 20 \<and> list_all is_09 ds)"
proof (cases "casefold (take 2 (py_strip s)) = str ''o-''")
  case True
  then obtain c ds where cd: "c = 79 \<or> c = 111" "py_strip s = c # 45 # ds"
    using casefold_prefix_iff by blast
  then have d: "drop 2 (py_strip s) = ds" by simp
  have "OrderId (str ''O-'' @ ds) \<longleftrightarrow> 4 \<le> length ds \<and> length ds \<le> 20 \<and> list_all is_09 ds"
    by (simp add: OrderId_def str_def)
  with True cd d show ?thesis by (auto simp: normalize_order_id_def Let_def)
next
  case False
  then have "\<not> OrderId (py_strip s)"
    using casefold_prefix_iff[of "py_strip s"] by (auto simp: OrderId_shape str_def)
  moreover have "\<nexists>c ds. (c = 79 \<or> c = 111) \<and> py_strip s = c # 45 # ds"
    using False casefold_prefix_iff by blast
  ultimately show ?thesis using False by (auto simp: normalize_order_id_def Let_def)
qed

subsection \<open>The order id pattern inside a text\<close>

definition is_alnum :: "nat \<Rightarrow> bool" where
  "is_alnum c \<longleftrightarrow> is_az c \<or> is_AZ c \<or> is_09 c"

text \<open>\<open>[0-9]{4,20}\<close> of length \<open>k\<close> at \<open>j\<close>, followed by \<open>(?![A-Za-z0-9])\<close>.\<close>

definition digits_then_boundary :: "pystr \<Rightarrow> nat \<Rightarrow> nat \<Rightarrow> bool" where
  "digits_then_boundary s j k \<longleftrightarrow>
     j + k \<le> length s \<and> list_all is_09 (take k (drop j s))
     \<and> (j + k = length s \<or> \<not> is_alnum (s ! (j + k)))"

text \<open>The length of the match of the pattern at position \<open>i\<close>, if it matches there.\<close>

definition match_at :: "pystr \<Rightarrow> nat \<Rightarrow> nat option" where
  "match_at s i =
     (if i + 1 < length s \<and> (i = 0 \<or> \<not> is_alnum (s ! (i - 1)))
         \<and> (s ! i = 79 \<or> s ! i = 111) \<and> s ! (i + 1) = 45
      then map_option (\<lambda>k. k + 2) (find (digits_then_boundary s (i + 2)) (rev [4..<21]))
      else None)"

lemma find_Some_in: "find P xs = Some x \<Longrightarrow> x \<in> set xs \<and> P x"
  by (induction xs) (auto split: if_splits)

lemma match_at_Some:
  assumes "match_at s i = Some l"
  obtains k where "l = k + 2" "4 \<le> k" "k \<le> 20" "i + 1 < length s" "i = 0 \<or> \<not> is_alnum (s ! (i - 1))"
    "s ! i = 79 \<or> s ! i = 111" "s ! (i + 1) = 45" "digits_then_boundary s (i + 2) k"
  using assms unfolding match_at_def by (auto split: if_splits dest!: find_Some_in)

lemma match_at_pos: "match_at s i = Some l \<Longrightarrow> 0 < l \<and> i + l \<le> length s"
  by (erule match_at_Some) (auto simp: digits_then_boundary_def)

function finditer :: "pystr \<Rightarrow> nat \<Rightarrow> pystr list" where
  "finditer s i =
     (if length s \<le> i then []
      else case match_at s i of
        Some l \<Rightarrow> take l (drop i s) # finditer s (i + l)
      | None \<Rightarrow> finditer s (i + 1))"
  by pat_completeness auto
termination
  by (relation "measure (\<lambda>(s, i). length s - i)") (auto dest: match_at_pos)

declare finditer.simps [simp del]

definition source_quote_contains_exact_order_id :: "pystr \<Rightarrow> pystr \<Rightarrow> bool" where
  "source_quote_contains_exact_order_id source_quote normalized_order_id \<longleftrightarrow>
     list_ex (\<lambda>m. normalize_order_id (JStr m) = Inr normalized_order_id) (finditer source_quote 0)"

lemma match_at_inner:
  assumes "match_at s i = Some l" "i < j" "j < i + l"
  shows "match_at s j = None"
proof -
  from assms(1) obtain k where k: "l = k + 2" "s ! (i + 1) = 45" "digits_then_boundary s (i + 2) k"
    by (rule match_at_Some)
  have "s ! j \<noteq> 79 \<and> s ! j \<noteq> 111"
  proof (cases "j = i + 1")
    case True
    with k show ?thesis by simp
  next
    case False
    define m where "m = j - (i + 2)"
    have m: "j = i + 2 + m" "m < k" using False assms k(1) by (auto simp: m_def)
    from k(3) have len: "i + 2 + k \<le> length s" and all: "list_all is_09 (take k (drop (i + 2) s))"
      by (auto simp: digits_then_boundary_def)
    have "take k (drop (i + 2) s) ! m = s ! j" using m len by simp
    moreover have "take k (drop (i + 2) s) ! m \<in> set (take k (drop (i + 2) s))"
      using m len by (intro nth_mem) simp
    ultimately have "is_09 (s ! j)" using all by (auto simp: list_all_iff)
    then show ?thesis by (auto simp: is_09_def)
  qed
  then show ?thesis by (auto simp: match_at_def)
qed

lemma finditer_step:
  "finditer s i = (if length s \<le> i then []
      else case match_at s i of
        Some l \<Rightarrow> take l (drop i s) # finditer s (i + l)
      | None \<Rightarrow> finditer s (i + 1))"
  by (rule finditer.simps)

lemma finditer_sound:
  "m \<in> set (finditer s i) \<Longrightarrow> \<exists>j l. i \<le> j \<and> match_at s j = Some l \<and> m = take l (drop j s)"
proof (induction s i rule: finditer.induct)
  case (1 s i)
  have i: "\<not> length s \<le> i" using 1(3) by (auto simp: finditer_step[of s i])
  show ?case
  proof (cases "match_at s i")
    case None
    with 1(3) i have "m \<in> set (finditer s (i + 1))" by (simp add: finditer_step[of s i])
    from 1(1)[OF i None this] show ?thesis by (metis add_leD1)
  next
    case (Some l)
    with 1(3) i have "m = take l (drop i s) \<or> m \<in> set (finditer s (i + l))"
      by (simp add: finditer_step[of s i])
    with 1(2)[OF i Some] Some show ?thesis by (metis add_leD1 order_refl)
  qed
qed

lemma finditer_complete_from:
  "i \<le> j \<Longrightarrow> match_at s j = Some l \<Longrightarrow> take l (drop j s) \<in> set (finditer s i)"
proof (induction s i rule: finditer.induct)
  case (1 s i)
  have j: "j < length s" using 1(4) by (auto dest: match_at_pos)
  show ?case
  proof (cases "match_at s i")
    case None
    with 1(4) have "i \<noteq> j" by auto
    with 1 None j show ?thesis by (subst finditer.simps) auto
  next
    case (Some l')
    show ?thesis
    proof (cases "i = j")
      case True
      with 1(4) Some j show ?thesis by (subst finditer.simps) auto
    next
      case False
      with 1(3,4) match_at_inner[OF Some, of j] have "i + l' \<le> j" by force
      with 1(2)[OF _ Some] 1(3,4) Some j show ?thesis by (subst finditer.simps) auto
    qed
  qed
qed

lemma finditer_complete:
  "set (finditer s 0) = {take l (drop j s) |j l. match_at s j = Some l}"
proof (intro subset_antisym subsetI)
  fix m assume "m \<in> set (finditer s 0)"
  then show "m \<in> {take l (drop j s) |j l. match_at s j = Some l}"
    using finditer_sound by blast
next
  fix m assume "m \<in> {take l (drop j s) |j l. match_at s j = Some l}"
  then show "m \<in> set (finditer s 0)" using finditer_complete_from[of 0] by auto
qed

end
