(* ===== verification/Request_Understanding.thy ===== *)
theory Request_Understanding
  imports Order_Id_Text
begin

section \<open>Request Understanding contracts (core/request_understanding.py)\<close>

text \<open>
  \<open>ri_schema_version_set\<close> records whether \<open>schema_version\<close> is in the instance's
  \<open>model_fields_set\<close> (given explicitly rather than defaulted), which the reducer checks.

  What the model is shown for its first call (\<open>request_input\<close>) and what it may answer
  (\<open>request_output\<close>): a contextualization with resolved references and uncertainties, goal
  candidates, and one next-move candidate. A nested model instance is not revalidated when its
  parent is constructed; \<open>canonical_...\<close> says that every nested instance is valid too,
  which is what re-validating a dumped instance establishes.
\<close>

record task_summary =
  tsum_task_alias :: pystr
  tsum_request_unit_alias :: "pystr option"
  tsum_goal_summary :: pystr
  tsum_status :: pystr
  tsum_open_questions :: "pystr list"

definition new_task_summary :: "task_summary \<Rightarrow> validation_error + task_summary" where
  "new_task_summary t = construct
     [(''task_alias'', NonEmptyString (tsum_task_alias t)),
      (''request_unit_alias'', opt_all NonEmptyString (tsum_request_unit_alias t)),
      (''goal_summary'', NonEmptyString (tsum_goal_summary t)),
      (''status'', NonEmptyString (tsum_status t)),
      (''open_questions'', list_all NonEmptyString (tsum_open_questions t))] [] t"

record pending_action_summary =
  pas_action_alias :: pystr
  pas_summary :: pystr

definition new_pending_action_summary ::
  "pending_action_summary \<Rightarrow> validation_error + pending_action_summary" where
  "new_pending_action_summary p = construct
     [(''action_alias'', NonEmptyString (pas_action_alias p)),
      (''summary'', NonEmptyString (pas_summary p))] [] p"

subsection \<open>RequestUnderstandingInput\<close>

record request_input =
  ri_schema_version :: pystr
  ri_schema_version_set :: bool
  ri_run_id :: uuid
  ri_message_ref :: uuid
  ri_original_query :: pystr
  ri_recent_message_refs :: "uuid list"
  ri_pending_question :: "pystr option"
  ri_active_task_summaries :: "task_summary list"
  ri_focused_task_summary :: "task_summary option"
  ri_pending_action_summaries :: "pending_action_summary list"
  ri_output_constraints :: "pystr list"
  ri_provider_visible_tool_specs :: "tool_spec list"
  ri_model_visible_toolset_hash :: pystr

definition toolset_hash_matches_projected_specs :: "request_input \<Rightarrow> string + unit" where
  "toolset_hash_matches_projected_specs r =
     res_bind (compute_model_visible_toolset_hash (ri_provider_visible_tool_specs r)) (\<lambda>expected_hash.
     raise_if (ri_model_visible_toolset_hash r \<noteq> expected_hash) ''model-visible ToolSpec hash mismatch'')"

definition new_request_input :: "request_input \<Rightarrow> validation_error + request_input" where
  "new_request_input r = construct_with
     [(''schema_version'', ri_schema_version r = str ''e2e01-thin-v1''),
      (''original_query'', 1 \<le> length (ri_original_query r) \<and> length (ri_original_query r) \<le> 4000),
      (''pending_question'', opt_all NonEmptyString (ri_pending_question r)),
      (''output_constraints'', list_all NonEmptyString (ri_output_constraints r)),
      (''model_visible_toolset_hash'', ToolsetHash (ri_model_visible_toolset_hash r))]
     (toolset_hash_matches_projected_specs r) r"

subsection \<open>Candidates\<close>

datatype task_delta_operation = ADD_GOAL
datatype input_authority = USER_CLAIM | MODEL_INFERENCE
datatype input_source_kind = SRC_CURRENT_MESSAGE

record input_candidate =
  ic_name :: pystr
  ic_candidate_value :: pystr
  ic_semantic_role :: pystr
  ic_authority :: input_authority
  ic_source_kind :: input_source_kind
  ic_source_ref :: uuid
  ic_source_quote :: pystr
  ic_confidence :: pyfloat

definition new_input_candidate :: "input_candidate \<Rightarrow> validation_error + input_candidate" where
  "new_input_candidate c = construct
     [(''name'', ic_name c = str ''order_id''),
      (''candidate_value'', NonEmptyString (ic_candidate_value c)),
      (''semantic_role'', ic_semantic_role c = str ''TARGET_RESOURCE_IDENTIFIER''),
      (''source_quote'', NonEmptyString (ic_source_quote c)),
      (''confidence'', Confidence (ic_confidence c))] [] c"

record task_delta_candidate =
  tdc_candidate_id :: uuid
  tdc_operation :: task_delta_operation
  tdc_goal_patch :: pystr
  tdc_input_candidates :: "input_candidate list"
  tdc_confidence :: pyfloat

definition new_task_delta_candidate :: "task_delta_candidate \<Rightarrow> validation_error + task_delta_candidate" where
  "new_task_delta_candidate c = construct
     [(''goal_patch'', NonEmptyString (tdc_goal_patch c)),
      (''input_candidates'', 1 \<le> length (tdc_input_candidates c)
         \<and> \<not> has_duplicates (map ic_name (tdc_input_candidates c))),
      (''confidence'', Confidence (tdc_confidence c))] [] c"

datatype next_move_kind = CALL_TOOL | ASK_USER | FINISH | ESCALATE

definition next_move_kind_value :: "next_move_kind \<Rightarrow> pystr" where
  "next_move_kind_value k = (case k of CALL_TOOL \<Rightarrow> str ''CALL_TOOL'' | ASK_USER \<Rightarrow> str ''ASK_USER''
     | FINISH \<Rightarrow> str ''FINISH'' | ESCALATE \<Rightarrow> str ''ESCALATE'')"

record next_move =
  nm_kind :: next_move_kind
  nm_requested_tool_name :: "pystr option"
  nm_arguments :: "json_object option"
  nm_base_task_state_version :: "int option"

definition validate_optional_arguments :: "json_object option \<Rightarrow> string + json_object option" where
  "validate_optional_arguments value = (case value of
      None \<Rightarrow> Inr None
    | Some args \<Rightarrow> (case validate_arguments args of Inl e \<Rightarrow> Inl e | Inr copied \<Rightarrow> Inr (Some copied)))"

definition candidate_shape_matches_kind :: "next_move \<Rightarrow> (bool \<times> string) list" where
  "candidate_shape_matches_kind m =
     [(nm_kind m = CALL_TOOL \<and> (nm_requested_tool_name m = None \<or> nm_arguments m = None),
       ''CALL_TOOL requires a tool name and arguments''),
      (nm_kind m \<noteq> CALL_TOOL \<and> (nm_requested_tool_name m \<noteq> None \<or> nm_arguments m \<noteq> None),
       ''non-CALL_TOOL candidates cannot carry tool name or arguments'')]"

definition new_next_move :: "next_move \<Rightarrow> validation_error + next_move" where
  "new_next_move m =
     (let args = validate_optional_arguments (nm_arguments m)
      in construct
       [(''requested_tool_name'', opt_all NonEmptyString (nm_requested_tool_name m)),
        (''arguments'', is_ok args),
        (''base_task_state_version'', opt_all (\<lambda>v. 1 \<le> v) (nm_base_task_state_version m))]
       (candidate_shape_matches_kind m)
       (m\<lparr>nm_arguments := ok_or None args\<rparr>))"

subsection \<open>Contextualization\<close>

datatype reference_source_kind = REF_CURRENT_MESSAGE | REF_RECENT_MESSAGE
datatype uncertainty_reason_code = MISSING_REFERENCE | MULTIPLE_PLAUSIBLE_REFERENCES

record resolved_reference =
  rr_name :: pystr
  rr_candidate_value :: pystr
  rr_source_kind :: reference_source_kind
  rr_source_ref :: uuid
  rr_source_quote :: pystr
  rr_confidence :: pyfloat

definition new_resolved_reference :: "resolved_reference \<Rightarrow> validation_error + resolved_reference" where
  "new_resolved_reference c = construct
     [(''name'', rr_name c = str ''order_id''),
      (''candidate_value'', NonEmptyString (rr_candidate_value c)),
      (''source_quote'', 1 \<le> length (rr_source_quote c) \<and> length (rr_source_quote c) \<le> 128),
      (''confidence'', Confidence (rr_confidence c))] [] c"

record uncertainty =
  un_name :: pystr
  un_candidate_values :: "pystr list"
  un_reason_code :: uncertainty_reason_code
  un_source_message_refs :: "uuid list"

definition bounded_unique_refs :: "uuid list \<Rightarrow> bool" where
  "bounded_unique_refs refs \<longleftrightarrow> 1 \<le> length refs \<and> length refs \<le> 8 \<and> \<not> has_duplicates refs"

definition new_uncertainty :: "uncertainty \<Rightarrow> validation_error + uncertainty" where
  "new_uncertainty u = construct
     [(''name'', un_name u = str ''order_id''),
      (''candidate_values'', list_all NonEmptyString (un_candidate_values u)),
      (''source_message_refs'', bounded_unique_refs (un_source_message_refs u))]
     [(un_reason_code u = MISSING_REFERENCE \<and> un_candidate_values u \<noteq> [],
       ''MISSING_REFERENCE cannot carry candidate values''),
      (un_reason_code u \<noteq> MISSING_REFERENCE
         \<and> \<not> (2 \<le> length (un_candidate_values u) \<and> length (un_candidate_values u) \<le> 8),
       ''MULTIPLE_PLAUSIBLE_REFERENCES requires 2..8 candidate values''),
      (has_duplicates (un_candidate_values u), ''uncertainty candidate values must be unique'')] u"

record contextualization =
  cx_text :: pystr
  cx_resolved_reference_candidates :: "resolved_reference list"
  cx_uncertainties :: "uncertainty list"
  cx_source_message_refs :: "uuid list"

definition new_contextualization :: "contextualization \<Rightarrow> validation_error + contextualization" where
  "new_contextualization c = construct
     [(''text'', NonEmptyString (cx_text c)),
      (''source_message_refs'', bounded_unique_refs (cx_source_message_refs c))]
     [(\<exists>r\<in>set (cx_resolved_reference_candidates c). rr_source_ref r \<notin> set (cx_source_message_refs c),
       ''resolved reference source_ref must be in source_message_refs''),
      (\<exists>u\<in>set (cx_uncertainties c). \<exists>r\<in>set (un_source_message_refs u). r \<notin> set (cx_source_message_refs c),
       ''uncertainty source refs must be in source_message_refs'')] c"

subsection \<open>RequestUnderstandingOutputV2\<close>

record request_output =
  ro_schema_version :: pystr
  ro_message_ref :: uuid
  ro_contextualization :: contextualization
  ro_task_delta_candidates :: "task_delta_candidate list"
  ro_next_move_candidate :: next_move

text \<open>The checks the validator makes for every input candidate of every goal, in its order.\<close>

definition input_candidate_guards :: "uuid \<Rightarrow> input_candidate \<Rightarrow> (bool \<times> string) list" where
  "input_candidate_guards message_ref i =
     [(128 < length (ic_source_quote i), ''InputCandidate source_quote cannot exceed 128''),
      (ic_source_ref i \<noteq> message_ref, ''v2 InputCandidate must reference current message''),
      (ic_authority i \<noteq> USER_CLAIM, ''v2 InputCandidate must remain a USER_CLAIM''),
      (ic_source_kind i \<noteq> SRC_CURRENT_MESSAGE, ''v2 InputCandidate must use current message source'')]"

definition candidate_graph_guards :: "request_output \<Rightarrow> (bool \<times> string) list" where
  "candidate_graph_guards o' =
     [(has_duplicates (map tdc_candidate_id (ro_task_delta_candidates o')),
       ''TaskDeltaCandidate IDs must be unique''),
      (ro_message_ref o' \<notin> set (cx_source_message_refs (ro_contextualization o')),
       ''contextualization must include the current message'')]
     @ concat (map (\<lambda>delta. concat (map (input_candidate_guards (ro_message_ref o'))
         (tdc_input_candidates delta))) (ro_task_delta_candidates o'))
     @ [(nm_base_task_state_version (ro_next_move_candidate o') \<noteq> None,
         ''new-goal v2 candidate must use a null base Task version'')]"

definition new_request_output :: "request_output \<Rightarrow> validation_error + request_output" where
  "new_request_output o' = construct
     [(''schema_version'', ro_schema_version o' = str ''e2e01-thin-v2'')]
     (candidate_graph_guards o') o'"

subsection \<open>Canonical instances\<close>

definition accepts :: "('a \<Rightarrow> validation_error + 'a) \<Rightarrow> 'a \<Rightarrow> bool" where
  "accepts new_x x = (case new_x x of Inl _ \<Rightarrow> False | Inr y \<Rightarrow> y = x)"

lemma accepts_iff: "accepts new_x x \<longleftrightarrow> new_x x = Inr x"
  by (cases "new_x x") (auto simp: accepts_def)

text \<open>
  \<open>native_spec\<close> and \<open>native_move\<close>: the JSON a valid instance stores was thawed, so dumping and
  reading it back gives the same value.
\<close>

definition canonical_tool_spec :: "tool_spec \<Rightarrow> bool" where
  "canonical_tool_spec s \<longleftrightarrow> accepts new_tool_spec s"

definition canonical_request_input :: "request_input \<Rightarrow> bool" where
  "canonical_request_input r \<longleftrightarrow>
     accepts new_request_input r
     \<and> list_all (accepts new_task_summary) (ri_active_task_summaries r)
     \<and> opt_all (accepts new_task_summary) (ri_focused_task_summary r)
     \<and> list_all (accepts new_pending_action_summary) (ri_pending_action_summaries r)
     \<and> list_all canonical_tool_spec (ri_provider_visible_tool_specs r)"

definition canonical_task_delta_candidate :: "task_delta_candidate \<Rightarrow> bool" where
  "canonical_task_delta_candidate c \<longleftrightarrow>
     accepts new_task_delta_candidate c \<and> list_all (accepts new_input_candidate) (tdc_input_candidates c)"

definition canonical_contextualization :: "contextualization \<Rightarrow> bool" where
  "canonical_contextualization c \<longleftrightarrow>
     accepts new_contextualization c
     \<and> list_all (accepts new_resolved_reference) (cx_resolved_reference_candidates c)
     \<and> list_all (accepts new_uncertainty) (cx_uncertainties c)"

definition canonical_request_output :: "request_output \<Rightarrow> bool" where
  "canonical_request_output o' \<longleftrightarrow>
     accepts new_request_output o'
     \<and> canonical_contextualization (ro_contextualization o')
     \<and> list_all canonical_task_delta_candidate (ro_task_delta_candidates o')
     \<and> accepts new_next_move (ro_next_move_candidate o')"

lemmas ru_constructors =
  new_task_summary_def new_pending_action_summary_def new_request_input_def new_input_candidate_def
  new_task_delta_candidate_def new_next_move_def new_resolved_reference_def new_uncertainty_def
  new_contextualization_def new_request_output_def

lemma canonical_output_facts:
  assumes "canonical_request_output o'"
  shows "ro_schema_version o' = str ''e2e01-thin-v2''"
    and "distinct (map tdc_candidate_id (ro_task_delta_candidates o'))"
    and "ro_message_ref o' \<in> set (cx_source_message_refs (ro_contextualization o'))"
    and "nm_base_task_state_version (ro_next_move_candidate o') = None"
    and "\<And>d i. d \<in> set (ro_task_delta_candidates o') \<Longrightarrow> i \<in> set (tdc_input_candidates d) \<Longrightarrow>
           ic_source_ref i = ro_message_ref o' \<and> ic_authority i = USER_CLAIM
           \<and> ic_source_kind i = SRC_CURRENT_MESSAGE \<and> length (ic_source_quote i) \<le> 128"
  using assms
  by (auto simp: canonical_request_output_def accepts_iff new_request_output_def construct_Inr_iff
      candidate_graph_guards_def input_candidate_guards_def list_all_iff not_less)

lemma canonical_candidate_facts:
  assumes "canonical_request_output o'" "d \<in> set (ro_task_delta_candidates o')"
  shows "NonEmptyString (tdc_goal_patch d)" "Confidence (tdc_confidence d)"
    and "tdc_input_candidates d \<noteq> []" "distinct (map ic_name (tdc_input_candidates d))"
    and "\<And>i. i \<in> set (tdc_input_candidates d) \<Longrightarrow> accepts new_input_candidate i"
  using assms
  by (auto simp: canonical_request_output_def canonical_task_delta_candidate_def accepts_iff
      new_task_delta_candidate_def construct_Inr_iff list_all_iff)

text \<open>
  \<open>name\<close> admits the single value \<open>"order_id"\<close> and names are unique per goal, so a valid
  goal candidate carries exactly one input.
\<close>

lemma canonical_candidate_single_input:
  assumes "canonical_request_output o'" "d \<in> set (ro_task_delta_candidates o')"
  obtains i where "tdc_input_candidates d = [i]"
proof -
  note f = canonical_candidate_facts[OF assms]
  have names: "\<forall>i\<in>set (tdc_input_candidates d). ic_name i = str ''order_id''"
    using f(5) by (simp add: accepts_iff new_input_candidate_def construct_Inr_iff)
  show ?thesis
  proof (cases "tdc_input_candidates d")
    case Nil
    with f(3) show ?thesis by simp
  next
    case (Cons i rest)
    with names f(4) have "rest = []"
      by (cases rest) auto
    with Cons that show ?thesis by simp
  qed
qed

subsection \<open>Validating again\<close>

interpretation move: validated_class new_next_move
proof
  fix x y assume h: "new_next_move x = Inr y"
  then obtain c where c: "validate_optional_arguments (nm_arguments x) = Inr c" "y = x\<lparr>nm_arguments := c\<rparr>"
    by (auto simp: new_next_move_def construct_Inr_iff Let_def is_ok_def ok_or_def split: sum.splits)
  then have "validate_optional_arguments c = Inr c" "c = None \<longleftrightarrow> nm_arguments x = None"
    by (auto simp: validate_optional_arguments_def dest: validate_arguments_twice split: option.splits sum.splits)
  with h c show "new_next_move y = Inr y"
    by (auto simp: new_next_move_def construct_Inr_iff Let_def is_ok_def ok_or_def candidate_shape_matches_kind_def)
qed

end
