(* ===== verification/Task_State.thy ===== *)
theory Task_State
  imports Request_Understanding
begin

section \<open>Bindings, Tasks, RequestUnits and durable v2 records (core/task_state.py)\<close>

text \<open>
  The durable records the reducer builds and the stores keep, with their validators.
\<close>

subsection \<open>InputBinding, TaskRecord, RequestUnitRecord\<close>

datatype input_validation_status = ACCEPTED

record input_binding =
  ib_binding_id :: uuid
  ib_name :: pystr
  ib_normalized_value :: pystr
  ib_authority :: input_authority
  ib_source_refs :: "uuid list"
  ib_validation_status :: input_validation_status
  ib_confirmed_by_user :: bool
  ib_created_at :: datetime
  ib_updated_at :: datetime
  ib_supersedes :: "uuid option"

definition new_input_binding :: "input_binding \<Rightarrow> validation_error + input_binding" where
  "new_input_binding b = construct
     [(''name'', ib_name b = str ''order_id''),
      (''normalized_value'', OrderId (ib_normalized_value b)),
      (''authority'', ib_authority b = USER_CLAIM),
      (''source_refs'', 1 \<le> length (ib_source_refs b)),
      (''confirmed_by_user'', ib_confirmed_by_user b),
      (''created_at'', is_utc (ib_created_at b)),
      (''updated_at'', is_utc (ib_updated_at b))]
     [(dt_less (ib_updated_at b) (ib_created_at b), ''InputBinding updated_at cannot precede created_at'')] b"

datatype candidate_validation_decision = DECISION_ACCEPT | DECISION_REJECT

datatype task_status =
    ACTIVE | WAITING_USER | PENDING_ACTION | ACTION_IN_PROGRESS | RECOVERING
  | COMPLETED | BLOCKED | TASK_CANCELLED

record request_unit_record =
  ru_request_unit_id :: uuid
  ru_task_id :: uuid
  ru_goal_text :: pystr
  ru_goal_source_refs :: "uuid list"
  ru_contextualization_ref :: "uuid option"
  ru_constraint_refs :: "uuid list"
  ru_dependency_refs :: "uuid list"
  ru_input_binding_refs :: "uuid list"
  ru_open_questions :: "pystr list"
  ru_observation_refs :: "uuid list"
  ru_evidence_binding_refs :: "uuid list"
  ru_pending_action_ref :: "uuid option"
  ru_result_refs :: "uuid list"
  ru_status :: task_status
  ru_state_version :: int
  ru_created_at :: datetime
  ru_updated_at :: datetime

definition new_request_unit_record :: "request_unit_record \<Rightarrow> validation_error + request_unit_record" where
  "new_request_unit_record u = construct
     [(''goal_text'', NonEmptyString (ru_goal_text u)),
      (''goal_source_refs'', 1 \<le> length (ru_goal_source_refs u)),
      (''input_binding_refs'', 1 \<le> length (ru_input_binding_refs u)),
      (''open_questions'', list_all NonEmptyString (ru_open_questions u)),
      (''state_version'', 1 \<le> ru_state_version u),
      (''created_at'', is_utc (ru_created_at u)),
      (''updated_at'', is_utc (ru_updated_at u))]
     [(dt_less (ru_updated_at u) (ru_created_at u), ''RequestUnit updated_at cannot precede created_at'')] u"

record task_record =
  tk_task_id :: uuid
  tk_owner_customer_id :: pystr
  tk_status :: task_status
  tk_state_version :: int
  tk_created_at :: datetime
  tk_updated_at :: datetime
  tk_last_outcome_ref :: "uuid option"

definition new_task_record :: "task_record \<Rightarrow> validation_error + task_record" where
  "new_task_record t = construct
     [(''owner_customer_id'', NonEmptyString (tk_owner_customer_id t)),
      (''state_version'', 1 \<le> tk_state_version t),
      (''created_at'', is_utc (tk_created_at t)),
      (''updated_at'', is_utc (tk_updated_at t))]
     [(dt_less (tk_updated_at t) (tk_created_at t), ''Task updated_at cannot precede created_at'')] t"

record task_state_transition =
  tt_task_id :: uuid
  tt_request_unit_id :: uuid
  tt_from_status :: task_status
  tt_to_status :: task_status
  tt_base_state_version :: int
  tt_result_state_version :: int
  tt_reason_ref :: uuid
  tt_changed_at :: datetime

definition new_task_state_transition ::
  "task_state_transition \<Rightarrow> validation_error + task_state_transition" where
  "new_task_state_transition t = construct
     [(''base_state_version'', 1 \<le> tt_base_state_version t),
      (''result_state_version'', 1 \<le> tt_result_state_version t),
      (''changed_at'', is_utc (tt_changed_at t))]
     [(tt_result_state_version t \<noteq> tt_base_state_version t + 1,
       ''Task transition must increment state_version exactly once''),
      (tt_from_status t = tt_to_status t, ''Task transition must change status'')] t"

subsection \<open>Durable candidates: quotes replaced by spans and hashes\<close>

record durable_resolved_reference =
  drr_name :: pystr
  drr_candidate_value :: pystr
  drr_source_kind :: reference_source_kind
  drr_source_ref :: uuid
  drr_source_span_start :: nat
  drr_source_span_end_exclusive :: nat
  drr_source_quote_sha256 :: pystr
  drr_confidence :: pyfloat

definition new_durable_resolved_reference ::
  "durable_resolved_reference \<Rightarrow> validation_error + durable_resolved_reference" where
  "new_durable_resolved_reference c = construct
     [(''name'', drr_name c = str ''order_id''),
      (''candidate_value'', NonEmptyString (drr_candidate_value c)),
      (''source_quote_sha256'', is_hex64 (drr_source_quote_sha256 c)),
      (''confidence'', Confidence (drr_confidence c))]
     [(drr_source_span_end_exclusive c \<le> drr_source_span_start c,
       ''source span end must be greater than start'')] c"

record durable_input_candidate =
  dic_name :: pystr
  dic_candidate_value :: pystr
  dic_semantic_role :: pystr
  dic_authority :: input_authority
  dic_source_kind :: input_source_kind
  dic_source_ref :: uuid
  dic_source_span_start :: nat
  dic_source_span_end_exclusive :: nat
  dic_source_quote_sha256 :: pystr
  dic_confidence :: pyfloat

definition new_durable_input_candidate ::
  "durable_input_candidate \<Rightarrow> validation_error + durable_input_candidate" where
  "new_durable_input_candidate c = construct
     [(''name'', dic_name c = str ''order_id''),
      (''candidate_value'', NonEmptyString (dic_candidate_value c)),
      (''semantic_role'', dic_semantic_role c = str ''TARGET_RESOURCE_IDENTIFIER''),
      (''authority'', dic_authority c = USER_CLAIM),
      (''source_quote_sha256'', is_hex64 (dic_source_quote_sha256 c)),
      (''confidence'', Confidence (dic_confidence c))]
     [(dic_source_span_end_exclusive c \<le> dic_source_span_start c,
       ''source span end must be greater than start'')] c"

record durable_contextualization =
  dcx_text :: pystr
  dcx_resolved_reference_candidates :: "durable_resolved_reference list"
  dcx_uncertainties :: "uncertainty list"
  dcx_source_message_refs :: "uuid list"

definition new_durable_contextualization ::
  "durable_contextualization \<Rightarrow> validation_error + durable_contextualization" where
  "new_durable_contextualization c = construct
     [(''text'', NonEmptyString (dcx_text c)),
      (''source_message_refs'', bounded_unique_refs (dcx_source_message_refs c))]
     [(\<exists>r\<in>set (dcx_resolved_reference_candidates c). drr_source_ref r \<notin> set (dcx_source_message_refs c),
       ''resolved reference source_ref must be in source_message_refs''),
      (\<exists>u\<in>set (dcx_uncertainties c). \<exists>r\<in>set (un_source_message_refs u). r \<notin> set (dcx_source_message_refs c),
       ''uncertainty source refs must be in source_message_refs'')] c"

record durable_task_delta_candidate =
  dtd_candidate_id :: uuid
  dtd_operation :: task_delta_operation
  dtd_goal_patch :: pystr
  dtd_input_candidates :: "durable_input_candidate list"
  dtd_confidence :: pyfloat

definition new_durable_task_delta_candidate ::
  "durable_task_delta_candidate \<Rightarrow> validation_error + durable_task_delta_candidate" where
  "new_durable_task_delta_candidate c = construct
     [(''goal_patch'', NonEmptyString (dtd_goal_patch c)),
      (''input_candidates'', 1 \<le> length (dtd_input_candidates c)
         \<and> \<not> has_duplicates (map dic_name (dtd_input_candidates c))),
      (''confidence'', Confidence (dtd_confidence c))] [] c"

subsection \<open>Validation decisions, accepted deltas and the Request Understanding record\<close>

datatype candidate_rejection_reason =
    OPERATION_NOT_SUPPORTED | GOAL_PATCH_NOT_ACTIONABLE | REQUIRED_INPUT_MISSING
  | INPUT_VALUE_INVALID | REFERENCE_UNRESOLVED | REFERENCE_AMBIGUOUS | NEXT_MOVE_INCONSISTENT

datatype ru_aggregate_failure =
    MODEL_INPUT_SCHEMA_INVALID | MODEL_OUTPUT_SCHEMA_INVALID | MODEL_SCHEMA_VERSION_INVALID
  | TRUSTED_OR_PRIVATE_FIELD_PRESENT | SOURCE_PROVENANCE_INVALID

datatype ru_atomic_failure =
    TASK_STATE_CAS_CONFLICT | TASK_COMMIT_FAILED | DURABLE_CLOSURE_COMMIT_FAILED

text \<open>\<open>RequestUnderstandingV2Error\<close> carries one code of either family.\<close>

datatype ru_error = Aggregate ru_aggregate_failure | Atomic ru_atomic_failure

record candidate_validation_record =
  cv_candidate_ref :: uuid
  cv_decision :: candidate_validation_decision
  cv_reason_code :: "candidate_rejection_reason option"

definition new_candidate_validation_record ::
  "candidate_validation_record \<Rightarrow> validation_error + candidate_validation_record" where
  "new_candidate_validation_record v = construct []
     [(cv_decision v = DECISION_REJECT \<and> cv_reason_code v = None, ''rejected candidate requires a reason''),
      (cv_decision v = DECISION_ACCEPT \<and> cv_reason_code v \<noteq> None,
       ''accepted candidate cannot have a rejection reason'')] v"

record accepted_task_delta =
  ad_accepted_delta_id :: uuid
  ad_candidate_ref :: uuid
  ad_message_ref :: uuid
  ad_operation :: task_delta_operation
  ad_goal_text :: pystr
  ad_input_binding_refs :: "uuid list"
  ad_accepted_at :: datetime
  ad_task_id :: uuid
  ad_base_task_state_version :: "int option"
  ad_result_task_state_version :: int

definition new_accepted_task_delta :: "accepted_task_delta \<Rightarrow> validation_error + accepted_task_delta" where
  "new_accepted_task_delta d = construct
     [(''goal_text'', NonEmptyString (ad_goal_text d)),
      (''input_binding_refs'', 1 \<le> length (ad_input_binding_refs d)),
      (''accepted_at'', is_utc (ad_accepted_at d)),
      (''base_task_state_version'', opt_all (\<lambda>v. 1 \<le> v) (ad_base_task_state_version d)),
      (''result_task_state_version'', 1 \<le> ad_result_task_state_version d)] [] d"

record ru_record =
  rc_request_understanding_record_id :: uuid
  rc_run_id :: uuid
  rc_message_ref :: uuid
  rc_schema_version :: pystr
  rc_model_input_schema_version :: pystr
  rc_model_output_schema_version :: pystr
  rc_contextualization :: durable_contextualization
  rc_task_delta_candidates :: "durable_task_delta_candidate list"
  rc_candidate_validation :: "candidate_validation_record list"
  rc_accepted_delta_refs :: "uuid list"
  rc_proposed_base_task_state_version :: "int option"
  rc_validated_task_state_version :: "int option"
  rc_next_move_candidate_ref :: "uuid option"
  rc_created_at :: datetime

definition is_accept :: "candidate_validation_record \<Rightarrow> bool" where
  "is_accept v \<longleftrightarrow> cv_decision v = DECISION_ACCEPT"

definition record_graph_guards :: "ru_record \<Rightarrow> (bool \<times> string) list" where
  "record_graph_guards r =
     (let candidate_ids = map dtd_candidate_id (rc_task_delta_candidates r);
          validation_refs = map cv_candidate_ref (rc_candidate_validation r);
          accepted_count = length (filter is_accept (rc_candidate_validation r))
      in [(has_duplicates candidate_ids, ''candidate IDs must be unique''),
          (has_duplicates validation_refs, ''candidate validation refs must be unique''),
          (set validation_refs \<noteq> set candidate_ids, ''candidate validation refs must exactly match candidates''),
          (has_duplicates (rc_accepted_delta_refs r), ''accepted delta refs must be unique''),
          (length (rc_accepted_delta_refs r) \<noteq> accepted_count, ''accepted delta refs must match accepted decisions''),
          (rc_message_ref r \<notin> set (dcx_source_message_refs (rc_contextualization r)),
           ''contextualization must include the current message''),
          (\<exists>c\<in>set (rc_task_delta_candidates r). \<exists>i\<in>set (dtd_input_candidates c).
             dic_source_ref i \<noteq> rc_message_ref r, ''durable input candidates must bind to current message''),
          (rc_next_move_candidate_ref r = None
             \<and> (rc_proposed_base_task_state_version r \<noteq> None \<or> rc_validated_task_state_version r \<noteq> None),
           ''next_move versions require next_move_candidate_ref'')])"

definition new_ru_record :: "ru_record \<Rightarrow> validation_error + ru_record" where
  "new_ru_record r = construct
     [(''schema_version'', rc_schema_version r = str ''request_understanding_record.p0.v2''),
      (''model_input_schema_version'', rc_model_input_schema_version r = str ''e2e01-thin-v1''),
      (''model_output_schema_version'', rc_model_output_schema_version r = str ''e2e01-thin-v2''),
      (''proposed_base_task_state_version'', opt_all (\<lambda>v. 1 \<le> v) (rc_proposed_base_task_state_version r)),
      (''validated_task_state_version'', opt_all (\<lambda>v. 1 \<le> v) (rc_validated_task_state_version r)),
      (''created_at'', is_utc (rc_created_at r))]
     (record_graph_guards r) r"

definition canonical_durable_candidate :: "durable_task_delta_candidate \<Rightarrow> bool" where
  "canonical_durable_candidate c \<longleftrightarrow>
     accepts new_durable_task_delta_candidate c
     \<and> list_all (accepts new_durable_input_candidate) (dtd_input_candidates c)"

definition canonical_durable_contextualization :: "durable_contextualization \<Rightarrow> bool" where
  "canonical_durable_contextualization c \<longleftrightarrow>
     accepts new_durable_contextualization c
     \<and> list_all (accepts new_durable_resolved_reference) (dcx_resolved_reference_candidates c)
     \<and> list_all (accepts new_uncertainty) (dcx_uncertainties c)"

definition canonical_ru_record :: "ru_record \<Rightarrow> bool" where
  "canonical_ru_record r \<longleftrightarrow>
     accepts new_ru_record r
     \<and> canonical_durable_contextualization (rc_contextualization r)
     \<and> list_all canonical_durable_candidate (rc_task_delta_candidates r)
     \<and> list_all (accepts new_candidate_validation_record) (rc_candidate_validation r)"

subsection \<open>Validating again\<close>

interpretation input_binding: plain_record new_input_binding
  by (rule plain_recordI) (auto simp: new_input_binding_def construct_def Let_def)
interpretation task: plain_record new_task_record
  by (rule plain_recordI) (auto simp: new_task_record_def construct_def Let_def)
interpretation request_unit: plain_record new_request_unit_record
  by (rule plain_recordI) (auto simp: new_request_unit_record_def construct_def Let_def)
interpretation task_transition: plain_record new_task_state_transition
  by (rule plain_recordI) (auto simp: new_task_state_transition_def construct_def Let_def)

end
