(* ===== verification/Provenance.thy ===== *)
theory Provenance
  imports Task_State
begin

section \<open>Source provenance and durable projection (core/request_processing.py, lines 397--912)\<close>

text \<open>
  Canonicalisation of the objects the reducer receives, the exact-once source span of a quote in
  an authoritative message, and the projection of model candidates to durable candidates in
  which every quote is replaced by its span and its SHA-256.

  The authoritative messages are a map from message ids to their text. A received object is a
  \<open>pyobj\<close>; \<open>undeclared\<close> is what \<open>_undeclared_model_state_keys_v2\<close> collects from it.
\<close>

type_synonym 'a ru = "ru_error + 'a"

subsection \<open>Canonical instances\<close>

definition has_trusted_or_private_undeclared_state :: "pystr list \<Rightarrow> bool" where
  "has_trusted_or_private_undeclared_state keys \<longleftrightarrow>
     list_ex (\<lambda>key. take 1 key = str ''_'' \<or> find_trusted_argument_field (JDict [(key, JNull)]) \<noteq> None) keys"

definition canonical_request_input_v2 :: "request_input pyobj \<Rightarrow> request_input ru" where
  "canonical_request_input_v2 value =
     (case value of
        Foreign \<Rightarrow> Inl (Aggregate MODEL_INPUT_SCHEMA_INVALID)
      | Obj r extra \<Rightarrow>
        if has_trusted_or_private_undeclared_state extra then Inl (Aggregate TRUSTED_OR_PRIVATE_FIELD_PRESENT)
        else if \<not> ri_schema_version_set r then Inl (Aggregate MODEL_INPUT_SCHEMA_INVALID)
        else if ri_schema_version r \<noteq> str ''e2e01-thin-v1'' then Inl (Aggregate MODEL_SCHEMA_VERSION_INVALID)
        else if \<not> canonical_request_input r \<or> extra \<noteq> [] then Inl (Aggregate MODEL_INPUT_SCHEMA_INVALID)
        else Inr r)"

text \<open>
  The dumped output, with leaf values elided: the search for trusted names only looks at keys,
  which are the declared field names and the keys of the proposed arguments.
\<close>

definition payload_skeleton :: "json_object \<Rightarrow> json" where
  "payload_skeleton arguments = JDict
     [(str ''schema_version'', JNull), (str ''message_ref'', JNull),
      (str ''contextualization'', JDict
        [(str ''text'', JNull),
         (str ''resolved_reference_candidates'', JList [JDict (map (\<lambda>k. (str k, JNull))
            [''name'', ''candidate_value'', ''source_kind'', ''source_ref'', ''source_quote'', ''confidence''])]),
         (str ''uncertainties'', JList [JDict (map (\<lambda>k. (str k, JNull))
            [''name'', ''candidate_values'', ''reason_code'', ''source_message_refs''])]),
         (str ''source_message_refs'', JNull)]),
      (str ''task_delta_candidates'', JList [JDict
        [(str ''candidate_id'', JNull), (str ''operation'', JNull), (str ''goal_patch'', JNull),
         (str ''input_candidates'', JList [JDict (map (\<lambda>k. (str k, JNull))
            [''name'', ''candidate_value'', ''semantic_role'', ''authority'', ''source_kind'',
             ''source_ref'', ''source_quote'', ''confidence''])]),
         (str ''confidence'', JNull)]]),
      (str ''next_move_candidate'', JDict
        [(str ''kind'', JNull), (str ''requested_tool_name'', JNull),
         (str ''arguments'', JDict arguments), (str ''base_task_state_version'', JNull)])]"

definition dumped_arguments :: "request_output \<Rightarrow> string + json_object" where
  "dumped_arguments o' = (case nm_arguments (ro_next_move_candidate o') of
      None \<Rightarrow> Inr [] | Some args \<Rightarrow> thaw_object args)"

definition canonical_request_output_v2 :: "request_output pyobj \<Rightarrow> request_output ru" where
  "canonical_request_output_v2 value =
     (case value of
        Foreign \<Rightarrow> Inl (Aggregate MODEL_OUTPUT_SCHEMA_INVALID)
      | Obj o' extra \<Rightarrow>
        if has_trusted_or_private_undeclared_state extra then Inl (Aggregate TRUSTED_OR_PRIVATE_FIELD_PRESENT)
        else if ro_schema_version o' \<noteq> str ''e2e01-thin-v2'' then Inl (Aggregate MODEL_SCHEMA_VERSION_INVALID)
        else (case dumped_arguments o' of
            Inl _ \<Rightarrow> Inl (Aggregate MODEL_OUTPUT_SCHEMA_INVALID)
          | Inr arguments \<Rightarrow>
            if find_trusted_argument_field (payload_skeleton arguments) \<noteq> None
            then Inl (Aggregate TRUSTED_OR_PRIVATE_FIELD_PRESENT)
            else if \<not> canonical_request_output o' \<or> extra \<noteq> [] then Inl (Aggregate MODEL_OUTPUT_SCHEMA_INVALID)
            else Inr o'))"

text \<open>One element of \<open>_canonical_candidate_validation_v2\<close> or \<open>_canonical_accepted_task_deltas_v2\<close>.\<close>

definition canonical_durable_element :: "('a \<Rightarrow> validation_error + 'a) \<Rightarrow> 'a pyobj \<Rightarrow> 'a ru" where
  "canonical_durable_element new_x value =
     (case value of
        Foreign \<Rightarrow> Inl (Atomic DURABLE_CLOSURE_COMMIT_FAILED)
      | Obj x extra \<Rightarrow>
        if has_trusted_or_private_undeclared_state extra then Inl (Aggregate TRUSTED_OR_PRIVATE_FIELD_PRESENT)
        else if \<not> accepts new_x x \<or> extra \<noteq> [] then Inl (Atomic DURABLE_CLOSURE_COMMIT_FAILED)
        else Inr x)"

definition canonical_candidate_validation_v2 ::
  "candidate_validation_record pyobj list \<Rightarrow> candidate_validation_record list ru" where
  "canonical_candidate_validation_v2 values =
     res_map (canonical_durable_element new_candidate_validation_record) values"

definition canonical_accepted_task_deltas_v2 ::
  "accepted_task_delta pyobj list \<Rightarrow> accepted_task_delta list ru" where
  "canonical_accepted_task_deltas_v2 values =
     res_map (canonical_durable_element new_accepted_task_delta) values"

lemma canonical_request_input_v2_iff:
  "canonical_request_input_v2 v = Inr r \<longleftrightarrow>
     v = Obj r [] \<and> ri_schema_version_set r \<and> canonical_request_input r"
  by (auto simp: canonical_request_input_v2_def has_trusted_or_private_undeclared_state_def
      canonical_request_input_def accepts_iff new_request_input_def construct_with_Inr_iff
      split: pyobj.splits if_splits)

lemma canonical_output_arguments:
  assumes "canonical_request_output o'"
  shows "\<exists>args. dumped_arguments o' = Inr args \<and> find_trusted_in_items args = None"
proof -
  have a: "accepts new_next_move (ro_next_move_candidate o')"
    using assms by (simp add: canonical_request_output_def)
  show ?thesis
  proof (cases "nm_arguments (ro_next_move_candidate o')")
    case None
    then show ?thesis by (simp add: dumped_arguments_def)
  next
    case (Some args)
    with a obtain copied where "thaw_object args = Inr copied" "find_trusted_in_items copied = None"
      by (auto simp: accepts_iff new_next_move_def construct_Inr_iff Let_def is_ok_def res_bind_Inr_iff
          validate_optional_arguments_def validate_arguments_def split: sum.splits)
    with Some show ?thesis by (simp add: dumped_arguments_def)
  qed
qed

lemma payload_skeleton_trusted:
  "find_trusted_argument_field (payload_skeleton args) = find_trusted_in_items args"
  unfolding payload_skeleton_def
  by (simp add: Let_def is_trusted_name_def TRUSTED_ARGUMENT_FIELDS_def casefold_def casefold_char_def
      str_def split: option.splits)

lemma canonical_request_output_v2_iff:
  "canonical_request_output_v2 v = Inr o' \<longleftrightarrow> v = Obj o' [] \<and> canonical_request_output o'"
proof
  assume "canonical_request_output_v2 v = Inr o'"
  then show "v = Obj o' [] \<and> canonical_request_output o'"
    by (auto simp: canonical_request_output_v2_def split: pyobj.splits if_splits sum.splits)
next
  assume v: "v = Obj o' [] \<and> canonical_request_output o'"
  with canonical_output_arguments[of o'] obtain args where
    "dumped_arguments o' = Inr args" "find_trusted_in_items args = None" by blast
  with v canonical_output_facts(1)[of o'] show "canonical_request_output_v2 v = Inr o'"
    by (simp add: canonical_request_output_v2_def has_trusted_or_private_undeclared_state_def
        payload_skeleton_trusted)
qed

lemma canonical_durable_element_Inr:
  "accepts new_x x \<Longrightarrow> canonical_durable_element new_x (Obj x []) = Inr x"
  by (simp add: canonical_durable_element_def has_trusted_or_private_undeclared_state_def)

lemma canonical_durable_element_iff:
  "canonical_durable_element new_x v = Inr x \<longleftrightarrow> v = Obj x [] \<and> accepts new_x x"
  by (auto simp: canonical_durable_element_def has_trusted_or_private_undeclared_state_def
      split: pyobj.splits if_splits)

lemma canonical_durable_list:
  "list_all (accepts new_x) xs \<Longrightarrow>
     res_map (canonical_durable_element new_x) (map (\<lambda>x. Obj x []) xs) = Inr xs"
  by (induction xs) (auto simp: canonical_durable_element_Inr)

subsection \<open>Authoritative messages and exact source spans\<close>

type_synonym messages = "uuid \<Rightarrow> pystr option"

definition authoritative_message_v2 :: "messages \<Rightarrow> uuid \<Rightarrow> pystr ru" where
  "authoritative_message_v2 authoritative_messages source_ref =
     (case authoritative_messages source_ref of
        None \<Rightarrow> Inl (Aggregate SOURCE_PROVENANCE_INVALID)
      | Some message \<Rightarrow> if message = [] then Inl (Aggregate SOURCE_PROVENANCE_INVALID) else Inr message)"

text \<open>The search loop: positions found so far, stopping at the second one.\<close>

function collect_occurrences :: "pystr \<Rightarrow> pystr \<Rightarrow> nat list \<Rightarrow> nat \<Rightarrow> nat list" where
  "collect_occurrences quote message occurrences search_from =
     (case py_find quote message search_from of
        None \<Rightarrow> occurrences
      | Some position \<Rightarrow>
          if 1 < length (occurrences @ [position]) then occurrences @ [position]
          else collect_occurrences quote message (occurrences @ [position]) (position + 1))"
  by pat_completeness auto
termination
  by (relation "measure (\<lambda>(q, m, occ, s). 2 - length occ)") auto

declare collect_occurrences.simps [simp del]

definition exact_source_span_v2 :: "pystr \<Rightarrow> pystr \<Rightarrow> pystr \<Rightarrow> (nat \<times> nat \<times> pystr) ru" where
  "exact_source_span_v2 authoritative_message source_quote candidate_value =
     (let invalid = Aggregate SOURCE_PROVENANCE_INVALID
      in res_bind (raise_if (source_quote = []) invalid) (\<lambda>_.
         res_bind (raise_if (source_quote = authoritative_message) invalid) (\<lambda>_.
         let occurrences = collect_occurrences source_quote authoritative_message [] 0
         in res_bind (raise_if (length occurrences \<noteq> 1) invalid) (\<lambda>_.
            res_bind (case normalize_order_id (JStr candidate_value) of
                Inl _ \<Rightarrow> raise_if (candidate_value = [] \<or> \<not> py_in candidate_value source_quote) invalid
              | Inr normalized_candidate \<Rightarrow>
                  raise_if (\<not> source_quote_contains_exact_order_id source_quote normalized_candidate) invalid) (\<lambda>_.
            let start = hd occurrences; end' = start + length source_quote;
                exact_slice = take (end' - start) (drop start authoritative_message)
            in Inr (start, end', sha256_hexdigest (utf8 exact_slice)))))))"

lemma collect_occurrences_one:
  "collect_occurrences q m [] 0 = [p] \<longleftrightarrow> {i. occurs_at q m i} = {p}"
proof (cases "py_find q m 0")
  case None
  then have "{i. occurs_at q m i} = {}" by (simp add: py_find_None_iff)
  with None show ?thesis by (simp add: collect_occurrences.simps)
next
  case (Some a)
  then have a: "occurs_at q m a" "\<forall>j<a. \<not> occurs_at q m j" by (auto simp: py_find_Some_iff)
  have first: "collect_occurrences q m [] 0 = collect_occurrences q m [a] (a + 1)"
    using Some by (simp add: collect_occurrences.simps[of q m "[]"])
  show ?thesis
  proof (cases "py_find q m (a + 1)")
    case None
    then have "\<forall>j. a + 1 \<le> j \<longrightarrow> \<not> occurs_at q m j" by (simp add: py_find_None_iff)
    with a have "{i. occurs_at q m i} = {a}"
      by (auto simp: Suc_le_eq) (metis linorder_neqE_nat)
    with None first show ?thesis by (auto simp: collect_occurrences.simps[of q m "[a]"])
  next
    case (Some b)
    then have "occurs_at q m b" "a < b" by (auto simp: py_find_Some_iff)
    with a have "{i. occurs_at q m i} \<noteq> {p}" by (metis mem_Collect_eq nat_neq_iff singletonD)
    moreover have "collect_occurrences q m [a] (a + 1) = [a, b]"
      using Some by (simp add: collect_occurrences.simps[of q m "[a]"])
    ultimately show ?thesis using first by simp
  qed
qed

text \<open>What the candidate value must have to do with the quote it is taken from.\<close>

definition value_in_quote :: "pystr \<Rightarrow> pystr \<Rightarrow> bool" where
  "value_in_quote source_quote candidate_value \<longleftrightarrow>
     (case normalize_order_id (JStr candidate_value) of
        Inl _ \<Rightarrow> candidate_value \<noteq> [] \<and> py_in candidate_value source_quote
      | Inr n \<Rightarrow> source_quote_contains_exact_order_id source_quote n)"

lemma exact_slice: "occurs_at q m s \<Longrightarrow> take (length q) (drop s m) = q"
  by (simp add: occurs_at_def)

lemma exact_source_span_v2_Inr:
  "exact_source_span_v2 m q v = Inr (s, e, h) \<longleftrightarrow>
     q \<noteq> [] \<and> q \<noteq> m \<and> {i. occurs_at q m i} = {s} \<and> value_in_quote q v
     \<and> e = s + length q \<and> h = sha256_hexdigest (utf8 q)"
proof (cases "\<exists>p. {i. occurs_at q m i} = {p}")
  case True
  then obtain p where p: "{i. occurs_at q m i} = {p}" by blast
  then have occ: "collect_occurrences q m [] 0 = [p]" by (simp add: collect_occurrences_one)
  from p have slice: "take (length q) (drop p m) = q" using exact_slice by blast
  show ?thesis
    unfolding exact_source_span_v2_def Let_def occ value_in_quote_def p
    by (cases "normalize_order_id (JStr v)") (auto simp: res_bind_Inr_iff slice)
next
  case False
  then have "length (collect_occurrences q m [] 0) \<noteq> 1"
    using collect_occurrences_one[of q m] by (auto simp: length_Suc_conv)
  then have "exact_source_span_v2 m q v \<noteq> Inr (s, e, h)"
    by (simp add: exact_source_span_v2_def Let_def res_bind_Inr_iff)
  moreover have "{i. occurs_at q m i} \<noteq> {s}" using False by blast
  ultimately show ?thesis by blast
qed

lemma exact_source_span_v2_Inl:
  "exact_source_span_v2 m q v = Inl e \<Longrightarrow> e = Aggregate SOURCE_PROVENANCE_INVALID"
  by (auto simp: exact_source_span_v2_def Let_def res_bind_Inl_iff split: sum.splits)

end
