(* ===== verification/Closure.thy ===== *)
theory Closure
  imports Provenance
begin

section \<open>The durable Request Understanding closure (core/request_processing.py, lines 180--1125)\<close>

text \<open>
  Projection of the model's candidates to durable ones, the checks that tie validation decisions
  and accepted deltas to the emitted candidates, and \<open>build_request_understanding_closure_v2\<close>,
  which returns one complete closure or one bounded failure code.
\<close>

subsection \<open>Projection\<close>

definition project_resolved_reference_v2 ::
  "messages \<Rightarrow> resolved_reference \<Rightarrow> durable_resolved_reference ru" where
  "project_resolved_reference_v2 authoritative_messages candidate =
     res_bind (authoritative_message_v2 authoritative_messages (rr_source_ref candidate)) (\<lambda>message.
     res_bind (exact_source_span_v2 message (rr_source_quote candidate) (rr_candidate_value candidate))
       (\<lambda>(start, end', quote_hash).
     or_raise (new_durable_resolved_reference
       \<lparr>drr_name = rr_name candidate,
        drr_candidate_value = rr_candidate_value candidate,
        drr_source_kind = rr_source_kind candidate,
        drr_source_ref = rr_source_ref candidate,
        drr_source_span_start = start,
        drr_source_span_end_exclusive = end',
        drr_source_quote_sha256 = quote_hash,
        drr_confidence = rr_confidence candidate\<rparr>) (Aggregate MODEL_OUTPUT_SCHEMA_INVALID)))"

definition project_input_candidate_v2 :: "messages \<Rightarrow> input_candidate \<Rightarrow> durable_input_candidate ru" where
  "project_input_candidate_v2 authoritative_messages candidate =
     res_bind (authoritative_message_v2 authoritative_messages (ic_source_ref candidate)) (\<lambda>message.
     res_bind (exact_source_span_v2 message (ic_source_quote candidate) (ic_candidate_value candidate))
       (\<lambda>(start, end', quote_hash).
     or_raise (new_durable_input_candidate
       \<lparr>dic_name = ic_name candidate,
        dic_candidate_value = ic_candidate_value candidate,
        dic_semantic_role = ic_semantic_role candidate,
        dic_authority = ic_authority candidate,
        dic_source_kind = ic_source_kind candidate,
        dic_source_ref = ic_source_ref candidate,
        dic_source_span_start = start,
        dic_source_span_end_exclusive = end',
        dic_source_quote_sha256 = quote_hash,
        dic_confidence = ic_confidence candidate\<rparr>) (Aggregate MODEL_OUTPUT_SCHEMA_INVALID)))"

definition project_contextualization_v2 ::
  "messages \<Rightarrow> contextualization \<Rightarrow> durable_contextualization ru" where
  "project_contextualization_v2 authoritative_messages c =
     res_bind (res_map (authoritative_message_v2 authoritative_messages) (cx_source_message_refs c)) (\<lambda>_.
     res_bind (res_map (project_resolved_reference_v2 authoritative_messages)
       (cx_resolved_reference_candidates c)) (\<lambda>projected_references.
     or_raise (new_durable_contextualization
       \<lparr>dcx_text = cx_text c,
        dcx_resolved_reference_candidates = projected_references,
        dcx_uncertainties = cx_uncertainties c,
        dcx_source_message_refs = cx_source_message_refs c\<rparr>) (Aggregate MODEL_OUTPUT_SCHEMA_INVALID)))"

definition project_task_delta_v2 ::
  "messages \<Rightarrow> task_delta_candidate \<Rightarrow> durable_task_delta_candidate ru" where
  "project_task_delta_v2 authoritative_messages candidate =
     res_bind (res_map (project_input_candidate_v2 authoritative_messages)
       (tdc_input_candidates candidate)) (\<lambda>projected_inputs.
     or_raise (new_durable_task_delta_candidate
       \<lparr>dtd_candidate_id = tdc_candidate_id candidate,
        dtd_operation = tdc_operation candidate,
        dtd_goal_patch = tdc_goal_patch candidate,
        dtd_input_candidates = projected_inputs,
        dtd_confidence = tdc_confidence candidate\<rparr>) (Aggregate MODEL_OUTPUT_SCHEMA_INVALID))"

definition validate_input_visible_source_scope_v2 :: "request_input \<Rightarrow> request_output \<Rightarrow> unit ru" where
  "validate_input_visible_source_scope_v2 request_input output =
     (let current_ref = ri_message_ref request_input;
          recent_refs = set (ri_recent_message_refs request_input);
          visible_refs = insert current_ref recent_refs
      in res_bind (raise_if
            (\<exists>source_ref\<in>set (cx_source_message_refs (ro_contextualization output)).
               source_ref \<notin> visible_refs) (Aggregate SOURCE_PROVENANCE_INVALID)) (\<lambda>_.
         raise_if
            (\<exists>resolved\<in>set (cx_resolved_reference_candidates (ro_contextualization output)).
               (rr_source_kind resolved = REF_CURRENT_MESSAGE \<and> rr_source_ref resolved \<noteq> current_ref)
               \<or> (rr_source_kind resolved = REF_RECENT_MESSAGE
                  \<and> (rr_source_ref resolved = current_ref \<or> rr_source_ref resolved \<notin> recent_refs)))
            (Aggregate SOURCE_PROVENANCE_INVALID)))"

subsection \<open>RequestUnderstandingClosureV2\<close>

record ru_closure =
  cl_record :: ru_record
  cl_accepted_task_deltas :: "accepted_task_delta list"

definition closure_child_guards :: "ru_record \<Rightarrow> accepted_task_delta \<Rightarrow> (bool \<times> string) list" where
  "closure_child_guards record' child =
     (let candidate = map_of (dict_by dtd_candidate_id (rc_task_delta_candidates record')) (ad_candidate_ref child)
      in [(case candidate of None \<Rightarrow> True
           | Some c \<Rightarrow> ad_message_ref child \<noteq> rc_message_ref record'
               \<or> ad_operation child \<noteq> dtd_operation c \<or> ad_goal_text child \<noteq> dtd_goal_patch c,
           ''v2 accepted child must preserve its Candidate projection''),
          (has_duplicates (ad_input_binding_refs child), ''v2 accepted child InputBinding refs must be unique''),
          (ad_accepted_at child \<noteq> rc_created_at record',
           ''v2 parent and children must share one trusted timestamp'')])"

definition closure_guards :: "ru_closure \<Rightarrow> (bool \<times> string) list" where
  "closure_guards c =
     (let record' = cl_record c; children = cl_accepted_task_deltas c;
          accepted_candidate_refs =
            map fst (filter (\<lambda>(_, d). is_accept d) (dict_by cv_candidate_ref (rc_candidate_validation record')));
          child_candidate_refs = map ad_candidate_ref children;
          child_ids = map ad_accepted_delta_id children
      in [(\<not> canonical_ru_record record' \<or> \<not> list_all (accepts new_accepted_task_delta) children,
           ''v2 closure requires canonical records''),
          (has_duplicates child_candidate_refs \<or> has_duplicates child_ids
             \<or> set child_candidate_refs \<noteq> set accepted_candidate_refs
             \<or> set child_ids \<noteq> set (rc_accepted_delta_refs record'),
           ''v2 closure children must match the exact accepted Candidate set'')]
         @ concat (map (closure_child_guards record') children))"

definition new_ru_closure :: "ru_closure \<Rightarrow> validation_error + ru_closure" where
  "new_ru_closure c = construct [] (closure_guards c) c"

subsection \<open>_validate_durable_closure_v2\<close>

definition closure_failed :: ru_error where
  "closure_failed = Atomic DURABLE_CLOSURE_COMMIT_FAILED"

text \<open>The last loop: per Task, versions start from a null base and grow by one.\<close>

fun validate_version_chain ::
  "(uuid \<times> accepted_task_delta) list \<Rightarrow> task_delta_candidate list \<Rightarrow> (uuid \<Rightarrow> int option) \<Rightarrow> unit ru" where
  "validate_version_chain child_by_candidate [] last_version_by_task = Inr ()"
| "validate_version_chain child_by_candidate (candidate # rest) last_version_by_task =
     (case map_of child_by_candidate (tdc_candidate_id candidate) of
        None \<Rightarrow> validate_version_chain child_by_candidate rest last_version_by_task
      | Some child \<Rightarrow>
          let broken = (case last_version_by_task (ad_task_id child) of
                None \<Rightarrow> ad_base_task_state_version child \<noteq> None
              | Some previous \<Rightarrow> ad_base_task_state_version child \<noteq> Some previous
                  \<or> ad_result_task_state_version child \<noteq> previous + 1)
          in if broken then Inl closure_failed
             else validate_version_chain child_by_candidate rest
               (last_version_by_task(ad_task_id child \<mapsto> ad_result_task_state_version child)))"

definition validate_durable_closure_v2 ::
  "request_output \<Rightarrow> candidate_validation_record list \<Rightarrow> accepted_task_delta list \<Rightarrow> datetime \<Rightarrow> unit ru" where
  "validate_durable_closure_v2 output candidate_validation accepted_task_deltas now =
     (let emitted_ids = map tdc_candidate_id (ro_task_delta_candidates output);
          validation_refs = map cv_candidate_ref candidate_validation;
          accepted_candidate_refs = map cv_candidate_ref (filter is_accept candidate_validation);
          child_candidate_refs = map ad_candidate_ref accepted_task_deltas;
          accepted_delta_ids = map ad_accepted_delta_id accepted_task_deltas;
          child_pairs = map (\<lambda>c. (ad_accepted_delta_id c, ad_task_id c)) accepted_task_deltas;
          emitted_by_id = dict_by tdc_candidate_id (ro_task_delta_candidates output);
          child_by_candidate = dict_by ad_candidate_ref accepted_task_deltas
      in res_bind (raise_if (has_duplicates validation_refs \<or> set validation_refs \<noteq> set emitted_ids)
            closure_failed) (\<lambda>_.
         res_bind (raise_if (has_duplicates child_candidate_refs
              \<or> set child_candidate_refs \<noteq> set accepted_candidate_refs
              \<or> has_duplicates accepted_delta_ids \<or> has_duplicates child_pairs) closure_failed) (\<lambda>_.
         res_bind (raise_if (\<exists>child\<in>set accepted_task_deltas.
              (case map_of emitted_by_id (ad_candidate_ref child) of None \<Rightarrow> True
               | Some emitted \<Rightarrow> ad_message_ref child \<noteq> ro_message_ref output
                   \<or> ad_accepted_at child \<noteq> now \<or> ad_operation child \<noteq> tdc_operation emitted
                   \<or> has_duplicates (ad_input_binding_refs child))) closure_failed) (\<lambda>_.
         validate_version_chain child_by_candidate (ro_task_delta_candidates output) Map.empty))))"

subsection \<open>build_request_understanding_closure_v2\<close>

definition build_request_understanding_closure_v2 ::
  "request_input pyobj \<Rightarrow> request_output pyobj \<Rightarrow> messages \<Rightarrow> uuid
   \<Rightarrow> candidate_validation_record pyobj list \<Rightarrow> accepted_task_delta pyobj list
   \<Rightarrow> int option \<Rightarrow> int option \<Rightarrow> uuid option \<Rightarrow> datetime \<Rightarrow> ru_closure ru" where
  "build_request_understanding_closure_v2 request_input output authoritative_messages record_id
     candidate_validation accepted_task_deltas proposed_base_task_state_version
     validated_task_state_version next_move_candidate_ref now =
     res_bind (canonical_request_input_v2 request_input) (\<lambda>canonical_input.
     res_bind (canonical_request_output_v2 output) (\<lambda>canonical_output.
     res_bind (canonical_candidate_validation_v2 candidate_validation) (\<lambda>canonical_validation.
     res_bind (canonical_accepted_task_deltas_v2 accepted_task_deltas) (\<lambda>canonical_children.
     res_bind (or_raise (require_utc now ''now'') closure_failed) (\<lambda>_.
     res_bind (raise_if (ri_message_ref canonical_input \<noteq> ro_message_ref canonical_output)
       (Aggregate SOURCE_PROVENANCE_INVALID)) (\<lambda>_.
     res_bind (validate_input_visible_source_scope_v2 canonical_input canonical_output) (\<lambda>_.
     res_bind (authoritative_message_v2 authoritative_messages (ri_message_ref canonical_input)) (\<lambda>current_message.
     res_bind (raise_if (current_message \<noteq> ri_original_query canonical_input)
       (Aggregate SOURCE_PROVENANCE_INVALID)) (\<lambda>_.
     res_bind (raise_if (proposed_base_task_state_version
         \<noteq> nm_base_task_state_version (ro_next_move_candidate canonical_output)) closure_failed) (\<lambda>_.
     res_bind (raise_if (next_move_candidate_ref = None
         \<and> (proposed_base_task_state_version \<noteq> None \<or> validated_task_state_version \<noteq> None)) closure_failed) (\<lambda>_.
     res_bind (project_contextualization_v2 authoritative_messages (ro_contextualization canonical_output))
       (\<lambda>projected_contextualization.
     res_bind (res_map (project_task_delta_v2 authoritative_messages) (ro_task_delta_candidates canonical_output))
       (\<lambda>projected_candidates.
     res_bind (validate_durable_closure_v2 canonical_output canonical_validation canonical_children now) (\<lambda>_.
     or_raise
       (res_bind (new_ru_record
          \<lparr>rc_request_understanding_record_id = record_id,
           rc_run_id = ri_run_id canonical_input,
           rc_message_ref = ro_message_ref canonical_output,
           rc_schema_version = str ''request_understanding_record.p0.v2'',
           rc_model_input_schema_version = ri_schema_version canonical_input,
           rc_model_output_schema_version = ro_schema_version canonical_output,
           rc_contextualization = projected_contextualization,
           rc_task_delta_candidates = projected_candidates,
           rc_candidate_validation = canonical_validation,
           rc_accepted_delta_refs = map ad_accepted_delta_id canonical_children,
           rc_proposed_base_task_state_version = proposed_base_task_state_version,
           rc_validated_task_state_version = validated_task_state_version,
           rc_next_move_candidate_ref = next_move_candidate_ref,
           rc_created_at = now\<rparr>) (\<lambda>record'.
        new_ru_closure \<lparr>cl_record = record', cl_accepted_task_deltas = canonical_children\<rparr>))
       closure_failed))))))))))))))"

subsection \<open>What a projection certifies\<close>

text \<open>
  \<open>span_certified\<close>: the recorded span is a proper, exact-once slice of the authoritative message,
  the recorded hash is its SHA-256, and the candidate value comes from it.
\<close>

definition span_certified :: "messages \<Rightarrow> uuid \<Rightarrow> nat \<Rightarrow> nat \<Rightarrow> pystr \<Rightarrow> pystr \<Rightarrow> bool" where
  "span_certified authoritative_messages source_ref start end' quote_hash candidate_value \<longleftrightarrow>
     (case authoritative_messages source_ref of None \<Rightarrow> False
      | Some message \<Rightarrow>
          let quote = take (end' - start) (drop start message)
          in start < end' \<and> end' \<le> length message \<and> quote \<noteq> message
             \<and> list_all (\<lambda>i. occurs_at quote message i \<longleftrightarrow> i = start) [0..<Suc (length message)]
             \<and> value_in_quote quote candidate_value \<and> quote_hash = sha256_hexdigest (utf8 quote))"

definition input_certified :: "messages \<Rightarrow> input_candidate \<Rightarrow> durable_input_candidate \<Rightarrow> bool" where
  "input_certified msgs c d \<longleftrightarrow>
     dic_name d = ic_name c \<and> dic_candidate_value d = ic_candidate_value c
     \<and> dic_semantic_role d = ic_semantic_role c \<and> dic_authority d = ic_authority c
     \<and> dic_source_kind d = ic_source_kind c \<and> dic_source_ref d = ic_source_ref c
     \<and> dic_confidence d = ic_confidence c \<and> accepts new_durable_input_candidate d
     \<and> span_certified msgs (dic_source_ref d) (dic_source_span_start d)
         (dic_source_span_end_exclusive d) (dic_source_quote_sha256 d) (dic_candidate_value d)"

definition reference_certified :: "messages \<Rightarrow> resolved_reference \<Rightarrow> durable_resolved_reference \<Rightarrow> bool" where
  "reference_certified msgs c d \<longleftrightarrow>
     drr_name d = rr_name c \<and> drr_candidate_value d = rr_candidate_value c
     \<and> drr_source_kind d = rr_source_kind c \<and> drr_source_ref d = rr_source_ref c
     \<and> drr_confidence d = rr_confidence c \<and> accepts new_durable_resolved_reference d
     \<and> span_certified msgs (drr_source_ref d) (drr_source_span_start d)
         (drr_source_span_end_exclusive d) (drr_source_quote_sha256 d) (drr_candidate_value d)"

definition delta_certified :: "messages \<Rightarrow> task_delta_candidate \<Rightarrow> durable_task_delta_candidate \<Rightarrow> bool" where
  "delta_certified msgs c d \<longleftrightarrow>
     dtd_candidate_id d = tdc_candidate_id c \<and> dtd_operation d = tdc_operation c
     \<and> dtd_goal_patch d = tdc_goal_patch c \<and> dtd_confidence d = tdc_confidence c
     \<and> list_all2 (input_certified msgs) (tdc_input_candidates c) (dtd_input_candidates d)
     \<and> canonical_durable_candidate d"

definition contextualization_certified :: "messages \<Rightarrow> contextualization \<Rightarrow> durable_contextualization \<Rightarrow> bool" where
  "contextualization_certified msgs c d \<longleftrightarrow>
     dcx_text d = cx_text c \<and> dcx_uncertainties d = cx_uncertainties c
     \<and> dcx_source_message_refs d = cx_source_message_refs c
     \<and> list_all2 (reference_certified msgs) (cx_resolved_reference_candidates c)
         (dcx_resolved_reference_candidates d)
     \<and> accepts new_durable_contextualization d"

lemma authoritative_message_v2_Inr:
  "authoritative_message_v2 msgs r = Inr m \<longleftrightarrow> msgs r = Some m \<and> m \<noteq> []"
  by (auto simp: authoritative_message_v2_def split: option.splits)

lemma span_certifiedI:
  assumes "msgs r = Some m" "exact_source_span_v2 m q v = Inr (s, e, h)"
  shows "span_certified msgs r s e h v"
proof -
  from assms(2) have q: "q \<noteq> []" "q \<noteq> m" "{i. occurs_at q m i} = {s}" "value_in_quote q v"
      "e = s + length q" "h = sha256_hexdigest (utf8 q)"
    by (auto simp: exact_source_span_v2_Inr)
  have occ: "occurs_at q m i \<longleftrightarrow> i = s" for i using q(3) by blast
  then have slice: "take (e - s) (drop s m) = q" and "e \<le> length m"
    using q(5) by (auto simp: occurs_at_def)
  with assms(1) q occ show ?thesis
    by (simp add: span_certified_def Let_def list_all_iff)
qed

lemma project_input_candidate_v2_certified:
  assumes "project_input_candidate_v2 msgs c = Inr d"
  shows "input_certified msgs c d"
proof -
  from assms obtain m s e h where m: "msgs (ic_source_ref c) = Some m"
    and span: "exact_source_span_v2 m (ic_source_quote c) (ic_candidate_value c) = Inr (s, e, h)"
    and d: "new_durable_input_candidate \<lparr>dic_name = ic_name c, dic_candidate_value = ic_candidate_value c,
        dic_semantic_role = ic_semantic_role c, dic_authority = ic_authority c,
        dic_source_kind = ic_source_kind c, dic_source_ref = ic_source_ref c, dic_source_span_start = s,
        dic_source_span_end_exclusive = e, dic_source_quote_sha256 = h, dic_confidence = ic_confidence c\<rparr> = Inr d"
    by (auto simp: project_input_candidate_v2_def res_bind_Inr_iff authoritative_message_v2_Inr)
  from d have eq: "d = \<lparr>dic_name = ic_name c, dic_candidate_value = ic_candidate_value c,
        dic_semantic_role = ic_semantic_role c, dic_authority = ic_authority c,
        dic_source_kind = ic_source_kind c, dic_source_ref = ic_source_ref c, dic_source_span_start = s,
        dic_source_span_end_exclusive = e, dic_source_quote_sha256 = h, dic_confidence = ic_confidence c\<rparr>"
    by (simp add: new_durable_input_candidate_def construct_Inr_iff)
  from d eq have "accepts new_durable_input_candidate d" by (simp add: accepts_iff)
  with eq span_certifiedI[of msgs, OF m span] show ?thesis by (simp add: input_certified_def)
qed

lemma project_resolved_reference_v2_certified:
  assumes "project_resolved_reference_v2 msgs c = Inr d"
  shows "reference_certified msgs c d"
proof -
  from assms obtain m s e h where m: "msgs (rr_source_ref c) = Some m"
    and span: "exact_source_span_v2 m (rr_source_quote c) (rr_candidate_value c) = Inr (s, e, h)"
    and d: "new_durable_resolved_reference \<lparr>drr_name = rr_name c, drr_candidate_value = rr_candidate_value c,
        drr_source_kind = rr_source_kind c, drr_source_ref = rr_source_ref c, drr_source_span_start = s,
        drr_source_span_end_exclusive = e, drr_source_quote_sha256 = h, drr_confidence = rr_confidence c\<rparr> = Inr d"
    by (auto simp: project_resolved_reference_v2_def res_bind_Inr_iff authoritative_message_v2_Inr)
  from d have eq: "d = \<lparr>drr_name = rr_name c, drr_candidate_value = rr_candidate_value c,
        drr_source_kind = rr_source_kind c, drr_source_ref = rr_source_ref c, drr_source_span_start = s,
        drr_source_span_end_exclusive = e, drr_source_quote_sha256 = h, drr_confidence = rr_confidence c\<rparr>"
    by (simp add: new_durable_resolved_reference_def construct_Inr_iff)
  from d eq have "accepts new_durable_resolved_reference d" by (simp add: accepts_iff)
  with eq span_certifiedI[of msgs, OF m span] show ?thesis by (simp add: reference_certified_def)
qed

lemma project_task_delta_v2_certified:
  assumes "project_task_delta_v2 msgs c = Inr d"
  shows "delta_certified msgs c d"
proof -
  from assms obtain inputs where i: "res_map (project_input_candidate_v2 msgs) (tdc_input_candidates c) = Inr inputs"
    and d: "new_durable_task_delta_candidate \<lparr>dtd_candidate_id = tdc_candidate_id c,
        dtd_operation = tdc_operation c, dtd_goal_patch = tdc_goal_patch c,
        dtd_input_candidates = inputs, dtd_confidence = tdc_confidence c\<rparr> = Inr d"
    by (auto simp: project_task_delta_v2_def res_bind_Inr_iff)
  from d have eq: "d = \<lparr>dtd_candidate_id = tdc_candidate_id c,
        dtd_operation = tdc_operation c, dtd_goal_patch = tdc_goal_patch c,
        dtd_input_candidates = inputs, dtd_confidence = tdc_confidence c\<rparr>"
    by (simp add: new_durable_task_delta_candidate_def construct_Inr_iff)
  from i have all2: "list_all2 (input_certified msgs) (tdc_input_candidates c) inputs"
    unfolding res_map_Inr_iff by (rule list_all2_mono) (rule project_input_candidate_v2_certified)
  then have "list_all (accepts new_durable_input_candidate) inputs"
    by (induction rule: list_all2_induct) (simp_all add: input_certified_def)
  with d eq all2 show ?thesis
    by (simp add: delta_certified_def canonical_durable_candidate_def accepts_iff)
qed

lemma project_contextualization_v2_certified:
  assumes "project_contextualization_v2 msgs c = Inr d"
  shows "contextualization_certified msgs c d"
proof -
  from assms obtain rs where r: "res_map (project_resolved_reference_v2 msgs)
      (cx_resolved_reference_candidates c) = Inr rs"
    and d: "new_durable_contextualization \<lparr>dcx_text = cx_text c, dcx_resolved_reference_candidates = rs,
        dcx_uncertainties = cx_uncertainties c, dcx_source_message_refs = cx_source_message_refs c\<rparr> = Inr d"
    by (auto simp: project_contextualization_v2_def res_bind_Inr_iff)
  from d have eq: "d = \<lparr>dcx_text = cx_text c, dcx_resolved_reference_candidates = rs,
        dcx_uncertainties = cx_uncertainties c, dcx_source_message_refs = cx_source_message_refs c\<rparr>"
    by (simp add: new_durable_contextualization_def construct_Inr_iff)
  from r have "list_all2 (reference_certified msgs) (cx_resolved_reference_candidates c) rs"
    unfolding res_map_Inr_iff by (rule list_all2_mono) (rule project_resolved_reference_v2_certified)
  with d eq show ?thesis by (simp add: contextualization_certified_def accepts_iff)
qed

lemma res_map_project_certified:
  "res_map (project_task_delta_v2 msgs) cs = Inr ds \<Longrightarrow> list_all2 (delta_certified msgs) cs ds"
  unfolding res_map_Inr_iff by (erule list_all2_mono) (rule project_task_delta_v2_certified)

lemma deltas_certified_ids:
  "list_all2 (delta_certified msgs) cs ds \<Longrightarrow> map dtd_candidate_id ds = map tdc_candidate_id cs"
  by (induction rule: list_all2_induct) (simp_all add: delta_certified_def)

lemma deltas_certified_canonical:
  "list_all2 (delta_certified msgs) cs ds \<Longrightarrow> list_all canonical_durable_candidate ds"
  by (induction rule: list_all2_induct) (simp_all add: delta_certified_def)

lemma list_all_certified_references:
  "list_all2 (reference_certified msgs) cs ds \<Longrightarrow> list_all (accepts new_durable_resolved_reference) ds"
  by (induction rule: list_all2_induct) (simp_all add: reference_certified_def)

lemma certified_contextualization_canonical:
  assumes "contextualization_certified msgs c d" "list_all (accepts new_uncertainty) (cx_uncertainties c)"
  shows "canonical_durable_contextualization d"
  using assms by (auto simp: contextualization_certified_def canonical_durable_contextualization_def
      dest: list_all_certified_references)

subsection \<open>What a built closure is\<close>

text \<open>
  \<open>projection_ok\<close> collects the checks on the input, the output and their sources, which the
  builder and the reducer's preflight both make.
\<close>

definition projection_ok ::
  "messages \<Rightarrow> request_input \<Rightarrow> request_output \<Rightarrow> durable_contextualization
   \<Rightarrow> durable_task_delta_candidate list \<Rightarrow> bool" where
  "projection_ok msgs ri ro context candidates \<longleftrightarrow>
     canonical_request_input ri \<and> ri_schema_version_set ri \<and> canonical_request_output ro
     \<and> ri_message_ref ri = ro_message_ref ro
     \<and> validate_input_visible_source_scope_v2 ri ro = Inr ()
     \<and> authoritative_message_v2 msgs (ri_message_ref ri) = Inr (ri_original_query ri)
     \<and> project_contextualization_v2 msgs (ro_contextualization ro) = Inr context
     \<and> res_map (project_task_delta_v2 msgs) (ro_task_delta_candidates ro) = Inr candidates"

definition closure_record ::
  "request_input \<Rightarrow> request_output \<Rightarrow> uuid \<Rightarrow> durable_contextualization \<Rightarrow> durable_task_delta_candidate list
   \<Rightarrow> candidate_validation_record list \<Rightarrow> accepted_task_delta list \<Rightarrow> int option \<Rightarrow> int option
   \<Rightarrow> uuid option \<Rightarrow> datetime \<Rightarrow> ru_record" where
  "closure_record ri ro record_id context candidates validation children proposed validated move_ref now =
     \<lparr>rc_request_understanding_record_id = record_id,
      rc_run_id = ri_run_id ri,
      rc_message_ref = ro_message_ref ro,
      rc_schema_version = str ''request_understanding_record.p0.v2'',
      rc_model_input_schema_version = ri_schema_version ri,
      rc_model_output_schema_version = ro_schema_version ro,
      rc_contextualization = context,
      rc_task_delta_candidates = candidates,
      rc_candidate_validation = validation,
      rc_accepted_delta_refs = map ad_accepted_delta_id children,
      rc_proposed_base_task_state_version = proposed,
      rc_validated_task_state_version = validated,
      rc_next_move_candidate_ref = move_ref,
      rc_created_at = now\<rparr>"

lemma new_ru_record_Inr: "new_ru_record r = Inr r' \<Longrightarrow> r' = r"
  by (simp add: new_ru_record_def construct_Inr_iff)

lemma new_ru_closure_Inr: "new_ru_closure c = Inr c' \<Longrightarrow> c' = c"
  by (simp add: new_ru_closure_def construct_Inr_iff)

lemma build_closure_Inr_iff:
  "build_request_understanding_closure_v2 (Obj ri []) (Obj ro []) msgs record_id
     (map (\<lambda>v. Obj v []) validation) (map (\<lambda>c. Obj c []) children) proposed validated move_ref now = Inr cl
   \<longleftrightarrow> (\<exists>context candidates. projection_ok msgs ri ro context candidates
        \<and> list_all (accepts new_candidate_validation_record) validation
        \<and> list_all (accepts new_accepted_task_delta) children
        \<and> is_utc now \<and> proposed = nm_base_task_state_version (ro_next_move_candidate ro)
        \<and> (move_ref = None \<longrightarrow> proposed = None \<and> validated = None)
        \<and> validate_durable_closure_v2 ro validation children now = Inr ()
        \<and> accepts new_ru_record (closure_record ri ro record_id context candidates validation children
             proposed validated move_ref now)
        \<and> cl = \<lparr>cl_record = closure_record ri ro record_id context candidates validation children
             proposed validated move_ref now, cl_accepted_task_deltas = children\<rparr>
        \<and> accepts new_ru_closure cl)" (is "?L \<longleftrightarrow> ?R")
proof -
  have list: "res_map (canonical_durable_element new_x) (map (\<lambda>x. Obj x []) xs) = Inr ys
      \<longleftrightarrow> ys = xs \<and> list_all (accepts new_x) xs" for new_x :: "'a \<Rightarrow> validation_error + 'a" and xs ys
    by (auto simp: res_map_Inr_iff canonical_durable_element_iff list_all2_map1 list_all2_conv_all_nth
        list_all_length intro: nth_equalityI)
  show ?thesis
  proof
    assume ?L
    then show ?R
      unfolding build_request_understanding_closure_v2_def res_bind_Inr_iff raise_if_Inr_iff or_raise_Inr_iff
        canonical_request_input_v2_iff canonical_request_output_v2_iff canonical_candidate_validation_v2_def
        canonical_accepted_task_deltas_v2_def list projection_ok_def closure_record_def require_utc_iff
      by (auto simp: accepts_iff dest: new_ru_record_Inr new_ru_closure_Inr)
  next
    assume ?R
    then show ?L
      unfolding build_request_understanding_closure_v2_def res_bind_Inr_iff raise_if_Inr_iff or_raise_Inr_iff
        canonical_request_input_v2_iff canonical_request_output_v2_iff canonical_candidate_validation_v2_def
        canonical_accepted_task_deltas_v2_def list projection_ok_def closure_record_def require_utc_iff
      by (fastforce simp: accepts_iff)
  qed
qed

text \<open>The builder only accepts exact instances.\<close>

lemma canonical_list_exact:
  assumes "res_map (canonical_durable_element new_x) xs = Inr zs"
  shows "xs = map (\<lambda>y. Obj y []) zs"
proof -
  from assms have "list_all2 (\<lambda>x z. x = Obj z []) xs zs"
    unfolding res_map_Inr_iff by (rule list_all2_mono) (simp add: canonical_durable_element_iff)
  then show ?thesis by (induction rule: list_all2_induct) simp_all
qed

lemma build_closure_Inr_exact:
  assumes "build_request_understanding_closure_v2 vi vo msgs record_id vals childs proposed validated move_ref now
    = Inr cl"
  obtains ri ro validation children where "vi = Obj ri []" "vo = Obj ro []"
    "vals = map (\<lambda>v. Obj v []) validation" "childs = map (\<lambda>c. Obj c []) children"
proof -
  from assms obtain ri ro zs1 zs2 where "canonical_request_input_v2 vi = Inr ri"
    "canonical_request_output_v2 vo = Inr ro" "canonical_candidate_validation_v2 vals = Inr zs1"
    "canonical_accepted_task_deltas_v2 childs = Inr zs2"
    unfolding build_request_understanding_closure_v2_def res_bind_Inr_iff by blast
  then have "vi = Obj ri []" "vo = Obj ro []"
    "vals = map (\<lambda>v. Obj v []) zs1" "childs = map (\<lambda>c. Obj c []) zs2"
    by (simp_all add: canonical_request_input_v2_iff canonical_request_output_v2_iff
        canonical_candidate_validation_v2_def canonical_accepted_task_deltas_v2_def canonical_list_exact)
  with that show ?thesis by blast
qed

lemma projection_ok_certified:
  assumes "projection_ok msgs ri ro context candidates"
  shows "contextualization_certified msgs (ro_contextualization ro) context"
    and "list_all2 (delta_certified msgs) (ro_task_delta_candidates ro) candidates"
    and "canonical_durable_contextualization context"
    and "list_all canonical_durable_candidate candidates"
    and "map dtd_candidate_id candidates = map tdc_candidate_id (ro_task_delta_candidates ro)"
proof -
  show c: "contextualization_certified msgs (ro_contextualization ro) context"
    and d: "list_all2 (delta_certified msgs) (ro_task_delta_candidates ro) candidates"
    using assms by (simp_all add: projection_ok_def project_contextualization_v2_certified
        res_map_project_certified)
  from assms have "list_all (accepts new_uncertainty) (cx_uncertainties (ro_contextualization ro))"
    by (simp add: projection_ok_def canonical_request_output_def canonical_contextualization_def)
  with c show "canonical_durable_contextualization context"
    by (rule certified_contextualization_canonical)
  from d show "list_all canonical_durable_candidate candidates"
    and "map dtd_candidate_id candidates = map tdc_candidate_id (ro_task_delta_candidates ro)"
    by (simp_all add: deltas_certified_canonical deltas_certified_ids)
qed

lemma dict_by_accepted:
  assumes "distinct (map cv_candidate_ref vs)"
  shows "set (map fst (filter (\<lambda>(_, d). is_accept d) (dict_by cv_candidate_ref vs)))
       = cv_candidate_ref ` set (filter is_accept vs)"
  using assms by (force simp: dict_by_distinct)

text \<open>The children are exactly the accepted candidates, each once.\<close>

lemma closure_children_exact:
  assumes "accepts new_ru_closure cl"
  shows "canonical_ru_record (cl_record cl)"
    and "distinct (map ad_candidate_ref (cl_accepted_task_deltas cl))"
    and "distinct (map ad_accepted_delta_id (cl_accepted_task_deltas cl))"
    and "set (map ad_candidate_ref (cl_accepted_task_deltas cl))
       = cv_candidate_ref ` set (filter is_accept (rc_candidate_validation (cl_record cl)))"
    and "list_all (accepts new_accepted_task_delta) (cl_accepted_task_deltas cl)"
proof -
  from assms have g: "list_all (\<lambda>(c, _). \<not> c) (closure_guards cl)"
    by (simp add: accepts_iff new_ru_closure_def construct_Inr_iff)
  show can: "canonical_ru_record (cl_record cl)"
    and "distinct (map ad_candidate_ref (cl_accepted_task_deltas cl))"
    and "distinct (map ad_accepted_delta_id (cl_accepted_task_deltas cl))"
    and "list_all (accepts new_accepted_task_delta) (cl_accepted_task_deltas cl)"
    using g by (simp_all add: closure_guards_def Let_def)
  from can have "distinct (map cv_candidate_ref (rc_candidate_validation (cl_record cl)))"
    by (simp add: canonical_ru_record_def accepts_iff new_ru_record_def construct_Inr_iff
        record_graph_guards_def Let_def)
  from dict_by_accepted[OF this] g
  show "set (map ad_candidate_ref (cl_accepted_task_deltas cl))
      = cv_candidate_ref ` set (filter is_accept (rc_candidate_validation (cl_record cl)))"
    by (simp add: closure_guards_def Let_def)
qed

end
