(* ===== verification/Reduction.thy ===== *)
theory Reduction
  imports Closure
begin

section \<open>The initial-request reducer (core/request_processing.py, lines 1128--2063)\<close>

text \<open>
  \<open>validate_and_reduce_initial_request_v2\<close> turns one model output, with identities reserved by
  the caller, into one of three decisions: no Task, one routable Task graph with its NextMove, or
  several Task graphs without a shared NextMove. Every failure is one bounded code.

  Arguments the code distrusts at run time (the customer context and the reserved identities)
  are \<open>pyobj\<close>s; \<open>None\<close> as the allocations stands for an argument that is not a tuple. What
  pydantic serialises a decision to is the parameter \<open>serialise\<close>, a list of bytes.
\<close>

subsection \<open>Reserved identities and initial graphs\<close>

record identity_allocation =
  al_candidate_ref :: uuid
  al_accepted_delta_id :: uuid
  al_task_id :: uuid
  al_request_unit_id :: uuid
  al_binding_id :: uuid

definition generated_of :: "identity_allocation \<Rightarrow> uuid list" where
  "generated_of a = [al_accepted_delta_id a, al_task_id a, al_request_unit_id a, al_binding_id a]"

definition new_identity_allocation :: "identity_allocation \<Rightarrow> validation_error + identity_allocation" where
  "new_identity_allocation a = construct []
     [(has_duplicates (generated_of a), ''initial generated identities must be unique''),
      (al_candidate_ref a \<in> set (generated_of a),
       ''candidate identity cannot be reused as a record identity'')] a"

record initial_graph =
  ig_accepted_delta :: accepted_task_delta
  ig_input_binding :: input_binding
  ig_task :: task_record
  ig_request_unit :: request_unit_record

definition graph_timestamps :: "initial_graph \<Rightarrow> datetime list" where
  "graph_timestamps g =
     [ad_accepted_at (ig_accepted_delta g), ib_created_at (ig_input_binding g), ib_updated_at (ig_input_binding g),
      tk_created_at (ig_task g), tk_updated_at (ig_task g),
      ru_created_at (ig_request_unit g), ru_updated_at (ig_request_unit g)]"

definition initial_graph_guards :: "initial_graph \<Rightarrow> (bool \<times> string) list" where
  "initial_graph_guards g =
     (let child = ig_accepted_delta g; binding = ig_input_binding g;
          task = ig_task g; unit = ig_request_unit g
      in [(\<not> accepts new_accepted_task_delta child \<or> \<not> accepts new_input_binding binding
             \<or> \<not> accepts new_task_record task \<or> \<not> accepts new_request_unit_record unit,
           ''initial Task graph requires canonical records''),
          (has_duplicates [ad_accepted_delta_id child, ib_binding_id binding, tk_task_id task,
             ru_request_unit_id unit], ''initial Task graph identities must be unique''),
          (ad_operation child \<noteq> ADD_GOAL \<or> ad_task_id child \<noteq> tk_task_id task
             \<or> ad_base_task_state_version child \<noteq> None \<or> ad_result_task_state_version child \<noteq> 1
             \<or> ad_input_binding_refs child \<noteq> [ib_binding_id binding],
           ''accepted delta must define one initial Task effect''),
          (ib_name binding \<noteq> str ''order_id'' \<or> ib_authority binding \<noteq> USER_CLAIM
             \<or> ib_validation_status binding \<noteq> ACCEPTED \<or> \<not> ib_confirmed_by_user binding
             \<or> ib_source_refs binding \<noteq> [ad_message_ref child] \<or> ib_supersedes binding \<noteq> None,
           ''initial InputBinding must bind the accepted message''),
          (tk_status task \<noteq> ACTIVE \<or> tk_state_version task \<noteq> 1 \<or> tk_last_outcome_ref task \<noteq> None,
           ''initial Task must be clean ACTIVE/v1''),
          (ru_task_id unit \<noteq> tk_task_id task \<or> ru_goal_text unit \<noteq> ad_goal_text child
             \<or> ru_goal_source_refs unit \<noteq> [ad_message_ref child]
             \<or> ru_input_binding_refs unit \<noteq> [ib_binding_id binding]
             \<or> ru_status unit \<noteq> ACTIVE \<or> ru_state_version unit \<noteq> 1
             \<or> ru_contextualization_ref unit \<noteq> None \<or> ru_constraint_refs unit \<noteq> []
             \<or> ru_dependency_refs unit \<noteq> [] \<or> ru_open_questions unit \<noteq> []
             \<or> ru_observation_refs unit \<noteq> [] \<or> ru_evidence_binding_refs unit \<noteq> []
             \<or> ru_pending_action_ref unit \<noteq> None \<or> ru_result_refs unit \<noteq> [],
           ''initial RequestUnit must be a clean exact projection''),
          (length (remdups (map instant (graph_timestamps g))) \<noteq> 1,
           ''initial Task graph must use one trusted timestamp'')])"

definition new_initial_graph :: "initial_graph \<Rightarrow> validation_error + initial_graph" where
  "new_initial_graph g = construct [] (initial_graph_guards g) g"

subsection \<open>Checks shared by the decisions\<close>

definition validate_initial_graph_candidate_projection_v2 :: "ru_record \<Rightarrow> initial_graph \<Rightarrow> string + unit" where
  "validate_initial_graph_candidate_projection_v2 record' graph =
     (let child = ig_accepted_delta graph; binding = ig_input_binding graph
      in case filter (\<lambda>c. dtd_candidate_id c = ad_candidate_ref child) (rc_task_delta_candidates record') of
           [candidate] \<Rightarrow>
             (if ad_message_ref child \<noteq> rc_message_ref record' \<or> ad_operation child \<noteq> dtd_operation candidate
                 \<or> ad_goal_text child \<noteq> dtd_goal_patch candidate
                 \<or> length (dtd_input_candidates candidate) \<noteq> 1
              then Inl ''initial graph must preserve its accepted Candidate projection''
              else let candidate_input = hd (dtd_input_candidates candidate)
                in case normalize_order_id (JStr (dic_candidate_value candidate_input)) of
                     Inl _ \<Rightarrow> Inl ''initial graph Candidate InputBinding projection is invalid''
                   | Inr normalized_candidate_value \<Rightarrow>
                       raise_if (ib_name binding \<noteq> dic_name candidate_input
                           \<or> ib_normalized_value binding \<noteq> normalized_candidate_value
                           \<or> ib_authority binding \<noteq> dic_authority candidate_input
                           \<or> ib_source_refs binding \<noteq> [dic_source_ref candidate_input])
                         ''initial graph Candidate InputBinding projection mismatch'')
         | _ \<Rightarrow> Inl ''initial graph must bind one accepted Candidate'')"

definition graph_identities :: "initial_graph \<Rightarrow> uuid list" where
  "graph_identities g = [ad_accepted_delta_id (ig_accepted_delta g), tk_task_id (ig_task g),
     ru_request_unit_id (ig_request_unit g), ib_binding_id (ig_input_binding g)]"

definition validate_initial_graph_identity_closure_v2 :: "ru_record \<Rightarrow> initial_graph list \<Rightarrow> string + unit" where
  "validate_initial_graph_identity_closure_v2 record' graphs = checks
     [(has_duplicates (rc_request_understanding_record_id record' # concat (map graph_identities graphs)
         @ (case rc_next_move_candidate_ref record' of None \<Rightarrow> [] | Some r \<Rightarrow> [r])),
       ''initial decision record identities must be globally unique''),
      (\<exists>g\<in>set graphs. ad_base_task_state_version (ig_accepted_delta g) \<noteq> None
         \<or> ad_result_task_state_version (ig_accepted_delta g) \<noteq> 1
         \<or> ad_task_id (ig_accepted_delta g) \<noteq> tk_task_id (ig_task g)
         \<or> tk_state_version (ig_task g) \<noteq> 1 \<or> ru_state_version (ig_request_unit g) \<noteq> 1,
       ''each initial accepted Candidate requires one independent base-null/result-1 Task effect'')]"

subsection \<open>The three decisions\<close>

record no_task_decision =
  nt_closure :: ru_closure

definition new_no_task_decision :: "no_task_decision \<Rightarrow> validation_error + no_task_decision" where
  "new_no_task_decision d =
     (let record' = cl_record (nt_closure d)
      in construct []
        [(\<not> accepts new_ru_closure (nt_closure d), ''no-task decision requires a canonical closure''),
         (cl_accepted_task_deltas (nt_closure d) \<noteq> [] \<or> rc_accepted_delta_refs record' \<noteq> []
            \<or> list_ex is_accept (rc_candidate_validation record')
            \<or> rc_next_move_candidate_ref record' \<noteq> None
            \<or> rc_proposed_base_task_state_version record' \<noteq> None
            \<or> rc_validated_task_state_version record' \<noteq> None,
          ''no-task decision cannot carry a Task effect'')] d)"

record routable_decision =
  rd_closure :: ru_closure
  rd_task_graph :: initial_graph
  rd_next_move_candidate_ref :: uuid
  rd_next_move_candidate :: next_move

definition validate_initial_routable_decision_fields_v2 :: "routable_decision \<Rightarrow> string + unit" where
  "validate_initial_routable_decision_fields_v2 d =
     (let closure = rd_closure d; task_graph = rd_task_graph d;
          next_move = rd_next_move_candidate d; record' = cl_record closure
      in res_bind (checks
          [(\<not> accepts new_ru_closure closure \<or> \<not> accepts new_initial_graph task_graph
              \<or> \<not> accepts new_next_move next_move, ''routable decision requires canonical records''),
           (length (rc_task_delta_candidates record') \<noteq> 1 \<or> length (rc_candidate_validation record') \<noteq> 1
              \<or> \<not> is_accept (hd (rc_candidate_validation record'))
              \<or> cl_accepted_task_deltas closure \<noteq> [ig_accepted_delta task_graph]
              \<or> rc_accepted_delta_refs record' \<noteq> [ad_accepted_delta_id (ig_accepted_delta task_graph)]
              \<or> rc_next_move_candidate_ref record' \<noteq> Some (rd_next_move_candidate_ref d)
              \<or> rc_proposed_base_task_state_version record' \<noteq> nm_base_task_state_version next_move
              \<or> rc_validated_task_state_version record' \<noteq> Some 1
              \<or> ad_candidate_ref (ig_accepted_delta task_graph)
                  \<noteq> dtd_candidate_id (hd (rc_task_delta_candidates record')),
            ''routable decision must close one accepted Candidate'')]) (\<lambda>_.
         res_bind (validate_initial_graph_candidate_projection_v2 record' task_graph) (\<lambda>_.
         validate_initial_graph_identity_closure_v2 record' [task_graph])))"

text \<open>The bytes a seal covers; \<open>None\<close> when the fields are not a valid decision.\<close>

definition initial_routable_decision_fields_payload_v2 ::
  "(routable_decision \<Rightarrow> nat list) \<Rightarrow> routable_decision \<Rightarrow> nat list option" where
  "initial_routable_decision_fields_payload_v2 serialise d =
     (case validate_initial_routable_decision_fields_v2 d of
        Inl _ \<Rightarrow> None
      | Inr _ \<Rightarrow> Some (str ''mini-agent:initial-routable-task-graph-decision-v2:'' @ serialise d))"

text \<open>\<open>permitted\<close>: the validation context carries the reducer's own construction capability.\<close>

definition new_routable_decision ::
  "(routable_decision \<Rightarrow> nat list) \<Rightarrow> bool \<Rightarrow> routable_decision \<Rightarrow> validation_error + routable_decision" where
  "new_routable_decision serialise permitted d = construct_with []
     (res_bind (validate_initial_routable_decision_fields_v2 d) (\<lambda>_.
      raise_if (\<not> permitted \<or> initial_routable_decision_fields_payload_v2 serialise d = None)
        ''routable decision must be constructed by Reducer'')) d"

record unrouted_decision =
  ur_closure :: ru_closure
  ur_task_graphs :: "initial_graph list"

definition new_unrouted_decision :: "unrouted_decision \<Rightarrow> validation_error + unrouted_decision" where
  "new_unrouted_decision d =
     (let closure = ur_closure d; graphs = ur_task_graphs d; record' = cl_record closure;
          accepted_count = length (filter is_accept (rc_candidate_validation record'))
      in construct_with [(''task_graphs'', 1 \<le> length graphs)]
        (res_bind (checks
          [(\<not> accepts new_ru_closure closure \<or> \<not> list_all (accepts new_initial_graph) graphs,
            ''unrouted decision requires canonical records''),
           (accepted_count < 1 \<or> length graphs \<noteq> accepted_count
              \<or> cl_accepted_task_deltas closure \<noteq> map ig_accepted_delta graphs
              \<or> rc_accepted_delta_refs record' \<noteq> map (ad_accepted_delta_id \<circ> ig_accepted_delta) graphs
              \<or> rc_next_move_candidate_ref record' \<noteq> None
              \<or> rc_proposed_base_task_state_version record' \<noteq> None
              \<or> rc_validated_task_state_version record' \<noteq> None
              \<or> (length (rc_task_delta_candidates record') = 1 \<and> accepted_count = 1),
            ''unrouted decision must close partial or multi effects'')]) (\<lambda>_.
         res_bind (validate_initial_graph_identity_closure_v2 record' graphs) (\<lambda>_.
         res_bind (res_map (validate_initial_graph_candidate_projection_v2 record') graphs) (\<lambda>_. Inr ())))) d)"

datatype initial_decision =
    NoTask no_task_decision | Routable routable_decision | Unrouted unrouted_decision

subsection \<open>Preflight and trusted arguments\<close>

definition preflight_initial_request_projection_v2 ::
  "request_input pyobj \<Rightarrow> request_output pyobj \<Rightarrow> messages \<Rightarrow> (request_input \<times> request_output) ru" where
  "preflight_initial_request_projection_v2 request_input output authoritative_messages =
     res_bind (canonical_request_input_v2 request_input) (\<lambda>canonical_input.
     res_bind (canonical_request_output_v2 output) (\<lambda>canonical_output.
     res_bind (raise_if (ri_message_ref canonical_input \<noteq> ro_message_ref canonical_output)
       (Aggregate SOURCE_PROVENANCE_INVALID)) (\<lambda>_.
     res_bind (validate_input_visible_source_scope_v2 canonical_input canonical_output) (\<lambda>_.
     res_bind (authoritative_message_v2 authoritative_messages (ri_message_ref canonical_input)) (\<lambda>current_message.
     res_bind (raise_if (current_message \<noteq> ri_original_query canonical_input)
       (Aggregate SOURCE_PROVENANCE_INVALID)) (\<lambda>_.
     res_bind (project_contextualization_v2 authoritative_messages (ro_contextualization canonical_output)) (\<lambda>_.
     res_bind (res_map (project_task_delta_v2 authoritative_messages) (ro_task_delta_candidates canonical_output)) (\<lambda>_.
     Inr (canonical_input, canonical_output)))))))))"

definition exact_canonical :: "('a \<Rightarrow> validation_error + 'a) \<Rightarrow> 'a pyobj \<Rightarrow> bool" where
  "exact_canonical new_x v = (case v of Foreign \<Rightarrow> False | Obj x extra \<Rightarrow> extra = [] \<and> accepts new_x x)"

definition canonical_initial_identity_allocations_v2 ::
  "identity_allocation pyobj list option \<Rightarrow> uuid list \<Rightarrow> uuid \<Rightarrow> uuid \<Rightarrow> customer_context pyobj \<Rightarrow> datetime
   \<Rightarrow> (uuid \<times> identity_allocation) list ru" where
  "canonical_initial_identity_allocations_v2 allocations emitted_candidate_refs record_id
     next_move_candidate_ref customer_context' now =
     res_bind (raise_if (\<not> exact_canonical new_customer_context customer_context'
        \<or> \<not> is_ok (require_utc now ''now'')) closure_failed) (\<lambda>_.
     case allocations of
       None \<Rightarrow> Inl closure_failed
     | Some given \<Rightarrow>
         if \<not> list_all (exact_canonical new_identity_allocation) given then Inl closure_failed
         else let canonical = map fields_of given;
                  allocation_refs = map al_candidate_ref canonical;
                  generated_ids = record_id # next_move_candidate_ref # concat (map generated_of canonical)
              in if has_duplicates allocation_refs \<or> set allocation_refs \<noteq> set emitted_candidate_refs
                 then Inl closure_failed
                 else if has_duplicates generated_ids then Inl closure_failed
                 else Inr (dict_by al_candidate_ref canonical))"

subsection \<open>Candidate decisions\<close>

definition candidate_rejection_reason_v2 ::
  "task_delta_candidate \<Rightarrow> request_output \<Rightarrow> candidate_rejection_reason option" where
  "candidate_rejection_reason_v2 candidate output =
     (let uncertainty_reasons = map un_reason_code
            (filter (\<lambda>u. un_name u = str ''order_id'') (cx_uncertainties (ro_contextualization output)))
      in if MISSING_REFERENCE \<in> set uncertainty_reasons then Some REFERENCE_UNRESOLVED
         else if MULTIPLE_PLAUSIBLE_REFERENCES \<in> set uncertainty_reasons then Some REFERENCE_AMBIGUOUS
         else case tdc_input_candidates candidate of
           [input_candidate] \<Rightarrow>
             if ic_name input_candidate \<noteq> str ''order_id''
                \<or> ic_semantic_role input_candidate \<noteq> str ''TARGET_RESOURCE_IDENTIFIER''
                \<or> ic_authority input_candidate \<noteq> USER_CLAIM
                \<or> ic_source_kind input_candidate \<noteq> SRC_CURRENT_MESSAGE
                \<or> ic_source_ref input_candidate \<noteq> ro_message_ref output
             then Some REQUIRED_INPUT_MISSING
             else (case normalize_order_id (JStr (ic_candidate_value input_candidate)) of
                 Inl _ \<Rightarrow> Some INPUT_VALUE_INVALID
               | Inr _ \<Rightarrow> None)
         | _ \<Rightarrow> Some REQUIRED_INPUT_MISSING)"

definition build_initial_task_graph_v2 ::
  "task_delta_candidate \<Rightarrow> identity_allocation \<Rightarrow> customer_context \<Rightarrow> uuid \<Rightarrow> pystr \<Rightarrow> datetime
   \<Rightarrow> initial_graph ru" where
  "build_initial_task_graph_v2 candidate allocation customer message_ref normalized_order_id now =
     or_raise
       (res_bind (new_input_binding
          \<lparr>ib_binding_id = al_binding_id allocation, ib_name = str ''order_id'',
           ib_normalized_value = normalized_order_id, ib_authority = USER_CLAIM,
           ib_source_refs = [message_ref], ib_validation_status = ACCEPTED,
           ib_confirmed_by_user = True, ib_created_at = now, ib_updated_at = now,
           ib_supersedes = None\<rparr>) (\<lambda>binding.
        res_bind (new_accepted_task_delta
          \<lparr>ad_accepted_delta_id = al_accepted_delta_id allocation,
           ad_candidate_ref = tdc_candidate_id candidate, ad_message_ref = message_ref,
           ad_operation = ADD_GOAL, ad_goal_text = tdc_goal_patch candidate,
           ad_input_binding_refs = [al_binding_id allocation], ad_accepted_at = now,
           ad_task_id = al_task_id allocation, ad_base_task_state_version = None,
           ad_result_task_state_version = 1\<rparr>) (\<lambda>accepted_delta.
        res_bind (new_task_record
          \<lparr>tk_task_id = al_task_id allocation, tk_owner_customer_id = cc_customer_id customer,
           tk_status = ACTIVE, tk_state_version = 1, tk_created_at = now, tk_updated_at = now,
           tk_last_outcome_ref = None\<rparr>) (\<lambda>task.
        res_bind (new_request_unit_record
          \<lparr>ru_request_unit_id = al_request_unit_id allocation, ru_task_id = al_task_id allocation,
           ru_goal_text = tdc_goal_patch candidate, ru_goal_source_refs = [message_ref],
           ru_contextualization_ref = None, ru_constraint_refs = [], ru_dependency_refs = [],
           ru_input_binding_refs = [al_binding_id allocation], ru_open_questions = [],
           ru_observation_refs = [], ru_evidence_binding_refs = [], ru_pending_action_ref = None,
           ru_result_refs = [], ru_status = ACTIVE, ru_state_version = 1,
           ru_created_at = now, ru_updated_at = now\<rparr>) (\<lambda>request_unit.
        new_initial_graph
          \<lparr>ig_accepted_delta = accepted_delta, ig_input_binding = binding, ig_task = task,
           ig_request_unit = request_unit\<rparr>)))))
       closure_failed"

text \<open>
  The loop over the emitted candidates, with the decisions and graphs collected so far. The
  lookup of the reserved identities cannot miss: the allocation keys equal the emitted ids.
\<close>

fun reduce_candidates ::
  "request_output \<Rightarrow> (uuid \<times> identity_allocation) list \<Rightarrow> customer_context \<Rightarrow> datetime
   \<Rightarrow> task_delta_candidate list \<Rightarrow> candidate_validation_record list \<Rightarrow> initial_graph list
   \<Rightarrow> (candidate_validation_record list \<times> initial_graph list) ru" where
  "reduce_candidates output allocations customer now [] decisions graphs = Inr (decisions, graphs)"
| "reduce_candidates output allocations customer now (candidate # rest) decisions graphs =
     (let rejection_reason = candidate_rejection_reason_v2 candidate output
      in res_bind (or_raise (new_candidate_validation_record
           \<lparr>cv_candidate_ref = tdc_candidate_id candidate,
            cv_decision = (if rejection_reason \<noteq> None then DECISION_REJECT else DECISION_ACCEPT),
            cv_reason_code = rejection_reason\<rparr>) closure_failed) (\<lambda>decision.
         if rejection_reason \<noteq> None
         then reduce_candidates output allocations customer now rest (decisions @ [decision]) graphs
         else res_bind (or_raise (normalize_order_id
                (JStr (ic_candidate_value (hd (tdc_input_candidates candidate))))) closure_failed)
              (\<lambda>normalized_order_id.
              case map_of allocations (tdc_candidate_id candidate) of
                None \<Rightarrow> Inl closure_failed
              | Some allocation \<Rightarrow>
                  res_bind (build_initial_task_graph_v2 candidate allocation customer
                    (ro_message_ref output) normalized_order_id now) (\<lambda>graph.
                  reduce_candidates output allocations customer now rest
                    (decisions @ [decision]) (graphs @ [graph])))))"

subsection \<open>validate_and_reduce_initial_request_v2\<close>

definition validate_and_reduce_initial_request_v2 ::
  "(routable_decision \<Rightarrow> nat list) \<Rightarrow> request_input pyobj \<Rightarrow> request_output pyobj \<Rightarrow> messages
   \<Rightarrow> customer_context pyobj \<Rightarrow> uuid \<Rightarrow> identity_allocation pyobj list option \<Rightarrow> uuid \<Rightarrow> datetime
   \<Rightarrow> initial_decision ru" where
  "validate_and_reduce_initial_request_v2 serialise request_input output authoritative_messages
     customer_context' record_id candidate_identity_allocations next_move_candidate_ref now =
     res_bind (preflight_initial_request_projection_v2 request_input output authoritative_messages)
       (\<lambda>(canonical_input, canonical_output).
     let candidates = ro_task_delta_candidates canonical_output
     in res_bind (canonical_initial_identity_allocations_v2 candidate_identity_allocations
          (map tdc_candidate_id candidates) record_id next_move_candidate_ref customer_context' now)
          (\<lambda>allocations_by_candidate.
        res_bind (reduce_candidates canonical_output allocations_by_candidate (fields_of customer_context')
          now candidates [] []) (\<lambda>(decisions, graphs).
        let exact_one_routable = (length candidates = 1 \<and> length graphs = 1);
            next_move = ro_next_move_candidate canonical_output
        in res_bind (build_request_understanding_closure_v2 (Obj canonical_input []) (Obj canonical_output [])
             authoritative_messages record_id (map (\<lambda>v. Obj v []) decisions)
             (map (\<lambda>g. Obj (ig_accepted_delta g) []) graphs)
             (if exact_one_routable then nm_base_task_state_version next_move else None)
             (if exact_one_routable then Some 1 else None)
             (if exact_one_routable then Some next_move_candidate_ref else None) now) (\<lambda>closure.
           or_raise
             (if graphs = [] then res_bind (new_no_task_decision \<lparr>nt_closure = closure\<rparr>) (\<lambda>d. Inr (NoTask d))
              else if exact_one_routable then
                (let fields = \<lparr>rd_closure = closure, rd_task_graph = hd graphs,
                       rd_next_move_candidate_ref = next_move_candidate_ref, rd_next_move_candidate = next_move\<rparr>
                 in case initial_routable_decision_fields_payload_v2 serialise fields of
                      None \<Rightarrow> Inl (PlainValueError ''no payload'')
                    | Some _ \<Rightarrow> res_bind (new_routable_decision serialise True fields) (\<lambda>d. Inr (Routable d)))
              else res_bind (new_unrouted_decision \<lparr>ur_closure = closure, ur_task_graphs = graphs\<rparr>)
                     (\<lambda>d. Inr (Unrouted d)))
             closure_failed))))"

end
