(* ===== verification/Seal.thy ===== *)
theory Seal
  imports Reduction
begin

section \<open>Reducer decision seals (core/request_processing.py, lines 1580--1619 and 2066--2371)\<close>

text \<open>
  A routable decision is only honoured when it carries a seal the reducer registered for that very
  object: \<open>_build_initial_request_reducer_v2\<close> keeps a registry from seal objects to the digest
  of the sealed payload and the decision object, and one-time tickets for pickled decisions.

  Objects live at addresses (\<open>id\<close>). A decision object has its declared fields, the manifest of
  which fields were set explicitly, whether its instance state has exactly the declared shape,
  and its private state: one seal reference or anything else. \<open>serialise\<close> is what pydantic writes
  for fields and manifest. A digest is written as its hexadecimal text. The weak references of the
  registry are modelled by their callbacks: collecting a seal or a decision drops its entry.
\<close>

type_synonym fields_manifest = "(string \<times> string list) list"
type_synonym serialiser = "routable_decision \<Rightarrow> fields_manifest \<Rightarrow> nat list"

datatype private_state = PrivateSeal nat | PrivateOther

record decision_object =
  do_fields :: routable_decision
  do_manifest :: fields_manifest
  do_state_declared :: bool
  do_private :: private_state

record seal_state =
  ss_objects :: "nat \<Rightarrow> decision_object option"
  ss_seals :: "nat \<Rightarrow> pystr option"
  ss_registry :: "nat \<Rightarrow> (pystr \<times> nat) option"
  ss_tickets :: "nat \<Rightarrow> pystr option"
  ss_next_ticket :: nat

definition initial_seal_state :: seal_state where
  "initial_seal_state = \<lparr>ss_objects = Map.empty, ss_seals = Map.empty, ss_registry = Map.empty,
     ss_tickets = Map.empty, ss_next_ticket = 1\<rparr>"

definition initial_routable_decision_payload_v2 :: "serialiser \<Rightarrow> decision_object \<Rightarrow> nat list option" where
  "initial_routable_decision_payload_v2 serialise value =
     (if \<not> do_state_declared value then None
      else initial_routable_decision_fields_payload_v2 (\<lambda>d. serialise d (do_manifest value)) (do_fields value))"

definition seal_digest :: "nat list \<Rightarrow> pystr" where
  "seal_digest payload = sha256_hexdigest (str ''sealed:'' @ [0] @ payload)"

definition canonical_reducer_decision_required :: string where
  "canonical_reducer_decision_required = ''canonical Reducer decision required''"

subsection \<open>Issuing and checking a seal\<close>

text \<open>\<open>seal\<close> is the address the new seal object gets.\<close>

definition issue_initial_routable_decision_seal ::
  "serialiser \<Rightarrow> nat \<Rightarrow> nat \<Rightarrow> nat list \<Rightarrow> seal_state \<Rightarrow> string + seal_state" where
  "issue_initial_routable_decision_seal serialise seal address seal_payload st =
     (case ss_objects st address of
        None \<Rightarrow> Inl ''Reducer decision seal payload mismatch''
      | Some value \<Rightarrow>
          if initial_routable_decision_payload_v2 serialise value \<noteq> Some seal_payload
          then Inl ''Reducer decision seal payload mismatch''
          else let digest = seal_digest seal_payload
               in Inr (st\<lparr>ss_seals := (ss_seals st)(seal \<mapsto> digest),
                          ss_registry := (ss_registry st)(seal \<mapsto> (digest, address))\<rparr>))"

definition initial_routable_decision_seal_matches :: "serialiser \<Rightarrow> seal_state \<Rightarrow> nat \<Rightarrow> bool" where
  "initial_routable_decision_seal_matches serialise st address =
     (case ss_objects st address of
        None \<Rightarrow> False
      | Some value \<Rightarrow> (case do_private value of
          PrivateOther \<Rightarrow> False
        | PrivateSeal actual_seal \<Rightarrow> (case ss_seals st actual_seal of
            None \<Rightarrow> False
          | Some actual_digest \<Rightarrow> (case initial_routable_decision_payload_v2 serialise value of
              None \<Rightarrow> False
            | Some seal_payload \<Rightarrow> (case ss_registry st actual_seal of
                None \<Rightarrow> False
              | Some (registered_digest, registered_value) \<Rightarrow>
                  registered_value = address \<and> actual_digest = registered_digest
                  \<and> actual_digest = seal_digest seal_payload)))))"

text \<open>Attach a freshly issued seal to an object, as the reducer, copy and restore all do.\<close>

definition seal_object :: "serialiser \<Rightarrow> nat \<Rightarrow> nat \<Rightarrow> seal_state \<Rightarrow> string + seal_state" where
  "seal_object serialise seal address st =
     (case ss_objects st address of
        None \<Rightarrow> Inl canonical_reducer_decision_required
      | Some value \<Rightarrow> (case initial_routable_decision_payload_v2 serialise value of
          None \<Rightarrow> Inl canonical_reducer_decision_required
        | Some seal_payload \<Rightarrow>
            res_bind (issue_initial_routable_decision_seal serialise seal address seal_payload st) (\<lambda>st'.
            Inr (st'\<lparr>ss_objects := (ss_objects st')(address \<mapsto> value\<lparr>do_private := PrivateSeal seal\<rparr>)\<rparr>))))"

subsection \<open>Where sealed decisions come from\<close>

text \<open>The routable branch of the reducer: allocate the decision, then seal it.\<close>

definition reduce_and_seal ::
  "serialiser \<Rightarrow> nat \<Rightarrow> nat \<Rightarrow> routable_decision \<Rightarrow> fields_manifest \<Rightarrow> seal_state \<Rightarrow> string + seal_state" where
  "reduce_and_seal serialise seal address d manifest st =
     seal_object serialise seal address
       (st\<lparr>ss_objects := (ss_objects st)(address \<mapsto>
          \<lparr>do_fields = d, do_manifest = manifest, do_state_declared = True, do_private = PrivateOther\<rparr>)\<rparr>)"

text \<open>\<open>__copy__\<close> and \<open>__deepcopy__\<close>: the copy, at \<open>target\<close>, gets a seal of its own.\<close>

definition copy_initial_routable_decision ::
  "serialiser \<Rightarrow> nat \<Rightarrow> nat \<Rightarrow> nat \<Rightarrow> seal_state \<Rightarrow> string + seal_state" where
  "copy_initial_routable_decision serialise seal target address st =
     (if \<not> initial_routable_decision_seal_matches serialise st address
      then Inl canonical_reducer_decision_required
      else seal_object serialise seal target (st\<lparr>ss_objects := (ss_objects st)(target := ss_objects st address)\<rparr>))"

text \<open>\<open>__reduce_ex__\<close>: register a ticket for the digest and return it with the plain state.\<close>

definition reduce_pickled_initial_routable_decision ::
  "serialiser \<Rightarrow> nat \<Rightarrow> seal_state \<Rightarrow> string + ((nat \<times> routable_decision \<times> fields_manifest) \<times> seal_state)" where
  "reduce_pickled_initial_routable_decision serialise address st =
     (if \<not> initial_routable_decision_seal_matches serialise st address
      then Inl canonical_reducer_decision_required
      else case ss_objects st address of
        None \<Rightarrow> Inl canonical_reducer_decision_required
      | Some value \<Rightarrow> (case initial_routable_decision_payload_v2 serialise value of
          None \<Rightarrow> Inl canonical_reducer_decision_required
        | Some seal_payload \<Rightarrow>
            let ticket_id = ss_next_ticket st
            in Inr ((ticket_id, do_fields value, do_manifest value),
                    st\<lparr>ss_next_ticket := ticket_id + 1,
                       ss_tickets := (ss_tickets st)(ticket_id \<mapsto> seal_digest seal_payload)\<rparr>)))"

text \<open>
  \<open>_restore_pickled_initial_routable_decision_v2\<close>: the state may come from anywhere;
  \<open>state_valid\<close> is the outcome of the shape checks on the pickled dictionaries.
\<close>

definition restore_pickled_initial_routable_decision ::
  "serialiser \<Rightarrow> nat \<Rightarrow> nat \<Rightarrow> nat \<Rightarrow> bool \<Rightarrow> routable_decision \<Rightarrow> fields_manifest \<Rightarrow> seal_state
   \<Rightarrow> string + seal_state" where
  "restore_pickled_initial_routable_decision serialise seal target ticket_id state_valid d manifest st =
     (case ss_tickets st ticket_id of
        None \<Rightarrow> Inl ''unknown Reducer decision pickle''
      | Some registered_ticket \<Rightarrow>
          if \<not> state_valid then Inl ''invalid Reducer decision pickle''
          else let restored = \<lparr>do_fields = d, do_manifest = manifest, do_state_declared = True,
                     do_private = PrivateOther\<rparr>;
                   expected_digest = map_option seal_digest (initial_routable_decision_payload_v2 serialise restored)
               in if expected_digest \<noteq> Some registered_ticket then Inl ''invalid Reducer decision pickle''
                  else seal_object serialise seal target
                    (st\<lparr>ss_tickets := (ss_tickets st)(ticket_id := None),
                        ss_objects := (ss_objects st)(target \<mapsto> restored)\<rparr>))"

subsection \<open>Collection\<close>

definition collect_seal :: "nat \<Rightarrow> seal_state \<Rightarrow> seal_state" where
  "collect_seal seal st = st\<lparr>ss_seals := (ss_seals st)(seal := None),
     ss_registry := (ss_registry st)(seal := None)\<rparr>"

definition collect_decision :: "nat \<Rightarrow> seal_state \<Rightarrow> seal_state" where
  "collect_decision address st = st\<lparr>ss_objects := (ss_objects st)(address := None),
     ss_registry := (\<lambda>s. case ss_registry st s of None \<Rightarrow> None
        | Some (digest, value) \<Rightarrow> if value = address then None else Some (digest, value))\<rparr>"

subsection \<open>Everything that can happen to decisions and seals\<close>

text \<open>
  \<open>produced\<close> logs the payloads the reducer itself sealed. Beside the registry's own operations,
  any code may create or rewrite a decision object (\<open>model_construct\<close>, \<open>object.__setattr__\<close>,
  a seal reference taken from another object included) and make or overwrite a seal object:
  only the closed-over registry and tickets are out of its reach.
\<close>

inductive seal_step :: "serialiser \<Rightarrow> seal_state \<times> nat list list \<Rightarrow> seal_state \<times> nat list list \<Rightarrow> bool"
  for serialise where
  Reduce: "ss_objects st address = None \<Longrightarrow> ss_seals st seal = None \<Longrightarrow>
    reduce_and_seal serialise seal address d manifest st = Inr st' \<Longrightarrow>
    seal_step serialise (st, produced)
      (st', produced @ [str ''mini-agent:initial-routable-task-graph-decision-v2:'' @ serialise d manifest])"
| Copy: "ss_objects st target = None \<Longrightarrow> ss_seals st seal = None \<Longrightarrow>
    copy_initial_routable_decision serialise seal target address st = Inr st' \<Longrightarrow>
    seal_step serialise (st, produced) (st', produced)"
| Pickle: "reduce_pickled_initial_routable_decision serialise address st = Inr (pickled, st') \<Longrightarrow>
    seal_step serialise (st, produced) (st', produced)"
| Restore: "ss_objects st target = None \<Longrightarrow> ss_seals st seal = None \<Longrightarrow>
    restore_pickled_initial_routable_decision serialise seal target ticket valid d manifest st = Inr st' \<Longrightarrow>
    seal_step serialise (st, produced) (st', produced)"
| CollectSeal: "seal_step serialise (st, produced) (collect_seal seal st, produced)"
| CollectDecision: "seal_step serialise (st, produced) (collect_decision address st, produced)"
| RewriteObject: "seal_step serialise (st, produced)
    (st\<lparr>ss_objects := (ss_objects st)(address \<mapsto> value)\<rparr>, produced)"
| RewriteSeal: "seal_step serialise (st, produced)
    (st\<lparr>ss_seals := (ss_seals st)(seal \<mapsto> digest)\<rparr>, produced)"

inductive seal_reachable :: "serialiser \<Rightarrow> seal_state \<times> nat list list \<Rightarrow> bool" for serialise where
  Init: "seal_reachable serialise (initial_seal_state, [])"
| Step: "seal_reachable serialise s \<Longrightarrow> seal_step serialise s s' \<Longrightarrow> seal_reachable serialise s'"

subsection \<open>Invariant: every registered digest comes from the reducer\<close>

definition digest_produced :: "nat list list \<Rightarrow> pystr \<Rightarrow> bool" where
  "digest_produced produced digest \<longleftrightarrow> digest \<in> seal_digest ` set produced"

definition seal_inv :: "seal_state \<times> nat list list \<Rightarrow> bool" where
  "seal_inv s \<longleftrightarrow>
     (\<forall>seal digest a. ss_registry (fst s) seal = Some (digest, a) \<longrightarrow> digest_produced (snd s) digest)
     \<and> (\<forall>t digest. ss_tickets (fst s) t = Some digest \<longrightarrow> digest_produced (snd s) digest \<and> t < ss_next_ticket (fst s))"

lemma digest_produced_mono: "digest_produced ps d \<Longrightarrow> digest_produced (ps @ qs) d"
  by (auto simp: digest_produced_def)

lemma seal_matches_registered:
  assumes "initial_routable_decision_seal_matches serialise st a"
  obtains v payload seal where "ss_objects st a = Some v"
    "initial_routable_decision_payload_v2 serialise v = Some payload"
    "do_private v = PrivateSeal seal" "ss_registry st seal = Some (seal_digest payload, a)"
  using assms by (auto simp: initial_routable_decision_seal_matches_def split: option.splits private_state.splits)

lemma seal_object_Inr:
  assumes "seal_object serialise seal a st = Inr st'"
  obtains v payload where "ss_objects st a = Some v"
    "initial_routable_decision_payload_v2 serialise v = Some payload"
    "ss_objects st' = (ss_objects st)(a \<mapsto> v\<lparr>do_private := PrivateSeal seal\<rparr>)"
    "ss_seals st' = (ss_seals st)(seal \<mapsto> seal_digest payload)"
    "ss_registry st' = (ss_registry st)(seal \<mapsto> (seal_digest payload, a))"
    "ss_tickets st' = ss_tickets st" "ss_next_ticket st' = ss_next_ticket st"
  using assms
  by (auto simp: seal_object_def issue_initial_routable_decision_seal_def Let_def split: option.splits if_splits)

lemma payload_private [simp]:
  "initial_routable_decision_payload_v2 serialise (v\<lparr>do_private := p\<rparr>)
     = initial_routable_decision_payload_v2 serialise v"
  by (simp add: initial_routable_decision_payload_v2_def)

lemma reduced_payload:
  assumes "initial_routable_decision_payload_v2 serialise
      \<lparr>do_fields = d, do_manifest = m, do_state_declared = True, do_private = q\<rparr> = Some payload"
  shows "payload = str ''mini-agent:initial-routable-task-graph-decision-v2:'' @ serialise d m"
    and "validate_initial_routable_decision_fields_v2 d = Inr ()"
  using assms by (auto simp: initial_routable_decision_payload_v2_def
      initial_routable_decision_fields_payload_v2_def split: sum.splits)

lemma sealed_object_matches:
  assumes "seal_object serialise seal a st = Inr st'"
  shows "initial_routable_decision_seal_matches serialise st' a"
  using assms
  by (elim seal_object_Inr) (simp add: initial_routable_decision_seal_matches_def)

lemma seal_inv_register:
  assumes "seal_inv (st, ps)" "digest_produced ps' d" "\<And>x. digest_produced ps x \<Longrightarrow> digest_produced ps' x"
    and "ss_registry st' = (ss_registry st)(seal \<mapsto> (d, a))"
    and "\<And>t x. ss_tickets st' t = Some x \<Longrightarrow> ss_tickets st t = Some x" "ss_next_ticket st' = ss_next_ticket st"
  shows "seal_inv (st', ps')"
proof -
  have "digest_produced ps' x" if "ss_tickets st' t = Some x" for t x
    using assms(1,3) assms(5)[OF that] by (auto simp: seal_inv_def)
  moreover have "t < ss_next_ticket st'" if "ss_tickets st' t = Some x" for t x
    using assms(1,6) assms(5)[OF that] by (auto simp: seal_inv_def)
  moreover have "digest_produced ps' x" if "ss_registry st' s = Some (x, b)" for s x b
    using assms(1,2,3) that unfolding assms(4) by (auto simp: seal_inv_def split: if_splits)
  ultimately show ?thesis by (auto simp: seal_inv_def)
qed

lemma seal_step_inv:
  assumes "seal_step serialise s s'" "seal_inv s"
  shows "seal_inv s'"
  using assms
proof (cases rule: seal_step.cases)
  case (Reduce st address seal d manifest st' produced)
  from Reduce(5) obtain payload where p: "payload =
      str ''mini-agent:initial-routable-task-graph-decision-v2:'' @ serialise d manifest"
    and r: "ss_registry st' = (ss_registry st)(seal \<mapsto> (seal_digest payload, address))"
    and t: "ss_tickets st' = ss_tickets st" "ss_next_ticket st' = ss_next_ticket st"
    unfolding reduce_and_seal_def by (elim seal_object_Inr) (auto dest: reduced_payload)
  show ?thesis
    unfolding Reduce(2)
    by (rule seal_inv_register[OF assms(2)[unfolded Reduce(1)] _ digest_produced_mono r])
       (simp_all add: t digest_produced_def p)
next
  case (Copy st target seal address st' produced)
  from Copy(5) have m: "initial_routable_decision_seal_matches serialise st address"
    and so: "seal_object serialise seal target (st\<lparr>ss_objects := (ss_objects st)(target := ss_objects st address)\<rparr>) = Inr st'"
    by (simp_all add: copy_initial_routable_decision_def split: if_splits)
  from m obtain v p s0 where v: "ss_objects st address = Some v"
    "initial_routable_decision_payload_v2 serialise v = Some p" "ss_registry st s0 = Some (seal_digest p, address)"
    by (rule seal_matches_registered)
  from so v(1,2) have r: "ss_registry st' = (ss_registry st)(seal \<mapsto> (seal_digest p, target))"
    and t: "ss_tickets st' = ss_tickets st" "ss_next_ticket st' = ss_next_ticket st"
    by (elim seal_object_Inr, simp)+
  have "digest_produced produced (seal_digest p)"
    using assms(2)[unfolded Copy(1)] v(3) by (auto simp: seal_inv_def)
  then show ?thesis
    unfolding Copy(2)
    by (rule seal_inv_register[OF assms(2)[unfolded Copy(1)] _ _ r]) (simp_all add: t)
next
  case (Pickle address st pickled st' produced)
  from Pickle(3) obtain p where m: "initial_routable_decision_seal_matches serialise st address"
    and st': "st' = st\<lparr>ss_next_ticket := ss_next_ticket st + 1,
        ss_tickets := (ss_tickets st)(ss_next_ticket st \<mapsto> seal_digest p)\<rparr>"
    and p: "\<exists>v. ss_objects st address = Some v \<and> initial_routable_decision_payload_v2 serialise v = Some p"
    by (auto simp: reduce_pickled_initial_routable_decision_def Let_def split: if_splits option.splits)
  from m p obtain s0 where "ss_registry st s0 = Some (seal_digest p, address)"
    by (elim seal_matches_registered) auto
  then show ?thesis
    using assms(2) unfolding Pickle(1,2) st' seal_inv_def by (auto simp: less_Suc_eq)
next
  case (Restore st target seal ticket valid d manifest st' produced)
  from Restore(5) obtain dig where t: "ss_tickets st ticket = Some dig"
    and so: "seal_object serialise seal target
        (st\<lparr>ss_tickets := (ss_tickets st)(ticket := None),
            ss_objects := (ss_objects st)(target \<mapsto> \<lparr>do_fields = d, do_manifest = manifest,
              do_state_declared = True, do_private = PrivateOther\<rparr>)\<rparr>) = Inr st'"
    and dig: "map_option seal_digest (initial_routable_decision_payload_v2 serialise
        \<lparr>do_fields = d, do_manifest = manifest, do_state_declared = True, do_private = PrivateOther\<rparr>) = Some dig"
    by (auto simp: restore_pickled_initial_routable_decision_def Let_def split: option.splits if_splits)
  from so dig have r: "ss_registry st' = (ss_registry st)(seal \<mapsto> (dig, target))"
    and tk: "ss_tickets st' = (ss_tickets st)(ticket := None)" "ss_next_ticket st' = ss_next_ticket st"
    by (elim seal_object_Inr, simp)+
  have "digest_produced produced dig" using assms(2)[unfolded Restore(1)] t by (auto simp: seal_inv_def)
  then show ?thesis
    unfolding Restore(2)
    by (rule seal_inv_register[OF assms(2)[unfolded Restore(1)] _ _ r]) (simp_all add: tk split: if_splits)
qed (auto simp: seal_inv_def collect_seal_def collect_decision_def split: if_splits option.splits)

lemma seal_reachable_inv: "seal_reachable serialise s \<Longrightarrow> seal_inv s"
  by (induction rule: seal_reachable.induct)
     (simp add: seal_inv_def initial_seal_state_def, blast intro: seal_step_inv)

end
