(* ===== verification/Revalidation.thy ===== *)
theory Revalidation
  imports Seal
begin

section \<open>Revalidating the model's next move (core/request_processing.py, lines 51--106 and 2375--2474)\<close>

text \<open>
  \<open>revalidate_next_move_v2\<close> compares the current Task graph with the one a sealed decision was
  made for, and only then copies the model's arguments, unchanged, next to the trusted binding.

  The exact comparison of run-time values includes which fields were set explicitly, so an
  instance is its fields together with that set (\<open>inst\<close>); of the decision's own instances the
  set is read from the manifest the seal covers.
\<close>

subsection \<open>RevalidatedNextMove\<close>

record revalidated_next_move =
  rv_run_id :: uuid
  rv_task_id :: uuid
  rv_request_unit_id :: uuid
  rv_next_move_candidate_ref :: uuid
  rv_kind :: next_move_kind
  rv_requested_provider_tool_name :: pystr
  rv_candidate_arguments :: json_object
  rv_normalized_candidate_order_id :: "pystr option"
  rv_binding_name :: pystr
  rv_binding_normalized_value :: pystr
  rv_argument_binding_refs :: "uuid list"
  rv_proposed_base_task_state_version :: "int option"
  rv_validated_task_state_version :: int

definition new_revalidated_next_move :: "revalidated_next_move \<Rightarrow> validation_error + revalidated_next_move" where
  "new_revalidated_next_move m =
     (let args = thaw_object (rv_candidate_arguments m)
      in construct
       [(''kind'', rv_kind m = CALL_TOOL),
        (''requested_provider_tool_name'', NonEmptyString (rv_requested_provider_tool_name m)),
        (''candidate_arguments'', is_ok args),
        (''normalized_candidate_order_id'', opt_all OrderId (rv_normalized_candidate_order_id m)),
        (''binding_name'', rv_binding_name m = str ''order_id''),
        (''binding_normalized_value'', OrderId (rv_binding_normalized_value m)),
        (''argument_binding_refs'', 1 \<le> length (rv_argument_binding_refs m)),
        (''proposed_base_task_state_version'', opt_all (\<lambda>v. 1 \<le> v) (rv_proposed_base_task_state_version m)),
        (''validated_task_state_version'', 1 \<le> rv_validated_task_state_version m)] []
       (m\<lparr>rv_candidate_arguments := ok_or [] args\<rparr>))"

interpretation revalidated_move: validated_class new_revalidated_next_move
proof
  fix x y assume h: "new_revalidated_next_move x = Inr y"
  then obtain c where "thaw_object (rv_candidate_arguments x) = Inr c" "thaw_object c = Inr c"
    using thaw_object_twice
    by (auto simp: new_revalidated_next_move_def construct_Inr_iff Let_def is_ok_def split: sum.splits)
  with h show "new_revalidated_next_move y = Inr y"
    by (auto simp: new_revalidated_next_move_def construct_Inr_iff Let_def is_ok_def ok_or_def)
qed

subsection \<open>Instances and the fields they were given\<close>

datatype 'a inst = Inst (inst_of: 'a) (inst_fields_set: "string list")

text \<open>
  \<open>_is_exact_canonical_model_v2\<close>: dumped without its unset fields and read back, the instance
  must come out the same. So the required fields were set, and an unset field has its default.
\<close>

definition exact_canonical_inst ::
  "('a \<Rightarrow> validation_error + 'a) \<Rightarrow> string list \<Rightarrow> (string \<times> ('a \<Rightarrow> bool)) list \<Rightarrow> 'a inst pyobj \<Rightarrow> bool" where
  "exact_canonical_inst new_x required optional v =
     (case v of
        Foreign \<Rightarrow> False
      | Obj (Inst x fields_set) extra \<Rightarrow>
          extra = [] \<and> accepts new_x x \<and> set required \<subseteq> set fields_set
          \<and> set fields_set \<subseteq> set (required @ map fst optional)
          \<and> list_all (\<lambda>(field, is_default). field \<in> set fields_set \<or> is_default x) optional)"

definition exact_task :: "task_record inst pyobj \<Rightarrow> bool" where
  "exact_task = exact_canonical_inst new_task_record
     [''task_id'', ''owner_customer_id'', ''status'', ''state_version'', ''created_at'', ''updated_at'']
     [(''last_outcome_ref'', \<lambda>t. tk_last_outcome_ref t = None)]"

definition exact_request_unit :: "request_unit_record inst pyobj \<Rightarrow> bool" where
  "exact_request_unit = exact_canonical_inst new_request_unit_record
     [''request_unit_id'', ''task_id'', ''goal_text'', ''goal_source_refs'', ''input_binding_refs'',
      ''status'', ''state_version'', ''created_at'', ''updated_at'']
     [(''contextualization_ref'', \<lambda>u. ru_contextualization_ref u = None),
      (''constraint_refs'', \<lambda>u. ru_constraint_refs u = []),
      (''dependency_refs'', \<lambda>u. ru_dependency_refs u = []),
      (''open_questions'', \<lambda>u. ru_open_questions u = []),
      (''observation_refs'', \<lambda>u. ru_observation_refs u = []),
      (''evidence_binding_refs'', \<lambda>u. ru_evidence_binding_refs u = []),
      (''pending_action_ref'', \<lambda>u. ru_pending_action_ref u = None),
      (''result_refs'', \<lambda>u. ru_result_refs u = [])]"

definition exact_input_binding :: "input_binding inst pyobj \<Rightarrow> bool" where
  "exact_input_binding = exact_canonical_inst new_input_binding
     [''binding_id'', ''name'', ''normalized_value'', ''authority'', ''source_refs'',
      ''validation_status'', ''confirmed_by_user'', ''created_at'', ''updated_at'']
     [(''supersedes'', \<lambda>b. ib_supersedes b = None)]"

text \<open>\<open>_runtime_values_match_exactly_v2\<close> on a received instance and one of the decision's own.\<close>

definition matches_decision_instance :: "'a inst \<Rightarrow> 'a \<Rightarrow> string \<Rightarrow> fields_manifest \<Rightarrow> bool" where
  "matches_decision_instance current expected class manifest \<longleftrightarrow>
     inst_of current = expected
     \<and> (case map_of manifest class of None \<Rightarrow> False
        | Some expected_fields \<Rightarrow> set (inst_fields_set current) = set expected_fields)"

definition TASK_CLASS :: string where "TASK_CLASS = ''mini_agent.core.task_state.TaskRecord''"
definition UNIT_CLASS :: string where "UNIT_CLASS = ''mini_agent.core.task_state.RequestUnitRecord''"
definition BINDING_CLASS :: string where "BINDING_CLASS = ''mini_agent.core.task_state.InputBinding''"

subsection \<open>revalidate_next_move_v2\<close>

text \<open>The checks on a verified decision and the three current instances, in source order.\<close>

definition revalidation_guards ::
  "decision_object \<Rightarrow> task_record inst \<Rightarrow> request_unit_record inst \<Rightarrow> input_binding inst \<Rightarrow> (bool \<times> string) list" where
  "revalidation_guards decision current_task current_request_unit current_input_binding =
     (let expected = rd_task_graph (do_fields decision); manifest = do_manifest decision;
          task = inst_of current_task; unit = inst_of current_request_unit;
          binding = inst_of current_input_binding; candidate = rd_next_move_candidate (do_fields decision)
      in [(tk_owner_customer_id task \<noteq> tk_owner_customer_id (ig_task expected), ''current Task owner mismatch''),
          (tk_task_id task \<noteq> tk_task_id (ig_task expected) \<or> ru_task_id unit \<noteq> tk_task_id task
             \<or> ru_request_unit_id unit \<noteq> ru_request_unit_id (ig_request_unit expected),
           ''current Task graph mismatch''),
          (tk_status task \<noteq> ACTIVE \<or> ru_status unit \<noteq> ACTIVE \<or> tk_state_version task \<noteq> 1
             \<or> ru_state_version unit \<noteq> 1, ''current Task graph is not ACTIVE/v1''),
          (\<not> matches_decision_instance current_task (ig_task expected) TASK_CLASS manifest
             \<or> \<not> matches_decision_instance current_request_unit (ig_request_unit expected) UNIT_CLASS manifest,
           ''current Task graph mismatch''),
          (\<not> matches_decision_instance current_input_binding (ig_input_binding expected) BINDING_CLASS manifest
             \<or> ru_input_binding_refs unit \<noteq> [ib_binding_id binding]
             \<or> ad_input_binding_refs (ig_accepted_delta expected) \<noteq> [ib_binding_id binding],
           ''current InputBinding graph mismatch''),
          (nm_kind candidate \<noteq> CALL_TOOL \<or> nm_requested_tool_name candidate = None
             \<or> nm_arguments candidate = None, ''revalidation requires CALL_TOOL candidate''),
          (find_trusted_in_items (case nm_arguments candidate of None \<Rightarrow> [] | Some a \<Rightarrow> a) \<noteq> None,
           ''trusted field in model arguments'')])"

definition revalidated_of ::
  "decision_object \<Rightarrow> task_record \<Rightarrow> request_unit_record \<Rightarrow> input_binding \<Rightarrow> revalidated_next_move" where
  "revalidated_of decision task unit binding =
     (let d = do_fields decision; candidate = rd_next_move_candidate d;
          arguments = (case nm_arguments candidate of None \<Rightarrow> [] | Some a \<Rightarrow> a)
      in \<lparr>rv_run_id = rc_run_id (cl_record (rd_closure d)),
          rv_task_id = tk_task_id task,
          rv_request_unit_id = ru_request_unit_id unit,
          rv_next_move_candidate_ref = rd_next_move_candidate_ref d,
          rv_kind = CALL_TOOL,
          rv_requested_provider_tool_name =
            (case nm_requested_tool_name candidate of None \<Rightarrow> [] | Some n \<Rightarrow> n),
          rv_candidate_arguments = arguments,
          rv_normalized_candidate_order_id = candidate_order_id_or_none arguments,
          rv_binding_name = ib_name binding,
          rv_binding_normalized_value = ib_normalized_value binding,
          rv_argument_binding_refs = [ib_binding_id binding],
          rv_proposed_base_task_state_version = nm_base_task_state_version candidate,
          rv_validated_task_state_version = tk_state_version task\<rparr>)"

definition revalidate_next_move_v2 ::
  "serialiser \<Rightarrow> seal_state \<Rightarrow> nat \<Rightarrow> task_record inst pyobj \<Rightarrow> request_unit_record inst pyobj
   \<Rightarrow> input_binding inst pyobj \<Rightarrow> string + revalidated_next_move" where
  "revalidate_next_move_v2 serialise st address current_task current_request_unit current_input_binding =
     res_bind (raise_if (\<not> initial_routable_decision_seal_matches serialise st address)
       ''canonical v2 initial decision required'') (\<lambda>_.
     res_bind (raise_if (\<not> exact_task current_task \<or> \<not> exact_request_unit current_request_unit
         \<or> \<not> exact_input_binding current_input_binding) ''canonical current graph required'') (\<lambda>_.
     case ss_objects st address of
       None \<Rightarrow> Inl ''canonical v2 initial decision required''
     | Some decision \<Rightarrow>
         let task = fields_of current_task; unit = fields_of current_request_unit;
             binding = fields_of current_input_binding
         in res_bind (checks (revalidation_guards decision task unit binding)) (\<lambda>_.
            or_raise (new_revalidated_next_move
                (revalidated_of decision (inst_of task) (inst_of unit) (inst_of binding)))
              ''v2 NextMove revalidation failed'')))"

subsection \<open>What a revalidated move is\<close>

lemma exact_canonical_inst_iff:
  "exact_canonical_inst new_x required optional v \<longleftrightarrow>
     (\<exists>x fs. v = Obj (Inst x fs) [] \<and> accepts new_x x \<and> set required \<subseteq> set fs
        \<and> set fs \<subseteq> set (required @ map fst optional)
        \<and> list_all (\<lambda>(field, is_default). field \<in> set fs \<or> is_default x) optional)"
  by (auto simp: exact_canonical_inst_def split: pyobj.splits inst.splits)

lemma candidate_order_id_valid: "candidate_order_id_or_none arguments = Some n \<Longrightarrow> OrderId n"
  by (auto simp: candidate_order_id_or_none_def dest: normalize_order_id_Inr split: if_splits option.splits sum.splits)

lemma routable_fields_next_move:
  assumes "validate_initial_routable_decision_fields_v2 d = Inr ()"
  shows "accepts new_next_move (rd_next_move_candidate d)" "accepts new_initial_graph (rd_task_graph d)"
    and "nm_base_task_state_version (rd_next_move_candidate d)
       = rc_proposed_base_task_state_version (cl_record (rd_closure d))"
  using assms by (simp_all add: validate_initial_routable_decision_fields_v2_def Let_def res_bind_Inr_iff)

lemma payload_fields_valid:
  "initial_routable_decision_payload_v2 serialise v = Some p \<Longrightarrow>
     validate_initial_routable_decision_fields_v2 (do_fields v) = Inr ()"
  by (auto simp: initial_routable_decision_payload_v2_def initial_routable_decision_fields_payload_v2_def
      split: if_splits sum.splits)

text \<open>The arguments of a canonical NextMove are native JSON: thawing them changes nothing.\<close>

lemma next_move_arguments_thaw:
  assumes "accepts new_next_move m" "nm_arguments m = Some args"
  shows "thaw_object args = Inr args" "find_trusted_in_items args = None"
proof -
  from assms(1) have ok: "is_ok (validate_optional_arguments (nm_arguments m))"
    and eq: "m = m\<lparr>nm_arguments := ok_or None (validate_optional_arguments (nm_arguments m))\<rparr>"
    by (simp_all add: accepts_iff new_next_move_def construct_Inr_iff Let_def)
  from arg_cong[OF eq, of nm_arguments]
  have "nm_arguments m = ok_or None (validate_optional_arguments (nm_arguments m))" by simp
  with ok assms(2) obtain copied where c: "validate_arguments args = Inr copied" "nm_arguments m = Some copied"
    by (cases "validate_arguments args") (simp_all add: validate_optional_arguments_def is_ok_def ok_or_def)
  with assms(2) show "thaw_object args = Inr args" "find_trusted_in_items args = None"
    by (auto simp: validate_arguments_def res_bind_Inr_iff)
qed

text \<open>
  On a sealed decision whose current graph is exact, the construction at the end cannot fail:
  revalidation is exactly its guards.
\<close>

lemma new_revalidated_total:
  assumes valid: "validate_initial_routable_decision_fields_v2 (do_fields decision) = Inr ()"
    and guards: "checks (revalidation_guards decision task unit binding) = Inr ()"
    and canon: "accepts new_task_record (inst_of task)" "accepts new_input_binding (inst_of binding)"
  shows "new_revalidated_next_move (revalidated_of decision (inst_of task) (inst_of unit) (inst_of binding))
    = Inr (revalidated_of decision (inst_of task) (inst_of unit) (inst_of binding))"
proof -
  let ?c = "rd_next_move_candidate (do_fields decision)"
  have move: "accepts new_next_move ?c" by (rule routable_fields_next_move(1)[OF valid])
  from guards obtain name args where c: "nm_requested_tool_name ?c = Some name" "nm_arguments ?c = Some args"
    by (auto simp: revalidation_guards_def Let_def)
  have thaw: "thaw_object args = Inr args" by (rule next_move_arguments_thaw(1)[OF move c(2)])
  from move have name: "NonEmptyString name" "opt_all (\<lambda>v. 1 \<le> v) (nm_base_task_state_version ?c)"
    using c(1) by (simp_all add: accepts_iff new_next_move_def construct_Inr_iff Let_def)
  have ver: "1 \<le> tk_state_version (inst_of task)"
    using canon(1) by (simp add: accepts_iff new_task_record_def construct_Inr_iff)
  have bind: "ib_name (inst_of binding) = str ''order_id''" "OrderId (ib_normalized_value (inst_of binding))"
    using canon(2) by (simp_all add: accepts_iff new_input_binding_def construct_Inr_iff)
  have cand: "opt_all OrderId (candidate_order_id_or_none args)"
    by (cases "candidate_order_id_or_none args") (simp_all add: candidate_order_id_valid)
  show ?thesis
    using thaw name ver bind cand
    by (simp add: new_revalidated_next_move_def construct_Inr_iff Let_def revalidated_of_def c is_ok_def ok_or_def)
qed

lemma exact_canonical_inst_shape:
  "exact_canonical_inst new_x required optional v \<Longrightarrow> \<exists>x. v = Obj x [] \<and> accepts new_x (inst_of x)"
  by (auto simp: exact_canonical_inst_iff)

lemma exact_current_shape:
  "exact_task t \<Longrightarrow> \<exists>x. t = Obj x [] \<and> accepts new_task_record (inst_of x)"
  "exact_request_unit u \<Longrightarrow> \<exists>x. u = Obj x [] \<and> accepts new_request_unit_record (inst_of x)"
  "exact_input_binding b \<Longrightarrow> \<exists>x. b = Obj x [] \<and> accepts new_input_binding (inst_of x)"
  unfolding exact_task_def exact_request_unit_def exact_input_binding_def
  by (erule exact_canonical_inst_shape)+

lemma revalidate_Inr_iff:
  "revalidate_next_move_v2 serialise st address current_task current_unit current_binding = Inr rv \<longleftrightarrow>
     (\<exists>decision task unit binding. initial_routable_decision_seal_matches serialise st address
        \<and> ss_objects st address = Some decision
        \<and> current_task = Obj task [] \<and> current_unit = Obj unit [] \<and> current_binding = Obj binding []
        \<and> exact_task current_task \<and> exact_request_unit current_unit \<and> exact_input_binding current_binding
        \<and> checks (revalidation_guards decision task unit binding) = Inr ()
        \<and> rv = revalidated_of decision (inst_of task) (inst_of unit) (inst_of binding))" (is "?L \<longleftrightarrow> ?R")
proof -
  have total: "new_revalidated_next_move (revalidated_of decision (inst_of task) (inst_of unit) (inst_of binding))
      = Inr (revalidated_of decision (inst_of task) (inst_of unit) (inst_of binding))"
    if m: "initial_routable_decision_seal_matches serialise st address" and d: "ss_objects st address = Some decision"
      and e: "exact_task (Obj task [])" "exact_input_binding (Obj binding [])"
      and g: "checks (revalidation_guards decision task unit binding) = Inr ()" for decision task unit binding
  proof (rule new_revalidated_total[OF _ g])
    from m d show "validate_initial_routable_decision_fields_v2 (do_fields decision) = Inr ()"
      by (elim seal_matches_registered) (simp add: payload_fields_valid)
    show "accepts new_task_record (inst_of task)" "accepts new_input_binding (inst_of binding)"
      using exact_current_shape(1)[OF e(1)] exact_current_shape(3)[OF e(2)] by simp_all
  qed
  show ?thesis
  proof
    assume L: ?L
    then have m: "initial_routable_decision_seal_matches serialise st address"
      and e: "exact_task current_task" "exact_request_unit current_unit" "exact_input_binding current_binding"
      by (simp_all add: revalidate_next_move_v2_def res_bind_Inr_iff)
    obtain task unit binding where o: "current_task = Obj task []" "current_unit = Obj unit []"
      "current_binding = Obj binding []"
      using exact_current_shape(1)[OF e(1)] exact_current_shape(2)[OF e(2)] exact_current_shape(3)[OF e(3)] by blast
    from m obtain decision where d: "ss_objects st address = Some decision" by (elim seal_matches_registered)
    from L m e d have g: "checks (revalidation_guards decision task unit binding) = Inr ()"
      and r: "new_revalidated_next_move (revalidated_of decision (inst_of task) (inst_of unit) (inst_of binding)) = Inr rv"
      by (simp_all add: revalidate_next_move_v2_def res_bind_Inr_iff Let_def o del: checks_Inr_iff)
    from total[OF m d e(1,3)[unfolded o] g] r
    have "rv = revalidated_of decision (inst_of task) (inst_of unit) (inst_of binding)" by simp
    with m d e g o show ?R by blast
  next
    assume ?R
    then obtain decision task unit binding where m: "initial_routable_decision_seal_matches serialise st address"
      and d: "ss_objects st address = Some decision"
      and o: "current_task = Obj task []" "current_unit = Obj unit []" "current_binding = Obj binding []"
      and e: "exact_task current_task" "exact_request_unit current_unit" "exact_input_binding current_binding"
      and g: "checks (revalidation_guards decision task unit binding) = Inr ()"
      and rv: "rv = revalidated_of decision (inst_of task) (inst_of unit) (inst_of binding)" by blast
    from total[OF m d e(1,3)[unfolded o] g] show ?L
      using m d e g rv
      by (simp add: revalidate_next_move_v2_def res_bind_Inr_iff Let_def o del: checks_Inr_iff)
  qed
qed

end
