(* ===== verification/Control_Gateway.thy ===== *)
theory Control_Gateway
  imports Revalidation
begin

section \<open>The Control Gateway (core/control_gateway.py)\<close>

text \<open>
  Pure, fail-closed decision on one revalidated tool call: every deterministic boundary is
  checked again and recorded in a \<open>GateDecision\<close>. The lemmas show that the decision is ACCEPT
  exactly when all nine checks hold, that a rejection names a check that failed, and that the
  record's own validators never refuse what the gateway builds.
\<close>

subsection \<open>Resolving names in a registry snapshot\<close>

definition resolve_registration ::
  "registry_snapshot \<Rightarrow> pystr \<Rightarrow> pystr option \<times> tool_registration option" where
  "resolve_registration snapshot requested_provider_name =
     (case filter (\<lambda>b. pb_provider_visible_name b = requested_provider_name)
             (rs_provider_name_to_canonical_name snapshot) of
        [binding] \<Rightarrow>
          let canonical_name = pb_canonical_tool_name binding
          in (case filter (\<lambda>r. ts_name (tr_tool_spec r) = canonical_name) (rs_canonical_registrations snapshot) of
                [registration] \<Rightarrow> (Some canonical_name, Some registration)
              | _ \<Rightarrow> (Some canonical_name, None))
      | _ \<Rightarrow> (None, None))"

definition registration_matches_visible_spec :: "tool_registration option \<Rightarrow> tool_spec option \<Rightarrow> bool" where
  "registration_matches_visible_spec registration provider_visible_spec =
     (case (registration, provider_visible_spec) of
        (Some r, Some spec) \<Rightarrow> tool_spec_eq spec (visible_spec r)
      | _ \<Rightarrow> False)"

text \<open>The end of \<open>_closed_get_order_schema_is_valid\<close>: the raw argument, normalized here again.\<close>

definition normalized_argument :: "pystr \<Rightarrow> pystr option \<Rightarrow> bool" where
  "normalized_argument raw_order_id normalized_candidate_order_id =
     (let stripped = py_strip raw_order_id;
          normalized_raw = (if casefold (take 2 stripped) = str ''o-'' then str ''O-'' @ drop 2 stripped else stripped)
      in OrderId normalized_raw \<and> Some normalized_raw = normalized_candidate_order_id)"

definition closed_get_order_schema_is_valid ::
  "json_object \<Rightarrow> pystr option \<Rightarrow> tool_registration option \<Rightarrow> tool_spec option \<Rightarrow> bool" where
  "closed_get_order_schema_is_valid arguments normalized_candidate_order_id registration provider_visible_spec =
     (case registration of
        None \<Rightarrow> False
      | Some r \<Rightarrow>
          if \<not> tool_spec_eq (tr_tool_spec r) get_order_tool_spec then False
          else if \<not> registration_matches_visible_spec registration provider_visible_spec then False
          else if set (map fst arguments) \<noteq> {str ''order_id''} then False
          else (case map_of arguments (str ''order_id'') of
              Some (JStr raw_order_id) \<Rightarrow> normalized_argument raw_order_id normalized_candidate_order_id
            | _ \<Rightarrow> False))"

definition resolve_provider_visible_spec :: "registry_snapshot \<Rightarrow> pystr \<Rightarrow> tool_spec option" where
  "resolve_provider_visible_spec snapshot requested_provider_name =
     (case filter (\<lambda>spec. ts_name spec = requested_provider_name) (rs_provider_visible_toolset snapshot) of
        [spec] \<Rightarrow> Some spec
      | _ \<Rightarrow> None)"

definition resolve_validated_get_order_registration ::
  "registry_snapshot \<Rightarrow> pystr \<Rightarrow> tool_registration option" where
  "resolve_validated_get_order_registration registry_snapshot requested_provider_name =
     (let (resolved_name, registration) = resolve_registration registry_snapshot requested_provider_name;
          visible = resolve_provider_visible_spec registry_snapshot requested_provider_name
      in case registration of
           None \<Rightarrow> None
         | Some r \<Rightarrow>
             if resolved_name \<noteq> Some (str ''get_order'') \<or> requested_provider_name \<noteq> str ''get_order''
                \<or> tr_provider_visible_name r \<noteq> requested_provider_name
                \<or> \<not> tool_spec_eq (tr_tool_spec r) get_order_tool_spec
                \<or> \<not> registration_matches_visible_spec registration visible
             then None else Some r)"

subsection \<open>The nine checks\<close>

record gateway_input =
  gi_revalidated_move :: revalidated_next_move
  gi_customer_context :: "customer_context pyobj"
  gi_current_task :: task_record
  gi_current_request_unit :: request_unit_record
  gi_current_input_binding :: input_binding
  gi_registry_snapshot :: registry_snapshot
  gi_context_manifest :: context_manifest
  gi_gate_decision_id :: uuid
  gi_model_call_id :: uuid
  gi_provider_tool_call_id :: "pystr option"
  gi_decided_at :: datetime
  gi_tool_calls_used :: int
  gi_max_tool_calls :: int
  gi_progress_valid :: bool

definition snapshot_match :: "gateway_input \<Rightarrow> bool" where
  "snapshot_match g \<longleftrightarrow>
     cm_tool_registry_version (gi_context_manifest g) = rs_tool_registry_version (gi_registry_snapshot g)
     \<and> cm_model_visible_toolset_hash (gi_context_manifest g) = rs_model_visible_toolset_hash (gi_registry_snapshot g)"

definition gateway_resolution :: "gateway_input \<Rightarrow> pystr option \<times> tool_registration option" where
  "gateway_resolution g = resolve_registration (gi_registry_snapshot g)
     (rv_requested_provider_tool_name (gi_revalidated_move g))"

definition gateway_visible_spec :: "gateway_input \<Rightarrow> tool_spec option" where
  "gateway_visible_spec g = resolve_provider_visible_spec (gi_registry_snapshot g)
     (rv_requested_provider_tool_name (gi_revalidated_move g))"

definition registration_valid :: "gateway_input \<Rightarrow> bool" where
  "registration_valid g \<longleftrightarrow>
     fst (gateway_resolution g) = Some (str ''get_order'')
     \<and> rv_requested_provider_tool_name (gi_revalidated_move g) = str ''get_order''
     \<and> (case snd (gateway_resolution g) of None \<Rightarrow> False
        | Some r \<Rightarrow> tr_provider_visible_name r = str ''get_order'')
     \<and> gateway_visible_spec g \<noteq> None"

definition trusted_field_valid :: "gateway_input \<Rightarrow> bool" where
  "trusted_field_valid g \<longleftrightarrow> find_trusted_in_items (rv_candidate_arguments (gi_revalidated_move g)) = None"

definition schema_valid :: "gateway_input \<Rightarrow> bool" where
  "schema_valid g = closed_get_order_schema_is_valid (rv_candidate_arguments (gi_revalidated_move g))
     (rv_normalized_candidate_order_id (gi_revalidated_move g)) (snd (gateway_resolution g)) (gateway_visible_spec g)"

definition graph_binding_valid :: "gateway_input \<Rightarrow> bool" where
  "graph_binding_valid g \<longleftrightarrow>
     (let binding = gi_current_input_binding g; move = gi_revalidated_move g;
          refs = ru_input_binding_refs (gi_current_request_unit g)
      in ib_name binding = str ''order_id'' \<and> ib_binding_id binding \<in> set refs
         \<and> refs = [ib_binding_id binding] \<and> rv_argument_binding_refs move = [ib_binding_id binding]
         \<and> rv_binding_name move = ib_name binding
         \<and> rv_binding_normalized_value move = ib_normalized_value binding)"

definition argument_binding_valid :: "gateway_input \<Rightarrow> bool" where
  "argument_binding_valid g \<longleftrightarrow> graph_binding_valid g
     \<and> rv_normalized_candidate_order_id (gi_revalidated_move g) = Some (ib_normalized_value (gi_current_input_binding g))"

definition budget_valid :: "gateway_input \<Rightarrow> bool" where
  "budget_valid g \<longleftrightarrow> gi_max_tool_calls g = 1 \<and> 0 \<le> gi_tool_calls_used g
     \<and> gi_tool_calls_used g < gi_max_tool_calls g"

definition state_version_valid :: "gateway_input \<Rightarrow> bool" where
  "state_version_valid g \<longleftrightarrow>
     (let task = gi_current_task g; unit = gi_current_request_unit g; move = gi_revalidated_move g;
          manifest = gi_context_manifest g
      in (case gi_customer_context g of
            Foreign \<Rightarrow> False
          | Obj customer _ \<Rightarrow> tk_owner_customer_id task = cc_customer_id customer)
         \<and> tk_task_id task = rv_task_id move \<and> ru_task_id unit = tk_task_id task
         \<and> ru_request_unit_id unit = rv_request_unit_id move
         \<and> tk_status task = ACTIVE \<and> ru_status unit = ACTIVE
         \<and> tk_state_version task = ru_state_version unit
         \<and> tk_state_version task = rv_validated_task_state_version move
         \<and> rv_proposed_base_task_state_version move = None
         \<and> cm_task_state_ref_and_version manifest = None
         \<and> cm_run_id manifest = rv_run_id move
         \<and> cm_model_call_id manifest = gi_model_call_id g)"

definition action_boundary_valid :: "gateway_input \<Rightarrow> bool" where
  "action_boundary_valid g \<longleftrightarrow>
     (case snd (gateway_resolution g) of None \<Rightarrow> False | Some r \<Rightarrow> tr_effect r = READ)"

text \<open>The \<open>if\<close>/\<open>elif\<close> chain that picks the reason, by priority.\<close>

definition gateway_reason :: "gateway_input \<Rightarrow> gate_reason_code option" where
  "gateway_reason g =
     (if \<not> argument_binding_valid g then Some ARGUMENT_BINDING_MISMATCH
      else if \<not> snapshot_match g then Some SNAPSHOT_MISMATCH
      else if \<not> registration_valid g then Some TOOL_NOT_REGISTERED
      else if \<not> trusted_field_valid g then Some TRUSTED_FIELD_INJECTION
      else if \<not> schema_valid g then Some SCHEMA_INVALID
      else if \<not> budget_valid g then Some BUDGET_EXCEEDED
      else if \<not> gi_progress_valid g then Some NO_PROGRESS
      else if \<not> state_version_valid g then Some STATE_VERSION_MISMATCH
      else if \<not> action_boundary_valid g then Some ACTION_REQUIRES_PROPOSAL
      else None)"

definition gateway_checks :: "gateway_input \<Rightarrow> bool list" where
  "gateway_checks g =
     [snapshot_match g, registration_valid g, schema_valid g, trusted_field_valid g,
      argument_binding_valid g, budget_valid g, gi_progress_valid g, state_version_valid g,
      action_boundary_valid g]"

definition gateway_record :: "gateway_input \<Rightarrow> gate_decision" where
  "gateway_record g =
     \<lparr>gd_gate_decision_id = gi_gate_decision_id g,
      gd_model_call_id = gi_model_call_id g,
      gd_context_manifest_id = cm_context_manifest_id (gi_context_manifest g),
      gd_provider_tool_call_id = gi_provider_tool_call_id g,
      gd_requested_provider_tool_name = rv_requested_provider_tool_name (gi_revalidated_move g),
      gd_resolved_canonical_tool_name = fst (gateway_resolution g),
      gd_snapshot_match = snapshot_match g,
      gd_registration_valid = registration_valid g,
      gd_schema_valid = schema_valid g,
      gd_trusted_field_valid = trusted_field_valid g,
      gd_argument_binding_valid = argument_binding_valid g,
      gd_argument_binding_refs = rv_argument_binding_refs (gi_revalidated_move g),
      gd_budget_valid = budget_valid g,
      gd_progress_valid = gi_progress_valid g,
      gd_proposed_base_task_state_version = rv_proposed_base_task_state_version (gi_revalidated_move g),
      gd_validated_task_state_version = Some (rv_validated_task_state_version (gi_revalidated_move g)),
      gd_state_version_valid = state_version_valid g,
      gd_action_boundary_valid = action_boundary_valid g,
      gd_decision = (if list_all (\<lambda>b. b) (gateway_checks g) then GateAccept else GateReject),
      gd_reason_code = gateway_reason g,
      gd_decided_at = gi_decided_at g\<rparr>"

definition evaluate_control_gateway :: "gateway_input \<Rightarrow> validation_error + gate_decision" where
  "evaluate_control_gateway g = new_gate_decision (gateway_record g)"

subsection \<open>The decision and its reason\<close>

lemma gateway_reason_None_iff: "gateway_reason g = None \<longleftrightarrow> list_all (\<lambda>b. b) (gateway_checks g)"
  by (simp add: gateway_reason_def gateway_checks_def)

lemma gateway_reason_failed:
  "gateway_reason g = Some code \<Longrightarrow> \<not> gate_reason_check code (gateway_record g)"
  by (auto simp: gateway_reason_def gate_reason_check_def gateway_record_def split: if_splits)

lemma gateway_record_checks: "gate_checks (gateway_record g) = gateway_checks g"
  by (simp add: gate_checks_def gateway_checks_def gateway_record_def)

lemma resolve_registration_member:
  assumes "resolve_registration s name = (Some c, r)"
  shows "\<exists>b\<in>set (rs_provider_name_to_canonical_name s). pb_provider_visible_name b = name \<and> pb_canonical_tool_name b = c"
proof -
  obtain b where f: "filter (\<lambda>b. pb_provider_visible_name b = name) (rs_provider_name_to_canonical_name s) = [b]"
    and c: "pb_canonical_tool_name b = c"
    using assms by (auto simp: resolve_registration_def Let_def split: list.splits)
  from f have "b \<in> set (filter (\<lambda>b. pb_provider_visible_name b = name) (rs_provider_name_to_canonical_name s))" by simp
  with c show ?thesis by auto
qed

text \<open>What the gateway relies on: its arguments are valid instances.\<close>

definition gateway_input_valid :: "gateway_input \<Rightarrow> bool" where
  "gateway_input_valid g \<longleftrightarrow>
     accepts new_revalidated_next_move (gi_revalidated_move g)
     \<and> list_all (accepts new_provider_tool_name_binding)
         (rs_provider_name_to_canonical_name (gi_registry_snapshot g))
     \<and> opt_all NonEmptyString (gi_provider_tool_call_id g) \<and> is_utc (gi_decided_at g)"

lemma resolved_name_valid:
  assumes "gateway_input_valid g"
  shows "opt_all ToolName (fst (gateway_resolution g))"
proof (cases "fst (gateway_resolution g)")
  case (Some c)
  then have "gateway_resolution g = (Some c, snd (gateway_resolution g))" by (simp add: prod_eq_iff)
  then obtain b where "b \<in> set (rs_provider_name_to_canonical_name (gi_registry_snapshot g))"
    "pb_canonical_tool_name b = c"
    unfolding gateway_resolution_def by (blast dest: resolve_registration_member)
  with assms Some show ?thesis
    by (auto simp: gateway_input_valid_def list_all_iff accepts_iff new_provider_tool_name_binding_def construct_Inr_iff)
qed simp

lemma gateway_never_raises:
  assumes v: "gateway_input_valid g"
  shows "evaluate_control_gateway g = Inr (gateway_record g)"
proof -
  from v have m: "NonEmptyString (rv_requested_provider_tool_name (gi_revalidated_move g))"
    "opt_all (\<lambda>v. 1 \<le> v) (rv_proposed_base_task_state_version (gi_revalidated_move g))"
    "1 \<le> rv_validated_task_state_version (gi_revalidated_move g)"
    "rv_argument_binding_refs (gi_revalidated_move g) \<noteq> []"
    by (auto simp: gateway_input_valid_def accepts_iff new_revalidated_next_move_def construct_Inr_iff Let_def)
  have "decision_matches_checks (gateway_record g) = Inr ()"
  proof (cases "list_all (\<lambda>b. b) (gateway_checks g)")
    case True
    then have "registration_valid g" by (simp add: gateway_checks_def)
    then have "fst (gateway_resolution g) \<noteq> None" by (simp add: registration_valid_def)
    moreover have "gateway_reason g = None" using True by (simp add: gateway_reason_None_iff)
    moreover have "gd_decision (gateway_record g) = GateAccept" using True by (simp add: gateway_record_def)
    ultimately show ?thesis
      using True m(4) by (simp add: decision_matches_checks_def gateway_record_checks)
        (simp add: gateway_record_def)
  next
    case False
    then obtain code where c: "gateway_reason g = Some code"
      using gateway_reason_None_iff[of g] by (cases "gateway_reason g") simp_all
    have d: "gd_decision (gateway_record g) = GateReject" "gd_reason_code (gateway_record g) = Some code"
      "gd_argument_binding_refs (gateway_record g) \<noteq> []"
      using False c m(4) by (simp_all add: gateway_record_def)
    show ?thesis
      using False gateway_reason_failed[OF c] d(3)
      by (simp add: decision_matches_checks_def gateway_record_checks d(1,2))
  qed
  moreover have "list_all snd
     [(''provider_tool_call_id'', opt_all NonEmptyString (gd_provider_tool_call_id (gateway_record g))),
      (''requested_provider_tool_name'', NonEmptyString (gd_requested_provider_tool_name (gateway_record g))),
      (''resolved_canonical_tool_name'', opt_all ToolName (gd_resolved_canonical_tool_name (gateway_record g))),
      (''proposed_base_task_state_version'', opt_all (\<lambda>v. 1 \<le> v) (gd_proposed_base_task_state_version (gateway_record g))),
      (''validated_task_state_version'', opt_all (\<lambda>v. 1 \<le> v) (gd_validated_task_state_version (gateway_record g))),
      (''decided_at'', is_utc (gd_decided_at (gateway_record g)))]"
    using v m resolved_name_valid[OF v] by (simp add: gateway_record_def gateway_input_valid_def)
  ultimately show ?thesis
    by (simp add: evaluate_control_gateway_def new_gate_decision_def construct_with_Inr_iff)
qed

lemma evaluate_gateway_Inr:
  "evaluate_control_gateway g = Inr d \<Longrightarrow> d = gateway_record g"
  by (simp add: evaluate_control_gateway_def new_gate_decision_def construct_with_Inr_iff)

lemma normalized_argument_iff:
  "normalized_argument raw v \<longleftrightarrow> (\<exists>n. normalize_order_id (JStr raw) = Inr n \<and> v = Some n)"
  by (auto simp: normalized_argument_def normalize_order_id_def Let_def)

text \<open>The schema check normalizes the raw argument exactly as the candidate was normalized.\<close>

lemma schema_valid_argument:
  assumes "schema_valid g"
  obtains raw n where "map_of (rv_candidate_arguments (gi_revalidated_move g)) (str ''order_id'') = Some (JStr raw)"
    "normalize_order_id (JStr raw) = Inr n" "rv_normalized_candidate_order_id (gi_revalidated_move g) = Some n"
    "set (map fst (rv_candidate_arguments (gi_revalidated_move g))) = {str ''order_id''}"
proof -
  from assms obtain r where r: "snd (gateway_resolution g) = Some r"
    by (auto simp: schema_valid_def closed_get_order_schema_is_valid_def split: option.splits)
  with assms have keys: "set (map fst (rv_candidate_arguments (gi_revalidated_move g))) = {str ''order_id''}"
    by (auto simp: schema_valid_def closed_get_order_schema_is_valid_def split: if_splits)
  from assms r obtain raw where
    "map_of (rv_candidate_arguments (gi_revalidated_move g)) (str ''order_id'') = Some (JStr raw)"
    and "normalized_argument raw (rv_normalized_candidate_order_id (gi_revalidated_move g))"
    by (auto simp: schema_valid_def closed_get_order_schema_is_valid_def
        split: if_splits option.splits json.splits)
  with keys that show ?thesis unfolding normalized_argument_iff by blast
qed

lemma resolved_by_registry:
  assumes "registration_valid g" "schema_valid g" "snd (gateway_resolution g) = Some r"
  shows "resolve_validated_get_order_registration (gi_registry_snapshot g)
           (rv_requested_provider_tool_name (gi_revalidated_move g)) = Some r"
proof -
  have "fst (gateway_resolution g) = Some (str ''get_order'')" using assms(1) by (simp only: registration_valid_def)
  with assms(3) have "gateway_resolution g = (Some (str ''get_order''), Some r)" by (simp only: prod_eq_iff fst_conv snd_conv)
  then have "resolve_registration (gi_registry_snapshot g)
      (rv_requested_provider_tool_name (gi_revalidated_move g)) = (Some (str ''get_order''), Some r)"
    by (simp only: gateway_resolution_def)
  with assms show ?thesis
    unfolding resolve_validated_get_order_registration_def schema_valid_def registration_valid_def
      closed_get_order_schema_is_valid_def gateway_visible_spec_def
    by (simp split: if_splits)
qed

end
