(* ===== verification/Registry_Facts.thy ===== *)
theory Registry_Facts
  imports Control_Gateway
begin

section \<open>Registry snapshots are built consistent and resolve exactly\<close>

text \<open>
  \<open>RegistrySnapshot.build\<close> succeeds exactly on a non-empty list of registrations with unique
  names whose visible projections are valid, and what it builds is what the gateway reads: a
  provider name resolves to its own registration and visible ToolSpec, any other name to nothing.
\<close>

subsection \<open>Hashing valid ToolSpecs\<close>

lemma valid_schema_native:
  assumes "validate_schema v = Inr c"
  shows "thaw_object v = Inr c" "native_json_items c" "distinct (map fst c)"
proof -
  show t: "thaw_object v = Inr c"
    using assms by (auto simp: validate_schema_def res_bind_Inr_iff)
  then obtain us where us: "thaw_json_items v = Inr us" "c = dict_of_items us"
    by (auto simp: thaw_object_def split: sum.splits)
  then have "native_json_items us" by (simp add: thaw_gives_native(3))
  then show "native_json_items c"
    using values_dict_of_items[of us] us(2) unfolding native_json_items_iff by blast
  show "distinct (map fst c)" by (simp add: us(2) distinct_dict_of_items)
qed

lemma validate_schema_twice: "validate_schema v = Inr c \<Longrightarrow> validate_schema c = Inr c"
  by (auto simp: validate_schema_def res_bind_Inr_iff dest: thaw_object_twice)

interpretation tool_spec: validated_class new_tool_spec
proof
  fix x y assume h: "new_tool_spec x = Inr y"
  then obtain i j where "validate_schema (ts_input_schema x) = Inr i" "validate_schema (ts_output_schema x) = Inr j"
    by (auto simp: new_tool_spec_def construct_Inr_iff Let_def is_ok_def split: sum.splits)
  with h show "new_tool_spec y = Inr y"
    using validate_schema_twice[of "ts_input_schema x" i] validate_schema_twice[of "ts_output_schema x" j]
    by (auto simp: new_tool_spec_def construct_Inr_iff Let_def is_ok_def ok_or_def)
qed

lemma valid_spec_dump:
  assumes "new_tool_spec s = Inr t"
  shows "\<exists>v. tool_spec_dump t = Inr v \<and> native_json v"
proof -
  obtain i j where ij: "validate_schema (ts_input_schema s) = Inr i" "validate_schema (ts_output_schema s) = Inr j"
    and t: "ts_input_schema t = i" "ts_output_schema t = j"
    using assms by (auto simp: new_tool_spec_def construct_Inr_iff Let_def is_ok_def ok_or_def split: sum.splits)
  have "thaw_object i = Inr i" "thaw_object j = Inr j"
    using ij valid_schema_native(1) thaw_object_twice by blast+
  moreover have "native_json_items i" "native_json_items j" "distinct (map fst i)" "distinct (map fst j)"
    using ij valid_schema_native(2,3) by blast+
  ultimately show ?thesis by (simp add: tool_spec_dump_def t str_def)
qed

lemma native_json_list_iff: "native_json_list vs \<longleftrightarrow> list_all native_json vs"
  by (induction vs) auto

lemma toolset_hash_total:
  assumes "specs \<noteq> []" "distinct (map ts_name specs)" "\<And>s. s \<in> set specs \<Longrightarrow> \<exists>r. new_tool_spec r = Inr s"
  shows "\<exists>h. compute_model_visible_toolset_hash specs = Inr h \<and> ToolsetHash h"
proof -
  let ?sorted = "sort_key ts_name specs"
  have "\<forall>s\<in>set ?sorted. \<exists>v. tool_spec_dump s = Inr v \<and> native_json v"
    using assms(3) valid_spec_dump by (metis set_sort)
  then obtain d where d: "\<And>s. s \<in> set ?sorted \<Longrightarrow> tool_spec_dump s = Inr (d s) \<and> native_json (d s)" by metis
  have m: "res_map tool_spec_dump ?sorted = Inr (map d ?sorted)"
    by (rule res_map_total) (simp add: d)
  have "native_json (JDict [(str ''artifact_schema_version'', JStr MODEL_VISIBLE_TOOLSET_ARTIFACT_SCHEMA_VERSION),
      (str ''tools'', JList (map d ?sorted))])"
    using d by (simp add: native_json_list_iff list_all_iff str_def)
  from json_dumps_native(1)[OF this] obtain doc where
    doc: "json_dumps (JDict [(str ''artifact_schema_version'', JStr MODEL_VISIBLE_TOOLSET_ARTIFACT_SCHEMA_VERSION),
      (str ''tools'', JList (map d ?sorted))]) = Inr doc" ..
  have ne: "?sorted \<noteq> []" using assms(1) by (metis length_0_conv length_sort)
  have "distinct (map ts_name ?sorted)"
    using assms(2) by (metis distinct_map distinct_sort set_sort)
  with m doc ne show ?thesis
    by (simp add: compute_model_visible_toolset_hash_def Let_def ToolsetHash_def)
qed

subsection \<open>Building\<close>

definition registrable :: "tool_registration list \<Rightarrow> bool" where
  "registrable regs \<longleftrightarrow> regs \<noteq> [] \<and> distinct (map (ts_name \<circ> tr_tool_spec) regs)
     \<and> distinct (map tr_provider_visible_name regs)
     \<and> list_all (\<lambda>r. is_ok (new_tool_spec (visible_spec r))
         \<and> new_provider_tool_name_binding (registry_binding r) = Inr (registry_binding r)) regs"

text \<open>The ToolSpec the snapshot shows for a registration.\<close>

definition shown_spec :: "tool_registration \<Rightarrow> tool_spec" where
  "shown_spec r = ok_or (visible_spec r) (new_tool_spec (visible_spec r))"

definition snapshot_of :: "pystr \<Rightarrow> tool_registration list \<Rightarrow> registry_snapshot" where
  "snapshot_of v regs =
     (let ordered = sort_key tr_provider_visible_name regs
      in \<lparr>rs_tool_registry_version = v, rs_canonical_registrations = regs,
          rs_provider_visible_toolset = map shown_spec ordered,
          rs_provider_name_to_canonical_name = map registry_binding ordered,
          rs_model_visible_toolset_hash = ok_or [] (compute_model_visible_toolset_hash (map shown_spec ordered))\<rparr>)"

interpretation name_binding: plain_record new_provider_tool_name_binding
  by (rule plain_recordI) (auto simp: new_provider_tool_name_binding_def construct_def)

lemma shown_spec_name [simp]: "ts_name (shown_spec r) = tr_provider_visible_name r"
  by (auto simp: shown_spec_def ok_or_def visible_spec_def new_tool_spec_def construct_Inr_iff Let_def split: sum.splits)

lemma registrable_sorted:
  assumes "registrable regs"
  defines "ordered \<equiv> sort_key tr_provider_visible_name regs"
  shows "ordered \<noteq> []" "distinct (map tr_provider_visible_name ordered)" "set ordered = set regs"
    "res_map (new_tool_spec \<circ> visible_spec) ordered = Inr (map shown_spec ordered)"
    "res_map (new_provider_tool_name_binding \<circ> registry_binding) ordered = Inr (map registry_binding ordered)"
proof -
  show s: "set ordered = set regs" by (simp add: ordered_def)
  show "ordered \<noteq> []" using assms(1) s by (auto simp: registrable_def)
  show "distinct (map tr_provider_visible_name ordered)"
    using assms(1) unfolding ordered_def registrable_def by (metis distinct_map distinct_sort set_sort)
  show "res_map (new_tool_spec \<circ> visible_spec) ordered = Inr (map shown_spec ordered)"
    by (rule res_map_total)
      (use assms(1) s in \<open>auto simp: registrable_def list_all_iff shown_spec_def is_ok_def ok_or_def split: sum.splits\<close>)
  show "res_map (new_provider_tool_name_binding \<circ> registry_binding) ordered = Inr (map registry_binding ordered)"
    by (rule res_map_total) (use assms(1) s in \<open>auto simp: registrable_def list_all_iff\<close>)
qed

lemma hash_of_registrable:
  assumes "registrable regs"
  shows "\<exists>h. compute_model_visible_toolset_hash (map shown_spec (sort_key tr_provider_visible_name regs)) = Inr h \<and> ToolsetHash h"
proof (rule toolset_hash_total)
  let ?ordered = "sort_key tr_provider_visible_name regs"
  note sorted = registrable_sorted[OF assms]
  show "map shown_spec ?ordered \<noteq> []" using sorted(1) by simp
  show "distinct (map ts_name (map shown_spec ?ordered))" using sorted(2) by (simp add: comp_def)
  fix s assume "s \<in> set (map shown_spec ?ordered)"
  then show "\<exists>r. new_tool_spec r = Inr s"
    using res_map_set[OF sorted(4)] by auto
qed

lemma map_of_pairs_set: "distinct (map fst xs) \<Longrightarrow> set (dict_of_items xs) = set xs"
  by (simp add: dict_of_items_distinct)

lemma snapshot_of_valid:
  assumes "registrable regs" "NonEmptyString v"
  shows "new_registry_snapshot (snapshot_of v regs) = Inr (snapshot_of v regs)"
proof -
  let ?ordered = "sort_key tr_provider_visible_name regs"
  note sorted = registrable_sorted[OF assms(1)]
  obtain h where h: "compute_model_visible_toolset_hash (map shown_spec ?ordered) = Inr h" "ToolsetHash h"
    using hash_of_registrable[OF assms(1)] by blast
  have d: "distinct (map fst (map (\<lambda>r. (tr_provider_visible_name r, ts_name (tr_tool_spec r))) regs))"
    "distinct (map fst (map (\<lambda>b. (pb_provider_visible_name b, pb_canonical_tool_name b)) (map registry_binding ?ordered)))"
    using assms(1) sorted(2) by (simp_all add: registrable_def comp_def registry_binding_def)
  then have "set (dict_of_items (map (\<lambda>b. (pb_provider_visible_name b, pb_canonical_tool_name b)) (map registry_binding ?ordered)))
      = set (dict_of_items (map (\<lambda>r. (tr_provider_visible_name r, ts_name (tr_tool_spec r))) regs))"
    unfolding map_of_pairs_set[OF d(1)] map_of_pairs_set[OF d(2)] by (auto simp: registry_binding_def)
  moreover have "set (map fst (dict_of_items (map (\<lambda>r. (tr_provider_visible_name r, ts_name (tr_tool_spec r))) regs)))
      = set (map ts_name (map shown_spec ?ordered))"
    unfolding set_map map_of_pairs_set[OF d(1)] by (auto simp: image_iff)
  ultimately have "snapshot_is_self_consistent (snapshot_of v regs) = Inr ()"
    using assms(1) h
    by (simp add: snapshot_is_self_consistent_def snapshot_of_def Let_def ok_or_def registrable_def comp_def)
  with h assms(2) show ?thesis
    by (simp add: new_registry_snapshot_def construct_with_Inr_iff snapshot_of_def Let_def ok_or_def)
qed

lemma res_map_defined: "res_map f xs = Inr ys \<Longrightarrow> x \<in> set xs \<Longrightarrow> \<exists>y. f x = Inr y"
  unfolding res_map_Inr_iff by (induction rule: list_all2_induct) auto

lemma as_plain_Inr_iff [simp]: "as_plain m = Inr x \<longleftrightarrow> m = Inr x"
  by (simp add: as_plain_def split: sum.splits)

lemma build_registry_snapshot_iff:
  "build_registry_snapshot v regs = Inr s \<longleftrightarrow> registrable regs \<and> NonEmptyString v \<and> s = snapshot_of v regs"
proof
  assume b: "build_registry_snapshot v regs = Inr s"
  let ?ordered = "sort_key tr_provider_visible_name regs"
  from b obtain specs bs h where r: "regs \<noteq> []" "distinct (map (ts_name \<circ> tr_tool_spec) regs)"
      "distinct (map tr_provider_visible_name regs)"
    and specs: "res_map (new_tool_spec \<circ> visible_spec) ?ordered = Inr specs"
    and bs: "res_map (new_provider_tool_name_binding \<circ> registry_binding) ?ordered = Inr bs"
    and h: "compute_model_visible_toolset_hash specs = Inr h"
    and s: "new_registry_snapshot \<lparr>rs_tool_registry_version = v, rs_canonical_registrations = regs,
            rs_provider_visible_toolset = specs, rs_provider_name_to_canonical_name = bs,
            rs_model_visible_toolset_hash = h\<rparr> = Inr s"
    by (auto simp: build_registry_snapshot_def Let_def res_bind_Inr_iff)
  have "list_all (\<lambda>r. is_ok (new_tool_spec (visible_spec r))
         \<and> new_provider_tool_name_binding (registry_binding r) = Inr (registry_binding r)) regs"
  proof (unfold list_all_iff, intro ballI conjI)
    fix r assume "r \<in> set regs"
    then have m: "r \<in> set ?ordered" by simp
    from res_map_defined[OF specs m] show "is_ok (new_tool_spec (visible_spec r))" by (auto simp: is_ok_def)
    from res_map_defined[OF bs m] obtain y where "new_provider_tool_name_binding (registry_binding r) = Inr y" by auto
    then show "new_provider_tool_name_binding (registry_binding r) = Inr (registry_binding r)"
      using name_binding.unchanged by blast
  qed
  with r have reg: "registrable regs" by (simp add: registrable_def)
  from registrable_sorted(4,5)[OF reg] specs bs have "specs = map shown_spec ?ordered" "bs = map registry_binding ?ordered"
    by simp_all
  with s h have "s = snapshot_of v regs \<and> NonEmptyString v"
    by (auto simp: new_registry_snapshot_def construct_with_Inr_iff snapshot_of_def Let_def ok_or_def)
  with reg show "registrable regs \<and> NonEmptyString v \<and> s = snapshot_of v regs" by simp
next
  assume a: "registrable regs \<and> NonEmptyString v \<and> s = snapshot_of v regs"
  then have reg: "registrable regs" by simp
  obtain h where h: "compute_model_visible_toolset_hash (map shown_spec (sort_key tr_provider_visible_name regs)) = Inr h"
    using hash_of_registrable[OF reg] by blast
  from a snapshot_of_valid[OF reg, of v] registrable_sorted(4,5)[OF reg] h show "build_registry_snapshot v regs = Inr s"
    by (simp add: build_registry_snapshot_def Let_def registrable_def res_bind_def as_plain_def snapshot_of_def ok_or_def)
qed

subsection \<open>Resolving\<close>

lemma filter_key_unique:
  "distinct (map key xs) \<Longrightarrow> x \<in> set xs \<Longrightarrow> filter (\<lambda>y. key y = key x) xs = [x]"
  by (induction xs) (auto simp: filter_empty_conv image_iff dest: sym)

lemma resolve_registered:
  assumes "build_registry_snapshot v regs = Inr s" "r \<in> set regs"
  shows "resolve_registration s (tr_provider_visible_name r) = (Some (ts_name (tr_tool_spec r)), Some r)"
    and "resolve_provider_visible_spec s (tr_provider_visible_name r) = Some (shown_spec r)"
proof -
  let ?ordered = "sort_key tr_provider_visible_name regs"
  from assms have reg: "registrable regs" and s: "s = snapshot_of v regs" by (simp_all add: build_registry_snapshot_iff)
  have r: "r \<in> set ?ordered" using assms(2) by simp
  note d = registrable_sorted(2)[OF reg]
  have "distinct (map pb_provider_visible_name (map registry_binding ?ordered))"
    using d by (simp add: comp_def registry_binding_def)
  from filter_key_unique[OF this, of "registry_binding r"] r
  have 1: "filter (\<lambda>b. pb_provider_visible_name b = tr_provider_visible_name r) (map registry_binding ?ordered) = [registry_binding r]"
    by (auto simp: registry_binding_def)
  have "distinct (map (ts_name \<circ> tr_tool_spec) regs)" using reg by (simp add: registrable_def)
  from filter_key_unique[OF this assms(2)]
  have 2: "filter (\<lambda>q. ts_name (tr_tool_spec q) = ts_name (tr_tool_spec r)) regs = [r]" by simp
  show "resolve_registration s (tr_provider_visible_name r) = (Some (ts_name (tr_tool_spec r)), Some r)"
    using 1 2 by (simp add: resolve_registration_def s snapshot_of_def Let_def registry_binding_def)
  have "distinct (map ts_name (map shown_spec ?ordered))" using d by (simp add: comp_def)
  from filter_key_unique[OF this, of "shown_spec r"] r
  have "filter (\<lambda>t. ts_name t = tr_provider_visible_name r) (map shown_spec ?ordered) = [shown_spec r]" by simp
  then show "resolve_provider_visible_spec s (tr_provider_visible_name r) = Some (shown_spec r)"
    by (simp add: resolve_provider_visible_spec_def s snapshot_of_def Let_def)
qed

lemma resolve_unregistered:
  assumes "build_registry_snapshot v regs = Inr s" "name \<notin> set (map tr_provider_visible_name regs)"
  shows "resolve_registration s name = (None, None)" "resolve_provider_visible_spec s name = None"
proof -
  from assms have s: "s = snapshot_of v regs" by (simp add: build_registry_snapshot_iff)
  have "filter (\<lambda>b. pb_provider_visible_name b = name) (rs_provider_name_to_canonical_name s) = []"
    "filter (\<lambda>t. ts_name t = name) (rs_provider_visible_toolset s) = []"
    using assms(2) by (auto simp: s snapshot_of_def Let_def filter_empty_conv registry_binding_def)
  then show "resolve_registration s name = (None, None)" "resolve_provider_visible_spec s name = None"
    by (simp_all add: resolve_registration_def resolve_provider_visible_spec_def)
qed

lemma built_artifact:
  assumes "build_registry_snapshot v regs = Inr s"
  shows "\<exists>a. snapshot_artifact s = Inr a \<and> ta_provider_visible_tool_specs a = rs_provider_visible_toolset s"
proof -
  from assms have reg: "registrable regs" and s: "s = snapshot_of v regs" by (simp_all add: build_registry_snapshot_iff)
  from hash_of_registrable[OF reg] show ?thesis
    by (auto simp: snapshot_artifact_def new_toolset_artifact_def construct_with_Inr_iff hash_matches_projection_def
        s snapshot_of_def Let_def ok_or_def)
qed

end
