(* ===== verification/Reduction_Facts.thy ===== *)
theory Reduction_Facts
  imports Reduction
begin

section \<open>The reducer never fails past its checks\<close>

text \<open>
  \<open>spec_decision\<close> says what the reducer decides, without construction or failure: which
  candidates are accepted, the graph of each, the closure record. The lemmas show that every
  constructor the code goes through accepts these values, so that \<open>reducer_refines\<close> equates the
  code with the specification.
\<close>

subsection \<open>Specification\<close>

definition graph_of :: "uuid \<Rightarrow> customer_context \<Rightarrow> datetime \<Rightarrow> identity_allocation
    \<Rightarrow> task_delta_candidate \<Rightarrow> pystr \<Rightarrow> initial_graph" where
  "graph_of message_ref customer now a c n =
     \<lparr>ig_accepted_delta =
        \<lparr>ad_accepted_delta_id = al_accepted_delta_id a, ad_candidate_ref = tdc_candidate_id c,
         ad_message_ref = message_ref, ad_operation = ADD_GOAL, ad_goal_text = tdc_goal_patch c,
         ad_input_binding_refs = [al_binding_id a], ad_accepted_at = now, ad_task_id = al_task_id a,
         ad_base_task_state_version = None, ad_result_task_state_version = 1\<rparr>,
      ig_input_binding =
        \<lparr>ib_binding_id = al_binding_id a, ib_name = str ''order_id'', ib_normalized_value = n,
         ib_authority = USER_CLAIM, ib_source_refs = [message_ref], ib_validation_status = ACCEPTED,
         ib_confirmed_by_user = True, ib_created_at = now, ib_updated_at = now, ib_supersedes = None\<rparr>,
      ig_task =
        \<lparr>tk_task_id = al_task_id a, tk_owner_customer_id = cc_customer_id customer, tk_status = ACTIVE,
         tk_state_version = 1, tk_created_at = now, tk_updated_at = now, tk_last_outcome_ref = None\<rparr>,
      ig_request_unit =
        \<lparr>ru_request_unit_id = al_request_unit_id a, ru_task_id = al_task_id a,
         ru_goal_text = tdc_goal_patch c, ru_goal_source_refs = [message_ref],
         ru_contextualization_ref = None, ru_constraint_refs = [], ru_dependency_refs = [],
         ru_input_binding_refs = [al_binding_id a], ru_open_questions = [], ru_observation_refs = [],
         ru_evidence_binding_refs = [], ru_pending_action_ref = None, ru_result_refs = [],
         ru_status = ACTIVE, ru_state_version = 1, ru_created_at = now, ru_updated_at = now\<rparr>\<rparr>"

definition decision_of :: "request_output \<Rightarrow> task_delta_candidate \<Rightarrow> candidate_validation_record" where
  "decision_of output c =
     (let reason = candidate_rejection_reason_v2 c output
      in \<lparr>cv_candidate_ref = tdc_candidate_id c,
          cv_decision = (if reason = None then DECISION_ACCEPT else DECISION_REJECT),
          cv_reason_code = reason\<rparr>)"

definition accepted_of :: "request_output \<Rightarrow> task_delta_candidate list" where
  "accepted_of output =
     filter (\<lambda>c. candidate_rejection_reason_v2 c output = None) (ro_task_delta_candidates output)"

definition order_id_of :: "task_delta_candidate \<Rightarrow> pystr" where
  "order_id_of c = (case normalize_order_id (JStr (ic_candidate_value (hd (tdc_input_candidates c)))) of
      Inl _ \<Rightarrow> [] | Inr n \<Rightarrow> n)"

definition graphs_of :: "request_output \<Rightarrow> customer_context \<Rightarrow> datetime
    \<Rightarrow> (uuid \<times> identity_allocation) list \<Rightarrow> initial_graph list" where
  "graphs_of output customer now allocations =
     map (\<lambda>c. graph_of (ro_message_ref output) customer now
            (the (map_of allocations (tdc_candidate_id c))) c (order_id_of c)) (accepted_of output)"

definition spec_decision :: "messages \<Rightarrow> request_input \<Rightarrow> request_output \<Rightarrow> customer_context \<Rightarrow> uuid
    \<Rightarrow> (uuid \<times> identity_allocation) list \<Rightarrow> uuid \<Rightarrow> datetime \<Rightarrow> durable_contextualization
    \<Rightarrow> durable_task_delta_candidate list \<Rightarrow> initial_decision" where
  "spec_decision msgs ri ro customer record_id allocations move_ref now context candidates =
     (let graphs = graphs_of ro customer now allocations;
          routable = (length (ro_task_delta_candidates ro) = 1 \<and> length graphs = 1);
          children = map ig_accepted_delta graphs;
          closure = \<lparr>cl_record = closure_record ri ro record_id context candidates
              (map (decision_of ro) (ro_task_delta_candidates ro)) children None
              (if routable then Some 1 else None) (if routable then Some move_ref else None) now,
            cl_accepted_task_deltas = children\<rparr>
      in if graphs = [] then NoTask \<lparr>nt_closure = closure\<rparr>
         else if routable then Routable \<lparr>rd_closure = closure, rd_task_graph = hd graphs,
           rd_next_move_candidate_ref = move_ref, rd_next_move_candidate = ro_next_move_candidate ro\<rparr>
         else Unrouted \<lparr>ur_closure = closure, ur_task_graphs = graphs\<rparr>)"

subsection \<open>Candidate decisions\<close>

lemma rejection_None_normalizes:
  assumes "candidate_rejection_reason_v2 c output = None"
  shows "\<exists>i. tdc_input_candidates c = [i] \<and> normalize_order_id (JStr (ic_candidate_value i)) = Inr (order_id_of c)
       \<and> ic_name i = str ''order_id'' \<and> ic_authority i = USER_CLAIM \<and> ic_source_ref i = ro_message_ref output"
proof -
  from assms obtain i where i: "tdc_input_candidates c = [i]"
    by (auto simp: candidate_rejection_reason_v2_def Let_def split: if_splits list.splits)
  with assms show ?thesis
    by (auto simp: candidate_rejection_reason_v2_def Let_def order_id_of_def split: if_splits sum.splits)
qed

lemma decision_of_accepted: "accepts new_candidate_validation_record (decision_of output c)"
  by (simp add: accepts_iff new_candidate_validation_record_def construct_Inr_iff decision_of_def Let_def)

lemma is_accept_decision_of [simp]:
  "is_accept (decision_of output c) \<longleftrightarrow> candidate_rejection_reason_v2 c output = None"
  by (simp add: is_accept_def decision_of_def Let_def)

lemma decision_of_ref [simp]: "cv_candidate_ref (decision_of output c) = tdc_candidate_id c"
  by (simp add: decision_of_def Let_def)

subsection \<open>Graphs\<close>

lemma graph_of_valid:
  assumes "OrderId n" "is_utc now" "NonEmptyString (tdc_goal_patch c)"
    and "NonEmptyString (cc_customer_id customer)" "accepts new_identity_allocation a"
  shows "accepts new_initial_graph (graph_of m customer now a c n)"
proof -
  have "distinct (generated_of a)"
    using assms(5) by (simp add: accepts_iff new_identity_allocation_def construct_Inr_iff)
  with assms(1-4) show ?thesis
    by (auto simp: accepts_iff new_initial_graph_def construct_Inr_iff initial_graph_guards_def Let_def
        graph_of_def graph_timestamps_def generated_of_def new_accepted_task_delta_def new_input_binding_def
        new_task_record_def new_request_unit_record_def dt_less_def)
qed

lemma build_initial_task_graph_v2_total:
  assumes "OrderId n" "is_utc now" "NonEmptyString (tdc_goal_patch c)"
    and "NonEmptyString (cc_customer_id customer)" "accepts new_identity_allocation a"
  shows "build_initial_task_graph_v2 c a customer m n now = Inr (graph_of m customer now a c n)"
proof -
  note v = graph_of_valid[OF assms, of m]
  then have "list_all (\<lambda>(g, _). \<not> g) (initial_graph_guards (graph_of m customer now a c n))"
    by (simp add: accepts_iff new_initial_graph_def construct_Inr_iff)
  then have "accepts new_accepted_task_delta (ig_accepted_delta (graph_of m customer now a c n))"
    "accepts new_input_binding (ig_input_binding (graph_of m customer now a c n))"
    "accepts new_task_record (ig_task (graph_of m customer now a c n))"
    "accepts new_request_unit_record (ig_request_unit (graph_of m customer now a c n))"
    by (simp_all add: initial_graph_guards_def Let_def)
  with v show ?thesis
    by (simp add: build_initial_task_graph_v2_def accepts_iff graph_of_def)
qed

subsection \<open>The loop\<close>

lemma reduce_candidates_total:
  assumes "is_utc now" "NonEmptyString (cc_customer_id customer)"
    and "\<And>c. c \<in> set cs \<Longrightarrow> NonEmptyString (tdc_goal_patch c)"
    and "\<And>c. c \<in> set cs \<Longrightarrow> \<exists>a. map_of allocations (tdc_candidate_id c) = Some a \<and> accepts new_identity_allocation a"
  shows "reduce_candidates output allocations customer now cs ds gs =
    Inr (ds @ map (decision_of output) cs,
         gs @ map (\<lambda>c. graph_of (ro_message_ref output) customer now
           (the (map_of allocations (tdc_candidate_id c))) c (order_id_of c))
           (filter (\<lambda>c. candidate_rejection_reason_v2 c output = None) cs))"
  using assms(3,4)
proof (induction cs arbitrary: ds gs)
  case Nil
  then show ?case by simp
next
  case (Cons c cs)
  have dec: "new_candidate_validation_record
      \<lparr>cv_candidate_ref = tdc_candidate_id c,
       cv_decision = (if candidate_rejection_reason_v2 c output \<noteq> None then DECISION_REJECT else DECISION_ACCEPT),
       cv_reason_code = candidate_rejection_reason_v2 c output\<rparr> = Inr (decision_of output c)"
    by (simp add: new_candidate_validation_record_def construct_Inr_iff decision_of_def Let_def)
  have IH: "reduce_candidates output allocations customer now cs ds' gs' =
    Inr (ds' @ map (decision_of output) cs,
         gs' @ map (\<lambda>c. graph_of (ro_message_ref output) customer now
           (the (map_of allocations (tdc_candidate_id c))) c (order_id_of c))
           (filter (\<lambda>c. candidate_rejection_reason_v2 c output = None) cs))" for ds' gs'
    by (rule Cons.IH) (use Cons.prems in auto)
  show ?case
  proof (cases "candidate_rejection_reason_v2 c output")
    case (Some r)
    with dec show ?thesis by (simp add: Let_def IH)
  next
    case None
    from rejection_None_normalizes[OF None] obtain i where
      i: "tdc_input_candidates c = [i]" "normalize_order_id (JStr (ic_candidate_value i)) = Inr (order_id_of c)"
      by blast
    obtain a where a: "map_of allocations (tdc_candidate_id c) = Some a" "accepts new_identity_allocation a"
      using Cons.prems(2)[of c] by auto
    have "build_initial_task_graph_v2 c a customer (ro_message_ref output) (order_id_of c) now =
        Inr (graph_of (ro_message_ref output) customer now a c (order_id_of c))"
      using normalize_order_id_Inr[OF i(2)] assms(1,2) a(2) Cons.prems(1)[of c]
      by (intro build_initial_task_graph_v2_total) simp_all
    with None dec i a show ?thesis by (simp add: Let_def IH)
  qed
qed

subsection \<open>Identities\<close>

definition allocations_ok :: "identity_allocation list \<Rightarrow> uuid list \<Rightarrow> uuid \<Rightarrow> uuid \<Rightarrow> bool" where
  "allocations_ok allocs emitted record_id move_ref \<longleftrightarrow>
     list_all (accepts new_identity_allocation) allocs
     \<and> distinct (map al_candidate_ref allocs) \<and> set (map al_candidate_ref allocs) = set emitted
     \<and> distinct (record_id # move_ref # concat (map generated_of allocs))"

lemma is_ok_require_utc [simp]: "is_ok (require_utc now field) \<longleftrightarrow> is_utc now"
  by (auto simp: is_ok_def require_utc_def is_utc_def split: option.splits)

lemma canonical_allocations_Inr_iff:
  "canonical_initial_identity_allocations_v2 given emitted record_id move_ref cust now = Inr ds \<longleftrightarrow>
     (\<exists>c allocs. cust = Obj c [] \<and> accepts new_customer_context c \<and> is_utc now
        \<and> given = Some (map (\<lambda>a. Obj a []) allocs) \<and> allocations_ok allocs emitted record_id move_ref
        \<and> ds = dict_by al_candidate_ref allocs)" (is "?L \<longleftrightarrow> ?R")
proof
  assume ?L
  then have c: "exact_canonical new_customer_context cust" "is_ok (require_utc now ''now'')"
    and rest: "(case given of None \<Rightarrow> Inl closure_failed | Some gs \<Rightarrow>
         if \<not> list_all (exact_canonical new_identity_allocation) gs then Inl closure_failed
         else if has_duplicates (map al_candidate_ref (map fields_of gs))
                 \<or> set (map al_candidate_ref (map fields_of gs)) \<noteq> set emitted then Inl closure_failed
         else if has_duplicates (record_id # move_ref # concat (map generated_of (map fields_of gs)))
         then Inl closure_failed else Inr (dict_by al_candidate_ref (map fields_of gs))) = Inr ds"
    by (simp_all only: canonical_initial_identity_allocations_v2_def res_bind_Inr_iff raise_if_Inr_iff Let_def)
       simp_all
  from rest obtain gs where g: "given = Some gs" "list_all (exact_canonical new_identity_allocation) gs"
    and d0: "distinct (map al_candidate_ref (map fields_of gs))"
      "set (map al_candidate_ref (map fields_of gs)) = set emitted"
      "distinct (record_id # move_ref # concat (map generated_of (map fields_of gs)))"
    and ds: "ds = dict_by al_candidate_ref (map fields_of gs)"
    by (cases given) (simp_all only: option.case has_duplicates_iff split: if_splits, simp_all)
  have "list_all (accepts new_identity_allocation) (map fields_of gs)"
    using g(2) by (induction gs) (auto simp: exact_canonical_def split: pyobj.splits)
  with d0 have d: "allocations_ok (map fields_of gs) emitted record_id move_ref"
    unfolding allocations_ok_def by blast
  from g(2) have "gs = map (\<lambda>a. Obj a []) (map fields_of gs)"
    by (induction gs) (auto simp: exact_canonical_def split: pyobj.splits)
  moreover from c obtain x where "cust = Obj x []" "accepts new_customer_context x"
    by (auto simp: exact_canonical_def split: pyobj.splits)
  moreover from c(2) have "is_utc now" by simp
  ultimately show ?R using g(1) d ds by metis
next
  assume ?R
  then obtain c allocs where r: "cust = Obj c []" "accepts new_customer_context c" "is_utc now"
     "given = Some (map (\<lambda>a. Obj a []) allocs)" "allocations_ok allocs emitted record_id move_ref"
     "ds = dict_by al_candidate_ref allocs" by blast
  have "require_utc now ''now'' = Inr now" using r(3) by simp
  moreover have "list_all (exact_canonical new_identity_allocation) (map (\<lambda>a. Obj a []) allocs)"
    using r(5) by (simp add: allocations_ok_def exact_canonical_def list_all_iff)
  moreover have "map fields_of (map (\<lambda>a. Obj a []) allocs) = allocs" by (simp add: comp_def)
  ultimately show ?L
    using r unfolding canonical_initial_identity_allocations_v2_def allocations_ok_def Let_def
    by (simp add: exact_canonical_def)
qed

lemma distinct_framed:
  "distinct xs \<Longrightarrow> set xs \<subseteq> set ys \<Longrightarrow> a \<notin> set ys \<Longrightarrow> b \<notin> set ys \<Longrightarrow> a \<noteq> b \<Longrightarrow> distinct (a # xs @ [b])"
  by auto

lemma distinct_concat_member:
  "distinct (concat (map f xs)) \<Longrightarrow> x \<in> set xs \<Longrightarrow> distinct (f x)"
  by (induction xs) auto

lemma distinct_concat_disjoint:
  "distinct (concat (map f xs)) \<Longrightarrow> x \<in> set xs \<Longrightarrow> y \<in> set xs \<Longrightarrow> x \<noteq> y \<Longrightarrow> set (f x) \<inter> set (f y) = {}"
  by (induction xs) auto

lemma distinct_concat_subset:
  assumes "distinct (concat (map f xs))" "distinct ys" "set ys \<subseteq> set xs"
  shows "distinct (concat (map f ys))"
  using assms(2,3)
proof (induction ys)
  case (Cons y ys)
  have "set (f y) \<inter> set (f z) = {}" if "z \<in> set ys" for z
    using distinct_concat_disjoint[OF assms(1), of y z] Cons.prems that by auto
  moreover have "distinct (f y)" using distinct_concat_member[OF assms(1)] Cons.prems by simp
  ultimately show ?case using Cons by auto
qed simp

lemma allocation_lookup:
  assumes "allocations_ok allocs emitted record_id move_ref" "r \<in> set emitted"
  obtains a where "map_of (dict_by al_candidate_ref allocs) r = Some a" "a \<in> set allocs"
    "al_candidate_ref a = r" "accepts new_identity_allocation a"
proof -
  from assms have "r \<in> al_candidate_ref ` set allocs" by (auto simp: allocations_ok_def)
  then obtain a where a: "a \<in> set allocs" "r = al_candidate_ref a" by blast
  moreover have "map_of (dict_by al_candidate_ref allocs) (al_candidate_ref a) = Some a"
    using assms(1) a(1) by (simp add: map_of_dict_by_mem allocations_ok_def)
  moreover have "accepts new_identity_allocation a"
    using assms(1) a(1) by (auto simp: allocations_ok_def list_all_iff)
  ultimately show ?thesis using that by auto
qed

text \<open>The allocation a candidate is looked up to, and the identities its graph uses.\<close>

definition alloc_for :: "(uuid \<times> identity_allocation) list \<Rightarrow> task_delta_candidate \<Rightarrow> identity_allocation" where
  "alloc_for allocations c = the (map_of allocations (tdc_candidate_id c))"

lemma graphs_of_alloc:
  "graphs_of output customer now allocations =
     map (\<lambda>c. graph_of (ro_message_ref output) customer now (alloc_for allocations c) c (order_id_of c))
       (accepted_of output)"
  by (simp add: graphs_of_def alloc_for_def)

lemma alloc_for_facts:
  assumes ok: "allocations_ok allocs (map tdc_candidate_id cs) record_id move_ref"
    and d: "distinct (map tdc_candidate_id cs)" and sub: "set ys \<subseteq> set cs" "distinct ys"
  shows "distinct (map (alloc_for (dict_by al_candidate_ref allocs)) ys)"
    and "set (map (alloc_for (dict_by al_candidate_ref allocs)) ys) \<subseteq> set allocs"
    and "distinct (record_id # concat (map (generated_of \<circ> alloc_for (dict_by al_candidate_ref allocs)) ys)
           @ [move_ref])"
proof -
  let ?f = "alloc_for (dict_by al_candidate_ref allocs)"
  have look: "?f c \<in> set allocs \<and> al_candidate_ref (?f c) = tdc_candidate_id c" if "c \<in> set cs" for c
  proof -
    from that have "tdc_candidate_id c \<in> set (map tdc_candidate_id cs)" by simp
    then obtain a where "map_of (dict_by al_candidate_ref allocs) (tdc_candidate_id c) = Some a"
      "a \<in> set allocs" "al_candidate_ref a = tdc_candidate_id c"
      by (rule allocation_lookup[OF ok])
    then show ?thesis by (simp only: alloc_for_def option.sel simp_thms)
  qed
  have "inj_on tdc_candidate_id (set cs)" using d by (simp add: distinct_map)
  with look sub(1) have "inj_on ?f (set ys)" by (metis (no_types, lifting) inj_onD inj_onI subsetD)
  with sub(2) show dist: "distinct (map ?f ys)" by (simp add: distinct_map)
  from look sub(1) show subset: "set (map ?f ys) \<subseteq> set allocs" by auto
  have g: "distinct (concat (map generated_of allocs))"
    "record_id \<notin> set (concat (map generated_of allocs))" "move_ref \<notin> set (concat (map generated_of allocs))"
    "record_id \<noteq> move_ref"
    using ok by (auto simp: allocations_ok_def)
  have "distinct (concat (map generated_of (map ?f ys)))"
    by (rule distinct_concat_subset[OF g(1) dist subset])
  moreover have "set (concat (map generated_of (map ?f ys))) \<subseteq> set (concat (map generated_of allocs))"
    using subset by auto
  ultimately have "distinct (record_id # concat (map generated_of (map ?f ys)) @ [move_ref])"
    by (rule distinct_framed[OF _ _ g(2) g(3) g(4)])
  then show "distinct (record_id # concat (map (generated_of \<circ> ?f) ys) @ [move_ref])"
    by (simp only: map_map)
qed

lemma accepted_of_sub:
  "set (accepted_of ro) \<subseteq> set (ro_task_delta_candidates ro)"
  "distinct (map tdc_candidate_id (ro_task_delta_candidates ro)) \<Longrightarrow> distinct (accepted_of ro)"
  by (auto simp: accepted_of_def distinct_map)

lemma graph_of_identities: "graph_identities (graph_of m customer now a c n) =
    [al_accepted_delta_id a, al_task_id a, al_request_unit_id a, al_binding_id a]"
  by (simp add: graph_identities_def graph_of_def)

subsection \<open>The closure of the specified decision is valid\<close>

lemma validate_version_chain_fresh:
  assumes "\<And>c k. c \<in> set cs \<Longrightarrow> map_of m (tdc_candidate_id c) = Some k \<Longrightarrow>
        ad_base_task_state_version k = None \<and> last_version (ad_task_id k) = None"
    and "\<And>c c' k k'. c \<in> set cs \<Longrightarrow> c' \<in> set cs \<Longrightarrow> tdc_candidate_id c \<noteq> tdc_candidate_id c' \<Longrightarrow>
        map_of m (tdc_candidate_id c) = Some k \<Longrightarrow> map_of m (tdc_candidate_id c') = Some k' \<Longrightarrow>
        ad_task_id k \<noteq> ad_task_id k'"
    and "distinct (map tdc_candidate_id cs)"
  shows "validate_version_chain m cs last_version = Inr ()"
  using assms
proof (induction cs arbitrary: last_version)
  case (Cons c cs)
  show ?case
  proof (cases "map_of m (tdc_candidate_id c)")
    case None
    have "validate_version_chain m cs last_version = Inr ()"
    proof (rule Cons.IH)
      show "ad_base_task_state_version k = None \<and> last_version (ad_task_id k) = None"
        if "d \<in> set cs" "map_of m (tdc_candidate_id d) = Some k" for d k
        using Cons.prems(1)[OF _ that(2)] that(1) by simp
      show "ad_task_id k1 \<noteq> ad_task_id k2"
        if "c1 \<in> set cs" "c2 \<in> set cs" "tdc_candidate_id c1 \<noteq> tdc_candidate_id c2"
          "map_of m (tdc_candidate_id c1) = Some k1" "map_of m (tdc_candidate_id c2) = Some k2" for c1 c2 k1 k2
        using Cons.prems(2)[OF _ _ that(3-5)] that(1,2) by simp
    qed (use Cons.prems(3) in simp)
    with None show ?thesis by simp
  next
    case (Some k)
    have k: "ad_base_task_state_version k = None" "last_version (ad_task_id k) = None"
      using Cons.prems(1)[OF _ Some] by simp_all
    have "validate_version_chain m cs (last_version(ad_task_id k \<mapsto> ad_result_task_state_version k)) = Inr ()"
    proof (rule Cons.IH)
      fix c' k' assume c': "c' \<in> set cs" "map_of m (tdc_candidate_id c') = Some k'"
      from Cons.prems(3) have "tdc_candidate_id c \<notin> tdc_candidate_id ` set cs" by simp
      with c'(1) have "tdc_candidate_id c' \<noteq> tdc_candidate_id c" by (metis image_eqI)
      then have "ad_task_id k' \<noteq> ad_task_id k" 
        using Cons.prems(2)[of c' c k' k] c' Some by simp
      with Cons.prems(1)[of c' k'] c' show "ad_base_task_state_version k' = None \<and>
          (last_version(ad_task_id k \<mapsto> ad_result_task_state_version k)) (ad_task_id k') = None" by simp
    next
      fix c1 c2 k1 k2
      assume "c1 \<in> set cs" "c2 \<in> set cs" "tdc_candidate_id c1 \<noteq> tdc_candidate_id c2"
        "map_of m (tdc_candidate_id c1) = Some k1" "map_of m (tdc_candidate_id c2) = Some k2"
      then show "ad_task_id k1 \<noteq> ad_task_id k2" using Cons.prems(2)[of c1 c2 k1 k2] by simp
    qed (use Cons.prems(3) in simp)
    with Some k show ?thesis by simp
  qed
qed simp

lemma find_accepted:
  assumes "distinct (map tdc_candidate_id cs)" "c \<in> set cs"
  shows "find (\<lambda>d. tdc_candidate_id d = tdc_candidate_id c) cs = Some c"
  using assms by (induction cs) auto

lemma new_ru_record_reduced:
  assumes ok: "projection_ok msgs ri ro context candidates" and utc: "is_utc now"
    and refs: "distinct (map ad_accepted_delta_id children)" "length children = length (accepted_of ro)"
    and v: "opt_all (\<lambda>v. 1 \<le> v) validated" "move_ref = None \<longrightarrow> validated = None"
  shows "accepts new_ru_record (closure_record ri ro record_id context candidates
           (map (decision_of ro) (ro_task_delta_candidates ro)) children None validated move_ref now)"
proof -
  note cert = projection_ok_certified[OF ok]
  have can: "canonical_request_output ro" using ok by (simp add: projection_ok_def)
  note facts = canonical_output_facts[OF can]
  have schema: "ri_schema_version ri = str ''e2e01-thin-v1''"
    using ok by (auto simp: projection_ok_def canonical_request_input_def accepts_iff new_request_input_def
        construct_with_Inr_iff)
  have src: "ro_message_ref ro \<in> set (dcx_source_message_refs context)"
    using facts(3) cert(1) by (simp add: contextualization_certified_def)
  have inputs: "dic_source_ref i = ro_message_ref ro"
    if "d \<in> set candidates" "i \<in> set (dtd_input_candidates d)" for d i
  proof -
    from cert(2) that(1) obtain c where c: "c \<in> set (ro_task_delta_candidates ro)" "delta_certified msgs c d"
      by (metis in_set_conv_nth list_all2_conv_all_nth)
    then have "list_all2 (input_certified msgs) (tdc_input_candidates c) (dtd_input_candidates d)"
      by (simp add: delta_certified_def)
    with that(2) obtain j where "j \<in> set (tdc_input_candidates c)" "input_certified msgs j i"
      by (metis in_set_conv_nth list_all2_conv_all_nth)
    with facts(5)[OF c(1)] show ?thesis by (simp add: input_certified_def)
  qed
  have count: "length (filter is_accept (map (decision_of ro) (ro_task_delta_candidates ro))) = length children"
    by (simp add: refs(2) accepted_of_def filter_map comp_def)
  show ?thesis
    unfolding accepts_iff new_ru_record_def construct_Inr_iff closure_record_def record_graph_guards_def Let_def
    using facts(1,2) schema src inputs count refs(1) v utc cert(5)
    by (auto simp: comp_def)
qed

definition child_for :: "request_output \<Rightarrow> datetime \<Rightarrow> task_delta_candidate \<Rightarrow> accepted_task_delta \<Rightarrow> bool" where
  "child_for ro now c k \<longleftrightarrow>
     ad_candidate_ref k = tdc_candidate_id c \<and> ad_message_ref k = ro_message_ref ro
     \<and> ad_operation k = tdc_operation c \<and> ad_goal_text k = tdc_goal_patch c \<and> ad_accepted_at k = now
     \<and> distinct (ad_input_binding_refs k) \<and> ad_base_task_state_version k = None
     \<and> accepts new_accepted_task_delta k"

definition children_for :: "request_output \<Rightarrow> datetime \<Rightarrow> accepted_task_delta list \<Rightarrow> bool" where
  "children_for ro now children \<longleftrightarrow>
     list_all2 (child_for ro now) (accepted_of ro) children
     \<and> distinct (map ad_accepted_delta_id children) \<and> distinct (map ad_task_id children)"

lemma children_for_refs:
  "list_all2 (child_for ro now) cs ks \<Longrightarrow> map ad_candidate_ref ks = map tdc_candidate_id cs"
  by (induction rule: list_all2_induct) (simp_all add: child_for_def)

lemma children_for_member:
  assumes "list_all2 (child_for ro now) cs ks" "k \<in> set ks"
  obtains c where "c \<in> set cs" "child_for ro now c k"
  using assms by (metis in_set_conv_nth list_all2_conv_all_nth)

lemma accepted_refs:
  "map cv_candidate_ref (filter is_accept (map (decision_of ro) (ro_task_delta_candidates ro)))
     = map tdc_candidate_id (accepted_of ro)"
  by (simp add: accepted_of_def filter_map comp_def)

lemma accepted_ids_distinct:
  "distinct (map tdc_candidate_id (ro_task_delta_candidates ro)) \<Longrightarrow> distinct (map tdc_candidate_id (accepted_of ro))"
  by (simp add: accepted_of_def distinct_map_filter)

lemma version_chain_reduced:
  assumes ch: "children_for ro now children"
    and d: "distinct (map tdc_candidate_id (ro_task_delta_candidates ro))"
  shows "validate_version_chain (dict_by ad_candidate_ref children) (ro_task_delta_candidates ro) Map.empty = Inr ()"
proof -
  have all2: "list_all2 (child_for ro now) (accepted_of ro) children"
    and tasks: "distinct (map ad_task_id children)" using ch by (simp_all add: children_for_def)
  have "distinct (map ad_candidate_ref children)"
    using accepted_ids_distinct[OF d] by (simp only: children_for_refs[OF all2])
  then have dict: "dict_by ad_candidate_ref children = map (\<lambda>k. (ad_candidate_ref k, k)) children"
    by (rule dict_by_distinct)
  have mem: "k \<in> set children \<and> ad_candidate_ref k = r"
    if "map_of (dict_by ad_candidate_ref children) r = Some k" for k r
    using map_of_SomeD[OF that] unfolding dict by auto
  show ?thesis
  proof (rule validate_version_chain_fresh)
    fix c k assume "map_of (dict_by ad_candidate_ref children) (tdc_candidate_id c) = Some k"
    then have "k \<in> set children" using mem by blast
    with all2 obtain c' where "child_for ro now c' k" by (rule children_for_member)
    then show "ad_base_task_state_version k = None \<and> Map.empty (ad_task_id k) = None"
      by (simp add: child_for_def)
  next
    fix c c' k k'
    assume ne: "tdc_candidate_id c \<noteq> tdc_candidate_id c'"
      and "map_of (dict_by ad_candidate_ref children) (tdc_candidate_id c) = Some k"
        "map_of (dict_by ad_candidate_ref children) (tdc_candidate_id c') = Some k'"
    then have "k \<in> set children" "k' \<in> set children" "k \<noteq> k'" using mem by (blast, blast, metis)
    with tasks show "ad_task_id k \<noteq> ad_task_id k'" by (auto simp: distinct_map dest: inj_onD)
  qed (rule d)
qed

lemma durable_closure_reduced:
  assumes ch: "children_for ro now children"
    and d: "distinct (map tdc_candidate_id (ro_task_delta_candidates ro))"
  shows "validate_durable_closure_v2 ro (map (decision_of ro) (ro_task_delta_candidates ro)) children now = Inr ()"
proof -
  have all2: "list_all2 (child_for ro now) (accepted_of ro) children"
    and dist: "distinct (map ad_accepted_delta_id children)" using ch by (simp_all add: children_for_def)
  note refs = children_for_refs[OF all2]
  have vrefs: "map cv_candidate_ref (map (decision_of ro) (ro_task_delta_candidates ro))
      = map tdc_candidate_id (ro_task_delta_candidates ro)" by simp
  have pairs: "distinct (map (\<lambda>c. (ad_accepted_delta_id c, ad_task_id c)) children)"
    using dist by (auto simp: distinct_map inj_on_def)
  have emitted: "map_of (dict_by tdc_candidate_id (ro_task_delta_candidates ro)) (tdc_candidate_id c) = Some c"
    if "c \<in> set (accepted_of ro)" for c
    using that accepted_of_sub(1) by (intro map_of_dict_by_mem d) blast
  have "\<not> (\<exists>child\<in>set children.
      (case map_of (dict_by tdc_candidate_id (ro_task_delta_candidates ro)) (ad_candidate_ref child) of
         None \<Rightarrow> True
       | Some emitted \<Rightarrow> ad_message_ref child \<noteq> ro_message_ref ro \<or> ad_accepted_at child \<noteq> now
           \<or> ad_operation child \<noteq> tdc_operation emitted \<or> has_duplicates (ad_input_binding_refs child)))"
  proof (intro notI, elim bexE)
    fix k assume k: "k \<in> set children" and bad: "(case map_of (dict_by tdc_candidate_id
        (ro_task_delta_candidates ro)) (ad_candidate_ref k) of
         None \<Rightarrow> True
       | Some emitted \<Rightarrow> ad_message_ref k \<noteq> ro_message_ref ro \<or> ad_accepted_at k \<noteq> now
           \<or> ad_operation k \<noteq> tdc_operation emitted \<or> has_duplicates (ad_input_binding_refs k))"
    from all2 k obtain c where "c \<in> set (accepted_of ro)" "child_for ro now c k" by (rule children_for_member)
    with emitted bad show False by (simp add: child_for_def)
  qed
  then show ?thesis
    unfolding validate_durable_closure_v2_def Let_def accepted_refs vrefs refs
    using d accepted_ids_distinct[OF d] dist pairs version_chain_reduced[OF ch d]
    by simp
qed

lemma closure_reduced:
  assumes ok: "projection_ok msgs ri ro context candidates" and ch: "children_for ro now children"
    and rec: "r = closure_record ri ro record_id context candidates
           (map (decision_of ro) (ro_task_delta_candidates ro)) children None validated move_ref now"
    and valid: "accepts new_ru_record r"
  shows "accepts new_ru_closure \<lparr>cl_record = r, cl_accepted_task_deltas = children\<rparr>"
proof -
  note cert = projection_ok_certified[OF ok]
  have can: "canonical_request_output ro" using ok by (simp add: projection_ok_def)
  note d = canonical_output_facts(2)[OF can]
  have all2: "list_all2 (child_for ro now) (accepted_of ro) children"
    and dist: "distinct (map ad_accepted_delta_id children)" using ch by (simp_all add: children_for_def)
  have fields: "rc_contextualization r = context" "rc_task_delta_candidates r = candidates"
    "rc_candidate_validation r = map (decision_of ro) (ro_task_delta_candidates ro)"
    "rc_accepted_delta_refs r = map ad_accepted_delta_id children" "rc_message_ref r = ro_message_ref ro"
    "rc_created_at r = now"
    by (simp_all add: rec closure_record_def)
  have canr: "canonical_ru_record r"
    using valid cert(3,4) decision_of_accepted
    by (simp add: canonical_ru_record_def fields list_all_iff)
  have kids: "list_all (accepts new_accepted_task_delta) children"
    using all2 by (induction rule: list_all2_induct) (simp_all add: child_for_def)
  have vdist: "distinct (map cv_candidate_ref (map (decision_of ro) (ro_task_delta_candidates ro)))"
    using d by (simp add: comp_def)
  have refs: "set (map fst (filter (\<lambda>(_, d). is_accept d) (dict_by cv_candidate_ref (rc_candidate_validation r))))
      = set (map ad_candidate_ref children)"
    unfolding fields dict_by_accepted[OF vdist] children_for_refs[OF all2]
    by (metis accepted_refs set_map)
  have cdist: "distinct (map ad_candidate_ref children)"
    using accepted_ids_distinct[OF d] by (simp only: children_for_refs[OF all2])
  have child: "list_all (\<lambda>(g, _). \<not> g) (closure_child_guards r k)" if k: "k \<in> set children" for k
  proof -
    from all2 k obtain c where c: "c \<in> set (accepted_of ro)" "child_for ro now c k" by (rule children_for_member)
    have "c \<in> set (ro_task_delta_candidates ro)" using c(1) accepted_of_sub(1) by blast
    with cert(2) obtain t where t: "t \<in> set candidates" "delta_certified msgs c t"
      by (metis in_set_conv_nth list_all2_conv_all_nth)
    have "map_of (dict_by dtd_candidate_id candidates) (dtd_candidate_id t) = Some t"
      using cert(5) d t(1) by (simp add: map_of_dict_by_mem)
    with c t show ?thesis
      by (simp add: closure_child_guards_def fields Let_def child_for_def delta_certified_def)
  qed
  have "list_all (\<lambda>(g, _). \<not> g) (concat (map (closure_child_guards r) children))"
    using child by (fastforce simp: list_all_iff)
  then show ?thesis
    using canr kids cdist dist refs
    by (simp add: accepts_iff new_ru_closure_def construct_Inr_iff closure_guards_def Let_def fields(4))
qed

subsection \<open>The graphs of the specified decision\<close>

definition reduction_ok :: "messages \<Rightarrow> request_input \<Rightarrow> request_output \<Rightarrow> customer_context \<Rightarrow> uuid
    \<Rightarrow> identity_allocation list \<Rightarrow> uuid \<Rightarrow> datetime \<Rightarrow> durable_contextualization
    \<Rightarrow> durable_task_delta_candidate list \<Rightarrow> bool" where
  "reduction_ok msgs ri ro customer record_id allocs move_ref now context candidates \<longleftrightarrow>
     projection_ok msgs ri ro context candidates
     \<and> accepts new_customer_context customer \<and> is_utc now
     \<and> allocations_ok allocs (map tdc_candidate_id (ro_task_delta_candidates ro)) record_id move_ref"

lemma reduction_ok_candidates:
  assumes "reduction_ok msgs ri ro customer record_id allocs move_ref now context candidates"
  shows "distinct (map tdc_candidate_id (ro_task_delta_candidates ro))"
    and "NonEmptyString (cc_customer_id customer)"
    and "\<And>c. c \<in> set (ro_task_delta_candidates ro) \<Longrightarrow> NonEmptyString (tdc_goal_patch c)"
    and "\<And>c. c \<in> set (ro_task_delta_candidates ro) \<Longrightarrow>
           map_of (dict_by al_candidate_ref allocs) (tdc_candidate_id c) = Some (alloc_for (dict_by al_candidate_ref allocs) c)
           \<and> accepts new_identity_allocation (alloc_for (dict_by al_candidate_ref allocs) c)"
proof -
  have can: "canonical_request_output ro" using assms by (simp add: reduction_ok_def projection_ok_def)
  show "distinct (map tdc_candidate_id (ro_task_delta_candidates ro))" by (rule canonical_output_facts(2)[OF can])
  show "NonEmptyString (cc_customer_id customer)"
    using assms by (simp add: reduction_ok_def accepts_iff new_customer_context_def construct_Inr_iff)
  show "NonEmptyString (tdc_goal_patch c)" if "c \<in> set (ro_task_delta_candidates ro)" for c
    by (rule canonical_candidate_facts(1)[OF can that])
  have ok: "allocations_ok allocs (map tdc_candidate_id (ro_task_delta_candidates ro)) record_id move_ref"
    using assms by (simp add: reduction_ok_def)
  show "map_of (dict_by al_candidate_ref allocs) (tdc_candidate_id c) = Some (alloc_for (dict_by al_candidate_ref allocs) c)
      \<and> accepts new_identity_allocation (alloc_for (dict_by al_candidate_ref allocs) c)"
    if "c \<in> set (ro_task_delta_candidates ro)" for c
  proof -
    from that have "tdc_candidate_id c \<in> set (map tdc_candidate_id (ro_task_delta_candidates ro))" by simp
    then obtain a where "map_of (dict_by al_candidate_ref allocs) (tdc_candidate_id c) = Some a"
      "accepts new_identity_allocation a" by (rule allocation_lookup[OF ok])
    then show ?thesis by (simp add: alloc_for_def)
  qed
qed

lemma accepted_order_id:
  "c \<in> set (accepted_of ro) \<Longrightarrow> OrderId (order_id_of c)"
  using rejection_None_normalizes[of c ro] normalize_order_id_Inr by (auto simp: accepted_of_def)

lemma graph_valid_reduced:
  assumes ok: "reduction_ok msgs ri ro customer record_id allocs move_ref now context candidates"
    and c: "c \<in> set (accepted_of ro)"
  shows "accepts new_initial_graph (graph_of (ro_message_ref ro) customer now
           (alloc_for (dict_by al_candidate_ref allocs) c) c (order_id_of c))"
proof -
  have mem: "c \<in> set (ro_task_delta_candidates ro)" using c accepted_of_sub(1) by blast
  show ?thesis
    using ok reduction_ok_candidates(3)[OF ok mem] reduction_ok_candidates(4)[OF ok mem]
      reduction_ok_candidates(2)[OF ok] accepted_order_id[OF c]
    by (intro graph_of_valid) (simp_all add: reduction_ok_def)
qed

lemma graph_delta_accepts:
  "accepts new_initial_graph g \<Longrightarrow> accepts new_accepted_task_delta (ig_accepted_delta g)"
  by (simp add: accepts_iff new_initial_graph_def construct_Inr_iff initial_graph_guards_def Let_def)

lemma children_reduced:
  assumes ok: "reduction_ok msgs ri ro customer record_id allocs move_ref now context candidates"
  shows "children_for ro now (map ig_accepted_delta (graphs_of ro customer now (dict_by al_candidate_ref allocs)))"
proof -
  let ?f = "alloc_for (dict_by al_candidate_ref allocs)"
  have aok: "allocations_ok allocs (map tdc_candidate_id (ro_task_delta_candidates ro)) record_id move_ref"
    using ok by (simp add: reduction_ok_def)
  note d = reduction_ok_candidates(1)[OF ok]
  note ids = alloc_for_facts(3)[OF aok d accepted_of_sub(1) accepted_of_sub(2)[OF d]]
  then have dc: "distinct (concat (map (\<lambda>c. generated_of (?f c)) (accepted_of ro)))" by (simp add: comp_def)
  have pick: "distinct (map (\<lambda>c. pick (?f c)) (accepted_of ro))"
    if "\<And>a. pick a \<in> set (generated_of a)" for pick
  proof -
    have "pick (?f x) \<noteq> pick (?f y)" if "x \<in> set (accepted_of ro)" "y \<in> set (accepted_of ro)" "x \<noteq> y" for x y
      using distinct_concat_disjoint[OF dc that] \<open>\<And>a. pick a \<in> set (generated_of a)\<close>[of "?f x"]
        \<open>\<And>a. pick a \<in> set (generated_of a)\<close>[of "?f y"] by auto
    then show ?thesis using accepted_of_sub(2)[OF d] by (auto simp: distinct_map inj_on_def)
  qed
  have "child_for ro now c (ig_accepted_delta (graph_of (ro_message_ref ro) customer now (?f c) c (order_id_of c)))"
    if "c \<in> set (accepted_of ro)" for c
    using graph_delta_accepts[OF graph_valid_reduced[OF ok that]]
    by (cases "tdc_operation c") (simp add: child_for_def graph_of_def)
  then have "list_all2 (child_for ro now) (accepted_of ro)
      (map (\<lambda>c. ig_accepted_delta (graph_of (ro_message_ref ro) customer now (?f c) c (order_id_of c))) (accepted_of ro))"
    by (simp add: list_all2_conv_all_nth)
  moreover have "distinct (map (\<lambda>c. al_accepted_delta_id (?f c)) (accepted_of ro))"
    "distinct (map (\<lambda>c. al_task_id (?f c)) (accepted_of ro))"
    by (rule pick, simp add: generated_of_def)+
  ultimately show ?thesis
    by (simp add: children_for_def graphs_of_alloc graph_of_def comp_def)
qed

subsection \<open>The three decisions are accepted\<close>

definition spec_closure :: "request_input \<Rightarrow> request_output \<Rightarrow> uuid \<Rightarrow> durable_contextualization
    \<Rightarrow> durable_task_delta_candidate list \<Rightarrow> initial_graph list \<Rightarrow> uuid option \<Rightarrow> datetime \<Rightarrow> ru_closure" where
  "spec_closure ri ro record_id context candidates graphs move_ref now =
     \<lparr>cl_record = closure_record ri ro record_id context candidates
        (map (decision_of ro) (ro_task_delta_candidates ro)) (map ig_accepted_delta graphs) None
        (if move_ref = None then None else Some 1) move_ref now,
      cl_accepted_task_deltas = map ig_accepted_delta graphs\<rparr>"

lemma spec_closure_record:
  assumes ok: "reduction_ok msgs ri ro customer record_id allocs move_ref now context candidates"
    and g: "graphs = graphs_of ro customer now (dict_by al_candidate_ref allocs)"
  shows "accepts new_ru_record (cl_record (spec_closure ri ro record_id context candidates graphs r now))"
    and "accepts new_ru_closure (spec_closure ri ro record_id context candidates graphs r now)"
proof -
  have proj: "projection_ok msgs ri ro context candidates" and utc: "is_utc now"
    using ok by (simp_all add: reduction_ok_def)
  have ch: "children_for ro now (map ig_accepted_delta graphs)"
    unfolding g by (rule children_reduced[OF ok])
  have len: "length (map ig_accepted_delta graphs) = length (accepted_of ro)"
    by (simp add: g graphs_of_def)
  have dist: "distinct (map ad_accepted_delta_id (map ig_accepted_delta graphs))"
    using ch by (simp add: children_for_def)
  show rec: "accepts new_ru_record (cl_record (spec_closure ri ro record_id context candidates graphs r now))"
    unfolding spec_closure_def ru_closure.simps
    by (rule new_ru_record_reduced[OF proj utc dist len]) simp_all
  show "accepts new_ru_closure (spec_closure ri ro record_id context candidates graphs r now)"
    unfolding spec_closure_def
    by (rule closure_reduced[OF proj ch refl]) (use rec in \<open>simp add: spec_closure_def\<close>)
qed

lemma build_closure_reduced:
  assumes ok: "reduction_ok msgs ri ro customer record_id allocs move_ref now context candidates"
    and g: "graphs = graphs_of ro customer now (dict_by al_candidate_ref allocs)"
  shows "build_request_understanding_closure_v2 (Obj ri []) (Obj ro []) msgs record_id
      (map (\<lambda>v. Obj v []) (map (decision_of ro) (ro_task_delta_candidates ro)))
      (map (\<lambda>g. Obj (ig_accepted_delta g) []) graphs) None (if r = None then None else Some 1) r now
    = Inr (spec_closure ri ro record_id context candidates graphs r now)"
proof -
  have proj: "projection_ok msgs ri ro context candidates" and utc: "is_utc now"
    using ok by (simp_all add: reduction_ok_def)
  have can: "canonical_request_output ro" using proj by (simp add: projection_ok_def)
  have ch: "children_for ro now (map ig_accepted_delta graphs)"
    unfolding g by (rule children_reduced[OF ok])
  have kids: "list_all (accepts new_accepted_task_delta) (map ig_accepted_delta graphs)"
    using ch unfolding children_for_def
    by (metis (no_types, lifting) child_for_def children_for_member list_all_iff)
  have vals: "list_all (accepts new_candidate_validation_record) (map (decision_of ro) (ro_task_delta_candidates ro))"
    by (simp add: list_all_iff decision_of_accepted)
  have "map (\<lambda>g. Obj (ig_accepted_delta g) []) graphs = map (\<lambda>c. Obj c []) (map ig_accepted_delta graphs)" by simp
  moreover have "build_request_understanding_closure_v2 (Obj ri []) (Obj ro []) msgs record_id
      (map (\<lambda>v. Obj v []) (map (decision_of ro) (ro_task_delta_candidates ro)))
      (map (\<lambda>c. Obj c []) (map ig_accepted_delta graphs)) None (if r = None then None else Some 1) r now
    = Inr (spec_closure ri ro record_id context candidates graphs r now)"
    unfolding build_closure_Inr_iff
    using proj utc vals kids canonical_output_facts(4)[OF can] spec_closure_record[OF ok g, of r]
      durable_closure_reduced[OF ch reduction_ok_candidates(1)[OF ok]]
    by (intro exI[of _ "context"] exI[of _ candidates]) (simp add: spec_closure_def)
  ultimately show ?thesis by (simp only:)
qed

lemma filter_unique:
  assumes "distinct (map f xs)" "x \<in> set xs"
  shows "filter (\<lambda>y. f y = f x) xs = [x]"
  using assms by (induction xs) (auto simp: filter_empty_conv image_iff)

lemma graph_projection_reduced:
  assumes ok: "reduction_ok msgs ri ro customer record_id allocs move_ref now context candidates"
    and c: "c \<in> set (accepted_of ro)"
    and rec: "rc_task_delta_candidates r = candidates" "rc_message_ref r = ro_message_ref ro"
  shows "validate_initial_graph_candidate_projection_v2 r
           (graph_of (ro_message_ref ro) customer now a c (order_id_of c)) = Inr ()"
proof -
  have proj: "projection_ok msgs ri ro context candidates" using ok by (simp add: reduction_ok_def)
  note cert = projection_ok_certified[OF proj]
  have "c \<in> set (ro_task_delta_candidates ro)" using c accepted_of_sub(1) by blast
  with cert(2) obtain t where t: "t \<in> set candidates" "delta_certified msgs c t"
    by (metis in_set_conv_nth list_all2_conv_all_nth)
  then have tid: "dtd_candidate_id t = tdc_candidate_id c" by (simp add: delta_certified_def)
  have "distinct (map dtd_candidate_id candidates)"
    using cert(5) reduction_ok_candidates(1)[OF ok] by simp
  then have "filter (\<lambda>d. dtd_candidate_id d = dtd_candidate_id t) candidates = [t]"
    using t(1) by (rule filter_unique)
  then have one: "filter (\<lambda>d. dtd_candidate_id d = tdc_candidate_id c) candidates = [t]" by (simp add: tid)
  from c have "candidate_rejection_reason_v2 c ro = None" by (simp add: accepted_of_def)
  from rejection_None_normalizes[OF this] obtain i where i: "tdc_input_candidates c = [i]"
    "normalize_order_id (JStr (ic_candidate_value i)) = Inr (order_id_of c)" "ic_name i = str ''order_id''"
    "ic_authority i = USER_CLAIM" "ic_source_ref i = ro_message_ref ro" by blast
  from t(2) i(1) obtain j where j: "dtd_input_candidates t = [j]" "input_certified msgs i j"
    by (auto simp: delta_certified_def list_all2_Cons1)
  with i(2-5) have "normalize_order_id (JStr (dic_candidate_value j)) = Inr (order_id_of c)"
    "dic_name j = str ''order_id''" "dic_authority j = USER_CLAIM" "dic_source_ref j = ro_message_ref ro"
    by (simp_all add: input_certified_def)
  with t(2) j(1) one show ?thesis
    by (cases "dtd_operation t")
       (simp add: validate_initial_graph_candidate_projection_v2_def Let_def graph_of_def rec delta_certified_def)
qed

lemma identity_closure_reduced:
  assumes ok: "reduction_ok msgs ri ro customer record_id allocs move_ref now context candidates"
    and g: "graphs = graphs_of ro customer now (dict_by al_candidate_ref allocs)"
    and rec: "rc_request_understanding_record_id r = record_id"
      "rc_next_move_candidate_ref r = None \<or> rc_next_move_candidate_ref r = Some move_ref"
  shows "validate_initial_graph_identity_closure_v2 r graphs = Inr ()"
proof -
  let ?f = "alloc_for (dict_by al_candidate_ref allocs)"
  have aok: "allocations_ok allocs (map tdc_candidate_id (ro_task_delta_candidates ro)) record_id move_ref"
    using ok by (simp add: reduction_ok_def)
  note d = reduction_ok_candidates(1)[OF ok]
  note ids = alloc_for_facts(3)[OF aok d accepted_of_sub(1) accepted_of_sub(2)[OF d]]
  have "map graph_identities graphs = map (generated_of \<circ> ?f) (accepted_of ro)"
    by (simp add: g graphs_of_alloc graph_of_identities generated_of_def)
  with ids have dist: "distinct (record_id # concat (map graph_identities graphs) @ [move_ref])" by simp
  have eff: "\<not> (\<exists>g\<in>set graphs. ad_base_task_state_version (ig_accepted_delta g) \<noteq> None
         \<or> ad_result_task_state_version (ig_accepted_delta g) \<noteq> 1
         \<or> ad_task_id (ig_accepted_delta g) \<noteq> tk_task_id (ig_task g)
         \<or> tk_state_version (ig_task g) \<noteq> 1 \<or> ru_state_version (ig_request_unit g) \<noteq> 1)"
    by (auto simp: g graphs_of_alloc graph_of_def)
  from rec(2) dist have "\<not> has_duplicates (rc_request_understanding_record_id r # concat (map graph_identities graphs)
         @ (case rc_next_move_candidate_ref r of None \<Rightarrow> [] | Some m \<Rightarrow> [m]))"
    by (elim disjE) (simp_all add: rec(1))
  with eff show ?thesis
    by (simp only: validate_initial_graph_identity_closure_v2_def checks_Inr_iff list.pred_inject prod.case simp_thms)
qed

lemma spec_closure_fields:
  "rc_task_delta_candidates (cl_record (spec_closure ri ro i ctx cs gs r now)) = cs"
  "rc_message_ref (cl_record (spec_closure ri ro i ctx cs gs r now)) = ro_message_ref ro"
  "rc_request_understanding_record_id (cl_record (spec_closure ri ro i ctx cs gs r now)) = i"
  "rc_next_move_candidate_ref (cl_record (spec_closure ri ro i ctx cs gs r now)) = r"
  "rc_proposed_base_task_state_version (cl_record (spec_closure ri ro i ctx cs gs r now)) = None"
  "rc_validated_task_state_version (cl_record (spec_closure ri ro i ctx cs gs r now)) = (if r = None then None else Some 1)"
  "rc_candidate_validation (cl_record (spec_closure ri ro i ctx cs gs r now)) = map (decision_of ro) (ro_task_delta_candidates ro)"
  "rc_accepted_delta_refs (cl_record (spec_closure ri ro i ctx cs gs r now)) = map (ad_accepted_delta_id \<circ> ig_accepted_delta) gs"
  "cl_accepted_task_deltas (spec_closure ri ro i ctx cs gs r now) = map ig_accepted_delta gs"
  by (simp_all add: spec_closure_def closure_record_def)

lemma graphs_reduced_member:
  assumes "g \<in> set (graphs_of ro customer now allocations)"
  obtains c where "c \<in> set (accepted_of ro)"
    "g = graph_of (ro_message_ref ro) customer now (alloc_for allocations c) c (order_id_of c)"
  using assms by (auto simp: graphs_of_alloc)

lemma graphs_reduced_valid:
  assumes ok: "reduction_ok msgs ri ro customer record_id allocs move_ref now context candidates"
  shows "list_all (accepts new_initial_graph) (graphs_of ro customer now (dict_by al_candidate_ref allocs))"
  using graph_valid_reduced[OF ok] by (auto simp: list_all_iff graphs_of_alloc)

lemma accepted_count:
  "length (filter is_accept (map (decision_of ro) (ro_task_delta_candidates ro)))
     = length (graphs_of ro customer now allocations)"
  by (simp add: graphs_of_def accepted_of_def filter_map comp_def)

lemma no_task_reduced:
  assumes ok: "reduction_ok msgs ri ro customer record_id allocs move_ref now context candidates"
    and none: "graphs_of ro customer now (dict_by al_candidate_ref allocs) = []"
  shows "new_no_task_decision \<lparr>nt_closure = spec_closure ri ro record_id context candidates [] None now\<rparr>
    = Inr \<lparr>nt_closure = spec_closure ri ro record_id context candidates [] None now\<rparr>"
proof -
  have "accepted_of ro = []" using none by (simp add: graphs_of_def)
  then have "\<not> list_ex is_accept (map (decision_of ro) (ro_task_delta_candidates ro))"
    by (auto simp: list_ex_iff accepted_of_def filter_empty_conv)
  then show ?thesis
    using spec_closure_record(2)[OF ok none[symmetric], of None]
    by (simp add: new_no_task_decision_def construct_Inr_iff Let_def spec_closure_fields)
qed

lemma routable_fields_reduced:
  assumes ok: "reduction_ok msgs ri ro customer record_id allocs move_ref now context candidates"
    and one: "graphs_of ro customer now (dict_by al_candidate_ref allocs) = [g]"
    and single: "length (ro_task_delta_candidates ro) = 1"
  shows "validate_initial_routable_decision_fields_v2
    \<lparr>rd_closure = spec_closure ri ro record_id context candidates [g] (Some move_ref) now, rd_task_graph = g,
     rd_next_move_candidate_ref = move_ref, rd_next_move_candidate = ro_next_move_candidate ro\<rparr> = Inr ()"
proof -
  have proj: "projection_ok msgs ri ro context candidates" using ok by (simp add: reduction_ok_def)
  then have can: "canonical_request_output ro" by (simp add: projection_ok_def)
  then have move: "accepts new_next_move (ro_next_move_candidate ro)"
    by (simp add: canonical_request_output_def)
  from single obtain c where cs: "ro_task_delta_candidates ro = [c]" by (auto simp: length_Suc_conv)
  have "g \<in> set (graphs_of ro customer now (dict_by al_candidate_ref allocs))" using one by simp
  then obtain c' where c': "c' \<in> set (accepted_of ro)"
    "g = graph_of (ro_message_ref ro) customer now (alloc_for (dict_by al_candidate_ref allocs) c') c' (order_id_of c')"
    by (rule graphs_reduced_member)
  then have acc: "c' = c" "candidate_rejection_reason_v2 c ro = None" using cs
    by (auto simp: accepted_of_def split: if_splits)
  from proj have ids: "map dtd_candidate_id candidates = [tdc_candidate_id c]"
    using projection_ok_certified(5)[OF proj] cs by simp
  then obtain t where t: "candidates = [t]" "dtd_candidate_id t = tdc_candidate_id c" by auto
  have ref: "ad_candidate_ref (ig_accepted_delta g) = tdc_candidate_id c" using c' acc by (simp add: graph_of_def)
  have "accepts new_initial_graph g" using graphs_reduced_valid[OF ok] one by simp
  moreover have "validate_initial_graph_candidate_projection_v2
      (cl_record (spec_closure ri ro record_id context candidates [g] (Some move_ref) now)) g = Inr ()"
    unfolding c'(2) by (rule graph_projection_reduced[OF ok c'(1)]) (simp_all add: spec_closure_fields)
  moreover have "validate_initial_graph_identity_closure_v2
      (cl_record (spec_closure ri ro record_id context candidates [g] (Some move_ref) now)) [g] = Inr ()"
    by (rule identity_closure_reduced[OF ok one[symmetric]]) (simp_all add: spec_closure_fields)
  ultimately show ?thesis
    using spec_closure_record(2)[OF ok one[symmetric], of "Some move_ref"] move
    by (simp add: validate_initial_routable_decision_fields_v2_def Let_def spec_closure_fields res_bind_Inr_iff
        cs t acc(2) ref canonical_output_facts(4)[OF can])
qed

lemma unrouted_reduced:
  assumes ok: "reduction_ok msgs ri ro customer record_id allocs move_ref now context candidates"
    and g: "graphs = graphs_of ro customer now (dict_by al_candidate_ref allocs)"
    and some: "graphs \<noteq> []" "\<not> (length (ro_task_delta_candidates ro) = 1 \<and> length graphs = 1)"
  shows "new_unrouted_decision \<lparr>ur_closure = spec_closure ri ro record_id context candidates graphs None now,
      ur_task_graphs = graphs\<rparr>
    = Inr \<lparr>ur_closure = spec_closure ri ro record_id context candidates graphs None now, ur_task_graphs = graphs\<rparr>"
proof -
  let ?r = "cl_record (spec_closure ri ro record_id context candidates graphs None now)"
  have proj: "projection_ok msgs ri ro context candidates" using ok by (simp add: reduction_ok_def)
  have len: "length candidates = length (ro_task_delta_candidates ro)"
    using projection_ok_certified(2)[OF proj] by (simp add: list_all2_lengthD)
  have "\<And>g'. g' \<in> set graphs \<Longrightarrow> validate_initial_graph_candidate_projection_v2 ?r g' = Inr ()"
  proof -
    fix g' assume "g' \<in> set graphs"
    then obtain c where c: "c \<in> set (accepted_of ro)"
      "g' = graph_of (ro_message_ref ro) customer now (alloc_for (dict_by al_candidate_ref allocs) c) c (order_id_of c)"
      unfolding g by (rule graphs_reduced_member)
    show "validate_initial_graph_candidate_projection_v2 ?r g' = Inr ()"
      unfolding c(2) by (rule graph_projection_reduced[OF ok c(1)]) (simp_all add: spec_closure_fields)
  qed
  then have "res_map (validate_initial_graph_candidate_projection_v2 ?r) graphs = Inr (map (\<lambda>_. ()) graphs)"
    by (rule res_map_total)
  moreover have "validate_initial_graph_identity_closure_v2 ?r graphs = Inr ()"
    by (rule identity_closure_reduced[OF ok g]) (simp_all add: spec_closure_fields)
  moreover have cnt: "length (filter is_accept (rc_candidate_validation ?r)) = length graphs"
    unfolding spec_closure_fields g by (rule accepted_count)
  moreover have "Suc 0 \<le> length graphs" using some(1) by (cases graphs) simp_all
  ultimately show ?thesis
    unfolding new_unrouted_decision_def Let_def unrouted_decision.simps cnt
    using spec_closure_record(2)[OF ok g, of None] graphs_reduced_valid[OF ok] some
    by (simp add: construct_with_Inr_iff spec_closure_fields g[symmetric] len comp_def res_bind_Inr_iff)
qed

subsection \<open>Refinement\<close>

lemma preflight_Inr_iff:
  "preflight_initial_request_projection_v2 vi vo msgs = Inr (ri, ro) \<longleftrightarrow>
     vi = Obj ri [] \<and> vo = Obj ro [] \<and> (\<exists>ctx candidates. projection_ok msgs ri ro ctx candidates)"
  unfolding preflight_initial_request_projection_v2_def projection_ok_def res_bind_Inr_iff raise_if_Inr_iff
    canonical_request_input_v2_iff canonical_request_output_v2_iff
  by auto

lemma spec_decision_cases:
  "spec_decision msgs ri ro customer record_id allocations move_ref now ctx candidates =
     (let graphs = graphs_of ro customer now allocations
      in if graphs = [] then NoTask \<lparr>nt_closure = spec_closure ri ro record_id ctx candidates [] None now\<rparr>
         else if length (ro_task_delta_candidates ro) = 1 \<and> length graphs = 1
         then Routable \<lparr>rd_closure = spec_closure ri ro record_id ctx candidates graphs (Some move_ref) now,
           rd_task_graph = hd graphs, rd_next_move_candidate_ref = move_ref,
           rd_next_move_candidate = ro_next_move_candidate ro\<rparr>
         else Unrouted \<lparr>ur_closure = spec_closure ri ro record_id ctx candidates graphs None now,
           ur_task_graphs = graphs\<rparr>)"
  by (auto simp: spec_decision_def spec_closure_def Let_def)

lemma reducer_on_valid:
  assumes ok: "reduction_ok msgs ri ro customer record_id allocs move_ref now ctx candidates"
  shows "validate_and_reduce_initial_request_v2 serialise (Obj ri []) (Obj ro []) msgs (Obj customer [])
      record_id (Some (map (\<lambda>a. Obj a []) allocs)) move_ref now
    = Inr (spec_decision msgs ri ro customer record_id (dict_by al_candidate_ref allocs) move_ref now ctx candidates)"
proof -
  let ?D = "dict_by al_candidate_ref allocs"
  define graphs where g: "graphs = graphs_of ro customer now ?D"
  have proj: "projection_ok msgs ri ro ctx candidates" and utc: "is_utc now"
    and cust: "accepts new_customer_context customer" using ok by (simp_all add: reduction_ok_def)
  have can: "canonical_request_output ro" using proj by (simp add: projection_ok_def)
  have pre: "preflight_initial_request_projection_v2 (Obj ri []) (Obj ro []) msgs = Inr (ri, ro)"
    using proj by (auto simp: preflight_Inr_iff)
  have al: "canonical_initial_identity_allocations_v2 (Some (map (\<lambda>a. Obj a []) allocs))
      (map tdc_candidate_id (ro_task_delta_candidates ro)) record_id move_ref (Obj customer []) now = Inr ?D"
    unfolding canonical_allocations_Inr_iff using ok by (auto simp: reduction_ok_def)
  have loop: "reduce_candidates ro ?D customer now (ro_task_delta_candidates ro) [] [] =
      Inr (map (decision_of ro) (ro_task_delta_candidates ro), graphs)"
  proof -
    have "reduce_candidates ro ?D customer now (ro_task_delta_candidates ro) [] [] =
      Inr ([] @ map (decision_of ro) (ro_task_delta_candidates ro),
         [] @ map (\<lambda>c. graph_of (ro_message_ref ro) customer now
           (the (map_of ?D (tdc_candidate_id c))) c (order_id_of c))
           (filter (\<lambda>c. candidate_rejection_reason_v2 c ro = None) (ro_task_delta_candidates ro)))"
      by (rule reduce_candidates_total[OF utc reduction_ok_candidates(2)[OF ok]])
         (use reduction_ok_candidates(3,4)[OF ok] in blast)+
    then show ?thesis by (simp add: g graphs_of_def accepted_of_def)
  qed
  note build = build_closure_reduced[OF ok g]
  have none: "nm_base_task_state_version (ro_next_move_candidate ro) = None"
    by (rule canonical_output_facts(4)[OF can])
  consider (no) "graphs = []" | (one) h where "graphs = [h]" "length (ro_task_delta_candidates ro) = 1"
    | (more) "graphs \<noteq> []" "\<not> (length (ro_task_delta_candidates ro) = 1 \<and> length graphs = 1)"
    by (cases graphs) auto
  then show ?thesis
  proof cases
    case no
    with g have "graphs_of ro customer now ?D = []" by simp
    from no_task_reduced[OF ok this] build[of None] no show ?thesis
      unfolding validate_and_reduce_initial_request_v2_def spec_decision_cases g[symmetric]
      by (simp add: pre al loop none Let_def)
  next
    case one
    with g have "graphs_of ro customer now ?D = [h]" by simp
    from routable_fields_reduced[OF ok this one(2)] build[of "Some move_ref"] one show ?thesis
      unfolding validate_and_reduce_initial_request_v2_def spec_decision_cases g[symmetric]
      by (simp add: pre al loop none Let_def initial_routable_decision_fields_payload_v2_def
          new_routable_decision_def construct_with_def failing_def)
  next
    case more
    from unrouted_reduced[OF ok g more] build[of None] more show ?thesis
      unfolding validate_and_reduce_initial_request_v2_def spec_decision_cases g[symmetric]
      by (auto simp: pre al loop none Let_def)
  qed
qed

lemma reducer_Inr_iff:
  "validate_and_reduce_initial_request_v2 serialise vi vo msgs cust record_id given move_ref now = Inr d \<longleftrightarrow>
     (\<exists>ri ro customer allocs ctx candidates.
        vi = Obj ri [] \<and> vo = Obj ro [] \<and> cust = Obj customer [] \<and> given = Some (map (\<lambda>a. Obj a []) allocs)
        \<and> reduction_ok msgs ri ro customer record_id allocs move_ref now ctx candidates
        \<and> d = spec_decision msgs ri ro customer record_id (dict_by al_candidate_ref allocs) move_ref now ctx candidates)"
  (is "?L \<longleftrightarrow> ?R")
proof
  assume L: ?L
  have "\<exists>ri ro al. preflight_initial_request_projection_v2 vi vo msgs = Inr (ri, ro)
    \<and> canonical_initial_identity_allocations_v2 given (map tdc_candidate_id (ro_task_delta_candidates ro))
        record_id move_ref cust now = Inr al"
  proof (cases "preflight_initial_request_projection_v2 vi vo msgs")
    case (Inl e)
    with L show ?thesis by (simp add: validate_and_reduce_initial_request_v2_def)
  next
    case (Inr p)
    then obtain ri ro where p: "preflight_initial_request_projection_v2 vi vo msgs = Inr (ri, ro)" by (cases p) simp
    with L show ?thesis
      by (cases "canonical_initial_identity_allocations_v2 given (map tdc_candidate_id (ro_task_delta_candidates ro))
        record_id move_ref cust now") (simp_all add: validate_and_reduce_initial_request_v2_def Let_def)
  qed
  then obtain ri ro ctx candidates customer allocs where
    "vi = Obj ri []" "vo = Obj ro []" "cust = Obj customer []" "given = Some (map (\<lambda>a. Obj a []) allocs)"
    "reduction_ok msgs ri ro customer record_id allocs move_ref now ctx candidates"
    unfolding preflight_Inr_iff canonical_allocations_Inr_iff reduction_ok_def by blast
  with reducer_on_valid[of msgs ri ro customer record_id allocs move_ref now ctx candidates serialise] L show ?R
    by force
next
  assume ?R
  then show ?L using reducer_on_valid by blast
qed

lemma reducer_Inl_cases:
  assumes "validate_and_reduce_initial_request_v2 serialise vi vo msgs cust record_id given move_ref now = Inl e"
  shows "preflight_initial_request_projection_v2 vi vo msgs = Inl e \<or>
    (\<exists>ri ro. preflight_initial_request_projection_v2 vi vo msgs = Inr (ri, ro) \<and> e = closure_failed
       \<and> canonical_initial_identity_allocations_v2 given (map tdc_candidate_id (ro_task_delta_candidates ro))
           record_id move_ref cust now = Inl e)"
proof (cases "preflight_initial_request_projection_v2 vi vo msgs")
  case (Inl e')
  with assms show ?thesis by (simp add: validate_and_reduce_initial_request_v2_def)
next
  case (Inr p)
  then obtain ri ro where p: "preflight_initial_request_projection_v2 vi vo msgs = Inr (ri, ro)" by (cases p) simp
  show ?thesis
  proof (cases "canonical_initial_identity_allocations_v2 given (map tdc_candidate_id (ro_task_delta_candidates ro))
      record_id move_ref cust now")
    case (Inl e')
    with p assms have "e' = e" by (simp add: validate_and_reduce_initial_request_v2_def Let_def)
    moreover have "e' = closure_failed"
      using Inl unfolding canonical_initial_identity_allocations_v2_def
      by (auto simp: res_bind_Inl_iff Let_def split: option.splits if_splits)
    ultimately show ?thesis using p Inl by simp
  next
    case (Inr al)
    with p obtain ctx candidates customer allocs where
      "vi = Obj ri []" "vo = Obj ro []" "cust = Obj customer []" "given = Some (map (\<lambda>a. Obj a []) allocs)"
      "reduction_ok msgs ri ro customer record_id allocs move_ref now ctx candidates"
      unfolding preflight_Inr_iff canonical_allocations_Inr_iff reduction_ok_def by blast
    with reducer_on_valid[of msgs ri ro customer record_id allocs move_ref now ctx candidates serialise] assms
    show ?thesis by simp
  qed
qed

end
