(* ===== verification/Sample_Request.thy ===== *)
theory Sample_Request
  imports Registry_Facts Reduction_Facts
begin

section \<open>A concrete request, used by the witnesses\<close>

text \<open>
  One customer message that names one order, the model output that quotes it, the identities
  reserved for it and the production registry with \<open>get_order\<close> as its only tool. Hashes stay
  symbolic: no witness needs the digits of a digest.
\<close>

definition get_order_registration :: tool_registration where
  "get_order_registration =
     \<lparr>tr_tool_spec = get_order_tool_spec, tr_provider_visible_name = str ''get_order'', tr_effect = READ,
      tr_risk = str ''LOW'', tr_idempotency = str ''IDEMPOTENT'', tr_unknown_result_recovery = None,
      tr_handler_ref = str ''get_order_handler'',
      tr_execution_policy = \<lparr>ep_timeout_ms = 3000, ep_max_attempts = 1, ep_retryable_failure_codes = [],
        ep_interrupt_behavior = str ''MARK_INTERRUPTED''\<rparr>\<rparr>"

definition sample_registry :: registry_snapshot where
  "sample_registry = snapshot_of (str ''registry-v1'') [get_order_registration]"

lemma native_schema_valid:
  assumes "native_json_items c" "distinct (map fst c)" "map_of c (str ''type'') = Some (JStr (str ''object''))"
    "map_of c (str ''additionalProperties'') = Some (JBool False)" "find_trusted_in_items c = None"
  shows "validate_schema c = Inr c"
  using assms by (simp add: validate_schema_def thaw_object_def thaw_native dict_of_items_distinct)

lemmas trusted_names = is_trusted_name_def TRUSTED_ARGUMENT_FIELDS_def casefold_def casefold_char_def str_def

lemma get_order_input_valid: "validate_schema get_order_input_schema = Inr get_order_input_schema"
  by (rule native_schema_valid) (simp_all add: get_order_input_schema_def,
    simp add: Let_def trusted_names)

lemma get_order_output_valid: "validate_schema get_order_output_schema = Inr get_order_output_schema"
  by (rule native_schema_valid) (simp_all add: get_order_output_schema_def order_summary_schema_def
    order_line_schema_def date_time_schema_def, simp add: Let_def trusted_names)

lemma get_order_name: "ToolName (str ''get_order'')"
  by (simp add: ToolName_def str_def is_az_def)

lemma get_order_spec_valid: "new_tool_spec get_order_tool_spec = Inr get_order_tool_spec"
  by (simp add: new_tool_spec_def construct_Inr_iff Let_def get_order_tool_spec_def get_order_input_valid
      get_order_output_valid is_ok_def ok_or_def get_order_name get_order_description_def)

lemma visible_get_order: "visible_spec get_order_registration = get_order_tool_spec"
  by (simp add: visible_spec_def get_order_registration_def get_order_tool_spec_def)

lemma get_order_registrable: "registrable [get_order_registration]"
proof -
  have "new_provider_tool_name_binding (registry_binding get_order_registration)
      = Inr (registry_binding get_order_registration)"
    by (simp add: new_provider_tool_name_binding_def construct_Inr_iff registry_binding_def
        get_order_registration_def get_order_tool_spec_def get_order_name)
  then show ?thesis
    by (simp add: registrable_def visible_get_order get_order_spec_valid is_ok_def)
qed

lemma sample_registry_built:
  "build_registry_snapshot (str ''registry-v1'') [get_order_registration] = Inr sample_registry"
  by (simp add: build_registry_snapshot_iff get_order_registrable sample_registry_def)

definition sample_toolset_hash :: pystr where
  "sample_toolset_hash = ok_or [] (compute_model_visible_toolset_hash [get_order_tool_spec])"

lemma sample_hash:
  "compute_model_visible_toolset_hash [get_order_tool_spec] = Inr sample_toolset_hash"
  "ToolsetHash sample_toolset_hash"
proof -
  obtain h where "compute_model_visible_toolset_hash [get_order_tool_spec] = Inr h" "ToolsetHash h"
    using toolset_hash_total[of "[get_order_tool_spec]"] get_order_spec_valid by auto
  then show "compute_model_visible_toolset_hash [get_order_tool_spec] = Inr sample_toolset_hash"
    "ToolsetHash sample_toolset_hash" by (simp_all add: sample_toolset_hash_def ok_or_def)
qed

subsection \<open>The message and what the model made of it\<close>

definition sample_message :: pystr where
  "sample_message = str ''Where is o-1234?''"

definition sample_messages :: messages where
  "sample_messages = [7 \<mapsto> sample_message]"

definition sample_input :: request_input where
  "sample_input =
     \<lparr>ri_schema_version = str ''e2e01-thin-v1'', ri_schema_version_set = True, ri_run_id = 5, ri_message_ref = 7,
      ri_original_query = sample_message, ri_recent_message_refs = [], ri_pending_question = None,
      ri_active_task_summaries = [], ri_focused_task_summary = None, ri_pending_action_summaries = [],
      ri_output_constraints = [str ''Return exactly one current-message ADD_GOAL candidate.'',
        str ''Never provide trusted identity fields.''],
      ri_provider_visible_tool_specs = [get_order_tool_spec],
      ri_model_visible_toolset_hash = sample_toolset_hash\<rparr>"

definition half :: pyfloat where "half = Finite 1 2 (str ''0.5'')"

definition sample_candidate :: task_delta_candidate where
  "sample_candidate =
     \<lparr>tdc_candidate_id = 50, tdc_operation = ADD_GOAL, tdc_goal_patch = str ''find the order'',
      tdc_input_candidates = [\<lparr>ic_name = str ''order_id'', ic_candidate_value = str ''o-1234'',
        ic_semantic_role = str ''TARGET_RESOURCE_IDENTIFIER'', ic_authority = USER_CLAIM,
        ic_source_kind = SRC_CURRENT_MESSAGE, ic_source_ref = 7, ic_source_quote = str ''o-1234?'',
        ic_confidence = half\<rparr>],
      tdc_confidence = half\<rparr>"

definition sample_arguments :: json_object where
  "sample_arguments = [(str ''order_id'', JStr (str ''o-1234''))]"

definition sample_output :: request_output where
  "sample_output =
     \<lparr>ro_schema_version = str ''e2e01-thin-v2'', ro_message_ref = 7,
      ro_contextualization = \<lparr>cx_text = str ''asks for an order'', cx_resolved_reference_candidates = [],
        cx_uncertainties = [], cx_source_message_refs = [7]\<rparr>,
      ro_task_delta_candidates = [sample_candidate],
      ro_next_move_candidate = \<lparr>nm_kind = CALL_TOOL, nm_requested_tool_name = Some (str ''get_order''),
        nm_arguments = Some sample_arguments, nm_base_task_state_version = None\<rparr>\<rparr>"

definition sample_customer :: customer_context where
  "sample_customer =
     \<lparr>cc_provenance = str ''SERVER_AUTH_ADAPTER'', cc_subject_ref = str ''subject'', cc_customer_id = str ''cust-1'',
      cc_auth_scopes = [], cc_authenticated_at = utc_us 0, cc_session_ref_hash = str ''hash''\<rparr>"

definition sample_allocation :: identity_allocation where
  "sample_allocation = \<lparr>al_candidate_ref = 50, al_accepted_delta_id = 51, al_task_id = 52,
     al_request_unit_id = 53, al_binding_id = 54\<rparr>"

definition sample_now :: datetime where "sample_now = utc_us 1000"

lemma sample_input_canonical: "canonical_request_input sample_input"
  using sample_hash
  by (simp add: canonical_request_input_def accepts_iff new_request_input_def construct_with_Inr_iff
      toolset_hash_matches_projected_specs_def sample_input_def sample_message_def canonical_tool_spec_def
      get_order_spec_valid)

lemma half_confidence [simp]: "Confidence half"
  by (simp add: half_def Confidence_def)

lemma sample_arguments_valid: "validate_arguments sample_arguments = Inr sample_arguments"
  by (simp add: validate_arguments_def sample_arguments_def thaw_object_def dict_of_items_distinct)
    (simp add: Let_def trusted_names)

lemma sample_output_canonical: "canonical_request_output sample_output"
  by (simp add: canonical_request_output_def accepts_iff ru_constructors construct_Inr_iff sample_output_def
      sample_candidate_def canonical_contextualization_def canonical_task_delta_candidate_def
      candidate_graph_guards_def input_candidate_guards_def bounded_unique_refs_def Let_def
      validate_optional_arguments_def sample_arguments_valid is_ok_def ok_or_def candidate_shape_matches_kind_def)

lemma sample_text: "sample_message = [87, 104, 101, 114, 101, 32, 105, 115, 32, 111, 45, 49, 50, 51, 52, 63]"
  "str ''o-1234?'' = [111, 45, 49, 50, 51, 52, 63]" "str ''o-1234'' = [111, 45, 49, 50, 51, 52]"
  by (simp_all add: sample_message_def str_def)

lemma sample_normal_form: "normalize_order_id (JStr (str ''o-1234'')) = Inr (str ''O-1234'')"
  unfolding sample_text by (subst normalize_order_id_iff) (simp add: str_def py_strip_def is_space_def is_09_def)

lemma sample_occurrence: "{i. occurs_at (str ''o-1234?'') sample_message i} = {9}"
proof -
  have "occurs_at (str ''o-1234?'') sample_message i \<longleftrightarrow> i = 9" for i
  proof (cases "i < 10")
    case True
    then have "i = 0 \<or> i = 1 \<or> i = 2 \<or> i = 3 \<or> i = 4 \<or> i = 5 \<or> i = 6 \<or> i = 7 \<or> i = 8 \<or> i = 9" by presburger
    then show ?thesis by (elim disjE) (simp_all add: occurs_at_def sample_text)
  next
    case False
    then show ?thesis by (auto simp: occurs_at_def sample_text)
  qed
  then show ?thesis by auto
qed

lemma sample_value_in_quote: "value_in_quote (str ''o-1234?'') (str ''o-1234'')"
proof -
  have four: "digits_then_boundary (str ''o-1234?'') 2 4"
    by (simp add: digits_then_boundary_def sample_text is_09_def is_alnum_def is_az_def is_AZ_def)
  have "\<not> digits_then_boundary (str ''o-1234?'') 2 k" if "4 < k" for k
    using that by (auto simp: digits_then_boundary_def sample_text take_Cons' is_09_def)
  then have none: "find (digits_then_boundary (str ''o-1234?'') 2) (rev [5..<21]) = None"
    by (auto simp: find_None_iff)
  have split: "rev [4..<21] = rev [5..<21] @ [4]"
    by (simp add: upt_conv_Cons)
  have first: "find (digits_then_boundary (str ''o-1234?'') 2) (rev [4..<21]) = Some 4"
    unfolding split find_append none using four by simp
  have "match_at (str ''o-1234?'') 0
      = map_option (\<lambda>k. k + 2) (find (digits_then_boundary (str ''o-1234?'') (0 + 2)) (rev [4..<21]))"
    unfolding match_at_def by (rule if_P) (simp add: sample_text)
  then have "match_at (str ''o-1234?'') 0 = Some (4 + 2)"
    by (simp only: add_0 first option.map)
  then have "match_at (str ''o-1234?'') 0 = Some 6" by simp
  then have "take 6 (drop 0 (str ''o-1234?'')) \<in> set (finditer (str ''o-1234?'') 0)"
    unfolding finditer_complete by blast
  then have "str ''o-1234'' \<in> set (finditer (str ''o-1234?'') 0)" by (simp add: sample_text)
  then show ?thesis
    using sample_normal_form by (simp add: value_in_quote_def source_quote_contains_exact_order_id_def list_ex_iff) blast
qed

lemma sample_span:
  "exact_source_span_v2 sample_message (str ''o-1234?'') (str ''o-1234'') =
     Inr (9, 16, sha256_hexdigest (utf8 (str ''o-1234?'')))"
  using sample_occurrence sample_value_in_quote
  by (simp add: exact_source_span_v2_Inr) (simp add: sample_text)

subsection \<open>The reducer accepts it\<close>

definition sample_context :: durable_contextualization where
  "sample_context = \<lparr>dcx_text = str ''asks for an order'', dcx_resolved_reference_candidates = [],
     dcx_uncertainties = [], dcx_source_message_refs = [7]\<rparr>"

definition sample_durable_candidate :: durable_task_delta_candidate where
  "sample_durable_candidate =
     \<lparr>dtd_candidate_id = 50, dtd_operation = ADD_GOAL, dtd_goal_patch = str ''find the order'',
      dtd_input_candidates = [\<lparr>dic_name = str ''order_id'', dic_candidate_value = str ''o-1234'',
        dic_semantic_role = str ''TARGET_RESOURCE_IDENTIFIER'', dic_authority = USER_CLAIM,
        dic_source_kind = SRC_CURRENT_MESSAGE, dic_source_ref = 7, dic_source_span_start = 9,
        dic_source_span_end_exclusive = 16, dic_source_quote_sha256 = sha256_hexdigest (utf8 (str ''o-1234?'')),
        dic_confidence = half\<rparr>],
      dtd_confidence = half\<rparr>"

lemma sample_projection: "projection_ok sample_messages sample_input sample_output sample_context [sample_durable_candidate]"
proof -
  have "project_contextualization_v2 sample_messages (ro_contextualization sample_output) = Inr sample_context"
    by (simp add: project_contextualization_v2_def sample_output_def new_durable_contextualization_def
        construct_def construct_with_def failing_def checks_def sample_context_def bounded_unique_refs_def
        authoritative_message_v2_def sample_messages_def sample_message_def)
  moreover have "authoritative_message_v2 sample_messages 7 = Inr sample_message"
    by (simp add: authoritative_message_v2_def sample_messages_def sample_message_def)
  then have "project_task_delta_v2 sample_messages sample_candidate = Inr sample_durable_candidate"
    by (simp add: project_task_delta_v2_def project_input_candidate_v2_def sample_candidate_def sample_span
        construct_def construct_with_def failing_def checks_def new_durable_input_candidate_def
        new_durable_task_delta_candidate_def sample_durable_candidate_def)
  ultimately show ?thesis
    using sample_input_canonical sample_output_canonical
    by (simp add: projection_ok_def validate_input_visible_source_scope_v2_def authoritative_message_v2_def)
      (simp add: sample_input_def sample_output_def sample_messages_def sample_message_def)
qed

lemma sample_reduction:
  "reduction_ok sample_messages sample_input sample_output sample_customer 60 [sample_allocation] 61 sample_now
     sample_context [sample_durable_candidate]"
proof -
  have "accepts new_customer_context sample_customer"
    by (simp add: accepts_iff new_customer_context_def construct_Inr_iff sample_customer_def)
  moreover have "allocations_ok [sample_allocation] (map tdc_candidate_id (ro_task_delta_candidates sample_output)) 60 61"
    by (simp add: allocations_ok_def accepts_iff new_identity_allocation_def construct_Inr_iff generated_of_def
        sample_allocation_def sample_output_def sample_candidate_def)
  ultimately show ?thesis
    using sample_projection by (simp add: reduction_ok_def sample_now_def)
qed

end
