(* ===== verification/Json_Store.thy ===== *)
theory Json_Store
  imports Common
begin

section \<open>Freezing an object graph (core/common.py, freeze_json_value)\<close>

text \<open>
  The value given to \<open>freeze_json_value\<close> is a Python object graph: containers are mutable
  objects that may be shared and may contain themselves. The store maps an object id to the
  container it names; a value refers to a container by its id. \<open>freeze_value\<close> carries the
  set \<open>active_container_ids\<close> of the containers being frozen (the code adds the id before
  the container's items and removes it in \<open>finally\<close>), and raises when it meets one of them
  again.

  The specification is the relation \<open>unfolds\<close>: a value has the finite tree \<open>t\<close> as its
  unfolding. A value that reaches a cycle, or a non-finite number, has none.
\<close>

datatype hval =
    HNull
  | HBool bool
  | HInt int
  | HFloat pyfloat
  | HStr pystr
  | HRef nat

datatype hobj = HMapping "(pystr \<times> hval) list" | HSequence "hval list"

type_synonym store = "hobj list"

definition dangling_msg :: string where
  "dangling_msg = ''no such object''"

lemma active_measure:
  assumes "\<not> length (h :: store) \<le> a" "a \<notin> set active"
  shows "0 < card ({..<length h} - set active)"
proof -
  have "a \<in> {..<length h} - set active" using assms by simp
  then show ?thesis by (metis card_gt_0_iff empty_iff finite_Diff finite_lessThan)
qed

function freeze_value :: "store \<Rightarrow> nat list \<Rightarrow> hval \<Rightarrow> string + json" where
  "freeze_value h active HNull = Inr JNull"
| "freeze_value h active (HBool b) = Inr (JBool b)"
| "freeze_value h active (HInt i) = Inr (JInt i)"
| "freeze_value h active (HStr s) = Inr (JStr s)"
| "freeze_value h active (HFloat f) =
     (if \<not> isfinite f then Inl non_finite_msg else Inr (JFloat f))"
| "freeze_value h active (HRef a) =
     (if length h \<le> a then Inl dangling_msg
      else if a \<in> set active then Inl cyclic_msg
      else (case h ! a of
          HMapping kvs \<Rightarrow>
            (case res_map (\<lambda>x. freeze_value h (a # active) x) (map snd kvs) of
               Inl e \<Rightarrow> Inl e
             | Inr ts \<Rightarrow> Inr (JDict (zip (map fst kvs) ts)))
        | HSequence xs \<Rightarrow>
            (case res_map (\<lambda>x. freeze_value h (a # active) x) xs of
               Inl e \<Rightarrow> Inl e
             | Inr ts \<Rightarrow> Inr (JList ts))))"
  by pat_completeness auto
termination
  by (relation "measure (\<lambda>(h, active, v). card ({..<length h} - set active))")
    (simp_all add: active_measure)

definition freeze_json_value :: "store \<Rightarrow> hval \<Rightarrow> string + json" where
  "freeze_json_value h value = freeze_value h [] value"

subsection \<open>The finite unfolding of a value\<close>

inductive unfolds :: "store \<Rightarrow> hval \<Rightarrow> json \<Rightarrow> bool" for h where
  "unfolds h HNull JNull"
| "unfolds h (HBool b) (JBool b)"
| "unfolds h (HInt i) (JInt i)"
| "unfolds h (HStr s) (JStr s)"
| "isfinite f \<Longrightarrow> unfolds h (HFloat f) (JFloat f)"
| unfolds_mapping: "a < length h \<Longrightarrow> h ! a = HMapping kvs \<Longrightarrow>
     list_all2 (unfolds h) (map snd kvs) ts \<Longrightarrow> unfolds h (HRef a) (JDict (zip (map fst kvs) ts))"
| unfolds_sequence: "a < length h \<Longrightarrow> h ! a = HSequence xs \<Longrightarrow>
     list_all2 (unfolds h) xs ts \<Longrightarrow> unfolds h (HRef a) (JList ts)"
monos list.rel_mono_strong

inductive_cases unfolds_refE: "unfolds h (HRef a) t"

lemma list_all2_right_unique:
  "list_all2 (\<lambda>x t. R x t \<and> (\<forall>u. R x u \<longrightarrow> u = t)) xs ts \<Longrightarrow> list_all2 R xs us \<Longrightarrow> us = ts"
  by (induction xs arbitrary: ts us) (auto simp: list_all2_Cons1)

lemma unfolds_unique: "unfolds h v t \<Longrightarrow> unfolds h v u \<Longrightarrow> u = t"
proof (induction arbitrary: u rule: unfolds.induct)
  case (unfolds_mapping a kvs ts)
  from unfolds_mapping.prems unfolds_mapping.hyps obtain us where
    "u = JDict (zip (map fst kvs) us)" "list_all2 (unfolds h) (map snd kvs) us"
    by (auto elim: unfolds_refE)
  with unfolds_mapping.IH list_all2_right_unique[of "unfolds h" "map snd kvs" ts us]
  show ?case by simp
next
  case (unfolds_sequence a xs ts)
  from unfolds_sequence.prems unfolds_sequence.hyps obtain us where
    "u = JList us" "list_all2 (unfolds h) xs us"
    by (auto elim: unfolds_refE)
  with unfolds_sequence.IH list_all2_right_unique[of "unfolds h" xs ts us]
  show ?case by simp
qed (auto elim: unfolds.cases)

lemma list_all2_elems:
  "list_all2 P xs ys \<Longrightarrow> (\<And>x y. x \<in> set xs \<Longrightarrow> y \<in> set ys \<Longrightarrow> P x y \<Longrightarrow> Q x y) \<Longrightarrow> list_all2 Q xs ys"
  by (rule list.rel_mono_strong)

lemma freeze_sound: "freeze_value h active v = Inr t \<Longrightarrow> unfolds h v t"
proof (induction h active v arbitrary: t rule: freeze_value.induct)
  case (6 h active a)
  then have a: "a < length h" "a \<notin> set active" by (auto split: if_splits)
  show ?case
  proof (cases "h ! a")
    case (HMapping kvs)
    with 6(3) a obtain ts where t: "t = JDict (zip (map fst kvs) ts)"
      and ts: "res_map (\<lambda>x. freeze_value h (a # active) x) (map snd kvs) = Inr ts"
      by (auto split: sum.splits)
    from ts have "list_all2 (unfolds h) (map snd kvs) ts"
      unfolding res_map_Inr_iff
      by (rule list_all2_elems) (use 6(1) a HMapping in auto)
    with a HMapping t show ?thesis by (auto intro: unfolds.unfolds_mapping)
  next
    case (HSequence xs)
    with 6(3) a obtain ts where t: "t = JList ts"
      and ts: "res_map (\<lambda>x. freeze_value h (a # active) x) xs = Inr ts"
      by (auto split: sum.splits)
    from ts have "list_all2 (unfolds h) xs ts"
      unfolding res_map_Inr_iff
      by (rule list_all2_elems) (use 6(2) a HSequence in auto)
    with a HSequence t show ?thesis by (auto intro: unfolds.unfolds_sequence)
  qed
qed (auto intro: unfolds.intros split: if_splits)

text \<open>
  Completeness: along the recursion every active container unfolds to a strictly larger tree
  than the value at hand, so none of them is met again.
\<close>

definition enclosing :: "store \<Rightarrow> nat list \<Rightarrow> json \<Rightarrow> bool" where
  "enclosing h active t \<longleftrightarrow> (\<forall>b\<in>set active. \<exists>u. unfolds h (HRef b) u \<and> size t < size u)"

lemma enclosing_child:
  "enclosing h active t \<Longrightarrow> unfolds h (HRef a) t \<Longrightarrow> size s < size t \<Longrightarrow> enclosing h (a # active) s"
  unfolding enclosing_def by (auto intro: less_trans)

lemma enclosing_not_active: "enclosing h active t \<Longrightarrow> unfolds h (HRef a) t \<Longrightarrow> a \<notin> set active"
  unfolding enclosing_def using unfolds_unique by blast

lemma size_dict_member:
  "length ks = length ts \<Longrightarrow> s \<in> set ts \<Longrightarrow> size s < size (JDict (zip ks ts))"
proof -
  assume len: "length ks = length ts" and s: "s \<in> set ts"
  then obtain i where i: "i < length ts" "s = ts ! i" by (auto simp: in_set_conv_nth)
  with len have "(ks ! i, s) \<in> set (zip ks ts)" by (auto simp: set_zip)
  then have "size_prod (\<lambda>_. 0) size (ks ! i, s) \<le> size_list (size_prod (\<lambda>_. 0) size) (zip ks ts)"
    using size_list_estimation'[where f = "size_prod (\<lambda>_. 0) size"] by blast
  then show ?thesis by simp
qed

lemma size_list_member: "s \<in> set ts \<Longrightarrow> size s < size (JList ts)"
  using size_list_estimation'[of s ts "size s" size] by simp

lemma freeze_complete: "unfolds h v t \<Longrightarrow> enclosing h active t \<Longrightarrow> freeze_value h active v = Inr t"
proof (induction arbitrary: active rule: unfolds.induct)
  case (unfolds_mapping a kvs ts)
  have all: "list_all2 (unfolds h) (map snd kvs) ts"
    using unfolds_mapping.IH by (rule list_all2_mono) simp
  let ?t = "JDict (zip (map fst kvs) ts)"
  have ref: "unfolds h (HRef a) ?t"
    using unfolds_mapping.hyps all by (rule unfolds.unfolds_mapping)
  have len: "length (map fst kvs) = length ts" using all by (auto dest: list_all2_lengthD)
  have "list_all2 (\<lambda>x y. freeze_value h (a # active) x = Inr y) (map snd kvs) ts"
    using unfolds_mapping.IH
  proof (rule list_all2_elems)
    fix x y
    assume y: "y \<in> set ts"
      and IH: "unfolds h x y \<and> (\<forall>act. enclosing h act y \<longrightarrow> freeze_value h act x = Inr y)"
    from size_dict_member[OF len y] have "enclosing h (a # active) y"
      by (rule enclosing_child[OF unfolds_mapping.prems ref])
    with IH show "freeze_value h (a # active) x = Inr y" by blast
  qed
  with unfolds_mapping.hyps enclosing_not_active[OF unfolds_mapping.prems ref]
  show ?case by (simp add: res_map_Inr_iff[symmetric])
next
  case (unfolds_sequence a xs ts)
  have all: "list_all2 (unfolds h) xs ts"
    using unfolds_sequence.IH by (rule list_all2_mono) simp
  have ref: "unfolds h (HRef a) (JList ts)"
    using unfolds_sequence.hyps all by (rule unfolds.unfolds_sequence)
  have "list_all2 (\<lambda>x y. freeze_value h (a # active) x = Inr y) xs ts"
    using unfolds_sequence.IH
  proof (rule list_all2_elems)
    fix x y
    assume y: "y \<in> set ts"
      and IH: "unfolds h x y \<and> (\<forall>act. enclosing h act y \<longrightarrow> freeze_value h act x = Inr y)"
    from size_list_member[OF y] have "enclosing h (a # active) y"
      by (rule enclosing_child[OF unfolds_sequence.prems ref])
    with IH show "freeze_value h (a # active) x = Inr y" by blast
  qed
  with unfolds_sequence.hyps enclosing_not_active[OF unfolds_sequence.prems ref]
  show ?case by (simp add: res_map_Inr_iff[symmetric])
qed simp_all

lemma freeze_iff_unfolds: "freeze_json_value h v = Inr t \<longleftrightarrow> unfolds h v t"
  unfolding freeze_json_value_def
  using freeze_sound freeze_complete[of h v t "[]"] by (auto simp: enclosing_def)

end
