(* ===== verification/Text_Properties.thy ===== *)
theory Text_Properties
  imports Sample_Request Json_Store
begin

section \<open>Properties of the shared primitives, order ids, source spans and the registry\<close>

text \<open>
  The properties of the shared primitives that are about text and JSON.
\<close>

subsection \<open>Source spans and order ids\<close>

text \<open>A source span is issued exactly when the quote is a proper, non-empty part of the message
  that occurs in it once and contains the candidate value (an order id as a whole token, any other
  value verbatim). The span is then the position of that one occurrence and the hash is that of the
  quoted text; every other input is rejected with the one provenance error.\<close>

theorem exact_span_iff:
  "exact_source_span_v2 message quote candidate =
     (if quote \<noteq> [] \<and> quote \<noteq> message \<and> (\<exists>s. {i. occurs_at quote message i} = {s})
         \<and> value_in_quote quote candidate
      then Inr (THE s. occurs_at quote message s, (THE s. occurs_at quote message s) + length quote,
                sha256_hexdigest (utf8 quote))
      else Inl (Aggregate SOURCE_PROVENANCE_INVALID))"
proof (cases "exact_source_span_v2 message quote candidate")
  case (Inl e)
  then have "\<not> (quote \<noteq> [] \<and> quote \<noteq> message \<and> (\<exists>s. {i. occurs_at quote message i} = {s}) \<and> value_in_quote quote candidate)"
    using exact_source_span_v2_Inr[of message quote candidate] by fastforce
  with Inl exact_source_span_v2_Inl[OF Inl] show ?thesis by (simp only: if_False)
next
  case (Inr r)
  then obtain s e h where r: "exact_source_span_v2 message quote candidate = Inr (s, e, h)" by (cases r) simp
  then have f: "quote \<noteq> []" "quote \<noteq> message" "{i. occurs_at quote message i} = {s}" "value_in_quote quote candidate"
    "e = s + length quote" "h = sha256_hexdigest (utf8 quote)" by (simp_all add: exact_source_span_v2_Inr)
  then have "(THE s. occurs_at quote message s) = s" by (intro the_equality) blast+
  with r f show ?thesis by auto
qed

text \<open>The scan for order ids in a text finds every place where the pattern matches, and nothing else:
  the matches are the substrings at positions where an order id stands between non-alphanumeric characters.\<close>

theorem order_ids_in_text:
  "set (finditer text 0) = {take l (drop j text) |j l. match_at text j = Some l}"
  by (rule finditer_complete)

text \<open>C21. Normalisation accepts exactly the strings that are, up to surrounding white space and the case of the
  leading O, an order id with 4 to 20 digits; the result is the order id in its canonical spelling.\<close>

theorem normal_form_iff:
  "normalize_order_id (JStr s) = Inr n \<longleftrightarrow>
     (\<exists>c ds. (c = 79 \<or> c = 111) \<and> py_strip s = c # 45 # ds \<and> n = str ''O-'' @ ds
        \<and> 4 \<le> length ds \<and> length ds \<le> 20 \<and> list_all is_09 ds)"
  by (rule normalize_order_id_iff)

text \<open>Normalising twice is normalising once, whatever JSON value came first, and two values with the
  same normal form are indistinguishable afterwards.\<close>

theorem normal_form_stable:
  assumes "normalize_order_id v = Inr n"
  shows "normalize_order_id (JStr n) = Inr n \<and> OrderId n"
  using assms order_id.idempotent order_id.normal_form by blast

theorem normal_form_stable_witness:
  "normalize_order_id (JStr (str ''O-1234'')) = Inr (str ''O-1234'')"
  using normal_form_stable[OF sample_normal_form] by simp

subsection \<open>Freezing and the trusted-field search\<close>

text \<open>Freezing an object graph succeeds exactly when the value has a finite unfolding with finite
  numbers, and returns that unfolding: shared containers are copied, a container that reaches itself,
  however deep, is refused.\<close>

theorem freeze_is_unfolding: "freeze_json_value h v = Inr t \<longleftrightarrow> unfolds h v t"
  by (rule freeze_iff_unfolds)

text \<open>The search for Runtime-private names reports the first key, in document order and at any depth,
  whose case-folded spelling is one of the trusted names, and nothing when there is none.\<close>

theorem trusted_field_search:
  "find_trusted_argument_field v = find is_trusted_name (map casefold (json_keys v))"
  by (rule find_trusted_spec(1))

subsection \<open>Validated construction\<close>

text \<open>Validating what a constructor returned changes nothing, also for the classes that rewrite their
  arguments (thawed and frozen JSON): this is what comparing an instance with its own re-validation
  (\<open>_is_exact_canonical_model\<close>) rests on.\<close>

theorem validation_is_idempotent:
  "res_bind (new_next_move m) new_next_move = new_next_move m
   \<and> res_bind (new_authorized_tool_command c) new_authorized_tool_command = new_authorized_tool_command c
   \<and> res_bind (new_tool_spec s) new_tool_spec = new_tool_spec s
   \<and> res_bind (new_revalidated_next_move r) new_revalidated_next_move = new_revalidated_next_move r"
  by (simp add: move.make_twice authorized_command.make_twice tool_spec.make_twice revalidated_move.make_twice)

subsection \<open>The registry\<close>

text \<open>Building a snapshot succeeds exactly for a named version and a non-empty list of registrations
  with unique canonical and provider-visible names and valid projections; the snapshot then resolves
  every registered provider name to its own registration and visible ToolSpec, every other name to
  nothing, and yields a hash-consistent artifact.\<close>

theorem registry_resolves_exactly:
  assumes "build_registry_snapshot v regs = Inr s"
  shows "registrable regs \<and> NonEmptyString v
    \<and> (\<forall>r\<in>set regs. resolve_registration s (tr_provider_visible_name r) = (Some (ts_name (tr_tool_spec r)), Some r)
         \<and> resolve_provider_visible_spec s (tr_provider_visible_name r) = Some (shown_spec r))
    \<and> (\<forall>name. name \<notin> set (map tr_provider_visible_name regs) \<longrightarrow>
         resolve_registration s name = (None, None) \<and> resolve_provider_visible_spec s name = None)
    \<and> (\<exists>a. snapshot_artifact s = Inr a \<and> ta_provider_visible_tool_specs a = rs_provider_visible_toolset s)"
  using assms resolve_registered[OF assms] resolve_unregistered[OF assms] built_artifact[OF assms]
  by (simp add: build_registry_snapshot_iff)

theorem registry_resolves_exactly_witness:
  "resolve_registration sample_registry (str ''get_order'') = (Some (str ''get_order''), Some get_order_registration)
   \<and> resolve_registration sample_registry (str ''drop_table'') = (None, None)"
  using registry_resolves_exactly[OF sample_registry_built]
  by (simp add: get_order_registration_def get_order_tool_spec_def)

text \<open>A snapshot can be built whenever the registrations are admissible: no later check refuses it.\<close>

theorem registry_builds:
  assumes "registrable regs" "NonEmptyString v"
  shows "\<exists>s. build_registry_snapshot v regs = Inr s \<and> new_registry_snapshot s = Inr s"
  using assms by (simp add: build_registry_snapshot_iff snapshot_of_valid)

theorem registry_builds_witness:
  "\<exists>s. build_registry_snapshot (str ''registry-v1'') [get_order_registration] = Inr s \<and> new_registry_snapshot s = Inr s"
  by (rule registry_builds) (simp_all add: get_order_registrable)

end
