(* ===== verification/Reducer_Properties.thy ===== *)
theory Reducer_Properties
  imports Sample_Request
begin

section \<open>Properties of the initial-request reducer\<close>

text \<open>
  The properties of the initial-request reducer, over the facts of \<open>Reduction_Facts\<close>.
\<close>

subsection \<open>What a decision holds\<close>

definition decision_closure :: "initial_decision \<Rightarrow> ru_closure" where
  "decision_closure d = (case d of NoTask n \<Rightarrow> nt_closure n | Routable r \<Rightarrow> rd_closure r | Unrouted u \<Rightarrow> ur_closure u)"

definition decision_graphs :: "initial_decision \<Rightarrow> initial_graph list" where
  "decision_graphs d = (case d of NoTask _ \<Rightarrow> [] | Routable r \<Rightarrow> [rd_task_graph r] | Unrouted u \<Rightarrow> ur_task_graphs u)"

lemma spec_decision_parts:
  fixes msgs ri ro customer record_id allocations move_ref now ctx candidates
  defines "d \<equiv> spec_decision msgs ri ro customer record_id allocations move_ref now ctx candidates"
  shows "decision_graphs d = graphs_of ro customer now allocations"
    and "cl_record (decision_closure d) = cl_record (spec_closure ri ro record_id ctx candidates
           (graphs_of ro customer now allocations)
           (if length (ro_task_delta_candidates ro) = 1 \<and> length (graphs_of ro customer now allocations) = 1
            then Some move_ref else None) now)"
    and "cl_accepted_task_deltas (decision_closure d) = map ig_accepted_delta (decision_graphs d)"
  unfolding d_def spec_decision_cases Let_def
  by (auto simp: decision_graphs_def decision_closure_def spec_closure_def length_Suc_conv)

text \<open>A reduction in specification terms.\<close>

lemma reducer_InrE:
  assumes "validate_and_reduce_initial_request_v2 serialise vi vo msgs cust record_id given move_ref now = Inr d"
  obtains ri ro customer allocs ctx candidates where
    "vi = Obj ri []" "vo = Obj ro []" "cust = Obj customer []" "given = Some (map (\<lambda>a. Obj a []) allocs)"
    "reduction_ok msgs ri ro customer record_id allocs move_ref now ctx candidates"
    "d = spec_decision msgs ri ro customer record_id (dict_by al_candidate_ref allocs) move_ref now ctx candidates"
  using assms unfolding reducer_Inr_iff by blast

abbreviation sample_decision :: initial_decision where
  "sample_decision \<equiv> spec_decision sample_messages sample_input sample_output sample_customer 60
     (dict_by al_candidate_ref [sample_allocation]) 61 sample_now sample_context [sample_durable_candidate]"

lemma sample_reduced:
  "validate_and_reduce_initial_request_v2 serialise (Obj sample_input []) (Obj sample_output []) sample_messages
     (Obj sample_customer []) 60 (Some [Obj sample_allocation []]) 61 sample_now = Inr sample_decision"
  using reducer_on_valid[OF sample_reduction, of serialise] by simp

lemma sample_accepted: "candidate_rejection_reason_v2 sample_candidate sample_output = None"
proof -
  have i: "tdc_input_candidates sample_candidate = [hd (tdc_input_candidates sample_candidate)]"
    "ic_candidate_value (hd (tdc_input_candidates sample_candidate)) = str ''o-1234''"
    "ic_name (hd (tdc_input_candidates sample_candidate)) = str ''order_id''"
    "ic_semantic_role (hd (tdc_input_candidates sample_candidate)) = str ''TARGET_RESOURCE_IDENTIFIER''"
    "ic_authority (hd (tdc_input_candidates sample_candidate)) = USER_CLAIM"
    "ic_source_kind (hd (tdc_input_candidates sample_candidate)) = SRC_CURRENT_MESSAGE"
    "ic_source_ref (hd (tdc_input_candidates sample_candidate)) = ro_message_ref sample_output"
    "cx_uncertainties (ro_contextualization sample_output) = []"
    by (simp_all add: sample_candidate_def sample_output_def)
  show ?thesis
    unfolding candidate_rejection_reason_v2_def Let_def
    by (subst i(1)) (simp add: i(2-8) sample_normal_form del: list.sel)
qed

lemma sample_graph:
  "graphs_of sample_output sample_customer sample_now (dict_by al_candidate_ref [sample_allocation]) =
     [graph_of 7 sample_customer sample_now sample_allocation sample_candidate (str ''O-1234'')]"
proof -
  have "order_id_of sample_candidate = str ''O-1234''"
    by (simp add: order_id_of_def sample_candidate_def sample_normal_form)
  moreover have "accepted_of sample_output = [sample_candidate]"
    using sample_accepted by (simp add: accepted_of_def sample_output_def)
  ultimately show ?thesis
    by (simp add: graphs_of_def) (simp add: sample_output_def sample_allocation_def sample_candidate_def dict_by_distinct)
qed

subsection \<open>Refinement\<close>

text \<open>C1. The reducer implements its specification: it returns a decision exactly for canonical inputs whose
  sources check out and whose trusted arguments are valid, and the decision is then the specified one. So none
  of the validators it runs on the records it builds itself can fail.\<close>

theorem reducer_refines_specification:
  "validate_and_reduce_initial_request_v2 serialise vi vo msgs cust record_id given move_ref now = Inr d \<longleftrightarrow>
     (\<exists>ri ro customer allocs ctx candidates.
        vi = Obj ri [] \<and> vo = Obj ro [] \<and> cust = Obj customer [] \<and> given = Some (map (\<lambda>a. Obj a []) allocs)
        \<and> reduction_ok msgs ri ro customer record_id allocs move_ref now ctx candidates
        \<and> d = spec_decision msgs ri ro customer record_id (dict_by al_candidate_ref allocs) move_ref now ctx candidates)"
  by (rule reducer_Inr_iff)

text \<open>Failures are bounded: when the reducer fails, either a check on the model's input and output failed
  before any identity was used, or the caller's trusted arguments were invalid, which is always reported as
  the one closure failure.\<close>

theorem reducer_errors_classified:
  assumes "validate_and_reduce_initial_request_v2 serialise vi vo msgs cust record_id given move_ref now = Inl e"
  shows "preflight_initial_request_projection_v2 vi vo msgs = Inl e \<or>
    (\<exists>ri ro. preflight_initial_request_projection_v2 vi vo msgs = Inr (ri, ro) \<and> e = closure_failed
       \<and> canonical_initial_identity_allocations_v2 given (map tdc_candidate_id (ro_task_delta_candidates ro))
           record_id move_ref cust now = Inl e)"
  by (rule reducer_Inl_cases[OF assms])

theorem reducer_errors_classified_witness:
  "preflight_initial_request_projection_v2 Foreign (Obj sample_output []) sample_messages
     = Inl (Aggregate MODEL_INPUT_SCHEMA_INVALID)"
proof -
  have "validate_and_reduce_initial_request_v2 (\<lambda>_. []) Foreign (Obj sample_output []) sample_messages
      (Obj sample_customer []) 60 (Some [Obj sample_allocation []]) 61 sample_now = Inl (Aggregate MODEL_INPUT_SCHEMA_INVALID)"
    by (simp add: validate_and_reduce_initial_request_v2_def preflight_initial_request_projection_v2_def
        canonical_request_input_v2_def)
  from reducer_errors_classified[OF this] show ?thesis
    by (simp add: closure_failed_def)
qed

subsection \<open>Conservation\<close>

text \<open>Every goal the model proposed gets exactly one decision record, in the order proposed; it is accepted
  exactly when its only input is an unambiguous, well-formed order id; and exactly the accepted goals get a
  Task graph, in the same order.\<close>

theorem every_candidate_decided_once:
  assumes "validate_and_reduce_initial_request_v2 serialise vi (Obj ro []) msgs cust record_id given move_ref now = Inr d"
  shows "map cv_candidate_ref (rc_candidate_validation (cl_record (decision_closure d)))
           = map tdc_candidate_id (ro_task_delta_candidates ro)
       \<and> map is_accept (rc_candidate_validation (cl_record (decision_closure d)))
           = map (\<lambda>c. candidate_rejection_reason_v2 c ro = None) (ro_task_delta_candidates ro)
       \<and> map (ad_candidate_ref \<circ> ig_accepted_delta) (decision_graphs d)
           = map tdc_candidate_id (filter (\<lambda>c. candidate_rejection_reason_v2 c ro = None) (ro_task_delta_candidates ro))
       \<and> cl_accepted_task_deltas (decision_closure d) = map ig_accepted_delta (decision_graphs d)"
proof -
  from assms obtain ri customer allocs ctx candidates where
    d: "d = spec_decision msgs ri ro customer record_id (dict_by al_candidate_ref allocs) move_ref now ctx candidates"
    by (rule reducer_InrE) auto
  show ?thesis
    unfolding d spec_decision_parts spec_closure_fields
    by (simp add: graphs_of_def accepted_of_def graph_of_def comp_def)
qed

theorem every_candidate_decided_once_witness:
  "map cv_candidate_ref (rc_candidate_validation (cl_record (decision_closure sample_decision))) = [50]"
  using every_candidate_decided_once[OF sample_reduced] by (simp add: sample_output_def sample_candidate_def)

subsection \<open>Provenance and ownership\<close>

text \<open>C2. What is stored of the model's claims is certified by the messages: every durable input of every goal
  names a proper part of an authoritative message that occurs there once, contains the claimed value and hashes
  to the stored digest.\<close>

theorem stored_claims_are_certified:
  assumes "validate_and_reduce_initial_request_v2 serialise vi vo msgs cust record_id given move_ref now = Inr d"
    and "candidate \<in> set (rc_task_delta_candidates (cl_record (decision_closure d)))"
    and "i \<in> set (dtd_input_candidates candidate)"
  shows "span_certified msgs (dic_source_ref i) (dic_source_span_start i) (dic_source_span_end_exclusive i)
    (dic_source_quote_sha256 i) (dic_candidate_value i)"
proof -
  from assms(1) obtain ri ro customer allocs ctx candidates where
    ok: "reduction_ok msgs ri ro customer record_id allocs move_ref now ctx candidates"
    and d: "d = spec_decision msgs ri ro customer record_id (dict_by al_candidate_ref allocs) move_ref now ctx candidates"
    by (rule reducer_InrE)
  have "list_all2 (delta_certified msgs) (ro_task_delta_candidates ro) candidates"
    using ok projection_ok_certified(2) unfolding reduction_ok_def by blast
  moreover have "candidate \<in> set candidates"
    using assms(2) by (simp add: d spec_decision_parts(2) spec_closure_fields)
  ultimately obtain c where "delta_certified msgs c candidate"
    by (metis in_set_conv_nth list_all2_conv_all_nth)
  then have "list_all2 (input_certified msgs) (tdc_input_candidates c) (dtd_input_candidates candidate)"
    by (simp add: delta_certified_def)
  with assms(3) obtain c0 where "input_certified msgs c0 i"
    by (metis in_set_conv_nth list_all2_conv_all_nth)
  then show ?thesis unfolding input_certified_def by blast
qed

theorem stored_claims_are_certified_witness:
  "span_certified sample_messages 7 9 16 (sha256_hexdigest (utf8 (str ''o-1234?''))) (str ''o-1234'')"
  using stored_claims_are_certified[OF sample_reduced, of sample_durable_candidate
      "hd (dtd_input_candidates sample_durable_candidate)"]
  by (simp add: spec_decision_parts(2) spec_closure_fields) (simp add: sample_durable_candidate_def)

text \<open>C3. Every Task the reducer creates belongs to the authenticated customer, starts ACTIVE at version 1 and
  is bound to one order id: the normal form of the value the accepted goal quoted from the message.\<close>

theorem created_tasks_are_owned_and_bound:
  assumes "validate_and_reduce_initial_request_v2 serialise vi vo msgs (Obj customer []) record_id given move_ref now = Inr d"
    and "g \<in> set (decision_graphs d)"
  shows "tk_owner_customer_id (ig_task g) = cc_customer_id customer
    \<and> tk_status (ig_task g) = ACTIVE \<and> tk_state_version (ig_task g) = 1
    \<and> ru_task_id (ig_request_unit g) = tk_task_id (ig_task g)
    \<and> ru_input_binding_refs (ig_request_unit g) = [ib_binding_id (ig_input_binding g)]
    \<and> OrderId (ib_normalized_value (ig_input_binding g))
    \<and> (\<exists>ro c i. vo = Obj ro [] \<and> c \<in> set (ro_task_delta_candidates ro) \<and> tdc_input_candidates c = [i]
        \<and> ad_candidate_ref (ig_accepted_delta g) = tdc_candidate_id c
        \<and> normalize_order_id (JStr (ic_candidate_value i)) = Inr (ib_normalized_value (ig_input_binding g)))"
proof -
  from assms(1) obtain ri ro allocs ctx candidates where vo: "vo = Obj ro []"
    and d: "d = spec_decision msgs ri ro customer record_id (dict_by al_candidate_ref allocs) move_ref now ctx candidates"
    by (rule reducer_InrE) auto
  from assms(2) obtain c where c: "c \<in> set (accepted_of ro)"
    and g: "g = graph_of (ro_message_ref ro) customer now (alloc_for (dict_by al_candidate_ref allocs) c) c (order_id_of c)"
    by (auto simp: d spec_decision_parts(1) elim: graphs_reduced_member)
  from c have mem: "c \<in> set (ro_task_delta_candidates ro)" and acc: "candidate_rejection_reason_v2 c ro = None"
    by (simp_all add: accepted_of_def)
  from rejection_None_normalizes[OF acc] obtain i where i: "tdc_input_candidates c = [i]"
    "normalize_order_id (JStr (ic_candidate_value i)) = Inr (order_id_of c)" by blast
  have "\<exists>ro c i. vo = Obj ro [] \<and> c \<in> set (ro_task_delta_candidates ro) \<and> tdc_input_candidates c = [i]
       \<and> ad_candidate_ref (ig_accepted_delta g) = tdc_candidate_id c
       \<and> normalize_order_id (JStr (ic_candidate_value i)) = Inr (ib_normalized_value (ig_input_binding g))"
    using vo mem i by (intro exI[of _ ro] exI[of _ c] exI[of _ i]) (simp add: g graph_of_def)
  then show ?thesis
    using accepted_order_id[OF c] by (simp add: g graph_of_def)
qed

theorem created_tasks_are_owned_and_bound_witness:
  "tk_owner_customer_id (ig_task (hd (decision_graphs sample_decision))) = str ''cust-1''"
  using created_tasks_are_owned_and_bound[OF sample_reduced, of "hd (decision_graphs sample_decision)"]
  unfolding spec_decision_parts(1) sample_graph by (simp add: sample_customer_def)

end
