(* ===== verification/Seal_Properties.thy ===== *)
theory Seal_Properties
  imports Reducer_Properties Seal Revalidation
begin

section \<open>Properties of decision seals and revalidation\<close>

text \<open>
  The properties of seals and of revalidation, on reachable states and a sealed sample decision.
\<close>

subsection \<open>A sealed sample decision\<close>

definition sample_graph_record :: initial_graph where
  "sample_graph_record = graph_of 7 sample_customer sample_now sample_allocation sample_candidate (str ''O-1234'')"

definition sample_routable :: routable_decision where
  "sample_routable =
     \<lparr>rd_closure = spec_closure sample_input sample_output 60 sample_context [sample_durable_candidate]
        [sample_graph_record] (Some 61) sample_now,
      rd_task_graph = sample_graph_record, rd_next_move_candidate_ref = 61,
      rd_next_move_candidate = ro_next_move_candidate sample_output\<rparr>"

lemma sample_decision_routable: "sample_decision = Routable sample_routable"
  by (simp add: spec_decision_cases Let_def sample_graph sample_routable_def sample_graph_record_def)
    (simp add: sample_output_def)

lemma sample_routable_fields: "validate_initial_routable_decision_fields_v2 sample_routable = Inr ()"
  unfolding sample_routable_def
  by (rule routable_fields_reduced[OF sample_reduction])
    (simp_all add: sample_graph sample_graph_record_def, simp add: sample_output_def)

definition task_fields :: "string list" where
  "task_fields = [''task_id'', ''owner_customer_id'', ''status'', ''state_version'', ''created_at'', ''updated_at'']"

definition unit_fields :: "string list" where
  "unit_fields = [''request_unit_id'', ''task_id'', ''goal_text'', ''goal_source_refs'', ''input_binding_refs'',
     ''status'', ''state_version'', ''created_at'', ''updated_at'']"

definition binding_fields :: "string list" where
  "binding_fields = [''binding_id'', ''name'', ''normalized_value'', ''authority'', ''source_refs'',
     ''validation_status'', ''confirmed_by_user'', ''created_at'', ''updated_at'']"

definition sample_manifest :: fields_manifest where
  "sample_manifest = [(TASK_CLASS, task_fields), (UNIT_CLASS, unit_fields), (BINDING_CLASS, binding_fields)]"

definition sample_object :: decision_object where
  "sample_object = \<lparr>do_fields = sample_routable, do_manifest = sample_manifest, do_state_declared = True,
     do_private = PrivateSeal 2\<rparr>"

definition sample_payload :: "nat list" where
  "sample_payload = str ''mini-agent:initial-routable-task-graph-decision-v2:''"

definition sample_sealed :: seal_state where
  "sample_sealed = initial_seal_state\<lparr>ss_objects := [9 \<mapsto> sample_object], ss_seals := [2 \<mapsto> seal_digest sample_payload],
     ss_registry := [2 \<mapsto> (seal_digest sample_payload, 9)]\<rparr>"

abbreviation blank_serialiser :: serialiser where
  "blank_serialiser \<equiv> (\<lambda>_ _. [])"

lemma sample_object_payload: "initial_routable_decision_payload_v2 blank_serialiser sample_object = Some sample_payload"
  by (simp add: initial_routable_decision_payload_v2_def initial_routable_decision_fields_payload_v2_def
      sample_object_def sample_routable_fields sample_payload_def)

lemma sample_sealing:
  "reduce_and_seal blank_serialiser 2 9 sample_routable sample_manifest initial_seal_state = Inr sample_sealed"
proof -
  have "initial_routable_decision_payload_v2 blank_serialiser (sample_object\<lparr>do_private := PrivateOther\<rparr>) = Some sample_payload"
    by (simp add: sample_object_payload)
  then show ?thesis
    by (simp add: reduce_and_seal_def seal_object_def issue_initial_routable_decision_seal_def sample_object_def
        Let_def sample_sealed_def initial_seal_state_def)
qed

lemma sample_sealed_reachable: "seal_reachable blank_serialiser (sample_sealed, [sample_payload])"
proof (rule seal_reachable.Step[OF seal_reachable.Init])
  have "seal_step blank_serialiser (initial_seal_state, [])
     (sample_sealed, [] @ [str ''mini-agent:initial-routable-task-graph-decision-v2:'' @ []])"
    by (rule seal_step.Reduce[OF _ _ sample_sealing]) (simp_all add: initial_seal_state_def)
  then show "seal_step blank_serialiser (initial_seal_state, []) (sample_sealed, [sample_payload])"
    by (simp add: sample_payload_def)
qed

lemma sample_matches: "initial_routable_decision_seal_matches blank_serialiser sample_sealed 9"
  by (rule sealed_object_matches) (rule sample_sealing[unfolded reduce_and_seal_def])

subsection \<open>Authenticity\<close>

text \<open>C8. Whatever code does to decision objects and seal objects, creating, rewriting, copying, pickling and
  dropping them included, a decision whose seal matches has a digest of a payload the reducer itself sealed:
  a forged or edited decision passes only with a SHA-256 collision.\<close>

theorem matching_seal_is_authentic:
  assumes "seal_reachable serialise (st, produced)"
    and "initial_routable_decision_seal_matches serialise st address"
  shows "\<exists>value payload. ss_objects st address = Some value
    \<and> initial_routable_decision_payload_v2 serialise value = Some payload
    \<and> (\<exists>p\<in>set produced. seal_digest p = seal_digest payload)"
proof -
  from assms(2) obtain v payload seal where v: "ss_objects st address = Some v"
    "initial_routable_decision_payload_v2 serialise v = Some payload"
    "ss_registry st seal = Some (seal_digest payload, address)"
    by (rule seal_matches_registered)
  have "digest_produced produced (seal_digest payload)"
    using seal_reachable_inv[OF assms(1)] v(3) by (auto simp: seal_inv_def)
  with v show ?thesis by (force simp: digest_produced_def)
qed

theorem matching_seal_is_authentic_witness:
  "\<exists>value payload. ss_objects sample_sealed 9 = Some value
    \<and> initial_routable_decision_payload_v2 blank_serialiser value = Some payload
    \<and> (\<exists>p\<in>set [sample_payload]. seal_digest p = seal_digest payload)"
  by (rule matching_seal_is_authentic[OF sample_sealed_reachable sample_matches])

text \<open>A seal vouches for one object only: taking it over to another object, or editing the object so that
  its payload has another digest, makes the check fail.\<close>

theorem seal_is_not_transferable:
  assumes "initial_routable_decision_seal_matches serialise st address"
    and "ss_objects st address = Some value" "do_private value = PrivateSeal seal"
    and "initial_routable_decision_payload_v2 serialise value = Some payload"
  shows "(other \<noteq> address \<longrightarrow> do_private forged = PrivateSeal seal \<longrightarrow>
      \<not> initial_routable_decision_seal_matches serialise
          (st\<lparr>ss_objects := (ss_objects st)(other \<mapsto> forged)\<rparr>) other)
    \<and> (do_private forged = PrivateSeal seal \<longrightarrow>
      map_option seal_digest (initial_routable_decision_payload_v2 serialise forged) \<noteq> Some (seal_digest payload) \<longrightarrow>
      \<not> initial_routable_decision_seal_matches serialise
          (st\<lparr>ss_objects := (ss_objects st)(address \<mapsto> forged)\<rparr>) address)"
proof -
  have r: "ss_registry st seal = Some (seal_digest payload, address)"
    using assms by (auto elim: seal_matches_registered)
  show ?thesis
    by (auto simp: initial_routable_decision_seal_matches_def r split: option.splits)
qed

theorem seal_is_not_transferable_witness:
  "\<not> initial_routable_decision_seal_matches blank_serialiser
       (sample_sealed\<lparr>ss_objects := (ss_objects sample_sealed)(10 \<mapsto> sample_object)\<rparr>) 10"
  using seal_is_not_transferable[OF sample_matches, of sample_object 2 sample_payload 10 sample_object] sample_object_payload
  by (simp add: sample_sealed_def sample_object_def)

subsection \<open>Pickle tickets\<close>

definition ticket_spent :: "nat \<Rightarrow> seal_state \<times> nat list list \<Rightarrow> bool" where
  "ticket_spent t s \<longleftrightarrow> ss_tickets (fst s) t = None \<and> t < ss_next_ticket (fst s)"

lemma ticket_spent_object:
  assumes "seal_object serialise seal a st = Inr st'"
  shows "ss_tickets st' = ss_tickets st \<and> ss_next_ticket st' = ss_next_ticket st"
  using assms by (auto elim: seal_object_Inr)

lemma ticket_spent_step:
  assumes "seal_step serialise s s'" "ticket_spent t s"
  shows "ticket_spent t s'"
  using assms
proof (cases rule: seal_step.cases)
  case (Reduce st address seal d manifest st' produced)
  then show ?thesis using assms(2) ticket_spent_object
    by (fastforce simp: ticket_spent_def reduce_and_seal_def)
next
  case (Copy st target seal address st' produced)
  then show ?thesis using assms(2) ticket_spent_object
    by (fastforce simp: ticket_spent_def copy_initial_routable_decision_def split: if_splits)
next
  case (Pickle address st pickled st' produced)
  then show ?thesis using assms(2)
    by (auto simp: ticket_spent_def reduce_pickled_initial_routable_decision_def Let_def split: if_splits option.splits)
next
  case (Restore st target seal ticket valid d manifest st' produced)
  from Restore(5) have "\<exists>st0. seal_object serialise seal target st0 = Inr st'
      \<and> ss_tickets st0 = (ss_tickets st)(ticket := None) \<and> ss_next_ticket st0 = ss_next_ticket st"
    by (auto simp: restore_pickled_initial_routable_decision_def Let_def split: option.splits if_splits)
  then show ?thesis using assms(2) Restore(1,2) by (auto simp: ticket_spent_def dest!: ticket_spent_object)
qed (auto simp: ticket_spent_def collect_seal_def collect_decision_def)

lemma ticket_spent_steps:
  "(seal_step serialise)\<^sup>*\<^sup>* s s' \<Longrightarrow> ticket_spent t s \<Longrightarrow> ticket_spent t s'"
  by (induction rule: rtranclp_induct) (auto intro: ticket_spent_step)

text \<open>A pickled decision can be restored once: after a ticket was redeemed, no later state, whatever happened
  in between, redeems it again.\<close>

theorem ticket_is_single_use:
  assumes "seal_reachable serialise (st, produced)"
    and "restore_pickled_initial_routable_decision serialise seal target ticket valid d manifest st = Inr st1"
    and "(seal_step serialise)\<^sup>*\<^sup>* (st1, produced) (st2, produced2)"
  shows "restore_pickled_initial_routable_decision serialise seal' target' ticket valid' d' manifest' st2
    = Inl ''unknown Reducer decision pickle''"
proof -
  from assms(2) obtain dig st0 where t: "ss_tickets st ticket = Some dig"
    and so: "seal_object serialise seal target st0 = Inr st1"
      "ss_tickets st0 = (ss_tickets st)(ticket := None)" "ss_next_ticket st0 = ss_next_ticket st"
    by (auto simp: restore_pickled_initial_routable_decision_def Let_def split: option.splits if_splits)
  have "ticket < ss_next_ticket st"
    using seal_reachable_inv[OF assms(1)] t by (auto simp: seal_inv_def)
  with so have "ticket_spent ticket (st1, produced)"
    by (auto simp: ticket_spent_def dest!: ticket_spent_object)
  with assms(3) have "ticket_spent ticket (st2, produced2)"
    by (rule ticket_spent_steps)
  then show ?thesis
    by (simp add: ticket_spent_def restore_pickled_initial_routable_decision_def)
qed

definition sample_pickled :: seal_state where
  "sample_pickled = sample_sealed\<lparr>ss_next_ticket := 2, ss_tickets := [1 \<mapsto> seal_digest sample_payload]\<rparr>"

lemma sample_pickling:
  "reduce_pickled_initial_routable_decision blank_serialiser 9 sample_sealed
     = Inr ((1, sample_routable, sample_manifest), sample_pickled)"
  using sample_matches
  by (simp add: reduce_pickled_initial_routable_decision_def Let_def)
    (simp add: sample_sealed_def sample_object_payload[unfolded sample_object_def] sample_object_def
      sample_pickled_def initial_seal_state_def)

lemma sample_pickled_reachable: "seal_reachable blank_serialiser (sample_pickled, [sample_payload])"
  by (rule seal_reachable.Step[OF sample_sealed_reachable seal_step.Pickle[OF sample_pickling]])

lemma sample_restoring:
  "\<exists>st. restore_pickled_initial_routable_decision blank_serialiser 3 10 1 True sample_routable sample_manifest sample_pickled = Inr st"
proof -
  have "initial_routable_decision_payload_v2 blank_serialiser
      \<lparr>do_fields = sample_routable, do_manifest = sample_manifest, do_state_declared = True, do_private = PrivateOther\<rparr>
      = Some sample_payload"
    using sample_object_payload payload_private[where serialise = blank_serialiser and v = sample_object and p = PrivateOther]
    by (simp add: sample_object_def)
  then show ?thesis
    by (simp add: restore_pickled_initial_routable_decision_def sample_pickled_def Let_def seal_object_def
        issue_initial_routable_decision_seal_def)
qed

theorem ticket_is_single_use_witness:
  "\<exists>st. restore_pickled_initial_routable_decision blank_serialiser 3 10 1 True sample_routable sample_manifest sample_pickled = Inr st
     \<and> restore_pickled_initial_routable_decision blank_serialiser 4 11 1 True sample_routable sample_manifest st
        = Inl ''unknown Reducer decision pickle''"
  using sample_restoring ticket_is_single_use[OF sample_pickled_reachable _ rtranclp.rtrancl_refl] by blast

subsection \<open>Revalidation\<close>

text \<open>A revalidated move is bound to what was decided and to what is current: it exists exactly when the
  decision's seal matches, the three current records are exact instances and every guard of the code holds,
  and it then carries the identities, versions, arguments and binding of these records. No further failure
  is possible.\<close>

theorem revalidation_exact:
  "revalidate_next_move_v2 serialise st address current_task current_unit current_binding = Inr rv \<longleftrightarrow>
     (\<exists>decision task unit binding. initial_routable_decision_seal_matches serialise st address
        \<and> ss_objects st address = Some decision
        \<and> current_task = Obj task [] \<and> current_unit = Obj unit [] \<and> current_binding = Obj binding []
        \<and> exact_task current_task \<and> exact_request_unit current_unit \<and> exact_input_binding current_binding
        \<and> checks (revalidation_guards decision task unit binding) = Inr ()
        \<and> rv = revalidated_of decision (inst_of task) (inst_of unit) (inst_of binding))"
  by (rule revalidate_Inr_iff)

text \<open>C7. A revalidated move comes from a decision whose seal matches at that moment. It never carries a
  Runtime-private argument name, is a tool call, names the Task the sealed decision created, unchanged since (ACTIVE at
  version 1 and with every field equal), and its bound value is the order id the decision accepted.\<close>

theorem revalidation_sound:
  assumes "revalidate_next_move_v2 serialise st address (Obj (Inst task tf) tx) (Obj (Inst unit uf) ux)
    (Obj (Inst binding bf) bx) = Inr rv"
  shows "\<exists>decision. ss_objects st address = Some decision
    \<and> initial_routable_decision_seal_matches serialise st address
    \<and> task = ig_task (rd_task_graph (do_fields decision))
    \<and> unit = ig_request_unit (rd_task_graph (do_fields decision))
    \<and> binding = ig_input_binding (rd_task_graph (do_fields decision))
    \<and> tk_status task = ACTIVE \<and> tk_state_version task = 1
    \<and> rv_kind rv = CALL_TOOL \<and> rv_task_id rv = tk_task_id task \<and> rv_validated_task_state_version rv = 1
    \<and> rv_binding_normalized_value rv = ib_normalized_value binding
    \<and> rv_argument_binding_refs rv = [ib_binding_id binding]
    \<and> find_trusted_in_items (rv_candidate_arguments rv) = None"
proof -
  from assms obtain decision where d: "ss_objects st address = Some decision"
      "initial_routable_decision_seal_matches serialise st address"
    and g: "checks (revalidation_guards decision (Inst task tf) (Inst unit uf) (Inst binding bf)) = Inr ()"
    and rv: "rv = revalidated_of decision task unit binding"
    unfolding revalidate_Inr_iff by auto
  from g have "task = ig_task (rd_task_graph (do_fields decision))
    \<and> unit = ig_request_unit (rd_task_graph (do_fields decision))
    \<and> binding = ig_input_binding (rd_task_graph (do_fields decision))
    \<and> tk_status task = ACTIVE \<and> tk_state_version task = 1"
    unfolding checks_Inr_iff revalidation_guards_def Let_def matches_decision_instance_def list.pred_inject
      prod.case inst.sel by blast
  moreover from g have "find_trusted_in_items (rv_candidate_arguments rv) = None"
    by (simp add: rv revalidation_guards_def Let_def revalidated_of_def)
  ultimately show ?thesis using d by (intro exI[of _ decision]) (auto simp: rv revalidated_of_def Let_def)
qed

definition sample_task_inst :: "task_record inst pyobj" where
  "sample_task_inst = Obj (Inst (ig_task sample_graph_record) task_fields) []"

definition sample_unit_inst :: "request_unit_record inst pyobj" where
  "sample_unit_inst = Obj (Inst (ig_request_unit sample_graph_record) unit_fields) []"

definition sample_binding_inst :: "input_binding inst pyobj" where
  "sample_binding_inst = Obj (Inst (ig_input_binding sample_graph_record) binding_fields) []"

definition sample_move :: revalidated_next_move where
  "sample_move = revalidated_of sample_object (ig_task sample_graph_record) (ig_request_unit sample_graph_record)
     (ig_input_binding sample_graph_record)"

lemma sample_graph_valid: "accepts new_initial_graph sample_graph_record"
  unfolding sample_graph_record_def
  by (rule graph_of_valid) (simp_all add: OrderId_def str_def is_09_def sample_now_def sample_candidate_def
    sample_customer_def sample_allocation_def accepts_iff new_identity_allocation_def construct_Inr_iff generated_of_def)

lemma sample_insts_exact:
  "exact_task sample_task_inst" "exact_request_unit sample_unit_inst" "exact_input_binding sample_binding_inst"
proof -
  have "accepts new_task_record (ig_task sample_graph_record)" "accepts new_request_unit_record (ig_request_unit sample_graph_record)"
    "accepts new_input_binding (ig_input_binding sample_graph_record)"
    using sample_graph_valid by (simp_all add: accepts_iff new_initial_graph_def construct_Inr_iff initial_graph_guards_def Let_def)
  then show "exact_task sample_task_inst" "exact_request_unit sample_unit_inst" "exact_input_binding sample_binding_inst"
    by (simp_all add: exact_task_def exact_request_unit_def exact_input_binding_def exact_canonical_inst_def
        sample_task_inst_def sample_unit_inst_def sample_binding_inst_def task_fields_def unit_fields_def
        binding_fields_def sample_graph_record_def graph_of_def)
qed

lemma sample_guards:
  "checks (revalidation_guards sample_object (Inst (ig_task sample_graph_record) task_fields)
     (Inst (ig_request_unit sample_graph_record) unit_fields) (Inst (ig_input_binding sample_graph_record) binding_fields)) = Inr ()"
proof -
  have "find_trusted_in_items sample_arguments = None"
    using sample_arguments_valid by (simp add: validate_arguments_def res_bind_Inr_iff)
  then show ?thesis
    by (simp add: revalidation_guards_def Let_def matches_decision_instance_def sample_object_def sample_routable_def
        sample_manifest_def TASK_CLASS_def UNIT_CLASS_def BINDING_CLASS_def sample_graph_record_def graph_of_def sample_output_def)
qed

lemma sample_revalidates:
  "revalidate_next_move_v2 blank_serialiser sample_sealed 9 sample_task_inst sample_unit_inst sample_binding_inst = Inr sample_move"
proof -
  have "ss_objects sample_sealed 9 = Some sample_object" by (simp add: sample_sealed_def)
  with sample_matches sample_insts_exact sample_guards show ?thesis
    unfolding revalidate_Inr_iff
    by (intro exI[of _ sample_object] exI[of _ "Inst (ig_task sample_graph_record) task_fields"]
        exI[of _ "Inst (ig_request_unit sample_graph_record) unit_fields"]
        exI[of _ "Inst (ig_input_binding sample_graph_record) binding_fields"])
      (simp add: sample_task_inst_def sample_unit_inst_def sample_binding_inst_def sample_move_def)
qed

theorem revalidation_sound_witness:
  "rv_kind sample_move = CALL_TOOL \<and> rv_task_id sample_move = 52"
  using revalidation_sound[OF sample_revalidates[unfolded sample_task_inst_def sample_unit_inst_def sample_binding_inst_def]]
  by (auto simp: sample_graph_record_def graph_of_def sample_allocation_def)

end
