(* ===== verification/Gateway_Properties.thy ===== *)
theory Gateway_Properties
  imports Seal_Properties
begin

section \<open>Properties of the Control Gateway\<close>

text \<open>
  The properties of the gate, on arbitrary moves and on the sample one.
\<close>

subsection \<open>The gateway on the sample move\<close>

definition sample_context_manifest :: context_manifest where
  "sample_context_manifest =
     \<lparr>cm_context_manifest_id = 70, cm_run_id = 5, cm_model_call_id = 71, cm_tool_registry_version = str ''registry-v1'',
      cm_model_visible_toolset_hash = sample_toolset_hash, cm_selected_message_refs = [7],
      cm_task_state_ref_and_version = None, cm_observation_refs_and_versions = [], cm_evidence_refs_and_versions = [],
      cm_action_record_refs = [], cm_redaction_policy_version = str ''redaction-v1'', cm_truncation_decisions = [],
      cm_token_counts = \<lparr>tk_input_tokens = None, tk_output_tokens = None\<rparr>, cm_assembled_at = sample_now\<rparr>"

definition sample_gateway :: gateway_input where
  "sample_gateway =
     \<lparr>gi_revalidated_move = sample_move, gi_customer_context = Obj sample_customer [],
      gi_current_task = ig_task sample_graph_record, gi_current_request_unit = ig_request_unit sample_graph_record,
      gi_current_input_binding = ig_input_binding sample_graph_record, gi_registry_snapshot = sample_registry,
      gi_context_manifest = sample_context_manifest, gi_gate_decision_id = 72, gi_model_call_id = 71,
      gi_provider_tool_call_id = None, gi_decided_at = sample_now, gi_tool_calls_used = 0, gi_max_tool_calls = 1,
      gi_progress_valid = True\<rparr>"

lemma sample_move_fields:
  "rv_requested_provider_tool_name sample_move = str ''get_order''"
  "rv_candidate_arguments sample_move = sample_arguments"
  "rv_normalized_candidate_order_id sample_move = Some (str ''O-1234'')"
  "rv_argument_binding_refs sample_move = [54]" "rv_binding_name sample_move = str ''order_id''"
  "rv_binding_normalized_value sample_move = str ''O-1234''"
  "rv_task_id sample_move = 52" "rv_request_unit_id sample_move = 53" "rv_run_id sample_move = 5"
  "rv_proposed_base_task_state_version sample_move = None" "rv_validated_task_state_version sample_move = 1"
  by (simp_all add: sample_move_def revalidated_of_def Let_def sample_object_def sample_routable_def sample_output_def
      sample_graph_record_def graph_of_def sample_allocation_def spec_closure_def closure_record_def sample_input_def)
    (simp add: candidate_order_id_or_none_def sample_arguments_def sample_normal_form)

lemma sample_resolution:
  "resolve_registration sample_registry (str ''get_order'') = (Some (str ''get_order''), Some get_order_registration)"
  "resolve_provider_visible_spec sample_registry (str ''get_order'') = Some get_order_tool_spec"
proof -
  have r: "tr_provider_visible_name get_order_registration = str ''get_order''"
    "ts_name (tr_tool_spec get_order_registration) = str ''get_order''"
    by (simp_all add: get_order_registration_def get_order_tool_spec_def)
  have "shown_spec get_order_registration = get_order_tool_spec"
    by (simp add: shown_spec_def visible_get_order get_order_spec_valid ok_or_def)
  with resolve_registered[OF sample_registry_built, of get_order_registration] r
  show "resolve_registration sample_registry (str ''get_order'') = (Some (str ''get_order''), Some get_order_registration)"
    "resolve_provider_visible_spec sample_registry (str ''get_order'') = Some get_order_tool_spec" by simp_all
qed

lemma sample_registry_hash: "rs_model_visible_toolset_hash sample_registry = sample_toolset_hash"
  "rs_tool_registry_version sample_registry = str ''registry-v1''"
  by (simp_all add: sample_registry_def snapshot_of_def sample_toolset_hash_def shown_spec_def visible_get_order
      get_order_spec_valid ok_or_def)

lemma get_order_spec_eq: "tool_spec_eq get_order_tool_spec get_order_tool_spec"
  by (simp add: tool_spec_eq_def get_order_tool_spec_def get_order_input_schema_def get_order_output_schema_def
      order_summary_schema_def order_line_schema_def date_time_schema_def num_value_def)

lemma sample_checks: "list_all (\<lambda>b. b) (gateway_checks sample_gateway)"
proof -
  have res: "gateway_resolution sample_gateway = (Some (str ''get_order''), Some get_order_registration)"
    "gateway_visible_spec sample_gateway = Some get_order_tool_spec"
    by (simp_all add: gateway_resolution_def gateway_visible_spec_def sample_gateway_def sample_move_fields sample_resolution)
  have reg: "tr_provider_visible_name get_order_registration = str ''get_order''" "tr_effect get_order_registration = READ"
    "tr_tool_spec get_order_registration = get_order_tool_spec"
    by (simp_all add: get_order_registration_def)
  have "snapshot_match sample_gateway" "budget_valid sample_gateway" "gi_progress_valid sample_gateway"
    by (simp_all add: snapshot_match_def budget_valid_def sample_gateway_def sample_context_manifest_def sample_registry_hash)
  moreover have "registration_valid sample_gateway" "action_boundary_valid sample_gateway"
    by (simp_all add: registration_valid_def action_boundary_valid_def res reg) (simp add: sample_gateway_def sample_move_fields)
  moreover have "trusted_field_valid sample_gateway"
    using sample_arguments_valid
    by (simp add: trusted_field_valid_def sample_gateway_def sample_move_fields validate_arguments_def res_bind_Inr_iff)
  moreover have "schema_valid sample_gateway"
    by (simp add: schema_valid_def closed_get_order_schema_is_valid_def res reg get_order_spec_eq
        registration_matches_visible_spec_def visible_get_order)
      (simp add: sample_gateway_def sample_move_fields sample_arguments_def normalized_argument_iff sample_normal_form)
  moreover have "argument_binding_valid sample_gateway" "state_version_valid sample_gateway"
    by (simp_all add: argument_binding_valid_def graph_binding_valid_def state_version_valid_def Let_def
        sample_gateway_def sample_move_fields sample_graph_record_def graph_of_def sample_allocation_def
        sample_context_manifest_def)
  ultimately show ?thesis by (simp add: gateway_checks_def)
qed

lemma sample_gateway_valid: "gateway_input_valid sample_gateway"
proof -
  have "accepts new_revalidated_next_move sample_move"
  proof -
    have "validate_initial_routable_decision_fields_v2 (do_fields sample_object) = Inr ()"
      by (simp add: sample_object_def sample_routable_fields)
    from new_revalidated_total[OF this sample_guards] sample_graph_valid show ?thesis
      by (simp add: sample_move_def accepts_iff new_initial_graph_def construct_Inr_iff initial_graph_guards_def Let_def)
  qed
  moreover have "list_all (accepts new_provider_tool_name_binding) (rs_provider_name_to_canonical_name sample_registry)"
    using get_order_registrable by (simp add: registrable_def accepts_iff sample_registry_def snapshot_of_def)
  ultimately show ?thesis
    by (simp add: gateway_input_valid_def sample_gateway_def sample_now_def)
qed

subsection \<open>The decision\<close>

text \<open>C5. On valid arguments the gateway always returns a decision record, never an exception, and the decision
  is ACCEPT exactly when all nine boundaries hold.\<close>

theorem gateway_decides:
  assumes "gateway_input_valid g"
  shows "\<exists>d. evaluate_control_gateway g = Inr d
    \<and> (gd_decision d = GateAccept \<longleftrightarrow>
         snapshot_match g \<and> registration_valid g \<and> schema_valid g \<and> trusted_field_valid g
         \<and> argument_binding_valid g \<and> budget_valid g \<and> gi_progress_valid g \<and> state_version_valid g
         \<and> action_boundary_valid g)"
  using gateway_never_raises[OF assms] by (auto simp: gateway_record_def gateway_checks_def)

theorem gateway_decides_witness:
  "\<exists>d. evaluate_control_gateway sample_gateway = Inr d \<and> gd_decision d = GateAccept"
  using gateway_decides[OF sample_gateway_valid] sample_checks by (auto simp: gateway_checks_def)

lemma gateway_reason_find:
  "gateway_reason g = map_option fst (find (\<lambda>(_, ok). \<not> ok)
        [(ARGUMENT_BINDING_MISMATCH, argument_binding_valid g), (SNAPSHOT_MISMATCH, snapshot_match g),
         (TOOL_NOT_REGISTERED, registration_valid g), (TRUSTED_FIELD_INJECTION, trusted_field_valid g),
         (SCHEMA_INVALID, schema_valid g), (BUDGET_EXCEEDED, budget_valid g), (NO_PROGRESS, gi_progress_valid g),
         (STATE_VERSION_MISMATCH, state_version_valid g), (ACTION_REQUIRES_PROPOSAL, action_boundary_valid g)])"
  unfolding gateway_reason_def by (simp only: find.simps prod.case if_distrib[of "map_option fst"] option.map fst_conv)

text \<open>C6. A rejection carries the reason of a boundary that really failed, and of no boundary of higher priority:
  with the binding in order the first failing check in the code's order gives the reason; an accepted decision
  has no reason.\<close>

theorem gateway_reason_is_first_failure:
  assumes "evaluate_control_gateway g = Inr d"
  shows "(gd_decision d = GateAccept \<longleftrightarrow> gd_reason_code d = None)
    \<and> gd_reason_code d = map_option fst (find (\<lambda>(_, ok). \<not> ok)
        [(ARGUMENT_BINDING_MISMATCH, argument_binding_valid g), (SNAPSHOT_MISMATCH, snapshot_match g),
         (TOOL_NOT_REGISTERED, registration_valid g), (TRUSTED_FIELD_INJECTION, trusted_field_valid g),
         (SCHEMA_INVALID, schema_valid g), (BUDGET_EXCEEDED, budget_valid g), (NO_PROGRESS, gi_progress_valid g),
         (STATE_VERSION_MISMATCH, state_version_valid g), (ACTION_REQUIRES_PROPOSAL, action_boundary_valid g)])
    \<and> (\<forall>code. gd_reason_code d = Some code \<longrightarrow> \<not> gate_reason_check code d)"
proof -
  have d: "d = gateway_record g" by (rule evaluate_gateway_Inr[OF assms])
  then have r: "gd_reason_code d = gateway_reason g" by (simp add: gateway_record_def)
  have "gd_decision d = GateAccept \<longleftrightarrow> gateway_reason g = None"
    by (simp only: d gateway_reason_None_iff) (simp add: gateway_record_def)
  then show ?thesis
    unfolding r using gateway_reason_find[of g] gateway_reason_failed[of g] unfolding d by blast
qed

lemma gateway_checks_used:
  "gateway_checks (g\<lparr>gi_tool_calls_used := n\<rparr>)
     = (gateway_checks g)[5 := budget_valid (g\<lparr>gi_tool_calls_used := n\<rparr>)]"
  by (simp add: gateway_checks_def snapshot_match_def registration_valid_def schema_valid_def trusted_field_valid_def
      argument_binding_valid_def graph_binding_valid_def state_version_valid_def action_boundary_valid_def
      gateway_resolution_def gateway_visible_spec_def)

theorem gateway_reason_is_first_failure_witness:
  "gd_reason_code (gateway_record (sample_gateway\<lparr>gi_tool_calls_used := 1\<rparr>)) = Some BUDGET_EXCEEDED"
proof -
  have v: "gateway_input_valid (sample_gateway\<lparr>gi_tool_calls_used := 1\<rparr>)"
    using sample_gateway_valid by (simp add: gateway_input_valid_def)
  have "\<not> budget_valid (sample_gateway\<lparr>gi_tool_calls_used := 1\<rparr>)"
    by (simp add: budget_valid_def sample_gateway_def)
  with gateway_checks_used[where g = sample_gateway and n = 1] sample_checks show ?thesis
    using gateway_reason_is_first_failure[OF gateway_never_raises[OF v]]
    by (simp add: gateway_checks_def)
qed

text \<open>C4. An accepted call is the production read of the customer's own order: the Task belongs to the authenticated
  customer and is ACTIVE at the validated version, the tool resolves to a READ registration of \<open>get_order\<close> whose
  ToolSpec is the shipped one, and the single argument, normalised, is the order id the customer's message was
  bound to.\<close>

theorem accepted_call_is_bound:
  assumes "evaluate_control_gateway g = Inr d" "gd_decision d = GateAccept"
  shows "\<exists>customer extra r raw. gi_customer_context g = Obj customer extra
    \<and> tk_owner_customer_id (gi_current_task g) = cc_customer_id customer \<and> tk_status (gi_current_task g) = ACTIVE
    \<and> resolve_validated_get_order_registration (gi_registry_snapshot g)
        (rv_requested_provider_tool_name (gi_revalidated_move g)) = Some r
    \<and> tr_effect r = READ \<and> tool_spec_eq (tr_tool_spec r) get_order_tool_spec
    \<and> map_of (rv_candidate_arguments (gi_revalidated_move g)) (str ''order_id'') = Some (JStr raw)
    \<and> normalize_order_id (JStr raw) = Inr (ib_normalized_value (gi_current_input_binding g))"
proof -
  have c: "snapshot_match g" "registration_valid g" "schema_valid g" "argument_binding_valid g" "state_version_valid g"
    "action_boundary_valid g"
    using evaluate_gateway_Inr[OF assms(1)] assms(2)
    by (simp_all add: gateway_record_def gateway_checks_def split: if_splits)
  from c(6) obtain r where r: "snd (gateway_resolution g) = Some r" "tr_effect r = READ"
    by (auto simp: action_boundary_valid_def split: option.splits)
  from c(3) r(1) have spec: "tool_spec_eq (tr_tool_spec r) get_order_tool_spec"
    by (simp add: schema_valid_def closed_get_order_schema_is_valid_def split: if_splits)
  from c(5) obtain customer extra where cust: "gi_customer_context g = Obj customer extra"
    "tk_owner_customer_id (gi_current_task g) = cc_customer_id customer" "tk_status (gi_current_task g) = ACTIVE"
    by (auto simp: state_version_valid_def Let_def split: pyobj.splits)
  from c(3) obtain raw n where "map_of (rv_candidate_arguments (gi_revalidated_move g)) (str ''order_id'') = Some (JStr raw)"
    "normalize_order_id (JStr raw) = Inr n" "rv_normalized_candidate_order_id (gi_revalidated_move g) = Some n"
    by (rule schema_valid_argument)
  moreover from this c(4) have "n = ib_normalized_value (gi_current_input_binding g)"
    by (simp add: argument_binding_valid_def)
  ultimately show ?thesis
    using cust r spec resolved_by_registry[OF c(2,3) r(1)] by blast
qed

theorem accepted_call_is_bound_witness:
  "\<exists>raw. map_of sample_arguments (str ''order_id'') = Some (JStr raw) \<and> normalize_order_id (JStr raw) = Inr (str ''O-1234'')"
proof -
  have "gd_decision (gateway_record sample_gateway) = GateAccept"
    using sample_checks by (simp add: gateway_record_def)
  from accepted_call_is_bound[OF gateway_never_raises[OF sample_gateway_valid] this] show ?thesis
    by (auto simp: sample_gateway_def sample_move_fields sample_graph_record_def graph_of_def)
qed

end
