(* ===== verification/Order_Result_Guard.thy ===== *)
theory Order_Result_Guard
  imports Request_Understanding
begin

section \<open>Admitting what the order port returned (application/read_tool_executor.py, lines 73--353)\<close>

text \<open>
  The executor trusts nothing about the object an order port hands back: its enum members must
  have the storage they had at import time, its datetimes one of the closed UTC time zones,
  every nested model exactly its declared state. \<open>received_result\<close> is such an object with the
  run-time detail the code looks at; \<open>canonical_get_order_result\<close> rebuilds it or rejects it.
\<close>

subsection \<open>Enum storage\<close>

text \<open>A value in a member's \<open>__dict__\<close>: the enum class itself, an \<open>int\<close>, a \<open>str\<close>, or something else.\<close>

datatype stored_value = StoredClass | StoredInt int | StoredStr pystr | StoredOther

type_synonym enum_storage = "(string \<times> stored_value) list"
type_synonym 'm enum_snapshots = "('m \<times> enum_storage) list"

text \<open>The import-time snapshot refuses a member whose storage is not closed.\<close>

definition build_enum_member_snapshots :: "('m \<times> enum_storage) list \<Rightarrow> string + 'm enum_snapshots" where
  "build_enum_member_snapshots members =
     res_map (\<lambda>(member, storage_items).
        if \<exists>(key, stored)\<in>set storage_items. stored = StoredOther
        then Inl ''canonical get_order Enum storage is not closed''
        else Inr (member, storage_items)) members"

text \<open>\<open>None\<close> for an object that is not a member of the enum class at all.\<close>

definition canonical_enum_member_is_closed ::
  "'m enum_snapshots \<Rightarrow> ('m \<times> enum_storage) option \<Rightarrow> bool" where
  "canonical_enum_member_is_closed snapshots value =
     (case value of
        None \<Rightarrow> False
      | Some (member, storage) \<Rightarrow> (case map_of snapshots member of
          None \<Rightarrow> False
        | Some expected_items \<Rightarrow>
            length storage = length expected_items \<and> map fst storage = map fst expected_items
            \<and> list_all (\<lambda>(name, expected_value).
                (case map_of storage name of None \<Rightarrow> False
                 | Some stored_value \<Rightarrow> stored_value = expected_value \<and> stored_value \<noteq> StoredOther)) expected_items))"

subsection \<open>Closed UTC datetimes\<close>

text \<open>The classes of \<open>tzinfo\<close> the code tells apart, with the offset (microseconds) each reports.\<close>

datatype tz_value =
    TzUTC | TzTimezone int string | TzZoneInfo string int | TzPydantic int | TzNaive | TzForeign int

definition is_closed_utc_tz :: "tz_value \<Rightarrow> bool" where
  "is_closed_utc_tz tz = (case tz of
      TzUTC \<Rightarrow> True
    | TzTimezone offset name \<Rightarrow> offset = 0 \<and> name \<in> set [''UTC'', ''Z'']
    | TzZoneInfo key offset \<Rightarrow> key = ''UTC'' \<and> offset = 0
    | TzPydantic offset \<Rightarrow> offset = 0
    | TzNaive \<Rightarrow> False
    | TzForeign _ \<Rightarrow> False)"

definition tz_offset :: "tz_value \<Rightarrow> int option" where
  "tz_offset tz = (case tz of
      TzUTC \<Rightarrow> Some 0
    | TzTimezone offset _ \<Rightarrow> Some offset
    | TzZoneInfo _ offset \<Rightarrow> Some offset
    | TzPydantic offset \<Rightarrow> Some offset
    | TzNaive \<Rightarrow> None
    | TzForeign offset \<Rightarrow> Some offset)"

lemma closed_utc_offset: "is_closed_utc_tz tz \<Longrightarrow> tz_offset tz = Some 0"
  by (cases tz) (auto simp: is_closed_utc_tz_def tz_offset_def)

subsection \<open>Exact declared state\<close>

text \<open>
  A received model: its class is the expected one, its state keys, the fields set explicitly,
  and whether extra and private state are absent.
\<close>

record model_state =
  ms_exact_class :: bool
  ms_state_keys :: "string list"
  ms_fields_set :: "string list"
  ms_no_extra_or_private :: bool

definition has_exact_declared_model_state :: "string list \<Rightarrow> string list \<Rightarrow> model_state \<Rightarrow> bool" where
  "has_exact_declared_model_state declared required m \<longleftrightarrow>
     ms_exact_class m \<and> set (ms_state_keys m) = set declared
     \<and> set required \<subseteq> set (ms_fields_set m) \<and> set (ms_fields_set m) \<subseteq> set declared
     \<and> ms_no_extra_or_private m"

record received_line =
  rl_state :: model_state
  rl_product_name :: pystr
  rl_quantity :: int

record received_summary =
  rsum_state :: model_state
  rsum_order_number :: pystr
  rsum_status :: "(order_status \<times> enum_storage) option"
  rsum_items_are_tuple :: bool
  rsum_line_items :: "received_line list"
  rsum_ordered_at :: "int \<times> tz_value"
  rsum_status_updated_at :: "int \<times> tz_value"

record received_result =
  rres_state :: model_state
  rres_outcome :: "(get_order_outcome \<times> enum_storage) option"
  rres_order_summary :: "received_summary option"
  rres_source_version :: "pystr option"
  rres_failure_code :: "pystr option"

definition received_datetime :: "int \<times> tz_value \<Rightarrow> datetime" where
  "received_datetime d = Datetime (fst d) (tz_offset (snd d))"

definition line_of :: "received_line \<Rightarrow> order_line_summary" where
  "line_of l = \<lparr>ol_product_name = rl_product_name l, ol_quantity = rl_quantity l\<rparr>"

definition summary_of :: "order_status \<Rightarrow> received_summary \<Rightarrow> order_summary_projection" where
  "summary_of status s =
     \<lparr>os_order_number = rsum_order_number s, os_status = status,
      os_line_items = map (\<lambda>l. Obj (line_of l) []) (rsum_line_items s),
      os_ordered_at = received_datetime (rsum_ordered_at s),
      os_status_updated_at = received_datetime (rsum_status_updated_at s)\<rparr>"

definition line_shape_ok :: "received_line \<Rightarrow> bool" where
  "line_shape_ok l = has_exact_declared_model_state
     [''product_name'', ''quantity''] [''product_name'', ''quantity''] (rl_state l)"

definition summary_shape_ok :: "order_status enum_snapshots \<Rightarrow> received_summary \<Rightarrow> bool" where
  "summary_shape_ok statuses s \<longleftrightarrow>
     has_exact_declared_model_state
       [''order_number'', ''status'', ''line_items'', ''ordered_at'', ''status_updated_at'']
       [''order_number'', ''status'', ''line_items'', ''ordered_at'', ''status_updated_at''] (rsum_state s)
     \<and> canonical_enum_member_is_closed statuses (rsum_status s)
     \<and> rsum_items_are_tuple s \<and> list_all line_shape_ok (rsum_line_items s)
     \<and> is_closed_utc_tz (snd (rsum_ordered_at s)) \<and> is_closed_utc_tz (snd (rsum_status_updated_at s))"

text \<open>
  \<open>GetOrderResult.model_validate(payload, strict=True)\<close> on the dump without unset fields: the
  nested models are validated again, and an unset field must hold its default for the exact
  comparison with the received object to succeed.
\<close>

definition revalidate_result :: "received_result \<Rightarrow> get_order_outcome \<Rightarrow> get_order_result option" where
  "revalidate_result v outcome =
     (let summary = (case rres_order_summary v of
            None \<Rightarrow> Some None
          | Some s \<Rightarrow> (case rsum_status s of
              None \<Rightarrow> None
            | Some (status, _) \<Rightarrow>
                if list_all (\<lambda>l. accepts new_order_line_summary (line_of l)) (rsum_line_items s)
                   \<and> accepts new_order_summary_projection (summary_of status s)
                then Some (Some (Obj (summary_of status s) [])) else None));
          unset_default = (\<lambda>field is_default. field \<in> set (ms_fields_set (rres_state v)) \<or> is_default)
      in case summary of
           None \<Rightarrow> None
         | Some order_summary \<Rightarrow>
             if \<not> unset_default ''order_summary'' (order_summary = None)
                \<or> \<not> unset_default ''source_version'' (rres_source_version v = None)
                \<or> \<not> unset_default ''failure_code'' (rres_failure_code v = None) then None
             else (case new_get_order_result
                 \<lparr>gr_outcome = outcome, gr_order_summary = order_summary,
                  gr_source_version = rres_source_version v, gr_failure_code = rres_failure_code v\<rparr> of
                 Inl _ \<Rightarrow> None
               | Inr r \<Rightarrow> Some r))"

definition is_canonical_get_order_source_version :: "pystr option \<Rightarrow> bool" where
  "is_canonical_get_order_source_version value =
     (case value of None \<Rightarrow> False | Some v \<Rightarrow> GetOrderSourceVersion v)"

definition result_shape_ok ::
  "get_order_outcome enum_snapshots \<Rightarrow> order_status enum_snapshots \<Rightarrow> received_result \<Rightarrow> bool" where
  "result_shape_ok outcomes statuses v \<longleftrightarrow>
     has_exact_declared_model_state
       [''outcome'', ''order_summary'', ''source_version'', ''failure_code''] [''outcome''] (rres_state v)
     \<and> canonical_enum_member_is_closed outcomes (rres_outcome v)
     \<and> opt_all (summary_shape_ok statuses) (rres_order_summary v)"

definition canonical_get_order_result ::
  "get_order_outcome enum_snapshots \<Rightarrow> order_status enum_snapshots \<Rightarrow> received_result \<Rightarrow> get_order_result option" where
  "canonical_get_order_result outcomes statuses v =
     (if \<not> result_shape_ok outcomes statuses v then None
      else case rres_outcome v of
        None \<Rightarrow> None
      | Some (outcome, _) \<Rightarrow> (case revalidate_result v outcome of
          None \<Rightarrow> None
        | Some rebuilt \<Rightarrow>
            if gr_outcome rebuilt = FOUND
               \<and> \<not> is_canonical_get_order_source_version (gr_source_version rebuilt)
            then None else Some rebuilt))"

subsection \<open>What an admitted result is\<close>

text \<open>\<open>result_for rebuilt\<close>: the shape and the content \<open>execute_get_order\<close> builds on.\<close>

definition admitted_result :: "get_order_result \<Rightarrow> bool" where
  "admitted_result r \<longleftrightarrow>
     accepts new_get_order_result r
     \<and> (case gr_order_summary r of
          None \<Rightarrow> gr_outcome r \<noteq> FOUND
        | Some s \<Rightarrow> gr_outcome r = FOUND \<and> (\<exists>summary. s = Obj summary [] \<and> accepts new_order_summary_projection summary
            \<and> list_all (\<lambda>l. \<exists>x. l = Obj x [] \<and> accepts new_order_line_summary x) (os_line_items summary)))"

lemma new_get_order_result_Inr: "new_get_order_result r = Inr r' \<Longrightarrow> r' = r"
  by (simp add: new_get_order_result_def construct_Inr_iff)

lemma new_get_order_result_summary:
  "new_get_order_result r = Inr r' \<Longrightarrow> gr_order_summary r \<noteq> None \<longleftrightarrow> gr_outcome r = FOUND"
  by (auto simp: new_get_order_result_def construct_Inr_iff result_shape_matches_outcome_def split: if_splits)

lemma revalidate_result_Some:
  assumes "revalidate_result v outcome = Some r"
  shows "accepts new_get_order_result r" "gr_outcome r = outcome"
    "gr_source_version r = rres_source_version v" "gr_failure_code r = rres_failure_code v"
    "(case rres_order_summary v of None \<Rightarrow> gr_order_summary r = None
      | Some s \<Rightarrow> \<exists>status storage. rsum_status s = Some (status, storage)
          \<and> gr_order_summary r = Some (Obj (summary_of status s) [])
          \<and> accepts new_order_summary_projection (summary_of status s)
          \<and> list_all (\<lambda>l. accepts new_order_line_summary (line_of l)) (rsum_line_items s))"
  using assms
  by (auto simp: revalidate_result_def Let_def accepts_iff split: option.splits if_splits sum.splits
      dest: new_get_order_result_Inr)

lemma canonical_get_order_result_Some:
  assumes "canonical_get_order_result outcomes statuses v = Some r"
  obtains outcome storage where "rres_outcome v = Some (outcome, storage)" "revalidate_result v outcome = Some r"
    "result_shape_ok outcomes statuses v"
    "gr_outcome r = FOUND \<longrightarrow> is_canonical_get_order_source_version (gr_source_version r)"
  using assms by (auto simp: canonical_get_order_result_def split: if_splits option.splits prod.splits)

lemma canonical_get_order_result_admitted:
  assumes "canonical_get_order_result outcomes statuses v = Some r"
  shows "admitted_result r"
proof -
  from assms obtain outcome where r: "revalidate_result v outcome = Some r"
    by (rule canonical_get_order_result_Some)
  note f = revalidate_result_Some[OF r]
  have ok: "new_get_order_result r = Inr r" using f(1) by (simp add: accepts_iff)
  show ?thesis
  proof (cases "rres_order_summary v")
    case None
    with f(5) have "gr_order_summary r = None" by simp
    with f(1) new_get_order_result_summary[OF ok] show ?thesis by (simp add: admitted_result_def)
  next
    case (Some s)
    with f(5) obtain status storage where s: "gr_order_summary r = Some (Obj (summary_of status s) [])"
      "accepts new_order_summary_projection (summary_of status s)"
      "list_all (\<lambda>l. accepts new_order_line_summary (line_of l)) (rsum_line_items s)" by auto
    then have "gr_outcome r = FOUND" using new_get_order_result_summary[OF ok] by simp
    with f(1) s show ?thesis by (simp add: admitted_result_def summary_of_def list_all_iff)
  qed
qed

end
