(* ===== verification/Trace.thy ===== *)
theory Trace
  imports Order_Core
begin

section \<open>Run records and trace events (core/trace.py)\<close>

text \<open>
  A Run, its status, and the events of its trace with their field rules.
\<close>

subsection \<open>AgentRunRecord\<close>

datatype agent_run_status = RUN_CREATED | RUN_RUNNING | RUN_COMPLETED | RUN_FAILED | RUN_INCOMPLETE

datatype stop_reason =
    STOP_GOAL_COMPLETED | STOP_NOT_FOUND_OR_NOT_ACCESSIBLE | STOP_INPUT_INVALID | STOP_GATE_REJECTED
  | STOP_PROVIDER_PROTOCOL_ERROR | STOP_ORDER_SERVICE_UNAVAILABLE | STOP_PRESENTATION_PLAN_REJECTED
  | STOP_RENDERER_INVARIANT_FAILED | STOP_PROCESS_RESTART_DETECTED

datatype agent_outcome =
    OUTCOME_COMPLETED | OUTCOME_ASK_USER | OUTCOME_BLOCKED | OUTCOME_NEED_HUMAN
  | OUTCOME_NOT_FOUND_OR_NOT_ACCESSIBLE

record agent_run_record =
  ar_run_id :: uuid
  ar_conversation_id :: "uuid option"
  ar_status :: agent_run_status
  ar_provider_lane :: pystr
  ar_started_at :: datetime
  ar_completed_at :: "datetime option"
  ar_stop_reason :: "stop_reason option"
  ar_incomplete_reason :: "pystr option"

definition run_is_active :: "agent_run_status \<Rightarrow> bool" where
  "run_is_active s \<longleftrightarrow> s \<in> set [RUN_CREATED, RUN_RUNNING]"

definition run_lifecycle_is_consistent :: "agent_run_record \<Rightarrow> (bool \<times> string) list" where
  "run_lifecycle_is_consistent r =
     (if run_is_active (ar_status r) then
        [(ar_completed_at r \<noteq> None \<or> ar_stop_reason r \<noteq> None, ''active Run cannot carry completion data'')]
      else
        [(ar_completed_at r = None, ''terminal Run requires completed_at''),
         (\<not> opt_all (\<lambda>c. \<not> dt_less c (ar_started_at r)) (ar_completed_at r),
          ''Run completed_at cannot precede started_at'')])
     @ [(ar_status r = RUN_COMPLETED \<and> ar_stop_reason r = None, ''completed Run requires an explicit stop_reason''),
        (ar_status r = RUN_INCOMPLETE \<and> ar_stop_reason r \<noteq> Some STOP_PROCESS_RESTART_DETECTED,
         ''thin-slice incomplete Run must record PROCESS_RESTART_DETECTED'')]"

definition new_agent_run_record :: "agent_run_record \<Rightarrow> validation_error + agent_run_record" where
  "new_agent_run_record r = construct
     [(''provider_lane'', NonEmptyString (ar_provider_lane r)),
      (''started_at'', is_utc (ar_started_at r)),
      (''completed_at'', opt_all is_utc (ar_completed_at r)),
      (''incomplete_reason'', opt_all NonEmptyString (ar_incomplete_reason r))]
     (run_lifecycle_is_consistent r) r"

subsection \<open>TraceEvent\<close>

datatype trace_event_type =
    MESSAGE_ACCEPTED | RUN_STARTED | REQUEST_UNDERSTANDING_STARTED | CONTEXT_MANIFEST_RECORDED
  | NEXT_MOVE_PROPOSED | TASK_DELTA_VALIDATED | TASK_DELTA_ACCEPTED | INPUT_BINDING_RECORDED
  | TASK_STATE_CHANGED | NEXT_MOVE_REVALIDATED | GATE_DECISION_RECORDED | TOOL_CALL_CREATED
  | TOOL_CALL_STARTED | TOOL_CALL_SUCCEEDED | TOOL_CALL_FAILED | TOOL_CALL_TIMED_OUT
  | TOOL_CALL_INTERRUPTED | TOOL_RESULT_NORMALIZED | OBSERVATION_RECORDED | PRESENTATION_PLAN_PROPOSED
  | RESPONSE_RENDERED | RUN_STOPPED | EVAL_CASE_GRADED

definition TOOL_TRACE_STATUS :: "trace_event_type \<Rightarrow> tool_call_status option" where
  "TOOL_TRACE_STATUS = map_of
     [(TOOL_CALL_CREATED, TC_CREATED), (TOOL_CALL_STARTED, TC_RUNNING), (TOOL_CALL_SUCCEEDED, TC_SUCCEEDED),
      (TOOL_CALL_FAILED, TC_FAILED), (TOOL_CALL_TIMED_OUT, TC_TIMED_OUT), (TOOL_CALL_INTERRUPTED, TC_INTERRUPTED)]"

record timing_and_usage_summary =
  tu_duration_ms :: int
  tu_input_tokens :: "int option"
  tu_output_tokens :: "int option"

definition new_timing_and_usage_summary ::
  "timing_and_usage_summary \<Rightarrow> validation_error + timing_and_usage_summary" where
  "new_timing_and_usage_summary t = construct
     [(''duration_ms'', 0 \<le> tu_duration_ms t),
      (''input_tokens'', opt_all (\<lambda>n. 0 \<le> n) (tu_input_tokens t)),
      (''output_tokens'', opt_all (\<lambda>n. 0 \<le> n) (tu_output_tokens t))] [] t"

record trace_event =
  te_trace_event_id :: uuid
  te_event_type :: trace_event_type
  te_occurred_at :: datetime
  te_run_id :: uuid
  te_case_id :: "pystr option"
  te_message_ref :: "uuid option"
  te_accepted_delta_ref :: "uuid option"
  te_task_id :: "uuid option"
  te_request_unit_id :: "uuid option"
  te_input_binding_ref :: "uuid option"
  te_model_call_id :: "uuid option"
  te_model_call_purpose :: "pystr option"
  te_context_manifest_id :: "uuid option"
  te_provider_name :: "pystr option"
  te_model_snapshot :: "pystr option"
  te_tool_registry_version :: "pystr option"
  te_model_visible_toolset_hash :: "pystr option"
  te_next_move_kind :: "pystr option"
  te_requested_tool_name :: "pystr option"
  te_proposed_base_task_state_version :: "int option"
  te_validated_task_state_version :: "int option"
  te_argument_binding_refs :: "uuid list"
  te_gate_decision :: "gate_decision_value option"
  te_gate_reason_code :: "gate_reason_code option"
  te_tool_call_id :: "uuid option"
  te_tool_call_terminal_status :: "tool_call_status option"
  te_safe_tool_outcome :: "tool_result_outcome option"
  te_observation_ref :: "uuid option"
  te_presentation_plan_ref :: "uuid option"
  te_user_outcome :: "agent_outcome option"
  te_stop_reason :: "stop_reason option"
  te_timing_and_usage_summary :: "timing_and_usage_summary option"

definition trace_event_guards :: "trace_event \<Rightarrow> (bool \<times> string) list" where
  "trace_event_guards e =
     (te_event_type e = RUN_STOPPED \<and> (te_stop_reason e = None \<or> te_user_outcome e = None),
      ''RunStopped requires user_outcome and stop_reason'') #
     (case TOOL_TRACE_STATUS (te_event_type e) of
        Some expected_tool_status \<Rightarrow>
          [(te_tool_call_id e = None, ''ToolCall lifecycle Trace requires tool_call_id''),
           (te_tool_call_terminal_status e \<noteq> Some expected_tool_status,
            ''ToolCall lifecycle Trace event and status must match'')]
      | None \<Rightarrow>
          [(te_tool_call_terminal_status e \<noteq> None,
            ''ToolCall status requires a matching lifecycle Trace event'')])"

definition new_trace_event :: "trace_event \<Rightarrow> validation_error + trace_event" where
  "new_trace_event e = construct
     [(''occurred_at'', is_utc (te_occurred_at e)),
      (''case_id'', opt_all NonEmptyString (te_case_id e)),
      (''model_call_purpose'', opt_all NonEmptyString (te_model_call_purpose e)),
      (''provider_name'', opt_all NonEmptyString (te_provider_name e)),
      (''model_snapshot'', opt_all NonEmptyString (te_model_snapshot e)),
      (''tool_registry_version'', opt_all NonEmptyString (te_tool_registry_version e)),
      (''model_visible_toolset_hash'', opt_all ToolsetHash (te_model_visible_toolset_hash e)),
      (''next_move_kind'', opt_all NonEmptyString (te_next_move_kind e)),
      (''requested_tool_name'', opt_all NonEmptyString (te_requested_tool_name e)),
      (''proposed_base_task_state_version'', opt_all (\<lambda>v. 1 \<le> v) (te_proposed_base_task_state_version e)),
      (''validated_task_state_version'', opt_all (\<lambda>v. 1 \<le> v) (te_validated_task_state_version e))]
     (trace_event_guards e) e"

text \<open>The event with every optional field at its default.\<close>

definition blank_event :: "uuid \<Rightarrow> trace_event_type \<Rightarrow> datetime \<Rightarrow> uuid \<Rightarrow> trace_event" where
  "blank_event trace_event_id event_type occurred_at run_id =
     \<lparr>te_trace_event_id = trace_event_id, te_event_type = event_type, te_occurred_at = occurred_at,
      te_run_id = run_id, te_case_id = None, te_message_ref = None, te_accepted_delta_ref = None,
      te_task_id = None, te_request_unit_id = None, te_input_binding_ref = None, te_model_call_id = None,
      te_model_call_purpose = None, te_context_manifest_id = None, te_provider_name = None,
      te_model_snapshot = None, te_tool_registry_version = None, te_model_visible_toolset_hash = None,
      te_next_move_kind = None, te_requested_tool_name = None, te_proposed_base_task_state_version = None,
      te_validated_task_state_version = None, te_argument_binding_refs = [], te_gate_decision = None,
      te_gate_reason_code = None, te_tool_call_id = None, te_tool_call_terminal_status = None,
      te_safe_tool_outcome = None, te_observation_ref = None, te_presentation_plan_ref = None,
      te_user_outcome = None, te_stop_reason = None, te_timing_and_usage_summary = None\<rparr>"

lemma TOOL_TRACE_STATUS_simps [simp]:
  "TOOL_TRACE_STATUS TOOL_CALL_CREATED = Some TC_CREATED"
  "TOOL_TRACE_STATUS TOOL_CALL_STARTED = Some TC_RUNNING"
  "TOOL_TRACE_STATUS TOOL_CALL_SUCCEEDED = Some TC_SUCCEEDED"
  "TOOL_TRACE_STATUS TOOL_CALL_FAILED = Some TC_FAILED"
  "TOOL_TRACE_STATUS TOOL_CALL_TIMED_OUT = Some TC_TIMED_OUT"
  "TOOL_TRACE_STATUS TOOL_CALL_INTERRUPTED = Some TC_INTERRUPTED"
  by (simp_all add: TOOL_TRACE_STATUS_def)

text \<open>Each ToolCall status has exactly one lifecycle event.\<close>

lemma TOOL_TRACE_STATUS_inj:
  "TOOL_TRACE_STATUS a = Some s \<Longrightarrow> TOOL_TRACE_STATUS b = Some s \<Longrightarrow> a = b"
  by (auto simp: TOOL_TRACE_STATUS_def split: if_splits)

lemma TOOL_TRACE_STATUS_surj: "\<exists>t. TOOL_TRACE_STATUS t = Some s"
  by (cases s) (metis TOOL_TRACE_STATUS_simps)+

subsection \<open>Validating again\<close>

interpretation agent_run: plain_record new_agent_run_record
  by (rule plain_recordI) (auto simp: new_agent_run_record_def construct_def Let_def)
interpretation trace: plain_record new_trace_event
  by (rule plain_recordI) (auto simp: new_trace_event_def construct_def Let_def)

end
