(* ===== verification/Tool_Commands.thy ===== *)
theory Tool_Commands
  imports Trace
begin

section \<open>Persistence commands for ToolCalls (application/records.py, lines 87--114 and 2018--2253)\<close>

text \<open>
  The commands Application hands to the record port. Each validator ties the record to be
  written to the one expected in the store, so a ToolCall can only move CREATED, RUNNING,
  terminal, with its identity fields fixed. \<open>tool_call_step\<close> states that machine; the lemmas
  show that an accepted command is one of its steps.
\<close>

datatype insert_only_write_result = INSERTED | ALREADY_EXISTS
datatype conditional_write_result = APPLIED | PROJECTION_CONFLICT | NOT_APPLICABLE
datatype observation_write_result = OBS_INSERTED | OBS_ALREADY_APPLIED | OBS_SOURCE_PROJECTION_CONFLICT
datatype tool_dispatch_fence_write_result =
    FENCE_APPLIED | FENCE_STATUS_CONFLICT | FENCE_NOT_APPLICABLE | FENCE_ACTION_LEDGER_REQUIRED

subsection \<open>TrustedOwnerScope\<close>

record trusted_owner_scope =
  os_customer_id :: pystr

text \<open>\<open>given\<close>: the value's own \<open>customer_id\<close>, \<open>None\<close> when it is not a mapping with one.\<close>

definition new_trusted_owner_scope ::
  "customer_context option \<Rightarrow> pystr option \<Rightarrow> validation_error + trusted_owner_scope" where
  "new_trusted_owner_scope customer_context' given =
     (case customer_context' of
        None \<Rightarrow> Inl (ModelError ''TrustedOwnerScope must be derived from CustomerContext'')
      | Some c \<Rightarrow>
          if given \<noteq> Some (cc_customer_id c)
          then Inl (ModelError ''TrustedOwnerScope customer_id must match CustomerContext'')
          else construct [(''customer_id'', NonEmptyString (cc_customer_id c))] []
            \<lparr>os_customer_id = cc_customer_id c\<rparr>)"

definition scope_from_customer_context :: "customer_context \<Rightarrow> validation_error + trusted_owner_scope" where
  "scope_from_customer_context c = new_trusted_owner_scope (Some c) (Some (cc_customer_id c))"

subsection \<open>Fields that never change\<close>

text \<open>\<open>_TOOL_IMMUTABLE_FIELDS\<close>, compared one by one with \<open>getattr\<close>.\<close>

definition same_immutable_fields :: "tool_call_record \<Rightarrow> tool_call_record \<Rightarrow> bool" where
  "same_immutable_fields a b \<longleftrightarrow>
     tc_tool_call_id a = tc_tool_call_id b \<and> tc_run_id a = tc_run_id b \<and> tc_task_id a = tc_task_id b
     \<and> tc_request_unit_id a = tc_request_unit_id b \<and> tc_model_call_id a = tc_model_call_id b
     \<and> tc_context_manifest_id a = tc_context_manifest_id b \<and> tc_gate_decision_id a = tc_gate_decision_id b
     \<and> tc_provider_tool_call_id a = tc_provider_tool_call_id b
     \<and> tc_canonical_tool_name a = tc_canonical_tool_name b
     \<and> tc_tool_registry_version a = tc_tool_registry_version b
     \<and> tc_validated_task_state_version a = tc_validated_task_state_version b
     \<and> tc_argument_binding_refs a = tc_argument_binding_refs b \<and> tc_effect a = tc_effect b
     \<and> instant (tc_started_at a) = instant (tc_started_at b)"

definition clean_projection :: "tool_call_record \<Rightarrow> bool" where
  "clean_projection r \<longleftrightarrow>
     tc_finished_at r = None \<and> tc_failure_code r = None \<and> tc_timeout_phase r = None
     \<and> tc_interruption_reason r = None \<and> tc_result_ref r = None"

definition unfinished_attempt :: "tool_attempt_record \<Rightarrow> bool" where
  "unfinished_attempt a \<longleftrightarrow> at_finished_at a = None \<and> at_outcome a = None \<and> at_failure_code a = None"

subsection \<open>The commands\<close>

record create_tool_call_command =
  ctc_created_record :: tool_call_record

definition new_create_tool_call_command ::
  "create_tool_call_command \<Rightarrow> validation_error + create_tool_call_command" where
  "new_create_tool_call_command c =
     (let record' = ctc_created_record c
      in construct []
        [(tc_status record' \<noteq> TC_CREATED, ''initial ToolCall requires CREATED status''),
         (tc_attempt_count record' \<noteq> 0, ''initial ToolCall requires attempt_count = 0''),
         (\<not> clean_projection record', ''initial ToolCall cannot carry terminal or result projection'')] c)"

record dispatch_tool_call_command =
  dtc_expected_created_record :: tool_call_record
  dtc_running_record :: tool_call_record
  dtc_started_attempt :: tool_attempt_record

definition new_dispatch_tool_call_command ::
  "dispatch_tool_call_command \<Rightarrow> validation_error + dispatch_tool_call_command" where
  "new_dispatch_tool_call_command c =
     (let expected = dtc_expected_created_record c; record' = dtc_running_record c;
          attempt = dtc_started_attempt c
      in construct []
        [(tc_status expected \<noteq> TC_CREATED, ''dispatch fence expects a CREATED ToolCall''),
         (tc_attempt_count expected \<noteq> 0, ''expected CREATED ToolCall requires attempt_count = 0''),
         (tc_status record' \<noteq> TC_RUNNING, ''dispatch fence requires RUNNING ToolCall''),
         (tc_attempt_count record' \<noteq> 1 \<or> at_attempt_no attempt \<noteq> 1,
          ''P0 dispatch fence requires first attempt only''),
         (\<not> same_immutable_fields expected record', ''dispatch fence cannot change immutable ToolCall fields''),
         (tc_tool_call_id record' \<noteq> at_tool_call_id attempt,
          ''dispatch fence ToolCall and attempt ids must match''),
         (\<not> clean_projection expected, ''expected CREATED ToolCall cannot carry terminal projection''),
         (\<not> unfinished_attempt attempt, ''dispatch fence requires an unfinished attempt''),
         (tc_failure_code record' \<noteq> None \<or> tc_result_ref record' \<noteq> None,
          ''RUNNING dispatch fence cannot carry failure or result projection'')] c)"

definition TERMINAL_TOOL_OUTCOMES :: "tool_call_status \<Rightarrow> tool_result_outcome list option" where
  "TERMINAL_TOOL_OUTCOMES s = (case s of
      TC_SUCCEEDED \<Rightarrow> Some [TR_SUCCESS]
    | TC_FAILED \<Rightarrow> Some [TR_BUSINESS_FAILURE, TR_SYSTEM_FAILURE]
    | TC_TIMED_OUT \<Rightarrow> Some [TR_TIMEOUT]
    | TC_INTERRUPTED \<Rightarrow> Some [TR_INTERRUPTED]
    | _ \<Rightarrow> None)"

record finalize_tool_call_command =
  ftc_expected_running_record :: tool_call_record
  ftc_expected_started_attempt :: tool_attempt_record
  ftc_terminal_record :: tool_call_record
  ftc_finalized_attempt :: tool_attempt_record

definition finalize_guards :: "finalize_tool_call_command \<Rightarrow> (bool \<times> string) list" where
  "finalize_guards c =
     (let expected = ftc_expected_running_record c; expected_attempt = ftc_expected_started_attempt c;
          record' = ftc_terminal_record c; attempt = ftc_finalized_attempt c;
          valid_outcomes = TERMINAL_TOOL_OUTCOMES (tc_status record')
      in [(tc_status expected \<noteq> TC_RUNNING, ''ToolCall finalization expects RUNNING status''),
          (tc_attempt_count expected \<noteq> 1, ''P0 finalization expects the first running attempt''),
          (valid_outcomes = None, ''ToolCall finalization requires terminal status''),
          (tc_attempt_count record' \<noteq> 1 \<or> at_attempt_no attempt \<noteq> 1,
           ''P0 ToolCall finalization requires first attempt only''),
          (at_tool_call_id expected_attempt \<noteq> tc_tool_call_id expected
             \<or> at_attempt_no expected_attempt \<noteq> tc_attempt_count expected,
           ''expected started attempt must match RUNNING ToolCall''),
          (\<not> unfinished_attempt expected_attempt, ''expected started attempt must remain unfinished''),
          (\<not> same_immutable_fields expected record', ''ToolCall finalization cannot change immutable fields''),
          (tc_tool_call_id record' \<noteq> at_tool_call_id attempt, ''finalized ToolCall and attempt ids must match''),
          (at_tool_call_id attempt \<noteq> at_tool_call_id expected_attempt
             \<or> at_attempt_no attempt \<noteq> at_attempt_no expected_attempt
             \<or> instant (at_started_at attempt) \<noteq> instant (at_started_at expected_attempt),
           ''finalized attempt must preserve started attempt identity and time''),
          (\<not> clean_projection expected, ''expected RUNNING ToolCall cannot carry terminal projection''),
          (at_finished_at attempt = None \<or> at_outcome attempt = None,
           ''ToolCall finalization requires a finalized attempt''),
          ((case (at_outcome attempt, valid_outcomes) of (Some out, Some valid) \<Rightarrow> out \<notin> set valid | _ \<Rightarrow> True),
           ''ToolCall terminal status and attempt outcome must agree''),
          (map_option instant (tc_finished_at record') \<noteq> map_option instant (at_finished_at attempt),
           ''ToolCall and attempt finalization timestamps must match''),
          (tc_failure_code record' \<noteq> at_failure_code attempt,
           ''ToolCall and attempt failure_code projections must match'')])"

definition new_finalize_tool_call_command ::
  "finalize_tool_call_command \<Rightarrow> validation_error + finalize_tool_call_command" where
  "new_finalize_tool_call_command c = construct [] (finalize_guards c) c"

record interrupt_for_recovery_command =
  irc_active_record :: tool_call_record
  irc_interrupted_record :: tool_call_record

definition PROCESS_RESTART :: pystr where
  "PROCESS_RESTART = str ''PROCESS_RESTART_DETECTED''"

definition new_interrupt_for_recovery_command ::
  "interrupt_for_recovery_command \<Rightarrow> validation_error + interrupt_for_recovery_command" where
  "new_interrupt_for_recovery_command c =
     (let active = irc_active_record c; interrupted = irc_interrupted_record c
      in construct []
        [(tc_status active \<notin> set [TC_CREATED, TC_RUNNING], ''restart interruption requires an active ToolCall''),
         (tc_status interrupted \<noteq> TC_INTERRUPTED, ''restart projection requires INTERRUPTED status''),
         (tc_interruption_reason interrupted \<noteq> Some PROCESS_RESTART,
          ''restart interruption requires PROCESS_RESTART_DETECTED''),
         (tc_attempt_count active \<notin> set [0, 1], ''P0 restart recovery does not accept retry attempts''),
         (tc_failure_code active \<noteq> None \<or> tc_result_ref active \<noteq> None,
          ''active ToolCall cannot carry failure or result projection''),
         (\<not> same_immutable_fields active interrupted \<or> tc_attempt_count active \<noteq> tc_attempt_count interrupted
            \<or> tc_failure_code active \<noteq> tc_failure_code interrupted
            \<or> tc_timeout_phase active \<noteq> tc_timeout_phase interrupted
            \<or> tc_result_ref active \<noteq> tc_result_ref interrupted,
          ''restart interruption must preserve ToolCall identity and facts'')] c)"

record save_observation_command =
  soc_owner_scope :: trusted_owner_scope
  soc_observation_record :: order_observation
  soc_source_tool_call_record :: tool_call_record

definition new_save_observation_command ::
  "save_observation_command \<Rightarrow> validation_error + save_observation_command" where
  "new_save_observation_command c =
     (let source = soc_source_tool_call_record c
      in construct []
        [(tc_status source \<noteq> TC_SUCCEEDED, ''Observation source ToolCall must be SUCCEEDED''),
         (tc_effect source \<noteq> READ, ''Observation source ToolCall must be READ''),
         (tc_canonical_tool_name source \<noteq> str ''get_order''
            \<or> oo_source_tool (soc_observation_record c) \<noteq> str ''get_order'',
          ''Observation source must be canonical get_order'')] c)"

subsection \<open>The ToolCall state machine\<close>

text \<open>What the store does with an accepted command whose expected record is the stored one.\<close>

inductive tool_call_step ::
  "tool_call_record option \<times> tool_attempt_record option \<Rightarrow> tool_call_record option \<times> tool_attempt_record option \<Rightarrow> bool"
where
  Create: "new_tool_call_record r = Inr r \<Longrightarrow>
    new_create_tool_call_command \<lparr>ctc_created_record = r\<rparr> = Inr c \<Longrightarrow>
    tool_call_step (None, None) (Some r, None)"
| Dispatch: "new_tool_call_record r' = Inr r' \<Longrightarrow> new_tool_attempt_record a = Inr a \<Longrightarrow>
    new_dispatch_tool_call_command \<lparr>dtc_expected_created_record = r, dtc_running_record = r',
      dtc_started_attempt = a\<rparr> = Inr c \<Longrightarrow>
    tool_call_step (Some r, None) (Some r', Some a)"
| Finalize: "new_tool_call_record r' = Inr r' \<Longrightarrow> new_tool_attempt_record a' = Inr a' \<Longrightarrow>
    new_finalize_tool_call_command \<lparr>ftc_expected_running_record = r, ftc_expected_started_attempt = a,
      ftc_terminal_record = r', ftc_finalized_attempt = a'\<rparr> = Inr c \<Longrightarrow>
    tool_call_step (Some r, Some a) (Some r', Some a')"
| Interrupt: "new_tool_call_record r' = Inr r' \<Longrightarrow>
    new_interrupt_for_recovery_command \<lparr>irc_active_record = r, irc_interrupted_record = r'\<rparr> = Inr c \<Longrightarrow>
    tool_call_step (Some r, a) (Some r', a)"

inductive tool_call_reachable :: "tool_call_record option \<times> tool_attempt_record option \<Rightarrow> bool" where
  Start: "tool_call_reachable (None, None)"
| Next: "tool_call_reachable s \<Longrightarrow> tool_call_step s s' \<Longrightarrow> tool_call_reachable s'"

inductive_cases tool_call_stepE: "tool_call_step s s'"

definition is_terminal :: "tool_call_record \<Rightarrow> bool" where
  "is_terminal r \<longleftrightarrow> tc_status r \<in> set terminal_statuses"

definition status_rank :: "tool_call_status \<Rightarrow> nat" where
  "status_rank s = (case s of TC_CREATED \<Rightarrow> 0 | TC_RUNNING \<Rightarrow> 1 | _ \<Rightarrow> 2)"

text \<open>Statuses are ordered by how far the lifecycle has got; terminal ones are incomparable.\<close>

instantiation tool_call_status :: order
begin

definition less_eq_tool_call_status :: "tool_call_status \<Rightarrow> tool_call_status \<Rightarrow> bool" where
  "less_eq_tool_call_status a b \<longleftrightarrow> a = b \<or> status_rank a < status_rank b"

definition less_tool_call_status :: "tool_call_status \<Rightarrow> tool_call_status \<Rightarrow> bool" where
  "less_tool_call_status a b \<longleftrightarrow> status_rank a < status_rank b"

instance
  by intro_classes (auto simp: less_eq_tool_call_status_def less_tool_call_status_def)

end

lemmas command_defs = new_create_tool_call_command_def new_dispatch_tool_call_command_def
  new_finalize_tool_call_command_def finalize_guards_def new_interrupt_for_recovery_command_def
  new_save_observation_command_def construct_Inr_iff

lemma same_immutable_refl [simp]: "same_immutable_fields a a"
  by (simp add: same_immutable_fields_def)

lemma same_immutable_trans:
  "same_immutable_fields a b \<Longrightarrow> same_immutable_fields b c \<Longrightarrow> same_immutable_fields a c"
  by (simp add: same_immutable_fields_def)

lemma terminal_outcomes_iff: "TERMINAL_TOOL_OUTCOMES s \<noteq> None \<longleftrightarrow> s \<in> set terminal_statuses"
  by (cases s) (simp_all add: TERMINAL_TOOL_OUTCOMES_def terminal_statuses_def)

lemma step_from_terminal:
  assumes "is_terminal r"
  shows "\<not> tool_call_step (Some r, a) s'"
proof
  assume "tool_call_step (Some r, a) s'"
  then show False
    using assms
    by (cases rule: tool_call_step.cases)
       (auto simp: command_defs Let_def is_terminal_def terminal_statuses_def)
qed

lemma step_increases_rank:
  assumes "tool_call_step (Some r, a) (Some r', a')"
  shows "status_rank (tc_status r) < status_rank (tc_status r') \<and> same_immutable_fields r r'"
  using assms
proof (cases rule: tool_call_step.cases)
  case (Dispatch c)
  then show ?thesis by (simp add: command_defs Let_def status_rank_def)
next
  case (Finalize a0 a1 c)
  then have "tc_status r' \<in> set terminal_statuses" "tc_status r = TC_RUNNING" "same_immutable_fields r r'"
    using terminal_outcomes_iff[of "tc_status r'"] by (simp_all add: command_defs Let_def)
  then show ?thesis by (auto simp: terminal_statuses_def status_rank_def)
next
  case (Interrupt c)
  then show ?thesis by (auto simp: command_defs Let_def status_rank_def)
qed

subsection \<open>The store only moves a ToolCall forward\<close>

text \<open>The rank of a store slot, and what two successive slots have in common.\<close>

definition slot_rank :: "tool_call_record option \<times> tool_attempt_record option \<Rightarrow> nat" where
  "slot_rank s = (case fst s of None \<Rightarrow> 0 | Some r \<Rightarrow> Suc (status_rank (tc_status r)))"

definition same_slot ::
  "tool_call_record option \<times> tool_attempt_record option \<Rightarrow> tool_call_record option \<times> tool_attempt_record option \<Rightarrow> bool" where
  "same_slot s s' \<longleftrightarrow> (case (fst s, fst s') of
      (None, _) \<Rightarrow> True | (Some r, Some r') \<Rightarrow> same_immutable_fields r r' | (Some r, None) \<Rightarrow> False)"

lemma status_rank_le: "status_rank s \<le> 2"
  by (cases s) (simp_all add: status_rank_def)

lemma tool_call_step_slots:
  assumes "tool_call_step s s'"
  obtains r' a' where "s' = (Some r', a')" "slot_rank s < slot_rank s'" "same_slot s s'"
  using assms
proof (cases rule: tool_call_step.cases)
  case (Create r c)
  with that show thesis by (simp add: slot_rank_def same_slot_def)
next
  case (Dispatch r' a r c)
  with that assms show thesis
    using step_increases_rank[of r None r' "Some a"] by (simp add: slot_rank_def same_slot_def)
next
  case (Finalize r' a' r a c)
  with that assms show thesis
    using step_increases_rank[of r "Some a" r' "Some a'"] by (simp add: slot_rank_def same_slot_def)
next
  case (Interrupt r' r c a)
  with that assms show thesis
    using step_increases_rank[of r a r' a] by (simp add: slot_rank_def same_slot_def)
qed

interpretation tool_store: audited_machine tool_call_step slot_rank 3 same_slot
proof
  fix s t u :: "tool_call_record option \<times> tool_attempt_record option"
  show "same_slot s s" by (simp add: same_slot_def split: option.splits)
  show "same_slot s u" if "same_slot s t" "same_slot t u"
    using that by (auto simp: same_slot_def intro: same_immutable_trans split: option.splits)
  assume st: "tool_call_step s t"
  then show "slot_rank s < slot_rank t" "same_slot s t" by (auto elim: tool_call_step_slots)
  from st obtain r' a' where "t = (Some r', a')" by (rule tool_call_step_slots)
  then show "slot_rank t \<le> 3" using status_rank_le[of "tc_status r'"] by (simp add: slot_rank_def)
qed

end
