(* ===== verification/Computation.thy ===== *)
theory Computation
  imports Order_Core
begin

section \<open>Asynchronous code as a state-passing computation\<close>

text \<open>
  Code that awaits ports is a function of the state of its world: it ends with an error (an
  exception) or a value, and in the state reached when it did. An exception leaves the state as it
  was when it was raised.
\<close>

type_synonym ('s, 'e, 'a) computation = "'s \<Rightarrow> ('e + 'a) \<times> 's"

definition exec_return :: "'a \<Rightarrow> ('s, 'e, 'a) computation" where
  "exec_return x = (\<lambda>st. (Inr x, st))"

definition exec_raise :: "'e \<Rightarrow> ('s, 'e, 'a) computation" where
  "exec_raise e = (\<lambda>st. (Inl e, st))"

definition exec_bind ::
  "('s, 'e, 'a) computation \<Rightarrow> ('a \<Rightarrow> ('s, 'e, 'b) computation) \<Rightarrow> ('s, 'e, 'b) computation" where
  "exec_bind m f = (\<lambda>st. case m st of (Inl e, st') \<Rightarrow> (Inl e, st') | (Inr x, st') \<Rightarrow> f x st')"

definition exec_raise_if :: "bool \<Rightarrow> 'e \<Rightarrow> ('s, 'e, unit) computation" where
  "exec_raise_if c e = (if c then exec_raise e else exec_return ())"

lemma exec_bind_return [simp]: "exec_bind (exec_return x) f = f x"
  by (simp add: exec_bind_def exec_return_def)

text \<open>\<open>try\<close>: the outcome as a value; and an update of the state.\<close>

definition exec_try :: "('s, 'e, 'a) computation \<Rightarrow> ('s, 'e, 'e + 'a) computation" where
  "exec_try m = (\<lambda>st. case m st of (r, st') \<Rightarrow> (Inr r, st'))"

definition exec_modify :: "('s \<Rightarrow> 's) \<Rightarrow> ('s, 'e, unit) computation" where
  "exec_modify f = (\<lambda>st. (Inr (), f st))"

definition exec_get :: "('s \<Rightarrow> 'a) \<Rightarrow> ('s, 'e, 'a) computation" where
  "exec_get f = (\<lambda>st. (Inr (f st), st))"

subsection \<open>What a computation adds to a log\<close>

text \<open>
  \<open>appends_by log m Q\<close>: in every state, \<open>m\<close> only adds to the log the state holds, and \<open>Q\<close> relates
  its result to what it added. One rule per operator.
\<close>

definition appends_by ::
  "('s \<Rightarrow> 'l list) \<Rightarrow> ('s, 'e, 'a) computation \<Rightarrow> ('e + 'a \<Rightarrow> 'l list \<Rightarrow> bool) \<Rightarrow> bool" where
  "appends_by log m Q \<longleftrightarrow> (\<forall>st. \<exists>added. log (snd (m st)) = log st @ added \<and> Q (fst (m st)) added)"

named_theorems appends_intros \<open>rules of the log logic\<close>

lemma appends_return [appends_intros]: "Q (Inr x) [] \<Longrightarrow> appends_by log (exec_return x) Q"
  by (simp add: appends_by_def exec_return_def)

lemma appends_raise [appends_intros]: "Q (Inl e) [] \<Longrightarrow> appends_by log (exec_raise e) Q"
  by (simp add: appends_by_def exec_raise_def)

lemma appends_bind:
  assumes m: "appends_by log m R"
    and e: "\<And>e l. R (Inl e) l \<Longrightarrow> Q (Inl e) l"
    and f: "\<And>x l. R (Inr x) l \<Longrightarrow> appends_by log (f x) (\<lambda>r l'. Q r (l @ l'))"
  shows "appends_by log (exec_bind m f) Q"
  unfolding appends_by_def
proof
  fix st
  from m obtain l where l: "log (snd (m st)) = log st @ l" "R (fst (m st)) l" by (auto simp: appends_by_def)
  show "\<exists>added. log (snd (exec_bind m f st)) = log st @ added \<and> Q (fst (exec_bind m f st)) added"
  proof (cases "fst (m st)")
    case (Inl err)
    with l e show ?thesis by (auto simp: exec_bind_def split: prod.splits sum.splits)
  next
    case (Inr x)
    with l have "appends_by log (f x) (\<lambda>r l'. Q r (l @ l'))" by (intro f) simp
    then obtain l' where "log (snd (f x (snd (m st)))) = log (snd (m st)) @ l'" "Q (fst (f x (snd (m st)))) (l @ l')"
      by (auto simp: appends_by_def)
    moreover have "exec_bind m f st = f x (snd (m st))"
      using Inr by (cases "m st") (simp add: exec_bind_def)
    ultimately show ?thesis using l(1) by auto
  qed
qed

lemma appends_mono: "appends_by log m R \<Longrightarrow> (\<And>r l. R r l \<Longrightarrow> Q r l) \<Longrightarrow> appends_by log m Q"
  unfolding appends_by_def by blast

lemma appends_raise_if:
  "(c \<Longrightarrow> Q (Inl e) []) \<Longrightarrow> (\<not> c \<Longrightarrow> appends_by log (f ()) Q) \<Longrightarrow> appends_by log (exec_bind (exec_raise_if c e) f) Q"
  by (auto simp: exec_raise_if_def exec_bind_def exec_raise_def exec_return_def appends_by_def)

lemma appends_silent:
  assumes "\<And>st. log (snd (m st)) = log st \<and> (\<exists>x. fst (m st) = Inr x)" "\<And>x. appends_by log (f x) Q"
  shows "appends_by log (exec_bind m f) Q"
proof (rule appends_bind)
  show "appends_by log m (\<lambda>r l. l = [] \<and> (\<exists>x. r = Inr x))" using assms(1) by (simp add: appends_by_def)
qed (use assms(2) in auto)

subsection \<open>Every entry of the log\<close>

abbreviation emits :: "('s \<Rightarrow> 'l list) \<Rightarrow> ('l \<Rightarrow> bool) \<Rightarrow> ('s, 'e, 'a) computation \<Rightarrow> bool" where
  "emits log P m \<equiv> appends_by log m (\<lambda>_ l. list_all P l)"

lemma emits_bind: "emits log P m \<Longrightarrow> (\<And>x. emits log P (f x)) \<Longrightarrow> emits log P (exec_bind m f)"
  by (rule appends_bind, assumption) (auto elim: appends_mono)

lemma emits_raise_if: "(\<not> c \<Longrightarrow> emits log P (f ())) \<Longrightarrow> emits log P (exec_bind (exec_raise_if c e) f)"
  by (rule appends_raise_if) simp_all

lemma emits_return: "emits log P (exec_return x)" "emits log P (exec_raise e)"
  by (simp_all add: appends_by_def exec_return_def exec_raise_def)

text \<open>Branches of the source.\<close>

lemma emits_if: "(c \<Longrightarrow> emits log P m) \<Longrightarrow> (\<not> c \<Longrightarrow> emits log P m') \<Longrightarrow> emits log P (if c then m else m')"
  by simp

lemma emits_instance:
  "(p = Foreign \<Longrightarrow> emits log P m) \<Longrightarrow> (\<And>x extra. p = Obj x extra \<Longrightarrow> emits log P (f x extra))
     \<Longrightarrow> emits log P (case p of Foreign \<Rightarrow> m | Obj x extra \<Rightarrow> f x extra)"
  by (cases p) simp_all

lemma emits_option:
  "emits log P m \<Longrightarrow> (\<And>x. v = Some x \<Longrightarrow> emits log P (f x)) \<Longrightarrow> emits log P (case v of None \<Rightarrow> m | Some x \<Rightarrow> f x)"
  by (cases v) simp_all

lemma emits_sum:
  "(\<And>e. r = Inl e \<Longrightarrow> emits log P (f e)) \<Longrightarrow> (\<And>x. r = Inr x \<Longrightarrow> emits log P (g x))
     \<Longrightarrow> emits log P (case r of Inl e \<Rightarrow> f e | Inr x \<Rightarrow> g x)"
  by (cases r) simp_all

lemma emits_pair: "(\<And>x y. p = (x, y) \<Longrightarrow> emits log P (f x y)) \<Longrightarrow> emits log P (case p of (x, y) \<Rightarrow> f x y)"
  by (cases p) simp

lemmas emits_branches = emits_if emits_instance emits_option emits_sum emits_pair

lemma emits_try: "emits log P m \<Longrightarrow> emits log P (exec_try m)"
  unfolding appends_by_def exec_try_def by (simp add: split_beta)

lemma emits_modify: "(\<And>st. log (f st) = log st) \<Longrightarrow> emits log P (exec_modify f)"
  by (simp add: appends_by_def exec_modify_def)

lemma emits_get: "emits log P (exec_get f)"
  by (simp add: appends_by_def exec_get_def)

lemma emits_conj: "emits log P m \<Longrightarrow> emits log Q m \<Longrightarrow> emits log (\<lambda>a. P a \<and> Q a) m"
  unfolding appends_by_def list_all_iff by (metis (no_types, lifting) same_append_eq)

subsection \<open>What a computation establishes\<close>

text \<open>
  \<open>ensures P m Q E\<close>: from a state with \<open>P\<close>, \<open>m\<close> either returns a value with \<open>Q\<close> of it and of the
  state reached, or raises in a state with \<open>E\<close>.
\<close>

definition ensures ::
  "('s \<Rightarrow> bool) \<Rightarrow> ('s, 'e, 'a) computation \<Rightarrow> ('a \<Rightarrow> 's \<Rightarrow> bool) \<Rightarrow> ('e \<Rightarrow> 's \<Rightarrow> bool) \<Rightarrow> bool" where
  "ensures P m Q E \<longleftrightarrow> (\<forall>st. P st \<longrightarrow> (case m st of (Inl e, st') \<Rightarrow> E e st' | (Inr x, st') \<Rightarrow> Q x st'))"

lemma ensuresI: "(\<And>st r st'. P st \<Longrightarrow> m st = (r, st') \<Longrightarrow> case r of Inl e \<Rightarrow> E e st' | Inr x \<Rightarrow> Q x st') \<Longrightarrow> ensures P m Q E"
  by (force simp: ensures_def split: prod.splits sum.splits)

lemma ensuresD: "ensures P m Q E \<Longrightarrow> P st \<Longrightarrow> m st = (r, st') \<Longrightarrow> (case r of Inl e \<Rightarrow> E e st' | Inr x \<Rightarrow> Q x st')"
  by (force simp: ensures_def split: sum.splits)

lemma ensures_bind:
  assumes "ensures P m R E" "\<And>x. ensures (R x) (f x) Q E"
  shows "ensures P (exec_bind m f) Q E"
proof (rule ensuresI)
  fix st r st' assume P: "P st" and m: "exec_bind m f st = (r, st')"
  obtain r1 st1 where m1: "m st = (r1, st1)" by (cases "m st")
  note ensuresD[OF assms(1) P m1]
  with m m1 show "case r of Inl e \<Rightarrow> E e st' | Inr x \<Rightarrow> Q x st'"
    by (cases r1) (auto simp: exec_bind_def dest: ensuresD[OF assms(2)])
qed

lemma ensures_return: "(\<And>st. P st \<Longrightarrow> Q x st) \<Longrightarrow> ensures P (exec_return x) Q E"
  by (simp add: ensures_def exec_return_def)

lemma ensures_raise: "(\<And>st. P st \<Longrightarrow> E e st) \<Longrightarrow> ensures P (exec_raise e) Q E"
  by (simp add: ensures_def exec_raise_def)

lemma ensures_raise_if:
  "(\<And>st. c \<Longrightarrow> P st \<Longrightarrow> E e st) \<Longrightarrow> (\<not> c \<Longrightarrow> ensures P (f ()) Q E) \<Longrightarrow> ensures P (exec_bind (exec_raise_if c e) f) Q E"
  by (simp add: ensures_def exec_raise_if_def exec_bind_def exec_raise_def exec_return_def)

text \<open>A step that keeps \<open>P\<close> and does not raise.\<close>

lemma ensures_silent:
  assumes "\<And>st. P st \<Longrightarrow> \<exists>x st'. m st = (Inr x, st') \<and> P st'" "\<And>x. ensures P (f x) Q E"
  shows "ensures P (exec_bind m f) Q E"
proof (rule ensures_bind[where R = "\<lambda>_. P"])
  show "ensures P m (\<lambda>_. P) E"
    using assms(1) by (force simp: ensures_def split: prod.splits sum.splits)
qed (rule assms(2))

lemma ensures_mono:
  assumes "ensures P m Q E" "\<And>st. P' st \<Longrightarrow> P st" "\<And>x st. Q x st \<Longrightarrow> Q' x st" "\<And>e st. E e st \<Longrightarrow> E' e st"
  shows "ensures P' m Q' E'"
  using assms unfolding ensures_def by (fastforce split: prod.splits sum.splits)

lemma ensures_if: "(c \<Longrightarrow> ensures P m Q E) \<Longrightarrow> (\<not> c \<Longrightarrow> ensures P m' Q E) \<Longrightarrow> ensures P (if c then m else m') Q E"
  by simp

lemma ensures_option:
  "ensures P m Q E \<Longrightarrow> (\<And>x. v = Some x \<Longrightarrow> ensures P (f x) Q E) \<Longrightarrow> ensures P (case v of None \<Rightarrow> m | Some x \<Rightarrow> f x) Q E"
  by (cases v) simp_all

lemma ensures_instance:
  "(p = Foreign \<Longrightarrow> ensures P m Q E) \<Longrightarrow> (\<And>x extra. p = Obj x extra \<Longrightarrow> ensures P (f x extra) Q E)
     \<Longrightarrow> ensures P (case p of Foreign \<Rightarrow> m | Obj x extra \<Rightarrow> f x extra) Q E"
  by (cases p) simp_all

lemma ensures_sum:
  "(\<And>e. r = Inl e \<Longrightarrow> ensures P (f e) Q E) \<Longrightarrow> (\<And>x. r = Inr x \<Longrightarrow> ensures P (g x) Q E)
     \<Longrightarrow> ensures P (case r of Inl e \<Rightarrow> f e | Inr x \<Rightarrow> g x) Q E"
  by (cases r) simp_all

lemma ensures_pair: "(\<And>x y. p = (x, y) \<Longrightarrow> ensures P (f x y) Q E) \<Longrightarrow> ensures P (case p of (x, y) \<Rightarrow> f x y) Q E"
  by (cases p) simp

lemmas ensures_branches = ensures_if ensures_option ensures_instance ensures_sum ensures_pair

end
