(* ===== verification/Read_Tool_Executor.thy ===== *)
theory Read_Tool_Executor
  imports Order_Result_Guard Tool_Commands Computation
begin

section \<open>Fenced execution of get_order (application/read_tool_executor.py, lines 268--278 and 356--665)\<close>

text \<open>
  \<open>execute_get_order\<close> as a state-passing program over the world it awaits: the record port, the
  order port, the clock and the uuid factory. The environment says how each await ends: with a
  reply, an exception, or a cancellation delivered there. \<open>xs_log\<close> is what was asked of the
  ports, in order. An exception leaves the state as it was when it was raised.
\<close>

subsection \<open>The world\<close>

datatype exec_error =
    ExecutionError string | InvalidRecord validation_error | PortError nat | TaskCancelledError

datatype 'a port_reply = Replies 'a | Raises nat | Interrupted

datatype order_reply = OrderReplies received_result | OrderTimesOut | OrderRaises nat | OrderInterrupted

record executor_env =
  ee_clock :: "nat \<Rightarrow> datetime"
  ee_uuid :: "nat \<Rightarrow> uuid"
  ee_outcomes :: "get_order_outcome enum_snapshots"
  ee_statuses :: "order_status enum_snapshots"
  ee_insert :: "insert_only_write_result port_reply"
  ee_fence :: "tool_dispatch_fence_write_result port_reply"
  ee_order :: order_reply
  ee_finalize :: "nat \<Rightarrow> conditional_write_result port_reply"
  ee_save_observation :: "observation_write_result port_reply"
  ee_append_trace :: "unit port_reply"

datatype port_action =
    InsertToolCall tool_call_record
  | StartToolCall tool_call_record tool_call_record tool_attempt_record
  | GetOrder get_order_query
  | FinalizeToolCall tool_call_record tool_attempt_record tool_call_record tool_attempt_record
  | SaveObservation trusted_owner_scope order_observation tool_call_record
  | AppendTrace trace_event

record exec_state =
  xs_clock :: nat
  xs_uuid :: nat
  xs_finalized :: nat
  xs_log :: "port_action list"

type_synonym 'a exec = "(exec_state, exec_error, 'a) computation"

definition exec_construct :: "validation_error + 'a \<Rightarrow> 'a exec" where
  "exec_construct r = (case r of Inl e \<Rightarrow> exec_raise (InvalidRecord e) | Inr x \<Rightarrow> exec_return x)"

definition exec_now :: "executor_env \<Rightarrow> datetime exec" where
  "exec_now env = (\<lambda>st. (Inr (ee_clock env (xs_clock st)), st\<lparr>xs_clock := xs_clock st + 1\<rparr>))"

definition exec_fresh_uuid :: "executor_env \<Rightarrow> uuid exec" where
  "exec_fresh_uuid env = (\<lambda>st. (Inr (ee_uuid env (xs_uuid st)), st\<lparr>xs_uuid := xs_uuid st + 1\<rparr>))"

definition exec_log :: "port_action \<Rightarrow> unit exec" where
  "exec_log a = (\<lambda>st. (Inr (), st\<lparr>xs_log := xs_log st @ [a]\<rparr>))"

definition exec_reply :: "'a port_reply \<Rightarrow> 'a exec" where
  "exec_reply r = (case r of Replies x \<Rightarrow> exec_return x | Raises n \<Rightarrow> exec_raise (PortError n)
     | Interrupted \<Rightarrow> exec_raise TaskCancelledError)"

text \<open>One awaited port call: it is made, and then ends as the environment says.\<close>

definition exec_call :: "port_action \<Rightarrow> 'a port_reply \<Rightarrow> 'a exec" where
  "exec_call a r = exec_bind (exec_log a) (\<lambda>_. exec_reply r)"

definition exec_next_finalize :: "executor_env \<Rightarrow> conditional_write_result port_reply exec" where
  "exec_next_finalize env =
     (\<lambda>st. (Inr (ee_finalize env (xs_finalized st)), st\<lparr>xs_finalized := xs_finalized st + 1\<rparr>))"

subsection \<open>Arguments and results\<close>

record executor_args =
  xa_owner_scope :: "trusted_owner_scope pyobj"
  xa_authorized_command :: "authorized_tool_command pyobj"
  xa_run_id :: uuid
  xa_task_id :: uuid
  xa_request_unit_id :: uuid
  xa_model_call_id :: uuid
  xa_context_manifest_id :: uuid
  xa_provider_tool_call_id :: "pystr option"
  xa_tool_registry_version :: pystr
  xa_execution_policy :: "execution_policy pyobj"
  xa_remaining_run_time_budget_ms :: int

record read_tool_execution =
  rx_created_tool_call :: tool_call_record
  rx_dispatch_fence_result :: tool_dispatch_fence_write_result
  rx_terminal_tool_call :: "tool_call_record option"
  rx_finalized_attempt :: "tool_attempt_record option"
  rx_get_order_outcome :: "get_order_outcome option"
  rx_observation :: "order_observation option"
  rx_effective_timeout_ms :: "int option"

subsection \<open>_finalize_running_attempt and _append_interrupted_trace\<close>

definition project_terminal ::
  "tool_call_record \<Rightarrow> tool_call_status \<Rightarrow> datetime \<Rightarrow> pystr option \<Rightarrow> tool_timeout_phase option
   \<Rightarrow> pystr option \<Rightarrow> uuid option \<Rightarrow> tool_call_record" where
  "project_terminal running status finished_at failure_code timeout_phase interruption_reason result_ref =
     running\<lparr>tc_status := status, tc_finished_at := Some finished_at, tc_failure_code := failure_code,
       tc_timeout_phase := timeout_phase, tc_interruption_reason := interruption_reason,
       tc_result_ref := result_ref\<rparr>"

definition finalize_running_attempt ::
  "executor_env \<Rightarrow> tool_call_record \<Rightarrow> tool_attempt_record \<Rightarrow> tool_call_status \<Rightarrow> tool_result_outcome
   \<Rightarrow> pystr option \<Rightarrow> uuid option \<Rightarrow> tool_timeout_phase option \<Rightarrow> pystr option
   \<Rightarrow> (tool_call_record \<times> tool_attempt_record) exec" where
  "finalize_running_attempt env running attempt terminal_status tool_outcome safe_failure_code result_ref
     timeout_phase interruption_reason =
     exec_bind (exec_now env) (\<lambda>finished_at.
     exec_bind (exec_construct (new_tool_call_record (project_terminal running terminal_status finished_at
       safe_failure_code timeout_phase interruption_reason result_ref))) (\<lambda>terminal.
     exec_bind (exec_construct (new_tool_attempt_record
       \<lparr>at_tool_call_id = tc_tool_call_id running, at_attempt_no = at_attempt_no attempt,
        at_started_at = at_started_at attempt, at_finished_at = Some finished_at,
        at_outcome = Some tool_outcome, at_failure_code = safe_failure_code\<rparr>)) (\<lambda>finalized_attempt.
     exec_bind (exec_construct (new_finalize_tool_call_command
       \<lparr>ftc_expected_running_record = running, ftc_expected_started_attempt = attempt,
        ftc_terminal_record = terminal, ftc_finalized_attempt = finalized_attempt\<rparr>)) (\<lambda>_.
     exec_bind (exec_next_finalize env) (\<lambda>reply.
     exec_bind (exec_call (FinalizeToolCall running attempt terminal finalized_attempt) reply) (\<lambda>finalize_result.
     exec_bind (exec_raise_if (finalize_result \<noteq> APPLIED)
       (ExecutionError ''ToolCall finalization conflict'')) (\<lambda>_.
     exec_return (terminal, finalized_attempt))))))))"

definition append_interrupted_trace :: "executor_env \<Rightarrow> tool_call_record \<Rightarrow> unit exec" where
  "append_interrupted_trace env terminal =
     exec_bind (exec_fresh_uuid env) (\<lambda>trace_event_id.
     exec_bind (exec_construct (new_trace_event
       ((blank_event trace_event_id TOOL_CALL_INTERRUPTED
          (case tc_finished_at terminal of None \<Rightarrow> Datetime 0 None | Some t \<Rightarrow> t) (tc_run_id terminal))
        \<lparr>te_task_id := Some (tc_task_id terminal), te_request_unit_id := Some (tc_request_unit_id terminal),
         te_tool_call_id := Some (tc_tool_call_id terminal), te_tool_call_terminal_status := Some TC_INTERRUPTED\<rparr>)))
     (\<lambda>event. exec_call (AppendTrace event) (ee_append_trace env)))"

subsection \<open>execute_get_order\<close>

definition created_tool_call :: "executor_args \<Rightarrow> authorized_tool_command \<Rightarrow> uuid \<Rightarrow> datetime \<Rightarrow> tool_call_record" where
  "created_tool_call args command tool_call_id started_at =
     \<lparr>tc_tool_call_id = tool_call_id, tc_run_id = xa_run_id args, tc_task_id = xa_task_id args,
      tc_request_unit_id = xa_request_unit_id args, tc_model_call_id = xa_model_call_id args,
      tc_context_manifest_id = xa_context_manifest_id args, tc_gate_decision_id = ac_gate_decision_id command,
      tc_provider_tool_call_id = xa_provider_tool_call_id args, tc_canonical_tool_name = str ''get_order'',
      tc_tool_registry_version = xa_tool_registry_version args,
      tc_validated_task_state_version = ac_validated_task_state_version command,
      tc_argument_binding_refs = ac_argument_binding_refs command, tc_effect = READ, tc_attempt_count = 0,
      tc_status = TC_CREATED, tc_started_at = started_at, tc_finished_at = None, tc_failure_code = None,
      tc_timeout_phase = None, tc_interruption_reason = None, tc_result_ref = None\<rparr>"

definition running_tool_call :: "tool_call_record \<Rightarrow> tool_call_record" where
  "running_tool_call created = created\<lparr>tc_status := TC_RUNNING, tc_attempt_count := 1\<rparr>"

definition unavailable_result :: get_order_result where
  "unavailable_result = \<lparr>gr_outcome = SYSTEM_FAILURE, gr_order_summary = None, gr_source_version = None,
     gr_failure_code = Some (str ''ORDER_SERVICE_UNAVAILABLE'')\<rparr>"

text \<open>Terminal status, attempt outcome and failure code of a result (lines 573--599).\<close>

definition terminal_projection :: "get_order_outcome \<Rightarrow> tool_call_status \<times> tool_result_outcome \<times> pystr option" where
  "terminal_projection outcome = (case outcome of
      FOUND \<Rightarrow> (TC_SUCCEEDED, TR_SUCCESS, None)
    | NOT_FOUND_OR_NOT_ACCESSIBLE \<Rightarrow> (TC_FAILED, TR_BUSINESS_FAILURE, Some (str ''NOT_FOUND_OR_NOT_ACCESSIBLE''))
    | SYSTEM_FAILURE \<Rightarrow> (TC_FAILED, TR_SYSTEM_FAILURE, Some (str ''ORDER_SERVICE_UNAVAILABLE'')))"

definition save_found_observation ::
  "executor_env \<Rightarrow> trusted_owner_scope \<Rightarrow> get_order_result \<Rightarrow> tool_call_record \<Rightarrow> order_observation option exec" where
  "save_found_observation env owner_scope result terminal =
     (if gr_outcome result \<noteq> FOUND then exec_return None
      else case gr_order_summary result of
        None \<Rightarrow> exec_raise (ExecutionError ''FOUND result missing safe projection'')
      | Some summary \<Rightarrow>
          exec_bind (exec_fresh_uuid env) (\<lambda>observation_id.
          let finished_at = (case tc_finished_at terminal of None \<Rightarrow> Datetime 0 None | Some t \<Rightarrow> t)
          in exec_bind (exec_construct (new_order_observation
               \<lparr>oo_observation_id = observation_id, oo_source_tool = str ''get_order'',
                oo_source_resource_ref = os_order_number (fields_of summary),
                oo_source_version = gr_source_version result, oo_normalized_type = str ''ORDER_SUMMARY'',
                oo_normalized_value = summary, oo_observed_at = finished_at, oo_recorded_at = finished_at,
                oo_valid_until = None, oo_supersedes = None, oo_raw_result_ref = None,
                oo_visibility = VIS_MODEL_VISIBLE\<rparr>)) (\<lambda>observation.
             exec_bind (exec_construct (new_save_observation_command
               \<lparr>soc_owner_scope = owner_scope, soc_observation_record = observation,
                soc_source_tool_call_record = terminal\<rparr>)) (\<lambda>_.
             exec_bind (exec_call (SaveObservation owner_scope observation terminal) (ee_save_observation env))
               (\<lambda>observation_result.
             exec_bind (exec_raise_if (observation_result \<notin> set [OBS_INSERTED, OBS_ALREADY_APPLIED])
               (ExecutionError ''Observation source conflict'')) (\<lambda>_.
             exec_return (Some observation)))))))"

text \<open>The body of the outer \<open>try\<close>, entered once the fence is \<open>APPLIED\<close>.\<close>

definition dispatched_read ::
  "executor_env \<Rightarrow> trusted_owner_scope \<Rightarrow> pystr \<Rightarrow> int \<Rightarrow> tool_call_record \<Rightarrow> tool_call_record
   \<Rightarrow> tool_attempt_record \<Rightarrow> read_tool_execution exec" where
  "dispatched_read env owner_scope order_id effective_timeout_ms created running attempt =
     (let execution = (\<lambda>terminal finalized outcome observation.
            \<lparr>rx_created_tool_call = created, rx_dispatch_fence_result = FENCE_APPLIED,
             rx_terminal_tool_call = Some terminal, rx_finalized_attempt = Some finalized,
             rx_get_order_outcome = Some outcome, rx_observation = observation,
             rx_effective_timeout_ms = Some effective_timeout_ms\<rparr>)
      in exec_bind (exec_construct (new_get_order_query
             \<lparr>gq_customer_id = os_customer_id owner_scope, gq_order_id = order_id\<rparr>)) (\<lambda>query.
         exec_bind (exec_log (GetOrder query)) (\<lambda>_.
         case ee_order env of
           OrderInterrupted \<Rightarrow> exec_raise TaskCancelledError
         | OrderRaises n \<Rightarrow> exec_raise (PortError n)
         | OrderTimesOut \<Rightarrow>
             exec_bind (finalize_running_attempt env running attempt TC_TIMED_OUT TR_TIMEOUT
               (Some (str ''TOOL_CALL_TIMEOUT'')) None (Some AFTER_DISPATCH) None) (\<lambda>(terminal, finalized_attempt).
             exec_return (execution terminal finalized_attempt SYSTEM_FAILURE None))
         | OrderReplies candidate_result \<Rightarrow>
             let result = (case canonical_get_order_result (ee_outcomes env) (ee_statuses env) candidate_result of
                   None \<Rightarrow> unavailable_result | Some r \<Rightarrow> r);
                 (terminal_status, tool_outcome, safe_failure_code) = terminal_projection (gr_outcome result)
             in exec_bind (exec_raise_if (gr_outcome result = FOUND \<and> gr_order_summary result = None)
                  (ExecutionError ''FOUND result missing safe projection'')) (\<lambda>_.
                exec_bind (if gr_outcome result = FOUND
                  then exec_bind (exec_fresh_uuid env) (\<lambda>r. exec_return (Some r)) else exec_return None) (\<lambda>result_ref.
                exec_bind (finalize_running_attempt env running attempt terminal_status tool_outcome
                  safe_failure_code result_ref None None) (\<lambda>(terminal, finalized_attempt).
                exec_bind (save_found_observation env owner_scope result terminal) (\<lambda>observation.
                exec_return (execution terminal finalized_attempt (gr_outcome result) observation))))))))"

text \<open>
  \<open>except asyncio.CancelledError\<close>: finalize as INTERRUPTED and trace it, whatever these do, and
  re-raise the cancellation.
\<close>

definition on_cancellation ::
  "executor_env \<Rightarrow> tool_call_record \<Rightarrow> tool_attempt_record \<Rightarrow> read_tool_execution exec" where
  "on_cancellation env running attempt = (\<lambda>st.
     case finalize_running_attempt env running attempt TC_INTERRUPTED TR_INTERRUPTED
         (Some (str ''TOOL_CALL_CANCELLED'')) None None (Some (str ''TOOL_CALL_CANCELLED'')) st of
       (Inl _, st') \<Rightarrow> (Inl TaskCancelledError, st')
     | (Inr (terminal, _), st') \<Rightarrow>
         (case append_interrupted_trace env terminal st' of (_, st'') \<Rightarrow> (Inl TaskCancelledError, st'')))"

definition exec_catch_cancel :: "'a exec \<Rightarrow> 'a exec \<Rightarrow> 'a exec" where
  "exec_catch_cancel body handler = (\<lambda>st. case body st of
      (Inl TaskCancelledError, st') \<Rightarrow> handler st'
    | other \<Rightarrow> other)"

definition execute_get_order :: "executor_env \<Rightarrow> executor_args \<Rightarrow> read_tool_execution exec" where
  "execute_get_order env args =
     (case xa_owner_scope args of
        Foreign \<Rightarrow> exec_raise (ExecutionError ''trusted owner scope required'')
      | Obj owner_scope _ \<Rightarrow>
     (case xa_authorized_command args of
        Foreign \<Rightarrow> exec_raise (ExecutionError ''authorized command required'')
      | Obj command _ \<Rightarrow>
     (case xa_execution_policy args of
        Foreign \<Rightarrow> exec_raise (ExecutionError ''validated single-attempt execution policy required'')
      | Obj policy _ \<Rightarrow>
     exec_bind (exec_raise_if (ep_max_attempts policy \<noteq> 1 \<or> ep_interrupt_behavior policy \<noteq> str ''MARK_INTERRUPTED'')
       (ExecutionError ''validated single-attempt execution policy required'')) (\<lambda>_.
     exec_bind (exec_raise_if (xa_remaining_run_time_budget_ms args \<le> 0)
       (ExecutionError ''positive remaining Run budget required'')) (\<lambda>_.
     let effective_timeout_ms = min (ep_timeout_ms policy) (xa_remaining_run_time_budget_ms args)
     in exec_bind (exec_raise_if (ac_canonical_tool_name command \<noteq> str ''get_order''
            \<or> ac_registry_snapshot_ref command \<noteq> xa_tool_registry_version args
            \<or> set (map fst (ac_validated_arguments command)) \<noteq> {str ''order_id''})
          (ExecutionError ''invalid get_order authorization'')) (\<lambda>_.
     case map_of (ac_validated_arguments command) (str ''order_id'') of
       Some (JStr order_id) \<Rightarrow>
         exec_bind (exec_now env) (\<lambda>started_at.
         exec_bind (exec_fresh_uuid env) (\<lambda>tool_call_id.
         exec_bind (exec_construct (new_tool_call_record (created_tool_call args command tool_call_id started_at)))
           (\<lambda>created.
         exec_bind (exec_construct (new_create_tool_call_command \<lparr>ctc_created_record = created\<rparr>)) (\<lambda>_.
         exec_bind (exec_call (InsertToolCall created) (ee_insert env)) (\<lambda>insert_result.
         exec_bind (exec_raise_if (insert_result \<noteq> INSERTED) (ExecutionError ''ToolCall insert conflict'')) (\<lambda>_.
         exec_bind (exec_now env) (\<lambda>attempt_started_at.
         exec_bind (exec_construct (new_tool_attempt_record
           \<lparr>at_tool_call_id = tc_tool_call_id created, at_attempt_no = 1, at_started_at = attempt_started_at,
            at_finished_at = None, at_outcome = None, at_failure_code = None\<rparr>)) (\<lambda>attempt.
         exec_bind (exec_construct (new_tool_call_record (running_tool_call created))) (\<lambda>running.
         exec_bind (exec_construct (new_dispatch_tool_call_command
           \<lparr>dtc_expected_created_record = created, dtc_running_record = running,
            dtc_started_attempt = attempt\<rparr>)) (\<lambda>_.
         exec_bind (exec_call (StartToolCall created running attempt) (ee_fence env)) (\<lambda>fence_result.
         if fence_result \<noteq> FENCE_APPLIED
         then exec_return \<lparr>rx_created_tool_call = created, rx_dispatch_fence_result = fence_result,
           rx_terminal_tool_call = None, rx_finalized_attempt = None, rx_get_order_outcome = None,
           rx_observation = None, rx_effective_timeout_ms = Some effective_timeout_ms\<rparr>
         else exec_catch_cancel
           (dispatched_read env owner_scope order_id effective_timeout_ms created running attempt)
           (on_cancellation env running attempt))))))))))))
     | _ \<Rightarrow> exec_raise (ExecutionError ''invalid bound order_id'')))))))"

definition initial_exec_state :: exec_state where
  "initial_exec_state = \<lparr>xs_clock = 0, xs_uuid = 0, xs_finalized = 0, xs_log = []\<rparr>"

end
