(* ===== verification/Executor_Facts.thy ===== *)
theory Executor_Facts
  imports Read_Tool_Executor
begin


section \<open>What the executor asks of its ports\<close>

text \<open>
  The executor's protocol and the consistency of its result follow by walking through its
  definition once, with one rule of the log logic per operator.
\<close>

abbreviation appends :: "'a exec \<Rightarrow> ((exec_error + 'a) \<Rightarrow> port_action list \<Rightarrow> bool) \<Rightarrow> bool" where
  "appends \<equiv> appends_by xs_log"

lemmas appends_def = appends_by_def [where log = xs_log]

lemma appends_construct:
  "(\<And>e. r = Inl e \<Longrightarrow> Q (Inl (InvalidRecord e)) []) \<Longrightarrow> (\<And>x. r = Inr x \<Longrightarrow> appends (f x) Q)
     \<Longrightarrow> appends (exec_bind (exec_construct r) f) Q"
  by (cases r) (auto simp: exec_construct_def exec_bind_def exec_raise_def exec_return_def appends_def)

lemma appends_now: "(\<And>t. appends (f t) Q) \<Longrightarrow> appends (exec_bind (exec_now env) f) Q"
  by (rule appends_silent) (simp_all add: exec_now_def)

lemma appends_uuid: "(\<And>u. appends (f u) Q) \<Longrightarrow> appends (exec_bind (exec_fresh_uuid env) f) Q"
  by (rule appends_silent) (simp_all add: exec_fresh_uuid_def)

lemma appends_finalize_reply: "(\<And>r. appends (f r) Q) \<Longrightarrow> appends (exec_bind (exec_next_finalize env) f) Q"
  by (rule appends_silent) (simp_all add: exec_next_finalize_def)

lemma appends_call:
  assumes "\<And>n. r = Raises n \<Longrightarrow> Q (Inl (PortError n)) [a]" "r = Interrupted \<Longrightarrow> Q (Inl TaskCancelledError) [a]"
    and "\<And>x. r = Replies x \<Longrightarrow> appends (f x) (\<lambda>res l. Q res (a # l))"
  shows "appends (exec_bind (exec_call a r) f) Q"
proof (rule appends_bind)
  show "appends (exec_call a r) (\<lambda>res l. l = [a] \<and> (case r of Replies x \<Rightarrow> res = Inr x
      | Raises n \<Rightarrow> res = Inl (PortError n) | Interrupted \<Rightarrow> res = Inl TaskCancelledError))"
    by (auto simp: appends_def exec_call_def exec_log_def exec_bind_def exec_reply_def exec_raise_def
        exec_return_def split: port_reply.splits)
qed (use assms in \<open>auto split: port_reply.splits\<close>)

lemma appends_log:
  assumes "appends (f ()) (\<lambda>res l. Q res (a # l))"
  shows "appends (exec_bind (exec_log a) f) Q"
proof (rule appends_bind)
  show "appends (exec_log a) (\<lambda>r l. l = [a] \<and> r = Inr ())" by (simp add: appends_def exec_log_def)
qed (use assms in auto)

subsection \<open>The protocol\<close>

fun no_order_call :: "port_action \<Rightarrow> bool" where
  "no_order_call (GetOrder q) = False"
| "no_order_call _ = True"

text \<open>
  A read is preceded by its ToolCall's insertion and its dispatch fence, is made at most once,
  for the trusted owner and the bound order only.
\<close>

definition read_protocol :: "trusted_owner_scope \<Rightarrow> pystr \<Rightarrow> port_action list \<Rightarrow> bool" where
  "read_protocol owner order_id log =
     (case log of
        [] \<Rightarrow> True
      | first # log1 \<Rightarrow> (case first of
          InsertToolCall created \<Rightarrow> (case log1 of
            [] \<Rightarrow> True
          | second # log2 \<Rightarrow> (case second of
              StartToolCall created' running attempt \<Rightarrow> created' = created \<and> (case log2 of
                [] \<Rightarrow> True
              | third # rest \<Rightarrow> (case third of
                  GetOrder query \<Rightarrow> gq_customer_id query = os_customer_id owner \<and> gq_order_id query = order_id
                    \<and> list_all no_order_call rest
                | _ \<Rightarrow> False))
            | _ \<Rightarrow> False))
        | _ \<Rightarrow> False))"

text \<open>What a returned execution says agrees with what was written.\<close>

definition dispatched_consistent ::
  "trusted_owner_scope \<Rightarrow> tool_call_record \<Rightarrow> tool_attempt_record \<Rightarrow> port_action list \<Rightarrow> read_tool_execution \<Rightarrow> bool" where
  "dispatched_consistent owner running attempt log rx =
     (case (rx_terminal_tool_call rx, rx_finalized_attempt rx, rx_get_order_outcome rx) of
        (Some terminal, Some finalized, Some outcome) \<Rightarrow>
          FinalizeToolCall running attempt terminal finalized \<in> set log
          \<and> new_finalize_tool_call_command
              \<lparr>ftc_expected_running_record = running, ftc_expected_started_attempt = attempt,
               ftc_terminal_record = terminal, ftc_finalized_attempt = finalized\<rparr>
            = Inr \<lparr>ftc_expected_running_record = running, ftc_expected_started_attempt = attempt,
               ftc_terminal_record = terminal, ftc_finalized_attempt = finalized\<rparr>
          \<and> ((tc_status terminal = TC_TIMED_OUT \<and> at_outcome finalized = Some TR_TIMEOUT \<and> outcome = SYSTEM_FAILURE)
             \<or> (case terminal_projection outcome of (status, attempt_outcome, code) \<Rightarrow>
                  tc_status terminal = status \<and> at_outcome finalized = Some attempt_outcome
                  \<and> tc_failure_code terminal = code))
          \<and> (case rx_observation rx of
               None \<Rightarrow> outcome \<noteq> FOUND
             | Some observation \<Rightarrow> outcome = FOUND \<and> SaveObservation owner observation terminal \<in> set log)
      | _ \<Rightarrow> False)"

definition execution_consistent :: "trusted_owner_scope \<Rightarrow> port_action list \<Rightarrow> read_tool_execution \<Rightarrow> bool" where
  "execution_consistent owner log rx =
     (if rx_dispatch_fence_result rx \<noteq> FENCE_APPLIED
      then rx_terminal_tool_call rx = None \<and> rx_finalized_attempt rx = None
        \<and> rx_get_order_outcome rx = None \<and> rx_observation rx = None \<and> list_all no_order_call log
      else (case log of
          _ # StartToolCall created running attempt # _ \<Rightarrow>
            created = rx_created_tool_call rx \<and> dispatched_consistent owner running attempt log rx
        | _ \<Rightarrow> False))"

subsection \<open>Walking through the definition\<close>

definition finalize_post ::
  "tool_call_record \<Rightarrow> tool_attempt_record \<Rightarrow> tool_call_status \<Rightarrow> tool_result_outcome \<Rightarrow> pystr option
   \<Rightarrow> exec_error + (tool_call_record \<times> tool_attempt_record) \<Rightarrow> port_action list \<Rightarrow> bool" where
  "finalize_post running attempt status outcome code r log \<longleftrightarrow>
     list_all no_order_call log
     \<and> (case r of Inl _ \<Rightarrow> True
        | Inr (terminal, finalized) \<Rightarrow>
            FinalizeToolCall running attempt terminal finalized \<in> set log
            \<and> tc_status terminal = status \<and> at_outcome finalized = Some outcome \<and> tc_failure_code terminal = code
            \<and> new_finalize_tool_call_command
              \<lparr>ftc_expected_running_record = running, ftc_expected_started_attempt = attempt,
               ftc_terminal_record = terminal, ftc_finalized_attempt = finalized\<rparr>
            = Inr \<lparr>ftc_expected_running_record = running, ftc_expected_started_attempt = attempt,
               ftc_terminal_record = terminal, ftc_finalized_attempt = finalized\<rparr>)"

lemma new_record_Inr:
  "new_tool_call_record r = Inr r' \<Longrightarrow> r' = r"
  "new_tool_attempt_record a = Inr a' \<Longrightarrow> a' = a"
  "new_finalize_tool_call_command c = Inr c' \<Longrightarrow> c' = c"
  "new_get_order_query q = Inr q' \<Longrightarrow> q' = q"
  by (simp_all add: new_tool_call_record_def new_tool_attempt_record_def new_finalize_tool_call_command_def
      new_get_order_query_def construct_Inr_iff)

lemma appends_finalize:
  "appends (finalize_running_attempt env running attempt status outcome code ref phase reason)
     (finalize_post running attempt status outcome code)"
  unfolding finalize_running_attempt_def
  apply (rule appends_now)
  apply (rule appends_construct)
   apply (simp add: finalize_post_def)
  apply (rule appends_construct)
   apply (simp add: finalize_post_def)
  apply (rule appends_construct)
   apply (simp add: finalize_post_def)
  apply (rule appends_finalize_reply)
  apply (rule appends_call)
    apply (simp add: finalize_post_def)
   apply (simp add: finalize_post_def)
  apply (rule appends_raise_if)
   apply (simp add: finalize_post_def)
  apply (rule appends_return)
  apply (frule new_record_Inr(1), frule new_record_Inr(2), frule new_record_Inr(3))
  apply (simp add: finalize_post_def project_terminal_def)
  done

definition save_post :: "trusted_owner_scope \<Rightarrow> get_order_outcome \<Rightarrow> tool_call_record
    \<Rightarrow> exec_error + order_observation option \<Rightarrow> port_action list \<Rightarrow> bool" where
  "save_post owner outcome terminal r log \<longleftrightarrow>
     list_all no_order_call log
     \<and> (case r of Inl _ \<Rightarrow> True
        | Inr None \<Rightarrow> outcome \<noteq> FOUND
        | Inr (Some observation) \<Rightarrow> outcome = FOUND \<and> SaveObservation owner observation terminal \<in> set log)"

lemma appends_save:
  "appends (save_found_observation env owner result terminal) (save_post owner (gr_outcome result) terminal)"
proof (cases "gr_outcome result = FOUND")
  case False
  then show ?thesis by (simp add: save_found_observation_def appends_return save_post_def)
next
  case True
  show ?thesis
  proof (cases "gr_order_summary result")
    case None
    with True show ?thesis by (simp add: save_found_observation_def appends_raise save_post_def)
  next
    case (Some summary)
    show ?thesis
      unfolding save_found_observation_def
      using True Some
      apply (simp add: Let_def)
      apply (rule appends_uuid)
      apply (rule appends_construct, simp add: save_post_def)
      apply (rule appends_construct, simp add: save_post_def)
      apply (rule appends_call, simp add: save_post_def, simp add: save_post_def)
      apply (rule appends_raise_if, simp add: save_post_def)
      apply (rule appends_return, simp add: save_post_def)
      done
  qed
qed

lemma appends_dispatched:
  assumes created: "running = running_tool_call created"
  shows "appends (dispatched_read env owner order_id timeout created running attempt)
     (\<lambda>r l. ((l = [] \<and> (\<exists>e. r = Inl (InvalidRecord e))) \<or> (\<exists>q rest. l = GetOrder q # rest \<and> gq_customer_id q = os_customer_id owner
          \<and> gq_order_id q = order_id \<and> list_all no_order_call rest))
        \<and> (case r of Inl _ \<Rightarrow> True
           | Inr rx \<Rightarrow> rx_dispatch_fence_result rx = FENCE_APPLIED \<and> rx_created_tool_call rx = created
               \<and> dispatched_consistent owner running attempt l rx))"
  unfolding dispatched_read_def Let_def
proof (rule appends_construct, goal_cases)
  case (2 q)
  from new_record_Inr(4)[OF 2] have q: "gq_customer_id q = os_customer_id owner" "gq_order_id q = order_id" by simp_all
  show ?case
  proof (rule appends_log, cases "ee_order env", goal_cases)
    case (1 candidate)
    let ?result = "case canonical_get_order_result (ee_outcomes env) (ee_statuses env) candidate of
        None \<Rightarrow> unavailable_result | Some r \<Rightarrow> r"
    obtain status out code where tp: "terminal_projection (gr_outcome ?result) = (status, out, code)"
      by (metis prod_cases3)
    show ?case
      unfolding 1 order_reply.case tp prod.case
      apply (rule appends_raise_if, simp add: q)
      apply (rule appends_bind[where R = "\<lambda>r l. l = [] \<and> (\<exists>x. r = Inr x)"])
        apply (simp add: appends_def exec_bind_def exec_fresh_uuid_def exec_return_def)
       apply simp
      apply (rule appends_bind[OF appends_finalize])
       apply (simp add: finalize_post_def q)
      apply (clarsimp simp: finalize_post_def)
      apply (rule appends_bind[OF appends_save])
       apply (simp add: save_post_def q)
      apply (rule appends_return)
      apply (simp add: save_post_def q dispatched_consistent_def tp split: option.splits)
      done
  next
    case 2
    show ?case
      unfolding 2 order_reply.case
      apply (rule appends_bind[OF appends_finalize])
       apply (simp add: finalize_post_def q)
      apply (clarsimp simp: finalize_post_def)
      apply (rule appends_return)
      apply (simp add: q dispatched_consistent_def)
      done
  next
    case (3 n)
    then show ?case by (simp add: appends_raise q)
  next
    case 4
    then show ?case by (simp add: appends_raise q)
  qed
qed simp

lemma appends_on_cancellation:
  "appends (on_cancellation env running attempt) (\<lambda>r l. r = Inl TaskCancelledError \<and> list_all no_order_call l)"
  unfolding appends_def
proof
  fix st
  let ?m = "finalize_running_attempt env running attempt TC_INTERRUPTED TR_INTERRUPTED
         (Some (str ''TOOL_CALL_CANCELLED'')) None None (Some (str ''TOOL_CALL_CANCELLED''))"
  have trace: "appends (append_interrupted_trace env t) (\<lambda>r l. list_all no_order_call l)" for t
    unfolding append_interrupted_trace_def
    apply (rule appends_uuid)
    apply (rule appends_construct, simp)
    apply (simp add: appends_def exec_call_def exec_log_def exec_bind_def exec_reply_def exec_raise_def
        exec_return_def split: port_reply.splits)
    done
  obtain l where l: "xs_log (snd (?m st)) = xs_log st @ l" "list_all no_order_call l"
    using appends_finalize[of env running attempt TC_INTERRUPTED TR_INTERRUPTED
         "Some (str ''TOOL_CALL_CANCELLED'')" None None "Some (str ''TOOL_CALL_CANCELLED'')"]
    unfolding appends_def finalize_post_def by blast
  show "\<exists>added. xs_log (snd (on_cancellation env running attempt st)) = xs_log st @ added
      \<and> fst (on_cancellation env running attempt st) = Inl TaskCancelledError \<and> list_all no_order_call added"
  proof (cases "?m st")
    case (Pair r st')
    show ?thesis
    proof (cases r)
      case (Inl e)
      with Pair l show ?thesis by (simp add: on_cancellation_def)
    next
      case (Inr p)
      obtain l' where "xs_log (snd (append_interrupted_trace env (fst p) st')) = xs_log st' @ l'"
        "list_all no_order_call l'"
        using trace[of "fst p"] by (auto simp: appends_def)
      moreover have "on_cancellation env running attempt st
          = (Inl TaskCancelledError, snd (append_interrupted_trace env (fst p) st'))"
        using Pair Inr by (cases p, cases "append_interrupted_trace env (fst p) st'") (simp add: on_cancellation_def)
      ultimately show ?thesis using Pair l by simp
    qed
  qed
qed

lemma appends_catch_cancel:
  assumes "appends body R" "appends handler H"
    and "\<And>r l. R r l \<Longrightarrow> r \<noteq> Inl TaskCancelledError \<Longrightarrow> Q r l"
    and "\<And>l r l'. R (Inl TaskCancelledError) l \<Longrightarrow> H r l' \<Longrightarrow> Q r (l @ l')"
  shows "appends (exec_catch_cancel body handler) Q"
  unfolding appends_def
proof
  fix st
  obtain r st1 where b: "body st = (r, st1)" by (cases "body st")
  with assms(1) obtain l where l: "xs_log st1 = xs_log st @ l" "R r l" by (metis appends_def fst_conv snd_conv)
  show "\<exists>added. xs_log (snd (exec_catch_cancel body handler st)) = xs_log st @ added
      \<and> Q (fst (exec_catch_cancel body handler st)) added"
  proof (cases "r = Inl TaskCancelledError")
    case True
    obtain l' where "xs_log (snd (handler st1)) = xs_log st1 @ l'" "H (fst (handler st1)) l'"
      using assms(2) by (auto simp: appends_def)
    with True b l assms(4) show ?thesis by (auto simp: exec_catch_cancel_def)
  next
    case False
    then have "exec_catch_cancel body handler st = (r, st1)"
      using b by (auto simp: exec_catch_cancel_def split: sum.splits exec_error.splits)
    with l False assms(3) show ?thesis by auto
  qed
qed

definition execution_post :: "executor_args \<Rightarrow> exec_error + read_tool_execution \<Rightarrow> port_action list \<Rightarrow> bool" where
  "execution_post args r log \<longleftrightarrow>
     (case xa_owner_scope args of Foreign \<Rightarrow> log = [] \<and> (\<exists>e. r = Inl e)
      | Obj owner _ \<Rightarrow> (case xa_authorized_command args of Foreign \<Rightarrow> log = [] \<and> (\<exists>e. r = Inl e)
        | Obj command _ \<Rightarrow>
            (log = [] \<or> (\<exists>order_id. map_of (ac_validated_arguments command) (str ''order_id'') = Some (JStr order_id)
               \<and> read_protocol owner order_id log))
            \<and> (case r of Inl _ \<Rightarrow> True | Inr rx \<Rightarrow> execution_consistent owner log rx)))"

lemma execution_post_error [simp]: "execution_post args (Inl e) []"
  by (simp add: execution_post_def split: pyobj.splits)

lemma appends_execute: "appends (execute_get_order env args) (execution_post args)"
proof (cases "xa_owner_scope args")
  case Foreign
  then show ?thesis by (simp add: execute_get_order_def appends_raise)
next
  case owner: (Obj owner oextra)
  show ?thesis
  proof (cases "xa_authorized_command args")
    case Foreign
    with owner show ?thesis by (simp add: execute_get_order_def appends_raise)
  next
    case command: (Obj command cextra)
    note post = execution_post_def owner command pyobj.case
    show ?thesis
    proof (cases "xa_execution_policy args")
      case Foreign
      with owner command show ?thesis by (simp add: execute_get_order_def appends_raise)
    next
      case policy: (Obj policy pextra)
      show ?thesis
      proof (cases "\<exists>oid. map_of (ac_validated_arguments command) (str ''order_id'') = Some (JStr oid)")
        case False
        then have nostr: "(case map_of (ac_validated_arguments command) (str ''order_id'') of
            Some (JStr order_id) \<Rightarrow> F order_id | _ \<Rightarrow> G) = G" for F :: "pystr \<Rightarrow> read_tool_execution exec" and G
          by (auto split: option.splits json.splits)
        show ?thesis
          unfolding execute_get_order_def owner command policy pyobj.case nostr Let_def
          by (rule appends_raise_if, simp, rule appends_raise_if, simp, rule appends_raise_if, simp,
              rule appends_raise, simp)
      next
        case True
        then obtain oid where oid: "map_of (ac_validated_arguments command) (str ''order_id'') = Some (JStr oid)" by blast
        show ?thesis
          unfolding execute_get_order_def owner command policy pyobj.case oid option.case json.case Let_def
          apply (rule appends_raise_if, simp)
          apply (rule appends_raise_if, simp)
          apply (rule appends_raise_if, simp)
          apply (rule appends_now, rule appends_uuid)
          apply (rule appends_construct, simp)
          apply (rule appends_construct, simp)
          apply (rule appends_call, simp add: post oid read_protocol_def, simp add: post oid read_protocol_def)
          apply (rule appends_raise_if, simp add: post oid read_protocol_def)
          apply (rule appends_now)
          apply (rule appends_construct, simp add: post oid read_protocol_def)
          apply (rule appends_construct, simp add: post oid read_protocol_def)
          apply (rule appends_construct, simp add: post oid read_protocol_def)
          apply (rule appends_call, simp add: post oid read_protocol_def, simp add: post oid read_protocol_def)
          subgoal for created_at tool_call_id created cmd insert now attempt running dcmd fence
          proof (cases "fence = FENCE_APPLIED")
            case False
            then show ?thesis
              by (simp add: appends_return post oid read_protocol_def execution_consistent_def)
          next
            case True
            assume "new_tool_call_record (running_tool_call created) = Inr running"
            then have r: "running = running_tool_call created" by (rule new_record_Inr(1))
            show ?thesis
              using True
              by (simp, intro appends_catch_cancel[OF appends_dispatched[OF r] appends_on_cancellation])
                 (auto simp: post oid read_protocol_def execution_consistent_def dispatched_consistent_def
                    split: sum.splits option.splits)
          qed
          done
      qed
    qed
  qed
qed

text \<open>The whole run, from the initial state.\<close>

lemma execute_from_start:
  "execution_post args (fst (execute_get_order env args initial_exec_state))
     (xs_log (snd (execute_get_order env args initial_exec_state)))"
  using appends_execute[of env args] unfolding appends_def
  by (metis append_Nil initial_exec_state_def exec_state.select_convs(4))

subsection \<open>What the ports answered\<close>

lemma exec_bind_Inr_iff:
  "exec_bind m f st = (Inr y, st'') \<longleftrightarrow> (\<exists>x st'. m st = (Inr x, st') \<and> f x st' = (Inr y, st''))"
  by (auto simp: exec_bind_def split: prod.splits sum.splits)

lemma exec_returns:
  "exec_construct r st = (Inr x, st') \<longleftrightarrow> r = Inr x \<and> st' = st"
  "exec_now env st = (Inr t, st') \<longleftrightarrow> t = ee_clock env (xs_clock st) \<and> st' = st\<lparr>xs_clock := xs_clock st + 1\<rparr>"
  "exec_fresh_uuid env st = (Inr u, st') \<longleftrightarrow> u = ee_uuid env (xs_uuid st) \<and> st' = st\<lparr>xs_uuid := xs_uuid st + 1\<rparr>"
  "exec_call a reply st = (Inr y, st') \<longleftrightarrow> reply = Replies y \<and> st' = st\<lparr>xs_log := xs_log st @ [a]\<rparr>"
  "exec_log a st = (Inr z, st') \<longleftrightarrow> z = () \<and> st' = st\<lparr>xs_log := xs_log st @ [a]\<rparr>"
  "exec_next_finalize env st = (Inr w, st') \<longleftrightarrow> w = ee_finalize env (xs_finalized st) \<and> st' = st\<lparr>xs_finalized := xs_finalized st + 1\<rparr>"
  by (auto simp: exec_construct_def exec_now_def exec_fresh_uuid_def exec_call_def exec_log_def exec_next_finalize_def
      exec_bind_def exec_reply_def exec_return_def exec_raise_def split: sum.splits port_reply.splits)

lemma exec_return_returns: "exec_return x st = (Inr y, st') \<longleftrightarrow> y = x \<and> st' = st"
  by (auto simp: exec_return_def)

lemma exec_raise_returns: "exec_raise e st \<noteq> (Inr y, st')"
  by (simp add: exec_raise_def)

lemma exec_raise_if_returns: "exec_raise_if c e st = (Inr u, st') \<longleftrightarrow> \<not> c \<and> st' = st"
  by (auto simp: exec_raise_if_def exec_return_def exec_raise_def)

lemma catch_cancel_returns:
  assumes "\<And>st. \<exists>e. fst (handler st) = Inl e"
  shows "exec_catch_cancel body handler st = (Inr x, st') \<longleftrightarrow> body st = (Inr x, st')"
  using assms by (auto simp: exec_catch_cancel_def split: prod.splits sum.splits exec_error.splits) (metis fst_conv Inl_Inr_False)+

lemma cancellation_raises: "fst (on_cancellation env running attempt st) = Inl TaskCancelledError"
  by (simp add: on_cancellation_def split: prod.splits sum.splits)

lemmas exec_Inr_iffs = exec_bind_Inr_iff exec_returns exec_return_returns exec_raise_returns exec_raise_if_returns

lemma finalize_returned:
  "finalize_running_attempt env running attempt status outcome code ref phase reason st = (Inr p, st') \<Longrightarrow>
     ee_finalize env (xs_finalized st) = Replies APPLIED"
  by (auto simp: finalize_running_attempt_def exec_Inr_iffs)

lemma save_returned:
  "save_found_observation env owner result terminal st = (Inr ob, st') \<Longrightarrow>
     ob \<noteq> None \<longrightarrow> ee_save_observation env \<in> {Replies OBS_INSERTED, Replies OBS_ALREADY_APPLIED}"
  by (auto simp: save_found_observation_def exec_Inr_iffs Let_def split: if_splits option.splits)

lemma dispatched_returned:
  assumes "dispatched_read env owner order_id timeout created running attempt st = (Inr rx, st')"
  shows "rx_dispatch_fence_result rx = FENCE_APPLIED \<and> ee_finalize env (xs_finalized st) = Replies APPLIED
    \<and> (rx_observation rx \<noteq> None \<longrightarrow> ee_save_observation env \<in> {Replies OBS_INSERTED, Replies OBS_ALREADY_APPLIED})"
proof (cases "ee_order env")
  case (OrderReplies candidate)
  from assms show ?thesis
    by (auto simp: dispatched_read_def Let_def exec_Inr_iffs OrderReplies split: prod.splits if_splits
        dest!: finalize_returned save_returned)
next
  case OrderTimesOut
  from assms show ?thesis
    by (auto simp: dispatched_read_def Let_def exec_Inr_iffs OrderTimesOut split: prod.splits dest!: finalize_returned)
qed (use assms in \<open>auto simp: dispatched_read_def Let_def exec_Inr_iffs\<close>)

text \<open>What the ports answered when an execution is returned.\<close>

definition recorded_by :: "executor_env \<Rightarrow> read_tool_execution \<Rightarrow> bool" where
  "recorded_by env rx \<longleftrightarrow>
     ee_insert env = Replies INSERTED \<and> ee_fence env = Replies (rx_dispatch_fence_result rx)
     \<and> (rx_dispatch_fence_result rx = FENCE_APPLIED \<longrightarrow> ee_finalize env 0 = Replies APPLIED)
     \<and> (rx_observation rx \<noteq> None \<longrightarrow> ee_save_observation env \<in> {Replies OBS_INSERTED, Replies OBS_ALREADY_APPLIED})"

lemma execute_recorded:
  assumes "execute_get_order env args initial_exec_state = (Inr rx, st)"
  shows "recorded_by env rx"
proof -
  have raises: "\<exists>e. fst (on_cancellation env r a st) = Inl e" for r a st by (simp add: cancellation_raises)
  from assms show ?thesis
    by (auto simp: execute_get_order_def Let_def exec_Inr_iffs catch_cancel_returns[OF raises] recorded_by_def initial_exec_state_def
        split: pyobj.splits option.splits json.splits if_splits dest!: dispatched_returned)
qed
subsection \<open>The executor completes\<close>

text \<open>
  Valid arguments and a clock that does not run backwards: then no record the executor builds is
  refused, and it returns as soon as its ports do.
\<close>

definition trusted_read :: "executor_env \<Rightarrow> executor_args \<Rightarrow> trusted_owner_scope \<Rightarrow> authorized_tool_command
    \<Rightarrow> execution_policy \<Rightarrow> pystr \<Rightarrow> bool" where
  "trusted_read env args owner command policy order_id \<longleftrightarrow>
     xa_owner_scope args = Obj owner [] \<and> NonEmptyString (os_customer_id owner)
     \<and> xa_authorized_command args = Obj command [] \<and> accepts new_authorized_tool_command command
     \<and> xa_execution_policy args = Obj policy []
     \<and> ep_max_attempts policy = 1 \<and> ep_interrupt_behavior policy = str ''MARK_INTERRUPTED''
     \<and> 0 < xa_remaining_run_time_budget_ms args
     \<and> ac_canonical_tool_name command = str ''get_order''
     \<and> ac_registry_snapshot_ref command = xa_tool_registry_version args
     \<and> ac_validated_arguments command = [(str ''order_id'', JStr order_id)] \<and> OrderId order_id
     \<and> opt_all NonEmptyString (xa_provider_tool_call_id args)
     \<and> list_all (\<lambda>n. is_utc (ee_clock env n)) [0, 1, 2, 3]
     \<and> instant (ee_clock env 0) \<le> instant (ee_clock env 1)
     \<and> instant (ee_clock env 1) \<le> instant (ee_clock env 2)
     \<and> instant (ee_clock env 2) \<le> instant (ee_clock env 3)"

definition executor_ready :: "executor_env \<Rightarrow> executor_args \<Rightarrow> trusted_owner_scope \<Rightarrow> authorized_tool_command
    \<Rightarrow> execution_policy \<Rightarrow> pystr \<Rightarrow> bool" where
  "executor_ready env args owner command policy order_id \<longleftrightarrow>
     trusted_read env args owner command policy order_id \<and> ee_insert env = Replies INSERTED"

lemma ready_trusted: "executor_ready env args owner command policy order_id \<Longrightarrow> trusted_read env args owner command policy order_id"
  by (simp add: executor_ready_def)

lemma ToolName_get_order [simp]: "ToolName (str ''get_order'')"
  by (simp add: ToolName_def str_def is_az_def is_09_def)

lemma SafeReasonCode_cancelled [simp]: "SafeReasonCode (str ''TOOL_CALL_CANCELLED'')"
  by (simp add: SafeReasonCode_def str_def is_AZ_def is_09_def)

lemma created_valid:
  assumes "trusted_read env args owner command policy order_id"
  shows "new_tool_call_record (created_tool_call args command i (ee_clock env 0))
       = Inr (created_tool_call args command i (ee_clock env 0))"
    and "new_tool_call_record (running_tool_call (created_tool_call args command i (ee_clock env 0)))
       = Inr (running_tool_call (created_tool_call args command i (ee_clock env 0)))"
  using assms
  by (clarsimp simp: trusted_read_def accepts_iff new_authorized_tool_command_def construct_Inr_iff Let_def
      new_tool_call_record_def created_tool_call_def running_tool_call_def tool_call_lifecycle_def
      terminal_statuses_def requires_attempt_def)+

definition first_attempt :: "uuid \<Rightarrow> datetime \<Rightarrow> tool_attempt_record" where
  "first_attempt i t = \<lparr>at_tool_call_id = i, at_attempt_no = 1, at_started_at = t, at_finished_at = None,
     at_outcome = None, at_failure_code = None\<rparr>"

definition finalized_attempt_of :: "tool_call_record \<Rightarrow> tool_attempt_record \<Rightarrow> tool_result_outcome \<Rightarrow> pystr option
    \<Rightarrow> datetime \<Rightarrow> tool_attempt_record" where
  "finalized_attempt_of running attempt outcome code t =
     \<lparr>at_tool_call_id = tc_tool_call_id running, at_attempt_no = at_attempt_no attempt,
      at_started_at = at_started_at attempt, at_finished_at = Some t, at_outcome = Some outcome,
      at_failure_code = code\<rparr>"

text \<open>The four ways a running call is finalized.\<close>

definition finalization_allowed ::
  "tool_call_status \<Rightarrow> tool_result_outcome \<Rightarrow> pystr option \<Rightarrow> tool_timeout_phase option \<Rightarrow> pystr option \<Rightarrow> bool" where
  "finalization_allowed status outcome code phase reason \<longleftrightarrow>
     (case TERMINAL_TOOL_OUTCOMES status of None \<Rightarrow> False | Some outs \<Rightarrow> outcome \<in> set outs)
     \<and> (status = TC_SUCCEEDED \<longrightarrow> code = None) \<and> opt_all NonEmptyString code
     \<and> (status = TC_TIMED_OUT \<longleftrightarrow> phase \<noteq> None) \<and> (status = TC_INTERRUPTED \<longleftrightarrow> reason \<noteq> None)
     \<and> opt_all SafeReasonCode reason"

lemma finalize_valid:
  assumes ready: "trusted_read env args owner command policy order_id"
    and r: "running = running_tool_call (created_tool_call args command i (ee_clock env 0))"
    and a: "attempt = first_attempt i (ee_clock env 1)"
    and k: "k = 2 \<or> k = 3"
    and ok: "finalization_allowed status outcome code phase reason"
    and t: "t = ee_clock env k"
  shows "new_tool_call_record (project_terminal running status t code phase reason ref)
      = Inr (project_terminal running status t code phase reason ref)"
    and "new_tool_attempt_record (finalized_attempt_of running attempt outcome code t)
      = Inr (finalized_attempt_of running attempt outcome code t)"
    and "accepts new_finalize_tool_call_command
       \<lparr>ftc_expected_running_record = running, ftc_expected_started_attempt = attempt,
        ftc_terminal_record = project_terminal running status t code phase reason ref,
        ftc_finalized_attempt = finalized_attempt_of running attempt outcome code t\<rparr>"
proof -
  let ?terminal = "project_terminal running status t code phase reason ref"
  let ?fin = "finalized_attempt_of running attempt outcome code t"
  have t: "is_utc t" "instant (ee_clock env 0) \<le> instant t" "instant (ee_clock env 1) \<le> instant t"
    using ready k t by (auto simp: trusted_read_def)
  have run: "new_tool_call_record running = Inr running"
    unfolding r by (rule created_valid(2)[OF ready])
  have "status \<in> set terminal_statuses"
    using ok terminal_outcomes_iff[of status] by (auto simp: finalization_allowed_def)
  then show "new_tool_call_record ?terminal = Inr ?terminal"
    using run ok t(1,2)
    by (simp add: new_tool_call_record_def construct_Inr_iff tool_call_lifecycle_def Let_def project_terminal_def
        finalization_allowed_def r running_tool_call_def created_tool_call_def requires_attempt_def dt_less_def)
       (auto simp: terminal_statuses_def)
  have utc1: "is_utc (ee_clock env 1)" using ready by (simp add: trusted_read_def)
  show "new_tool_attempt_record ?fin = Inr ?fin"
    using ok t utc1
    by (auto simp: new_tool_attempt_record_def construct_Inr_iff tool_attempt_lifecycle_def finalized_attempt_of_def
        a first_attempt_def dt_less_def finalization_allowed_def TERMINAL_TOOL_OUTCOMES_def
        split: tool_call_status.splits)
  show "accepts new_finalize_tool_call_command
       \<lparr>ftc_expected_running_record = running, ftc_expected_started_attempt = attempt,
        ftc_terminal_record = ?terminal, ftc_finalized_attempt = ?fin\<rparr>"
    using ok
    by (auto simp: accepts_iff command_defs Let_def project_terminal_def finalized_attempt_of_def a first_attempt_def r
        running_tool_call_def created_tool_call_def unfinished_attempt_def clean_projection_def
        same_immutable_fields_def finalization_allowed_def split: option.splits)
qed

text \<open>A finalization is always written; how it ends is the answer of the store.\<close>

lemma finalize_runs:
  assumes "trusted_read env args owner command policy order_id"
    and "running = running_tool_call (created_tool_call args command i (ee_clock env 0))"
    and "attempt = first_attempt i (ee_clock env 1)"
    and "xs_clock st = 2 \<or> xs_clock st = 3"
    and "finalization_allowed status outcome code phase reason"
  shows "finalize_running_attempt env running attempt status outcome code ref phase reason st =
    (let t = ee_clock env (xs_clock st); terminal = project_terminal running status t code phase reason ref;
         finalized = finalized_attempt_of running attempt outcome code t
     in (case ee_finalize env (xs_finalized st) of
           Replies w \<Rightarrow> if w = APPLIED then Inr (terminal, finalized) else Inl (ExecutionError ''ToolCall finalization conflict'')
         | Raises n \<Rightarrow> Inl (PortError n) | Interrupted \<Rightarrow> Inl TaskCancelledError,
         st\<lparr>xs_clock := xs_clock st + 1, xs_finalized := xs_finalized st + 1,
            xs_log := xs_log st @ [FinalizeToolCall running attempt terminal finalized]\<rparr>))"
  using finalize_valid(1,3)[OF assms refl, of ref] finalize_valid(2)[OF assms refl]
  by (simp add: finalize_running_attempt_def exec_bind_def exec_now_def exec_construct_def exec_return_def accepts_iff
      exec_next_finalize_def exec_call_def exec_log_def exec_reply_def exec_raise_if_def exec_raise_def Let_def
      finalized_attempt_of_def split: port_reply.splits)

lemma finalize_completes:
  assumes "executor_ready env args owner command policy order_id"
    and "running = running_tool_call (created_tool_call args command i (ee_clock env 0))"
    and "attempt = first_attempt i (ee_clock env 1)"
    and "xs_clock st = 2 \<or> xs_clock st = 3"
    and "finalization_allowed status outcome code phase reason"
    and "ee_finalize env (xs_finalized st) = Replies APPLIED"
  shows "finalize_running_attempt env running attempt status outcome code ref phase reason st =
    (let t = ee_clock env (xs_clock st); terminal = project_terminal running status t code phase reason ref;
         finalized = finalized_attempt_of running attempt outcome code t
     in (Inr (terminal, finalized),
         st\<lparr>xs_clock := xs_clock st + 1, xs_finalized := xs_finalized st + 1,
            xs_log := xs_log st @ [FinalizeToolCall running attempt terminal finalized]\<rparr>))"
  unfolding finalize_runs[OF ready_trusted[OF assms(1)] assms(2-5)] assms(6) by (simp add: Let_def)

definition ready_created :: "executor_env \<Rightarrow> executor_args \<Rightarrow> authorized_tool_command \<Rightarrow> tool_call_record" where
  "ready_created env args command = created_tool_call args command (ee_uuid env 0) (ee_clock env 0)"

definition ready_state :: "executor_env \<Rightarrow> executor_args \<Rightarrow> authorized_tool_command \<Rightarrow> exec_state" where
  "ready_state env args command =
     \<lparr>xs_clock = 2, xs_uuid = 1, xs_finalized = 0,
      xs_log = [InsertToolCall (ready_created env args command),
        StartToolCall (ready_created env args command) (running_tool_call (ready_created env args command))
          (first_attempt (ee_uuid env 0) (ee_clock env 1))]\<rparr>"

lemma execute_reaches_dispatch:
  assumes ready: "executor_ready env args owner command policy order_id" and fence: "ee_fence env = Replies FENCE_APPLIED"
  shows "execute_get_order env args initial_exec_state =
    exec_catch_cancel
      (dispatched_read env owner order_id (min (ep_timeout_ms policy) (xa_remaining_run_time_budget_ms args))
        (ready_created env args command) (running_tool_call (ready_created env args command))
        (first_attempt (ee_uuid env 0) (ee_clock env 1)))
      (on_cancellation env (running_tool_call (ready_created env args command))
        (first_attempt (ee_uuid env 0) (ee_clock env 1)))
      (ready_state env args command)"
proof -
  let ?c = "created_tool_call args command (ee_uuid env 0) (ee_clock env 0)"
  let ?a = "first_attempt (ee_uuid env 0) (ee_clock env 1)"
  note valid = created_valid[OF ready_trusted[OF ready], of "ee_uuid env 0"]
  have create: "new_create_tool_call_command \<lparr>ctc_created_record = ?c\<rparr> = Inr \<lparr>ctc_created_record = ?c\<rparr>"
    by (simp add: command_defs Let_def created_tool_call_def clean_projection_def)
  have att: "new_tool_attempt_record ?a = Inr ?a"
    using ready by (simp add: new_tool_attempt_record_def construct_Inr_iff tool_attempt_lifecycle_def
        first_attempt_def executor_ready_def trusted_read_def)
  have disp: "new_dispatch_tool_call_command \<lparr>dtc_expected_created_record = ?c,
      dtc_running_record = running_tool_call ?c, dtc_started_attempt = ?a\<rparr> = Inr \<lparr>dtc_expected_created_record = ?c,
      dtc_running_record = running_tool_call ?c, dtc_started_attempt = ?a\<rparr>"
    by (simp add: command_defs Let_def created_tool_call_def running_tool_call_def clean_projection_def
        unfinished_attempt_def first_attempt_def same_immutable_fields_def)
  have id: "tc_tool_call_id ?c = ee_uuid env 0" by (simp add: created_tool_call_def)
  have pre: "xa_owner_scope args = Obj owner []" "xa_authorized_command args = Obj command []"
    "xa_execution_policy args = Obj policy []" "ep_max_attempts policy = 1"
    "ep_interrupt_behavior policy = str ''MARK_INTERRUPTED''" "\<not> xa_remaining_run_time_budget_ms args \<le> 0"
    "ac_canonical_tool_name command = str ''get_order''"
    "ac_registry_snapshot_ref command = xa_tool_registry_version args"
    "ac_validated_arguments command = [(str ''order_id'', JStr order_id)]" "ee_insert env = Replies INSERTED"
    using ready by (simp_all add: executor_ready_def trusted_read_def)
  show ?thesis
    unfolding execute_get_order_def pre pyobj.case
    using valid create disp att[unfolded first_attempt_def]
    by (simp add: pre(4-) fence exec_bind_def exec_raise_if_def exec_return_def exec_now_def exec_fresh_uuid_def
        exec_construct_def exec_call_def exec_log_def exec_reply_def initial_exec_state_def ready_state_def
        ready_created_def first_attempt_def id Let_def numeral_2_eq_2)
qed

lemma query_valid:
  "executor_ready env args owner command policy order_id \<Longrightarrow>
     new_get_order_query \<lparr>gq_customer_id = os_customer_id owner, gq_order_id = order_id\<rparr>
       = Inr \<lparr>gq_customer_id = os_customer_id owner, gq_order_id = order_id\<rparr>"
  by (simp add: new_get_order_query_def construct_Inr_iff executor_ready_def trusted_read_def)

definition result_of_reply :: "executor_env \<Rightarrow> received_result \<Rightarrow> get_order_result" where
  "result_of_reply env candidate =
     (case canonical_get_order_result (ee_outcomes env) (ee_statuses env) candidate of
        None \<Rightarrow> unavailable_result | Some r \<Rightarrow> r)"

lemma result_of_reply_admitted: "admitted_result (result_of_reply env candidate)"
proof (cases "canonical_get_order_result (ee_outcomes env) (ee_statuses env) candidate")
  case None
  then show ?thesis
    by (simp add: result_of_reply_def admitted_result_def unavailable_result_def accepts_iff
        new_get_order_result_def construct_Inr_iff result_shape_matches_outcome_def)
qed (simp add: result_of_reply_def canonical_get_order_result_admitted)

lemma terminal_projection_allowed:
  "terminal_projection outcome = (status, out, code) \<Longrightarrow> finalization_allowed status out code None None"
  by (cases outcome) (auto simp: terminal_projection_def finalization_allowed_def TERMINAL_TOOL_OUTCOMES_def)

text \<open>The Observation saved for a found order.\<close>

definition found_observation :: "get_order_result \<Rightarrow> datetime \<Rightarrow> order_observation \<Rightarrow> bool" where
  "found_observation result t ob \<longleftrightarrow>
     oo_source_version ob = gr_source_version result \<and> Some (oo_normalized_value ob) = gr_order_summary result
     \<and> oo_recorded_at ob = t \<and> oo_source_tool ob = str ''get_order'' \<and> oo_normalized_type ob = str ''ORDER_SUMMARY''
     \<and> oo_visibility ob = VIS_MODEL_VISIBLE"

lemma save_completes:
  assumes res: "admitted_result result" and t: "tc_finished_at terminal = Some t" "is_utc t"
    and sr: "gr_outcome result = FOUND \<Longrightarrow> tc_status terminal = TC_SUCCEEDED"
      "tc_effect terminal = READ" "tc_canonical_tool_name terminal = str ''get_order''"
    and saved: "ee_save_observation env = Replies OBS_INSERTED"
  shows "\<exists>ob st'. save_found_observation env owner result terminal st = (Inr ob, st')
    \<and> (ob \<noteq> None \<longleftrightarrow> gr_outcome result = FOUND) \<and> opt_all (found_observation result t) ob"
proof (cases "gr_outcome result = FOUND")
  case False
  then show ?thesis by (simp add: save_found_observation_def exec_return_def)
next
  case True
  with res obtain summary where s: "gr_order_summary result = Some (Obj summary [])"
    "accepts new_order_summary_projection summary"
    by (auto simp: admitted_result_def split: option.splits)
  have num: "NonEmptyString (os_order_number summary)"
    using s(2) by (auto simp: accepts_iff new_order_summary_projection_def construct_Inr_iff OrderId_def NonEmptyString_def)
  have ver: "opt_all NonEmptyString (gr_source_version result)"
    using res True by (cases "gr_source_version result")
      (auto simp: admitted_result_def accepts_iff new_get_order_result_def construct_Inr_iff
        GetOrderSourceVersion_def source_version_prefix_def NonEmptyString_def)
  show ?thesis
    using True s num ver t sr saved
    by (simp add: save_found_observation_def exec_bind_def exec_fresh_uuid_def exec_construct_def exec_return_def
        new_order_observation_def construct_def construct_with_def failing_def checks_def dt_less_def Let_def
        new_save_observation_command_def exec_call_def exec_log_def exec_reply_def exec_raise_if_def found_observation_def)
qed

lemma exec_bind_Inr: "m st = (Inr x, st') \<Longrightarrow> exec_bind m f st = f x st'"
  by (simp add: exec_bind_def)

lemma exec_bind_Inl: "m st = (Inl e, st') \<Longrightarrow> exec_bind m f st = (Inl e, st')"
  by (simp add: exec_bind_def)

text \<open>What a completed execution reports.\<close>

definition completed_execution ::
  "executor_env \<Rightarrow> executor_args \<Rightarrow> authorized_tool_command \<Rightarrow> get_order_result \<Rightarrow> read_tool_execution \<Rightarrow> bool" where
  "completed_execution env args command result rx \<longleftrightarrow>
     rx_created_tool_call rx = ready_created env args command
     \<and> rx_get_order_outcome rx = Some (gr_outcome result)
     \<and> (\<exists>code ref. rx_terminal_tool_call rx = Some (project_terminal (running_tool_call (ready_created env args command))
           (fst (terminal_projection (gr_outcome result))) (ee_clock env 2) code None None ref))
     \<and> (\<exists>attempt. rx_finalized_attempt rx = Some attempt \<and> at_started_at attempt = ee_clock env 1)
     \<and> (rx_observation rx \<noteq> None \<longleftrightarrow> gr_outcome result = FOUND)
     \<and> opt_all (found_observation result (ee_clock env 2)) (rx_observation rx)"

lemma dispatched_completes:
  assumes ready: "executor_ready env args owner command policy order_id"
    and reply: "ee_order env = OrderReplies candidate"
    and applied: "ee_finalize env 0 = Replies APPLIED" and saved: "ee_save_observation env = Replies OBS_INSERTED"
  shows "\<exists>rx st'. dispatched_read env owner order_id timeout (ready_created env args command)
      (running_tool_call (ready_created env args command)) (first_attempt (ee_uuid env 0) (ee_clock env 1))
      (ready_state env args command) = (Inr rx, st')
    \<and> completed_execution env args command (result_of_reply env candidate) rx"
proof -
  let ?res = "result_of_reply env candidate"
  let ?run = "running_tool_call (ready_created env args command)"
  let ?att = "first_attempt (ee_uuid env 0) (ee_clock env 1)"
  obtain status out code where tp: "terminal_projection (gr_outcome ?res) = (status, out, code)" by (metis prod_cases3)
  have nofail: "\<not> (gr_outcome ?res = FOUND \<and> gr_order_summary ?res = None)"
    using result_of_reply_admitted[of env candidate]
    by (cases "gr_order_summary (result_of_reply env candidate)") (auto simp: admitted_result_def)
  define st1 where "st1 = (ready_state env args command)
     \<lparr>xs_log := xs_log (ready_state env args command)
        @ [GetOrder \<lparr>gq_customer_id = os_customer_id owner, gq_order_id = order_id\<rparr>]\<rparr>"
  define ref where "ref = (if gr_outcome ?res = FOUND then Some (ee_uuid env 1) else None)"
  define st2 where "st2 = (if gr_outcome ?res = FOUND then st1\<lparr>xs_uuid := 2\<rparr> else st1)"
  have k: "xs_clock st2 = 2" "xs_finalized st2 = 0" by (simp_all add: st2_def st1_def ready_state_def)
  have fin: "finalize_running_attempt env ?run ?att status out code ref None None st2 =
    (let t = ee_clock env (xs_clock st2); terminal = project_terminal ?run status t code None None ref;
         finalized = finalized_attempt_of ?run ?att out code t
     in (Inr (terminal, finalized),
         st2\<lparr>xs_clock := xs_clock st2 + 1, xs_finalized := xs_finalized st2 + 1,
            xs_log := xs_log st2 @ [FinalizeToolCall ?run ?att terminal finalized]\<rparr>))"
    by (rule finalize_completes[OF ready])
       (use k applied terminal_projection_allowed[OF tp] in \<open>simp_all add: ready_created_def\<close>)
  let ?t = "ee_clock env 2"
  let ?terminal = "project_terminal ?run status ?t code None None ref"
  let ?fin = "finalized_attempt_of ?run ?att out code ?t"
  define st3 where "st3 = st2\<lparr>xs_clock := 3, xs_finalized := 1,
      xs_log := xs_log st2 @ [FinalizeToolCall ?run ?att ?terminal ?fin]\<rparr>"
  have fin': "finalize_running_attempt env ?run ?att status out code ref None None st2 = (Inr (?terminal, ?fin), st3)"
    using fin k by (simp add: Let_def st3_def)
  have "gr_outcome ?res = FOUND \<Longrightarrow> tc_status ?terminal = TC_SUCCEEDED"
    using tp by (simp add: terminal_projection_def project_terminal_def)
  moreover have "is_utc ?t" using ready by (simp add: executor_ready_def trusted_read_def)
  ultimately obtain ob st4 where save: "save_found_observation env owner ?res ?terminal st3 = (Inr ob, st4)"
    and ob: "ob \<noteq> None \<longleftrightarrow> gr_outcome ?res = FOUND" "opt_all (found_observation ?res ?t) ob"
    using save_completes[OF result_of_reply_admitted, of ?terminal ?t env candidate env owner st3] saved
    by (auto simp: project_terminal_def running_tool_call_def ready_created_def created_tool_call_def)
  have uuid: "(if gr_outcome ?res = FOUND then exec_bind (exec_fresh_uuid env) (\<lambda>r. exec_return (Some r))
      else exec_return None) st1 = (Inr ref, st2)"
    by (simp add: exec_bind_def exec_fresh_uuid_def exec_return_def ref_def st2_def st1_def ready_state_def)
  have guard: "exec_raise_if (gr_outcome ?res = FOUND \<and> gr_order_summary ?res = None)
      (ExecutionError ''FOUND result missing safe projection'') st1 = (Inr (), st1)"
    using nofail by (auto simp: exec_raise_if_def exec_return_def)
  have steps: "\<And>f :: get_order_query \<Rightarrow> read_tool_execution exec.
      exec_bind (exec_return \<lparr>gq_customer_id = os_customer_id owner, gq_order_id = order_id\<rparr>) f (ready_state env args command)
        = f \<lparr>gq_customer_id = os_customer_id owner, gq_order_id = order_id\<rparr> (ready_state env args command)"
    "\<And>f :: unit \<Rightarrow> read_tool_execution exec.
      exec_bind (exec_log (GetOrder \<lparr>gq_customer_id = os_customer_id owner, gq_order_id = order_id\<rparr>)) f
        (ready_state env args command) = f () st1"
    "\<And>f :: unit \<Rightarrow> read_tool_execution exec. exec_bind (exec_raise_if (gr_outcome ?res = FOUND \<and> gr_order_summary ?res = None)
      (ExecutionError ''FOUND result missing safe projection'')) f st1 = f () st1"
    "\<And>f :: uuid option \<Rightarrow> read_tool_execution exec. exec_bind (if gr_outcome ?res = FOUND
      then exec_bind (exec_fresh_uuid env) (\<lambda>r. exec_return (Some r)) else exec_return None) f st1 = f ref st2"
    "\<And>f :: tool_call_record \<times> tool_attempt_record \<Rightarrow> read_tool_execution exec.
      exec_bind (finalize_running_attempt env ?run ?att status out code ref None None) f st2 = f (?terminal, ?fin) st3"
    "\<And>f :: order_observation option \<Rightarrow> read_tool_execution exec.
      exec_bind (save_found_observation env owner ?res ?terminal) f st3 = f ob st4"
    by (simp add: exec_bind_def exec_return_def, simp add: exec_bind_def exec_log_def st1_def,
        (rule exec_bind_Inr, (rule guard uuid fin' save))+)
  show ?thesis
    unfolding dispatched_read_def Let_def query_valid[OF ready] exec_construct_def sum.case reply order_reply.case
      result_of_reply_def[symmetric] tp prod.case steps
    using ob tp by (auto simp: exec_return_def completed_execution_def finalized_attempt_of_def first_attempt_def)
qed

lemma execute_reports:
  assumes "executor_ready env args owner command policy order_id"
    and "ee_fence env = Replies FENCE_APPLIED" "ee_order env = OrderReplies candidate"
    and "ee_finalize env 0 = Replies APPLIED" "ee_save_observation env = Replies OBS_INSERTED"
  shows "\<exists>rx st. execute_get_order env args initial_exec_state = (Inr rx, st)
    \<and> completed_execution env args command (result_of_reply env candidate) rx"
proof -
  from dispatched_completes[OF assms(1,3,4,5)] obtain rx st where
    "dispatched_read env owner order_id (min (ep_timeout_ms policy) (xa_remaining_run_time_budget_ms args))
       (ready_created env args command) (running_tool_call (ready_created env args command))
       (first_attempt (ee_uuid env 0) (ee_clock env 1)) (ready_state env args command) = (Inr rx, st)"
    "completed_execution env args command (result_of_reply env candidate) rx" by blast
  then show ?thesis
    unfolding execute_reaches_dispatch[OF assms(1,2)] exec_catch_cancel_def by simp
qed

lemma execute_returns:
  assumes "executor_ready env args owner command policy order_id"
    and "ee_fence env = Replies FENCE_APPLIED" "ee_order env = OrderReplies candidate"
    and "ee_finalize env 0 = Replies APPLIED" "ee_save_observation env = Replies OBS_INSERTED"
  shows "\<exists>rx st. execute_get_order env args initial_exec_state = (Inr rx, st)
    \<and> rx_get_order_outcome rx = Some (gr_outcome (result_of_reply env candidate))"
  using execute_reports[OF assms] unfolding completed_execution_def by blast

text \<open>A cancelled read is finalized as INTERRUPTED and traced before the cancellation goes on.\<close>

lemma dispatched_cancelled:
  assumes ready: "executor_ready env args owner command policy order_id"
    and reply: "ee_order env = OrderInterrupted"
  shows "dispatched_read env owner order_id timeout (ready_created env args command)
      (running_tool_call (ready_created env args command)) (first_attempt (ee_uuid env 0) (ee_clock env 1))
      (ready_state env args command)
    = (Inl TaskCancelledError, (ready_state env args command)
        \<lparr>xs_log := xs_log (ready_state env args command)
          @ [GetOrder \<lparr>gq_customer_id = os_customer_id owner, gq_order_id = order_id\<rparr>]\<rparr>)"
  unfolding dispatched_read_def Let_def query_valid[OF ready] exec_construct_def sum.case reply order_reply.case
  by (simp add: exec_bind_def exec_return_def exec_log_def exec_raise_def)

lemma cancellation_finalizes:
  assumes ready: "executor_ready env args owner command policy order_id"
    and k: "xs_clock st = 2" "xs_finalized st = 0" and applied: "ee_finalize env 0 = Replies APPLIED"
  shows "\<exists>terminal finalized event. tc_status terminal = TC_INTERRUPTED
    \<and> tc_interruption_reason terminal = Some (str ''TOOL_CALL_CANCELLED'')
    \<and> te_event_type event = TOOL_CALL_INTERRUPTED \<and> te_tool_call_id event = Some (tc_tool_call_id terminal)
    \<and> fst (on_cancellation env (running_tool_call (ready_created env args command))
        (first_attempt (ee_uuid env 0) (ee_clock env 1)) st) = Inl TaskCancelledError
    \<and> xs_log (snd (on_cancellation env (running_tool_call (ready_created env args command))
        (first_attempt (ee_uuid env 0) (ee_clock env 1)) st))
      = xs_log st @ [FinalizeToolCall (running_tool_call (ready_created env args command))
          (first_attempt (ee_uuid env 0) (ee_clock env 1)) terminal finalized, AppendTrace event]"
proof -
  let ?run = "running_tool_call (ready_created env args command)"
  let ?att = "first_attempt (ee_uuid env 0) (ee_clock env 1)"
  let ?code = "Some (str ''TOOL_CALL_CANCELLED'')"
  let ?terminal = "project_terminal ?run TC_INTERRUPTED (ee_clock env 2) ?code None ?code None"
  let ?fin = "finalized_attempt_of ?run ?att TR_INTERRUPTED ?code (ee_clock env 2)"
  let ?st1 = "st\<lparr>xs_clock := 3, xs_finalized := 1, xs_log := xs_log st @ [FinalizeToolCall ?run ?att ?terminal ?fin]\<rparr>"
  have fin: "finalize_running_attempt env ?run ?att TC_INTERRUPTED TR_INTERRUPTED ?code None None ?code st
      = (Inr (?terminal, ?fin), ?st1)"
    using finalize_completes[OF ready, of ?run "ee_uuid env 0" ?att st TC_INTERRUPTED TR_INTERRUPTED ?code None ?code None]
      k applied
    by (simp add: ready_created_def finalization_allowed_def TERMINAL_TOOL_OUTCOMES_def Let_def)
  let ?event = "(blank_event (ee_uuid env (xs_uuid st)) TOOL_CALL_INTERRUPTED (ee_clock env 2) (tc_run_id ?terminal))
        \<lparr>te_task_id := Some (tc_task_id ?terminal), te_request_unit_id := Some (tc_request_unit_id ?terminal),
         te_tool_call_id := Some (tc_tool_call_id ?terminal), te_tool_call_terminal_status := Some TC_INTERRUPTED\<rparr>"
  have "is_utc (ee_clock env 2)" using ready by (simp add: executor_ready_def trusted_read_def)
  then have event: "new_trace_event ?event = Inr ?event"
    by (simp add: new_trace_event_def construct_Inr_iff trace_event_guards_def blank_event_def)
  have t: "tc_finished_at ?terminal = Some (ee_clock env 2)" by (simp add: project_terminal_def)
  have trace: "xs_log (snd (append_interrupted_trace env ?terminal ?st1)) = xs_log ?st1 @ [AppendTrace ?event]"
    unfolding append_interrupted_trace_def t option.case
    using event
    by (simp add: exec_bind_def exec_fresh_uuid_def exec_construct_def exec_return_def exec_call_def exec_log_def
        exec_reply_def exec_raise_def split: port_reply.splits)
  have res: "on_cancellation env ?run ?att st = (Inl TaskCancelledError, snd (append_interrupted_trace env ?terminal ?st1))"
    using fin by (cases "append_interrupted_trace env ?terminal ?st1") (simp add: on_cancellation_def)
  have "fst (on_cancellation env ?run ?att st) = Inl TaskCancelledError" by (simp only: res fst_conv)
  moreover have "xs_log (snd (on_cancellation env ?run ?att st))
      = xs_log st @ [FinalizeToolCall ?run ?att ?terminal ?fin, AppendTrace ?event]"
    unfolding res snd_conv trace by simp
  moreover have "tc_status ?terminal = TC_INTERRUPTED"
    "tc_interruption_reason ?terminal = Some (str ''TOOL_CALL_CANCELLED'')"
    "te_event_type ?event = TOOL_CALL_INTERRUPTED" "te_tool_call_id ?event = Some (tc_tool_call_id ?terminal)"
    by (simp_all add: project_terminal_def blank_event_def)
  ultimately show ?thesis by blast
qed

lemma execute_cancelled:
  assumes "executor_ready env args owner command policy order_id"
    and "ee_fence env = Replies FENCE_APPLIED" "ee_order env = OrderInterrupted" "ee_finalize env 0 = Replies APPLIED"
  shows "fst (execute_get_order env args initial_exec_state) = Inl TaskCancelledError
    \<and> (\<exists>created running attempt query terminal finalized event.
         xs_log (snd (execute_get_order env args initial_exec_state)) =
           [InsertToolCall created, StartToolCall created running attempt, GetOrder query,
            FinalizeToolCall running attempt terminal finalized, AppendTrace event]
         \<and> tc_status terminal = TC_INTERRUPTED \<and> te_event_type event = TOOL_CALL_INTERRUPTED
         \<and> te_tool_call_id event = Some (tc_tool_call_id terminal))"
proof -
  let ?st = "(ready_state env args command)\<lparr>xs_log := xs_log (ready_state env args command)
          @ [GetOrder \<lparr>gq_customer_id = os_customer_id owner, gq_order_id = order_id\<rparr>]\<rparr>"
  have k: "xs_clock ?st = 2" "xs_finalized ?st = 0" by (simp_all add: ready_state_def)
  have "execute_get_order env args initial_exec_state
      = on_cancellation env (running_tool_call (ready_created env args command))
          (first_attempt (ee_uuid env 0) (ee_clock env 1)) ?st"
    unfolding execute_reaches_dispatch[OF assms(1,2)] exec_catch_cancel_def dispatched_cancelled[OF assms(1,3)] by simp
  moreover have "xs_log ?st = [InsertToolCall (ready_created env args command),
        StartToolCall (ready_created env args command) (running_tool_call (ready_created env args command))
          (first_attempt (ee_uuid env 0) (ee_clock env 1)),
        GetOrder \<lparr>gq_customer_id = os_customer_id owner, gq_order_id = order_id\<rparr>]"
    by (simp add: ready_state_def)
  ultimately show ?thesis
    using cancellation_finalizes[OF assms(1) k assms(4)] by (metis (no_types, lifting) append_Cons append_Nil)
qed

section \<open>The executor's writes are steps of the tool-call store\<close>

text \<open>
  Every write the executor asks the record port for is a step the store accepts, made of records and
  commands that satisfy the validators of \<open>application/records.py\<close> and \<open>domain\<close>.
\<close>

fun store_write :: "port_action \<Rightarrow> bool" where
  "store_write (InsertToolCall r) \<longleftrightarrow> tool_call_step (None, None) (Some r, None) \<and> new_tool_call_record r = Inr r
     \<and> accepts new_create_tool_call_command \<lparr>ctc_created_record = r\<rparr>"
| "store_write (StartToolCall r r' a) \<longleftrightarrow> tool_call_step (Some r, None) (Some r', Some a)
     \<and> new_tool_call_record r' = Inr r' \<and> new_tool_attempt_record a = Inr a
     \<and> accepts new_dispatch_tool_call_command
         \<lparr>dtc_expected_created_record = r, dtc_running_record = r', dtc_started_attempt = a\<rparr>"
| "store_write (FinalizeToolCall r a r' a') \<longleftrightarrow> tool_call_step (Some r, Some a) (Some r', Some a')
     \<and> new_tool_call_record r' = Inr r' \<and> new_tool_attempt_record a' = Inr a'
     \<and> accepts new_finalize_tool_call_command \<lparr>ftc_expected_running_record = r, ftc_expected_started_attempt = a,
         ftc_terminal_record = r', ftc_finalized_attempt = a'\<rparr>"
| "store_write (GetOrder q) \<longleftrightarrow> new_get_order_query q = Inr q"
| "store_write (SaveObservation s ob r) \<longleftrightarrow> tc_status r = TC_SUCCEEDED \<and> new_order_observation ob = Inr ob
     \<and> accepts new_save_observation_command
         \<lparr>soc_owner_scope = s, soc_observation_record = ob, soc_source_tool_call_record = r\<rparr>"
| "store_write (AppendTrace e) \<longleftrightarrow> te_event_type e = TOOL_CALL_INTERRUPTED
     \<and> te_tool_call_terminal_status e = Some TC_INTERRUPTED \<and> new_trace_event e = Inr e"

text \<open>What is written after the fence is neither a creation nor a dispatch.\<close>

fun opens_call :: "port_action \<Rightarrow> bool" where
  "opens_call (InsertToolCall r) = True"
| "opens_call (StartToolCall r r' a) = True"
| "opens_call _ = False"

definition late_write :: "port_action \<Rightarrow> bool" where
  "late_write a \<longleftrightarrow> store_write a \<and> \<not> opens_call a"

abbreviation writes_ok :: "'a exec \<Rightarrow> bool" where
  "writes_ok \<equiv> emits xs_log late_write"

lemma writes_call: "late_write a \<Longrightarrow> (\<And>x. writes_ok (f x)) \<Longrightarrow> writes_ok (exec_bind (exec_call a r) f)"
  by (rule appends_call) (auto elim: appends_mono)

lemma writes_log: "late_write a \<Longrightarrow> writes_ok (f ()) \<Longrightarrow> writes_ok (exec_bind (exec_log a) f)"
  by (rule appends_log) (auto elim: appends_mono)

text \<open>What a plain constructor returns is its argument, which it accepted.\<close>

lemma appends_plain:
  "plain_record mk \<Longrightarrow> (\<And>e. Q (Inl e) []) \<Longrightarrow> (mk x = Inr x \<Longrightarrow> appends (f x) Q)
     \<Longrightarrow> appends (exec_bind (exec_construct (mk x)) f) Q"
  by (rule appends_construct) (auto dest: plain_record.unchanged)

lemma writes_construct:
  "plain_record mk \<Longrightarrow> (mk x = Inr x \<Longrightarrow> writes_ok (f x)) \<Longrightarrow> writes_ok (exec_bind (exec_construct (mk x)) f)"
  by (rule appends_plain) simp_all

interpretation create_command: plain_record new_create_tool_call_command
  by (rule plain_recordI) (auto simp: new_create_tool_call_command_def construct_def Let_def)
interpretation dispatch_command: plain_record new_dispatch_tool_call_command
  by (rule plain_recordI) (auto simp: new_dispatch_tool_call_command_def construct_def Let_def)
interpretation finalize_command: plain_record new_finalize_tool_call_command
  by (rule plain_recordI) (auto simp: new_finalize_tool_call_command_def construct_def Let_def)
interpretation observation_command: plain_record new_save_observation_command
  by (rule plain_recordI) (auto simp: new_save_observation_command_def construct_def Let_def)
interpretation order_query: plain_record new_get_order_query
  by (rule plain_recordI) (auto simp: new_get_order_query_def construct_def Let_def)
interpretation observation: plain_record new_order_observation
  by (rule plain_recordI) (auto simp: new_order_observation_def construct_def Let_def)

lemmas writes_constructs =
  writes_construct[OF tool_call.plain_record_axioms] writes_construct[OF tool_attempt.plain_record_axioms]
  writes_construct[OF create_command.plain_record_axioms] writes_construct[OF dispatch_command.plain_record_axioms]
  writes_construct[OF finalize_command.plain_record_axioms] writes_construct[OF observation_command.plain_record_axioms]
  writes_construct[OF order_query.plain_record_axioms] writes_construct[OF observation.plain_record_axioms]
  writes_construct[OF trace.plain_record_axioms]

lemmas writes_intros = emits_raise_if writes_constructs emits_return appends_now appends_uuid appends_finalize_reply

text \<open>Branches of the source.\<close>

lemma writes_reply:
  "(\<And>r. writes_ok (f r)) \<Longrightarrow> writes_ok g \<Longrightarrow> (\<And>n. writes_ok (h n)) \<Longrightarrow> writes_ok i \<Longrightarrow>
     writes_ok (case o' of OrderReplies r \<Rightarrow> f r | OrderTimesOut \<Rightarrow> g | OrderRaises n \<Rightarrow> h n | OrderInterrupted \<Rightarrow> i)"
  by (cases o') simp_all

lemmas writes_branches = emits_branches writes_reply

subsection \<open>Operation by operation\<close>

lemma writes_finalize: "writes_ok (finalize_running_attempt env running attempt status outcome code ref phase reason)"
  unfolding finalize_running_attempt_def
  by (intro writes_intros writes_call) (auto simp: late_write_def accepts_iff intro: tool_call_step.Finalize)

lemma writes_trace: "writes_ok (append_interrupted_trace env terminal)"
  unfolding append_interrupted_trace_def
  by (intro writes_intros) (auto simp: late_write_def appends_def exec_call_def exec_bind_def exec_log_def exec_reply_def exec_return_def
      exec_raise_def blank_event_def split: port_reply.splits)

lemma saved_after_success:
  "new_save_observation_command c = Inr d \<Longrightarrow> tc_status (soc_source_tool_call_record c) = TC_SUCCEEDED"
  by (simp add: new_save_observation_command_def construct_Inr_iff Let_def)

lemma writes_save: "writes_ok (save_found_observation env owner result terminal)"
  unfolding save_found_observation_def Let_def
  by (intro writes_branches writes_intros writes_call) (auto simp: late_write_def accepts_iff dest: saved_after_success)

lemma writes_dispatched: "writes_ok (dispatched_read env owner order_id timeout created running attempt)"
  unfolding dispatched_read_def Let_def
  by (intro writes_intros writes_log writes_branches emits_bind[OF writes_finalize] emits_bind[OF writes_save]
      emits_bind[OF emits_if]) (simp_all add: late_write_def)

lemma writes_cancellation: "writes_ok (on_cancellation env running attempt)"
proof -
  let ?reason = "Some (str ''TOOL_CALL_CANCELLED'')"
  have "writes_ok (exec_bind (finalize_running_attempt env running attempt TC_INTERRUPTED TR_INTERRUPTED ?reason None None ?reason)
      (\<lambda>(terminal, _). append_interrupted_trace env terminal))"
    by (intro emits_bind writes_finalize emits_pair writes_trace)
  then show ?thesis
    unfolding appends_def on_cancellation_def exec_bind_def
    by (fastforce split: prod.splits sum.splits)
qed

lemma writes_catch:
  assumes "writes_ok m" "writes_ok h"
  shows "writes_ok (exec_catch_cancel m h)"
  unfolding appends_def
proof
  fix st
  obtain r st' where m: "m st = (r, st')" by (cases "m st")
  from assms(1) obtain l where l: "xs_log st' = xs_log st @ l" "list_all late_write l"
    unfolding appends_def by (metis m snd_conv)
  from assms(2) obtain l' where l': "xs_log (snd (h st')) = xs_log st' @ l'" "list_all late_write l'"
    unfolding appends_def by blast
  show "\<exists>added. xs_log (snd (exec_catch_cancel m h st)) = xs_log st @ added \<and> list_all late_write added"
  proof (cases "r = Inl TaskCancelledError")
    case True
    with m l l' show ?thesis by (intro exI[of _ "l @ l'"]) (simp add: exec_catch_cancel_def)
  next
    case False
    then have "exec_catch_cancel m h st = (r, st')"
      using m by (auto simp: exec_catch_cancel_def split: sum.splits exec_error.splits)
    with l show ?thesis by simp
  qed
qed

text \<open>The order of the whole: a creation, its dispatch, then only what follows a fence; a returned execution passed both.\<close>

definition read_written :: "exec_error + 'a \<Rightarrow> port_action list \<Rightarrow> bool" where
  "read_written r log \<longleftrightarrow> list_all store_write log
     \<and> ((log = [] \<and> isl r) \<or> (\<exists>c. log = [InsertToolCall c] \<and> isl r)
        \<or> (\<exists>c d a rest. log = InsertToolCall c # StartToolCall c d a # rest \<and> list_all late_write rest))"

lemma read_written_simps [simp]: "read_written (Inl e) []"
  by (simp add: read_written_def)

lemma written_instance:
  "appends m Q \<Longrightarrow> (\<And>x extra. appends (f x extra) Q) \<Longrightarrow> appends (case p of Foreign \<Rightarrow> m | Obj x extra \<Rightarrow> f x extra) Q"
  by (cases p) simp_all

lemma written_order_id:
  "appends m Q \<Longrightarrow> (\<And>s. appends (f s) Q) \<Longrightarrow> appends (case v of Some (JStr s) \<Rightarrow> f s | _ \<Rightarrow> m) Q"
  by (auto split: option.splits json.splits)

lemma late_all: "list_all late_write l \<Longrightarrow> list_all store_write l"
  by (auto simp: list_all_iff late_write_def)

text \<open>From the insertion on.\<close>

lemma fenced_written:
  assumes "store_write (InsertToolCall created)"
    and call: "store_write (StartToolCall created running attempt)"
  shows "appends (exec_bind (exec_call (StartToolCall created running attempt) reply)
      (\<lambda>fence. if fence \<noteq> FENCE_APPLIED then exec_return (execution fence)
        else exec_catch_cancel (dispatched_read env owner order_id timeout created running attempt)
          (on_cancellation env running attempt)))
    (\<lambda>r l. read_written r (InsertToolCall created # l))"
proof (rule appends_call)
  fix fence
  have "appends (exec_catch_cancel (dispatched_read env owner order_id timeout created running attempt)
      (on_cancellation env running attempt)) (\<lambda>r l. read_written r (InsertToolCall created # StartToolCall created running attempt # l))"
    by (rule appends_mono[OF writes_catch[OF writes_dispatched writes_cancellation]])
       (use assms in \<open>simp add: read_written_def late_all\<close>)
  then show "appends (if fence \<noteq> FENCE_APPLIED then exec_return (execution fence)
        else exec_catch_cancel (dispatched_read env owner order_id timeout created running attempt)
          (on_cancellation env running attempt))
      (\<lambda>r l. read_written r (InsertToolCall created # StartToolCall created running attempt # l))"
    using assms by (auto simp: read_written_def intro: appends_return)
qed (use assms in \<open>simp_all add: read_written_def\<close>)

lemma created_written:
  assumes "store_write (InsertToolCall created)" and "\<And>w. appends (f w) (\<lambda>r l. read_written r (InsertToolCall created # l))"
  shows "appends (exec_bind (exec_call (InsertToolCall created) reply) f) read_written"
  by (rule appends_call) (use assms in \<open>auto simp: read_written_def\<close>)

lemma appends_written: "appends (execute_get_order env args) read_written"
  unfolding execute_get_order_def Let_def
  by (intro written_instance appends_raise appends_raise_if written_order_id appends_now appends_uuid created_written
      appends_plain[OF tool_call.plain_record_axioms] appends_plain[OF create_command.plain_record_axioms]
      appends_plain[OF tool_attempt.plain_record_axioms] appends_plain[OF dispatch_command.plain_record_axioms] fenced_written)
    (auto simp: accepts_iff read_written_def intro: tool_call_step.Create tool_call_step.Dispatch)

lemma execute_written:
  "read_written (fst (execute_get_order env args initial_exec_state)) (xs_log (snd (execute_get_order env args initial_exec_state)))"
  using appends_written[of env args] unfolding appends_def
  by (metis append_Nil initial_exec_state_def exec_state.select_convs(4))

lemma writes_from_start: "list_all store_write (xs_log (snd (execute_get_order env args initial_exec_state)))"
  using execute_written[of env args] by (simp add: read_written_def)

end
