(* ===== verification/Read_Spec.thy ===== *)
theory Read_Spec
  imports Executor_Facts
begin

section \<open>What a read does, reply by reply\<close>

text \<open>
  A specification of \<open>execute_get_order\<close> that does not follow its program: the ToolCall and its
  attempt as whole records, a table of the five ways a read ends, and, for each reply of each port,
  the result and the list of what the ports were asked. The executor equals it for every reply of
  every port.
\<close>

subsection \<open>The records\<close>

text \<open>The one ToolCall of a read, and its one attempt, at any point of their life.\<close>

definition call_at ::
  "executor_env \<Rightarrow> executor_args \<Rightarrow> authorized_tool_command \<Rightarrow> int \<Rightarrow> tool_call_status \<Rightarrow> datetime option
   \<Rightarrow> pystr option \<Rightarrow> tool_timeout_phase option \<Rightarrow> pystr option \<Rightarrow> uuid option \<Rightarrow> tool_call_record" where
  "call_at env args command attempts status finished code phase reason ref =
     \<lparr>tc_tool_call_id = ee_uuid env 0, tc_run_id = xa_run_id args, tc_task_id = xa_task_id args,
      tc_request_unit_id = xa_request_unit_id args, tc_model_call_id = xa_model_call_id args,
      tc_context_manifest_id = xa_context_manifest_id args, tc_gate_decision_id = ac_gate_decision_id command,
      tc_provider_tool_call_id = xa_provider_tool_call_id args, tc_canonical_tool_name = str ''get_order'',
      tc_tool_registry_version = xa_tool_registry_version args,
      tc_validated_task_state_version = ac_validated_task_state_version command,
      tc_argument_binding_refs = ac_argument_binding_refs command, tc_effect = READ,
      tc_attempt_count = attempts, tc_status = status, tc_started_at = ee_clock env 0, tc_finished_at = finished,
      tc_failure_code = code, tc_timeout_phase = phase, tc_interruption_reason = reason, tc_result_ref = ref\<rparr>"

definition attempt_at ::
  "executor_env \<Rightarrow> datetime option \<Rightarrow> tool_result_outcome option \<Rightarrow> pystr option \<Rightarrow> tool_attempt_record" where
  "attempt_at env finished outcome code =
     \<lparr>at_tool_call_id = ee_uuid env 0, at_attempt_no = 1, at_started_at = ee_clock env 1, at_finished_at = finished,
      at_outcome = outcome, at_failure_code = code\<rparr>"

abbreviation created_at :: "executor_env \<Rightarrow> executor_args \<Rightarrow> authorized_tool_command \<Rightarrow> tool_call_record" where
  "created_at env args command \<equiv> call_at env args command 0 TC_CREATED None None None None None"

abbreviation running_at :: "executor_env \<Rightarrow> executor_args \<Rightarrow> authorized_tool_command \<Rightarrow> tool_call_record" where
  "running_at env args command \<equiv> call_at env args command 1 TC_RUNNING None None None None None"

abbreviation started_at :: "executor_env \<Rightarrow> tool_attempt_record" where
  "started_at env \<equiv> attempt_at env None None None"

subsection \<open>The five endings\<close>

datatype read_ending =
    EndFound order_summary_projection "pystr option" | EndMissing | EndFailed | EndTimedOut | EndCancelled

fun ending_call :: "executor_env \<Rightarrow> executor_args \<Rightarrow> authorized_tool_command \<Rightarrow> datetime \<Rightarrow> read_ending \<Rightarrow> tool_call_record" where
  "ending_call env args command t (EndFound s v) =
     call_at env args command 1 TC_SUCCEEDED (Some t) None None None (Some (ee_uuid env 1))"
| "ending_call env args command t EndMissing =
     call_at env args command 1 TC_FAILED (Some t) (Some (str ''NOT_FOUND_OR_NOT_ACCESSIBLE'')) None None None"
| "ending_call env args command t EndFailed =
     call_at env args command 1 TC_FAILED (Some t) (Some (str ''ORDER_SERVICE_UNAVAILABLE'')) None None None"
| "ending_call env args command t EndTimedOut =
     call_at env args command 1 TC_TIMED_OUT (Some t) (Some (str ''TOOL_CALL_TIMEOUT'')) (Some AFTER_DISPATCH) None None"
| "ending_call env args command t EndCancelled =
     call_at env args command 1 TC_INTERRUPTED (Some t) (Some (str ''TOOL_CALL_CANCELLED'')) None
       (Some (str ''TOOL_CALL_CANCELLED'')) None"

fun ending_attempt :: "executor_env \<Rightarrow> datetime \<Rightarrow> read_ending \<Rightarrow> tool_attempt_record" where
  "ending_attempt env t (EndFound s v) = attempt_at env (Some t) (Some TR_SUCCESS) None"
| "ending_attempt env t EndMissing =
     attempt_at env (Some t) (Some TR_BUSINESS_FAILURE) (Some (str ''NOT_FOUND_OR_NOT_ACCESSIBLE''))"
| "ending_attempt env t EndFailed =
     attempt_at env (Some t) (Some TR_SYSTEM_FAILURE) (Some (str ''ORDER_SERVICE_UNAVAILABLE''))"
| "ending_attempt env t EndTimedOut = attempt_at env (Some t) (Some TR_TIMEOUT) (Some (str ''TOOL_CALL_TIMEOUT''))"
| "ending_attempt env t EndCancelled = attempt_at env (Some t) (Some TR_INTERRUPTED) (Some (str ''TOOL_CALL_CANCELLED''))"

fun ending_outcome :: "read_ending \<Rightarrow> get_order_outcome" where
  "ending_outcome (EndFound s v) = FOUND"
| "ending_outcome EndMissing = NOT_FOUND_OR_NOT_ACCESSIBLE"
| "ending_outcome _ = SYSTEM_FAILURE"

text \<open>How an answer of the order service ends the read; one that is not admitted is a failure of the service.\<close>

definition ending_of :: "executor_env \<Rightarrow> received_result \<Rightarrow> read_ending" where
  "ending_of env candidate =
     (case canonical_get_order_result (ee_outcomes env) (ee_statuses env) candidate of
        None \<Rightarrow> EndFailed
      | Some r \<Rightarrow> (case (gr_outcome r, gr_order_summary r) of
           (FOUND, Some (Obj summary _)) \<Rightarrow> EndFound summary (gr_source_version r)
         | (NOT_FOUND_OR_NOT_ACCESSIBLE, _) \<Rightarrow> EndMissing
         | _ \<Rightarrow> EndFailed))"

definition observation_of :: "executor_env \<Rightarrow> order_summary_projection \<Rightarrow> pystr option \<Rightarrow> order_observation" where
  "observation_of env summary version =
     \<lparr>oo_observation_id = ee_uuid env 2, oo_source_tool = str ''get_order'',
      oo_source_resource_ref = os_order_number summary, oo_source_version = version,
      oo_normalized_type = str ''ORDER_SUMMARY'', oo_normalized_value = Obj summary [],
      oo_observed_at = ee_clock env 2, oo_recorded_at = ee_clock env 2, oo_valid_until = None,
      oo_supersedes = None, oo_raw_result_ref = None, oo_visibility = VIS_MODEL_VISIBLE\<rparr>"

definition interruption_event :: "executor_env \<Rightarrow> executor_args \<Rightarrow> uuid \<Rightarrow> datetime \<Rightarrow> trace_event" where
  "interruption_event env args event_id t =
     (blank_event event_id TOOL_CALL_INTERRUPTED t (xa_run_id args))
       \<lparr>te_task_id := Some (xa_task_id args), te_request_unit_id := Some (xa_request_unit_id args),
        te_tool_call_id := Some (ee_uuid env 0), te_tool_call_terminal_status := Some TC_INTERRUPTED\<rparr>"

subsection \<open>The read\<close>

text \<open>
  A cancellation: the ToolCall is finalized as interrupted, which is traced when the store accepted
  it; whatever the two writes answer, the cancellation goes on. \<open>finals\<close>, \<open>ticks\<close> and \<open>ids\<close> count the
  finalizations, clock readings and identifiers used before.
\<close>

definition cancelled_spec ::
  "executor_env \<Rightarrow> executor_args \<Rightarrow> authorized_tool_command \<Rightarrow> nat \<Rightarrow> nat \<Rightarrow> nat \<Rightarrow> port_action list
   \<Rightarrow> (exec_error + read_tool_execution) \<times> port_action list" where
  "cancelled_spec env args command finals ticks ids asked =
     (Inl TaskCancelledError,
      asked @ FinalizeToolCall (running_at env args command) (started_at env)
          (ending_call env args command (ee_clock env ticks) EndCancelled)
          (ending_attempt env (ee_clock env ticks) EndCancelled)
        # (if ee_finalize env finals = Replies APPLIED
           then [AppendTrace (interruption_event env args (ee_uuid env ids) (ee_clock env ticks))] else []))"

text \<open>An ending that is not a cancellation: finalized, and for a found order the Observation saved, before it is reported.\<close>

definition ended_spec ::
  "executor_env \<Rightarrow> executor_args \<Rightarrow> trusted_owner_scope \<Rightarrow> authorized_tool_command \<Rightarrow> execution_policy
   \<Rightarrow> read_ending \<Rightarrow> port_action list \<Rightarrow> (exec_error + read_tool_execution) \<times> port_action list" where
  "ended_spec env args owner command policy ending asked =
     (let terminal = ending_call env args command (ee_clock env 2) ending;
          finalized = ending_attempt env (ee_clock env 2) ending;
          asked' = asked @ [FinalizeToolCall (running_at env args command) (started_at env) terminal finalized];
          report = (\<lambda>observation.
            \<lparr>rx_created_tool_call = created_at env args command, rx_dispatch_fence_result = FENCE_APPLIED,
             rx_terminal_tool_call = Some terminal, rx_finalized_attempt = Some finalized,
             rx_get_order_outcome = Some (ending_outcome ending), rx_observation = observation,
             rx_effective_timeout_ms = Some (min (ep_timeout_ms policy) (xa_remaining_run_time_budget_ms args))\<rparr>)
      in (case ee_finalize env 0 of
            Interrupted \<Rightarrow> cancelled_spec env args command 1 3 (case ending of EndFound _ _ \<Rightarrow> 2 | _ \<Rightarrow> 1) asked'
          | Raises n \<Rightarrow> (Inl (PortError n), asked')
          | Replies answer \<Rightarrow>
              if answer \<noteq> APPLIED then (Inl (ExecutionError ''ToolCall finalization conflict''), asked')
              else (case ending of
                EndFound summary version \<Rightarrow>
                  let observation = observation_of env summary version;
                      asked'' = asked' @ [SaveObservation owner observation terminal]
                  in (case ee_save_observation env of
                        Interrupted \<Rightarrow> cancelled_spec env args command 1 3 3 asked''
                      | Raises n \<Rightarrow> (Inl (PortError n), asked'')
                      | Replies saved \<Rightarrow>
                          if saved = OBS_SOURCE_PROJECTION_CONFLICT
                          then (Inl (ExecutionError ''Observation source conflict''), asked'')
                          else (Inr (report (Some observation)), asked''))
              | _ \<Rightarrow> (Inr (report None), asked'))))"

definition read_spec ::
  "executor_env \<Rightarrow> executor_args \<Rightarrow> trusted_owner_scope \<Rightarrow> authorized_tool_command \<Rightarrow> execution_policy
   \<Rightarrow> pystr \<Rightarrow> (exec_error + read_tool_execution) \<times> port_action list" where
  "read_spec env args owner command policy order_id =
     (let created = created_at env args command; running = running_at env args command; attempt = started_at env;
          inserted = [InsertToolCall created];
          dispatched = inserted @ [StartToolCall created running attempt];
          asked = dispatched @ [GetOrder \<lparr>gq_customer_id = os_customer_id owner, gq_order_id = order_id\<rparr>]
      in (case ee_insert env of
            Interrupted \<Rightarrow> (Inl TaskCancelledError, inserted)
          | Raises n \<Rightarrow> (Inl (PortError n), inserted)
          | Replies ALREADY_EXISTS \<Rightarrow> (Inl (ExecutionError ''ToolCall insert conflict''), inserted)
          | Replies INSERTED \<Rightarrow> (case ee_fence env of
              Interrupted \<Rightarrow> (Inl TaskCancelledError, dispatched)
            | Raises n \<Rightarrow> (Inl (PortError n), dispatched)
            | Replies fence \<Rightarrow>
                if fence \<noteq> FENCE_APPLIED
                then (Inr \<lparr>rx_created_tool_call = created, rx_dispatch_fence_result = fence,
                       rx_terminal_tool_call = None, rx_finalized_attempt = None, rx_get_order_outcome = None,
                       rx_observation = None,
                       rx_effective_timeout_ms = Some (min (ep_timeout_ms policy) (xa_remaining_run_time_budget_ms args))\<rparr>,
                      dispatched)
                else (case ee_order env of
                  OrderInterrupted \<Rightarrow> cancelled_spec env args command 0 2 1 asked
                | OrderRaises n \<Rightarrow> (Inl (PortError n), asked)
                | OrderTimesOut \<Rightarrow> ended_spec env args owner command policy EndTimedOut asked
                | OrderReplies candidate \<Rightarrow> ended_spec env args owner command policy (ending_of env candidate) asked))))"

subsection \<open>The executor's records are these\<close>

lemma records_at:
  "created_tool_call args command (ee_uuid env 0) (ee_clock env 0) = created_at env args command"
  "running_tool_call (created_at env args command) = running_at env args command"
  "first_attempt (ee_uuid env 0) (ee_clock env 1) = started_at env"
  "project_terminal (running_at env args command) status t code phase reason ref
     = call_at env args command 1 status (Some t) code phase reason ref"
  "finalized_attempt_of (running_at env args command) (started_at env) out code t = attempt_at env (Some t) (Some out) code"
  by (simp_all add: created_tool_call_def call_at_def running_tool_call_def first_attempt_def attempt_at_def
      project_terminal_def finalized_attempt_of_def)

lemma ready_created_at: "ready_created env args command = created_at env args command"
  by (simp add: ready_created_def records_at)

lemma finalize_at:
  assumes "trusted_read env args owner command policy order_id"
    and "xs_clock st = 2 \<or> xs_clock st = 3" and "finalization_allowed status out code phase reason"
  shows "finalize_running_attempt env (running_at env args command) (started_at env) status out code ref phase reason st =
    (let t = ee_clock env (xs_clock st); terminal = call_at env args command 1 status (Some t) code phase reason ref;
         finalized = attempt_at env (Some t) (Some out) code
     in (case ee_finalize env (xs_finalized st) of
           Replies w \<Rightarrow> if w = APPLIED then Inr (terminal, finalized) else Inl (ExecutionError ''ToolCall finalization conflict'')
         | Raises n \<Rightarrow> Inl (PortError n) | Interrupted \<Rightarrow> Inl TaskCancelledError,
         st\<lparr>xs_clock := xs_clock st + 1, xs_finalized := xs_finalized st + 1,
            xs_log := xs_log st @ [FinalizeToolCall (running_at env args command) (started_at env) terminal finalized]\<rparr>))"
proof -
  have r: "running_at env args command = running_tool_call (created_tool_call args command (ee_uuid env 0) (ee_clock env 0))"
    by (simp only: records_at)
  have a: "started_at env = first_attempt (ee_uuid env 0) (ee_clock env 1)" by (simp only: records_at)
  from finalize_runs[OF assms(1) r a assms(2,3)] show ?thesis by (simp only: records_at)
qed

abbreviation seen :: "('a \<times> exec_state) \<Rightarrow> 'a \<times> port_action list" where
  "seen r \<equiv> (fst r, xs_log (snd r))"

lemma cancellation_at:
  assumes ready: "trusted_read env args owner command policy order_id" and k: "xs_clock st = 2 \<or> xs_clock st = 3"
  shows "seen (on_cancellation env (running_at env args command) (started_at env) st)
    = cancelled_spec env args command (xs_finalized st) (xs_clock st) (xs_uuid st) (xs_log st)"
proof -
  let ?t = "ee_clock env (xs_clock st)"
  let ?code = "Some (str ''TOOL_CALL_CANCELLED'')"
  let ?terminal = "call_at env args command 1 TC_INTERRUPTED (Some ?t) ?code None ?code None"
  have allowed: "finalization_allowed TC_INTERRUPTED TR_INTERRUPTED ?code None ?code"
    by (simp add: finalization_allowed_def TERMINAL_TOOL_OUTCOMES_def)
  have utc: "is_utc ?t" using ready k by (auto simp: trusted_read_def)
  have event: "new_trace_event (interruption_event env args i ?t) = Inr (interruption_event env args i ?t)" for i
    using utc by (simp add: new_trace_event_def construct_Inr_iff trace_event_guards_def blank_event_def interruption_event_def)
  have trace: "xs_log (snd (append_interrupted_trace env ?terminal st'))
      = xs_log st' @ [AppendTrace (interruption_event env args (ee_uuid env (xs_uuid st')) ?t)]" for st'
    using event[of "ee_uuid env (xs_uuid st')"]
    by (simp add: append_interrupted_trace_def call_at_def exec_bind_def exec_fresh_uuid_def exec_construct_def
        exec_return_def exec_call_def exec_log_def exec_reply_def exec_raise_def interruption_event_def
        split: port_reply.splits)
  let ?st1 = "st\<lparr>xs_clock := xs_clock st + 1, xs_finalized := xs_finalized st + 1,
      xs_log := xs_log st @ [FinalizeToolCall (running_at env args command) (started_at env) ?terminal
        (attempt_at env (Some ?t) (Some TR_INTERRUPTED) ?code)]\<rparr>"
  have traced: "xs_log (snd (append_interrupted_trace env ?terminal ?st1)) = xs_log ?st1
      @ [AppendTrace (interruption_event env args (ee_uuid env (xs_uuid st)) ?t)]"
    using trace[of ?st1] by simp
  show ?thesis
    using traced
    unfolding on_cancellation_def finalize_at[OF ready k allowed] Let_def cancelled_spec_def
    by (cases "ee_finalize env (xs_finalized st)") (simp_all add: case_prod_beta)
qed

text \<open>An Observation is written for every found order; how that ends is the answer of the store.\<close>

lemma save_at:
  assumes res: "admitted_result result" and found: "gr_outcome result = FOUND"
    and summary: "gr_order_summary result = Some (Obj summary extra)"
    and t: "is_utc (ee_clock env 2)" and u: "xs_uuid st = 2"
    and terminal: "terminal = ending_call env args command (ee_clock env 2) (EndFound summary (gr_source_version result))"
  shows "save_found_observation env owner result terminal st =
    (let observation = observation_of env summary (gr_source_version result)
     in (case ee_save_observation env of
           Replies w \<Rightarrow> if w = OBS_SOURCE_PROJECTION_CONFLICT then Inl (ExecutionError ''Observation source conflict'')
             else Inr (Some observation)
         | Raises n \<Rightarrow> Inl (PortError n) | Interrupted \<Rightarrow> Inl TaskCancelledError,
         st\<lparr>xs_uuid := 3, xs_log := xs_log st @ [SaveObservation owner observation terminal]\<rparr>))"
proof -
  from res found summary have s: "extra = []" "accepts new_order_summary_projection summary"
    by (auto simp: admitted_result_def split: option.splits)
  have num: "NonEmptyString (os_order_number summary)"
    using s(2) by (auto simp: accepts_iff new_order_summary_projection_def construct_Inr_iff OrderId_def NonEmptyString_def)
  have ver: "opt_all NonEmptyString (gr_source_version result)"
    using res found by (cases "gr_source_version result")
      (auto simp: admitted_result_def accepts_iff new_get_order_result_def construct_Inr_iff
        GetOrderSourceVersion_def source_version_prefix_def NonEmptyString_def)
  let ?ob = "observation_of env summary (gr_source_version result)"
  have ob: "new_order_observation ?ob = Inr ?ob"
    using num ver t by (simp add: new_order_observation_def observation_of_def construct_def construct_with_def failing_def
        checks_def dt_less_def Let_def)
  have cmd: "new_save_observation_command \<lparr>soc_owner_scope = owner, soc_observation_record = ?ob, soc_source_tool_call_record = terminal\<rparr>
     = Inr \<lparr>soc_owner_scope = owner, soc_observation_record = ?ob, soc_source_tool_call_record = terminal\<rparr>"
    unfolding terminal
    by (simp add: new_save_observation_command_def observation_of_def call_at_def construct_def construct_with_def failing_def
        checks_def Let_def)
  have fin: "tc_finished_at terminal = Some (ee_clock env 2)" by (simp add: terminal call_at_def)
  show ?thesis
    unfolding save_found_observation_def fin option.case Let_def
    using found summary s(1) ob cmd u
    by (cases "ee_save_observation env"; cases "(case ee_save_observation env of Replies w \<Rightarrow> w | _ \<Rightarrow> OBS_INSERTED)")
       (simp_all add: exec_bind_def exec_fresh_uuid_def exec_construct_def exec_return_def fields_of_def
        observation_of_def exec_call_def exec_log_def exec_reply_def exec_raise_if_def exec_raise_def eval_nat_numeral)
qed

subsection \<open>The executor equals the specification\<close>

lemma query_at:
  "trusted_read env args owner command policy order_id \<Longrightarrow>
     new_get_order_query \<lparr>gq_customer_id = os_customer_id owner, gq_order_id = order_id\<rparr>
       = Inr \<lparr>gq_customer_id = os_customer_id owner, gq_order_id = order_id\<rparr>"
  by (simp add: new_get_order_query_def construct_Inr_iff trusted_read_def)

text \<open>The computation up to the fence.\<close>

definition dispatched_state :: "executor_env \<Rightarrow> executor_args \<Rightarrow> authorized_tool_command \<Rightarrow> exec_state" where
  "dispatched_state env args command =
     \<lparr>xs_clock = 2, xs_uuid = 1, xs_finalized = 0,
      xs_log = [InsertToolCall (created_at env args command),
        StartToolCall (created_at env args command) (running_at env args command) (started_at env)]\<rparr>"

lemma execute_at:
  assumes ready: "trusted_read env args owner command policy order_id"
  defines "timeout \<equiv> min (ep_timeout_ms policy) (xa_remaining_run_time_budget_ms args)"
    and "inserted \<equiv> [InsertToolCall (created_at env args command)]"
    and "dispatched \<equiv> [InsertToolCall (created_at env args command),
        StartToolCall (created_at env args command) (running_at env args command) (started_at env)]"
  shows "seen (execute_get_order env args initial_exec_state) =
    (case ee_insert env of
       Interrupted \<Rightarrow> (Inl TaskCancelledError, inserted)
     | Raises n \<Rightarrow> (Inl (PortError n), inserted)
     | Replies w \<Rightarrow> if w \<noteq> INSERTED then (Inl (ExecutionError ''ToolCall insert conflict''), inserted)
         else (case ee_fence env of
           Interrupted \<Rightarrow> (Inl TaskCancelledError, dispatched)
         | Raises n \<Rightarrow> (Inl (PortError n), dispatched)
         | Replies fence \<Rightarrow> if fence \<noteq> FENCE_APPLIED
             then (Inr \<lparr>rx_created_tool_call = created_at env args command, rx_dispatch_fence_result = fence,
               rx_terminal_tool_call = None, rx_finalized_attempt = None, rx_get_order_outcome = None,
               rx_observation = None, rx_effective_timeout_ms = Some timeout\<rparr>, dispatched)
             else seen (exec_catch_cancel
               (dispatched_read env owner order_id timeout (created_at env args command) (running_at env args command) (started_at env))
               (on_cancellation env (running_at env args command) (started_at env)) (dispatched_state env args command))))"
proof -
  let ?c = "created_at env args command"
  let ?a = "started_at env"
  note valid = created_valid[OF ready, of "ee_uuid env 0", unfolded records_at]
  have create: "new_create_tool_call_command \<lparr>ctc_created_record = ?c\<rparr> = Inr \<lparr>ctc_created_record = ?c\<rparr>"
    by (simp add: command_defs Let_def call_at_def clean_projection_def)
  have att: "new_tool_attempt_record ?a = Inr ?a"
    using ready by (simp add: new_tool_attempt_record_def construct_Inr_iff tool_attempt_lifecycle_def
        attempt_at_def trusted_read_def)
  have att': "\<lparr>at_tool_call_id = tc_tool_call_id ?c, at_attempt_no = 1, at_started_at = ee_clock env 1,
      at_finished_at = None, at_outcome = None, at_failure_code = None\<rparr> = ?a"
    by (simp add: attempt_at_def call_at_def)
  have disp: "new_dispatch_tool_call_command \<lparr>dtc_expected_created_record = ?c,
      dtc_running_record = running_at env args command, dtc_started_attempt = ?a\<rparr> = Inr \<lparr>dtc_expected_created_record = ?c,
      dtc_running_record = running_at env args command, dtc_started_attempt = ?a\<rparr>"
    by (simp add: command_defs Let_def call_at_def clean_projection_def
        unfinished_attempt_def attempt_at_def same_immutable_fields_def)
  have pre: "xa_owner_scope args = Obj owner []" "xa_authorized_command args = Obj command []"
    "xa_execution_policy args = Obj policy []" "ep_max_attempts policy = 1"
    "ep_interrupt_behavior policy = str ''MARK_INTERRUPTED''" "\<not> xa_remaining_run_time_budget_ms args \<le> 0"
    "ac_canonical_tool_name command = str ''get_order''"
    "ac_registry_snapshot_ref command = xa_tool_registry_version args"
    "ac_validated_arguments command = [(str ''order_id'', JStr order_id)]"
    using ready by (simp_all add: trusted_read_def)
  show ?thesis
    unfolding execute_get_order_def pre pyobj.case
    using valid create disp att
    by (cases "ee_insert env"; cases "ee_fence env")
       (simp_all add: pre(4-) exec_bind_def exec_raise_if_def exec_return_def exec_now_def exec_fresh_uuid_def
        exec_construct_def exec_call_def exec_log_def exec_reply_def exec_raise_def initial_exec_state_def dispatched_state_def
        records_at att'[simplified] timeout_def inserted_def dispatched_def Let_def numeral_2_eq_2)
qed

lemma ending_of_reply:
  "(\<exists>s. gr_outcome (result_of_reply env candidate) = FOUND \<and> gr_order_summary (result_of_reply env candidate) = Some (Obj s [])
      \<and> ending_of env candidate = EndFound s (gr_source_version (result_of_reply env candidate)))
   \<or> (gr_outcome (result_of_reply env candidate) = NOT_FOUND_OR_NOT_ACCESSIBLE \<and> ending_of env candidate = EndMissing)
   \<or> (gr_outcome (result_of_reply env candidate) = SYSTEM_FAILURE \<and> ending_of env candidate = EndFailed)"
  using result_of_reply_admitted[of env candidate]
  by (cases "canonical_get_order_result (ee_outcomes env) (ee_statuses env) candidate")
     (auto simp: result_of_reply_def ending_of_def unavailable_result_def admitted_result_def
       split: get_order_outcome.splits option.splits)

lemma seen_catch:
  "seen (exec_catch_cancel m h st) = (if fst (m st) = Inl TaskCancelledError then seen (h (snd (m st))) else seen (m st))"
  by (auto simp: exec_catch_cancel_def split: prod.splits sum.splits exec_error.splits)

definition asking_state :: "executor_env \<Rightarrow> executor_args \<Rightarrow> trusted_owner_scope \<Rightarrow> authorized_tool_command \<Rightarrow> pystr \<Rightarrow> exec_state" where
  "asking_state env args owner command order_id = (dispatched_state env args command)
     \<lparr>xs_log := xs_log (dispatched_state env args command)
        @ [GetOrder \<lparr>gq_customer_id = os_customer_id owner, gq_order_id = order_id\<rparr>]\<rparr>"

lemma asking_simps [simp]:
  "xs_clock (asking_state env args owner command order_id) = 2"
  "xs_uuid (asking_state env args owner command order_id) = 1"
  "xs_finalized (asking_state env args owner command order_id) = 0"
  by (simp_all add: asking_state_def dispatched_state_def)

text \<open>One ending that writes no Observation.\<close>

lemma ended_at:
  assumes ready: "trusted_read env args owner command policy order_id"
    and allowed: "finalization_allowed status out code phase None"
    and same: "ending_call env args command (ee_clock env 2) e = call_at env args command 1 status (Some (ee_clock env 2)) code phase None None"
      "ending_attempt env (ee_clock env 2) e = attempt_at env (Some (ee_clock env 2)) (Some out) code"
    and e: "\<And>s v. e \<noteq> EndFound s v"
    and body: "body (dispatched_state env args command) = exec_bind
       (finalize_running_attempt env (running_at env args command) (started_at env) status out code None phase None)
       (\<lambda>(terminal, finalized). exec_return
         \<lparr>rx_created_tool_call = created_at env args command, rx_dispatch_fence_result = FENCE_APPLIED,
          rx_terminal_tool_call = Some terminal, rx_finalized_attempt = Some finalized,
          rx_get_order_outcome = Some (ending_outcome e), rx_observation = None,
          rx_effective_timeout_ms = Some (min (ep_timeout_ms policy) (xa_remaining_run_time_budget_ms args))\<rparr>)
       (asking_state env args owner command order_id)"
  shows "seen (exec_catch_cancel body (on_cancellation env (running_at env args command) (started_at env))
      (dispatched_state env args command))
    = ended_spec env args owner command policy e (xs_log (asking_state env args owner command order_id))"
proof -
  let ?st1 = "asking_state env args owner command order_id"
  let ?st2 = "?st1\<lparr>xs_clock := 3, xs_finalized := 1, xs_log := xs_log ?st1 @ [FinalizeToolCall (running_at env args command)
      (started_at env) (ending_call env args command (ee_clock env 2) e) (ending_attempt env (ee_clock env 2) e)]\<rparr>"
  have fin: "finalize_running_attempt env (running_at env args command) (started_at env) status out code None phase None ?st1 =
    (case ee_finalize env 0 of
       Replies w \<Rightarrow> if w = APPLIED then Inr (ending_call env args command (ee_clock env 2) e, ending_attempt env (ee_clock env 2) e)
         else Inl (ExecutionError ''ToolCall finalization conflict'')
     | Raises n \<Rightarrow> Inl (PortError n) | Interrupted \<Rightarrow> Inl TaskCancelledError, ?st2)"
    unfolding same using finalize_at[OF ready _ allowed, of ?st1 None] by (simp add: Let_def)
  have cancelled: "seen (on_cancellation env (running_at env args command) (started_at env) ?st2)
      = cancelled_spec env args command 1 3 1 (xs_log ?st2)"
    using cancellation_at[OF ready, of ?st2] by simp
  have one: "(case e of EndFound _ _ \<Rightarrow> 2 | _ \<Rightarrow> 1) = (1::nat)" using e by (cases e) auto
  show ?thesis
  proof (cases "ee_finalize env 0")
    case (Replies w)
    then show ?thesis
      unfolding seen_catch body exec_bind_def fin ended_spec_def Let_def
      using e by (cases e) (auto simp: exec_return_def)
  next
    case (Raises n)
    then show ?thesis
      unfolding seen_catch body exec_bind_def fin ended_spec_def Let_def by simp
  next
    case Interrupted
    then show ?thesis
      unfolding seen_catch body exec_bind_def fin ended_spec_def Let_def one using cancelled by simp
  qed
qed

text \<open>A found order.\<close>

lemma found_at:
  assumes ready: "trusted_read env args owner command policy order_id"
    and res: "admitted_result result" and found: "gr_outcome result = FOUND"
    and summary: "gr_order_summary result = Some (Obj summary [])"
    and body: "body (dispatched_state env args command) = exec_bind
       (finalize_running_attempt env (running_at env args command) (started_at env) TC_SUCCEEDED TR_SUCCESS None
         (Some (ee_uuid env 1)) None None)
       (\<lambda>(terminal, finalized). exec_bind (save_found_observation env owner result terminal) (\<lambda>observation. exec_return
         \<lparr>rx_created_tool_call = created_at env args command, rx_dispatch_fence_result = FENCE_APPLIED,
          rx_terminal_tool_call = Some terminal, rx_finalized_attempt = Some finalized,
          rx_get_order_outcome = Some FOUND, rx_observation = observation,
          rx_effective_timeout_ms = Some (min (ep_timeout_ms policy) (xa_remaining_run_time_budget_ms args))\<rparr>))
       ((asking_state env args owner command order_id)\<lparr>xs_uuid := 2\<rparr>)"
  shows "seen (exec_catch_cancel body (on_cancellation env (running_at env args command) (started_at env))
      (dispatched_state env args command))
    = ended_spec env args owner command policy (EndFound summary (gr_source_version result))
        (xs_log (asking_state env args owner command order_id))"
proof -
  let ?e = "EndFound summary (gr_source_version result)"
  let ?terminal = "ending_call env args command (ee_clock env 2) ?e"
  let ?fin = "ending_attempt env (ee_clock env 2) ?e"
  let ?ob = "observation_of env summary (gr_source_version result)"
  let ?st1 = "(asking_state env args owner command order_id)\<lparr>xs_uuid := 2\<rparr>"
  let ?st2 = "?st1\<lparr>xs_clock := 3, xs_finalized := 1, xs_log := xs_log ?st1 @
      [FinalizeToolCall (running_at env args command) (started_at env) ?terminal ?fin]\<rparr>"
  let ?st3 = "?st2\<lparr>xs_uuid := 3, xs_log := xs_log ?st2 @ [SaveObservation owner ?ob ?terminal]\<rparr>"
  have allowed: "finalization_allowed TC_SUCCEEDED TR_SUCCESS None None None"
    by (simp add: finalization_allowed_def TERMINAL_TOOL_OUTCOMES_def)
  have fin: "finalize_running_attempt env (running_at env args command) (started_at env) TC_SUCCEEDED TR_SUCCESS None
      (Some (ee_uuid env 1)) None None ?st1 =
    (case ee_finalize env 0 of
       Replies w \<Rightarrow> if w = APPLIED then Inr (?terminal, ?fin) else Inl (ExecutionError ''ToolCall finalization conflict'')
     | Raises n \<Rightarrow> Inl (PortError n) | Interrupted \<Rightarrow> Inl TaskCancelledError, ?st2)"
    unfolding ending_call.simps ending_attempt.simps One_nat_def
    using finalize_at[OF ready _ allowed, of ?st1 "Some (ee_uuid env 1)"] by (simp add: Let_def)
  have utc: "is_utc (ee_clock env 2)" using ready by (simp add: trusted_read_def)
  have save: "save_found_observation env owner result ?terminal ?st2 =
    (case ee_save_observation env of
       Replies w \<Rightarrow> if w = OBS_SOURCE_PROJECTION_CONFLICT then Inl (ExecutionError ''Observation source conflict'') else Inr (Some ?ob)
     | Raises n \<Rightarrow> Inl (PortError n) | Interrupted \<Rightarrow> Inl TaskCancelledError, ?st3)"
    using save_at[OF res found summary utc _ refl, of ?st2] by (simp add: Let_def)
  have cancelled: "seen (on_cancellation env (running_at env args command) (started_at env) ?st2)
      = cancelled_spec env args command 1 3 2 (xs_log ?st2)"
    "seen (on_cancellation env (running_at env args command) (started_at env) ?st3)
      = cancelled_spec env args command 1 3 3 (xs_log ?st3)"
    using cancellation_at[OF ready, of ?st2] cancellation_at[OF ready, of ?st3] by simp_all
  show ?thesis
  proof (cases "ee_finalize env 0 = Replies APPLIED")
    case True
    then have fin': "finalize_running_attempt env (running_at env args command) (started_at env) TC_SUCCEEDED TR_SUCCESS None
      (Some (ee_uuid env 1)) None None ?st1 = (Inr (?terminal, ?fin), ?st2)" using fin by simp
    show ?thesis
    proof (cases "ee_save_observation env")
      case (Replies w)
      then show ?thesis
        unfolding seen_catch body exec_bind_def fin' prod.case sum.case save ended_spec_def Let_def True
        by (simp add: exec_return_def)
    next
      case (Raises n)
      then show ?thesis
        unfolding seen_catch body exec_bind_def fin' prod.case sum.case save ended_spec_def Let_def True by simp
    next
      case Interrupted
      then show ?thesis
        unfolding seen_catch body exec_bind_def fin' prod.case sum.case save ended_spec_def Let_def True
        using cancelled(2) by simp
    qed
  next
    case False
    then show ?thesis
      unfolding seen_catch body exec_bind_def fin ended_spec_def Let_def
      using cancelled(1) by (cases "ee_finalize env 0") simp_all
  qed
qed

lemma dispatched_at:
  assumes ready: "trusted_read env args owner command policy order_id"
  defines "timeout \<equiv> min (ep_timeout_ms policy) (xa_remaining_run_time_budget_ms args)"
    and "asked \<equiv> xs_log (asking_state env args owner command order_id)"
  shows "seen (exec_catch_cancel
      (dispatched_read env owner order_id timeout (created_at env args command) (running_at env args command) (started_at env))
      (on_cancellation env (running_at env args command) (started_at env)) (dispatched_state env args command))
    = (case ee_order env of
         OrderInterrupted \<Rightarrow> cancelled_spec env args command 0 2 1 asked
       | OrderRaises n \<Rightarrow> (Inl (PortError n), asked)
       | OrderTimesOut \<Rightarrow> ended_spec env args owner command policy EndTimedOut asked
       | OrderReplies candidate \<Rightarrow> ended_spec env args owner command policy (ending_of env candidate) asked)"
proof -
  let ?body = "dispatched_read env owner order_id timeout (created_at env args command) (running_at env args command) (started_at env)"
  let ?st = "dispatched_state env args command"
  have log: "exec_bind (exec_log (GetOrder \<lparr>gq_customer_id = os_customer_id owner, gq_order_id = order_id\<rparr>)) f ?st
      = f () (asking_state env args owner command order_id)" for f :: "unit \<Rightarrow> read_tool_execution exec"
    by (simp add: exec_bind_def exec_log_def asking_state_def)
  note open_body = dispatched_read_def Let_def query_at[OF ready] exec_construct_def sum.case exec_bind_return log
  show ?thesis
  proof (cases "ee_order env")
    case OrderInterrupted
    have "?body ?st = (Inl TaskCancelledError, asking_state env args owner command order_id)"
      unfolding open_body by (simp add: OrderInterrupted exec_raise_def)
    then show ?thesis using cancellation_at[OF ready, of "asking_state env args owner command order_id"]
      by (simp add: seen_catch OrderInterrupted asked_def)
  next
    case (OrderRaises n)
    have "?body ?st = (Inl (PortError n), asking_state env args owner command order_id)"
      unfolding open_body by (simp add: OrderRaises exec_raise_def)
    then show ?thesis by (simp add: seen_catch OrderRaises asked_def)
  next
    case OrderTimesOut
    show ?thesis
      unfolding OrderTimesOut order_reply.case asked_def
      by (rule ended_at[OF ready, where status = TC_TIMED_OUT and out = TR_TIMEOUT and phase = "Some AFTER_DISPATCH"
            and code = "Some (str ''TOOL_CALL_TIMEOUT'')"])
         (simp_all add: finalization_allowed_def TERMINAL_TOOL_OUTCOMES_def open_body OrderTimesOut timeout_def)
  next
    case (OrderReplies candidate)
    let ?res = "result_of_reply env candidate"
    consider (found) s where "gr_outcome ?res = FOUND" "gr_order_summary ?res = Some (Obj s [])"
        "ending_of env candidate = EndFound s (gr_source_version ?res)"
      | (missing) "gr_outcome ?res = NOT_FOUND_OR_NOT_ACCESSIBLE" "ending_of env candidate = EndMissing"
      | (failed) "gr_outcome ?res = SYSTEM_FAILURE" "ending_of env candidate = EndFailed"
      using ending_of_reply[of env candidate] by blast
    then show ?thesis
    proof cases
      case found
      show ?thesis
        unfolding OrderReplies order_reply.case asked_def found(3)
        by (rule found_at[OF ready result_of_reply_admitted found(1,2)])
           (simp add: open_body OrderReplies result_of_reply_def[symmetric] found(1,2) terminal_projection_def timeout_def
             exec_raise_if_def, simp add: exec_bind_def exec_fresh_uuid_def exec_return_def numeral_2_eq_2)
    next
      case missing
      show ?thesis
        unfolding OrderReplies order_reply.case asked_def missing(2)
        by (rule ended_at[OF ready, where status = TC_FAILED and out = TR_BUSINESS_FAILURE and phase = None
              and code = "Some (str ''NOT_FOUND_OR_NOT_ACCESSIBLE'')"])
           (simp_all add: finalization_allowed_def TERMINAL_TOOL_OUTCOMES_def open_body OrderReplies timeout_def missing(1)
             result_of_reply_def[symmetric] terminal_projection_def exec_raise_if_def save_found_observation_def)
    next
      case failed
      show ?thesis
        unfolding OrderReplies order_reply.case asked_def failed(2)
        by (rule ended_at[OF ready, where status = TC_FAILED and out = TR_SYSTEM_FAILURE and phase = None
              and code = "Some (str ''ORDER_SERVICE_UNAVAILABLE'')"])
           (simp_all add: finalization_allowed_def TERMINAL_TOOL_OUTCOMES_def open_body OrderReplies timeout_def failed(1)
             result_of_reply_def[symmetric] terminal_projection_def exec_raise_if_def save_found_observation_def)
    qed
  qed
qed

lemma execute_refines:
  assumes "trusted_read env args owner command policy order_id"
  shows "seen (execute_get_order env args initial_exec_state) = read_spec env args owner command policy order_id"
proof -
  have asked: "xs_log (asking_state env args owner command order_id) = [InsertToolCall (created_at env args command),
      StartToolCall (created_at env args command) (running_at env args command) (started_at env),
      GetOrder \<lparr>gq_customer_id = os_customer_id owner, gq_order_id = order_id\<rparr>]"
    by (simp add: asking_state_def dispatched_state_def)
  show ?thesis
    unfolding execute_at[OF assms] dispatched_at[OF assms] read_spec_def Let_def asked append_Cons append_Nil
    by (simp split: port_reply.splits insert_only_write_result.splits)
qed
end
