(* ===== verification/Renderer.thy ===== *)
theory Renderer
  imports Trace
begin

section \<open>The deterministic renderer (application/deterministic_renderer.py)\<close>

text \<open>
  Facts come from the validated observation only; the plan fixes their order and the wording of
  opening and closing. Chinese literals are written as code points. Microseconds of a
  \<open>datetime\<close> count from 0001-01-01 00:00 UTC, day 1 of Python's proleptic Gregorian calendar.
\<close>

subsection \<open>strftime('%Y-%m-%d %H:%M UTC')\<close>

definition is_leap :: "nat \<Rightarrow> bool" where
  "is_leap y \<longleftrightarrow> 4 dvd y \<and> (\<not> 100 dvd y \<or> 400 dvd y)"

definition days_before_year :: "nat \<Rightarrow> nat" where
  "days_before_year y = (let p = y - 1 in p * 365 + p div 4 - p div 100 + p div 400)"

definition days_in_month :: "nat \<Rightarrow> nat \<Rightarrow> nat" where
  "days_in_month y m = (if m = 2 then (if is_leap y then 29 else 28) else if m \<in> set [4, 6, 9, 11] then 30 else 31)"

definition days_before_month :: "nat \<Rightarrow> nat \<Rightarrow> nat" where
  "days_before_month y m = sum_list (map (days_in_month y) [1..<m])"

text \<open>The last year, and then the last month, that begins before the given day.\<close>

definition year_of_ordinal :: "nat \<Rightarrow> nat" where
  "year_of_ordinal n = (let y0 = (n - 1) div 366 + 1
     in case find (\<lambda>y. n \<le> days_before_year (y + 1)) [y0..<y0 + 30] of None \<Rightarrow> 0 | Some y \<Rightarrow> y)"

definition month_of_day :: "nat \<Rightarrow> nat \<Rightarrow> nat" where
  "month_of_day y d = (case find (\<lambda>m. d \<le> days_before_month y (m + 1)) [1..<13] of None \<Rightarrow> 0 | Some m \<Rightarrow> m)"

definition ord2ymd :: "nat \<Rightarrow> nat \<times> nat \<times> nat" where
  "ord2ymd n = (let y = year_of_ordinal n; d = n - days_before_year y; m = month_of_day y d
     in (y, m, d - days_before_month y m))"

definition two_digits :: "nat \<Rightarrow> pystr" where
  "two_digits n = [48 + n div 10 mod 10, 48 + n mod 10]"

definition strftime_minutes :: "datetime \<Rightarrow> pystr" where
  "strftime_minutes t =
     (let minutes = nat (instant t div 60000000);
          (y, m, d) = ord2ymd (minutes div 1440 + 1)
      in nat_digits y @ str ''-'' @ two_digits m @ str ''-'' @ two_digits d @ str '' ''
         @ two_digits (minutes div 60 mod 24) @ str '':'' @ two_digits (minutes mod 60) @ str '' UTC'')"

subsection \<open>Labels\<close>

definition SAFE_GENERIC_MESSAGE :: pystr where
  "SAFE_GENERIC_MESSAGE = [24403, 21069, 26080, 27861, 23433, 20840, 22788, 29702, 35813, 35831, 27714, 65292,
     35831, 31245, 21518, 37325, 35797, 12290]"

definition SAFE_NOT_FOUND_MESSAGE :: pystr where
  "SAFE_NOT_FOUND_MESSAGE = [26410, 25214, 21040, 21487, 35775, 38382, 30340, 35746, 21333, 65292, 35831, 26680,
     23545, 35746, 21333, 21495, 21518, 37325, 35797, 12290]"

definition SAFE_ORDER_UNAVAILABLE_MESSAGE :: pystr where
  "SAFE_ORDER_UNAVAILABLE_MESSAGE = [35746, 21333, 26381, 21153, 26242, 26102, 19981, 21487, 29992, 65292, 35831,
     31245, 21518, 37325, 35797, 12290]"

definition STATUS_LABELS :: "order_status \<Rightarrow> pystr option" where
  "STATUS_LABELS s = (case s of
      CREATED \<Rightarrow> Some [24050, 21019, 24314]
    | PAID \<Rightarrow> Some [24050, 25903, 20184]
    | FULFILLING \<Rightarrow> Some [23653, 32422, 20013]
    | SHIPPED \<Rightarrow> Some [24050, 21457, 36135]
    | DELIVERED \<Rightarrow> Some [24050, 36865, 36798]
    | CANCELLED \<Rightarrow> Some [24050, 21462, 28040])"

subsection \<open>render_order_summary\<close>

definition line_item_text :: "order_line_summary \<Rightarrow> pystr" where
  "line_item_text item = ol_product_name item @ [32, 215, 32] @ int_repr (ol_quantity item)"

definition field_values :: "order_summary_projection \<Rightarrow> pystr \<Rightarrow> presentation_field \<Rightarrow> pystr" where
  "field_values summary status_label field = (case field of
      ORDER_NUMBER \<Rightarrow> [35746, 21333, 21495, 65306] @ os_order_number summary
    | STATUS \<Rightarrow> [29366, 24577, 65306] @ status_label
    | ITEMS \<Rightarrow> [21830, 21697, 65306]
        @ intersperse_concat [12289] (map (line_item_text \<circ> fields_of) (os_line_items summary))
    | ORDERED_AT \<Rightarrow> [19979, 21333, 26102, 38388, 65306] @ strftime_minutes (os_ordered_at summary)
    | STATUS_UPDATED_AT \<Rightarrow> [29366, 24577, 26356, 26032, 26102, 38388, 65306]
        @ strftime_minutes (os_status_updated_at summary))"

definition opening_text :: "opening_variant \<Rightarrow> pystr" where
  "opening_text v = (if v = ACKNOWLEDGE then [24050, 20026, 20320, 26597, 21040, 35746, 21333, 20449, 24687, 65306]
     else [35746, 21333, 20449, 24687, 22914, 19979, 65306])"

definition follow_up_text :: pystr where
  "follow_up_text = [22914, 38656, 32487, 32493, 26597, 35810, 37197, 36865, 20449, 24687, 65292,
     35831, 21578, 35785, 25105, 12290]"

definition message_parts :: "order_summary_projection \<Rightarrow> pystr \<Rightarrow> presentation_plan \<Rightarrow> pystr list" where
  "message_parts summary status_label plan =
     opening_text (pp_opening_variant plan)
     # map (field_values summary status_label) (pp_field_order plan)
     @ (if pp_closing_variant plan = OFFER_FOLLOW_UP then [follow_up_text] else [])"

definition render_order_summary ::
  "order_observation pyobj \<Rightarrow> presentation_plan pyobj \<Rightarrow> string + pystr" where
  "render_order_summary observation plan =
     res_bind (validate_presentation_plan plan observation) (\<lambda>_.
     let summary = fields_of (oo_normalized_value (fields_of observation)); p = fields_of plan
     in case STATUS_LABELS (os_status summary) of
          None \<Rightarrow> Inl ''unrecognized safe order status''
        | Some status_label \<Rightarrow>
            if set (pp_field_order p) \<noteq> set presentation_fields
            then Inl ''presentation field set mismatch''
            else let message = intersperse_concat [10] (message_parts summary status_label p);
                     required_facts = [os_order_number summary, status_label]
                       @ map (ol_product_name \<circ> fields_of) (os_line_items summary)
                 in if \<exists>fact\<in>set required_facts. \<not> py_in fact message
                    then Inl ''rendered fact consistency failure'' else Inr message)"

subsection \<open>map_result\<close>

record agent_run_result =
  res_run_id :: uuid
  res_outcome :: agent_outcome
  res_message :: pystr

definition new_agent_run_result :: "agent_run_result \<Rightarrow> validation_error + agent_run_result" where
  "new_agent_run_result r = construct
     [(''message'', 1 \<le> length (res_message r) \<and> length (res_message r) \<le> 4000)] [] r"

definition map_result :: "uuid \<Rightarrow> stop_reason \<Rightarrow> pystr option \<Rightarrow> validation_error + agent_run_result" where
  "map_result run_id stop rendered_message =
     (if stop = STOP_GOAL_COMPLETED then
        (case rendered_message of
           None \<Rightarrow> Inl (PlainValueError ''GOAL_COMPLETED requires rendered message'')
         | Some m \<Rightarrow>
             if m = [] then Inl (PlainValueError ''GOAL_COMPLETED requires rendered message'')
             else new_agent_run_result \<lparr>res_run_id = run_id, res_outcome = OUTCOME_COMPLETED, res_message = m\<rparr>)
      else if stop = STOP_NOT_FOUND_OR_NOT_ACCESSIBLE then
        new_agent_run_result \<lparr>res_run_id = run_id, res_outcome = OUTCOME_NOT_FOUND_OR_NOT_ACCESSIBLE,
          res_message = SAFE_NOT_FOUND_MESSAGE\<rparr>
      else if stop = STOP_ORDER_SERVICE_UNAVAILABLE then
        new_agent_run_result \<lparr>res_run_id = run_id, res_outcome = OUTCOME_BLOCKED,
          res_message = SAFE_ORDER_UNAVAILABLE_MESSAGE\<rparr>
      else new_agent_run_result \<lparr>res_run_id = run_id, res_outcome = OUTCOME_BLOCKED,
          res_message = SAFE_GENERIC_MESSAGE\<rparr>)"

subsection \<open>Every required fact is in the message\<close>

lemma py_in_trans: "py_in a b \<Longrightarrow> py_in b c \<Longrightarrow> py_in a c"
proof -
  assume "py_in a b" "py_in b c"
  then obtain i j where "occurs_at a b i" "occurs_at b c j" by (auto simp: py_in_iff)
  then have "c = (take j c @ take i b) @ a @ (drop (i + length a) b @ drop (j + length b) c)"
    using occurs_at_split[of a b i] occurs_at_split[of b c j] by (metis append.assoc)
  then show "py_in a c" by (metis py_in_append_middle)
qed

lemma py_in_length: "py_in a b \<Longrightarrow> length a \<le> length b"
proof -
  assume "py_in a b"
  then obtain i where "occurs_at a b i" by (auto simp: py_in_iff)
  from arg_cong[OF occurs_at_split[OF this], of length] show ?thesis by simp
qed

lemma intersperse_concat_member: "x \<in> set xs \<Longrightarrow> py_in x (intersperse_concat sep xs)"
proof (induction sep xs rule: intersperse_concat.induct)
  case (2 sep y)
  then show ?case using py_in_append_middle[of y "[]" "[]"] by simp
next
  case (3 sep y z zs)
  show ?case
  proof (cases "x = y")
    case True
    then show ?thesis using py_in_append_middle[of y "[]" "sep @ intersperse_concat sep (z # zs)"] by simp
  next
    case False
    with 3 have "py_in x (intersperse_concat sep (z # zs))" by simp
    moreover have "py_in (intersperse_concat sep (z # zs)) (intersperse_concat sep (y # z # zs))"
      using py_in_append_middle[of "intersperse_concat sep (z # zs)" "y @ sep" "[]"] by simp
    ultimately show ?thesis by (rule py_in_trans)
  qed
qed simp

lemma py_in_suffix: "py_in s (p @ s)"
  using py_in_append_middle[of s p "[]"] by simp

lemma py_in_prefix: "py_in s (s @ q)"
  using py_in_append_middle[of s "[]" q] by simp

lemma field_in_message:
  assumes "set (pp_field_order p) = UNIV"
  shows "py_in (field_values summary label f) (intersperse_concat [10] (message_parts summary label p))"
  using assms by (intro intersperse_concat_member) (auto simp: message_parts_def)

lemma STATUS_LABELS_total: "STATUS_LABELS s \<noteq> None"
  by (cases s) (simp_all add: STATUS_LABELS_def)

lemma required_facts_present:
  assumes p: "set (pp_field_order p) = UNIV"
    and f: "f \<in> set ([os_order_number summary, label] @ map (ol_product_name \<circ> fields_of) (os_line_items summary))"
  shows "py_in f (intersperse_concat [10] (message_parts summary label p))"
proof -
  consider "f = os_order_number summary" | "f = label"
    | item where "item \<in> set (os_line_items summary)" "f = ol_product_name (fields_of item)"
    using f by auto
  then have "\<exists>field. py_in f (field_values summary label field)"
  proof cases
    case 1
    then have "py_in f (field_values summary label ORDER_NUMBER)"
      using py_in_suffix[of f "[35746, 21333, 21495, 65306]"] by (simp add: field_values_def)
    then show ?thesis by blast
  next
    case 2
    then have "py_in f (field_values summary label STATUS)"
      using py_in_suffix[of f "[29366, 24577, 65306]"] by (simp add: field_values_def)
    then show ?thesis by blast
  next
    case 3
    let ?items = "intersperse_concat [12289] (map (line_item_text \<circ> fields_of) (os_line_items summary))"
    have "py_in f (line_item_text (fields_of item))"
      using py_in_prefix[of f "[32, 215, 32] @ int_repr (ol_quantity (fields_of item))"]
      by (simp add: 3 line_item_text_def)
    moreover have "py_in (line_item_text (fields_of item)) ?items"
      by (rule intersperse_concat_member) (simp add: 3)
    moreover have "py_in ?items (field_values summary label ITEMS)"
      using py_in_suffix[of ?items "[21830, 21697, 65306]"] by (simp add: field_values_def)
    ultimately show ?thesis by (blast intro: py_in_trans)
  qed
  then show ?thesis using field_in_message[OF p] py_in_trans by blast
qed

text \<open>\<open>RendererInvariantError\<close> is unreachable once the plan is validated.\<close>

lemma render_total:
  assumes "validate_presentation_plan plan observation = Inr p"
  shows "\<exists>label. STATUS_LABELS (os_status (fields_of (oo_normalized_value (fields_of observation)))) = Some label
     \<and> render_order_summary observation plan = Inr (intersperse_concat [10]
         (message_parts (fields_of (oo_normalized_value (fields_of observation))) label p))"
proof -
  let ?s = "fields_of (oo_normalized_value (fields_of observation))"
  from assms have p: "plan = Obj p []" "new_presentation_plan p = Inr p"
    by (auto elim: validate_presentation_plan_Inr)
  from plan_field_order_distinct[OF p(2)] have u: "set (pp_field_order p) = UNIV" by simp
  obtain label where l: "STATUS_LABELS (os_status ?s) = Some label"
    using STATUS_LABELS_total[of "os_status ?s"] by auto
  have "\<not> (\<exists>fact\<in>set ([os_order_number ?s, label] @ map (ol_product_name \<circ> fields_of) (os_line_items ?s)).
      \<not> py_in fact (intersperse_concat [10] (message_parts ?s label p)))"
    using required_facts_present[OF u] by blast
  then have "render_order_summary observation plan = Inr (intersperse_concat [10] (message_parts ?s label p))"
    using assms l u p(1) by (simp only: render_order_summary_def res_bind_simps Let_def option.case
        pyobj.sel set_presentation_fields simp_thms if_False)
  with l show ?thesis by blast
qed

text \<open>The message contains every required fact and is not empty.\<close>

lemma render_with_facts:
  assumes "validate_presentation_plan plan observation = Inr p"
  shows "\<exists>message. render_order_summary observation plan = Inr message
    \<and> (\<forall>item\<in>set (os_line_items (fields_of (oo_normalized_value (fields_of observation)))).
          py_in (ol_product_name (fields_of item)) message)"
proof -
  let ?s = "fields_of (oo_normalized_value (fields_of observation))"
  obtain label where r: "render_order_summary observation plan = Inr (intersperse_concat [10] (message_parts ?s label p))"
    using render_total[OF assms] by blast
  have "new_presentation_plan p = Inr p" using assms by (auto elim: validate_presentation_plan_Inr)
  then have "set (pp_field_order p) = UNIV" using plan_field_order_distinct by blast
  from required_facts_present[OF this] r show ?thesis by fastforce
qed

lemma rendered_nonempty: "render_order_summary observation plan = Inr message \<Longrightarrow> message \<noteq> []"
proof -
  assume "render_order_summary observation plan = Inr message"
  then obtain summary label p where m: "message = intersperse_concat [10] (message_parts summary label p)"
    by (auto simp: render_order_summary_def Let_def res_bind_Inr_iff split: option.splits if_splits)
  have "py_in (opening_text (pp_opening_variant p)) message"
    unfolding m by (rule intersperse_concat_member) (simp add: message_parts_def)
  then have "length (opening_text (pp_opening_variant p)) \<le> length message" by (rule py_in_length)
  then show "message \<noteq> []" by (auto simp: opening_text_def split: if_splits)
qed

end
