(* ===== verification/Execution_Properties.thy ===== *)
theory Execution_Properties
  imports Gateway_Properties Read_Spec Renderer
begin

section \<open>Properties of the fenced read, the tool-call store and the renderer\<close>

text \<open>
  The properties of the fenced read, with a sample environment for their witnesses.
\<close>

subsection \<open>A world in which the read succeeds\<close>

definition sample_scope :: trusted_owner_scope where
  "sample_scope = \<lparr>os_customer_id = str ''cust-1''\<rparr>"

definition sample_command :: authorized_tool_command where
  "sample_command = \<lparr>ac_gate_decision_id = 70, ac_canonical_tool_name = str ''get_order'',
     ac_validated_arguments = [(str ''order_id'', JStr (str ''O-1234''))], ac_argument_binding_refs = [54],
     ac_validated_task_state_version = 1, ac_registry_snapshot_ref = str ''registry-v1'',
     ac_trusted_context_ref = str ''auth-1''\<rparr>"

definition sample_policy :: execution_policy where
  "sample_policy = \<lparr>ep_timeout_ms = 3000, ep_max_attempts = 1, ep_retryable_failure_codes = [],
     ep_interrupt_behavior = str ''MARK_INTERRUPTED''\<rparr>"

definition sample_args :: executor_args where
  "sample_args = \<lparr>xa_owner_scope = Obj sample_scope [], xa_authorized_command = Obj sample_command [],
     xa_run_id = 1, xa_task_id = 52, xa_request_unit_id = 53, xa_model_call_id = 71, xa_context_manifest_id = 72,
     xa_provider_tool_call_id = None, xa_tool_registry_version = str ''registry-v1'',
     xa_execution_policy = Obj sample_policy [], xa_remaining_run_time_budget_ms = 5000\<rparr>"

text \<open>An order service that answers with something that is no \<open>GetOrderResult\<close> at all.\<close>

definition foreign_state :: model_state where
  "foreign_state = \<lparr>ms_exact_class = False, ms_state_keys = [], ms_fields_set = [], ms_no_extra_or_private = False\<rparr>"

definition foreign_reply :: received_result where
  "foreign_reply = \<lparr>rres_state = foreign_state, rres_outcome = None, rres_order_summary = None,
     rres_source_version = None, rres_failure_code = None\<rparr>"

definition sample_env :: "order_reply \<Rightarrow> executor_env" where
  "sample_env reply = \<lparr>ee_clock = (\<lambda>n. utc_us (1000 + int n)), ee_uuid = (\<lambda>n. n + 80), ee_outcomes = [],
     ee_statuses = [], ee_insert = Replies INSERTED, ee_fence = Replies FENCE_APPLIED, ee_order = reply,
     ee_finalize = (\<lambda>_. Replies APPLIED), ee_save_observation = Replies OBS_INSERTED,
     ee_append_trace = Replies ()\<rparr>"

lemma order_id_argument_valid:
  "validate_arguments [(str ''order_id'', JStr v)] = Inr [(str ''order_id'', JStr v)]"
  by (simp add: validate_arguments_def thaw_object_def dict_of_items_distinct) (simp add: Let_def trusted_names)

lemma sample_command_valid: "accepts new_authorized_tool_command sample_command"
  by (simp add: accepts_iff new_authorized_tool_command_def sample_command_def construct_Inr_iff Let_def
      order_id_argument_valid is_ok_def ok_or_def)

lemma sample_ready: "executor_ready (sample_env reply) sample_args sample_scope sample_command sample_policy (str ''O-1234'')"
proof -
  have "OrderId (str ''O-1234'')" using normalize_order_id_Inr[OF sample_normal_form] by simp
  moreover have "NonEmptyString (os_customer_id sample_scope)" by (simp add: sample_scope_def)
  ultimately show ?thesis
    using sample_command_valid
    unfolding executor_ready_def trusted_read_def
    by (simp add: sample_args_def sample_env_def sample_policy_def) (simp add: sample_command_def)
qed

lemma sample_execution:
  "\<exists>rx st. execute_get_order (sample_env (OrderReplies foreign_reply)) sample_args initial_exec_state = (Inr rx, st)"
  using execute_returns[OF sample_ready, of "OrderReplies foreign_reply" foreign_reply] by (auto simp: sample_env_def)

subsection \<open>The protocol of a read\<close>


text \<open>C10. What a returned execution reports is what was written, and what the ports accepted: the insertion was
  answered INSERTED and the fence with the reported reply; after a lost fence it reports no result and no read was
  made; after a won fence its terminal ToolCall and attempt were finalized in the store by a write answered APPLIED,
  agree with the outcome, and an Observation is reported exactly for a found order, for which a save of it was asked
  and answered as inserted or already applied.\<close>

theorem reported_execution_was_recorded:
  assumes "fst (execute_get_order env args initial_exec_state) = Inr rx"
  shows "(\<exists>owner extra. xa_owner_scope args = Obj owner extra
      \<and> execution_consistent owner (xs_log (snd (execute_get_order env args initial_exec_state))) rx)
    \<and> ee_insert env = Replies INSERTED \<and> ee_fence env = Replies (rx_dispatch_fence_result rx)
    \<and> (rx_dispatch_fence_result rx = FENCE_APPLIED \<longrightarrow> ee_finalize env 0 = Replies APPLIED)
    \<and> (rx_observation rx \<noteq> None \<longrightarrow> ee_save_observation env \<in> {Replies OBS_INSERTED, Replies OBS_ALREADY_APPLIED})"
proof -
  from assms obtain st where "execute_get_order env args initial_exec_state = (Inr rx, st)"
    by (metis prod.collapse)
  from execute_recorded[OF this] have "recorded_by env rx" .
  moreover have "\<exists>owner extra. xa_owner_scope args = Obj owner extra
      \<and> execution_consistent owner (xs_log (snd (execute_get_order env args initial_exec_state))) rx"
    using execute_from_start[of args env] assms by (auto simp: execution_post_def split: pyobj.splits)
  ultimately show ?thesis by (simp add: recorded_by_def)
qed

theorem reported_execution_was_recorded_witness:
  "\<exists>rx. execution_consistent sample_scope
     (xs_log (snd (execute_get_order (sample_env (OrderReplies foreign_reply)) sample_args initial_exec_state))) rx
   \<and> rx_dispatch_fence_result rx = FENCE_APPLIED"
proof -
  obtain rx where "fst (execute_get_order (sample_env (OrderReplies foreign_reply)) sample_args initial_exec_state) = Inr rx"
    using sample_execution by (metis fst_conv)
  from reported_execution_was_recorded[OF this] show ?thesis by (auto simp: sample_args_def sample_env_def)
qed

text \<open>C12. The executor completes: with trusted arguments, a clock that does not run backwards and ports that
  answer, no record it builds is refused, whatever the order service replied; it returns with the outcome of
  the admitted reply, or with SYSTEM_FAILURE for a reply that is not admitted.\<close>

theorem executor_completes:
  assumes "executor_ready env args owner command policy order_id"
    and "ee_fence env = Replies FENCE_APPLIED" "ee_order env = OrderReplies candidate"
    and "ee_finalize env 0 = Replies APPLIED" "ee_save_observation env = Replies OBS_INSERTED"
  shows "\<exists>rx st. execute_get_order env args initial_exec_state = (Inr rx, st)
    \<and> rx_get_order_outcome rx = Some (gr_outcome (result_of_reply env candidate))"
  by (rule execute_returns[OF assms])

theorem executor_completes_witness:
  "\<exists>rx st. execute_get_order (sample_env (OrderReplies foreign_reply)) sample_args initial_exec_state = (Inr rx, st)
    \<and> rx_get_order_outcome rx = Some SYSTEM_FAILURE"
proof -
  have "result_of_reply (sample_env (OrderReplies foreign_reply)) foreign_reply = unavailable_result"
    by (simp add: result_of_reply_def canonical_get_order_result_def result_shape_ok_def foreign_reply_def
        has_exact_declared_model_state_def foreign_state_def)
  with executor_completes[OF sample_ready, of "OrderReplies foreign_reply" foreign_reply] show ?thesis
    by (simp add: sample_env_def unavailable_result_def)
qed

text \<open>C13. A read that is cancelled is not lost: the ToolCall is finalized as INTERRUPTED and the interruption is
  traced, in this order and after the read, before the cancellation continues.\<close>

theorem cancelled_read_is_recorded:
  assumes "executor_ready env args owner command policy order_id"
    and "ee_fence env = Replies FENCE_APPLIED" "ee_order env = OrderInterrupted" "ee_finalize env 0 = Replies APPLIED"
  shows "fst (execute_get_order env args initial_exec_state) = Inl TaskCancelledError
    \<and> (\<exists>created running attempt query terminal finalized event.
         xs_log (snd (execute_get_order env args initial_exec_state)) =
           [InsertToolCall created, StartToolCall created running attempt, GetOrder query,
            FinalizeToolCall running attempt terminal finalized, AppendTrace event]
         \<and> tc_status terminal = TC_INTERRUPTED \<and> te_event_type event = TOOL_CALL_INTERRUPTED
         \<and> te_tool_call_id event = Some (tc_tool_call_id terminal))"
  by (rule execute_cancelled[OF assms])

theorem cancelled_read_is_recorded_witness:
  "fst (execute_get_order (sample_env OrderInterrupted) sample_args initial_exec_state) = Inl TaskCancelledError"
  using cancelled_read_is_recorded[OF sample_ready, of OrderInterrupted] by (simp add: sample_env_def)

subsection \<open>The tool-call store\<close>

text \<open>C11. For trusted arguments and a clock that does not run backwards, and for every reply, exception or
  cancellation of every port, the executor equals the specification: the result, or the error, and the exact list of
  what the ports were asked, each with its whole record, from the insertion of the CREATED record to the finalization
  of the one attempt, the Observation of a found order and the trace of an interruption. Each write is a step of the
  tool-call store.\<close>

theorem executor_refines_specification:
  assumes "trusted_read env args owner command policy order_id"
  shows "(fst (execute_get_order env args initial_exec_state), xs_log (snd (execute_get_order env args initial_exec_state)))
      = read_spec env args owner command policy order_id
    \<and> list_all store_write (snd (read_spec env args owner command policy order_id))"
  using execute_refines[OF assms] writes_from_start[of env args] by (metis snd_conv)

theorem executor_refines_specification_witness:
  "fst (execute_get_order ((sample_env OrderTimesOut)\<lparr>ee_finalize := (\<lambda>_. Replies PROJECTION_CONFLICT)\<rparr>) sample_args initial_exec_state)
     = Inl (ExecutionError ''ToolCall finalization conflict'')"
proof -
  have "trusted_read ((sample_env OrderTimesOut)\<lparr>ee_finalize := (\<lambda>_. Replies PROJECTION_CONFLICT)\<rparr>) sample_args sample_scope
      sample_command sample_policy (str ''O-1234'')"
    using ready_trusted[OF sample_ready[of OrderTimesOut]] by (simp add: trusted_read_def)
  from executor_refines_specification[OF this] show ?thesis
    by (simp add: read_spec_def ended_spec_def sample_env_def Let_def)
qed

text \<open>C14. The store moves a ToolCall forward only: however many writes are applied to a slot, there are at most
  three, none brings an earlier state back or touches an immutable field, and a terminal record stays.\<close>

theorem tool_call_moves_forward:
  assumes "(tool_call_step ^^ n) s s'"
  shows "n \<le> 3 \<and> same_slot s s' \<and> (0 < n \<longrightarrow> s \<noteq> s')
    \<and> (\<forall>r a. s = (Some r, a) \<longrightarrow> is_terminal r \<longrightarrow> n = 0)"
proof -
  have run: "tool_call_step\<^sup>*\<^sup>* s s'" using assms by (rule relpowp_imp_rtranclp)
  have "n \<le> 3" using tool_store.run_bound[OF assms] by (cases "0 < n") simp_all
  moreover have "same_slot s s'" using tool_store.run_same[OF run] .
  moreover have "s \<noteq> s'" if "0 < n"
    using that assms tool_store.no_return[of s s'] by (auto simp: tranclp_power)
  moreover have "n = 0" if "s = (Some r, a)" "is_terminal r" for r a
  proof (rule ccontr)
    assume "n \<noteq> 0"
    then obtain t where "tool_call_step s t" using assms by (metis gr0_implies_Suc not_gr_zero relpowp_Suc_E2)
    with that step_from_terminal show False by blast
  qed
  ultimately show ?thesis by blast
qed

theorem tool_call_moves_forward_witness:
  "\<exists>r. same_slot (None, None) (Some r, None) \<and> tc_status r = TC_CREATED"
proof -
  obtain rx where rx: "fst (execute_get_order (sample_env OrderInterrupted) sample_args initial_exec_state) = Inl TaskCancelledError"
    "\<exists>created l. xs_log (snd (execute_get_order (sample_env OrderInterrupted) sample_args initial_exec_state)) = InsertToolCall created # l"
    using execute_cancelled[OF sample_ready, of OrderInterrupted] by (auto simp: sample_env_def)
  then obtain created where "tool_call_step (None, None) (Some created, None)"
    using writes_from_start[of "sample_env OrderInterrupted" sample_args] by auto
  moreover from this have "tc_status created = TC_CREATED"
    by (cases rule: tool_call_step.cases) (simp add: command_defs Let_def)
  ultimately show ?thesis
    using tool_call_moves_forward[of 1 "(None, None)" "(Some created, None)"] by auto
qed

subsection \<open>The reply of the order service\<close>

text \<open>An instance of exactly its class whose state is its declared fields and nothing else.\<close>

definition only_declared :: "string list \<Rightarrow> model_state \<Rightarrow> bool" where
  "only_declared names m \<longleftrightarrow>
     ms_exact_class m \<and> set (ms_state_keys m) = set names \<and> set (ms_fields_set m) \<subseteq> set names \<and> ms_no_extra_or_private m"

text \<open>A member of a closed enum: its storage holds what the snapshot of import time holds.\<close>

definition as_imported :: "'m enum_snapshots \<Rightarrow> 'm \<Rightarrow> enum_storage \<Rightarrow> bool" where
  "as_imported snapshots member storage \<longleftrightarrow> (\<exists>items. map_of snapshots member = Some items \<and> map_of storage = map_of items)"

lemma closed_as_imported:
  assumes "canonical_enum_member_is_closed snapshots (Some (member, storage))"
  shows "as_imported snapshots member storage"
proof -
  from assms obtain items where i: "map_of snapshots member = Some items" "map fst storage = map fst items"
    "\<And>name v. (name, v) \<in> set items \<Longrightarrow> map_of storage name = Some v"
    by (fastforce simp: canonical_enum_member_is_closed_def list_all_iff split: option.splits)
  have "map_of storage name = map_of items name" for name
  proof (cases "map_of items name")
    case None
    then have "name \<notin> set (map fst storage)" by (simp add: i(2) map_of_eq_None_iff)
    then have "map_of storage name = None" by (simp only: map_of_eq_None_iff set_map not_False_eq_True)
    with None show ?thesis by simp
  next
    case (Some v)
    then show ?thesis using i(3) map_of_SomeD by fastforce
  qed
  then have "map_of storage = map_of items" by (rule ext)
  with i(1) show ?thesis by (simp add: as_imported_def)
qed

lemma closed_tz_utc: "is_closed_utc_tz (snd d) \<Longrightarrow> is_utc (received_datetime d) \<and> (\<forall>n. snd d \<noteq> TzForeign n)"
  by (auto simp: is_closed_utc_tz_def received_datetime_def tz_offset_def is_utc_def split: tz_value.splits)

text \<open>C15. Only a closed reply is admitted: the result, its summary and every line are instances of exactly their class
  with their declared state only, the members of the enums have the storage of import time, the timestamps are UTC in a
  known time zone class; the rebuilt result satisfies every validator of \<open>GetOrderResult\<close> and repeats what was
  received, and a FOUND result names the source version it was read from.\<close>

theorem admitted_reply_is_closed:
  assumes "canonical_get_order_result outcomes statuses v = Some r"
  shows "admitted_result r
    \<and> (gr_outcome r = FOUND \<longrightarrow> (\<exists>version. gr_source_version r = Some version \<and> GetOrderSourceVersion version))
    \<and> only_declared [''outcome'', ''order_summary'', ''source_version'', ''failure_code''] (rres_state v)
    \<and> (\<exists>storage. rres_outcome v = Some (gr_outcome r, storage) \<and> as_imported outcomes (gr_outcome r) storage)
    \<and> gr_source_version r = rres_source_version v \<and> gr_failure_code r = rres_failure_code v
    \<and> (case rres_order_summary v of
         None \<Rightarrow> gr_order_summary r = None
       | Some s \<Rightarrow>
           only_declared [''order_number'', ''status'', ''line_items'', ''ordered_at'', ''status_updated_at''] (rsum_state s)
           \<and> rsum_items_are_tuple s
           \<and> list_all (\<lambda>l. only_declared [''product_name'', ''quantity''] (rl_state l)) (rsum_line_items s)
           \<and> list_all (\<lambda>d. is_utc (received_datetime d) \<and> (\<forall>n. snd d \<noteq> TzForeign n)) [rsum_ordered_at s, rsum_status_updated_at s]
           \<and> (\<exists>status storage. rsum_status s = Some (status, storage) \<and> as_imported statuses status storage
                \<and> gr_order_summary r = Some (Obj (summary_of status s) [])))"
proof -
  obtain outcome storage where v: "rres_outcome v = Some (outcome, storage)" "revalidate_result v outcome = Some r"
    "result_shape_ok outcomes statuses v"
    "gr_outcome r = FOUND \<longrightarrow> is_canonical_get_order_source_version (gr_source_version r)"
    using assms by (rule canonical_get_order_result_Some)
  note f = revalidate_result_Some[OF v(2)]
  from v(3) have shape: "only_declared [''outcome'', ''order_summary'', ''source_version'', ''failure_code''] (rres_state v)"
    "canonical_enum_member_is_closed outcomes (rres_outcome v)"
    by (simp_all add: result_shape_ok_def has_exact_declared_model_state_def only_declared_def)
  have summary: "only_declared [''order_number'', ''status'', ''line_items'', ''ordered_at'', ''status_updated_at''] (rsum_state s)
      \<and> rsum_items_are_tuple s
      \<and> list_all (\<lambda>l. only_declared [''product_name'', ''quantity''] (rl_state l)) (rsum_line_items s)
      \<and> canonical_enum_member_is_closed statuses (rsum_status s)
      \<and> list_all (\<lambda>d. is_utc (received_datetime d) \<and> (\<forall>n. snd d \<noteq> TzForeign n)) [rsum_ordered_at s, rsum_status_updated_at s]"
    if "rres_order_summary v = Some s" for s
    using v(3) that closed_tz_utc
    by (simp add: result_shape_ok_def summary_shape_ok_def line_shape_ok_def has_exact_declared_model_state_def
        only_declared_def list_all_iff)
  have "case rres_order_summary v of
         None \<Rightarrow> gr_order_summary r = None
       | Some s \<Rightarrow>
           only_declared [''order_number'', ''status'', ''line_items'', ''ordered_at'', ''status_updated_at''] (rsum_state s)
           \<and> rsum_items_are_tuple s
           \<and> list_all (\<lambda>l. only_declared [''product_name'', ''quantity''] (rl_state l)) (rsum_line_items s)
           \<and> list_all (\<lambda>d. is_utc (received_datetime d) \<and> (\<forall>n. snd d \<noteq> TzForeign n)) [rsum_ordered_at s, rsum_status_updated_at s]
           \<and> (\<exists>status storage. rsum_status s = Some (status, storage) \<and> as_imported statuses status storage
                \<and> gr_order_summary r = Some (Obj (summary_of status s) []))"
    using f(5) summary closed_as_imported by (cases "rres_order_summary v") auto
  moreover have "\<exists>version. gr_source_version r = Some version \<and> GetOrderSourceVersion version" if "gr_outcome r = FOUND"
    using v(4) that by (auto simp: is_canonical_get_order_source_version_def split: option.splits)
  ultimately show ?thesis
    using canonical_get_order_result_admitted[OF assms] shape v(1) f(2-4) closed_as_imported by auto
qed

text \<open>A reply that is admitted, with the snapshots its members have at import time.\<close>

definition exact_state :: "string list \<Rightarrow> model_state" where
  "exact_state names = \<lparr>ms_exact_class = True, ms_state_keys = names, ms_fields_set = names, ms_no_extra_or_private = True\<rparr>"

definition member_storage :: "pystr \<Rightarrow> enum_storage" where
  "member_storage value = [(''_value_'', StoredStr value), (''__objclass__'', StoredClass)]"

definition found_reply :: received_result where
  "found_reply =
     \<lparr>rres_state = exact_state [''outcome'', ''order_summary'', ''source_version'', ''failure_code''],
      rres_outcome = Some (FOUND, member_storage (str ''FOUND'')),
      rres_order_summary = Some
        \<lparr>rsum_state = exact_state [''order_number'', ''status'', ''line_items'', ''ordered_at'', ''status_updated_at''],
         rsum_order_number = str ''O-1234'', rsum_status = Some (SHIPPED, member_storage (str ''SHIPPED'')),
         rsum_items_are_tuple = True,
         rsum_line_items = [\<lparr>rl_state = exact_state [''product_name'', ''quantity''],
            rl_product_name = str ''tea'', rl_quantity = 2\<rparr>],
         rsum_ordered_at = (0, TzUTC), rsum_status_updated_at = (60, TzPydantic 0)\<rparr>,
      rres_source_version = Some (source_version_prefix @ replicate 64 48),
      rres_failure_code = None\<rparr>"

lemma found_reply_admitted:
  "\<exists>r. canonical_get_order_result [(FOUND, member_storage (str ''FOUND''))] [(SHIPPED, member_storage (str ''SHIPPED''))]
      found_reply = Some r"
proof -
  have hex: "GetOrderSourceVersion (source_version_prefix @ replicate 64 48)"
    by (simp add: GetOrderSourceVersion_def is_hex64_def is_lower_hex_def list_all_iff)
  have num: "OrderId (str ''O-1234'')" using normalize_order_id_Inr[OF sample_normal_form] .
  show ?thesis
    using hex num
    by (simp add: found_reply_def canonical_get_order_result_def result_shape_ok_def summary_shape_ok_def
        line_shape_ok_def has_exact_declared_model_state_def exact_state_def canonical_enum_member_is_closed_def
        member_storage_def is_closed_utc_tz_def revalidate_result_def accepts_iff new_order_line_summary_def
        new_order_summary_projection_def construct_Inr_iff line_of_def summary_of_def received_datetime_def tz_offset_def
        new_get_order_result_def result_shape_matches_outcome_def is_canonical_get_order_source_version_def
        is_utc_def require_utc_def dt_less_def construct_def construct_with_def failing_def checks_def)
qed

theorem admitted_reply_is_closed_witness:
  "\<exists>r. admitted_result r \<and> gr_outcome r = FOUND"
proof -
  obtain r where r: "canonical_get_order_result [(FOUND, member_storage (str ''FOUND''))]
      [(SHIPPED, member_storage (str ''SHIPPED''))] found_reply = Some r"
    using found_reply_admitted by blast
  from admitted_reply_is_closed[OF r] show ?thesis by (auto simp: found_reply_def)
qed

subsection \<open>The message shown\<close>

text \<open>C19. A validated plan always renders, \<open>RendererInvariantError\<close> is unreachable: the message is the opening, each
  of the five approved fields exactly once in the order of the plan, and the closing; it contains the order
  number, the label of the status and every product name verbatim.\<close>

theorem rendering_is_complete:
  assumes "validate_presentation_plan plan observation = Inr p"
    and "summary = fields_of (oo_normalized_value (fields_of observation))"
  shows "\<exists>label message. STATUS_LABELS (os_status summary) = Some label
    \<and> render_order_summary observation plan = Inr message
    \<and> message = intersperse_concat [10] (message_parts summary label p)
    \<and> distinct (pp_field_order p) \<and> set (pp_field_order p) = UNIV
    \<and> (\<forall>fact\<in>set ([os_order_number summary, label] @ map (ol_product_name \<circ> fields_of) (os_line_items summary)).
          py_in fact message)"
proof -
  obtain label where r: "STATUS_LABELS (os_status summary) = Some label"
    "render_order_summary observation plan = Inr (intersperse_concat [10] (message_parts summary label p))"
    using render_total[OF assms(1)] assms(2) by blast
  have "new_presentation_plan p = Inr p" using assms(1) by (auto elim: validate_presentation_plan_Inr)
  then have u: "distinct (pp_field_order p)" "set (pp_field_order p) = UNIV"
    using plan_field_order_distinct by blast+
  with r required_facts_present[OF u(2)] show ?thesis by blast
qed

definition sample_observation :: "pystr \<Rightarrow> order_observation" where
  "sample_observation product =
     \<lparr>oo_observation_id = 90, oo_source_tool = str ''get_order'', oo_source_resource_ref = str ''O-1234'',
      oo_source_version = None, oo_normalized_type = str ''ORDER_SUMMARY'',
      oo_normalized_value = Obj \<lparr>os_order_number = str ''O-1234'', os_status = SHIPPED,
        os_line_items = [Obj \<lparr>ol_product_name = product, ol_quantity = 2\<rparr> []],
        os_ordered_at = utc_us 0, os_status_updated_at = utc_us 60\<rparr> [],
      oo_observed_at = sample_now, oo_recorded_at = sample_now, oo_valid_until = None, oo_supersedes = None,
      oo_raw_result_ref = None, oo_visibility = VIS_MODEL_VISIBLE\<rparr>"

definition sample_plan :: presentation_plan where
  "sample_plan = \<lparr>pp_schema_version = str ''presentation-plan-v1'', pp_template_id = str ''ORDER_STATUS_SUMMARY_V1'',
     pp_tone = NEUTRAL, pp_opening_variant = DIRECT, pp_field_order = presentation_fields,
     pp_closing_variant = CLOSING_NONE\<rparr>"

lemma sample_plan_valid:
  "validate_presentation_plan (Obj sample_plan []) (Obj (sample_observation product) []) = Inr sample_plan"
proof -
  have "length presentation_fields = 5" by (simp add: presentation_fields_def)
  then have "new_presentation_plan sample_plan = Inr sample_plan"
    by (simp add: new_presentation_plan_def construct_Inr_iff sample_plan_def)
  then show ?thesis by (simp add: validate_presentation_plan_def sample_observation_def is_exact_instance_def)
qed

theorem rendering_is_complete_witness:
  "\<exists>message. render_order_summary (Obj (sample_observation (str ''tea'')) []) (Obj sample_plan []) = Inr message
     \<and> py_in (str ''tea'') message \<and> py_in (str ''O-1234'') message"
  using rendering_is_complete[OF sample_plan_valid[of "str ''tea''"] refl] by (auto simp: sample_observation_def)

text \<open>C20. The renderer does not bound its message, the result does: a completed run whose rendered message is
  longer than 4000 characters gets no result but a validation error of the field \<open>message\<close>; every shorter
  message is delivered unchanged.\<close>

theorem long_message_is_refused:
  assumes "render_order_summary observation plan = Inr message"
  shows "map_result run_id STOP_GOAL_COMPLETED (Some message) =
    (if length message \<le> 4000
     then Inr \<lparr>res_run_id = run_id, res_outcome = OUTCOME_COMPLETED, res_message = message\<rparr>
     else Inl (FieldErrors [''message'']))"
proof -
  have "message \<noteq> []" using rendered_nonempty[OF assms] .
  then show ?thesis
    by (cases message) (auto simp: map_result_def new_agent_run_result_def construct_def construct_with_def
      failing_def checks_def)
qed

theorem long_message_is_refused_witness:
  "\<exists>message. render_order_summary (Obj (sample_observation (replicate 4001 65)) []) (Obj sample_plan []) = Inr message
     \<and> map_result 1 STOP_GOAL_COMPLETED (Some message) = Inl (FieldErrors [''message''])"
proof -
  obtain message where m: "render_order_summary (Obj (sample_observation (replicate 4001 65)) []) (Obj sample_plan []) = Inr message"
    "py_in (replicate 4001 65) message"
    using render_with_facts[OF sample_plan_valid] by (auto simp: sample_observation_def)
  from py_in_length[OF m(2)] have "\<not> length message \<le> 4000" by (simp only: length_replicate)
  with m(1) long_message_is_refused[OF m(1), of 1] show ?thesis by simp
qed

end
