(* ===== verification/Recovery_Records.thy ===== *)
theory Recovery_Records
  imports Tool_Commands Task_State
begin


section \<open>Restart-recovery records (application/records.py, lines 151--250, 1550--1583, 1894--1983 and 2256--2850)\<close>

text \<open>
  The recovery closure is everything the store holds for one interrupted Run; the apply command
  pairs it with the next projection of each record. Their validators are the contract between
  the service that plans a recovery and the store that applies it. Records of one transaction
  have UTC timestamps, so equality of records is equality of their fields.
\<close>

subsection \<open>Conversation, links\<close>

record conversation_record =
  cr_schema_version :: pystr
  cr_conversation_id :: uuid
  cr_owner_customer_id :: pystr
  cr_created_at :: datetime

definition new_conversation_record :: "conversation_record \<Rightarrow> validation_error + conversation_record" where
  "new_conversation_record c = construct
     [(''schema_version'', NonEmptyString (cr_schema_version c)),
      (''owner_customer_id'', NonEmptyString (cr_owner_customer_id c)),
      (''created_at'', is_utc (cr_created_at c))] [] c"

record conversation_task_link_record =
  ctl_schema_version :: pystr
  ctl_conversation_id :: uuid
  ctl_task_id :: uuid
  ctl_link_reason :: pystr
  ctl_linked_at :: datetime
  ctl_ended_at :: "datetime option"

definition new_conversation_task_link_record ::
  "conversation_task_link_record \<Rightarrow> validation_error + conversation_task_link_record" where
  "new_conversation_task_link_record l = construct
     [(''schema_version'', NonEmptyString (ctl_schema_version l)),
      (''link_reason'', NonEmptyString (ctl_link_reason l)),
      (''linked_at'', is_utc (ctl_linked_at l)),
      (''ended_at'', opt_all is_utc (ctl_ended_at l))]
     [(\<not> opt_all (\<lambda>e. \<not> dt_less e (ctl_linked_at l)) (ctl_ended_at l),
       ''ConversationTaskLink ended_at cannot precede linked_at'')] l"

record run_task_link_record =
  rl_schema_version :: pystr
  rl_run_id :: uuid
  rl_task_id :: uuid
  rl_base_task_state_version :: "int option"
  rl_result_task_state_version :: "int option"

definition new_run_task_link_record :: "run_task_link_record \<Rightarrow> validation_error + run_task_link_record" where
  "new_run_task_link_record l = construct
     [(''schema_version'', NonEmptyString (rl_schema_version l)),
      (''base_task_state_version'', opt_all (\<lambda>v. 1 \<le> v) (rl_base_task_state_version l)),
      (''result_task_state_version'', opt_all (\<lambda>v. 1 \<le> v) (rl_result_task_state_version l))]
     [((case (rl_base_task_state_version l, rl_result_task_state_version l) of
          (Some base, Some result) \<Rightarrow> result < base | _ \<Rightarrow> False),
       ''RunTaskLink result version cannot precede base version'')] l"

subsection \<open>Transition commands\<close>

record mark_run_incomplete_command =
  mri_expected_active_record :: agent_run_record
  mri_incomplete_record :: agent_run_record

text \<open>\<open>_RUN_STABLE_FIELDS\<close>, \<open>_TASK_STABLE_FIELDS\<close>, \<open>_REQUEST_UNIT_STABLE_FIELDS\<close>\<close>

definition same_run_stable :: "agent_run_record \<Rightarrow> agent_run_record \<Rightarrow> bool" where
  "same_run_stable a b \<longleftrightarrow> ar_run_id a = ar_run_id b \<and> ar_conversation_id a = ar_conversation_id b
     \<and> ar_provider_lane a = ar_provider_lane b \<and> instant (ar_started_at a) = instant (ar_started_at b)"

definition same_task_stable :: "task_record \<Rightarrow> task_record \<Rightarrow> bool" where
  "same_task_stable a b \<longleftrightarrow> tk_task_id a = tk_task_id b \<and> tk_owner_customer_id a = tk_owner_customer_id b
     \<and> instant (tk_created_at a) = instant (tk_created_at b)"

definition same_unit_stable :: "request_unit_record \<Rightarrow> request_unit_record \<Rightarrow> bool" where
  "same_unit_stable a b \<longleftrightarrow> ru_request_unit_id a = ru_request_unit_id b \<and> ru_task_id a = ru_task_id b
     \<and> ru_goal_text a = ru_goal_text b \<and> ru_goal_source_refs a = ru_goal_source_refs b
     \<and> ru_contextualization_ref a = ru_contextualization_ref b \<and> ru_constraint_refs a = ru_constraint_refs b
     \<and> ru_dependency_refs a = ru_dependency_refs b \<and> ru_input_binding_refs a = ru_input_binding_refs b
     \<and> instant (ru_created_at a) = instant (ru_created_at b)"

definition new_mark_run_incomplete_command ::
  "mark_run_incomplete_command \<Rightarrow> validation_error + mark_run_incomplete_command" where
  "new_mark_run_incomplete_command c =
     (let expected = mri_expected_active_record c; incomplete = mri_incomplete_record c
      in construct []
        [(\<not> run_is_active (ar_status expected), ''Run recovery expects an active projection''),
         (ar_incomplete_reason expected \<noteq> None, ''active Run cannot carry incomplete_reason''),
         (ar_status incomplete \<noteq> RUN_INCOMPLETE, ''Run recovery requires INCOMPLETE status''),
         (ar_stop_reason incomplete \<noteq> Some STOP_PROCESS_RESTART_DETECTED,
          ''Run recovery requires PROCESS_RESTART_DETECTED stop reason''),
         (ar_incomplete_reason incomplete \<notin> set [None, Some PROCESS_RESTART],
          ''Run recovery incomplete_reason must be absent or PROCESS_RESTART_DETECTED''),
         (\<not> same_run_stable expected incomplete, ''Run recovery cannot change stable fields'')] c)"

record apply_task_transition_command =
  att_expected_task_record :: task_record
  att_next_task_record :: task_record
  att_expected_request_unit_record :: request_unit_record
  att_next_request_unit_record :: request_unit_record
  att_task_state_transition :: task_state_transition

definition new_apply_task_transition_command ::
  "apply_task_transition_command \<Rightarrow> validation_error + apply_task_transition_command" where
  "new_apply_task_transition_command c =
     (let expected_task = att_expected_task_record c; next_task = att_next_task_record c;
          expected_unit = att_expected_request_unit_record c; next_unit = att_next_request_unit_record c;
          transition = att_task_state_transition c
      in construct []
        [(tk_task_id expected_task \<noteq> tk_task_id next_task, ''Task identity cannot change''),
         (tk_owner_customer_id expected_task \<noteq> tk_owner_customer_id next_task, ''Task owner cannot change''),
         (\<not> same_task_stable expected_task next_task, ''Task stable fields cannot change''),
         (ru_request_unit_id expected_unit \<noteq> ru_request_unit_id next_unit, ''RequestUnit identity cannot change''),
         (\<not> same_unit_stable expected_unit next_unit, ''RequestUnit stable fields cannot change''),
         (ru_task_id expected_unit \<noteq> tk_task_id expected_task \<or> ru_task_id next_unit \<noteq> tk_task_id next_task
            \<or> tt_task_id transition \<noteq> tk_task_id expected_task
            \<or> tt_request_unit_id transition \<noteq> ru_request_unit_id expected_unit,
          ''Task transition must bind one exact Task and RequestUnit''),
         (tk_state_version expected_task \<noteq> tt_base_state_version transition
            \<or> ru_state_version expected_unit \<noteq> tt_base_state_version transition,
          ''Task and RequestUnit must match the transition base version''),
         (tk_state_version next_task \<noteq> tt_result_state_version transition
            \<or> ru_state_version next_unit \<noteq> tt_result_state_version transition,
          ''Task and RequestUnit must match the transition result version''),
         (tk_status expected_task \<noteq> tt_from_status transition \<or> ru_status expected_unit \<noteq> tt_from_status transition
            \<or> tk_status next_task \<noteq> tt_to_status transition \<or> ru_status next_unit \<noteq> tt_to_status transition,
          ''Task and RequestUnit status must match the transition''),
         (dt_less (tk_updated_at next_task) (tk_updated_at expected_task)
            \<or> dt_less (ru_updated_at next_unit) (ru_updated_at expected_unit)
            \<or> instant (tk_updated_at next_task) \<noteq> instant (tt_changed_at transition)
            \<or> instant (ru_updated_at next_unit) \<noteq> instant (tt_changed_at transition),
          ''next projections must use the transition change timestamp'')] c)"

subsection \<open>Aggregates\<close>

record task_recovery_aggregate =
  tra_task_record :: task_record
  tra_task_state_transitions :: "task_state_transition list"

text \<open>The adjacent pairs \<open>zip(transitions, transitions[1:])\<close>.\<close>

definition adjacent :: "'a list \<Rightarrow> ('a \<times> 'a) list" where
  "adjacent xs = zip xs (drop 1 xs)"

definition task_history_guards :: "task_recovery_aggregate \<Rightarrow> (bool \<times> string) list" where
  "task_history_guards a =
     (let task = tra_task_record a; transitions = tra_task_state_transitions a
      in if tk_state_version task = 1 then [(transitions \<noteq> [], ''Task version 1 has no transition history'')]
         else
          [(tk_state_version task \<noteq> int (length transitions) + 1,
            ''Task recovery requires a complete contiguous transition history''),
           (\<exists>(n, t)\<in>set (enumerate 2 transitions). tt_result_state_version t \<noteq> int n,
            ''Task recovery requires a complete contiguous transition history''),
           (dt_less (tt_changed_at (hd transitions)) (tk_created_at task),
            ''Task transition cannot occur before Task creation''),
           (has_duplicates (map (\<lambda>t. (tt_task_id t, tt_request_unit_id t, tt_result_state_version t)) transitions),
            ''Task transition identities must be unique''),
           (\<exists>t\<in>set transitions. tt_task_id t \<noteq> tk_task_id task,
            ''Task transition history must preserve Task identity''),
           (\<exists>(current, following)\<in>set (adjacent transitions). tt_to_status current \<noteq> tt_from_status following,
            ''Task recovery requires a complete contiguous status chain''),
           (tt_to_status (last transitions) \<noteq> tk_status task,
            ''Task transition terminal status must match Task projection''),
           (\<exists>(current, following)\<in>set (adjacent transitions). dt_less (tt_changed_at following) (tt_changed_at current),
            ''Task transition timestamps must be ordered''),
           (dt_less (tk_updated_at task) (tt_changed_at (last transitions)),
            ''Task projection cannot precede its terminal transition'')])"

definition new_task_recovery_aggregate ::
  "task_recovery_aggregate \<Rightarrow> validation_error + task_recovery_aggregate" where
  "new_task_recovery_aggregate a = construct
     [(''task_state_transitions'', length (tra_task_state_transitions a) \<le> 1)] (task_history_guards a) a"

record tool_call_recovery_aggregate =
  tca_tool_call_record :: tool_call_record
  tca_tool_attempt_records :: "tool_attempt_record list"

definition unfinished :: "tool_attempt_record \<Rightarrow> bool" where
  "unfinished a \<longleftrightarrow> at_finished_at a = None \<or> at_outcome a = None"

definition attempt_history_guards :: "tool_call_recovery_aggregate \<Rightarrow> (bool \<times> string) list" where
  "attempt_history_guards a =
     (let call = tca_tool_call_record a; attempts = tca_tool_attempt_records a;
          final = last attempts; status = tc_status call
      in [(1 < tc_attempt_count call, ''P0 ToolCall recovery does not accept retry attempts''),
          (status \<in> set [TC_CREATED, TC_RUNNING] \<and> (tc_failure_code call \<noteq> None \<or> tc_result_ref call \<noteq> None),
           ''active ToolCall cannot carry failure or result projection''),
          (map at_attempt_no attempts \<noteq> map int [1..<nat (tc_attempt_count call) + 1],
           ''ToolCall recovery requires the exact attempt sequence''),
          (\<exists>t\<in>set attempts. at_tool_call_id t \<noteq> tc_tool_call_id call,
           ''ToolAttempt history must preserve ToolCall identity'')]
         @ (case status of
             TC_CREATED \<Rightarrow> []
           | TC_RUNNING \<Rightarrow>
               [(attempts = [] \<or> at_finished_at final \<noteq> None \<or> at_outcome final \<noteq> None
                   \<or> list_ex unfinished (butlast attempts), ''RUNNING ToolCall requires one active terminal attempt'')]
           | TC_INTERRUPTED \<Rightarrow>
               [(attempts \<noteq> [] \<and> list_ex unfinished (butlast attempts),
                 ''INTERRUPTED ToolCall has inconsistent prior attempts''),
                (attempts \<noteq> [] \<and> at_finished_at final \<noteq> None \<and> at_outcome final \<noteq> Some TR_INTERRUPTED,
                 ''INTERRUPTED ToolCall finalized attempt must be INTERRUPTED''),
                (attempts \<noteq> [] \<and> at_finished_at final \<noteq> None
                   \<and> map_option instant (tc_finished_at call) \<noteq> map_option instant (at_finished_at final),
                 ''ToolCall and finalized attempt timestamps must match'')]
           | _ \<Rightarrow>
               [(list_ex unfinished attempts, ''terminal ToolCall requires finalized attempts''),
                ((case (at_outcome final, TERMINAL_TOOL_OUTCOMES status) of
                    (Some out, Some outs) \<Rightarrow> out \<notin> set outs | _ \<Rightarrow> True),
                 ''ToolCall terminal status and final attempt outcome must agree''),
                (map_option instant (tc_finished_at call) \<noteq> map_option instant (at_finished_at final),
                 ''ToolCall and final attempt timestamps must match''),
                (tc_failure_code call \<noteq> at_failure_code final,
                 ''ToolCall and final attempt failure_code must match'')]))"

definition new_tool_call_recovery_aggregate ::
  "tool_call_recovery_aggregate \<Rightarrow> validation_error + tool_call_recovery_aggregate" where
  "new_tool_call_recovery_aggregate a = construct
     [(''tool_attempt_records'', length (tca_tool_attempt_records a) \<le> 1)] (attempt_history_guards a) a"

section \<open>The recovery closure and the apply command (application/records.py, lines 2410--2850)\<close>

subsection \<open>RestartRecoveryClosure\<close>

record restart_recovery_closure =
  rrc_closure_fence :: uuid
  rrc_conversation_record :: conversation_record
  rrc_active_run_record :: agent_run_record
  rrc_conversation_task_links :: "conversation_task_link_record list"
  rrc_run_task_links :: "run_task_link_record list"
  rrc_task_aggregates :: "task_recovery_aggregate list"
  rrc_request_unit_records :: "request_unit_record list"
  rrc_tool_call_aggregates :: "tool_call_recovery_aggregate list"

definition closure_tasks :: "restart_recovery_closure \<Rightarrow> task_record list" where
  "closure_tasks c = map tra_task_record (rrc_task_aggregates c)"

definition closure_tools :: "restart_recovery_closure \<Rightarrow> tool_call_record list" where
  "closure_tools c = map tca_tool_call_record (rrc_tool_call_aggregates c)"

definition task_by_id :: "restart_recovery_closure \<Rightarrow> uuid \<Rightarrow> task_record option" where
  "task_by_id c = map_of (dict_by tk_task_id (closure_tasks c))"

definition unit_by_id :: "restart_recovery_closure \<Rightarrow> uuid \<Rightarrow> request_unit_record option" where
  "unit_by_id c = map_of (dict_by ru_request_unit_id (rrc_request_unit_records c))"

definition unit_by_task :: "restart_recovery_closure \<Rightarrow> uuid \<Rightarrow> request_unit_record option" where
  "unit_by_task c = map_of (dict_by ru_task_id (rrc_request_unit_records c))"

definition recovery_closure_guards :: "restart_recovery_closure \<Rightarrow> (bool \<times> string) list" where
  "recovery_closure_guards c =
     (let conversation = rrc_conversation_record c; run = rrc_active_run_record c;
          tasks = closure_tasks c; task_ids = map tk_task_id tasks;
          links = rrc_run_task_links c; units = rrc_request_unit_records c; tools = closure_tools c
      in [(\<not> run_is_active (ar_status run), ''recovery closure requires an active Run''),
          (ar_incomplete_reason run \<noteq> None, ''active recovery Run cannot carry incomplete_reason''),
          (ar_conversation_id run \<noteq> Some (cr_conversation_id conversation),
           ''active Run must identify the recovery Conversation''),
          (ar_status run = RUN_CREATED \<and> (rrc_conversation_task_links c \<noteq> [] \<or> links \<noteq> [] \<or> tasks \<noteq> []
             \<or> units \<noteq> [] \<or> tools \<noteq> []), ''CREATED Run recovery graph must be empty''),
          (has_duplicates task_ids, ''Task recovery identities must be unique''),
          (\<exists>t\<in>set tasks. tk_owner_customer_id t \<noteq> cr_owner_customer_id conversation,
           ''recovery Task owner must match Conversation owner''),
          (\<exists>l\<in>set links. rl_run_id l \<noteq> ar_run_id run, ''RunTaskLink must belong to the active Run''),
          (\<exists>l\<in>set links. rl_result_task_state_version l \<noteq> None, ''recovery RunTaskLink must remain active''),
          (has_duplicates (map rl_task_id links), ''RunTaskLink identities must be unique''),
          (set (map rl_task_id links) \<noteq> set task_ids, ''RunTaskLink set must match the recovery Task set''),
          (\<exists>l\<in>set links. (case (rl_base_task_state_version l, task_by_id c (rl_task_id l)) of
              (Some base, Some t) \<Rightarrow> tk_state_version t < base | _ \<Rightarrow> False),
           ''RunTaskLink base version cannot exceed its current Task version''),
          (\<exists>l\<in>set (rrc_conversation_task_links c). ctl_conversation_id l \<noteq> cr_conversation_id conversation
              \<or> ctl_ended_at l \<noteq> None, ''ConversationTaskLink must be active in the Conversation''),
          (has_duplicates (map ctl_task_id (rrc_conversation_task_links c)),
           ''ConversationTaskLink Task identities must be unique''),
          (set (map ctl_task_id (rrc_conversation_task_links c)) \<noteq> set task_ids,
           ''ConversationTaskLink set must match the recovery Task set''),
          (has_duplicates (map ru_request_unit_id units), ''RequestUnit identities must be unique''),
          (\<exists>u\<in>set units. ru_task_id u \<notin> set task_ids, ''RequestUnit cannot be orphaned from a Task''),
          (has_duplicates (map ru_task_id units), ''recovery requires one exact RequestUnit per Task''),
          (\<exists>u\<in>set units. (case task_by_id c (ru_task_id u) of None \<Rightarrow> True
              | Some t \<Rightarrow> ru_status u \<noteq> tk_status t \<or> ru_state_version u \<noteq> tk_state_version t),
           ''RequestUnit current status/version must match its Task''),
          (set (map ru_task_id units) \<noteq> set task_ids, ''RequestUnit closed set must match the recovery Task set''),
          (\<exists>a\<in>set (rrc_task_aggregates c). \<exists>tr\<in>set (tra_task_state_transitions a).
              (case unit_by_id c (tt_request_unit_id tr) of None \<Rightarrow> True
               | Some u \<Rightarrow> ru_task_id u \<noteq> tk_task_id (tra_task_record a)),
           ''Task transition RequestUnit must exist in its Task graph''),
          (has_duplicates (map tc_tool_call_id tools), ''ToolCall identities must be unique''),
          (\<exists>tool\<in>set tools. tc_status tool \<notin> set [TC_CREATED, TC_RUNNING] \<or> tc_run_id tool \<noteq> ar_run_id run
              \<or> task_by_id c (tc_task_id tool) = None
              \<or> (case unit_by_id c (tc_request_unit_id tool) of None \<Rightarrow> True
                 | Some u \<Rightarrow> ru_task_id u \<noteq> tc_task_id tool),
           ''active ToolCall owner graph must match Run/Task/RequestUnit''),
          (\<exists>tool\<in>set tools. (case task_by_id c (tc_task_id tool) of None \<Rightarrow> True
              | Some t \<Rightarrow> tc_validated_task_state_version tool \<noteq> tk_state_version t),
           ''active ToolCall validated Task version must match its Task''),
          (\<exists>tool\<in>set tools. (case unit_by_id c (tc_request_unit_id tool) of None \<Rightarrow> True
              | Some u \<Rightarrow> \<not> set (tc_argument_binding_refs tool) \<subseteq> set (ru_input_binding_refs u)),
           ''active ToolCall argument bindings must belong to its RequestUnit'')])"

definition new_restart_recovery_closure ::
  "restart_recovery_closure \<Rightarrow> validation_error + restart_recovery_closure" where
  "new_restart_recovery_closure c = construct
     [(''conversation_task_links'', length (rrc_conversation_task_links c) \<le> 1),
      (''run_task_links'', length (rrc_run_task_links c) \<le> 1),
      (''task_aggregates'', length (rrc_task_aggregates c) \<le> 1),
      (''request_unit_records'', length (rrc_request_unit_records c) \<le> 1),
      (''tool_call_aggregates'', length (rrc_tool_call_aggregates c) \<le> 1)]
     (recovery_closure_guards c) c"

subsection \<open>ApplyRestartRecoveryCommand\<close>

record apply_restart_recovery_command =
  arr_expected_closure :: restart_recovery_closure
  arr_run_transition :: mark_run_incomplete_command
  arr_tool_call_transitions :: "interrupt_for_recovery_command list"
  arr_task_transitions :: "apply_task_transition_command list"
  arr_terminal_run_task_links :: "run_task_link_record list"
  arr_recovery_trace_events :: "trace_event list"

definition RECOVERY_ACTIVE_TASK_STATUSES :: "task_status list" where
  "RECOVERY_ACTIVE_TASK_STATUSES = [ACTIVE, WAITING_USER, PENDING_ACTION, ACTION_IN_PROGRESS, RECOVERING]"

definition transition_by_task ::
  "apply_task_transition_command list \<Rightarrow> uuid \<Rightarrow> apply_task_transition_command option" where
  "transition_by_task ts = map_of (dict_by (tk_task_id \<circ> att_expected_task_record) ts)"

definition expected_result_version ::
  "restart_recovery_closure \<Rightarrow> apply_task_transition_command list \<Rightarrow> uuid \<Rightarrow> int option" where
  "expected_result_version closure ts task_id =
     (case transition_by_task ts task_id of
        Some t \<Rightarrow> Some (tk_state_version (att_next_task_record t))
      | None \<Rightarrow> map_option tk_state_version (task_by_id closure task_id))"

text \<open>\<open>next_projections_are_bijective_with_expected_closure\<close>\<close>

definition projection_guards :: "apply_restart_recovery_command \<Rightarrow> (bool \<times> string) list" where
  "projection_guards c =
     (let closure = arr_expected_closure c; tools = closure_tools closure;
          tool_ids = map (tc_tool_call_id \<circ> irc_active_record) (arr_tool_call_transitions c);
          transitions = arr_task_transitions c;
          links = rrc_run_task_links closure; terminal_links = arr_terminal_run_task_links c
      in [(mri_expected_active_record (arr_run_transition c) \<noteq> rrc_active_run_record closure,
           ''Run transition must use the expected closure Run''),
          (has_duplicates tool_ids, ''ToolCall transition identities must be unique''),
          (\<exists>t\<in>set (arr_tool_call_transitions c).
              map_of (dict_by tc_tool_call_id tools) (tc_tool_call_id (irc_active_record t)) \<noteq> Some (irc_active_record t),
           ''ToolCall transition must use its exact closure projection''),
          (set tool_ids \<noteq> set (map tc_tool_call_id tools), ''recovery requires the exact ToolCall transition set''),
          (has_duplicates (map (tk_task_id \<circ> att_expected_task_record) transitions),
           ''Task transition identities must be unique''),
          (\<exists>t\<in>set transitions.
              task_by_id closure (tk_task_id (att_expected_task_record t)) \<noteq> Some (att_expected_task_record t)
              \<or> unit_by_task closure (tk_task_id (att_expected_task_record t)) \<noteq> Some (att_expected_request_unit_record t),
           ''Task transition must use exact closure projections''),
          (\<exists>t\<in>set transitions. tk_status (att_next_task_record t) \<noteq> BLOCKED
              \<or> ru_status (att_next_request_unit_record t) \<noteq> BLOCKED,
           ''restart recovery Task transition must end BLOCKED''),
          (set (map (tk_task_id \<circ> att_expected_task_record) transitions)
             \<noteq> set (map tk_task_id (filter (\<lambda>t. tk_status t \<in> set RECOVERY_ACTIVE_TASK_STATUSES) (closure_tasks closure))),
           ''recovery requires the exact Task transition set''),
          (has_duplicates (map rl_task_id terminal_links), ''terminal RunTaskLink identities must be unique''),
          (\<exists>l\<in>set terminal_links. (case map_of (dict_by rl_task_id links) (rl_task_id l) of None \<Rightarrow> True
              | Some expected \<Rightarrow> rl_run_id l \<noteq> rl_run_id expected \<or> rl_schema_version l \<noteq> rl_schema_version expected
                  \<or> rl_base_task_state_version l \<noteq> rl_base_task_state_version expected
                  \<or> rl_result_task_state_version l = None),
           ''terminal RunTaskLink must preserve its closure projection''),
          (\<exists>l\<in>set terminal_links. rl_result_task_state_version l \<noteq> expected_result_version closure transitions (rl_task_id l),
           ''RunTaskLink result Task version must match recovery result''),
          (set (map rl_task_id terminal_links) \<noteq> set (map rl_task_id links),
           ''recovery requires the exact terminal RunTaskLink set'')])"

text \<open>
  The per-kind projection (\<open>_RECOVERY_TRACE_ALLOWED_FIELDS\<close>): every field outside the kind's
  set is \<open>None\<close> or empty, that is, clearing the allowed fields leaves the blank event.
\<close>

definition allowed_recovery_projection :: "trace_event \<Rightarrow> bool" where
  "allowed_recovery_projection e =
     (let blank = blank_event (te_trace_event_id e) (te_event_type e) (te_occurred_at e) (te_run_id e)
      in case te_event_type e of
           RUN_STOPPED \<Rightarrow> e\<lparr>te_user_outcome := None, te_stop_reason := None\<rparr> = blank
         | TASK_STATE_CHANGED \<Rightarrow> e\<lparr>te_task_id := None, te_request_unit_id := None\<rparr> = blank
         | TOOL_CALL_INTERRUPTED \<Rightarrow> e\<lparr>te_tool_call_id := None, te_tool_call_terminal_status := None\<rparr> = blank
         | _ \<Rightarrow> False)"

definition events_of :: "trace_event_type \<Rightarrow> trace_event list \<Rightarrow> trace_event list" where
  "events_of kind events = filter (\<lambda>e. te_event_type e = kind) events"

text \<open>\<open>recovery_trace_is_exact_bounded_and_projection_safe\<close>\<close>

definition trace_guards :: "apply_restart_recovery_command \<Rightarrow> (bool \<times> string) list" where
  "trace_guards c =
     (let events = arr_recovery_trace_events c;
          run_id = ar_run_id (rrc_active_run_record (arr_expected_closure c));
          stopped = events_of RUN_STOPPED events;
          task_events = map (\<lambda>e. ((te_task_id e, te_request_unit_id e), instant (te_occurred_at e)))
            (events_of TASK_STATE_CHANGED events);
          expected_task_events = map (\<lambda>t. ((Some (tk_task_id (att_next_task_record t)),
              Some (ru_request_unit_id (att_next_request_unit_record t))),
              instant (tt_changed_at (att_task_state_transition t)))) (arr_task_transitions c);
          tool_events = map (\<lambda>e. (te_tool_call_id e, Some (instant (te_occurred_at e))))
            (events_of TOOL_CALL_INTERRUPTED events);
          expected_tool_events = map (\<lambda>t. (Some (tc_tool_call_id (irc_interrupted_record t)),
              map_option instant (tc_finished_at (irc_interrupted_record t)))) (arr_tool_call_transitions c)
      in [(has_duplicates (map te_trace_event_id events), ''recovery Trace event identities must be unique''),
          (\<exists>e\<in>set events. te_event_type e \<notin> set [RUN_STOPPED, TASK_STATE_CHANGED, TOOL_CALL_INTERRUPTED],
           ''unsupported recovery Trace event type''),
          (\<exists>e\<in>set events. te_run_id e \<noteq> run_id, ''every recovery Trace event must use the same recovery Run''),
          (\<exists>e\<in>set events. \<not> allowed_recovery_projection e,
           ''recovery Trace only allows its exact per-kind projection''),
          (length stopped \<noteq> 1, ''recovery Trace requires exactly one RunStopped event''),
          (te_user_outcome (hd stopped) \<noteq> Some OUTCOME_BLOCKED, ''recovery RunStopped requires BLOCKED user outcome''),
          (te_stop_reason (hd stopped) \<noteq> Some STOP_PROCESS_RESTART_DETECTED,
           ''recovery RunStopped requires PROCESS_RESTART_DETECTED''),
          (Some (instant (te_occurred_at (hd stopped)))
             \<noteq> map_option instant (ar_completed_at (mri_incomplete_record (arr_run_transition c))),
           ''recovery RunStopped must use the Run completion timestamp''),
          (has_duplicates (map fst task_events), ''recovery TaskStateChanged event identities must be unique''),
          (set (map fst task_events) \<noteq> set (map fst expected_task_events),
           ''recovery requires the exact TaskStateChanged event set''),
          (\<exists>(identity, changed_at)\<in>set (dict_of_items expected_task_events).
              map_of task_events identity \<noteq> Some changed_at,
           ''recovery TaskStateChanged must use the Task transition timestamp''),
          (\<exists>e\<in>set (events_of TOOL_CALL_INTERRUPTED events). te_tool_call_terminal_status e \<noteq> Some TC_INTERRUPTED,
           ''recovery ToolCallInterrupted requires INTERRUPTED status''),
          (has_duplicates (map fst tool_events), ''recovery ToolCallInterrupted event identities must be unique''),
          (set (map fst tool_events) \<noteq> set (map fst expected_tool_events),
           ''recovery requires the exact ToolCallInterrupted event set''),
          (\<exists>(identity, finished_at)\<in>set (dict_of_items expected_tool_events).
              map_of tool_events identity \<noteq> Some finished_at,
           ''recovery ToolCallInterrupted must use the ToolCall interruption timestamp'')])"

definition new_apply_restart_recovery_command ::
  "apply_restart_recovery_command \<Rightarrow> validation_error + apply_restart_recovery_command" where
  "new_apply_restart_recovery_command c = construct
     [(''tool_call_transitions'', length (arr_tool_call_transitions c) \<le> 1),
      (''task_transitions'', length (arr_task_transitions c) \<le> 1),
      (''terminal_run_task_links'', length (arr_terminal_run_task_links c) \<le> 1),
      (''recovery_trace_events'', 1 \<le> length (arr_recovery_trace_events c)
         \<and> length (arr_recovery_trace_events c) \<le> 3
         \<and> list_all (\<lambda>e. new_trace_event e = Inr e) (arr_recovery_trace_events c))]
     (projection_guards c @ trace_guards c) c"
end
