(* ===== verification/Restart_Recovery.thy ===== *)
theory Restart_Recovery
  imports Recovery_Records
begin

section \<open>The restart-recovery service (application/restart_recovery_service.py)\<close>

text \<open>
  \<open>recover_pending\<close> loads at most one closure, projects every record of it once, wraps the
  projections in one \<open>ApplyRestartRecoveryCommand\<close> and hands that to the port. The port is
  the environment: what it loads, and what it answers to a command. The clock is read once; the
  identity factory is read in call order, so its \<open>n\<close>-th answer is \<open>re_uuid env n\<close>.
\<close>

datatype recovery_write_result =
    RECOVERY_APPLIED | RECOVERY_CLOSURE_CONFLICT | RECOVERY_NOT_APPLICABLE | RECOVERY_RECONCILIATION_REQUIRED

datatype recovery_error = InvalidRecord validation_error | MissingKey uuid

record restart_recovery_result =
  rs_ready :: bool
  rs_closure_found :: bool
  rs_write_result :: "recovery_write_result option"

record recovery_env =
  re_load :: "restart_recovery_closure option"
  re_claim_and_apply :: "apply_restart_recovery_command \<Rightarrow> recovery_write_result"
  re_clock :: datetime
  re_uuid :: "nat \<Rightarrow> uuid"

definition validated :: "validation_error + 'a \<Rightarrow> recovery_error + 'a" where
  "validated m = (case m of Inl e \<Rightarrow> Inl (InvalidRecord e) | Inr x \<Rightarrow> Inr x)"

definition getitem :: "('k \<Rightarrow> 'v option) \<Rightarrow> 'k \<Rightarrow> ('k \<Rightarrow> recovery_error) \<Rightarrow> recovery_error + 'v" where
  "getitem d k missing = (case d k of None \<Rightarrow> Inl (missing k) | Some v \<Rightarrow> Inr v)"

subsection \<open>Projections\<close>

definition incomplete_run :: "datetime \<Rightarrow> agent_run_record \<Rightarrow> agent_run_record" where
  "incomplete_run recovered_at r =
     r\<lparr>ar_status := RUN_INCOMPLETE, ar_completed_at := Some recovered_at,
       ar_stop_reason := Some STOP_PROCESS_RESTART_DETECTED, ar_incomplete_reason := Some PROCESS_RESTART\<rparr>"

definition recover_run :: "datetime \<Rightarrow> agent_run_record \<Rightarrow> recovery_error + mark_run_incomplete_command" where
  "recover_run recovered_at r =
     res_bind (validated (new_agent_run_record (incomplete_run recovered_at r))) (\<lambda>incomplete.
     validated (new_mark_run_incomplete_command
       \<lparr>mri_expected_active_record = r, mri_incomplete_record = incomplete\<rparr>))"

definition interrupted_tool :: "datetime \<Rightarrow> tool_call_record \<Rightarrow> tool_call_record" where
  "interrupted_tool recovered_at t =
     t\<lparr>tc_status := TC_INTERRUPTED, tc_finished_at := Some recovered_at,
       tc_interruption_reason := Some PROCESS_RESTART\<rparr>"

definition recover_tool_call ::
  "datetime \<Rightarrow> tool_call_record \<Rightarrow> recovery_error + interrupt_for_recovery_command" where
  "recover_tool_call recovered_at active =
     res_bind (validated (new_tool_call_record (interrupted_tool recovered_at active))) (\<lambda>interrupted.
     validated (new_interrupt_for_recovery_command
       \<lparr>irc_active_record = active, irc_interrupted_record = interrupted\<rparr>))"

definition blocked_task :: "datetime \<Rightarrow> uuid \<Rightarrow> task_record \<Rightarrow> task_record" where
  "blocked_task recovered_at reason_ref t =
     t\<lparr>tk_status := BLOCKED, tk_state_version := tk_state_version t + 1, tk_updated_at := recovered_at,
       tk_last_outcome_ref := Some reason_ref\<rparr>"

definition blocked_unit :: "datetime \<Rightarrow> uuid \<Rightarrow> request_unit_record \<Rightarrow> request_unit_record" where
  "blocked_unit recovered_at reason_ref u =
     u\<lparr>ru_status := BLOCKED, ru_state_version := ru_state_version u + 1, ru_updated_at := recovered_at,
       ru_result_refs := ru_result_refs u @ [reason_ref]\<rparr>"

definition blocking_transition ::
  "datetime \<Rightarrow> uuid \<Rightarrow> task_record \<Rightarrow> request_unit_record \<Rightarrow> task_state_transition" where
  "blocking_transition recovered_at reason_ref t u =
     \<lparr>tt_task_id = tk_task_id t, tt_request_unit_id = ru_request_unit_id u, tt_from_status = tk_status t,
      tt_to_status = BLOCKED, tt_base_state_version = tk_state_version t,
      tt_result_state_version = tk_state_version t + 1, tt_reason_ref = reason_ref, tt_changed_at = recovered_at\<rparr>"

definition recover_task ::
  "datetime \<Rightarrow> uuid \<Rightarrow> task_record \<Rightarrow> request_unit_record \<Rightarrow> recovery_error + apply_task_transition_command" where
  "recover_task recovered_at reason_ref task request_unit =
     res_bind (validated (new_task_record (blocked_task recovered_at reason_ref task))) (\<lambda>next_task.
     res_bind (validated (new_request_unit_record (blocked_unit recovered_at reason_ref request_unit))) (\<lambda>next_unit.
     res_bind (validated (new_task_state_transition
       (blocking_transition recovered_at reason_ref task request_unit))) (\<lambda>transition.
     validated (new_apply_task_transition_command
       \<lparr>att_expected_task_record = task, att_next_task_record = next_task,
        att_expected_request_unit_record = request_unit, att_next_request_unit_record = next_unit,
        att_task_state_transition = transition\<rparr>))))"

text \<open>The loop over the Task aggregates; \<open>n\<close> counts the identities taken so far.\<close>

definition is_recoverable :: "task_record \<Rightarrow> bool" where
  "is_recoverable t \<longleftrightarrow> tk_status t \<in> set RECOVERY_ACTIVE_TASK_STATUSES"

fun recover_tasks ::
  "(nat \<Rightarrow> uuid) \<Rightarrow> datetime \<Rightarrow> (uuid \<Rightarrow> request_unit_record option) \<Rightarrow> nat \<Rightarrow> task_record list
   \<Rightarrow> recovery_error + apply_task_transition_command list" where
  "recover_tasks uuids recovered_at units n [] = Inr []"
| "recover_tasks uuids recovered_at units n (task # rest) =
     (if \<not> is_recoverable task then recover_tasks uuids recovered_at units n rest
      else res_bind (getitem units (tk_task_id task) MissingKey) (\<lambda>request_unit.
           res_bind (recover_task recovered_at (uuids n) task request_unit) (\<lambda>transition.
           res_bind (recover_tasks uuids recovered_at units (Suc n) rest) (\<lambda>transitions.
           Inr (transition # transitions)))))"

definition terminal_link ::
  "restart_recovery_closure \<Rightarrow> apply_task_transition_command list \<Rightarrow> run_task_link_record
   \<Rightarrow> recovery_error + run_task_link_record" where
  "terminal_link closure transitions link =
     res_bind (getitem (expected_result_version closure transitions) (rl_task_id link) MissingKey) (\<lambda>result_version.
     validated (new_run_task_link_record (link\<lparr>rl_result_task_state_version := Some result_version\<rparr>)))"

subsection \<open>Trace events\<close>

definition stopped_event :: "uuid \<Rightarrow> datetime \<Rightarrow> uuid \<Rightarrow> trace_event" where
  "stopped_event event_id recovered_at run_id =
     (blank_event event_id RUN_STOPPED recovered_at run_id)
       \<lparr>te_user_outcome := Some OUTCOME_BLOCKED, te_stop_reason := Some STOP_PROCESS_RESTART_DETECTED\<rparr>"

definition task_changed_event :: "uuid \<Rightarrow> uuid \<Rightarrow> apply_task_transition_command \<Rightarrow> trace_event" where
  "task_changed_event event_id run_id t =
     (blank_event event_id TASK_STATE_CHANGED (tt_changed_at (att_task_state_transition t)) run_id)
       \<lparr>te_task_id := Some (tk_task_id (att_next_task_record t)),
        te_request_unit_id := Some (ru_request_unit_id (att_next_request_unit_record t))\<rparr>"

definition tool_interrupted_event ::
  "uuid \<Rightarrow> uuid \<Rightarrow> datetime \<Rightarrow> interrupt_for_recovery_command \<Rightarrow> trace_event" where
  "tool_interrupted_event event_id run_id finished_at t =
     (blank_event event_id TOOL_CALL_INTERRUPTED finished_at run_id)
       \<lparr>te_tool_call_id := Some (tc_tool_call_id (irc_interrupted_record t)),
        te_tool_call_terminal_status := Some TC_INTERRUPTED\<rparr>"

text \<open>
  \<open>finished_at\<close> of an interrupted record was set to \<open>recovered_at\<close> just before; a record with
  no such value would make the event's \<open>occurred_at\<close> field invalid.
\<close>

definition recovery_events ::
  "(nat \<Rightarrow> uuid) \<Rightarrow> nat \<Rightarrow> datetime \<Rightarrow> uuid \<Rightarrow> apply_task_transition_command list
   \<Rightarrow> interrupt_for_recovery_command list \<Rightarrow> recovery_error + trace_event list" where
  "recovery_events uuids n recovered_at run_id task_transitions tool_transitions =
     (let m = Suc n + length task_transitions
      in res_map (\<lambda>e. validated (new_trace_event e))
        (stopped_event (uuids n) recovered_at run_id
         # map (\<lambda>(i, t). task_changed_event (uuids i) run_id t) (enumerate (Suc n) task_transitions)
         @ map (\<lambda>(i, t). tool_interrupted_event (uuids i) run_id
             (case tc_finished_at (irc_interrupted_record t) of Some f \<Rightarrow> f | None \<Rightarrow> Datetime 0 None) t)
             (enumerate m tool_transitions)))"

subsection \<open>The service\<close>

definition plan_recovery ::
  "(nat \<Rightarrow> uuid) \<Rightarrow> datetime \<Rightarrow> restart_recovery_closure \<Rightarrow> recovery_error + apply_restart_recovery_command" where
  "plan_recovery uuids recovered_at closure =
     res_bind (recover_run recovered_at (rrc_active_run_record closure)) (\<lambda>run_transition.
     res_bind (res_map (recover_tool_call recovered_at) (closure_tools closure)) (\<lambda>tool_transitions.
     res_bind (recover_tasks uuids recovered_at (unit_by_task closure) 0 (closure_tasks closure)) (\<lambda>task_transitions.
     res_bind (res_map (terminal_link closure task_transitions) (rrc_run_task_links closure)) (\<lambda>terminal_links.
     res_bind (recovery_events uuids (length task_transitions) recovered_at
       (ar_run_id (rrc_active_run_record closure)) task_transitions tool_transitions) (\<lambda>trace_events.
     validated (new_apply_restart_recovery_command
       \<lparr>arr_expected_closure = closure, arr_run_transition = run_transition,
        arr_tool_call_transitions = tool_transitions, arr_task_transitions = task_transitions,
        arr_terminal_run_task_links = terminal_links, arr_recovery_trace_events = trace_events\<rparr>))))))"

definition recover_pending :: "recovery_env \<Rightarrow> recovery_error + restart_recovery_result" where
  "recover_pending env =
     (case re_load env of
        None \<Rightarrow> Inr \<lparr>rs_ready = True, rs_closure_found = False, rs_write_result = None\<rparr>
      | Some closure \<Rightarrow>
          res_bind (plan_recovery (re_uuid env) (re_clock env) closure) (\<lambda>command.
          let write_result = re_claim_and_apply env command
          in Inr \<lparr>rs_ready = (write_result = RECOVERY_APPLIED), rs_closure_found = True,
                  rs_write_result = Some write_result\<rparr>))"

subsection \<open>What the loaded records satisfy\<close>

definition closure_valid :: "restart_recovery_closure \<Rightarrow> bool" where
  "closure_valid c \<longleftrightarrow> new_restart_recovery_closure c = Inr c
     \<and> new_agent_run_record (rrc_active_run_record c) = Inr (rrc_active_run_record c)
     \<and> list_all (\<lambda>l. new_run_task_link_record l = Inr l) (rrc_run_task_links c)
     \<and> list_all (\<lambda>a. new_task_recovery_aggregate a = Inr a) (rrc_task_aggregates c)
     \<and> list_all (\<lambda>t. new_task_record t = Inr t) (closure_tasks c)
     \<and> list_all (\<lambda>u. new_request_unit_record u = Inr u) (rrc_request_unit_records c)
     \<and> list_all (\<lambda>a. new_tool_call_recovery_aggregate a = Inr a) (rrc_tool_call_aggregates c)
     \<and> list_all (\<lambda>t. new_tool_call_record t = Inr t) (closure_tools c)"

text \<open>The clock has not gone behind a timestamp that a projection must not precede.\<close>

definition not_behind :: "datetime \<Rightarrow> restart_recovery_closure \<Rightarrow> bool" where
  "not_behind now c \<longleftrightarrow> is_utc now \<and> \<not> dt_less now (ar_started_at (rrc_active_run_record c))
     \<and> list_all (\<lambda>t. \<not> dt_less now (tc_started_at t)) (closure_tools c)
     \<and> list_all (\<lambda>t. is_recoverable t \<longrightarrow> \<not> dt_less now (tk_updated_at t)) (closure_tasks c)
     \<and> list_all (\<lambda>u. (\<exists>t\<in>set (closure_tasks c). tk_task_id t = ru_task_id u \<and> is_recoverable t)
         \<longrightarrow> \<not> dt_less now (ru_updated_at u)) (rrc_request_unit_records c)"

subsection \<open>One record at a time\<close>

lemma validated_Inr_iff [simp]: "validated m = Inr x \<longleftrightarrow> m = Inr x"
  by (simp add: validated_def split: sum.splits)

lemma getitem_Inr_iff [simp]: "getitem d k e = Inr v \<longleftrightarrow> d k = Some v"
  by (simp add: getitem_def split: option.splits)

lemma PROCESS_RESTART_ok [simp]: "NonEmptyString PROCESS_RESTART" "SafeReasonCode PROCESS_RESTART"
  by (simp_all add: PROCESS_RESTART_def NonEmptyString_def SafeReasonCode_def str_def is_AZ_def is_09_def)

lemma recover_run_iff:
  assumes "new_agent_run_record r = Inr r" "run_is_active (ar_status r)" "ar_incomplete_reason r = None"
  shows "recover_run now r = Inr x \<longleftrightarrow> is_utc now \<and> \<not> dt_less now (ar_started_at r)
    \<and> x = \<lparr>mri_expected_active_record = r, mri_incomplete_record = incomplete_run now r\<rparr>"
  using assms
  by (auto simp: recover_run_def res_bind_Inr_iff new_agent_run_record_def construct_Inr_iff
      run_lifecycle_is_consistent_def incomplete_run_def new_mark_run_incomplete_command_def
      same_run_stable_def run_is_active_def)

lemma recover_tool_call_iff:
  assumes "new_tool_call_record t = Inr t" "tc_status t \<in> set [TC_CREATED, TC_RUNNING]"
    "tc_attempt_count t \<le> 1" "tc_failure_code t = None" "tc_result_ref t = None"
  shows "recover_tool_call now t = Inr x \<longleftrightarrow> is_utc now \<and> \<not> dt_less now (tc_started_at t)
    \<and> x = \<lparr>irc_active_record = t, irc_interrupted_record = interrupted_tool now t\<rparr>"
proof -
  have "0 \<le> tc_attempt_count t" using assms(1) by (simp add: new_tool_call_record_def construct_Inr_iff)
  then have n: "tc_attempt_count t = 0 \<or> tc_attempt_count t = 1" using assms(3) by linarith
  have "new_tool_call_record (interrupted_tool now t) = Inr y \<longleftrightarrow>
      y = interrupted_tool now t \<and> is_utc now \<and> \<not> dt_less now (tc_started_at t)" for y
    using assms(1,2)
    by (auto simp: new_tool_call_record_def construct_Inr_iff interrupted_tool_def tool_call_lifecycle_def
        Let_def terminal_statuses_def requires_attempt_def)
  moreover have "new_interrupt_for_recovery_command
      \<lparr>irc_active_record = t, irc_interrupted_record = interrupted_tool now t\<rparr> = Inr x \<longleftrightarrow>
      x = \<lparr>irc_active_record = t, irc_interrupted_record = interrupted_tool now t\<rparr>"
    using assms(2,4,5) n
    by (auto simp: new_interrupt_for_recovery_command_def construct_Inr_iff Let_def interrupted_tool_def
        same_immutable_fields_def)
  ultimately show ?thesis by (auto simp: recover_tool_call_def res_bind_Inr_iff)
qed

lemma recover_task_iff:
  assumes "new_task_record t = Inr t" "new_request_unit_record u = Inr u" "is_recoverable t"
    "ru_task_id u = tk_task_id t" "ru_status u = tk_status t" "ru_state_version u = tk_state_version t"
  shows "recover_task now ref t u = Inr x \<longleftrightarrow>
    is_utc now \<and> \<not> dt_less now (tk_updated_at t) \<and> \<not> dt_less now (ru_updated_at u)
    \<and> x = \<lparr>att_expected_task_record = t, att_next_task_record = blocked_task now ref t,
           att_expected_request_unit_record = u, att_next_request_unit_record = blocked_unit now ref u,
           att_task_state_transition = blocking_transition now ref t u\<rparr>"
proof -
  let ?x = "\<lparr>att_expected_task_record = t, att_next_task_record = blocked_task now ref t,
           att_expected_request_unit_record = u, att_next_request_unit_record = blocked_unit now ref u,
           att_task_state_transition = blocking_transition now ref t u\<rparr>"
  have v: "1 \<le> tk_state_version t" "\<not> dt_less (tk_updated_at t) (tk_created_at t)"
    "\<not> dt_less (ru_updated_at u) (ru_created_at u)"
    using assms(1,2) by (simp_all add: new_task_record_def new_request_unit_record_def construct_Inr_iff)
  have s: "tk_status t \<noteq> BLOCKED"
    using assms(3) by (auto simp: is_recoverable_def RECOVERY_ACTIVE_TASK_STATUSES_def)
  have 1: "new_task_record (blocked_task now ref t) = Inr y \<longleftrightarrow>
      y = blocked_task now ref t \<and> is_utc now \<and> \<not> dt_less now (tk_created_at t)" for y
    using assms(1) by (auto simp: new_task_record_def construct_Inr_iff blocked_task_def)
  have 2: "new_request_unit_record (blocked_unit now ref u) = Inr y \<longleftrightarrow>
      y = blocked_unit now ref u \<and> is_utc now \<and> \<not> dt_less now (ru_created_at u)" for y
    using assms(2) by (auto simp: new_request_unit_record_def construct_Inr_iff blocked_unit_def)
  have 3: "new_task_state_transition (blocking_transition now ref t u) = Inr y \<longleftrightarrow>
      y = blocking_transition now ref t u \<and> is_utc now" for y
    using v s by (auto simp: new_task_state_transition_def construct_Inr_iff blocking_transition_def)
  have 4: "new_apply_task_transition_command ?x = Inr x \<longleftrightarrow> x = ?x
      \<and> \<not> dt_less now (tk_updated_at t) \<and> \<not> dt_less now (ru_updated_at u)"
    using assms(4,5,6)
    by (auto simp: new_apply_task_transition_command_def construct_Inr_iff Let_def blocked_task_def
        blocked_unit_def blocking_transition_def same_task_stable_def same_unit_stable_def)
  have "\<not> dt_less now (tk_updated_at t) \<Longrightarrow> \<not> dt_less now (tk_created_at t)"
    "\<not> dt_less now (ru_updated_at u) \<Longrightarrow> \<not> dt_less now (ru_created_at u)"
    using v by (simp_all add: dt_less_def)
  then show ?thesis by (auto simp: recover_task_def res_bind_Inr_iff 1 2 3 4)
qed

subsection \<open>The graph of a valid closure\<close>

text \<open>Every tuple holds at most one record, so the graph is empty or a single Task with its unit and links.\<close>

lemma length_le_1: "length xs \<le> 1 \<longleftrightarrow> xs = [] \<or> (\<exists>x. xs = [x])"
  by (cases xs) auto

lemma dict_by_Nil [simp]: "dict_by key [] = []"
  by (simp add: dict_by_def dict_of_items_def)

lemma dict_by_single [simp]: "dict_by key [x] = [(key x, x)]"
  by (simp add: dict_by_distinct)

lemma closure_valid_active:
  assumes "closure_valid c"
  shows "run_is_active (ar_status (rrc_active_run_record c))" "ar_incomplete_reason (rrc_active_run_record c) = None"
    "new_agent_run_record (rrc_active_run_record c) = Inr (rrc_active_run_record c)"
  using assms by (simp_all add: closure_valid_def new_restart_recovery_closure_def construct_Inr_iff
      recovery_closure_guards_def Let_def)

lemma closure_valid_tool:
  assumes "closure_valid c" "t \<in> set (closure_tools c)"
  shows "new_tool_call_record t = Inr t" "tc_status t \<in> set [TC_CREATED, TC_RUNNING]"
    "tc_attempt_count t \<le> 1" "tc_failure_code t = None" "tc_result_ref t = None"
proof -
  show 1: "new_tool_call_record t = Inr t"
    using assms by (simp add: closure_valid_def list_all_iff)
  show 2: "tc_status t \<in> set [TC_CREATED, TC_RUNNING]"
    using assms by (auto simp: closure_valid_def new_restart_recovery_closure_def construct_Inr_iff
      recovery_closure_guards_def Let_def)
  obtain a where "a \<in> set (rrc_tool_call_aggregates c)" "tca_tool_call_record a = t"
    using assms(2) by (auto simp: closure_tools_def)
  then have "list_all (\<lambda>(b, _). \<not> b) (attempt_history_guards a)"
    using assms(1) by (auto simp: closure_valid_def list_all_iff new_tool_call_recovery_aggregate_def construct_Inr_iff)
  then show "tc_attempt_count t \<le> 1" "tc_failure_code t = None" "tc_result_ref t = None"
    using 2 \<open>tca_tool_call_record a = t\<close> by (auto simp: attempt_history_guards_def Let_def)
qed

lemma closure_shape:
  assumes "closure_valid c"
  obtains
    (Empty) "closure_tasks c = []" "rrc_request_unit_records c = []" "rrc_run_task_links c = []"
      "closure_tools c = []"
  | (Single) t u l where "closure_tasks c = [t]" "rrc_request_unit_records c = [u]" "rrc_run_task_links c = [l]"
      "closure_tools c = [] \<or> (\<exists>tool. closure_tools c = [tool])"
      "ru_task_id u = tk_task_id t" "rl_task_id l = tk_task_id t" "ru_status u = tk_status t"
      "ru_state_version u = tk_state_version t" "rl_run_id l = ar_run_id (rrc_active_run_record c)"
      "opt_all (\<lambda>v. v \<le> tk_state_version t) (rl_base_task_state_version l)"
      "new_task_record t = Inr t" "new_request_unit_record u = Inr u" "new_run_task_link_record l = Inr l"
proof -
  have len: "length (closure_tasks c) \<le> 1" "length (rrc_request_unit_records c) \<le> 1"
    "length (rrc_run_task_links c) \<le> 1" "length (closure_tools c) \<le> 1"
    using assms by (auto simp: closure_valid_def new_restart_recovery_closure_def construct_Inr_iff
        closure_tasks_def closure_tools_def)
  have g: "list_all (\<lambda>(b, _). \<not> b) (recovery_closure_guards c)"
    using assms by (simp add: closure_valid_def new_restart_recovery_closure_def construct_Inr_iff)
  have links: "set (map rl_task_id (rrc_run_task_links c)) = set (map tk_task_id (closure_tasks c))"
    and units: "set (map ru_task_id (rrc_request_unit_records c)) = set (map tk_task_id (closure_tasks c))"
    using g by (simp_all add: recovery_closure_guards_def Let_def)
  show thesis
  proof (cases "closure_tasks c")
    case Nil
    have "closure_tools c = []"
    proof (rule ccontr)
      assume "closure_tools c \<noteq> []"
      then obtain tool where "tool \<in> set (closure_tools c)" by (cases "closure_tools c") auto
      then have "task_by_id c (tc_task_id tool) \<noteq> None"
        using g by (auto simp: recovery_closure_guards_def Let_def)
      then show False using Nil by (simp add: task_by_id_def)
    qed
    with Nil links units show thesis by (intro Empty) simp_all
  next
    case (Cons t ts)
    then have ts: "closure_tasks c = [t]" using len(1) by simp
    obtain u where u: "rrc_request_unit_records c = [u]" "ru_task_id u = tk_task_id t"
      using len(2) units ts unfolding length_le_1 by auto
    obtain l where l: "rrc_run_task_links c = [l]" "rl_task_id l = tk_task_id t"
      using len(3) links ts unfolding length_le_1 by auto
    have tid: "task_by_id c (tk_task_id t) = Some t" by (simp add: task_by_id_def ts)
    have 1: "ru_status u = tk_status t" "ru_state_version u = tk_state_version t"
      "rl_run_id l = ar_run_id (rrc_active_run_record c)"
      using g u l tid by (simp_all add: recovery_closure_guards_def Let_def)
    have 2: "opt_all (\<lambda>v. v \<le> tk_state_version t) (rl_base_task_state_version l)"
      using g l tid by (cases "rl_base_task_state_version l") (simp_all add: recovery_closure_guards_def Let_def)
    have 3: "new_task_record t = Inr t" "new_request_unit_record u = Inr u" "new_run_task_link_record l = Inr l"
      using assms ts u l by (simp_all add: closure_valid_def)
    have 4: "closure_tools c = [] \<or> (\<exists>tool. closure_tools c = [tool])"
      using length_le_1[THEN iffD1, OF len(4)] .
    show thesis by (rule Single[OF ts u(1) l(1) 4 u(2) l(2) 1 2 3])
  qed
qed

subsection \<open>The planned command in closed form\<close>

definition planned_tools :: "datetime \<Rightarrow> restart_recovery_closure \<Rightarrow> interrupt_for_recovery_command list" where
  "planned_tools now c =
     map (\<lambda>t. \<lparr>irc_active_record = t, irc_interrupted_record = interrupted_tool now t\<rparr>) (closure_tools c)"

definition planned_transition ::
  "datetime \<Rightarrow> uuid \<Rightarrow> task_record \<Rightarrow> request_unit_record \<Rightarrow> apply_task_transition_command" where
  "planned_transition now ref t u =
     \<lparr>att_expected_task_record = t, att_next_task_record = blocked_task now ref t,
      att_expected_request_unit_record = u, att_next_request_unit_record = blocked_unit now ref u,
      att_task_state_transition = blocking_transition now ref t u\<rparr>"

definition planned_tasks ::
  "(nat \<Rightarrow> uuid) \<Rightarrow> datetime \<Rightarrow> restart_recovery_closure \<Rightarrow> apply_task_transition_command list" where
  "planned_tasks uuids now c =
     map (\<lambda>(i, t). planned_transition now (uuids i) t (the (unit_by_task c (tk_task_id t))))
       (enumerate 0 (filter is_recoverable (closure_tasks c)))"

definition planned_links ::
  "(nat \<Rightarrow> uuid) \<Rightarrow> datetime \<Rightarrow> restart_recovery_closure \<Rightarrow> run_task_link_record list" where
  "planned_links uuids now c =
     map (\<lambda>l. l\<lparr>rl_result_task_state_version :=
       expected_result_version c (planned_tasks uuids now c) (rl_task_id l)\<rparr>) (rrc_run_task_links c)"

definition planned_events :: "(nat \<Rightarrow> uuid) \<Rightarrow> datetime \<Rightarrow> restart_recovery_closure \<Rightarrow> trace_event list" where
  "planned_events uuids now c =
     (let k = length (planned_tasks uuids now c); run_id = ar_run_id (rrc_active_run_record c)
      in stopped_event (uuids k) now run_id
         # map (\<lambda>(i, t). task_changed_event (uuids i) run_id t) (enumerate (Suc k) (planned_tasks uuids now c))
         @ map (\<lambda>(i, t). tool_interrupted_event (uuids i) run_id now t)
             (enumerate (Suc k + k) (planned_tools now c)))"

definition planned_command ::
  "(nat \<Rightarrow> uuid) \<Rightarrow> datetime \<Rightarrow> restart_recovery_closure \<Rightarrow> apply_restart_recovery_command" where
  "planned_command uuids now c =
     \<lparr>arr_expected_closure = c,
      arr_run_transition = \<lparr>mri_expected_active_record = rrc_active_run_record c,
        mri_incomplete_record = incomplete_run now (rrc_active_run_record c)\<rparr>,
      arr_tool_call_transitions = planned_tools now c, arr_task_transitions = planned_tasks uuids now c,
      arr_terminal_run_task_links = planned_links uuids now c,
      arr_recovery_trace_events = planned_events uuids now c\<rparr>"

lemmas planned_defs = planned_command_def planned_tools_def planned_tasks_def planned_transition_def
  planned_links_def planned_events_def

lemma res_map_pointwise:
  assumes "\<And>t x. t \<in> set xs \<Longrightarrow> f t = Inr x \<longleftrightarrow> P t \<and> x = g t"
  shows "res_map f xs = Inr ys \<longleftrightarrow> list_all P xs \<and> ys = map g xs"
  unfolding res_map_Inr_iff using assms
proof (induction xs arbitrary: ys)
  case (Cons x xs)
  then show ?case by (cases ys) auto
qed auto

lemma tool_stage:
  assumes "closure_valid c" "is_utc now"
  shows "res_map (recover_tool_call now) (closure_tools c) = Inr x \<longleftrightarrow>
    list_all (\<lambda>t. \<not> dt_less now (tc_started_at t)) (closure_tools c) \<and> x = planned_tools now c"
  unfolding planned_tools_def
  by (rule res_map_pointwise) (use assms recover_tool_call_iff[OF closure_valid_tool[OF assms(1)]] in simp)

text \<open>The clock condition of the Task loop.\<close>

definition tasks_not_behind :: "datetime \<Rightarrow> restart_recovery_closure \<Rightarrow> bool" where
  "tasks_not_behind now c \<longleftrightarrow>
     list_all (\<lambda>t. is_recoverable t \<longrightarrow> \<not> dt_less now (tk_updated_at t)) (closure_tasks c)
     \<and> list_all (\<lambda>u. (\<exists>t\<in>set (closure_tasks c). tk_task_id t = ru_task_id u \<and> is_recoverable t)
         \<longrightarrow> \<not> dt_less now (ru_updated_at u)) (rrc_request_unit_records c)"

lemma task_stage:
  assumes "closure_valid c" "is_utc now"
  shows "recover_tasks uuids now (unit_by_task c) 0 (closure_tasks c) = Inr x \<longleftrightarrow>
    tasks_not_behind now c \<and> x = planned_tasks uuids now c"
proof (rule closure_shape[OF assms(1)])
  assume "closure_tasks c = []" "rrc_request_unit_records c = []"
  then show ?thesis by (auto simp: tasks_not_behind_def planned_tasks_def)
next
  fix t u
  assume h: "closure_tasks c = [t]" "rrc_request_unit_records c = [u]" "ru_task_id u = tk_task_id t"
    "ru_status u = tk_status t" "ru_state_version u = tk_state_version t"
    "new_task_record t = Inr t" "new_request_unit_record u = Inr u"
  then have u: "unit_by_task c (tk_task_id t) = Some u" by (simp add: unit_by_task_def)
  show ?thesis
  proof (cases "is_recoverable t")
    case True
    then show ?thesis using assms(2) h u
      by (auto simp: res_bind_Inr_iff recover_task_iff planned_tasks_def planned_transition_def tasks_not_behind_def)
  qed (use h in \<open>auto simp: planned_tasks_def tasks_not_behind_def\<close>)
qed

lemma link_stage:
  assumes "closure_valid c"
  shows "res_map (terminal_link c (planned_tasks uuids now c)) (rrc_run_task_links c) = Inr (planned_links uuids now c)"
proof (rule closure_shape[OF assms])
  assume "rrc_run_task_links c = []"
  then show ?thesis by (simp add: planned_links_def)
next
  fix t u l
  assume h: "closure_tasks c = [t]" "rrc_request_unit_records c = [u]" "rrc_run_task_links c = [l]"
    "rl_task_id l = tk_task_id t" "new_task_record t = Inr t" "new_run_task_link_record l = Inr l"
    "opt_all (\<lambda>v. v \<le> tk_state_version t) (rl_base_task_state_version l)"
  let ?v = "if is_recoverable t then tk_state_version t + 1 else tk_state_version t"
  have v: "expected_result_version c (planned_tasks uuids now c) (tk_task_id t) = Some ?v"
    using h by (simp add: expected_result_version_def transition_by_task_def planned_tasks_def planned_transition_def
        task_by_id_def blocked_task_def)
  have "1 \<le> tk_state_version t" using h(5) by (simp add: new_task_record_def construct_Inr_iff)
  then have "new_run_task_link_record (l\<lparr>rl_result_task_state_version := Some ?v\<rparr>)
      = Inr (l\<lparr>rl_result_task_state_version := Some ?v\<rparr>)"
    using h(6,7) by (cases "rl_base_task_state_version l")
      (auto simp: new_run_task_link_record_def construct_Inr_iff)
  then show ?thesis using h(3,4) v
    by (simp add: planned_links_def terminal_link_def getitem_def validated_def)
qed

lemma new_events:
  assumes "is_utc now"
  shows "new_trace_event (stopped_event i now r) = Inr (stopped_event i now r)"
    "tt_changed_at (att_task_state_transition t) = now \<Longrightarrow>
      new_trace_event (task_changed_event i r t) = Inr (task_changed_event i r t)"
    "new_trace_event (tool_interrupted_event i r now tool) = Inr (tool_interrupted_event i r now tool)"
  using assms by (simp_all add: new_trace_event_def construct_Inr_iff stopped_event_def task_changed_event_def
      tool_interrupted_event_def blank_event_def trace_event_guards_def TOOL_TRACE_STATUS_def)

lemma planned_event_cases:
  assumes "e \<in> set (planned_events uuids now c)"
  obtains i where "e = stopped_event i now (ar_run_id (rrc_active_run_record c))"
  | i t where "t \<in> set (planned_tasks uuids now c)" "e = task_changed_event i (ar_run_id (rrc_active_run_record c)) t"
  | i t where "e = tool_interrupted_event i (ar_run_id (rrc_active_run_record c)) now t"
  using assms unfolding planned_events_def Let_def by (auto simp: enumerate_eq_zip dest!: set_zip_rightD)

lemma planned_task_time: "t \<in> set (planned_tasks uuids now c) \<Longrightarrow> tt_changed_at (att_task_state_transition t) = now"
  by (auto simp: planned_tasks_def planned_transition_def blocking_transition_def)

lemma planned_events_valid:
  assumes "is_utc now" "e \<in> set (planned_events uuids now c)"
  shows "new_trace_event e = Inr e"
  using assms(2) by (cases rule: planned_event_cases)
    (use new_events[OF assms(1)] planned_task_time in \<open>auto simp del: not_None_eq\<close>)

lemma event_stage:
  assumes "is_utc now"
  shows "recovery_events uuids (length (planned_tasks uuids now c)) now (ar_run_id (rrc_active_run_record c))
    (planned_tasks uuids now c) (planned_tools now c) = Inr (planned_events uuids now c)"
proof -
  have "map (\<lambda>(i, t). tool_interrupted_event (uuids i) r
             (case tc_finished_at (irc_interrupted_record t) of Some f \<Rightarrow> f | None \<Rightarrow> Datetime 0 None) t)
          (enumerate m (planned_tools now c))
      = map (\<lambda>(i, t). tool_interrupted_event (uuids i) r now t) (enumerate m (planned_tools now c))" for r m
    by (rule map_cong) (auto simp: planned_tools_def interrupted_tool_def enumerate_eq_zip dest!: set_zip_rightD)
  then have "recovery_events uuids (length (planned_tasks uuids now c)) now (ar_run_id (rrc_active_run_record c))
      (planned_tasks uuids now c) (planned_tools now c)
    = res_map (\<lambda>e. validated (new_trace_event e)) (planned_events uuids now c)"
    unfolding recovery_events_def planned_events_def Let_def by (simp only: add_Suc)
  also have "\<dots> = Inr (map (\<lambda>e. e) (planned_events uuids now c))"
    by (rule res_map_total) (simp add: planned_events_valid[OF assms] validated_def)
  finally show ?thesis by simp
qed

subsection \<open>The command accepts the plan\<close>

lemma planned_projection:
  assumes "closure_valid c"
  shows "list_all (\<lambda>(b, _). \<not> b) (projection_guards (planned_command uuids now c))"
proof (rule closure_shape[OF assms])
  assume "closure_tasks c = []" "rrc_request_unit_records c = []" "rrc_run_task_links c = []" "closure_tools c = []"
  then show ?thesis by (simp add: projection_guards_def planned_defs Let_def)
next
  fix t u l
  assume h: "closure_tasks c = [t]" "rrc_request_unit_records c = [u]" "rrc_run_task_links c = [l]"
    "closure_tools c = [] \<or> (\<exists>tool. closure_tools c = [tool])"
    "ru_task_id u = tk_task_id t" "rl_task_id l = tk_task_id t"
  have u: "unit_by_task c (tk_task_id t) = Some u" "task_by_id c (tk_task_id t) = Some t"
    using h by (simp_all add: unit_by_task_def task_by_id_def)
  have r: "is_recoverable t \<longleftrightarrow> tk_status t \<in> set RECOVERY_ACTIVE_TASK_STATUSES"
    by (simp add: is_recoverable_def)
  show ?thesis
    using h u by (cases "is_recoverable t")
      (auto simp: projection_guards_def planned_defs Let_def expected_result_version_def
        transition_by_task_def blocked_task_def blocked_unit_def r[symmetric])
qed

lemma planned_trace:
  assumes "closure_valid c"
  shows "list_all (\<lambda>(b, _). \<not> b) (trace_guards (planned_command uuids now c)) \<longleftrightarrow>
    distinct (map te_trace_event_id (planned_events uuids now c))"
proof -
  have 1: "length (planned_tasks uuids now c) \<le> 1 \<and> length (planned_tools now c) \<le> 1"
    by (rule closure_shape[OF assms]) (auto simp: planned_tasks_def planned_tools_def)
  define ts where "ts = planned_tasks uuids now c"
  have ts: "\<And>t. t \<in> set ts \<Longrightarrow> tt_changed_at (att_task_state_transition t) = now"
    using planned_task_time by (simp add: ts_def)
  define tl where "tl = planned_tools now c"
  have tl: "\<And>t. t \<in> set tl \<Longrightarrow> tc_finished_at (irc_interrupted_record t) = Some now"
    by (auto simp: tl_def planned_tools_def interrupted_tool_def)
  have "ts = [] \<or> (\<exists>t. ts = [t])" "tl = [] \<or> (\<exists>t. tl = [t])"
    using 1[folded ts_def tl_def] length_le_1 by blast+
  then show ?thesis
    using ts tl unfolding trace_guards_def planned_command_def planned_events_def Let_def
      ts_def[symmetric] tl_def[symmetric]
    by (elim disjE exE) (simp_all add: stopped_event_def task_changed_event_def tool_interrupted_event_def
        blank_event_def events_of_def allowed_recovery_projection_def Let_def incomplete_run_def
        dict_of_items_def dict_set_def)
qed

lemma command_stage:
  assumes "closure_valid c" "is_utc now"
  shows "new_apply_restart_recovery_command (planned_command uuids now c) = Inr x \<longleftrightarrow>
    x = planned_command uuids now c \<and> distinct (map te_trace_event_id (planned_events uuids now c))"
proof -
  have "length (planned_tools now c) \<le> 1 \<and> length (planned_tasks uuids now c) \<le> 1
      \<and> length (planned_links uuids now c) \<le> 1"
    by (rule closure_shape[OF assms(1)]) (auto simp: planned_tasks_def planned_tools_def planned_links_def)
  moreover have "length (planned_events uuids now c) = 1 + length (planned_tasks uuids now c) + length (planned_tools now c)"
    by (simp add: planned_events_def Let_def)
  moreover have "list_all (\<lambda>e. new_trace_event e = Inr e) (planned_events uuids now c)"
    using planned_events_valid[OF assms(2)] by (simp add: list_all_iff)
  ultimately show ?thesis
    using planned_projection[OF assms(1)] planned_trace[OF assms(1)]
    by (auto simp: new_apply_restart_recovery_command_def construct_Inr_iff planned_command_def)
qed

lemma plan_recovery_iff:
  assumes "closure_valid c"
  shows "plan_recovery uuids now c = Inr cmd \<longleftrightarrow>
    not_behind now c \<and> distinct (map te_trace_event_id (planned_events uuids now c))
    \<and> cmd = planned_command uuids now c"
proof (cases "is_utc now")
  case False
  then show ?thesis
    by (auto simp: plan_recovery_def res_bind_Inr_iff not_behind_def
        recover_run_iff[OF closure_valid_active(3,1,2)[OF assms]])
next
  case True
  note run = recover_run_iff[OF closure_valid_active(3,1,2)[OF assms]]
  have "not_behind now c \<longleftrightarrow> \<not> dt_less now (ar_started_at (rrc_active_run_record c))
      \<and> list_all (\<lambda>t. \<not> dt_less now (tc_started_at t)) (closure_tools c) \<and> tasks_not_behind now c"
    using True by (simp add: not_behind_def tasks_not_behind_def)
  then show ?thesis
    using True command_stage[OF assms True, of uuids cmd]
    by (auto simp: plan_recovery_def res_bind_Inr_iff run tool_stage[OF assms True] task_stage[OF assms True]
        link_stage[OF assms] event_stage[OF True] planned_command_def)
qed

subsection \<open>What the planned records say\<close>

text \<open>The event ids are consecutive draws of the uuid factory.\<close>

lemma map_enumerate_fst: "(\<And>i x. f (i, x) = g i) \<Longrightarrow> map f (enumerate n xs) = map g [n..<n + length xs]"
proof -
  assume "\<And>i x. f (i, x) = g i"
  then have "f = g \<circ> fst" by auto
  then show ?thesis by (simp only: map_map[symmetric] map_fst_enumerate)
qed

lemma planned_event_ids:
  "map te_trace_event_id (planned_events uuids now c) =
     (let k = length (planned_tasks uuids now c)
      in map uuids [k..<Suc (2 * k) + length (planned_tools now c)])"
proof -
  let ?k = "length (planned_tasks uuids now c)" and ?r = "ar_run_id (rrc_active_run_record c)"
  have tasks: "map te_trace_event_id (map (\<lambda>(i, t). task_changed_event (uuids i) ?r t) (enumerate n ts))
      = map uuids [n..<n + length ts]" for n ts
    unfolding map_map by (rule map_enumerate_fst) (simp add: task_changed_event_def blank_event_def)
  have tools: "map te_trace_event_id (map (\<lambda>(i, t). tool_interrupted_event (uuids i) ?r now t) (enumerate n ts))
      = map uuids [n..<n + length ts]" for n ts
    unfolding map_map by (rule map_enumerate_fst) (simp add: tool_interrupted_event_def blank_event_def)
  have "te_trace_event_id (stopped_event (uuids ?k) now ?r) = uuids ?k"
    by (simp add: stopped_event_def blank_event_def)
  moreover have "[?k..<Suc (2 * ?k) + length (planned_tools now c)]
      = ?k # [Suc ?k..<Suc ?k + ?k] @ [Suc ?k + ?k..<Suc ?k + ?k + length (planned_tools now c)]"
  proof -
    have "[?k..<Suc (2 * ?k) + length (planned_tools now c)]
        = ?k # [Suc ?k..<(Suc ?k + ?k) + length (planned_tools now c)]"
      by (subst upt_conv_Cons) (simp_all add: mult_2)
    then show ?thesis by (simp only: upt_add_eq_append[OF le_add1[of "Suc ?k" ?k]])
  qed
  ultimately show ?thesis
    unfolding planned_events_def Let_def by (simp only: list.map map_append tasks tools)
qed

lemma planned_event_ids_distinct: "inj uuids \<Longrightarrow> distinct (map te_trace_event_id (planned_events uuids now c))"
  unfolding planned_event_ids Let_def by (simp only: distinct_map distinct_upt simp_thms inj_on_subset[of uuids UNIV, OF _ subset_UNIV])

lemma planned_interrupt_step:
  assumes "closure_valid c" "t \<in> set (closure_tools c)" "is_utc now" "\<not> dt_less now (tc_started_at t)"
  shows "tool_call_step (Some t, a) (Some (interrupted_tool now t), a)"
proof -
  let ?c = "\<lparr>irc_active_record = t, irc_interrupted_record = interrupted_tool now t\<rparr>"
  have "recover_tool_call now t = Inr ?c"
    using recover_tool_call_iff[OF closure_valid_tool[OF assms(1,2)]] assms(3,4) by simp
  then obtain i where "new_tool_call_record (interrupted_tool now t) = Inr i"
    "new_interrupt_for_recovery_command \<lparr>irc_active_record = t, irc_interrupted_record = i\<rparr> = Inr ?c"
    by (auto simp: recover_tool_call_def res_bind_Inr_iff)
  moreover from this have "i = interrupted_tool now t" using tool_call.unchanged by blast
  ultimately show ?thesis by (auto intro: tool_call_step.Interrupt)
qed

lemma planned_task_effects:
  assumes "closure_valid c"
  shows "map att_expected_task_record (planned_tasks uuids now c) = filter is_recoverable (closure_tasks c)
    \<and> (\<forall>t\<in>set (planned_tasks uuids now c).
          tk_status (att_next_task_record t) = BLOCKED \<and> ru_status (att_next_request_unit_record t) = BLOCKED
          \<and> tk_state_version (att_next_task_record t) = tk_state_version (att_expected_task_record t) + 1
          \<and> ru_task_id (att_expected_request_unit_record t) = tk_task_id (att_expected_task_record t)
          \<and> ru_state_version (att_next_request_unit_record t) = tk_state_version (att_next_task_record t))"
  using assms
proof (cases rule: closure_shape)
  case Empty
  then show ?thesis by (simp add: planned_tasks_def)
next
  case (Single t u l)
  then have "unit_by_task c (tk_task_id t) = Some u" by (simp add: unit_by_task_def)
  with Single show ?thesis
    by (auto simp: planned_tasks_def planned_transition_def blocked_task_def blocked_unit_def)
qed

end
