(* ===== verification/Recovery_Properties.thy ===== *)
theory Recovery_Properties
  imports Execution_Properties Restart_Recovery
begin

section \<open>Properties of restart recovery\<close>

text \<open>
  The properties of startup recovery, with a sample of a process that died during a read.
\<close>

subsection \<open>A process that died while a read was running\<close>

definition stranded_task :: task_record where "stranded_task = ig_task sample_graph_record"
definition stranded_unit :: request_unit_record where "stranded_unit = ig_request_unit sample_graph_record"

definition stranded_call :: tool_call_record where
  "stranded_call = running_tool_call (ready_created (sample_env OrderTimesOut) sample_args sample_command)"

definition stranded_run :: agent_run_record where
  "stranded_run = \<lparr>ar_run_id = 1, ar_conversation_id = Some 5, ar_status = RUN_RUNNING,
     ar_provider_lane = str ''qwen'', ar_started_at = sample_now, ar_completed_at = None, ar_stop_reason = None,
     ar_incomplete_reason = None\<rparr>"

definition stranded_closure :: restart_recovery_closure where
  "stranded_closure =
     \<lparr>rrc_closure_fence = 99,
      rrc_conversation_record = \<lparr>cr_schema_version = str ''conversation.p0.v1'', cr_conversation_id = 5,
        cr_owner_customer_id = str ''cust-1'', cr_created_at = utc_us 0\<rparr>,
      rrc_active_run_record = stranded_run,
      rrc_conversation_task_links = [\<lparr>ctl_schema_version = str ''link.p0.v1'', ctl_conversation_id = 5, ctl_task_id = 52,
        ctl_link_reason = str ''CREATED_IN_CONVERSATION'', ctl_linked_at = sample_now, ctl_ended_at = None\<rparr>],
      rrc_run_task_links = [\<lparr>rl_schema_version = str ''run-task.p0.v1'', rl_run_id = 1, rl_task_id = 52,
        rl_base_task_state_version = Some 1, rl_result_task_state_version = None\<rparr>],
      rrc_task_aggregates = [\<lparr>tra_task_record = stranded_task, tra_task_state_transitions = []\<rparr>],
      rrc_request_unit_records = [stranded_unit],
      rrc_tool_call_aggregates = [\<lparr>tca_tool_call_record = stranded_call,
        tca_tool_attempt_records = [first_attempt 80 (utc_us 1001)]\<rparr>]\<rparr>"

lemma stranded_records:
  "new_task_record stranded_task = Inr stranded_task" "new_request_unit_record stranded_unit = Inr stranded_unit"
  "new_tool_call_record stranded_call = Inr stranded_call" "new_agent_run_record stranded_run = Inr stranded_run"
proof -
  show "new_task_record stranded_task = Inr stranded_task"
    by (simp add: stranded_task_def sample_graph_record_def graph_of_def new_task_record_def construct_Inr_iff
        sample_customer_def sample_now_def dt_less_def)
  show "new_request_unit_record stranded_unit = Inr stranded_unit"
    by (simp add: stranded_unit_def sample_graph_record_def graph_of_def new_request_unit_record_def construct_Inr_iff
        sample_now_def sample_candidate_def dt_less_def)
  show "new_tool_call_record stranded_call = Inr stranded_call"
    unfolding stranded_call_def ready_created_def
    using created_valid(2)[OF ready_trusted[OF sample_ready]] .
  show "new_agent_run_record stranded_run = Inr stranded_run"
    by (simp add: stranded_run_def new_agent_run_record_def construct_Inr_iff run_lifecycle_is_consistent_def
        run_is_active_def sample_now_def dt_less_def)
qed

lemma stranded_fields:
  "tk_task_id stranded_task = 52" "tk_owner_customer_id stranded_task = str ''cust-1''"
  "tk_status stranded_task = ACTIVE" "tk_state_version stranded_task = 1" "tk_updated_at stranded_task = sample_now"
  "ru_task_id stranded_unit = 52" "ru_request_unit_id stranded_unit = 53" "ru_status stranded_unit = ACTIVE"
  "ru_state_version stranded_unit = 1" "ru_input_binding_refs stranded_unit = [54]"
  "ru_updated_at stranded_unit = sample_now"
  "tc_tool_call_id stranded_call = 80" "tc_status stranded_call = TC_RUNNING" "tc_run_id stranded_call = 1"
  "tc_task_id stranded_call = 52" "tc_request_unit_id stranded_call = 53" "tc_attempt_count stranded_call = 1"
  "tc_failure_code stranded_call = None" "tc_result_ref stranded_call = None"
  "tc_validated_task_state_version stranded_call = 1" "tc_argument_binding_refs stranded_call = [54]"
  "tc_started_at stranded_call = utc_us 1000"
  by (simp_all add: stranded_task_def stranded_unit_def stranded_call_def sample_graph_record_def graph_of_def
      sample_allocation_def sample_customer_def running_tool_call_def ready_created_def created_tool_call_def
      sample_env_def sample_args_def sample_command_def)

lemma stranded_parts:
  "rrc_active_run_record stranded_closure = stranded_run"
  "cr_conversation_id (rrc_conversation_record stranded_closure) = 5"
  "cr_owner_customer_id (rrc_conversation_record stranded_closure) = str ''cust-1''"
  "map ctl_task_id (rrc_conversation_task_links stranded_closure) = [52]"
  "\<forall>l\<in>set (rrc_conversation_task_links stranded_closure). ctl_conversation_id l = 5 \<and> ctl_ended_at l = None"
  "rrc_run_task_links stranded_closure = [\<lparr>rl_schema_version = str ''run-task.p0.v1'', rl_run_id = 1, rl_task_id = 52,
        rl_base_task_state_version = Some 1, rl_result_task_state_version = None\<rparr>]"
  "rrc_task_aggregates stranded_closure = [\<lparr>tra_task_record = stranded_task, tra_task_state_transitions = []\<rparr>]"
  "rrc_request_unit_records stranded_closure = [stranded_unit]"
  "rrc_tool_call_aggregates stranded_closure = [\<lparr>tca_tool_call_record = stranded_call,
        tca_tool_attempt_records = [first_attempt 80 (utc_us 1001)]\<rparr>]"
  by (simp_all add: stranded_closure_def)

lemma stranded_lookups:
  "closure_tasks stranded_closure = [stranded_task]" "closure_tools stranded_closure = [stranded_call]"
  "task_by_id stranded_closure 52 = Some stranded_task" "unit_by_id stranded_closure 53 = Some stranded_unit"
  by (simp_all add: closure_tasks_def closure_tools_def task_by_id_def unit_by_id_def stranded_parts stranded_fields)

lemma stranded_closure_valid: "closure_valid stranded_closure"
proof -
  have links: "length (rrc_conversation_task_links stranded_closure) = 1"
    using arg_cong[OF stranded_parts(4), of length] by simp
  have run: "ar_status stranded_run = RUN_RUNNING" "ar_incomplete_reason stranded_run = None"
    "ar_conversation_id stranded_run = Some 5" "ar_run_id stranded_run = 1"
    by (simp_all add: stranded_run_def)
  have "new_restart_recovery_closure stranded_closure = Inr stranded_closure"
    unfolding new_restart_recovery_closure_def construct_Inr_iff recovery_closure_guards_def Let_def stranded_parts
      stranded_lookups
    using stranded_parts(5)
    by (simp add: stranded_lookups stranded_fields run_is_active_def run links)
  moreover have "new_task_recovery_aggregate \<lparr>tra_task_record = stranded_task, tra_task_state_transitions = []\<rparr>
      = Inr \<lparr>tra_task_record = stranded_task, tra_task_state_transitions = []\<rparr>"
    by (simp add: new_task_recovery_aggregate_def construct_Inr_iff task_history_guards_def stranded_fields)
  moreover have "new_tool_call_recovery_aggregate \<lparr>tca_tool_call_record = stranded_call,
        tca_tool_attempt_records = [first_attempt 80 (utc_us 1001)]\<rparr>
      = Inr \<lparr>tca_tool_call_record = stranded_call, tca_tool_attempt_records = [first_attempt 80 (utc_us 1001)]\<rparr>"
    by (simp add: new_tool_call_recovery_aggregate_def construct_Inr_iff attempt_history_guards_def stranded_fields
        first_attempt_def unfinished_def)
  ultimately show ?thesis
    by (simp add: closure_valid_def stranded_parts stranded_lookups stranded_records new_run_task_link_record_def
        construct_Inr_iff)
qed

lemma stranded_not_behind: "not_behind (utc_us 2000) stranded_closure"
  by (simp add: not_behind_def stranded_parts stranded_lookups stranded_fields dt_less_def)
     (simp add: stranded_run_def sample_now_def)

definition stranded_uuids :: "nat \<Rightarrow> uuid" where "stranded_uuids n = n + 200"

lemma stranded_planned:
  "plan_recovery stranded_uuids (utc_us 2000) stranded_closure = Inr (planned_command stranded_uuids (utc_us 2000) stranded_closure)"
  using stranded_not_behind planned_event_ids_distinct[of stranded_uuids]
  by (simp add: plan_recovery_iff[OF stranded_closure_valid] inj_def stranded_uuids_def)

subsection \<open>The plan\<close>

text \<open>C17. A recovery of a valid closure can be planned exactly when the clock is not behind a timestamp a projection
  must not precede and the uuid factory gives distinct event ids; the command is then the specified one, so no
  validator of \<open>ApplyRestartRecoveryCommand\<close> can refuse it.\<close>

theorem recovery_plan_exact:
  assumes "closure_valid closure"
  shows "plan_recovery uuids now closure = Inr command \<longleftrightarrow>
    not_behind now closure \<and> distinct (map te_trace_event_id (planned_events uuids now closure))
    \<and> command = planned_command uuids now closure"
  by (rule plan_recovery_iff[OF assms])

theorem recovery_plan_exact_witness:
  "not_behind (utc_us 2000) stranded_closure
   \<and> distinct (map te_trace_event_id (planned_events stranded_uuids (utc_us 2000) stranded_closure))"
  using recovery_plan_exact[OF stranded_closure_valid] stranded_planned by blast

text \<open>C16. A planned recovery stops everything that was running and nothing else: the Run becomes INCOMPLETE, every
  active ToolCall of the closure, and only these, is INTERRUPTED by a step the tool-call store accepts, every
  recoverable Task, and only these, is BLOCKED together with its RequestUnit at the next version, and every link of
  the Run is closed at the version its Task ends with.\<close>

theorem recovery_effects:
  assumes "closure_valid closure" "plan_recovery uuids now closure = Inr command"
  shows "ar_status (mri_incomplete_record (arr_run_transition command)) = RUN_INCOMPLETE
    \<and> map irc_active_record (arr_tool_call_transitions command) = closure_tools closure
    \<and> (\<forall>t\<in>set (arr_tool_call_transitions command). tc_status (irc_interrupted_record t) = TC_INTERRUPTED
          \<and> (\<forall>a. tool_call_step (Some (irc_active_record t), a) (Some (irc_interrupted_record t), a)))
    \<and> map att_expected_task_record (arr_task_transitions command) = filter is_recoverable (closure_tasks closure)
    \<and> (\<forall>t\<in>set (arr_task_transitions command).
          tk_status (att_next_task_record t) = BLOCKED \<and> ru_status (att_next_request_unit_record t) = BLOCKED
          \<and> tk_state_version (att_next_task_record t) = tk_state_version (att_expected_task_record t) + 1
          \<and> ru_task_id (att_expected_request_unit_record t) = tk_task_id (att_expected_task_record t)
          \<and> ru_state_version (att_next_request_unit_record t) = tk_state_version (att_next_task_record t))
    \<and> map rl_task_id (arr_terminal_run_task_links command) = map rl_task_id (rrc_run_task_links closure)
    \<and> (\<forall>l\<in>set (arr_terminal_run_task_links command). rl_result_task_state_version l =
          expected_result_version closure (arr_task_transitions command) (rl_task_id l))"
proof -
  have plan: "not_behind now closure" "command = planned_command uuids now closure"
    using assms(2) unfolding plan_recovery_iff[OF assms(1)] by simp_all
  have parts: "arr_run_transition command = \<lparr>mri_expected_active_record = rrc_active_run_record closure,
        mri_incomplete_record = incomplete_run now (rrc_active_run_record closure)\<rparr>"
    "arr_tool_call_transitions command = planned_tools now closure"
    "arr_task_transitions command = planned_tasks uuids now closure"
    "arr_terminal_run_task_links command = planned_links uuids now closure"
    by (simp_all add: plan(2) planned_command_def)
  have tools: "tool_call_step (Some t, a) (Some (interrupted_tool now t), a)" if "t \<in> set (closure_tools closure)" for t a
    using that plan(1) planned_interrupt_step[OF assms(1) that] by (auto simp: not_behind_def list_all_iff)
  show ?thesis
    unfolding parts
    using tools planned_task_effects[OF assms(1)]
    by (auto simp: incomplete_run_def planned_tools_def interrupted_tool_def planned_links_def comp_def)
qed

theorem recovery_effects_witness:
  "map irc_active_record (arr_tool_call_transitions (planned_command stranded_uuids (utc_us 2000) stranded_closure)) = [stranded_call]"
  using recovery_effects[OF stranded_closure_valid stranded_planned] by (simp add: stranded_lookups)

subsection \<open>The service\<close>

text \<open>C18. With a uuid factory that never repeats itself, startup recovery of a valid closure fails exactly when
  the clock is behind the stored timestamps; then nothing was written. Otherwise the one command is submitted
  and the process is ready exactly when the store answers APPLIED.\<close>

theorem recovery_outcome:
  assumes "re_load env = Some closure" "closure_valid closure" "inj (re_uuid env)"
  shows "(if not_behind (re_clock env) closure
     then recover_pending env = (let answer = re_claim_and_apply env (planned_command (re_uuid env) (re_clock env) closure)
       in Inr \<lparr>rs_ready = (answer = RECOVERY_APPLIED), rs_closure_found = True, rs_write_result = Some answer\<rparr>)
     else \<exists>e. recover_pending env = Inl e)"
proof (cases "not_behind (re_clock env) closure")
  case True
  then have "plan_recovery (re_uuid env) (re_clock env) closure = Inr (planned_command (re_uuid env) (re_clock env) closure)"
    using planned_event_ids_distinct[OF assms(3)] by (simp add: plan_recovery_iff[OF assms(2)])
  with True show ?thesis by (simp add: recover_pending_def assms(1) Let_def)
next
  case False
  then obtain e where "plan_recovery (re_uuid env) (re_clock env) closure = Inl e"
    using plan_recovery_iff[OF assms(2)] by (cases "plan_recovery (re_uuid env) (re_clock env) closure") auto
  with False show ?thesis by (simp add: recover_pending_def assms(1))
qed

definition stranded_env :: "datetime \<Rightarrow> recovery_env" where
  "stranded_env now = \<lparr>re_load = Some stranded_closure, re_claim_and_apply = (\<lambda>_. RECOVERY_APPLIED), re_clock = now,
     re_uuid = stranded_uuids\<rparr>"

theorem recovery_outcome_witness:
  "(\<exists>r. recover_pending (stranded_env (utc_us 2000)) = Inr r \<and> rs_ready r)
   \<and> (\<exists>e. recover_pending (stranded_env (utc_us 999)) = Inl e)"
proof -
  have i: "inj stranded_uuids" by (simp add: inj_def stranded_uuids_def)
  have "\<not> not_behind (utc_us 999) stranded_closure"
    by (simp add: not_behind_def stranded_lookups stranded_fields dt_less_def)
  then show ?thesis
    using recovery_outcome[of "stranded_env (utc_us 2000)" stranded_closure]
      recovery_outcome[of "stranded_env (utc_us 999)" stranded_closure] stranded_not_behind stranded_closure_valid i
    by (simp add: stranded_env_def Let_def)
qed

end
