(* ===== verification/Run_Records.thy ===== *)
theory Run_Records
  imports Recovery_Records Renderer Order_Id_Text
begin

section \<open>Run commands (application/records.py, lines 117--293, 652--948, 1111--1143, 1256--1725)\<close>

text \<open>
  The commands by which the orchestration asks the store to open a Run and to close it. The
  strict rebuild of a nested record is its validation once more: a record of the model holds no
  undeclared state.
\<close>

subsection \<open>Messages and the trusted command\<close>

datatype message_direction = DIRECTION_USER | DIRECTION_ASSISTANT

record message_record =
  mr_schema_version :: pystr
  mr_message_id :: uuid
  mr_conversation_id :: uuid
  mr_direction :: message_direction
  mr_content :: pystr
  mr_received_at :: datetime

definition MessageContent :: "pystr \<Rightarrow> bool" where
  "MessageContent s \<longleftrightarrow> 1 \<le> length s \<and> length s \<le> 4000"

definition new_message_record :: "message_record \<Rightarrow> validation_error + message_record" where
  "new_message_record m = construct
     [(''schema_version'', NonEmptyString (mr_schema_version m)),
      (''content'', MessageContent (mr_content m)),
      (''received_at'', is_utc (mr_received_at m))] [] m"

record agent_run_command =
  rq_customer_context :: "customer_context pyobj"
  rq_message :: pystr

definition new_agent_run_command :: "agent_run_command \<Rightarrow> validation_error + agent_run_command" where
  "new_agent_run_command c = construct
     [(''customer_context'', rq_customer_context c \<noteq> Foreign),
      (''message'', MessageContent (rq_message c))] [] c"

subsection \<open>Opening a Run\<close>

record create_run_command =
  crc_created_record :: agent_run_record

definition new_create_run_command :: "create_run_command \<Rightarrow> validation_error + create_run_command" where
  "new_create_run_command c =
     (let r = crc_created_record c
      in construct []
        [(ar_status r \<noteq> RUN_CREATED, ''initial Run requires CREATED status''),
         (ar_completed_at r \<noteq> None \<or> ar_stop_reason r \<noteq> None \<or> ar_incomplete_reason r \<noteq> None,
          ''initial Run cannot carry completion projection'')] c)"

record transition_run_command =
  trc_expected_active_record :: agent_run_record
  trc_next_record :: agent_run_record

definition new_transition_run_command :: "transition_run_command \<Rightarrow> validation_error + transition_run_command" where
  "new_transition_run_command c =
     (let expected = trc_expected_active_record c; next_record = trc_next_record c
      in construct []
        [(ar_status expected \<noteq> RUN_CREATED, ''Run start expects CREATED status''),
         (ar_incomplete_reason expected \<noteq> None, ''active Run cannot carry incomplete_reason''),
         (ar_status next_record \<noteq> RUN_RUNNING, ''Run start requires RUNNING status''),
         (ar_incomplete_reason next_record \<noteq> None, ''Run start cannot carry incomplete_reason''),
         (\<not> same_run_stable expected next_record, ''Run start cannot change stable fields'')] c)"

subsection \<open>Initial records\<close>

record create_task_command =
  cta_initial_record :: task_record

definition new_create_task_command :: "create_task_command \<Rightarrow> validation_error + create_task_command" where
  "new_create_task_command c = construct []
     [(tk_state_version (cta_initial_record c) \<noteq> 1, ''initial Task requires state_version = 1'')] c"

record create_request_unit_command =
  cru_initial_record :: request_unit_record

definition new_create_request_unit_command ::
  "create_request_unit_command \<Rightarrow> validation_error + create_request_unit_command" where
  "new_create_request_unit_command c = construct []
     [(ru_state_version (cru_initial_record c) \<noteq> 1, ''initial RequestUnit requires state_version = 1'')] c"

record save_input_binding_command =
  sib_record :: input_binding
  sib_request_unit_id :: uuid

definition new_save_input_binding_command ::
  "save_input_binding_command \<Rightarrow> validation_error + save_input_binding_command" where
  "new_save_input_binding_command c = construct []
     [(has_duplicates (ib_source_refs (sib_record c)), ''InputBinding source references must be unique'')] c"

record create_run_task_link_command =
  crl_active_record :: run_task_link_record

definition new_create_run_task_link_command ::
  "create_run_task_link_command \<Rightarrow> validation_error + create_run_task_link_command" where
  "new_create_run_task_link_command c = construct []
     [(rl_result_task_state_version (crl_active_record c) \<noteq> None,
       ''initial RunTaskLink requires result_task_state_version = null'')] c"

subsection \<open>Closing a Run\<close>

text \<open>\<open>_COMPLETED_FINALIZATION_ROWS\<close>: stop reason, whether there is a Task, outcome, final Task status.\<close>

definition COMPLETED_FINALIZATION_ROWS :: "(stop_reason \<times> bool \<times> agent_outcome \<times> task_status option) list" where
  "COMPLETED_FINALIZATION_ROWS =
     [(STOP_GOAL_COMPLETED, True, OUTCOME_COMPLETED, Some COMPLETED),
      (STOP_NOT_FOUND_OR_NOT_ACCESSIBLE, True, OUTCOME_NOT_FOUND_OR_NOT_ACCESSIBLE, Some COMPLETED),
      (STOP_PROVIDER_PROTOCOL_ERROR, False, OUTCOME_BLOCKED, None),
      (STOP_PROVIDER_PROTOCOL_ERROR, True, OUTCOME_BLOCKED, Some BLOCKED),
      (STOP_INPUT_INVALID, False, OUTCOME_BLOCKED, None),
      (STOP_GATE_REJECTED, True, OUTCOME_BLOCKED, Some BLOCKED),
      (STOP_ORDER_SERVICE_UNAVAILABLE, True, OUTCOME_BLOCKED, Some BLOCKED),
      (STOP_PRESENTATION_PLAN_REJECTED, True, OUTCOME_BLOCKED, Some BLOCKED),
      (STOP_RENDERER_INVARIANT_FAILED, True, OUTCOME_BLOCKED, Some BLOCKED)]"

record finalize_run_command =
  fr_expected_active_record :: agent_run_record
  fr_terminal_record :: agent_run_record
  fr_expected_active_links :: "run_task_link_record list"
  fr_terminal_links :: "run_task_link_record list"
  fr_result_task_records :: "task_record list"
  fr_task_transition :: "apply_task_transition_command option"
  fr_terminal_result :: "agent_run_result option"
  fr_assistant_message :: "message_record option"
  fr_terminal_trace_events :: "trace_event list"

text \<open>\<open>_strict_rebuild_task_transition\<close>: the five records and the command itself, validated again.\<close>

definition canonical_task_transition :: "apply_task_transition_command \<Rightarrow> bool" where
  "canonical_task_transition t \<longleftrightarrow>
     new_task_record (att_expected_task_record t) = Inr (att_expected_task_record t)
     \<and> new_task_record (att_next_task_record t) = Inr (att_next_task_record t)
     \<and> new_request_unit_record (att_expected_request_unit_record t) = Inr (att_expected_request_unit_record t)
     \<and> new_request_unit_record (att_next_request_unit_record t) = Inr (att_next_request_unit_record t)
     \<and> new_task_state_transition (att_task_state_transition t) = Inr (att_task_state_transition t)
     \<and> new_apply_task_transition_command t = Inr t"

text \<open>\<open>_TERMINAL_TRACE_ALLOWED_FIELDS\<close>: every field outside the kind's set has its default.\<close>

definition allowed_terminal_projection :: "trace_event \<Rightarrow> bool" where
  "allowed_terminal_projection e =
     (let blank = blank_event (te_trace_event_id e) (te_event_type e) (te_occurred_at e) (te_run_id e)
      in case te_event_type e of
           TASK_STATE_CHANGED \<Rightarrow> e\<lparr>te_task_id := None, te_request_unit_id := None\<rparr> = blank
         | RUN_STOPPED \<Rightarrow> e\<lparr>te_user_outcome := None, te_stop_reason := None\<rparr> = blank
         | _ \<Rightarrow> False)"

text \<open>The Run, its links and its result Tasks (first part of the validator).\<close>

definition finalize_graph_guards :: "finalize_run_command \<Rightarrow> (bool \<times> string) list" where
  "finalize_graph_guards c =
     (let expected = fr_expected_active_record c; terminal = fr_terminal_record c;
          active = fr_expected_active_links c; links = fr_terminal_links c; tasks = fr_result_task_records c
      in [(ar_status expected \<noteq> RUN_RUNNING, ''Run finalization expects RUNNING status''),
          (ar_incomplete_reason expected \<noteq> None, ''Run finalization rejects a dirty expected active Run''),
          (ar_status terminal \<notin> set [RUN_COMPLETED, RUN_FAILED], ''Run finalization requires a terminal Run''),
          (ar_stop_reason terminal = Some STOP_PROCESS_RESTART_DETECTED,
           ''normal Run finalization cannot use recovery-only stop reason''),
          (ar_incomplete_reason terminal \<noteq> None, ''normal terminal Run cannot carry incomplete_reason''),
          (ar_status terminal = RUN_COMPLETED \<and> ar_conversation_id terminal = None,
           ''COMPLETED Run requires conversation_id''),
          (ar_status terminal = RUN_FAILED \<and> ar_stop_reason terminal \<noteq> None, ''FAILED Run cannot carry stop_reason''),
          (\<not> same_run_stable expected terminal, ''Run finalization cannot change stable fields''),
          (\<exists>l\<in>set active. rl_run_id l \<noteq> ar_run_id expected, ''active RunTaskLink must belong to the Run''),
          (\<exists>l\<in>set active. rl_result_task_state_version l \<noteq> None, ''active RunTaskLink must have no result Task version''),
          (has_duplicates (map rl_task_id active), ''RunTaskLink identities must be unique''),
          (\<exists>l\<in>set links. rl_run_id l \<noteq> ar_run_id expected, ''terminal RunTaskLink must belong to the Run''),
          (\<exists>l\<in>set links. rl_result_task_state_version l = None, ''terminal RunTaskLink requires a result Task version''),
          (has_duplicates (map rl_task_id links), ''RunTaskLink identities must be unique''),
          (set (map rl_task_id active) \<noteq> set (map rl_task_id links), ''Run finalization requires the exact RunTaskLink set''),
          (\<exists>a\<in>set active. \<exists>l\<in>set links. rl_task_id l = rl_task_id a
              \<and> (rl_schema_version l \<noteq> rl_schema_version a
                 \<or> rl_base_task_state_version l \<noteq> rl_base_task_state_version a),
           ''terminal RunTaskLink must preserve its active projection''),
          (has_duplicates (map tk_task_id tasks), ''result Task identities must be unique''),
          (set (map tk_task_id tasks) \<noteq> set (map rl_task_id links),
           ''Run finalization requires one exact result Task per link Task identity''),
          (\<exists>l\<in>set links. \<exists>t\<in>set tasks. tk_task_id t = rl_task_id l
              \<and> rl_result_task_state_version l \<noteq> Some (tk_state_version t),
           ''RunTaskLink result Task version must match result Task'')])"

definition finalize_failed_guards :: "finalize_run_command \<Rightarrow> (bool \<times> string) list" where
  "finalize_failed_guards c =
     [(fr_task_transition c \<noteq> None \<or> fr_terminal_result c \<noteq> None \<or> fr_assistant_message c \<noteq> None
         \<or> fr_terminal_trace_events c \<noteq> [],
       ''FAILED Run requires empty Task transition, terminal result, ASSISTANT Message and terminal Trace projections'')]"

text \<open>The Task transition of a completed Run with a link.\<close>

definition finalize_transition_guards ::
  "finalize_run_command \<Rightarrow> apply_task_transition_command \<Rightarrow> (bool \<times> string) list" where
  "finalize_transition_guards c t =
     (let terminal = fr_terminal_record c; link = hd (fr_expected_active_links c);
          next_task = att_next_task_record t; next_unit = att_next_request_unit_record t
      in [(tk_task_id (att_expected_task_record t) \<noteq> rl_task_id link \<or> tk_task_id next_task \<noteq> rl_task_id link,
           ''Task transition expected and next Task must equal the link Task''),
          (\<not> opt_all (\<lambda>base. base \<le> tk_state_version (att_expected_task_record t)) (rl_base_task_state_version link),
           ''Task transition cannot precede active link base Task version''),
          (tk_status next_task \<noteq> ru_status next_unit \<or> tk_state_version next_task \<noteq> ru_state_version next_unit,
           ''terminal Task and RequestUnit require the same status/version''),
          (fr_result_task_records c \<noteq> [next_task], ''result Task projection must equal the exact next Task''),
          (\<not> opt_all (\<lambda>e. \<not> dt_less e (tt_changed_at (att_task_state_transition t))) (ar_completed_at terminal),
           ''Task transition cannot follow Run completion''),
          (map te_event_type (fr_terminal_trace_events c) \<noteq> [TASK_STATE_CHANGED, RUN_STOPPED],
           ''Task terminal Trace must be ordered exactly as TaskStateChanged, RunStopped'')])"

text \<open>The rest of the validator for a completed Run with its result and message.\<close>

definition finalize_completed_guards ::
  "finalize_run_command \<Rightarrow> agent_run_result \<Rightarrow> message_record \<Rightarrow> (bool \<times> string) list" where
  "finalize_completed_guards c result message =
     (let terminal = fr_terminal_record c; events = fr_terminal_trace_events c; stopped = last events
      in (case fr_task_transition c of
            None \<Rightarrow>
              [(fr_result_task_records c \<noteq> [], ''Run without a Task cannot carry result Tasks''),
               (map te_event_type events \<noteq> [RUN_STOPPED], ''Run without a Task terminal Trace may contain only RunStopped'')]
          | Some t \<Rightarrow> finalize_transition_guards c t)
       @ [(\<not> (\<exists>stop. ar_stop_reason terminal = Some stop
              \<and> (stop, fr_expected_active_links c \<noteq> [], res_outcome result,
                  map_option (tk_status \<circ> att_next_task_record) (fr_task_transition c))
                 \<in> set COMPLETED_FINALIZATION_ROWS),
           ''COMPLETED Run projection is outside the closed terminal matrix''),
          (res_run_id result \<noteq> ar_run_id terminal, ''terminal result must bind the terminal Run''),
          (mr_schema_version message \<noteq> str ''message_record.p0.v1'',
           ''ASSISTANT Message requires schema_version message_record.p0.v1''),
          (mr_direction message \<noteq> DIRECTION_ASSISTANT, ''ASSISTANT Message requires ASSISTANT direction''),
          (Some (mr_conversation_id message) \<noteq> ar_conversation_id terminal,
           ''ASSISTANT Message must bind the terminal Conversation''),
          (mr_content message \<noteq> res_message result, ''ASSISTANT Message content must equal terminal result''),
          (Some (instant (mr_received_at message)) \<noteq> map_option instant (ar_completed_at terminal),
           ''ASSISTANT Message timestamp must equal Run completion''),
          (has_duplicates (map te_trace_event_id events), ''terminal Trace event identities must be unique''),
          (\<exists>e\<in>set events. te_run_id e \<noteq> ar_run_id terminal, ''every terminal Trace event must bind the terminal Run''),
          (\<exists>e\<in>set events. \<not> allowed_terminal_projection e,
           ''terminal Trace only allows its exact per-kind projection'')]
       @ (case fr_task_transition c of
            None \<Rightarrow> []
          | Some t \<Rightarrow>
              [(te_task_id (hd events) \<noteq> Some (tk_task_id (att_next_task_record t))
                  \<or> te_request_unit_id (hd events) \<noteq> Some (ru_request_unit_id (att_next_request_unit_record t)),
                ''TaskStateChanged must bind the terminal Task/RequestUnit''),
               (instant (te_occurred_at (hd events)) \<noteq> instant (tt_changed_at (att_task_state_transition t)),
                ''TaskStateChanged timestamp must equal Task transition'')])
       @ [(te_stop_reason stopped \<noteq> ar_stop_reason terminal, ''RunStopped stop reason must equal terminal Run''),
          (te_user_outcome stopped \<noteq> Some (res_outcome result), ''RunStopped outcome must equal terminal result''),
          (Some (instant (te_occurred_at stopped)) \<noteq> map_option instant (ar_completed_at terminal),
           ''RunStopped timestamp must equal Run completion'')])"

definition finalize_run_guards :: "finalize_run_command \<Rightarrow> (bool \<times> string) list" where
  "finalize_run_guards c =
     finalize_graph_guards c
     @ (if ar_status (fr_terminal_record c) = RUN_FAILED then finalize_failed_guards c
        else [(fr_expected_active_links c \<noteq> [] \<and> fr_task_transition c = None,
               ''COMPLETED Run with a link requires its Task transition''),
              (fr_expected_active_links c = [] \<and> fr_task_transition c \<noteq> None,
               ''COMPLETED Run without a link cannot carry a Task transition''),
              (fr_terminal_result c = None, ''COMPLETED Run requires a terminal result''),
              (fr_assistant_message c = None, ''COMPLETED Run requires an ASSISTANT Message'')]
          @ (case (fr_terminal_result c, fr_assistant_message c) of
               (Some result, Some message) \<Rightarrow> finalize_completed_guards c result message
             | _ \<Rightarrow> []))"

definition new_finalize_run_command :: "finalize_run_command \<Rightarrow> validation_error + finalize_run_command" where
  "new_finalize_run_command c = construct
     [(''expected_active_record'', new_agent_run_record (fr_expected_active_record c) = Inr (fr_expected_active_record c)),
      (''terminal_record'', new_agent_run_record (fr_terminal_record c) = Inr (fr_terminal_record c)),
      (''expected_active_links'', length (fr_expected_active_links c) \<le> 1
         \<and> list_all (\<lambda>l. new_run_task_link_record l = Inr l) (fr_expected_active_links c)),
      (''terminal_links'', length (fr_terminal_links c) \<le> 1
         \<and> list_all (\<lambda>l. new_run_task_link_record l = Inr l) (fr_terminal_links c)),
      (''result_task_records'', length (fr_result_task_records c) \<le> 1
         \<and> list_all (\<lambda>t. new_task_record t = Inr t) (fr_result_task_records c)),
      (''task_transition'', opt_all canonical_task_transition (fr_task_transition c)),
      (''terminal_result'', opt_all (\<lambda>r. new_agent_run_result r = Inr r) (fr_terminal_result c)),
      (''assistant_message'', opt_all (\<lambda>m. new_message_record m = Inr m) (fr_assistant_message c)),
      (''terminal_trace_events'', length (fr_terminal_trace_events c) \<le> 2
         \<and> list_all (\<lambda>e. new_trace_event e = Inr e) (fr_terminal_trace_events c))]
     (finalize_run_guards c) c"

end
