(* ===== verification/Initial_Graph.thy ===== *)
theory Initial_Graph
  imports Run_Records
begin

section \<open>The initial Task graph command (application/records.py, lines 640--867 and 1728--1891)\<close>

text \<open>
  One conditional write of everything the reducer decided for a message with one accepted goal,
  under the owner, Conversation, messages and Run it was decided for.
\<close>

subsection \<open>The understanding it persists\<close>

definition referenced_message_ids_v2 :: "ru_record \<Rightarrow> uuid list" where
  "referenced_message_ids_v2 r =
     (let context = rc_contextualization r
      in rc_message_ref r # dcx_source_message_refs context
         @ map drr_source_ref (dcx_resolved_reference_candidates context)
         @ concat (map un_source_message_refs (dcx_uncertainties context))
         @ concat (map (\<lambda>c. map dic_source_ref (dtd_input_candidates c)) (rc_task_delta_candidates r)))"

definition current_messages :: "ru_record \<Rightarrow> message_record list \<Rightarrow> message_record list" where
  "current_messages r messages = filter (\<lambda>m. mr_message_id m = rc_message_ref r) messages"

text \<open>\<open>_validate_v2_owner_roots_and_messages\<close>\<close>

definition owner_roots_guards ::
  "trusted_owner_scope \<Rightarrow> conversation_record \<Rightarrow> message_record list \<Rightarrow> agent_run_record \<Rightarrow> ru_record
   \<Rightarrow> (bool \<times> string) list" where
  "owner_roots_guards owner conversation messages run r =
     (let ids = map mr_message_id messages; current = hd (current_messages r messages)
      in [(new_conversation_record conversation \<noteq> Inr conversation, ''RU-v2 Conversation must be canonical''),
          (\<exists>m\<in>set messages. new_message_record m \<noteq> Inr m, ''RU-v2 Message closure must be canonical''),
          (new_agent_run_record run \<noteq> Inr run, ''RU-v2 Run must be canonical''),
          (has_duplicates ids, ''RU-v2 expected Message identities must be unique''),
          (cr_owner_customer_id conversation \<noteq> os_customer_id owner,
           ''RU-v2 Conversation must match trusted owner scope''),
          (\<exists>m\<in>set messages. mr_conversation_id m \<noteq> cr_conversation_id conversation,
           ''RU-v2 Messages must belong to the exact Conversation''),
          (set ids \<noteq> set (referenced_message_ids_v2 r), ''RU-v2 requires the exact referenced Message set''),
          (length (current_messages r messages) \<noteq> 1 \<or> mr_direction current \<noteq> DIRECTION_USER,
           ''RU-v2 current Message must be exactly one USER Message''),
          (ar_status run \<noteq> RUN_RUNNING \<or> ar_incomplete_reason run \<noteq> None, ''RU-v2 requires a clean RUNNING Run''),
          (ar_conversation_id run \<noteq> Some (cr_conversation_id conversation),
           ''RU-v2 Run must belong to the exact Conversation''),
          (rc_run_id r \<noteq> ar_run_id run, ''RU-v2 record must bind the exact Run''),
          (dt_less (rc_created_at r) (mr_received_at current) \<or> dt_less (rc_created_at r) (ar_started_at run),
           ''RU-v2 creation timestamp cannot precede current Message or Run'')])"

record save_accepted_command =
  sac_record :: ru_record
  sac_accepted_delta :: accepted_task_delta

definition accepted_child_guards :: "save_accepted_command \<Rightarrow> (bool \<times> string) list" where
  "accepted_child_guards c =
     (let r = sac_record c; child = sac_accepted_delta c;
          candidate = hd (rc_task_delta_candidates r); decision = hd (rc_candidate_validation r)
      in [(\<not> canonical_ru_record r, ''RU-v2 record must be recursively canonical''),
          (new_accepted_task_delta child \<noteq> Inr child, ''RU-v2 accepted child must be canonical''),
          (length (rc_task_delta_candidates r) \<noteq> 1 \<or> length (rc_candidate_validation r) \<noteq> 1,
           ''RU-v2 accepted command requires exactly one emitted Candidate''),
          (cv_candidate_ref decision \<noteq> dtd_candidate_id candidate \<or> cv_decision decision \<noteq> DECISION_ACCEPT
             \<or> rc_accepted_delta_refs r \<noteq> [ad_accepted_delta_id child]
             \<or> ad_candidate_ref child \<noteq> dtd_candidate_id candidate \<or> ad_message_ref child \<noteq> rc_message_ref r
             \<or> ad_operation child \<noteq> dtd_operation candidate \<or> ad_goal_text child \<noteq> dtd_goal_patch candidate,
           ''RU-v2 accepted child must preserve its candidate projection''),
          (length (ad_input_binding_refs child) \<noteq> 1 \<or> ad_base_task_state_version child \<noteq> None
             \<or> ad_result_task_state_version child \<noteq> 1 \<or> rc_proposed_base_task_state_version r \<noteq> None
             \<or> rc_validated_task_state_version r \<noteq> Some 1 \<or> rc_next_move_candidate_ref r = None,
           ''RU-v2 accepted command requires one initial Task effect''),
          (instant (rc_created_at r) \<noteq> instant (ad_accepted_at child),
           ''RU-v2 parent and accepted child must share one timestamp'')])"

definition new_save_accepted_command :: "save_accepted_command \<Rightarrow> validation_error + save_accepted_command" where
  "new_save_accepted_command c = construct [] (accepted_child_guards c) c"

record save_no_task_command =
  snt_owner_scope :: trusted_owner_scope
  snt_expected_conversation_record :: conversation_record
  snt_expected_message_records :: "message_record list"
  snt_expected_active_run_record :: agent_run_record
  snt_record :: ru_record

definition new_save_no_task_command :: "save_no_task_command \<Rightarrow> validation_error + save_no_task_command" where
  "new_save_no_task_command c =
     (let r = snt_record c
      in construct
        [(''expected_message_records'', 1 \<le> length (snt_expected_message_records c)
            \<and> length (snt_expected_message_records c) \<le> 8)]
        ((\<not> canonical_ru_record r, ''RU-v2 record must be recursively canonical'')
         # owner_roots_guards (snt_owner_scope c) (snt_expected_conversation_record c)
             (snt_expected_message_records c) (snt_expected_active_run_record c) r
         @ [(rc_accepted_delta_refs r \<noteq> []
               \<or> (\<exists>d\<in>set (rc_candidate_validation r). cv_decision d = DECISION_ACCEPT)
               \<or> rc_proposed_base_task_state_version r \<noteq> None \<or> rc_validated_task_state_version r \<noteq> None
               \<or> rc_next_move_candidate_ref r \<noteq> None,
             ''RU-v2 no-task command must carry no Task effect'')]) c)"

subsection \<open>CreateInitialTaskGraphV2Command\<close>

record create_initial_graph_command =
  cig_owner_scope :: trusted_owner_scope
  cig_expected_conversation_record :: conversation_record
  cig_expected_message_records :: "message_record list"
  cig_expected_active_run_record :: agent_run_record
  cig_request_understanding :: save_accepted_command
  cig_initial_task :: create_task_command
  cig_initial_request_unit :: create_request_unit_command
  cig_input_binding :: save_input_binding_command
  cig_conversation_task_link :: conversation_task_link_record
  cig_run_task_link :: create_run_task_link_command

text \<open>The strict rebuilds of the nested commands.\<close>

definition initial_rebuild_guards :: "create_initial_graph_command \<Rightarrow> (bool \<times> string) list" where
  "initial_rebuild_guards c =
     (let task = cta_initial_record (cig_initial_task c); unit = cru_initial_record (cig_initial_request_unit c);
          binding = sib_record (cig_input_binding c); link = crl_active_record (cig_run_task_link c)
      in [(new_task_record task \<noteq> Inr task \<or> new_create_task_command (cig_initial_task c) \<noteq> Inr (cig_initial_task c),
           ''initial Task command must be recursively canonical''),
          (new_request_unit_record unit \<noteq> Inr unit
             \<or> new_create_request_unit_command (cig_initial_request_unit c) \<noteq> Inr (cig_initial_request_unit c),
           ''initial RequestUnit command must be recursively canonical''),
          (new_input_binding binding \<noteq> Inr binding
             \<or> new_save_input_binding_command (cig_input_binding c) \<noteq> Inr (cig_input_binding c),
           ''initial InputBinding command must be recursively canonical''),
          (new_conversation_task_link_record (cig_conversation_task_link c) \<noteq> Inr (cig_conversation_task_link c),
           ''initial ConversationTaskLink must be canonical''),
          (new_run_task_link_record link \<noteq> Inr link
             \<or> new_create_run_task_link_command (cig_run_task_link c) \<noteq> Inr (cig_run_task_link c),
           ''initial RunTaskLink command must be recursively canonical'')])"

definition clean_initial_unit :: "ru_record \<Rightarrow> accepted_task_delta \<Rightarrow> task_record \<Rightarrow> input_binding \<Rightarrow> request_unit_record \<Rightarrow> bool" where
  "clean_initial_unit r child task binding u \<longleftrightarrow>
     ru_task_id u = tk_task_id task \<and> ru_goal_text u = ad_goal_text child \<and> ru_goal_source_refs u = [rc_message_ref r]
     \<and> ru_input_binding_refs u = [ib_binding_id binding] \<and> ru_status u = ACTIVE \<and> ru_state_version u = 1
     \<and> ru_contextualization_ref u = None \<and> ru_constraint_refs u = [] \<and> ru_dependency_refs u = []
     \<and> ru_open_questions u = [] \<and> ru_observation_refs u = [] \<and> ru_evidence_binding_refs u = []
     \<and> ru_pending_action_ref u = None \<and> ru_result_refs u = []"

definition initial_timestamps :: "create_initial_graph_command \<Rightarrow> int list" where
  "initial_timestamps c =
     (let r = sac_record (cig_request_understanding c); child = sac_accepted_delta (cig_request_understanding c);
          task = cta_initial_record (cig_initial_task c); unit = cru_initial_record (cig_initial_request_unit c);
          binding = sib_record (cig_input_binding c)
      in map instant [rc_created_at r, ad_accepted_at child, tk_created_at task, tk_updated_at task,
           ru_created_at unit, ru_updated_at unit, ib_created_at binding, ib_updated_at binding,
           ctl_linked_at (cig_conversation_task_link c)])"

definition initial_projection_guards :: "create_initial_graph_command \<Rightarrow> (bool \<times> string) list" where
  "initial_projection_guards c =
     (let r = sac_record (cig_request_understanding c); child = sac_accepted_delta (cig_request_understanding c);
          task = cta_initial_record (cig_initial_task c); unit = cru_initial_record (cig_initial_request_unit c);
          binding = sib_record (cig_input_binding c); conversation = cig_expected_conversation_record c;
          run = cig_expected_active_run_record c; conversation_link = cig_conversation_task_link c;
          run_link = crl_active_record (cig_run_task_link c);
          candidate_input = hd (dtd_input_candidates (hd (rc_task_delta_candidates r)));
          normalized = normalize_order_id (JStr (dic_candidate_value candidate_input));
          ids = rc_request_understanding_record_id r # (case rc_next_move_candidate_ref r of None \<Rightarrow> [] | Some i \<Rightarrow> [i])
            @ [ad_accepted_delta_id child, tk_task_id task, ru_request_unit_id unit, ib_binding_id binding];
          initial_at = hd (initial_timestamps c); current = hd (current_messages r (cig_expected_message_records c))
      in [(\<not> is_ok normalized, ''RU-v2 accepted candidate InputBinding is invalid''),
          (ib_name binding \<noteq> dic_name candidate_input \<or> Inr (ib_normalized_value binding) \<noteq> normalized
             \<or> ib_authority binding \<noteq> dic_authority candidate_input
             \<or> ib_source_refs binding \<noteq> [dic_source_ref candidate_input],
           ''RU-v2 accepted candidate InputBinding projection mismatch''),
          (tk_owner_customer_id task \<noteq> os_customer_id (cig_owner_scope c),
           ''initial Task must match the trusted owner scope''),
          (tk_status task \<noteq> ACTIVE \<or> tk_state_version task \<noteq> 1 \<or> tk_last_outcome_ref task \<noteq> None,
           ''RU-v2 requires a clean initial Task''),
          (\<not> clean_initial_unit r child task binding unit, ''RU-v2 requires a clean initial RequestUnit''),
          (sib_request_unit_id (cig_input_binding c) \<noteq> ru_request_unit_id unit \<or> ib_validation_status binding \<noteq> ACCEPTED
             \<or> ib_confirmed_by_user binding \<noteq> True \<or> ib_supersedes binding \<noteq> None,
           ''RU-v2 requires a clean initial InputBinding''),
          (ad_task_id child \<noteq> tk_task_id task \<or> ad_input_binding_refs child \<noteq> [ib_binding_id binding]
             \<or> ad_base_task_state_version child \<noteq> None \<or> ad_result_task_state_version child \<noteq> tk_state_version task
             \<or> ad_result_task_state_version child \<noteq> ru_state_version unit,
           ''RU-v2 accepted child must bind the initial Task effect''),
          (has_duplicates ids, ''RU-v2 initial graph identities must be unique''),
          (ctl_conversation_id conversation_link \<noteq> cr_conversation_id conversation
             \<or> ctl_task_id conversation_link \<noteq> tk_task_id task \<or> ctl_ended_at conversation_link \<noteq> None,
           ''ConversationTaskLink must be the active initial Task link''),
          (rl_run_id run_link \<noteq> ar_run_id run \<or> rl_task_id run_link \<noteq> tk_task_id task
             \<or> rl_base_task_state_version run_link \<noteq> None \<or> rl_result_task_state_version run_link \<noteq> None,
           ''RunTaskLink must bind the Run to its new Task''),
          (length (remdups (initial_timestamps c)) \<noteq> 1, ''RU-v2 initial graph must use one trusted timestamp''),
          (initial_at < instant (mr_received_at current) \<or> initial_at < instant (ar_started_at run),
           ''RU-v2 initial timestamp cannot precede current Message or Run'')])"

definition new_create_initial_graph_command ::
  "create_initial_graph_command \<Rightarrow> validation_error + create_initial_graph_command" where
  "new_create_initial_graph_command c = construct
     [(''expected_message_records'', 1 \<le> length (cig_expected_message_records c)
         \<and> length (cig_expected_message_records c) \<le> 8)]
     ((new_save_accepted_command (cig_request_understanding c) \<noteq> Inr (cig_request_understanding c),
       ''RU-v2 accepted command must be recursively canonical'')
      # owner_roots_guards (cig_owner_scope c) (cig_expected_conversation_record c) (cig_expected_message_records c)
          (cig_expected_active_run_record c) (sac_record (cig_request_understanding c))
      @ initial_rebuild_guards c @ initial_projection_guards c) c"

end
