(* ===== verification/Agent_Run.thy ===== *)
theory Agent_Run
  imports Initial_Graph Read_Tool_Executor Control_Gateway Revalidation
begin

section \<open>One Run, end to end (application/agent_run_service.py)\<close>

text \<open>
  \<open>AgentRunService.handle\<close> as a computation over everything it awaits. \<open>run_state\<close> holds the
  consumed ticks of the clock and the uuid factory, the actions asked of the ports in order, and the
  service's own \<open>_RunFailureState\<close>. The environment says how each await ends; the tool executor is
  the one of \<open>Read_Tool_Executor\<close>, run on the same clock and uuid factory.
\<close>

subsection \<open>The world\<close>

datatype service_error =
    RunExecutionError string | RunRecordInvalid validation_error | RunProcessingError string
  | RunExecutorError exec_error | RunPortError nat | RunProviderError | RunAttributeError | RunCancelledError

text \<open>A reply of the model: a candidate, or one of the two bounded signals, of the exact class or a subclass.\<close>

datatype 'a provider_reply =
    Proposes 'a | SignalsCandidateInvalid bool | SignalsProtocolError bool | ProviderRaises nat | ProviderInterrupted

datatype run_action =
    PutArtifact toolset_artifact
  | GetArtifact pystr
  | SaveConversation conversation_record
  | AppendMessage message_record
  | ListMessages trusted_owner_scope uuid
  | InsertRun create_run_command
  | StartRun transition_run_command
  | AppendRunTrace trace_event
  | SaveManifest context_manifest
  | ProposeNextMove request_input
  | CreateInitialGraph create_initial_graph_command
  | AfterRevalidation uuid task_record request_unit_record
  | LoadTask trusted_owner_scope uuid
  | LoadUnit trusted_owner_scope uuid
  | SaveGateDecision gate_decision
  | ExecutorAction port_action
  | PlanPresentation "order_summary_projection pyobj"
  | FinalizeRun finalize_run_command

record run_env =
  ev_executor :: executor_env
  ev_registry :: registry_snapshot
  ev_provider_lane :: pystr
  ev_redaction_policy_version :: pystr
  ev_run_time_budget_ms :: int
  ev_done :: "nat \<Rightarrow> unit port_reply"
  ev_artifact :: "toolset_artifact option port_reply"
  ev_messages :: "message_record pyobj list port_reply"
  ev_insert_run :: "insert_only_write_result port_reply"
  ev_start_run :: "conditional_write_result port_reply"
  ev_propose :: "request_output pyobj provider_reply"
  ev_create_graph :: "conditional_write_result port_reply"
  ev_task :: "nat \<Rightarrow> task_record option port_reply"
  ev_unit :: "request_unit_record option port_reply"
  ev_plan :: "presentation_plan pyobj provider_reply"
  ev_finalize_run :: "nat \<Rightarrow> conditional_write_result port_reply"
  ev_serialise :: serialiser
  ev_fields_set :: "routable_decision \<Rightarrow> fields_manifest"

record run_state =
  rn_clock :: nat
  rn_uuid :: nat
  rn_log :: "run_action list"
  rn_running_run :: "agent_run_record option"
  rn_active_link :: "run_task_link_record option"
  rn_result_task :: "task_record option"
  rn_owner_scope :: "trusted_owner_scope option"
  rn_committed_result :: "agent_run_result option"

type_synonym 'a run = "(run_state, service_error, 'a) computation"

definition run_now :: "run_env \<Rightarrow> datetime run" where
  "run_now env = (\<lambda>st. (Inr (ee_clock (ev_executor env) (rn_clock st)), st\<lparr>rn_clock := Suc (rn_clock st)\<rparr>))"

definition run_uuid :: "run_env \<Rightarrow> uuid run" where
  "run_uuid env = (\<lambda>st. (Inr (ee_uuid (ev_executor env) (rn_uuid st)), st\<lparr>rn_uuid := Suc (rn_uuid st)\<rparr>))"

definition run_construct :: "validation_error + 'a \<Rightarrow> 'a run" where
  "run_construct r = (case r of Inl e \<Rightarrow> exec_raise (RunRecordInvalid e) | Inr x \<Rightarrow> exec_return x)"

definition run_log :: "run_action \<Rightarrow> unit run" where
  "run_log a = exec_modify (\<lambda>st. st\<lparr>rn_log := rn_log st @ [a]\<rparr>)"

definition run_reply :: "'a port_reply \<Rightarrow> 'a run" where
  "run_reply r = (case r of Replies x \<Rightarrow> exec_return x | Raises n \<Rightarrow> exec_raise (RunPortError n)
     | Interrupted \<Rightarrow> exec_raise RunCancelledError)"

text \<open>Ask a port: log the action; replies may depend on how many actions came before.\<close>

definition run_ask :: "run_action \<Rightarrow> (nat \<Rightarrow> 'a port_reply) \<Rightarrow> 'a run" where
  "run_ask a reply =
     exec_bind (exec_get (\<lambda>st. length (rn_log st))) (\<lambda>n.
     exec_bind (run_log a) (\<lambda>_. run_reply (reply n)))"

definition run_tell :: "run_env \<Rightarrow> run_action \<Rightarrow> unit run" where
  "run_tell env a = run_ask a (ev_done env)"

definition run_provider :: "run_action \<Rightarrow> 'a provider_reply \<Rightarrow> 'a provider_reply run" where
  "run_provider a reply = exec_bind (run_log a) (\<lambda>_.
     case reply of
       ProviderRaises n \<Rightarrow> exec_raise (RunPortError n)
     | ProviderInterrupted \<Rightarrow> exec_raise RunCancelledError
     | _ \<Rightarrow> exec_return reply)"

text \<open>The executor shares the clock and the uuid factory: it reads them on from where the Run is.\<close>

definition executor_env_at :: "run_env \<Rightarrow> run_state \<Rightarrow> executor_env" where
  "executor_env_at env st = (ev_executor env)
     \<lparr>ee_clock := (\<lambda>n. ee_clock (ev_executor env) (n + rn_clock st)),
      ee_uuid := (\<lambda>n. ee_uuid (ev_executor env) (n + rn_uuid st))\<rparr>"

definition run_executor :: "run_env \<Rightarrow> executor_args \<Rightarrow> read_tool_execution run" where
  "run_executor env args = (\<lambda>st.
     case execute_get_order (executor_env_at env st) args initial_exec_state of
       (r, xs) \<Rightarrow>
         ((case r of Inl TaskCancelledError \<Rightarrow> Inl RunCancelledError | Inl e \<Rightarrow> Inl (RunExecutorError e) | Inr x \<Rightarrow> Inr x),
          st\<lparr>rn_clock := rn_clock st + xs_clock xs, rn_uuid := rn_uuid st + xs_uuid xs,
             rn_log := rn_log st @ map ExecutorAction (xs_log xs)\<rparr>))"

subsection \<open>Trace and manifest\<close>

text \<open>\<open>_append_trace\<close>; \<open>with_fields\<close> sets the keyword arguments.\<close>

definition append_trace ::
  "run_env \<Rightarrow> trace_event_type \<Rightarrow> uuid \<Rightarrow> datetime option \<Rightarrow> (trace_event \<Rightarrow> trace_event) \<Rightarrow> unit run" where
  "append_trace env event_type run_id occurred_at with_fields =
     exec_bind (run_uuid env) (\<lambda>trace_event_id.
     exec_bind (case occurred_at of None \<Rightarrow> run_now env | Some t \<Rightarrow> exec_return t) (\<lambda>t.
     exec_bind (run_construct (new_trace_event (with_fields (blank_event trace_event_id event_type t run_id)))) (\<lambda>event.
     run_tell env (AppendRunTrace event))))"

definition save_manifest ::
  "run_env \<Rightarrow> uuid \<Rightarrow> uuid \<Rightarrow> pystr \<Rightarrow> uuid \<Rightarrow> task_record option \<Rightarrow> versioned_record_ref option \<Rightarrow> context_manifest run" where
  "save_manifest env run_id model_call_id purpose message_id task observation_ref =
     exec_bind (run_uuid env) (\<lambda>manifest_id.
     exec_bind (run_now env) (\<lambda>assembled_at.
     exec_bind (run_construct (new_context_manifest
       \<lparr>cm_context_manifest_id = manifest_id, cm_run_id = run_id, cm_model_call_id = model_call_id,
        cm_tool_registry_version = rs_tool_registry_version (ev_registry env),
        cm_model_visible_toolset_hash = rs_model_visible_toolset_hash (ev_registry env),
        cm_selected_message_refs = [message_id],
        cm_task_state_ref_and_version = map_option (\<lambda>t. \<lparr>tsr_task_id = tk_task_id t, tsr_state_version = tk_state_version t\<rparr>) task,
        cm_observation_refs_and_versions = (case observation_ref of None \<Rightarrow> [] | Some r \<Rightarrow> [r]),
        cm_evidence_refs_and_versions = [], cm_action_record_refs = [],
        cm_redaction_policy_version = ev_redaction_policy_version env, cm_truncation_decisions = [],
        cm_token_counts = \<lparr>tk_input_tokens = None, tk_output_tokens = None\<rparr>, cm_assembled_at = assembled_at\<rparr>))
     (\<lambda>manifest.
     exec_bind (run_tell env (SaveManifest manifest)) (\<lambda>_.
     exec_bind (append_trace env CONTEXT_MANIFEST_RECORDED run_id None (\<lambda>e. e
       \<lparr>te_model_call_id := Some model_call_id, te_model_call_purpose := Some purpose,
        te_context_manifest_id := Some (cm_context_manifest_id manifest),
        te_tool_registry_version := Some (cm_tool_registry_version manifest),
        te_model_visible_toolset_hash := Some (cm_model_visible_toolset_hash manifest)\<rparr>)) (\<lambda>_.
     exec_return manifest)))))"

definition append_initial_decision_trace ::
  "run_env \<Rightarrow> uuid \<Rightarrow> uuid \<Rightarrow> uuid \<Rightarrow> routable_decision \<Rightarrow> unit run" where
  "append_initial_decision_trace env run_id model_call_id manifest_id decision =
     (let r = cl_record (rd_closure decision); graph = rd_task_graph decision; move = rd_next_move_candidate decision;
          delta = Some (ad_accepted_delta_id (ig_accepted_delta graph));
          task = Some (tk_task_id (ig_task graph)); unit = Some (ru_request_unit_id (ig_request_unit graph))
      in exec_bind (append_trace env NEXT_MOVE_PROPOSED run_id None (\<lambda>e. e
           \<lparr>te_message_ref := Some (rc_message_ref r), te_model_call_id := Some model_call_id,
            te_context_manifest_id := Some manifest_id, te_next_move_kind := Some (next_move_kind_value (nm_kind move)),
            te_requested_tool_name := nm_requested_tool_name move,
            te_proposed_base_task_state_version := nm_base_task_state_version move\<rparr>)) (\<lambda>_.
         exec_bind (append_trace env TASK_DELTA_VALIDATED run_id None (\<lambda>e. e
           \<lparr>te_message_ref := Some (rc_message_ref r), te_accepted_delta_ref := delta\<rparr>)) (\<lambda>_.
         exec_bind (append_trace env TASK_DELTA_ACCEPTED run_id None (\<lambda>e. e
           \<lparr>te_message_ref := Some (rc_message_ref r), te_accepted_delta_ref := delta, te_task_id := task,
            te_request_unit_id := unit\<rparr>)) (\<lambda>_.
         exec_bind (append_trace env INPUT_BINDING_RECORDED run_id None (\<lambda>e. e
           \<lparr>te_task_id := task, te_request_unit_id := unit,
            te_input_binding_ref := Some (ib_binding_id (ig_input_binding graph))\<rparr>)) (\<lambda>_.
         append_trace env TASK_STATE_CHANGED run_id None (\<lambda>e. e
           \<lparr>te_task_id := task, te_request_unit_id := unit\<rparr>))))))"

definition terminal_event_by_status :: "tool_call_status \<Rightarrow> trace_event_type option" where
  "terminal_event_by_status s = (case s of
      TC_SUCCEEDED \<Rightarrow> Some TOOL_CALL_SUCCEEDED | TC_FAILED \<Rightarrow> Some TOOL_CALL_FAILED
    | TC_TIMED_OUT \<Rightarrow> Some TOOL_CALL_TIMED_OUT | TC_INTERRUPTED \<Rightarrow> Some TOOL_CALL_INTERRUPTED | _ \<Rightarrow> None)"

text \<open>\<open>occurred_at or self._clock()\<close>: an absent time is read from the clock.\<close>

definition append_tool_trace :: "run_env \<Rightarrow> read_tool_execution \<Rightarrow> unit run" where
  "append_tool_trace env execution =
     (case (rx_terminal_tool_call execution, rx_finalized_attempt execution) of
        (Some terminal, Some attempt) \<Rightarrow>
          (let created = rx_created_tool_call execution; run_id = tc_run_id created;
               bind_ids = (\<lambda>e. e\<lparr>te_task_id := Some (tc_task_id created),
                 te_request_unit_id := Some (tc_request_unit_id created), te_tool_call_id := Some (tc_tool_call_id created)\<rparr>)
           in exec_bind (append_trace env TOOL_CALL_CREATED run_id (Some (tc_started_at created)) (\<lambda>e. (bind_ids e)
                \<lparr>te_model_call_id := Some (tc_model_call_id created),
                 te_context_manifest_id := Some (tc_context_manifest_id created),
                 te_validated_task_state_version := Some (tc_validated_task_state_version created),
                 te_argument_binding_refs := tc_argument_binding_refs created,
                 te_tool_call_terminal_status := Some TC_CREATED\<rparr>)) (\<lambda>_.
              exec_bind (append_trace env TOOL_CALL_STARTED run_id (Some (at_started_at attempt)) (\<lambda>e. (bind_ids e)
                \<lparr>te_tool_call_terminal_status := Some TC_RUNNING\<rparr>)) (\<lambda>_.
              case terminal_event_by_status (tc_status terminal) of
                None \<Rightarrow> exec_raise (RunExecutionError ''terminal ToolCall status required for Trace'')
              | Some event_type \<Rightarrow>
                  exec_bind (append_trace env event_type run_id (tc_finished_at terminal) (\<lambda>e. (bind_ids e)
                    \<lparr>te_tool_call_terminal_status := Some (tc_status terminal)\<rparr>)) (\<lambda>_.
                  append_trace env TOOL_RESULT_NORMALIZED run_id (tc_finished_at terminal) (\<lambda>e. (bind_ids e)
                    \<lparr>te_safe_tool_outcome := at_outcome attempt\<rparr>)))))
      | _ \<Rightarrow> exec_raise (RunExecutionError ''terminal Tool projection required''))"

subsection \<open>Finishing a Run (\<open>_finish_without_task\<close>, \<open>_finish_with_task\<close>)\<close>

definition MESSAGE_SCHEMA_VERSION :: pystr where
  "MESSAGE_SCHEMA_VERSION = str ''message_record.p0.v1''"

definition CONVERSATION_SCHEMA_VERSION :: pystr where
  "CONVERSATION_SCHEMA_VERSION = str ''conversation_record.p0.v1''"

definition CONVERSATION_TASK_LINK_SCHEMA_VERSION :: pystr where
  "CONVERSATION_TASK_LINK_SCHEMA_VERSION = str ''conversation_task_link_record.p0.v1''"

definition RUN_TASK_LINK_SCHEMA_VERSION :: pystr where
  "RUN_TASK_LINK_SCHEMA_VERSION = str ''run_task_link_record.p0.v1''"

definition completed_run :: "agent_run_record \<Rightarrow> datetime \<Rightarrow> stop_reason \<Rightarrow> agent_run_record" where
  "completed_run running completed_at stop =
     running\<lparr>ar_status := RUN_COMPLETED, ar_completed_at := Some completed_at, ar_stop_reason := Some stop\<rparr>"

definition assistant_message :: "uuid \<Rightarrow> conversation_record \<Rightarrow> agent_run_result \<Rightarrow> datetime \<Rightarrow> message_record" where
  "assistant_message message_id conversation result completed_at =
     \<lparr>mr_schema_version = MESSAGE_SCHEMA_VERSION, mr_message_id = message_id,
      mr_conversation_id = cr_conversation_id conversation, mr_direction = DIRECTION_ASSISTANT,
      mr_content = res_message result, mr_received_at = completed_at\<rparr>"

definition run_stopped_event :: "uuid \<Rightarrow> datetime \<Rightarrow> uuid \<Rightarrow> agent_run_result \<Rightarrow> stop_reason \<Rightarrow> trace_event" where
  "run_stopped_event event_id completed_at run_id result stop =
     (blank_event event_id RUN_STOPPED completed_at run_id)
       \<lparr>te_user_outcome := Some (res_outcome result), te_stop_reason := Some stop\<rparr>"

text \<open>The end of both: the conditional write, and on \<open>APPLIED\<close> the terminal commit point.\<close>

definition commit_run :: "run_env \<Rightarrow> finalize_run_command \<Rightarrow> task_record option \<Rightarrow> agent_run_result \<Rightarrow> agent_run_result run" where
  "commit_run env given next_task result =
     exec_bind (run_construct (new_finalize_run_command given)) (\<lambda>command.
     exec_bind (run_ask (FinalizeRun command) (ev_finalize_run env)) (\<lambda>write_result.
     exec_bind (exec_raise_if (write_result \<noteq> APPLIED) (RunExecutionError ''Run finalization conflict'')) (\<lambda>_.
     exec_bind (exec_modify (\<lambda>st. st\<lparr>
         rn_result_task := (case next_task of None \<Rightarrow> rn_result_task st | Some t \<Rightarrow> Some t),
         rn_committed_result := Some result, rn_running_run := None\<rparr>)) (\<lambda>_.
     exec_return result))))"

definition finish_without_task ::
  "run_env \<Rightarrow> agent_run_record \<Rightarrow> conversation_record \<Rightarrow> stop_reason \<Rightarrow> agent_run_result run" where
  "finish_without_task env running_run conversation stop =
     exec_bind (run_construct (map_result (ar_run_id running_run) stop None)) (\<lambda>result.
     exec_bind (append_trace env RESPONSE_RENDERED (ar_run_id running_run) None (\<lambda>e. e)) (\<lambda>_.
     exec_bind (run_now env) (\<lambda>completed_at.
     exec_bind (run_construct (new_agent_run_record (completed_run running_run completed_at stop))) (\<lambda>terminal_run.
     exec_bind (run_uuid env) (\<lambda>message_id.
     exec_bind (run_construct (new_message_record (assistant_message message_id conversation result completed_at)))
       (\<lambda>message.
     exec_bind (run_uuid env) (\<lambda>event_id.
     exec_bind (run_construct (new_trace_event
       (run_stopped_event event_id completed_at (ar_run_id running_run) result stop))) (\<lambda>run_stopped.
     commit_run env
       \<lparr>fr_expected_active_record = running_run, fr_terminal_record = terminal_run,
        fr_expected_active_links = [], fr_terminal_links = [], fr_result_task_records = [],
        fr_task_transition = None, fr_terminal_result = Some result, fr_assistant_message = Some message,
        fr_terminal_trace_events = [run_stopped]\<rparr> None result))))))))"

definition finished_task :: "task_record \<Rightarrow> task_status \<Rightarrow> datetime \<Rightarrow> uuid \<Rightarrow> task_record" where
  "finished_task task status changed_at reason_ref =
     task\<lparr>tk_status := status, tk_state_version := tk_state_version task + 1, tk_updated_at := changed_at,
       tk_last_outcome_ref := Some reason_ref\<rparr>"

definition finished_unit ::
  "request_unit_record \<Rightarrow> task_status \<Rightarrow> datetime \<Rightarrow> uuid \<Rightarrow> uuid option \<Rightarrow> request_unit_record" where
  "finished_unit unit status changed_at reason_ref observation_ref =
     unit\<lparr>ru_observation_refs := (case observation_ref of
           Some r \<Rightarrow> if r \<notin> set (ru_observation_refs unit) then ru_observation_refs unit @ [r] else ru_observation_refs unit
         | None \<Rightarrow> ru_observation_refs unit),
       ru_result_refs := ru_result_refs unit @ [reason_ref], ru_status := status,
       ru_state_version := ru_state_version unit + 1, ru_updated_at := changed_at\<rparr>"

definition finishing_transition ::
  "task_record \<Rightarrow> request_unit_record \<Rightarrow> task_status \<Rightarrow> datetime \<Rightarrow> uuid \<Rightarrow> task_state_transition" where
  "finishing_transition task unit status changed_at reason_ref =
     \<lparr>tt_task_id = tk_task_id task, tt_request_unit_id = ru_request_unit_id unit, tt_from_status = tk_status task,
      tt_to_status = status, tt_base_state_version = tk_state_version task,
      tt_result_state_version = tk_state_version task + 1, tt_reason_ref = reason_ref, tt_changed_at = changed_at\<rparr>"

definition closed_link :: "run_task_link_record \<Rightarrow> task_record \<Rightarrow> run_task_link_record" where
  "closed_link link task = link\<lparr>rl_result_task_state_version := Some (tk_state_version task)\<rparr>"

text \<open>What distinguishes the six calls of \<open>_finish_with_task\<close>.\<close>

record finish_args =
  fa_stop_reason :: stop_reason
  fa_target_status :: task_status
  fa_reason_ref :: uuid
  fa_observation_ref :: "uuid option"
  fa_presentation_plan_ref :: "uuid option"
  fa_rendered_message :: "pystr option"

definition finish_with_task ::
  "run_env \<Rightarrow> agent_run_record \<Rightarrow> conversation_record \<Rightarrow> task_record \<Rightarrow> request_unit_record \<Rightarrow> run_task_link_record
   \<Rightarrow> finish_args \<Rightarrow> agent_run_result run" where
  "finish_with_task env running_run conversation task unit active_link args =
     (let run_id = ar_run_id running_run; status = fa_target_status args; reason_ref = fa_reason_ref args;
          stop = fa_stop_reason args
      in exec_bind (run_construct (map_result run_id stop (fa_rendered_message args))) (\<lambda>result.
         exec_bind (append_trace env RESPONSE_RENDERED run_id None (\<lambda>e. e
           \<lparr>te_task_id := Some (tk_task_id task), te_request_unit_id := Some (ru_request_unit_id unit),
            te_observation_ref := fa_observation_ref args,
            te_presentation_plan_ref := fa_presentation_plan_ref args\<rparr>)) (\<lambda>_.
         exec_bind (run_now env) (\<lambda>changed_at.
         exec_bind (run_construct (new_task_record (finished_task task status changed_at reason_ref))) (\<lambda>next_task.
         exec_bind (run_construct (new_request_unit_record
           (finished_unit unit status changed_at reason_ref (fa_observation_ref args)))) (\<lambda>next_unit.
         exec_bind (run_construct (new_task_state_transition
           (finishing_transition task unit status changed_at reason_ref))) (\<lambda>change.
         exec_bind (run_construct (new_apply_task_transition_command
           \<lparr>att_expected_task_record = task, att_next_task_record = next_task,
            att_expected_request_unit_record = unit, att_next_request_unit_record = next_unit,
            att_task_state_transition = change\<rparr>)) (\<lambda>transition.
         exec_bind (run_construct (new_run_task_link_record (closed_link active_link next_task))) (\<lambda>terminal_link.
         exec_bind (run_now env) (\<lambda>completed_at.
         exec_bind (run_construct (new_agent_run_record (completed_run running_run completed_at stop))) (\<lambda>terminal_run.
         exec_bind (run_uuid env) (\<lambda>message_id.
         exec_bind (run_construct (new_message_record
           (assistant_message message_id conversation result completed_at))) (\<lambda>message.
         exec_bind (run_uuid env) (\<lambda>changed_event_id.
         exec_bind (run_construct (new_trace_event
           ((blank_event changed_event_id TASK_STATE_CHANGED changed_at run_id)
             \<lparr>te_task_id := Some (tk_task_id next_task),
              te_request_unit_id := Some (ru_request_unit_id next_unit)\<rparr>))) (\<lambda>task_state_changed.
         exec_bind (run_uuid env) (\<lambda>stopped_event_id.
         exec_bind (run_construct (new_trace_event
           (run_stopped_event stopped_event_id completed_at run_id result stop))) (\<lambda>run_stopped.
         commit_run env
           \<lparr>fr_expected_active_record = running_run, fr_terminal_record = terminal_run,
            fr_expected_active_links = [active_link], fr_terminal_links = [terminal_link],
            fr_result_task_records = [next_task], fr_task_transition = Some transition,
            fr_terminal_result = Some result, fr_assistant_message = Some message,
            fr_terminal_trace_events = [task_state_changed, run_stopped]\<rparr> (Some next_task) result)))))))))))))))))"

subsection \<open>Closing a failed Run (\<open>_finalize_failed_run_after_error\<close>)\<close>

definition failed_run :: "agent_run_record \<Rightarrow> datetime \<Rightarrow> agent_run_record" where
  "failed_run running completed_at =
     running\<lparr>ar_status := RUN_FAILED, ar_completed_at := Some completed_at, ar_stop_reason := None\<rparr>"

text \<open>The current Task is read again; a failing read keeps the cached one.\<close>

definition reload_result_task :: "run_env \<Rightarrow> task_record \<Rightarrow> task_record run" where
  "reload_result_task env result_task =
     exec_bind (exec_get rn_owner_scope) (\<lambda>owner_scope.
     case owner_scope of
       None \<Rightarrow> exec_return result_task
     | Some owner \<Rightarrow>
         exec_bind (exec_try (run_ask (LoadTask owner (tk_task_id result_task)) (ev_task env))) (\<lambda>reloaded.
         case reloaded of
           Inr (Some current_task) \<Rightarrow>
             exec_bind (exec_modify (\<lambda>st. st\<lparr>rn_result_task := Some current_task\<rparr>)) (\<lambda>_. exec_return current_task)
         | _ \<Rightarrow> exec_return result_task))"

definition failure_links :: "run_env \<Rightarrow> (run_task_link_record list \<times> run_task_link_record list \<times> task_record list) run" where
  "failure_links env =
     exec_bind (exec_get rn_active_link) (\<lambda>active_link.
     exec_bind (exec_get rn_result_task) (\<lambda>result_task.
     case (active_link, result_task) of
       (Some link, Some cached) \<Rightarrow>
         exec_bind (reload_result_task env cached) (\<lambda>task.
         exec_bind (run_construct (new_run_task_link_record (closed_link link task))) (\<lambda>terminal_link.
         exec_return ([link], [terminal_link], [task])))
     | _ \<Rightarrow> exec_return ([], [], [])))"

definition failed_command ::
  "agent_run_record \<Rightarrow> agent_run_record \<Rightarrow> run_task_link_record list \<times> run_task_link_record list \<times> task_record list
   \<Rightarrow> finalize_run_command" where
  "failed_command running terminal_run links =
     (case links of (expected_active_links, terminal_links, result_task_records) \<Rightarrow>
        \<lparr>fr_expected_active_record = running, fr_terminal_record = terminal_run,
         fr_expected_active_links = expected_active_links, fr_terminal_links = terminal_links,
         fr_result_task_records = result_task_records, fr_task_transition = None,
         fr_terminal_result = None, fr_assistant_message = None, fr_terminal_trace_events = []\<rparr>)"

text \<open>The write itself is in a \<open>try\<close> that only notes what happened.\<close>

definition write_failed_run ::
  "run_env \<Rightarrow> agent_run_record \<Rightarrow> run_task_link_record list \<times> run_task_link_record list \<times> task_record list \<Rightarrow> unit run" where
  "write_failed_run env running links =
     exec_bind (run_now env) (\<lambda>completed_at.
     exec_bind (run_construct (new_agent_run_record (failed_run running completed_at))) (\<lambda>terminal_run.
     exec_bind (exec_try (exec_bind (run_construct (new_finalize_run_command (failed_command running terminal_run links)))
       (\<lambda>command. run_ask (FinalizeRun command) (ev_finalize_run env)))) (\<lambda>_.
     exec_return ())))"

definition finalize_failed_run_after_error :: "run_env \<Rightarrow> unit run" where
  "finalize_failed_run_after_error env =
     exec_bind (exec_get rn_running_run) (\<lambda>running_run.
     exec_bind (exec_get (\<lambda>st. (rn_active_link st = None) \<noteq> (rn_result_task st = None))) (\<lambda>incomplete.
     case running_run of
       None \<Rightarrow> exec_return ()
     | Some running \<Rightarrow>
         if incomplete then exec_return ()
         else exec_bind (failure_links env) (write_failed_run env running)))"

end
