(* ===== verification/Agent_Handle.thy ===== *)
theory Agent_Handle
  imports Agent_Run
begin

section \<open>AgentRunService.handle (application/agent_run_service.py, lines 296--878)\<close>

text \<open>
  \<open>_handle\<close> in its stages, in source order: open the Run, understand the message, reduce and
  store the Task graph, decide, read, present. Each stage that can finish the Run early says so
  by finishing it; \<open>handle\<close> closes a Run that ended with an error.
\<close>

subsection \<open>Opening the Run (lines 323--399)\<close>

record opened_run =
  on_owner_scope :: trusted_owner_scope
  on_customer_context :: "customer_context pyobj"
  on_artifact :: toolset_artifact
  on_conversation :: conversation_record
  on_message :: message_record
  on_running_run :: agent_run_record

text \<open>The one message the store must give back: exactly the one just written.\<close>

definition authoritative_message :: "message_record \<Rightarrow> message_record pyobj list \<Rightarrow> bool" where
  "authoritative_message user_message authoritative_messages \<longleftrightarrow>
     authoritative_messages = [Obj user_message []] \<and> mr_direction user_message = DIRECTION_USER"

definition open_conversation ::
  "run_env \<Rightarrow> trusted_owner_scope \<Rightarrow> pystr \<Rightarrow> (datetime \<times> conversation_record \<times> message_record) run" where
  "open_conversation env owner message =
     exec_bind (run_now env) (\<lambda>now.
     exec_bind (run_uuid env) (\<lambda>conversation_id.
     exec_bind (run_construct (new_conversation_record
       \<lparr>cr_schema_version = CONVERSATION_SCHEMA_VERSION, cr_conversation_id = conversation_id,
        cr_owner_customer_id = os_customer_id owner, cr_created_at = now\<rparr>)) (\<lambda>conversation.
     exec_bind (run_uuid env) (\<lambda>message_id.
     exec_bind (run_construct (new_message_record
       \<lparr>mr_schema_version = MESSAGE_SCHEMA_VERSION, mr_message_id = message_id,
        mr_conversation_id = conversation_id, mr_direction = DIRECTION_USER, mr_content = message,
        mr_received_at = now\<rparr>)) (\<lambda>user_message.
     exec_bind (run_tell env (SaveConversation conversation)) (\<lambda>_.
     exec_bind (run_tell env (AppendMessage user_message)) (\<lambda>_.
     exec_bind (run_ask (ListMessages owner conversation_id) (\<lambda>_. ev_messages env)) (\<lambda>authoritative_messages.
     exec_bind (exec_raise_if (\<not> authoritative_message user_message authoritative_messages)
       (RunExecutionError ''authoritative current Message unavailable'')) (\<lambda>_.
     exec_return (now, conversation, user_message))))))))))"

definition start_run :: "run_env \<Rightarrow> conversation_record \<Rightarrow> datetime \<Rightarrow> agent_run_record run" where
  "start_run env conversation now =
     exec_bind (run_uuid env) (\<lambda>run_id.
     exec_bind (run_construct (new_agent_run_record
       \<lparr>ar_run_id = run_id, ar_conversation_id = Some (cr_conversation_id conversation),
        ar_status = RUN_CREATED, ar_provider_lane = ev_provider_lane env, ar_started_at = now,
        ar_completed_at = None, ar_stop_reason = None, ar_incomplete_reason = None\<rparr>)) (\<lambda>created_run.
     exec_bind (run_construct (new_create_run_command \<lparr>crc_created_record = created_run\<rparr>)) (\<lambda>insert_command.
     exec_bind (run_ask (InsertRun insert_command) (\<lambda>_. ev_insert_run env)) (\<lambda>insert_result.
     exec_bind (exec_raise_if (insert_result \<noteq> INSERTED) (RunExecutionError ''Run insert conflict'')) (\<lambda>_.
     exec_bind (run_construct (new_agent_run_record (created_run\<lparr>ar_status := RUN_RUNNING\<rparr>))) (\<lambda>running_run.
     exec_bind (run_construct (new_transition_run_command
       \<lparr>trc_expected_active_record = created_run, trc_next_record = running_run\<rparr>)) (\<lambda>start_command.
     exec_bind (run_ask (StartRun start_command) (\<lambda>_. ev_start_run env)) (\<lambda>start_result.
     exec_bind (exec_raise_if (start_result \<noteq> APPLIED) (RunExecutionError ''Run start conflict'')) (\<lambda>_.
     exec_bind (exec_modify (\<lambda>st. st\<lparr>rn_running_run := Some running_run\<rparr>)) (\<lambda>_.
     exec_return running_run))))))))))"

definition open_run :: "run_env \<Rightarrow> agent_run_command pyobj \<Rightarrow> opened_run run" where
  "open_run env given =
     (case given of
        Foreign \<Rightarrow> exec_raise (RunExecutionError ''canonical AgentRunCommand required'')
      | Obj command _ \<Rightarrow>
     (case rq_customer_context command of
        Foreign \<Rightarrow> exec_raise RunAttributeError
      | Obj customer _ \<Rightarrow>
     exec_bind (run_construct (scope_from_customer_context customer)) (\<lambda>owner.
     exec_bind (exec_modify (\<lambda>st. st\<lparr>rn_owner_scope := Some owner\<rparr>)) (\<lambda>_.
     exec_bind (run_construct (snapshot_artifact (ev_registry env))) (\<lambda>artifact.
     exec_bind (run_tell env (PutArtifact artifact)) (\<lambda>_.
     exec_bind (run_ask (GetArtifact (ta_model_visible_toolset_hash artifact)) (\<lambda>_. ev_artifact env))
       (\<lambda>resolved_artifact.
     exec_bind (exec_raise_if (resolved_artifact \<noteq> Some artifact)
       (RunExecutionError ''Toolset Artifact is not resolvable'')) (\<lambda>_.
     exec_bind (open_conversation env owner (rq_message command)) (\<lambda>(now, conversation, user_message).
     exec_bind (start_run env conversation now) (\<lambda>running_run.
     exec_return \<lparr>on_owner_scope = owner, on_customer_context = rq_customer_context command,
       on_artifact = artifact, on_conversation = conversation, on_message = user_message,
       on_running_run = running_run\<rparr>))))))))))"

subsection \<open>Understanding the message (lines 401--473)\<close>

text \<open>What a proposal ends with: the model's output, or a bounded reason to stop.\<close>

datatype proposal = Proposed "request_output pyobj" | ProposalRefused stop_reason

definition request_of :: "opened_run \<Rightarrow> request_input" where
  "request_of opened =
     \<lparr>ri_schema_version = str ''e2e01-thin-v1'', ri_schema_version_set = True,
      ri_run_id = ar_run_id (on_running_run opened), ri_message_ref = mr_message_id (on_message opened),
      ri_original_query = mr_content (on_message opened), ri_recent_message_refs = [],
      ri_pending_question = None, ri_active_task_summaries = [], ri_focused_task_summary = None,
      ri_pending_action_summaries = [],
      ri_output_constraints = [str ''Return exactly one current-message ADD_GOAL candidate.'',
        str ''Never provide trusted identity fields.''],
      ri_provider_visible_tool_specs = ta_provider_visible_tool_specs (on_artifact opened),
      ri_model_visible_toolset_hash = ta_model_visible_toolset_hash (on_artifact opened)\<rparr>"

definition understand_request ::
  "run_env \<Rightarrow> opened_run \<Rightarrow> (uuid \<times> context_manifest \<times> request_input \<times> proposal) run" where
  "understand_request env opened =
     (let run_id = ar_run_id (on_running_run opened); message_id = mr_message_id (on_message opened);
          purpose = str ''REQUEST_UNDERSTANDING''
      in exec_bind (append_trace env MESSAGE_ACCEPTED run_id None (\<lambda>e. e\<lparr>te_message_ref := Some message_id\<rparr>)) (\<lambda>_.
         exec_bind (append_trace env RUN_STARTED run_id None (\<lambda>e. e)) (\<lambda>_.
         exec_bind (run_uuid env) (\<lambda>model_call_id.
         exec_bind (append_trace env REQUEST_UNDERSTANDING_STARTED run_id None (\<lambda>e. e
           \<lparr>te_message_ref := Some message_id, te_model_call_id := Some model_call_id,
            te_model_call_purpose := Some purpose\<rparr>)) (\<lambda>_.
         exec_bind (save_manifest env run_id model_call_id purpose message_id None None) (\<lambda>manifest.
         exec_bind (run_construct (new_request_input (request_of opened))) (\<lambda>request.
         exec_bind (run_provider (ProposeNextMove request) (ev_propose env)) (\<lambda>reply.
         case reply of
           Proposes output \<Rightarrow> exec_return (model_call_id, manifest, request, Proposed output)
         | SignalsCandidateInvalid True \<Rightarrow>
             exec_return (model_call_id, manifest, request, ProposalRefused STOP_INPUT_INVALID)
         | SignalsProtocolError True \<Rightarrow>
             exec_return (model_call_id, manifest, request, ProposalRefused STOP_PROVIDER_PROTOCOL_ERROR)
         | _ \<Rightarrow> exec_raise (RunExecutionError ''noncanonical Provider signal'')))))))))"

subsection \<open>Reducing it (lines 475--531)\<close>

text \<open>One allocation per emitted candidate, four identities each.\<close>

fun allocate_identities :: "run_env \<Rightarrow> task_delta_candidate list \<Rightarrow> identity_allocation pyobj list run" where
  "allocate_identities env [] = exec_return []"
| "allocate_identities env (candidate # rest) =
     exec_bind (run_uuid env) (\<lambda>accepted_delta_id.
     exec_bind (run_uuid env) (\<lambda>task_id.
     exec_bind (run_uuid env) (\<lambda>request_unit_id.
     exec_bind (run_uuid env) (\<lambda>binding_id.
     exec_bind (run_construct (new_identity_allocation
       \<lparr>al_candidate_ref = tdc_candidate_id candidate, al_accepted_delta_id = accepted_delta_id,
        al_task_id = task_id, al_request_unit_id = request_unit_id, al_binding_id = binding_id\<rparr>)) (\<lambda>allocation.
     exec_bind (allocate_identities env rest) (\<lambda>allocations.
     exec_return (Obj allocation [] # allocations)))))))"

text \<open>\<open>None\<close>: an aggregate failure of the reducer, which finishes the Run without a Task.\<close>

definition reduce_request ::
  "run_env \<Rightarrow> opened_run \<Rightarrow> request_input \<Rightarrow> request_output pyobj \<Rightarrow> (datetime \<times> routable_decision option) run" where
  "reduce_request env opened request output =
     exec_bind (run_now env) (\<lambda>reduced_at.
     exec_bind (run_uuid env) (\<lambda>record_id.
     case output of
       Foreign \<Rightarrow> exec_raise RunAttributeError
     | Obj o' _ \<Rightarrow>
         exec_bind (allocate_identities env (ro_task_delta_candidates o')) (\<lambda>allocations.
         exec_bind (run_uuid env) (\<lambda>next_move_candidate_ref.
         case validate_and_reduce_initial_request_v2 (\<lambda>d. ev_serialise env d (ev_fields_set env d))
             (Obj request []) output [mr_message_id (on_message opened) \<mapsto> mr_content (on_message opened)]
             (on_customer_context opened) record_id (Some allocations) next_move_candidate_ref reduced_at of
           Inl (Aggregate _) \<Rightarrow> exec_return (reduced_at, None)
         | Inl (Atomic _) \<Rightarrow> exec_raise (RunExecutionError ''Request Understanding internal failure'')
         | Inr (Routable decision) \<Rightarrow> exec_return (reduced_at, Some decision)
         | Inr _ \<Rightarrow> exec_raise (RunExecutionError ''scoped Request Understanding outcome is not routable'')))))"

subsection \<open>Storing the Task graph (lines 532--585)\<close>

definition initial_link :: "uuid \<Rightarrow> uuid \<Rightarrow> run_task_link_record" where
  "initial_link run_id task_id =
     \<lparr>rl_schema_version = RUN_TASK_LINK_SCHEMA_VERSION, rl_run_id = run_id, rl_task_id = task_id,
      rl_base_task_state_version = None, rl_result_task_state_version = None\<rparr>"

definition store_graph :: "run_env \<Rightarrow> opened_run \<Rightarrow> datetime \<Rightarrow> routable_decision \<Rightarrow> run_task_link_record run" where
  "store_graph env opened reduced_at decision =
     (let graph = rd_task_graph decision; task = ig_task graph; unit = ig_request_unit graph;
          conversation = on_conversation opened; running_run = on_running_run opened
      in exec_bind (run_construct (new_run_task_link_record (initial_link (ar_run_id running_run) (tk_task_id task))))
           (\<lambda>link.
         exec_bind (run_construct (new_save_accepted_command
           \<lparr>sac_record = cl_record (rd_closure decision), sac_accepted_delta = ig_accepted_delta graph\<rparr>))
           (\<lambda>request_understanding.
         exec_bind (run_construct (new_create_task_command \<lparr>cta_initial_record = task\<rparr>)) (\<lambda>initial_task.
         exec_bind (run_construct (new_create_request_unit_command \<lparr>cru_initial_record = unit\<rparr>)) (\<lambda>initial_unit.
         exec_bind (run_construct (new_save_input_binding_command
           \<lparr>sib_record = ig_input_binding graph, sib_request_unit_id = ru_request_unit_id unit\<rparr>)) (\<lambda>input_binding.
         exec_bind (run_construct (new_conversation_task_link_record
           \<lparr>ctl_schema_version = CONVERSATION_TASK_LINK_SCHEMA_VERSION,
            ctl_conversation_id = cr_conversation_id conversation, ctl_task_id = tk_task_id task,
            ctl_link_reason = str ''CURRENT_MESSAGE_ACCEPTED_DELTA'', ctl_linked_at = reduced_at,
            ctl_ended_at = None\<rparr>)) (\<lambda>conversation_task_link.
         exec_bind (run_construct (new_create_run_task_link_command \<lparr>crl_active_record = link\<rparr>)) (\<lambda>run_task_link.
         exec_bind (run_construct (new_create_initial_graph_command
           \<lparr>cig_owner_scope = on_owner_scope opened, cig_expected_conversation_record = conversation,
            cig_expected_message_records = [on_message opened], cig_expected_active_run_record = running_run,
            cig_request_understanding = request_understanding, cig_initial_task = initial_task,
            cig_initial_request_unit = initial_unit, cig_input_binding = input_binding,
            cig_conversation_task_link = conversation_task_link, cig_run_task_link = run_task_link\<rparr>))
           (\<lambda>initial_graph.
         exec_bind (run_ask (CreateInitialGraph initial_graph) (\<lambda>_. ev_create_graph env)) (\<lambda>graph_result.
         exec_bind (exec_raise_if (graph_result \<noteq> APPLIED) (RunExecutionError ''initial Task graph conflict'')) (\<lambda>_.
         exec_bind (exec_modify (\<lambda>st. st\<lparr>rn_active_link := Some link, rn_result_task := Some task\<rparr>)) (\<lambda>_.
         exec_return link))))))))))))"

subsection \<open>Revalidating and deciding (lines 587--671)\<close>

text \<open>
  The seal the reducer put on the decision, and the decision's own instances: each was given the
  fields the manifest lists for its class.
\<close>

definition fields_of_class :: "fields_manifest \<Rightarrow> string \<Rightarrow> string list" where
  "fields_of_class manifest class = (case map_of manifest class of None \<Rightarrow> [] | Some fs \<Rightarrow> fs)"

definition revalidate_decision :: "run_env \<Rightarrow> routable_decision \<Rightarrow> string + revalidated_next_move" where
  "revalidate_decision env decision =
     (let manifest = ev_fields_set env decision; graph = rd_task_graph decision
      in res_bind (reduce_and_seal (ev_serialise env) 0 0 decision manifest initial_seal_state) (\<lambda>sealed.
         revalidate_next_move_v2 (ev_serialise env) sealed 0
           (Obj (Inst (ig_task graph) (fields_of_class manifest TASK_CLASS)) [])
           (Obj (Inst (ig_request_unit graph) (fields_of_class manifest UNIT_CLASS)) [])
           (Obj (Inst (ig_input_binding graph) (fields_of_class manifest BINDING_CLASS)) [])))"

definition run_processing :: "string + 'a \<Rightarrow> 'a run" where
  "run_processing r = (case r of Inl e \<Rightarrow> exec_raise (RunProcessingError e) | Inr x \<Rightarrow> exec_return x)"

definition revalidate_move ::
  "run_env \<Rightarrow> uuid \<Rightarrow> uuid \<Rightarrow> context_manifest \<Rightarrow> routable_decision \<Rightarrow> revalidated_next_move run" where
  "revalidate_move env run_id model_call_id manifest decision =
     (let graph = rd_task_graph decision
      in exec_bind (append_initial_decision_trace env run_id model_call_id (cm_context_manifest_id manifest) decision)
           (\<lambda>_.
         exec_bind (run_processing (revalidate_decision env decision)) (\<lambda>move.
         exec_bind (append_trace env NEXT_MOVE_REVALIDATED run_id None (\<lambda>e. e
           \<lparr>te_task_id := Some (tk_task_id (ig_task graph)),
            te_request_unit_id := Some (ru_request_unit_id (ig_request_unit graph)),
            te_model_call_id := Some model_call_id,
            te_requested_tool_name := Some (rv_requested_provider_tool_name move),
            te_proposed_base_task_state_version := rv_proposed_base_task_state_version move,
            te_validated_task_state_version := Some (rv_validated_task_state_version move),
            te_argument_binding_refs := rv_argument_binding_refs move\<rparr>)) (\<lambda>_.
         exec_return move))))"

definition load_current_graph ::
  "run_env \<Rightarrow> trusted_owner_scope \<Rightarrow> uuid \<Rightarrow> initial_graph \<Rightarrow> (task_record \<times> request_unit_record) run" where
  "load_current_graph env owner run_id graph =
     exec_bind (run_tell env (AfterRevalidation run_id (ig_task graph) (ig_request_unit graph))) (\<lambda>_.
     exec_bind (run_ask (LoadTask owner (tk_task_id (ig_task graph))) (ev_task env)) (\<lambda>current_task.
     exec_bind (run_ask (LoadUnit owner (ru_request_unit_id (ig_request_unit graph))) (\<lambda>_. ev_unit env))
       (\<lambda>current_unit.
     case (current_task, current_unit) of
       (Some task, Some unit) \<Rightarrow>
         exec_bind (exec_modify (\<lambda>st. st\<lparr>rn_result_task := Some task\<rparr>)) (\<lambda>_. exec_return (task, unit))
     | _ \<Rightarrow> exec_raise (RunExecutionError ''current Task graph unavailable''))))"

definition decide_move ::
  "run_env \<Rightarrow> opened_run \<Rightarrow> uuid \<Rightarrow> context_manifest \<Rightarrow> routable_decision \<Rightarrow> revalidated_next_move
   \<Rightarrow> task_record \<Rightarrow> request_unit_record \<Rightarrow> gate_decision run" where
  "decide_move env opened model_call_id manifest decision move task unit =
     exec_bind (run_uuid env) (\<lambda>gate_decision_id.
     exec_bind (run_now env) (\<lambda>decided_at.
     exec_bind (run_construct (evaluate_control_gateway
       \<lparr>gi_revalidated_move = move, gi_customer_context = on_customer_context opened, gi_current_task = task,
        gi_current_request_unit = unit, gi_current_input_binding = ig_input_binding (rd_task_graph decision),
        gi_registry_snapshot = ev_registry env, gi_context_manifest = manifest,
        gi_gate_decision_id = gate_decision_id, gi_model_call_id = model_call_id,
        gi_provider_tool_call_id = None, gi_decided_at = decided_at, gi_tool_calls_used = 0,
        gi_max_tool_calls = 1, gi_progress_valid = True\<rparr>)) (\<lambda>gate.
     exec_bind (run_tell env (SaveGateDecision gate)) (\<lambda>_.
     exec_bind (append_trace env GATE_DECISION_RECORDED (ar_run_id (on_running_run opened)) None (\<lambda>e. e
       \<lparr>te_task_id := Some (tk_task_id task), te_request_unit_id := Some (ru_request_unit_id unit),
        te_model_call_id := Some model_call_id,
        te_context_manifest_id := Some (cm_context_manifest_id manifest),
        te_requested_tool_name := Some (gd_requested_provider_tool_name gate),
        te_validated_task_state_version := gd_validated_task_state_version gate,
        te_argument_binding_refs := gd_argument_binding_refs gate, te_gate_decision := Some (gd_decision gate),
        te_gate_reason_code := gd_reason_code gate\<rparr>)) (\<lambda>_.
     exec_return gate)))))"

subsection \<open>The authorized read (lines 673--728)\<close>

text \<open>\<open>str(uuid)\<close>: 32 hexadecimal digits, with hyphens after the 8th, 12th, 16th and 20th.\<close>

definition uuid_digits :: "uuid \<Rightarrow> pystr" where
  "uuid_digits u = map (\<lambda>i. hex_digit (u div 16 ^ i mod 16)) (rev [0..<32])"

definition uuid_str :: "uuid \<Rightarrow> pystr" where
  "uuid_str u = (let d = uuid_digits u in take 8 d @ str ''-'' @ take 4 (drop 8 d) @ str ''-'' @ take 4 (drop 12 d)
     @ str ''-'' @ take 4 (drop 16 d) @ str ''-'' @ drop 20 d)"

text \<open>
  The remaining time is computed with floating-point numbers. A double is given as a fraction;
  \<open>double n d\<close> is the double next to \<open>n / d\<close>: 53 significant bits, ties to the even mantissa, as Python divides
  integers and as every operation on doubles rounds (\<open>d\<close> positive, no overflow, no subnormal results).
\<close>

function bit_length :: "int \<Rightarrow> int" where
  "bit_length n = (if n \<le> 0 then 0 else 1 + bit_length (n div 2))"
  by auto
termination
  by (relation "measure nat") auto

declare bit_length.simps [simp del]

definition round_half_even :: "int \<Rightarrow> int \<Rightarrow> int" where
  "round_half_even n d =
     (let q = n div d; r = n mod d in if 2 * r < d \<or> (2 * r = d \<and> even q) then q else q + 1)"

definition double :: "int \<Rightarrow> int \<Rightarrow> int \<times> int" where
  "double n d =
     (if n = 0 then (0, 1)
      else let e = bit_length \<bar>n\<bar> - bit_length d;
               k = 52 - (if d * 2 ^ nat e \<le> \<bar>n\<bar> * 2 ^ nat (- e) then e else e - 1)
           in (sgn n * round_half_even (\<bar>n\<bar> * 2 ^ nat k) (d * 2 ^ nat (- k)) * 2 ^ nat (- k), 2 ^ nat k))"

text \<open>\<open>int(budget - max(0.0, elapsed.total_seconds() * 1000))\<close> for an elapsed time in microseconds.\<close>

definition remaining_ms :: "int \<Rightarrow> int \<Rightarrow> int" where
  "remaining_ms budget_ms elapsed_us =
     (let (seconds, sd) = double elapsed_us 1000000;
          (product, pd) = double (seconds * 1000) sd;
          (elapsed, ed) = (if product < 0 then (0, 1) else (product, pd));
          (budget, bd) = double budget_ms 1;
          (remaining, rd) = double (budget * ed - elapsed * bd) (bd * ed)
      in sgn remaining * (\<bar>remaining\<bar> div rd))"

definition remaining_run_time_budget_ms :: "run_env \<Rightarrow> agent_run_record \<Rightarrow> int run" where
  "remaining_run_time_budget_ms env running_run =
     exec_bind (run_now env) (\<lambda>now.
     let remaining = remaining_ms (ev_run_time_budget_ms env) (instant now - instant (ar_started_at running_run))
     in exec_bind (exec_raise_if (remaining \<le> 0) (RunExecutionError ''Run time budget exhausted'')) (\<lambda>_.
        exec_return remaining))"

definition authorized_arguments :: "input_binding \<Rightarrow> json_object" where
  "authorized_arguments binding = [(str ''order_id'', JStr (ib_normalized_value binding))]"

definition authorized_read ::
  "run_env \<Rightarrow> opened_run \<Rightarrow> uuid \<Rightarrow> context_manifest \<Rightarrow> input_binding \<Rightarrow> gate_decision
   \<Rightarrow> task_record \<Rightarrow> request_unit_record \<Rightarrow> read_tool_execution run" where
  "authorized_read env opened model_call_id manifest binding gate task unit =
     (case resolve_validated_get_order_registration (ev_registry env) (gd_requested_provider_tool_name gate) of
        None \<Rightarrow> exec_raise (RunExecutionError ''accepted Gate lacks a validated registration'')
      | Some registration \<Rightarrow>
          exec_bind (run_uuid env) (\<lambda>trusted_context.
          exec_bind (run_construct (new_authorized_tool_command
            \<lparr>ac_gate_decision_id = gd_gate_decision_id gate, ac_canonical_tool_name = str ''get_order'',
             ac_validated_arguments = authorized_arguments binding,
             ac_argument_binding_refs = gd_argument_binding_refs gate,
             ac_validated_task_state_version =
               (case gd_validated_task_state_version gate of None \<Rightarrow> 0 | Some v \<Rightarrow> v),
             ac_registry_snapshot_ref = rs_tool_registry_version (ev_registry env),
             ac_trusted_context_ref = str ''trusted-context:'' @ uuid_str trusted_context\<rparr>)) (\<lambda>authorized.
          exec_bind (remaining_run_time_budget_ms env (on_running_run opened)) (\<lambda>budget.
          exec_bind (run_executor env
            \<lparr>xa_owner_scope = Obj (on_owner_scope opened) [], xa_authorized_command = Obj authorized [],
             xa_run_id = ar_run_id (on_running_run opened), xa_task_id = tk_task_id task,
             xa_request_unit_id = ru_request_unit_id unit, xa_model_call_id = model_call_id,
             xa_context_manifest_id = cm_context_manifest_id manifest, xa_provider_tool_call_id = None,
             xa_tool_registry_version = rs_tool_registry_version (ev_registry env),
             xa_execution_policy = Obj (tr_execution_policy registration) [],
             xa_remaining_run_time_budget_ms = budget\<rparr>) (\<lambda>execution.
          exec_bind (exec_raise_if (rx_terminal_tool_call execution = None \<or> rx_finalized_attempt execution = None
              \<or> rx_get_order_outcome execution = None) (RunExecutionError ''Read Tool dispatch was not applied'')) (\<lambda>_.
          exec_bind (append_tool_trace env execution) (\<lambda>_.
          exec_return execution)))))))"

subsection \<open>Presenting the order (lines 768--865)\<close>

definition ended_read :: "stop_reason \<Rightarrow> task_status \<Rightarrow> uuid \<Rightarrow> finish_args" where
  "ended_read stop status reason_ref = \<lparr>fa_stop_reason = stop, fa_target_status = status, fa_reason_ref = reason_ref,
     fa_observation_ref = None, fa_presentation_plan_ref = None, fa_rendered_message = None\<rparr>"

definition present_plan ::
  "order_observation \<Rightarrow> uuid \<Rightarrow> presentation_plan pyobj \<Rightarrow> (stop_reason \<times> pystr option)" where
  "present_plan observation plan_ref plan =
     (case validate_presentation_plan plan (Obj observation []) of
        Inl _ \<Rightarrow> (STOP_PRESENTATION_PLAN_REJECTED, None)
      | Inr validated_plan \<Rightarrow>
          (case render_order_summary (Obj observation []) (Obj validated_plan []) of
             Inl _ \<Rightarrow> (STOP_RENDERER_INVARIANT_FAILED, None)
           | Inr message \<Rightarrow> (STOP_GOAL_COMPLETED, Some message)))"

definition present_order ::
  "run_env \<Rightarrow> opened_run \<Rightarrow> task_record \<Rightarrow> request_unit_record \<Rightarrow> uuid \<Rightarrow> order_observation \<Rightarrow> finish_args run" where
  "present_order env opened task unit tool_call_id observation =
     (let run_id = ar_run_id (on_running_run opened); observation_id = oo_observation_id observation;
          ids = (\<lambda>e. e\<lparr>te_task_id := Some (tk_task_id task), te_request_unit_id := Some (ru_request_unit_id unit),
            te_observation_ref := Some observation_id\<rparr>)
      in exec_bind (append_trace env OBSERVATION_RECORDED run_id (Some (oo_recorded_at observation)) (\<lambda>e. (ids e)
           \<lparr>te_tool_call_id := Some tool_call_id\<rparr>)) (\<lambda>_.
         exec_bind (run_uuid env) (\<lambda>model_call_id.
         exec_bind (save_manifest env run_id model_call_id (str ''PRESENTATION'') (mr_message_id (on_message opened))
           (Some task) (Some \<lparr>vr_record_ref = observation_id,
              vr_version = (case oo_source_version observation of None \<Rightarrow> [] | Some v \<Rightarrow> v)\<rparr>)) (\<lambda>manifest.
         exec_bind (run_provider (PlanPresentation (oo_normalized_value observation)) (ev_plan env)) (\<lambda>reply.
         case reply of
           SignalsProtocolError True \<Rightarrow>
             exec_bind (run_uuid env) (\<lambda>reason_ref.
             exec_return \<lparr>fa_stop_reason = STOP_PROVIDER_PROTOCOL_ERROR, fa_target_status = BLOCKED,
               fa_reason_ref = reason_ref, fa_observation_ref = Some observation_id,
               fa_presentation_plan_ref = None, fa_rendered_message = None\<rparr>)
         | SignalsProtocolError False \<Rightarrow>
             exec_raise (RunExecutionError ''noncanonical Presentation Provider signal'')
         | Proposes plan \<Rightarrow>
             exec_bind (run_uuid env) (\<lambda>plan_ref.
             exec_bind (append_trace env PRESENTATION_PLAN_PROPOSED run_id None (\<lambda>e. (ids e)
               \<lparr>te_model_call_id := Some model_call_id,
                te_context_manifest_id := Some (cm_context_manifest_id manifest),
                te_presentation_plan_ref := Some plan_ref\<rparr>)) (\<lambda>_.
             case present_plan observation plan_ref plan of
               (stop, Some message) \<Rightarrow>
                 exec_bind (run_uuid env) (\<lambda>reason_ref.
                 exec_return \<lparr>fa_stop_reason = stop, fa_target_status = COMPLETED, fa_reason_ref = reason_ref,
                   fa_observation_ref = Some observation_id, fa_presentation_plan_ref = Some plan_ref,
                   fa_rendered_message = Some message\<rparr>)
             | (stop, None) \<Rightarrow>
                 exec_return \<lparr>fa_stop_reason = stop, fa_target_status = BLOCKED, fa_reason_ref = plan_ref,
                   fa_observation_ref = Some observation_id, fa_presentation_plan_ref = Some plan_ref,
                   fa_rendered_message = None\<rparr>))
         | _ \<Rightarrow> exec_raise RunProviderError)))))"

text \<open>Lines 730--768: how the Run ends once the read did.\<close>

definition conclude_read ::
  "run_env \<Rightarrow> opened_run \<Rightarrow> task_record \<Rightarrow> request_unit_record \<Rightarrow> read_tool_execution \<Rightarrow> finish_args run" where
  "conclude_read env opened task unit execution =
     (if rx_get_order_outcome execution = Some NOT_FOUND_OR_NOT_ACCESSIBLE then
        exec_bind (run_uuid env) (\<lambda>reason_ref.
        exec_return (ended_read STOP_NOT_FOUND_OR_NOT_ACCESSIBLE COMPLETED reason_ref))
      else if rx_get_order_outcome execution = Some SYSTEM_FAILURE then
        exec_bind (run_uuid env) (\<lambda>reason_ref.
        exec_return (ended_read STOP_ORDER_SERVICE_UNAVAILABLE BLOCKED reason_ref))
      else case (rx_observation execution, rx_terminal_tool_call execution) of
        (Some observation, Some terminal) \<Rightarrow>
          if is_canonical_get_order_source_version (oo_source_version observation)
          then present_order env opened task unit (tc_tool_call_id terminal) observation
          else exec_bind (run_uuid env) (\<lambda>reason_ref.
               exec_return (ended_read STOP_ORDER_SERVICE_UNAVAILABLE BLOCKED reason_ref))
      | _ \<Rightarrow> exec_bind (run_uuid env) (\<lambda>reason_ref.
             exec_return (ended_read STOP_ORDER_SERVICE_UNAVAILABLE BLOCKED reason_ref)))"

subsection \<open>_handle and handle\<close>

definition act_on_decision ::
  "run_env \<Rightarrow> opened_run \<Rightarrow> uuid \<Rightarrow> context_manifest \<Rightarrow> datetime \<Rightarrow> routable_decision \<Rightarrow> agent_run_result run" where
  "act_on_decision env opened model_call_id manifest reduced_at decision =
     (let run_id = ar_run_id (on_running_run opened); graph = rd_task_graph decision
      in exec_bind (store_graph env opened reduced_at decision) (\<lambda>link.
         exec_bind (revalidate_move env run_id model_call_id manifest decision) (\<lambda>move.
         exec_bind (load_current_graph env (on_owner_scope opened) run_id graph) (\<lambda>(task, unit).
         exec_bind (decide_move env opened model_call_id manifest decision move task unit) (\<lambda>gate.
         exec_bind
           (if gd_decision gate = GateReject
            then exec_return (ended_read STOP_GATE_REJECTED BLOCKED (gd_gate_decision_id gate))
            else exec_bind (authorized_read env opened model_call_id manifest (ig_input_binding graph) gate task unit)
              (\<lambda>execution. conclude_read env opened task unit execution)) (\<lambda>args.
         finish_with_task env (on_running_run opened) (on_conversation opened) task unit link args))))))"

definition handle_body :: "run_env \<Rightarrow> agent_run_command pyobj \<Rightarrow> agent_run_result run" where
  "handle_body env given =
     exec_bind (open_run env given) (\<lambda>opened.
     let without_task = finish_without_task env (on_running_run opened) (on_conversation opened)
     in exec_bind (understand_request env opened) (\<lambda>(model_call_id, manifest, request, proposal).
        case proposal of
          ProposalRefused stop \<Rightarrow> without_task stop
        | Proposed output \<Rightarrow>
            exec_bind (reduce_request env opened request output) (\<lambda>(reduced_at, reduced).
            case reduced of
              None \<Rightarrow> without_task STOP_INPUT_INVALID
            | Some decision \<Rightarrow> act_on_decision env opened model_call_id manifest reduced_at decision)))"

text \<open>The original error is raised again, unless closing the Run raised one of its own.\<close>

definition handle :: "run_env \<Rightarrow> agent_run_command pyobj \<Rightarrow> agent_run_result run" where
  "handle env given =
     exec_bind (exec_try (handle_body env given)) (\<lambda>outcome.
     exec_bind (exec_get rn_committed_result) (\<lambda>committed.
     case outcome of
       Inr result \<Rightarrow> exec_return result
     | Inl error \<Rightarrow>
         (case committed of
            Some result \<Rightarrow> if error = RunCancelledError then exec_raise error else exec_return result
          | None \<Rightarrow> exec_bind (finalize_failed_run_after_error env) (\<lambda>_. exec_raise error))))"

definition initial_run_state :: run_state where
  "initial_run_state = \<lparr>rn_clock = 0, rn_uuid = 0, rn_log = [], rn_running_run = None, rn_active_link = None,
     rn_result_task = None, rn_owner_scope = None, rn_committed_result = None\<rparr>"

end
