(* ===== verification/Run_Protocol.thy ===== *)
theory Run_Protocol
  imports Agent_Handle Executor_Facts
begin

section \<open>The protocol of a Run\<close>

text \<open>
  What \<open>handle\<close> promises the ports it calls: the phases a Run goes through, as an automaton over
  the actions, and that every record handed to a port passed its validator. \<open>run_at\<close> is the
  invariant of the service's state at a phase; the rules carry it through each stage.
\<close>

subsection \<open>Constructors give back their argument\<close>

interpretation conversation: plain_record new_conversation_record
  by (rule plain_recordI) (auto simp: new_conversation_record_def construct_def Let_def)
interpretation conversation_link: plain_record new_conversation_task_link_record
  by (rule plain_recordI) (auto simp: new_conversation_task_link_record_def construct_def Let_def)
interpretation run_link: plain_record new_run_task_link_record
  by (rule plain_recordI) (auto simp: new_run_task_link_record_def construct_def Let_def)
interpretation message: plain_record new_message_record
  by (rule plain_recordI) (auto simp: new_message_record_def construct_def Let_def)
interpretation create_run: plain_record new_create_run_command
  by (rule plain_recordI) (auto simp: new_create_run_command_def construct_def Let_def)
interpretation transition_run: plain_record new_transition_run_command
  by (rule plain_recordI) (auto simp: new_transition_run_command_def construct_def Let_def)
interpretation save_accepted: plain_record new_save_accepted_command
  by (rule plain_recordI) (auto simp: new_save_accepted_command_def construct_def Let_def)
interpretation create_task: plain_record new_create_task_command
  by (rule plain_recordI) (auto simp: new_create_task_command_def construct_def Let_def)
interpretation create_unit: plain_record new_create_request_unit_command
  by (rule plain_recordI) (auto simp: new_create_request_unit_command_def construct_def Let_def)
interpretation save_binding: plain_record new_save_input_binding_command
  by (rule plain_recordI) (auto simp: new_save_input_binding_command_def construct_def Let_def)
interpretation create_link: plain_record new_create_run_task_link_command
  by (rule plain_recordI) (auto simp: new_create_run_task_link_command_def construct_def Let_def)
interpretation create_graph: plain_record new_create_initial_graph_command
  by (rule plain_recordI) (auto simp: new_create_initial_graph_command_def construct_def Let_def)
interpretation finalize_run: plain_record new_finalize_run_command
  by (rule plain_recordI) (auto simp: new_finalize_run_command_def construct_def Let_def)
interpretation apply_transition: plain_record new_apply_task_transition_command
  by (rule plain_recordI) (auto simp: new_apply_task_transition_command_def construct_def Let_def)
interpretation manifest: plain_record new_context_manifest
  by (rule plain_recordI) (auto simp: new_context_manifest_def construct_def Let_def)
interpretation run_result: plain_record new_agent_run_result
  by (rule plain_recordI) (auto simp: new_agent_run_result_def construct_def Let_def)
interpretation toolset: plain_record new_toolset_artifact
  by (rule plain_recordI) (auto simp: new_toolset_artifact_def)
interpretation request: plain_record new_request_input
  by (rule plain_recordI) (auto simp: new_request_input_def)

subsection \<open>The automaton\<close>

text \<open>
  \<open>Decided accepted\<close>: the gate decided, and whether it accepted. The order service is reached only
  after an accepting decision, by one ToolCall that is created (\<open>Calling\<close>) and dispatched
  (\<open>Called\<close>) once. \<open>Closed\<close> is left only by the one write that closes a failed Run (\<open>Reclosed\<close>).
\<close>

datatype run_phase = Fresh | Inserted | Started | Stored | Decided bool | Calling | Called | Closed | Reclosed

text \<open>What a terminal write carries.\<close>

definition final_records_valid :: "finalize_run_command \<Rightarrow> bool" where
  "final_records_valid c \<longleftrightarrow>
     new_agent_run_record (fr_terminal_record c) = Inr (fr_terminal_record c)
     \<and> list_all (\<lambda>l. new_run_task_link_record l = Inr l) (fr_terminal_links c)
     \<and> opt_all (\<lambda>t. new_apply_task_transition_command t = Inr t) (fr_task_transition c)
     \<and> opt_all (\<lambda>r. new_agent_run_result r = Inr r) (fr_terminal_result c)
     \<and> opt_all (\<lambda>m. new_message_record m = Inr m) (fr_assistant_message c)
     \<and> list_all (\<lambda>e. new_trace_event e = Inr e) (fr_terminal_trace_events c)"

text \<open>The first Task graph: each of the commands it is made of.\<close>

definition graph_commands_valid :: "create_initial_graph_command \<Rightarrow> bool" where
  "graph_commands_valid c \<longleftrightarrow>
     new_save_accepted_command (cig_request_understanding c) = Inr (cig_request_understanding c)
     \<and> new_create_task_command (cig_initial_task c) = Inr (cig_initial_task c)
     \<and> new_create_request_unit_command (cig_initial_request_unit c) = Inr (cig_initial_request_unit c)
     \<and> new_save_input_binding_command (cig_input_binding c) = Inr (cig_input_binding c)
     \<and> new_conversation_task_link_record (cig_conversation_task_link c) = Inr (cig_conversation_task_link c)
     \<and> new_create_run_task_link_command (cig_run_task_link c) = Inr (cig_run_task_link c)
     \<and> new_run_task_link_record (crl_active_record (cig_run_task_link c)) = Inr (crl_active_record (cig_run_task_link c))"

text \<open>
  Each record, command, event, query and request handed to a port is accepted by its validator; the
  actions left are the loads, which hand over identifiers, the revalidation hook and the planner,
  which are shown records stored before.
\<close>

definition command_valid :: "run_action \<Rightarrow> bool" where
  "command_valid a = (case a of
      PutArtifact x \<Rightarrow> new_toolset_artifact x = Inr x
    | SaveConversation x \<Rightarrow> new_conversation_record x = Inr x
    | AppendMessage x \<Rightarrow> new_message_record x = Inr x
    | InsertRun x \<Rightarrow> new_create_run_command x = Inr x \<and> new_agent_run_record (crc_created_record x) = Inr (crc_created_record x)
    | StartRun x \<Rightarrow> new_transition_run_command x = Inr x \<and> new_agent_run_record (trc_next_record x) = Inr (trc_next_record x)
    | AppendRunTrace x \<Rightarrow> new_trace_event x = Inr x
    | SaveManifest x \<Rightarrow> new_context_manifest x = Inr x
    | ProposeNextMove x \<Rightarrow> new_request_input x = Inr x
    | CreateInitialGraph x \<Rightarrow> new_create_initial_graph_command x = Inr x \<and> graph_commands_valid x
    | SaveGateDecision x \<Rightarrow> new_gate_decision x = Inr x
    | ExecutorAction x \<Rightarrow> store_write x
    | FinalizeRun x \<Rightarrow> new_finalize_run_command x = Inr x \<and> final_records_valid x
    | GetArtifact _ \<Rightarrow> True | ListMessages _ _ \<Rightarrow> True | LoadTask _ _ \<Rightarrow> True | LoadUnit _ _ \<Rightarrow> True
    | AfterRevalidation _ _ _ \<Rightarrow> True | PlanPresentation _ \<Rightarrow> True)"

text \<open>A second terminal write only closes the Run as FAILED, and carries no result.\<close>

definition close_phase :: "run_phase \<Rightarrow> run_phase" where
  "close_phase p = (if p = Closed then Reclosed else Closed)"

definition executor_move :: "run_phase \<Rightarrow> port_action \<Rightarrow> run_phase option" where
  "executor_move p a = (case a of
      InsertToolCall _ \<Rightarrow> if p = Decided True then Some Calling else None
    | StartToolCall _ _ _ \<Rightarrow> if p = Calling then Some Called else None
    | _ \<Rightarrow> if p = Called then Some Called else None)"

definition phase_move :: "run_phase \<Rightarrow> run_action \<Rightarrow> run_phase option" where
  "phase_move p a = (case a of
      InsertRun _ \<Rightarrow> if p = Fresh then Some Inserted else None
    | StartRun _ \<Rightarrow> if p = Inserted then Some Started else None
    | AppendRunTrace _ \<Rightarrow> if p \<notin> {Fresh, Inserted, Calling, Closed, Reclosed} then Some p else None
    | SaveManifest _ \<Rightarrow> if p = Started \<or> p = Called then Some p else None
    | ProposeNextMove _ \<Rightarrow> if p = Started then Some p else None
    | CreateInitialGraph _ \<Rightarrow> if p = Started then Some Stored else None
    | AfterRevalidation _ _ _ \<Rightarrow> if p = Stored then Some p else None
    | LoadTask _ _ \<Rightarrow> if p \<notin> {Fresh, Inserted, Started, Reclosed} then Some p else None
    | LoadUnit _ _ \<Rightarrow> if p = Stored then Some p else None
    | SaveGateDecision g \<Rightarrow> if p = Stored then Some (Decided (gd_decision g = GateAccept)) else None
    | ExecutorAction x \<Rightarrow> executor_move p x
    | PlanPresentation _ \<Rightarrow> if p = Called then Some p else None
    | FinalizeRun c \<Rightarrow>
        if p \<notin> {Fresh, Inserted, Reclosed}
           \<and> (p = Closed \<longrightarrow> ar_status (fr_terminal_record c) = RUN_FAILED \<and> fr_terminal_result c = None)
        then Some (close_phase p) else None
    | _ \<Rightarrow> if p = Fresh then Some Fresh else None)"

definition phase_step :: "run_phase \<Rightarrow> run_action \<Rightarrow> run_phase option" where
  "phase_step p a = (if command_valid a then phase_move p a else None)"

fun run_path :: "run_phase \<Rightarrow> run_action list \<Rightarrow> run_phase option" where
  "run_path p [] = Some p"
| "run_path p (a # log) = Option.bind (phase_step p a) (\<lambda>q. run_path q log)"

lemma run_path_append: "run_path p (log @ log') = Option.bind (run_path p log) (\<lambda>q. run_path q log')"
  by (induction log arbitrary: p) simp_all

lemma run_path_snoc: "run_path p log = Some q \<Longrightarrow> run_path p (log @ [a]) = phase_step q a"
  by (simp add: run_path_append)

text \<open>Phases only go forward, and an executor action has an accepting gate decision before it.\<close>

fun phase_rank :: "run_phase \<Rightarrow> nat" where
  "phase_rank Fresh = 0" | "phase_rank Inserted = 1" | "phase_rank Started = 2" | "phase_rank Stored = 3"
| "phase_rank (Decided _) = 4" | "phase_rank Calling = 5" | "phase_rank Called = 6" | "phase_rank Closed = 7"
| "phase_rank Reclosed = 8"

lemma phase_step_forward: "phase_step p a = Some q \<Longrightarrow> phase_rank p \<le> phase_rank q"
  by (cases a; cases p) (auto simp: phase_step_def phase_move_def executor_move_def close_phase_def
      split: if_splits port_action.splits)

lemma phase_step_keeps:
  assumes "phase_step p a = Some q"
  shows "q \<in> {Fresh, Inserted} \<Longrightarrow> p \<in> {Fresh, Inserted}"
    and "q \<in> {Fresh, Inserted, Started} \<Longrightarrow> p \<in> {Fresh, Inserted, Started}"
  using phase_step_forward[OF assms] by (cases p; auto)+

lemma decided_has_gate:
  "run_path p log = Some (Decided b) \<Longrightarrow> p = Decided b \<or> (\<exists>g. SaveGateDecision g \<in> set log \<and> (gd_decision g = GateAccept) = b)"
proof (induction log arbitrary: p)
  case (Cons a log)
  then obtain q where q: "phase_step p a = Some q" "run_path q log = Some (Decided b)"
    by (auto simp: bind_eq_Some_conv)
  from Cons.IH[OF q(2)] show ?case
  proof
    assume "q = Decided b"
    with q(1) show ?thesis by (cases a) (auto simp: phase_step_def phase_move_def executor_move_def close_phase_def
          split: if_splits port_action.splits)
  qed auto
qed simp

subsection \<open>Commits\<close>

definition uncommitted :: "run_env \<Rightarrow> run_action list \<Rightarrow> bool" where
  "uncommitted env log \<longleftrightarrow>
     (\<forall>n c. n < length log \<longrightarrow> log ! n = FinalizeRun c \<longrightarrow> ev_finalize_run env n \<noteq> Replies APPLIED)"

lemma uncommitted_snoc:
  "uncommitted env (log @ [a]) \<longleftrightarrow> uncommitted env log
     \<and> (\<forall>c. a = FinalizeRun c \<longrightarrow> ev_finalize_run env (length log) \<noteq> Replies APPLIED)"
  by (auto simp: uncommitted_def nth_append less_Suc_eq)

definition run_at :: "run_env \<Rightarrow> run_phase \<Rightarrow> run_state \<Rightarrow> bool" where
  "run_at env p st \<longleftrightarrow>
     run_path Fresh (rn_log st) = Some p \<and> p \<noteq> Reclosed \<and> uncommitted env (rn_log st) \<and> rn_committed_result st = None
     \<and> (p \<in> {Fresh, Inserted} \<longrightarrow> rn_running_run st = None)
     \<and> (p \<in> {Fresh, Inserted, Started} \<longrightarrow> rn_active_link st = None)"

text \<open>An error leaves the Run somewhere, not committed.\<close>

definition run_lost :: "run_env \<Rightarrow> service_error \<Rightarrow> run_state \<Rightarrow> bool" where
  "run_lost env e st \<longleftrightarrow> (\<exists>p. run_at env p st)"

lemma run_lostI: "run_at env p st \<Longrightarrow> run_lost env e st"
  by (auto simp: run_lost_def)

abbreviation keeps :: "run_env \<Rightarrow> run_phase \<Rightarrow> 'a run \<Rightarrow> run_phase \<Rightarrow> bool" where
  "keeps env p m q \<equiv> ensures (run_at env p) m (\<lambda>_. run_at env q) (run_lost env)"

subsection \<open>Rules\<close>

lemma at_now: "(\<And>t. ensures (run_at env p) (f t) Q E) \<Longrightarrow> ensures (run_at env p) (exec_bind (run_now env') f) Q E"
  by (rule ensures_silent) (auto simp: run_now_def run_at_def)

lemma at_uuid: "(\<And>u. ensures (run_at env p) (f u) Q E) \<Longrightarrow> ensures (run_at env p) (exec_bind (run_uuid env') f) Q E"
  by (rule ensures_silent) (auto simp: run_uuid_def run_at_def)

lemma at_get: "(\<And>x. ensures (run_at env p) (f x) Q E) \<Longrightarrow> ensures (run_at env p) (exec_bind (exec_get g) f) Q E"
  by (rule ensures_silent) (auto simp: exec_get_def)

lemma at_modify:
  "(\<And>st. run_at env p st \<Longrightarrow> run_at env p (g st)) \<Longrightarrow> ensures (run_at env p) (f ()) Q E
     \<Longrightarrow> ensures (run_at env p) (exec_bind (exec_modify g) f) Q E"
  by (rule ensures_silent) (auto simp: exec_modify_def)

lemma at_construct:
  "(\<And>x. r = Inr x \<Longrightarrow> ensures (run_at env p) (f x) Q (run_lost env))
     \<Longrightarrow> ensures (run_at env p) (exec_bind (run_construct r) f) Q (run_lost env)"
  by (cases r) (auto simp: run_construct_def ensures_def exec_bind_def exec_raise_def exec_return_def intro: run_lostI)

lemma at_processing:
  "(\<And>x. r = Inr x \<Longrightarrow> ensures (run_at env p) (f x) Q (run_lost env))
     \<Longrightarrow> ensures (run_at env p) (exec_bind (run_processing r) f) Q (run_lost env)"
  by (cases r) (auto simp: run_processing_def ensures_def exec_bind_def exec_raise_def exec_return_def intro: run_lostI)

lemma at_raise_if:
  "(\<not> c \<Longrightarrow> ensures (run_at env p) (f ()) Q (run_lost env))
     \<Longrightarrow> ensures (run_at env p) (exec_bind (exec_raise_if c e) f) Q (run_lost env)"
  by (rule ensures_raise_if) (auto intro: run_lostI)

lemma at_raise: "ensures (run_at env p) (exec_raise e) Q (run_lost env)"
  by (rule ensures_raise) (rule run_lostI)

lemma at_return: "ensures (run_at env p) (exec_return x) (\<lambda>_. run_at env p) E"
  by (rule ensures_return)

lemma at_bind:
  "keeps env p m q \<Longrightarrow> (\<And>x. ensures (run_at env q) (f x) Q (run_lost env)) \<Longrightarrow> ensures (run_at env p) (exec_bind m f) Q (run_lost env)"
  by (rule ensures_bind)

text \<open>An action other than the final write, allowed in its phase.\<close>

fun final_write :: "run_action \<Rightarrow> bool" where
  "final_write (FinalizeRun c) = True"
| "final_write _ = False"

lemma phase_step_open: "phase_step p a = Some q \<Longrightarrow> \<not> final_write a \<Longrightarrow> p \<noteq> Reclosed \<Longrightarrow> q \<noteq> Reclosed"
  by (cases a) (auto simp: phase_step_def phase_move_def executor_move_def split: if_splits port_action.splits)

lemma run_at_log:
  assumes "run_at env p st" "phase_step p a = Some q" "\<not> final_write a"
  shows "run_at env q (st\<lparr>rn_log := rn_log st @ [a]\<rparr>)"
  using assms phase_step_keeps[OF assms(2)] phase_step_open[OF assms(2,3)] by (auto simp: run_at_def run_path_snoc uncommitted_snoc)

lemma run_ask_eq:
  "run_ask a reply st =
     (case reply (length (rn_log st)) of Replies x \<Rightarrow> Inr x | Raises n \<Rightarrow> Inl (RunPortError n) | Interrupted \<Rightarrow> Inl RunCancelledError,
      st\<lparr>rn_log := rn_log st @ [a]\<rparr>)"
  by (simp add: run_ask_def run_log_def run_reply_def exec_bind_def exec_get_def exec_modify_def exec_return_def
      exec_raise_def split: port_reply.splits)

lemma keeps_ask: "phase_step p a = Some q \<Longrightarrow> \<not> final_write a \<Longrightarrow> keeps env p (run_ask a reply) q"
  by (rule ensuresI) (auto simp: run_ask_eq intro: run_at_log run_lostI split: sum.splits port_reply.splits)

lemma at_ask:
  "phase_step p a = Some q \<Longrightarrow> \<not> final_write a \<Longrightarrow> (\<And>x. ensures (run_at env q) (f x) Q (run_lost env))
     \<Longrightarrow> ensures (run_at env p) (exec_bind (run_ask a reply) f) Q (run_lost env)"
  by (rule at_bind[OF keeps_ask])

lemma at_provider:
  assumes "phase_step p a = Some q" "\<not> final_write a" "\<And>x. ensures (run_at env q) (f x) Q (run_lost env)"
  shows "ensures (run_at env p) (exec_bind (run_provider a reply) f) Q (run_lost env)"
proof (rule at_bind[OF _ assms(3)])
  show "keeps env p (run_provider a reply) q"
    by (rule ensuresI) (auto simp: run_provider_def run_log_def exec_bind_def exec_modify_def exec_return_def exec_raise_def
        intro: run_at_log[OF _ assms(1,2)] run_lostI[OF run_at_log[OF _ assms(1,2)]] split: provider_reply.splits)
qed

lemmas at_rules = at_now at_uuid at_get at_construct at_processing at_raise_if at_raise

end
