(* ===== verification/Run_Finish.thy ===== *)
theory Run_Finish
  imports Run_Protocol
begin

section \<open>The terminal write is never refused by its own validator\<close>

text \<open>
  \<open>FinalizeRunCommand\<close> checks some forty conditions between nine records. The lemmas show that
  what \<open>_finish_with_task\<close> and \<open>_finish_without_task\<close> build satisfies them, whenever the Run, the
  Task graph and the link agree and the clock does not run backwards: the Run then ends with the
  mapped result as soon as the store answers.
\<close>

subsection \<open>What a Run can be finished with\<close>

definition SERVICE_ROWS :: "(stop_reason \<times> task_status) list" where
  "SERVICE_ROWS =
     [(STOP_GOAL_COMPLETED, COMPLETED), (STOP_NOT_FOUND_OR_NOT_ACCESSIBLE, COMPLETED),
      (STOP_GATE_REJECTED, BLOCKED), (STOP_ORDER_SERVICE_UNAVAILABLE, BLOCKED),
      (STOP_PROVIDER_PROTOCOL_ERROR, BLOCKED), (STOP_PRESENTATION_PLAN_REJECTED, BLOCKED),
      (STOP_RENDERER_INVARIANT_FAILED, BLOCKED)]"

lemma service_row_in_matrix:
  assumes "map_result run_id stop rendered = Inr result" "(stop, status) \<in> set SERVICE_ROWS"
  shows "(stop, True, res_outcome result, Some status) \<in> set COMPLETED_FINALIZATION_ROWS"
    and "res_run_id result = run_id"
  using assms
  by (auto simp: SERVICE_ROWS_def COMPLETED_FINALIZATION_ROWS_def map_result_def new_agent_run_result_def construct_Inr_iff
      split: option.splits if_splits)

lemma no_task_row_in_matrix:
  assumes "map_result run_id stop None = Inr result" "stop \<in> set [STOP_INPUT_INVALID, STOP_PROVIDER_PROTOCOL_ERROR]"
  shows "(stop, False, res_outcome result, None) \<in> set COMPLETED_FINALIZATION_ROWS"
    and "res_run_id result = run_id"
  using assms
  by (auto simp: COMPLETED_FINALIZATION_ROWS_def map_result_def new_agent_run_result_def construct_Inr_iff)

lemma map_result_accepted: "map_result run_id stop rendered = Inr result \<Longrightarrow> new_agent_run_result result = Inr result"
  by (auto simp: map_result_def dest: run_result.revalidates split: if_splits option.splits)

definition running_in :: "conversation_record \<Rightarrow> agent_run_record \<Rightarrow> bool" where
  "running_in conversation running \<longleftrightarrow>
     ar_status running = RUN_RUNNING \<and> accepts new_agent_run_record running \<and> ar_incomplete_reason running = None
     \<and> ar_conversation_id running = Some (cr_conversation_id conversation)"

definition closable_graph ::
  "agent_run_record \<Rightarrow> task_record \<Rightarrow> request_unit_record \<Rightarrow> run_task_link_record \<Rightarrow> bool" where
  "closable_graph running task unit link \<longleftrightarrow>
     accepts new_task_record task \<and> accepts new_request_unit_record unit \<and> accepts new_run_task_link_record link
     \<and> ru_task_id unit = tk_task_id task \<and> ru_state_version unit = tk_state_version task
     \<and> ru_status unit = tk_status task
     \<and> rl_run_id link = ar_run_id running \<and> rl_task_id link = tk_task_id task
     \<and> rl_result_task_state_version link = None
     \<and> opt_all (\<lambda>base. base \<le> tk_state_version task) (rl_base_task_state_version link)"

subsection \<open>The records of a finished Run\<close>

lemma completed_run_valid:
  assumes "running_in conversation running" "is_utc t" "instant (ar_started_at running) \<le> instant t"
  shows "new_agent_run_record (completed_run running t stop) = Inr (completed_run running t stop)"
  using assms
  by (simp add: running_in_def accepts_iff new_agent_run_record_def construct_Inr_iff completed_run_def
      run_lifecycle_is_consistent_def run_is_active_def dt_less_def)

lemma assistant_message_valid:
  assumes "new_agent_run_result result = Inr result" "is_utc t"
  shows "new_message_record (assistant_message i conversation result t) = Inr (assistant_message i conversation result t)"
  using assms by (simp add: new_message_record_def new_agent_run_result_def construct_Inr_iff assistant_message_def
      MESSAGE_SCHEMA_VERSION_def NonEmptyString_def str_def MessageContent_def)

lemma run_stopped_valid:
  "is_utc t \<Longrightarrow> new_trace_event (run_stopped_event i t run_id result stop) = Inr (run_stopped_event i t run_id result stop)"
  by (simp add: new_trace_event_def construct_Inr_iff run_stopped_event_def blank_event_def trace_event_guards_def
      TOOL_TRACE_STATUS_def)

lemma finished_task_valid:
  assumes "accepts new_task_record task" "is_utc t" "instant (tk_updated_at task) \<le> instant t"
  shows "new_task_record (finished_task task status t reason) = Inr (finished_task task status t reason)"
  using assms by (simp add: accepts_iff new_task_record_def construct_Inr_iff finished_task_def dt_less_def)

lemma finished_unit_valid:
  assumes "accepts new_request_unit_record unit" "is_utc t" "instant (ru_updated_at unit) \<le> instant t"
  shows "new_request_unit_record (finished_unit unit status t reason ref) = Inr (finished_unit unit status t reason ref)"
  using assms by (simp add: accepts_iff new_request_unit_record_def construct_Inr_iff finished_unit_def dt_less_def)

lemma finishing_transition_valid:
  assumes "accepts new_task_record task" "is_utc t" "tk_status task \<noteq> status"
  shows "new_task_state_transition (finishing_transition task unit status t reason)
    = Inr (finishing_transition task unit status t reason)"
  using assms by (simp add: accepts_iff new_task_record_def new_task_state_transition_def construct_Inr_iff finishing_transition_def)

lemma closed_link_valid:
  assumes "closable_graph running task unit link"
  shows "new_run_task_link_record (closed_link link (finished_task task status t reason))
    = Inr (closed_link link (finished_task task status t reason))"
  using assms
  by (auto simp: closable_graph_def accepts_iff new_run_task_link_record_def construct_Inr_iff closed_link_def
      finished_task_def new_task_record_def split: option.splits)

definition finishing_command ::
  "task_record \<Rightarrow> request_unit_record \<Rightarrow> finish_args \<Rightarrow> datetime \<Rightarrow> apply_task_transition_command" where
  "finishing_command task unit args t =
     \<lparr>att_expected_task_record = task,
      att_next_task_record = finished_task task (fa_target_status args) t (fa_reason_ref args),
      att_expected_request_unit_record = unit,
      att_next_request_unit_record = finished_unit unit (fa_target_status args) t (fa_reason_ref args) (fa_observation_ref args),
      att_task_state_transition = finishing_transition task unit (fa_target_status args) t (fa_reason_ref args)\<rparr>"

lemma finishing_command_valid:
  assumes g: "closable_graph running task unit link" and t: "is_utc t"
    "instant (tk_updated_at task) \<le> instant t" "instant (ru_updated_at unit) \<le> instant t"
  shows "new_apply_task_transition_command (finishing_command task unit args t) = Inr (finishing_command task unit args t)"
proof -
  have v: "ru_task_id unit = tk_task_id task" "ru_state_version unit = tk_state_version task" "ru_status unit = tk_status task"
    using g by (simp_all add: closable_graph_def)
  show ?thesis
    using t(2,3) by (simp add: new_apply_task_transition_command_def construct_Inr_iff Let_def finishing_command_def
        finished_task_def finished_unit_def finishing_transition_def same_task_stable_def same_unit_stable_def dt_less_def v)
qed

lemma finishing_command_canonical:
  assumes g: "closable_graph running task unit link" and s: "tk_status task \<noteq> fa_target_status args"
    and t: "is_utc t" "instant (tk_updated_at task) \<le> instant t" "instant (ru_updated_at unit) \<le> instant t"
  shows "canonical_task_transition (finishing_command task unit args t)"
proof -
  have a: "accepts new_task_record task" "accepts new_request_unit_record unit" using g by (simp_all add: closable_graph_def)
  from a have "new_task_record task = Inr task" "new_request_unit_record unit = Inr unit" by (simp_all add: accepts_iff)
  with finished_task_valid[OF a(1) t(1,2)] finished_unit_valid[OF a(2) t(1,3)] finishing_transition_valid[OF a(1) t(1) s]
    finishing_command_valid[OF g t]
  show ?thesis unfolding canonical_task_transition_def by (simp add: finishing_command_def)
qed

subsection \<open>The terminal write with a Task\<close>

definition changed_status_event :: "uuid \<Rightarrow> datetime \<Rightarrow> uuid \<Rightarrow> task_record \<Rightarrow> request_unit_record \<Rightarrow> trace_event" where
  "changed_status_event i t run_id task unit = (blank_event i TASK_STATE_CHANGED t run_id)
     \<lparr>te_task_id := Some (tk_task_id task), te_request_unit_id := Some (ru_request_unit_id unit)\<rparr>"

lemma task_changed_valid: "is_utc t \<Longrightarrow> new_trace_event (changed_status_event i t run_id task unit) = Inr (changed_status_event i t run_id task unit)"
  by (simp add: new_trace_event_def construct_Inr_iff changed_status_event_def blank_event_def trace_event_guards_def
      TOOL_TRACE_STATUS_def)

record finish_stamps =
  sp_changed_at :: datetime
  sp_completed_at :: datetime
  sp_message_id :: uuid
  sp_changed_event_id :: uuid
  sp_stopped_event_id :: uuid

definition task_finish ::
  "agent_run_record \<Rightarrow> conversation_record \<Rightarrow> task_record \<Rightarrow> request_unit_record \<Rightarrow> run_task_link_record
   \<Rightarrow> finish_args \<Rightarrow> agent_run_result \<Rightarrow> finish_stamps \<Rightarrow> finalize_run_command" where
  "task_finish running conversation task unit link args result s =
     (let t = finishing_command task unit args (sp_changed_at s); next_task = att_next_task_record t
      in \<lparr>fr_expected_active_record = running,
          fr_terminal_record = completed_run running (sp_completed_at s) (fa_stop_reason args),
          fr_expected_active_links = [link], fr_terminal_links = [closed_link link next_task],
          fr_result_task_records = [next_task], fr_task_transition = Some t, fr_terminal_result = Some result,
          fr_assistant_message = Some (assistant_message (sp_message_id s) conversation result (sp_completed_at s)),
          fr_terminal_trace_events =
            [changed_status_event (sp_changed_event_id s) (sp_changed_at s) (ar_run_id running) next_task (att_next_request_unit_record t),
             run_stopped_event (sp_stopped_event_id s) (sp_completed_at s) (ar_run_id running) result (fa_stop_reason args)]\<rparr>)"

definition stamps_ok :: "agent_run_record \<Rightarrow> task_record \<Rightarrow> request_unit_record \<Rightarrow> finish_stamps \<Rightarrow> bool" where
  "stamps_ok running task unit s \<longleftrightarrow>
     is_utc (sp_changed_at s) \<and> is_utc (sp_completed_at s)
     \<and> instant (tk_updated_at task) \<le> instant (sp_changed_at s) \<and> instant (ru_updated_at unit) \<le> instant (sp_changed_at s)
     \<and> instant (sp_changed_at s) \<le> instant (sp_completed_at s)
     \<and> instant (ar_started_at running) \<le> instant (sp_completed_at s)
     \<and> sp_changed_event_id s \<noteq> sp_stopped_event_id s"

lemma task_finish_graph:
  assumes r: "running_in conversation running" and g: "closable_graph running task unit link"
    and row: "(fa_stop_reason args, fa_target_status args) \<in> set SERVICE_ROWS"
  shows "list_all (\<lambda>(c, _). \<not> c) (finalize_graph_guards (task_finish running conversation task unit link args result s))"
proof -
  have "fa_stop_reason args \<noteq> STOP_PROCESS_RESTART_DETECTED" using row by (auto simp: SERVICE_ROWS_def)
  moreover from r have "ar_status running = RUN_RUNNING" "ar_incomplete_reason running = None"
    "ar_conversation_id running = Some (cr_conversation_id conversation)" by (simp_all add: running_in_def)
  moreover from g have "rl_run_id link = ar_run_id running" "rl_task_id link = tk_task_id task"
    "rl_result_task_state_version link = None" by (simp_all add: closable_graph_def)
  ultimately show ?thesis
    by (simp add: finalize_graph_guards_def Let_def task_finish_def completed_run_def same_run_stable_def
        closed_link_def finishing_command_def finished_task_def)
qed

lemma task_finish_events:
  "te_event_type (changed_status_event i t run_id task unit) = TASK_STATE_CHANGED"
  "te_event_type (run_stopped_event i t run_id result stop) = RUN_STOPPED"
  "te_trace_event_id (changed_status_event i t run_id task unit) = i"
  "te_trace_event_id (run_stopped_event i t run_id result stop) = i"
  "te_run_id (changed_status_event i t run_id task unit) = run_id"
  "te_run_id (run_stopped_event i t run_id result stop) = run_id"
  "te_occurred_at (changed_status_event i t run_id task unit) = t"
  "te_occurred_at (run_stopped_event i t run_id result stop) = t"
  "te_task_id (changed_status_event i t run_id task unit) = Some (tk_task_id task)"
  "te_request_unit_id (changed_status_event i t run_id task unit) = Some (ru_request_unit_id unit)"
  "te_stop_reason (run_stopped_event i t run_id result stop) = Some stop"
  "te_user_outcome (run_stopped_event i t run_id result stop) = Some (res_outcome result)"
  "allowed_terminal_projection (changed_status_event i t run_id task unit)"
  "allowed_terminal_projection (run_stopped_event i t run_id result stop)"
  by (simp_all add: changed_status_event_def run_stopped_event_def blank_event_def allowed_terminal_projection_def)

lemma assistant_message_simps:
  "mr_schema_version (assistant_message i conversation result t) = str ''message_record.p0.v1''"
  "mr_direction (assistant_message i conversation result t) = DIRECTION_ASSISTANT"
  "mr_conversation_id (assistant_message i conversation result t) = cr_conversation_id conversation"
  "mr_content (assistant_message i conversation result t) = res_message result"
  "mr_received_at (assistant_message i conversation result t) = t"
  by (simp_all add: assistant_message_def MESSAGE_SCHEMA_VERSION_def)

lemma completed_run_simps:
  "ar_status (completed_run running t stop) = RUN_COMPLETED"
  "ar_stop_reason (completed_run running t stop) = Some stop"
  "ar_completed_at (completed_run running t stop) = Some t"
  "ar_run_id (completed_run running t stop) = ar_run_id running"
  "ar_conversation_id (completed_run running t stop) = ar_conversation_id running"
  by (simp_all add: completed_run_def)

lemma task_finish_completed:
  assumes r: "running_in conversation running" and g: "closable_graph running task unit link"
    and row: "(fa_stop_reason args, True, res_outcome result, Some (fa_target_status args)) \<in> set COMPLETED_FINALIZATION_ROWS"
    and id: "res_run_id result = ar_run_id running" and s: "stamps_ok running task unit s"
  shows "list_all (\<lambda>(c, _). \<not> c) (finalize_completed_guards (task_finish running conversation task unit link args result s)
     result (assistant_message (sp_message_id s) conversation result (sp_completed_at s)))"
proof -
  let ?c = "task_finish running conversation task unit link args result s"
  let ?t = "finishing_command task unit args (sp_changed_at s)"
  from g have link: "rl_task_id link = tk_task_id task" "ru_state_version unit = tk_state_version task"
    "opt_all (\<lambda>base. base \<le> tk_state_version task) (rl_base_task_state_version link)"
    by (simp_all add: closable_graph_def)
  have "list_all (\<lambda>(c, _). \<not> c) (finalize_transition_guards ?c ?t)"
    using link s by (simp add: finalize_transition_guards_def Let_def task_finish_def completed_run_simps task_finish_events
        stamps_ok_def dt_less_def) (simp add: finishing_command_def finished_task_def finished_unit_def finishing_transition_def)
  moreover have "ar_conversation_id running = Some (cr_conversation_id conversation)" using r by (simp add: running_in_def)
  moreover have "tk_status (att_next_task_record ?t) = fa_target_status args"
    by (simp add: finishing_command_def finished_task_def)
  moreover have "tt_changed_at (att_task_state_transition ?t) = sp_changed_at s"
    by (simp add: finishing_command_def finishing_transition_def)
  moreover have "fr_task_transition ?c = Some ?t" "fr_terminal_record ?c = completed_run running (sp_completed_at s) (fa_stop_reason args)"
    "fr_expected_active_links ?c \<noteq> []"
    "fr_terminal_trace_events ?c =
      [changed_status_event (sp_changed_event_id s) (sp_changed_at s) (ar_run_id running) (att_next_task_record ?t) (att_next_request_unit_record ?t),
       run_stopped_event (sp_stopped_event_id s) (sp_completed_at s) (ar_run_id running) result (fa_stop_reason args)]"
    by (simp_all add: task_finish_def Let_def)
  ultimately show ?thesis
    using row id s by (simp add: finalize_completed_guards_def Let_def task_finish_events assistant_message_simps
        completed_run_simps stamps_ok_def)
qed

lemma task_finish_valid:
  assumes r: "running_in conversation running" and g: "closable_graph running task unit link"
    and row: "(fa_stop_reason args, fa_target_status args) \<in> set SERVICE_ROWS"
    and res: "map_result (ar_run_id running) (fa_stop_reason args) rendered = Inr result"
    and s: "stamps_ok running task unit s" and status: "tk_status task \<noteq> fa_target_status args"
  shows "new_finalize_run_command (task_finish running conversation task unit link args result s)
    = Inr (task_finish running conversation task unit link args result s)"
proof -
  let ?c = "task_finish running conversation task unit link args result s"
  let ?m = "assistant_message (sp_message_id s) conversation result (sp_completed_at s)"
  let ?t = "finishing_command task unit args (sp_changed_at s)"
  note result = map_result_accepted[OF res]
  have t: "is_utc (sp_changed_at s)" "is_utc (sp_completed_at s)" using s by (simp_all add: stamps_ok_def)
  have "list_all (\<lambda>(c, _). \<not> c) (finalize_run_guards ?c)"
    using task_finish_graph[OF r g row] task_finish_completed[OF r g service_row_in_matrix[OF res row] s]
    by (simp add: finalize_run_guards_def) (simp add: task_finish_def Let_def completed_run_simps)
  moreover have "new_agent_run_record running = Inr running" "new_run_task_link_record link = Inr link"
    "accepts new_task_record task" using r g by (simp_all add: running_in_def closable_graph_def accepts_iff)
  moreover have "new_task_record (att_next_task_record ?t) = Inr (att_next_task_record ?t)"
    "new_run_task_link_record (closed_link link (att_next_task_record ?t)) = Inr (closed_link link (att_next_task_record ?t))"
    "canonical_task_transition ?t"
    using finished_task_valid[of task "sp_changed_at s"] closed_link_valid[OF g] finishing_command_canonical[OF g status t(1)] s g
    by (simp_all add: finishing_command_def stamps_ok_def closable_graph_def)
  moreover have "new_agent_run_record (completed_run running (sp_completed_at s) (fa_stop_reason args))
      = Inr (completed_run running (sp_completed_at s) (fa_stop_reason args))"
    using completed_run_valid[OF r t(2)] s by (simp add: stamps_ok_def)
  ultimately show ?thesis
    using result assistant_message_valid[OF result t(2)] run_stopped_valid[OF t(2)] task_changed_valid[OF t(1)]
    by (simp add: new_finalize_run_command_def construct_Inr_iff) (simp add: task_finish_def Let_def)
qed

subsection \<open>Running the finish\<close>

text \<open>A world in which time moves on, identities are fresh and the ports without a result answer.\<close>

definition steady :: "run_env \<Rightarrow> bool" where
  "steady env \<longleftrightarrow>
     (\<forall>n. is_utc (ee_clock (ev_executor env) n))
     \<and> (\<forall>m n. m \<le> n \<longrightarrow> instant (ee_clock (ev_executor env) m) \<le> instant (ee_clock (ev_executor env) n))
     \<and> inj (ee_uuid (ev_executor env)) \<and> (\<forall>n. ev_done env n = Replies ())"

definition run_clock :: "run_env \<Rightarrow> run_state \<Rightarrow> nat \<Rightarrow> datetime" where
  "run_clock env st i = ee_clock (ev_executor env) (i + rn_clock st)"

definition run_fresh :: "run_env \<Rightarrow> run_state \<Rightarrow> nat \<Rightarrow> uuid" where
  "run_fresh env st i = ee_uuid (ev_executor env) (i + rn_uuid st)"

lemma run_now_bind: "exec_bind (run_now env) f st = f (run_clock env st 0) (st\<lparr>rn_clock := Suc (rn_clock st)\<rparr>)"
  by (simp add: exec_bind_def run_now_def run_clock_def)

lemma run_uuid_bind: "exec_bind (run_uuid env) f st = f (run_fresh env st 0) (st\<lparr>rn_uuid := Suc (rn_uuid st)\<rparr>)"
  by (simp add: exec_bind_def run_uuid_def run_fresh_def)

lemma run_construct_bind: "exec_bind (run_construct (Inr x)) f = f x"
  by (simp add: run_construct_def)

lemma trace_runs:
  assumes "steady env"
    and "new_trace_event (f (blank_event (run_fresh env st 0) t (run_clock env st 0) run_id))
       = Inr (f (blank_event (run_fresh env st 0) t (run_clock env st 0) run_id))"
  shows "exec_bind (append_trace env t run_id None f) g st
    = g () (st\<lparr>rn_uuid := Suc (rn_uuid st), rn_clock := Suc (rn_clock st),
        rn_log := rn_log st @ [AppendRunTrace (f (blank_event (run_fresh env st 0) t (run_clock env st 0) run_id))]\<rparr>)"
  using assms
  by (simp add: append_trace_def run_tell_def run_ask_eq exec_bind_def run_now_def run_uuid_def run_clock_def run_fresh_def
      run_construct_def exec_return_def steady_def)

lemma commit_runs:
  assumes "new_finalize_run_command c = Inr c" "ev_finalize_run env (length (rn_log st)) = Replies APPLIED"
  shows "commit_run env c task result st = (Inr result, st\<lparr>rn_log := rn_log st @ [FinalizeRun c],
     rn_result_task := (case task of None \<Rightarrow> rn_result_task st | Some t \<Rightarrow> Some t),
     rn_committed_result := Some result, rn_running_run := None\<rparr>)"
  using assms
  by (cases task) (simp_all add: commit_run_def run_construct_def run_ask_eq exec_bind_def exec_raise_if_def exec_return_def exec_modify_def)

definition stamps_at :: "run_env \<Rightarrow> run_state \<Rightarrow> finish_stamps" where
  "stamps_at env st = \<lparr>sp_changed_at = run_clock env st (Suc 0), sp_completed_at = run_clock env st (Suc (Suc 0)),
     sp_message_id = run_fresh env st (Suc 0), sp_changed_event_id = run_fresh env st (Suc (Suc 0)), sp_stopped_event_id = run_fresh env st (Suc (Suc (Suc 0)))\<rparr>"

lemma stamps_at_ok:
  assumes "steady env" "instant (tk_updated_at task) \<le> instant (run_clock env st 0)"
    "instant (ru_updated_at unit) \<le> instant (run_clock env st 0)" "instant (ar_started_at running) \<le> instant (run_clock env st 0)"
  shows "stamps_ok running task unit (stamps_at env st)"
proof -
  have mono: "instant (run_clock env st i) \<le> instant (run_clock env st j)" if "i \<le> j" for i j
    using assms(1) that by (simp add: steady_def run_clock_def)
  have "run_fresh env st (Suc (Suc 0)) \<noteq> run_fresh env st (Suc (Suc (Suc 0)))" using assms(1) by (simp add: steady_def run_fresh_def inj_eq)
  moreover have "is_utc (run_clock env st i)" for i using assms(1) by (simp add: steady_def run_clock_def)
  ultimately show ?thesis
    using assms(2-4) mono[of 0 "Suc 0"] mono[of "Suc 0" "Suc (Suc 0)"] by (simp add: stamps_ok_def stamps_at_def)
qed

lemma rendered_trace_valid:
  "is_utc t \<Longrightarrow> new_trace_event ((blank_event i RESPONSE_RENDERED t run_id)\<lparr>te_task_id := a, te_request_unit_id := b,
      te_observation_ref := c, te_presentation_plan_ref := d\<rparr>)
     = Inr ((blank_event i RESPONSE_RENDERED t run_id)\<lparr>te_task_id := a, te_request_unit_id := b,
      te_observation_ref := c, te_presentation_plan_ref := d\<rparr>)"
  by (simp add: new_trace_event_def construct_Inr_iff blank_event_def trace_event_guards_def TOOL_TRACE_STATUS_def)

lemma finish_with_task_runs:
  assumes env: "steady env" and r: "running_in conversation running" and g: "closable_graph running task unit link"
    and row: "(fa_stop_reason args, fa_target_status args) \<in> set SERVICE_ROWS"
    and res: "map_result (ar_run_id running) (fa_stop_reason args) (fa_rendered_message args) = Inr result"
    and status: "tk_status task \<noteq> fa_target_status args"
    and time: "instant (tk_updated_at task) \<le> instant (run_clock env st 0)"
      "instant (ru_updated_at unit) \<le> instant (run_clock env st 0)" "instant (ar_started_at running) \<le> instant (run_clock env st 0)"
    and applied: "ev_finalize_run env (Suc (length (rn_log st))) = Replies APPLIED"
  shows "\<exists>st'. finish_with_task env running conversation task unit link args st = (Inr result, st')
    \<and> rn_committed_result st' = Some result \<and> rn_clock st \<le> rn_clock st'
    \<and> (\<exists>e. rn_log st' = rn_log st @ [AppendRunTrace e,
         FinalizeRun (task_finish running conversation task unit link args result (stamps_at env st))])"
proof -
  let ?s = "stamps_at env st"
  have s: "stamps_ok running task unit ?s" by (rule stamps_at_ok[OF env time])
  have utc: "is_utc (run_clock env st i)" for i using env by (simp add: steady_def run_clock_def)
  have a: "accepts new_task_record task" "accepts new_request_unit_record unit" using g by (simp_all add: closable_graph_def)
  have utc': "is_utc (ee_clock (ev_executor env) n)" for n using env by (simp add: steady_def)
  let ?t = "run_clock env st (Suc 0)" and ?e = "run_clock env st (Suc (Suc 0))"
  have times: "instant (tk_updated_at task) \<le> instant ?t" "instant (ru_updated_at unit) \<le> instant ?t"
    "instant (ar_started_at running) \<le> instant ?e"
    using s by (simp_all add: stamps_ok_def stamps_at_def)
  note records = finished_task_valid[OF a(1) utc times(1)] finished_unit_valid[OF a(2) utc times(2)]
    finishing_transition_valid[OF a(1) utc' status] closed_link_valid[OF g] completed_run_valid[OF r utc times(3)]
    assistant_message_valid[OF map_result_accepted[OF res] utc'] run_stopped_valid[OF utc']
  note change = finishing_command_valid[OF g utc times(1,2), of args]
  note event = task_changed_valid[OF utc']
  note command = task_finish_valid[OF r g row res s status]
  let ?c = "task_finish running conversation task unit link args result ?s"
  have "\<exists>st1 e next_task. finish_with_task env running conversation task unit link args st
      = commit_run env ?c next_task result st1 \<and> rn_log st1 = rn_log st @ [AppendRunTrace e] \<and> rn_clock st \<le> rn_clock st1"
    unfolding task_finish_def changed_status_event_def stamps_at_def finishing_command_def
    using records change[unfolded finishing_command_def] event[unfolded changed_status_event_def]
    by (simp add: finish_with_task_def Let_def res run_construct_bind trace_runs[OF env] rendered_trace_valid run_now_bind
      run_uuid_bind utc' run_clock_def run_fresh_def) (intro exI conjI, rule refl, simp, simp)
  then obtain st1 e next_task where fin: "finish_with_task env running conversation task unit link args st
      = commit_run env ?c next_task result st1" and log: "rn_log st1 = rn_log st @ [AppendRunTrace e]"
    and clock: "rn_clock st \<le> rn_clock st1" by blast
  have "ev_finalize_run env (length (rn_log st1)) = Replies APPLIED" using applied log by simp
  from commit_runs[OF command this] show ?thesis by (simp add: fin log clock)
qed

end
