(* ===== verification/Graph_Acceptance.thy ===== *)
theory Graph_Acceptance
  imports Run_Finish Reducer_Properties
begin

section \<open>The store's contract accepts every graph the reducer makes routable\<close>

text \<open>
  \<open>CreateInitialTaskGraphV2Command\<close> checks the reduced graph against the owner, Conversation, message
  and Run again. A routable decision for an opened Run always passes: the two contracts agree.
\<close>

definition opened_ok :: "opened_run \<Rightarrow> bool" where
  "opened_ok opened \<longleftrightarrow>
     new_conversation_record (on_conversation opened) = Inr (on_conversation opened)
     \<and> new_message_record (on_message opened) = Inr (on_message opened)
     \<and> mr_conversation_id (on_message opened) = cr_conversation_id (on_conversation opened)
     \<and> mr_direction (on_message opened) = DIRECTION_USER
     \<and> running_in (on_conversation opened) (on_running_run opened)
     \<and> cr_owner_customer_id (on_conversation opened) = os_customer_id (on_owner_scope opened)
     \<and> (case on_customer_context opened of Foreign \<Rightarrow> False
        | Obj customer _ \<Rightarrow> os_customer_id (on_owner_scope opened) = cc_customer_id customer)"

subsection \<open>A routable decision in explicit terms\<close>

lemma routable_explicit:
  assumes "validate_and_reduce_initial_request_v2 serialise (Obj ri []) vo [m \<mapsto> message] cust record_id given move_ref now
      = Inr (Routable d)"
  obtains ro customer extra allocs ctx t c where
    "cust = Obj customer extra" "reduction_ok [m \<mapsto> message] ri ro customer record_id allocs move_ref now ctx [t]"
    "ro_task_delta_candidates ro = [c]" "candidate_rejection_reason_v2 c ro = None"
    "delta_certified [m \<mapsto> message] c t"
    "rd_task_graph d = graph_of (ro_message_ref ro) customer now (alloc_for (dict_by al_candidate_ref allocs) c) c (order_id_of c)"
    "rd_closure d = spec_closure ri ro record_id ctx [t] [rd_task_graph d] (Some move_ref) now"
    "rd_next_move_candidate_ref d = move_ref" "rd_next_move_candidate d = ro_next_move_candidate ro"
    "distinct [record_id, al_accepted_delta_id (alloc_for (dict_by al_candidate_ref allocs) c),
       al_task_id (alloc_for (dict_by al_candidate_ref allocs) c), al_request_unit_id (alloc_for (dict_by al_candidate_ref allocs) c),
       al_binding_id (alloc_for (dict_by al_candidate_ref allocs) c), move_ref]"
proof -
  from assms obtain ri' ro customer allocs ctx candidates where ri: "Obj ri [] = Obj ri' []"
    and cust: "cust = Obj customer []"
    and ok: "reduction_ok [m \<mapsto> message] ri' ro customer record_id allocs move_ref now ctx candidates"
    and d: "Routable d = spec_decision [m \<mapsto> message] ri' ro customer record_id (dict_by al_candidate_ref allocs) move_ref now ctx candidates"
    by (rule reducer_InrE)
  let ?gs = "graphs_of ro customer now (dict_by al_candidate_ref allocs)"
  have one: "length (ro_task_delta_candidates ro) = 1" "length ?gs = 1"
    and dd: "d = \<lparr>rd_closure = spec_closure ri' ro record_id ctx candidates ?gs (Some move_ref) now,
       rd_task_graph = hd ?gs, rd_next_move_candidate_ref = move_ref,
       rd_next_move_candidate = ro_next_move_candidate ro\<rparr>"
    using d by (simp_all add: spec_decision_cases Let_def split: if_splits)
  from one obtain c g where c: "ro_task_delta_candidates ro = [c]" and g: "?gs = [g]" by (auto simp: length_Suc_conv)
  have "g \<in> set ?gs" by (simp add: g)
  then obtain c' where c': "c' \<in> set (accepted_of ro)"
    "g = graph_of (ro_message_ref ro) customer now (alloc_for (dict_by al_candidate_ref allocs) c') c' (order_id_of c')"
    by (rule graphs_reduced_member)
  then have acc: "c' = c" "candidate_rejection_reason_v2 c ro = None" using c by (auto simp: accepted_of_def split: if_splits)
  have proj: "projection_ok [m \<mapsto> message] ri' ro ctx candidates" using ok by (simp add: reduction_ok_def)
  from projection_ok_certified(2)[OF proj] c obtain t where t: "candidates = [t]" "delta_certified [m \<mapsto> message] c t"
    by (auto simp: list_all2_Cons1)
  have al: "allocations_ok allocs (map tdc_candidate_id [c]) record_id move_ref"
    using ok c by (simp add: reduction_ok_def)
  have dist: "distinct (record_id # concat (map (generated_of \<circ> alloc_for (dict_by al_candidate_ref allocs)) [c]) @ [move_ref])"
    by (rule alloc_for_facts(3)[OF al]) simp_all
  show ?thesis
    by (rule that[OF cust ok[unfolded t(1) ri[symmetric, simplified]] c acc(2) t(2)])
      (use dist ri in \<open>simp_all add: dd g c' acc t generated_of_def\<close>)
qed

subsection \<open>The messages a record refers to\<close>

lemma authoritative_only: "authoritative_message_v2 [m \<mapsto> message] r = Inr x \<Longrightarrow> r = m"
  by (auto simp: authoritative_message_v2_def split: if_splits option.splits)

lemma context_sources:
  assumes "project_contextualization_v2 [m \<mapsto> message] cx = Inr ctx"
  shows "set (dcx_source_message_refs ctx) \<subseteq> {m}"
proof -
  from assms obtain ys where "res_map (authoritative_message_v2 [m \<mapsto> message]) (cx_source_message_refs cx) = Inr ys"
    "dcx_source_message_refs ctx = cx_source_message_refs cx"
    by (auto simp: project_contextualization_v2_def res_bind_Inr_iff new_durable_contextualization_def construct_Inr_iff)
  moreover have "res_map (authoritative_message_v2 [m \<mapsto> message]) xs = Inr ys \<Longrightarrow> set xs \<subseteq> {m}" for xs ys
    by (induction xs arbitrary: ys) (auto dest: authoritative_only split: sum.splits)
  ultimately show ?thesis by simp
qed

lemma referenced_only_current:
  assumes rec: "canonical_ru_record r" and ctx: "set (dcx_source_message_refs (rc_contextualization r)) \<subseteq> {m}"
    and m: "rc_message_ref r = m"
  shows "set (referenced_message_ids_v2 r) = {m}"
proof -
  let ?x = "rc_contextualization r"
  from rec have "accepts new_durable_contextualization ?x" "accepts new_ru_record r"
    by (simp_all add: canonical_ru_record_def canonical_durable_contextualization_def)
  then have "\<forall>rr\<in>set (dcx_resolved_reference_candidates ?x). drr_source_ref rr \<in> set (dcx_source_message_refs ?x)"
    "\<forall>u\<in>set (dcx_uncertainties ?x). \<forall>s\<in>set (un_source_message_refs u). s \<in> set (dcx_source_message_refs ?x)"
    "\<forall>c\<in>set (rc_task_delta_candidates r). \<forall>i\<in>set (dtd_input_candidates c). dic_source_ref i = m"
    using m by (auto simp: accepts_iff new_durable_contextualization_def new_ru_record_def record_graph_guards_def
        construct_Inr_iff Let_def)
  with ctx m show ?thesis
    unfolding referenced_message_ids_v2_def Let_def by (auto simp: subset_iff)
qed

subsection \<open>The command is accepted\<close>

definition graph_command :: "opened_run \<Rightarrow> datetime \<Rightarrow> routable_decision \<Rightarrow> create_initial_graph_command" where
  "graph_command opened reduced_at d =
     (let graph = rd_task_graph d; task = ig_task graph
      in \<lparr>cig_owner_scope = on_owner_scope opened, cig_expected_conversation_record = on_conversation opened,
          cig_expected_message_records = [on_message opened], cig_expected_active_run_record = on_running_run opened,
          cig_request_understanding = \<lparr>sac_record = cl_record (rd_closure d), sac_accepted_delta = ig_accepted_delta graph\<rparr>,
          cig_initial_task = \<lparr>cta_initial_record = task\<rparr>,
          cig_initial_request_unit = \<lparr>cru_initial_record = ig_request_unit graph\<rparr>,
          cig_input_binding = \<lparr>sib_record = ig_input_binding graph,
            sib_request_unit_id = ru_request_unit_id (ig_request_unit graph)\<rparr>,
          cig_conversation_task_link =
            \<lparr>ctl_schema_version = CONVERSATION_TASK_LINK_SCHEMA_VERSION,
             ctl_conversation_id = cr_conversation_id (on_conversation opened), ctl_task_id = tk_task_id task,
             ctl_link_reason = str ''CURRENT_MESSAGE_ACCEPTED_DELTA'', ctl_linked_at = reduced_at, ctl_ended_at = None\<rparr>,
          cig_run_task_link =
            \<lparr>crl_active_record = initial_link (ar_run_id (on_running_run opened)) (tk_task_id task)\<rparr>\<rparr>)"

text \<open>\<open>routable_for opened now d\<close>: the reducer made \<open>d\<close> routable at \<open>now\<close>, for the message of this opened Run.\<close>

definition routable_for :: "opened_run \<Rightarrow> datetime \<Rightarrow> routable_decision \<Rightarrow> bool" where
  "routable_for opened now d \<longleftrightarrow>
     opened_ok opened
     \<and> instant (mr_received_at (on_message opened)) \<le> instant now
     \<and> instant (ar_started_at (on_running_run opened)) \<le> instant now
     \<and> (\<exists>serialise vo record_id given move_ref.
          validate_and_reduce_initial_request_v2 serialise (Obj (request_of opened) []) vo
            [mr_message_id (on_message opened) \<mapsto> mr_content (on_message opened)] (on_customer_context opened)
            record_id given move_ref now = Inr (Routable d))"

text \<open>Its parts, once for all lemmas.\<close>

lemma routable_forE:
  assumes "routable_for opened now d"
  obtains ro customer extra record_id move_ref allocs ctx t c where
    "on_customer_context opened = Obj customer extra" "os_customer_id (on_owner_scope opened) = cc_customer_id customer"
    "reduction_ok [mr_message_id (on_message opened) \<mapsto> mr_content (on_message opened)] (request_of opened) ro customer
       record_id allocs move_ref now ctx [t]"
    "ro_task_delta_candidates ro = [c]" "candidate_rejection_reason_v2 c ro = None"
    "delta_certified [mr_message_id (on_message opened) \<mapsto> mr_content (on_message opened)] c t"
    "rd_task_graph d = graph_of (ro_message_ref ro) customer now (alloc_for (dict_by al_candidate_ref allocs) c) c (order_id_of c)"
    "rd_closure d = spec_closure (request_of opened) ro record_id ctx [t] [rd_task_graph d] (Some move_ref) now"
    "rd_next_move_candidate_ref d = move_ref" "rd_next_move_candidate d = ro_next_move_candidate ro"
    "distinct [record_id, al_accepted_delta_id (alloc_for (dict_by al_candidate_ref allocs) c),
       al_task_id (alloc_for (dict_by al_candidate_ref allocs) c), al_request_unit_id (alloc_for (dict_by al_candidate_ref allocs) c),
       al_binding_id (alloc_for (dict_by al_candidate_ref allocs) c), move_ref]"
proof -
  from assms obtain serialise vo record_id given move_ref where
    red: "validate_and_reduce_initial_request_v2 serialise (Obj (request_of opened) []) vo
        [mr_message_id (on_message opened) \<mapsto> mr_content (on_message opened)] (on_customer_context opened)
        record_id given move_ref now = Inr (Routable d)"
    by (auto simp: routable_for_def)
  show ?thesis
    by (rule routable_explicit[OF red]) (rule that, use assms in \<open>auto simp: routable_for_def opened_ok_def\<close>)
qed

lemma fields_valid:
  assumes R: "routable_for opened now d"
  shows "validate_initial_routable_decision_fields_v2 d = Inr ()"
proof -
  obtain ro customer record_id move_ref allocs ctx t c where ok: "reduction_ok [mr_message_id (on_message opened) \<mapsto> mr_content (on_message opened)]
      (request_of opened) ro customer record_id allocs move_ref now ctx [t]"
    and c: "ro_task_delta_candidates ro = [c]" "candidate_rejection_reason_v2 c ro = None"
    and g: "rd_task_graph d = graph_of (ro_message_ref ro) customer now (alloc_for (dict_by al_candidate_ref allocs) c) c (order_id_of c)"
    and cl: "rd_closure d = spec_closure (request_of opened) ro record_id ctx [t] [rd_task_graph d] (Some move_ref) now"
    and m: "rd_next_move_candidate_ref d = move_ref" "rd_next_move_candidate d = ro_next_move_candidate ro"
    by (rule routable_forE[OF R])
  have "graphs_of ro customer now (dict_by al_candidate_ref allocs) = [rd_task_graph d]"
    using c g by (simp add: graphs_of_alloc accepted_of_def)
  from routable_fields_reduced[OF ok this] c(1) have "validate_initial_routable_decision_fields_v2
    \<lparr>rd_closure = spec_closure (request_of opened) ro record_id ctx [t] [rd_task_graph d] (Some move_ref) now,
     rd_task_graph = rd_task_graph d, rd_next_move_candidate_ref = move_ref, rd_next_move_candidate = ro_next_move_candidate ro\<rparr> = Inr ()"
    by simp
  moreover have "d = \<lparr>rd_closure = spec_closure (request_of opened) ro record_id ctx [t] [rd_task_graph d] (Some move_ref) now,
     rd_task_graph = rd_task_graph d, rd_next_move_candidate_ref = move_ref, rd_next_move_candidate = ro_next_move_candidate ro\<rparr>"
    using cl m by (cases d) simp
  ultimately show ?thesis by simp
qed

lemma graph_accepted:
  assumes R: "routable_for opened now d"
  shows "accepts new_initial_graph (rd_task_graph d)"
  by (rule routable_fields_next_move(2)[OF fields_valid[OF R]])

lemma graph_records:
  assumes R: "routable_for opened now d"
  shows "accepts new_task_record (ig_task (rd_task_graph d))" "accepts new_request_unit_record (ig_request_unit (rd_task_graph d))"
  "accepts new_input_binding (ig_input_binding (rd_task_graph d))" "accepts new_accepted_task_delta (ig_accepted_delta (rd_task_graph d))"
  using graph_accepted[OF R] by (simp_all add: accepts_iff[of new_initial_graph] new_initial_graph_def construct_Inr_iff initial_graph_guards_def Let_def)

lemma closure_accepted:
  assumes R: "routable_for opened now d"
  shows "accepts new_ru_closure (rd_closure d)"
  using fields_valid[OF R] by (simp add: validate_initial_routable_decision_fields_v2_def Let_def res_bind_Inr_iff)

lemma record_canonical:
  assumes R: "routable_for opened now d"
  shows "canonical_ru_record (cl_record (rd_closure d))"
  using closure_accepted[OF R] by (simp add: accepts_iff new_ru_closure_def construct_Inr_iff closure_guards_def Let_def)

lemma record_messages:
  assumes R: "routable_for opened now d"
  shows "rc_message_ref (cl_record (rd_closure d)) = mr_message_id (on_message opened)"
  "set (referenced_message_ids_v2 (cl_record (rd_closure d))) = {mr_message_id (on_message opened)}"
  "rc_run_id (cl_record (rd_closure d)) = ar_run_id (on_running_run opened)"
  "rc_created_at (cl_record (rd_closure d)) = now"
proof -
  obtain ro customer record_id move_ref allocs ctx t c where ok: "reduction_ok [mr_message_id (on_message opened) \<mapsto> mr_content (on_message opened)]
      (request_of opened) ro customer record_id allocs move_ref now ctx [t]"
    and cl: "rd_closure d = spec_closure (request_of opened) ro record_id ctx [t] [rd_task_graph d] (Some move_ref) now"
    by (rule routable_forE[OF R])
  from ok have p: "projection_ok [mr_message_id (on_message opened) \<mapsto> mr_content (on_message opened)] (request_of opened) ro ctx [t]"
    by (simp add: reduction_ok_def)
  then have m: "ro_message_ref ro = mr_message_id (on_message opened)" by (simp add: projection_ok_def request_of_def)
  show ref: "rc_message_ref (cl_record (rd_closure d)) = mr_message_id (on_message opened)"
    by (simp add: cl spec_closure_fields m)
  have "set (dcx_source_message_refs (rc_contextualization (cl_record (rd_closure d)))) \<subseteq> {mr_message_id (on_message opened)}"
    using p context_sources[of "mr_message_id (on_message opened)" "mr_content (on_message opened)" "ro_contextualization ro" ctx]
    by (simp add: cl spec_closure_def closure_record_def projection_ok_def)
  from referenced_only_current[OF record_canonical[OF R] this ref]
  show "set (referenced_message_ids_v2 (cl_record (rd_closure d))) = {mr_message_id (on_message opened)}" .
  show "rc_run_id (cl_record (rd_closure d)) = ar_run_id (on_running_run opened)" "rc_created_at (cl_record (rd_closure d)) = now"
    by (simp_all add: cl spec_closure_def closure_record_def request_of_def)
qed

lemma owner_roots_hold:
  assumes R: "routable_for opened now d"
  shows "list_all (\<lambda>(c, _). \<not> c) (owner_roots_guards (on_owner_scope opened) (on_conversation opened) [on_message opened]
     (on_running_run opened) (cl_record (rd_closure d)))"
proof -
  have "new_agent_run_record (on_running_run opened) = Inr (on_running_run opened)"
    using R by (simp add: routable_for_def opened_ok_def running_in_def accepts_iff)
  then show ?thesis
    using R record_messages[OF R]
    by (simp add: routable_for_def owner_roots_guards_def Let_def current_messages_def opened_ok_def running_in_def dt_less_def not_less)
qed

lemma saved_accepted:
  assumes R: "routable_for opened now d"
  shows "new_save_accepted_command \<lparr>sac_record = cl_record (rd_closure d), sac_accepted_delta = ig_accepted_delta (rd_task_graph d)\<rparr>
    = Inr \<lparr>sac_record = cl_record (rd_closure d), sac_accepted_delta = ig_accepted_delta (rd_task_graph d)\<rparr>"
proof -
  obtain ro customer record_id move_ref allocs ctx t c where ok: "reduction_ok [mr_message_id (on_message opened) \<mapsto> mr_content (on_message opened)]
      (request_of opened) ro customer record_id allocs move_ref now ctx [t]"
    and c: "ro_task_delta_candidates ro = [c]" "candidate_rejection_reason_v2 c ro = None"
    and cert: "delta_certified [mr_message_id (on_message opened) \<mapsto> mr_content (on_message opened)] c t"
    and g: "rd_task_graph d = graph_of (ro_message_ref ro) customer now (alloc_for (dict_by al_candidate_ref allocs) c) c (order_id_of c)"
    and cl: "rd_closure d = spec_closure (request_of opened) ro record_id ctx [t] [rd_task_graph d] (Some move_ref) now"
    by (rule routable_forE[OF R])
  have "tdc_operation c = ADD_GOAL" by (cases "tdc_operation c") simp
  then have "list_all (\<lambda>(c, _). \<not> c) (accepted_child_guards
      \<lparr>sac_record = cl_record (rd_closure d), sac_accepted_delta = ig_accepted_delta (rd_task_graph d)\<rparr>)"
    using record_canonical[OF R] graph_records(4)[OF R] cert c(2)
    by (simp add: accepted_child_guards_def Let_def accepts_iff)
      (simp add: cl spec_closure_fields c(1) decision_of_def delta_certified_def g graph_of_def,
       simp add: spec_closure_def closure_record_def)
  then show ?thesis by (simp add: new_save_accepted_command_def construct_Inr_iff)
qed

lemma record_constructors_hold:
  assumes R: "routable_for opened now d"
  shows "new_run_task_link_record (initial_link run_id task_id) = Inr (initial_link run_id task_id)"
    and "new_create_run_task_link_command \<lparr>crl_active_record = initial_link run_id task_id\<rparr>
      = Inr \<lparr>crl_active_record = initial_link run_id task_id\<rparr>"
    and "new_create_task_command \<lparr>cta_initial_record = ig_task (rd_task_graph d)\<rparr> = Inr \<lparr>cta_initial_record = ig_task (rd_task_graph d)\<rparr>"
    and "new_create_request_unit_command \<lparr>cru_initial_record = ig_request_unit (rd_task_graph d)\<rparr>
      = Inr \<lparr>cru_initial_record = ig_request_unit (rd_task_graph d)\<rparr>"
    and "new_save_input_binding_command \<lparr>sib_record = ig_input_binding (rd_task_graph d), sib_request_unit_id = u\<rparr>
      = Inr \<lparr>sib_record = ig_input_binding (rd_task_graph d), sib_request_unit_id = u\<rparr>"
    and "is_utc now \<Longrightarrow> new_conversation_task_link_record
       \<lparr>ctl_schema_version = CONVERSATION_TASK_LINK_SCHEMA_VERSION, ctl_conversation_id = conversation_id, ctl_task_id = task_id,
        ctl_link_reason = str ''CURRENT_MESSAGE_ACCEPTED_DELTA'', ctl_linked_at = now, ctl_ended_at = None\<rparr>
      = Inr \<lparr>ctl_schema_version = CONVERSATION_TASK_LINK_SCHEMA_VERSION, ctl_conversation_id = conversation_id, ctl_task_id = task_id,
        ctl_link_reason = str ''CURRENT_MESSAGE_ACCEPTED_DELTA'', ctl_linked_at = now, ctl_ended_at = None\<rparr>"
proof -
  show "new_run_task_link_record (initial_link run_id task_id) = Inr (initial_link run_id task_id)"
    by (simp add: new_run_task_link_record_def construct_Inr_iff initial_link_def RUN_TASK_LINK_SCHEMA_VERSION_def NonEmptyString_def str_def)
  show "new_create_run_task_link_command \<lparr>crl_active_record = initial_link run_id task_id\<rparr>
      = Inr \<lparr>crl_active_record = initial_link run_id task_id\<rparr>"
    by (simp add: new_create_run_task_link_command_def construct_Inr_iff initial_link_def)
  show "is_utc now \<Longrightarrow> new_conversation_task_link_record
       \<lparr>ctl_schema_version = CONVERSATION_TASK_LINK_SCHEMA_VERSION, ctl_conversation_id = conversation_id, ctl_task_id = task_id,
        ctl_link_reason = str ''CURRENT_MESSAGE_ACCEPTED_DELTA'', ctl_linked_at = now, ctl_ended_at = None\<rparr>
      = Inr \<lparr>ctl_schema_version = CONVERSATION_TASK_LINK_SCHEMA_VERSION, ctl_conversation_id = conversation_id, ctl_task_id = task_id,
        ctl_link_reason = str ''CURRENT_MESSAGE_ACCEPTED_DELTA'', ctl_linked_at = now, ctl_ended_at = None\<rparr>"
    by (simp add: new_conversation_task_link_record_def construct_Inr_iff CONVERSATION_TASK_LINK_SCHEMA_VERSION_def
        NonEmptyString_def str_def)
  have g: "list_all (\<lambda>(c, _). \<not> c) (initial_graph_guards (rd_task_graph d))"
    using graph_accepted[OF R] by (simp add: accepts_iff new_initial_graph_def construct_Inr_iff)
  then have "tk_state_version (ig_task (rd_task_graph d)) = 1" "ru_state_version (ig_request_unit (rd_task_graph d)) = 1"
    "ib_source_refs (ig_input_binding (rd_task_graph d)) = [ad_message_ref (ig_accepted_delta (rd_task_graph d))]"
    by (simp_all add: initial_graph_guards_def Let_def)
  then show "new_create_task_command \<lparr>cta_initial_record = ig_task (rd_task_graph d)\<rparr> = Inr \<lparr>cta_initial_record = ig_task (rd_task_graph d)\<rparr>"
    "new_create_request_unit_command \<lparr>cru_initial_record = ig_request_unit (rd_task_graph d)\<rparr>
      = Inr \<lparr>cru_initial_record = ig_request_unit (rd_task_graph d)\<rparr>"
    "new_save_input_binding_command \<lparr>sib_record = ig_input_binding (rd_task_graph d), sib_request_unit_id = u\<rparr>
      = Inr \<lparr>sib_record = ig_input_binding (rd_task_graph d), sib_request_unit_id = u\<rparr>"
    by (simp_all add: new_create_task_command_def new_create_request_unit_command_def new_save_input_binding_command_def
        construct_Inr_iff)
qed

lemma routable_now_utc:
  assumes R: "routable_for opened now d"
  shows "is_utc now"
proof -
  obtain ro customer record_id move_ref allocs ctx t where "reduction_ok [mr_message_id (on_message opened) \<mapsto> mr_content (on_message opened)]
      (request_of opened) ro customer record_id allocs move_ref now ctx [t]"
    by (rule routable_forE[OF R])
  then show ?thesis by (simp add: reduction_ok_def)
qed

lemma rebuilds_hold:
  assumes R: "routable_for opened now d"
  shows "list_all (\<lambda>(c, _). \<not> c) (initial_rebuild_guards (graph_command opened now d))"
  using graph_records[OF R] record_constructors_hold[OF R] routable_now_utc[OF R]
  by (simp add: initial_rebuild_guards_def Let_def graph_command_def accepts_iff)

lemma projection_holds:
  assumes R: "routable_for opened now d"
  shows "list_all (\<lambda>(c, _). \<not> c) (initial_projection_guards (graph_command opened now d))"
proof -
  obtain ro customer extra record_id move_ref allocs ctx t c where
    cust: "os_customer_id (on_owner_scope opened) = cc_customer_id customer"
    and c: "ro_task_delta_candidates ro = [c]" "candidate_rejection_reason_v2 c ro = None"
    and cert: "delta_certified [mr_message_id (on_message opened) \<mapsto> mr_content (on_message opened)] c t"
    and g: "rd_task_graph d = graph_of (ro_message_ref ro) customer now (alloc_for (dict_by al_candidate_ref allocs) c) c (order_id_of c)"
    and cl: "rd_closure d = spec_closure (request_of opened) ro record_id ctx [t] [rd_task_graph d] (Some move_ref) now"
    and dist: "distinct [record_id, al_accepted_delta_id (alloc_for (dict_by al_candidate_ref allocs) c),
       al_task_id (alloc_for (dict_by al_candidate_ref allocs) c), al_request_unit_id (alloc_for (dict_by al_candidate_ref allocs) c),
       al_binding_id (alloc_for (dict_by al_candidate_ref allocs) c), move_ref]"
    by (rule routable_forE[OF R])
  let ?r = "cl_record (rd_closure d)" and ?a = "alloc_for (dict_by al_candidate_ref allocs) c"
  from rejection_None_normalizes[OF c(2)] obtain i where i: "tdc_input_candidates c = [i]"
    "normalize_order_id (JStr (ic_candidate_value i)) = Inr (order_id_of c)" by blast
  with c(2) have kind: "ic_name i = str ''order_id''" "ic_authority i = USER_CLAIM" "ic_source_ref i = ro_message_ref ro"
    by (auto simp: candidate_rejection_reason_v2_def Let_def split: if_splits)
  from cert i(1) obtain di where di: "dtd_input_candidates t = [di]"
    "input_certified [mr_message_id (on_message opened) \<mapsto> mr_content (on_message opened)] i di"
    by (auto simp: delta_certified_def list_all2_Cons1)
  then have dic: "dic_name di = str ''order_id''" "dic_candidate_value di = ic_candidate_value i" "dic_authority di = USER_CLAIM"
    "dic_source_ref di = ro_message_ref ro"
    using kind by (simp_all add: input_certified_def)
  have rec: "rc_task_delta_candidates ?r = [t]" "rc_request_understanding_record_id ?r = record_id"
    "rc_next_move_candidate_ref ?r = Some move_ref" "rc_message_ref ?r = ro_message_ref ro"
    by (simp_all add: cl spec_closure_fields)
  have times: "initial_timestamps (graph_command opened now d) = replicate 9 (instant now)"
    by (simp add: initial_timestamps_def Let_def graph_command_def record_messages(4)[OF R] g graph_of_def numeral_eq_Suc)
  have hd_time: "hd (replicate 9 (instant now)) = instant now" by (simp add: numeral_eq_Suc)
  have one: "length (remdups (replicate 9 (instant now))) = 1" by (simp add: numeral_eq_Suc)
  have "current_messages ?r [on_message opened] = [on_message opened]"
    using record_messages(1)[OF R] by (simp add: current_messages_def)
  then show ?thesis
    unfolding initial_projection_guards_def Let_def times hd_time one
    using R di(1) dic i(2) dist cust
    by (simp add: graph_command_def Let_def rec g graph_of_def clean_initial_unit_def is_ok_def initial_link_def
        routable_for_def not_less) auto
qed

lemma graph_command_valid:
  assumes R: "routable_for opened now d"
  shows "new_create_initial_graph_command (graph_command opened now d) = Inr (graph_command opened now d)"
proof -
  have "list_all (\<lambda>(c, _). \<not> c) (owner_roots_guards (cig_owner_scope (graph_command opened now d))
      (cig_expected_conversation_record (graph_command opened now d)) (cig_expected_message_records (graph_command opened now d))
      (cig_expected_active_run_record (graph_command opened now d)) (sac_record (cig_request_understanding (graph_command opened now d))))"
    using owner_roots_hold[OF R] by (simp add: graph_command_def Let_def)
  then show ?thesis
    using rebuilds_hold[OF R] projection_holds[OF R] saved_accepted[OF R]
    by (simp add: new_create_initial_graph_command_def construct_Inr_iff) (simp add: graph_command_def Let_def)
qed

lemma store_graph_runs:
  assumes R: "routable_for opened now d" and applied: "ev_create_graph env = Replies APPLIED"
  shows "store_graph env opened now d st = (Inr (initial_link (ar_run_id (on_running_run opened)) (tk_task_id (ig_task (rd_task_graph d)))),
     st\<lparr>rn_log := rn_log st @ [CreateInitialGraph (graph_command opened now d)],
        rn_active_link := Some (initial_link (ar_run_id (on_running_run opened)) (tk_task_id (ig_task (rd_task_graph d)))),
        rn_result_task := Some (ig_task (rd_task_graph d))\<rparr>)"
  using record_constructors_hold[OF R] routable_now_utc[OF R] saved_accepted[OF R]
    graph_command_valid[OF R, unfolded graph_command_def Let_def] applied
  by (simp add: store_graph_def Let_def run_construct_bind)
    (simp add: exec_bind_def run_ask_eq exec_raise_if_def exec_return_def exec_modify_def graph_command_def Let_def)

end
