(* ===== verification/Run_Closing.thy ===== *)
theory Run_Closing
  imports Run_Protocol
begin

section \<open>Every stage of a Run follows the protocol\<close>

text \<open>
  Each stage of \<open>handle\<close> keeps the protocol invariant of \<open>Run_Protocol\<close>; the stages that close a Run follow.
\<close>

lemmas port_revalidates = toolset.revalidates conversation.revalidates message.revalidates create_run.revalidates
  transition_run.revalidates agent_run.revalidates trace.revalidates manifest.revalidates request.revalidates create_graph.revalidates
  gate_decision.revalidates finalize_run.revalidates

lemmas phase_simps = phase_step_def phase_move_def executor_move_def close_phase_def command_valid_def

lemma gateway_revalidates: "evaluate_control_gateway g = Inr d \<Longrightarrow> new_gate_decision d = Inr d"
  unfolding evaluate_control_gateway_def by (rule gate_decision.revalidates)

lemma artifact_revalidates: "snapshot_artifact s = Inr a \<Longrightarrow> new_toolset_artifact a = Inr a"
  unfolding snapshot_artifact_def by (rule toolset.revalidates)

text \<open>A plain constructor gives back its argument, which it accepts.\<close>

lemma at_plain:
  "plain_record mk \<Longrightarrow> (mk x = Inr x \<Longrightarrow> ensures (run_at env p) (f x) Q (run_lost env))
     \<Longrightarrow> ensures (run_at env p) (exec_bind (run_construct (mk x)) f) Q (run_lost env)"
  by (rule at_construct) (auto dest: plain_record.unchanged)

lemmas at_plains =
  at_plain[OF agent_run.plain_record_axioms] at_plain[OF create_run.plain_record_axioms]
  at_plain[OF transition_run.plain_record_axioms] at_plain[OF run_link.plain_record_axioms]
  at_plain[OF save_accepted.plain_record_axioms] at_plain[OF create_task.plain_record_axioms]
  at_plain[OF create_unit.plain_record_axioms] at_plain[OF save_binding.plain_record_axioms]
  at_plain[OF conversation_link.plain_record_axioms] at_plain[OF create_link.plain_record_axioms]
  at_plain[OF create_graph.plain_record_axioms] at_plain[OF finalize_run.plain_record_axioms]
  at_plain[OF apply_transition.plain_record_axioms] at_plain[OF message.plain_record_axioms]
  at_plain[OF trace.plain_record_axioms]

text \<open>One awaited call of the code whose record was just validated.\<close>

lemma at_tell:
  "phase_step p a = Some q \<Longrightarrow> \<not> final_write a \<Longrightarrow> ensures (run_at env q) (f ()) Q (run_lost env)
     \<Longrightarrow> ensures (run_at env p) (exec_bind (run_tell env' a) f) Q (run_lost env)"
  unfolding run_tell_def by (rule at_ask) simp_all

lemma keeps_tell: "phase_step p a = Some q \<Longrightarrow> \<not> final_write a \<Longrightarrow> keeps env p (run_tell env' a) q"
  unfolding run_tell_def by (rule keeps_ask)

subsection \<open>Trace and manifest\<close>

abbreviation tracing :: "run_phase \<Rightarrow> bool" where
  "tracing p \<equiv> p \<notin> {Fresh, Inserted, Calling, Closed, Reclosed}"

lemma keeps_trace: "tracing p \<Longrightarrow> keeps env p (append_trace env' t run_id occurred f) p"
  unfolding append_trace_def
  by (cases occurred) (auto simp: phase_simps intro!: at_now at_uuid at_construct keeps_tell dest: port_revalidates)

lemma at_trace:
  "tracing p \<Longrightarrow> ensures (run_at env p) (g ()) Q (run_lost env)
     \<Longrightarrow> ensures (run_at env p) (exec_bind (append_trace env' t run_id occurred f) g) Q (run_lost env)"
  by (rule at_bind[OF keeps_trace]) simp_all

lemma keeps_manifest:
  "p = Started \<or> p = Called \<Longrightarrow> keeps env p (save_manifest env' run_id call_id purpose message_id task ref) p"
  unfolding save_manifest_def
  by (auto simp: phase_simps intro!: at_now at_uuid at_construct at_tell at_trace at_return dest: port_revalidates)

lemma keeps_decision_trace:
  "tracing p \<Longrightarrow> keeps env p (append_initial_decision_trace env' run_id call_id manifest_id d) p"
  unfolding append_initial_decision_trace_def Let_def by (intro at_trace keeps_trace)

lemma keeps_tool_trace: "tracing p \<Longrightarrow> keeps env p (append_tool_trace env' execution) p"
  unfolding append_tool_trace_def Let_def
  by (auto split: option.splits intro!: at_trace keeps_trace at_raise)

subsection \<open>Opening the Run\<close>

lemma keeps_open_conversation: "keeps env Fresh (open_conversation env' owner m) Fresh"
  unfolding open_conversation_def
  by (auto simp: phase_simps intro!: at_now at_uuid at_construct at_tell at_ask at_raise_if at_return
      dest: port_revalidates)

lemma keeps_set_running: "p \<notin> {Fresh, Inserted} \<Longrightarrow> run_at env p st \<Longrightarrow> run_at env p (st\<lparr>rn_running_run := r\<rparr>)"
  by (simp add: run_at_def)

lemma keeps_start_run: "keeps env Fresh (start_run env' conversation now) Started"
  unfolding start_run_def
  by (auto simp: phase_simps intro!: at_uuid at_plains at_ask[where p = Fresh and q = Inserted]
      at_ask[where p = Inserted and q = Started]
      at_raise_if at_return at_modify keeps_set_running dest: port_revalidates)

lemma keeps_open_run: "keeps env Fresh (open_run env' given) Started"
  unfolding open_run_def
  by (auto simp: phase_simps run_at_def intro!: ensures_branches at_construct at_raise at_tell at_ask at_raise_if at_return
      at_modify at_bind[OF keeps_open_conversation] at_bind[OF keeps_start_run]
      dest: port_revalidates artifact_revalidates)

subsection \<open>Understanding, reducing, storing\<close>

lemma keeps_understand: "keeps env Started (understand_request env' opened) Started"
  unfolding understand_request_def Let_def
  by (auto simp: phase_simps intro!: at_uuid at_trace at_construct at_provider at_bind[OF keeps_manifest] at_return at_raise
      dest: port_revalidates split: provider_reply.splits bool.splits)

lemma keeps_allocate: "keeps env p (allocate_identities env' candidates) p"
  by (induction candidates) (auto intro!: at_return at_uuid at_construct at_bind[where q = p])

lemma keeps_reduce: "keeps env p (reduce_request env' opened request output) p"
  unfolding reduce_request_def
  by (auto intro!: at_now at_uuid ensures_branches at_raise at_return at_bind[OF keeps_allocate]
      split: sum.splits ru_error.splits initial_decision.splits)

lemma keeps_store_graph: "keeps env Started (store_graph env' opened reduced_at d) Stored"
  unfolding store_graph_def Let_def
  by (auto simp: phase_simps run_at_def graph_commands_valid_def intro!: at_plains at_ask[where q = Stored] at_raise_if
      at_modify at_return)

subsection \<open>Deciding\<close>

lemma keeps_revalidate: "keeps env Stored (revalidate_move env' run_id call_id manifest d) Stored"
  unfolding revalidate_move_def Let_def
  by (auto intro!: at_bind[OF keeps_decision_trace] at_processing at_trace at_return)

lemma keeps_load: "keeps env Stored (load_current_graph env' owner run_id graph) Stored"
  unfolding load_current_graph_def
  by (auto simp: phase_simps run_at_def intro!: at_tell at_ask at_modify at_return at_raise split: option.splits)

lemma keeps_decide:
  "ensures (run_at env Stored) (decide_move env' opened call_id manifest d move task unit)
     (\<lambda>gate. run_at env (Decided (gd_decision gate = GateAccept))) (run_lost env)"
  unfolding decide_move_def
  by (intro at_uuid at_now at_construct at_tell[where p = Stored] at_trace ensures_return)
    (auto simp: phase_simps dest: gateway_revalidates)

subsection \<open>Reading and presenting\<close>

text \<open>The executor's writes, as it makes them: a creation, its dispatch, then what follows a fence.\<close>

lemma run_path_late: "list_all late_write log \<Longrightarrow> run_path Called (map ExecutorAction log) = Some Called"
proof (induction log)
  case (Cons a log)
  then show ?case by (cases a) (simp_all add: phase_simps late_write_def)
qed simp

lemma run_path_executor:
  assumes "read_written r log"
  shows "\<exists>p. run_path (Decided True) (map ExecutorAction log) = Some p \<and> p \<in> {Decided True, Calling, Called}
    \<and> (\<not> isl r \<longrightarrow> p = Called)"
  using assms run_path_late unfolding read_written_def
  by (auto simp: phase_simps)

lemma uncommitted_append:
  "uncommitted env log \<Longrightarrow> list_all (\<lambda>a. \<not> final_write a) log' \<Longrightarrow> uncommitted env (log @ log')"
  by (auto simp: uncommitted_def nth_append list_all_length) (metis add_diff_inverse_nat final_write.simps(1) nat_add_left_cancel_less)

lemma keeps_executor: "keeps env (Decided True) (run_executor env' args) Called"
proof (rule ensuresI)
  fix st r st' assume h: "run_at env (Decided True) st" "run_executor env' args st = (r, st')"
  let ?x = "execute_get_order (executor_env_at env' st) args initial_exec_state"
  from h have st': "rn_log st' = rn_log st @ map ExecutorAction (xs_log (snd ?x))" "rn_committed_result st' = None"
    "isl r = isl (fst ?x)"
    by (auto simp: run_executor_def run_at_def split: prod.splits sum.splits exec_error.splits)
  obtain p where p: "run_path (Decided True) (map ExecutorAction (xs_log (snd ?x))) = Some p"
    "p \<in> {Decided True, Calling, Called}" "\<not> isl r \<longrightarrow> p = Called"
    using run_path_executor[OF execute_written] st'(3) by blast
  have "uncommitted env (rn_log st @ map ExecutorAction (xs_log (snd ?x)))"
    using h(1) by (intro uncommitted_append) (simp_all add: run_at_def list_all_iff)
  then have "run_at env p st'"
    using h(1) st'(1,2) p(1,2) by (auto simp: run_at_def run_path_append)
  with p(3) show "case r of Inl e \<Rightarrow> run_lost env e st' | Inr x \<Rightarrow> run_at env Called st'"
    by (auto split: sum.splits intro: run_lostI)
qed

lemma keeps_budget: "keeps env p (remaining_run_time_budget_ms env' run) p"
  unfolding remaining_run_time_budget_ms_def Let_def by (intro at_now at_raise_if at_return)

lemma keeps_read:
  "keeps env (Decided True) (authorized_read env' opened call_id manifest binding gate task unit) Called"
  unfolding authorized_read_def
  by (auto intro!: ensures_option at_raise at_uuid at_construct at_bind[OF keeps_budget] at_bind[OF keeps_executor]
      at_raise_if at_bind[OF keeps_tool_trace] at_return)

lemma keeps_present: "keeps env Called (present_order env' opened task unit call_id observation) Called"
  unfolding present_order_def Let_def
  by (auto simp: phase_simps intro!: at_trace at_uuid at_bind[OF keeps_manifest] at_provider at_return at_raise
      split: provider_reply.splits bool.splits prod.splits option.splits)

lemma keeps_conclude: "keeps env Called (conclude_read env' opened task unit execution) Called"
  unfolding conclude_read_def
  by (auto intro!: ensures_if at_uuid at_return keeps_present split: option.splits prod.splits)

section \<open>How a Run ends\<close>

text \<open>
  A result is returned exactly when the last thing asked of the store was the terminal write that
  carries it, and the store accepted that write. \<open>handle\<close> as a whole keeps the protocol.
\<close>

definition committed :: "run_env \<Rightarrow> agent_run_result \<Rightarrow> run_state \<Rightarrow> bool" where
  "committed env result st \<longleftrightarrow>
     run_path Fresh (rn_log st) = Some Closed \<and> rn_committed_result st = Some result
     \<and> (\<exists>pre c. rn_log st = pre @ [FinalizeRun c] \<and> fr_terminal_result c = Some result
          \<and> ev_finalize_run env (length pre) = Replies APPLIED \<and> uncommitted env pre)"

text \<open>Without a result: no terminal write was accepted, or a last one that closed the Run as FAILED.\<close>

definition not_completed :: "run_env \<Rightarrow> run_action list \<Rightarrow> bool" where
  "not_completed env log \<longleftrightarrow>
     uncommitted env log
     \<or> (\<exists>pre c. log = pre @ [FinalizeRun c] \<and> ar_status (fr_terminal_record c) = RUN_FAILED
          \<and> fr_terminal_result c = None \<and> uncommitted env pre)"

subsection \<open>The terminal commit point\<close>

definition closes_from :: "run_phase \<Rightarrow> finalize_run_command \<Rightarrow> bool" where
  "closes_from p c \<longleftrightarrow> p \<notin> {Fresh, Inserted} \<and> new_finalize_run_command c = Inr c \<and> final_records_valid c
     \<and> (p = Closed \<longrightarrow> ar_status (fr_terminal_record c) = RUN_FAILED \<and> fr_terminal_result c = None)"

lemma finalize_logged:
  assumes "run_at env p st" "closes_from p c"
  shows "run_path Fresh (rn_log st @ [FinalizeRun c]) = Some (close_phase p)"
  using assms by (simp add: run_at_def run_path_append phase_simps closes_from_def)

lemma finalize_refused:
  assumes "run_at env p st" "closes_from p c" "p \<noteq> Closed"
    and "ev_finalize_run env (length (rn_log st)) \<noteq> Replies APPLIED"
  shows "run_at env Closed (st\<lparr>rn_log := rn_log st @ [FinalizeRun c]\<rparr>)"
  using finalize_logged[OF assms(1,2)] assms by (auto simp: run_at_def uncommitted_snoc close_phase_def closes_from_def)

lemma commit_commits:
  assumes p: "tracing p" and result: "fr_terminal_result given = Some result" and valid: "final_records_valid given"
  shows "ensures (run_at env p) (commit_run env given task result)
    (\<lambda>r st. r = result \<and> committed env result st) (run_lost env)"
  unfolding commit_run_def
proof (rule at_construct)
  fix c assume "new_finalize_run_command given = Inr c"
  then have "c = given" by (rule finalize_run.unchanged)
  with \<open>new_finalize_run_command given = Inr c\<close> p result valid
  have c: "closes_from p c" "fr_terminal_result c = Some result" "close_phase p = Closed" "p \<noteq> Closed"
    by (auto simp: closes_from_def close_phase_def)
  show "ensures (run_at env p) (exec_bind (run_ask (FinalizeRun c) (ev_finalize_run env)) (\<lambda>write_result.
      exec_bind (exec_raise_if (write_result \<noteq> APPLIED) (RunExecutionError ''Run finalization conflict'')) (\<lambda>_.
      exec_bind (exec_modify (\<lambda>st. st\<lparr>
          rn_result_task := (case task of None \<Rightarrow> rn_result_task st | Some t \<Rightarrow> Some t),
          rn_committed_result := Some result, rn_running_run := None\<rparr>)) (\<lambda>_. exec_return result))))
     (\<lambda>r st. r = result \<and> committed env result st) (run_lost env)" (is "ensures _ ?m _ _")
  proof (rule ensuresI)
    fix st r st' assume h: "run_at env p st" "?m st = (r, st')"
    show "case r of Inl e \<Rightarrow> run_lost env e st' | Inr r' \<Rightarrow> r' = result \<and> committed env result st'"
    proof (cases "ev_finalize_run env (length (rn_log st)) = Replies APPLIED")
      case True
      with h finalize_logged[OF h(1) c(1)] c(2,3) show ?thesis
        by (auto simp: run_ask_eq exec_bind_def exec_raise_if_def exec_modify_def exec_return_def committed_def run_at_def)
    next
      case False
      with h finalize_refused[OF h(1) c(1,4) False] show ?thesis
        by (auto simp: run_ask_eq exec_bind_def exec_raise_if_def exec_raise_def split: port_reply.splits if_splits
            intro: run_lostI)
    qed
  qed
qed

lemma mapped_result_valid: "map_result run_id stop m = Inr r \<Longrightarrow> new_agent_run_result r = Inr r"
  unfolding map_result_def by (auto dest: run_result.revalidates split: if_splits option.splits)

lemmas finishing_revalidates = agent_run.revalidates run_link.revalidates apply_transition.revalidates message.revalidates
  trace.revalidates

lemma finish_without_task_commits:
  assumes "tracing p"
  shows "ensures (run_at env p) (finish_without_task env running conversation stop)
    (\<lambda>r st. committed env r st) (run_lost env)"
  unfolding finish_without_task_def using assms
  by (intro at_construct[where r = "map_result _ _ _"] at_plains at_trace at_now at_uuid ensures_mono[OF commit_commits])
    (auto simp: final_records_valid_def dest: mapped_result_valid)

lemma finish_with_task_commits:
  assumes "tracing p"
  shows "ensures (run_at env p) (finish_with_task env running conversation task unit link args)
    (\<lambda>r st. committed env r st) (run_lost env)"
  unfolding finish_with_task_def Let_def using assms
  by (intro at_construct at_trace at_now at_uuid ensures_mono[OF commit_commits])
    (auto simp: final_records_valid_def dest: mapped_result_valid finishing_revalidates)

subsection \<open>The body\<close>

lemma act_commits:
  "ensures (run_at env Started) (act_on_decision env opened call_id manifest reduced_at d)
    (\<lambda>r st. committed env r st) (run_lost env)"
  unfolding act_on_decision_def Let_def
proof (rule at_bind[OF keeps_store_graph], rule at_bind[OF keeps_revalidate], rule at_bind[OF keeps_load],
    rule ensures_pair, rule ensures_bind[OF keeps_decide])
  fix link move task unit and gate :: gate_decision
  let ?graph = "rd_task_graph d" and ?b = "gd_decision gate = GateAccept"
  let ?read = "if ?b then Called else Decided False"
  have "keeps env (Decided ?b)
     (if gd_decision gate = GateReject
      then exec_return (ended_read STOP_GATE_REJECTED BLOCKED (gd_gate_decision_id gate))
      else exec_bind (authorized_read env opened call_id manifest (ig_input_binding ?graph) gate task unit)
        (\<lambda>execution. conclude_read env opened task unit execution)) ?read"
  proof (rule ensures_if)
    assume "gd_decision gate \<noteq> GateReject"
    then have b: "?b = True" by (cases "gd_decision gate") simp_all
    show "keeps env (Decided ?b) (exec_bind (authorized_read env opened call_id manifest (ig_input_binding ?graph) gate task unit)
        (\<lambda>execution. conclude_read env opened task unit execution)) ?read"
      unfolding b if_True by (rule at_bind[OF keeps_read]) (rule keeps_conclude)
  next
    assume "gd_decision gate = GateReject"
    then have b: "?b = False" by simp
    show "keeps env (Decided ?b) (exec_return (ended_read STOP_GATE_REJECTED BLOCKED (gd_gate_decision_id gate))) ?read"
      unfolding b if_False by (rule at_return)
  qed
  then show "ensures (run_at env (Decided ?b))
     (exec_bind (if gd_decision gate = GateReject
      then exec_return (ended_read STOP_GATE_REJECTED BLOCKED (gd_gate_decision_id gate))
      else exec_bind (authorized_read env opened call_id manifest (ig_input_binding ?graph) gate task unit)
        (\<lambda>execution. conclude_read env opened task unit execution))
      (finish_with_task env (on_running_run opened) (on_conversation opened) task unit link))
     (\<lambda>r st. committed env r st) (run_lost env)"
    by (rule at_bind) (rule finish_with_task_commits, simp)
qed

lemma body_commits: "ensures (run_at env Fresh) (handle_body env given) (\<lambda>r st. committed env r st) (run_lost env)"
  unfolding handle_body_def Let_def
  by (rule at_bind[OF keeps_open_run], rule at_bind[OF keeps_understand])
    (auto intro!: finish_without_task_commits act_commits at_bind[OF keeps_reduce] split: proposal.splits option.splits prod.splits)

subsection \<open>Closing a failed Run\<close>

text \<open>While closing, the log may only grow by a Task reload and one terminal write without a result.\<close>

definition closing :: "run_env \<Rightarrow> run_state \<Rightarrow> bool" where
  "closing env st \<longleftrightarrow> rn_committed_result st = None \<and> (\<exists>p. run_path Fresh (rn_log st) = Some p) \<and> not_completed env (rn_log st)"

lemma closing_at: "run_at env p st \<Longrightarrow> closing env st"
  by (auto simp: closing_def run_at_def not_completed_def)

text \<open>Before the write the Run is at a phase in which closing it is allowed.\<close>

abbreviation closable :: "run_phase \<Rightarrow> bool" where
  "closable p \<equiv> p \<notin> {Fresh, Inserted, Reclosed}"

lemma at_reload:
  assumes "p \<notin> {Fresh, Inserted, Started, Reclosed}"
  shows "keeps env p (reload_result_task env' task) p"
proof -
  have step: "phase_step p (LoadTask owner t) = Some p" for owner t using assms by (simp add: phase_simps)
  have reload: "keeps env p (exec_try (run_ask (LoadTask owner t) (ev_task env'))) p" for owner t
    using ensuresD[OF keeps_ask[OF step]] unfolding ensures_def exec_try_def
    by (auto simp: run_ask_eq run_at_log[OF _ step])
  show ?thesis unfolding reload_result_task_def
    by (intro at_get ensures_option at_return at_bind[OF reload])
      (auto intro!: at_return at_modify simp: run_at_def split: sum.splits option.splits)
qed

text \<open>The links a failed Run is closed with were validated.\<close>

abbreviation links_valid :: "run_task_link_record list \<times> run_task_link_record list \<times> task_record list \<Rightarrow> bool" where
  "links_valid links \<equiv> list_all (\<lambda>l. new_run_task_link_record l = Inr l) (fst (snd links))"

lemma at_failure_links:
  "closable p \<Longrightarrow> ensures (run_at env p) (failure_links env') (\<lambda>links st. run_at env p st \<and> links_valid links) (run_lost env)"
proof (cases "p = Started")
  case True
  have "failure_links env' st = (Inr ([], [], []), st)" if "run_at env Started st" for st
    using that by (simp add: failure_links_def exec_bind_def exec_get_def exec_return_def run_at_def)
  with True show ?thesis by (simp add: ensures_def)
next
  case False
  assume "closable p"
  with False show ?thesis
    unfolding failure_links_def
    by (auto intro!: at_get at_bind[OF at_reload] at_plain[OF run_link.plain_record_axioms] ensures_return
        split: option.splits prod.splits)
qed

lemma failed_write_closes:
  assumes "closable p" "links_valid links"
  shows "ensures (run_at env p) (write_failed_run env running links) (\<lambda>_ st. closing env st) (\<lambda>_ st. closing env st)"
  unfolding write_failed_run_def
proof (rule at_now, rule ensuresI)
  fix t st r st'
  let ?attempt = "\<lambda>terminal. exec_bind (exec_try (exec_bind (run_construct (new_finalize_run_command
      (failed_command running terminal links))) (\<lambda>command. run_ask (FinalizeRun command) (ev_finalize_run env))))
      (\<lambda>_. exec_return ())"
  assume h: "run_at env p st"
    and m: "exec_bind (run_construct (new_agent_run_record (failed_run running t))) ?attempt st = (r, st')"
  have "closing env st'"
  proof (cases "new_agent_run_record (failed_run running t)")
    case (Inl e)
    with h m show ?thesis by (auto simp: run_construct_def exec_bind_def exec_raise_def intro: closing_at)
  next
    case (Inr terminal)
    then have same: "terminal = failed_run running t" by (rule agent_run.unchanged)
    note built = Inr
    from same Inr m have m: "?attempt (failed_run running t) st = (r, st')" by (simp add: run_construct_def)
    let ?c = "failed_command running (failed_run running t) links"
    show ?thesis
    proof (cases "new_finalize_run_command ?c")
      case (Inl e)
      with h m show ?thesis
        by (auto simp: exec_bind_def exec_try_def run_construct_def exec_raise_def exec_return_def intro: closing_at)
    next
      case (Inr c)
      then have c: "c = ?c" "new_finalize_run_command c = Inr c"
        using finalize_run.unchanged finalize_run.revalidates by blast+
      have "closes_from p c"
        using assms built unfolding c(1) same
        by (cases links) (use c in \<open>simp add: closes_from_def final_records_valid_def failed_command_def failed_run_def\<close>)
      note logged = finalize_logged[OF h this]
      have log: "rn_log st' = rn_log st @ [FinalizeRun c]" "rn_committed_result st' = rn_committed_result st"
        using m Inr by (auto simp: exec_bind_def exec_try_def run_construct_def exec_return_def run_ask_eq)
      have "not_completed env (rn_log st')"
        using h by (auto simp: log not_completed_def run_at_def c(1) failed_run_def failed_command_def split: prod.splits)
      with log logged h show ?thesis by (auto simp: closing_def run_at_def)
    qed
  qed
  then show "case r of Inl e \<Rightarrow> closing env st' | Inr x \<Rightarrow> closing env st'" by (simp split: sum.splits)
qed

lemma failure_closes:
  "ensures (\<lambda>st. \<exists>p. run_at env p st) (finalize_failed_run_after_error env)
     (\<lambda>_ st. closing env st) (\<lambda>_ st. closing env st)"
proof (rule ensuresI)
  fix st r st' assume "\<exists>p. run_at env p st" and m: "finalize_failed_run_after_error env st = (r, st')"
  then obtain p where p: "run_at env p st" by blast
  show "case r of Inl e \<Rightarrow> closing env st' | Inr x \<Rightarrow> closing env st'"
  proof (cases "rn_running_run st = None \<or> (rn_active_link st = None) \<noteq> (rn_result_task st = None)")
    case True
    then have "st' = st" "r = Inr ()"
      using m by (auto simp: finalize_failed_run_after_error_def exec_bind_def exec_get_def exec_return_def split: option.splits)
    with p show ?thesis by (simp add: closing_at)
  next
    case False
    then obtain running where r: "rn_running_run st = Some running"
      and go: "exec_bind (failure_links env) (write_failed_run env running) st = (r, st')"
      using m by (auto simp: finalize_failed_run_after_error_def exec_bind_def exec_get_def split: option.splits if_splits)
    from r p have c: "closable p" by (auto simp: run_at_def)
    have links: "ensures (run_at env p) (failure_links env) (\<lambda>links st. run_at env p st \<and> links_valid links) (\<lambda>_ st. closing env st)"
      by (rule ensures_mono[OF at_failure_links[OF c]]) (auto simp: run_lost_def intro: closing_at)
    have wrote: "ensures (\<lambda>st. run_at env p st \<and> links_valid links) (write_failed_run env running links)
        (\<lambda>_ st. closing env st) (\<lambda>_ st. closing env st)" for links
    proof (cases "links_valid links")
      case True
      show ?thesis by (rule ensures_mono[OF failed_write_closes[OF c True]]) simp_all
    qed (simp add: ensures_def)
    from ensuresD[OF ensures_bind[OF links wrote] p go] show ?thesis .
  qed
qed

subsection \<open>handle\<close>

definition handled :: "run_env \<Rightarrow> service_error + agent_run_result \<Rightarrow> run_state \<Rightarrow> bool" where
  "handled env r st \<longleftrightarrow> (case r of Inl _ \<Rightarrow> closing env st | Inr result \<Rightarrow> committed env result st)"

lemma initial_at: "run_at env Fresh initial_run_state"
  by (simp add: run_at_def initial_run_state_def uncommitted_def)

lemma handle_handled: "handled env (fst (handle env given initial_run_state)) (snd (handle env given initial_run_state))"
proof -
  obtain r st where body: "handle_body env given initial_run_state = (r, st)" by (cases "handle_body env given initial_run_state")
  note ended = ensuresD[OF body_commits initial_at body]
  show ?thesis
  proof (cases r)
    case (Inr result)
    with ended body show ?thesis
      by (simp add: handle_def handled_def exec_try_def exec_bind_def exec_get_def exec_return_def)
  next
    case (Inl e)
    with ended have lost: "\<exists>p. run_at env p st" by (simp add: run_lost_def)
    then have none: "rn_committed_result st = None" by (auto simp: run_at_def)
    obtain r' st' where close: "finalize_failed_run_after_error env st = (r', st')"
      by (cases "finalize_failed_run_after_error env st")
    from ensuresD[OF failure_closes lost close] have "closing env st'" by (simp split: sum.splits)
    with Inl body none close show ?thesis
      by (cases r') (simp_all add: handle_def handled_def exec_try_def exec_bind_def exec_get_def exec_return_def exec_raise_def)
  qed
qed
end
