(* ===== verification/Run_Reads.thy ===== *)
theory Run_Reads
  imports Run_Closing Reducer_Properties Executor_Facts
begin

section \<open>Which orders a Run reads\<close>

text \<open>
  Following one order query back: the executor asks for what the command authorizes, the command
  carries the bound value of the Task graph, and the graph was reduced from a claim the model
  quoted from the customer's own message.
\<close>

definition claimed_order :: "pystr \<Rightarrow> request_output \<Rightarrow> pystr \<Rightarrow> bool" where
  "claimed_order message output order_id \<longleftrightarrow>
     (\<exists>c i quote. c \<in> set (ro_task_delta_candidates output) \<and> tdc_input_candidates c = [i]
        \<and> normalize_order_id (JStr (ic_candidate_value i)) = Inr order_id
        \<and> py_in quote message \<and> quote \<noteq> message \<and> source_quote_contains_exact_order_id quote order_id)"

definition read_claimed :: "run_env \<Rightarrow> agent_run_command pyobj \<Rightarrow> get_order_query \<Rightarrow> bool" where
  "read_claimed env given q \<longleftrightarrow>
     (\<exists>command extra customer cextra output oextra.
        given = Obj command extra \<and> rq_customer_context command = Obj customer cextra
        \<and> ev_propose env = Proposes (Obj output oextra)
        \<and> gq_customer_id q = cc_customer_id customer \<and> claimed_order (rq_message command) output (gq_order_id q))"

subsection \<open>The reducer\<close>

lemma routable_claim:
  assumes "validate_and_reduce_initial_request_v2 serialise vi (Obj output extra) [m \<mapsto> message] cust record_id given move_ref now
      = Inr (Routable d)"
  shows "claimed_order message output (ib_normalized_value (ig_input_binding (rd_task_graph d)))"
proof -
  from assms obtain ri ro customer allocs ctx candidates where vo: "Obj output extra = Obj ro []"
    and ok: "reduction_ok [m \<mapsto> message] ri ro customer record_id allocs move_ref now ctx candidates"
    and d: "Routable d = spec_decision [m \<mapsto> message] ri ro customer record_id (dict_by al_candidate_ref allocs) move_ref now ctx candidates"
    by (rule reducer_InrE)
  have "rd_task_graph d \<in> set (decision_graphs (Routable d))" by (simp add: decision_graphs_def)
  then obtain c where c: "c \<in> set (accepted_of ro)"
    and g: "rd_task_graph d = graph_of (ro_message_ref ro) customer now (alloc_for (dict_by al_candidate_ref allocs) c) c (order_id_of c)"
    by (auto simp: d spec_decision_parts(1) elim: graphs_reduced_member)
  from c have mem: "c \<in> set (ro_task_delta_candidates ro)" and acc: "candidate_rejection_reason_v2 c ro = None"
    by (simp_all add: accepted_of_def)
  from rejection_None_normalizes[OF acc] obtain i where i: "tdc_input_candidates c = [i]"
    "normalize_order_id (JStr (ic_candidate_value i)) = Inr (order_id_of c)" by blast
  have "list_all2 (delta_certified [m \<mapsto> message]) (ro_task_delta_candidates ro) candidates"
    using ok projection_ok_certified(2) unfolding reduction_ok_def by blast
  with mem obtain dc where "delta_certified [m \<mapsto> message] c dc"
    by (metis in_set_conv_nth list_all2_conv_all_nth)
  with i(1) obtain di where di: "input_certified [m \<mapsto> message] i di"
    by (auto simp: delta_certified_def list_all2_Cons1)
  let ?quote = "take (dic_source_span_end_exclusive di - dic_source_span_start di) (drop (dic_source_span_start di) message)"
  have q: "?quote \<noteq> message" "value_in_quote ?quote (ic_candidate_value i)"
    using di by (auto simp: input_certified_def span_certified_def Let_def split: if_splits)
  have "py_in ?quote message"
    using py_in_append_middle[of ?quote "take (dic_source_span_start di) message"
        "drop (dic_source_span_end_exclusive di - dic_source_span_start di) (drop (dic_source_span_start di) message)"]
    by (metis append_take_drop_id)
  moreover have "source_quote_contains_exact_order_id ?quote (order_id_of c)"
    using q(2) i(2) by (simp add: value_in_quote_def)
  moreover have "output = ro" using vo by simp
  moreover have "ib_normalized_value (ig_input_binding (rd_task_graph d)) = order_id_of c" by (simp add: g graph_of_def)
  ultimately show ?thesis unfolding claimed_order_def using mem i q(1)
    by (intro exI[of _ c] exI[of _ i] exI[of _ ?quote]) simp
qed

subsection \<open>Computations with a value to remember\<close>

text \<open>\<open>asks C m V\<close>: every order \<open>m\<close> asks for satisfies \<open>C\<close>, and what it returns satisfies \<open>V\<close>.\<close>

definition order_asked :: "(get_order_query \<Rightarrow> bool) \<Rightarrow> run_action \<Rightarrow> bool" where
  "order_asked C a \<longleftrightarrow> (case a of ExecutorAction x \<Rightarrow> (case x of GetOrder q \<Rightarrow> C q | _ \<Rightarrow> True) | _ \<Rightarrow> True)"

definition asks :: "(get_order_query \<Rightarrow> bool) \<Rightarrow> 'a run \<Rightarrow> ('a \<Rightarrow> bool) \<Rightarrow> bool" where
  "asks C m V \<longleftrightarrow> appends_by rn_log m (\<lambda>r l. list_all (order_asked C) l \<and> (\<forall>x. r = Inr x \<longrightarrow> V x))"

lemma asks_bind:
  assumes "asks C m V" "\<And>x. V x \<Longrightarrow> asks C (f x) W"
  shows "asks C (exec_bind m f) W"
  using assms(1) unfolding asks_def
  by (rule appends_bind) (auto simp: asks_def elim!: appends_mono dest!: assms(2))

lemma asks_mono: "asks C m V \<Longrightarrow> (\<And>x. V x \<Longrightarrow> W x) \<Longrightarrow> asks C m W"
  unfolding asks_def by (erule appends_mono) blast

lemma asks_return: "V x \<Longrightarrow> asks C (exec_return x) V"
  by (simp add: asks_def appends_by_def exec_return_def)

lemma asks_raise: "asks C (exec_raise e) V"
  by (simp add: asks_def appends_by_def exec_raise_def)

lemma asks_now: "(\<And>t. asks C (f t) V) \<Longrightarrow> asks C (exec_bind (run_now env) f) V"
  by (rule asks_bind[where V = "\<lambda>_. True"]) (simp_all add: asks_def appends_by_def run_now_def)

lemma asks_uuid: "(\<And>t. asks C (f t) V) \<Longrightarrow> asks C (exec_bind (run_uuid env) f) V"
  by (rule asks_bind[where V = "\<lambda>_. True"]) (simp_all add: asks_def appends_by_def run_uuid_def)

lemma asks_get: "(\<And>t. asks C (f t) V) \<Longrightarrow> asks C (exec_bind (exec_get g) f) V"
  by (rule asks_bind[where V = "\<lambda>_. True"]) (simp_all add: asks_def appends_by_def exec_get_def)

lemma asks_modify: "(\<And>st. rn_log (g st) = rn_log st) \<Longrightarrow> asks C (f ()) V \<Longrightarrow> asks C (exec_bind (exec_modify g) f) V"
  by (rule asks_bind[where V = "\<lambda>_. True"]) (simp_all add: asks_def appends_by_def exec_modify_def)

lemma asks_construct: "(\<And>x. r = Inr x \<Longrightarrow> asks C (f x) V) \<Longrightarrow> asks C (exec_bind (run_construct r) f) V"
  by (rule asks_bind[where V = "\<lambda>x. r = Inr x"])
    (auto simp: asks_def appends_by_def run_construct_def exec_raise_def exec_return_def split: sum.splits)

lemma asks_processing: "(\<And>x. r = Inr x \<Longrightarrow> asks C (f x) V) \<Longrightarrow> asks C (exec_bind (run_processing r) f) V"
  by (rule asks_bind[where V = "\<lambda>x. r = Inr x"])
    (auto simp: asks_def appends_by_def run_processing_def exec_raise_def exec_return_def split: sum.splits)

lemma asks_raise_if: "(\<not> c \<Longrightarrow> asks C (f ()) V) \<Longrightarrow> asks C (exec_bind (exec_raise_if c e) f) V"
  by (rule asks_bind[where V = "\<lambda>_. \<not> c"])
    (auto simp: asks_def appends_by_def exec_raise_if_def exec_raise_def exec_return_def)

lemma asks_ask_alone: "order_asked C a \<Longrightarrow> asks C (run_ask a reply) (\<lambda>_. True)"
  by (auto simp: asks_def appends_by_def run_ask_eq)

lemma asks_ask: "order_asked C a \<Longrightarrow> (\<And>x. asks C (f x) V) \<Longrightarrow> asks C (exec_bind (run_ask a reply) f) V"
  by (rule asks_bind[OF asks_ask_alone])

lemma asks_tell: "order_asked C a \<Longrightarrow> asks C (f ()) V \<Longrightarrow> asks C (exec_bind (run_tell env a) f) V"
  unfolding run_tell_def by (rule asks_ask) simp_all

lemma asks_tell_alone: "order_asked C a \<Longrightarrow> asks C (run_tell env a) (\<lambda>_. True)"
  unfolding run_tell_def by (rule asks_ask_alone)

lemma asks_provider:
  assumes "order_asked C a" "\<And>x. x = reply \<Longrightarrow> asks C (f x) V"
  shows "asks C (exec_bind (run_provider a reply) f) V"
proof (rule asks_bind)
  show "asks C (run_provider a reply) (\<lambda>x. x = reply)"
    using assms(1) by (auto simp: asks_def appends_by_def run_provider_def run_log_def exec_bind_def exec_modify_def
        exec_return_def exec_raise_def split: provider_reply.splits)
qed (rule assms(2))

lemma asks_try: "asks C m (\<lambda>_. True) \<Longrightarrow> (\<And>r. asks C (f r) V) \<Longrightarrow> asks C (exec_bind (exec_try m) f) V"
  by (rule asks_bind[where V = "\<lambda>_. True"]) (auto simp: asks_def appends_by_def exec_try_def split_beta)

lemma asks_if: "(c \<Longrightarrow> asks C m V) \<Longrightarrow> (\<not> c \<Longrightarrow> asks C m' V) \<Longrightarrow> asks C (if c then m else m') V"
  by simp

lemma order_asked_simps [simp]: "(\<And>x. a \<noteq> ExecutorAction x) \<Longrightarrow> order_asked C a"
  by (cases a) (auto simp: order_asked_def)

lemmas asks_rules = asks_now asks_uuid asks_get asks_construct asks_processing asks_raise_if asks_raise asks_if

subsection \<open>Stages that ask for no order\<close>

lemma asks_trace_alone: "asks C (append_trace env t run_id occurred f) (\<lambda>_. True)"
  unfolding append_trace_def by (cases occurred) (auto intro!: asks_rules asks_tell_alone)

lemma asks_trace: "asks C (g ()) V \<Longrightarrow> asks C (exec_bind (append_trace env t run_id occurred f) g) V"
  by (rule asks_bind[OF asks_trace_alone]) simp

lemma asks_manifest: "asks C (save_manifest env run_id call_id purpose message_id task ref) (\<lambda>_. True)"
  unfolding save_manifest_def by (intro asks_rules asks_tell asks_trace asks_return) simp_all

lemma asks_tool_trace: "asks C (append_tool_trace env execution) (\<lambda>_. True)"
  unfolding append_tool_trace_def Let_def
  by (auto split: option.splits intro!: asks_trace asks_trace_alone asks_raise)

lemma asks_open_conversation:
  "asks C (open_conversation env owner m) (\<lambda>(now, conversation, user_message). mr_content user_message = m)"
  unfolding open_conversation_def
  by (intro asks_rules asks_tell asks_ask asks_return) (auto dest: message.unchanged)

lemma asks_start_run: "asks C (start_run env conversation now) (\<lambda>_. True)"
  unfolding start_run_def by (intro asks_rules asks_ask asks_modify asks_return) simp_all

definition opened_for :: "agent_run_command pyobj \<Rightarrow> opened_run \<Rightarrow> bool" where
  "opened_for given opened \<longleftrightarrow>
     (\<exists>command extra customer cextra. given = Obj command extra \<and> rq_customer_context command = Obj customer cextra
        \<and> on_customer_context opened = rq_customer_context command
        \<and> os_customer_id (on_owner_scope opened) = cc_customer_id customer
        \<and> mr_content (on_message opened) = rq_message command)"

lemma scope_customer: "scope_from_customer_context c = Inr owner \<Longrightarrow> os_customer_id owner = cc_customer_id c"
  by (auto simp: scope_from_customer_context_def new_trusted_owner_scope_def construct_Inr_iff)

lemma asks_open_run: "asks C (open_run env given) (opened_for given)"
  unfolding open_run_def
  by (auto simp: opened_for_def intro!: asks_rules asks_tell asks_ask asks_modify asks_return
      asks_bind[OF asks_open_conversation] asks_bind[OF asks_start_run] dest: scope_customer split: pyobj.splits)

lemma asks_understand:
  "asks C (understand_request env opened) (\<lambda>(_, _, _, p). \<forall>output. p = Proposed output \<longrightarrow> ev_propose env = Proposes output)"
  unfolding understand_request_def Let_def
  by (intro asks_trace asks_rules asks_bind[OF asks_manifest] asks_provider)
    (auto intro!: asks_return asks_raise split: provider_reply.splits bool.splits)

lemma asks_allocate: "asks C (allocate_identities env candidates) (\<lambda>_. True)"
  by (induction candidates) (auto intro!: asks_rules asks_return asks_bind[where V = "\<lambda>_. True"])

lemma asks_reduce:
  "asks C (reduce_request env opened request output) (\<lambda>(_, reduced). \<forall>d. reduced = Some d \<longrightarrow>
     (\<exists>o' extra. output = Obj o' extra
        \<and> claimed_order (mr_content (on_message opened)) o' (ib_normalized_value (ig_input_binding (rd_task_graph d)))))"
  unfolding reduce_request_def
  by (intro asks_now asks_uuid)
    (auto intro!: asks_raise asks_uuid asks_bind[OF asks_allocate] asks_return dest: routable_claim
      split: pyobj.splits sum.splits ru_error.splits initial_decision.splits)

lemma asks_store_graph: "asks C (store_graph env opened reduced_at d) (\<lambda>_. True)"
  unfolding store_graph_def Let_def by (intro asks_rules asks_ask asks_modify asks_return) simp_all

lemma asks_revalidate: "asks C (revalidate_move env run_id call_id manifest d) (\<lambda>_. True)"
  unfolding revalidate_move_def append_initial_decision_trace_def Let_def
  by (intro asks_rules asks_trace asks_return asks_bind[where V = "\<lambda>_. True"] asks_trace_alone) simp_all

lemma asks_load: "asks C (load_current_graph env owner run_id graph) (\<lambda>_. True)"
  unfolding load_current_graph_def
  by (auto intro!: asks_tell asks_ask asks_modify asks_return asks_raise split: option.splits)

lemma asks_decide: "asks C (decide_move env opened call_id manifest d move task unit) (\<lambda>_. True)"
  unfolding decide_move_def by (intro asks_rules asks_tell asks_trace asks_return) simp_all

lemma asks_budget: "asks C (remaining_run_time_budget_ms env run) (\<lambda>_. True)"
  unfolding remaining_run_time_budget_ms_def Let_def by (intro asks_rules asks_return) simp

lemma asks_present: "asks C (present_order env opened task unit call_id observation) (\<lambda>_. True)"
  unfolding present_order_def Let_def
  by (auto intro!: asks_trace asks_uuid asks_bind[OF asks_manifest] asks_provider asks_return asks_raise
      split: provider_reply.splits bool.splits prod.splits option.splits)

lemma asks_conclude: "asks C (conclude_read env opened task unit execution) (\<lambda>_. True)"
  unfolding conclude_read_def
  by (auto intro!: asks_if asks_uuid asks_return asks_present split: option.splits prod.splits)

lemma asks_commit: "asks C (commit_run env given task result) (\<lambda>_. True)"
  unfolding commit_run_def by (intro asks_rules asks_ask asks_modify asks_return) simp_all

lemma asks_finish_without: "asks C (finish_without_task env running conversation stop) (\<lambda>_. True)"
  unfolding finish_without_task_def by (intro asks_rules asks_trace asks_commit)

lemma asks_finish_with: "asks C (finish_with_task env running conversation task unit link args) (\<lambda>_. True)"
  unfolding finish_with_task_def Let_def by (intro asks_rules asks_trace asks_commit)

lemma asks_reload: "asks C (reload_result_task env t) (\<lambda>_. True)"
  unfolding reload_result_task_def
  by (intro asks_get) (auto intro!: asks_return asks_try asks_ask_alone asks_modify split: option.splits sum.splits)

lemma asks_failure: "asks C (finalize_failed_run_after_error env) (\<lambda>_. True)"
proof -
  have links: "asks C (failure_links env) (\<lambda>_. True)"
    unfolding failure_links_def
    by (intro asks_get) (auto intro!: asks_return asks_construct asks_bind[OF asks_reload] split: option.splits)
  have failed: "asks C (write_failed_run env running l) (\<lambda>_. True)" for running l
    unfolding write_failed_run_def by (intro asks_rules asks_try asks_ask_alone asks_return) simp_all
  show ?thesis
    unfolding finalize_failed_run_after_error_def
    by (intro asks_get) (auto intro!: asks_return asks_bind[OF links] failed split: option.splits)
qed

subsection \<open>The read\<close>

lemma protocol_query:
  assumes "read_protocol owner order_id log" "GetOrder q \<in> set log"
  shows "gq_customer_id q = os_customer_id owner \<and> gq_order_id q = order_id"
proof -
  have no: "list_all no_order_call rest \<Longrightarrow> GetOrder q \<notin> set rest" for rest by (auto simp: list_all_iff)
  obtain a log1 where 1: "log = a # log1" using assms(2) by (cases log) auto
  with assms obtain created where a: "a = InsertToolCall created" by (cases a) (auto simp: read_protocol_def)
  with 1 assms obtain b log2 where 2: "log1 = b # log2" by (cases log1) auto
  with a 1 assms obtain c' r t where b: "b = StartToolCall c' r t" by (cases b) (auto simp: read_protocol_def)
  with 1 2 a assms obtain c rest where 3: "log2 = c # rest" by (cases log2) auto
  with 1 2 a b assms(1) obtain q' where c: "c = GetOrder q'" by (cases c) (auto simp: read_protocol_def)
  with 1 2 3 a b assms no show ?thesis by (auto simp: read_protocol_def)
qed

lemma executed_query:
  assumes "execution_post args r log" "GetOrder q \<in> set log"
  shows "\<exists>owner ox command cx order_id. xa_owner_scope args = Obj owner ox \<and> xa_authorized_command args = Obj command cx
    \<and> map_of (ac_validated_arguments command) (str ''order_id'') = Some (JStr order_id)
    \<and> gq_customer_id q = os_customer_id owner \<and> gq_order_id q = order_id"
  using assms by (auto simp: execution_post_def split: pyobj.splits dest: protocol_query)

lemma asks_executor:
  assumes "\<And>q owner ox command cx order_id. xa_owner_scope args = Obj owner ox \<Longrightarrow> xa_authorized_command args = Obj command cx
    \<Longrightarrow> map_of (ac_validated_arguments command) (str ''order_id'') = Some (JStr order_id)
    \<Longrightarrow> gq_customer_id q = os_customer_id owner \<Longrightarrow> gq_order_id q = order_id \<Longrightarrow> C q"
  shows "asks C (run_executor env args) (\<lambda>_. True)"
  unfolding asks_def appends_by_def
proof
  fix st :: run_state
  obtain r xs where x: "execute_get_order (executor_env_at env st) args initial_exec_state = (r, xs)"
    by (cases "execute_get_order (executor_env_at env st) args initial_exec_state")
  have "execution_post args r (xs_log xs)"
    using execute_from_start[of args "executor_env_at env st"] x by simp
  then have "list_all (order_asked C) (map ExecutorAction (xs_log xs))"
    using assms by (auto simp: list_all_iff order_asked_def split: port_action.splits dest!: executed_query)
  then show "\<exists>added. rn_log (snd (run_executor env args st)) = rn_log st @ added
      \<and> list_all (order_asked C) added \<and> (\<forall>x. fst (run_executor env args st) = Inr x \<longrightarrow> True)"
    by (simp add: run_executor_def x)
qed

text \<open>The command's arguments are the bound value.\<close>

lemma authorized_order_id:
  assumes "new_authorized_tool_command c = Inr a" "ac_validated_arguments c = authorized_arguments binding"
  shows "map_of (ac_validated_arguments a) (str ''order_id'') = Some (JStr (ib_normalized_value binding))"
proof -
  obtain copied where "validate_arguments (authorized_arguments binding) = Inr copied"
    "ac_validated_arguments a = copied"
    using assms by (auto simp: new_authorized_tool_command_def construct_Inr_iff Let_def is_ok_def ok_or_def split: sum.splits)
  then show ?thesis
    by (simp add: validate_arguments_def res_bind_Inr_iff authorized_arguments_def thaw_object_def dict_of_items_distinct)
      (elim conjE, drule sym, simp)
qed

lemma asks_read:
  assumes "\<And>q. gq_customer_id q = os_customer_id (on_owner_scope opened) \<Longrightarrow> gq_order_id q = ib_normalized_value binding \<Longrightarrow> C q"
  shows "asks C (authorized_read env opened call_id manifest binding gate task unit) (\<lambda>_. True)"
  unfolding authorized_read_def
  by (auto intro!: asks_raise asks_uuid asks_construct asks_bind[OF asks_budget] asks_raise_if asks_return
      asks_bind[OF asks_executor] asks_bind[OF asks_tool_trace] assms dest!: authorized_order_id split: option.splits)

subsection \<open>The whole Run\<close>

lemma asks_act:
  assumes "\<And>q. gq_customer_id q = os_customer_id (on_owner_scope opened)
    \<Longrightarrow> gq_order_id q = ib_normalized_value (ig_input_binding (rd_task_graph d)) \<Longrightarrow> C q"
  shows "asks C (act_on_decision env opened call_id manifest reduced_at d) (\<lambda>_. True)"
  unfolding act_on_decision_def Let_def
  by (rule asks_bind[OF asks_store_graph], rule asks_bind[OF asks_revalidate], rule asks_bind[OF asks_load])
    (auto intro!: asks_bind[OF asks_decide] asks_bind[where V = "\<lambda>_. True"] asks_return asks_finish_with asks_read assms
      asks_conclude)

lemma asks_proposed:
  assumes o: "opened_for given opened" and p: "ev_propose env = Proposes ro"
  shows "asks (read_claimed env given) (exec_bind (reduce_request env opened request ro) (\<lambda>(reduced_at, reduced).
     case reduced of
       None \<Rightarrow> finish_without_task env (on_running_run opened) (on_conversation opened) STOP_INPUT_INVALID
     | Some decision \<Rightarrow> act_on_decision env opened call_id manifest reduced_at decision)) (\<lambda>_. True)"
  by (rule asks_bind[OF asks_reduce])
    (use o p in \<open>auto intro!: asks_finish_without asks_act split: option.splits simp: read_claimed_def opened_for_def\<close>)

lemma asks_body: "asks (read_claimed env given) (handle_body env given) (\<lambda>_. True)"
  unfolding handle_body_def Let_def
  by (rule asks_bind[OF asks_open_run], rule asks_bind[OF asks_understand])
    (auto intro!: asks_finish_without asks_proposed split: proposal.splits)

lemma asks_handle: "asks (read_claimed env given) (handle env given) (\<lambda>_. True)"
  unfolding handle_def
  by (rule asks_try[OF asks_body], rule asks_get)
    (auto intro!: asks_return asks_raise asks_bind[OF asks_failure] split: sum.splits option.splits)

lemma handle_asks: "list_all (order_asked (read_claimed env given)) (rn_log (snd (handle env given initial_run_state)))"
  using asks_handle[of env given] unfolding asks_def appends_by_def
  by (metis (no_types, lifting) append_Nil initial_run_state_def run_state.select_convs(3))

end
