(* ===== verification/Run_Properties.thy ===== *)
theory Run_Properties
  imports Graph_Acceptance Run_Reads
begin

section \<open>Properties of a Run\<close>

text \<open>
  The properties of one Run over all models, stores, order services and clocks.
\<close>

subsection \<open>Protocol and commit\<close>

text \<open>C22. Whatever the model, the store, the order service, the clock and a cancellation do at every await, the
  actions of one \<open>handle\<close> follow the phases of a Run: insert, start, one Task graph, one gate decision; after an
  accepting decision one ToolCall, created once and dispatched once, then its read and the presentation; then a
  terminal write, and after it only reloads of the Task and at most one more terminal write, which closes the Run as
  FAILED without a result. Each record, command, event, query and request given to a port is accepted by its own
  validator, the ToolCall, the attempt and the Observation of the executor and the parts of the first graph and of the
  terminal write included.\<close>

theorem run_follows_protocol:
  "\<exists>p. run_path Fresh (rn_log (snd (handle env given initial_run_state))) = Some p"
  using handle_handled[of env given] by (auto simp: handled_def committed_def closing_def split: sum.splits)

text \<open>C23. The result given to the user is the committed one: \<open>handle\<close> returns a result exactly with a last action
  that is a terminal write carrying this result which the store accepted, and no earlier write was accepted;
  when it raises, no terminal write was accepted, or the last one, which closed the Run as FAILED without a result.\<close>

theorem returned_result_is_committed:
  "case handle env given initial_run_state of
     (Inr result, st) \<Rightarrow> (\<exists>pre c. rn_log st = pre @ [FinalizeRun c] \<and> fr_terminal_result c = Some result
        \<and> ev_finalize_run env (length pre) = Replies APPLIED \<and> uncommitted env pre)
   | (Inl e, st) \<Rightarrow> not_completed env (rn_log st)"
  using handle_handled[of env given] by (auto simp: handled_def committed_def closing_def split: prod.splits sum.splits)

text \<open>C24. Every order a Run reads is one the customer asked for: each query sent to the order service carries the
  authenticated customer, and the normal form of a value the model quoted from that customer's own message.\<close>

theorem order_reads_are_claimed:
  "list_all (\<lambda>a. case a of ExecutorAction (GetOrder q) \<Rightarrow> read_claimed env given q | _ \<Rightarrow> True)
     (rn_log (snd (handle env given initial_run_state)))"
  by (rule list.pred_mono_strong[OF handle_asks]) (simp add: order_asked_def split: run_action.splits port_action.splits)

end
