(* ===== verification/Run_Completion.thy ===== *)
theory Run_Completion
  imports Graph_Acceptance Run_Reads Execution_Properties
begin

section \<open>A world that answers gets a result\<close>

text \<open>
  From the stored Task graph on, no record the service builds is refused, so the Run ends with a
  result as soon as every port and the model answer: by revalidation, the gateway, the executor, the
  presentation and the terminal write.
\<close>

subsection \<open>Steps that return\<close>

text \<open>The clock has reached \<open>T\<close>; \<open>returns env T m Q\<close>: from there \<open>m\<close> returns a value with \<open>Q\<close>.\<close>

definition reached :: "run_env \<Rightarrow> int \<Rightarrow> run_state \<Rightarrow> bool" where
  "reached env T st \<longleftrightarrow> T \<le> instant (ee_clock (ev_executor env) (rn_clock st))"

definition returns :: "run_env \<Rightarrow> int \<Rightarrow> 'a run \<Rightarrow> ('a \<Rightarrow> bool) \<Rightarrow> bool" where
  "returns env T m Q \<longleftrightarrow> (\<forall>st. reached env T st \<longrightarrow> (\<exists>x st'. m st = (Inr x, st') \<and> reached env T st' \<and> Q x))"

lemma returnsI: "(\<And>st. reached env T st \<Longrightarrow> \<exists>x st'. m st = (Inr x, st') \<and> reached env T st' \<and> Q x) \<Longrightarrow> returns env T m Q"
  by (simp add: returns_def)

lemma returns_bind:
  assumes "returns env T m R" "\<And>x. R x \<Longrightarrow> returns env T (f x) Q"
  shows "returns env T (exec_bind m f) Q"
proof (rule returnsI)
  fix st assume "reached env T st"
  with assms(1) obtain x st' where "m st = (Inr x, st')" "reached env T st'" "R x" by (auto simp: returns_def)
  with assms(2)[of x] show "\<exists>x st'. exec_bind m f st = (Inr x, st') \<and> reached env T st' \<and> Q x"
    by (simp add: returns_def exec_bind_def)
qed

lemma returns_return: "Q x \<Longrightarrow> returns env T (exec_return x) Q"
  by (simp add: returns_def exec_return_def)

lemma returns_mono: "returns env T m R \<Longrightarrow> (\<And>x. R x \<Longrightarrow> Q x) \<Longrightarrow> returns env T m Q"
  unfolding returns_def by blast

lemma returns_now:
  assumes "steady env" "\<And>t. is_utc t \<Longrightarrow> T \<le> instant t \<Longrightarrow> returns env T (f t) Q"
  shows "returns env T (exec_bind (run_now env) f) Q"
proof (rule returns_bind[where R = "\<lambda>t. is_utc t \<and> T \<le> instant t"])
  have "instant (ee_clock (ev_executor env) n) \<le> instant (ee_clock (ev_executor env) (Suc n))" for n
    using assms(1) by (simp add: steady_def)
  then show "returns env T (run_now env) (\<lambda>t. is_utc t \<and> T \<le> instant t)"
    using assms(1) by (auto simp: returns_def run_now_def reached_def steady_def intro: order_trans)
qed (use assms(2) in blast)

lemma returns_uuid: "(\<And>u. returns env T (f u) Q) \<Longrightarrow> returns env T (exec_bind (run_uuid env) f) Q"
  by (rule returns_bind[where R = "\<lambda>_. True"]) (auto simp: returns_def run_uuid_def reached_def)

lemma returns_construct: "r = Inr x \<Longrightarrow> returns env T (f x) Q \<Longrightarrow> returns env T (exec_bind (run_construct r) f) Q"
  by (simp add: run_construct_def)

lemma returns_raise_if: "\<not> c \<Longrightarrow> returns env T (f ()) Q \<Longrightarrow> returns env T (exec_bind (exec_raise_if c e) f) Q"
  by (simp add: exec_raise_if_def)

lemma returns_modify:
  "(\<And>st. rn_clock (g st) = rn_clock st) \<Longrightarrow> returns env T (f ()) Q \<Longrightarrow> returns env T (exec_bind (exec_modify g) f) Q"
  by (rule returns_bind[where R = "\<lambda>_. True"]) (auto simp: returns_def exec_modify_def reached_def)

lemma returns_ask_alone: "(\<And>n. reply n = Replies x) \<Longrightarrow> returns env T (run_ask a reply) (\<lambda>y. y = x)"
  by (auto simp: returns_def run_ask_eq reached_def)

lemma returns_ask: "(\<And>n. reply n = Replies x) \<Longrightarrow> returns env T (f x) Q \<Longrightarrow> returns env T (exec_bind (run_ask a reply) f) Q"
  by (rule returns_bind, erule returns_ask_alone) simp

lemma returns_tell_alone: "steady env \<Longrightarrow> returns env T (run_tell env a) (\<lambda>_. True)"
  unfolding run_tell_def by (rule returns_mono, rule returns_ask_alone) (simp_all add: steady_def)

lemma returns_tell: "steady env \<Longrightarrow> returns env T (f ()) Q \<Longrightarrow> returns env T (exec_bind (run_tell env a) f) Q"
  by (rule returns_bind, erule returns_tell_alone) simp

lemma returns_trace_alone:
  assumes env: "steady env"
    and v: "\<And>i t. is_utc t \<Longrightarrow> new_trace_event (f (blank_event i ty t run_id)) = Inr (f (blank_event i ty t run_id))"
    and o: "opt_all is_utc occurred"
  shows "returns env T (append_trace env ty run_id occurred f) (\<lambda>_. True)"
  unfolding append_trace_def
proof (rule returns_uuid, cases occurred)
  case None
  then show "returns env T (exec_bind (case occurred of None \<Rightarrow> run_now env | Some t \<Rightarrow> exec_return t)
      (\<lambda>t. exec_bind (run_construct (new_trace_event (f (blank_event i ty t run_id)))) (\<lambda>event. run_tell env (AppendRunTrace event))))
      (\<lambda>_. True)" for i
    by (auto intro!: returns_now[OF env] returns_construct[OF v] returns_tell_alone[OF env])
next
  case (Some t)
  with o show "returns env T (exec_bind (case occurred of None \<Rightarrow> run_now env | Some t \<Rightarrow> exec_return t)
      (\<lambda>t. exec_bind (run_construct (new_trace_event (f (blank_event i ty t run_id)))) (\<lambda>event. run_tell env (AppendRunTrace event))))
      (\<lambda>_. True)" for i
    by (auto intro!: returns_construct[OF v] returns_tell_alone[OF env])
qed

lemma returns_trace:
  assumes "steady env" "\<And>i t. is_utc t \<Longrightarrow> new_trace_event (f (blank_event i ty t run_id)) = Inr (f (blank_event i ty t run_id))"
    and "opt_all is_utc occurred" "returns env T (g ()) Q"
  shows "returns env T (exec_bind (append_trace env ty run_id occurred f) g) Q"
  by (rule returns_bind, rule returns_trace_alone) (use assms in auto)

text \<open>Trace events of the service carry few fields: their validation unfolds.\<close>

lemmas trace_valid_simps = new_trace_event_def construct_Inr_iff blank_event_def trace_event_guards_def TOOL_TRACE_STATUS_def

lemma next_move_kind_named: "NonEmptyString (next_move_kind_value k)"
  by (cases k) (simp_all add: next_move_kind_value_def str_def NonEmptyString_def)

subsection \<open>Revalidation\<close>

definition declared_manifest :: "fields_manifest \<Rightarrow> bool" where
  "declared_manifest manifest \<longleftrightarrow>
     map_of manifest TASK_CLASS = Some task_fields \<and> map_of manifest UNIT_CLASS = Some unit_fields
     \<and> map_of manifest BINDING_CLASS = Some binding_fields"

lemma decision_seals:
  assumes "validate_initial_routable_decision_fields_v2 d = Inr ()"
  shows "\<exists>sealed. reduce_and_seal serialise s a d manifest initial_seal_state = Inr sealed
     \<and> initial_routable_decision_seal_matches serialise sealed a
     \<and> ss_objects sealed a = Some \<lparr>do_fields = d, do_manifest = manifest, do_state_declared = True, do_private = PrivateSeal s\<rparr>"
proof -
  let ?v = "\<lparr>do_fields = d, do_manifest = manifest, do_state_declared = True, do_private = PrivateOther\<rparr>"
  obtain p where p: "initial_routable_decision_payload_v2 serialise ?v = Some p"
    using assms by (simp add: initial_routable_decision_payload_v2_def initial_routable_decision_fields_payload_v2_def)
  then obtain sealed where r: "reduce_and_seal serialise s a d manifest initial_seal_state = Inr sealed"
    and o: "ss_objects sealed a = Some (?v\<lparr>do_private := PrivateSeal s\<rparr>)"
    by (simp add: reduce_and_seal_def seal_object_def issue_initial_routable_decision_seal_def Let_def initial_seal_state_def)
  from r have "initial_routable_decision_seal_matches serialise sealed a"
    unfolding reduce_and_seal_def by (rule sealed_object_matches)
  with r o show ?thesis by simp
qed

lemma clean_graph_inst:
  assumes "accepts new_initial_graph g"
  shows "exact_task (Obj (Inst (ig_task g) task_fields) [])"
    and "exact_request_unit (Obj (Inst (ig_request_unit g) unit_fields) [])"
    and "exact_input_binding (Obj (Inst (ig_input_binding g) binding_fields) [])"
  using assms
  by (simp_all add: accepts_iff[of new_initial_graph] new_initial_graph_def construct_Inr_iff initial_graph_guards_def Let_def
      exact_task_def exact_request_unit_def exact_input_binding_def exact_canonical_inst_def task_fields_def
      unit_fields_def binding_fields_def)

lemma call_tool_arguments:
  assumes "accepts new_next_move m" "nm_kind m = CALL_TOOL"
  obtains name args where "nm_requested_tool_name m = Some name" "nm_arguments m = Some args"
  using assms
  by (auto simp: accepts_iff new_next_move_def construct_Inr_iff Let_def candidate_shape_matches_kind_def)

lemma clean_graph_guards:
  assumes g: "accepts new_initial_graph (rd_task_graph d)" and move: "accepts new_next_move (rd_next_move_candidate d)"
    and call: "nm_kind (rd_next_move_candidate d) = CALL_TOOL" and m: "declared_manifest manifest"
  shows "checks (revalidation_guards \<lparr>do_fields = d, do_manifest = manifest, do_state_declared = True, do_private = p\<rparr>
     (Inst (ig_task (rd_task_graph d)) task_fields) (Inst (ig_request_unit (rd_task_graph d)) unit_fields)
     (Inst (ig_input_binding (rd_task_graph d)) binding_fields)) = Inr ()"
proof -
  obtain name args where args: "nm_requested_tool_name (rd_next_move_candidate d) = Some name"
    "nm_arguments (rd_next_move_candidate d) = Some args"
    by (rule call_tool_arguments[OF move call])
  have "find_trusted_in_items args = None" by (rule next_move_arguments_thaw(2)[OF move args(2)])
  then show ?thesis
    using g m call args
    by (simp add: accepts_iff[of new_initial_graph] new_initial_graph_def construct_Inr_iff initial_graph_guards_def Let_def
        revalidation_guards_def matches_decision_instance_def declared_manifest_def)
qed

lemma revalidation_returns:
  assumes R: "routable_for opened now d" and m: "declared_manifest (ev_fields_set env d)"
    and call: "nm_kind (rd_next_move_candidate d) = CALL_TOOL"
  shows "\<exists>move. revalidate_decision env d = Inr move \<and> accepts new_revalidated_next_move move
     \<and> rv_argument_binding_refs move = [ib_binding_id (ig_input_binding (rd_task_graph d))]
     \<and> rv_validated_task_state_version move = 1"
proof -
  let ?g = "rd_task_graph d" and ?m = "ev_fields_set env d"
  note valid = fields_valid[OF R]
  note g = routable_fields_next_move(2)[OF valid] and move = routable_fields_next_move(1)[OF valid]
  obtain sealed where s: "reduce_and_seal (ev_serialise env) 0 0 d ?m initial_seal_state = Inr sealed"
    "initial_routable_decision_seal_matches (ev_serialise env) sealed 0"
    "ss_objects sealed 0 = Some \<lparr>do_fields = d, do_manifest = ?m, do_state_declared = True, do_private = PrivateSeal 0\<rparr>"
    using decision_seals[OF valid] by blast
  let ?o = "\<lparr>do_fields = d, do_manifest = ?m, do_state_declared = True, do_private = PrivateSeal 0\<rparr>"
  let ?move = "revalidated_of ?o (ig_task ?g) (ig_request_unit ?g) (ig_input_binding ?g)"
  have guards: "checks (revalidation_guards ?o (Inst (ig_task ?g) task_fields) (Inst (ig_request_unit ?g) unit_fields)
     (Inst (ig_input_binding ?g) binding_fields)) = Inr ()"
    by (rule clean_graph_guards[OF g move call m])
  have "revalidate_decision env d = Inr ?move"
    using s clean_graph_inst[OF g] guards m
    by (simp add: revalidate_decision_def Let_def declared_manifest_def fields_of_class_def revalidate_Inr_iff del: checks_Inr_iff)
  moreover have "new_revalidated_next_move ?move = Inr ?move"
    using new_revalidated_total[OF _ guards] valid g
    by (simp add: accepts_iff[of new_initial_graph] new_initial_graph_def construct_Inr_iff initial_graph_guards_def Let_def)
  moreover have "tk_state_version (ig_task ?g) = 1"
    using g by (simp add: accepts_iff[of new_initial_graph] new_initial_graph_def construct_Inr_iff initial_graph_guards_def Let_def)
  ultimately show ?thesis
    by (intro exI[of _ ?move]) (simp add: accepts_iff, simp add: revalidated_of_def Let_def)
qed

lemma decision_trace_returns:
  assumes env: "steady env" and move: "accepts new_next_move (rd_next_move_candidate d)"
  shows "returns env T (append_initial_decision_trace env run_id model_call_id manifest_id d) (\<lambda>_. True)"
  using move
  unfolding append_initial_decision_trace_def Let_def accepts_iff new_next_move_def construct_Inr_iff
  by (intro returns_trace[OF env] returns_trace_alone[OF env]) (simp_all add: trace_valid_simps next_move_kind_named)

lemma revalidate_move_returns:
  assumes env: "steady env" and R: "routable_for opened now d" and m: "declared_manifest (ev_fields_set env d)"
    and call: "nm_kind (rd_next_move_candidate d) = CALL_TOOL"
  shows "returns env T (revalidate_move env run_id model_call_id manifest d) (\<lambda>move. accepts new_revalidated_next_move move
     \<and> rv_argument_binding_refs move = [ib_binding_id (ig_input_binding (rd_task_graph d))]
     \<and> rv_validated_task_state_version move = 1)"
proof -
  obtain move where move: "revalidate_decision env d = Inr move" "accepts new_revalidated_next_move move"
     "rv_argument_binding_refs move = [ib_binding_id (ig_input_binding (rd_task_graph d))]"
     "rv_validated_task_state_version move = 1"
    using revalidation_returns[OF R m call] by blast
  from move(2) have v: "NonEmptyString (rv_requested_provider_tool_name move)"
    "opt_all (\<lambda>v. 1 \<le> v) (rv_proposed_base_task_state_version move)"
    by (simp_all add: accepts_iff new_revalidated_next_move_def construct_Inr_iff Let_def)
  show ?thesis
    unfolding revalidate_move_def Let_def
    by (rule returns_bind[OF decision_trace_returns[OF env routable_fields_next_move(1)[OF fields_valid[OF R]]]])
      (use move v in \<open>simp add: run_processing_def, intro returns_trace[OF env] returns_return, simp_all add: trace_valid_simps\<close>)
qed

subsection \<open>The gate\<close>

definition usable_registry :: "registry_snapshot \<Rightarrow> bool" where
  "usable_registry registry \<longleftrightarrow>
     NonEmptyString (rs_tool_registry_version registry) \<and> ToolsetHash (rs_model_visible_toolset_hash registry)
     \<and> list_all (accepts new_provider_tool_name_binding) (rs_provider_name_to_canonical_name registry)
     \<and> list_all (\<lambda>r. ep_max_attempts (tr_execution_policy r) = 1
         \<and> ep_interrupt_behavior (tr_execution_policy r) = str ''MARK_INTERRUPTED'') (rs_canonical_registrations registry)"

lemma resolved_registration_member:
  "resolve_validated_get_order_registration registry name = Some r \<Longrightarrow> r \<in> set (rs_canonical_registrations registry)"
proof -
  assume "resolve_validated_get_order_registration registry name = Some r"
  then have "snd (resolve_registration registry name) = Some r"
    by (auto simp: resolve_validated_get_order_registration_def Let_def split: prod.splits option.splits if_splits)
  then obtain c where "filter (\<lambda>r. ts_name (tr_tool_spec r) = c) (rs_canonical_registrations registry) = [r]"
    by (auto simp: resolve_registration_def Let_def split: list.splits)
  from arg_cong[OF this, of set] show ?thesis by auto
qed

lemma accepting_gate_resolves:
  assumes "gd_decision (gateway_record g) = GateAccept"
  shows "\<exists>r. resolve_validated_get_order_registration (gi_registry_snapshot g)
     (rv_requested_provider_tool_name (gi_revalidated_move g)) = Some r"
proof -
  from assms have c: "registration_valid g" "schema_valid g" "action_boundary_valid g"
    by (simp_all add: gateway_record_def gateway_checks_def split: if_splits)
  from c(3) obtain r where "snd (gateway_resolution g) = Some r" by (auto simp: action_boundary_valid_def split: option.splits)
  with resolved_by_registry[OF c(1,2)] show ?thesis by blast
qed

definition gate_of :: "opened_run \<Rightarrow> routable_decision \<Rightarrow> gate_decision \<Rightarrow> bool" where
  "gate_of opened d gate \<longleftrightarrow>
     gd_argument_binding_refs gate = [ib_binding_id (ig_input_binding (rd_task_graph d))]
     \<and> gd_validated_task_state_version gate = Some 1"

lemma decide_move_returns:
  assumes env: "steady env" and reg: "usable_registry (ev_registry env)"
    and move: "accepts new_revalidated_next_move move"
     "rv_argument_binding_refs move = [ib_binding_id (ig_input_binding (rd_task_graph d))]"
     "rv_validated_task_state_version move = 1"
  shows "returns env T (decide_move env opened model_call_id manifest d move task unit)
    (\<lambda>gate. gate_of opened d gate \<and> (gd_decision gate = GateAccept \<longrightarrow>
       (\<exists>r. resolve_validated_get_order_registration (ev_registry env) (gd_requested_provider_tool_name gate) = Some r)))"
  unfolding decide_move_def
proof (intro returns_uuid returns_now[OF env])
  fix gate_id t assume t: "is_utc t" "T \<le> instant t"
  let ?g = "\<lparr>gi_revalidated_move = move, gi_customer_context = on_customer_context opened, gi_current_task = task,
        gi_current_request_unit = unit, gi_current_input_binding = ig_input_binding (rd_task_graph d),
        gi_registry_snapshot = ev_registry env, gi_context_manifest = manifest,
        gi_gate_decision_id = gate_id, gi_model_call_id = model_call_id,
        gi_provider_tool_call_id = None, gi_decided_at = t, gi_tool_calls_used = 0,
        gi_max_tool_calls = 1, gi_progress_valid = True\<rparr>"
  let ?gate = "gateway_record ?g"
  have valid: "gateway_input_valid ?g"
    using move(1) reg t(1) by (simp add: gateway_input_valid_def usable_registry_def)
  from move(1) have v: "NonEmptyString (rv_requested_provider_tool_name move)"
    by (simp add: accepts_iff new_revalidated_next_move_def construct_Inr_iff Let_def)
  have fields: "gd_requested_provider_tool_name ?gate = rv_requested_provider_tool_name move"
    "gd_validated_task_state_version ?gate = Some 1"
    "gd_argument_binding_refs ?gate = [ib_binding_id (ig_input_binding (rd_task_graph d))]"
    using move by (simp_all add: gateway_record_def)
  have resolved: "\<exists>r. resolve_validated_get_order_registration (ev_registry env) (rv_requested_provider_tool_name move) = Some r"
    if "gd_decision ?gate = GateAccept"
    using accepting_gate_resolves[OF that] by simp
  show "returns env T (exec_bind (run_construct (evaluate_control_gateway ?g)) (\<lambda>gate.
     exec_bind (run_tell env (SaveGateDecision gate)) (\<lambda>_.
     exec_bind (append_trace env GATE_DECISION_RECORDED (ar_run_id (on_running_run opened)) None (\<lambda>e. e
       \<lparr>te_task_id := Some (tk_task_id task), te_request_unit_id := Some (ru_request_unit_id unit),
        te_model_call_id := Some model_call_id,
        te_context_manifest_id := Some (cm_context_manifest_id manifest),
        te_requested_tool_name := Some (gd_requested_provider_tool_name gate),
        te_validated_task_state_version := gd_validated_task_state_version gate,
        te_argument_binding_refs := gd_argument_binding_refs gate, te_gate_decision := Some (gd_decision gate),
        te_gate_reason_code := gd_reason_code gate\<rparr>)) (\<lambda>_.
     exec_return gate))))
    (\<lambda>gate. gate_of opened d gate \<and> (gd_decision gate = GateAccept \<longrightarrow>
       (\<exists>r. resolve_validated_get_order_registration (ev_registry env) (gd_requested_provider_tool_name gate) = Some r)))"
    by (intro returns_construct[OF gateway_never_raises[OF valid]] returns_tell[OF env] returns_trace[OF env] returns_return)
      (use fields v resolved in \<open>simp_all add: trace_valid_simps gate_of_def\<close>)
qed

subsection \<open>The read\<close>

definition answering_service :: "executor_env \<Rightarrow> received_result \<Rightarrow> bool" where
  "answering_service env candidate \<longleftrightarrow>
     ee_insert env = Replies INSERTED \<and> ee_fence env = Replies FENCE_APPLIED \<and> ee_order env = OrderReplies candidate
     \<and> ee_finalize env 0 = Replies APPLIED \<and> ee_save_observation env = Replies OBS_INSERTED"

definition reported :: "get_order_result \<Rightarrow> read_tool_execution \<Rightarrow> bool" where
  "reported result rx \<longleftrightarrow>
     admitted_result result \<and> rx_get_order_outcome rx = Some (gr_outcome result)
     \<and> is_utc (tc_started_at (rx_created_tool_call rx)) \<and> 1 \<le> tc_validated_task_state_version (rx_created_tool_call rx)
     \<and> (\<exists>terminal t. rx_terminal_tool_call rx = Some terminal \<and> tc_status terminal = fst (terminal_projection (gr_outcome result))
          \<and> tc_finished_at terminal = Some t \<and> is_utc t \<and> opt_all (found_observation result t) (rx_observation rx))
     \<and> (\<exists>attempt. rx_finalized_attempt rx = Some attempt \<and> is_utc (at_started_at attempt))
     \<and> (rx_observation rx \<noteq> None \<longleftrightarrow> gr_outcome result = FOUND)"

lemma executor_env_at_simps [simp]:
  "ee_insert (executor_env_at env st) = ee_insert (ev_executor env)"
  "ee_fence (executor_env_at env st) = ee_fence (ev_executor env)"
  "ee_order (executor_env_at env st) = ee_order (ev_executor env)"
  "ee_finalize (executor_env_at env st) = ee_finalize (ev_executor env)"
  "ee_save_observation (executor_env_at env st) = ee_save_observation (ev_executor env)"
  "ee_outcomes (executor_env_at env st) = ee_outcomes (ev_executor env)"
  "ee_statuses (executor_env_at env st) = ee_statuses (ev_executor env)"
  "ee_clock (executor_env_at env st) n = ee_clock (ev_executor env) (n + rn_clock st)"
  by (simp_all add: executor_env_at_def)

definition read_ready :: "run_env \<Rightarrow> executor_args \<Rightarrow> bool" where
  "read_ready env args \<longleftrightarrow> (\<exists>owner command policy order_id.
     xa_owner_scope args = Obj owner [] \<and> NonEmptyString (os_customer_id owner)
     \<and> xa_authorized_command args = Obj command [] \<and> accepts new_authorized_tool_command command
     \<and> xa_execution_policy args = Obj policy []
     \<and> ep_max_attempts policy = 1 \<and> ep_interrupt_behavior policy = str ''MARK_INTERRUPTED''
     \<and> 0 < xa_remaining_run_time_budget_ms args
     \<and> ac_canonical_tool_name command = str ''get_order''
     \<and> ac_registry_snapshot_ref command = xa_tool_registry_version args
     \<and> ac_validated_arguments command = [(str ''order_id'', JStr order_id)] \<and> OrderId order_id
     \<and> xa_provider_tool_call_id args = None)"

lemma executor_returns:
  assumes env: "steady env" and svc: "answering_service (ev_executor env) candidate" and ready: "read_ready env args"
  shows "returns env T (run_executor env args) (reported (result_of_reply (ev_executor env) candidate))"
proof (rule returnsI)
  fix st assume st: "reached env T st"
  let ?e = "executor_env_at env st"
  obtain owner command policy order_id where r: "executor_ready ?e args owner command policy order_id"
    using ready svc env unfolding read_ready_def executor_ready_def trusted_read_def answering_service_def steady_def by auto
  have same: "result_of_reply ?e candidate = result_of_reply (ev_executor env) candidate"
    by (simp add: result_of_reply_def)
  from execute_reports[OF r, of candidate] svc obtain rx xs where x: "execute_get_order ?e args initial_exec_state = (Inr rx, xs)"
    and c: "completed_execution ?e args command (result_of_reply (ev_executor env) candidate) rx"
    by (auto simp: answering_service_def same)
  have v: "1 \<le> ac_validated_task_state_version command"
    using r by (simp add: executor_ready_def trusted_read_def accepts_iff new_authorized_tool_command_def construct_Inr_iff Let_def)
  have "reported (result_of_reply (ev_executor env) candidate) rx"
    using c v env result_of_reply_admitted[of "ev_executor env" candidate]
    by (auto simp: reported_def completed_execution_def ready_created_def created_tool_call_def project_terminal_def steady_def)
  moreover have "instant (ee_clock (ev_executor env) (rn_clock st)) \<le> instant (ee_clock (ev_executor env) (rn_clock st + xs_clock xs))"
    using env by (simp add: steady_def)
  ultimately show "\<exists>rx st'. run_executor env args st = (Inr rx, st') \<and> reached env T st'
      \<and> reported (result_of_reply (ev_executor env) candidate) rx"
    using st by (auto simp: run_executor_def x reached_def)
qed

lemma tool_trace_returns:
  assumes env: "steady env" and rx: "reported result rx"
  shows "returns env T (append_tool_trace env rx) (\<lambda>_. True)"
proof -
  from rx obtain terminal t attempt where p: "rx_terminal_tool_call rx = Some terminal" "rx_finalized_attempt rx = Some attempt"
    "tc_status terminal = fst (terminal_projection (gr_outcome result))" "tc_finished_at terminal = Some t" "is_utc t"
    "is_utc (at_started_at attempt)" "is_utc (tc_started_at (rx_created_tool_call rx))"
    "1 \<le> tc_validated_task_state_version (rx_created_tool_call rx)"
    unfolding reported_def by blast
  obtain ty where ty: "terminal_event_by_status (tc_status terminal) = Some ty" "TOOL_TRACE_STATUS ty = Some (tc_status terminal)"
    "ty \<noteq> RUN_STOPPED"
    using p(3) by (cases "gr_outcome result") (auto simp: terminal_projection_def terminal_event_by_status_def)
  show ?thesis
    unfolding append_tool_trace_def p(1,2,4) option.case prod.case Let_def ty(1)
    by (intro returns_trace[OF env] returns_trace_alone[OF env])
      (use p ty in \<open>simp_all add: new_trace_event_def construct_Inr_iff blank_event_def trace_event_guards_def\<close>,
       simp_all add: TOOL_TRACE_STATUS_def)
qed

text \<open>The budget is never used up: whenever the clock is read, what the code computes to remain is positive.\<close>

definition within_budget :: "run_env \<Rightarrow> agent_run_record \<Rightarrow> bool" where
  "within_budget env running \<longleftrightarrow> (\<forall>n. 0 < remaining_ms (ev_run_time_budget_ms env)
     (instant (ee_clock (ev_executor env) n) - instant (ar_started_at running)))"

lemma budget_returns:
  assumes env: "steady env" and budget: "within_budget env running"
  shows "returns env T (remaining_run_time_budget_ms env running) (\<lambda>b. 0 < b)"
proof (rule returnsI)
  fix st assume st: "reached env T st"
  let ?n = "ee_clock (ev_executor env) (rn_clock st)"
  let ?b = "remaining_ms (ev_run_time_budget_ms env) (instant ?n - instant (ar_started_at running))"
  from budget have b: "0 < ?b" by (simp only: within_budget_def)
  then have run: "remaining_run_time_budget_ms env running st = (Inr ?b, st\<lparr>rn_clock := Suc (rn_clock st)\<rparr>)"
    by (simp add: remaining_run_time_budget_ms_def exec_bind_def run_now_def Let_def exec_raise_if_def exec_return_def)
  have "instant ?n \<le> instant (ee_clock (ev_executor env) (Suc (rn_clock st)))" using env by (simp add: steady_def)
  with st b show "\<exists>x st'. remaining_run_time_budget_ms env running st = (Inr x, st') \<and> reached env T st' \<and> 0 < x"
    unfolding run by (auto simp: reached_def)
qed

lemma authorized_read_returns:
  assumes env: "steady env" and reg: "usable_registry (ev_registry env)" and svc: "answering_service (ev_executor env) candidate"
    and R: "routable_for opened now d" and budget: "within_budget env (on_running_run opened)"
    and gate: "gate_of opened d gate"
    and resolved: "resolve_validated_get_order_registration (ev_registry env) (gd_requested_provider_tool_name gate) = Some r"
  shows "returns env T (authorized_read env opened model_call_id manifest (ig_input_binding (rd_task_graph d)) gate task unit)
    (reported (result_of_reply (ev_executor env) candidate))"
proof -
  have policy: "ep_max_attempts (tr_execution_policy r) = 1" "ep_interrupt_behavior (tr_execution_policy r) = str ''MARK_INTERRUPTED''"
    using resolved_registration_member[OF resolved] reg by (auto simp: usable_registry_def list_all_iff)
  have id: "OrderId (ib_normalized_value (ig_input_binding (rd_task_graph d)))"
    using graph_records(3)[OF R] by (simp add: accepts_iff new_input_binding_def construct_Inr_iff)
  have owner: "NonEmptyString (os_customer_id (on_owner_scope opened))"
    using R by (auto simp: routable_for_def opened_ok_def new_conversation_record_def construct_Inr_iff)
  have version: "NonEmptyString (rs_tool_registry_version (ev_registry env))" using reg by (simp add: usable_registry_def)
  let ?c = "\<lambda>u. \<lparr>ac_gate_decision_id = gd_gate_decision_id gate, ac_canonical_tool_name = str ''get_order'',
             ac_validated_arguments = authorized_arguments (ig_input_binding (rd_task_graph d)),
             ac_argument_binding_refs = gd_argument_binding_refs gate,
             ac_validated_task_state_version =
               (case gd_validated_task_state_version gate of None \<Rightarrow> 0 | Some v \<Rightarrow> v),
             ac_registry_snapshot_ref = rs_tool_registry_version (ev_registry env),
             ac_trusted_context_ref = str ''trusted-context:'' @ uuid_str u\<rparr>"
  have command: "new_authorized_tool_command (?c u) = Inr (?c u)" for u
    using gate version by (simp add: new_authorized_tool_command_def construct_Inr_iff Let_def authorized_arguments_def gate_of_def
        order_id_argument_valid is_ok_def ok_or_def NonEmptyString_def)
  show ?thesis
    unfolding authorized_read_def resolved option.case
  proof (rule returns_uuid, rule returns_construct[OF command], rule returns_bind[OF budget_returns[OF env budget]], rule returns_bind)
    fix u b assume "0 < (b::int)"
    then show "returns env T (run_executor env
            \<lparr>xa_owner_scope = Obj (on_owner_scope opened) [], xa_authorized_command = Obj (?c u) [],
             xa_run_id = ar_run_id (on_running_run opened), xa_task_id = tk_task_id task,
             xa_request_unit_id = ru_request_unit_id unit, xa_model_call_id = model_call_id,
             xa_context_manifest_id = cm_context_manifest_id manifest, xa_provider_tool_call_id = None,
             xa_tool_registry_version = rs_tool_registry_version (ev_registry env),
             xa_execution_policy = Obj (tr_execution_policy r) [],
             xa_remaining_run_time_budget_ms = b\<rparr>) (reported (result_of_reply (ev_executor env) candidate))"
      using command[of u] policy id owner
      by (intro executor_returns[OF env svc]) (simp add: read_ready_def accepts_iff authorized_arguments_def)
  next
    fix u b execution assume rep: "reported (result_of_reply (ev_executor env) candidate) execution"
    show "returns env T (exec_bind (exec_raise_if (rx_terminal_tool_call execution = None \<or> rx_finalized_attempt execution = None
              \<or> rx_get_order_outcome execution = None) (RunExecutionError ''Read Tool dispatch was not applied'')) (\<lambda>_.
          exec_bind (append_tool_trace env execution) (\<lambda>_. exec_return execution)))
        (reported (result_of_reply (ev_executor env) candidate))"
      by (rule returns_raise_if) (use rep in \<open>auto simp: reported_def intro!: returns_bind[OF tool_trace_returns[OF env rep]] returns_return\<close>)
  qed
qed

subsection \<open>The presentation and the end of the Run\<close>

text \<open>
  The presentation model answers; when it proposes a plan, what the plan makes of the order that was
  read, if one was found, fits in a message (4000 characters).
\<close>

definition plan_fits :: "presentation_plan pyobj \<Rightarrow> order_summary_projection pyobj \<Rightarrow> bool" where
  "plan_fits plan summary \<longleftrightarrow>
     (case STATUS_LABELS (os_status (fields_of summary)) of
        None \<Rightarrow> True
      | Some label \<Rightarrow> length (intersperse_concat [10] (message_parts (fields_of summary) label (fields_of plan))) \<le> 4000)"

definition presents :: "run_env \<Rightarrow> get_order_result \<Rightarrow> bool" where
  "presents env result \<longleftrightarrow> (case ev_plan env of
      SignalsProtocolError exact \<Rightarrow> exact
    | Proposes plan \<Rightarrow> opt_all (plan_fits plan) (gr_order_summary result)
    | _ \<Rightarrow> False)"

lemma presented_fits:
  assumes "presents env result" "ev_plan env = Proposes plan" "found_observation result t observation"
    and "present_plan observation plan_ref plan = (stop, Some message)"
  shows "MessageContent message"
proof -
  have summary: "gr_order_summary result = Some (oo_normalized_value observation)"
    using assms(3) by (simp add: found_observation_def)
  from assms(4) obtain p where p: "validate_presentation_plan plan (Obj observation []) = Inr p"
    and r: "render_order_summary (Obj observation []) (Obj p []) = Inr message"
    by (auto simp: present_plan_def split: sum.splits)
  have same: "fields_of plan = p"
    using p by (auto elim!: validate_presentation_plan_Inr)
  from r obtain label where l: "STATUS_LABELS (os_status (fields_of (oo_normalized_value observation))) = Some label"
    "message = intersperse_concat [10] (message_parts (fields_of (oo_normalized_value observation)) label p)"
    by (auto simp: render_order_summary_def res_bind_def Let_def split: sum.splits option.splits if_splits)
  have "1 \<le> length message"
    using rendered_nonempty[OF r] by (cases message) simp_all
  moreover have "length message \<le> 4000"
    using assms(1,2) summary l same by (simp add: presents_def plan_fits_def)
  ultimately show ?thesis by (simp add: MessageContent_def)
qed

definition ends_run :: "opened_run \<Rightarrow> finish_args \<Rightarrow> bool" where
  "ends_run opened args \<longleftrightarrow>
     (fa_stop_reason args, fa_target_status args) \<in> set SERVICE_ROWS
     \<and> (\<exists>result. map_result (ar_run_id (on_running_run opened)) (fa_stop_reason args) (fa_rendered_message args) = Inr result)"

lemma map_result_safe: "stop \<noteq> STOP_GOAL_COMPLETED \<Longrightarrow> \<exists>result. map_result run_id stop rendered = Inr result"
  by (simp add: map_result_def new_agent_run_result_def construct_def construct_with_def failing_def checks_def
      SAFE_GENERIC_MESSAGE_def SAFE_NOT_FOUND_MESSAGE_def SAFE_ORDER_UNAVAILABLE_MESSAGE_def)

lemma map_result_rendered: "MessageContent message \<Longrightarrow> \<exists>result. map_result run_id STOP_GOAL_COMPLETED (Some message) = Inr result"
  by (auto simp: map_result_def new_agent_run_result_def construct_def construct_with_def failing_def checks_def MessageContent_def)

lemma ended_read_ends:
  "(stop, status) \<in> set SERVICE_ROWS \<Longrightarrow> stop \<noteq> STOP_GOAL_COMPLETED \<Longrightarrow> ends_run opened (ended_read stop status reason)"
  by (simp add: ends_run_def ended_read_def map_result_safe)

lemma present_plan_stops:
  "present_plan observation plan_ref plan = (stop, m) \<Longrightarrow> (case m of None \<Rightarrow> (stop, BLOCKED) \<in> set SERVICE_ROWS \<and> stop \<noteq> STOP_GOAL_COMPLETED
     | Some _ \<Rightarrow> stop = STOP_GOAL_COMPLETED)"
  by (auto simp: present_plan_def SERVICE_ROWS_def split: sum.splits)

lemma manifest_returns:
  assumes env: "steady env" and reg: "usable_registry (ev_registry env)" and red: "NonEmptyString (ev_redaction_policy_version env)"
    and purpose: "NonEmptyString purpose"
  shows "returns env T (save_manifest env run_id model_call_id purpose message_id task ref) (\<lambda>_. True)"
  unfolding save_manifest_def
  by (intro returns_uuid returns_now[OF env], rule returns_construct)
    (use reg red purpose in \<open>auto simp: new_context_manifest_def construct_Inr_iff usable_registry_def trace_valid_simps
      intro!: returns_tell[OF env] returns_trace[OF env] returns_return\<close>)

lemma presentation_returns:
  assumes env: "steady env" and reg: "usable_registry (ev_registry env)" and red: "NonEmptyString (ev_redaction_policy_version env)"
    and plan: "presents env result" and ob: "is_utc (oo_recorded_at observation)" "found_observation result t observation"
  shows "returns env T (present_order env opened task unit tool_call_id observation) (ends_run opened)"
proof -
  have asked: "returns env T (run_provider a (ev_plan env)) (\<lambda>reply. reply = ev_plan env)" for a
    using plan
    by (auto simp: returns_def run_provider_def run_log_def exec_bind_def exec_modify_def exec_return_def reached_def presents_def
        split: provider_reply.splits)
  have purpose: "NonEmptyString (str ''PRESENTATION'')" by (simp add: str_def NonEmptyString_def)
  show ?thesis
    unfolding present_order_def Let_def
  proof (rule returns_trace[OF env], goal_cases)
    case 3
    show ?case
    proof (rule returns_uuid, rule returns_bind[OF manifest_returns[OF env reg red purpose]], rule returns_bind[OF asked], goal_cases)
      case (1 model_call_id manifest reply)
      show ?case
      proof (cases "ev_plan env")
        case (Proposes plan)
        have short: "present_plan observation plan_ref plan = (STOP_GOAL_COMPLETED, Some m) \<Longrightarrow> MessageContent m" for plan_ref m
          using presented_fits[OF plan Proposes ob(2)] .
        have "returns env T (case present_plan observation plan_ref plan of
            (stop, Some message) \<Rightarrow>
                 exec_bind (run_uuid env) (\<lambda>reason_ref.
                 exec_return \<lparr>fa_stop_reason = stop, fa_target_status = COMPLETED, fa_reason_ref = reason_ref,
                   fa_observation_ref = Some (oo_observation_id observation), fa_presentation_plan_ref = Some plan_ref,
                   fa_rendered_message = Some message\<rparr>)
             | (stop, None) \<Rightarrow>
                 exec_return \<lparr>fa_stop_reason = stop, fa_target_status = BLOCKED, fa_reason_ref = plan_ref,
                   fa_observation_ref = Some (oo_observation_id observation), fa_presentation_plan_ref = Some plan_ref,
                   fa_rendered_message = None\<rparr>) (ends_run opened)" for plan_ref
        proof (cases "present_plan observation plan_ref plan")
          case (Pair stop m)
          with present_plan_stops[OF Pair] short show ?thesis
            by (cases m) (auto intro!: returns_uuid returns_return simp: ends_run_def map_result_safe map_result_rendered SERVICE_ROWS_def)
        qed
        with 1 Proposes show ?thesis
          by (auto intro!: returns_uuid returns_trace[OF env] simp: trace_valid_simps)
      next
        case (SignalsProtocolError exact)
        with plan 1 show ?thesis
          by (auto intro!: returns_uuid returns_return simp: presents_def ends_run_def map_result_safe SERVICE_ROWS_def)
      qed (use plan in \<open>simp_all add: presents_def\<close>)
    qed
  qed (use ob in \<open>simp_all add: trace_valid_simps\<close>)
qed

lemma conclusion_returns:
  assumes env: "steady env" and reg: "usable_registry (ev_registry env)" and red: "NonEmptyString (ev_redaction_policy_version env)"
    and plan: "presents env result" and rep: "reported result execution"
  shows "returns env T (conclude_read env opened task unit execution) (ends_run opened)"
proof (cases "rx_observation execution")
  case None
  then show ?thesis
    unfolding conclude_read_def
    by (auto intro!: returns_uuid returns_return ended_read_ends simp: SERVICE_ROWS_def)
next
  case (Some observation)
  from rep Some obtain terminal t where t: "rx_terminal_tool_call execution = Some terminal" "is_utc t"
    "found_observation result t observation"
    by (auto simp: reported_def)
  then have "is_utc (oo_recorded_at observation)" by (simp add: found_observation_def)
  from presentation_returns[OF env reg red plan this t(3)] Some t show ?thesis
    unfolding conclude_read_def
    by (auto intro!: returns_uuid returns_return ended_read_ends simp: SERVICE_ROWS_def)
qed

subsection \<open>From the stored graph to the result\<close>

text \<open>The store gives back the graph that was just written; every port and the model answer.\<close>

definition answering :: "run_env \<Rightarrow> opened_run \<Rightarrow> routable_decision \<Rightarrow> bool" where
  "answering env opened d \<longleftrightarrow>
     steady env \<and> usable_registry (ev_registry env) \<and> NonEmptyString (ev_redaction_policy_version env)
     \<and> (\<exists>candidate. answering_service (ev_executor env) candidate
          \<and> presents env (result_of_reply (ev_executor env) candidate))
     \<and> within_budget env (on_running_run opened)
     \<and> declared_manifest (ev_fields_set env d) \<and> nm_kind (rd_next_move_candidate d) = CALL_TOOL
     \<and> ev_create_graph env = Replies APPLIED
     \<and> (\<forall>n. ev_task env n = Replies (Some (ig_task (rd_task_graph d))))
     \<and> ev_unit env = Replies (Some (ig_request_unit (rd_task_graph d)))
     \<and> (\<forall>n. ev_finalize_run env n = Replies APPLIED)"

lemma load_returns:
  assumes "answering env opened d"
  shows "returns env T (load_current_graph env owner run_id (rd_task_graph d))
    (\<lambda>(task, unit). task = ig_task (rd_task_graph d) \<and> unit = ig_request_unit (rd_task_graph d))"
  using assms unfolding load_current_graph_def answering_def
  by (auto intro!: returns_tell returns_ask[where x = "Some (ig_task (rd_task_graph d))"]
      returns_ask[where x = "Some (ig_request_unit (rd_task_graph d))"] returns_modify returns_return)

lemma stored_graph_closable:
  assumes R: "routable_for opened now d"
  shows "closable_graph (on_running_run opened) (ig_task (rd_task_graph d)) (ig_request_unit (rd_task_graph d))
     (initial_link (ar_run_id (on_running_run opened)) (tk_task_id (ig_task (rd_task_graph d))))"
    and "running_in (on_conversation opened) (on_running_run opened)"
    and "tk_status (ig_task (rd_task_graph d)) = ACTIVE"
    and "instant (tk_updated_at (ig_task (rd_task_graph d))) = instant now"
    and "instant (ru_updated_at (ig_request_unit (rd_task_graph d))) = instant now"
proof -
  let ?g = "rd_task_graph d"
  have g: "ru_task_id (ig_request_unit ?g) = tk_task_id (ig_task ?g)" "ru_state_version (ig_request_unit ?g) = 1"
    "tk_state_version (ig_task ?g) = 1" "ru_status (ig_request_unit ?g) = ACTIVE" "tk_status (ig_task ?g) = ACTIVE"
    using graph_accepted[OF R]
    by (simp_all add: accepts_iff[of new_initial_graph] new_initial_graph_def construct_Inr_iff initial_graph_guards_def Let_def)
  show "closable_graph (on_running_run opened) (ig_task ?g) (ig_request_unit ?g)
     (initial_link (ar_run_id (on_running_run opened)) (tk_task_id (ig_task ?g)))"
    using graph_records[OF R] record_constructors_hold(1)[OF R] g
    by (simp add: closable_graph_def accepts_iff) (simp add: initial_link_def)
  show "running_in (on_conversation opened) (on_running_run opened)" using R by (simp add: routable_for_def opened_ok_def)
  show "tk_status (ig_task ?g) = ACTIVE" by (rule g(5))
  obtain ro :: request_output and customer :: customer_context and allocs :: "identity_allocation list" and c
    where "?g = graph_of (ro_message_ref ro) customer now (alloc_for (dict_by al_candidate_ref allocs) c) c (order_id_of c)"
    by (rule routable_forE[OF R])
  then show "instant (tk_updated_at (ig_task ?g)) = instant now" "instant (ru_updated_at (ig_request_unit ?g)) = instant now"
    by (simp_all add: graph_of_def)
qed

lemma finish_returns:
  assumes a: "answering env opened d" and R: "routable_for opened now d" and args: "ends_run opened args"
  shows "returns env (instant now) (finish_with_task env (on_running_run opened) (on_conversation opened)
     (ig_task (rd_task_graph d)) (ig_request_unit (rd_task_graph d))
     (initial_link (ar_run_id (on_running_run opened)) (tk_task_id (ig_task (rd_task_graph d)))) args) (\<lambda>_. True)"
proof (rule returnsI)
  fix st assume st: "reached env (instant now) st"
  from args obtain result where row: "(fa_stop_reason args, fa_target_status args) \<in> set SERVICE_ROWS"
    and res: "map_result (ar_run_id (on_running_run opened)) (fa_stop_reason args) (fa_rendered_message args) = Inr result"
    by (auto simp: ends_run_def)
  from row have status: "tk_status (ig_task (rd_task_graph d)) \<noteq> fa_target_status args"
    by (auto simp: stored_graph_closable(3)[OF R] SERVICE_ROWS_def)
  from a have env: "steady env" and applied: "ev_finalize_run env n = Replies APPLIED" for n by (simp_all add: answering_def)
  from st have now: "instant now \<le> instant (run_clock env st 0)" by (simp add: reached_def run_clock_def)
  have started: "instant (ar_started_at (on_running_run opened)) \<le> instant (run_clock env st 0)"
    using R now by (simp add: routable_for_def)
  from finish_with_task_runs[OF env stored_graph_closable(2,1)[OF R] row res status _ _ started applied] now
  obtain st' where run: "finish_with_task env (on_running_run opened) (on_conversation opened)
     (ig_task (rd_task_graph d)) (ig_request_unit (rd_task_graph d))
     (initial_link (ar_run_id (on_running_run opened)) (tk_task_id (ig_task (rd_task_graph d)))) args st = (Inr result, st')"
    and clock: "rn_clock st \<le> rn_clock st'"
    by (auto simp: stored_graph_closable(4,5)[OF R])
  have "instant (ee_clock (ev_executor env) (rn_clock st)) \<le> instant (ee_clock (ev_executor env) (rn_clock st'))"
    using env clock by (simp add: steady_def)
  with st have "reached env (instant now) st'" by (simp add: reached_def)
  with run show "\<exists>x st'. finish_with_task env (on_running_run opened) (on_conversation opened)
     (ig_task (rd_task_graph d)) (ig_request_unit (rd_task_graph d))
     (initial_link (ar_run_id (on_running_run opened)) (tk_task_id (ig_task (rd_task_graph d)))) args st = (Inr x, st')
     \<and> reached env (instant now) st' \<and> True" by blast
qed

lemma act_returns:
  assumes a: "answering env opened d" and R: "routable_for opened now d"
  shows "returns env (instant now) (act_on_decision env opened model_call_id manifest now d) (\<lambda>_. True)"
proof -
  note v = a[unfolded answering_def]
  obtain candidate where svc: "answering_service (ev_executor env) candidate"
    and plan: "presents env (result_of_reply (ev_executor env) candidate)" using v by blast
  have env: "steady env" and reg: "usable_registry (ev_registry env)" and red: "NonEmptyString (ev_redaction_policy_version env)"
    and budget: "within_budget env (on_running_run opened)" using v by blast+
  let ?link = "initial_link (ar_run_id (on_running_run opened)) (tk_task_id (ig_task (rd_task_graph d)))"
  have store: "returns env (instant now) (store_graph env opened now d) (\<lambda>link. link = ?link)"
    using store_graph_runs[OF R] v by (auto intro!: returnsI simp: reached_def)
  show ?thesis
    unfolding act_on_decision_def Let_def
  proof (rule returns_bind[OF store], rule returns_bind[OF revalidate_move_returns[OF env R]], goal_cases)
    case (3 link move)
    show ?case
    proof (rule returns_bind[OF load_returns[OF a]], clarify, rule returns_bind[OF decide_move_returns[OF env reg]], goal_cases)
      case (4 task unit gate)
      show ?case
      proof (rule returns_bind[where R = "ends_run opened"], goal_cases)
        case 1
        show ?case
        proof (cases "gd_decision gate = GateReject")
          case True
          then show ?thesis by (auto intro!: returns_return ended_read_ends simp: SERVICE_ROWS_def)
        next
          case False
          then have "gd_decision gate = GateAccept" by (cases "gd_decision gate") simp_all
          with 4 obtain r where r: "resolve_validated_get_order_registration (ev_registry env) (gd_requested_provider_tool_name gate) = Some r"
            by blast
          from 4 have g: "gate_of opened d gate" by simp
          show ?thesis
            using False by (auto intro!: returns_bind[OF authorized_read_returns[OF env reg svc R budget g r]]
                conclusion_returns[OF env reg red plan])
        qed
      next
        case (2 args)
        with 3 show ?case using finish_returns[OF a R, of args] by simp
      qed
    qed (use 3 in simp_all)
  qed (use v in simp_all)
qed

end
