(* ===== verification/Run_Answered.thy ===== *)
theory Run_Answered
  imports Run_Completion
begin

section \<open>Opening, understanding and reducing, when they succeed\<close>

text \<open>
  What the stages before the stored graph leave behind when they return: an opened Run whose records
  agree, and a decision that is routable for it. Each step of a returning computation returned.
\<close>

lemma run_construct_Inr_iff: "run_construct r st = (Inr x, st') \<longleftrightarrow> r = Inr x \<and> st' = st"
  by (cases r) (auto simp: run_construct_def exec_raise_def exec_return_def)

lemma run_ask_Inr_iff:
  "run_ask a reply st = (Inr x, st') \<longleftrightarrow> reply (length (rn_log st)) = Replies x \<and> st' = st\<lparr>rn_log := rn_log st @ [a]\<rparr>"
  by (auto simp: run_ask_eq split: port_reply.splits)

lemma exec_raise_if_Inr_iff: "exec_raise_if c e st = (Inr x, st') \<longleftrightarrow> \<not> c \<and> st' = st"
  by (auto simp: exec_raise_if_def exec_raise_def exec_return_def)

lemma run_provider_Inr_iff:
  "run_provider a reply st = (Inr x, st') \<longleftrightarrow> x = reply \<and> (\<forall>n. reply \<noteq> ProviderRaises n) \<and> reply \<noteq> ProviderInterrupted
     \<and> st' = st\<lparr>rn_log := rn_log st @ [a]\<rparr>"
  by (auto simp: run_provider_def run_log_def exec_bind_def exec_modify_def exec_return_def exec_raise_def split: provider_reply.splits)

lemma run_now_Inr_iff: "run_now env st = (Inr t, st') \<longleftrightarrow> t = ee_clock (ev_executor env) (rn_clock st) \<and> st' = st\<lparr>rn_clock := Suc (rn_clock st)\<rparr>"
  by (auto simp: run_now_def)

lemma run_uuid_Inr_iff: "run_uuid env st = (Inr u, st') \<longleftrightarrow> u = ee_uuid (ev_executor env) (rn_uuid st) \<and> st' = st\<lparr>rn_uuid := Suc (rn_uuid st)\<rparr>"
  by (auto simp: run_uuid_def)

lemma exec_modify_Inr_iff: "exec_modify f st = (Inr x, st') \<longleftrightarrow> st' = f st"
  by (auto simp: exec_modify_def)

lemma exec_return_Inr_iff: "exec_return x st = (Inr y, st') \<longleftrightarrow> y = x \<and> st' = st"
  by (auto simp: exec_return_def)

lemma exec_raise_Inr_iff: "exec_raise e st = (Inr y, st') \<longleftrightarrow> False"
  by (simp add: exec_raise_def)

lemmas run_Inr_iffs = exec_bind_Inr_iff run_construct_Inr_iff run_ask_Inr_iff exec_raise_if_Inr_iff run_provider_Inr_iff
  run_now_Inr_iff run_uuid_Inr_iff exec_modify_Inr_iff exec_return_Inr_iff exec_raise_Inr_iff

lemma plain_Inr_iff: "(\<And>x y. new_x x = Inr y \<Longrightarrow> y = x) \<Longrightarrow> new_x x = Inr y \<longleftrightarrow> y = x \<and> accepts new_x x"
  by (auto simp: accepts_iff)

lemmas record_Inr_iffs =
  plain_Inr_iff[of new_message_record, OF message.unchanged] plain_Inr_iff[of new_conversation_record, OF conversation.unchanged]
  plain_Inr_iff[of new_agent_run_record, OF agent_run.unchanged] plain_Inr_iff[of new_request_input, OF request.unchanged]

subsection \<open>The opened Run\<close>

lemma open_conversation_Inr:
  assumes "open_conversation env owner m st = (Inr (now, conversation, message), st')"
  shows "now = ee_clock (ev_executor env) (rn_clock st) \<and> rn_clock st' = Suc (rn_clock st)
    \<and> accepts new_conversation_record conversation \<and> accepts new_message_record message
    \<and> cr_owner_customer_id conversation = os_customer_id owner \<and> mr_conversation_id message = cr_conversation_id conversation
    \<and> mr_direction message = DIRECTION_USER \<and> mr_received_at message = now"
  using assms by (clarsimp simp: open_conversation_def run_tell_def run_Inr_iffs record_Inr_iffs)

lemma start_run_Inr:
  assumes "start_run env conversation now st = (Inr running, st')"
  shows "running_in conversation running \<and> ar_started_at running = now \<and> rn_clock st' = rn_clock st"
  using assms by (clarsimp simp: start_run_def run_Inr_iffs running_in_def record_Inr_iffs)

definition opened_at :: "run_env \<Rightarrow> nat \<Rightarrow> opened_run \<Rightarrow> bool" where
  "opened_at env n opened \<longleftrightarrow> opened_ok opened \<and> mr_received_at (on_message opened) = ee_clock (ev_executor env) n
     \<and> ar_started_at (on_running_run opened) = ee_clock (ev_executor env) n"

lemma open_run_Inr:
  assumes "open_run env given st = (Inr opened, st')"
  shows "opened_at env (rn_clock st) opened \<and> rn_clock st \<le> rn_clock st'"
proof -
  from assms obtain command extra customer cextra where g: "given = Obj command extra" "rq_customer_context command = Obj customer cextra"
    by (auto simp: open_run_def exec_raise_Inr_iff split: pyobj.splits)
  from assms[unfolded open_run_def g pyobj.case] obtain owner artifact st1 now conversation message st2 running l s where
    owner: "scope_from_customer_context customer = Inr owner" and clock: "st1 = st\<lparr>rn_owner_scope := s, rn_log := l\<rparr>"
    and c: "open_conversation env owner (rq_message command) st1 = (Inr (now, conversation, message), st2)"
    and r: "start_run env conversation now st2 = (Inr running, st')"
    and o: "opened = \<lparr>on_owner_scope = owner, on_customer_context = Obj customer cextra,
       on_artifact = artifact, on_conversation = conversation, on_message = message, on_running_run = running\<rparr>"
    by (clarsimp simp: run_tell_def run_Inr_iffs g)
  show ?thesis
    using open_conversation_Inr[OF c] start_run_Inr[OF r] scope_customer[OF owner] clock
    by (simp add: opened_at_def opened_ok_def o accepts_iff)
qed

subsection \<open>The decision\<close>

text \<open>Traces and manifests only move the clock on.\<close>

lemma append_trace_clock: "append_trace env ty run_id occurred f st = (Inr x, st') \<Longrightarrow> rn_clock st \<le> rn_clock st'"
  by (cases occurred) (auto simp: append_trace_def run_tell_def run_Inr_iffs)

lemma save_manifest_clock: "save_manifest env run_id call_id purpose message_id task ref st = (Inr x, st') \<Longrightarrow> rn_clock st \<le> rn_clock st'"
  by (auto simp: save_manifest_def run_tell_def run_Inr_iffs dest!: append_trace_clock)

lemma understand_Inr:
  assumes "understand_request env opened st = (Inr (call_id, manifest, given, p), st')"
  shows "given = request_of opened \<and> rn_clock st \<le> rn_clock st'"
  using assms
  unfolding understand_request_def Let_def
  apply (simp only: run_Inr_iffs)
  apply (elim exE conjE)
  apply (drule append_trace_clock)+
  apply (drule save_manifest_clock)
  apply (split provider_reply.split_asm)
      apply (simp_all add: run_Inr_iffs record_Inr_iffs split: bool.split_asm)
  done

lemma allocate_clock: "allocate_identities env candidates st = (Inr x, st') \<Longrightarrow> rn_clock st' = rn_clock st"
  by (induction candidates arbitrary: st x st') (auto simp: run_Inr_iffs)

lemma reduce_Inr:
  assumes "reduce_request env opened request output st = (Inr (t, Some d), st')"
  shows "t = ee_clock (ev_executor env) (rn_clock st) \<and> rn_clock st \<le> rn_clock st'
    \<and> (\<exists>record_id given move_ref. validate_and_reduce_initial_request_v2 (\<lambda>d. ev_serialise env d (ev_fields_set env d))
         (Obj request []) output [mr_message_id (on_message opened) \<mapsto> mr_content (on_message opened)]
         (on_customer_context opened) record_id given move_ref t = Inr (Routable d))"
proof -
  from assms obtain o' extra where o: "output = Obj o' extra"
    by (auto simp: reduce_request_def run_Inr_iffs split: pyobj.split_asm)
  define reduced where "reduced allocations = validate_and_reduce_initial_request_v2 (\<lambda>d. ev_serialise env d (ev_fields_set env d))
         (Obj request []) output [mr_message_id (on_message opened) \<mapsto> mr_content (on_message opened)]
         (on_customer_context opened) (ee_uuid (ev_executor env) (rn_uuid st)) (Some allocations)" for allocations
  let ?now = "ee_clock (ev_executor env) (rn_clock st)"
  let ?st1 = "st\<lparr>rn_clock := Suc (rn_clock st), rn_uuid := Suc (rn_uuid st)\<rparr>"
  let ?decide = "\<lambda>allocations move_ref. case reduced allocations move_ref ?now of
           Inl (Aggregate _) \<Rightarrow> exec_return (?now, None)
         | Inl (Atomic _) \<Rightarrow> exec_raise (RunExecutionError ''Request Understanding internal failure'')
         | Inr (Routable decision) \<Rightarrow> exec_return (?now, Some decision)
         | Inr _ \<Rightarrow> exec_raise (RunExecutionError ''scoped Request Understanding outcome is not routable'')"
  have "exec_bind (allocate_identities env (ro_task_delta_candidates o')) (\<lambda>allocations.
      exec_bind (run_uuid env) (?decide allocations)) ?st1 = (Inr (t, Some d), st')"
    using assms unfolding reduce_request_def run_now_bind run_uuid_bind run_clock_def run_fresh_def o pyobj.case reduced_def add_0
      by simp
  then obtain allocations st1 where al: "allocate_identities env (ro_task_delta_candidates o') ?st1 = (Inr allocations, st1)"
    and "exec_bind (run_uuid env) (?decide allocations) st1 = (Inr (t, Some d), st')"
    unfolding exec_bind_Inr_iff[of "allocate_identities env (ro_task_delta_candidates o')"] by blast
  then obtain move_ref st2 where st2: "st2 = st1\<lparr>rn_uuid := Suc (rn_uuid st1)\<rparr>"
    and r: "?decide allocations move_ref st2 = (Inr (t, Some d), st')"
    by (simp only: run_uuid_bind)
  have "t = ?now \<and> st' = st2 \<and> reduced allocations move_ref ?now = Inr (Routable d)"
    using r by (cases "reduced allocations move_ref ?now") (auto simp: run_Inr_iffs split: ru_error.split_asm initial_decision.split_asm)
  with allocate_clock[OF al] st2 show ?thesis by (auto simp: reduced_def)
qed

subsection \<open>Handling the whole message\<close>

text \<open>The stages up to a routable decision, as \<open>handle\<close> runs them.\<close>

definition routed :: "run_env \<Rightarrow> agent_run_command pyobj \<Rightarrow> (opened_run \<times> routable_decision) run" where
  "routed env given =
     exec_bind (open_run env given) (\<lambda>opened.
     exec_bind (understand_request env opened) (\<lambda>(model_call_id, manifest, request, proposal).
     case proposal of
       ProposalRefused stop \<Rightarrow> exec_raise RunProviderError
     | Proposed output \<Rightarrow>
         exec_bind (reduce_request env opened request output) (\<lambda>(reduced_at, reduced).
         case reduced of None \<Rightarrow> exec_raise RunProviderError | Some decision \<Rightarrow> exec_return (opened, decision))))"

lemma routed_Inr:
  assumes env: "steady env" and "routed env given st = (Inr (opened, d), st')"
  obtains model_call_id manifest now where "routable_for opened now d" "reached env (instant now) st'"
    "handle_body env given st = act_on_decision env opened model_call_id manifest now d st'"
proof -
  from assms(2) obtain opened' st1 where o: "open_run env given st = (Inr opened', st1)"
    and rest: "exec_bind (understand_request env opened') (\<lambda>(model_call_id, manifest, request, proposal).
     case proposal of
       ProposalRefused stop \<Rightarrow> exec_raise RunProviderError
     | Proposed output \<Rightarrow>
         exec_bind (reduce_request env opened' request output) (\<lambda>(reduced_at, reduced).
         case reduced of None \<Rightarrow> exec_raise RunProviderError | Some decision \<Rightarrow> exec_return (opened', decision))) st1
       = (Inr (opened, d), st')"
    by (simp only: routed_def exec_bind_Inr_iff[of "open_run env given"]) blast
  obtain model_call_id manifest request p st2 where
    u: "understand_request env opened' st1 = (Inr (model_call_id, manifest, request, p), st2)"
    and rest: "(case p of
       ProposalRefused stop \<Rightarrow> exec_raise RunProviderError
     | Proposed output \<Rightarrow>
         exec_bind (reduce_request env opened' request output) (\<lambda>(reduced_at, reduced).
         case reduced of None \<Rightarrow> exec_raise RunProviderError | Some decision \<Rightarrow> exec_return (opened', decision))) st2
       = (Inr (opened, d), st')"
    using rest by (auto simp: exec_bind_Inr_iff[of "understand_request env opened'"])
  obtain ro where p: "p = Proposed ro" using rest by (cases p) (simp_all add: exec_raise_Inr_iff)
  obtain now reduced st3 where r3: "reduce_request env opened' request ro st2 = (Inr (now, reduced), st3)"
    and rest: "(case reduced of None \<Rightarrow> exec_raise RunProviderError | Some decision \<Rightarrow> exec_return (opened', decision)) st3
      = (Inr (opened, d), st')"
    using rest by (auto simp: p exec_bind_Inr_iff[of "reduce_request env opened' request ro"])
  have red: "reduced = Some d" "opened' = opened" "st3 = st'"
    using rest by (cases reduced; simp add: run_Inr_iffs)+
  note r = r3[unfolded red] and o = o[unfolded red] and u = u[unfolded red p]
  have body: "handle_body env given st = act_on_decision env opened model_call_id manifest now d st'"
    using o u r by (simp add: handle_body_def Let_def exec_bind_def)
  have mono: "instant (ee_clock (ev_executor env) m) \<le> instant (ee_clock (ev_executor env) n)" if "m \<le> n" for m n
    using env that by (simp add: steady_def)
  from understand_Inr[OF u] have given: "request = request_of opened" and c2: "rn_clock st1 \<le> rn_clock st2" by auto
  from open_run_Inr[OF o] have op: "opened_at env (rn_clock st) opened" and c1: "rn_clock st \<le> rn_clock st1" by auto
  obtain record_id given' move_ref where now: "now = ee_clock (ev_executor env) (rn_clock st2)" and c3: "rn_clock st2 \<le> rn_clock st'"
    and v: "validate_and_reduce_initial_request_v2 (\<lambda>d. ev_serialise env d (ev_fields_set env d))
         (Obj (request_of opened) []) ro [mr_message_id (on_message opened) \<mapsto> mr_content (on_message opened)]
         (on_customer_context opened) record_id given' move_ref now = Inr (Routable d)"
    using reduce_Inr[OF r] given by blast
  have "instant (ee_clock (ev_executor env) (rn_clock st)) \<le> instant now" using c1 c2 by (simp add: now mono)
  with op v have R: "routable_for opened now d" unfolding routable_for_def opened_at_def by (simp, blast)
  have "reached env (instant now) st'" using c3 by (simp add: reached_def now mono)
  with R have "routable_for opened now d" "reached env (instant now) st'" by simp_all
  with body show ?thesis by (rule that[rotated 2])
qed

lemma answered_handle_returns:
  assumes routed: "routed env given initial_run_state = (Inr (opened, d), st)" and a: "answering env opened d"
  shows "\<exists>result st'. handle env given initial_run_state = (Inr result, st')"
proof -
  have env: "steady env" using a by (simp add: answering_def)
  obtain call_id manifest now where R: "routable_for opened now d" and st: "reached env (instant now) st"
    and body: "handle_body env given initial_run_state = act_on_decision env opened call_id manifest now d st"
    by (rule routed_Inr[OF env routed])
  from act_returns[OF a R, of call_id manifest] st obtain result st' where
    "act_on_decision env opened call_id manifest now d st = (Inr result, st')"
    by (auto simp: returns_def)
  with body show ?thesis
    by (simp add: handle_def exec_bind_def exec_try_def exec_get_def exec_return_def)
qed

end
