(* ===== verification/Run_Liveness.thy ===== *)
theory Run_Liveness
  imports Run_Answered
begin

section \<open>A Run that is answered ends with a result\<close>

text \<open>
  With answering ports and a forward clock a Run returns; a sample Run for the witnesses.
\<close>

subsection \<open>A sample Run\<close>

definition sample_uuids :: "uuid list" where
  "sample_uuids = [100, 7, 5, 103, 104, 105, 106, 107, 108, 60, 51, 52, 53, 54, 61]"

text \<open>The order service finds the order, and the presentation model proposes a plan for it.\<close>

definition found_outcomes :: "get_order_outcome enum_snapshots" where
  "found_outcomes = [(FOUND, member_storage (str ''FOUND''))]"

definition found_statuses :: "order_status enum_snapshots" where
  "found_statuses = [(SHIPPED, member_storage (str ''SHIPPED''))]"

definition sample_run_env :: run_env where
  "sample_run_env =
     \<lparr>ev_executor = (sample_env (OrderReplies found_reply))
        \<lparr>ee_outcomes := found_outcomes, ee_statuses := found_statuses, ee_clock := (\<lambda>_. sample_now), ee_uuid := (\<lambda>n. if n < 15 then sample_uuids ! n else n + 1000)\<rparr>,
      ev_registry = sample_registry, ev_provider_lane = str ''lane'', ev_redaction_policy_version = str ''redaction-v1'',
      ev_run_time_budget_ms = 30000, ev_done = (\<lambda>_. Replies ()),
      ev_artifact = Replies (Some (ok_or undefined (snapshot_artifact sample_registry))),
      ev_messages = Replies [Obj \<lparr>mr_schema_version = MESSAGE_SCHEMA_VERSION, mr_message_id = 7, mr_conversation_id = 100,
        mr_direction = DIRECTION_USER, mr_content = sample_message, mr_received_at = sample_now\<rparr> []],
      ev_insert_run = Replies INSERTED, ev_start_run = Replies APPLIED, ev_propose = Proposes (Obj sample_output []),
      ev_create_graph = Replies APPLIED, ev_task = (\<lambda>_. Replies (Some (ig_task sample_graph_record))),
      ev_unit = Replies (Some (ig_request_unit sample_graph_record)), ev_plan = Proposes (Obj sample_plan []),
      ev_finalize_run = (\<lambda>_. Replies APPLIED), ev_serialise = blank_serialiser, ev_fields_set = (\<lambda>_. sample_manifest)\<rparr>"

definition sample_run_command :: "agent_run_command pyobj" where
  "sample_run_command = Obj \<lparr>rq_customer_context = Obj sample_customer [], rq_message = sample_message\<rparr> []"

lemma sample_run_steady: "steady sample_run_env"
proof -
  have d: "distinct sample_uuids" "list_all (\<lambda>u. u < 1000) sample_uuids" "length sample_uuids = 15" by (simp_all add: sample_uuids_def)
  have small: "n < 15 \<Longrightarrow> sample_uuids ! n < 1000" for n using d by (simp add: list_all_length)
  have "inj (\<lambda>n. if n < 15 then sample_uuids ! n else n + 1000)"
  proof (rule injI)
    fix m n assume "(if m < 15 then sample_uuids ! m else m + 1000) = (if n < 15 then sample_uuids ! n else n + 1000)"
    with d small[of m] small[of n] show "m = n" by (cases "m < 15"; cases "n < 15") (auto simp: nth_eq_iff_index_eq)
  qed
  then show ?thesis by (simp add: steady_def sample_run_env_def sample_now_def)
qed

definition sample_artifact :: toolset_artifact where
  "sample_artifact = \<lparr>ta_artifact_schema_version = MODEL_VISIBLE_TOOLSET_ARTIFACT_SCHEMA_VERSION,
     ta_model_visible_toolset_hash = sample_toolset_hash, ta_provider_visible_tool_specs = [get_order_tool_spec]\<rparr>"

lemma sample_artifact_built: "snapshot_artifact sample_registry = Inr sample_artifact"
proof -
  obtain a where "snapshot_artifact sample_registry = Inr a" using built_artifact[OF sample_registry_built] by blast
  moreover have "rs_provider_visible_toolset sample_registry = [get_order_tool_spec]"
    by (simp add: sample_registry_def snapshot_of_def shown_spec_def visible_get_order get_order_spec_valid ok_or_def)
  ultimately show ?thesis
    by (auto simp: snapshot_artifact_def sample_registry_hash sample_artifact_def dest: toolset.unchanged)
qed

definition sample_conversation :: conversation_record where
  "sample_conversation = \<lparr>cr_schema_version = CONVERSATION_SCHEMA_VERSION, cr_conversation_id = 100,
     cr_owner_customer_id = str ''cust-1'', cr_created_at = sample_now\<rparr>"

definition sample_user_message :: message_record where
  "sample_user_message = \<lparr>mr_schema_version = MESSAGE_SCHEMA_VERSION, mr_message_id = 7, mr_conversation_id = 100,
     mr_direction = DIRECTION_USER, mr_content = sample_message, mr_received_at = sample_now\<rparr>"

definition sample_running :: agent_run_record where
  "sample_running = \<lparr>ar_run_id = 5, ar_conversation_id = Some 100, ar_status = RUN_RUNNING,
     ar_provider_lane = str ''lane'', ar_started_at = sample_now, ar_completed_at = None, ar_stop_reason = None,
     ar_incomplete_reason = None\<rparr>"

definition sample_opened :: opened_run where
  "sample_opened = \<lparr>on_owner_scope = \<lparr>os_customer_id = str ''cust-1''\<rparr>, on_customer_context = Obj sample_customer [],
     on_artifact = sample_artifact, on_conversation = sample_conversation, on_message = sample_user_message,
     on_running_run = sample_running\<rparr>"

lemma sample_run_world:
  "ee_clock (ev_executor sample_run_env) n = sample_now"
  "n < 15 \<Longrightarrow> ee_uuid (ev_executor sample_run_env) n = sample_uuids ! n"
  "ev_done sample_run_env n = Replies ()" "ev_registry sample_run_env = sample_registry"
  "ev_artifact sample_run_env = Replies (Some sample_artifact)"
  "ev_messages sample_run_env = Replies [Obj sample_user_message []]"
  "ev_insert_run sample_run_env = Replies INSERTED" "ev_start_run sample_run_env = Replies APPLIED"
  "ev_propose sample_run_env = Proposes (Obj sample_output [])" "ev_provider_lane sample_run_env = str ''lane''"
  by (simp_all add: sample_run_env_def sample_artifact_built sample_user_message_def ok_or_def)

lemmas opening_Inr_iffs = record_Inr_iffs plain_Inr_iff[of new_create_run_command, OF create_run.unchanged]
  plain_Inr_iff[of new_transition_run_command, OF transition_run.unchanged]

lemma sample_scope: "scope_from_customer_context sample_customer = Inr \<lparr>os_customer_id = str ''cust-1''\<rparr>"
  by (simp add: scope_from_customer_context_def new_trusted_owner_scope_def construct_Inr_iff sample_customer_def)

lemma sample_records_valid:
  "accepts new_conversation_record sample_conversation"
  "accepts new_message_record sample_user_message"
  "accepts new_agent_run_record sample_running"
  "accepts new_agent_run_record (sample_running\<lparr>ar_status := RUN_CREATED\<rparr>)"
  "accepts new_create_run_command \<lparr>crc_created_record = sample_running\<lparr>ar_status := RUN_CREATED\<rparr>\<rparr>"
  "accepts new_transition_run_command \<lparr>trc_expected_active_record = sample_running\<lparr>ar_status := RUN_CREATED\<rparr>, trc_next_record = sample_running\<rparr>"
  by (simp_all add: accepts_iff new_conversation_record_def new_message_record_def new_agent_run_record_def new_create_run_command_def
      new_transition_run_command_def construct_Inr_iff sample_conversation_def sample_user_message_def sample_running_def
      CONVERSATION_SCHEMA_VERSION_def MESSAGE_SCHEMA_VERSION_def sample_now_def MessageContent_def sample_message_def
      run_lifecycle_is_consistent_def run_is_active_def same_run_stable_def)

lemma sample_conversation_opens:
  assumes "rn_uuid st = 0"
  shows "\<exists>st'. open_conversation sample_run_env \<lparr>os_customer_id = str ''cust-1''\<rparr> sample_message st
     = (Inr (sample_now, sample_conversation, sample_user_message), st') \<and> rn_uuid st' = 2"
  using sample_records_valid(1,2) assms
  by (simp add: open_conversation_def run_tell_def run_Inr_iffs opening_Inr_iffs sample_run_world sample_uuids_def
      authoritative_message_def)
    (simp add: sample_conversation_def sample_user_message_def)

lemma sample_run_starts:
  assumes "rn_uuid st = 2"
  shows "\<exists>st'. start_run sample_run_env sample_conversation sample_now st = (Inr sample_running, st') \<and> rn_uuid st' = 3"
  using sample_records_valid(3-6) assms
  by (simp add: start_run_def run_Inr_iffs opening_Inr_iffs sample_run_world sample_uuids_def sample_conversation_def
      sample_running_def)

lemma sample_opens:
  "\<exists>st. open_run sample_run_env sample_run_command initial_run_state = (Inr sample_opened, st) \<and> rn_uuid st = 3"
proof -
  let ?st = "initial_run_state\<lparr>rn_owner_scope := Some \<lparr>os_customer_id = str ''cust-1''\<rparr>,
    rn_log := rn_log initial_run_state @ [PutArtifact sample_artifact, GetArtifact (ta_model_visible_toolset_hash sample_artifact)]\<rparr>"
  obtain st1 where c: "open_conversation sample_run_env \<lparr>os_customer_id = str ''cust-1''\<rparr> sample_message ?st
     = (Inr (sample_now, sample_conversation, sample_user_message), st1)" "rn_uuid st1 = 2"
    using sample_conversation_opens[of ?st] by (auto simp: initial_run_state_def)
  from sample_run_starts[OF c(2)] obtain st2 where
    s: "start_run sample_run_env sample_conversation sample_now st1 = (Inr sample_running, st2)" "rn_uuid st2 = 3" by blast
  have "open_run sample_run_env sample_run_command initial_run_state = (Inr sample_opened, st2)"
    using c(1) s(1)
    by (simp add: open_run_def sample_run_command_def sample_scope run_Inr_iffs sample_run_world sample_artifact_built run_tell_def
        sample_opened_def)
  with s(2) show ?thesis by blast
qed

lemma trace_step:
  assumes "steady env" "\<And>i t. is_utc t \<Longrightarrow> new_trace_event (f (blank_event i ty t run_id)) = Inr (f (blank_event i ty t run_id))"
  shows "\<exists>st'. append_trace env ty run_id None f st = (Inr (), st') \<and> rn_uuid st' = Suc (rn_uuid st)"
  using assms by (simp add: append_trace_def run_Inr_iffs run_tell_def steady_def)

lemma manifest_step:
  assumes env: "steady env" and reg: "usable_registry (ev_registry env)" "NonEmptyString (ev_redaction_policy_version env)"
    and purpose: "NonEmptyString purpose"
  shows "\<exists>m st'. save_manifest env run_id call_id purpose message_id None None st = (Inr m, st') \<and> rn_uuid st' = Suc (Suc (rn_uuid st))"
proof -
  let ?m = "\<lparr>cm_context_manifest_id = ee_uuid (ev_executor env) (rn_uuid st), cm_run_id = run_id, cm_model_call_id = call_id,
        cm_tool_registry_version = rs_tool_registry_version (ev_registry env),
        cm_model_visible_toolset_hash = rs_model_visible_toolset_hash (ev_registry env),
        cm_selected_message_refs = [message_id], cm_task_state_ref_and_version = None, cm_observation_refs_and_versions = [],
        cm_evidence_refs_and_versions = [], cm_action_record_refs = [],
        cm_redaction_policy_version = ev_redaction_policy_version env, cm_truncation_decisions = [],
        cm_token_counts = \<lparr>tk_input_tokens = None, tk_output_tokens = None\<rparr>,
        cm_assembled_at = ee_clock (ev_executor env) (rn_clock st)\<rparr>"
  let ?st = "st\<lparr>rn_uuid := Suc (rn_uuid st), rn_clock := Suc (rn_clock st), rn_log := rn_log st @ [SaveManifest ?m]\<rparr>"
  obtain st' where t: "append_trace env CONTEXT_MANIFEST_RECORDED run_id None (\<lambda>e. e
       \<lparr>te_model_call_id := Some call_id, te_model_call_purpose := Some purpose,
        te_context_manifest_id := Some (cm_context_manifest_id ?m),
        te_tool_registry_version := Some (cm_tool_registry_version ?m),
        te_model_visible_toolset_hash := Some (cm_model_visible_toolset_hash ?m)\<rparr>) ?st = (Inr (), st')"
    "rn_uuid st' = Suc (rn_uuid ?st)"
    using reg purpose trace_step[OF env, of "\<lambda>e. e
       \<lparr>te_model_call_id := Some call_id, te_model_call_purpose := Some purpose,
        te_context_manifest_id := Some (cm_context_manifest_id ?m),
        te_tool_registry_version := Some (cm_tool_registry_version ?m),
        te_model_visible_toolset_hash := Some (cm_model_visible_toolset_hash ?m)\<rparr>" CONTEXT_MANIFEST_RECORDED run_id ?st]
    by (auto simp: trace_valid_simps usable_registry_def)
  have "new_context_manifest ?m = Inr ?m"
    using env reg by (simp add: new_context_manifest_def construct_Inr_iff usable_registry_def steady_def)
  with t env show ?thesis
    by (simp add: save_manifest_def run_Inr_iffs run_tell_def steady_def)
qed

lemma sample_usable: "usable_registry (ev_registry sample_run_env)" "NonEmptyString (ev_redaction_policy_version sample_run_env)"
proof -
  have "list_all (accepts new_provider_tool_name_binding) (rs_provider_name_to_canonical_name sample_registry)"
    using get_order_registrable by (simp add: registrable_def accepts_iff sample_registry_def snapshot_of_def)
  then show "usable_registry (ev_registry sample_run_env)" "NonEmptyString (ev_redaction_policy_version sample_run_env)"
    using sample_hash(2)
    by (simp_all add: usable_registry_def sample_run_env_def sample_registry_hash)
      (simp add: sample_registry_def snapshot_of_def get_order_registration_def)
qed

lemma sample_request_of: "request_of sample_opened = sample_input"
  by (simp add: request_of_def sample_opened_def sample_running_def sample_user_message_def sample_artifact_def sample_input_def)

lemma sample_understands:
  assumes "rn_uuid st = 3"
  shows "\<exists>call_id m st'. understand_request sample_run_env sample_opened st
     = (Inr (call_id, m, sample_input, Proposed (Obj sample_output [])), st') \<and> rn_uuid st' = 9"
proof -
  note env = sample_run_steady
  let ?purpose = "str ''REQUEST_UNDERSTANDING''"
  have purpose: "NonEmptyString ?purpose" by (simp add: str_def NonEmptyString_def)
  obtain st1 where t1: "append_trace sample_run_env MESSAGE_ACCEPTED 5 None (\<lambda>e. e\<lparr>te_message_ref := Some 7\<rparr>) st = (Inr (), st1)"
    "rn_uuid st1 = 4"
    using trace_step[OF env, of "\<lambda>e. e\<lparr>te_message_ref := Some 7\<rparr>" MESSAGE_ACCEPTED 5 st] assms by (auto simp: trace_valid_simps)
  obtain st2 where t2: "append_trace sample_run_env RUN_STARTED 5 None (\<lambda>e. e) st1 = (Inr (), st2)" "rn_uuid st2 = 5"
    using trace_step[OF env, of "\<lambda>e. e" RUN_STARTED 5 st1] t1(2) by (auto simp: trace_valid_simps)
  let ?f = "\<lambda>e. e\<lparr>te_message_ref := Some 7, te_model_call_id := Some 105, te_model_call_purpose := Some ?purpose\<rparr>"
  let ?st3 = "st2\<lparr>rn_uuid := 6\<rparr>"
  obtain st4 where t3: "append_trace sample_run_env REQUEST_UNDERSTANDING_STARTED 5 None ?f ?st3 = (Inr (), st4)" "rn_uuid st4 = 7"
    using trace_step[OF env, of ?f REQUEST_UNDERSTANDING_STARTED 5 ?st3] purpose by (auto simp: trace_valid_simps)
  obtain m st5 where m: "save_manifest sample_run_env 5 105 ?purpose 7 None None st4 = (Inr m, st5)" "rn_uuid st5 = 9"
    using manifest_step[OF env sample_usable purpose, of 5 105 7 st4] t3(2) by auto
  have ids: "ar_run_id (on_running_run sample_opened) = 5" "mr_message_id (on_message sample_opened) = 7"
    by (simp_all add: sample_opened_def sample_running_def sample_user_message_def)
  have "accepts new_request_input sample_input" using sample_input_canonical by (simp add: canonical_request_input_def)
  then have valid: "new_request_input sample_input = Inr sample_input" by (simp add: accepts_iff)
  show ?thesis
    unfolding understand_request_def Let_def ids sample_request_of valid
    using t1 t2 t3 m
    by (simp add: exec_bind_Inr_iff run_uuid_Inr_iff sample_run_world sample_uuids_def run_construct_def run_provider_Inr_iff
        exec_return_Inr_iff)
qed

lemma sample_reduces:
  assumes "rn_uuid st = 9"
  shows "\<exists>st'. reduce_request sample_run_env sample_opened sample_input (Obj sample_output []) st
     = (Inr (sample_now, Some sample_routable), st')"
proof -
  have fields: "mr_message_id (on_message sample_opened) = 7" "mr_content (on_message sample_opened) = sample_message"
    "on_customer_context sample_opened = Obj sample_customer []"
    by (simp_all add: sample_opened_def sample_user_message_def)
  have alloc: "new_identity_allocation sample_allocation = Inr sample_allocation"
    using sample_reduction by (simp add: reduction_ok_def allocations_ok_def accepts_iff)
  have c: "ro_task_delta_candidates sample_output = [sample_candidate]" "tdc_candidate_id sample_candidate = 50"
    by (simp_all add: sample_output_def sample_candidate_def)
  have "allocate_identities sample_run_env [sample_candidate] (st\<lparr>rn_clock := Suc (rn_clock st), rn_uuid := 10\<rparr>)
     = (Inr [Obj sample_allocation []], st\<lparr>rn_clock := Suc (rn_clock st), rn_uuid := 14\<rparr>)"
    using alloc by (simp add: run_Inr_iffs sample_run_world sample_uuids_def c sample_allocation_def)
  moreover have "validate_and_reduce_initial_request_v2 (\<lambda>d. ev_serialise sample_run_env d (ev_fields_set sample_run_env d))
     (Obj sample_input []) (Obj sample_output []) sample_messages (Obj sample_customer []) 60 (Some [Obj sample_allocation []]) 61
     sample_now = Inr (Routable sample_routable)"
    using sample_reduced by (simp only: sample_decision_routable)
  note this[unfolded sample_messages_def]
  ultimately show ?thesis
    using assms
    by (simp add: reduce_request_def run_Inr_iffs sample_run_world sample_uuids_def c(1) fields del: allocate_identities.simps)
qed

lemma sample_routed: "\<exists>st. routed sample_run_env sample_run_command initial_run_state = (Inr (sample_opened, sample_routable), st)"
proof -
  obtain st1 where o: "open_run sample_run_env sample_run_command initial_run_state = (Inr sample_opened, st1)" "rn_uuid st1 = 3"
    using sample_opens by blast
  obtain call_id m st2 where u: "understand_request sample_run_env sample_opened st1
     = (Inr (call_id, m, sample_input, Proposed (Obj sample_output [])), st2)" "rn_uuid st2 = 9"
    using sample_understands[OF o(2)] by blast
  obtain st3 where r: "reduce_request sample_run_env sample_opened sample_input (Obj sample_output []) st2
     = (Inr (sample_now, Some sample_routable), st3)"
    using sample_reduces[OF u(2)] by blast
  show ?thesis using o u r by (simp add: routed_def exec_bind_def exec_return_def)
qed

text \<open>What is rendered from the plan for the order that was found fits in a message.\<close>

lemma sample_found:
  "\<exists>r s. result_of_reply (ev_executor sample_run_env) found_reply = r \<and> gr_outcome r = FOUND
     \<and> gr_order_summary r = Some (Obj s []) \<and> os_status s = SHIPPED \<and> os_order_number s = str ''O-1234''
     \<and> os_line_items s = [Obj \<lparr>ol_product_name = str ''tea'', ol_quantity = 2\<rparr> []]
     \<and> os_ordered_at s = Datetime 0 (Some 0) \<and> os_status_updated_at s = Datetime 60 (Some 0)"
proof -
  obtain r where r: "canonical_get_order_result found_outcomes found_statuses found_reply = Some r"
    using found_reply_admitted by (auto simp: found_outcomes_def found_statuses_def)
  then obtain outcome storage where v: "rres_outcome found_reply = Some (outcome, storage)" "revalidate_result found_reply outcome = Some r"
    by (rule canonical_get_order_result_Some)
  have "outcome = FOUND" using v(1) by (simp add: found_reply_def)
  with revalidate_result_Some[OF v(2)] r show ?thesis
    by (simp add: result_of_reply_def sample_run_env_def found_reply_def summary_of_def line_of_def
        received_datetime_def tz_offset_def)
qed

lemma sample_presents: "presents sample_run_env (result_of_reply (ev_executor sample_run_env) found_reply)"
proof -
  obtain s where s: "gr_order_summary (result_of_reply (ev_executor sample_run_env) found_reply) = Some (Obj s [])"
    "os_status s = SHIPPED" "os_order_number s = str ''O-1234''"
    "os_line_items s = [Obj \<lparr>ol_product_name = str ''tea'', ol_quantity = 2\<rparr> []]"
    "os_ordered_at s = Datetime 0 (Some 0)" "os_status_updated_at s = Datetime 60 (Some 0)"
    using sample_found by blast
  have times: "strftime_minutes (Datetime 0 (Some 0)) = str ''1-01-01 00:00 UTC''"
    "strftime_minutes (Datetime 60 (Some 0)) = str ''1-01-01 00:00 UTC''" "int_repr 2 = str ''2''"
    by code_simp+
  show ?thesis
    by (simp add: presents_def sample_run_env_def[THEN arg_cong[where f = ev_plan]] s plan_fits_def STATUS_LABELS_def)
      (simp add: message_parts_def sample_plan_def presentation_fields_def field_values_def s times line_item_text_def opening_text_def str_def)
qed

lemma sample_answering: "answering sample_run_env sample_opened sample_routable"
proof -
  have "answering_service (ev_executor sample_run_env) found_reply"
    by (simp add: sample_run_env_def answering_service_def sample_env_def)
  moreover note sample_presents
  moreover have "remaining_ms 30000 0 = 30000"
    by (simp add: remaining_ms_def double_def Let_def bit_length.simps round_half_even_def)
  then have "within_budget sample_run_env (on_running_run sample_opened)"
    by (simp add: within_budget_def sample_run_env_def sample_opened_def sample_running_def sample_now_def)
  moreover have "declared_manifest (ev_fields_set sample_run_env sample_routable)"
    by (simp add: sample_run_env_def sample_opened_def sample_running_def sample_now_def declared_manifest_def
        sample_manifest_def TASK_CLASS_def UNIT_CLASS_def BINDING_CLASS_def)
  moreover have "nm_kind (rd_next_move_candidate sample_routable) = CALL_TOOL" "rd_task_graph sample_routable = sample_graph_record"
    by (simp_all add: sample_routable_def sample_output_def)
  moreover have "ev_create_graph sample_run_env = Replies APPLIED" "ev_finalize_run sample_run_env n = Replies APPLIED"
    "ev_task sample_run_env n = Replies (Some (ig_task sample_graph_record))"
    "ev_unit sample_run_env = Replies (Some (ig_request_unit sample_graph_record))" for n
    by (simp_all add: sample_run_env_def)
  ultimately show ?thesis
    using sample_run_steady sample_usable unfolding answering_def by auto
qed

lemma sample_routable_for: "routable_for sample_opened sample_now sample_routable"
proof -
  have "validate_and_reduce_initial_request_v2 blank_payload (Obj (request_of sample_opened) []) (Obj sample_output [])
     [mr_message_id (on_message sample_opened) \<mapsto> mr_content (on_message sample_opened)]
     (on_customer_context sample_opened) 60 (Some [Obj sample_allocation []]) 61 sample_now = Inr (Routable sample_routable)" for blank_payload
    using sample_reduced[of blank_payload]
    by (simp only: sample_decision_routable sample_request_of) (simp add: sample_opened_def sample_user_message_def sample_messages_def)
  moreover obtain st where "open_run sample_run_env sample_run_command initial_run_state = (Inr sample_opened, st)"
    using sample_opens by blast
  from open_run_Inr[OF this] have "opened_ok sample_opened" by (simp add: opened_at_def)
  moreover have "mr_received_at (on_message sample_opened) = sample_now" "ar_started_at (on_running_run sample_opened) = sample_now"
    by (simp_all add: sample_opened_def sample_user_message_def sample_running_def)
  ultimately show ?thesis unfolding routable_for_def by (intro conjI; simp?) blast
qed

subsection \<open>Properties\<close>

text \<open>C26. A Run that is answered ends with a result: if opening, understanding and reducing the message lead to a
  routable tool call, the store gives back what was just written, every port and the model answer, the clock does not
  run backwards and stays within the budget, and, when the order service found the order and the presentation model
  proposes a plan, what this plan makes of this order is at most 4000 characters long, then no record the service
  builds is refused, whether the gate accepts or rejects and whatever the order service replies. The witness is a Run
  whose order is found and presented by a proposed plan.\<close>

theorem answered_run_returns:
  assumes "routed env given initial_run_state = (Inr (opened, d), st)" "answering env opened d"
  shows "\<exists>result st'. handle env given initial_run_state = (Inr result, st')"
  by (rule answered_handle_returns[OF assms])

theorem answered_run_returns_witness:
  "(\<exists>result st'. handle sample_run_env sample_run_command initial_run_state = (Inr result, st'))
   \<and> ev_plan sample_run_env = Proposes (Obj sample_plan [])
   \<and> gr_outcome (result_of_reply (ev_executor sample_run_env) found_reply) = FOUND"
proof -
  obtain st where "routed sample_run_env sample_run_command initial_run_state = (Inr (sample_opened, sample_routable), st)"
    using sample_routed by blast
  from answered_run_returns[OF this sample_answering] sample_found show ?thesis by (auto simp: sample_run_env_def)
qed

text \<open>The store's contract and the reducer agree: the graph of every routable decision for an opened Run passes
  all the checks of \<open>CreateInitialTaskGraphV2Command\<close>, and is written in one action.\<close>

theorem routable_graph_is_stored:
  assumes "routable_for opened now d"
    and "ev_create_graph env = Replies APPLIED"
  shows "new_create_initial_graph_command (graph_command opened now d) = Inr (graph_command opened now d)
    \<and> rn_log (snd (store_graph env opened now d st)) = rn_log st @ [CreateInitialGraph (graph_command opened now d)]"
  using graph_command_valid[OF assms(1)] store_graph_runs[OF assms] by simp

theorem routable_graph_is_stored_witness:
  "new_create_initial_graph_command (graph_command sample_opened sample_now sample_routable)
     = Inr (graph_command sample_opened sample_now sample_routable)
   \<and> rn_log (snd (store_graph sample_run_env sample_opened sample_now sample_routable initial_run_state))
     = [CreateInitialGraph (graph_command sample_opened sample_now sample_routable)]"
  using routable_graph_is_stored[OF sample_routable_for, of sample_run_env initial_run_state]
  by (simp add: sample_run_env_def initial_run_state_def)

text \<open>The terminal write is never refused by its own validator: with a Run, Task graph and link that agree and a
  clock that does not run backwards, \<open>_finish_with_task\<close> returns the mapped result as soon as the store answers, and
  commits it with the next Task, the transition, the message and both events of \<open>task_finish\<close>.\<close>

theorem finished_run_is_committed:
  assumes "steady env" "running_in conversation running" "closable_graph running task unit link"
    and "(fa_stop_reason args, fa_target_status args) \<in> set SERVICE_ROWS"
    and "map_result (ar_run_id running) (fa_stop_reason args) (fa_rendered_message args) = Inr result"
    and "tk_status task \<noteq> fa_target_status args"
    and "instant (tk_updated_at task) \<le> instant (run_clock env st 0)"
      "instant (ru_updated_at unit) \<le> instant (run_clock env st 0)" "instant (ar_started_at running) \<le> instant (run_clock env st 0)"
    and "ev_finalize_run env (Suc (length (rn_log st))) = Replies APPLIED"
  shows "\<exists>st' e. finish_with_task env running conversation task unit link args st = (Inr result, st')
    \<and> rn_committed_result st' = Some result
    \<and> rn_log st' = rn_log st @ [AppendRunTrace e, FinalizeRun (task_finish running conversation task unit link args result (stamps_at env st))]"
  using finish_with_task_runs[OF assms] by blast

theorem finished_run_is_committed_witness:
  "\<exists>st' result. finish_with_task sample_run_env sample_running sample_conversation (ig_task sample_graph_record)
      (ig_request_unit sample_graph_record) (initial_link 5 52) (ended_read STOP_GATE_REJECTED BLOCKED 9) initial_run_state
     = (Inr result, st') \<and> rn_committed_result st' = Some result"
proof -
  note R = stored_graph_closable[OF sample_routable_for]
  have same: "on_running_run sample_opened = sample_running" "on_conversation sample_opened = sample_conversation"
    "rd_task_graph sample_routable = sample_graph_record" "ar_run_id sample_running = 5"
    "tk_task_id (ig_task sample_graph_record) = 52"
    by (simp_all add: sample_opened_def sample_routable_def sample_running_def sample_graph_record_def graph_of_def sample_allocation_def)
  obtain result where res: "map_result (ar_run_id sample_running) STOP_GATE_REJECTED None = Inr result"
    using map_result_safe[of STOP_GATE_REJECTED] by blast
  have clock: "run_clock sample_run_env initial_run_state 0 = sample_now"
    by (simp add: run_clock_def sample_run_world)
  have started: "ar_started_at sample_running = sample_now" by (simp add: sample_running_def)
  have "ev_finalize_run sample_run_env n = Replies APPLIED" for n by (simp add: sample_run_env_def)
  from finished_run_is_committed[OF sample_run_steady R(2,1)[unfolded same],
      where args = "ended_read STOP_GATE_REJECTED BLOCKED 9" and result = result and st = initial_run_state] res R(3,4,5) this
  show ?thesis by (auto simp: ended_read_def SERVICE_ROWS_def same clock started)
qed

end
