(* ===== verification/Eval_Records.thy ===== *)
theory Eval_Records
  imports Renderer Trace
begin

section \<open>Evaluation records (application/records.py, lines 2857--2861 and 2913--3123)\<close>

text \<open>
  What an Eval attempt leaves behind: the verdict of each grader, the replay versions, the result
  of a case and the failure of the infrastructure, each with its validator.
\<close>

datatype eval_result_status = RESULT_PASS | RESULT_FAIL | RESULT_SKIPPED | RESULT_NOT_RUN

datatype eval_grader_status = GRADER_PASS | GRADER_FAIL

datatype eval_safe_error_code =
    HARNESS_SETUP_FAILED | CASE_SETUP_FAILED | TRACE_PERSISTENCE_FAILED | TRACE_STORE_UNAVAILABLE
  | SYSTEM_UNDER_TEST_FAILED | GRADING_FAILED | RESULT_PERSISTENCE_FAILED | RESULT_COMPLETENESS_FAILED

datatype eval_grader_reason = TRACE_EVENT_MISSING | MISSING_RECORD | ASSERTION_FAILED

datatype critical_failure_code =
    CF_01 | CF_02 | CF_03 | CF_04 | CF_05 | CF_06 | CF_07
  | CF_08 | CF_09 | CF_10 | CF_11 | CF_12 | CF_13 | CF_14

subsection \<open>The verdict of one grader\<close>

record eval_grader_result =
  egr_grader_name :: pystr
  egr_status :: eval_grader_status
  egr_reason_code :: "eval_grader_reason option"

definition new_eval_grader_result :: "eval_grader_result \<Rightarrow> validation_error + eval_grader_result" where
  "new_eval_grader_result r = construct
     [(''grader_name'', NonEmptyString (egr_grader_name r))]
     [(egr_status r = GRADER_PASS \<and> egr_reason_code r \<noteq> None,
       ''passing grader result cannot carry a failure reason''),
      (egr_status r = GRADER_FAIL \<and> egr_reason_code r = None,
       ''failing grader result requires a stable reason code'')] r"

subsection \<open>Replay versions and summaries\<close>

record eval_version_manifest =
  vm_dataset_version :: pystr
  vm_candidate_version :: pystr
  vm_baseline_version :: "pystr option"
  vm_fixture_versions :: "pystr list"
  vm_model_config_version :: "pystr option"
  vm_prompt_version :: "pystr option"
  vm_tool_registry_version :: "pystr option"
  vm_corpus_version :: "pystr option"
  vm_runtime_version :: "pystr option"

definition new_eval_version_manifest :: "eval_version_manifest \<Rightarrow> validation_error + eval_version_manifest" where
  "new_eval_version_manifest m = construct
     [(''dataset_version'', NonEmptyString (vm_dataset_version m)),
      (''candidate_version'', NonEmptyString (vm_candidate_version m)),
      (''baseline_version'', opt_all NonEmptyString (vm_baseline_version m)),
      (''fixture_versions'', list_all NonEmptyString (vm_fixture_versions m)
         \<and> \<not> has_duplicates (vm_fixture_versions m)),
      (''model_config_version'', opt_all NonEmptyString (vm_model_config_version m)),
      (''prompt_version'', opt_all NonEmptyString (vm_prompt_version m)),
      (''tool_registry_version'', opt_all NonEmptyString (vm_tool_registry_version m)),
      (''corpus_version'', opt_all NonEmptyString (vm_corpus_version m)),
      (''runtime_version'', opt_all NonEmptyString (vm_runtime_version m))] [] m"

record eval_latency_summary =
  ls_total_duration_ms :: int

definition new_eval_latency_summary :: "eval_latency_summary \<Rightarrow> validation_error + eval_latency_summary" where
  "new_eval_latency_summary s = construct [(''total_duration_ms'', 0 \<le> ls_total_duration_ms s)] [] s"

record eval_usage_summary =
  us_input_tokens :: int
  us_output_tokens :: int

definition new_eval_usage_summary :: "eval_usage_summary \<Rightarrow> validation_error + eval_usage_summary" where
  "new_eval_usage_summary s = construct
     [(''input_tokens'', 0 \<le> us_input_tokens s), (''output_tokens'', 0 \<le> us_output_tokens s)] [] s"

subsection \<open>Infrastructure failures\<close>

datatype eval_failure_phase =
    PHASE_HARNESS_SETUP | PHASE_CASE_SETUP | PHASE_TRACE_PERSISTENCE | PHASE_SYSTEM_UNDER_TEST
  | PHASE_GRADING | PHASE_RESULT_PERSISTENCE | PHASE_RESULT_COMPLETENESS

fun EVAL_ERROR_PHASES :: "eval_safe_error_code \<Rightarrow> eval_failure_phase" where
  "EVAL_ERROR_PHASES HARNESS_SETUP_FAILED = PHASE_HARNESS_SETUP"
| "EVAL_ERROR_PHASES CASE_SETUP_FAILED = PHASE_CASE_SETUP"
| "EVAL_ERROR_PHASES TRACE_PERSISTENCE_FAILED = PHASE_TRACE_PERSISTENCE"
| "EVAL_ERROR_PHASES TRACE_STORE_UNAVAILABLE = PHASE_TRACE_PERSISTENCE"
| "EVAL_ERROR_PHASES SYSTEM_UNDER_TEST_FAILED = PHASE_SYSTEM_UNDER_TEST"
| "EVAL_ERROR_PHASES GRADING_FAILED = PHASE_GRADING"
| "EVAL_ERROR_PHASES RESULT_PERSISTENCE_FAILED = PHASE_RESULT_PERSISTENCE"
| "EVAL_ERROR_PHASES RESULT_COMPLETENESS_FAILED = PHASE_RESULT_COMPLETENESS"

record eval_execution_failure_record =
  ef_schema_version :: pystr
  ef_eval_run_id :: uuid
  ef_case_id :: "pystr option"
  ef_lane :: pystr
  ef_attempt :: "int option"
  ef_failure_phase :: eval_failure_phase
  ef_safe_error_code :: eval_safe_error_code
  ef_diagnostic_ref :: "uuid option"
  ef_trace_ref :: "uuid option"
  ef_version_manifest :: eval_version_manifest
  ef_occurred_at :: datetime

definition new_eval_execution_failure_record ::
  "eval_execution_failure_record \<Rightarrow> validation_error + eval_execution_failure_record" where
  "new_eval_execution_failure_record r = construct
     [(''schema_version'', NonEmptyString (ef_schema_version r)),
      (''case_id'', opt_all NonEmptyString (ef_case_id r)),
      (''lane'', NonEmptyString (ef_lane r)),
      (''attempt'', opt_all (\<lambda>n. 1 \<le> n) (ef_attempt r)),
      (''occurred_at'', is_utc (ef_occurred_at r))]
     [(ef_attempt r \<noteq> None \<and> ef_case_id r = None, ''Eval failure attempt requires case_id''),
      (EVAL_ERROR_PHASES (ef_safe_error_code r) \<noteq> ef_failure_phase r,
       ''Eval safe_error_code must match failure_phase'')] r"

subsection \<open>The result of a case\<close>

record eval_result_record =
  er_schema_version :: pystr
  er_eval_run_id :: uuid
  er_case_id :: pystr
  er_lane :: pystr
  er_attempt :: int
  er_status :: eval_result_status
  er_grader_results :: "eval_grader_result list"
  er_critical_failures :: "critical_failure_code list"
  er_observed_outcome :: "agent_outcome option"
  er_trace_ref :: "uuid option"
  er_version_manifest :: eval_version_manifest
  er_latency_summary :: "eval_latency_summary option"
  er_usage_summary :: "eval_usage_summary option"
  er_completed_at :: datetime

definition grader_failed :: "eval_grader_result \<Rightarrow> bool" where
  "grader_failed r \<longleftrightarrow> egr_status r = GRADER_FAIL"

definition result_lifecycle_is_consistent :: "eval_result_record \<Rightarrow> (bool \<times> string) list" where
  "result_lifecycle_is_consistent r =
     (let any_grader_failed = list_ex grader_failed (er_grader_results r)
      in [(has_duplicates (map egr_grader_name (er_grader_results r)),
           ''grader_results must contain unique grader names''),
          (has_duplicates (er_critical_failures r), ''critical_failures must contain unique stable codes''),
          (er_critical_failures r \<noteq> [] \<and> er_status r \<noteq> RESULT_FAIL, ''critical failure requires overall FAIL status''),
          (er_status r \<in> {RESULT_PASS, RESULT_FAIL}
             \<and> (er_observed_outcome r = None \<or> er_trace_ref r = None \<or> er_grader_results r = []),
           ''PASS/FAIL requires outcome, Trace, and at least one grader''),
          (er_status r = RESULT_PASS \<and> any_grader_failed, ''PASS requires non-empty passing grader results''),
          (er_status r = RESULT_FAIL \<and> er_critical_failures r = [] \<and> \<not> any_grader_failed,
           ''FAIL requires a failing grader or critical failure''),
          (er_status r \<notin> {RESULT_PASS, RESULT_FAIL}
             \<and> (er_observed_outcome r \<noteq> None \<or> er_trace_ref r \<noteq> None \<or> er_grader_results r \<noteq> []
                \<or> er_critical_failures r \<noteq> [] \<or> er_latency_summary r \<noteq> None \<or> er_usage_summary r \<noteq> None),
           ''SKIPPED/NOT_RUN cannot carry execution or grading data'')])"

definition new_eval_result_record :: "eval_result_record \<Rightarrow> validation_error + eval_result_record" where
  "new_eval_result_record r = construct
     [(''schema_version'', NonEmptyString (er_schema_version r)),
      (''case_id'', NonEmptyString (er_case_id r)),
      (''lane'', NonEmptyString (er_lane r)),
      (''attempt'', 1 \<le> er_attempt r),
      (''completed_at'', is_utc (er_completed_at r))]
     (result_lifecycle_is_consistent r) r"

interpretation grader_result: plain_record new_eval_grader_result
  by (rule plain_recordI) (auto simp: new_eval_grader_result_def construct_def)
interpretation eval_result: plain_record new_eval_result_record
  by (rule plain_recordI) (auto simp: new_eval_result_record_def construct_def)
interpretation eval_failure: plain_record new_eval_execution_failure_record
  by (rule plain_recordI) (auto simp: new_eval_execution_failure_record_def construct_def)

end
