(* ===== verification/Eval_Evidence.thy ===== *)
theory Eval_Evidence
  imports Eval_Records Run_Records
begin

section \<open>Expectations and evidence (evaluation/graders.py, lines 94--348 and 454--522)\<close>

text \<open>
  What a case demands (authenticated, derived from the dataset) and what the system under test
  reported. A received object is a \<open>pyobj\<close>; canonical storage of a nested record is its
  validation once more, because a record of the model holds no undeclared state.
\<close>

subsection \<open>Expectations\<close>

record trace_event_count_expectation =
  tce_event_type :: trace_event_type
  tce_count :: int

record safe_trace_shape_entry =
  sse_event_type :: trace_event_type
  sse_count :: int
  sse_status :: "pystr option"
  sse_reason :: "pystr option"

record safe_case_observable =
  so_case_id :: pystr
  so_http_status :: int
  so_user_outcome :: agent_outcome
  so_response_policy :: pystr
  so_ordinary_trace_shape :: "safe_trace_shape_entry list"
  so_model_calls :: int

definition new_trace_event_count_expectation ::
  "trace_event_count_expectation \<Rightarrow> validation_error + trace_event_count_expectation" where
  "new_trace_event_count_expectation e = construct [(''count'', 0 \<le> tce_count e)] [] e"

definition new_safe_trace_shape_entry :: "safe_trace_shape_entry \<Rightarrow> validation_error + safe_trace_shape_entry" where
  "new_safe_trace_shape_entry e = construct [(''count'', 1 \<le> sse_count e)] [] e"

definition new_safe_case_observable :: "safe_case_observable \<Rightarrow> validation_error + safe_case_observable" where
  "new_safe_case_observable o' = construct
     [(''http_status'', 100 \<le> so_http_status o' \<and> so_http_status o' \<le> 599),
      (''model_calls'', 0 \<le> so_model_calls o')] [] o'"

datatype trace_variant =
    VARIANT_SUCCESS | VARIANT_FOREIGN_ORDER | VARIANT_NONEXISTENT_ORDER | VARIANT_ARGUMENT_BINDING_REJECTED
  | VARIANT_PROVIDER_PROTOCOL_BEFORE_CANDIDATE | VARIANT_INPUT_VALIDATION_REJECTED
  | VARIANT_UNKNOWN_TOOL_GATEWAY_REJECTED | VARIANT_STALE_STATE_GATEWAY_REJECTED
  | VARIANT_PRESENTATION_PROTOCOL_REJECTED

record eval_case_expectations =
  ee_case_id :: pystr
  ee_trusted_customer_id :: pystr
  ee_expected_http_status :: int
  ee_expected_outcome :: agent_outcome
  ee_expected_run_status :: agent_run_status
  ee_expected_stop_reason :: stop_reason
  ee_expected_response_policy :: pystr
  ee_request_understanding_required :: bool
  ee_expected_binding_order_id :: "pystr option"
  ee_expected_next_move_order_id :: "pystr option"
  ee_expected_requested_tool_name :: "pystr option"
  ee_expected_task_status :: "task_status option"
  ee_expected_request_unit_status :: "task_status option"
  ee_expected_task_state_version :: "int option"
  ee_expected_request_unit_state_version :: "int option"
  ee_expected_gate_decision :: "gate_decision_value option"
  ee_expected_gate_reason :: "gate_reason_code option"
  ee_expected_validated_task_state_version :: "int option"
  ee_expected_tool_call_status :: "tool_call_status option"
  ee_expected_tool_calls :: int
  ee_expected_observations :: int
  ee_expected_model_calls :: int
  ee_expected_presentation_model_calls :: int
  ee_expected_message_content :: pystr
  ee_expected_tool_registry_version :: pystr
  ee_expected_model_visible_toolset_hash :: pystr
  ee_trace_variant :: trace_variant
  ee_required_trace_events :: "trace_event_type list"
  ee_forbidden_trace_events :: "trace_event_type list"
  ee_expected_event_counts :: "trace_event_count_expectation list"
  ee_applicable_critical_failures :: "critical_failure_code list"

definition expectations_are_closed :: "eval_case_expectations \<Rightarrow> (bool \<times> string) list" where
  "expectations_are_closed x =
     (let task_shape_missing = [ee_expected_task_status x = None, ee_expected_request_unit_status x = None,
          ee_expected_task_state_version x = None, ee_expected_request_unit_state_version x = None]
      in [(has_duplicates (ee_required_trace_events x), ''required Trace event types must be unique''),
          (has_duplicates (ee_forbidden_trace_events x), ''forbidden Trace event types must be unique''),
          (has_duplicates (map tce_event_type (ee_expected_event_counts x)), ''Trace count expectations must be unique''),
          (has_duplicates (ee_applicable_critical_failures x), ''applicable Critical failures must be unique''),
          (set (ee_required_trace_events x) \<inter> set (ee_forbidden_trace_events x) \<noteq> {},
           ''required and forbidden Trace events overlap''),
          (list_ex id task_shape_missing \<and> list_ex Not task_shape_missing,
           ''Task and RequestUnit expectations are all-or-none''),
          (ee_request_understanding_required x
             \<and> (ee_expected_binding_order_id x = None \<or> ee_expected_next_move_order_id x = None
                \<or> ee_expected_requested_tool_name x = None),
           ''Request Understanding expectation requires exact candidate data''),
          (ee_expected_tool_calls x = 0 \<and> ee_expected_tool_call_status x \<noteq> None,
           ''zero ToolCalls cannot have a terminal status''),
          (ee_expected_tool_calls x \<noteq> 0 \<and> (ee_expected_tool_calls x \<noteq> 1 \<or> ee_expected_tool_call_status x = None),
           ''thin-slice ToolCall expectation must be zero or one''),
          ((ee_expected_gate_decision x = None) \<noteq> (ee_expected_validated_task_state_version x = None),
           ''Gate expectation requires an exact validated Task version''),
          (ee_expected_presentation_model_calls x > ee_expected_model_calls x,
           ''presentation calls cannot exceed total model calls''),
          (ee_expected_presentation_model_calls x > 1, ''thin-slice presentation call count must be zero or one''),
          (ee_expected_presentation_model_calls x \<noteq> 0
             \<and> (ee_expected_task_status x = None \<or> ee_expected_validated_task_state_version x = None),
           ''presentation expectation requires an exact Task snapshot'')])"

definition new_eval_case_expectations :: "eval_case_expectations \<Rightarrow> validation_error + eval_case_expectations" where
  "new_eval_case_expectations x = construct
     [(''expected_http_status'', 100 \<le> ee_expected_http_status x \<and> ee_expected_http_status x \<le> 599),
      (''expected_task_state_version'', opt_all (\<lambda>v. 1 \<le> v) (ee_expected_task_state_version x)),
      (''expected_request_unit_state_version'', opt_all (\<lambda>v. 1 \<le> v) (ee_expected_request_unit_state_version x)),
      (''expected_validated_task_state_version'', opt_all (\<lambda>v. 1 \<le> v) (ee_expected_validated_task_state_version x)),
      (''expected_tool_calls'', 0 \<le> ee_expected_tool_calls x),
      (''expected_observations'', 0 \<le> ee_expected_observations x),
      (''expected_model_calls'', 0 \<le> ee_expected_model_calls x),
      (''expected_presentation_model_calls'', 0 \<le> ee_expected_presentation_model_calls x),
      (''expected_model_visible_toolset_hash'', ToolsetHash (ee_expected_model_visible_toolset_hash x)),
      (''expected_event_counts'', list_all (accepts new_trace_event_count_expectation) (ee_expected_event_counts x))]
     (expectations_are_closed x) x"

subsection \<open>Evidence\<close>

text \<open>The legacy \<open>*_assertions_pass\<close> flags are fields no grader reads; they are left out.\<close>

record eval_evidence =
  ev_case_id :: pystr
  ev_observed_outcome :: agent_outcome
  ev_trace_ref :: uuid
  ev_trace_events :: "trace_event list"
  ev_safe_observable :: "safe_case_observable option"
  ev_run_record :: "agent_run_record option"
  ev_agent_result :: "agent_run_result option"
  ev_conversation_records :: "conversation_record list"
  ev_message_records :: "message_record list"
  ev_input_bindings :: "input_binding list"
  ev_task_records :: "task_record list"
  ev_request_units :: "request_unit_record list"
  ev_conversation_task_links :: "conversation_task_link_record list"
  ev_run_task_links :: "run_task_link_record list"
  ev_gate_decisions :: "gate_decision list"
  ev_tool_calls :: "tool_call_record list"
  ev_tool_attempts :: "tool_attempt_record list"
  ev_observations :: "order_observation list"
  ev_context_manifests :: "context_manifest list"
  ev_toolset_artifacts :: "toolset_artifact list"
  ev_request_understanding_records :: "ru_record list"
  ev_accepted_task_deltas :: "accepted_task_delta list"
  ev_task_state_transitions :: "task_state_transition list"

definition evidence_sets_are_unambiguous :: "eval_evidence \<Rightarrow> (bool \<times> string) list" where
  "evidence_sets_are_unambiguous e =
     (has_duplicates (map cr_conversation_id (ev_conversation_records e))
        \<or> has_duplicates (map mr_message_id (ev_message_records e))
        \<or> has_duplicates (map ib_binding_id (ev_input_bindings e))
        \<or> has_duplicates (map tk_task_id (ev_task_records e))
        \<or> has_duplicates (map ru_request_unit_id (ev_request_units e))
        \<or> has_duplicates (map (\<lambda>l. (ctl_conversation_id l, ctl_task_id l, ctl_linked_at l)) (ev_conversation_task_links e))
        \<or> has_duplicates (map (\<lambda>l. (rl_run_id l, rl_task_id l)) (ev_run_task_links e))
        \<or> has_duplicates (map gd_gate_decision_id (ev_gate_decisions e))
        \<or> has_duplicates (map tc_tool_call_id (ev_tool_calls e))
        \<or> has_duplicates (map (\<lambda>a. (at_tool_call_id a, at_attempt_no a)) (ev_tool_attempts e))
        \<or> has_duplicates (map oo_observation_id (ev_observations e))
        \<or> has_duplicates (map cm_context_manifest_id (ev_context_manifests e))
        \<or> has_duplicates (map ta_model_visible_toolset_hash (ev_toolset_artifacts e))
        \<or> has_duplicates (map rc_request_understanding_record_id (ev_request_understanding_records e))
        \<or> has_duplicates (map ad_accepted_delta_id (ev_accepted_task_deltas e))
        \<or> has_duplicates (map (\<lambda>t. (tt_task_id t, tt_request_unit_id t, tt_result_state_version t)) (ev_task_state_transitions e)),
      ''typed Eval evidence identities must be unique'')
     # (length (ev_request_understanding_records e) > 1,
        ''v2 Eval evidence allows at most one Request Understanding record'')
     # (case ev_request_understanding_records e of
          [] \<Rightarrow> [(ev_accepted_task_deltas e \<noteq> [] \<or> ev_task_state_transitions e \<noteq> [],
                 ''v2 children require a Request Understanding record'')]
        | understanding # _ \<Rightarrow>
          [(set (rc_accepted_delta_refs understanding) \<noteq> set (map ad_accepted_delta_id (ev_accepted_task_deltas e)),
            ''v2 Request Understanding accepted children must close''),
           (\<not> set (map ad_candidate_ref (ev_accepted_task_deltas e))
               \<subseteq> set (map dtd_candidate_id (rc_task_delta_candidates understanding)),
            ''v2 accepted children must reference durable candidates'')])"

definition new_eval_evidence :: "eval_evidence \<Rightarrow> validation_error + eval_evidence" where
  "new_eval_evidence e = construct [] (evidence_sets_are_unambiguous e) e"

subsection \<open>Validating the input of a grader\<close>

definition canonical_manifest :: "context_manifest \<Rightarrow> bool" where
  "canonical_manifest m \<longleftrightarrow>
     accepts new_context_manifest m
     \<and> opt_all (\<lambda>t. 1 \<le> tsr_state_version t) (cm_task_state_ref_and_version m)
     \<and> list_all (\<lambda>r. NonEmptyString (vr_version r)) (cm_observation_refs_and_versions m)
     \<and> list_all (\<lambda>r. NonEmptyString (vr_version r)) (cm_evidence_refs_and_versions m)
     \<and> list_all (\<lambda>t. NonEmptyString (td_reason_code t)) (cm_truncation_decisions m)
     \<and> opt_all (\<lambda>n. 0 \<le> n) (tk_input_tokens (cm_token_counts m))
     \<and> opt_all (\<lambda>n. 0 \<le> n) (tk_output_tokens (cm_token_counts m))"

definition canonical_projection :: "order_summary_projection pyobj \<Rightarrow> bool" where
  "canonical_projection p =
     (case p of Foreign \<Rightarrow> False
      | Obj s extra \<Rightarrow> extra = [] \<and> accepts new_order_summary_projection s
          \<and> list_all (\<lambda>l. case l of Foreign \<Rightarrow> False
               | Obj item extra' \<Rightarrow> extra' = [] \<and> accepts new_order_line_summary item) (os_line_items s))"

definition canonical_observation :: "order_observation \<Rightarrow> bool" where
  "canonical_observation o' \<longleftrightarrow> accepts new_order_observation o' \<and> canonical_projection (oo_normalized_value o')"

definition observation_canonicalization_reason :: "eval_evidence \<Rightarrow> eval_grader_reason option" where
  "observation_canonicalization_reason e =
     (if list_all canonical_observation (ev_observations e) then None else Some ASSERTION_FAILED)"

definition canonical_eval_evidence :: "eval_evidence \<Rightarrow> bool" where
  "canonical_eval_evidence e \<longleftrightarrow>
     accepts new_eval_evidence e
     \<and> list_all (\<lambda>t. accepts new_trace_event t
          \<and> opt_all (accepts new_timing_and_usage_summary) (te_timing_and_usage_summary t)) (ev_trace_events e)
     \<and> opt_all (\<lambda>s. accepts new_safe_case_observable s
          \<and> list_all (accepts new_safe_trace_shape_entry) (so_ordinary_trace_shape s)) (ev_safe_observable e)
     \<and> opt_all (accepts new_agent_run_record) (ev_run_record e)
     \<and> opt_all (accepts new_agent_run_result) (ev_agent_result e)
     \<and> list_all (accepts new_conversation_record) (ev_conversation_records e)
     \<and> list_all (accepts new_message_record) (ev_message_records e)
     \<and> list_all (accepts new_input_binding) (ev_input_bindings e)
     \<and> list_all (accepts new_task_record) (ev_task_records e)
     \<and> list_all (accepts new_request_unit_record) (ev_request_units e)
     \<and> list_all (accepts new_conversation_task_link_record) (ev_conversation_task_links e)
     \<and> list_all (accepts new_run_task_link_record) (ev_run_task_links e)
     \<and> list_all (accepts new_gate_decision) (ev_gate_decisions e)
     \<and> list_all (accepts new_tool_call_record) (ev_tool_calls e)
     \<and> list_all (accepts new_tool_attempt_record) (ev_tool_attempts e)
     \<and> list_all canonical_observation (ev_observations e)
     \<and> list_all canonical_manifest (ev_context_manifests e)
     \<and> list_all (\<lambda>a. accepts new_toolset_artifact a
          \<and> list_all canonical_tool_spec (ta_provider_visible_tool_specs a)) (ev_toolset_artifacts e)
     \<and> list_all canonical_ru_record (ev_request_understanding_records e)
     \<and> list_all (accepts new_accepted_task_delta) (ev_accepted_task_deltas e)
     \<and> list_all (accepts new_task_state_transition) (ev_task_state_transitions e)"

definition validate_grader_inputs ::
  "eval_evidence pyobj \<Rightarrow> eval_case_expectations pyobj \<Rightarrow> string + eval_grader_reason option" where
  "validate_grader_inputs evidence expectations =
     (if evidence = Foreign then Inl ''grader evidence must be EvalEvidence''
      else if expectations = Foreign then Inl ''grader expectations must be authenticated''
      else let e = fields_of evidence
           in if undeclared evidence \<noteq> [] \<or> \<not> canonical_eval_evidence e then Inr (Some ASSERTION_FAILED)
              else Inr (observation_canonicalization_reason e))"

lemma validate_grader_inputs_None:
  "validate_grader_inputs evidence expectations = Inr None \<longleftrightarrow>
     (\<exists>e. evidence = Obj e [] \<and> canonical_eval_evidence e) \<and> expectations \<noteq> Foreign"
  by (cases evidence; cases expectations)
     (auto simp: validate_grader_inputs_def observation_canonicalization_reason_def canonical_eval_evidence_def Let_def)

subsection \<open>Verdicts and early returns\<close>

text \<open>
  \<open>first_reason\<close> is a run of \<open>if ...: return reason\<close> statements; \<open>or_else\<close> is
  \<open>if (r := first) is not None: return r\<close> followed by the rest.
\<close>

fun first_reason :: "(bool \<times> eval_grader_reason) list \<Rightarrow> eval_grader_reason option" where
  "first_reason [] = None"
| "first_reason ((c, r) # rest) = (if c then Some r else first_reason rest)"

definition or_else :: "eval_grader_reason option \<Rightarrow> eval_grader_reason option \<Rightarrow> eval_grader_reason option" where
  "or_else first rest = (case first of Some r \<Rightarrow> Some r | None \<Rightarrow> rest)"

abbreviation fail_if :: "bool \<Rightarrow> eval_grader_reason option" where
  "fail_if c \<equiv> (if c then Some ASSERTION_FAILED else None)"

abbreviation missing_if :: "bool \<Rightarrow> eval_grader_reason option" where
  "missing_if c \<equiv> (if c then Some MISSING_RECORD else None)"

lemma first_reason_None [simp]: "first_reason rs = None \<longleftrightarrow> list_all (\<lambda>(c, _). \<not> c) rs"
  by (induction rs rule: first_reason.induct) simp_all

lemma or_else_None [simp]: "or_else a b = None \<longleftrightarrow> a = None \<and> b = None"
  by (cases a) (simp_all add: or_else_def)

definition passed :: "pystr \<Rightarrow> eval_grader_result" where
  "passed name = \<lparr>egr_grader_name = name, egr_status = GRADER_PASS, egr_reason_code = None\<rparr>"

definition failed :: "pystr \<Rightarrow> eval_grader_reason \<Rightarrow> eval_grader_result" where
  "failed name reason = \<lparr>egr_grader_name = name, egr_status = GRADER_FAIL, egr_reason_code = Some reason\<rparr>"

type_synonym grade = "eval_evidence pyobj \<Rightarrow> eval_case_expectations pyobj \<Rightarrow> string + eval_grader_result"

text \<open>The frame of every \<open>grade\<close> method: validate the input, then the grader's own checks.\<close>

definition grade_as ::
  "string \<Rightarrow> (eval_evidence \<Rightarrow> eval_case_expectations \<Rightarrow> eval_grader_reason option) \<Rightarrow> grade" where
  "grade_as name reason evidence expectations =
     res_bind (validate_grader_inputs evidence expectations) (\<lambda>input_reason.
       Inr (case or_else input_reason (reason (fields_of evidence) (fields_of expectations)) of
              Some r \<Rightarrow> failed (str name) r | None \<Rightarrow> passed (str name)))"

lemma grade_as_passed:
  "grade_as name reason evidence expectations = Inr (passed (str name)) \<longleftrightarrow>
     (\<exists>e x extra. evidence = Obj e [] \<and> canonical_eval_evidence e \<and> expectations = Obj x extra \<and> reason e x = None)"
proof -
  have "grade_as name reason evidence expectations = Inr (passed (str name)) \<longleftrightarrow>
      validate_grader_inputs evidence expectations = Inr None \<and> reason (fields_of evidence) (fields_of expectations) = None"
    by (auto simp: grade_as_def res_bind_Inr_iff passed_def failed_def or_else_def split: option.splits)
  then show ?thesis
    unfolding validate_grader_inputs_None by (cases evidence; cases expectations) auto
qed

lemma grade_as_result:
  "grade_as name reason evidence expectations = Inr r \<Longrightarrow>
     egr_grader_name r = str name \<and> (egr_status r = GRADER_PASS) = (r = passed (str name))
     \<and> (egr_status r = GRADER_PASS \<longleftrightarrow> egr_reason_code r = None)"
proof -
  assume "grade_as name reason evidence expectations = Inr r"
  then obtain input where "r = (case or_else input (reason (fields_of evidence) (fields_of expectations)) of
      Some c \<Rightarrow> failed (str name) c | None \<Rightarrow> passed (str name))"
    by (auto simp: grade_as_def res_bind_Inr_iff)
  then show ?thesis
    by (cases "or_else input (reason (fields_of evidence) (fields_of expectations))") (simp_all add: passed_def failed_def)
qed

end
