(* ===== verification/Grader_Records.thy ===== *)
theory Grader_Records
  imports Eval_Evidence
begin

section \<open>Graders of the request and Task records (evaluation/graders.py, lines 525--952)\<close>

text \<open>
  Every grader is \<open>grade_as name reason\<close>: the frame that validates its input, and the
  early returns of its \<open>grade\<close> method as a \<open>reason\<close> (\<open>None\<close> for a pass). A \<open>for\<close> loop that returns
  is \<open>find_reason\<close>. Records of which the code takes element \<open>[0]\<close> after a test of the length are
  taken by \<open>hd\<close>; the early return comes first, so the head of an empty list is never used.
\<close>

fun find_reason :: "('a \<Rightarrow> eval_grader_reason option) \<Rightarrow> 'a list \<Rightarrow> eval_grader_reason option" where
  "find_reason f [] = None"
| "find_reason f (x # xs) = or_else (f x) (find_reason f xs)"

lemma find_reason_None [simp]: "find_reason f xs = None \<longleftrightarrow> (\<forall>x\<in>set xs. f x = None)"
  by (induction xs) auto

subsection \<open>SchemaGrader\<close>

definition schema_reason :: "eval_evidence \<Rightarrow> eval_case_expectations \<Rightarrow> eval_grader_reason option" where
  "schema_reason e x =
     (case (ev_run_record e, ev_agent_result e, ev_safe_observable e) of
        (Some run, Some result, Some observable) \<Rightarrow>
          fail_if (ev_case_id e \<noteq> ee_case_id x
            \<or> ar_run_id run \<noteq> res_run_id result
            \<or> ar_status run \<noteq> ee_expected_run_status x
            \<or> ar_stop_reason run \<noteq> Some (ee_expected_stop_reason x)
            \<or> res_outcome result \<noteq> ev_observed_outcome e
            \<or> ev_observed_outcome e \<noteq> ee_expected_outcome x
            \<or> so_case_id observable \<noteq> ev_case_id e
            \<or> so_user_outcome observable \<noteq> ev_observed_outcome e)
      | _ \<Rightarrow> Some MISSING_RECORD)"

definition SchemaGrader :: grade where
  "SchemaGrader = grade_as ''SchemaGrader'' schema_reason"

subsection \<open>IdentityBoundaryGrader\<close>

definition identity_boundary_reason :: "eval_evidence \<Rightarrow> eval_case_expectations \<Rightarrow> eval_grader_reason option" where
  "identity_boundary_reason e x =
     (let conversation = hd (ev_conversation_records e); message = hd (ev_message_records e);
          trusted = ee_trusted_customer_id x
      in or_else (first_reason
           [(ev_conversation_records e = [] \<or> ev_message_records e = [], MISSING_RECORD),
            (length (ev_conversation_records e) \<noteq> 1 \<or> length (ev_message_records e) \<noteq> 1, ASSERTION_FAILED),
            (cr_owner_customer_id conversation \<noteq> trusted
               \<or> mr_conversation_id message \<noteq> cr_conversation_id conversation
               \<or> mr_direction message \<noteq> DIRECTION_USER
               \<or> mr_content message \<noteq> ee_expected_message_content x, ASSERTION_FAILED),
            (ee_expected_task_status x = None \<and> ev_task_records e \<noteq> [], ASSERTION_FAILED),
            (ee_expected_task_status x \<noteq> None \<and> ev_task_records e = [], MISSING_RECORD),
            (list_ex (\<lambda>task. tk_owner_customer_id task \<noteq> trusted) (ev_task_records e), ASSERTION_FAILED)])
         (case ev_agent_result e of
            None \<Rightarrow> Some MISSING_RECORD
          | Some result \<Rightarrow> fail_if (py_in trusted (res_message result))))"

definition IdentityBoundaryGrader :: grade where
  "IdentityBoundaryGrader = grade_as ''IdentityBoundaryGrader'' identity_boundary_reason"

subsection \<open>Source provenance of the stored candidates\<close>

definition v2_evidence_is_active :: "eval_evidence \<Rightarrow> bool" where
  "v2_evidence_is_active e \<longleftrightarrow>
     ev_request_understanding_records e \<noteq> [] \<or> ev_accepted_task_deltas e \<noteq> [] \<or> ev_task_state_transitions e \<noteq> []"

definition v2_source_span_is_valid ::
  "message_record \<Rightarrow> uuid \<Rightarrow> nat \<Rightarrow> nat \<Rightarrow> pystr \<Rightarrow> pystr \<Rightarrow> bool" where
  "v2_source_span_is_valid message source_ref start end_exclusive quote_sha256 candidate_value =
     (if source_ref \<noteq> mr_message_id message \<or> end_exclusive \<le> start \<or> end_exclusive > length (mr_content message)
      then False
      else let source_quote = take (end_exclusive - start) (drop start (mr_content message))
           in py_in candidate_value source_quote \<and> sha256_hexdigest (utf8 source_quote) = quote_sha256)"

definition v2_source_provenance_reason :: "eval_evidence \<Rightarrow> eval_grader_reason option" where
  "v2_source_provenance_reason e =
     (let understanding = hd (ev_request_understanding_records e); message = hd (ev_message_records e);
          contextualization = rc_contextualization understanding
      in if \<not> v2_evidence_is_active e then None
         else first_reason
           [(length (ev_request_understanding_records e) \<noteq> 1 \<or> length (ev_message_records e) \<noteq> 1, MISSING_RECORD),
            (rc_message_ref understanding \<noteq> mr_message_id message
               \<or> set (dcx_source_message_refs contextualization) \<noteq> {mr_message_id message}, ASSERTION_FAILED),
            (list_ex (\<lambda>r. \<not> v2_source_span_is_valid message (drr_source_ref r) (drr_source_span_start r)
                 (drr_source_span_end_exclusive r) (drr_source_quote_sha256 r) (drr_candidate_value r))
               (dcx_resolved_reference_candidates contextualization)
             \<or> list_ex (\<lambda>i. \<not> v2_source_span_is_valid message (dic_source_ref i) (dic_source_span_start i)
                 (dic_source_span_end_exclusive i) (dic_source_quote_sha256 i) (dic_candidate_value i))
               (concat (map dtd_input_candidates (rc_task_delta_candidates understanding))), ASSERTION_FAILED)])"

subsection \<open>The history of every Task\<close>

text \<open>
  \<open>task_history_reason\<close> is the body of the loop over \<open>task_by_id\<close>. Two entries of one Task among
  the units, an entry of an unknown Task and a unit of an unknown Task give the same verdict, so the
  building loops of the two dictionaries are tests of their keys.
\<close>

definition task_history_reason ::
  "task_record \<Rightarrow> request_unit_record \<Rightarrow> task_state_transition list \<Rightarrow> eval_grader_reason option" where
  "task_history_reason task unit transitions =
     or_else (first_reason
        [(int (length transitions) < tk_state_version task - 1, MISSING_RECORD),
         (int (length transitions) > tk_state_version task - 1, ASSERTION_FAILED),
         (ru_status unit \<noteq> tk_status task \<or> ru_state_version unit \<noteq> tk_state_version task, ASSERTION_FAILED)])
     (if transitions = [] then fail_if (tk_status task \<noteq> ACTIVE)
      else first_reason
        [(tt_from_status (hd transitions) \<noteq> ACTIVE
            \<or> dt_less (tt_changed_at (hd transitions)) (tk_created_at task), ASSERTION_FAILED),
         (list_ex (\<lambda>(expected_version, transition).
              tt_request_unit_id transition \<noteq> ru_request_unit_id unit
              \<or> tt_base_state_version transition \<noteq> int expected_version - 1
              \<or> tt_result_state_version transition \<noteq> int expected_version)
            (enumerate 2 transitions), ASSERTION_FAILED),
         (list_ex (\<lambda>(current, following). tt_to_status current \<noteq> tt_from_status following
              \<or> dt_less (tt_changed_at following) (tt_changed_at current)) (adjacent transitions), ASSERTION_FAILED),
         (tt_to_status (last transitions) \<noteq> tk_status task
            \<or> tt_changed_at (last transitions) \<noteq> tk_updated_at task, ASSERTION_FAILED)])"

definition v2_task_transition_graph_reason :: "eval_evidence \<Rightarrow> eval_grader_reason option" where
  "v2_task_transition_graph_reason e =
     (let tasks = ev_task_records e; units = ev_request_units e; transitions = ev_task_state_transitions e;
          task_ids = set (map tk_task_id tasks)
      in if \<not> v2_evidence_is_active e then None
         else if tasks = [] then fail_if (transitions \<noteq> [] \<or> units \<noteq> [])
         else or_else (first_reason
           [(has_duplicates (map ru_task_id units) \<or> \<not> set (map ru_task_id units) \<subseteq> task_ids, ASSERTION_FAILED),
            (set (map ru_task_id units) \<noteq> task_ids, MISSING_RECORD),
            (\<not> set (map tt_task_id transitions) \<subseteq> task_ids, ASSERTION_FAILED)])
          (find_reason (\<lambda>task. task_history_reason task
             (hd (filter (\<lambda>unit. ru_task_id unit = tk_task_id task) units))
             (filter (\<lambda>transition. tt_task_id transition = tk_task_id task) transitions)) tasks))"

subsection \<open>The conversation graph\<close>

definition closed_record_count_reason :: "int \<Rightarrow> int \<Rightarrow> eval_grader_reason option" where
  "closed_record_count_reason actual expected =
     first_reason [(actual < expected, MISSING_RECORD), (actual > expected, ASSERTION_FAILED)]"

lemma closed_record_count_reason_None [simp]: "closed_record_count_reason actual expected = None \<longleftrightarrow> actual = expected"
  by (auto simp: closed_record_count_reason_def)

definition conversation_graph_reason ::
  "eval_evidence \<Rightarrow> eval_case_expectations \<Rightarrow> eval_grader_reason option" where
  "conversation_graph_reason e x =
     or_else (closed_record_count_reason (int (length (ev_conversation_records e))) 1)
    (or_else (closed_record_count_reason (int (length (ev_message_records e))) 1)
     (case ev_run_record e of
        None \<Rightarrow> Some MISSING_RECORD
      | Some run \<Rightarrow>
        (let conversation = hd (ev_conversation_records e); message = hd (ev_message_records e);
             message_ref = mr_message_id message
         in or_else (fail_if (cr_schema_version conversation \<noteq> str ''conversation_record.p0.v1''
              \<or> cr_owner_customer_id conversation \<noteq> ee_trusted_customer_id x
              \<or> mr_schema_version message \<noteq> str ''message_record.p0.v1''
              \<or> mr_conversation_id message \<noteq> cr_conversation_id conversation
              \<or> mr_direction message \<noteq> DIRECTION_USER
              \<or> mr_content message \<noteq> ee_expected_message_content x
              \<or> ar_conversation_id run \<noteq> Some (cr_conversation_id conversation)))
           (or_else (case ev_request_understanding_records e of
                [understanding_v2] \<Rightarrow>
                  or_else (fail_if (rc_message_ref understanding_v2 \<noteq> message_ref)) (v2_source_provenance_reason e)
              | _ \<Rightarrow> None)
            (first_reason
              [(list_ex (\<lambda>binding. ib_source_refs binding \<noteq> [message_ref]) (ev_input_bindings e), ASSERTION_FAILED),
               (list_ex (\<lambda>unit. ru_goal_source_refs unit \<noteq> [message_ref]) (ev_request_units e), ASSERTION_FAILED)])))))"

end
