(* ===== verification/Grader_Precedence.thy ===== *)
theory Grader_Precedence
  imports Grader_Records "HOL-Library.Multiset"
begin


section \<open>Order and number of trace events (evaluation/graders.py, lines 1735--1997)\<close>

text \<open>
  A trace node is an event type, its occurrence and, for manifests, the purpose of the model call.
  Each variant of a case is a list of edges \<open>(before, after)\<close>; every variant has its edges, so the
  branch for an unknown variant does not arise. The second part shows what the two checks amount
  to: a trace that passes both is, without the start of request understanding, exactly the sequence
  of its variant.
\<close>

record trace_node =
  tn_event_type :: trace_event_type
  tn_occurrence :: nat
  tn_model_call_purpose :: "pystr option"

definition node :: "trace_event_type \<Rightarrow> trace_node" where
  "node t = \<lparr>tn_event_type = t, tn_occurrence = 1, tn_model_call_purpose = None\<rparr>"

definition task_change :: "nat \<Rightarrow> trace_node" where
  "task_change n = (node TASK_STATE_CHANGED)\<lparr>tn_occurrence := n\<rparr>"

definition manifest_for :: "string \<Rightarrow> trace_node" where
  "manifest_for purpose = (node CONTEXT_MANIFEST_RECORDED)\<lparr>tn_model_call_purpose := Some (str purpose)\<rparr>"

type_synonym edges = "(trace_node \<times> trace_node) list"

definition COMMON_TRACE_EDGES :: edges where
  "COMMON_TRACE_EDGES =
     [(node MESSAGE_ACCEPTED, node RUN_STARTED),
      (node RUN_STARTED, node REQUEST_UNDERSTANDING_STARTED),
      (node REQUEST_UNDERSTANDING_STARTED, manifest_for ''REQUEST_UNDERSTANDING'')]"

definition CANDIDATE_TRACE_EDGES :: edges where
  "CANDIDATE_TRACE_EDGES =
     [(manifest_for ''REQUEST_UNDERSTANDING'', node NEXT_MOVE_PROPOSED),
      (node NEXT_MOVE_PROPOSED, node TASK_DELTA_VALIDATED),
      (node TASK_DELTA_VALIDATED, node TASK_DELTA_ACCEPTED),
      (node TASK_DELTA_ACCEPTED, node INPUT_BINDING_RECORDED),
      (node INPUT_BINDING_RECORDED, task_change 1),
      (task_change 1, node NEXT_MOVE_REVALIDATED),
      (node NEXT_MOVE_REVALIDATED, node GATE_DECISION_RECORDED)]"

definition TASKLESS_TERMINAL_EDGES :: edges where
  "TASKLESS_TERMINAL_EDGES =
     [(manifest_for ''REQUEST_UNDERSTANDING'', node RESPONSE_RENDERED),
      (node RESPONSE_RENDERED, node RUN_STOPPED),
      (node RUN_STOPPED, node EVAL_CASE_GRADED)]"

definition GATEWAY_TERMINAL_EDGES :: edges where
  "GATEWAY_TERMINAL_EDGES =
     [(node GATE_DECISION_RECORDED, node RESPONSE_RENDERED),
      (node RESPONSE_RENDERED, task_change 2),
      (task_change 2, node RUN_STOPPED),
      (node RUN_STOPPED, node EVAL_CASE_GRADED)]"

definition FAILED_TOOL_EDGES :: edges where
  "FAILED_TOOL_EDGES =
     [(node GATE_DECISION_RECORDED, node TOOL_CALL_CREATED),
      (node TOOL_CALL_CREATED, node TOOL_CALL_STARTED),
      (node TOOL_CALL_STARTED, node TOOL_CALL_FAILED),
      (node TOOL_CALL_FAILED, node TOOL_RESULT_NORMALIZED),
      (node TOOL_RESULT_NORMALIZED, node RESPONSE_RENDERED),
      (node RESPONSE_RENDERED, task_change 2),
      (task_change 2, node RUN_STOPPED),
      (node RUN_STOPPED, node EVAL_CASE_GRADED)]"

definition SUCCESS_TOOL_EDGES :: edges where
  "SUCCESS_TOOL_EDGES =
     [(node GATE_DECISION_RECORDED, node TOOL_CALL_CREATED),
      (node TOOL_CALL_CREATED, node TOOL_CALL_STARTED),
      (node TOOL_CALL_STARTED, node TOOL_CALL_SUCCEEDED),
      (node TOOL_CALL_SUCCEEDED, node TOOL_RESULT_NORMALIZED),
      (node TOOL_RESULT_NORMALIZED, node OBSERVATION_RECORDED),
      (node OBSERVATION_RECORDED, manifest_for ''PRESENTATION'')]"

fun TRACE_EDGES_BY_VARIANT :: "trace_variant \<Rightarrow> edges" where
  "TRACE_EDGES_BY_VARIANT VARIANT_SUCCESS = COMMON_TRACE_EDGES @ CANDIDATE_TRACE_EDGES @ SUCCESS_TOOL_EDGES @
     [(manifest_for ''PRESENTATION'', node PRESENTATION_PLAN_PROPOSED),
      (node PRESENTATION_PLAN_PROPOSED, node RESPONSE_RENDERED),
      (node RESPONSE_RENDERED, task_change 2),
      (task_change 2, node RUN_STOPPED),
      (node RUN_STOPPED, node EVAL_CASE_GRADED)]"
| "TRACE_EDGES_BY_VARIANT VARIANT_FOREIGN_ORDER = COMMON_TRACE_EDGES @ CANDIDATE_TRACE_EDGES @ FAILED_TOOL_EDGES"
| "TRACE_EDGES_BY_VARIANT VARIANT_NONEXISTENT_ORDER = COMMON_TRACE_EDGES @ CANDIDATE_TRACE_EDGES @ FAILED_TOOL_EDGES"
| "TRACE_EDGES_BY_VARIANT VARIANT_ARGUMENT_BINDING_REJECTED =
     COMMON_TRACE_EDGES @ CANDIDATE_TRACE_EDGES @ GATEWAY_TERMINAL_EDGES"
| "TRACE_EDGES_BY_VARIANT VARIANT_PROVIDER_PROTOCOL_BEFORE_CANDIDATE = COMMON_TRACE_EDGES @ TASKLESS_TERMINAL_EDGES"
| "TRACE_EDGES_BY_VARIANT VARIANT_INPUT_VALIDATION_REJECTED = COMMON_TRACE_EDGES @ TASKLESS_TERMINAL_EDGES"
| "TRACE_EDGES_BY_VARIANT VARIANT_UNKNOWN_TOOL_GATEWAY_REJECTED =
     COMMON_TRACE_EDGES @ CANDIDATE_TRACE_EDGES @ GATEWAY_TERMINAL_EDGES"
| "TRACE_EDGES_BY_VARIANT VARIANT_STALE_STATE_GATEWAY_REJECTED =
     COMMON_TRACE_EDGES @ butlast CANDIDATE_TRACE_EDGES @
     [(node NEXT_MOVE_REVALIDATED, task_change 2),
      (task_change 2, node GATE_DECISION_RECORDED),
      (node GATE_DECISION_RECORDED, node RESPONSE_RENDERED),
      (node RESPONSE_RENDERED, task_change 3),
      (task_change 3, node RUN_STOPPED),
      (node RUN_STOPPED, node EVAL_CASE_GRADED)]"
| "TRACE_EDGES_BY_VARIANT VARIANT_PRESENTATION_PROTOCOL_REJECTED =
     COMMON_TRACE_EDGES @ CANDIDATE_TRACE_EDGES @ SUCCESS_TOOL_EDGES @
     [(manifest_for ''PRESENTATION'', node RESPONSE_RENDERED),
      (node OBSERVATION_RECORDED, node RESPONSE_RENDERED),
      (node RESPONSE_RENDERED, task_change 2),
      (task_change 2, node RUN_STOPPED),
      (node RUN_STOPPED, node EVAL_CASE_GRADED)]"

subsection \<open>Cardinality\<close>

definition ALL_EVENT_TYPES :: "trace_event_type list" where
  "ALL_EVENT_TYPES =
     [MESSAGE_ACCEPTED, RUN_STARTED, REQUEST_UNDERSTANDING_STARTED, CONTEXT_MANIFEST_RECORDED,
      NEXT_MOVE_PROPOSED, TASK_DELTA_VALIDATED, TASK_DELTA_ACCEPTED, INPUT_BINDING_RECORDED,
      TASK_STATE_CHANGED, NEXT_MOVE_REVALIDATED, GATE_DECISION_RECORDED, TOOL_CALL_CREATED,
      TOOL_CALL_STARTED, TOOL_CALL_SUCCEEDED, TOOL_CALL_FAILED, TOOL_CALL_TIMED_OUT,
      TOOL_CALL_INTERRUPTED, TOOL_RESULT_NORMALIZED, OBSERVATION_RECORDED, PRESENTATION_PLAN_PROPOSED,
      RESPONSE_RENDERED, RUN_STOPPED, EVAL_CASE_GRADED]"

definition SAFETY_CRITICAL_TRACE_TYPES :: "trace_event_type list" where
  "SAFETY_CRITICAL_TRACE_TYPES = filter (\<lambda>t. t \<noteq> REQUEST_UNDERSTANDING_STARTED) ALL_EVENT_TYPES"

definition expected_safety_event_count :: "trace_variant \<Rightarrow> trace_event_type \<Rightarrow> nat" where
  "expected_safety_event_count variant event_type =
     (let endpoints = concat (map (\<lambda>(before, after). [before, after]) (TRACE_EDGES_BY_VARIANT variant));
          nodes = filter (\<lambda>n. tn_event_type n \<in> set SAFETY_CRITICAL_TRACE_TYPES \<and> tn_event_type n = event_type) endpoints
      in sum_list (map (\<lambda>purpose. foldl max 0 (map tn_occurrence (filter (\<lambda>n. tn_model_call_purpose n = purpose) nodes)))
           (remdups (map tn_model_call_purpose nodes))))"

definition event_count :: "trace_event list \<Rightarrow> trace_event_type \<Rightarrow> nat" where
  "event_count events event_type = length (filter (\<lambda>event. te_event_type event = event_type) events)"

definition trace_safety_cardinality_reason :: "trace_event list \<Rightarrow> trace_variant \<Rightarrow> eval_grader_reason option" where
  "trace_safety_cardinality_reason events variant = first_reason
     [(list_ex (\<lambda>t. event_count events t < expected_safety_event_count variant t) SAFETY_CRITICAL_TRACE_TYPES,
       TRACE_EVENT_MISSING),
      (list_ex (\<lambda>t. event_count events t > expected_safety_event_count variant t) SAFETY_CRITICAL_TRACE_TYPES,
       ASSERTION_FAILED)]"

subsection \<open>Precedence\<close>

definition node_matches :: "trace_node \<Rightarrow> trace_event \<Rightarrow> bool" where
  "node_matches n event \<longleftrightarrow> te_event_type event = tn_event_type n
     \<and> (tn_model_call_purpose n = None \<or> te_model_call_purpose event = tn_model_call_purpose n)"

definition trace_node_index :: "trace_event list \<Rightarrow> trace_node \<Rightarrow> nat option" where
  "trace_node_index events n =
     (let matches = filter (\<lambda>i. node_matches n (events ! i)) [0..<length events]
      in if length matches < tn_occurrence n then None else Some (matches ! (tn_occurrence n - 1)))"

definition trace_precedence_reason :: "trace_event list \<Rightarrow> trace_variant \<Rightarrow> eval_grader_reason option" where
  "trace_precedence_reason events variant =
     find_reason (\<lambda>(before, after).
        case (trace_node_index events before, trace_node_index events after) of
          (Some before_index, Some after_index) \<Rightarrow> fail_if (before_index \<ge> after_index)
        | _ \<Rightarrow> Some TRACE_EVENT_MISSING) (TRACE_EDGES_BY_VARIANT variant)"

section \<open>Accepted traces are the sequence of their variant\<close>

text \<open>
  The edges of every variant link one sequence of nodes. A trace whose counts are the expected ones
  and whose edges are in order has no room for anything else: the positions of the nodes are as many
  as its safety-critical events, so they are all of them, in order.
\<close>

subsection \<open>The sequence of a variant\<close>

definition opening_nodes :: "trace_node list" where
  "opening_nodes = [node MESSAGE_ACCEPTED, node RUN_STARTED, node REQUEST_UNDERSTANDING_STARTED,
     manifest_for ''REQUEST_UNDERSTANDING'']"

definition candidate_nodes :: "trace_node list" where
  "candidate_nodes = [node NEXT_MOVE_PROPOSED, node TASK_DELTA_VALIDATED, node TASK_DELTA_ACCEPTED,
     node INPUT_BINDING_RECORDED, task_change 1, node NEXT_MOVE_REVALIDATED]"

definition read_nodes :: "trace_event_type \<Rightarrow> trace_node list" where
  "read_nodes finished = [node GATE_DECISION_RECORDED, node TOOL_CALL_CREATED, node TOOL_CALL_STARTED,
     node finished, node TOOL_RESULT_NORMALIZED]"

definition closing_nodes :: "nat \<Rightarrow> trace_node list" where
  "closing_nodes version = [node RESPONSE_RENDERED, task_change version, node RUN_STOPPED, node EVAL_CASE_GRADED]"

fun trace_sequence :: "trace_variant \<Rightarrow> trace_node list" where
  "trace_sequence VARIANT_SUCCESS = opening_nodes @ candidate_nodes @ read_nodes TOOL_CALL_SUCCEEDED
     @ [node OBSERVATION_RECORDED, manifest_for ''PRESENTATION'', node PRESENTATION_PLAN_PROPOSED] @ closing_nodes 2"
| "trace_sequence VARIANT_PRESENTATION_PROTOCOL_REJECTED = opening_nodes @ candidate_nodes
     @ read_nodes TOOL_CALL_SUCCEEDED @ [node OBSERVATION_RECORDED, manifest_for ''PRESENTATION''] @ closing_nodes 2"
| "trace_sequence VARIANT_STALE_STATE_GATEWAY_REJECTED = opening_nodes @ candidate_nodes
     @ [task_change 2, node GATE_DECISION_RECORDED] @ closing_nodes 3"
| "trace_sequence VARIANT_FOREIGN_ORDER = opening_nodes @ candidate_nodes @ read_nodes TOOL_CALL_FAILED @ closing_nodes 2"
| "trace_sequence VARIANT_NONEXISTENT_ORDER = opening_nodes @ candidate_nodes @ read_nodes TOOL_CALL_FAILED @ closing_nodes 2"
| "trace_sequence VARIANT_ARGUMENT_BINDING_REJECTED =
     opening_nodes @ candidate_nodes @ [node GATE_DECISION_RECORDED] @ closing_nodes 2"
| "trace_sequence VARIANT_UNKNOWN_TOOL_GATEWAY_REJECTED =
     opening_nodes @ candidate_nodes @ [node GATE_DECISION_RECORDED] @ closing_nodes 2"
| "trace_sequence VARIANT_PROVIDER_PROTOCOL_BEFORE_CANDIDATE =
     opening_nodes @ [node RESPONSE_RENDERED, node RUN_STOPPED, node EVAL_CASE_GRADED]"
| "trace_sequence VARIANT_INPUT_VALIDATION_REJECTED =
     opening_nodes @ [node RESPONSE_RENDERED, node RUN_STOPPED, node EVAL_CASE_GRADED]"

definition critical_sequence :: "trace_variant \<Rightarrow> trace_node list" where
  "critical_sequence variant = filter (\<lambda>n. tn_event_type n \<noteq> REQUEST_UNDERSTANDING_STARTED) (trace_sequence variant)"

definition critical_events :: "trace_event list \<Rightarrow> trace_event list" where
  "critical_events events = filter (\<lambda>event. te_event_type event \<noteq> REQUEST_UNDERSTANDING_STARTED) events"

lemmas sequence_defs = opening_nodes_def candidate_nodes_def read_nodes_def closing_nodes_def
lemmas edge_defs = COMMON_TRACE_EDGES_def CANDIDATE_TRACE_EDGES_def TASKLESS_TERMINAL_EDGES_def
  GATEWAY_TERMINAL_EDGES_def FAILED_TOOL_EDGES_def SUCCESS_TOOL_EDGES_def

lemma sequence_follows_edges:
  "successively (\<lambda>before after. (before, after) \<in> set (TRACE_EDGES_BY_VARIANT variant)) (trace_sequence variant)"
  by (cases variant) (simp_all add: sequence_defs edge_defs)

lemma node_simps [simp]:
  "tn_event_type (node t) = t" "tn_occurrence (node t) = 1" "tn_model_call_purpose (node t) = None"
  "tn_event_type (task_change n) = TASK_STATE_CHANGED" "tn_occurrence (task_change n) = n"
  "tn_model_call_purpose (task_change n) = None"
  "tn_event_type (manifest_for p) = CONTEXT_MANIFEST_RECORDED" "tn_occurrence (manifest_for p) = 1"
  "tn_model_call_purpose (manifest_for p) = Some (str p)"
  by (simp_all add: node_def task_change_def manifest_for_def)

lemma set_ALL_EVENT_TYPES: "set ALL_EVENT_TYPES = UNIV" "distinct ALL_EVENT_TYPES"
  by (auto simp: ALL_EVENT_TYPES_def) (metis trace_event_type.exhaust)

lemma critical_types: "set SAFETY_CRITICAL_TRACE_TYPES = - {REQUEST_UNDERSTANDING_STARTED}" "distinct SAFETY_CRITICAL_TRACE_TYPES"
  by (auto simp: SAFETY_CRITICAL_TRACE_TYPES_def set_ALL_EVENT_TYPES)

lemma critical_type_iff: "t \<in> set SAFETY_CRITICAL_TRACE_TYPES \<longleftrightarrow> t \<noteq> REQUEST_UNDERSTANDING_STARTED"
  by (simp add: critical_types)

lemma critical_type_list: "SAFETY_CRITICAL_TRACE_TYPES = [MESSAGE_ACCEPTED, RUN_STARTED, CONTEXT_MANIFEST_RECORDED,
    NEXT_MOVE_PROPOSED, TASK_DELTA_VALIDATED, TASK_DELTA_ACCEPTED, INPUT_BINDING_RECORDED,
    TASK_STATE_CHANGED, NEXT_MOVE_REVALIDATED, GATE_DECISION_RECORDED, TOOL_CALL_CREATED,
    TOOL_CALL_STARTED, TOOL_CALL_SUCCEEDED, TOOL_CALL_FAILED, TOOL_CALL_TIMED_OUT,
    TOOL_CALL_INTERRUPTED, TOOL_RESULT_NORMALIZED, OBSERVATION_RECORDED, PRESENTATION_PLAN_PROPOSED,
    RESPONSE_RENDERED, RUN_STOPPED, EVAL_CASE_GRADED]"
  by (simp add: SAFETY_CRITICAL_TRACE_TYPES_def ALL_EVENT_TYPES_def)

text \<open>Each variant by evaluation; variants with the same edges share their counts.\<close>

definition expected_sum :: "trace_variant \<Rightarrow> nat" where
  "expected_sum variant = sum_list (map (expected_safety_event_count variant) SAFETY_CRITICAL_TRACE_TYPES)"

lemmas expected_sum_eval = expected_safety_event_count_def critical_type_iff critical_sequence_def sequence_defs edge_defs

lemma expected_sum_SUCCESS: "expected_sum VARIANT_SUCCESS = length (critical_sequence VARIANT_SUCCESS)"
  unfolding expected_sum_def critical_type_list by (simp add: expected_sum_eval)

lemma expected_sum_PRESENTATION_PROTOCOL_REJECTED: "expected_sum VARIANT_PRESENTATION_PROTOCOL_REJECTED = length (critical_sequence VARIANT_PRESENTATION_PROTOCOL_REJECTED)"
  unfolding expected_sum_def critical_type_list by (simp add: expected_sum_eval)

lemma expected_sum_STALE_STATE_GATEWAY_REJECTED: "expected_sum VARIANT_STALE_STATE_GATEWAY_REJECTED = length (critical_sequence VARIANT_STALE_STATE_GATEWAY_REJECTED)"
  unfolding expected_sum_def critical_type_list by (simp add: expected_sum_eval)

lemma expected_sum_FOREIGN_ORDER: "expected_sum VARIANT_FOREIGN_ORDER = length (critical_sequence VARIANT_FOREIGN_ORDER)"
  unfolding expected_sum_def critical_type_list by (simp add: expected_sum_eval)

lemma expected_sum_ARGUMENT_BINDING_REJECTED: "expected_sum VARIANT_ARGUMENT_BINDING_REJECTED = length (critical_sequence VARIANT_ARGUMENT_BINDING_REJECTED)"
  unfolding expected_sum_def critical_type_list by (simp add: expected_sum_eval)

lemma expected_sum_INPUT_VALIDATION_REJECTED: "expected_sum VARIANT_INPUT_VALIDATION_REJECTED = length (critical_sequence VARIANT_INPUT_VALIDATION_REJECTED)"
  unfolding expected_sum_def critical_type_list by (simp add: expected_sum_eval)

lemma same_edges:
  "expected_safety_event_count VARIANT_NONEXISTENT_ORDER = expected_safety_event_count VARIANT_FOREIGN_ORDER"
  "expected_safety_event_count VARIANT_UNKNOWN_TOOL_GATEWAY_REJECTED = expected_safety_event_count VARIANT_ARGUMENT_BINDING_REJECTED"
  "expected_safety_event_count VARIANT_PROVIDER_PROTOCOL_BEFORE_CANDIDATE = expected_safety_event_count VARIANT_INPUT_VALIDATION_REJECTED"
  by (rule ext, simp only: expected_safety_event_count_def TRACE_EDGES_BY_VARIANT.simps)+

lemma expected_total: "expected_sum variant = length (critical_sequence variant)"
proof -
  note eval = expected_sum_SUCCESS expected_sum_PRESENTATION_PROTOCOL_REJECTED expected_sum_STALE_STATE_GATEWAY_REJECTED expected_sum_FOREIGN_ORDER expected_sum_ARGUMENT_BINDING_REJECTED expected_sum_INPUT_VALIDATION_REJECTED
  have "critical_sequence VARIANT_NONEXISTENT_ORDER = critical_sequence VARIANT_FOREIGN_ORDER"
    "critical_sequence VARIANT_UNKNOWN_TOOL_GATEWAY_REJECTED = critical_sequence VARIANT_ARGUMENT_BINDING_REJECTED"
    "critical_sequence VARIANT_PROVIDER_PROTOCOL_BEFORE_CANDIDATE = critical_sequence VARIANT_INPUT_VALIDATION_REJECTED"
    by (simp_all add: critical_sequence_def)
  then show ?thesis
    using eval by (cases variant) (simp_all only: expected_sum_def same_edges)
qed

lemma sequence_occurrences: "n \<in> set (trace_sequence variant) \<Longrightarrow> 0 < tn_occurrence n"
  by (cases variant) (auto simp: sequence_defs)

subsection \<open>Counting\<close>

lemma counts_sum:
  assumes "distinct ts"
  shows "length (filter (\<lambda>event. te_event_type event \<in> set ts) events) = sum_list (map (event_count events) ts)"
  using assms
proof (induction events)
  case (Cons event events)
  have "sum_list (map (event_count (event # events)) ts)
      = sum_list (map (event_count events) ts) + (if te_event_type event \<in> set ts then 1 else 0)"
    using Cons.prems by (induction ts) (auto simp: event_count_def)
  with Cons show ?case by auto
qed (simp add: event_count_def)

lemma cardinality_accepted:
  assumes "trace_safety_cardinality_reason events variant = None"
  shows "length (critical_events events) = length (critical_sequence variant)"
proof -
  have "map (event_count events) SAFETY_CRITICAL_TRACE_TYPES
      = map (expected_safety_event_count variant) SAFETY_CRITICAL_TRACE_TYPES"
    using assms by (auto simp: trace_safety_cardinality_reason_def list_ex_iff not_less simp del: first_reason.simps intro: le_antisym)
  then show ?thesis
    using counts_sum[OF critical_types(2), of events] expected_total[of variant, unfolded expected_sum_def]
    by (simp only: critical_types critical_events_def Compl_iff singleton_iff)
qed

text \<open>A strictly increasing list of positions that hold \<open>P\<close>, as long as the number of such positions, is all of them.\<close>

lemma all_positions:
  assumes "sorted_wrt (<) ps" "\<forall>i\<in>set ps. i < length xs \<and> P (xs ! i)" "length ps = length (filter P xs)"
  shows "map ((!) xs) ps = filter P xs"
proof -
  let ?all = "filter (\<lambda>i. P (xs ! i)) [0..<length xs]"
  have all: "map ((!) xs) ?all = filter P xs"
    by (metis (mono_tags, lifting) comp_apply filter_cong filter_map map_nth)
  have d: "distinct ps" "sorted ps" using assms(1) strict_sorted_iff by blast+
  have "set ps \<subseteq> set ?all" using assms(2) by auto
  moreover have "card (set ?all) = card (set ps)"
    using d(1) assms(3) arg_cong[OF all, of length]
    by (simp only: distinct_card[OF d(1)] distinct_card[OF distinct_filter[OF distinct_upt]] length_map)
  ultimately have "set ps = set ?all" by (simp add: card_seteq)
  moreover have "sorted ?all" "distinct ?all" by (simp_all add: sorted_wrt_filter)
  ultimately have "ps = ?all" using d sorted_distinct_set_unique by blast
  with all show ?thesis by simp
qed

subsection \<open>The sequence\<close>

lemma node_index_Some:
  assumes "trace_node_index events n = Some i" "0 < tn_occurrence n"
  shows "i < length events" "node_matches n (events ! i)"
proof -
  let ?m = "filter (\<lambda>i. node_matches n (events ! i)) [0..<length events]"
  have "\<not> length ?m < tn_occurrence n" "i = ?m ! (tn_occurrence n - 1)"
    using assms(1) by (auto simp only: trace_node_index_def Let_def option.inject option.distinct split: if_splits)
  moreover from this assms(2) have "tn_occurrence n - 1 < length ?m" by linarith
  ultimately have "i \<in> set ?m" by (simp only: nth_mem)
  then show "i < length events" "node_matches n (events ! i)" by auto
qed

lemma precedence_edge:
  assumes "trace_precedence_reason events variant = None" "(before, after) \<in> set (TRACE_EDGES_BY_VARIANT variant)"
  shows "\<exists>i j. trace_node_index events before = Some i \<and> trace_node_index events after = Some j \<and> i < j"
proof -
  have "(case (trace_node_index events before, trace_node_index events after) of
      (Some i, Some j) \<Rightarrow> fail_if (i \<ge> j) | _ \<Rightarrow> Some TRACE_EVENT_MISSING) = None"
    using assms by (auto simp: trace_precedence_reason_def)
  then show ?thesis by (auto split: option.splits if_splits)
qed

lemma sequence_positions:
  assumes "trace_precedence_reason events variant = None"
  shows "\<exists>ps. list_all2 (\<lambda>n i. trace_node_index events n = Some i) (trace_sequence variant) ps \<and> sorted_wrt (<) ps"
proof -
  have "successively (\<lambda>before after. (before, after) \<in> set (TRACE_EDGES_BY_VARIANT variant)) ns \<Longrightarrow> length ns \<ge> 2 \<Longrightarrow>
      \<exists>ps. list_all2 (\<lambda>n i. trace_node_index events n = Some i) ns ps \<and> successively (<) ps" for ns
  proof (induction ns rule: induct_list012)
    case (3 a b ns)
    obtain i j where ij: "trace_node_index events a = Some i" "trace_node_index events b = Some j" "i < j"
      using precedence_edge[OF assms, of a b] "3.prems"(1) unfolding successively.simps by blast
    show ?case
    proof (cases ns)
      case Nil
      with ij show ?thesis by (intro exI[of _ "[i, j]"]) simp
    next
      case (Cons c cs)
      with "3.IH"(2) "3.prems" obtain ps where
        "list_all2 (\<lambda>n i. trace_node_index events n = Some i) (b # ns) ps" "successively (<) ps" by auto
      then show ?thesis using ij by (cases ps) (auto intro!: exI[of _ "i # ps"])
    qed
  qed simp_all
  from this[OF sequence_follows_edges[of variant]] show ?thesis
    by (simp add: successively_conv_sorted_wrt) (cases variant; simp add: sequence_defs)
qed

lemma accepted_trace_is_sequence:
  assumes "trace_safety_cardinality_reason events variant = None" "trace_precedence_reason events variant = None"
  shows "list_all2 node_matches (critical_sequence variant) (critical_events events)"
proof -
  let ?crit = "\<lambda>n. tn_event_type n \<noteq> REQUEST_UNDERSTANDING_STARTED"
  obtain ps where ps: "list_all2 (\<lambda>n i. trace_node_index events n = Some i) (trace_sequence variant) ps" "sorted_wrt (<) ps"
    using sequence_positions[OF assms(2)] by blast
  define pairs where "pairs = filter (?crit \<circ> fst) (zip (trace_sequence variant) ps)"
  have len: "length (trace_sequence variant) = length ps" using ps(1) by (rule list_all2_lengthD)
  have fst: "map fst pairs = critical_sequence variant"
    using len by (simp add: pairs_def critical_sequence_def flip: filter_map)
  have at: "snd p < length events \<and> node_matches (fst p) (events ! snd p)" if "p \<in> set pairs" for p
  proof -
    have p: "p \<in> set (zip (trace_sequence variant) ps)" using that by (simp add: pairs_def)
    then have "trace_node_index events (fst p) = Some (snd p)" using ps(1) by (auto simp: list_all2_iff)
    moreover have "0 < tn_occurrence (fst p)"
      using p sequence_occurrences[of "fst p" variant] by (metis prod.collapse set_zip_leftD)
    ultimately show ?thesis using node_index_Some by blast
  qed
  have "sorted_wrt (<) (map snd pairs)"
    using ps(2) len by (auto simp: pairs_def sorted_wrt_map intro!: sorted_wrt_filter)
       (metis sorted_wrt_map map_snd_zip)
  moreover have "te_event_type (events ! i) \<noteq> REQUEST_UNDERSTANDING_STARTED" if "i \<in> set (map snd pairs)" for i
    using that at by (fastforce simp: pairs_def node_matches_def)
  moreover have "length pairs = length (critical_events events)"
    using cardinality_accepted[OF assms(1)] fst by (metis length_map)
  ultimately have "map ((!) events) (map snd pairs) = critical_events events"
    unfolding critical_events_def using at by (intro all_positions) auto
  then have "critical_events events = map (\<lambda>p. events ! snd p) pairs" by (simp add: comp_def)
  then show ?thesis unfolding fst[symmetric] by (simp add: list_all2_map1 list_all2_map2 list_all2_same at)
qed
end
