(* ===== verification/Grader_Graphs.thy ===== *)
theory Grader_Graphs
  imports Grader_Records "HOL-Library.Multiset"
begin


section \<open>Record graphs and their graders (evaluation/graders.py, lines 745--901 and 952--1495)\<close>

text \<open>
  The checks that the records of one case refer to each other: message, candidate, accepted delta,
  binding, Task, RequestUnit and links; observations and their manifests; ToolCalls and attempts.
  A \<open>collections.Counter\<close> is a multiset, a dictionary built by a comprehension is \<open>dict_by\<close>.
\<close>

subsection \<open>Request understanding\<close>

definition v2_request_understanding_graph_reason ::
  "eval_evidence \<Rightarrow> eval_case_expectations \<Rightarrow> eval_grader_reason option" where
  "v2_request_understanding_graph_reason e x =
     (let expected_count = (if ee_expected_task_status x \<noteq> None then 1 else 0 :: int);
          message = hd (ev_message_records e); conversation = hd (ev_conversation_records e);
          understanding = hd (ev_request_understanding_records e);
          accepted_delta = hd (ev_accepted_task_deltas e); binding = hd (ev_input_bindings e);
          task = hd (ev_task_records e); request_unit = hd (ev_request_units e);
          conversation_link = hd (ev_conversation_task_links e); run_link = hd (ev_run_task_links e);
          proposed_delta = hd (rc_task_delta_candidates understanding);
          input_candidate = hd (dtd_input_candidates proposed_delta);
          accepted_candidates = filter is_accept (rc_candidate_validation understanding)
      in or_else (closed_record_count_reason (int (length (ev_request_understanding_records e))) expected_count)
        (or_else (closed_record_count_reason (int (length (ev_accepted_task_deltas e))) expected_count)
        (or_else (closed_record_count_reason (int (length (ev_conversation_task_links e))) expected_count)
        (or_else (closed_record_count_reason (int (length (ev_run_task_links e))) expected_count)
        (if expected_count = 0 then None
         else case ev_run_record e of
           None \<Rightarrow> Some MISSING_RECORD
         | Some run \<Rightarrow>
           or_else (first_reason
             [(length (ev_conversation_records e) \<noteq> 1 \<or> length (ev_message_records e) \<noteq> 1
                 \<or> length (ev_input_bindings e) \<noteq> 1 \<or> length (ev_task_records e) \<noteq> 1
                 \<or> length (ev_request_units e) \<noteq> 1, MISSING_RECORD),
              (length (rc_task_delta_candidates understanding) \<noteq> 1
                 \<or> length (dtd_input_candidates proposed_delta) \<noteq> 1, ASSERTION_FAILED)])
          (or_else (v2_source_provenance_reason e)
          (or_else (v2_task_transition_graph_reason e)
           (first_reason
             [(rc_schema_version understanding \<noteq> str ''request_understanding_record.p0.v2''
                \<or> rc_model_input_schema_version understanding \<noteq> str ''e2e01-thin-v1''
                \<or> rc_model_output_schema_version understanding \<noteq> str ''e2e01-thin-v2''
                \<or> rc_run_id understanding \<noteq> ar_run_id run
                \<or> rc_message_ref understanding \<noteq> mr_message_id message
                \<or> rc_proposed_base_task_state_version understanding \<noteq> None
                \<or> rc_validated_task_state_version understanding \<noteq> ee_expected_validated_task_state_version x
                \<or> rc_next_move_candidate_ref understanding = None
                \<or> length (rc_candidate_validation understanding) \<noteq> 1
                \<or> length accepted_candidates \<noteq> 1
                \<or> cv_candidate_ref (hd accepted_candidates) \<noteq> dtd_candidate_id proposed_delta
                \<or> rc_accepted_delta_refs understanding \<noteq> [ad_accepted_delta_id accepted_delta]
                \<or> ad_candidate_ref accepted_delta \<noteq> dtd_candidate_id proposed_delta
                \<or> ad_message_ref accepted_delta \<noteq> rc_message_ref understanding
                \<or> ad_operation accepted_delta \<noteq> dtd_operation proposed_delta
                \<or> ad_goal_text accepted_delta \<noteq> dtd_goal_patch proposed_delta
                \<or> ad_input_binding_refs accepted_delta \<noteq> [ib_binding_id binding]
                \<or> ad_accepted_at accepted_delta \<noteq> rc_created_at understanding
                \<or> ad_task_id accepted_delta \<noteq> tk_task_id task
                \<or> ad_base_task_state_version accepted_delta \<noteq> None
                \<or> ad_result_task_state_version accepted_delta \<noteq> 1
                \<or> dic_source_ref input_candidate \<noteq> mr_message_id message
                \<or> ib_normalized_value binding \<noteq> dic_candidate_value input_candidate
                \<or> ib_source_refs binding \<noteq> [mr_message_id message]
                \<or> ru_task_id request_unit \<noteq> tk_task_id task
                \<or> ru_goal_text request_unit \<noteq> ad_goal_text accepted_delta
                \<or> ru_goal_source_refs request_unit \<noteq> [mr_message_id message]
                \<or> ru_input_binding_refs request_unit \<noteq> ad_input_binding_refs accepted_delta
                \<or> ctl_schema_version conversation_link \<noteq> str ''conversation_task_link_record.p0.v1''
                \<or> ctl_conversation_id conversation_link \<noteq> cr_conversation_id conversation
                \<or> ctl_task_id conversation_link \<noteq> tk_task_id task
                \<or> ctl_link_reason conversation_link = []
                \<or> ctl_ended_at conversation_link \<noteq> None
                \<or> rl_schema_version run_link \<noteq> str ''run_task_link_record.p0.v1''
                \<or> rl_run_id run_link \<noteq> ar_run_id run
                \<or> rl_task_id run_link \<noteq> tk_task_id task
                \<or> rl_base_task_state_version run_link \<noteq> None
                \<or> rl_result_task_state_version run_link \<noteq> Some (tk_state_version task), ASSERTION_FAILED),
              (list_ex (\<lambda>o'. oo_observation_id o' \<in> set (ru_observation_refs request_unit)
                   \<and> oo_source_resource_ref o' \<noteq> dic_candidate_value input_candidate) (ev_observations e),
               ASSERTION_FAILED)]))))))))"

definition request_understanding_reason :: "eval_evidence \<Rightarrow> eval_case_expectations \<Rightarrow> eval_grader_reason option" where
  "request_understanding_reason e x =
     (let understanding = hd (ev_request_understanding_records e);
          delta = hd (rc_task_delta_candidates understanding);
          candidate = hd (dtd_input_candidates delta);
          accepted = filter is_accept (rc_candidate_validation understanding);
          gate_names = set (map gd_requested_provider_tool_name (ev_gate_decisions e));
          binding_values = set (map ib_normalized_value (ev_input_bindings e))
      in if \<not> ee_request_understanding_required x
         then fail_if (ev_request_understanding_records e \<noteq> [] \<or> ev_accepted_task_deltas e \<noteq> [])
         else or_else (first_reason
           [(ev_request_understanding_records e = [], MISSING_RECORD),
            (length (ev_request_understanding_records e) \<noteq> 1, ASSERTION_FAILED),
            (length (rc_task_delta_candidates understanding) \<noteq> 1, ASSERTION_FAILED),
            (length (dtd_input_candidates delta) \<noteq> 1, ASSERTION_FAILED),
            (Some (dic_candidate_value candidate) \<noteq> ee_expected_binding_order_id x
               \<or> dic_authority candidate \<noteq> USER_CLAIM
               \<or> dic_source_ref candidate \<noteq> rc_message_ref understanding
               \<or> length accepted \<noteq> 1
               \<or> cv_candidate_ref (hd accepted) \<noteq> dtd_candidate_id delta
               \<or> rc_proposed_base_task_state_version understanding \<noteq> None
               \<or> rc_validated_task_state_version understanding \<noteq> ee_expected_validated_task_state_version x
               \<or> rc_next_move_candidate_ref understanding = None
               \<or> Some ` binding_values \<noteq> {ee_expected_binding_order_id x}
               \<or> ee_expected_requested_tool_name x \<noteq> None
                 \<and> Some ` gate_names \<noteq> {ee_expected_requested_tool_name x}, ASSERTION_FAILED)])
          (v2_request_understanding_graph_reason e x))"

definition RequestUnderstandingGrader :: grade where
  "RequestUnderstandingGrader = grade_as ''RequestUnderstandingGrader'' request_understanding_reason"

subsection \<open>InputBindingGrader and TaskStateGrader\<close>

definition input_binding_reason :: "eval_evidence \<Rightarrow> eval_case_expectations \<Rightarrow> eval_grader_reason option" where
  "input_binding_reason e x =
     (let binding = hd (ev_input_bindings e);
          message_ref = rc_message_ref (hd (ev_request_understanding_records e))
      in if ee_expected_task_status x = None then fail_if (ev_input_bindings e \<noteq> [])
         else first_reason
           [(ev_input_bindings e = [] \<or> length (ev_request_understanding_records e) \<noteq> 1, MISSING_RECORD),
            (length (ev_input_bindings e) \<noteq> 1, ASSERTION_FAILED),
            (Some (ib_normalized_value binding) \<noteq> ee_expected_binding_order_id x
               \<or> ib_authority binding \<noteq> USER_CLAIM
               \<or> ib_source_refs binding \<noteq> [message_ref]
               \<or> \<not> ib_confirmed_by_user binding
               \<or> list_ex (\<lambda>unit. ib_binding_id binding \<notin> set (ru_input_binding_refs unit)) (ev_request_units e),
             ASSERTION_FAILED)])"

definition InputBindingGrader :: grade where
  "InputBindingGrader = grade_as ''InputBindingGrader'' input_binding_reason"

definition task_state_reason :: "eval_evidence \<Rightarrow> eval_case_expectations \<Rightarrow> eval_grader_reason option" where
  "task_state_reason e x =
     (let task = hd (ev_task_records e); unit = hd (ev_request_units e)
      in if ee_expected_task_status x = None then fail_if (ev_task_records e \<noteq> [] \<or> ev_request_units e \<noteq> [])
         else first_reason
           [(ev_task_records e = [] \<or> ev_request_units e = [], MISSING_RECORD),
            (length (ev_task_records e) \<noteq> 1 \<or> length (ev_request_units e) \<noteq> 1, ASSERTION_FAILED),
            (ru_task_id unit \<noteq> tk_task_id task
               \<or> Some (tk_status task) \<noteq> ee_expected_task_status x
               \<or> Some (ru_status unit) \<noteq> ee_expected_request_unit_status x
               \<or> Some (tk_state_version task) \<noteq> ee_expected_task_state_version x
               \<or> Some (ru_state_version unit) \<noteq> ee_expected_request_unit_state_version x
               \<or> ru_input_binding_refs unit = [], ASSERTION_FAILED)])"

definition TaskStateGrader :: grade where
  "TaskStateGrader = grade_as ''TaskStateGrader'' task_state_reason"

subsection \<open>Observations\<close>

definition request_unit_observation_graph_reason :: "eval_evidence \<Rightarrow> eval_grader_reason option" where
  "request_unit_observation_graph_reason e =
     (let refs = ru_observation_refs (hd (ev_request_units e));
          authoritative_ids = map oo_observation_id (ev_observations e)
      in if ev_request_units e = [] then None
         else first_reason
           [(length (ev_request_units e) \<noteq> 1, ASSERTION_FAILED),
            (length refs < length authoritative_ids \<and> set refs \<subseteq> set authoritative_ids, MISSING_RECORD),
            (has_duplicates refs \<or> set refs \<noteq> set authoritative_ids, ASSERTION_FAILED)])"

definition events_of :: "trace_event_type \<Rightarrow> eval_evidence \<Rightarrow> trace_event list" where
  "events_of t e = filter (\<lambda>event. te_event_type event = t) (ev_trace_events e)"

definition v2_logical_observation_graph_reason :: "eval_evidence \<Rightarrow> eval_grader_reason option" where
  "v2_logical_observation_graph_reason e =
     (let observation_by_id = dict_by oo_observation_id (ev_observations e);
          unit_refs = concat (map ru_observation_refs (ev_request_units e));
          manifest_refs = concat (map cm_observation_refs_and_versions (ev_context_manifests e));
          trace_events = events_of OBSERVATION_RECORDED e;
          observation = hd (ev_observations e); task = hd (ev_task_records e); unit = hd (ev_request_units e);
          call = hd (ev_tool_calls e); binding = hd (ev_input_bindings e)
      in if observation_by_id = [] then fail_if (unit_refs \<noteq> [] \<or> manifest_refs \<noteq> [] \<or> trace_events \<noteq> [])
         else first_reason
           [(length (ev_observations e) \<noteq> 1 \<or> length (ev_task_records e) \<noteq> 1 \<or> length (ev_request_units e) \<noteq> 1
               \<or> length (ev_tool_calls e) \<noteq> 1 \<or> length (ev_input_bindings e) \<noteq> 1, ASSERTION_FAILED),
            (ru_task_id unit \<noteq> tk_task_id task
               \<or> ru_observation_refs unit \<noteq> [oo_observation_id observation]
               \<or> tc_task_id call \<noteq> tk_task_id task
               \<or> tc_request_unit_id call \<noteq> ru_request_unit_id unit
               \<or> tc_status call \<noteq> TC_SUCCEEDED
               \<or> tc_effect call \<noteq> READ
               \<or> tc_canonical_tool_name call \<noteq> oo_source_tool observation
               \<or> oo_source_resource_ref observation \<noteq> ib_normalized_value binding, ASSERTION_FAILED),
            (manifest_refs = [], MISSING_RECORD),
            (list_ex (\<lambda>item. case map_of observation_by_id (vr_record_ref item) of
                 None \<Rightarrow> True
               | Some o' \<Rightarrow> Some (vr_version item) \<noteq> oo_source_version o') manifest_refs
             \<or> set (map vr_record_ref manifest_refs) \<noteq> set (map fst observation_by_id), ASSERTION_FAILED),
            (length (filter (\<lambda>event. te_observation_ref event = Some (oo_observation_id observation)) trace_events) \<noteq> 1,
             ASSERTION_FAILED)])"

definition observation_persistence_graph_reason :: "eval_evidence \<Rightarrow> eval_grader_reason option" where
  "observation_persistence_graph_reason e =
     or_else (observation_canonicalization_reason e) (v2_logical_observation_graph_reason e)"

subsection \<open>ToolCalls and their attempts\<close>

definition final_outcomes :: "tool_call_status \<Rightarrow> tool_result_outcome list" where
  "final_outcomes status =
     (if status = TC_SUCCEEDED then [TR_SUCCESS]
      else if status = TC_FAILED then [TR_BUSINESS_FAILURE, TR_SYSTEM_FAILURE]
      else if status = TC_TIMED_OUT then [TR_TIMEOUT] else [])"

definition attempt_open :: "tool_attempt_record \<Rightarrow> bool" where
  "attempt_open a \<longleftrightarrow> at_finished_at a = None \<or> at_outcome a = None"

definition call_attempts_reason :: "tool_call_record \<Rightarrow> tool_attempt_record list \<Rightarrow> eval_grader_reason option" where
  "call_attempts_reason call attempts =
     (let final = last attempts
      in or_else (first_reason
        [(map at_attempt_no attempts \<noteq> map int [1..<Suc (nat (tc_attempt_count call))], ASSERTION_FAILED),
         (list_ex (\<lambda>item. dt_less (at_started_at item) (tc_started_at call)) attempts
            \<or> list_ex (\<lambda>(current, following). dt_less (at_started_at following) (at_started_at current))
                (adjacent attempts), ASSERTION_FAILED)])
       (if tc_status call = TC_CREATED then None
        else if tc_status call = TC_RUNNING then
          fail_if (attempts = [] \<or> at_finished_at final \<noteq> None \<or> at_outcome final \<noteq> None
            \<or> list_ex attempt_open (butlast attempts))
        else if tc_status call = TC_INTERRUPTED then first_reason
          [(list_ex attempt_open (butlast attempts), ASSERTION_FAILED),
           (attempts \<noteq> [] \<and> at_finished_at final \<noteq> None
              \<and> (at_outcome final \<noteq> Some TR_INTERRUPTED \<or> tc_finished_at call \<noteq> at_finished_at final), ASSERTION_FAILED)]
        else fail_if (attempts = [] \<or> list_ex attempt_open attempts
          \<or> at_outcome final \<notin> Some ` set (final_outcomes (tc_status call))
          \<or> tc_finished_at call \<noteq> at_finished_at final
          \<or> tc_failure_code call \<noteq> at_failure_code final)))"

definition tool_attempt_graph_reason :: "eval_evidence \<Rightarrow> eval_grader_reason option" where
  "tool_attempt_graph_reason e =
     (let calls = ev_tool_calls e; attempts = ev_tool_attempts e
      in or_else (closed_record_count_reason (int (length attempts)) (sum_list (map tc_attempt_count calls)))
        (or_else (first_reason
          [(sum_list (map tc_attempt_count (filter (\<lambda>call. tc_canonical_tool_name call = str ''get_order'') calls)) > 1,
            ASSERTION_FAILED),
           (\<not> set (map at_tool_call_id attempts) \<subseteq> set (map tc_tool_call_id calls), ASSERTION_FAILED)])
         (find_reason (\<lambda>call. call_attempts_reason call
            (sort_key at_attempt_no (filter (\<lambda>a. at_tool_call_id a = tc_tool_call_id call) attempts))) calls)))"

section \<open>Manifests, ToolCalls and Observations (evaluation/graders.py, lines 1275--1587)\<close>

definition REQUEST_UNDERSTANDING_PURPOSE :: pystr where
  "REQUEST_UNDERSTANDING_PURPOSE = str ''REQUEST_UNDERSTANDING''"

definition PRESENTATION_PURPOSE :: pystr where
  "PRESENTATION_PURPOSE = str ''PRESENTATION''"

subsection \<open>Context manifests\<close>

text \<open>
  \<open>+Counter(...)\<close> drops the entries that are not positive: the multiset below has the purpose of
  request understanding \<open>calls - presentations\<close> times, none when the difference is negative.
\<close>

definition expected_purposes :: "eval_case_expectations \<Rightarrow> pystr option multiset" where
  "expected_purposes x =
     replicate_mset (nat (ee_expected_model_calls x - ee_expected_presentation_model_calls x))
       (Some REQUEST_UNDERSTANDING_PURPOSE)
     + replicate_mset (nat (ee_expected_presentation_model_calls x)) (Some PRESENTATION_PURPOSE)"

definition event_fields_missing :: "trace_event \<Rightarrow> bool" where
  "event_fields_missing event \<longleftrightarrow>
     te_context_manifest_id event = None \<or> te_model_call_id event = None \<or> te_model_call_purpose event = None
     \<or> te_tool_registry_version event = None \<or> te_model_visible_toolset_hash event = None"

text \<open>The body of the loop over the manifest events.\<close>

definition manifest_event_reason ::
  "eval_evidence \<Rightarrow> eval_case_expectations \<Rightarrow> agent_run_record \<Rightarrow> trace_event \<Rightarrow> eval_grader_reason option" where
  "manifest_event_reason e x run event =
     (let manifest = the (map_of (dict_by cm_context_manifest_id (ev_context_manifests e)) (the (te_context_manifest_id event)));
          message_ref = mr_message_id (hd (ev_message_records e));
          task_ids = set (map tk_task_id (ev_task_records e));
          observation_by_id = dict_by oo_observation_id (ev_observations e);
          expected_observation_refs = map (\<lambda>o'. (oo_observation_id o', oo_source_version o')) (ev_observations e);
          actual_observation_refs = map (\<lambda>r. (vr_record_ref r, Some (vr_version r))) (cm_observation_refs_and_versions manifest)
      in or_else (fail_if (cm_run_id manifest \<noteq> ar_run_id run
             \<or> Some (cm_model_call_id manifest) \<noteq> te_model_call_id event
             \<or> cm_selected_message_refs manifest \<noteq> [message_ref]
             \<or> cm_tool_registry_version manifest \<noteq> ee_expected_tool_registry_version x
             \<or> cm_model_visible_toolset_hash manifest \<noteq> ee_expected_model_visible_toolset_hash x
             \<or> cm_evidence_refs_and_versions manifest \<noteq> []
             \<or> cm_action_record_refs manifest \<noteq> []))
        (if te_model_call_purpose event = Some REQUEST_UNDERSTANDING_PURPOSE
         then fail_if (cm_task_state_ref_and_version manifest \<noteq> None \<or> cm_observation_refs_and_versions manifest \<noteq> [])
         else (case cm_task_state_ref_and_version manifest of
             None \<Rightarrow> Some MISSING_RECORD
           | Some task_ref \<Rightarrow> first_reason
              [(card task_ids \<noteq> 1 \<or> tsr_task_id task_ref \<notin> task_ids
                  \<or> Some (tsr_state_version task_ref) \<noteq> ee_expected_validated_task_state_version x, ASSERTION_FAILED),
               (length actual_observation_refs < length expected_observation_refs, MISSING_RECORD),
               (length actual_observation_refs > length expected_observation_refs
                  \<or> actual_observation_refs \<noteq> expected_observation_refs
                  \<or> list_ex (\<lambda>(ref, version). case map_of observation_by_id ref of
                       None \<Rightarrow> True | Some o' \<Rightarrow> oo_source_version o' \<noteq> version) actual_observation_refs, ASSERTION_FAILED)])))"

definition context_manifest_graph_reason ::
  "eval_evidence \<Rightarrow> eval_case_expectations \<Rightarrow> eval_grader_reason option" where
  "context_manifest_graph_reason e x =
     (let manifests = ev_context_manifests e; context_events = events_of CONTEXT_MANIFEST_RECORDED e;
          event_manifest_ids = map te_context_manifest_id context_events;
          purpose_by_manifest_id = dict_of_items (map (\<lambda>event. (te_context_manifest_id event, te_model_call_purpose event)) context_events)
      in or_else (closed_record_count_reason (int (length manifests)) (ee_expected_model_calls x))
        (or_else (closed_record_count_reason (int (length context_events)) (ee_expected_model_calls x))
        (if manifests = [] then None
         else case ev_run_record e of
           None \<Rightarrow> Some MISSING_RECORD
         | Some run \<Rightarrow>
           or_else (first_reason
             [(length (ev_message_records e) \<noteq> 1, MISSING_RECORD),
              (list_ex event_fields_missing context_events, MISSING_RECORD),
              (has_duplicates event_manifest_ids \<or> has_duplicates (map te_model_call_id context_events), ASSERTION_FAILED),
              (mset (map te_model_call_purpose context_events) \<noteq> expected_purposes x, ASSERTION_FAILED),
              (set event_manifest_ids \<noteq> Some ` set (map cm_context_manifest_id manifests), ASSERTION_FAILED),
              (list_ex (\<lambda>gate. map_of purpose_by_manifest_id (Some (gd_context_manifest_id gate))
                   \<noteq> Some (Some REQUEST_UNDERSTANDING_PURPOSE)) (ev_gate_decisions e), ASSERTION_FAILED)])
            (find_reason (manifest_event_reason e x run) context_events))))"

subsection \<open>The ToolCall graph\<close>

definition tool_graph_is_closed :: "eval_evidence \<Rightarrow> eval_case_expectations \<Rightarrow> bool" where
  "tool_graph_is_closed e x =
     (let gate = hd (ev_gate_decisions e); binding = hd (ev_input_bindings e); task = hd (ev_task_records e);
          unit = hd (ev_request_units e); call = hd (ev_tool_calls e);
          message_ref = rc_message_ref (hd (ev_request_understanding_records e));
          expected_version = ee_expected_validated_task_state_version x;
          expected_resolved_name =
            (if ee_expected_gate_reason x = Some TOOL_NOT_REGISTERED then None else Some (str ''get_order''))
      in if ee_expected_gate_decision x = None then ev_gate_decisions e = [] \<and> ev_tool_calls e = []
         else if length (ev_gate_decisions e) \<noteq> 1 \<or> length (ev_input_bindings e) \<noteq> 1 \<or> length (ev_task_records e) \<noteq> 1
             \<or> length (ev_request_units e) \<noteq> 1 \<or> length (ev_request_understanding_records e) \<noteq> 1 then False
         else (case (ev_run_record e, map_of (dict_by cm_context_manifest_id (ev_context_manifests e)) (gd_context_manifest_id gate)) of
            (Some run, Some manifest) \<Rightarrow>
             cm_run_id manifest = ar_run_id run
             \<and> cm_model_call_id manifest = gd_model_call_id gate
             \<and> cm_selected_message_refs manifest = [message_ref]
             \<and> cm_task_state_ref_and_version manifest = None
             \<and> cm_observation_refs_and_versions manifest = []
             \<and> cm_model_visible_toolset_hash manifest = ee_expected_model_visible_toolset_hash x
             \<and> cm_tool_registry_version manifest = ee_expected_tool_registry_version x
             \<and> Some (gd_decision gate) = ee_expected_gate_decision x
             \<and> gd_reason_code gate = ee_expected_gate_reason x
             \<and> Some (gd_requested_provider_tool_name gate) = ee_expected_requested_tool_name x
             \<and> gd_resolved_canonical_tool_name gate = expected_resolved_name
             \<and> gd_argument_binding_refs gate = [ib_binding_id binding]
             \<and> gd_validated_task_state_version gate = expected_version
             \<and> gd_proposed_base_task_state_version gate = None
             \<and> ru_task_id unit = tk_task_id task
             \<and> ru_input_binding_refs unit = [ib_binding_id binding]
             \<and> (if ee_expected_tool_calls x = 0 then ev_tool_calls e = []
                else length (ev_tool_calls e) = 1
                  \<and> tc_run_id call = ar_run_id run
                  \<and> tc_task_id call = tk_task_id task
                  \<and> tc_request_unit_id call = ru_request_unit_id unit
                  \<and> tc_gate_decision_id call = gd_gate_decision_id gate
                  \<and> tc_model_call_id call = gd_model_call_id gate
                  \<and> tc_context_manifest_id call = gd_context_manifest_id gate
                  \<and> tc_provider_tool_call_id call = gd_provider_tool_call_id gate
                  \<and> tc_canonical_tool_name call = str ''get_order''
                  \<and> tc_tool_registry_version call = ee_expected_tool_registry_version x
                  \<and> Some (tc_validated_task_state_version call) = expected_version
                  \<and> tc_argument_binding_refs call = gd_argument_binding_refs gate
                  \<and> tc_effect call = READ
                  \<and> Some (tc_status call) = ee_expected_tool_call_status x)
          | _ \<Rightarrow> False))"

definition tool_call_reason :: "eval_evidence \<Rightarrow> eval_case_expectations \<Rightarrow> eval_grader_reason option" where
  "tool_call_reason e x =
     or_else (first_reason
       [(ee_expected_gate_decision x = None \<and> ev_gate_decisions e \<noteq> [], ASSERTION_FAILED),
        (ee_expected_gate_decision x \<noteq> None \<and> ev_gate_decisions e = [], MISSING_RECORD),
        (ee_expected_gate_decision x \<noteq> None \<and> length (ev_gate_decisions e) \<noteq> 1, ASSERTION_FAILED)])
    (or_else (closed_record_count_reason (int (length (ev_tool_calls e))) (ee_expected_tool_calls x))
    (or_else (tool_attempt_graph_reason e)
     (if ee_expected_gate_decision x = None then None
      else first_reason
       [(ev_run_record e = None \<or> ev_request_understanding_records e = [] \<or> ev_input_bindings e = []
           \<or> ev_task_records e = [] \<or> ev_request_units e = [] \<or> ev_context_manifests e = [], MISSING_RECORD),
        (length (ev_input_bindings e) \<noteq> 1 \<or> length (ev_task_records e) \<noteq> 1 \<or> length (ev_request_units e) \<noteq> 1,
         ASSERTION_FAILED),
        (\<not> tool_graph_is_closed e x, ASSERTION_FAILED)])))"

definition ToolCallGrader :: grade where
  "ToolCallGrader = grade_as ''ToolCallGrader'' tool_call_reason"

subsection \<open>ObservationGrader\<close>

definition observation_reason :: "eval_evidence \<Rightarrow> eval_case_expectations \<Rightarrow> eval_grader_reason option" where
  "observation_reason e x =
     (let observation = hd (ev_observations e); call = hd (ev_tool_calls e)
      in or_else (closed_record_count_reason (int (length (ev_observations e))) (ee_expected_observations x))
        (or_else (observation_persistence_graph_reason e)
         (if ev_observations e = [] then None
          else first_reason
           [(ev_tool_calls e = [], MISSING_RECORD),
            (length (ev_tool_calls e) \<noteq> 1, ASSERTION_FAILED),
            (oo_source_tool observation \<noteq> str ''get_order''
               \<or> Some (oo_source_resource_ref observation) \<noteq> ee_expected_binding_order_id x
               \<or> Some (os_order_number (fields_of (oo_normalized_value observation))) \<noteq> ee_expected_binding_order_id x
               \<or> oo_visibility observation = VIS_AUDIT_ONLY
               \<or> tc_status call \<noteq> TC_SUCCEEDED, ASSERTION_FAILED)])))"

definition ObservationGrader :: grade where
  "ObservationGrader = grade_as ''ObservationGrader'' observation_reason"
end
