(* ===== verification/Grader_Trace.thy ===== *)
theory Grader_Trace
  imports Grader_Precedence Grader_Graphs
begin

section \<open>Trace, persistence and replay (evaluation/graders.py, lines 2000--2246 and 2266--2762)\<close>

text \<open>
  The references of a trace against the typed records, and the three graders that read everything.
  A loop of \<open>if ...: return False\<close> is a conjunction.
\<close>

subsection \<open>The life of a ToolCall in the trace\<close>

definition lifecycle_status_by_type :: "(trace_event_type \<times> tool_call_status) list" where
  "lifecycle_status_by_type =
     [(TOOL_CALL_CREATED, TC_CREATED), (TOOL_CALL_STARTED, TC_RUNNING), (TOOL_CALL_SUCCEEDED, TC_SUCCEEDED),
      (TOOL_CALL_FAILED, TC_FAILED), (TOOL_CALL_TIMED_OUT, TC_TIMED_OUT), (TOOL_CALL_INTERRUPTED, TC_INTERRUPTED)]"

fun expected_lifecycle :: "tool_call_status \<Rightarrow> int \<Rightarrow> trace_event_type list" where
  "expected_lifecycle TC_CREATED n = [TOOL_CALL_CREATED]"
| "expected_lifecycle TC_RUNNING n = [TOOL_CALL_CREATED, TOOL_CALL_STARTED]"
| "expected_lifecycle TC_SUCCEEDED n = [TOOL_CALL_CREATED, TOOL_CALL_STARTED, TOOL_CALL_SUCCEEDED]"
| "expected_lifecycle TC_FAILED n = [TOOL_CALL_CREATED, TOOL_CALL_STARTED, TOOL_CALL_FAILED]"
| "expected_lifecycle TC_TIMED_OUT n = [TOOL_CALL_CREATED, TOOL_CALL_STARTED, TOOL_CALL_TIMED_OUT]"
| "expected_lifecycle TC_INTERRUPTED n =
     (if n = 0 then [TOOL_CALL_CREATED, TOOL_CALL_INTERRUPTED]
      else [TOOL_CALL_CREATED, TOOL_CALL_STARTED, TOOL_CALL_INTERRUPTED])"

definition tool_lifecycle_references_match :: "trace_event list \<Rightarrow> tool_call_record list \<Rightarrow> bool" where
  "tool_lifecycle_references_match events tool_calls =
     (let lifecycle_events = filter (\<lambda>event. te_event_type event \<in> set (map fst lifecycle_status_by_type)) events
      in set (map te_tool_call_id lifecycle_events) = Some ` set (map tc_tool_call_id tool_calls)
         \<and> list_all (\<lambda>event. te_tool_call_terminal_status event
              = map_of lifecycle_status_by_type (te_event_type event)) lifecycle_events
         \<and> list_all (\<lambda>call. map te_event_type
                (filter (\<lambda>event. te_tool_call_id event = Some (tc_tool_call_id call)) lifecycle_events)
              = expected_lifecycle (tc_status call) (tc_attempt_count call)) tool_calls)"

subsection \<open>Normalized results\<close>

definition terminal_outcomes :: "tool_call_status \<Rightarrow> tool_result_outcome list" where
  "terminal_outcomes status =
     (if status = TC_SUCCEEDED then [TR_SUCCESS]
      else if status = TC_FAILED then [TR_BUSINESS_FAILURE, TR_SYSTEM_FAILURE]
      else if status = TC_TIMED_OUT then [TR_TIMEOUT]
      else if status = TC_INTERRUPTED then [TR_INTERRUPTED] else [])"

text \<open>The entries of \<open>normalized_by_call\<close>: call, position in the trace and outcome.\<close>

definition normalized_events :: "trace_event list \<Rightarrow> (nat \<times> trace_event) list" where
  "normalized_events events = filter (\<lambda>(_, event). te_event_type event = TOOL_RESULT_NORMALIZED) (enumerate 0 events)"

definition normalized_by_call :: "trace_event list \<Rightarrow> (uuid \<times> nat \<times> tool_result_outcome) list" where
  "normalized_by_call events = map (\<lambda>(index, event).
      (the (te_tool_call_id event), index, the (te_safe_tool_outcome event))) (normalized_events events)"

definition normalized_call_matches ::
  "(nat \<times> tool_result_outcome) option \<Rightarrow> tool_call_record \<Rightarrow> tool_attempt_record list \<Rightarrow> bool" where
  "normalized_call_matches normalized call attempts =
     (int (length attempts) = tc_attempt_count call
      \<and> map at_attempt_no attempts = map int [1..<Suc (nat (tc_attempt_count call))]
      \<and> (if tc_status call \<in> {TC_CREATED, TC_RUNNING} then normalized = None
         else case normalized of
           None \<Rightarrow> False
         | Some (_, normalized_outcome) \<Rightarrow>
             normalized_outcome \<in> set (terminal_outcomes (tc_status call))
             \<and> (if tc_status call = TC_INTERRUPTED \<and> tc_attempt_count call = 0 then attempts = []
                else if tc_status call = TC_INTERRUPTED then
                  attempts \<noteq> []
                  \<and> at_outcome (last attempts) \<in> {None, Some TR_INTERRUPTED}
                  \<and> \<not> (at_outcome (last attempts) = None \<and> at_finished_at (last attempts) \<noteq> None)
                  \<and> \<not> (at_outcome (last attempts) = Some TR_INTERRUPTED \<and> at_finished_at (last attempts) = None)
                else attempts \<noteq> [] \<and> at_outcome (last attempts) = Some normalized_outcome)))"

definition normalized_tool_result_matches_typed_records :: "eval_evidence \<Rightarrow> bool" where
  "normalized_tool_result_matches_typed_records e =
     (let events = ev_trace_events e; normalized = map snd (normalized_events events);
          by_call = normalized_by_call events; calls = ev_tool_calls e; attempts = ev_tool_attempts e
      in list_all (\<lambda>event. te_tool_call_id event \<noteq> None \<and> te_safe_tool_outcome event \<noteq> None) normalized
         \<and> \<not> has_duplicates (map te_tool_call_id normalized)
         \<and> set (map at_tool_call_id attempts) \<subseteq> set (map tc_tool_call_id calls)
         \<and> list_all (\<lambda>call. normalized_call_matches (map_of by_call (tc_tool_call_id call)) call
              (sort_key at_attempt_no (filter (\<lambda>a. at_tool_call_id a = tc_tool_call_id call) attempts))) calls
         \<and> set (map fst by_call) = set (map tc_tool_call_id
              (filter (\<lambda>call. tc_status call \<notin> {TC_CREATED, TC_RUNNING}) calls))
         \<and> length (ev_observations e) = length (filter (\<lambda>call. tc_status call = TC_SUCCEEDED) calls)
         \<and> list_all (\<lambda>(index, event).
              te_event_type event = TOOL_RESULT_NORMALIZED \<or> te_safe_tool_outcome event = None
              \<or> (case te_tool_call_id event of
                   None \<Rightarrow> False
                 | Some call_id \<Rightarrow> (case map_of by_call call_id of
                     None \<Rightarrow> False
                   | Some (position, outcome) \<Rightarrow> position < index \<and> te_safe_tool_outcome event = Some outcome)))
              (enumerate 0 events))"

subsection \<open>Projected fields\<close>

definition gate_projection :: "eval_evidence \<Rightarrow> bool" where
  "gate_projection e \<longleftrightarrow>
     mset (map (\<lambda>event. (te_gate_decision event, te_gate_reason_code event)) (events_of GATE_DECISION_RECORDED e))
     = mset (map (\<lambda>d. (Some (gd_decision d), gd_reason_code d)) (ev_gate_decisions e))"

definition trace_projection_fields_match_typed_records :: "eval_evidence \<Rightarrow> eval_case_expectations \<Rightarrow> bool" where
  "trace_projection_fields_match_typed_records e x =
     (list_all (\<lambda>event.
          \<not> (te_event_type event \<noteq> GATE_DECISION_RECORDED
             \<and> (te_gate_decision event \<noteq> None \<or> te_gate_reason_code event \<noteq> None))
          \<and> \<not> (te_event_type event \<noteq> RUN_STOPPED
             \<and> (te_user_outcome event \<noteq> None \<or> te_stop_reason event \<noteq> None))) (ev_trace_events e)
      \<and> gate_projection e
      \<and> (case (events_of RUN_STOPPED e, ev_run_record e, ev_agent_result e) of
           ([stopped], Some run, Some result) \<Rightarrow>
             te_user_outcome stopped = Some (ev_observed_outcome e)
             \<and> ev_observed_outcome e = res_outcome result
             \<and> res_outcome result = ee_expected_outcome x
             \<and> te_stop_reason stopped = ar_stop_reason run
             \<and> ar_stop_reason run = Some (ee_expected_stop_reason x)
         | _ \<Rightarrow> False))"

subsection \<open>References\<close>

definition event_references_known :: "eval_evidence \<Rightarrow> eval_case_expectations \<Rightarrow> trace_event \<Rightarrow> bool" where
  "event_references_known e x event =
     (let binding_ids = set (map ib_binding_id (ev_input_bindings e))
      in opt_all (\<lambda>r. r \<in> set (map mr_message_id (ev_message_records e))) (te_message_ref event)
         \<and> opt_all (\<lambda>r. r \<in> set (map ad_accepted_delta_id (ev_accepted_task_deltas e))) (te_accepted_delta_ref event)
         \<and> opt_all (\<lambda>r. r \<in> set (map tk_task_id (ev_task_records e))) (te_task_id event)
         \<and> opt_all (\<lambda>r. r \<in> set (map ru_request_unit_id (ev_request_units e))) (te_request_unit_id event)
         \<and> opt_all (\<lambda>r. r \<in> binding_ids) (te_input_binding_ref event)
         \<and> opt_all (\<lambda>r. r \<in> set (map cm_context_manifest_id (ev_context_manifests e))) (te_context_manifest_id event)
         \<and> opt_all (\<lambda>r. r \<in> set (map cm_model_call_id (ev_context_manifests e))) (te_model_call_id event)
         \<and> opt_all (\<lambda>h. h \<in> set (map ta_model_visible_toolset_hash (ev_toolset_artifacts e))
              \<and> h = ee_expected_model_visible_toolset_hash x) (te_model_visible_toolset_hash event)
         \<and> list_all (\<lambda>r. r \<in> binding_ids) (te_argument_binding_refs event)
         \<and> opt_all (\<lambda>r. r \<in> set (map tc_tool_call_id (ev_tool_calls e))) (te_tool_call_id event)
         \<and> opt_all (\<lambda>r. r \<in> set (map oo_observation_id (ev_observations e))) (te_observation_ref event)
         \<and> opt_all (\<lambda>v. v = ee_expected_tool_registry_version x) (te_tool_registry_version event)
         \<and> opt_all (\<lambda>v. Some v = ee_expected_validated_task_state_version x) (te_validated_task_state_version event))"

definition accepted_delta_event_matches :: "eval_evidence \<Rightarrow> trace_event \<Rightarrow> bool" where
  "accepted_delta_event_matches e event =
     (case (Option.bind (te_accepted_delta_ref event) (map_of (dict_by ad_accepted_delta_id (ev_accepted_task_deltas e))),
            Option.bind (te_request_unit_id event) (map_of (dict_by ru_request_unit_id (ev_request_units e)))) of
        (Some accepted_delta, Some request_unit) \<Rightarrow>
          te_message_ref event = Some (ad_message_ref accepted_delta)
          \<and> te_task_id event \<in> Some ` set (map tk_task_id (ev_task_records e))
          \<and> Some (ru_task_id request_unit) = te_task_id event
          \<and> ru_goal_text request_unit = ad_goal_text accepted_delta
          \<and> ru_input_binding_refs request_unit = ad_input_binding_refs accepted_delta
      | _ \<Rightarrow> False)"

definition trace_references_match_typed_records :: "eval_evidence \<Rightarrow> eval_case_expectations \<Rightarrow> bool" where
  "trace_references_match_typed_records e x =
     (let events = ev_trace_events e;
          task_ids = set (map tk_task_id (ev_task_records e));
          request_unit_ids = set (map ru_request_unit_id (ev_request_units e));
          accepted_delta_events = events_of TASK_DELTA_ACCEPTED e;
          context_events = events_of CONTEXT_MANIFEST_RECORDED e;
          purpose_by_manifest_id = dict_of_items (map (\<lambda>event. (te_context_manifest_id event, te_model_call_purpose event)) context_events);
          task_events = events_of TASK_STATE_CHANGED e
      in v2_request_understanding_graph_reason e x = None
         \<and> request_unit_observation_graph_reason e = None
         \<and> observation_persistence_graph_reason e = None
         \<and> tool_attempt_graph_reason e = None
         \<and> list_all (event_references_known e x) events
         \<and> set (map te_input_binding_ref (events_of INPUT_BINDING_RECORDED e)) = Some ` set (map ib_binding_id (ev_input_bindings e))
         \<and> mset (map te_message_ref (events_of MESSAGE_ACCEPTED e)) = mset (map Some (remdups (map mr_message_id (ev_message_records e))))
         \<and> mset (map te_accepted_delta_ref accepted_delta_events)
             = mset (map Some (remdups (map ad_accepted_delta_id (ev_accepted_task_deltas e))))
         \<and> list_all (accepted_delta_event_matches e) accepted_delta_events
         \<and> set (map (\<lambda>event. (te_context_manifest_id event, te_model_call_id event, te_tool_registry_version event,
                te_model_visible_toolset_hash event)) context_events)
             = set (map (\<lambda>m. (Some (cm_context_manifest_id m), Some (cm_model_call_id m), Some (cm_tool_registry_version m),
                Some (cm_model_visible_toolset_hash m))) (ev_context_manifests e))
         \<and> \<not> list_ex (\<lambda>event. te_model_call_purpose event = None) context_events
         \<and> mset (map te_model_call_purpose context_events) = expected_purposes x
         \<and> list_all (\<lambda>gate. map_of purpose_by_manifest_id (Some (gd_context_manifest_id gate))
              = Some (Some REQUEST_UNDERSTANDING_PURPOSE)) (ev_gate_decisions e)
         \<and> tool_lifecycle_references_match events (ev_tool_calls e)
         \<and> normalized_tool_result_matches_typed_records e
         \<and> trace_projection_fields_match_typed_records e x
         \<and> set (map te_observation_ref (events_of OBSERVATION_RECORDED e)) = Some ` set (map oo_observation_id (ev_observations e))
         \<and> (task_events = [] \<or> card task_ids = 1 \<and> card request_unit_ids = 1
              \<and> list_all (\<lambda>event. te_task_id event \<in> Some ` task_ids
                   \<and> te_request_unit_id event \<in> Some ` request_unit_ids) task_events)
         \<and> length (events_of GATE_DECISION_RECORDED e) = length (ev_gate_decisions e)
         \<and> gate_projection e)"

subsection \<open>TraceCompletenessGrader\<close>

definition event_count_reason :: "trace_event list \<Rightarrow> trace_event_count_expectation \<Rightarrow> eval_grader_reason option" where
  "event_count_reason events expectation =
     (let actual = int (event_count events (tce_event_type expectation))
      in if actual \<noteq> tce_count expectation
         then Some (if actual < tce_count expectation then TRACE_EVENT_MISSING else ASSERTION_FAILED) else None)"

definition trace_completeness_reason :: "eval_evidence \<Rightarrow> eval_case_expectations \<Rightarrow> eval_grader_reason option" where
  "trace_completeness_reason e x =
     (let events = ev_trace_events e; event_types = map te_event_type events; stopped = events_of RUN_STOPPED e
      in if events = [] then Some TRACE_EVENT_MISSING
         else case ev_run_record e of
           None \<Rightarrow> Some MISSING_RECORD
         | Some run \<Rightarrow>
           or_else (first_reason
             [(list_ex (\<lambda>required. required \<notin> set event_types) (ee_required_trace_events x), TRACE_EVENT_MISSING),
              (list_ex (\<lambda>forbidden. forbidden \<in> set event_types) (ee_forbidden_trace_events x), ASSERTION_FAILED)])
          (or_else (find_reason (event_count_reason events) (ee_expected_event_counts x))
          (or_else (first_reason
             [(map (instant \<circ> te_occurred_at) events \<noteq> sort (map (instant \<circ> te_occurred_at) events), ASSERTION_FAILED),
              (has_duplicates (map te_trace_event_id events), ASSERTION_FAILED)])
          (or_else (trace_safety_cardinality_reason events (ee_trace_variant x))
          (or_else (trace_precedence_reason events (ee_trace_variant x))
           (first_reason
             [(list_ex (\<lambda>event. te_run_id event \<noteq> ar_run_id run) events, ASSERTION_FAILED),
              (list_ex (\<lambda>event. te_case_id event \<notin> {None, Some (ev_case_id e)}) events, ASSERTION_FAILED),
              (length stopped \<noteq> 1 \<or> te_user_outcome (hd stopped) \<noteq> Some (ee_expected_outcome x)
                 \<or> te_stop_reason (hd stopped) \<noteq> Some (ee_expected_stop_reason x), ASSERTION_FAILED),
              (\<not> trace_references_match_typed_records e x, ASSERTION_FAILED)]))))))"

definition TraceCompletenessGrader :: grade where
  "TraceCompletenessGrader = grade_as ''TraceCompletenessGrader'' trace_completeness_reason"

subsection \<open>PersistenceGrader\<close>

definition persistence_reason :: "eval_evidence \<Rightarrow> eval_case_expectations \<Rightarrow> eval_grader_reason option" where
  "persistence_reason e x =
     (let task = hd (ev_task_records e); unit = hd (ev_request_units e)
      in case ev_run_record e of
        None \<Rightarrow> Some MISSING_RECORD
      | Some run \<Rightarrow>
        or_else (conversation_graph_reason e x)
       (or_else (v2_request_understanding_graph_reason e x)
       (or_else (v2_task_transition_graph_reason e)
       (or_else (first_reason
          [(ee_expected_task_status x \<noteq> None
              \<and> (ev_task_records e = [] \<or> ev_request_units e = [] \<or> ev_input_bindings e = []), MISSING_RECORD),
           (ee_expected_task_status x \<noteq> None
              \<and> (length (ev_task_records e) \<noteq> 1 \<or> length (ev_request_units e) \<noteq> 1 \<or> length (ev_input_bindings e) \<noteq> 1),
            ASSERTION_FAILED)])
       (or_else (closed_record_count_reason (int (length (ev_observations e))) (ee_expected_observations x))
       (or_else (request_unit_observation_graph_reason e)
       (or_else (observation_persistence_graph_reason e)
       (or_else (context_manifest_graph_reason e x)
       (or_else (if ee_expected_gate_decision x \<noteq> None
          then first_reason
            [(ev_gate_decisions e = [], MISSING_RECORD),
             (length (ev_gate_decisions e) \<noteq> 1, ASSERTION_FAILED),
             (\<not> tool_graph_is_closed e x, ASSERTION_FAILED)]
          else fail_if (ev_gate_decisions e \<noteq> [] \<or> ev_tool_calls e \<noteq> []))
       (or_else (tool_attempt_graph_reason e)
        (first_reason
          [(list_ex (\<lambda>call. tc_run_id call \<noteq> ar_run_id run) (ev_tool_calls e)
              \<or> list_ex (\<lambda>m. cm_run_id m \<noteq> ar_run_id run) (ev_context_manifests e), ASSERTION_FAILED),
           (ev_task_records e \<noteq> [] \<and> ev_request_units e \<noteq> []
              \<and> (ru_task_id unit \<noteq> tk_task_id task
                 \<or> set (ru_input_binding_refs unit) \<noteq> set (map ib_binding_id (ev_input_bindings e))
                 \<or> list_ex (\<lambda>call. tc_task_id call \<noteq> tk_task_id task) (ev_tool_calls e)
                 \<or> list_ex (\<lambda>call. tc_request_unit_id call \<noteq> ru_request_unit_id unit) (ev_tool_calls e)),
            ASSERTION_FAILED)])))))))))))"

definition PersistenceGrader :: grade where
  "PersistenceGrader = grade_as ''PersistenceGrader'' persistence_reason"

subsection \<open>ToolsetReplayGrader\<close>

definition toolset_replay_reason :: "eval_evidence \<Rightarrow> eval_case_expectations \<Rightarrow> eval_grader_reason option" where
  "toolset_replay_reason e x =
     (let manifests = ev_context_manifests e; artifacts = ev_toolset_artifacts e; artifact = hd artifacts
      in or_else (closed_record_count_reason (int (length manifests)) (ee_expected_model_calls x))
         (if manifests = [] then fail_if (artifacts \<noteq> [])
          else or_else (first_reason [(artifacts = [], MISSING_RECORD), (length artifacts \<noteq> 1, ASSERTION_FAILED)])
           (case compute_model_visible_toolset_hash (ta_provider_visible_tool_specs artifact) of
              Inl _ \<Rightarrow> Some ASSERTION_FAILED
            | Inr recomputed_hash \<Rightarrow> first_reason
               [(ta_model_visible_toolset_hash artifact \<noteq> recomputed_hash
                   \<or> recomputed_hash \<noteq> ee_expected_model_visible_toolset_hash x
                   \<or> list_ex (\<lambda>m. cm_model_visible_toolset_hash m \<noteq> recomputed_hash) manifests
                   \<or> list_ex (\<lambda>m. cm_tool_registry_version m \<noteq> ee_expected_tool_registry_version x) manifests,
                 ASSERTION_FAILED),
                (set (map (\<lambda>event. (te_context_manifest_id event, te_model_visible_toolset_hash event,
                     te_tool_registry_version event)) (events_of CONTEXT_MANIFEST_RECORDED e))
                   \<noteq> set (map (\<lambda>m. (Some (cm_context_manifest_id m), Some (cm_model_visible_toolset_hash m),
                     Some (cm_tool_registry_version m))) manifests), ASSERTION_FAILED)])))"

definition ToolsetReplayGrader :: grade where
  "ToolsetReplayGrader = grade_as ''ToolsetReplayGrader'' toolset_replay_reason"

end
