(* ===== verification/Grader_Messages.thy ===== *)
theory Grader_Messages
  imports Grader_Records "HOL-Library.Multiset"
begin

section \<open>Graders of the reply (evaluation/graders.py, lines 1590--1732 and 2249--2263)\<close>

text \<open>
  What the user may be told: the fixed message of a response policy, or one of the messages the
  grader approves for an observation. The grader writes its own copy of every Chinese literal; that
  they are the renderer's is proved below, not assumed.
\<close>

subsection \<open>Fixed messages\<close>

definition FIXED_MESSAGES :: "(pystr \<times> pystr) list" where
  "FIXED_MESSAGES =
     [(str ''FIXED_NOT_FOUND_OR_NOT_ACCESSIBLE'', [26410, 25214, 21040, 21487, 35775, 38382, 30340, 35746, 21333,
        65292, 35831, 26680, 23545, 35746, 21333, 21495, 21518, 37325, 35797, 12290]),
      (str ''FIXED_ORDER_SERVICE_UNAVAILABLE'', [35746, 21333, 26381, 21153, 26242, 26102, 19981, 21487, 29992, 65292,
        35831, 31245, 21518, 37325, 35797, 12290]),
      (str ''FIXED_SAFE_PROCESSING_ERROR'', [24403, 21069, 26080, 27861, 23433, 20840, 22788, 29702, 35813, 35831,
        27714, 65292, 35831, 31245, 21518, 37325, 35797, 12290])]"

definition fixed_message :: "pystr \<Rightarrow> pystr option" where
  "fixed_message response_policy = map_of FIXED_MESSAGES response_policy"

subsection \<open>DisclosureGrader\<close>

definition forbidden_fragments :: "eval_case_expectations \<Rightarrow> pystr list" where
  "forbidden_fragments x = [ee_trusted_customer_id x, str ''customer_id'', str ''raw_payload'', str ''raw_result'']"

definition disclosure_reason :: "eval_evidence \<Rightarrow> eval_case_expectations \<Rightarrow> eval_grader_reason option" where
  "disclosure_reason e x =
     (case (ev_safe_observable e, ev_agent_result e) of
        (Some observable, Some result) \<Rightarrow> first_reason
          [(so_http_status observable \<noteq> ee_expected_http_status x
              \<or> so_user_outcome observable \<noteq> ee_expected_outcome x
              \<or> so_response_policy observable \<noteq> ee_expected_response_policy x
              \<or> so_model_calls observable \<noteq> ee_expected_model_calls x, ASSERTION_FAILED),
           (fixed_message (ee_expected_response_policy x) \<notin> {None, Some (res_message result)}, ASSERTION_FAILED),
           (list_ex (\<lambda>fragment. py_in fragment (res_message result)) (forbidden_fragments x), ASSERTION_FAILED),
           (ee_expected_response_policy x = str ''FIXED_NOT_FOUND_OR_NOT_ACCESSIBLE''
              \<and> \<not> opt_all (\<lambda>order_id. \<not> py_in order_id (res_message result)) (ee_expected_binding_order_id x),
            ASSERTION_FAILED)]
      | _ \<Rightarrow> Some MISSING_RECORD)"

definition DisclosureGrader :: grade where
  "DisclosureGrader = grade_as ''DisclosureGrader'' disclosure_reason"

subsection \<open>RendererFactGrader\<close>

fun insertions :: "'a \<Rightarrow> 'a list \<Rightarrow> 'a list list" where
  "insertions x [] = [[x]]"
| "insertions x (y # ys) = (x # y # ys) # map ((#) y) (insertions x ys)"

text \<open>\<open>itertools.permutations\<close>; only the set of its results is used.\<close>

fun permutations :: "'a list \<Rightarrow> 'a list list" where
  "permutations [] = [[]]"
| "permutations (x # xs) = concat (map (insertions x) (permutations xs))"

definition RENDERER_STATUS_LABELS :: "order_status \<Rightarrow> pystr option" where
  "RENDERER_STATUS_LABELS s = map_of
     [(CREATED, [24050, 21019, 24314]), (PAID, [24050, 25903, 20184]), (FULFILLING, [23653, 32422, 20013]),
      (SHIPPED, [24050, 21457, 36135]), (DELIVERED, [24050, 36865, 36798]), (CANCELLED, [24050, 21462, 28040])] s"

definition approved_fields :: "order_summary_projection \<Rightarrow> pystr \<Rightarrow> pystr list" where
  "approved_fields summary status_label =
     [[35746, 21333, 21495, 65306] @ os_order_number summary,
      [29366, 24577, 65306] @ status_label,
      [21830, 21697, 65306] @ intersperse_concat [12289]
        (map (\<lambda>item. ol_product_name (fields_of item) @ [32, 215, 32] @ int_repr (ol_quantity (fields_of item)))
           (os_line_items summary)),
      [19979, 21333, 26102, 38388, 65306] @ strftime_minutes (os_ordered_at summary),
      [29366, 24577, 26356, 26032, 26102, 38388, 65306] @ strftime_minutes (os_status_updated_at summary)]"

definition approved_openings :: "pystr list" where
  "approved_openings = [[24050, 20026, 20320, 26597, 21040, 35746, 21333, 20449, 24687, 65306],
     [35746, 21333, 20449, 24687, 22914, 19979, 65306]]"

definition approved_closing :: pystr where
  "approved_closing = [22914, 38656, 32487, 32493, 26597, 35810, 37197, 36865, 20449, 24687, 65292,
     35831, 21578, 35785, 25105, 12290]"

definition approved_renderer_messages :: "order_observation \<Rightarrow> pystr list" where
  "approved_renderer_messages observation =
     (let summary = fields_of (oo_normalized_value observation)
      in case RENDERER_STATUS_LABELS (os_status summary) of
           None \<Rightarrow> []
         | Some status_label \<Rightarrow>
             concat (map (\<lambda>opening. concat (map (\<lambda>ordered_fields.
                 [intersperse_concat [10] (opening # ordered_fields),
                  intersperse_concat [10] ((opening # ordered_fields) @ [approved_closing])])
               (permutations (approved_fields summary status_label)))) approved_openings))"

definition renderer_fact_reason :: "eval_evidence \<Rightarrow> eval_case_expectations \<Rightarrow> eval_grader_reason option" where
  "renderer_fact_reason e x =
     (case ev_agent_result e of
        None \<Rightarrow> Some MISSING_RECORD
      | Some result \<Rightarrow>
        if ee_expected_response_policy x \<noteq> str ''DETERMINISTIC_ORDER_SUMMARY_V1''
        then fail_if (fixed_message (ee_expected_response_policy x) \<noteq> Some (res_message result))
        else first_reason
          [(ev_observations e = [], MISSING_RECORD),
           (length (ev_observations e) \<noteq> 1, ASSERTION_FAILED),
           (oo_visibility (hd (ev_observations e)) = VIS_AUDIT_ONLY
              \<or> res_message result \<notin> set (approved_renderer_messages (hd (ev_observations e))), ASSERTION_FAILED)])"

definition RendererFactGrader :: grade where
  "RendererFactGrader = grade_as ''RendererFactGrader'' renderer_fact_reason"

subsection \<open>ErrorMappingGrader\<close>

definition error_mapping_reason :: "eval_evidence \<Rightarrow> eval_case_expectations \<Rightarrow> eval_grader_reason option" where
  "error_mapping_reason e x =
     (case (ev_run_record e, ev_agent_result e, ev_safe_observable e) of
        (Some run, Some result, Some observable) \<Rightarrow> first_reason
          [(ar_stop_reason run \<noteq> Some (ee_expected_stop_reason x)
              \<or> res_outcome result \<noteq> ee_expected_outcome x
              \<or> so_response_policy observable \<noteq> ee_expected_response_policy x, ASSERTION_FAILED),
           (fixed_message (ee_expected_response_policy x) \<notin> {None, Some (res_message result)}, ASSERTION_FAILED)]
      | _ \<Rightarrow> Some MISSING_RECORD)"

definition ErrorMappingGrader :: grade where
  "ErrorMappingGrader = grade_as ''ErrorMappingGrader'' error_mapping_reason"

subsection \<open>The approved messages are the renderer's\<close>

lemma set_insertions: "ys \<in> set (insertions x xs) \<longleftrightarrow> (\<exists>us vs. xs = us @ vs \<and> ys = us @ x # vs)"
proof (induction xs arbitrary: ys)
  case (Cons z zs)
  have "ys \<in> set (insertions x (z # zs)) \<longleftrightarrow>
      ys = x # z # zs \<or> (\<exists>us vs. zs = us @ vs \<and> ys = (z # us) @ x # vs)"
    using Cons.IH by auto
  also have "\<dots> \<longleftrightarrow> (\<exists>us vs. z # zs = us @ vs \<and> ys = us @ x # vs)" (is "?l \<longleftrightarrow> (\<exists>us vs. ?r us vs)")
  proof
    assume ?l
    moreover have "?r [] (z # zs)" if "ys = x # z # zs" using that by simp
    moreover have "?r (z # us) vs" if "zs = us @ vs" "ys = (z # us) @ x # vs" for us vs using that by simp
    ultimately show "\<exists>us vs. ?r us vs" by blast
  next
    assume "\<exists>us vs. ?r us vs"
    then obtain us vs where r: "?r us vs" by blast
    then show ?l by (cases us) auto
  qed
  finally show ?case .
qed auto

lemma set_permutations: "set (permutations xs) = {ys. mset ys = mset xs}"
proof (induction xs)
  case (Cons x xs)
  have "ys \<in> set (permutations (x # xs)) \<longleftrightarrow> mset ys = mset (x # xs)" for ys
  proof
    assume "mset ys = mset (x # xs)"
    moreover from this have "x \<in> set ys" by (metis list.set_intros(1) mset_eq_setD)
    then obtain us vs where "ys = us @ x # vs" by (auto dest: split_list)
    ultimately have "us @ vs \<in> set (permutations xs)" "ys \<in> set (insertions x (us @ vs))"
      using Cons.IH by (auto simp: set_insertions)
    then show "ys \<in> set (permutations (x # xs))" by auto
  next
    assume "ys \<in> set (permutations (x # xs))"
    then obtain us vs where "us @ vs \<in> set (permutations xs)" "ys = us @ x # vs"
      by (auto simp: set_insertions)
    then have "mset (us @ vs) = mset xs" "ys = us @ x # vs" using Cons.IH by auto
    then show "mset ys = mset (x # xs)" by simp
  qed
  then show ?case by blast
qed simp

lemma insertions_map: "insertions (f x) (map f xs) = map (map f) (insertions x xs)"
  by (induction xs) auto

lemma permutations_map: "permutations (map f xs) = map (map f) (permutations xs)"
  by (induction xs) (simp_all add: insertions_map map_concat comp_def)

lemma approved_openings_are_rendered: "set approved_openings = range opening_text"
proof -
  have u: "(UNIV :: opening_variant set) = {ACKNOWLEDGE, DIRECT}" using opening_variant.exhaust by blast
  have a: "approved_openings = [opening_text ACKNOWLEDGE, opening_text DIRECT]"
    by (simp add: approved_openings_def opening_text_def)
  show ?thesis unfolding a u by simp
qed

lemma approved_closing_is_rendered: "approved_closing = follow_up_text"
  by (simp add: approved_closing_def follow_up_text_def)

lemma approved_fields_are_rendered:
  "approved_fields summary status_label = map (field_values summary status_label) presentation_fields"
  by (simp add: approved_fields_def presentation_fields_def field_values_def line_item_text_def comp_def)

lemma RENDERER_STATUS_LABELS_eq: "RENDERER_STATUS_LABELS s = STATUS_LABELS s"
  by (cases s) (simp_all add: RENDERER_STATUS_LABELS_def STATUS_LABELS_def)

lemma fixed_message_cases:
  "fixed_message policy = Some m \<Longrightarrow> m \<in> {SAFE_NOT_FOUND_MESSAGE, SAFE_ORDER_UNAVAILABLE_MESSAGE, SAFE_GENERIC_MESSAGE}"
  by (auto simp: fixed_message_def FIXED_MESSAGES_def SAFE_NOT_FOUND_MESSAGE_def SAFE_ORDER_UNAVAILABLE_MESSAGE_def
      SAFE_GENERIC_MESSAGE_def split: if_splits)

text \<open>A field order of a plan is a permutation of the presentation fields.\<close>

lemma field_order_iff: "mset order = mset presentation_fields \<longleftrightarrow> length order = 5 \<and> set order = set presentation_fields"
proof
  assume "mset order = mset presentation_fields"
  moreover have "length presentation_fields = 5" by (simp add: presentation_fields_def)
  ultimately show "length order = 5 \<and> set order = set presentation_fields"
    using mset_eq_setD[of order presentation_fields] mset_eq_length[of order presentation_fields] by simp
next
  assume o: "length order = 5 \<and> set order = set presentation_fields"
  then have "distinct order" by (auto intro: card_distinct simp: card_presentation_field)
  then show "mset order = mset presentation_fields"
    using o distinct_presentation_fields set_eq_iff_mset_eq_distinct by blast
qed

lemma approved_iff:
  "message \<in> set (approved_renderer_messages ob) \<longleftrightarrow>
     (\<exists>label p. STATUS_LABELS (os_status (fields_of (oo_normalized_value ob))) = Some label
        \<and> new_presentation_plan p = Inr p
        \<and> message = intersperse_concat [10] (message_parts (fields_of (oo_normalized_value ob)) label p))"
proof -
  let ?s = "fields_of (oo_normalized_value ob)"
  obtain label where l: "STATUS_LABELS (os_status ?s) = Some label" using STATUS_LABELS_total[of "os_status ?s"] by auto
  let ?parts = "\<lambda>opening order closing. opening_text opening # map (field_values ?s label) order
    @ (if closing = OFFER_FOLLOW_UP then [follow_up_text] else [])"
  have closings: "(\<exists>closing. Q closing) \<longleftrightarrow> Q CLOSING_NONE \<or> Q OFFER_FOLLOW_UP" for Q
    by (metis closing_variant.exhaust)
  have orders: "set (permutations presentation_fields) = {order. length order = 5 \<and> set order = set presentation_fields}"
    unfolding set_permutations by (simp only: field_order_iff)
  have "message \<in> set (approved_renderer_messages ob) \<longleftrightarrow> (\<exists>opening. \<exists>order\<in>set (permutations presentation_fields).
      message = intersperse_concat [10] (?parts opening order CLOSING_NONE) \<or> message = intersperse_concat [10] (?parts opening order OFFER_FOLLOW_UP))"
    by (simp add: approved_renderer_messages_def RENDERER_STATUS_LABELS_eq l approved_openings_are_rendered
        approved_fields_are_rendered permutations_map approved_closing_is_rendered)
  also have "\<dots> \<longleftrightarrow> (\<exists>opening order closing. (length order = 5 \<and> set order = set presentation_fields)
      \<and> message = intersperse_concat [10] (?parts opening order closing))"
    unfolding orders closings by blast
  also have "\<dots> \<longleftrightarrow> (\<exists>p. new_presentation_plan p = Inr p \<and> message = intersperse_concat [10] (message_parts ?s label p))"
  proof
    assume "\<exists>opening order closing. (length order = 5 \<and> set order = set presentation_fields)
      \<and> message = intersperse_concat [10] (?parts opening order closing)"
    then obtain lead order closing where o: "length order = 5" "set order = set presentation_fields"
      "message = intersperse_concat [10] (?parts lead order closing)" by blast
    let ?p = "\<lparr>pp_schema_version = str ''presentation-plan-v1'', pp_template_id = str ''ORDER_STATUS_SUMMARY_V1'',
      pp_tone = NEUTRAL, pp_opening_variant = lead, pp_field_order = order, pp_closing_variant = closing\<rparr>"
    have "new_presentation_plan ?p = Inr ?p" "message_parts ?s label ?p = ?parts lead order closing"
      using o by (simp_all add: new_presentation_plan_def construct_Inr_iff message_parts_def)
    with o(3) show "\<exists>p. new_presentation_plan p = Inr p \<and> message = intersperse_concat [10] (message_parts ?s label p)"
      by metis
  next
    assume "\<exists>p. new_presentation_plan p = Inr p \<and> message = intersperse_concat [10] (message_parts ?s label p)"
    then obtain p where "new_presentation_plan p = Inr p" "message = intersperse_concat [10] (message_parts ?s label p)"
      by blast
    then show "\<exists>opening order closing. (length order = 5 \<and> set order = set presentation_fields)
      \<and> message = intersperse_concat [10] (?parts opening order closing)"
      by (intro exI[of _ "pp_opening_variant p"] exI[of _ "pp_field_order p"] exI[of _ "pp_closing_variant p"])
         (simp add: new_presentation_plan_def construct_Inr_iff message_parts_def)
  qed
  finally show ?thesis using l by auto
qed

end
