(* ===== verification/Record_Json.thy ===== *)
theory Record_Json
  imports Run_Records Eval_Records Json_Store
begin

section \<open>The JSON form of the stored records\<close>

text \<open>
  \<open>model_dump(mode="json")\<close> of every class that the persistence codec stores: a JSON object of the
  declared fields in order, an enumeration as its text, a \<open>UUID\<close> as \<open>str(uuid)\<close>, a tuple as an
  array. The text of a timestamp and of an object that is not of the declared class is written by
  pydantic: they are parameters, together with the validation of JSON against a class.
\<close>

subsection \<open>The text of the enumerations\<close>

fun message_direction_text :: "message_direction \<Rightarrow> pystr" where
  "message_direction_text DIRECTION_USER = str ''USER''"
| "message_direction_text DIRECTION_ASSISTANT = str ''ASSISTANT''"

fun task_status_text :: "task_status \<Rightarrow> pystr" where
  "task_status_text ACTIVE = str ''ACTIVE''"
| "task_status_text WAITING_USER = str ''WAITING_USER''"
| "task_status_text PENDING_ACTION = str ''PENDING_ACTION''"
| "task_status_text ACTION_IN_PROGRESS = str ''ACTION_IN_PROGRESS''"
| "task_status_text RECOVERING = str ''RECOVERING''"
| "task_status_text COMPLETED = str ''COMPLETED''"
| "task_status_text BLOCKED = str ''BLOCKED''"
| "task_status_text TASK_CANCELLED = str ''CANCELLED''"

fun input_authority_text :: "input_authority \<Rightarrow> pystr" where
  "input_authority_text USER_CLAIM = str ''USER_CLAIM''"
| "input_authority_text MODEL_INFERENCE = str ''MODEL_INFERENCE''"

fun input_source_kind_text :: "input_source_kind \<Rightarrow> pystr" where
  "input_source_kind_text SRC_CURRENT_MESSAGE = str ''CURRENT_MESSAGE''"

fun reference_source_kind_text :: "reference_source_kind \<Rightarrow> pystr" where
  "reference_source_kind_text REF_CURRENT_MESSAGE = str ''CURRENT_MESSAGE''"
| "reference_source_kind_text REF_RECENT_MESSAGE = str ''RECENT_MESSAGE''"

fun uncertainty_reason_code_text :: "uncertainty_reason_code \<Rightarrow> pystr" where
  "uncertainty_reason_code_text MISSING_REFERENCE = str ''MISSING_REFERENCE''"
| "uncertainty_reason_code_text MULTIPLE_PLAUSIBLE_REFERENCES = str ''MULTIPLE_PLAUSIBLE_REFERENCES''"

fun task_delta_operation_text :: "task_delta_operation \<Rightarrow> pystr" where
  "task_delta_operation_text ADD_GOAL = str ''ADD_GOAL''"

fun candidate_validation_decision_text :: "candidate_validation_decision \<Rightarrow> pystr" where
  "candidate_validation_decision_text DECISION_ACCEPT = str ''ACCEPT''"
| "candidate_validation_decision_text DECISION_REJECT = str ''REJECT''"

fun candidate_rejection_reason_text :: "candidate_rejection_reason \<Rightarrow> pystr" where
  "candidate_rejection_reason_text OPERATION_NOT_SUPPORTED = str ''OPERATION_NOT_SUPPORTED''"
| "candidate_rejection_reason_text GOAL_PATCH_NOT_ACTIONABLE = str ''GOAL_PATCH_NOT_ACTIONABLE''"
| "candidate_rejection_reason_text REQUIRED_INPUT_MISSING = str ''REQUIRED_INPUT_MISSING''"
| "candidate_rejection_reason_text INPUT_VALUE_INVALID = str ''INPUT_VALUE_INVALID''"
| "candidate_rejection_reason_text REFERENCE_UNRESOLVED = str ''REFERENCE_UNRESOLVED''"
| "candidate_rejection_reason_text REFERENCE_AMBIGUOUS = str ''REFERENCE_AMBIGUOUS''"
| "candidate_rejection_reason_text NEXT_MOVE_INCONSISTENT = str ''NEXT_MOVE_INCONSISTENT''"

fun input_validation_status_text :: "input_validation_status \<Rightarrow> pystr" where
  "input_validation_status_text ACCEPTED = str ''ACCEPTED''"

fun agent_run_status_text :: "agent_run_status \<Rightarrow> pystr" where
  "agent_run_status_text RUN_CREATED = str ''CREATED''"
| "agent_run_status_text RUN_RUNNING = str ''RUNNING''"
| "agent_run_status_text RUN_COMPLETED = str ''COMPLETED''"
| "agent_run_status_text RUN_FAILED = str ''FAILED''"
| "agent_run_status_text RUN_INCOMPLETE = str ''INCOMPLETE''"

fun stop_reason_text :: "stop_reason \<Rightarrow> pystr" where
  "stop_reason_text STOP_GOAL_COMPLETED = str ''GOAL_COMPLETED''"
| "stop_reason_text STOP_NOT_FOUND_OR_NOT_ACCESSIBLE = str ''NOT_FOUND_OR_NOT_ACCESSIBLE''"
| "stop_reason_text STOP_INPUT_INVALID = str ''INPUT_INVALID''"
| "stop_reason_text STOP_GATE_REJECTED = str ''GATE_REJECTED''"
| "stop_reason_text STOP_PROVIDER_PROTOCOL_ERROR = str ''PROVIDER_PROTOCOL_ERROR''"
| "stop_reason_text STOP_ORDER_SERVICE_UNAVAILABLE = str ''ORDER_SERVICE_UNAVAILABLE''"
| "stop_reason_text STOP_PRESENTATION_PLAN_REJECTED = str ''PRESENTATION_PLAN_REJECTED''"
| "stop_reason_text STOP_RENDERER_INVARIANT_FAILED = str ''RENDERER_INVARIANT_FAILED''"
| "stop_reason_text STOP_PROCESS_RESTART_DETECTED = str ''PROCESS_RESTART_DETECTED''"

fun agent_outcome_text :: "agent_outcome \<Rightarrow> pystr" where
  "agent_outcome_text OUTCOME_COMPLETED = str ''COMPLETED''"
| "agent_outcome_text OUTCOME_ASK_USER = str ''ASK_USER''"
| "agent_outcome_text OUTCOME_BLOCKED = str ''BLOCKED''"
| "agent_outcome_text OUTCOME_NEED_HUMAN = str ''NEED_HUMAN''"
| "agent_outcome_text OUTCOME_NOT_FOUND_OR_NOT_ACCESSIBLE = str ''NOT_FOUND_OR_NOT_ACCESSIBLE''"

fun trace_event_type_text :: "trace_event_type \<Rightarrow> pystr" where
  "trace_event_type_text MESSAGE_ACCEPTED = str ''MessageAccepted''"
| "trace_event_type_text RUN_STARTED = str ''RunStarted''"
| "trace_event_type_text REQUEST_UNDERSTANDING_STARTED = str ''RequestUnderstandingStarted''"
| "trace_event_type_text CONTEXT_MANIFEST_RECORDED = str ''ContextManifestRecorded''"
| "trace_event_type_text NEXT_MOVE_PROPOSED = str ''NextMoveProposed''"
| "trace_event_type_text TASK_DELTA_VALIDATED = str ''TaskDeltaValidated''"
| "trace_event_type_text TASK_DELTA_ACCEPTED = str ''TaskDeltaAccepted''"
| "trace_event_type_text INPUT_BINDING_RECORDED = str ''InputBindingRecorded''"
| "trace_event_type_text TASK_STATE_CHANGED = str ''TaskStateChanged''"
| "trace_event_type_text NEXT_MOVE_REVALIDATED = str ''NextMoveRevalidated''"
| "trace_event_type_text GATE_DECISION_RECORDED = str ''GateDecisionRecorded''"
| "trace_event_type_text TOOL_CALL_CREATED = str ''ToolCallCreated''"
| "trace_event_type_text TOOL_CALL_STARTED = str ''ToolCallStarted''"
| "trace_event_type_text TOOL_CALL_SUCCEEDED = str ''ToolCallSucceeded''"
| "trace_event_type_text TOOL_CALL_FAILED = str ''ToolCallFailed''"
| "trace_event_type_text TOOL_CALL_TIMED_OUT = str ''ToolCallTimedOut''"
| "trace_event_type_text TOOL_CALL_INTERRUPTED = str ''ToolCallInterrupted''"
| "trace_event_type_text TOOL_RESULT_NORMALIZED = str ''ToolResultNormalized''"
| "trace_event_type_text OBSERVATION_RECORDED = str ''ObservationRecorded''"
| "trace_event_type_text PRESENTATION_PLAN_PROPOSED = str ''PresentationPlanProposed''"
| "trace_event_type_text RESPONSE_RENDERED = str ''ResponseRendered''"
| "trace_event_type_text RUN_STOPPED = str ''RunStopped''"
| "trace_event_type_text EVAL_CASE_GRADED = str ''EvalCaseGraded''"

fun gate_decision_value_text :: "gate_decision_value \<Rightarrow> pystr" where
  "gate_decision_value_text GateAccept = str ''ACCEPT''"
| "gate_decision_value_text GateReject = str ''REJECT''"

fun gate_reason_code_text :: "gate_reason_code \<Rightarrow> pystr" where
  "gate_reason_code_text ACTION_REQUIRES_PROPOSAL = str ''ACTION_REQUIRES_PROPOSAL''"
| "gate_reason_code_text ARGUMENT_BINDING_MISMATCH = str ''ARGUMENT_BINDING_MISMATCH''"
| "gate_reason_code_text BUDGET_EXCEEDED = str ''BUDGET_EXCEEDED''"
| "gate_reason_code_text NO_PROGRESS = str ''NO_PROGRESS''"
| "gate_reason_code_text SCHEMA_INVALID = str ''SCHEMA_INVALID''"
| "gate_reason_code_text SNAPSHOT_MISMATCH = str ''SNAPSHOT_MISMATCH''"
| "gate_reason_code_text STATE_VERSION_MISMATCH = str ''STATE_VERSION_MISMATCH''"
| "gate_reason_code_text TOOL_NOT_REGISTERED = str ''TOOL_NOT_REGISTERED''"
| "gate_reason_code_text TRUSTED_FIELD_INJECTION = str ''TRUSTED_FIELD_INJECTION''"

fun tool_effect_text :: "tool_effect \<Rightarrow> pystr" where
  "tool_effect_text READ = str ''READ''"
| "tool_effect_text RETRIEVAL = str ''RETRIEVAL''"
| "tool_effect_text ACTION = str ''ACTION''"

fun tool_call_status_text :: "tool_call_status \<Rightarrow> pystr" where
  "tool_call_status_text TC_CREATED = str ''CREATED''"
| "tool_call_status_text TC_RUNNING = str ''RUNNING''"
| "tool_call_status_text TC_SUCCEEDED = str ''SUCCEEDED''"
| "tool_call_status_text TC_FAILED = str ''FAILED''"
| "tool_call_status_text TC_TIMED_OUT = str ''TIMED_OUT''"
| "tool_call_status_text TC_INTERRUPTED = str ''INTERRUPTED''"

fun tool_timeout_phase_text :: "tool_timeout_phase \<Rightarrow> pystr" where
  "tool_timeout_phase_text BEFORE_DISPATCH = str ''BEFORE_DISPATCH''"
| "tool_timeout_phase_text AFTER_DISPATCH = str ''AFTER_DISPATCH''"
| "tool_timeout_phase_text PHASE_UNKNOWN = str ''UNKNOWN''"

fun tool_result_outcome_text :: "tool_result_outcome \<Rightarrow> pystr" where
  "tool_result_outcome_text TR_SUCCESS = str ''SUCCESS''"
| "tool_result_outcome_text TR_BUSINESS_FAILURE = str ''BUSINESS_FAILURE''"
| "tool_result_outcome_text TR_SYSTEM_FAILURE = str ''SYSTEM_FAILURE''"
| "tool_result_outcome_text TR_TIMEOUT = str ''TIMEOUT''"
| "tool_result_outcome_text TR_INTERRUPTED = str ''INTERRUPTED''"
| "tool_result_outcome_text TR_RESULT_UNKNOWN = str ''RESULT_UNKNOWN''"

fun observation_visibility_text :: "observation_visibility \<Rightarrow> pystr" where
  "observation_visibility_text VIS_MODEL_VISIBLE = str ''MODEL_VISIBLE''"
| "observation_visibility_text VIS_AUDIT_ONLY = str ''AUDIT_ONLY''"
| "observation_visibility_text VIS_USER_VISIBLE = str ''USER_VISIBLE''"

fun order_status_text :: "order_status \<Rightarrow> pystr" where
  "order_status_text CREATED = str ''CREATED''"
| "order_status_text PAID = str ''PAID''"
| "order_status_text FULFILLING = str ''FULFILLING''"
| "order_status_text SHIPPED = str ''SHIPPED''"
| "order_status_text DELIVERED = str ''DELIVERED''"
| "order_status_text CANCELLED = str ''CANCELLED''"

fun eval_result_status_text :: "eval_result_status \<Rightarrow> pystr" where
  "eval_result_status_text RESULT_PASS = str ''PASS''"
| "eval_result_status_text RESULT_FAIL = str ''FAIL''"
| "eval_result_status_text RESULT_SKIPPED = str ''SKIPPED''"
| "eval_result_status_text RESULT_NOT_RUN = str ''NOT_RUN''"

fun eval_grader_status_text :: "eval_grader_status \<Rightarrow> pystr" where
  "eval_grader_status_text GRADER_PASS = str ''PASS''"
| "eval_grader_status_text GRADER_FAIL = str ''FAIL''"

fun eval_safe_error_code_text :: "eval_safe_error_code \<Rightarrow> pystr" where
  "eval_safe_error_code_text HARNESS_SETUP_FAILED = str ''HARNESS_SETUP_FAILED''"
| "eval_safe_error_code_text CASE_SETUP_FAILED = str ''CASE_SETUP_FAILED''"
| "eval_safe_error_code_text TRACE_PERSISTENCE_FAILED = str ''TRACE_PERSISTENCE_FAILED''"
| "eval_safe_error_code_text TRACE_STORE_UNAVAILABLE = str ''TRACE_STORE_UNAVAILABLE''"
| "eval_safe_error_code_text SYSTEM_UNDER_TEST_FAILED = str ''SYSTEM_UNDER_TEST_FAILED''"
| "eval_safe_error_code_text GRADING_FAILED = str ''GRADING_FAILED''"
| "eval_safe_error_code_text RESULT_PERSISTENCE_FAILED = str ''RESULT_PERSISTENCE_FAILED''"
| "eval_safe_error_code_text RESULT_COMPLETENESS_FAILED = str ''RESULT_COMPLETENESS_FAILED''"

fun eval_grader_reason_text :: "eval_grader_reason \<Rightarrow> pystr" where
  "eval_grader_reason_text TRACE_EVENT_MISSING = str ''TRACE_EVENT_MISSING''"
| "eval_grader_reason_text MISSING_RECORD = str ''MISSING_RECORD''"
| "eval_grader_reason_text ASSERTION_FAILED = str ''ASSERTION_FAILED''"

fun critical_failure_code_text :: "critical_failure_code \<Rightarrow> pystr" where
  "critical_failure_code_text CF_01 = str ''CF-01''"
| "critical_failure_code_text CF_02 = str ''CF-02''"
| "critical_failure_code_text CF_03 = str ''CF-03''"
| "critical_failure_code_text CF_04 = str ''CF-04''"
| "critical_failure_code_text CF_05 = str ''CF-05''"
| "critical_failure_code_text CF_06 = str ''CF-06''"
| "critical_failure_code_text CF_07 = str ''CF-07''"
| "critical_failure_code_text CF_08 = str ''CF-08''"
| "critical_failure_code_text CF_09 = str ''CF-09''"
| "critical_failure_code_text CF_10 = str ''CF-10''"
| "critical_failure_code_text CF_11 = str ''CF-11''"
| "critical_failure_code_text CF_12 = str ''CF-12''"
| "critical_failure_code_text CF_13 = str ''CF-13''"
| "critical_failure_code_text CF_14 = str ''CF-14''"

fun eval_failure_phase_text :: "eval_failure_phase \<Rightarrow> pystr" where
  "eval_failure_phase_text PHASE_HARNESS_SETUP = str ''HARNESS_SETUP''"
| "eval_failure_phase_text PHASE_CASE_SETUP = str ''CASE_SETUP''"
| "eval_failure_phase_text PHASE_TRACE_PERSISTENCE = str ''TRACE_PERSISTENCE''"
| "eval_failure_phase_text PHASE_SYSTEM_UNDER_TEST = str ''SYSTEM_UNDER_TEST''"
| "eval_failure_phase_text PHASE_GRADING = str ''GRADING''"
| "eval_failure_phase_text PHASE_RESULT_PERSISTENCE = str ''RESULT_PERSISTENCE''"
| "eval_failure_phase_text PHASE_RESULT_COMPLETENESS = str ''RESULT_COMPLETENESS''"

subsection \<open>Scalars\<close>

text \<open>\<open>UUID.__str__\<close>: \<open>'%032x' % self.int\<close>, cut at 8, 12, 16 and 20.\<close>

fun hex_digits :: "nat \<Rightarrow> pystr" where
  "hex_digits n = (if n < 16 then [hex_digit n] else hex_digits (n div 16) @ [hex_digit (n mod 16)])"

declare hex_digits.simps [simp del]

definition uuid_text :: "uuid \<Rightarrow> pystr" where
  "uuid_text u =
     (let digits = hex_digits u; h = replicate (32 - length digits) 48 @ digits
      in take 8 h @ [45] @ take 4 (drop 8 h) @ [45] @ take 4 (drop 12 h) @ [45] @ take 4 (drop 16 h) @ [45] @ drop 20 h)"

definition uuid_json :: "uuid \<Rightarrow> json" where
  "uuid_json u = JStr (uuid_text u)"

definition opt_json :: "('a \<Rightarrow> json) \<Rightarrow> 'a option \<Rightarrow> json" where
  "opt_json f x = (case x of None \<Rightarrow> JNull | Some y \<Rightarrow> f y)"

subsection \<open>What pydantic contributes\<close>

text \<open>
  The text of a timestamp, and what is written for a nested object that is not of the declared
  class.
\<close>

record json_writer =
  jw_time :: "datetime \<Rightarrow> pystr"
  jw_foreign :: json

definition time_json :: "json_writer \<Rightarrow> datetime \<Rightarrow> json" where
  "time_json pyd d = JStr (jw_time pyd d)"

definition object_json :: "json_writer \<Rightarrow> ('a \<Rightarrow> json_object) \<Rightarrow> 'a pyobj \<Rightarrow> json" where
  "object_json pyd data v = (case v of Foreign \<Rightarrow> jw_foreign pyd | Obj x _ \<Rightarrow> JDict (data x))"

subsection \<open>The records\<close>

definition conversation_record_data :: "json_writer \<Rightarrow> conversation_record \<Rightarrow> json_object" where
  "conversation_record_data pyd r =
     [(str ''schema_version'', JStr (cr_schema_version r)),
      (str ''conversation_id'', uuid_json (cr_conversation_id r)),
      (str ''owner_customer_id'', JStr (cr_owner_customer_id r)),
      (str ''created_at'', time_json pyd (cr_created_at r))]"

definition message_record_data :: "json_writer \<Rightarrow> message_record \<Rightarrow> json_object" where
  "message_record_data pyd r =
     [(str ''schema_version'', JStr (mr_schema_version r)),
      (str ''message_id'', uuid_json (mr_message_id r)),
      (str ''conversation_id'', uuid_json (mr_conversation_id r)),
      (str ''direction'', JStr (message_direction_text (mr_direction r))),
      (str ''content'', JStr (mr_content r)),
      (str ''received_at'', time_json pyd (mr_received_at r))]"

definition task_record_data :: "json_writer \<Rightarrow> task_record \<Rightarrow> json_object" where
  "task_record_data pyd r =
     [(str ''task_id'', uuid_json (tk_task_id r)),
      (str ''owner_customer_id'', JStr (tk_owner_customer_id r)),
      (str ''status'', JStr (task_status_text (tk_status r))),
      (str ''state_version'', JInt (tk_state_version r)),
      (str ''created_at'', time_json pyd (tk_created_at r)),
      (str ''updated_at'', time_json pyd (tk_updated_at r)),
      (str ''last_outcome_ref'', opt_json uuid_json (tk_last_outcome_ref r))]"

definition request_unit_record_data :: "json_writer \<Rightarrow> request_unit_record \<Rightarrow> json_object" where
  "request_unit_record_data pyd r =
     [(str ''request_unit_id'', uuid_json (ru_request_unit_id r)),
      (str ''task_id'', uuid_json (ru_task_id r)),
      (str ''goal_text'', JStr (ru_goal_text r)),
      (str ''goal_source_refs'', JList (map uuid_json (ru_goal_source_refs r))),
      (str ''contextualization_ref'', opt_json uuid_json (ru_contextualization_ref r)),
      (str ''constraint_refs'', JList (map uuid_json (ru_constraint_refs r))),
      (str ''dependency_refs'', JList (map uuid_json (ru_dependency_refs r))),
      (str ''input_binding_refs'', JList (map uuid_json (ru_input_binding_refs r))),
      (str ''open_questions'', JList (map JStr (ru_open_questions r))),
      (str ''observation_refs'', JList (map uuid_json (ru_observation_refs r))),
      (str ''evidence_binding_refs'', JList (map uuid_json (ru_evidence_binding_refs r))),
      (str ''pending_action_ref'', opt_json uuid_json (ru_pending_action_ref r)),
      (str ''result_refs'', JList (map uuid_json (ru_result_refs r))),
      (str ''status'', JStr (task_status_text (ru_status r))),
      (str ''state_version'', JInt (ru_state_version r)),
      (str ''created_at'', time_json pyd (ru_created_at r)),
      (str ''updated_at'', time_json pyd (ru_updated_at r))]"

definition conversation_task_link_record_data :: "json_writer \<Rightarrow> conversation_task_link_record \<Rightarrow> json_object" where
  "conversation_task_link_record_data pyd r =
     [(str ''schema_version'', JStr (ctl_schema_version r)),
      (str ''conversation_id'', uuid_json (ctl_conversation_id r)),
      (str ''task_id'', uuid_json (ctl_task_id r)),
      (str ''link_reason'', JStr (ctl_link_reason r)),
      (str ''linked_at'', time_json pyd (ctl_linked_at r)),
      (str ''ended_at'', opt_json (time_json pyd) (ctl_ended_at r))]"

definition run_task_link_record_data :: "run_task_link_record \<Rightarrow> json_object" where
  "run_task_link_record_data r =
     [(str ''schema_version'', JStr (rl_schema_version r)),
      (str ''run_id'', uuid_json (rl_run_id r)),
      (str ''task_id'', uuid_json (rl_task_id r)),
      (str ''base_task_state_version'', opt_json JInt (rl_base_task_state_version r)),
      (str ''result_task_state_version'', opt_json JInt (rl_result_task_state_version r))]"

definition input_binding_data :: "json_writer \<Rightarrow> input_binding \<Rightarrow> json_object" where
  "input_binding_data pyd r =
     [(str ''binding_id'', uuid_json (ib_binding_id r)),
      (str ''name'', JStr (ib_name r)),
      (str ''normalized_value'', JStr (ib_normalized_value r)),
      (str ''authority'', JStr (input_authority_text (ib_authority r))),
      (str ''source_refs'', JList (map uuid_json (ib_source_refs r))),
      (str ''validation_status'', JStr (input_validation_status_text (ib_validation_status r))),
      (str ''confirmed_by_user'', JBool (ib_confirmed_by_user r)),
      (str ''created_at'', time_json pyd (ib_created_at r)),
      (str ''updated_at'', time_json pyd (ib_updated_at r)),
      (str ''supersedes'', opt_json uuid_json (ib_supersedes r))]"

definition agent_run_record_data :: "json_writer \<Rightarrow> agent_run_record \<Rightarrow> json_object" where
  "agent_run_record_data pyd r =
     [(str ''run_id'', uuid_json (ar_run_id r)),
      (str ''conversation_id'', opt_json uuid_json (ar_conversation_id r)),
      (str ''status'', JStr (agent_run_status_text (ar_status r))),
      (str ''provider_lane'', JStr (ar_provider_lane r)),
      (str ''started_at'', time_json pyd (ar_started_at r)),
      (str ''completed_at'', opt_json (time_json pyd) (ar_completed_at r)),
      (str ''stop_reason'', opt_json (\<lambda>v. JStr (stop_reason_text v)) (ar_stop_reason r)),
      (str ''incomplete_reason'', opt_json JStr (ar_incomplete_reason r))]"

definition gate_decision_data :: "json_writer \<Rightarrow> gate_decision \<Rightarrow> json_object" where
  "gate_decision_data pyd r =
     [(str ''gate_decision_id'', uuid_json (gd_gate_decision_id r)),
      (str ''model_call_id'', uuid_json (gd_model_call_id r)),
      (str ''context_manifest_id'', uuid_json (gd_context_manifest_id r)),
      (str ''provider_tool_call_id'', opt_json JStr (gd_provider_tool_call_id r)),
      (str ''requested_provider_tool_name'', JStr (gd_requested_provider_tool_name r)),
      (str ''resolved_canonical_tool_name'', opt_json JStr (gd_resolved_canonical_tool_name r)),
      (str ''snapshot_match'', JBool (gd_snapshot_match r)),
      (str ''registration_valid'', JBool (gd_registration_valid r)),
      (str ''schema_valid'', JBool (gd_schema_valid r)),
      (str ''trusted_field_valid'', JBool (gd_trusted_field_valid r)),
      (str ''argument_binding_valid'', JBool (gd_argument_binding_valid r)),
      (str ''argument_binding_refs'', JList (map uuid_json (gd_argument_binding_refs r))),
      (str ''budget_valid'', JBool (gd_budget_valid r)),
      (str ''progress_valid'', JBool (gd_progress_valid r)),
      (str ''proposed_base_task_state_version'', opt_json JInt (gd_proposed_base_task_state_version r)),
      (str ''validated_task_state_version'', opt_json JInt (gd_validated_task_state_version r)),
      (str ''state_version_valid'', JBool (gd_state_version_valid r)),
      (str ''action_boundary_valid'', JBool (gd_action_boundary_valid r)),
      (str ''decision'', JStr (gate_decision_value_text (gd_decision r))),
      (str ''reason_code'', opt_json (\<lambda>v. JStr (gate_reason_code_text v)) (gd_reason_code r)),
      (str ''decided_at'', time_json pyd (gd_decided_at r))]"

definition tool_call_record_data :: "json_writer \<Rightarrow> tool_call_record \<Rightarrow> json_object" where
  "tool_call_record_data pyd r =
     [(str ''tool_call_id'', uuid_json (tc_tool_call_id r)),
      (str ''run_id'', uuid_json (tc_run_id r)),
      (str ''task_id'', uuid_json (tc_task_id r)),
      (str ''request_unit_id'', uuid_json (tc_request_unit_id r)),
      (str ''model_call_id'', uuid_json (tc_model_call_id r)),
      (str ''context_manifest_id'', uuid_json (tc_context_manifest_id r)),
      (str ''gate_decision_id'', uuid_json (tc_gate_decision_id r)),
      (str ''provider_tool_call_id'', opt_json JStr (tc_provider_tool_call_id r)),
      (str ''canonical_tool_name'', JStr (tc_canonical_tool_name r)),
      (str ''tool_registry_version'', JStr (tc_tool_registry_version r)),
      (str ''validated_task_state_version'', JInt (tc_validated_task_state_version r)),
      (str ''argument_binding_refs'', JList (map uuid_json (tc_argument_binding_refs r))),
      (str ''effect'', JStr (tool_effect_text (tc_effect r))),
      (str ''attempt_count'', JInt (tc_attempt_count r)),
      (str ''status'', JStr (tool_call_status_text (tc_status r))),
      (str ''started_at'', time_json pyd (tc_started_at r)),
      (str ''finished_at'', opt_json (time_json pyd) (tc_finished_at r)),
      (str ''failure_code'', opt_json JStr (tc_failure_code r)),
      (str ''timeout_phase'', opt_json (\<lambda>v. JStr (tool_timeout_phase_text v)) (tc_timeout_phase r)),
      (str ''interruption_reason'', opt_json JStr (tc_interruption_reason r)),
      (str ''result_ref'', opt_json uuid_json (tc_result_ref r))]"

definition order_line_summary_data :: "order_line_summary \<Rightarrow> json_object" where
  "order_line_summary_data r =
     [(str ''product_name'', JStr (ol_product_name r)),
      (str ''quantity'', JInt (ol_quantity r))]"

definition order_summary_projection_data :: "json_writer \<Rightarrow> order_summary_projection \<Rightarrow> json_object" where
  "order_summary_projection_data pyd r =
     [(str ''order_number'', JStr (os_order_number r)),
      (str ''status'', JStr (order_status_text (os_status r))),
      (str ''line_items'', JList (map (object_json pyd (order_line_summary_data)) (os_line_items r))),
      (str ''ordered_at'', time_json pyd (os_ordered_at r)),
      (str ''status_updated_at'', time_json pyd (os_status_updated_at r))]"

definition order_observation_data :: "json_writer \<Rightarrow> order_observation \<Rightarrow> json_object" where
  "order_observation_data pyd r =
     [(str ''observation_id'', uuid_json (oo_observation_id r)),
      (str ''source_tool'', JStr (oo_source_tool r)),
      (str ''source_resource_ref'', JStr (oo_source_resource_ref r)),
      (str ''source_version'', opt_json JStr (oo_source_version r)),
      (str ''normalized_type'', JStr (oo_normalized_type r)),
      (str ''normalized_value'', object_json pyd (order_summary_projection_data pyd) (oo_normalized_value r)),
      (str ''observed_at'', time_json pyd (oo_observed_at r)),
      (str ''recorded_at'', time_json pyd (oo_recorded_at r)),
      (str ''valid_until'', opt_json (time_json pyd) (oo_valid_until r)),
      (str ''supersedes'', opt_json uuid_json (oo_supersedes r)),
      (str ''raw_result_ref'', opt_json JStr (oo_raw_result_ref r)),
      (str ''visibility'', JStr (observation_visibility_text (oo_visibility r)))]"

definition task_state_ref_and_version_data :: "task_state_ref_and_version \<Rightarrow> json_object" where
  "task_state_ref_and_version_data r =
     [(str ''task_id'', uuid_json (tsr_task_id r)),
      (str ''state_version'', JInt (tsr_state_version r))]"

definition versioned_record_ref_data :: "versioned_record_ref \<Rightarrow> json_object" where
  "versioned_record_ref_data r =
     [(str ''record_ref'', uuid_json (vr_record_ref r)),
      (str ''version'', JStr (vr_version r))]"

definition truncation_decision_data :: "truncation_decision \<Rightarrow> json_object" where
  "truncation_decision_data r =
     [(str ''source_ref'', uuid_json (td_source_ref r)),
      (str ''reason_code'', JStr (td_reason_code r))]"

definition token_counts_data :: "token_counts \<Rightarrow> json_object" where
  "token_counts_data r =
     [(str ''input_tokens'', opt_json JInt (tk_input_tokens r)),
      (str ''output_tokens'', opt_json JInt (tk_output_tokens r))]"

definition context_manifest_data :: "json_writer \<Rightarrow> context_manifest \<Rightarrow> json_object" where
  "context_manifest_data pyd r =
     [(str ''context_manifest_id'', uuid_json (cm_context_manifest_id r)),
      (str ''run_id'', uuid_json (cm_run_id r)),
      (str ''model_call_id'', uuid_json (cm_model_call_id r)),
      (str ''tool_registry_version'', JStr (cm_tool_registry_version r)),
      (str ''model_visible_toolset_hash'', JStr (cm_model_visible_toolset_hash r)),
      (str ''selected_message_refs'', JList (map uuid_json (cm_selected_message_refs r))),
      (str ''task_state_ref_and_version'', opt_json (\<lambda>v. JDict (task_state_ref_and_version_data v)) (cm_task_state_ref_and_version r)),
      (str ''observation_refs_and_versions'', JList (map (\<lambda>v. JDict (versioned_record_ref_data v)) (cm_observation_refs_and_versions r))),
      (str ''evidence_refs_and_versions'', JList (map (\<lambda>v. JDict (versioned_record_ref_data v)) (cm_evidence_refs_and_versions r))),
      (str ''action_record_refs'', JList (map uuid_json (cm_action_record_refs r))),
      (str ''redaction_policy_version'', JStr (cm_redaction_policy_version r)),
      (str ''truncation_decisions'', JList (map (\<lambda>v. JDict (truncation_decision_data v)) (cm_truncation_decisions r))),
      (str ''token_counts'', JDict (token_counts_data (cm_token_counts r))),
      (str ''assembled_at'', time_json pyd (cm_assembled_at r))]"

definition timing_and_usage_summary_data :: "timing_and_usage_summary \<Rightarrow> json_object" where
  "timing_and_usage_summary_data r =
     [(str ''duration_ms'', JInt (tu_duration_ms r)),
      (str ''input_tokens'', opt_json JInt (tu_input_tokens r)),
      (str ''output_tokens'', opt_json JInt (tu_output_tokens r))]"

definition trace_event_data :: "json_writer \<Rightarrow> trace_event \<Rightarrow> json_object" where
  "trace_event_data pyd r =
     [(str ''trace_event_id'', uuid_json (te_trace_event_id r)),
      (str ''event_type'', JStr (trace_event_type_text (te_event_type r))),
      (str ''occurred_at'', time_json pyd (te_occurred_at r)),
      (str ''run_id'', uuid_json (te_run_id r)),
      (str ''case_id'', opt_json JStr (te_case_id r)),
      (str ''message_ref'', opt_json uuid_json (te_message_ref r)),
      (str ''accepted_delta_ref'', opt_json uuid_json (te_accepted_delta_ref r)),
      (str ''task_id'', opt_json uuid_json (te_task_id r)),
      (str ''request_unit_id'', opt_json uuid_json (te_request_unit_id r)),
      (str ''input_binding_ref'', opt_json uuid_json (te_input_binding_ref r)),
      (str ''model_call_id'', opt_json uuid_json (te_model_call_id r)),
      (str ''model_call_purpose'', opt_json JStr (te_model_call_purpose r)),
      (str ''context_manifest_id'', opt_json uuid_json (te_context_manifest_id r)),
      (str ''provider_name'', opt_json JStr (te_provider_name r)),
      (str ''model_snapshot'', opt_json JStr (te_model_snapshot r)),
      (str ''tool_registry_version'', opt_json JStr (te_tool_registry_version r)),
      (str ''model_visible_toolset_hash'', opt_json JStr (te_model_visible_toolset_hash r)),
      (str ''next_move_kind'', opt_json JStr (te_next_move_kind r)),
      (str ''requested_tool_name'', opt_json JStr (te_requested_tool_name r)),
      (str ''proposed_base_task_state_version'', opt_json JInt (te_proposed_base_task_state_version r)),
      (str ''validated_task_state_version'', opt_json JInt (te_validated_task_state_version r)),
      (str ''argument_binding_refs'', JList (map uuid_json (te_argument_binding_refs r))),
      (str ''gate_decision'', opt_json (\<lambda>v. JStr (gate_decision_value_text v)) (te_gate_decision r)),
      (str ''gate_reason_code'', opt_json (\<lambda>v. JStr (gate_reason_code_text v)) (te_gate_reason_code r)),
      (str ''tool_call_id'', opt_json uuid_json (te_tool_call_id r)),
      (str ''tool_call_terminal_status'', opt_json (\<lambda>v. JStr (tool_call_status_text v)) (te_tool_call_terminal_status r)),
      (str ''safe_tool_outcome'', opt_json (\<lambda>v. JStr (tool_result_outcome_text v)) (te_safe_tool_outcome r)),
      (str ''observation_ref'', opt_json uuid_json (te_observation_ref r)),
      (str ''presentation_plan_ref'', opt_json uuid_json (te_presentation_plan_ref r)),
      (str ''user_outcome'', opt_json (\<lambda>v. JStr (agent_outcome_text v)) (te_user_outcome r)),
      (str ''stop_reason'', opt_json (\<lambda>v. JStr (stop_reason_text v)) (te_stop_reason r)),
      (str ''timing_and_usage_summary'', opt_json (\<lambda>v. JDict (timing_and_usage_summary_data v)) (te_timing_and_usage_summary r))]"

definition eval_grader_result_data :: "eval_grader_result \<Rightarrow> json_object" where
  "eval_grader_result_data r =
     [(str ''grader_name'', JStr (egr_grader_name r)),
      (str ''status'', JStr (eval_grader_status_text (egr_status r))),
      (str ''reason_code'', opt_json (\<lambda>v. JStr (eval_grader_reason_text v)) (egr_reason_code r))]"

definition eval_version_manifest_data :: "eval_version_manifest \<Rightarrow> json_object" where
  "eval_version_manifest_data r =
     [(str ''dataset_version'', JStr (vm_dataset_version r)),
      (str ''candidate_version'', JStr (vm_candidate_version r)),
      (str ''baseline_version'', opt_json JStr (vm_baseline_version r)),
      (str ''fixture_versions'', JList (map JStr (vm_fixture_versions r))),
      (str ''model_config_version'', opt_json JStr (vm_model_config_version r)),
      (str ''prompt_version'', opt_json JStr (vm_prompt_version r)),
      (str ''tool_registry_version'', opt_json JStr (vm_tool_registry_version r)),
      (str ''corpus_version'', opt_json JStr (vm_corpus_version r)),
      (str ''runtime_version'', opt_json JStr (vm_runtime_version r))]"

definition eval_latency_summary_data :: "eval_latency_summary \<Rightarrow> json_object" where
  "eval_latency_summary_data r =
     [(str ''total_duration_ms'', JInt (ls_total_duration_ms r))]"

definition eval_usage_summary_data :: "eval_usage_summary \<Rightarrow> json_object" where
  "eval_usage_summary_data r =
     [(str ''input_tokens'', JInt (us_input_tokens r)),
      (str ''output_tokens'', JInt (us_output_tokens r))]"

definition eval_result_record_data :: "json_writer \<Rightarrow> eval_result_record \<Rightarrow> json_object" where
  "eval_result_record_data pyd r =
     [(str ''schema_version'', JStr (er_schema_version r)),
      (str ''eval_run_id'', uuid_json (er_eval_run_id r)),
      (str ''case_id'', JStr (er_case_id r)),
      (str ''lane'', JStr (er_lane r)),
      (str ''attempt'', JInt (er_attempt r)),
      (str ''status'', JStr (eval_result_status_text (er_status r))),
      (str ''grader_results'', JList (map (\<lambda>v. JDict (eval_grader_result_data v)) (er_grader_results r))),
      (str ''critical_failures'', JList (map (\<lambda>v. JStr (critical_failure_code_text v)) (er_critical_failures r))),
      (str ''observed_outcome'', opt_json (\<lambda>v. JStr (agent_outcome_text v)) (er_observed_outcome r)),
      (str ''trace_ref'', opt_json uuid_json (er_trace_ref r)),
      (str ''version_manifest'', JDict (eval_version_manifest_data (er_version_manifest r))),
      (str ''latency_summary'', opt_json (\<lambda>v. JDict (eval_latency_summary_data v)) (er_latency_summary r)),
      (str ''usage_summary'', opt_json (\<lambda>v. JDict (eval_usage_summary_data v)) (er_usage_summary r)),
      (str ''completed_at'', time_json pyd (er_completed_at r))]"

definition eval_execution_failure_record_data :: "json_writer \<Rightarrow> eval_execution_failure_record \<Rightarrow> json_object" where
  "eval_execution_failure_record_data pyd r =
     [(str ''schema_version'', JStr (ef_schema_version r)),
      (str ''eval_run_id'', uuid_json (ef_eval_run_id r)),
      (str ''case_id'', opt_json JStr (ef_case_id r)),
      (str ''lane'', JStr (ef_lane r)),
      (str ''attempt'', opt_json JInt (ef_attempt r)),
      (str ''failure_phase'', JStr (eval_failure_phase_text (ef_failure_phase r))),
      (str ''safe_error_code'', JStr (eval_safe_error_code_text (ef_safe_error_code r))),
      (str ''diagnostic_ref'', opt_json uuid_json (ef_diagnostic_ref r)),
      (str ''trace_ref'', opt_json uuid_json (ef_trace_ref r)),
      (str ''version_manifest'', JDict (eval_version_manifest_data (ef_version_manifest r))),
      (str ''occurred_at'', time_json pyd (ef_occurred_at r))]"

definition task_state_transition_data :: "json_writer \<Rightarrow> task_state_transition \<Rightarrow> json_object" where
  "task_state_transition_data pyd r =
     [(str ''task_id'', uuid_json (tt_task_id r)),
      (str ''request_unit_id'', uuid_json (tt_request_unit_id r)),
      (str ''from_status'', JStr (task_status_text (tt_from_status r))),
      (str ''to_status'', JStr (task_status_text (tt_to_status r))),
      (str ''base_state_version'', JInt (tt_base_state_version r)),
      (str ''result_state_version'', JInt (tt_result_state_version r)),
      (str ''reason_ref'', uuid_json (tt_reason_ref r)),
      (str ''changed_at'', time_json pyd (tt_changed_at r))]"

definition tool_attempt_record_data :: "json_writer \<Rightarrow> tool_attempt_record \<Rightarrow> json_object" where
  "tool_attempt_record_data pyd r =
     [(str ''tool_call_id'', uuid_json (at_tool_call_id r)),
      (str ''attempt_no'', JInt (at_attempt_no r)),
      (str ''started_at'', time_json pyd (at_started_at r)),
      (str ''finished_at'', opt_json (time_json pyd) (at_finished_at r)),
      (str ''outcome'', opt_json (\<lambda>v. JStr (tool_result_outcome_text v)) (at_outcome r)),
      (str ''failure_code'', opt_json JStr (at_failure_code r))]"

definition accepted_task_delta_data :: "json_writer \<Rightarrow> accepted_task_delta \<Rightarrow> json_object" where
  "accepted_task_delta_data pyd r =
     [(str ''accepted_delta_id'', uuid_json (ad_accepted_delta_id r)),
      (str ''candidate_ref'', uuid_json (ad_candidate_ref r)),
      (str ''message_ref'', uuid_json (ad_message_ref r)),
      (str ''operation'', JStr (task_delta_operation_text (ad_operation r))),
      (str ''goal_text'', JStr (ad_goal_text r)),
      (str ''input_binding_refs'', JList (map uuid_json (ad_input_binding_refs r))),
      (str ''accepted_at'', time_json pyd (ad_accepted_at r)),
      (str ''task_id'', uuid_json (ad_task_id r)),
      (str ''base_task_state_version'', opt_json JInt (ad_base_task_state_version r)),
      (str ''result_task_state_version'', JInt (ad_result_task_state_version r))]"

definition durable_resolved_reference_data :: "durable_resolved_reference \<Rightarrow> json_object" where
  "durable_resolved_reference_data r =
     [(str ''name'', JStr (drr_name r)),
      (str ''candidate_value'', JStr (drr_candidate_value r)),
      (str ''source_kind'', JStr (reference_source_kind_text (drr_source_kind r))),
      (str ''source_ref'', uuid_json (drr_source_ref r)),
      (str ''source_span_start'', JInt (int (drr_source_span_start r))),
      (str ''source_span_end_exclusive'', JInt (int (drr_source_span_end_exclusive r))),
      (str ''source_quote_sha256'', JStr (drr_source_quote_sha256 r)),
      (str ''confidence'', JFloat (drr_confidence r))]"

definition uncertainty_data :: "uncertainty \<Rightarrow> json_object" where
  "uncertainty_data r =
     [(str ''name'', JStr (un_name r)),
      (str ''candidate_values'', JList (map JStr (un_candidate_values r))),
      (str ''reason_code'', JStr (uncertainty_reason_code_text (un_reason_code r))),
      (str ''source_message_refs'', JList (map uuid_json (un_source_message_refs r)))]"

definition durable_contextualization_data :: "durable_contextualization \<Rightarrow> json_object" where
  "durable_contextualization_data r =
     [(str ''text'', JStr (dcx_text r)),
      (str ''resolved_reference_candidates'', JList (map (\<lambda>v. JDict (durable_resolved_reference_data v)) (dcx_resolved_reference_candidates r))),
      (str ''uncertainties'', JList (map (\<lambda>v. JDict (uncertainty_data v)) (dcx_uncertainties r))),
      (str ''source_message_refs'', JList (map uuid_json (dcx_source_message_refs r)))]"

definition durable_input_candidate_data :: "durable_input_candidate \<Rightarrow> json_object" where
  "durable_input_candidate_data r =
     [(str ''name'', JStr (dic_name r)),
      (str ''candidate_value'', JStr (dic_candidate_value r)),
      (str ''semantic_role'', JStr (dic_semantic_role r)),
      (str ''authority'', JStr (input_authority_text (dic_authority r))),
      (str ''source_kind'', JStr (input_source_kind_text (dic_source_kind r))),
      (str ''source_ref'', uuid_json (dic_source_ref r)),
      (str ''source_span_start'', JInt (int (dic_source_span_start r))),
      (str ''source_span_end_exclusive'', JInt (int (dic_source_span_end_exclusive r))),
      (str ''source_quote_sha256'', JStr (dic_source_quote_sha256 r)),
      (str ''confidence'', JFloat (dic_confidence r))]"

definition durable_task_delta_candidate_data :: "durable_task_delta_candidate \<Rightarrow> json_object" where
  "durable_task_delta_candidate_data r =
     [(str ''candidate_id'', uuid_json (dtd_candidate_id r)),
      (str ''operation'', JStr (task_delta_operation_text (dtd_operation r))),
      (str ''goal_patch'', JStr (dtd_goal_patch r)),
      (str ''input_candidates'', JList (map (\<lambda>v. JDict (durable_input_candidate_data v)) (dtd_input_candidates r))),
      (str ''confidence'', JFloat (dtd_confidence r))]"

definition candidate_validation_record_data :: "candidate_validation_record \<Rightarrow> json_object" where
  "candidate_validation_record_data r =
     [(str ''candidate_ref'', uuid_json (cv_candidate_ref r)),
      (str ''decision'', JStr (candidate_validation_decision_text (cv_decision r))),
      (str ''reason_code'', opt_json (\<lambda>v. JStr (candidate_rejection_reason_text v)) (cv_reason_code r))]"

definition ru_record_data :: "json_writer \<Rightarrow> ru_record \<Rightarrow> json_object" where
  "ru_record_data pyd r =
     [(str ''request_understanding_record_id'', uuid_json (rc_request_understanding_record_id r)),
      (str ''run_id'', uuid_json (rc_run_id r)),
      (str ''message_ref'', uuid_json (rc_message_ref r)),
      (str ''schema_version'', JStr (rc_schema_version r)),
      (str ''model_input_schema_version'', JStr (rc_model_input_schema_version r)),
      (str ''model_output_schema_version'', JStr (rc_model_output_schema_version r)),
      (str ''contextualization'', JDict (durable_contextualization_data (rc_contextualization r))),
      (str ''task_delta_candidates'', JList (map (\<lambda>v. JDict (durable_task_delta_candidate_data v)) (rc_task_delta_candidates r))),
      (str ''candidate_validation'', JList (map (\<lambda>v. JDict (candidate_validation_record_data v)) (rc_candidate_validation r))),
      (str ''accepted_delta_refs'', JList (map uuid_json (rc_accepted_delta_refs r))),
      (str ''proposed_base_task_state_version'', opt_json JInt (rc_proposed_base_task_state_version r)),
      (str ''validated_task_state_version'', opt_json JInt (rc_validated_task_state_version r)),
      (str ''next_move_candidate_ref'', opt_json uuid_json (rc_next_move_candidate_ref r)),
      (str ''created_at'', time_json pyd (rc_created_at r))]"

definition tool_spec_json :: "tool_spec list \<Rightarrow> string + json" where
  "tool_spec_json specs = res_bind (res_map tool_spec_dump specs) (\<lambda>dumped. Inr (JList dumped))"

definition toolset_artifact_data :: "toolset_artifact \<Rightarrow> string + json_object" where
  "toolset_artifact_data a =
     res_bind (tool_spec_json (ta_provider_visible_tool_specs a)) (\<lambda>specs.
     Inr [(str ''artifact_schema_version'', JStr (ta_artifact_schema_version a)),
          (str ''model_visible_toolset_hash'', JStr (ta_model_visible_toolset_hash a)),
          (str ''provider_visible_tool_specs'', specs)])"

subsection \<open>The text of a UUID determines it\<close>

definition hex_value :: "pystr \<Rightarrow> nat" where
  "hex_value s = foldl (\<lambda>v c. 16 * v + (if c < 58 then c - 48 else c - 87)) 0 s"

lemma hex_value_append_digit: "d < 16 \<Longrightarrow> hex_value (s @ [hex_digit d]) = 16 * hex_value s + d"
  by (simp add: hex_value_def hex_digit_def)

lemma hex_value_digits: "hex_value (hex_digits n) = n"
proof (induction n rule: hex_digits.induct)
  case (1 n)
  then show ?case
    using hex_value_append_digit[of n "[]"] hex_value_append_digit[of "n mod 16" "hex_digits (n div 16)"]
    by (subst hex_digits.simps) (auto simp: hex_value_def)
qed

lemma hex_value_zeros: "hex_value (replicate k 48 @ s) = hex_value s"
  by (induction k) (simp_all add: hex_value_def)

definition grouped :: "pystr \<Rightarrow> pystr" where
  "grouped h = take 8 h @ [45] @ take 4 (drop 8 h) @ [45] @ take 4 (drop 12 h) @ [45] @ take 4 (drop 16 h) @ [45] @ drop 20 h"

lemma ungroup:
  assumes "32 \<le> length h"
  shows "take 8 (grouped h) @ take 4 (drop 9 (grouped h)) @ take 4 (drop 14 (grouped h))
    @ take 4 (drop 19 (grouped h)) @ drop 24 (grouped h) = h"
proof -
  have "take 8 (grouped h) = take 8 h" "take 4 (drop 9 (grouped h)) = take 4 (drop 8 h)"
    "take 4 (drop 14 (grouped h)) = take 4 (drop 12 h)" "take 4 (drop 19 (grouped h)) = take 4 (drop 16 h)"
    "drop 24 (grouped h) = drop 20 h"
    using assms by (simp_all add: grouped_def min_def)
  moreover have "take 8 h @ take 4 (drop 8 h) @ take 4 (drop 12 h) @ take 4 (drop 16 h) @ drop 20 h = h"
    using append_take_drop_id[of 8 h] append_take_drop_id[of 4 "drop 8 h"]
      append_take_drop_id[of 4 "drop 12 h"] append_take_drop_id[of 4 "drop 16 h"] by simp
  ultimately show ?thesis by simp
qed

lemma uuid_str_eq_iff [simp]: "uuid_text a = uuid_text b \<longleftrightarrow> a = b"
proof
  let ?h = "\<lambda>u. replicate (32 - length (hex_digits u)) 48 @ hex_digits u"
  assume "uuid_text a = uuid_text b"
  then have "grouped (?h a) = grouped (?h b)" by (simp only: uuid_text_def Let_def grouped_def)
  moreover have "32 \<le> length (?h u)" for u by simp
  ultimately have "?h a = ?h b" using ungroup[of "?h a"] ungroup[of "?h b"] by metis
  then show "a = b" using hex_value_digits hex_value_zeros by metis
qed simp

lemma uuid_json_eq_iff [simp]: "uuid_json a = uuid_json b \<longleftrightarrow> a = b"
  by (simp add: uuid_json_def)

end
