(* ===== verification/Grading_Facts.thy ===== *)
theory Grading_Facts
  imports Grading Grader_Precedence
begin

section \<open>What the verdicts mean\<close>

text \<open>
  Every registered grader is \<open>grade_as\<close> of its name and its checks; the lemmas reduce the outcome of
  a case to these checks, and the checks of the reply and of the request to what they demand of the
  records.
\<close>

subsection \<open>The registered graders\<close>

definition grader_checks :: "(string \<times> (eval_evidence \<Rightarrow> eval_case_expectations \<Rightarrow> eval_grader_reason option)) list" where
  "grader_checks =
     [(''SchemaGrader'', schema_reason), (''IdentityBoundaryGrader'', identity_boundary_reason),
      (''RequestUnderstandingGrader'', request_understanding_reason), (''InputBindingGrader'', input_binding_reason),
      (''TaskStateGrader'', task_state_reason), (''ToolCallGrader'', tool_call_reason),
      (''ObservationGrader'', observation_reason), (''DisclosureGrader'', disclosure_reason),
      (''RendererFactGrader'', renderer_fact_reason), (''ErrorMappingGrader'', error_mapping_reason),
      (''TraceCompletenessGrader'', trace_completeness_reason), (''PersistenceGrader'', persistence_reason),
      (''ToolsetReplayGrader'', toolset_replay_reason)]"

lemmas grader_defs = SchemaGrader_def IdentityBoundaryGrader_def RequestUnderstandingGrader_def InputBindingGrader_def
  TaskStateGrader_def ToolCallGrader_def ObservationGrader_def DisclosureGrader_def RendererFactGrader_def
  ErrorMappingGrader_def TraceCompletenessGrader_def PersistenceGrader_def ToolsetReplayGrader_def

lemma registry_checks: "GRADER_REGISTRY = map (\<lambda>(name, reason). (str name, grade_as name reason)) grader_checks"
  by (simp add: GRADER_REGISTRY_def grader_checks_def grader_defs)

lemma distinct_GRADER_NAMES: "distinct GRADER_NAMES"
  by (simp add: GRADER_NAMES_def)

text \<open>Whether a grader passes a case: the checks registered under its name raise no reason.\<close>

definition check_passes :: "eval_evidence \<Rightarrow> eval_case_expectations \<Rightarrow> pystr \<Rightarrow> bool" where
  "check_passes e x name \<longleftrightarrow> list_all (\<lambda>(n, reason). str n = name \<longrightarrow> reason e x = None) grader_checks"

lemma registered_grader:
  assumes "name \<in> set (map fst GRADER_REGISTRY)"
  obtains n reason where "name = str n" "(n, reason) \<in> set grader_checks" "map_of GRADER_REGISTRY name = Some (grade_as n reason)"
    "\<And>e x. check_passes e x name \<longleftrightarrow> reason e x = None"
proof -
  have d: "distinct (map fst GRADER_REGISTRY)" using distinct_GRADER_NAMES by (simp add: registry_names)
  obtain n reason where n: "(n, reason) \<in> set grader_checks" "name = str n"
    using assms by (auto simp: registry_checks)
  then have "(name, grade_as n reason) \<in> set GRADER_REGISTRY" by (force simp: registry_checks)
  then have m: "map_of GRADER_REGISTRY name = Some (grade_as n reason)" using d by (simp add: map_of_is_SomeI)
  have "inj_on fst (set grader_checks)"
    using d by (auto simp: registry_checks distinct_map inj_on_def case_prod_beta comp_def)
  then have "check_passes e x name \<longleftrightarrow> reason e x = None" for e x
    using n by (force simp: check_passes_def list_all_iff inj_on_def)
  with n m that show thesis by blast
qed

lemma run_grader_Inr_iff:
  assumes "name \<in> set (map fst GRADER_REGISTRY)"
  shows "(\<exists>r. run_grader evidence expectations name = Inr r) \<longleftrightarrow> evidence \<noteq> Foreign \<and> expectations \<noteq> Foreign"
proof -
  obtain n reason where "map_of GRADER_REGISTRY name = Some (grade_as n reason)" using registered_grader[OF assms] by metis
  then show ?thesis
    by (auto simp: run_grader_def grade_as_def res_bind_def validate_grader_inputs_def Let_def split: sum.splits if_splits)
qed

lemma run_grader_result:
  assumes "name \<in> set (map fst GRADER_REGISTRY)" "run_grader evidence expectations name = Inr r"
  shows "egr_grader_name r = name" "grader_failed r \<longleftrightarrow> r \<noteq> passed name"
    "r = passed name \<longleftrightarrow> (\<exists>e x extra. evidence = Obj e [] \<and> canonical_eval_evidence e \<and> expectations = Obj x extra
        \<and> check_passes e x name)"
    "accepts new_eval_grader_result r"
proof -
  obtain n reason where n: "name = str n" "(n, reason) \<in> set grader_checks" "map_of GRADER_REGISTRY name = Some (grade_as n reason)"
    and c: "\<And>e x. check_passes e x name \<longleftrightarrow> reason e x = None"
    using registered_grader[OF assms(1)] by metis
  then have g: "grade_as n reason evidence expectations = Inr r"
    using assms(2) by (auto simp: run_grader_def split: sum.splits)
  note R = grade_as_result[OF g]
  show "egr_grader_name r = name" using R n by simp
  show f: "grader_failed r \<longleftrightarrow> r \<noteq> passed name"
    using R n by (metis (full_types) eval_grader_status.exhaust eval_grader_status.distinct(1) grader_failed_def)
  have "r = passed name \<longleftrightarrow> grade_as n reason evidence expectations = Inr (passed (str n))" using g n by auto
  then show "r = passed name \<longleftrightarrow> (\<exists>e x extra. evidence = Obj e [] \<and> canonical_eval_evidence e \<and> expectations = Obj x extra
        \<and> check_passes e x name)"
    unfolding grade_as_passed c .
  have "NonEmptyString name" using n(1,2) by (auto simp: grader_checks_def NonEmptyString_def)
  then show "accepts new_eval_grader_result r"
    using R n(1) f unfolding grader_failed_def
    by (cases "egr_status r") (auto simp: accepts_iff new_eval_grader_result_def construct_Inr_iff passed_def)
qed

subsection \<open>The outcome of a case\<close>

lemma critical_failures_facts:
  "distinct (derive_critical_failures results x)"
  "set (derive_critical_failures results x) \<subseteq> set (ee_applicable_critical_failures x)"
  "\<not> list_ex grader_failed results \<Longrightarrow> derive_critical_failures results x = []"
proof -
  have "distinct ALL_CRITICAL_FAILURES" by (simp add: ALL_CRITICAL_FAILURES_def)
  then show "distinct (derive_critical_failures results x)"
    by (simp add: derive_critical_failures_def Let_def)
  show "set (derive_critical_failures results x) \<subseteq> set (ee_applicable_critical_failures x)"
    by (auto simp: derive_critical_failures_def Let_def)
  assume "\<not> list_ex grader_failed results"
  then have "filter grader_failed results = []" by (auto simp: list_ex_iff filter_empty_conv)
  then show "derive_critical_failures results x = []" by (simp add: derive_critical_failures_def)
qed

lemma grade_evidence_Inr:
  assumes "grade_evidence names evidence expectations = Inr out"
  shows "configuration_closed names"
    and "list_all2 (\<lambda>name r. run_grader evidence expectations name = Inr r) names (go_grader_results out)"
    and "map egr_grader_name (go_grader_results out) = names"
    and "go_critical_failures out = derive_critical_failures (go_grader_results out) (fields_of expectations)"
    and "go_status out = (if list_ex grader_failed (go_grader_results out) then RESULT_FAIL else RESULT_PASS)"
proof -
  obtain results where c: "configuration_closed names" and r: "res_map (run_grader evidence expectations) names = Inr results"
    and d: "derive_grading_outcome (map (\<lambda>r. Obj r []) results) (fields_of expectations) = Inr out"
    using assms by (auto simp: grade_evidence_def res_bind_Inr_iff split: if_splits)
  have l: "list_all2 (\<lambda>name r. run_grader evidence expectations name = Inr r) names results"
    using r by (simp add: res_map_Inr_iff)
  have "egr_grader_name r = name" if "name \<in> set names" "run_grader evidence expectations name = Inr r" for name r
    using c that by (intro run_grader_result(1)[OF _ that(2)]) (auto simp: configuration_closed_def)
  then have "list_all2 (\<lambda>name r. egr_grader_name r = name) names results"
    by (intro list.rel_mono_strong[OF l])
  then have n: "map egr_grader_name results = names"
    by (induction rule: list_all2_induct) auto
  from d have o: "go_grader_results out = results"
    "go_critical_failures out = derive_critical_failures results (fields_of expectations)"
    "determine_result_status results (derive_critical_failures results (fields_of expectations)) = Inr (go_status out)"
    by (auto simp: derive_grading_outcome_def Let_def comp_def res_bind_Inr_iff split: if_splits)
  show "configuration_closed names" by (rule c)
  show "list_all2 (\<lambda>name r. run_grader evidence expectations name = Inr r) names (go_grader_results out)"
    "map egr_grader_name (go_grader_results out) = names"
    "go_critical_failures out = derive_critical_failures (go_grader_results out) (fields_of expectations)"
    using o l n by simp_all
  show "go_status out = (if list_ex grader_failed (go_grader_results out) then RESULT_FAIL else RESULT_PASS)"
    using o critical_failures_facts(3)[of results "fields_of expectations"]
    by (auto simp: determine_result_status_def split: if_splits)
qed

lemma derive_outcome_total:
  assumes "map egr_grader_name results = names" "names \<noteq> []" "distinct names" "set names \<subseteq> set (map fst GRADER_REGISTRY)"
  shows "\<exists>out. derive_grading_outcome (map (\<lambda>r. Obj r []) results) x = Inr out"
proof -
  have "map fields_of (map (\<lambda>r. Obj r []) results) = results" by (simp add: comp_def)
  moreover have "\<not> list_ex (\<lambda>r. r = Foreign) (map (\<lambda>r. Obj r []) results)" by (auto simp: list_ex_iff)
  moreover have "\<exists>status. determine_result_status results (derive_critical_failures results x) = Inr status"
    using assms(1-3) critical_failures_facts(1)[of results x] by (auto simp: determine_result_status_def)
  ultimately show ?thesis
    using assms unfolding derive_grading_outcome_def by (auto simp: Let_def simp del: map_map)
qed

lemma grade_evidence_total:
  assumes "configuration_closed names" "evidence \<noteq> Foreign" "expectations \<noteq> Foreign"
  shows "\<exists>out. grade_evidence names evidence expectations = Inr out"
proof -
  have reg: "set names \<subseteq> set (map fst GRADER_REGISTRY)" "names \<noteq> []" "distinct names"
    using assms(1) by (simp_all add: configuration_closed_def)
  have "\<forall>name\<in>set names. \<exists>r. run_grader evidence expectations name = Inr r"
    using run_grader_Inr_iff reg(1) assms(2,3) by blast
  then obtain f where f: "\<forall>name\<in>set names. run_grader evidence expectations name = Inr (f name)" by metis
  then have m: "res_map (run_grader evidence expectations) names = Inr (map f names)" by (intro res_map_total) simp
  have "egr_grader_name (f name) = name" if "name \<in> set names" for name
    using f reg(1) that by (intro run_grader_result(1)[of name evidence expectations]) auto
  then have "map egr_grader_name (map f names) = names" by (simp add: comp_def map_idI)
  from derive_outcome_total[OF this reg(2,3,1)]
  have "\<exists>out. derive_grading_outcome (map (\<lambda>r. Obj r []) (map f names)) (fields_of expectations) = Inr out" .
  with m assms(1) show ?thesis by (simp add: grade_evidence_def)
qed

subsection \<open>The result record of a graded case\<close>

lemma graded_result_valid:
  assumes g: "grade_evidence names evidence expectations = Inr out"
    and r: "er_status r = go_status out" "er_grader_results r = go_grader_results out"
      "er_critical_failures r = go_critical_failures out" "er_observed_outcome r \<noteq> None" "er_trace_ref r \<noteq> None"
    and base: "NonEmptyString (er_schema_version r)" "NonEmptyString (er_case_id r)" "NonEmptyString (er_lane r)"
      "1 \<le> er_attempt r" "is_utc (er_completed_at r)"
  shows "new_eval_result_record r = Inr r"
proof -
  note G = grade_evidence_Inr[OF g]
  have "names \<noteq> []" "distinct names" using G(1) by (simp_all add: configuration_closed_def)
  then have "go_grader_results out \<noteq> []" "distinct (map egr_grader_name (go_grader_results out))" using G(3) by auto
  moreover have "distinct (go_critical_failures out)"
    "\<not> list_ex grader_failed (go_grader_results out) \<Longrightarrow> go_critical_failures out = []"
    using critical_failures_facts G(4) by simp_all
  ultimately show ?thesis
    using base r G(5) by (auto simp: new_eval_result_record_def construct_Inr_iff result_lifecycle_is_consistent_def Let_def)
qed

subsection \<open>When a case passes\<close>

lemma passes_iff:
  "grade_evidence names evidence expectations = Inr out \<and> go_status out = RESULT_PASS \<longleftrightarrow>
     configuration_closed names
     \<and> (\<exists>e x extra. evidence = Obj e [] \<and> canonical_eval_evidence e \<and> expectations = Obj x extra
          \<and> list_all (check_passes e x) names)
     \<and> out = \<lparr>go_status = RESULT_PASS, go_grader_results = map passed names, go_critical_failures = []\<rparr>"
    (is "?graded \<and> ?pass \<longleftrightarrow> ?closed \<and> ?checked \<and> ?out")
proof
  assume *: "?graded \<and> ?pass"
  then have graded: "grade_evidence names evidence expectations = Inr out" by simp
  note G = grade_evidence_Inr[OF graded]
  have ok: "\<not> list_ex grader_failed (go_grader_results out)" using * G(5) by (auto split: if_splits)
  have each: "r = passed name \<and> (\<exists>e x extra. evidence = Obj e [] \<and> canonical_eval_evidence e \<and> expectations = Obj x extra
      \<and> check_passes e x name)"
    if "name \<in> set names" "r \<in> set (go_grader_results out)" "run_grader evidence expectations name = Inr r" for name r
  proof -
    have "name \<in> set (map fst GRADER_REGISTRY)" using that(1) G(1) by (auto simp: configuration_closed_def)
    note R = run_grader_result[OF this that(3)]
    have "r = passed name" using ok that(2) R(2) by (auto simp: list_ex_iff)
    with R(3) show ?thesis by blast
  qed
  have "list_all2 (\<lambda>name r. r = passed name) names (go_grader_results out)"
    by (rule list.rel_mono_strong[OF G(2)]) (use each in blast)
  then have results: "go_grader_results out = map passed names"
    by (induction rule: list_all2_induct) auto
  have critical_failures: "go_critical_failures out = []" using G(4) critical_failures_facts(3)[OF ok] by simp
  have "\<exists>r\<in>set (go_grader_results out). run_grader evidence expectations name = Inr r" if "name \<in> set names" for name
    using G(2) that by (induction rule: list_all2_induct) auto
  then have "\<exists>e x extra. evidence = Obj e [] \<and> canonical_eval_evidence e \<and> expectations = Obj x extra
      \<and> check_passes e x name" if "name \<in> set names" for name
    using that each by blast
  then have checked: "\<exists>e x extra. evidence = Obj e [] \<and> canonical_eval_evidence e \<and> expectations = Obj x extra
      \<and> check_passes e x name" if "name \<in> set names" for name using that by blast
  have "names \<noteq> []" using G(1) by (simp add: configuration_closed_def)
  then obtain e x extra where e: "evidence = Obj e []" "canonical_eval_evidence e" "expectations = Obj x extra"
    using checked by (meson list.set_sel(1))
  then have "list_all (check_passes e x) names" using checked by (fastforce simp: list_all_iff)
  with e have ?checked by blast
  moreover have ?out using results critical_failures * by (cases out) simp
  ultimately show "?closed \<and> ?checked \<and> ?out" using G(1) by blast
next
  assume *: "?closed \<and> ?checked \<and> ?out"
  then obtain e x extra where e: "evidence = Obj e []" "canonical_eval_evidence e" "expectations = Obj x extra"
    "list_all (check_passes e x) names" by blast
  have closed: "configuration_closed names" using * by blast
  obtain out' where out': "grade_evidence names evidence expectations = Inr out'"
    using grade_evidence_total[OF closed] e by blast
  note G = grade_evidence_Inr[OF out']
  have each: "r = passed name" if "name \<in> set names" "run_grader evidence expectations name = Inr r" for name r
  proof -
    have "name \<in> set (map fst GRADER_REGISTRY)" using that(1) closed by (auto simp: configuration_closed_def)
    from run_grader_result(3)[OF this that(2)] show ?thesis using e that(1) by (auto simp: list_all_iff)
  qed
  have "list_all2 (\<lambda>name r. r = passed name) names (go_grader_results out')"
    by (rule list.rel_mono_strong[OF G(2)]) (use each in blast)
  then have results: "go_grader_results out' = map passed names" by (induction rule: list_all2_induct) auto
  then have ok: "\<not> list_ex grader_failed (go_grader_results out')" by (auto simp: list_ex_iff grader_failed_def passed_def)
  with results G(4,5) critical_failures_facts(3)[OF ok] have "out' = out" using * by simp
  with out' G(5) ok show "?graded \<and> ?pass" by simp
qed

subsection \<open>What a passing grader demands\<close>

lemma singleton: "length xs = 1 \<Longrightarrow> xs = [hd xs]"
  by (cases xs) auto

lemma identity_passes:
  assumes "identity_boundary_reason e x = None"
  shows "\<exists>conversation message. ev_conversation_records e = [conversation] \<and> ev_message_records e = [message]
    \<and> cr_owner_customer_id conversation = ee_trusted_customer_id x \<and> mr_content message = ee_expected_message_content x"
proof -
  have "length (ev_conversation_records e) = 1" "length (ev_message_records e) = 1"
    "cr_owner_customer_id (hd (ev_conversation_records e)) = ee_trusted_customer_id x"
    "mr_content (hd (ev_message_records e)) = ee_expected_message_content x"
    using assms by (auto simp: identity_boundary_reason_def Let_def simp del: first_reason.simps)
  then show ?thesis using singleton[of "ev_conversation_records e"] singleton[of "ev_message_records e"] by metis
qed

lemma understanding_passes:
  assumes "request_understanding_reason e x = None" "ee_request_understanding_required x" "ee_expected_task_status x \<noteq> None"
  shows "\<exists>message order_id. ev_message_records e = [message] \<and> ee_expected_binding_order_id x = Some order_id
    \<and> py_in order_id (mr_content message)"
proof -
  let ?u = "hd (ev_request_understanding_records e)"
  let ?d = "hd (rc_task_delta_candidates ?u)"
  let ?c = "hd (dtd_input_candidates ?d)" and ?m = "hd (ev_message_records e)"
  have u: "length (ev_request_understanding_records e) = 1" "length (rc_task_delta_candidates ?u) = 1"
    "length (dtd_input_candidates ?d) = 1" "ee_expected_binding_order_id x = Some (dic_candidate_value ?c)"
    "v2_request_understanding_graph_reason e x = None"
    using assms(1,2) by (auto simp: request_understanding_reason_def Let_def simp del: first_reason.simps)
  from u(5) assms(3) have "v2_source_provenance_reason e = None" "length (ev_message_records e) = 1"
    by (auto simp: v2_request_understanding_graph_reason_def Let_def simp del: first_reason.simps split: option.splits)
  moreover have "v2_evidence_is_active e" using u(1) by (auto simp: v2_evidence_is_active_def)
  moreover have "?c \<in> set (concat (map dtd_input_candidates (rc_task_delta_candidates ?u)))"
    using singleton[OF u(2)] singleton[OF u(3)] by (metis concat.simps(1,2) append_Nil2 list.set_intros(1) list.simps(8,9))
  ultimately have "v2_source_span_is_valid ?m (dic_source_ref ?c) (dic_source_span_start ?c)
      (dic_source_span_end_exclusive ?c) (dic_source_quote_sha256 ?c) (dic_candidate_value ?c)"
    and m: "ev_message_records e = [?m]"
    using singleton[of "ev_message_records e"] by (auto simp: v2_source_provenance_reason_def Let_def list_ex_iff simp del: first_reason.simps)
  then have "py_in (dic_candidate_value ?c)
      (take (dic_source_span_end_exclusive ?c - dic_source_span_start ?c) (drop (dic_source_span_start ?c) (mr_content ?m)))"
    by (auto simp: v2_source_span_is_valid_def Let_def split: if_splits)
  moreover have "py_in (take n (drop k s)) s" for n k and s :: pystr
    using py_in_append_middle[of "take n (drop k s)" "take k s" "drop n (drop k s)"] by (simp del: drop_drop)
  ultimately have "py_in (dic_candidate_value ?c) (mr_content ?m)" using py_in_trans by blast
  with m u(4) show ?thesis by metis
qed

lemma observation_passes:
  assumes "observation_reason e x = None" "ee_expected_observations x = 1"
  shows "\<exists>ob. ev_observations e = [ob] \<and> Some (os_order_number (fields_of (oo_normalized_value ob))) = ee_expected_binding_order_id x"
proof -
  have "length (ev_observations e) = 1" using assms by (simp add: observation_reason_def Let_def del: first_reason.simps)
  note o = singleton[OF this]
  have "Some (os_order_number (fields_of (oo_normalized_value (hd (ev_observations e))))) = ee_expected_binding_order_id x"
    using assms o by (auto simp: observation_reason_def Let_def simp del: first_reason.simps split: if_splits)
  with o show ?thesis by metis
qed

lemma renderer_passes:
  assumes "renderer_fact_reason e x = None" "ee_expected_response_policy x = str ''DETERMINISTIC_ORDER_SUMMARY_V1''"
  shows "\<exists>ob result. ev_observations e = [ob] \<and> ev_agent_result e = Some result
    \<and> py_in (os_order_number (fields_of (oo_normalized_value ob))) (res_message result)"
proof -
  obtain result where r: "ev_agent_result e = Some result" "length (ev_observations e) = 1"
    "res_message result \<in> set (approved_renderer_messages (hd (ev_observations e)))"
    using assms by (auto simp: renderer_fact_reason_def simp del: first_reason.simps split: option.splits)
  let ?s = "fields_of (oo_normalized_value (hd (ev_observations e)))"
  obtain label p where p: "new_presentation_plan p = Inr p" "res_message result = intersperse_concat [10] (message_parts ?s label p)"
    using r(3) unfolding approved_iff by blast
  have "set (pp_field_order p) = UNIV" using plan_field_order_distinct[OF p(1)] by simp
  from required_facts_present[OF this, of "os_order_number ?s"] have "py_in (os_order_number ?s) (res_message result)"
    unfolding p(2) by simp
  with r(1) singleton[OF r(2)] show ?thesis by metis
qed

text \<open>
  The graders compare the quoted text with the normal form: a stored candidate that is not spelled
  like its binding, which normalization allows, never passes.
\<close>

lemma spelling_is_graded:
  assumes "request_understanding_reason e x = None" "ee_request_understanding_required x" "ee_expected_task_status x \<noteq> None"
  shows "ib_normalized_value (hd (ev_input_bindings e))
     = dic_candidate_value (hd (dtd_input_candidates (hd (rc_task_delta_candidates (hd (ev_request_understanding_records e))))))"
proof -
  have "v2_request_understanding_graph_reason e x = None"
    using assms(1,2) by (auto simp: request_understanding_reason_def Let_def simp del: first_reason.simps)
  then show ?thesis
    using assms(3) by (auto simp: v2_request_understanding_graph_reason_def Let_def simp del: first_reason.simps split: option.splits)
qed

end
