(* ===== verification/Sample_Case.thy ===== *)
theory Sample_Case
  imports Grading_Facts Sample_Request
begin



section \<open>A graded case, used by the witnesses\<close>

text \<open>
  The records and the trace of one successful Run: the customer asks for \<open>O-1234\<close>, the model quotes
  it, one \<open>get_order\<close> call finds it and the reply is rendered. Every timestamp is \<open>sample_now\<close>; hashes
  stay symbolic.
\<close>

definition case_message :: message_record where
  "case_message = \<lparr>mr_schema_version = str ''message_record.p0.v1'', mr_message_id = 7, mr_conversation_id = 100,
     mr_direction = DIRECTION_USER, mr_content = str ''O-1234 ?'', mr_received_at = sample_now\<rparr>"

definition case_conversation :: conversation_record where
  "case_conversation = \<lparr>cr_schema_version = str ''conversation_record.p0.v1'', cr_conversation_id = 100,
     cr_owner_customer_id = str ''cust-1'', cr_created_at = sample_now\<rparr>"

definition case_run :: agent_run_record where
  "case_run = \<lparr>ar_run_id = 5, ar_conversation_id = Some 100, ar_status = RUN_COMPLETED, ar_provider_lane = str ''lane'',
     ar_started_at = sample_now, ar_completed_at = Some sample_now, ar_stop_reason = Some STOP_GOAL_COMPLETED,
     ar_incomplete_reason = None\<rparr>"

definition case_candidate :: durable_task_delta_candidate where
  "case_candidate =
     \<lparr>dtd_candidate_id = 50, dtd_operation = ADD_GOAL, dtd_goal_patch = str ''find it'',
      dtd_input_candidates = [\<lparr>dic_name = str ''order_id'', dic_candidate_value = str ''O-1234'',
        dic_semantic_role = str ''TARGET_RESOURCE_IDENTIFIER'', dic_authority = USER_CLAIM,
        dic_source_kind = SRC_CURRENT_MESSAGE, dic_source_ref = 7, dic_source_span_start = 0,
        dic_source_span_end_exclusive = 6, dic_source_quote_sha256 = sha256_hexdigest (utf8 (str ''O-1234'')),
        dic_confidence = half\<rparr>],
      dtd_confidence = half\<rparr>"

definition case_understanding :: ru_record where
  "case_understanding =
     \<lparr>rc_request_understanding_record_id = 61, rc_run_id = 5, rc_message_ref = 7,
      rc_schema_version = str ''request_understanding_record.p0.v2'',
      rc_model_input_schema_version = str ''e2e01-thin-v1'', rc_model_output_schema_version = str ''e2e01-thin-v2'',
      rc_contextualization = \<lparr>dcx_text = str ''asks'', dcx_resolved_reference_candidates = [], dcx_uncertainties = [],
        dcx_source_message_refs = [7]\<rparr>,
      rc_task_delta_candidates = [case_candidate],
      rc_candidate_validation = [\<lparr>cv_candidate_ref = 50, cv_decision = DECISION_ACCEPT, cv_reason_code = None\<rparr>],
      rc_accepted_delta_refs = [51], rc_proposed_base_task_state_version = None,
      rc_validated_task_state_version = Some 1, rc_next_move_candidate_ref = Some 65, rc_created_at = sample_now\<rparr>"

definition case_delta :: accepted_task_delta where
  "case_delta = \<lparr>ad_accepted_delta_id = 51, ad_candidate_ref = 50, ad_message_ref = 7, ad_operation = ADD_GOAL,
     ad_goal_text = str ''find it'', ad_input_binding_refs = [54], ad_accepted_at = sample_now, ad_task_id = 52,
     ad_base_task_state_version = None, ad_result_task_state_version = 1\<rparr>"

definition case_binding :: input_binding where
  "case_binding = \<lparr>ib_binding_id = 54, ib_name = str ''order_id'', ib_normalized_value = str ''O-1234'',
     ib_authority = USER_CLAIM, ib_source_refs = [7], ib_validation_status = ACCEPTED, ib_confirmed_by_user = True,
     ib_created_at = sample_now, ib_updated_at = sample_now, ib_supersedes = None\<rparr>"

definition case_task :: task_record where
  "case_task = \<lparr>tk_task_id = 52, tk_owner_customer_id = str ''cust-1'', tk_status = COMPLETED, tk_state_version = 2,
     tk_created_at = sample_now, tk_updated_at = sample_now, tk_last_outcome_ref = None\<rparr>"

definition case_unit :: request_unit_record where
  "case_unit = \<lparr>ru_request_unit_id = 53, ru_task_id = 52, ru_goal_text = str ''find it'', ru_goal_source_refs = [7],
     ru_contextualization_ref = None, ru_constraint_refs = [], ru_dependency_refs = [], ru_input_binding_refs = [54],
     ru_open_questions = [], ru_observation_refs = [90], ru_evidence_binding_refs = [], ru_pending_action_ref = None,
     ru_result_refs = [], ru_status = COMPLETED, ru_state_version = 2, ru_created_at = sample_now,
     ru_updated_at = sample_now\<rparr>"

definition case_transition :: task_state_transition where
  "case_transition = \<lparr>tt_task_id = 52, tt_request_unit_id = 53, tt_from_status = ACTIVE, tt_to_status = COMPLETED,
     tt_base_state_version = 1, tt_result_state_version = 2, tt_reason_ref = 5, tt_changed_at = sample_now\<rparr>"

definition case_gate :: gate_decision where
  "case_gate = \<lparr>gd_gate_decision_id = 66, gd_model_call_id = 60, gd_context_manifest_id = 62,
     gd_provider_tool_call_id = None, gd_requested_provider_tool_name = str ''get_order'',
     gd_resolved_canonical_tool_name = Some (str ''get_order''), gd_snapshot_match = True, gd_registration_valid = True,
     gd_schema_valid = True, gd_trusted_field_valid = True, gd_argument_binding_valid = True,
     gd_argument_binding_refs = [54], gd_budget_valid = True, gd_progress_valid = True,
     gd_proposed_base_task_state_version = None, gd_validated_task_state_version = Some 1,
     gd_state_version_valid = True, gd_action_boundary_valid = True, gd_decision = GateAccept, gd_reason_code = None,
     gd_decided_at = sample_now\<rparr>"

definition case_call :: tool_call_record where
  "case_call = \<lparr>tc_tool_call_id = 70, tc_run_id = 5, tc_task_id = 52, tc_request_unit_id = 53, tc_model_call_id = 60,
     tc_context_manifest_id = 62, tc_gate_decision_id = 66, tc_provider_tool_call_id = None,
     tc_canonical_tool_name = str ''get_order'', tc_tool_registry_version = str ''v1'',
     tc_validated_task_state_version = 1, tc_argument_binding_refs = [54], tc_effect = READ, tc_attempt_count = 1,
     tc_status = TC_SUCCEEDED, tc_started_at = sample_now, tc_finished_at = Some sample_now, tc_failure_code = None,
     tc_timeout_phase = None, tc_interruption_reason = None, tc_result_ref = None\<rparr>"

definition case_attempt :: tool_attempt_record where
  "case_attempt = \<lparr>at_tool_call_id = 70, at_attempt_no = 1, at_started_at = sample_now, at_finished_at = Some sample_now,
     at_outcome = Some TR_SUCCESS, at_failure_code = None\<rparr>"

definition case_observation :: order_observation where
  "case_observation = \<lparr>oo_observation_id = 90, oo_source_tool = str ''get_order'',
     oo_source_resource_ref = str ''O-1234'', oo_source_version = Some (str ''s1''),
     oo_normalized_type = str ''ORDER_SUMMARY'',
     oo_normalized_value = Obj \<lparr>os_order_number = str ''O-1234'', os_status = SHIPPED,
        os_line_items = [Obj \<lparr>ol_product_name = str ''tea'', ol_quantity = 2\<rparr> []],
        os_ordered_at = utc_us 0, os_status_updated_at = utc_us 60\<rparr> [],
     oo_observed_at = sample_now, oo_recorded_at = sample_now, oo_valid_until = None, oo_supersedes = None,
     oo_raw_result_ref = None, oo_visibility = VIS_MODEL_VISIBLE\<rparr>"

definition case_manifest :: "uuid \<Rightarrow> uuid \<Rightarrow> task_state_ref_and_version option \<Rightarrow> versioned_record_ref list \<Rightarrow> context_manifest" where
  "case_manifest manifest_id call_id task_ref observations = \<lparr>cm_context_manifest_id = manifest_id, cm_run_id = 5,
     cm_model_call_id = call_id, cm_tool_registry_version = str ''v1'',
     cm_model_visible_toolset_hash = sample_toolset_hash, cm_selected_message_refs = [7],
     cm_task_state_ref_and_version = task_ref, cm_observation_refs_and_versions = observations,
     cm_evidence_refs_and_versions = [], cm_action_record_refs = [], cm_redaction_policy_version = str ''r1'',
     cm_truncation_decisions = [], cm_token_counts = \<lparr>tk_input_tokens = None, tk_output_tokens = None\<rparr>,
     cm_assembled_at = sample_now\<rparr>"

definition case_artifact :: toolset_artifact where
  "case_artifact = \<lparr>ta_artifact_schema_version = MODEL_VISIBLE_TOOLSET_ARTIFACT_SCHEMA_VERSION,
     ta_model_visible_toolset_hash = sample_toolset_hash, ta_provider_visible_tool_specs = [get_order_tool_spec]\<rparr>"

definition case_reply :: pystr where
  "case_reply = intersperse_concat [10] (message_parts (fields_of (oo_normalized_value case_observation))
     [24050, 21457, 36135]
     \<lparr>pp_schema_version = str ''presentation-plan-v1'', pp_template_id = str ''ORDER_STATUS_SUMMARY_V1'',
      pp_tone = NEUTRAL, pp_opening_variant = DIRECT, pp_field_order = presentation_fields,
      pp_closing_variant = CLOSING_NONE\<rparr>)"

subsection \<open>The trace\<close>

definition case_event :: "uuid \<Rightarrow> trace_event_type \<Rightarrow> trace_event" where
  "case_event n t = blank_event n t sample_now 5"

definition on_task :: "trace_event \<Rightarrow> trace_event" where
  "on_task event = event\<lparr>te_task_id := Some 52, te_request_unit_id := Some 53\<rparr>"

definition on_call :: "tool_call_status \<Rightarrow> trace_event \<Rightarrow> trace_event" where
  "on_call status event = event\<lparr>te_tool_call_id := Some 70, te_tool_call_terminal_status := Some status\<rparr>"

definition manifest_event :: "uuid \<Rightarrow> uuid \<Rightarrow> uuid \<Rightarrow> string \<Rightarrow> trace_event" where
  "manifest_event n manifest_id call_id purpose = (case_event n CONTEXT_MANIFEST_RECORDED)
     \<lparr>te_context_manifest_id := Some manifest_id, te_model_call_id := Some call_id,
      te_model_call_purpose := Some (str purpose), te_tool_registry_version := Some (str ''v1''),
      te_model_visible_toolset_hash := Some sample_toolset_hash\<rparr>"

definition case_trace :: "trace_event list" where
  "case_trace =
     [(case_event 200 MESSAGE_ACCEPTED)\<lparr>te_message_ref := Some 7\<rparr>,
      case_event 201 RUN_STARTED,
      case_event 202 REQUEST_UNDERSTANDING_STARTED,
      manifest_event 203 62 60 ''REQUEST_UNDERSTANDING'',
      case_event 204 NEXT_MOVE_PROPOSED,
      case_event 205 TASK_DELTA_VALIDATED,
      on_task ((case_event 206 TASK_DELTA_ACCEPTED)\<lparr>te_accepted_delta_ref := Some 51, te_message_ref := Some 7\<rparr>),
      (case_event 207 INPUT_BINDING_RECORDED)\<lparr>te_input_binding_ref := Some 54\<rparr>,
      on_task (case_event 208 TASK_STATE_CHANGED),
      case_event 209 NEXT_MOVE_REVALIDATED,
      (case_event 210 GATE_DECISION_RECORDED)\<lparr>te_gate_decision := Some GateAccept, te_validated_task_state_version := Some 1\<rparr>,
      on_call TC_CREATED (case_event 211 TOOL_CALL_CREATED),
      on_call TC_RUNNING (case_event 212 TOOL_CALL_STARTED),
      on_call TC_SUCCEEDED (case_event 213 TOOL_CALL_SUCCEEDED),
      (case_event 214 TOOL_RESULT_NORMALIZED)\<lparr>te_tool_call_id := Some 70, te_safe_tool_outcome := Some TR_SUCCESS\<rparr>,
      (case_event 215 OBSERVATION_RECORDED)\<lparr>te_observation_ref := Some 90\<rparr>,
      manifest_event 216 63 64 ''PRESENTATION'',
      case_event 217 PRESENTATION_PLAN_PROPOSED,
      case_event 218 RESPONSE_RENDERED,
      on_task (case_event 219 TASK_STATE_CHANGED),
      (case_event 220 RUN_STOPPED)\<lparr>te_user_outcome := Some OUTCOME_COMPLETED, te_stop_reason := Some STOP_GOAL_COMPLETED\<rparr>,
      case_event 221 EVAL_CASE_GRADED]"

definition case_evidence :: eval_evidence where
  "case_evidence =
     \<lparr>ev_case_id = str ''case'', ev_observed_outcome = OUTCOME_COMPLETED, ev_trace_ref = 300, ev_trace_events = case_trace,
      ev_safe_observable = Some \<lparr>so_case_id = str ''case'', so_http_status = 200, so_user_outcome = OUTCOME_COMPLETED,
        so_response_policy = str ''DETERMINISTIC_ORDER_SUMMARY_V1'', so_ordinary_trace_shape = [], so_model_calls = 2\<rparr>,
      ev_run_record = Some case_run,
      ev_agent_result = Some \<lparr>res_run_id = 5, res_outcome = OUTCOME_COMPLETED, res_message = case_reply\<rparr>,
      ev_conversation_records = [case_conversation], ev_message_records = [case_message],
      ev_input_bindings = [case_binding], ev_task_records = [case_task], ev_request_units = [case_unit],
      ev_conversation_task_links = [\<lparr>ctl_schema_version = str ''conversation_task_link_record.p0.v1'',
        ctl_conversation_id = 100, ctl_task_id = 52, ctl_link_reason = str ''NEW_GOAL'', ctl_linked_at = sample_now,
        ctl_ended_at = None\<rparr>],
      ev_run_task_links = [\<lparr>rl_schema_version = str ''run_task_link_record.p0.v1'', rl_run_id = 5, rl_task_id = 52,
        rl_base_task_state_version = None, rl_result_task_state_version = Some 2\<rparr>],
      ev_gate_decisions = [case_gate], ev_tool_calls = [case_call], ev_tool_attempts = [case_attempt],
      ev_observations = [case_observation],
      ev_context_manifests = [case_manifest 62 60 None [],
        case_manifest 63 64 (Some \<lparr>tsr_task_id = 52, tsr_state_version = 1\<rparr>) [\<lparr>vr_record_ref = 90, vr_version = str ''s1''\<rparr>]],
      ev_toolset_artifacts = [case_artifact], ev_request_understanding_records = [case_understanding],
      ev_accepted_task_deltas = [case_delta], ev_task_state_transitions = [case_transition]\<rparr>"

definition case_expectations :: eval_case_expectations where
  "case_expectations =
     \<lparr>ee_case_id = str ''case'', ee_trusted_customer_id = str ''cust-1'', ee_expected_http_status = 200,
      ee_expected_outcome = OUTCOME_COMPLETED, ee_expected_run_status = RUN_COMPLETED,
      ee_expected_stop_reason = STOP_GOAL_COMPLETED,
      ee_expected_response_policy = str ''DETERMINISTIC_ORDER_SUMMARY_V1'', ee_request_understanding_required = True,
      ee_expected_binding_order_id = Some (str ''O-1234''), ee_expected_next_move_order_id = Some (str ''O-1234''),
      ee_expected_requested_tool_name = Some (str ''get_order''), ee_expected_task_status = Some COMPLETED,
      ee_expected_request_unit_status = Some COMPLETED, ee_expected_task_state_version = Some 2,
      ee_expected_request_unit_state_version = Some 2, ee_expected_gate_decision = Some GateAccept,
      ee_expected_gate_reason = None, ee_expected_validated_task_state_version = Some 1,
      ee_expected_tool_call_status = Some TC_SUCCEEDED, ee_expected_tool_calls = 1, ee_expected_observations = 1,
      ee_expected_model_calls = 2, ee_expected_presentation_model_calls = 1,
      ee_expected_message_content = str ''O-1234 ?'', ee_expected_tool_registry_version = str ''v1'',
      ee_expected_model_visible_toolset_hash = sample_toolset_hash, ee_trace_variant = VARIANT_SUCCESS,
      ee_required_trace_events = [OBSERVATION_RECORDED], ee_forbidden_trace_events = [TOOL_CALL_FAILED],
      ee_expected_event_counts = [\<lparr>tce_event_type = TOOL_CALL_CREATED, tce_count = 1\<rparr>],
      ee_applicable_critical_failures = [CF_01, CF_12]\<rparr>"

lemmas case_defs = case_message_def case_conversation_def case_run_def case_candidate_def case_understanding_def
  case_delta_def case_binding_def case_task_def case_unit_def case_transition_def case_gate_def case_call_def
  case_attempt_def case_observation_def case_manifest_def case_artifact_def

lemmas event_defs = case_trace_def case_event_def on_task_def on_call_def manifest_event_def blank_event_def

lemma case_fields:
  "ev_case_id case_evidence = str ''case''"
  "ev_observed_outcome case_evidence = OUTCOME_COMPLETED"
  "ev_trace_ref case_evidence = 300"
  "ev_trace_events case_evidence = case_trace"
  "ev_safe_observable case_evidence = Some \<lparr>so_case_id = str ''case'', so_http_status = 200, so_user_outcome = OUTCOME_COMPLETED, so_response_policy = str ''DETERMINISTIC_ORDER_SUMMARY_V1'', so_ordinary_trace_shape = [], so_model_calls = 2\<rparr>"
  "ev_run_record case_evidence = Some case_run"
  "ev_agent_result case_evidence = Some \<lparr>res_run_id = 5, res_outcome = OUTCOME_COMPLETED, res_message = case_reply\<rparr>"
  "ev_conversation_records case_evidence = [case_conversation]"
  "ev_message_records case_evidence = [case_message]"
  "ev_input_bindings case_evidence = [case_binding]"
  "ev_task_records case_evidence = [case_task]"
  "ev_request_units case_evidence = [case_unit]"
  "ev_conversation_task_links case_evidence = [\<lparr>ctl_schema_version = str ''conversation_task_link_record.p0.v1'', ctl_conversation_id = 100, ctl_task_id = 52, ctl_link_reason = str ''NEW_GOAL'', ctl_linked_at = sample_now, ctl_ended_at = None\<rparr>]"
  "ev_run_task_links case_evidence = [\<lparr>rl_schema_version = str ''run_task_link_record.p0.v1'', rl_run_id = 5, rl_task_id = 52, rl_base_task_state_version = None, rl_result_task_state_version = Some 2\<rparr>]"
  "ev_gate_decisions case_evidence = [case_gate]"
  "ev_tool_calls case_evidence = [case_call]"
  "ev_tool_attempts case_evidence = [case_attempt]"
  "ev_observations case_evidence = [case_observation]"
  "ev_context_manifests case_evidence = [case_manifest 62 60 None [], case_manifest 63 64 (Some \<lparr>tsr_task_id = 52, tsr_state_version = 1\<rparr>) [\<lparr>vr_record_ref = 90, vr_version = str ''s1''\<rparr>]]"
  "ev_toolset_artifacts case_evidence = [case_artifact]"
  "ev_request_understanding_records case_evidence = [case_understanding]"
  "ev_accepted_task_deltas case_evidence = [case_delta]"
  "ev_task_state_transitions case_evidence = [case_transition]"
  by (simp_all add: case_evidence_def)

lemma case_expected:
  "ee_case_id case_expectations = str ''case''"
  "ee_trusted_customer_id case_expectations = str ''cust-1''"
  "ee_expected_http_status case_expectations = 200"
  "ee_expected_outcome case_expectations = OUTCOME_COMPLETED"
  "ee_expected_run_status case_expectations = RUN_COMPLETED"
  "ee_expected_stop_reason case_expectations = STOP_GOAL_COMPLETED"
  "ee_expected_response_policy case_expectations = str ''DETERMINISTIC_ORDER_SUMMARY_V1''"
  "ee_request_understanding_required case_expectations = True"
  "ee_expected_binding_order_id case_expectations = Some (str ''O-1234'')"
  "ee_expected_next_move_order_id case_expectations = Some (str ''O-1234'')"
  "ee_expected_requested_tool_name case_expectations = Some (str ''get_order'')"
  "ee_expected_task_status case_expectations = Some COMPLETED"
  "ee_expected_request_unit_status case_expectations = Some COMPLETED"
  "ee_expected_task_state_version case_expectations = Some 2"
  "ee_expected_request_unit_state_version case_expectations = Some 2"
  "ee_expected_gate_decision case_expectations = Some GateAccept"
  "ee_expected_gate_reason case_expectations = None"
  "ee_expected_validated_task_state_version case_expectations = Some 1"
  "ee_expected_tool_call_status case_expectations = Some TC_SUCCEEDED"
  "ee_expected_tool_calls case_expectations = 1"
  "ee_expected_observations case_expectations = 1"
  "ee_expected_model_calls case_expectations = 2"
  "ee_expected_presentation_model_calls case_expectations = 1"
  "ee_expected_message_content case_expectations = str ''O-1234 ?''"
  "ee_expected_tool_registry_version case_expectations = str ''v1''"
  "ee_expected_model_visible_toolset_hash case_expectations = sample_toolset_hash"
  "ee_trace_variant case_expectations = VARIANT_SUCCESS"
  "ee_required_trace_events case_expectations = [OBSERVATION_RECORDED]"
  "ee_forbidden_trace_events case_expectations = [TOOL_CALL_FAILED]"
  "ee_expected_event_counts case_expectations = [\<lparr>tce_event_type = TOOL_CALL_CREATED, tce_count = 1\<rparr>]"
  "ee_applicable_critical_failures case_expectations = [CF_01, CF_12]"
  by (simp_all add: case_expectations_def)

lemma schema_sample: "schema_reason case_evidence case_expectations = None"
  by (simp add: schema_reason_def case_fields case_expected case_run_def)

lemma binding_sample: "input_binding_reason case_evidence case_expectations = None"
  by (simp add: input_binding_reason_def case_fields case_expected case_defs)

lemma task_sample: "task_state_reason case_evidence case_expectations = None"
  by (simp add: task_state_reason_def case_fields case_expected case_defs)

lemma provenance_sample: "v2_source_provenance_reason case_evidence = None"
proof -
  have "take 6 (str ''O-1234 ?'') = str ''O-1234''" "length (str ''O-1234 ?'') = 8" by (simp_all add: str_def)
  moreover have "py_in s s" for s using py_in_append_middle[of s "[]" "[]"] by simp
  ultimately show ?thesis
    by (simp add: v2_source_provenance_reason_def v2_evidence_is_active_def case_fields case_defs
        v2_source_span_is_valid_def)
qed

lemma transition_sample: "v2_task_transition_graph_reason case_evidence = None"
  by (simp add: v2_task_transition_graph_reason_def v2_evidence_is_active_def case_fields case_defs
      task_history_reason_def dt_less_def adjacent_def)

lemma graph_sample: "v2_request_understanding_graph_reason case_evidence case_expectations = None"
  unfolding v2_request_understanding_graph_reason_def provenance_sample transition_sample case_fields
  by (simp add: case_expected case_defs is_accept_def Let_def)

lemma understanding_sample: "request_understanding_reason case_evidence case_expectations = None"
  unfolding request_understanding_reason_def graph_sample case_fields
  by (simp add: case_expected case_defs is_accept_def Let_def)

lemma observation_events: "events_of OBSERVATION_RECORDED case_evidence = [(case_event 215 OBSERVATION_RECORDED)\<lparr>te_observation_ref := Some 90\<rparr>]"
  by (simp add: events_of_def case_fields event_defs)

lemma logical_sample: "v2_logical_observation_graph_reason case_evidence = None"
  unfolding v2_logical_observation_graph_reason_def observation_events
  by (simp add: case_fields case_defs dict_by_distinct)

lemma sample_case_observation_canonical: "canonical_observation case_observation"
  by (simp add: canonical_observation_def canonical_projection_def accepts_iff new_order_observation_def
      new_order_summary_projection_def new_order_line_summary_def construct_Inr_iff case_observation_def dt_less_def
      sample_now_def OrderId_def is_09_def str_def)

lemma persisted_sample: "observation_persistence_graph_reason case_evidence = None"
  using sample_case_observation_canonical
  by (simp add: observation_persistence_graph_reason_def logical_sample observation_canonicalization_reason_def case_fields)

lemma observation_sample: "observation_reason case_evidence case_expectations = None"
  unfolding observation_reason_def persisted_sample case_fields
  by (simp add: case_expected case_defs)

lemma attempts_sample: "tool_attempt_graph_reason case_evidence = None"
  by (simp add: tool_attempt_graph_reason_def case_fields case_defs call_attempts_reason_def attempt_open_def
      final_outcomes_def dt_less_def adjacent_def)
lemma manifest_events: "events_of CONTEXT_MANIFEST_RECORDED case_evidence
    = [manifest_event 203 62 60 ''REQUEST_UNDERSTANDING'', manifest_event 216 63 64 ''PRESENTATION'']"
  by (simp add: events_of_def case_fields event_defs)

lemma manifest_fields [simp]:
  "te_context_manifest_id (manifest_event n m c p) = Some m" "te_model_call_id (manifest_event n m c p) = Some c"
  "te_model_call_purpose (manifest_event n m c p) = Some (str p)"
  "te_tool_registry_version (manifest_event n m c p) = Some (str ''v1'')"
  "te_model_visible_toolset_hash (manifest_event n m c p) = Some sample_toolset_hash"
  by (simp_all add: manifest_event_def)

lemma case_manifests: "dict_by cm_context_manifest_id (ev_context_manifests case_evidence)
   = map (\<lambda>m. (cm_context_manifest_id m, m)) (ev_context_manifests case_evidence)"
  by (rule dict_by_distinct) (simp add: case_fields case_manifest_def)

lemma closed_sample: "tool_graph_is_closed case_evidence case_expectations"
  unfolding tool_graph_is_closed_def unfolding case_manifests unfolding case_fields
  by (simp add: case_expected case_defs Let_def)

lemma tool_call_sample: "tool_call_reason case_evidence case_expectations = None"
  unfolding tool_call_reason_def attempts_sample case_fields
  using closed_sample by (simp add: case_expected case_defs)

lemma manifest_event_sample:
  assumes "event \<in> set (events_of CONTEXT_MANIFEST_RECORDED case_evidence)"
  shows "manifest_event_reason case_evidence case_expectations case_run event = None"
proof -
  have d: "dict_by oo_observation_id (ev_observations case_evidence) = [(90, case_observation)]"
    by (subst dict_by_distinct) (simp_all add: case_fields case_observation_def)
  from assms show ?thesis
    unfolding manifest_events manifest_event_reason_def unfolding case_manifests d unfolding case_fields
    by (auto simp: case_expected case_defs Let_def REQUEST_UNDERSTANDING_PURPOSE_def)
qed

lemma purposes_sample:
  "mset (map te_model_call_purpose (events_of CONTEXT_MANIFEST_RECORDED case_evidence)) = expected_purposes case_expectations"
  by (simp add: manifest_events expected_purposes_def case_expected REQUEST_UNDERSTANDING_PURPOSE_def
      PRESENTATION_PURPOSE_def)

lemma manifests_sample: "context_manifest_graph_reason case_evidence case_expectations = None"
proof -
  have f: "find_reason (manifest_event_reason case_evidence case_expectations case_run)
      (events_of CONTEXT_MANIFEST_RECORDED case_evidence) = None"
    using manifest_event_sample by simp
  show ?thesis
    unfolding context_manifest_graph_reason_def
    by (simp add: case_fields case_expected f Let_def)
       (simp add: manifest_events case_defs event_fields_missing_def REQUEST_UNDERSTANDING_PURPOSE_def
         PRESENTATION_PURPOSE_def dict_of_items_distinct expected_purposes_def case_expected)
qed

lemma replay_sample: "toolset_replay_reason case_evidence case_expectations = None"
  unfolding toolset_replay_reason_def manifest_events case_fields
  by (simp add: case_expected case_defs Let_def sample_hash(1))

lemma conversation_sample: "conversation_graph_reason case_evidence case_expectations = None"
  unfolding conversation_graph_reason_def provenance_sample case_fields
  by (simp add: case_expected case_defs Let_def)

lemma unit_observation_sample: "request_unit_observation_graph_reason case_evidence = None"
  unfolding request_unit_observation_graph_reason_def case_fields
  by (simp add: case_defs Let_def)

lemma persistence_sample: "persistence_reason case_evidence case_expectations = None"
  unfolding persistence_reason_def conversation_sample graph_sample transition_sample unit_observation_sample
    persisted_sample manifests_sample attempts_sample case_fields
  using closed_sample by (simp add: case_expected case_defs Let_def)

subsection \<open>The reply\<close>

lemma digits_small: "set (nat_digits n) \<subseteq> {48..57}"
  by (induction n rule: nat_digits.induct) (subst nat_digits.simps, auto)

lemma strftime_small: "set (strftime_minutes t) \<subseteq> {..<90}"
proof -
  have "set (nat_digits n) \<subseteq> {..<90}" "set (two_digits n) \<subseteq> {..<90}" for n
    using digits_small[of n] by (auto simp: two_digits_def)
  moreover have "set (str ''-'') \<subseteq> {..<90}" "set (str '' '') \<subseteq> {..<90}" "set (str '':'') \<subseteq> {..<90}"
    "set (str '' UTC'') \<subseteq> {..<90}" by (simp_all add: str_def)
  ultimately show ?thesis unfolding strftime_minutes_def Let_def by (auto split: prod.splits)
qed

lemma reply_letters: "99 \<notin> set case_reply" "114 \<notin> set case_reply"
proof -
  have join: "set (intersperse_concat sep parts) \<subseteq> set sep \<union> \<Union> (set ` set parts)" for sep parts
    by (induction sep parts rule: intersperse_concat.induct) auto
  let ?s = "fields_of (oo_normalized_value case_observation)"
  have "99 \<notin> set (field_values ?s [24050, 21457, 36135] f)" "114 \<notin> set (field_values ?s [24050, 21457, 36135] f)" for f
    using strftime_small[of "os_ordered_at ?s"] strftime_small[of "os_status_updated_at ?s"] digits_small[of 2]
    by (cases f; auto simp: field_values_def case_observation_def line_item_text_def int_repr_def str_def)+
  then show "99 \<notin> set case_reply" "114 \<notin> set case_reply"
    unfolding case_reply_def message_parts_def using join by (fastforce simp: opening_text_def)+
qed

lemma reply_hides: "fragment \<in> set [str ''cust-1'', str ''customer_id'', str ''raw_payload'', str ''raw_result''] \<Longrightarrow> \<not> py_in fragment case_reply"
proof
  assume f: "fragment \<in> set [str ''cust-1'', str ''customer_id'', str ''raw_payload'', str ''raw_result'']" and "py_in fragment case_reply"
  then obtain i where "occurs_at fragment case_reply i" by (auto simp: py_in_iff)
  then have "set fragment \<subseteq> set case_reply" by (metis occurs_at_split set_append sup.cobounded1 sup.coboundedI2)
  moreover have "99 \<in> set fragment \<or> 114 \<in> set fragment" using f by (auto simp: str_def)
  ultimately show False using reply_letters by blast
qed

lemma identity_sample: "identity_boundary_reason case_evidence case_expectations = None"
  using reply_hides[of "str ''cust-1''"]
  by (simp add: identity_boundary_reason_def case_fields case_expected case_defs)

lemma no_fixed_message: "fixed_message (str ''DETERMINISTIC_ORDER_SUMMARY_V1'') = None"
  by (simp add: fixed_message_def FIXED_MESSAGES_def)

lemma disclosure_sample: "disclosure_reason case_evidence case_expectations = None"
  using reply_hides by (simp add: disclosure_reason_def case_fields case_expected forbidden_fragments_def no_fixed_message)

lemma error_sample: "error_mapping_reason case_evidence case_expectations = None"
  by (simp add: error_mapping_reason_def case_fields case_expected no_fixed_message case_run_def)

lemma reply_approved: "case_reply \<in> set (approved_renderer_messages case_observation)"
  unfolding approved_iff case_reply_def
  by (intro exI conjI, rule_tac [3] refl) (simp_all add: new_presentation_plan_def construct_Inr_iff presentation_fields_def
      case_observation_def STATUS_LABELS_def)

lemma renderer_sample: "renderer_fact_reason case_evidence case_expectations = None"
  using reply_approved by (simp add: renderer_fact_reason_def case_fields case_expected) (simp add: case_observation_def)

section \<open>The trace of the graded case\<close>

lemma cardinality_sample: "trace_safety_cardinality_reason case_trace VARIANT_SUCCESS = None"
proof -
  have a: "map (event_count case_trace) SAFETY_CRITICAL_TRACE_TYPES = [1,1,2,1,1,1,1,2,1,1,1,1,1,0,0,0,1,1,1,1,1,1]"
    unfolding critical_type_list by (simp add: event_count_def event_defs)
  have b: "map (expected_safety_event_count VARIANT_SUCCESS) SAFETY_CRITICAL_TRACE_TYPES = [1,1,2,1,1,1,1,2,1,1,1,1,1,0,0,0,1,1,1,1,1,1]"
    unfolding critical_type_list
    by (simp add: expected_safety_event_count_def critical_type_iff edge_defs)
  from a b have "map (event_count case_trace) SAFETY_CRITICAL_TRACE_TYPES = map (expected_safety_event_count VARIANT_SUCCESS) SAFETY_CRITICAL_TRACE_TYPES" by simp
  then show ?thesis by (auto simp: trace_safety_cardinality_reason_def list_ex_iff simp del: first_reason.simps)
qed

lemma event_kinds [simp]:
  "te_event_type (case_event n t) = t" "te_model_call_purpose (case_event n t) = None"
  "te_event_type (on_task e) = te_event_type e" "te_model_call_purpose (on_task e) = te_model_call_purpose e"
  "te_event_type (on_call s e) = te_event_type e" "te_model_call_purpose (on_call s e) = te_model_call_purpose e"
  "te_event_type (manifest_event n m c p) = CONTEXT_MANIFEST_RECORDED"
  by (simp_all add: event_defs)

text \<open>The index of a node only looks at the type and the purpose of the events.\<close>

definition kind_matches :: "trace_node \<Rightarrow> trace_event_type \<times> pystr option \<Rightarrow> bool" where
  "kind_matches n k \<longleftrightarrow> fst k = tn_event_type n
     \<and> (tn_model_call_purpose n = None \<or> snd k = tn_model_call_purpose n)"

lemma index_kinds:
  "trace_node_index events n = (let matches = map fst (filter (\<lambda>(i, k). kind_matches n k)
      (enumerate 0 (map (\<lambda>e. (te_event_type e, te_model_call_purpose e)) events)))
     in if length matches < tn_occurrence n then None else Some (matches ! (tn_occurrence n - 1)))"
proof -
  have "filter (\<lambda>i. node_matches n (events ! i)) [0..<length events] = map fst (filter (\<lambda>(i, k). kind_matches n k)
      (enumerate 0 (map (\<lambda>e. (te_event_type e, te_model_call_purpose e)) events)))"
  proof (induction events rule: rev_induct)
    case (snoc e es)
    have "filter (\<lambda>i. node_matches n ((es @ [e]) ! i)) [0..<length es] = filter (\<lambda>i. node_matches n (es ! i)) [0..<length es]"
      by (rule filter_cong) (simp_all add: nth_append)
    with snoc show ?case
      by (simp add: enumerate_append_eq node_matches_def kind_matches_def)
  qed simp
  then show ?thesis by (simp only: trace_node_index_def)
qed

lemma precedence_sample: "trace_precedence_reason case_trace VARIANT_SUCCESS = None"
  by (simp add: trace_precedence_reason_def edge_defs index_kinds kind_matches_def case_trace_def del: find_reason_None)

subsection \<open>References\<close>

lemma trace_all: "list_all P (ev_trace_events case_evidence) \<longleftrightarrow> list_all P case_trace"
  by (simp add: case_fields)

lemma known_sample: "list_all (event_references_known case_evidence case_expectations) case_trace"
  by (simp add: case_trace_def)
    (simp add: event_references_known_def case_fields case_expected event_defs case_defs Let_def)

lemma lifecycle_sample: "tool_lifecycle_references_match case_trace [case_call]"
  by (simp add: tool_lifecycle_references_match_def lifecycle_status_by_type_def Let_def case_trace_def)
    (simp add: event_defs case_call_def)

lemma normalized_sample: "normalized_tool_result_matches_typed_records case_evidence"
proof -
  have n: "normalized_events case_trace = [(14, (case_event 214 TOOL_RESULT_NORMALIZED)
      \<lparr>te_tool_call_id := Some 70, te_safe_tool_outcome := Some TR_SUCCESS\<rparr>)]"
    by (simp add: normalized_events_def case_trace_def)
  show ?thesis
    unfolding normalized_tool_result_matches_typed_records_def normalized_by_call_def case_fields n Let_def
    by (simp add: normalized_call_matches_def case_call_def case_attempt_def terminal_outcomes_def event_defs)
qed

lemma events_sample:
  "events_of RUN_STOPPED case_evidence = [(case_event 220 RUN_STOPPED)\<lparr>te_user_outcome := Some OUTCOME_COMPLETED,
     te_stop_reason := Some STOP_GOAL_COMPLETED\<rparr>]"
  "events_of GATE_DECISION_RECORDED case_evidence = [(case_event 210 GATE_DECISION_RECORDED)
     \<lparr>te_gate_decision := Some GateAccept, te_validated_task_state_version := Some 1\<rparr>]"
  "events_of TASK_DELTA_ACCEPTED case_evidence = [on_task ((case_event 206 TASK_DELTA_ACCEPTED)
     \<lparr>te_accepted_delta_ref := Some 51, te_message_ref := Some 7\<rparr>)]"
  "events_of INPUT_BINDING_RECORDED case_evidence = [(case_event 207 INPUT_BINDING_RECORDED)\<lparr>te_input_binding_ref := Some 54\<rparr>]"
  "events_of MESSAGE_ACCEPTED case_evidence = [(case_event 200 MESSAGE_ACCEPTED)\<lparr>te_message_ref := Some 7\<rparr>]"
  "events_of TASK_STATE_CHANGED case_evidence = [on_task (case_event 208 TASK_STATE_CHANGED), on_task (case_event 219 TASK_STATE_CHANGED)]"
  by (simp_all add: events_of_def case_fields event_defs)

lemma projection_sample: "trace_projection_fields_match_typed_records case_evidence case_expectations"
proof -
  have "gate_projection case_evidence"
    unfolding gate_projection_def events_sample by (simp add: event_defs case_fields case_gate_def)
  then show ?thesis
    unfolding trace_projection_fields_match_typed_records_def events_sample trace_all
    by (simp add: case_fields case_expected case_run_def case_trace_def) (simp add: event_defs)
qed

lemma references_sample: "trace_references_match_typed_records case_evidence case_expectations"
proof -
  have p: "dict_of_items (map (\<lambda>event. (te_context_manifest_id event, te_model_call_purpose event))
      (events_of CONTEXT_MANIFEST_RECORDED case_evidence))
    = [(Some 62, Some (str ''REQUEST_UNDERSTANDING'')), (Some 63, Some (str ''PRESENTATION''))]"
    by (simp add: manifest_events dict_of_items_distinct)
  have d: "dict_by ad_accepted_delta_id [case_delta] = [(51, case_delta)]" "dict_by ru_request_unit_id [case_unit] = [(53, case_unit)]"
    by (simp_all add: dict_by_distinct case_defs)
  have delta: "list_all (accepted_delta_event_matches case_evidence) (events_of TASK_DELTA_ACCEPTED case_evidence)"
    unfolding events_sample by (simp add: accepted_delta_event_matches_def case_fields d event_defs) (simp add: case_defs)
  have gate: "gate_projection case_evidence"
    unfolding gate_projection_def events_sample by (simp add: event_defs case_fields case_gate_def)
  have known: "list_all (event_references_known case_evidence case_expectations) (ev_trace_events case_evidence)"
    "tool_lifecycle_references_match (ev_trace_events case_evidence) (ev_tool_calls case_evidence)"
    using known_sample lifecycle_sample by (simp_all add: case_fields)
  note ok = graph_sample unit_observation_sample persisted_sample attempts_sample known delta purposes_sample
    normalized_sample projection_sample gate
  show ?thesis
    unfolding trace_references_match_typed_records_def Let_def p
    by (intro conjI; (rule ok | simp add: case_fields manifest_events events_sample observation_events case_defs event_defs
         REQUEST_UNDERSTANDING_PURPOSE_def))
qed

lemma completeness_sample: "trace_completeness_reason case_evidence case_expectations = None"
proof -
  have times: "map (instant \<circ> te_occurred_at) case_trace = replicate 22 1000" by (simp add: event_defs sample_now_def numeral_eq_Suc)
  have ids: "map te_trace_event_id case_trace = [200..<222]" by (simp add: event_defs upt_conv_Cons)
  have d: "distinct (map te_trace_event_id case_trace)" unfolding ids by (rule distinct_upt)
  have run: "\<not> list_ex (\<lambda>event. te_run_id event \<noteq> 5) case_trace" "\<not> list_ex (\<lambda>event. te_case_id event \<notin> {None, Some (str ''case'')}) case_trace"
    by (simp_all add: event_defs)
  have types: "OBSERVATION_RECORDED \<in> te_event_type ` set case_trace" "TOOL_CALL_FAILED \<notin> te_event_type ` set case_trace"
    "event_count case_trace TOOL_CALL_CREATED = 1" "case_trace \<noteq> []"
    by (simp_all add: case_trace_def event_count_def)
  show ?thesis
    unfolding trace_completeness_reason_def events_sample
    by (simp add: case_fields case_expected types event_count_reason_def cardinality_sample precedence_sample references_sample
        d times Let_def del: map_map) (use run in \<open>simp add: case_run_def case_event_def blank_event_def\<close>)
qed

subsection \<open>The evidence is canonical and every grader passes\<close>

lemma O1234: "OrderId (str ''O-1234'')"
  by (simp add: OrderId_def is_09_def str_def)

lemma case_records_valid:
  "accepts new_agent_run_record case_run" "accepts new_conversation_record case_conversation"
  "accepts new_message_record case_message" "accepts new_input_binding case_binding"
  "accepts new_task_record case_task" "accepts new_request_unit_record case_unit"
  "accepts new_gate_decision case_gate" "accepts new_tool_call_record case_call"
  "accepts new_tool_attempt_record case_attempt" "accepts new_accepted_task_delta case_delta"
  "accepts new_task_state_transition case_transition"
  by (simp_all add: accepts_iff construct_Inr_iff construct_with_Inr_iff case_defs sample_now_def get_order_name O1234 Let_def
      new_agent_run_record_def run_lifecycle_is_consistent_def run_is_active_def new_conversation_record_def
      new_message_record_def MessageContent_def new_input_binding_def new_task_record_def new_request_unit_record_def
      new_gate_decision_def decision_matches_checks_def gate_checks_def new_tool_call_record_def tool_call_lifecycle_def
      terminal_statuses_def requires_attempt_def new_tool_attempt_record_def tool_attempt_lifecycle_def dt_less_def
      new_accepted_task_delta_def new_task_state_transition_def)

lemma case_trace_valid: "list_all (\<lambda>t. accepts new_trace_event t
    \<and> opt_all (accepts new_timing_and_usage_summary) (te_timing_and_usage_summary t)) case_trace"
  using sample_hash(2)
  by (simp add: event_defs accepts_iff new_trace_event_def construct_Inr_iff sample_now_def trace_event_guards_def
      TOOL_TRACE_STATUS_def)

lemma case_understanding_valid: "canonical_ru_record case_understanding"
  by (simp add: canonical_ru_record_def canonical_durable_contextualization_def canonical_durable_candidate_def accepts_iff
      new_ru_record_def record_graph_guards_def is_accept_def new_durable_contextualization_def bounded_unique_refs_def
      new_durable_task_delta_candidate_def new_durable_input_candidate_def new_candidate_validation_record_def
      construct_Inr_iff case_understanding_def case_candidate_def sample_now_def Let_def)

lemma case_manifest_valid:
  "opt_all (\<lambda>t. 1 \<le> tsr_state_version t) task_ref \<Longrightarrow> list_all (\<lambda>r. NonEmptyString (vr_version r)) refs \<Longrightarrow>
     canonical_manifest (case_manifest m c task_ref refs)"
  using sample_hash(2)
  by (simp add: canonical_manifest_def accepts_iff new_context_manifest_def construct_Inr_iff case_manifest_def sample_now_def)

lemma case_artifact_valid: "accepts new_toolset_artifact case_artifact" "canonical_tool_spec get_order_tool_spec"
  using sample_hash
  by (simp_all add: accepts_iff new_toolset_artifact_def construct_with_Inr_iff hash_matches_projection_def case_artifact_def
      canonical_tool_spec_def get_order_spec_valid)

lemma first_day: "ord2ymd 1 = (1, 1, 1)"
proof -
  have "days_before_year (Suc (Suc 0)) = 365" "days_before_year 1 = 0" by (simp_all add: days_before_year_def)
  then have y: "year_of_ordinal 1 = 1" by (simp add: year_of_ordinal_def upt_conv_Cons)
  have "days_before_month 1 (Suc (Suc 0)) = 31" "days_before_month 1 1 = 0" by (simp_all add: days_before_month_def days_in_month_def upt_conv_Cons)
  then have "month_of_day 1 1 = 1" by (simp add: month_of_day_def upt_conv_Cons)
  with y show ?thesis by (simp add: ord2ymd_def days_before_year_def days_before_month_def Let_def)
qed

lemma first_minute: "length (strftime_minutes (utc_us 0)) = 17" "length (strftime_minutes (utc_us 60)) = 17"
  by (simp_all add: strftime_minutes_def first_day[simplified] nat_digits.simps two_digits_def)

lemma case_reply_valid: "accepts new_agent_run_result \<lparr>res_run_id = 5, res_outcome = OUTCOME_COMPLETED, res_message = case_reply\<rparr>"
proof -
  have "1 \<le> length case_reply \<and> length case_reply \<le> 4000"
    by (simp add: case_reply_def message_parts_def presentation_fields_def opening_text_def field_values_def
        case_observation_def line_item_text_def int_repr_def nat_digits.simps first_minute)
  then show ?thesis by (simp add: accepts_iff new_agent_run_result_def construct_Inr_iff)
qed

lemma case_evidence_valid: "accepts new_eval_evidence case_evidence"
  by (simp add: accepts_iff new_eval_evidence_def construct_Inr_iff evidence_sets_are_unambiguous_def case_fields case_defs)

lemma case_links_valid:
  "list_all (accepts new_conversation_task_link_record) (ev_conversation_task_links case_evidence)"
  "list_all (accepts new_run_task_link_record) (ev_run_task_links case_evidence)"
  "opt_all (\<lambda>s. accepts new_safe_case_observable s
     \<and> list_all (accepts new_safe_trace_shape_entry) (so_ordinary_trace_shape s)) (ev_safe_observable case_evidence)"
  by (simp_all add: case_fields accepts_iff construct_Inr_iff new_conversation_task_link_record_def
      new_run_task_link_record_def new_safe_case_observable_def sample_now_def)

lemma case_canonical: "canonical_eval_evidence case_evidence"
  unfolding canonical_eval_evidence_def
  using case_evidence_valid case_links_valid case_trace_valid case_records_valid case_reply_valid case_understanding_valid
    case_artifact_valid sample_case_observation_canonical
  by (simp add: case_fields case_manifest_valid) (simp add: case_artifact_def case_fields)

lemma case_passes: "check_passes case_evidence case_expectations name"
  by (simp add: check_passes_def grader_checks_def schema_sample identity_sample understanding_sample binding_sample
      task_sample tool_call_sample observation_sample disclosure_sample renderer_sample error_sample completeness_sample
      persistence_sample replay_sample)
end
