(* ===== verification/Grading_Properties.thy ===== *)
theory Grading_Properties
  imports Sample_Case
begin

section \<open>Properties of the graders\<close>

text \<open>
  The properties of the graders and of the verdict, on the sample case.
\<close>

subsection \<open>The verdict of a case\<close>

text \<open>C28. A case passes exactly when it should: grading gives PASS exactly for a closed configuration of graders,
  canonical evidence and given expectations whose checks all raise no reason, and then with one passing result per
  configured grader, in order, and no critical failure.\<close>

theorem case_passes_iff:
  "grade_evidence names evidence expectations = Inr out \<and> go_status out = RESULT_PASS \<longleftrightarrow>
     configuration_closed names
     \<and> (\<exists>e x extra. evidence = Obj e [] \<and> canonical_eval_evidence e \<and> expectations = Obj x extra
          \<and> list_all (check_passes e x) names)
     \<and> out = \<lparr>go_status = RESULT_PASS, go_grader_results = map passed names, go_critical_failures = []\<rparr>"
  by (rule passes_iff)

theorem case_passes_iff_witness:
  "grade_evidence GRADER_NAMES (Obj case_evidence []) (Obj case_expectations [])
     = Inr \<lparr>go_status = RESULT_PASS, go_grader_results = map passed GRADER_NAMES, go_critical_failures = []\<rparr>"
proof -
  have "configuration_closed GRADER_NAMES"
    using distinct_GRADER_NAMES by (simp add: configuration_closed_def registry_names) (simp add: GRADER_NAMES_def)
  moreover have "list_all (check_passes case_evidence case_expectations) GRADER_NAMES"
    using case_passes by (simp add: list_all_iff)
  ultimately show ?thesis
    using case_passes_iff[of GRADER_NAMES "Obj case_evidence []" "Obj case_expectations []"
        "\<lparr>go_status = RESULT_PASS, go_grader_results = map passed GRADER_NAMES, go_critical_failures = []\<rparr>"] case_canonical
    by blast
qed

text \<open>A graded case can always be stored: whatever the evidence, the status, the verdicts and the critical failures
  of an outcome satisfy every rule of \<open>EvalResultRecord\<close>.\<close>

theorem graded_result_is_storable:
  assumes "grade_evidence names evidence expectations = Inr out"
    and "NonEmptyString schema_version" "NonEmptyString case_id" "NonEmptyString lane" "1 \<le> attempt" "is_utc completed_at"
  shows "accepts new_eval_result_record
    \<lparr>er_schema_version = schema_version, er_eval_run_id = run_id, er_case_id = case_id, er_lane = lane, er_attempt = attempt,
     er_status = go_status out, er_grader_results = go_grader_results out, er_critical_failures = go_critical_failures out,
     er_observed_outcome = Some outcome, er_trace_ref = Some trace, er_version_manifest = versions,
     er_latency_summary = latency, er_usage_summary = usage, er_completed_at = completed_at\<rparr>"
  using assms by (auto simp: accepts_iff intro!: graded_result_valid)

definition sample_versions :: eval_version_manifest where
  "sample_versions = \<lparr>vm_dataset_version = str ''v1'', vm_candidate_version = str ''c1'', vm_baseline_version = None,
     vm_fixture_versions = [str ''f1''], vm_model_config_version = None, vm_prompt_version = None,
     vm_tool_registry_version = None, vm_corpus_version = None, vm_runtime_version = None\<rparr>"

theorem graded_result_is_storable_witness:
  "\<exists>out. grade_evidence GRADER_NAMES (Obj case_evidence []) (Obj case_expectations []) = Inr out
     \<and> accepts new_eval_result_record
    \<lparr>er_schema_version = str ''v1'', er_eval_run_id = 1, er_case_id = str ''case'', er_lane = str ''lane'', er_attempt = 1,
     er_status = go_status out, er_grader_results = go_grader_results out, er_critical_failures = go_critical_failures out,
     er_observed_outcome = Some OUTCOME_COMPLETED, er_trace_ref = Some 300, er_version_manifest = sample_versions,
     er_latency_summary = None, er_usage_summary = None, er_completed_at = sample_now\<rparr>"
proof -
  have "configuration_closed GRADER_NAMES"
    using distinct_GRADER_NAMES by (simp add: configuration_closed_def registry_names) (simp add: GRADER_NAMES_def)
  then obtain out where out: "grade_evidence GRADER_NAMES (Obj case_evidence []) (Obj case_expectations []) = Inr out"
    using grade_evidence_total by blast
  from graded_result_is_storable[OF this, of "str ''v1''" "str ''case''" "str ''lane''" 1 sample_now]
  show ?thesis using out by (auto simp: NonEmptyString_def sample_now_def)
qed

subsection \<open>The trace\<close>

text \<open>C29. A complete trace has no room for anything else: the events of a trace the completeness grader accepts, apart
  from the start of request understanding, are one by one the nodes of the sequence of its variant, in this order, each
  with its type and, for a manifest, the purpose of its model call.\<close>

theorem complete_trace_is_the_sequence:
  assumes "TraceCompletenessGrader (Obj e extra) (Obj x extra') = Inr (passed (str ''TraceCompletenessGrader''))"
  shows "list_all2 node_matches (critical_sequence (ee_trace_variant x)) (critical_events (ev_trace_events e))"
proof -
  have "trace_completeness_reason e x = None"
    using assms by (auto simp: TraceCompletenessGrader_def grade_as_passed)
  then have "trace_safety_cardinality_reason (ev_trace_events e) (ee_trace_variant x) = None"
    "trace_precedence_reason (ev_trace_events e) (ee_trace_variant x) = None"
    by (auto simp: trace_completeness_reason_def Let_def split: if_splits option.splits)
  then show ?thesis by (rule accepted_trace_is_sequence)
qed

theorem complete_trace_is_the_sequence_witness:
  "list_all2 node_matches (critical_sequence VARIANT_SUCCESS) (critical_events case_trace)"
proof -
  have "TraceCompletenessGrader (Obj case_evidence []) (Obj case_expectations []) = Inr (passed (str ''TraceCompletenessGrader''))"
    unfolding TraceCompletenessGrader_def grade_as_passed using case_canonical completeness_sample by blast
  from complete_trace_is_the_sequence[OF this] show ?thesis by (simp add: case_fields case_expected)
qed

subsection \<open>The reply\<close>

text \<open>C30. The renderer and its grader agree, though each has its own literals and its own way to build the text: for
  canonical evidence of a model-visible observation, the messages the grader approves are exactly those the renderer
  writes for some presentation plan.\<close>

theorem approved_messages_are_rendered:
  assumes "canonical_observation ob" "oo_visibility ob = VIS_MODEL_VISIBLE"
  shows "message \<in> set (approved_renderer_messages ob) \<longleftrightarrow> (\<exists>plan. render_order_summary (Obj ob []) plan = Inr message)"
proof -
  obtain summary where s: "oo_normalized_value ob = Obj summary []" "list_all is_exact_instance (os_line_items summary)"
    using assms(1) by (auto simp: canonical_observation_def canonical_projection_def is_exact_instance_def list_all_iff split: pyobj.splits)
  have safe: "validate_presentation_plan (Obj p []) (Obj ob []) = Inr p" if "new_presentation_plan p = Inr p" for p
    using that s assms by (simp add: validate_presentation_plan_def canonical_observation_def accepts_iff
        new_order_observation_def construct_Inr_iff)
  let ?text = "\<lambda>label p. intersperse_concat [10] (message_parts (fields_of (oo_normalized_value ob)) label p)"
  have render: "render_order_summary (Obj ob []) plan = Inr message \<longleftrightarrow> (\<exists>label p. plan = Obj p []
      \<and> STATUS_LABELS (os_status (fields_of (oo_normalized_value ob))) = Some label
      \<and> new_presentation_plan p = Inr p \<and> message = ?text label p)" for plan
  proof
    assume r: "render_order_summary (Obj ob []) plan = Inr message"
    then obtain p where v: "validate_presentation_plan plan (Obj ob []) = Inr p"
      by (auto simp: render_order_summary_def res_bind_Inr_iff)
    then have "plan = Obj p []" "new_presentation_plan p = Inr p" by (auto elim: validate_presentation_plan_Inr)
    with render_total[OF v] r show "\<exists>label p. plan = Obj p []
      \<and> STATUS_LABELS (os_status (fields_of (oo_normalized_value ob))) = Some label
      \<and> new_presentation_plan p = Inr p \<and> message = ?text label p" by auto
  next
    assume "\<exists>label p. plan = Obj p [] \<and> STATUS_LABELS (os_status (fields_of (oo_normalized_value ob))) = Some label
      \<and> new_presentation_plan p = Inr p \<and> message = ?text label p"
    then obtain label p where p: "plan = Obj p []" "STATUS_LABELS (os_status (fields_of (oo_normalized_value ob))) = Some label"
      "new_presentation_plan p = Inr p" "message = ?text label p" by blast
    then show "render_order_summary (Obj ob []) plan = Inr message" using render_total[OF safe[OF p(3)]] by auto
  qed
  show ?thesis unfolding approved_iff render by blast
qed

theorem approved_messages_are_rendered_witness:
  "\<exists>plan. render_order_summary (Obj case_observation []) plan = Inr case_reply"
  using approved_messages_are_rendered[OF sample_case_observation_canonical, of case_reply] reply_approved
  by (simp add: case_observation_def)

text \<open>C31. A case that passes was about the order the customer asked for: with the identity, request understanding,
  observation and renderer graders configured, a passing case with a Task, a required understanding and one expected
  observation has one message, of the trusted customer's conversation and with the expected content, and one observation,
  whose order number occurs in this message and in the reply.\<close>

theorem passing_case_answers_the_request:
  assumes "grade_evidence names (Obj e []) (Obj x extra) = Inr out" "go_status out = RESULT_PASS"
    and "set (map str [''IdentityBoundaryGrader'', ''RequestUnderstandingGrader'', ''ObservationGrader'', ''RendererFactGrader''])
      \<subseteq> set names"
    and "ee_request_understanding_required x" "ee_expected_task_status x \<noteq> None" "ee_expected_observations x = 1"
      "ee_expected_response_policy x = str ''DETERMINISTIC_ORDER_SUMMARY_V1''"
  shows "\<exists>conversation message ob result. ev_conversation_records e = [conversation] \<and> ev_message_records e = [message]
    \<and> ev_observations e = [ob] \<and> ev_agent_result e = Some result
    \<and> cr_owner_customer_id conversation = ee_trusted_customer_id x \<and> mr_content message = ee_expected_message_content x
    \<and> py_in (os_order_number (fields_of (oo_normalized_value ob))) (mr_content message)
    \<and> py_in (os_order_number (fields_of (oo_normalized_value ob))) (res_message result)"
proof -
  have "list_all (check_passes e x) names" using assms(1,2) passes_iff[of names "Obj e []"] by auto
  then have pass: "check_passes e x (str name)" if "str name \<in> set names" for name using that by (auto simp: list_all_iff)
  have "identity_boundary_reason e x = None" "request_understanding_reason e x = None" "observation_reason e x = None"
    "renderer_fact_reason e x = None"
    using assms(3) pass[of "''IdentityBoundaryGrader''"] pass[of "''RequestUnderstandingGrader''"]
      pass[of "''ObservationGrader''"] pass[of "''RendererFactGrader''"] by (simp_all add: check_passes_def grader_checks_def)
  note R = identity_passes[OF this(1)] understanding_passes[OF this(2) assms(4,5)] observation_passes[OF this(3) assms(6)]
    renderer_passes[OF this(4) assms(7)]
  from R show ?thesis by auto
qed

theorem passing_case_answers_the_request_witness:
  "py_in (str ''O-1234'') (mr_content case_message) \<and> py_in (str ''O-1234'') case_reply"
proof -
  have closed: "configuration_closed GRADER_NAMES"
    using distinct_GRADER_NAMES by (simp add: configuration_closed_def registry_names) (simp add: GRADER_NAMES_def)
  have "grade_evidence GRADER_NAMES (Obj case_evidence []) (Obj case_expectations [])
     = Inr \<lparr>go_status = RESULT_PASS, go_grader_results = map passed GRADER_NAMES, go_critical_failures = []\<rparr>"
    using passes_iff[of GRADER_NAMES "Obj case_evidence []" "Obj case_expectations []"
        "\<lparr>go_status = RESULT_PASS, go_grader_results = map passed GRADER_NAMES, go_critical_failures = []\<rparr>"]
      case_canonical case_passes closed by (auto simp: list_all_iff)
  from passing_case_answers_the_request[OF this] show ?thesis
    by (simp add: case_fields case_expected GRADER_NAMES_def) (simp add: case_observation_def case_message_def)
qed

end
