(* ===== verification/Run_Evidence.thy ===== *)
theory Run_Evidence
  imports Eval_Evidence
begin


section \<open>The exact evidence of a Run (application/records.py, lines 3135--4621)\<close>

text \<open>
  \<open>ExactRunEvidenceClosure\<close>: the records of exactly one Run of one owner, checked against each other.
  Its validator is split at the loops of the code; every part is the list of its \<open>if ...: raise\<close>
  statements in order, and \<open>along\<close> is a loop whose checks see the earlier elements. The dictionaries
  \<open>..._by_id\<close> are \<open>dict_by\<close>; all timestamps are UTC once the fields are validated, so equality of
  timestamps is equality of records.
\<close>

record run_evidence =
  xe_conversation_record :: conversation_record
  xe_run_record :: agent_run_record
  xe_message_records :: "message_record list"
  xe_request_understanding_record :: "ru_record option"
  xe_accepted_task_deltas :: "accepted_task_delta list"
  xe_input_binding_records :: "input_binding list"
  xe_task_records :: "task_record list"
  xe_task_state_transitions :: "task_state_transition list"
  xe_request_unit_records :: "request_unit_record list"
  xe_conversation_task_links :: "conversation_task_link_record list"
  xe_run_task_links :: "run_task_link_record list"
  xe_gate_decisions :: "gate_decision list"
  xe_tool_calls :: "tool_call_record list"
  xe_tool_attempts :: "tool_attempt_record list"
  xe_observation_records :: "order_observation list"
  xe_context_manifests :: "context_manifest list"
  xe_toolset_artifacts :: "toolset_artifact list"
  xe_trace_events :: "trace_event list"

type_synonym guards = "(bool \<times> string) list"

definition along :: "('a list \<Rightarrow> 'a \<Rightarrow> guards) \<Rightarrow> 'a list \<Rightarrow> guards" where
  "along f xs = concat (map (\<lambda>i. f (take i xs) (xs ! i)) [0..<length xs])"

definition each :: "('a \<Rightarrow> guards) \<Rightarrow> 'a list \<Rightarrow> guards" where
  "each f xs = concat (map f xs)"

subsection \<open>Lookup\<close>

definition task_ids :: "run_evidence \<Rightarrow> uuid list" where
  "task_ids x = map tk_task_id (xe_task_records x)"

definition run_task_by_id :: "run_evidence \<Rightarrow> uuid \<Rightarrow> task_record option" where
  "run_task_by_id x = map_of (dict_by tk_task_id (xe_task_records x))"

definition run_unit_by_id :: "run_evidence \<Rightarrow> uuid \<Rightarrow> request_unit_record option" where
  "run_unit_by_id x = map_of (dict_by ru_request_unit_id (xe_request_unit_records x))"

definition binding_by_id :: "run_evidence \<Rightarrow> uuid \<Rightarrow> input_binding option" where
  "binding_by_id x = map_of (dict_by ib_binding_id (xe_input_binding_records x))"

definition manifest_by_id :: "run_evidence \<Rightarrow> uuid \<Rightarrow> context_manifest option" where
  "manifest_by_id x = map_of (dict_by cm_context_manifest_id (xe_context_manifests x))"

definition call_by_id :: "run_evidence \<Rightarrow> uuid \<Rightarrow> tool_call_record option" where
  "call_by_id x = map_of (dict_by tc_tool_call_id (xe_tool_calls x))"

definition gate_by_id :: "run_evidence \<Rightarrow> uuid \<Rightarrow> gate_decision option" where
  "gate_by_id x = map_of (dict_by gd_gate_decision_id (xe_gate_decisions x))"

definition observation_by_id :: "run_evidence \<Rightarrow> uuid \<Rightarrow> order_observation option" where
  "observation_by_id x = map_of (dict_by oo_observation_id (xe_observation_records x))"

definition accepted_by_id :: "run_evidence \<Rightarrow> uuid \<Rightarrow> accepted_task_delta option" where
  "accepted_by_id x = map_of (dict_by ad_accepted_delta_id (xe_accepted_task_deltas x))"

definition unit_of_task :: "run_evidence \<Rightarrow> uuid \<Rightarrow> request_unit_record option" where
  "unit_of_task x = map_of (dict_by ru_task_id (xe_request_unit_records x))"

definition transitions_of :: "run_evidence \<Rightarrow> uuid \<Rightarrow> task_state_transition list" where
  "transitions_of x task_id = filter (\<lambda>t. tt_task_id t = task_id) (xe_task_state_transitions x)"

definition attempts_of :: "run_evidence \<Rightarrow> uuid \<Rightarrow> tool_attempt_record list" where
  "attempts_of x call_id = filter (\<lambda>a. at_tool_call_id a = call_id) (xe_tool_attempts x)"

subsection \<open>Identities\<close>

definition identity_guards :: "run_evidence \<Rightarrow> guards" where
  "identity_guards x =
     [(ar_conversation_id (xe_run_record x) \<noteq> Some (cr_conversation_id (xe_conversation_record x)),
       ''Run must identify the exact closure Conversation''),
      (has_duplicates (map mr_message_id (xe_message_records x)), ''Message identities must be unique''),
      (has_duplicates (map ad_accepted_delta_id (xe_accepted_task_deltas x)),
       ''AcceptedTaskDelta identities must be unique''),
      (has_duplicates (map ib_binding_id (xe_input_binding_records x)), ''InputBinding identities must be unique''),
      (has_duplicates (task_ids x), ''Task identities must be unique''),
      (has_duplicates (map (\<lambda>t. (tt_task_id t, tt_request_unit_id t, tt_result_state_version t)) (xe_task_state_transitions x)),
       ''TaskStateTransition identities must be unique''),
      (has_duplicates (map ru_request_unit_id (xe_request_unit_records x)), ''RequestUnit identities must be unique''),
      (has_duplicates (map (\<lambda>l. (ctl_conversation_id l, ctl_task_id l, ctl_linked_at l)) (xe_conversation_task_links x)),
       ''ConversationTaskLink identities must be unique''),
      (has_duplicates (map rl_task_id (xe_run_task_links x)), ''RunTaskLink identities must be unique''),
      (has_duplicates (map gd_gate_decision_id (xe_gate_decisions x)), ''GateDecision identities must be unique''),
      (has_duplicates (map tc_tool_call_id (xe_tool_calls x)), ''ToolCall identities must be unique''),
      (has_duplicates (map (\<lambda>a. (at_tool_call_id a, at_attempt_no a)) (xe_tool_attempts x)),
       ''ToolAttempt identities must be unique''),
      (has_duplicates (map oo_observation_id (xe_observation_records x)), ''Observation identities must be unique''),
      (has_duplicates (map cm_context_manifest_id (xe_context_manifests x)), ''ContextManifest identities must be unique''),
      (has_duplicates (map ta_model_visible_toolset_hash (xe_toolset_artifacts x)),
       ''ModelVisibleToolsetArtifact identities must be unique''),
      (has_duplicates (map te_trace_event_id (xe_trace_events x)), ''TraceEvent identities must be unique''),
      (list_ex (\<lambda>m. mr_conversation_id m \<noteq> cr_conversation_id (xe_conversation_record x)) (xe_message_records x),
       ''every Message must belong to the root Conversation'')]"

subsection \<open>The understanding and its accepted children\<close>

text \<open>\<open>binding_preserves\<close>: the binding has the normal form, the authority and the source of its candidate.\<close>

definition binding_preserves :: "durable_input_candidate \<Rightarrow> input_binding \<Rightarrow> bool" where
  "binding_preserves i b \<longleftrightarrow>
     normalize_order_id (JStr (dic_candidate_value i)) = Inr (ib_normalized_value b)
     \<and> ib_authority b = dic_authority i \<and> ib_source_refs b = [dic_source_ref i]"

definition child_candidate_guards ::
  "run_evidence \<Rightarrow> ru_record \<Rightarrow> accepted_task_delta \<Rightarrow> durable_task_delta_candidate \<Rightarrow> guards" where
  "child_candidate_guards x r child candidate =
     (let bindings = map (binding_by_id x) (ad_input_binding_refs child);
          expected_inputs = dict_by dic_name (dtd_input_candidates candidate);
          actual_bindings = dict_by ib_name (concat (map (\<lambda>b. case b of None \<Rightarrow> [] | Some y \<Rightarrow> [y]) bindings))
      in [(ad_message_ref child \<noteq> rc_message_ref r \<or> ad_operation child \<noteq> dtd_operation candidate
             \<or> ad_goal_text child \<noteq> dtd_goal_patch candidate \<or> ad_accepted_at child \<noteq> rc_created_at r,
           ''accepted child must preserve its parent candidate projection''),
          (has_duplicates (ad_input_binding_refs child), ''AcceptedTaskDelta.input_binding_refs references must be unique''),
          (list_ex (\<lambda>b. b = None) bindings, ''accepted child InputBinding refs must resolve in closure''),
          (set (map fst actual_bindings) \<noteq> set (map fst expected_inputs),
           ''accepted child bindings must match candidate inputs''),
          (list_ex (\<lambda>(_, i). \<not> is_ok (normalize_order_id (JStr (dic_candidate_value i)))) expected_inputs,
           ''accepted child bindings must preserve validated input values''),
          (list_ex (\<lambda>(name, b). case map_of expected_inputs name of None \<Rightarrow> False | Some i \<Rightarrow> \<not> binding_preserves i b)
             actual_bindings,
           ''accepted child bindings must preserve validated input values''),
          (ad_task_id child \<notin> set (task_ids x), ''accepted child Task must resolve in closure'')])"

definition child_guards :: "run_evidence \<Rightarrow> ru_record \<Rightarrow> accepted_task_delta list \<Rightarrow> accepted_task_delta \<Rightarrow> guards" where
  "child_guards x r prior child =
     (let candidate = map_of (dict_by dtd_candidate_id (rc_task_delta_candidates r)) (ad_candidate_ref child);
          decision = map_of (dict_by cv_candidate_ref (rc_candidate_validation r)) (ad_candidate_ref child)
      in [(ad_candidate_ref child \<in> set (map ad_candidate_ref prior), ''an accepted candidate must have exactly one child''),
          (candidate = None \<or> map_option cv_decision decision \<noteq> Some DECISION_ACCEPT,
           ''accepted child must bind one accepted candidate'')]
         @ (case candidate of None \<Rightarrow> [] | Some c \<Rightarrow> child_candidate_guards x r child c))"

text \<open>The children in the order of their candidates: \<open>ordered_children_by_task\<close> is this list per Task.\<close>

definition ordered_children :: "run_evidence \<Rightarrow> accepted_task_delta list" where
  "ordered_children x =
     (case xe_request_understanding_record x of
        None \<Rightarrow> []
      | Some r \<Rightarrow> concat (map (\<lambda>c. case map_of (dict_by ad_candidate_ref (xe_accepted_task_deltas x)) (dtd_candidate_id c) of
            None \<Rightarrow> [] | Some child \<Rightarrow> [child]) (rc_task_delta_candidates r)))"

definition children_of :: "run_evidence \<Rightarrow> uuid \<Rightarrow> accepted_task_delta list" where
  "children_of x task_id = filter (\<lambda>child. ad_task_id child = task_id) (ordered_children x)"

definition chain_guards :: "run_evidence \<Rightarrow> accepted_task_delta list \<Rightarrow> accepted_task_delta \<Rightarrow> guards" where
  "chain_guards x prior child =
     (let same = filter (\<lambda>p. ad_task_id p = ad_task_id child) prior; prior_result = ad_result_task_state_version (last same);
          base = ad_base_task_state_version child; result = ad_result_task_state_version child
      in [(same \<noteq> [] \<and> base \<noteq> Some prior_result, ''accepted Task delta chain must be contiguous''),
          (result \<noteq> (if same = [] then (case base of None \<Rightarrow> 1 | Some b \<Rightarrow> b + 1) else prior_result + 1),
           ''accepted Task delta result version must advance once''),
          (\<not> opt_all (\<lambda>task. result \<le> tk_state_version task) (run_task_by_id x (ad_task_id child)),
           ''accepted Task delta must fit the current Task history'')])"

definition understanding_guards :: "run_evidence \<Rightarrow> guards" where
  "understanding_guards x =
     (case xe_request_understanding_record x of
        None \<Rightarrow> [(xe_accepted_task_deltas x \<noteq> [], ''accepted children require a RequestUnderstanding record'')]
      | Some r \<Rightarrow>
          [(rc_run_id r \<noteq> ar_run_id (xe_run_record x) \<or> rc_message_ref r \<notin> set (map mr_message_id (xe_message_records x)),
            ''RequestUnderstanding must bind the root Run and a closure Message''),
           (set (rc_accepted_delta_refs r) \<noteq> set (map ad_accepted_delta_id (xe_accepted_task_deltas x)),
            ''RequestUnderstanding must name the exact accepted child set'')]
          @ along (child_guards x r) (xe_accepted_task_deltas x)
          @ [(set (map ad_candidate_ref (xe_accepted_task_deltas x))
               \<noteq> set (map fst (filter (\<lambda>(_, d). cv_decision d = DECISION_ACCEPT)
                    (dict_by cv_candidate_ref (rc_candidate_validation r)))),
              ''accepted decisions must have the exact accepted child set'')]
          @ along (chain_guards x) (ordered_children x))
     @ [(set (map ad_task_id (xe_accepted_task_deltas x)) \<noteq> set (task_ids x),
         ''accepted child Task refs must match the exact closure Task set'')]"

subsection \<open>Owner, links and RequestUnits\<close>

definition run_link_guards :: "run_evidence \<Rightarrow> run_task_link_record \<Rightarrow> guards" where
  "run_link_guards x link =
     (let run = xe_run_record x; version = (\<lambda>P. opt_all (\<lambda>task. P (tk_state_version task)) (run_task_by_id x (rl_task_id link)))
      in [(rl_run_id link \<noteq> ar_run_id run \<or> rl_task_id link \<notin> set (task_ids x),
           ''RunTaskLink must bind the root Run and closure Task''),
          (\<not> opt_all (\<lambda>base. version (\<lambda>v. base \<le> v)) (rl_base_task_state_version link),
           ''RunTaskLink base version exceeds its Task''),
          (\<not> opt_all (\<lambda>result. version (\<lambda>v. result = v)) (rl_result_task_state_version link),
           ''RunTaskLink result version must match its Task projection''),
          (run_is_active (ar_status run) \<and> rl_result_task_state_version link \<noteq> None,
           ''active RunTaskLink cannot carry a result Task version''),
          (\<not> run_is_active (ar_status run) \<and> rl_result_task_state_version link = None,
           ''terminal RunTaskLink requires the exact Task result version''),
          (ad_base_task_state_version (hd (children_of x (rl_task_id link))) \<noteq> rl_base_task_state_version link,
           ''accepted Task delta first base must match RunTaskLink base'')])"

definition unit_guards :: "run_evidence \<Rightarrow> request_unit_record list \<Rightarrow> request_unit_record \<Rightarrow> guards" where
  "unit_guards x prior unit =
     [(ru_task_id unit \<notin> set (task_ids x) \<or> ru_task_id unit \<in> set (map ru_task_id prior),
       ''closure requires one exact RequestUnit per Task''),
      (\<not> opt_all (\<lambda>task. ru_status unit = tk_status task \<and> ru_state_version unit = tk_state_version task)
         (run_task_by_id x (ru_task_id unit)),
       ''RequestUnit status/version must match its Task projection''),
      (has_duplicates (ru_goal_source_refs unit), ''RequestUnit.goal_source_refs references must be unique''),
      (has_duplicates (ru_input_binding_refs unit), ''RequestUnit.input_binding_refs references must be unique''),
      (has_duplicates (ru_observation_refs unit), ''RequestUnit.observation_refs references must be unique''),
      (ru_evidence_binding_refs unit \<noteq> [] \<or> ru_pending_action_ref unit \<noteq> None,
       ''P0 exact Run closure cannot contain Evidence or Action refs'')]"

definition latest_child_guards :: "run_evidence \<Rightarrow> uuid \<Rightarrow> guards" where
  "latest_child_guards x task_id =
     (let latest = last (children_of x task_id)
      in [(\<not> opt_all (\<lambda>unit. ad_goal_text latest = ru_goal_text unit
              \<and> set (ad_input_binding_refs latest) = set (ru_input_binding_refs unit)
              \<and> ad_message_ref latest \<in> set (ru_goal_source_refs unit)) (unit_of_task x task_id),
           ''latest accepted child and RequestUnit causality must match exactly'')])"

definition ownership_guards :: "run_evidence \<Rightarrow> guards" where
  "ownership_guards x =
     [(list_ex (\<lambda>task. tk_owner_customer_id task \<noteq> cr_owner_customer_id (xe_conversation_record x)) (xe_task_records x),
       ''Task owner must match the root Conversation owner'')]
     @ each (run_link_guards x) (xe_run_task_links x)
     @ [(set (map rl_task_id (xe_run_task_links x)) \<noteq> set (task_ids x), ''RunTaskLink set must match the exact Task set''),
        (list_ex (\<lambda>link. ctl_conversation_id link \<noteq> cr_conversation_id (xe_conversation_record x)
            \<or> ctl_task_id link \<notin> set (task_ids x)) (xe_conversation_task_links x),
         ''ConversationTaskLink must bind the root Conversation and Task''),
        (set (map ctl_task_id (xe_conversation_task_links x)) \<noteq> set (task_ids x),
         ''ConversationTaskLink set must match the exact Task set'')]
     @ along (unit_guards x) (xe_request_unit_records x)
     @ [(set (map ru_task_id (xe_request_unit_records x)) \<noteq> set (task_ids x), ''RequestUnit set must match the exact Task set'')]
     @ each (latest_child_guards x) (remdups (map ad_task_id (ordered_children x)))"

section \<open>Histories, manifests and ToolCalls of the exact evidence (records.py, lines 3754--4133)\<close>

subsection \<open>The history of every Task\<close>

definition effective_at :: "run_evidence \<Rightarrow> task_record \<Rightarrow> int \<Rightarrow> datetime option" where
  "effective_at x task version =
     map_of (dict_of_items ((1, tk_created_at task)
       # map (\<lambda>t. (tt_result_state_version t, tt_changed_at t)) (transitions_of x (tk_task_id task)))) version"

definition child_history_guards :: "run_evidence \<Rightarrow> task_record \<Rightarrow> accepted_task_delta \<Rightarrow> guards" where
  "child_history_guards x task child =
     (case ad_base_task_state_version child of
        None \<Rightarrow> [(tk_created_at task \<noteq> ad_accepted_at child, ''new accepted Task delta must match Task creation time'')]
      | Some base \<Rightarrow>
          [(case (effective_at x task base, effective_at x task (ad_result_task_state_version child)) of
              (Some base_effective_at, Some result_effective_at) \<Rightarrow>
                dt_less (ad_accepted_at child) base_effective_at \<or> dt_less result_effective_at (ad_accepted_at child)
            | _ \<Rightarrow> True,
            ''accepted Task delta must fit the current Task history'')])"

definition run_history_guards :: "run_evidence \<Rightarrow> task_record \<Rightarrow> guards" where
  "run_history_guards x task =
     (let transitions = transitions_of x (tk_task_id task)
      in [(tk_state_version task \<noteq> int (length transitions) + 1, ''Task transition history must be complete and contiguous''),
          (list_ex (\<lambda>(expected_result_version, t). tt_result_state_version t \<noteq> int expected_result_version)
             (enumerate 2 transitions), ''Task transition history must be complete and contiguous'')]
         @ (if transitions = [] then
              [(tk_status task \<noteq> ACTIVE, ''Task without transitions must retain initial ACTIVE status'')]
            else
              [(tt_from_status (hd transitions) \<noteq> ACTIVE, ''Task history must start from ACTIVE''),
               (dt_less (tt_changed_at (hd transitions)) (tk_created_at task),
                ''Task transition cannot precede Task creation''),
               (list_ex (\<lambda>(current, following). tt_to_status current \<noteq> tt_from_status following
                   \<or> dt_less (tt_changed_at following) (tt_changed_at current)) (adjacent transitions),
                ''Task transition status and timestamp chain must be contiguous''),
               (tt_to_status (last transitions) \<noteq> tk_status task \<or> tt_changed_at (last transitions) \<noteq> tk_updated_at task,
                ''Task terminal transition must match its current projection'')]
              @ each (child_history_guards x task) (children_of x (tk_task_id task))))"

definition history_guards :: "run_evidence \<Rightarrow> guards" where
  "history_guards x =
     [(list_ex (\<lambda>t. tt_task_id t \<notin> set (task_ids x)
          \<or> map_option ru_task_id (run_unit_by_id x (tt_request_unit_id t)) \<noteq> Some (tt_task_id t)) (xe_task_state_transitions x),
       ''Task transition must bind its closure Task and RequestUnit'')]
     @ each (run_history_guards x) (xe_task_records x)"

subsection \<open>ContextManifests and GateDecisions\<close>

definition manifest_task_guards :: "run_evidence \<Rightarrow> context_manifest \<Rightarrow> task_state_ref_and_version \<Rightarrow> guards" where
  "manifest_task_guards x manifest ref =
     (case run_task_by_id x (tsr_task_id ref) of
        None \<Rightarrow> [(True, ''ContextManifest Task ref must resolve in closure'')]
      | Some task \<Rightarrow>
          (let transitions = transitions_of x (tk_task_id task); version = tsr_state_version ref;
               at_version = (\<lambda>v. map_option tt_changed_at (find (\<lambda>t. tt_result_state_version t = v) transitions));
               effective = (if version = 1 then Some (tk_created_at task) else at_version version)
           in [(\<not> (case effective of None \<Rightarrow> False | Some e \<Rightarrow> \<not> dt_less (cm_assembled_at manifest) e)
                \<or> \<not> opt_all (dt_less (cm_assembled_at manifest)) (at_version (version + 1)),
                ''ContextManifest Task version must match history at assembly'')]))"

definition manifest_guards :: "run_evidence \<Rightarrow> context_manifest \<Rightarrow> guards" where
  "manifest_guards x manifest =
     [(cm_run_id manifest \<noteq> ar_run_id (xe_run_record x), ''ContextManifest must belong to the root Run''),
      (has_duplicates (cm_selected_message_refs manifest),
       ''ContextManifest.selected_message_refs references must be unique'')]
     @ (case cm_task_state_ref_and_version manifest of None \<Rightarrow> [] | Some ref \<Rightarrow> manifest_task_guards x manifest ref)
     @ [(has_duplicates (map vr_record_ref (cm_observation_refs_and_versions manifest)),
         ''ContextManifest.observation_refs_and_versions references must be unique''),
        (list_ex (\<lambda>ref. map_option oo_source_version (observation_by_id x (vr_record_ref ref)) \<noteq> Some (Some (vr_version ref)))
           (cm_observation_refs_and_versions manifest), ''ContextManifest Observation version must match exactly''),
        (cm_evidence_refs_and_versions manifest \<noteq> [] \<or> cm_action_record_refs manifest \<noteq> [],
         ''P0 exact Run closure cannot contain Evidence or Action refs'')]"

definition gate_guards :: "run_evidence \<Rightarrow> gate_decision \<Rightarrow> guards" where
  "gate_guards x gate =
     [(manifest_by_id x (gd_context_manifest_id gate) = None, ''GateDecision manifest must resolve in closure''),
      (has_duplicates (gd_argument_binding_refs gate), ''GateDecision.argument_binding_refs references must be unique''),
      (\<not> opt_all (\<lambda>m. gd_model_call_id gate = cm_model_call_id m) (manifest_by_id x (gd_context_manifest_id gate)),
       ''GateDecision model call must match its ContextManifest'')]"

subsection \<open>ToolCalls and their attempts\<close>

definition call_projection ::
  "task_record \<Rightarrow> context_manifest \<Rightarrow> gate_decision \<Rightarrow> tool_call_record \<Rightarrow> bool" where
  "call_projection task manifest gate call \<longleftrightarrow>
     gd_decision gate = GateAccept
     \<and> gd_resolved_canonical_tool_name gate = Some (tc_canonical_tool_name call)
     \<and> gd_model_call_id gate = tc_model_call_id call
     \<and> cm_model_call_id manifest = tc_model_call_id call
     \<and> gd_context_manifest_id gate = tc_context_manifest_id call
     \<and> set (gd_argument_binding_refs gate) = set (tc_argument_binding_refs call)
     \<and> gd_validated_task_state_version gate = Some (tc_validated_task_state_version call)
     \<and> cm_tool_registry_version manifest = tc_tool_registry_version call
     \<and> tc_validated_task_state_version call \<le> tk_state_version task"

definition call_guards :: "run_evidence \<Rightarrow> tool_call_record list \<Rightarrow> tool_call_record \<Rightarrow> guards" where
  "call_guards x prior call =
     (case (run_task_by_id x (tc_task_id call), run_unit_by_id x (tc_request_unit_id call),
            manifest_by_id x (tc_context_manifest_id call), gate_by_id x (tc_gate_decision_id call)) of
        (Some task, Some unit, Some manifest, Some gate) \<Rightarrow>
          [(tc_run_id call \<noteq> ar_run_id (xe_run_record x) \<or> ru_task_id unit \<noteq> tc_task_id call,
            ''ToolCall owner graph must close to the exact Run''),
           (tc_gate_decision_id call \<in> set (map tc_gate_decision_id prior),
            ''a GateDecision cannot dispatch multiple ToolCalls''),
           (has_duplicates (tc_argument_binding_refs call), ''ToolCall.argument_binding_refs references must be unique''),
           (\<not> set (tc_argument_binding_refs call) \<subseteq> set (ru_input_binding_refs unit),
            ''ToolCall argument bindings must belong to its RequestUnit''),
           (\<not> call_projection task manifest gate call,
            ''ToolCall must preserve its accepted Gate and Manifest projection'')]
      | _ \<Rightarrow> [(True, ''ToolCall owner graph must close to the exact Run'')])"

definition attempt_unfinished :: "tool_attempt_record \<Rightarrow> bool" where
  "attempt_unfinished a \<longleftrightarrow> at_finished_at a = None \<or> at_outcome a = None"

definition attempt_guards :: "run_evidence \<Rightarrow> tool_call_record \<Rightarrow> guards" where
  "attempt_guards x call =
     (let attempts = attempts_of x (tc_tool_call_id call); final = last attempts
      in [(tc_attempt_count call \<noteq> int (length attempts), ''ToolCall requires the exact contiguous attempt history''),
          (list_ex (\<lambda>(expected_attempt_no, a). at_attempt_no a \<noteq> int expected_attempt_no) (enumerate 1 attempts),
           ''ToolCall requires the exact contiguous attempt history''),
          (list_ex (\<lambda>a. dt_less (at_started_at a) (tc_started_at call)) attempts
             \<or> list_ex (\<lambda>(current, following). case at_finished_at current of
                  None \<Rightarrow> True | Some finished \<Rightarrow> dt_less (at_started_at following) finished) (adjacent attempts),
           ''ToolAttempt timestamps must be ordered'')]
         @ (if tc_status call = TC_CREATED then []
            else if tc_status call = TC_RUNNING then
              [(attempts = [] \<or> at_finished_at final \<noteq> None \<or> at_outcome final \<noteq> None
                  \<or> list_ex attempt_unfinished (butlast attempts),
                ''RUNNING ToolCall requires one active final attempt'')]
            else if tc_status call = TC_INTERRUPTED then
              [(list_ex attempt_unfinished (butlast attempts), ''INTERRUPTED ToolCall has inconsistent prior attempts''),
               (attempts \<noteq> [] \<and> at_finished_at final \<noteq> None
                  \<and> (at_outcome final \<noteq> Some TR_INTERRUPTED \<or> tc_finished_at call \<noteq> at_finished_at final),
                ''INTERRUPTED ToolCall final attempt must agree'')]
            else
              [(attempts = [] \<or> list_ex attempt_unfinished attempts
                  \<or> at_outcome final \<notin> (case TERMINAL_TOOL_OUTCOMES (tc_status call) of
                       None \<Rightarrow> {} | Some outcomes \<Rightarrow> Some ` set outcomes)
                  \<or> tc_finished_at call \<noteq> at_finished_at final
                  \<or> tc_failure_code call \<noteq> at_failure_code final,
                ''terminal ToolCall and final attempt must agree'')]))"

definition dispatch_guards :: "run_evidence \<Rightarrow> guards" where
  "dispatch_guards x =
     [(list_ex (\<lambda>b. has_duplicates (ib_source_refs b)) (xe_input_binding_records x),
       ''InputBinding.source_refs references must be unique'')]
     @ each (manifest_guards x) (xe_context_manifests x)
     @ each (gate_guards x) (xe_gate_decisions x)
     @ along (call_guards x) (xe_tool_calls x)
     @ [(list_ex (\<lambda>a. at_tool_call_id a \<notin> set (map tc_tool_call_id (xe_tool_calls x))) (xe_tool_attempts x),
         ''ToolAttempt parent ToolCall must resolve in closure'')]
     @ each (attempt_guards x) (xe_tool_calls x)
     @ [(list_ex (\<lambda>o'. \<not> opt_all (\<lambda>s. s \<in> set (map oo_observation_id (xe_observation_records x))) (oo_supersedes o'))
           (xe_observation_records x), ''Observation supersedes must resolve in closure'')]"
end
