(* ===== verification/Supersedes.thy ===== *)
theory Supersedes
  imports Prelude
begin

section \<open>Expanding supersedes references (application/records.py, lines 3183--3208)\<close>

text \<open>
  \<open>_exact_evidence_expand_supersedes\<close> follows the \<open>supersedes\<close> reference of every initial record. The
  records are given by their identity and their reference; the set of initial references is a list in
  whatever order Python iterates it, which the facts below show not to matter.
\<close>

type_synonym supersedes_graph = "(uuid \<times> uuid option) list"

function supersedes_path ::
  "supersedes_graph \<Rightarrow> string \<Rightarrow> uuid list \<Rightarrow> uuid list \<Rightarrow> uuid option \<Rightarrow> string + uuid list" where
  "supersedes_path records family reachable path None = Inr path"
| "supersedes_path records family reachable path (Some current) =
     (if current \<in> set reachable then Inr path
      else if current \<in> set path then Inl (family @ '' supersedes graph must be acyclic'')
      else case map_of records current of
             None \<Rightarrow> Inl (family @ '' reference must resolve in closure'')
           | Some supersedes \<Rightarrow> supersedes_path records family reachable (current # path) supersedes)"
  by pat_completeness auto
termination
proof (relation "measure (\<lambda>(records, _, _, path, _). card (fst ` set records - set path))", simp, clarsimp)
  fix records :: supersedes_graph and path current supersedes
  assume "current \<notin> set path" "map_of records current = Some supersedes"
  then have "current \<in> fst ` set records - set path" by (metis DiffI image_eqI map_of_SomeD fst_conv)
  then show "card (fst ` set records - insert current (set path)) < card (fst ` set records - set path)"
    by (intro psubset_card_mono) auto
qed

fun expand_supersedes :: "supersedes_graph \<Rightarrow> string \<Rightarrow> uuid list \<Rightarrow> uuid list \<Rightarrow> string + uuid list" where
  "expand_supersedes records family reachable [] = Inr reachable"
| "expand_supersedes records family reachable (initial # refs) =
     res_bind (supersedes_path records family reachable [] (Some initial)) (\<lambda>path.
       expand_supersedes records family (reachable @ path) refs)"

subsection \<open>What the loop computes\<close>

definition superseded :: "supersedes_graph \<Rightarrow> (uuid \<times> uuid) set" where
  "superseded records = {(a, b). map_of records a = Some (Some b)}"

definition settled :: "supersedes_graph \<Rightarrow> uuid set \<Rightarrow> bool" where
  "settled records R \<longleftrightarrow> (\<forall>r\<in>R. map_of records r \<noteq> None \<and> (r, r) \<notin> (superseded records)\<^sup>+)
     \<and> superseded records `` R \<subseteq> R"

definition broken :: "supersedes_graph \<Rightarrow> uuid \<Rightarrow> bool" where
  "broken records r \<longleftrightarrow> map_of records r = None \<or> (r, r) \<in> (superseded records)\<^sup>+"

lemma superseded_unique: "(a, b) \<in> superseded records \<Longrightarrow> (a, c) \<in> superseded records \<Longrightarrow> b = c"
  by (simp add: superseded_def)

lemma settled_rtrancl: "settled records R \<Longrightarrow> a \<in> R \<Longrightarrow> (a, b) \<in> (superseded records)\<^sup>* \<Longrightarrow> b \<in> R"
  by (metis Image_closed_trancl ImageI settled_def)

lemma settled_empty [simp]: "settled records {}"
  by (simp add: settled_def)

text \<open>A new record whose reference leads into settled records settles.\<close>

lemma settled_insert:
  assumes R: "settled records R" and r: "r \<notin> R" "map_of records r = Some nxt"
    and n: "\<And>s. nxt = Some s \<Longrightarrow> s \<in> R"
  shows "settled records (insert r R)"
proof -
  have step: "(r, b) \<in> superseded records \<Longrightarrow> b \<in> R" for b using r(2) n by (auto simp: superseded_def)
  have "(r, r) \<notin> (superseded records)\<^sup>+"
  proof
    assume "(r, r) \<in> (superseded records)\<^sup>+"
    then obtain b where "(r, b) \<in> superseded records" "(b, r) \<in> (superseded records)\<^sup>*" by (meson tranclD)
    then show False using settled_rtrancl[OF R] step r(1) by blast
  qed
  with R r step show ?thesis by (auto simp: settled_def)
qed

lemma supersedes_path_Inr:
  assumes "supersedes_path records family reachable path current = Inr p" "settled records (set reachable)"
  shows "\<exists>new. p = new @ path \<and> settled records (set reachable \<union> set new) \<and> set new \<inter> (set reachable \<union> set path) = {}
    \<and> (\<forall>c. current = Some c \<longrightarrow> c \<in> set reachable \<union> set new \<and> set new \<subseteq> (superseded records)\<^sup>* `` {c})
    \<and> (current = None \<longrightarrow> new = [])"
  using assms
proof (induction records family reachable path current arbitrary: p rule: supersedes_path.induct)
  case (1 records family reachable path)
  then show ?case by simp
next
  case (2 records family reachable path current)
  show ?case
  proof (cases "current \<in> set reachable")
    case True
    with 2(2,3) show ?thesis by auto
  next
    case False
    with 2(2) obtain nxt where n: "current \<notin> set path" "map_of records current = Some nxt"
      "supersedes_path records family reachable (current # path) nxt = Inr p"
      by (auto split: if_splits option.splits)
    from 2(1)[OF False n(1,2,3) 2(3)] obtain new where new: "p = new @ current # path"
      "settled records (set reachable \<union> set new)" "set new \<inter> (set reachable \<union> set (current # path)) = {}"
      "\<And>c. nxt = Some c \<Longrightarrow> c \<in> set reachable \<union> set new \<and> set new \<subseteq> (superseded records)\<^sup>* `` {c}"
      "nxt = None \<Longrightarrow> new = []" by auto
    have "settled records (insert current (set reachable \<union> set new))"
      using new(3,4) False n(2) by (intro settled_insert[OF new(2)]) auto
    moreover have "set new \<subseteq> (superseded records)\<^sup>* `` {current}"
    proof (cases "nxt")
      case (Some c)
      then have "(current, c) \<in> superseded records" using n(2) by (simp add: superseded_def)
      with new(4)[OF Some] show ?thesis by (auto intro: converse_rtrancl_into_rtrancl)
    qed (use new(5) in simp)
    ultimately show ?thesis using new(1,3) False n(1) by (intro exI[of _ "new @ [current]"]) auto
  qed
qed

lemma supersedes_path_Inl:
  assumes "supersedes_path records family reachable path current = Inl e"
    and "\<And>c p. current = Some c \<Longrightarrow> p \<in> set path \<Longrightarrow> (p, c) \<in> (superseded records)\<^sup>+"
  shows "\<exists>c r. current = Some c \<and> (c, r) \<in> (superseded records)\<^sup>* \<and> broken records r"
  using assms
proof (induction records family reachable path current rule: supersedes_path.induct)
  case (1 records family reachable path)
  then show ?case by simp
next
  case (2 records family reachable path current)
  have here: "\<exists>c r. Some current = Some c \<and> (c, r) \<in> (superseded records)\<^sup>* \<and> broken records r" if "broken records current"
    using that by blast
  show ?case
  proof (cases "current \<in> set path \<or> map_of records current = None")
    case True
    then show ?thesis using here 2(3)[of current current] by (auto simp: broken_def)
  next
    case False
    then obtain nxt where n: "map_of records current = Some nxt" by auto
    with False 2(2) have call: "current \<notin> set reachable" "supersedes_path records family reachable (current # path) nxt = Inl e"
      by (auto split: if_splits)
    have "\<exists>c r. nxt = Some c \<and> (c, r) \<in> (superseded records)\<^sup>* \<and> broken records r"
    proof (rule 2(1)[OF call(1) _ n call(2)])
      show "current \<notin> set path" using False by simp
      fix c p assume c: "nxt = Some c" and p: "p \<in> set (current # path)"
      then have "(current, c) \<in> superseded records" using n by (simp add: superseded_def)
      with p 2(3)[of current p] show "(p, c) \<in> (superseded records)\<^sup>+" by (auto intro: trancl_into_trancl)
    qed
    then obtain c r where "nxt = Some c" "(c, r) \<in> (superseded records)\<^sup>*" "broken records r" by blast
    moreover from this(1) have "(current, c) \<in> superseded records" using n by (simp add: superseded_def)
    ultimately show ?thesis using converse_rtrancl_into_rtrancl[of current c "superseded records" r] by blast
  qed
qed

lemma settled_not_broken: "settled records R \<Longrightarrow> r \<in> R \<Longrightarrow> \<not> broken records r"
  by (simp add: settled_def broken_def)

lemma expand_supersedes_Inr:
  assumes "expand_supersedes records family reachable refs = Inr R" "settled records (set reachable)"
  shows "settled records (set R) \<and> set reachable \<union> set refs \<subseteq> set R
    \<and> set R \<subseteq> set reachable \<union> (superseded records)\<^sup>* `` set refs"
  using assms
proof (induction refs arbitrary: reachable)
  case (Cons initial refs)
  from Cons.prems(1) obtain path where path: "supersedes_path records family reachable [] (Some initial) = Inr path"
    and rest: "expand_supersedes records family (reachable @ path) refs = Inr R"
    by (auto simp: res_bind_Inr_iff)
  from supersedes_path_Inr[OF path Cons.prems(2)]
  have new: "settled records (set (reachable @ path))" "initial \<in> set (reachable @ path)"
    "set path \<subseteq> (superseded records)\<^sup>* `` {initial}" by auto
  from Cons.IH[OF rest new(1)] have IH: "settled records (set R)" "set (reachable @ path) \<union> set refs \<subseteq> set R"
    "set R \<subseteq> set (reachable @ path) \<union> (superseded records)\<^sup>* `` set refs" by auto
  have "(superseded records)\<^sup>* `` {initial} \<union> (superseded records)\<^sup>* `` set refs = (superseded records)\<^sup>* `` set (initial # refs)"
    by auto
  with IH new(2,3) show ?case by auto
qed simp

lemma expand_supersedes_Inl:
  "expand_supersedes records family reachable refs = Inl e \<Longrightarrow>
     \<exists>c\<in>set refs. \<exists>r. (c, r) \<in> (superseded records)\<^sup>* \<and> broken records r"
proof (induction refs arbitrary: reachable)
  case (Cons initial refs)
  show ?case
  proof (cases "supersedes_path records family reachable [] (Some initial)")
    case (Inl e')
    from supersedes_path_Inl[OF this] show ?thesis by auto
  next
    case (Inr path)
    with Cons show ?thesis by auto
  qed
qed simp

lemma expand_supersedes_spec:
  "case expand_supersedes records family [] refs of
     Inr R \<Rightarrow> set R = (superseded records)\<^sup>* `` set refs \<and> (\<forall>r\<in>set R. \<not> broken records r)
   | Inl e \<Rightarrow> \<exists>r\<in>(superseded records)\<^sup>* `` set refs. broken records r"
proof (cases "expand_supersedes records family [] refs")
  case (Inl e)
  from expand_supersedes_Inl[OF this] Inl show ?thesis by auto
next
  case (Inr R)
  from expand_supersedes_Inr[OF this] have R: "settled records (set R)" "set refs \<subseteq> set R"
    "set R \<subseteq> (superseded records)\<^sup>* `` set refs" by auto
  moreover have "(superseded records)\<^sup>* `` set refs \<subseteq> set R" using R(1,2) settled_rtrancl by fast
  ultimately show ?thesis using settled_not_broken[OF R(1)] Inr by auto
qed

end
