(* ===== verification/Run_Evidence_Closure.thy ===== *)
theory Run_Evidence_Closure
  imports Run_Evidence Supersedes
begin

section \<open>The trace of the exact evidence (records.py, lines 4135--4592)\<close>

text \<open>
  The guards of the trace, and the validator that composes all guards of the exact evidence.
\<close>

subsection \<open>The references of every event\<close>

definition event_field_guards :: "run_evidence \<Rightarrow> trace_event list \<Rightarrow> trace_event \<Rightarrow> guards" where
  "event_field_guards x prior event =
     (let kind = te_event_type event
      in [(te_run_id event \<noteq> ar_run_id (xe_run_record x) \<or> te_case_id event \<noteq> None,
           ''TraceEvent must bind the root Run without Eval case identity''),
          (kind \<noteq> GATE_DECISION_RECORDED \<and> (te_gate_decision event \<noteq> None \<or> te_gate_reason_code event \<noteq> None),
           ''Gate fields require GateDecisionRecorded''),
          (kind \<noteq> RUN_STOPPED \<and> (te_user_outcome event \<noteq> None \<or> te_stop_reason event \<noteq> None),
           ''terminal fields require RunStopped''),
          (kind = TOOL_RESULT_NORMALIZED \<and> (te_safe_tool_outcome event = None \<or> te_tool_call_id event = None),
           ''ToolResultNormalized requires safe_tool_outcome and tool_call_id''),
          (kind = TOOL_RESULT_NORMALIZED
             \<and> list_ex (\<lambda>p. te_event_type p = TOOL_RESULT_NORMALIZED \<and> te_tool_call_id p = te_tool_call_id event) prior,
           ''ToolResultNormalized must be unique per ToolCall''),
          (kind \<noteq> TOOL_RESULT_NORMALIZED \<and> te_safe_tool_outcome event \<noteq> None,
           ''safe_tool_outcome requires ToolResultNormalized'')])"

definition event_child_guards :: "run_evidence \<Rightarrow> trace_event \<Rightarrow> uuid \<Rightarrow> guards" where
  "event_child_guards x event delta_ref =
     (case accepted_by_id x delta_ref of
        None \<Rightarrow> [(True, ''Trace accepted child ref must resolve in closure'')]
      | Some child \<Rightarrow>
          [(\<not> opt_all (\<lambda>m. m = ad_message_ref child) (te_message_ref event)
              \<or> \<not> opt_all (\<lambda>t. t = ad_task_id child) (te_task_id event)
              \<or> \<not> opt_all (\<lambda>u. map_option ru_task_id (run_unit_by_id x u) = Some (ad_task_id child)) (te_request_unit_id event),
            ''Trace accepted child correlations must match'')])"

definition event_manifest_guards :: "run_evidence \<Rightarrow> trace_event \<Rightarrow> uuid \<Rightarrow> guards" where
  "event_manifest_guards x event manifest_id =
     (case manifest_by_id x manifest_id of
        None \<Rightarrow> [(True, ''Trace ContextManifest ref must resolve in closure'')]
      | Some manifest \<Rightarrow>
          [(\<not> opt_all (\<lambda>c. c = cm_model_call_id manifest) (te_model_call_id event)
              \<or> \<not> opt_all (\<lambda>h. h = cm_model_visible_toolset_hash manifest) (te_model_visible_toolset_hash event)
              \<or> \<not> opt_all (\<lambda>v. v = cm_tool_registry_version manifest) (te_tool_registry_version event),
            ''Trace Manifest correlations must match'')])"

definition event_call_guards :: "run_evidence \<Rightarrow> trace_event \<Rightarrow> uuid \<Rightarrow> guards" where
  "event_call_guards x event call_id =
     (case call_by_id x call_id of
        None \<Rightarrow> [(True, ''Trace ToolCall ref must resolve in closure'')]
      | Some call \<Rightarrow>
          [(\<not> opt_all (\<lambda>t. t = tc_task_id call) (te_task_id event), ''Trace Task must match its ToolCall''),
           (\<not> opt_all (\<lambda>u. u = tc_request_unit_id call) (te_request_unit_id event),
            ''Trace RequestUnit must match its ToolCall''),
           (\<not> opt_all (\<lambda>m. m = tc_context_manifest_id call) (te_context_manifest_id event),
            ''Trace Manifest must match its ToolCall''),
           (\<not> opt_all (\<lambda>c. c = tc_model_call_id call) (te_model_call_id event)
              \<or> \<not> opt_all (\<lambda>h. opt_all (\<lambda>m. h = cm_model_visible_toolset_hash m)
                    (manifest_by_id x (tc_context_manifest_id call))) (te_model_visible_toolset_hash event)
              \<or> \<not> opt_all (\<lambda>v. v = tc_tool_registry_version call) (te_tool_registry_version event)
              \<or> (te_argument_binding_refs event \<noteq> []
                  \<and> set (te_argument_binding_refs event) \<noteq> set (tc_argument_binding_refs call)),
            ''Trace ToolCall correlations must match'')])"

definition event_observation_guards :: "run_evidence \<Rightarrow> trace_event \<Rightarrow> uuid \<Rightarrow> guards" where
  "event_observation_guards x event observation_ref =
     (case observation_by_id x observation_ref of
        None \<Rightarrow> [(True, ''Trace Observation ref must resolve in closure'')]
      | Some ob \<Rightarrow>
          [(te_event_type event = OBSERVATION_RECORDED
              \<and> (case te_tool_call_id event of
                   None \<Rightarrow> True
                 | Some call_id \<Rightarrow> (case call_by_id x call_id of
                     None \<Rightarrow> True
                   | Some call \<Rightarrow> tc_status call \<noteq> TC_SUCCEEDED \<or> tc_effect call \<noteq> READ
                       \<or> oo_source_tool ob \<noteq> tc_canonical_tool_name call
                       \<or> te_task_id event \<noteq> Some (tc_task_id call)
                       \<or> te_request_unit_id event \<noteq> Some (tc_request_unit_id call)
                       \<or> te_occurred_at event \<noteq> oo_recorded_at ob)),
            ''Observation source must close to a root Run ToolCall'')])"

definition when_given :: "'a option \<Rightarrow> ('a \<Rightarrow> guards) \<Rightarrow> guards" where
  "when_given value f = (case value of None \<Rightarrow> [] | Some v \<Rightarrow> f v)"

definition event_guards :: "run_evidence \<Rightarrow> trace_event list \<Rightarrow> trace_event \<Rightarrow> guards" where
  "event_guards x prior event =
     event_field_guards x prior event
     @ when_given (te_accepted_delta_ref event) (event_child_guards x event)
     @ [(\<not> opt_all (\<lambda>t. t \<in> set (task_ids x)) (te_task_id event), ''Trace Task ref must resolve in closure''),
        (\<not> opt_all (\<lambda>u. run_unit_by_id x u \<noteq> None) (te_request_unit_id event),
         ''Trace RequestUnit ref must resolve in closure''),
        (\<not> opt_all (\<lambda>t. opt_all (\<lambda>u. map_option ru_task_id (run_unit_by_id x u) = Some t) (te_request_unit_id event))
           (te_task_id event), ''Trace Task and RequestUnit refs must agree''),
        (has_duplicates (te_argument_binding_refs event), ''TraceEvent.argument_binding_refs references must be unique'')]
     @ when_given (te_context_manifest_id event) (event_manifest_guards x event)
     @ when_given (te_tool_call_id event) (event_call_guards x event)
     @ when_given (te_observation_ref event) (event_observation_guards x event)"

subsection \<open>Gate decisions in the trace\<close>

type_synonym gate_view =
  "uuid option \<times> uuid option \<times> pystr option \<times> int option \<times> uuid list \<times> gate_decision_value option \<times> gate_reason_code option"

definition gate_events :: "run_evidence \<Rightarrow> trace_event list" where
  "gate_events x = filter (\<lambda>event. te_event_type event = GATE_DECISION_RECORDED) (xe_trace_events x)"

definition gate_view_of_event :: "trace_event \<Rightarrow> gate_view" where
  "gate_view_of_event event =
     (te_model_call_id event, te_context_manifest_id event, te_requested_tool_name event,
      te_validated_task_state_version event, te_argument_binding_refs event, te_gate_decision event, te_gate_reason_code event)"

definition gate_view_of_owner :: "gate_decision \<Rightarrow> gate_view" where
  "gate_view_of_owner gate =
     (Some (gd_model_call_id gate), Some (gd_context_manifest_id gate), Some (gd_requested_provider_tool_name gate),
      gd_validated_task_state_version gate, gd_argument_binding_refs gate, Some (gd_decision gate), gd_reason_code gate)"

definition gate_event_guards :: "run_evidence \<Rightarrow> trace_event \<Rightarrow> guards" where
  "gate_event_guards x event =
     [(te_task_id event = None \<or> te_request_unit_id event = None,
       ''GateDecisionRecorded requires a root Task/RequestUnit pair''),
      (\<not> opt_all (\<lambda>m. opt_all (\<lambda>manifest. opt_all (\<lambda>ref. te_task_id event = Some (tsr_task_id ref))
           (cm_task_state_ref_and_version manifest)) (manifest_by_id x m)) (te_context_manifest_id event),
       ''GateDecisionRecorded Task must match ContextManifest'')]"

definition gate_view_guards :: "run_evidence \<Rightarrow> gate_view \<Rightarrow> guards" where
  "gate_view_guards x view =
     (let owners = filter (\<lambda>gate. gate_view_of_owner gate = view) (xe_gate_decisions x);
          events = filter (\<lambda>event. gate_view_of_event event = view) (gate_events x);
          bindings = set (gd_argument_binding_refs (hd owners))
      in each (gate_event_guards x) events
         @ [(length (filter (\<lambda>event. \<not> opt_all (\<lambda>u. opt_all (\<lambda>unit. bindings \<subseteq> set (ru_input_binding_refs unit))
                 (run_unit_by_id x u)) (te_request_unit_id event)) events)
               > length (filter (\<lambda>owner. \<not> gd_argument_binding_valid owner) owners),
             ''GateDecisionRecorded bindings must belong to its RequestUnit'')])"

definition gate_trace_guards :: "run_evidence \<Rightarrow> guards" where
  "gate_trace_guards x =
     (let traced = map gate_view_of_event (gate_events x); owned = map gate_view_of_owner (xe_gate_decisions x)
      in [(list_ex (\<lambda>view. count_list traced view > count_list owned view) traced,
           ''GateDecisionRecorded must match an owner GateDecision projection'')]
         @ each (gate_view_guards x) (remdups traced))"

subsection \<open>Normalized results\<close>

definition normalized_guards :: "run_evidence \<Rightarrow> trace_event \<Rightarrow> guards" where
  "normalized_guards x event =
     (case te_tool_call_id event of None \<Rightarrow> [] | Some call_id \<Rightarrow>
      (case call_by_id x call_id of None \<Rightarrow> [] | Some call \<Rightarrow>
        (let attempts = attempts_of x call_id; final = last attempts
         in (case TERMINAL_TOOL_OUTCOMES (tc_status call) of
               None \<Rightarrow> [(True, ''ToolResultNormalized requires a terminal ToolCall'')]
             | Some allowed \<Rightarrow>
                 [(Some (te_occurred_at event) \<noteq> tc_finished_at call
                     \<or> te_safe_tool_outcome event \<notin> Some ` set allowed,
                   ''ToolResultNormalized must match terminal ToolCall status and timestamp'')])
            @ [((if tc_status call = TC_INTERRUPTED then
                   (if tc_attempt_count call = 0 then attempts \<noteq> []
                    else attempts = [] \<or> at_outcome final \<notin> {None, Some TR_INTERRUPTED})
                 else attempts = [] \<or> at_outcome final \<noteq> te_safe_tool_outcome event),
                ''ToolResultNormalized must match the final ToolAttempt'')])))"

subsection \<open>The end of the Run\<close>

definition stopped_events :: "run_evidence \<Rightarrow> trace_event list" where
  "stopped_events x = filter (\<lambda>event. te_event_type event = RUN_STOPPED) (xe_trace_events x)"

definition run_stopped_guards :: "run_evidence \<Rightarrow> guards" where
  "run_stopped_guards x =
     (let run = xe_run_record x; stopped = hd (stopped_events x); statuses = remdups (map tk_status (xe_task_records x))
      in if run_is_active (ar_status run) then
           [(stopped_events x \<noteq> [], ''active Run cannot have RunStopped Trace'')]
         else if ar_status run = RUN_FAILED then
           [(ar_stop_reason run \<noteq> None, ''FAILED Run must not carry stop_reason''),
            (stopped_events x \<noteq> [], ''FAILED Run cannot have RunStopped Trace'')]
         else
           [(length (stopped_events x) \<noteq> 1, ''terminal RunStopped Trace must exist exactly once''),
            (\<not> allowed_terminal_projection stopped, ''RunStopped Trace only allows its exact per-kind projection''),
            (te_stop_reason stopped \<noteq> ar_stop_reason run \<or> Some (te_occurred_at stopped) \<noteq> ar_completed_at run,
             ''terminal RunStopped Trace must match the Run projection''),
            (ar_status run = RUN_COMPLETED
               \<and> (length statuses > 1
                  \<or> \<not> list_ex (\<lambda>(stop_reason, has_task, outcome, task_status).
                        Some stop_reason = ar_stop_reason run \<and> has_task = (xe_task_records x \<noteq> [])
                        \<and> Some outcome = te_user_outcome stopped
                        \<and> task_status = (if length statuses = 1 then Some (hd statuses) else None))
                      COMPLETED_FINALIZATION_ROWS),
             ''RunStopped projection is outside the closed completed Run matrix''),
            (ar_status run \<noteq> RUN_COMPLETED
               \<and> (ar_stop_reason run \<noteq> Some STOP_PROCESS_RESTART_DETECTED \<or> te_user_outcome stopped \<noteq> Some OUTCOME_BLOCKED),
             ''INCOMPLETE RunStopped requires PROCESS_RESTART_DETECTED and BLOCKED'')])"

subsection \<open>The lifecycle of every ToolCall\<close>

definition lifecycle_phase :: "tool_call_status \<Rightarrow> nat" where
  "lifecycle_phase status = (if status = TC_CREATED then 0 else if status = TC_RUNNING then 1 else 2)"

definition lifecycle_of :: "run_evidence \<Rightarrow> uuid \<Rightarrow> (tool_call_status \<times> trace_event) list" where
  "lifecycle_of x call_id =
     concat (map (\<lambda>event. case TOOL_TRACE_STATUS (te_event_type event) of
         None \<Rightarrow> [] | Some status \<Rightarrow> if te_tool_call_id event = Some call_id then [(status, event)] else [])
       (xe_trace_events x))"

text \<open>Ordered by time, then phase, then the hexadecimal form of the event id: three stable sorts.\<close>

definition ordered_lifecycle :: "run_evidence \<Rightarrow> uuid \<Rightarrow> (tool_call_status \<times> trace_event) list" where
  "ordered_lifecycle x call_id =
     sort_key (\<lambda>(_, event). instant (te_occurred_at event))
       (sort_key (\<lambda>(status, _). lifecycle_phase status)
         (sort_key (\<lambda>(_, event). te_trace_event_id event) (lifecycle_of x call_id)))"

definition lifecycle_guards :: "run_evidence \<Rightarrow> tool_call_record \<Rightarrow> guards" where
  "lifecycle_guards x call =
     (let ordered = ordered_lifecycle x (tc_tool_call_id call); statuses = map fst ordered;
          terminal = filter (\<lambda>(status, _). lifecycle_phase status = 2) ordered; latest = last ordered
      in [(ordered = [], ''ToolCall lifecycle must include its current projection''),
          (has_duplicates statuses
             \<or> list_ex (\<lambda>(current, following). lifecycle_phase current \<ge> lifecycle_phase following) (adjacent statuses)
             \<or> list_ex (\<lambda>(_, event). dt_less (te_occurred_at event) (tc_started_at call)) ordered,
           ''ToolCall lifecycle timestamps and status order must agree''),
          (if lifecycle_phase (tc_status call) = 2 then
             length terminal \<noteq> 1 \<or> fst latest \<noteq> tc_status call
             \<or> Some (te_occurred_at (snd latest)) \<noteq> tc_finished_at call
             \<or> list_ex (\<lambda>(_, event). \<not> opt_all (\<lambda>finished. \<not> dt_less finished (te_occurred_at event)) (tc_finished_at call)) ordered
           else terminal \<noteq> [] \<or> fst latest \<noteq> tc_status call,
           if lifecycle_phase (tc_status call) = 2 then ''ToolCall lifecycle must match its terminal projection''
           else ''ToolCall lifecycle must match its active projection'')])"

subsection \<open>The source of every Observation\<close>

definition source_edges :: "run_evidence \<Rightarrow> uuid list" where
  "source_edges x = concat (map (\<lambda>event. if te_event_type event = OBSERVATION_RECORDED
       then (case te_observation_ref event of None \<Rightarrow> [] | Some r \<Rightarrow> [r]) else []) (xe_trace_events x))"

definition run_trace_guards :: "run_evidence \<Rightarrow> guards" where
  "run_trace_guards x =
     along (event_guards x) (xe_trace_events x)
     @ gate_trace_guards x
     @ each (normalized_guards x) (filter (\<lambda>event. te_event_type event = TOOL_RESULT_NORMALIZED) (xe_trace_events x))
     @ run_stopped_guards x
     @ each (lifecycle_guards x) (xe_tool_calls x)
     @ [(set (source_edges x) \<noteq> set (map oo_observation_id (xe_observation_records x)) \<or> has_duplicates (source_edges x),
         ''each Observation source edge must exist exactly once for root Run'')]"

section \<open>The closed reference sets and the constructor (records.py, lines 3256--3345 and 4594--4621)\<close>

subsection \<open>What the records refer to\<close>

definition given :: "'a option list \<Rightarrow> 'a list" where
  "given values = concat (map (\<lambda>v. case v of None \<Rightarrow> [] | Some y \<Rightarrow> [y]) values)"

definition understanding_message_refs :: "ru_record \<Rightarrow> uuid list" where
  "understanding_message_refs r =
     rc_message_ref r # dcx_source_message_refs (rc_contextualization r)
     @ map drr_source_ref (dcx_resolved_reference_candidates (rc_contextualization r))
     @ concat (map (\<lambda>c. map dic_source_ref (dtd_input_candidates c)) (rc_task_delta_candidates r))"

definition referenced_message_ids :: "run_evidence \<Rightarrow> uuid list" where
  "referenced_message_ids x =
     (case xe_request_understanding_record x of None \<Rightarrow> [] | Some r \<Rightarrow> understanding_message_refs r)
     @ map ad_message_ref (xe_accepted_task_deltas x)
     @ concat (map ru_goal_source_refs (xe_request_unit_records x))
     @ concat (map ib_source_refs (xe_input_binding_records x))
     @ concat (map cm_selected_message_refs (xe_context_manifests x))
     @ given (map te_message_ref (xe_trace_events x))"

definition referenced_binding_ids :: "run_evidence \<Rightarrow> uuid list" where
  "referenced_binding_ids x =
     concat (map ad_input_binding_refs (xe_accepted_task_deltas x))
     @ concat (map ru_input_binding_refs (xe_request_unit_records x))
     @ concat (map gd_argument_binding_refs (xe_gate_decisions x))
     @ concat (map tc_argument_binding_refs (xe_tool_calls x))
     @ given (map te_input_binding_ref (xe_trace_events x))
     @ concat (map te_argument_binding_refs (xe_trace_events x))"

definition referenced_observation_ids :: "run_evidence \<Rightarrow> uuid list" where
  "referenced_observation_ids x =
     concat (map ru_observation_refs (xe_request_unit_records x))
     @ concat (map (\<lambda>m. map vr_record_ref (cm_observation_refs_and_versions m)) (xe_context_manifests x))
     @ given (map te_observation_ref (xe_trace_events x))"

definition referenced_artifact_hashes :: "run_evidence \<Rightarrow> pystr list" where
  "referenced_artifact_hashes x =
     map cm_model_visible_toolset_hash (xe_context_manifests x)
     @ given (map te_model_visible_toolset_hash (xe_trace_events x))"

definition binding_graph :: "run_evidence \<Rightarrow> supersedes_graph" where
  "binding_graph x = map (\<lambda>b. (ib_binding_id b, ib_supersedes b)) (xe_input_binding_records x)"

definition observation_graph :: "run_evidence \<Rightarrow> supersedes_graph" where
  "observation_graph x = map (\<lambda>o'. (oo_observation_id o', oo_supersedes o')) (xe_observation_records x)"

subsection \<open>The sets are exact\<close>

definition closed_set_checks :: "run_evidence \<Rightarrow> string + unit" where
  "closed_set_checks x =
     res_bind (expand_supersedes (binding_graph x) ''InputBinding'' [] (referenced_binding_ids x)) (\<lambda>bindings.
     res_bind (expand_supersedes (observation_graph x) ''Observation'' [] (referenced_observation_ids x)) (\<lambda>observations.
     checks
      [(set (referenced_message_ids x) \<noteq> set (map mr_message_id (xe_message_records x)),
        ''Message family must be the exact referenced set''),
       (set bindings \<noteq> set (map ib_binding_id (xe_input_binding_records x)),
        ''InputBinding family must be the exact referenced set''),
       (set observations \<noteq> set (map oo_observation_id (xe_observation_records x)),
        ''Observation family must be the exact referenced set''),
       (set (referenced_artifact_hashes x) \<noteq> set (map ta_model_visible_toolset_hash (xe_toolset_artifacts x)),
        ''ModelVisibleToolsetArtifact family must be the exact referenced set'')]))"

subsection \<open>The constructor\<close>

definition exact_record_fields :: "run_evidence \<Rightarrow> (string \<times> bool) list" where
  "exact_record_fields x =
     [(''conversation_record'', accepts new_conversation_record (xe_conversation_record x)),
      (''run_record'', accepts new_agent_run_record (xe_run_record x)),
      (''message_records'', list_all (accepts new_message_record) (xe_message_records x)),
      (''request_understanding_record'', opt_all canonical_ru_record (xe_request_understanding_record x)),
      (''accepted_task_deltas'', list_all (accepts new_accepted_task_delta) (xe_accepted_task_deltas x)),
      (''input_binding_records'', list_all (accepts new_input_binding) (xe_input_binding_records x)),
      (''task_records'', list_all (accepts new_task_record) (xe_task_records x)),
      (''task_state_transitions'', list_all (accepts new_task_state_transition) (xe_task_state_transitions x)),
      (''request_unit_records'', list_all (accepts new_request_unit_record) (xe_request_unit_records x)),
      (''conversation_task_links'', list_all (accepts new_conversation_task_link_record) (xe_conversation_task_links x)),
      (''run_task_links'', list_all (accepts new_run_task_link_record) (xe_run_task_links x)),
      (''gate_decisions'', list_all (accepts new_gate_decision) (xe_gate_decisions x)),
      (''tool_calls'', list_all (accepts new_tool_call_record) (xe_tool_calls x)),
      (''tool_attempts'', list_all (accepts new_tool_attempt_record) (xe_tool_attempts x)),
      (''observation_records'', list_all canonical_observation (xe_observation_records x)),
      (''context_manifests'', list_all canonical_manifest (xe_context_manifests x)),
      (''model_visible_toolset_artifacts'', list_all (\<lambda>a. accepts new_toolset_artifact a
         \<and> list_all canonical_tool_spec (ta_provider_visible_tool_specs a)) (xe_toolset_artifacts x)),
      (''trace_events'', list_all (\<lambda>t. accepts new_trace_event t
         \<and> opt_all (accepts new_timing_and_usage_summary) (te_timing_and_usage_summary t)) (xe_trace_events x))]"

definition supplied_graph_guards :: "run_evidence \<Rightarrow> guards" where
  "supplied_graph_guards x =
     identity_guards x @ understanding_guards x @ ownership_guards x @ history_guards x @ dispatch_guards x @ run_trace_guards x"

definition new_run_evidence :: "run_evidence \<Rightarrow> validation_error + run_evidence" where
  "new_run_evidence x = construct_with (exact_record_fields x)
     (res_bind (checks (supplied_graph_guards x)) (\<lambda>_. closed_set_checks x)) x"
end
