(* ===== verification/Harness_Mapping.thy ===== *)
theory Harness_Mapping
  imports Run_Evidence_Closure Grading
begin

section \<open>From an exact Run to graded evidence (evaluation/harness.py, lines 109--116, 283--287, 409--635, 1698--1902)\<close>

text \<open>
  The evaluation runs the service over HTTP, loads the exact evidence of the Run and maps both to the
  unbound evidence of a case, to which the harness later adds the case identity. The walks that make a
  detached copy of every record (JSON round trip, storage and payload trees) either refuse the value, for its
  depth, its number of edges or a text it must not contain, or give it back unchanged; which values they refuse
  is the parameter \<open>tree_is_closed\<close> of the mapping, and what is proved of the mapping holds for every choice of it.
\<close>

subsection \<open>Unbound results\<close>

record unbound_observable =
  uo_http_status :: int
  uo_user_outcome :: agent_outcome
  uo_response_policy :: pystr
  uo_ordinary_trace_shape :: "safe_trace_shape_entry list"
  uo_model_calls :: int

text \<open>\<open>UnboundEvalEvidence\<close>: the fields of \<open>EvalEvidence\<close> without the case and the observable.\<close>

record unbound_evidence =
  ue_observed_outcome :: agent_outcome
  ue_trace_ref :: uuid
  ue_trace_events :: "trace_event list"
  ue_run_record :: "agent_run_record option"
  ue_agent_result :: "agent_run_result option"
  ue_conversation_records :: "conversation_record list"
  ue_message_records :: "message_record list"
  ue_input_bindings :: "input_binding list"
  ue_task_records :: "task_record list"
  ue_request_units :: "request_unit_record list"
  ue_conversation_task_links :: "conversation_task_link_record list"
  ue_run_task_links :: "run_task_link_record list"
  ue_gate_decisions :: "gate_decision list"
  ue_tool_calls :: "tool_call_record list"
  ue_tool_attempts :: "tool_attempt_record list"
  ue_observations :: "order_observation list"
  ue_context_manifests :: "context_manifest list"
  ue_toolset_artifacts :: "toolset_artifact list"
  ue_request_understanding_records :: "ru_record list"
  ue_accepted_task_deltas :: "accepted_task_delta list"
  ue_task_state_transitions :: "task_state_transition list"

record sut_result =
  sr_execution_ref :: uuid
  sr_evidence :: unbound_evidence
  sr_safe_observable :: unbound_observable

subsection \<open>What a stop reason promises\<close>

fun exact_run_eval_response_policy :: "stop_reason \<Rightarrow> pystr option" where
  "exact_run_eval_response_policy STOP_GOAL_COMPLETED = Some (str ''DETERMINISTIC_ORDER_SUMMARY_V1'')"
| "exact_run_eval_response_policy STOP_NOT_FOUND_OR_NOT_ACCESSIBLE = Some (str ''FIXED_NOT_FOUND_OR_NOT_ACCESSIBLE'')"
| "exact_run_eval_response_policy STOP_ORDER_SERVICE_UNAVAILABLE = Some (str ''FIXED_ORDER_SERVICE_UNAVAILABLE'')"
| "exact_run_eval_response_policy STOP_INPUT_INVALID = Some (str ''FIXED_SAFE_PROCESSING_ERROR'')"
| "exact_run_eval_response_policy STOP_GATE_REJECTED = Some (str ''FIXED_SAFE_PROCESSING_ERROR'')"
| "exact_run_eval_response_policy STOP_PROVIDER_PROTOCOL_ERROR = Some (str ''FIXED_SAFE_PROCESSING_ERROR'')"
| "exact_run_eval_response_policy STOP_PRESENTATION_PLAN_REJECTED = Some (str ''FIXED_SAFE_PROCESSING_ERROR'')"
| "exact_run_eval_response_policy STOP_RENDERER_INVARIANT_FAILED = Some (str ''FIXED_SAFE_PROCESSING_ERROR'')"
| "exact_run_eval_response_policy STOP_PROCESS_RESTART_DETECTED = None"

fun exact_run_eval_expected_outcome :: "stop_reason \<Rightarrow> agent_outcome option" where
  "exact_run_eval_expected_outcome STOP_GOAL_COMPLETED = Some OUTCOME_COMPLETED"
| "exact_run_eval_expected_outcome STOP_NOT_FOUND_OR_NOT_ACCESSIBLE = Some OUTCOME_NOT_FOUND_OR_NOT_ACCESSIBLE"
| "exact_run_eval_expected_outcome STOP_INPUT_INVALID = Some OUTCOME_BLOCKED"
| "exact_run_eval_expected_outcome STOP_GATE_REJECTED = Some OUTCOME_BLOCKED"
| "exact_run_eval_expected_outcome STOP_PROVIDER_PROTOCOL_ERROR = Some OUTCOME_BLOCKED"
| "exact_run_eval_expected_outcome STOP_ORDER_SERVICE_UNAVAILABLE = Some OUTCOME_BLOCKED"
| "exact_run_eval_expected_outcome STOP_PRESENTATION_PLAN_REJECTED = Some OUTCOME_BLOCKED"
| "exact_run_eval_expected_outcome STOP_RENDERER_INVARIANT_FAILED = Some OUTCOME_BLOCKED"
| "exact_run_eval_expected_outcome STOP_PROCESS_RESTART_DETECTED = None"

subsection \<open>The mapping\<close>

text \<open>What the mapping walks: its two inputs, and the result it is about to return.\<close>

datatype payload_tree = AgentResultTree agent_run_result | ClosureTree run_evidence | UnboundResultTree sut_result

text \<open>\<open>UUID.version = 4\<close>: the RFC 4122 variant (bits 63 and 62) and the version nibble.\<close>

definition uuid_version_is_4 :: "uuid \<Rightarrow> bool" where
  "uuid_version_is_4 u \<longleftrightarrow> u div 2 ^ 63 mod 2 = 1 \<and> u div 2 ^ 62 mod 2 = 0 \<and> u div 2 ^ 76 mod 16 = 4"

definition unbound_evidence_of :: "agent_run_result \<Rightarrow> run_evidence \<Rightarrow> unbound_evidence" where
  "unbound_evidence_of result x =
     \<lparr>ue_observed_outcome = res_outcome result, ue_trace_ref = ar_run_id (xe_run_record x),
      ue_trace_events = xe_trace_events x, ue_run_record = Some (xe_run_record x), ue_agent_result = Some result,
      ue_conversation_records = [xe_conversation_record x], ue_message_records = xe_message_records x,
      ue_input_bindings = xe_input_binding_records x, ue_task_records = xe_task_records x,
      ue_request_units = xe_request_unit_records x, ue_conversation_task_links = xe_conversation_task_links x,
      ue_run_task_links = xe_run_task_links x, ue_gate_decisions = xe_gate_decisions x, ue_tool_calls = xe_tool_calls x,
      ue_tool_attempts = xe_tool_attempts x, ue_observations = xe_observation_records x,
      ue_context_manifests = xe_context_manifests x, ue_toolset_artifacts = xe_toolset_artifacts x,
      ue_request_understanding_records = (case xe_request_understanding_record x of None \<Rightarrow> [] | Some r \<Rightarrow> [r]),
      ue_accepted_task_deltas = xe_accepted_task_deltas x, ue_task_state_transitions = xe_task_state_transitions x\<rparr>"

text \<open>The last part of \<open>_canonical_unbound_result\<close>: the result agrees with itself.\<close>

definition unbound_result_agrees :: "sut_result \<Rightarrow> bool" where
  "unbound_result_agrees result =
     (let evidence = sr_evidence result; observable = sr_safe_observable result
      in ue_trace_events evidence \<noteq> []
         \<and> list_all (\<lambda>event. te_case_id event = None) (ue_trace_events evidence)
         \<and> list_all (\<lambda>event. te_event_type event \<noteq> EVAL_CASE_GRADED) (ue_trace_events evidence)
         \<and> ue_observed_outcome evidence = uo_user_outcome observable
         \<and> ordinary_trace_shape (map (\<lambda>event. Obj event []) (ue_trace_events evidence)) = Inr (uo_ordinary_trace_shape observable)
         \<and> int (length (ue_context_manifests evidence)) = uo_model_calls observable
         \<and> opt_all (\<lambda>r. res_outcome r = uo_user_outcome observable) (ue_agent_result evidence))"

definition exact_run_eval_map_result :: "(payload_tree \<Rightarrow> bool) \<Rightarrow> uuid \<Rightarrow> int \<Rightarrow> agent_run_result \<Rightarrow> run_evidence \<Rightarrow> sut_result option" where
  "exact_run_eval_map_result tree_is_closed execution_ref http_status agent_result closure =
     (let run = xe_run_record closure
      in if \<not> (accepts new_agent_run_result agent_result \<and> tree_is_closed (AgentResultTree agent_result)
               \<and> accepts new_run_evidence closure \<and> tree_is_closed (ClosureTree closure)
               \<and> uuid_version_is_4 execution_ref \<and> http_status = 200) then None
         else case ar_stop_reason run of None \<Rightarrow> None | Some stop_reason \<Rightarrow>
           if ar_status run \<noteq> RUN_COMPLETED \<or> res_run_id agent_result \<noteq> ar_run_id run \<or> xe_trace_events closure = []
              \<or> list_ex (\<lambda>event. te_run_id event \<noteq> ar_run_id run \<or> te_case_id event \<noteq> None) (xe_trace_events closure)
           then None
           else case exact_run_eval_response_policy stop_reason of None \<Rightarrow> None | Some response_policy \<Rightarrow>
             if exact_run_eval_expected_outcome stop_reason \<noteq> Some (res_outcome agent_result) then None
             else if \<not> opt_all (\<lambda>message. res_message agent_result = message) (fixed_message response_policy) then None
             else case ordinary_trace_shape (map (\<lambda>event. Obj event []) (xe_trace_events closure)) of
               Inl _ \<Rightarrow> None
             | Inr shape \<Rightarrow>
                 let candidate = \<lparr>sr_execution_ref = execution_ref,
                       sr_evidence = unbound_evidence_of agent_result closure,
                       sr_safe_observable = \<lparr>uo_http_status = http_status, uo_user_outcome = res_outcome agent_result,
                         uo_response_policy = response_policy, uo_ordinary_trace_shape = shape,
                         uo_model_calls = int (length (xe_context_manifests closure))\<rparr>\<rparr>
                 in if tree_is_closed (UnboundResultTree candidate) \<and> unbound_result_agrees candidate then Some candidate else None)"

definition bind_observable :: "unbound_observable \<Rightarrow> pystr \<Rightarrow> safe_case_observable" where
  "bind_observable o' case_id =
     \<lparr>so_case_id = case_id, so_http_status = uo_http_status o', so_user_outcome = uo_user_outcome o',
      so_response_policy = uo_response_policy o', so_ordinary_trace_shape = uo_ordinary_trace_shape o',
      so_model_calls = uo_model_calls o'\<rparr>"

text \<open>The evidence of \<open>_bind_authenticated_case\<close>, before its constructor runs.\<close>

definition bound_evidence :: "unbound_evidence \<Rightarrow> safe_case_observable \<Rightarrow> pystr \<Rightarrow> eval_evidence" where
  "bound_evidence u o' case_id =
     \<lparr>ev_case_id = case_id, ev_observed_outcome = ue_observed_outcome u, ev_trace_ref = ue_trace_ref u,
      ev_trace_events = ue_trace_events u, ev_safe_observable = Some o', ev_run_record = ue_run_record u,
      ev_agent_result = ue_agent_result u, ev_conversation_records = ue_conversation_records u,
      ev_message_records = ue_message_records u, ev_input_bindings = ue_input_bindings u,
      ev_task_records = ue_task_records u, ev_request_units = ue_request_units u,
      ev_conversation_task_links = ue_conversation_task_links u, ev_run_task_links = ue_run_task_links u,
      ev_gate_decisions = ue_gate_decisions u, ev_tool_calls = ue_tool_calls u, ev_tool_attempts = ue_tool_attempts u,
      ev_observations = ue_observations u, ev_context_manifests = ue_context_manifests u,
      ev_toolset_artifacts = ue_toolset_artifacts u,
      ev_request_understanding_records = ue_request_understanding_records u,
      ev_accepted_task_deltas = ue_accepted_task_deltas u, ev_task_state_transitions = ue_task_state_transitions u\<rparr>"

definition bind_authenticated_case :: "sut_result \<Rightarrow> pystr \<Rightarrow> validation_error + eval_evidence \<times> safe_case_observable" where
  "bind_authenticated_case result case_id =
     res_bind (new_safe_case_observable (bind_observable (sr_safe_observable result) case_id)) (\<lambda>safe_observable.
     res_bind (new_eval_evidence (bound_evidence (sr_evidence result) safe_observable case_id)) (\<lambda>evidence.
       Inr (evidence, safe_observable)))"

end
