(* ===== verification/Run_Evidence_Grading.thy ===== *)
theory Run_Evidence_Grading
  imports Harness_Mapping
begin

section \<open>Facts about accepted evidence of a Run\<close>

text \<open>
  What acceptance says of the parts of the evidence, and that its mapping satisfies the graders' structural checks.
\<close>

abbreviation holds :: "guards \<Rightarrow> bool" where
  "holds gs \<equiv> list_all (\<lambda>(c, _). \<not> c) gs"

lemma each_holds [simp]: "holds (each f xs) \<longleftrightarrow> (\<forall>y\<in>set xs. holds (f y))"
  by (auto simp: each_def list_all_iff)

lemma along_holds: "holds (along f xs) \<longleftrightarrow> (\<forall>i<length xs. holds (f (take i xs) (xs ! i)))"
  by (auto simp: along_def list_all_iff)

lemma along_at:
  assumes "holds (along f xs)" "y \<in> set xs"
  obtains prior where "holds (f prior y)"
  using assms by (auto simp: along_holds in_set_conv_nth)

lemma when_given_holds [simp]: "holds (when_given v f) \<longleftrightarrow> (\<forall>y. v = Some y \<longrightarrow> holds (f y))"
  by (cases v) (simp_all add: when_given_def)

lemma supplied_parts:
  assumes "new_run_evidence x = Inr y"
  shows "list_all snd (exact_record_fields x)" "holds (identity_guards x)" "holds (understanding_guards x)"
    "holds (ownership_guards x)" "holds (history_guards x)" "holds (dispatch_guards x)" "holds (run_trace_guards x)"
    "closed_set_checks x = Inr ()"
  using assms by (auto simp: new_run_evidence_def construct_with_Inr_iff res_bind_Inr_iff supplied_graph_guards_def)

lemma set_dict_of_items: "set (dict_of_items xs) \<subseteq> set xs"
proof -
  have "set (foldl (\<lambda>d (k, v). dict_set d k v) d xs) \<subseteq> set d \<union> set xs" for d
  proof (induction xs arbitrary: d)
    case (Cons y ys)
    obtain k v where y: "y = (k, v)" by (cases y)
    have "set (dict_set d k v) \<subseteq> insert (k, v) (set d)" by (auto simp: dict_set_def split: if_splits)
    with Cons[of "dict_set d k v"] y show ?case by auto
  qed simp
  from this[of "[]"] show ?thesis by (simp add: dict_of_items_def)
qed

lemma keys_dict_of_items: "fst ` set (dict_of_items xs) = fst ` set xs"
proof -
  have "fst ` set (foldl (\<lambda>d (k, v). dict_set d k v) d xs) = fst ` set d \<union> fst ` set xs" for d
  proof (induction xs arbitrary: d)
    case (Cons y ys)
    obtain k v where y: "y = (k, v)" by (cases y)
    have "set (map fst (dict_set d k v)) = insert k (set (map fst d))" by (auto simp: map_fst_dict_set)
    with Cons[of "dict_set d k v"] y show ?case by auto
  qed simp
  from this[of "[]"] show ?thesis by (simp add: dict_of_items_def)
qed

lemma dict_by_values: "map_of (dict_by key xs) k = Some y \<Longrightarrow> y \<in> set xs \<and> key y = k"
  using set_dict_of_items[of "map (\<lambda>x. (key x, x)) xs"] by (auto simp: dict_by_def dest!: map_of_SomeD)

lemma dict_by_keys: "set (map fst (dict_by key xs)) = key ` set xs"
  using keys_dict_of_items[of "map (\<lambda>x. (key x, x)) xs"] by (simp add: dict_by_def image_image)

lemma dict_by_None: "map_of (dict_by key xs) k = None \<longleftrightarrow> k \<notin> key ` set xs"
  using dict_by_keys[of key xs] by (auto simp: map_of_eq_None_iff)

subsection \<open>Identities and units\<close>

lemma evidence_distinct:
  assumes "new_run_evidence x = Inr y"
  shows "distinct (task_ids x)" "distinct (map ru_request_unit_id (xe_request_unit_records x))"
    "distinct (map ib_binding_id (xe_input_binding_records x))" "distinct (map tc_tool_call_id (xe_tool_calls x))"
    "distinct (map gd_gate_decision_id (xe_gate_decisions x))" "distinct (map cm_context_manifest_id (xe_context_manifests x))"
    "distinct (map oo_observation_id (xe_observation_records x))"
  using supplied_parts(2)[OF assms] by (simp_all add: identity_guards_def)

lemma evidence_units:
  assumes "new_run_evidence x = Inr y"
  shows "distinct (map ru_task_id (xe_request_unit_records x))"
    "set (map ru_task_id (xe_request_unit_records x)) = set (task_ids x)"
proof -
  have units: "holds (along (unit_guards x) (xe_request_unit_records x))"
    "set (map ru_task_id (xe_request_unit_records x)) = set (task_ids x)"
    using supplied_parts(4)[OF assms] by (simp_all add: ownership_guards_def)
  then show "set (map ru_task_id (xe_request_unit_records x)) = set (task_ids x)" by simp
  let ?us = "xe_request_unit_records x"
  have fresh: "i < length ?us \<Longrightarrow> ru_task_id (?us ! i) \<notin> set (map ru_task_id (take i ?us))" for i
    using units(1) by (simp add: along_holds unit_guards_def)
  show "distinct (map ru_task_id ?us)"
    unfolding distinct_conv_nth
  proof (intro allI impI)
    have less: "j < i \<Longrightarrow> i < length ?us \<Longrightarrow> ru_task_id (?us ! i) \<noteq> ru_task_id (?us ! j)" for i j
      using fresh[of i] by (force simp: in_set_conv_nth)
    fix i j assume "i < length (map ru_task_id ?us)" "j < length (map ru_task_id ?us)" "i \<noteq> j"
    then show "map ru_task_id ?us ! i \<noteq> map ru_task_id ?us ! j"
      using less[of i j] less[of j i] by (cases "i < j") auto
  qed
qed

lemma unit_of_task_record:
  assumes "new_run_evidence x = Inr y" "unit \<in> set (xe_request_unit_records x)"
  shows "unit_of_task x (ru_task_id unit) = Some unit"
    and "hd (filter (\<lambda>u. ru_task_id u = ru_task_id unit) (xe_request_unit_records x)) = unit"
proof -
  show "unit_of_task x (ru_task_id unit) = Some unit"
    unfolding unit_of_task_def by (rule map_of_dict_by_mem[OF evidence_units(1)[OF assms(1)] assms(2)])
  have "set (filter (\<lambda>u. ru_task_id u = ru_task_id unit) (xe_request_unit_records x)) = {unit}"
    using evidence_units(1)[OF assms(1)] assms(2) by (auto simp: distinct_map inj_on_def)
  then show "hd (filter (\<lambda>u. ru_task_id u = ru_task_id unit) (xe_request_unit_records x)) = unit"
    by (metis empty_iff hd_in_set insert_not_empty list.set(1) singletonD)
qed

lemma task_of_record:
  assumes "new_run_evidence x = Inr y" "task \<in> set (xe_task_records x)"
  shows "run_task_by_id x (tk_task_id task) = Some task"
  unfolding run_task_by_id_def using map_of_dict_by_mem evidence_distinct(1)[OF assms(1)] assms(2) by (fastforce simp: task_ids_def)

lemma unit_matches_task:
  assumes "new_run_evidence x = Inr y" "task \<in> set (xe_task_records x)"
  obtains unit where "unit \<in> set (xe_request_unit_records x)" "ru_task_id unit = tk_task_id task"
    "ru_status unit = tk_status task" "ru_state_version unit = tk_state_version task"
proof -
  have "tk_task_id task \<in> set (map ru_task_id (xe_request_unit_records x))"
    using evidence_units(2)[OF assms(1)] assms(2) by (simp add: task_ids_def)
  then obtain unit where u: "unit \<in> set (xe_request_unit_records x)" "ru_task_id unit = tk_task_id task" by auto
  have "holds (along (unit_guards x) (xe_request_unit_records x))"
    using supplied_parts(4)[OF assms(1)] by (simp add: ownership_guards_def)
  from along_at[OF this u(1)] obtain prior where "holds (unit_guards x prior unit)" by blast
  then show ?thesis using u task_of_record[OF assms] that by (simp add: unit_guards_def)
qed

section \<open>Accepted evidence and the graders\<close>

text \<open>
  The store's closure and the graders check the Task history and the attempts each in its own way:
  what the closure accepts passes the grader's checks.
\<close>

subsection \<open>Task histories\<close>

lemma transition_binds:
  assumes "new_run_evidence x = Inr y" "t \<in> set (xe_task_state_transitions x)"
  shows "tt_task_id t \<in> set (task_ids x)"
    and "unit \<in> set (xe_request_unit_records x) \<Longrightarrow> ru_task_id unit = tt_task_id t \<Longrightarrow> tt_request_unit_id t = ru_request_unit_id unit"
    and "tt_result_state_version t = tt_base_state_version t + 1"
proof -
  have h: "\<not> (tt_task_id t \<notin> set (task_ids x)
      \<or> map_option ru_task_id (run_unit_by_id x (tt_request_unit_id t)) \<noteq> Some (tt_task_id t))"
    using supplied_parts(5)[OF assms(1)] assms(2) by (auto simp: history_guards_def list_ex_iff)
  then show "tt_task_id t \<in> set (task_ids x)" by simp
  have "accepts new_task_state_transition t"
    using supplied_parts(1)[OF assms(1)] assms(2) by (auto simp: exact_record_fields_def list_all_iff)
  then show "tt_result_state_version t = tt_base_state_version t + 1"
    by (auto simp: accepts_iff new_task_state_transition_def construct_Inr_iff)
  assume u: "unit \<in> set (xe_request_unit_records x)" "ru_task_id unit = tt_task_id t"
  from h obtain u' where u': "run_unit_by_id x (tt_request_unit_id t) = Some u'" "ru_task_id u' = tt_task_id t" by auto
  from u'(1) have "u' \<in> set (xe_request_unit_records x)" "ru_request_unit_id u' = tt_request_unit_id t"
    by (auto simp: run_unit_by_id_def dest: dict_by_values)
  moreover from this(1) have "u' = unit"
    using evidence_units(1)[OF assms(1)] u u'(2) by (auto simp: distinct_map inj_on_def)
  ultimately show "tt_request_unit_id t = ru_request_unit_id unit" by simp
qed

lemma closed_history_passes:
  assumes x: "new_run_evidence x = Inr y" and task: "task \<in> set (xe_task_records x)"
  shows "task_history_reason task (hd (filter (\<lambda>u. ru_task_id u = tk_task_id task) (xe_request_unit_records x)))
    (transitions_of x (tk_task_id task)) = None"
proof -
  let ?ts = "transitions_of x (tk_task_id task)"
  obtain unit where u: "unit \<in> set (xe_request_unit_records x)" "ru_task_id unit = tk_task_id task"
    "ru_status unit = tk_status task" "ru_state_version unit = tk_state_version task"
    by (rule unit_matches_task[OF x task])
  have hd: "hd (filter (\<lambda>w. ru_task_id w = tk_task_id task) (xe_request_unit_records x)) = unit"
    using unit_of_task_record(2)[OF x u(1)] u(2) by simp
  have h: "holds (run_history_guards x task)"
    using supplied_parts(5)[OF x] task by (simp add: history_guards_def)
  have count: "tk_state_version task = int (length ?ts) + 1"
    and versions: "\<not> list_ex (\<lambda>(v, t). tt_result_state_version t \<noteq> int v) (enumerate 2 ?ts)"
    using h by (simp_all add: run_history_guards_def Let_def)
  have own: "tt_request_unit_id t = ru_request_unit_id unit" "tt_base_state_version t = tt_result_state_version t - 1"
    if "t \<in> set ?ts" for t
    using that transition_binds(2,3)[OF x, of t] u(1,2) by (auto simp: transitions_of_def)
  have numbered: "\<not> list_ex (\<lambda>(v, t). tt_request_unit_id t \<noteq> ru_request_unit_id unit
      \<or> tt_base_state_version t \<noteq> int v - 1 \<or> tt_result_state_version t \<noteq> int v) (enumerate 2 ?ts)"
  proof
    assume "list_ex (\<lambda>(v, t). tt_request_unit_id t \<noteq> ru_request_unit_id unit
      \<or> tt_base_state_version t \<noteq> int v - 1 \<or> tt_result_state_version t \<noteq> int v) (enumerate 2 ?ts)"
    then obtain v t where vt: "(v, t) \<in> set (enumerate 2 ?ts)" "tt_request_unit_id t \<noteq> ru_request_unit_id unit
      \<or> tt_base_state_version t \<noteq> int v - 1 \<or> tt_result_state_version t \<noteq> int v" by (auto simp: list_ex_iff)
    then have "v - 2 < length ?ts" "?ts ! (v - 2) = t" by (auto simp: in_set_enumerate_eq)
    then have "t \<in> set ?ts" using nth_mem by blast
    moreover have "tt_result_state_version t = int v" using versions vt(1) unfolding list_ex_iff by blast
    ultimately show False using own[of t] vt(2) by simp
  qed
  show ?thesis
  proof (cases "?ts = []")
    case True
    have "tk_status task = ACTIVE" using h unfolding run_history_guards_def Let_def True by simp
    moreover have "tk_state_version task = 1" using count True by simp
    ultimately show ?thesis unfolding task_history_reason_def hd True using u(3,4) by simp
  next
    case False
    then have "tt_from_status (hd ?ts) = ACTIVE" "\<not> dt_less (tt_changed_at (hd ?ts)) (tk_created_at task)"
      "\<not> list_ex (\<lambda>(current, following). tt_to_status current \<noteq> tt_from_status following
         \<or> dt_less (tt_changed_at following) (tt_changed_at current)) (adjacent ?ts)"
      "tt_to_status (last ?ts) = tk_status task" "tt_changed_at (last ?ts) = tk_updated_at task"
      using h by (simp_all add: run_history_guards_def Let_def)
    with False numbered u(3,4) count show ?thesis
      unfolding task_history_reason_def hd by simp
  qed
qed

subsection \<open>Attempts\<close>

lemma enumerated_numbers:
  assumes "\<not> list_ex (\<lambda>(n, a). f a \<noteq> int n) (enumerate k xs)"
  shows "map f xs = map int [k..<k + length xs]"
proof (rule nth_equalityI)
  fix i assume i: "i < length (map f xs)"
  then have "(k + i, xs ! i) \<in> set (enumerate k xs)" by (simp add: in_set_enumerate_eq)
  then show "map f xs ! i = map int [k..<k + length xs] ! i" using assms i by (auto simp: list_ex_iff)
qed simp

lemma adjacent_nth: "(a, b) \<in> set (adjacent xs) \<longleftrightarrow> (\<exists>i. Suc i < length xs \<and> a = xs ! i \<and> b = xs ! Suc i)"
  unfolding adjacent_def set_zip by (auto simp: less_diff_conv)

lemma closed_attempts_pass:
  assumes x: "new_run_evidence x = Inr y" and call: "call \<in> set (xe_tool_calls x)"
  shows "call_attempts_reason call (sort_key at_attempt_no (attempts_of x (tc_tool_call_id call))) = None"
proof -
  let ?as = "attempts_of x (tc_tool_call_id call)"
  have g: "holds (attempt_guards x call)"
    using supplied_parts(6)[OF x] call by (simp add: dispatch_guards_def)
  have count: "tc_attempt_count call = int (length ?as)"
    and numbers: "\<not> list_ex (\<lambda>(n, a). at_attempt_no a \<noteq> int n) (enumerate 1 ?as)"
    and started: "\<not> list_ex (\<lambda>a. dt_less (at_started_at a) (tc_started_at call)) ?as"
    and ordered: "\<not> list_ex (\<lambda>(current, following). case at_finished_at current of
          None \<Rightarrow> True | Some finished \<Rightarrow> dt_less (at_started_at following) finished) (adjacent ?as)"
    using g by (simp_all add: attempt_guards_def Let_def)
  have nos: "map at_attempt_no ?as = map int [1..<Suc (length ?as)]"
    using enumerated_numbers[OF numbers] by simp
  have "sorted (map at_attempt_no ?as)" unfolding nos by (simp add: sorted_map sorted_wrt_mono_rel[OF _ sorted_upt] del: upt_Suc)
  then have sorted: "sort_key at_attempt_no ?as = ?as" by (rule sort_key_id_if_sorted)
  have valid: "a \<in> set ?as \<Longrightarrow> accepts new_tool_attempt_record a" for a
    using supplied_parts(1)[OF x] by (auto simp: exact_record_fields_def list_all_iff attempts_of_def)
  have starts: "\<not> list_ex (\<lambda>(current, following). dt_less (at_started_at following) (at_started_at current)) (adjacent ?as)"
  proof
    assume "list_ex (\<lambda>(current, following). dt_less (at_started_at following) (at_started_at current)) (adjacent ?as)"
    then obtain a b where ab: "(a, b) \<in> set (adjacent ?as)" "dt_less (at_started_at b) (at_started_at a)"
      by (auto simp: list_ex_iff)
    then obtain finished where f: "at_finished_at a = Some finished" "\<not> dt_less (at_started_at b) finished"
      using ordered by (fastforce simp: list_ex_iff split: option.splits)
    have "a \<in> set ?as" using ab(1) by (auto simp: adjacent_nth)
    from valid[OF this] f(1) have "\<not> dt_less finished (at_started_at a)"
      by (auto simp: accepts_iff new_tool_attempt_record_def construct_Inr_iff tool_attempt_lifecycle_def)
    with f(2) ab(2) show False by (simp add: dt_less_def)
  qed
  have open_iff: "attempt_open = attempt_unfinished" by (auto simp: attempt_open_def attempt_unfinished_def fun_eq_iff)
  have outcomes: "(case TERMINAL_TOOL_OUTCOMES (tc_status call) of None \<Rightarrow> {} | Some outs \<Rightarrow> Some ` set outs)
      = Some ` set (final_outcomes (tc_status call))" if "tc_status call \<notin> {TC_INTERRUPTED}"
    using that by (cases "tc_status call") (simp_all add: TERMINAL_TOOL_OUTCOMES_def final_outcomes_def)
  show ?thesis
    using g nos count started starts outcomes
    by (cases "tc_status call")
       (simp_all add: call_attempts_reason_def attempt_guards_def Let_def sorted open_iff)
qed

subsection \<open>The evidence the harness hands to the graders\<close>

lemma mapped_result:
  assumes "exact_run_eval_map_result tree_is_closed execution_ref http_status agent_result x = Some r"
  shows "accepts new_agent_run_result agent_result" "new_run_evidence x = Inr x" "http_status = 200"
    "sr_evidence r = unbound_evidence_of agent_result x"
    "uo_http_status (sr_safe_observable r) = 200" "uo_model_calls (sr_safe_observable r) = int (length (xe_context_manifests x))"
    "ordinary_trace_shape (map (\<lambda>event. Obj event []) (xe_trace_events x)) = Inr (uo_ordinary_trace_shape (sr_safe_observable r))"
  using assms
  by (auto simp: exact_run_eval_map_result_def Let_def accepts_iff split: if_splits option.splits sum.splits)

lemma understood_children:
  assumes x: "new_run_evidence x = Inr y"
  shows "xe_request_understanding_record x = None \<Longrightarrow> xe_accepted_task_deltas x = [] \<and> xe_task_records x = [] \<and> xe_task_state_transitions x = []"
    and "xe_request_understanding_record x = Some r \<Longrightarrow>
      set (rc_accepted_delta_refs r) = set (map ad_accepted_delta_id (xe_accepted_task_deltas x))
      \<and> set (map ad_candidate_ref (xe_accepted_task_deltas x)) \<subseteq> set (map dtd_candidate_id (rc_task_delta_candidates r))"
proof -
  note g = supplied_parts(3)[OF x, unfolded understanding_guards_def]
  have tasks: "set (map ad_task_id (xe_accepted_task_deltas x)) = set (task_ids x)" using g by simp
  {
    assume none: "xe_request_understanding_record x = None"
    then have deltas: "xe_accepted_task_deltas x = []" using g by simp
    with tasks have ids: "task_ids x = []" by simp
    moreover have "xe_task_state_transitions x = []"
      using transition_binds(1)[OF x] ids by (metis empty_iff hd_in_set list.set(1))
    ultimately show "xe_accepted_task_deltas x = [] \<and> xe_task_records x = [] \<and> xe_task_state_transitions x = []"
      using deltas by (simp add: task_ids_def)
  }
  assume some: "xe_request_understanding_record x = Some r"
  have "ad_candidate_ref d \<in> dtd_candidate_id ` set (rc_task_delta_candidates r)"
    if d: "d \<in> set (xe_accepted_task_deltas x)" for d
  proof -
    have "holds (along (child_guards x r) (xe_accepted_task_deltas x))" using g some by simp
    from along_at[OF this d] obtain prior where "holds (child_guards x r prior d)" by blast
    then have "map_of (dict_by dtd_candidate_id (rc_task_delta_candidates r)) (ad_candidate_ref d) \<noteq> None"
      by (simp add: child_guards_def Let_def)
    then show ?thesis unfolding dict_by_None by simp
  qed
  then have "set (map ad_candidate_ref (xe_accepted_task_deltas x)) \<subseteq> set (map dtd_candidate_id (rc_task_delta_candidates r))"
    by auto
  moreover have "set (rc_accepted_delta_refs r) = set (map ad_accepted_delta_id (xe_accepted_task_deltas x))"
    using g some by simp
  ultimately show "set (rc_accepted_delta_refs r) = set (map ad_accepted_delta_id (xe_accepted_task_deltas x))
      \<and> set (map ad_candidate_ref (xe_accepted_task_deltas x)) \<subseteq> set (map dtd_candidate_id (rc_task_delta_candidates r))"
    by blast
qed

lemma distinct_pairs: "distinct (map f xs) \<Longrightarrow> distinct (map (\<lambda>y. (g y, f y)) xs)"
  by (auto simp: distinct_map inj_on_def)

lemma bound_evidence_unambiguous:
  assumes x: "new_run_evidence x = Inr y"
  shows "holds (evidence_sets_are_unambiguous (bound_evidence (unbound_evidence_of result x) o' case_id))"
proof -
  have "holds (identity_guards x)" using x by (rule supplied_parts(2))
  then show ?thesis
    using understood_children[OF x] distinct_pairs[of rl_task_id "xe_run_task_links x" rl_run_id]
    by (cases "xe_request_understanding_record x")
       (simp_all add: evidence_sets_are_unambiguous_def bound_evidence_def unbound_evidence_of_def identity_guards_def task_ids_def)
qed

text \<open>A shape is accepted entry by entry: every count starts at one.\<close>

lemma trace_shape_valid:
  "trace_shape_from counts events = Inr shape \<Longrightarrow> list_all (accepts new_safe_trace_shape_entry) shape"
proof (induction counts events arbitrary: shape rule: trace_shape_from.induct)
  case (3 counts event extra events)
  let ?seen = "Suc (counts (te_event_type event))"
  obtain rest where rest: "trace_shape_from (counts(te_event_type event := ?seen)) events = Inr rest"
    "shape = shape_entry event ?seen # rest"
    using 3(2) by (auto simp: Let_def res_bind_Inr_iff)
  have "accepts new_safe_trace_shape_entry (shape_entry event ?seen)"
    by (simp add: shape_entry_def accepts_iff new_safe_trace_shape_entry_def construct_Inr_iff)
  with 3(1)[OF refl rest(1)] rest(2) show ?case by simp
qed simp_all

lemma mapped_evidence_canonical:
  assumes m: "exact_run_eval_map_result tree_is_closed execution_ref http_status agent_result x = Some r"
  shows "\<exists>e. bind_authenticated_case r case_id = Inr (e, bind_observable (sr_safe_observable r) case_id)
    \<and> e = bound_evidence (unbound_evidence_of agent_result x) (bind_observable (sr_safe_observable r) case_id) case_id
    \<and> canonical_eval_evidence e"
proof -
  let ?o = "bind_observable (sr_safe_observable r) case_id"
  let ?e = "bound_evidence (unbound_evidence_of agent_result x) ?o case_id"
  note M = mapped_result[OF m]
  have o: "new_safe_case_observable ?o = Inr ?o"
    by (simp add: new_safe_case_observable_def construct_Inr_iff bind_observable_def M)
  have e: "new_eval_evidence ?e = Inr ?e"
    using bound_evidence_unambiguous[OF M(2)] by (simp add: new_eval_evidence_def construct_Inr_iff)
  have shape: "list_all (accepts new_safe_trace_shape_entry) (so_ordinary_trace_shape ?o)"
    using M(7) trace_shape_valid by (simp add: ordinary_trace_shape_def bind_observable_def)
  have "canonical_eval_evidence ?e"
    using supplied_parts(1)[OF M(2)] M(1) o e shape
    by (cases "xe_request_understanding_record x")
       (simp_all add: canonical_eval_evidence_def bound_evidence_def unbound_evidence_of_def exact_record_fields_def accepts_iff)
  then show ?thesis using o e by (simp add: bind_authenticated_case_def M(4))
qed

lemma mapped_histories_pass:
  assumes m: "exact_run_eval_map_result tree_is_closed execution_ref http_status agent_result x = Some r"
    and e: "e = bound_evidence (unbound_evidence_of agent_result x) o' case_id"
  shows "v2_task_transition_graph_reason e = None"
proof -
  note M = mapped_result[OF m]
  have fields: "ev_task_records e = xe_task_records x" "ev_request_units e = xe_request_unit_records x"
    "ev_task_state_transitions e = xe_task_state_transitions x"
    by (simp_all add: e bound_evidence_def unbound_evidence_of_def)
  have ids: "set (map tk_task_id (xe_task_records x)) = set (task_ids x)" by (simp add: task_ids_def)
  have known: "set (map tt_task_id (xe_task_state_transitions x)) \<subseteq> set (task_ids x)"
    using transition_binds(1)[OF M(2)] by auto
  show ?thesis
  proof (cases "xe_task_records x = []")
    case True
    then have "task_ids x = []" by (simp add: task_ids_def)
    then show ?thesis using known evidence_units(2)[OF M(2)]
      by (simp add: v2_task_transition_graph_reason_def fields True)
  next
    case False
    have "find_reason (\<lambda>task. task_history_reason task
             (hd (filter (\<lambda>unit. ru_task_id unit = tk_task_id task) (xe_request_unit_records x)))
             (filter (\<lambda>transition. tt_task_id transition = tk_task_id task) (xe_task_state_transitions x))) (xe_task_records x) = None"
      using closed_history_passes[OF M(2)] by (simp add: transitions_of_def)
    then show ?thesis
      using False known evidence_units[OF M(2)] unfolding v2_task_transition_graph_reason_def fields Let_def ids by simp
  qed
qed
end
