(* ===== verification/Run_Evidence_Claims.thy ===== *)
theory Run_Evidence_Claims
  imports Run_Evidence_Grading
begin

section \<open>What a dispatched ToolCall was asked for\<close>

text \<open>
  From a dispatched ToolCall back to the claim of the user it was bound with.
\<close>

definition child_bindings :: "run_evidence \<Rightarrow> accepted_task_delta \<Rightarrow> input_binding list" where
  "child_bindings x child = given (map (binding_by_id x) (ad_input_binding_refs child))"

text \<open>
  \<open>b\<close> is an input of the Task \<open>task_id\<close>: an accepted child of the Task lists it, its candidate was decided to be
  accepted, and \<open>b\<close> is the normal form of what this candidate quoted, under the same name, from a message of the
  Conversation.
\<close>

definition claimed_binding :: "run_evidence \<Rightarrow> uuid \<Rightarrow> input_binding \<Rightarrow> bool" where
  "claimed_binding x task_id b \<longleftrightarrow> (\<exists>r child candidate decision i m. xe_request_understanding_record x = Some r
     \<and> child \<in> set (xe_accepted_task_deltas x) \<and> ad_task_id child = task_id
     \<and> ib_binding_id b \<in> set (ad_input_binding_refs child)
     \<and> candidate \<in> set (rc_task_delta_candidates r) \<and> dtd_candidate_id candidate = ad_candidate_ref child
     \<and> decision \<in> set (rc_candidate_validation r) \<and> cv_candidate_ref decision = dtd_candidate_id candidate
     \<and> cv_decision decision = DECISION_ACCEPT
     \<and> i \<in> set (dtd_input_candidates candidate) \<and> dic_name i = ib_name b
     \<and> normalize_order_id (JStr (dic_candidate_value i)) = Inr (ib_normalized_value b)
     \<and> ib_source_refs b = [dic_source_ref i]
     \<and> m \<in> set (xe_message_records x) \<and> mr_message_id m = dic_source_ref i
     \<and> mr_conversation_id m = cr_conversation_id (xe_conversation_record x))"

lemma candidate_children_distinct:
  assumes x: "new_run_evidence x = Inr y"
  shows "distinct (map ad_candidate_ref (xe_accepted_task_deltas x))"
proof (cases "xe_request_understanding_record x")
  case None
  then show ?thesis using understood_children(1)[OF x] by simp
next
  case (Some r)
  let ?ds = "xe_accepted_task_deltas x"
  have "holds (along (child_guards x r) ?ds)"
    using supplied_parts(3)[OF x] Some by (simp add: understanding_guards_def)
  then have fresh: "i < length ?ds \<Longrightarrow> ad_candidate_ref (?ds ! i) \<notin> set (map ad_candidate_ref (take i ?ds))" for i
    by (simp add: along_holds child_guards_def Let_def)
  have less: "j < i \<Longrightarrow> i < length ?ds \<Longrightarrow> ad_candidate_ref (?ds ! i) \<noteq> ad_candidate_ref (?ds ! j)" for i j
    using fresh[of i] by (force simp: in_set_conv_nth)
  show ?thesis unfolding distinct_conv_nth
  proof (intro allI impI)
    fix i j assume "i < length (map ad_candidate_ref ?ds)" "j < length (map ad_candidate_ref ?ds)" "i \<noteq> j"
    then show "map ad_candidate_ref ?ds ! i \<noteq> map ad_candidate_ref ?ds ! j"
      using less[of i j] less[of j i] by (cases "i < j") auto
  qed
qed

lemma ordered_children_are_accepted:
  assumes x: "new_run_evidence x = Inr y"
  shows "set (ordered_children x) = set (xe_accepted_task_deltas x)"
proof (cases "xe_request_understanding_record x")
  case None
  then show ?thesis using understood_children(1)[OF x] by (simp add: ordered_children_def)
next
  case (Some r)
  let ?ds = "xe_accepted_task_deltas x"
  have "d \<in> set (ordered_children x)" if d: "d \<in> set ?ds" for d
  proof -
    have "ad_candidate_ref d \<in> set (map dtd_candidate_id (rc_task_delta_candidates r))"
      using understood_children(2)[OF x Some] d by auto
    then obtain c where c: "c \<in> set (rc_task_delta_candidates r)" "dtd_candidate_id c = ad_candidate_ref d" by auto
    moreover have "map_of (dict_by ad_candidate_ref ?ds) (ad_candidate_ref d) = Some d"
      by (rule map_of_dict_by_mem[OF candidate_children_distinct[OF x] d])
    ultimately show ?thesis by (force simp: ordered_children_def Some)
  qed
  moreover have "d \<in> set ?ds" if "d \<in> set (ordered_children x)" for d
  proof -
    from that have "\<exists>c :: durable_task_delta_candidate. map_of (dict_by ad_candidate_ref ?ds) (dtd_candidate_id c) = Some d"
      by (auto simp: ordered_children_def Some split: option.splits dest!: sym[of "Some d"])
    then show ?thesis using dict_by_values by fast
  qed
  ultimately show ?thesis by blast
qed

lemma child_binding_claimed:
  assumes x: "new_run_evidence x = Inr y" and child: "child \<in> set (xe_accepted_task_deltas x)"
    and ref: "ref \<in> set (ad_input_binding_refs child)" and names: "distinct (map ib_name (child_bindings x child))"
  shows "\<exists>b. binding_by_id x ref = Some b \<and> claimed_binding x (ad_task_id child) b"
proof -
  obtain r where r: "xe_request_understanding_record x = Some r"
    using understood_children(1)[OF x] child by fastforce
  have "holds (along (child_guards x r) (xe_accepted_task_deltas x))"
    using supplied_parts(3)[OF x] r by (simp add: understanding_guards_def)
  from along_at[OF this child] obtain prior where "holds (child_guards x r prior child)" by blast
  then obtain c decision where c: "map_of (dict_by dtd_candidate_id (rc_task_delta_candidates r)) (ad_candidate_ref child) = Some c"
    "holds (child_candidate_guards x r child c)"
    "map_of (dict_by cv_candidate_ref (rc_candidate_validation r)) (ad_candidate_ref child) = Some decision"
    "cv_decision decision = DECISION_ACCEPT" by (auto simp: child_guards_def Let_def)
  have decided: "decision \<in> set (rc_candidate_validation r)" "cv_candidate_ref decision = ad_candidate_ref child"
    using dict_by_values[OF c(3)] by blast+
  let ?bs = "child_bindings x child"
  let ?inputs = "dict_by dic_name (dtd_input_candidates c)"
  have actual: "dict_by ib_name ?bs = map (\<lambda>b. (ib_name b, b)) ?bs" using names by (rule dict_by_distinct)
  have g: "\<not> list_ex (\<lambda>b. b = None) (map (binding_by_id x) (ad_input_binding_refs child))"
    "set (map fst (dict_by ib_name ?bs)) = set (map fst ?inputs)"
    "\<not> list_ex (\<lambda>(name, b). case map_of ?inputs name of None \<Rightarrow> False | Some i \<Rightarrow> \<not> binding_preserves i b) (dict_by ib_name ?bs)"
    using c(2) by (simp_all add: child_candidate_guards_def Let_def child_bindings_def given_def)
  obtain b where b: "binding_by_id x ref = Some b" using g(1) ref by (cases "binding_by_id x ref") (force simp: list_ex_iff image_iff)+
  then have "b \<in> set ?bs" using ref by (force simp: child_bindings_def given_def)
  then have pair: "(ib_name b, b) \<in> set (dict_by ib_name ?bs)" unfolding actual by auto
  then have "ib_name b \<in> set (map fst ?inputs)" unfolding g(2)[symmetric] by force
  then have "map_of ?inputs (ib_name b) \<noteq> None" by (simp add: map_of_eq_None_iff)
  then obtain i where i: "map_of ?inputs (ib_name b) = Some i" by blast
  then have "binding_preserves i b" using g(3) pair by (auto simp: list_ex_iff)
  moreover have i_in: "i \<in> set (dtd_input_candidates c)" "dic_name i = ib_name b" using i by (auto dest: dict_by_values)
  moreover have c_in: "c \<in> set (rc_task_delta_candidates r)" "dtd_candidate_id c = ad_candidate_ref child"
    using c(1) by (auto dest: dict_by_values)
  moreover have "ib_binding_id b \<in> set (ad_input_binding_refs child)"
    using b ref by (auto simp: binding_by_id_def dest: dict_by_values)
  moreover obtain m where "m \<in> set (xe_message_records x)" "mr_message_id m = dic_source_ref i"
    "mr_conversation_id m = cr_conversation_id (xe_conversation_record x)"
  proof -
    have "dic_source_ref i \<in> set (referenced_message_ids x)"
      using i_in c_in by (force simp: referenced_message_ids_def r understanding_message_refs_def)
    then have "dic_source_ref i \<in> mr_message_id ` set (xe_message_records x)"
      using supplied_parts(8)[OF x] by (auto simp: closed_set_checks_def res_bind_Inr_iff)
    moreover have "\<forall>m\<in>set (xe_message_records x). mr_conversation_id m = cr_conversation_id (xe_conversation_record x)"
      using supplied_parts(2)[OF x] by (auto simp: identity_guards_def list_ex_iff)
    ultimately show ?thesis using that by force
  qed
  ultimately have "claimed_binding x (ad_task_id child) b"
    using r child decided c(4) unfolding claimed_binding_def binding_preserves_def by metis
  with b show ?thesis by blast
qed

lemma call_authority:
  assumes x: "new_run_evidence x = Inr y" and call: "call \<in> set (xe_tool_calls x)"
  obtains task unit gate where "run_task_by_id x (tc_task_id call) = Some task"
    "tk_owner_customer_id task = cr_owner_customer_id (xe_conversation_record x)"
    "unit_of_task x (tc_task_id call) = Some unit" "ru_request_unit_id unit = tc_request_unit_id call"
    "set (tc_argument_binding_refs call) \<subseteq> set (ru_input_binding_refs unit)"
    "gate_by_id x (tc_gate_decision_id call) = Some gate" "gd_decision gate = GateAccept"
    "gd_resolved_canonical_tool_name gate = Some (tc_canonical_tool_name call)"
proof -
  have "holds (along (call_guards x) (xe_tool_calls x))"
    using supplied_parts(6)[OF x] by (simp add: dispatch_guards_def)
  from along_at[OF this call] obtain prior where g: "holds (call_guards x prior call)" by blast
  then obtain task unit manifest gate where parts: "run_task_by_id x (tc_task_id call) = Some task"
    "run_unit_by_id x (tc_request_unit_id call) = Some unit" "gate_by_id x (tc_gate_decision_id call) = Some gate"
    "ru_task_id unit = tc_task_id call" "set (tc_argument_binding_refs call) \<subseteq> set (ru_input_binding_refs unit)"
    "call_projection task manifest gate call"
    by (auto simp: call_guards_def split: option.splits)
  have "task \<in> set (xe_task_records x)" using parts(1) by (auto simp: run_task_by_id_def dest: dict_by_values)
  then have "tk_owner_customer_id task = cr_owner_customer_id (xe_conversation_record x)"
    using supplied_parts(4)[OF x] by (auto simp: ownership_guards_def list_ex_iff)
  moreover from parts(2) have u: "unit \<in> set (xe_request_unit_records x)" "ru_request_unit_id unit = tc_request_unit_id call"
    by (auto simp: run_unit_by_id_def dest: dict_by_values)
  ultimately show ?thesis using that parts unit_of_task_record(1)[OF x u(1)] by (auto simp: call_projection_def)
qed

lemma unit_refs_accepted:
  assumes x: "new_run_evidence x = Inr y" and unit: "unit_of_task x task_id = Some unit"
    and ref: "ref \<in> set (ru_input_binding_refs unit)"
  obtains child where "child \<in> set (xe_accepted_task_deltas x)" "ad_task_id child = task_id" "ref \<in> set (ad_input_binding_refs child)"
proof -
  have u: "unit \<in> set (xe_request_unit_records x)" "ru_task_id unit = task_id"
    using unit by (auto simp: unit_of_task_def dest: dict_by_values)
  then have "task_id \<in> set (task_ids x)" using evidence_units(2)[OF x] by auto
  moreover have "set (map ad_task_id (xe_accepted_task_deltas x)) = set (task_ids x)"
    using supplied_parts(3)[OF x] by (simp add: understanding_guards_def)
  ultimately have "task_id \<in> ad_task_id ` set (ordered_children x)"
    unfolding ordered_children_are_accepted[OF x] by auto
  then have task: "task_id \<in> set (remdups (map ad_task_id (ordered_children x)))" "children_of x task_id \<noteq> []"
    by (auto simp: children_of_def filter_empty_conv)
  have "holds (latest_child_guards x task_id)"
    using supplied_parts(4)[OF x] task(1) by (auto simp: ownership_guards_def)
  then have "set (ad_input_binding_refs (last (children_of x task_id))) = set (ru_input_binding_refs unit)"
    by (simp add: latest_child_guards_def Let_def unit)
  moreover have "last (children_of x task_id) \<in> set (xe_accepted_task_deltas x)"
    using task(2) ordered_children_are_accepted[OF x] last_in_set[OF task(2)] by (auto simp: children_of_def)
  moreover have "ad_task_id (last (children_of x task_id)) = task_id"
    using last_in_set[OF task(2)] by (simp add: children_of_def)
  ultimately show ?thesis using that ref by blast
qed

lemma call_arguments_claimed:
  assumes x: "new_run_evidence x = Inr y" and call: "call \<in> set (xe_tool_calls x)"
    and ref: "ref \<in> set (tc_argument_binding_refs call)"
    and names: "\<And>child. child \<in> set (xe_accepted_task_deltas x) \<Longrightarrow> ad_task_id child = tc_task_id call
      \<Longrightarrow> distinct (map ib_name (child_bindings x child))"
  shows "\<exists>b. binding_by_id x ref = Some b \<and> claimed_binding x (tc_task_id call) b"
proof -
  obtain unit where u: "unit_of_task x (tc_task_id call) = Some unit"
    "set (tc_argument_binding_refs call) \<subseteq> set (ru_input_binding_refs unit)"
    using call_authority[OF x call] by metis
  obtain child where c: "child \<in> set (xe_accepted_task_deltas x)" "ad_task_id child = tc_task_id call"
      "ref \<in> set (ad_input_binding_refs child)"
    using unit_refs_accepted[OF x u(1), of ref] ref u(2) by blast
  show ?thesis using child_binding_claimed[OF x c(1,3) names[OF c(1,2)]] c(2) by simp
qed

end
