(* ===== verification/Sample_Evidence.thy ===== *)
theory Sample_Evidence
  imports Sample_Case Run_Evidence_Claims
begin

section \<open>The exact evidence of the sample Run, used by the witnesses\<close>

text \<open>
  The records of \<open>Sample_Case\<close>, with the Run ending one microsecond later and every trace event of the
  service's own fields. \<open>refs\<close> are the binding references of the accepted child and its RequestUnit,
  \<open>arg\<close> the one the ToolCall was dispatched with, \<open>bindings\<close> the InputBindings.
\<close>

definition run_end :: datetime where
  "run_end = utc_us (instant sample_now + 1)"

definition traced_gate :: "uuid \<Rightarrow> trace_event" where
  "traced_gate arg = on_task ((case_event 210 GATE_DECISION_RECORDED)
     \<lparr>te_model_call_id := Some 60, te_context_manifest_id := Some 62, te_requested_tool_name := Some (str ''get_order''),
      te_validated_task_state_version := Some 1, te_argument_binding_refs := [arg], te_gate_decision := Some GateAccept\<rparr>)"

definition run_trace :: "uuid \<Rightarrow> trace_event list" where
  "run_trace arg =
     [(case_event 200 MESSAGE_ACCEPTED)\<lparr>te_message_ref := Some 7\<rparr>,
      manifest_event 203 62 60 ''REQUEST_UNDERSTANDING'',
      on_task ((case_event 206 TASK_DELTA_ACCEPTED)\<lparr>te_accepted_delta_ref := Some 51, te_message_ref := Some 7\<rparr>),
      (case_event 207 INPUT_BINDING_RECORDED)\<lparr>te_input_binding_ref := Some 54\<rparr>,
      traced_gate arg,
      on_task (on_call TC_CREATED (case_event 211 TOOL_CALL_CREATED)),
      on_task (on_call TC_RUNNING (case_event 212 TOOL_CALL_STARTED)),
      on_task (on_call TC_SUCCEEDED (case_event 213 TOOL_CALL_SUCCEEDED)),
      on_task ((case_event 214 TOOL_RESULT_NORMALIZED)\<lparr>te_tool_call_id := Some 70, te_safe_tool_outcome := Some TR_SUCCESS\<rparr>),
      on_task ((case_event 215 OBSERVATION_RECORDED)\<lparr>te_tool_call_id := Some 70, te_observation_ref := Some 90\<rparr>),
      manifest_event 216 63 64 ''PRESENTATION'',
      on_task (blank_event 219 TASK_STATE_CHANGED run_end 5),
      (blank_event 220 RUN_STOPPED run_end 5)\<lparr>te_user_outcome := Some OUTCOME_COMPLETED, te_stop_reason := Some STOP_GOAL_COMPLETED\<rparr>]"

definition sample_run_evidence :: "input_binding list \<Rightarrow> uuid list \<Rightarrow> uuid \<Rightarrow> run_evidence" where
  "sample_run_evidence bindings refs arg =
     \<lparr>xe_conversation_record = case_conversation, xe_run_record = case_run\<lparr>ar_completed_at := Some run_end\<rparr>,
      xe_message_records = [case_message], xe_request_understanding_record = Some case_understanding,
      xe_accepted_task_deltas = [case_delta\<lparr>ad_input_binding_refs := refs\<rparr>], xe_input_binding_records = bindings,
      xe_task_records = [case_task\<lparr>tk_updated_at := run_end\<rparr>],
      xe_task_state_transitions = [case_transition\<lparr>tt_changed_at := run_end\<rparr>],
      xe_request_unit_records = [case_unit\<lparr>ru_input_binding_refs := refs, ru_updated_at := run_end\<rparr>],
      xe_conversation_task_links = ev_conversation_task_links case_evidence, xe_run_task_links = ev_run_task_links case_evidence,
      xe_gate_decisions = [case_gate\<lparr>gd_argument_binding_refs := [arg]\<rparr>],
      xe_tool_calls = [case_call\<lparr>tc_argument_binding_refs := [arg]\<rparr>], xe_tool_attempts = [case_attempt],
      xe_observation_records = [case_observation], xe_context_manifests = ev_context_manifests case_evidence,
      xe_toolset_artifacts = [case_artifact], xe_trace_events = run_trace arg\<rparr>"

text \<open>A second binding of the same name that nobody claimed.\<close>

definition rogue_binding :: input_binding where
  "rogue_binding = case_binding\<lparr>ib_binding_id := 55, ib_normalized_value := str ''O-9999''\<rparr>"

abbreviation honest :: run_evidence where
  "honest \<equiv> sample_run_evidence [case_binding] [54] 54"

abbreviation rogue :: run_evidence where
  "rogue \<equiv> sample_run_evidence [case_binding, rogue_binding] [55, 54] 55"

lemmas run_evidence_defs = sample_run_evidence_def run_trace_def traced_gate_def rogue_binding_def case_fields case_defs
  event_defs run_end_def sample_now_def

subsection \<open>Both are accepted\<close>

lemma sample_fields [simp]:
  "xe_conversation_record (sample_run_evidence bindings refs arg) = case_conversation"
  "xe_run_record (sample_run_evidence bindings refs arg) = case_run\<lparr>ar_completed_at := Some run_end\<rparr>"
  "xe_message_records (sample_run_evidence bindings refs arg) = [case_message]"
  "xe_request_understanding_record (sample_run_evidence bindings refs arg) = Some case_understanding"
  "xe_accepted_task_deltas (sample_run_evidence bindings refs arg) = [case_delta\<lparr>ad_input_binding_refs := refs\<rparr>]"
  "xe_input_binding_records (sample_run_evidence bindings refs arg) = bindings"
  "xe_task_records (sample_run_evidence bindings refs arg) = [case_task\<lparr>tk_updated_at := run_end\<rparr>]"
  "xe_task_state_transitions (sample_run_evidence bindings refs arg) = [case_transition\<lparr>tt_changed_at := run_end\<rparr>]"
  "xe_request_unit_records (sample_run_evidence bindings refs arg)
     = [case_unit\<lparr>ru_input_binding_refs := refs, ru_updated_at := run_end\<rparr>]"
  "xe_conversation_task_links (sample_run_evidence bindings refs arg) = ev_conversation_task_links case_evidence"
  "xe_run_task_links (sample_run_evidence bindings refs arg) = ev_run_task_links case_evidence"
  "xe_gate_decisions (sample_run_evidence bindings refs arg) = [case_gate\<lparr>gd_argument_binding_refs := [arg]\<rparr>]"
  "xe_tool_calls (sample_run_evidence bindings refs arg) = [case_call\<lparr>tc_argument_binding_refs := [arg]\<rparr>]"
  "xe_tool_attempts (sample_run_evidence bindings refs arg) = [case_attempt]"
  "xe_observation_records (sample_run_evidence bindings refs arg) = [case_observation]"
  "xe_context_manifests (sample_run_evidence bindings refs arg) = ev_context_manifests case_evidence"
  "xe_toolset_artifacts (sample_run_evidence bindings refs arg) = [case_artifact]"
  "xe_trace_events (sample_run_evidence bindings refs arg) = run_trace arg"
  by (simp_all add: sample_run_evidence_def)

lemma dict_by_cons:
  "dict_by key [] = []" "dict_by key [a] = [(key a, a)]"
  "dict_by key [a, b] = (if key a = key b then [(key a, b)] else [(key a, a), (key b, b)])"
  by (simp_all add: dict_by_def dict_of_items_def dict_set_def)

lemma sample_identities:
  "holds (identity_guards honest)" "holds (identity_guards rogue)"
  by (simp_all add: identity_guards_def task_ids_def case_fields case_defs run_trace_def traced_gate_def event_defs rogue_binding_def)

lemma sample_normal: "normalize_order_id (JStr (str ''O-1234'')) = Inr (str ''O-1234'')"
  by (rule normalize_canonical[OF O1234])

lemma sample_understanding:
  "holds (understanding_guards honest)" "holds (understanding_guards rogue)"
  by (simp_all add: understanding_guards_def along_def child_guards_def child_candidate_guards_def chain_guards_def ordered_children_def
      binding_by_id_def run_task_by_id_def task_ids_def dict_by_cons binding_preserves_def case_defs rogue_binding_def sample_normal
      is_ok_def Let_def)

lemma sample_ownership:
  "holds (ownership_guards honest)" "holds (ownership_guards rogue)"
  by (simp_all add: ownership_guards_def each_def along_def run_link_guards_def unit_guards_def latest_child_guards_def
      children_of_def ordered_children_def unit_of_task_def run_task_by_id_def task_ids_def dict_by_cons case_defs case_fields
      run_is_active_def Let_def)

lemma sample_history:
  "holds (history_guards honest)" "holds (history_guards rogue)"
  by (simp_all add: history_guards_def each_def run_history_guards_def child_history_guards_def transitions_of_def
      children_of_def ordered_children_def run_unit_by_id_def run_task_by_id_def task_ids_def dict_by_cons case_defs
      adjacent_def dt_less_def run_end_def sample_now_def Let_def)

lemma sample_dispatch:
  "holds (dispatch_guards honest)" "holds (dispatch_guards rogue)"
  by (simp_all add: dispatch_guards_def each_def along_def manifest_guards_def manifest_task_guards_def gate_guards_def call_guards_def
      call_projection_def attempt_guards_def attempts_of_def attempt_unfinished_def TERMINAL_TOOL_OUTCOMES_def transitions_of_def
      run_unit_by_id_def run_task_by_id_def manifest_by_id_def gate_by_id_def observation_by_id_def dict_by_cons case_defs case_fields
      case_manifest_def rogue_binding_def adjacent_def dt_less_def run_end_def sample_now_def Let_def)

lemma sample_events:
  "holds (along (event_guards honest) (run_trace 54))" "holds (along (event_guards rogue) (run_trace 55))"
  by (simp_all add: run_trace_def traced_gate_def event_defs along_def event_guards_def event_field_guards_def when_given_def
      event_child_guards_def event_manifest_guards_def event_call_guards_def event_observation_guards_def
      accepted_by_id_def run_unit_by_id_def run_task_by_id_def task_ids_def manifest_by_id_def call_by_id_def observation_by_id_def
      dict_by_cons case_defs case_fields case_manifest_def)

lemma sample_gate_trace:
  "holds (gate_trace_guards honest)" "holds (gate_trace_guards rogue)"
  by (simp_all add: run_trace_def traced_gate_def event_defs gate_trace_guards_def gate_events_def gate_view_of_event_def
      gate_view_of_owner_def gate_view_guards_def gate_event_guards_def each_def run_unit_by_id_def manifest_by_id_def
      dict_by_cons case_defs case_fields case_manifest_def Let_def)

lemma sample_ending:
  "holds (run_stopped_guards honest)" "holds (run_stopped_guards rogue)"
  by (simp_all add: run_trace_def traced_gate_def event_defs run_stopped_guards_def stopped_events_def run_is_active_def
      allowed_terminal_projection_def COMPLETED_FINALIZATION_ROWS_def case_defs Let_def)

lemma sample_lifecycle:
  "holds (each (lifecycle_guards honest) (xe_tool_calls honest))" "holds (each (lifecycle_guards rogue) (xe_tool_calls rogue))"
  by (simp_all add: run_trace_def traced_gate_def event_defs each_def lifecycle_guards_def ordered_lifecycle_def lifecycle_of_def
      TOOL_TRACE_STATUS_def lifecycle_phase_def adjacent_def dt_less_def case_defs Let_def)

lemma sample_results:
  "holds (each (normalized_guards honest) (filter (\<lambda>event. te_event_type event = TOOL_RESULT_NORMALIZED) (run_trace 54)))"
  "holds (each (normalized_guards rogue) (filter (\<lambda>event. te_event_type event = TOOL_RESULT_NORMALIZED) (run_trace 55)))"
  "source_edges honest = [90]" "source_edges rogue = [90]"
  by (simp_all add: run_trace_def traced_gate_def event_defs each_def normalized_guards_def call_by_id_def attempts_of_def
      TERMINAL_TOOL_OUTCOMES_def source_edges_def dict_by_cons case_defs Let_def)

lemma sample_trace_guards: "holds (run_trace_guards honest)" "holds (run_trace_guards rogue)"
  using sample_events sample_gate_trace sample_ending sample_lifecycle sample_results
  by (simp_all add: run_trace_guards_def each_def) (simp_all add: case_defs)

lemma sample_closed: "closed_set_checks honest = Inr ()" "closed_set_checks rogue = Inr ()"
  by (auto simp: closed_set_checks_def binding_graph_def observation_graph_def referenced_binding_ids_def
      referenced_observation_ids_def referenced_message_ids_def referenced_artifact_hashes_def understanding_message_refs_def
      given_def run_trace_def traced_gate_def event_defs case_defs case_fields case_manifest_def rogue_binding_def)

lemma sample_run_trace_valid: "arg = 54 \<or> arg = 55 \<Longrightarrow> list_all (\<lambda>t. accepts new_trace_event t
    \<and> opt_all (accepts new_timing_and_usage_summary) (te_timing_and_usage_summary t)) (run_trace arg)"
  using sample_hash(2)
  by (auto simp: run_trace_def traced_gate_def run_end_def event_defs accepts_iff new_trace_event_def construct_Inr_iff sample_now_def
      trace_event_guards_def TOOL_TRACE_STATUS_def)

lemma O9999: "OrderId (str ''O-9999'')"
  by (simp add: OrderId_def is_09_def str_def)

lemma sample_ended_records_valid:
  "accepts new_agent_run_record (case_run\<lparr>ar_completed_at := Some run_end\<rparr>)"
  "accepts new_task_record (case_task\<lparr>tk_updated_at := run_end\<rparr>)"
  "accepts new_task_state_transition (case_transition\<lparr>tt_changed_at := run_end\<rparr>)"
  "Suc 0 \<le> length refs \<Longrightarrow> accepts new_request_unit_record (case_unit\<lparr>ru_input_binding_refs := refs, ru_updated_at := run_end\<rparr>)"
  "Suc 0 \<le> length refs \<Longrightarrow> accepts new_accepted_task_delta (case_delta\<lparr>ad_input_binding_refs := refs\<rparr>)"
  "accepts new_gate_decision (case_gate\<lparr>gd_argument_binding_refs := [arg]\<rparr>)"
  "accepts new_tool_call_record (case_call\<lparr>tc_argument_binding_refs := [arg]\<rparr>)"
  "accepts new_input_binding rogue_binding"
  by (simp_all add: accepts_iff construct_Inr_iff construct_with_Inr_iff case_defs rogue_binding_def run_end_def sample_now_def
      get_order_name O1234 O9999 Let_def new_agent_run_record_def run_lifecycle_is_consistent_def run_is_active_def
      new_task_record_def new_request_unit_record_def new_gate_decision_def decision_matches_checks_def gate_checks_def
      new_tool_call_record_def tool_call_lifecycle_def terminal_statuses_def requires_attempt_def dt_less_def
      new_accepted_task_delta_def new_task_state_transition_def new_input_binding_def)

lemma sample_records_fit:
  "list_all snd (exact_record_fields honest)" "list_all snd (exact_record_fields rogue)"
  using case_records_valid case_links_valid sample_run_trace_valid[of 54] sample_run_trace_valid[of 55] case_understanding_valid
    case_artifact_valid sample_case_observation_canonical sample_ended_records_valid
  by (simp_all add: exact_record_fields_def case_fields case_manifest_valid) (simp_all add: case_artifact_def case_fields)

lemma samples_accepted: "new_run_evidence honest = Inr honest" "new_run_evidence rogue = Inr rogue"
  unfolding new_run_evidence_def construct_with_Inr_iff supplied_graph_guards_def
  using sample_records_fit sample_identities sample_understanding sample_ownership sample_history sample_dispatch
    sample_trace_guards sample_closed
  by (simp_all add: res_bind_Inr_iff)

end
