(* ===== verification/Run_Evidence_Properties.thy ===== *)
theory Run_Evidence_Properties
  imports Sample_Evidence
begin

section \<open>Properties of the exact evidence of a Run\<close>

text \<open>
  The properties of an accepted closure, with an honest and a rogue sample.
\<close>

lemma trace_shape_total: "\<exists>shape. trace_shape_from counts (map (\<lambda>event. Obj event []) events) = Inr shape"
proof (induction events arbitrary: counts)
  case (Cons event events)
  obtain shape where "trace_shape_from (counts(te_event_type event := Suc (counts (te_event_type event))))
      (map (\<lambda>event. Obj event []) events) = Inr shape" using Cons by blast
  then show ?case by (simp add: Let_def)
qed simp

definition sample_execution_ref :: uuid where
  "sample_execution_ref = 4 * 2 ^ 76 + 2 ^ 63"

definition sample_reply_result :: agent_run_result where
  "sample_reply_result = \<lparr>res_run_id = 5, res_outcome = OUTCOME_COMPLETED, res_message = case_reply\<rparr>"

lemma sample_maps: "\<exists>r. exact_run_eval_map_result (\<lambda>_. True) sample_execution_ref 200 sample_reply_result honest = Some r"
proof -
  obtain shape where shape: "ordinary_trace_shape (map (\<lambda>event. Obj event []) (run_trace 54)) = Inr shape"
    using trace_shape_total unfolding ordinary_trace_shape_def by blast
  have "uuid_version_is_4 sample_execution_ref"
    by (simp add: uuid_version_is_4_def sample_execution_ref_def)
  moreover have "list_all (\<lambda>event. te_run_id event = 5 \<and> te_case_id event = None \<and> te_event_type event \<noteq> EVAL_CASE_GRADED) (run_trace 54)"
    "run_trace 54 \<noteq> []" by (simp_all add: run_trace_def traced_gate_def event_defs)
  ultimately show ?thesis
    using shape samples_accepted(1) case_reply_valid
    by (auto simp: exact_run_eval_map_result_def Let_def accepts_iff sample_reply_result_def unbound_result_agrees_def
        unbound_evidence_of_def case_run_def no_fixed_message list_all_iff list_ex_iff)
qed

subsection \<open>Expanding references\<close>

text \<open>C32. Following \<open>supersedes\<close> ends for every set of records and computes exactly what can be reached: the result is
  the references and everything they supersede, directly or not, all of it known and free of cycles, and the failure
  says that some reachable record is missing or supersedes itself. The order of the references does not matter.\<close>

theorem supersedes_expansion:
  "case expand_supersedes records family [] refs of
     Inr R \<Rightarrow> set R = (superseded records)\<^sup>* `` set refs \<and> (\<forall>r\<in>set R. \<not> broken records r)
   | Inl e \<Rightarrow> \<not> (\<forall>r\<in>(superseded records)\<^sup>* `` set refs. \<not> broken records r)"
  using expand_supersedes_spec[where records = records and family = family and refs = refs] by (auto split: sum.splits)

theorem supersedes_expansion_witness:
  "(superseded [(1, Some 2), (2, None)])\<^sup>* `` {1} = {1, 2}"
  using supersedes_expansion[where records = "[(1, Some 2), (2, None)]" and family = "''X''" and refs = "[1]"] by auto

subsection \<open>What a dispatched call was asked for\<close>

text \<open>C33. In an accepted closure every ToolCall was let through by an ACCEPT decision for its tool, belongs to a Task of
  the owner of the Conversation, and every argument it was dispatched with is an input of an accepted child of this very
  Task: the normal form of a value that the child's candidate, accepted by its recorded decision, quoted under the same
  name from a message of this Conversation. The proviso is that no accepted child of the Task has two bindings of one
  name; without it the statement fails (\<open>rogue_call_is_accepted\<close>).\<close>

theorem closed_calls_are_claimed:
  assumes "new_run_evidence x = Inr y" "call \<in> set (xe_tool_calls x)"
    and "\<And>child. child \<in> set (xe_accepted_task_deltas x) \<Longrightarrow> ad_task_id child = tc_task_id call
      \<Longrightarrow> distinct (map ib_name (child_bindings x child))"
  shows "(\<exists>task. run_task_by_id x (tc_task_id call) = Some task
       \<and> tk_owner_customer_id task = cr_owner_customer_id (xe_conversation_record x))
    \<and> (\<exists>gate. gate_by_id x (tc_gate_decision_id call) = Some gate \<and> gd_decision gate = GateAccept
       \<and> gd_resolved_canonical_tool_name gate = Some (tc_canonical_tool_name call))
    \<and> (\<forall>ref\<in>set (tc_argument_binding_refs call). \<exists>b. binding_by_id x ref = Some b \<and> claimed_binding x (tc_task_id call) b)"
proof -
  have "\<exists>b. binding_by_id x ref = Some b \<and> claimed_binding x (tc_task_id call) b" if "ref \<in> set (tc_argument_binding_refs call)" for ref
    by (rule call_arguments_claimed[OF assms(1,2) that assms(3)])
  with call_authority[OF assms(1,2)] show ?thesis by metis
qed

theorem closed_calls_are_claimed_witness:
  "\<exists>b. binding_by_id honest 54 = Some b \<and> claimed_binding honest 52 b"
proof -
  have "distinct (map ib_name (child_bindings honest child))" if "child \<in> set (xe_accepted_task_deltas honest)" for child
    using that by (simp add: child_bindings_def given_def binding_by_id_def dict_by_cons case_defs)
  from closed_calls_are_claimed[OF samples_accepted(1) _ this, of "case_call\<lparr>tc_argument_binding_refs := [54]\<rparr>"]
  show ?thesis by (simp add: case_call_def)
qed

text \<open>
  The closure compares the bindings of a child with the candidate's inputs in a dictionary by name: of
  two bindings with one name only the last is looked at, and a call may use the other.
\<close>

lemma rogue_call_is_accepted:
  "new_run_evidence rogue = Inr rogue"
  "\<exists>call\<in>set (xe_tool_calls rogue). \<exists>ref\<in>set (tc_argument_binding_refs call). \<exists>b. binding_by_id rogue ref = Some b \<and> \<not> claimed_binding rogue (tc_task_id call) b"
proof -
  show "new_run_evidence rogue = Inr rogue" by (rule samples_accepted(2))
  have "\<not> claimed_binding rogue task_id rogue_binding" for task_id
    using sample_normal by (simp add: claimed_binding_def case_understanding_def case_candidate_def rogue_binding_def str_def)
  moreover have "binding_by_id rogue 55 = Some rogue_binding"
    by (simp add: binding_by_id_def dict_by_cons rogue_binding_def case_binding_def)
  ultimately show "\<exists>call\<in>set (xe_tool_calls rogue). \<exists>ref\<in>set (tc_argument_binding_refs call).
      \<exists>b. binding_by_id rogue ref = Some b \<and> \<not> claimed_binding rogue (tc_task_id call) b" by simp
qed

subsection \<open>From the store to the graders\<close>

text \<open>C34. What the harness makes of an accepted closure, whatever its walks over the payload trees refuse, is
  evidence the graders can work with: the mapped result binds to any case, the bound evidence is canonical, so no
  grader refuses it unseen, and it passes the graders' own checks of the Task histories and of the attempts of every
  ToolCall, which are written independently of the closure's.\<close>

theorem mapped_closure_is_gradeable:
  assumes "exact_run_eval_map_result tree_is_closed execution_ref http_status agent_result closure = Some r"
  shows "\<exists>e o'. bind_authenticated_case r case_id = Inr (e, o') \<and> canonical_eval_evidence e
    \<and> validate_grader_inputs (Obj e []) (Obj expectations extra) = Inr None
    \<and> v2_task_transition_graph_reason e = None
    \<and> (\<forall>call\<in>set (ev_tool_calls e). call_attempts_reason call
         (sort_key at_attempt_no (filter (\<lambda>a. at_tool_call_id a = tc_tool_call_id call) (ev_tool_attempts e))) = None)"
proof -
  obtain e where e: "bind_authenticated_case r case_id = Inr (e, bind_observable (sr_safe_observable r) case_id)"
    "e = bound_evidence (unbound_evidence_of agent_result closure) (bind_observable (sr_safe_observable r) case_id) case_id"
    "canonical_eval_evidence e"
    using mapped_evidence_canonical[OF assms] by blast
  have "ev_tool_calls e = xe_tool_calls closure" "ev_tool_attempts e = xe_tool_attempts closure"
    by (simp_all add: e(2) bound_evidence_def unbound_evidence_of_def)
  moreover have "validate_grader_inputs (Obj e []) (Obj expectations extra) = Inr None"
    using e(3) validate_grader_inputs_None by blast
  ultimately show ?thesis
    using e(1,3) mapped_histories_pass[OF assms e(2)] closed_attempts_pass[OF mapped_result(2)[OF assms]]
    by (auto simp: attempts_of_def)
qed

theorem mapped_closure_is_gradeable_witness:
  "\<exists>r e o'. exact_run_eval_map_result (\<lambda>_. True) sample_execution_ref 200 sample_reply_result honest = Some r
    \<and> bind_authenticated_case r (str ''case'') = Inr (e, o') \<and> canonical_eval_evidence e"
proof -
  obtain r where r: "exact_run_eval_map_result (\<lambda>_. True) sample_execution_ref 200 sample_reply_result honest = Some r"
    using sample_maps by blast
  from mapped_closure_is_gradeable[OF this, of "str ''case''"] r show ?thesis by blast
qed

end
