(* ===== verification/Persistence_Rules.thy ===== *)
theory Persistence_Rules
  imports Record_Json
begin

section \<open>The persistence codec: codes, references, projection rules (application/persistence.py, lines 57--1047 and 1925--2141)\<close>

text \<open>
  Seventeen families of records and three families of logical children are stored in envelopes. What
  an envelope says about its record beyond the payload (identity, owner, references to other records)
  is projected from the JSON form of the record by a table of rules, one list per family. This theory
  holds the data of the codec and the tables; \<open>Persistence_Codec\<close> holds the operations.
\<close>

subsection \<open>Codes\<close>

datatype record_code =
    CONVERSATION_RECORD
  | MESSAGE_RECORD
  | REQUEST_UNDERSTANDING_RECORD
  | TASK_RECORD
  | REQUEST_UNIT_RECORD
  | CONVERSATION_TASK_LINK_RECORD
  | RUN_TASK_LINK_RECORD
  | INPUT_BINDING_RECORD
  | MODEL_VISIBLE_TOOLSET_ARTIFACT
  | AGENT_RUN_RECORD
  | GATE_DECISION_RECORD
  | TOOL_CALL_RECORD
  | OBSERVATION_RECORD
  | CONTEXT_MANIFEST_RECORD
  | TRACE_EVENT_RECORD
  | EVAL_RESULT_RECORD
  | EVAL_EXECUTION_FAILURE_RECORD

fun record_code_text :: "record_code \<Rightarrow> pystr" where
  "record_code_text CONVERSATION_RECORD = str ''conversation_record''"
| "record_code_text MESSAGE_RECORD = str ''message_record''"
| "record_code_text REQUEST_UNDERSTANDING_RECORD = str ''request_understanding_record''"
| "record_code_text TASK_RECORD = str ''task_record''"
| "record_code_text REQUEST_UNIT_RECORD = str ''request_unit_record''"
| "record_code_text CONVERSATION_TASK_LINK_RECORD = str ''conversation_task_link_record''"
| "record_code_text RUN_TASK_LINK_RECORD = str ''run_task_link_record''"
| "record_code_text INPUT_BINDING_RECORD = str ''input_binding_record''"
| "record_code_text MODEL_VISIBLE_TOOLSET_ARTIFACT = str ''model_visible_toolset_artifact''"
| "record_code_text AGENT_RUN_RECORD = str ''agent_run_record''"
| "record_code_text GATE_DECISION_RECORD = str ''gate_decision_record''"
| "record_code_text TOOL_CALL_RECORD = str ''tool_call_record''"
| "record_code_text OBSERVATION_RECORD = str ''observation_record''"
| "record_code_text CONTEXT_MANIFEST_RECORD = str ''context_manifest_record''"
| "record_code_text TRACE_EVENT_RECORD = str ''trace_event_record''"
| "record_code_text EVAL_RESULT_RECORD = str ''eval_result_record''"
| "record_code_text EVAL_EXECUTION_FAILURE_RECORD = str ''eval_execution_failure_record''"

datatype child_code =
    CHILD_ACCEPTED_TASK_DELTA
  | CHILD_TASK_STATE_TRANSITION
  | CHILD_TOOL_ATTEMPT_RECORD

fun child_code_text :: "child_code \<Rightarrow> pystr" where
  "child_code_text CHILD_ACCEPTED_TASK_DELTA = str ''accepted_task_delta''"
| "child_code_text CHILD_TASK_STATE_TRANSITION = str ''task_state_transition''"
| "child_code_text CHILD_TOOL_ATTEMPT_RECORD = str ''tool_attempt_record''"

datatype integrity_category =
    MISSING_RECORD_CODE
  | UNKNOWN_RECORD_CODE
  | RECORD_CODE_MISMATCH
  | MISSING_RECORD_SCHEMA_VERSION
  | UNKNOWN_RECORD_SCHEMA_VERSION
  | RECORD_SCHEMA_VERSION_MISMATCH
  | METADATA_PAYLOAD_MISMATCH
  | SOURCE_MODEL_MISMATCH
  | PAYLOAD_VALIDATION_FAILED
  | IDENTITY_MISMATCH
  | OWNER_PROJECTION_MISMATCH
  | LINK_PROJECTION_MISMATCH
  | LINK_CARDINALITY_MISMATCH
  | CHILD_MISMATCH
  | SPECIALIZED_VERSION_MISMATCH

datatype closure_strategy =
    LOCAL_CLOSED
  | GRAPH_REQUIRED

datatype projection_classification =
    DIRECT_OWNER
  | TOP_LEVEL_P0_REFERENCE
  | EXTERNAL_REQUIRED_P0_REFERENCE
  | CONDITIONAL_PAYLOAD_CORRELATION
  | LOGICAL_CHILD_CORRELATION
  | PARENT_FIELD_EQUALITY
  | PARENT_LOCAL_CORRELATION
  | CHILD_TOP_LEVEL_P0_REFERENCE
  | PAYLOAD_CORRELATION
  | RESTRICTED_DIAGNOSTIC_CORRELATION
  | P0_FIRST_SLICE_MUST_BE_EMPTY

subsection \<open>The stored classes\<close>

text \<open>
  An object handed to the codec is an instance of one of the source models, or of no such class
  (\<open>Foreign\<close> in \<open>source_record pyobj\<close>).
\<close>

datatype model_class =
    ConversationModel | MessageModel | TaskModel | RequestUnitModel | ConversationTaskLinkModel
  | RunTaskLinkModel | InputBindingModel | ToolsetArtifactModel | AgentRunModel | GateDecisionModel
  | ToolCallModel | ObservationModel | ContextManifestModel | TraceEventModel | EvalResultModel
  | EvalFailureModel | RequestUnderstandingModel | TransitionModel | AttemptModel | AcceptedDeltaModel

datatype source_record =
    ConversationSource conversation_record
  | MessageSource message_record
  | TaskSource task_record
  | RequestUnitSource request_unit_record
  | ConversationTaskLinkSource conversation_task_link_record
  | RunTaskLinkSource run_task_link_record
  | InputBindingSource input_binding
  | ToolsetArtifactSource toolset_artifact
  | AgentRunSource agent_run_record
  | GateDecisionSource gate_decision
  | ToolCallSource tool_call_record
  | ObservationSource order_observation
  | ContextManifestSource context_manifest
  | TraceEventSource trace_event
  | EvalResultSource eval_result_record
  | EvalFailureSource eval_execution_failure_record
  | RequestUnderstandingSource ru_record
  | TransitionSource task_state_transition
  | AttemptSource tool_attempt_record
  | AcceptedDeltaSource accepted_task_delta

fun class_of :: "source_record \<Rightarrow> model_class" where
  "class_of (ConversationSource _) = ConversationModel"
| "class_of (MessageSource _) = MessageModel"
| "class_of (TaskSource _) = TaskModel"
| "class_of (RequestUnitSource _) = RequestUnitModel"
| "class_of (ConversationTaskLinkSource _) = ConversationTaskLinkModel"
| "class_of (RunTaskLinkSource _) = RunTaskLinkModel"
| "class_of (InputBindingSource _) = InputBindingModel"
| "class_of (ToolsetArtifactSource _) = ToolsetArtifactModel"
| "class_of (AgentRunSource _) = AgentRunModel"
| "class_of (GateDecisionSource _) = GateDecisionModel"
| "class_of (ToolCallSource _) = ToolCallModel"
| "class_of (ObservationSource _) = ObservationModel"
| "class_of (ContextManifestSource _) = ContextManifestModel"
| "class_of (TraceEventSource _) = TraceEventModel"
| "class_of (EvalResultSource _) = EvalResultModel"
| "class_of (EvalFailureSource _) = EvalFailureModel"
| "class_of (RequestUnderstandingSource _) = RequestUnderstandingModel"
| "class_of (TransitionSource _) = TransitionModel"
| "class_of (AttemptSource _) = AttemptModel"
| "class_of (AcceptedDeltaSource _) = AcceptedDeltaModel"

text \<open>\<open>record.model_dump(mode="json")\<close>. Only a frozen tool schema can fail to be written.\<close>

fun model_dump :: "json_writer \<Rightarrow> source_record \<Rightarrow> string + json_object" where
  "model_dump pyd (ConversationSource r) = Inr (conversation_record_data pyd r)"
| "model_dump pyd (MessageSource r) = Inr (message_record_data pyd r)"
| "model_dump pyd (TaskSource r) = Inr (task_record_data pyd r)"
| "model_dump pyd (RequestUnitSource r) = Inr (request_unit_record_data pyd r)"
| "model_dump pyd (ConversationTaskLinkSource r) = Inr (conversation_task_link_record_data pyd r)"
| "model_dump pyd (RunTaskLinkSource r) = Inr (run_task_link_record_data r)"
| "model_dump pyd (InputBindingSource r) = Inr (input_binding_data pyd r)"
| "model_dump pyd (ToolsetArtifactSource r) = toolset_artifact_data r"
| "model_dump pyd (AgentRunSource r) = Inr (agent_run_record_data pyd r)"
| "model_dump pyd (GateDecisionSource r) = Inr (gate_decision_data pyd r)"
| "model_dump pyd (ToolCallSource r) = Inr (tool_call_record_data pyd r)"
| "model_dump pyd (ObservationSource r) = Inr (order_observation_data pyd r)"
| "model_dump pyd (ContextManifestSource r) = Inr (context_manifest_data pyd r)"
| "model_dump pyd (TraceEventSource r) = Inr (trace_event_data pyd r)"
| "model_dump pyd (EvalResultSource r) = Inr (eval_result_record_data pyd r)"
| "model_dump pyd (EvalFailureSource r) = Inr (eval_execution_failure_record_data pyd r)"
| "model_dump pyd (RequestUnderstandingSource r) = Inr (ru_record_data pyd r)"
| "model_dump pyd (TransitionSource r) = Inr (task_state_transition_data pyd r)"
| "model_dump pyd (AttemptSource r) = Inr (tool_attempt_record_data pyd r)"
| "model_dump pyd (AcceptedDeltaSource r) = Inr (accepted_task_delta_data pyd r)"

subsection \<open>References and envelopes\<close>

type_synonym identity_pairs = "(pystr \<times> json) list"

record record_reference =
  rf_relation :: pystr
  rf_target_record_code :: record_code
  rf_target_logical_identity :: identity_pairs

record logical_child_payload =
  lc_child_code :: child_code
  lc_parent_record_code :: record_code
  lc_parent_logical_identity :: identity_pairs
  lc_logical_identity :: identity_pairs
  lc_data :: json_object

record versioned_payload =
  vp_record_code :: record_code
  vp_record_schema_version :: pystr
  vp_logical_children :: "logical_child_payload list"
  vp_data :: json_object

record persistence_envelope =
  pe_record_code :: record_code
  pe_record_schema_version :: pystr
  pe_logical_identity :: identity_pairs
  pe_direct_owner_customer_id :: "pystr option"
  pe_record_references :: "record_reference list"
  pe_payload :: versioned_payload

record decoded_record =
  dr_record_code :: record_code
  dr_record_schema_version :: pystr
  dr_source_record :: source_record
  dr_logical_children :: "source_record list"

text \<open>
  Codec steps fail with an integrity signal, which the entry points turn into a bounded error, or
  with an exception that they do not catch.
\<close>

datatype codec_error = Signal integrity_category | Uncaught string

subsection \<open>Projectors\<close>

text \<open>A projector reads fields of the JSON form of a record; \<open>None\<close> is a \<open>KeyError\<close> or \<open>TypeError\<close>.\<close>

type_synonym projector = "json_object \<Rightarrow> json list option"

definition project_one :: "pystr \<Rightarrow> projector" where
  "project_one field_name data = map_option (\<lambda>v. [v]) (map_of data field_name)"

definition project_optional :: "pystr \<Rightarrow> projector" where
  "project_optional field_name data =
     map_option (\<lambda>v. if v = JNull then [] else [v]) (map_of data field_name)"

definition project_many :: "pystr \<Rightarrow> projector" where
  "project_many field_name data = (case map_of data field_name of Some (JList vs) \<Rightarrow> Some vs | _ \<Rightarrow> None)"

definition json_member :: "pystr \<Rightarrow> json \<Rightarrow> json option" where
  "json_member field_name v = (case v of JDict d \<Rightarrow> map_of d field_name | _ \<Rightarrow> None)"

fun opt_map :: "('a \<Rightarrow> 'b option) \<Rightarrow> 'a list \<Rightarrow> 'b list option" where
  "opt_map f [] = Some []"
| "opt_map f (x # xs) = (case f x of None \<Rightarrow> None | Some y \<Rightarrow> map_option ((#) y) (opt_map f xs))"

definition project_nested_optional :: "pystr \<Rightarrow> pystr \<Rightarrow> projector" where
  "project_nested_optional parent_field child_field data =
     (case map_of data parent_field of None \<Rightarrow> None | Some JNull \<Rightarrow> Some []
      | Some parent \<Rightarrow> map_option (\<lambda>v. [v]) (json_member child_field parent))"

definition project_nested_many :: "pystr \<Rightarrow> pystr \<Rightarrow> projector" where
  "project_nested_many parent_field child_field data =
     (case map_of data parent_field of Some (JList items) \<Rightarrow> opt_map (json_member child_field) items | _ \<Rightarrow> None)"

definition project_combined :: "projector list \<Rightarrow> projector" where
  "project_combined projectors data = map_option concat (opt_map (\<lambda>p. p data) projectors)"

definition request_understanding_v2_resolved_source_refs :: projector where
  "request_understanding_v2_resolved_source_refs data =
     (case map_of data (str ''contextualization'') of
        Some (JDict c) \<Rightarrow> project_nested_many (str ''resolved_reference_candidates'') (str ''source_ref'') c
      | _ \<Rightarrow> None)"

definition request_understanding_v2_context_source_refs :: projector where
  "request_understanding_v2_context_source_refs data =
     (case map_of data (str ''contextualization'') of
        Some (JDict c) \<Rightarrow> project_many (str ''source_message_refs'') c | _ \<Rightarrow> None)"

definition request_understanding_v2_input_source_refs :: projector where
  "request_understanding_v2_input_source_refs data =
     (case map_of data (str ''task_delta_candidates'') of
        Some (JList candidates) \<Rightarrow> map_option concat (opt_map (\<lambda>candidate. case candidate of
            JDict c \<Rightarrow> project_nested_many (str ''input_candidates'') (str ''source_ref'') c
          | _ \<Rightarrow> None) candidates)
      | _ \<Rightarrow> None)"

subsection \<open>The rules of the record families\<close>

record projection_decision =
  pd_field_label :: string
  pd_classification :: projection_classification
  pd_relation :: "pystr option"
  pd_target_record_code :: "record_code option"
  pd_value_projector :: "projector option"
  pd_minimum :: nat
  pd_maximum :: "nat option"
  pd_unique :: bool

definition decision :: "string \<Rightarrow> projection_classification \<Rightarrow> pystr option \<Rightarrow> record_code option \<Rightarrow>
    projector option \<Rightarrow> nat \<Rightarrow> nat option \<Rightarrow> bool \<Rightarrow> projection_decision" where
  "decision field_label classification relation target_record_code value_projector minimum maximum unique =
     \<lparr>pd_field_label = field_label, pd_classification = classification, pd_relation = relation,
      pd_target_record_code = target_record_code, pd_value_projector = value_projector,
      pd_minimum = minimum, pd_maximum = maximum, pd_unique = unique\<rparr>"

definition conversation_record_rules :: "projection_decision list" where
  "conversation_record_rules =
     [decision ''owner_customer_id'' DIRECT_OWNER None None
       (Some (project_one (str ''owner_customer_id''))) 1 (Some 1) False]"

definition message_record_rules :: "projection_decision list" where
  "message_record_rules =
     [decision ''conversation_id'' TOP_LEVEL_P0_REFERENCE (Some (str ''conversation_id'')) (Some CONVERSATION_RECORD)
       (Some (project_one (str ''conversation_id''))) 1 (Some 1) False]"

definition task_record_rules :: "projection_decision list" where
  "task_record_rules =
     [decision ''owner_customer_id'' DIRECT_OWNER None None
       (Some (project_one (str ''owner_customer_id''))) 1 (Some 1) False,
      decision ''last_outcome_ref?'' PAYLOAD_CORRELATION None None
       (Some (project_optional (str ''last_outcome_ref''))) 0 (Some 1) False]"

definition request_unit_record_rules :: "projection_decision list" where
  "request_unit_record_rules =
     [decision ''task_id'' TOP_LEVEL_P0_REFERENCE (Some (str ''task_id'')) (Some TASK_RECORD)
       (Some (project_one (str ''task_id''))) 1 (Some 1) False,
      decision ''goal_source_refs[]'' TOP_LEVEL_P0_REFERENCE (Some (str ''goal_source_ref'')) (Some MESSAGE_RECORD)
       (Some (project_many (str ''goal_source_refs''))) 1 None True,
      decision ''contextualization_ref?'' PAYLOAD_CORRELATION None None
       (Some (project_optional (str ''contextualization_ref''))) 0 (Some 1) False,
      decision ''constraint_refs[]'' PAYLOAD_CORRELATION None None
       (Some (project_many (str ''constraint_refs''))) 0 None True,
      decision ''dependency_refs[]'' PAYLOAD_CORRELATION None None
       (Some (project_many (str ''dependency_refs''))) 0 None True,
      decision ''input_binding_refs[]'' TOP_LEVEL_P0_REFERENCE (Some (str ''input_binding_ref'')) (Some INPUT_BINDING_RECORD)
       (Some (project_many (str ''input_binding_refs''))) 1 None True,
      decision ''observation_refs[]'' TOP_LEVEL_P0_REFERENCE (Some (str ''observation_ref'')) (Some OBSERVATION_RECORD)
       (Some (project_many (str ''observation_refs''))) 0 None True,
      decision ''evidence_binding_refs[]'' P0_FIRST_SLICE_MUST_BE_EMPTY None None
       (Some (project_many (str ''evidence_binding_refs''))) 0 (Some 0) False,
      decision ''pending_action_ref?'' P0_FIRST_SLICE_MUST_BE_EMPTY None None
       (Some (project_optional (str ''pending_action_ref''))) 0 (Some 0) False,
      decision ''result_refs[]'' PAYLOAD_CORRELATION None None
       (Some (project_many (str ''result_refs''))) 0 None True]"

definition conversation_task_link_record_rules :: "projection_decision list" where
  "conversation_task_link_record_rules =
     [decision ''conversation_id'' TOP_LEVEL_P0_REFERENCE (Some (str ''conversation_id'')) (Some CONVERSATION_RECORD)
       (Some (project_one (str ''conversation_id''))) 1 (Some 1) False,
      decision ''task_id'' TOP_LEVEL_P0_REFERENCE (Some (str ''task_id'')) (Some TASK_RECORD)
       (Some (project_one (str ''task_id''))) 1 (Some 1) False]"

definition run_task_link_record_rules :: "projection_decision list" where
  "run_task_link_record_rules =
     [decision ''run_id'' TOP_LEVEL_P0_REFERENCE (Some (str ''run_id'')) (Some AGENT_RUN_RECORD)
       (Some (project_one (str ''run_id''))) 1 (Some 1) False,
      decision ''task_id'' TOP_LEVEL_P0_REFERENCE (Some (str ''task_id'')) (Some TASK_RECORD)
       (Some (project_one (str ''task_id''))) 1 (Some 1) False]"

definition input_binding_record_rules :: "projection_decision list" where
  "input_binding_record_rules =
     [decision ''source_refs[]'' TOP_LEVEL_P0_REFERENCE (Some (str ''source_ref'')) (Some MESSAGE_RECORD)
       (Some (project_many (str ''source_refs''))) 1 None True,
      decision ''supersedes?'' TOP_LEVEL_P0_REFERENCE (Some (str ''supersedes'')) (Some INPUT_BINDING_RECORD)
       (Some (project_optional (str ''supersedes''))) 0 (Some 1) False,
      decision ''external request_unit_id'' EXTERNAL_REQUIRED_P0_REFERENCE (Some (str ''request_unit_id'')) (Some REQUEST_UNIT_RECORD)
       None 1 (Some 1) False]"

definition model_visible_toolset_artifact_rules :: "projection_decision list" where
  "model_visible_toolset_artifact_rules =
     []"

definition agent_run_record_rules :: "projection_decision list" where
  "agent_run_record_rules =
     [decision ''conversation_id?'' TOP_LEVEL_P0_REFERENCE (Some (str ''conversation_id'')) (Some CONVERSATION_RECORD)
       (Some (project_optional (str ''conversation_id''))) 0 (Some 1) False]"

definition gate_decision_record_rules :: "projection_decision list" where
  "gate_decision_record_rules =
     [decision ''context_manifest_id'' TOP_LEVEL_P0_REFERENCE (Some (str ''context_manifest_id'')) (Some CONTEXT_MANIFEST_RECORD)
       (Some (project_one (str ''context_manifest_id''))) 1 (Some 1) False,
      decision ''argument_binding_refs[]'' TOP_LEVEL_P0_REFERENCE (Some (str ''argument_binding_ref'')) (Some INPUT_BINDING_RECORD)
       (Some (project_many (str ''argument_binding_refs''))) 0 None True,
      decision ''model_call_id,provider_tool_call_id?'' PAYLOAD_CORRELATION None None
       (Some (project_combined [(project_one (str ''model_call_id'')), (project_optional (str ''provider_tool_call_id''))])) 1 (Some 2) False]"

definition tool_call_record_rules :: "projection_decision list" where
  "tool_call_record_rules =
     [decision ''run_id'' TOP_LEVEL_P0_REFERENCE (Some (str ''run_id'')) (Some AGENT_RUN_RECORD)
       (Some (project_one (str ''run_id''))) 1 (Some 1) False,
      decision ''task_id'' TOP_LEVEL_P0_REFERENCE (Some (str ''task_id'')) (Some TASK_RECORD)
       (Some (project_one (str ''task_id''))) 1 (Some 1) False,
      decision ''request_unit_id'' TOP_LEVEL_P0_REFERENCE (Some (str ''request_unit_id'')) (Some REQUEST_UNIT_RECORD)
       (Some (project_one (str ''request_unit_id''))) 1 (Some 1) False,
      decision ''context_manifest_id'' TOP_LEVEL_P0_REFERENCE (Some (str ''context_manifest_id'')) (Some CONTEXT_MANIFEST_RECORD)
       (Some (project_one (str ''context_manifest_id''))) 1 (Some 1) False,
      decision ''gate_decision_id'' TOP_LEVEL_P0_REFERENCE (Some (str ''gate_decision_id'')) (Some GATE_DECISION_RECORD)
       (Some (project_one (str ''gate_decision_id''))) 1 (Some 1) False,
      decision ''argument_binding_refs[]'' TOP_LEVEL_P0_REFERENCE (Some (str ''argument_binding_ref'')) (Some INPUT_BINDING_RECORD)
       (Some (project_many (str ''argument_binding_refs''))) 1 None True,
      decision ''model_call_id,provider_tool_call_id?'' PAYLOAD_CORRELATION None None
       (Some (project_combined [(project_one (str ''model_call_id'')), (project_optional (str ''provider_tool_call_id''))])) 1 (Some 2) False,
      decision ''result_ref?'' PAYLOAD_CORRELATION None None
       (Some (project_optional (str ''result_ref''))) 0 (Some 1) False]"

definition observation_record_rules :: "projection_decision list" where
  "observation_record_rules =
     [decision ''supersedes?'' TOP_LEVEL_P0_REFERENCE (Some (str ''supersedes'')) (Some OBSERVATION_RECORD)
       (Some (project_optional (str ''supersedes''))) 0 (Some 1) False,
      decision ''external source_tool_call_id'' EXTERNAL_REQUIRED_P0_REFERENCE (Some (str ''source_tool_call_id'')) (Some TOOL_CALL_RECORD)
       None 1 (Some 1) False,
      decision ''external source_run_id'' EXTERNAL_REQUIRED_P0_REFERENCE (Some (str ''source_run_id'')) (Some AGENT_RUN_RECORD)
       None 1 (Some 1) False,
      decision ''external source_task_id'' EXTERNAL_REQUIRED_P0_REFERENCE (Some (str ''source_task_id'')) (Some TASK_RECORD)
       None 1 (Some 1) False,
      decision ''external source_request_unit_id'' EXTERNAL_REQUIRED_P0_REFERENCE (Some (str ''source_request_unit_id'')) (Some REQUEST_UNIT_RECORD)
       None 1 (Some 1) False,
      decision ''raw_result_ref?'' RESTRICTED_DIAGNOSTIC_CORRELATION None None
       (Some (project_optional (str ''raw_result_ref''))) 0 (Some 1) False,
      decision ''source_resource_ref'' PAYLOAD_CORRELATION None None
       (Some (project_one (str ''source_resource_ref''))) 1 (Some 1) False]"

definition context_manifest_record_rules :: "projection_decision list" where
  "context_manifest_record_rules =
     [decision ''run_id'' TOP_LEVEL_P0_REFERENCE (Some (str ''run_id'')) (Some AGENT_RUN_RECORD)
       (Some (project_one (str ''run_id''))) 1 (Some 1) False,
      decision ''selected_message_refs[]'' TOP_LEVEL_P0_REFERENCE (Some (str ''selected_message_ref'')) (Some MESSAGE_RECORD)
       (Some (project_many (str ''selected_message_refs''))) 0 None True,
      decision ''task_state_ref_and_version?.task_id'' TOP_LEVEL_P0_REFERENCE (Some (str ''task_state_ref'')) (Some TASK_RECORD)
       (Some (project_nested_optional (str ''task_state_ref_and_version'') (str ''task_id''))) 0 (Some 1) False,
      decision ''observation_refs_and_versions[].record_ref'' TOP_LEVEL_P0_REFERENCE (Some (str ''observation_ref'')) (Some OBSERVATION_RECORD)
       (Some (project_nested_many (str ''observation_refs_and_versions'') (str ''record_ref''))) 0 None True,
      decision ''model_visible_toolset_hash'' TOP_LEVEL_P0_REFERENCE (Some (str ''model_visible_toolset_hash'')) (Some MODEL_VISIBLE_TOOLSET_ARTIFACT)
       (Some (project_one (str ''model_visible_toolset_hash''))) 1 (Some 1) False,
      decision ''evidence_refs_and_versions[],action_record_refs[]'' P0_FIRST_SLICE_MUST_BE_EMPTY None None
       (Some (project_combined [(project_many (str ''evidence_refs_and_versions'')), (project_many (str ''action_record_refs''))])) 0 (Some 0) False,
      decision ''model_call_id,truncation_decisions[].source_ref'' PAYLOAD_CORRELATION None None
       (Some (project_combined [(project_one (str ''model_call_id'')), (project_nested_many (str ''truncation_decisions'') (str ''source_ref''))])) 1 None False]"

definition trace_event_record_rules :: "projection_decision list" where
  "trace_event_record_rules =
     [decision ''run_id'' TOP_LEVEL_P0_REFERENCE (Some (str ''run_id'')) (Some AGENT_RUN_RECORD)
       (Some (project_one (str ''run_id''))) 1 (Some 1) False,
      decision ''message_ref?'' TOP_LEVEL_P0_REFERENCE (Some (str ''message_ref'')) (Some MESSAGE_RECORD)
       (Some (project_optional (str ''message_ref''))) 0 (Some 1) False,
      decision ''task_id?'' TOP_LEVEL_P0_REFERENCE (Some (str ''task_id'')) (Some TASK_RECORD)
       (Some (project_optional (str ''task_id''))) 0 (Some 1) False,
      decision ''request_unit_id?'' TOP_LEVEL_P0_REFERENCE (Some (str ''request_unit_id'')) (Some REQUEST_UNIT_RECORD)
       (Some (project_optional (str ''request_unit_id''))) 0 (Some 1) False,
      decision ''input_binding_ref?'' TOP_LEVEL_P0_REFERENCE (Some (str ''input_binding_ref'')) (Some INPUT_BINDING_RECORD)
       (Some (project_optional (str ''input_binding_ref''))) 0 (Some 1) False,
      decision ''context_manifest_id?'' TOP_LEVEL_P0_REFERENCE (Some (str ''context_manifest_id'')) (Some CONTEXT_MANIFEST_RECORD)
       (Some (project_optional (str ''context_manifest_id''))) 0 (Some 1) False,
      decision ''model_visible_toolset_hash?'' TOP_LEVEL_P0_REFERENCE (Some (str ''model_visible_toolset_hash'')) (Some MODEL_VISIBLE_TOOLSET_ARTIFACT)
       (Some (project_optional (str ''model_visible_toolset_hash''))) 0 (Some 1) False,
      decision ''argument_binding_refs[]'' TOP_LEVEL_P0_REFERENCE (Some (str ''argument_binding_ref'')) (Some INPUT_BINDING_RECORD)
       (Some (project_many (str ''argument_binding_refs''))) 0 None True,
      decision ''tool_call_id?'' TOP_LEVEL_P0_REFERENCE (Some (str ''tool_call_id'')) (Some TOOL_CALL_RECORD)
       (Some (project_optional (str ''tool_call_id''))) 0 (Some 1) False,
      decision ''observation_ref?'' TOP_LEVEL_P0_REFERENCE (Some (str ''observation_ref'')) (Some OBSERVATION_RECORD)
       (Some (project_optional (str ''observation_ref''))) 0 (Some 1) False,
      decision ''accepted_delta_ref?'' LOGICAL_CHILD_CORRELATION None None
       (Some (project_optional (str ''accepted_delta_ref''))) 0 (Some 1) False,
      decision ''model_call_id?,presentation_plan_ref?,case_id?'' PAYLOAD_CORRELATION None None
       (Some (project_combined [(project_optional (str ''model_call_id'')), (project_optional (str ''presentation_plan_ref'')), (project_optional (str ''case_id''))])) 0 (Some 3) False]"

definition eval_result_record_rules :: "projection_decision list" where
  "eval_result_record_rules =
     [decision ''trace_ref?'' CONDITIONAL_PAYLOAD_CORRELATION None None
       (Some (project_optional (str ''trace_ref''))) 0 (Some 1) False]"

definition eval_execution_failure_record_rules :: "projection_decision list" where
  "eval_execution_failure_record_rules =
     [decision ''trace_ref?'' PAYLOAD_CORRELATION None None
       (Some (project_optional (str ''trace_ref''))) 0 (Some 1) False,
      decision ''diagnostic_ref?'' RESTRICTED_DIAGNOSTIC_CORRELATION None None
       (Some (project_optional (str ''diagnostic_ref''))) 0 (Some 1) False]"

definition request_understanding_record_rules :: "projection_decision list" where
  "request_understanding_record_rules =
     [decision ''run_id'' TOP_LEVEL_P0_REFERENCE (Some (str ''run_id'')) (Some AGENT_RUN_RECORD)
       (Some (project_one (str ''run_id''))) 1 (Some 1) False,
      decision ''message_ref'' TOP_LEVEL_P0_REFERENCE (Some (str ''message_ref'')) (Some MESSAGE_RECORD)
       (Some (project_one (str ''message_ref''))) 1 (Some 1) False,
      decision ''contextualization.resolved_reference_candidates[].source_ref'' TOP_LEVEL_P0_REFERENCE (Some (str ''contextualization_resolved_source_ref'')) (Some MESSAGE_RECORD)
       (Some request_understanding_v2_resolved_source_refs) 0 None False,
      decision ''contextualization.source_message_refs[]'' TOP_LEVEL_P0_REFERENCE (Some (str ''contextualization_source_message_ref'')) (Some MESSAGE_RECORD)
       (Some request_understanding_v2_context_source_refs) 1 None True,
      decision ''task_delta_candidates[].input_candidates[].source_ref'' TOP_LEVEL_P0_REFERENCE (Some (str ''task_delta_input_source_ref'')) (Some MESSAGE_RECORD)
       (Some request_understanding_v2_input_source_refs) 0 None False,
      decision ''accepted_delta_refs[]'' LOGICAL_CHILD_CORRELATION None None
       (Some (project_many (str ''accepted_delta_refs''))) 0 None True,
      decision ''candidate_validation[].candidate_ref'' PARENT_LOCAL_CORRELATION None None
       (Some (project_nested_many (str ''candidate_validation'') (str ''candidate_ref''))) 0 None True,
      decision ''next_move_candidate_ref?'' PAYLOAD_CORRELATION None None
       (Some (project_optional (str ''next_move_candidate_ref''))) 0 (Some 1) False]"

definition task_state_transition_rules :: "projection_decision list" where
  "task_state_transition_rules =
     [decision ''task_id'' PARENT_FIELD_EQUALITY None None
       (Some (project_one (str ''task_id''))) 1 (Some 1) False,
      decision ''request_unit_id'' CHILD_TOP_LEVEL_P0_REFERENCE (Some (str ''request_unit_id'')) (Some REQUEST_UNIT_RECORD)
       (Some (project_one (str ''request_unit_id''))) 1 (Some 1) False,
      decision ''reason_ref'' PAYLOAD_CORRELATION None None
       (Some (project_one (str ''reason_ref''))) 1 (Some 1) False]"

definition tool_attempt_record_rules :: "projection_decision list" where
  "tool_attempt_record_rules =
     [decision ''tool_call_id'' PARENT_FIELD_EQUALITY None None
       (Some (project_one (str ''tool_call_id''))) 1 (Some 1) False]"

definition accepted_task_delta_rules :: "projection_decision list" where
  "accepted_task_delta_rules =
     [decision ''candidate_ref'' PARENT_LOCAL_CORRELATION None None
       (Some (project_one (str ''candidate_ref''))) 1 (Some 1) False,
      decision ''message_ref'' PARENT_FIELD_EQUALITY None None
       (Some (project_one (str ''message_ref''))) 1 (Some 1) False,
      decision ''input_binding_refs[]'' CHILD_TOP_LEVEL_P0_REFERENCE (Some (str ''input_binding_ref'')) (Some INPUT_BINDING_RECORD)
       (Some (project_many (str ''input_binding_refs''))) 1 None True,
      decision ''task_id'' CHILD_TOP_LEVEL_P0_REFERENCE (Some (str ''accepted_delta_task_id'')) (Some TASK_RECORD)
       (Some (project_one (str ''task_id''))) 1 (Some 1) False]"

subsection \<open>The registry\<close>

record schema_spec =
  ss_record_code :: record_code
  ss_record_schema_version :: pystr
  ss_source_model :: model_class
  ss_identity_fields :: "pystr list"
  ss_direct_owner_field :: "pystr option"
  ss_projection_decisions :: "projection_decision list"
  ss_version_mirror_field :: "pystr option"
  ss_allowed_child_codes :: "child_code list"
  ss_specialized_version_validator :: "(source_record \<Rightarrow> bool) option"

record child_schema_spec =
  cs_child_code :: child_code
  cs_source_model :: model_class
  cs_parent_record_code :: record_code
  cs_identity_fields :: "pystr list"
  cs_closure_strategy :: closure_strategy
  cs_projection_decisions :: "projection_decision list"

fun TOP_LEVEL_PROJECTIONS :: "record_code \<Rightarrow> projection_decision list" where
  "TOP_LEVEL_PROJECTIONS CONVERSATION_RECORD = conversation_record_rules"
| "TOP_LEVEL_PROJECTIONS MESSAGE_RECORD = message_record_rules"
| "TOP_LEVEL_PROJECTIONS TASK_RECORD = task_record_rules"
| "TOP_LEVEL_PROJECTIONS REQUEST_UNIT_RECORD = request_unit_record_rules"
| "TOP_LEVEL_PROJECTIONS CONVERSATION_TASK_LINK_RECORD = conversation_task_link_record_rules"
| "TOP_LEVEL_PROJECTIONS RUN_TASK_LINK_RECORD = run_task_link_record_rules"
| "TOP_LEVEL_PROJECTIONS INPUT_BINDING_RECORD = input_binding_record_rules"
| "TOP_LEVEL_PROJECTIONS MODEL_VISIBLE_TOOLSET_ARTIFACT = model_visible_toolset_artifact_rules"
| "TOP_LEVEL_PROJECTIONS AGENT_RUN_RECORD = agent_run_record_rules"
| "TOP_LEVEL_PROJECTIONS GATE_DECISION_RECORD = gate_decision_record_rules"
| "TOP_LEVEL_PROJECTIONS TOOL_CALL_RECORD = tool_call_record_rules"
| "TOP_LEVEL_PROJECTIONS OBSERVATION_RECORD = observation_record_rules"
| "TOP_LEVEL_PROJECTIONS CONTEXT_MANIFEST_RECORD = context_manifest_record_rules"
| "TOP_LEVEL_PROJECTIONS TRACE_EVENT_RECORD = trace_event_record_rules"
| "TOP_LEVEL_PROJECTIONS EVAL_RESULT_RECORD = eval_result_record_rules"
| "TOP_LEVEL_PROJECTIONS EVAL_EXECUTION_FAILURE_RECORD = eval_execution_failure_record_rules"
| "TOP_LEVEL_PROJECTIONS REQUEST_UNDERSTANDING_RECORD = request_understanding_record_rules"

definition record_spec :: "record_code \<Rightarrow> model_class \<Rightarrow> string list \<Rightarrow> string option \<Rightarrow> string option \<Rightarrow>
    child_code list \<Rightarrow> (source_record \<Rightarrow> bool) option \<Rightarrow> schema_spec" where
  "record_spec code source_model identity_fields direct_owner_field version_mirror_field allowed_child_codes validator =
     \<lparr>ss_record_code = code, ss_record_schema_version = record_code_text code @ str ''.p0.v1'',
      ss_source_model = source_model, ss_identity_fields = map str identity_fields,
      ss_direct_owner_field = map_option str direct_owner_field,
      ss_projection_decisions = TOP_LEVEL_PROJECTIONS code,
      ss_version_mirror_field = map_option str version_mirror_field,
      ss_allowed_child_codes = allowed_child_codes, ss_specialized_version_validator = validator\<rparr>"

definition toolset_artifact_version_valid :: "source_record \<Rightarrow> bool" where
  "toolset_artifact_version_valid r = (case r of
      ToolsetArtifactSource a \<Rightarrow> ta_artifact_schema_version a = MODEL_VISIBLE_TOOLSET_ARTIFACT_SCHEMA_VERSION
    | _ \<Rightarrow> False)"

fun NON_RU_REGISTRY :: "record_code \<Rightarrow> schema_spec option" where
  "NON_RU_REGISTRY CONVERSATION_RECORD = Some (record_spec CONVERSATION_RECORD ConversationModel
     [''conversation_id''] (Some ''owner_customer_id'') (Some ''schema_version'') [] None)"
| "NON_RU_REGISTRY MESSAGE_RECORD = Some (record_spec MESSAGE_RECORD MessageModel
     [''message_id''] None (Some ''schema_version'') [] None)"
| "NON_RU_REGISTRY TASK_RECORD = Some (record_spec TASK_RECORD TaskModel
     [''task_id''] (Some ''owner_customer_id'') None [CHILD_TASK_STATE_TRANSITION] None)"
| "NON_RU_REGISTRY REQUEST_UNIT_RECORD = Some (record_spec REQUEST_UNIT_RECORD RequestUnitModel
     [''request_unit_id''] None None [] None)"
| "NON_RU_REGISTRY CONVERSATION_TASK_LINK_RECORD = Some (record_spec CONVERSATION_TASK_LINK_RECORD
     ConversationTaskLinkModel [''conversation_id'', ''task_id'', ''linked_at''] None (Some ''schema_version'') [] None)"
| "NON_RU_REGISTRY RUN_TASK_LINK_RECORD = Some (record_spec RUN_TASK_LINK_RECORD RunTaskLinkModel
     [''run_id'', ''task_id''] None (Some ''schema_version'') [] None)"
| "NON_RU_REGISTRY INPUT_BINDING_RECORD = Some (record_spec INPUT_BINDING_RECORD InputBindingModel
     [''binding_id''] None None [] None)"
| "NON_RU_REGISTRY MODEL_VISIBLE_TOOLSET_ARTIFACT = Some (record_spec MODEL_VISIBLE_TOOLSET_ARTIFACT
     ToolsetArtifactModel [''model_visible_toolset_hash''] None None [] (Some toolset_artifact_version_valid))"
| "NON_RU_REGISTRY AGENT_RUN_RECORD = Some (record_spec AGENT_RUN_RECORD AgentRunModel
     [''run_id''] None None [] None)"
| "NON_RU_REGISTRY GATE_DECISION_RECORD = Some (record_spec GATE_DECISION_RECORD GateDecisionModel
     [''gate_decision_id''] None None [] None)"
| "NON_RU_REGISTRY TOOL_CALL_RECORD = Some (record_spec TOOL_CALL_RECORD ToolCallModel
     [''tool_call_id''] None None [CHILD_TOOL_ATTEMPT_RECORD] None)"
| "NON_RU_REGISTRY OBSERVATION_RECORD = Some (record_spec OBSERVATION_RECORD ObservationModel
     [''observation_id''] None None [] None)"
| "NON_RU_REGISTRY CONTEXT_MANIFEST_RECORD = Some (record_spec CONTEXT_MANIFEST_RECORD ContextManifestModel
     [''context_manifest_id''] None None [] None)"
| "NON_RU_REGISTRY TRACE_EVENT_RECORD = Some (record_spec TRACE_EVENT_RECORD TraceEventModel
     [''trace_event_id''] None None [] None)"
| "NON_RU_REGISTRY EVAL_RESULT_RECORD = Some (record_spec EVAL_RESULT_RECORD EvalResultModel
     [''eval_run_id'', ''case_id'', ''lane'', ''attempt''] None (Some ''schema_version'') [] None)"
| "NON_RU_REGISTRY EVAL_EXECUTION_FAILURE_RECORD = Some (record_spec EVAL_EXECUTION_FAILURE_RECORD EvalFailureModel
     [''eval_run_id'', ''lane'', ''case_id'', ''attempt'', ''failure_phase'', ''safe_error_code'', ''occurred_at'']
     None (Some ''schema_version'') [] None)"
| "NON_RU_REGISTRY REQUEST_UNDERSTANDING_RECORD = None"

definition REQUEST_UNDERSTANDING_V2_SPEC :: schema_spec where
  "REQUEST_UNDERSTANDING_V2_SPEC =
     \<lparr>ss_record_code = REQUEST_UNDERSTANDING_RECORD,
      ss_record_schema_version = str ''request_understanding_record.p0.v2'',
      ss_source_model = RequestUnderstandingModel, ss_identity_fields = [str ''request_understanding_record_id''],
      ss_direct_owner_field = None, ss_projection_decisions = request_understanding_record_rules,
      ss_version_mirror_field = Some (str ''schema_version''),
      ss_allowed_child_codes = [CHILD_ACCEPTED_TASK_DELTA], ss_specialized_version_validator = None\<rparr>"

fun LOGICAL_CHILD_SPECS :: "child_code \<Rightarrow> child_schema_spec" where
  "LOGICAL_CHILD_SPECS CHILD_TASK_STATE_TRANSITION =
     \<lparr>cs_child_code = CHILD_TASK_STATE_TRANSITION, cs_source_model = TransitionModel,
      cs_parent_record_code = TASK_RECORD,
      cs_identity_fields = [str ''task_id'', str ''request_unit_id'', str ''result_state_version''],
      cs_closure_strategy = GRAPH_REQUIRED, cs_projection_decisions = task_state_transition_rules\<rparr>"
| "LOGICAL_CHILD_SPECS CHILD_TOOL_ATTEMPT_RECORD =
     \<lparr>cs_child_code = CHILD_TOOL_ATTEMPT_RECORD, cs_source_model = AttemptModel,
      cs_parent_record_code = TOOL_CALL_RECORD,
      cs_identity_fields = [str ''tool_call_id'', str ''attempt_no''],
      cs_closure_strategy = LOCAL_CLOSED, cs_projection_decisions = tool_attempt_record_rules\<rparr>"
| "LOGICAL_CHILD_SPECS CHILD_ACCEPTED_TASK_DELTA =
     \<lparr>cs_child_code = CHILD_ACCEPTED_TASK_DELTA, cs_source_model = AcceptedDeltaModel,
      cs_parent_record_code = REQUEST_UNDERSTANDING_RECORD,
      cs_identity_fields = [str ''accepted_delta_id''],
      cs_closure_strategy = LOCAL_CLOSED, cs_projection_decisions = accepted_task_delta_rules\<rparr>"

definition record_codes :: "record_code list" where
  "record_codes =
     [CONVERSATION_RECORD, MESSAGE_RECORD, REQUEST_UNDERSTANDING_RECORD, TASK_RECORD, REQUEST_UNIT_RECORD,
      CONVERSATION_TASK_LINK_RECORD, RUN_TASK_LINK_RECORD, INPUT_BINDING_RECORD, MODEL_VISIBLE_TOOLSET_ARTIFACT,
      AGENT_RUN_RECORD, GATE_DECISION_RECORD, TOOL_CALL_RECORD, OBSERVATION_RECORD, CONTEXT_MANIFEST_RECORD,
      TRACE_EVENT_RECORD, EVAL_RESULT_RECORD, EVAL_EXECUTION_FAILURE_RECORD]"

text \<open>\<open>P0_RECORD_SCHEMA_VERSION_CATALOG\<close>: the sixteen generic specs and the Request Understanding one.\<close>

definition record_schema_spec :: "record_code \<Rightarrow> schema_spec" where
  "record_schema_spec code = (case NON_RU_REGISTRY code of Some spec \<Rightarrow> spec | None \<Rightarrow> REQUEST_UNDERSTANDING_V2_SPEC)"

definition RECORD_SCHEMA_VERSION_CATALOG :: "((record_code \<times> pystr) \<times> schema_spec) list" where
  "RECORD_SCHEMA_VERSION_CATALOG =
     map (\<lambda>code. ((code, ss_record_schema_version (record_schema_spec code)), record_schema_spec code)) record_codes"

end
