(* ===== verification/Persistence_Codec.thy ===== *)
theory Persistence_Codec
  imports Persistence_Rules "HOL-Library.Product_Lexorder"
begin

section \<open>Encoding records into envelopes (application/persistence.py, lines 1050--1510 and 2144--2717)\<close>

text \<open>
  Two entry points: \<open>encode_persistence_record\<close> for the sixteen generic families and
  \<open>encode_persistence_record_versioned\<close>, which selects the spec by code and version, compares the
  record with its re-validated copy and handles the Request Understanding record. Type checks of the
  arguments that the model's types enforce (a tuple of references, a tuple of children) are left out.

  pydantic is a parameter: \<open>p_writer\<close> is how it writes what only it writes, \<open>p_validate m data\<close> is
  \<open>m.model_validate_json(text, strict=True)\<close> for the text of the JSON object \<open>data\<close>.
\<close>

record pydantic =
  p_writer :: json_writer
  p_validate :: "model_class \<Rightarrow> json_object \<Rightarrow> source_record option"

abbreviation signal :: "integrity_category \<Rightarrow> codec_error + 'a" where
  "signal category \<equiv> Inl (Signal category)"

text \<open>
  What the encoders are handed: something that is no instance of a record class, an instance with all its
  fields (and possibly state of other names), or an instance made without validation (\<open>model_construct\<close>,
  \<open>object.__new__\<close>) that lacks fields or holds values of other types. Of the latter the codec reads the
  attribute that repeats the schema version (\<open>None\<close> when it is missing) and what \<open>model_dump_json\<close> writes of
  it (\<open>None\<close> when it raises, which pydantic reports as \<open>PydanticSerializationError\<close>).
\<close>

record partial_object =
  po_class :: model_class
  po_version :: "json option"
  po_dump :: "json_object option"

datatype source_object = NotAModel | ModelObject source_record "pystr list" | PartialObject partial_object

definition dumped :: "pydantic \<Rightarrow> source_record \<Rightarrow> codec_error + json_object" where
  "dumped pyd r = (case model_dump (p_writer pyd) r of Inl e \<Rightarrow> Inl (Uncaught e) | Inr data \<Rightarrow> Inr data)"

text \<open>\<open>model.model_validate_json(record.model_dump_json(), strict=True)\<close>, \<open>None\<close> when either raises.\<close>

definition revalidated :: "pydantic \<Rightarrow> model_class \<Rightarrow> source_record \<Rightarrow> source_record option" where
  "revalidated pyd source_model r =
     (case model_dump (p_writer pyd) r of Inl _ \<Rightarrow> None | Inr data \<Rightarrow> p_validate pyd source_model data)"

definition revalidated_object :: "pydantic \<Rightarrow> model_class \<Rightarrow> source_object \<Rightarrow> source_record option" where
  "revalidated_object pyd source_model x = (case x of
      NotAModel \<Rightarrow> None
    | ModelObject r _ \<Rightarrow> revalidated pyd source_model r
    | PartialObject p \<Rightarrow> Option.bind (po_dump p) (p_validate pyd source_model))"

definition object_class :: "source_object \<Rightarrow> model_class option" where
  "object_class x = (case x of
      NotAModel \<Rightarrow> None | ModelObject r _ \<Rightarrow> Some (class_of r) | PartialObject p \<Rightarrow> Some (po_class p))"

fun schema_version_of :: "source_record \<Rightarrow> pystr option" where
  "schema_version_of (ConversationSource r) = Some (cr_schema_version r)"
| "schema_version_of (MessageSource r) = Some (mr_schema_version r)"
| "schema_version_of (ConversationTaskLinkSource r) = Some (ctl_schema_version r)"
| "schema_version_of (RunTaskLinkSource r) = Some (rl_schema_version r)"
| "schema_version_of (EvalResultSource r) = Some (er_schema_version r)"
| "schema_version_of (EvalFailureSource r) = Some (ef_schema_version r)"
| "schema_version_of (RequestUnderstandingSource r) = Some (rc_schema_version r)"
| "schema_version_of _ = None"

subsection \<open>Records and their identity\<close>

definition logical_identity :: "pydantic \<Rightarrow> source_record \<Rightarrow> pystr list \<Rightarrow> codec_error + identity_pairs" where
  "logical_identity pyd r identity_fields =
     res_bind (dumped pyd r) (\<lambda>data.
       case opt_map (\<lambda>f. map_option (Pair f) (map_of data f)) identity_fields of
         None \<Rightarrow> Inl (Uncaught ''KeyError'') | Some identity \<Rightarrow> Inr identity)"

text \<open>
  \<open>spec.specialized_version_validator(record)\<close>: the one validator there is compares the version attribute
  of a toolset artifact; \<open>None\<close> when the attribute is missing, which raises \<open>AttributeError\<close>.
\<close>

definition specialized_version_matches :: "schema_spec \<Rightarrow> source_object \<Rightarrow> bool option" where
  "specialized_version_matches spec x = (case ss_specialized_version_validator spec of
      None \<Rightarrow> Some True
    | Some valid \<Rightarrow> (case x of
          NotAModel \<Rightarrow> None
        | ModelObject r _ \<Rightarrow> Some (valid r)
        | PartialObject p \<Rightarrow> map_option (\<lambda>v. v = JStr MODEL_VISIBLE_TOOLSET_ARTIFACT_SCHEMA_VERSION) (po_version p)))"

text \<open>The generic encoder calls the validator outside of any handler.\<close>

definition strict_record :: "pydantic \<Rightarrow> schema_spec \<Rightarrow> source_object \<Rightarrow> codec_error + source_record" where
  "strict_record pyd spec x =
     (if object_class x \<noteq> Some (ss_source_model spec) then signal SOURCE_MODEL_MISMATCH
      else case specialized_version_matches spec x of
        None \<Rightarrow> Inl (Uncaught ''AttributeError'')
      | Some matches \<Rightarrow>
          res_bind (raise_if (\<not> matches) (Signal SPECIALIZED_VERSION_MISMATCH)) (\<lambda>_.
          case revalidated_object pyd (ss_source_model spec) x of
            None \<Rightarrow> signal PAYLOAD_VALIDATION_FAILED
          | Some validated \<Rightarrow>
              res_bind (raise_if (ss_version_mirror_field spec \<noteq> None
                  \<and> schema_version_of validated \<noteq> Some (ss_record_schema_version spec))
                (Signal RECORD_SCHEMA_VERSION_MISMATCH)) (\<lambda>_. Inr validated)))"

subsection \<open>References\<close>

definition json_scalar :: "json \<Rightarrow> bool" where
  "json_scalar v = (case v of JList _ \<Rightarrow> False | JDict _ \<Rightarrow> False | _ \<Rightarrow> True)"

text \<open>A scalar after \<open>model_dump_json\<close> and \<open>model_validate_json\<close>: \<open>nan\<close> and \<open>inf\<close> are written as \<open>null\<close>.\<close>

definition strict_scalar :: "json \<Rightarrow> json option" where
  "strict_scalar v = (case v of
      JStr s \<Rightarrow> if utf8_text s then Some v else None
    | JFloat f \<Rightarrow> Some (if isfinite f then v else JNull)
    | JList _ \<Rightarrow> None | JDict _ \<Rightarrow> None
    | _ \<Rightarrow> Some v)"

definition strict_identity :: "identity_pairs \<Rightarrow> identity_pairs option" where
  "strict_identity identity =
     opt_map (\<lambda>(k, v). if utf8_text k then map_option (Pair k) (strict_scalar v) else None) identity"

definition strict_reference :: "record_reference pyobj \<Rightarrow> codec_error + record_reference" where
  "strict_reference reference = (case reference of
      Foreign \<Rightarrow> signal LINK_PROJECTION_MISMATCH
    | Obj r _ \<Rightarrow>
        (if \<not> utf8_text (rf_relation r) then signal LINK_PROJECTION_MISMATCH
         else case strict_identity (rf_target_logical_identity r) of
             None \<Rightarrow> signal LINK_PROJECTION_MISMATCH
           | Some identity \<Rightarrow> Inr (r\<lparr>rf_target_logical_identity := identity\<rparr>)))"

definition identity_json :: "identity_pairs \<Rightarrow> json" where
  "identity_json identity = JList (map (\<lambda>(k, v). JList [JStr k, v]) identity)"

type_synonym reference_order = "pystr \<times> pystr \<times> pystr"

definition reference_key :: "record_reference \<Rightarrow> codec_error + reference_order" where
  "reference_key r = (case json_dumps (identity_json (rf_target_logical_identity r)) of
      Inl e \<Rightarrow> Inl (Uncaught e)
    | Inr text \<Rightarrow> Inr (rf_relation r, record_code_text (rf_target_record_code r), text))"

fun references_by_key :: "bool \<Rightarrow> (reference_order \<times> record_reference) list \<Rightarrow> record_reference pyobj list \<Rightarrow>
    codec_error + (reference_order \<times> record_reference) list" where
  "references_by_key collapse_duplicates by_key [] = Inr by_key"
| "references_by_key collapse_duplicates by_key (reference # references) =
     res_bind (strict_reference reference) (\<lambda>canonical.
     res_bind (reference_key canonical) (\<lambda>key.
     res_bind (raise_if (key \<in> set (map fst by_key) \<and> \<not> collapse_duplicates) (Signal LINK_CARDINALITY_MISMATCH)) (\<lambda>_.
     references_by_key collapse_duplicates (dict_set by_key key canonical) references)))"

definition normalize_references ::
  "bool \<Rightarrow> record_reference pyobj list \<Rightarrow> codec_error + record_reference list" where
  "normalize_references collapse_duplicates references =
     res_bind (references_by_key collapse_duplicates [] references) (\<lambda>by_key.
     Inr (map snd (sort_key fst by_key)))"

abbreviation exact_references :: "record_reference list \<Rightarrow> record_reference pyobj list" where
  "exact_references \<equiv> map (\<lambda>r. Obj r [])"

definition reference_for_value :: "projection_decision \<Rightarrow> json \<Rightarrow> codec_error + record_reference" where
  "reference_for_value rule v = (case (pd_relation rule, pd_target_record_code rule) of
      (Some relation, Some target) \<Rightarrow>
        (case NON_RU_REGISTRY target of
           None \<Rightarrow> Inl (Uncaught ''KeyError'')
         | Some target_spec \<Rightarrow>
             (case ss_identity_fields target_spec of
                [identity_field] \<Rightarrow>
                  res_bind (raise_if (\<not> (json_scalar v \<and> native_json v)) (Uncaught ''ValidationError'')) (\<lambda>_.
                  Inr \<lparr>rf_relation = relation, rf_target_record_code = target,
                       rf_target_logical_identity = [(identity_field, v)]\<rparr>)
              | _ \<Rightarrow> signal LINK_PROJECTION_MISMATCH))
    | _ \<Rightarrow> signal LINK_PROJECTION_MISMATCH)"

definition projected_values :: "projection_decision \<Rightarrow> json_object \<Rightarrow> codec_error + json list" where
  "projected_values rule data = (case pd_value_projector rule of
      None \<Rightarrow> Inr []
    | Some project \<Rightarrow> (case project data of
          None \<Rightarrow> Inl (Uncaught ''KeyError'')
        | Some vs \<Rightarrow>
            res_bind (raise_if (length vs < pd_minimum rule \<or> \<not> opt_all (\<lambda>m. length vs \<le> m) (pd_maximum rule))
              (Signal LINK_CARDINALITY_MISMATCH)) (\<lambda>_.
            if pd_unique rule
            then (case res_map json_dumps vs of
                Inl e \<Rightarrow> Inl (Uncaught e)
              | Inr ks \<Rightarrow> res_bind (raise_if (has_duplicates ks) (Signal LINK_CARDINALITY_MISMATCH)) (\<lambda>_. Inr vs))
            else Inr vs)))"

text \<open>
  \<open>_canonical_target_identity\<close>: every target of an external reference is identified by one \<open>UUID\<close>
  (the toolset artifact by a digest), and its JSON text has to be the one pydantic writes.
\<close>

definition is_uuid_text :: "pystr \<Rightarrow> bool" where
  "is_uuid_text s \<longleftrightarrow> length s = 36 \<and>
     list_all (\<lambda>i. if i \<in> {8, 13, 18, 23} then s ! i = 45 else is_lower_hex (s ! i)) [0..<36]"

definition canonical_identity_value :: "record_code \<Rightarrow> json \<Rightarrow> bool" where
  "canonical_identity_value target v = (case v of
      JStr s \<Rightarrow> if target = MODEL_VISIBLE_TOOLSET_ARTIFACT then ToolsetHash s else is_uuid_text s
    | _ \<Rightarrow> False)"

definition canonical_target_identity :: "record_reference \<Rightarrow> schema_spec \<Rightarrow> codec_error + record_reference" where
  "canonical_target_identity reference target_spec =
     (if list_all (\<lambda>(_, v). canonical_identity_value (ss_record_code target_spec) v)
           (rf_target_logical_identity reference)
      then Inr reference else signal LINK_PROJECTION_MISMATCH)"

definition external_rules :: "schema_spec \<Rightarrow> projection_decision list" where
  "external_rules spec =
     filter (\<lambda>rule. pd_classification rule = EXTERNAL_REQUIRED_P0_REFERENCE) (ss_projection_decisions spec)"

definition external_reference :: "record_reference list \<Rightarrow> projection_decision \<Rightarrow> codec_error + record_reference" where
  "external_reference normalized rule =
     (case filter (\<lambda>r. Some (rf_relation r) = pd_relation rule) normalized of
        [reference] \<Rightarrow>
          res_bind (raise_if (Some (rf_target_record_code reference) \<noteq> pd_target_record_code rule)
            (Signal LINK_PROJECTION_MISMATCH)) (\<lambda>_.
          case NON_RU_REGISTRY (rf_target_record_code reference) of
            None \<Rightarrow> Inl (Uncaught ''KeyError'')
          | Some target_spec \<Rightarrow>
              res_bind (raise_if (map fst (rf_target_logical_identity reference) \<noteq> ss_identity_fields target_spec)
                (Signal LINK_PROJECTION_MISMATCH)) (\<lambda>_.
              canonical_target_identity reference target_spec))
      | _ \<Rightarrow> signal LINK_CARDINALITY_MISMATCH)"

definition validate_external_references ::
  "schema_spec \<Rightarrow> record_reference pyobj list \<Rightarrow> codec_error + record_reference list" where
  "validate_external_references spec external_references =
     res_bind (normalize_references False external_references) (\<lambda>normalized.
     res_bind (raise_if (length normalized \<noteq> length (external_rules spec)) (Signal LINK_CARDINALITY_MISMATCH)) (\<lambda>_.
     res_map (external_reference normalized) (external_rules spec)))"

subsection \<open>The projection of a record\<close>

fun apply_rules :: "json_object \<Rightarrow> pystr option \<times> record_reference list \<Rightarrow> projection_decision list \<Rightarrow>
    codec_error + (pystr option \<times> record_reference list)" where
  "apply_rules data acc [] = Inr acc"
| "apply_rules data (direct_owner, references) (rule # rules) =
     res_bind (projected_values rule data) (\<lambda>vs.
     case pd_classification rule of
       DIRECT_OWNER \<Rightarrow>
         (case vs of [JStr owner] \<Rightarrow> apply_rules data (Some owner, references) rules
          | _ \<Rightarrow> signal OWNER_PROJECTION_MISMATCH)
     | TOP_LEVEL_P0_REFERENCE \<Rightarrow>
         res_bind (res_map (reference_for_value rule) vs) (\<lambda>refs.
         apply_rules data (direct_owner, references @ refs) rules)
     | P0_FIRST_SLICE_MUST_BE_EMPTY \<Rightarrow>
         (if vs \<noteq> [] then signal LINK_CARDINALITY_MISMATCH else apply_rules data (direct_owner, references) rules)
     | _ \<Rightarrow> apply_rules data (direct_owner, references) rules)"

definition top_level_projection ::
  "bool \<Rightarrow> pydantic \<Rightarrow> schema_spec \<Rightarrow> source_record \<Rightarrow> codec_error + (pystr option \<times> record_reference list)" where
  "top_level_projection collapse_duplicates pyd spec r =
     res_bind (dumped pyd r) (\<lambda>data.
     res_bind (apply_rules data (None, []) (ss_projection_decisions spec)) (\<lambda>(direct_owner, references).
     res_bind (normalize_references collapse_duplicates (exact_references references)) (\<lambda>normalized.
     Inr (direct_owner, normalized))))"

subsection \<open>Logical children\<close>

fun as_transition :: "source_record \<Rightarrow> task_state_transition option" where
  "as_transition (TransitionSource t) = Some t"
| "as_transition _ = None"

fun as_attempt :: "source_record \<Rightarrow> tool_attempt_record option" where
  "as_attempt (AttemptSource a) = Some a"
| "as_attempt _ = None"

fun as_accepted_delta :: "source_record \<Rightarrow> accepted_task_delta option" where
  "as_accepted_delta (AcceptedDeltaSource d) = Some d"
| "as_accepted_delta _ = None"

definition child_codes :: "child_code list" where
  "child_codes = [CHILD_ACCEPTED_TASK_DELTA, CHILD_TASK_STATE_TRANSITION, CHILD_TOOL_ATTEMPT_RECORD]"

definition child_code_of :: "child_code list \<Rightarrow> source_object \<Rightarrow> child_code option" where
  "child_code_of codes x = find (\<lambda>code. object_class x = Some (cs_source_model (LOGICAL_CHILD_SPECS code))) codes"

definition validated_child :: "pydantic \<Rightarrow> schema_spec \<Rightarrow> source_object \<Rightarrow>
    codec_error + (child_schema_spec \<times> source_record)" where
  "validated_child pyd parent_spec child = (case child_code_of child_codes child of
      None \<Rightarrow> signal CHILD_MISMATCH
    | Some code \<Rightarrow>
        (let child_spec = LOGICAL_CHILD_SPECS code
         in if code \<notin> set (ss_allowed_child_codes parent_spec)
              \<or> cs_parent_record_code child_spec \<noteq> ss_record_code parent_spec
            then signal CHILD_MISMATCH
            else case revalidated_object pyd (cs_source_model child_spec) child of
                None \<Rightarrow> signal CHILD_MISMATCH
              | Some validated \<Rightarrow> Inr (child_spec, validated)))"

text \<open>The transitions of a Task: one identity and one result version each, all of the Task, by result version.\<close>

definition transitions_in_order :: "task_record \<Rightarrow> task_state_transition list \<Rightarrow> codec_error + task_state_transition list" where
  "transitions_in_order parent children =
     res_bind (raise_if
       (has_duplicates (map (\<lambda>c. (tt_task_id c, tt_request_unit_id c, tt_result_state_version c)) children)
        \<or> has_duplicates (map tt_result_state_version children)
        \<or> list_ex (\<lambda>c. tt_task_id c \<noteq> tk_task_id parent) children) (Signal CHILD_MISMATCH)) (\<lambda>_.
     Inr (sort_key (\<lambda>c. (tt_result_state_version c, uuid_text (tt_request_unit_id c))) children))"

text \<open>The attempts of a ToolCall: numbered from 1 to \<open>attempt_count\<close>.\<close>

definition attempts_in_order :: "tool_call_record \<Rightarrow> tool_attempt_record list \<Rightarrow> codec_error + tool_attempt_record list" where
  "attempts_in_order parent children =
     (let attempt_numbers = map at_attempt_no children
      in res_bind (raise_if
        (list_ex (\<lambda>c. at_tool_call_id c \<noteq> tc_tool_call_id parent) children
         \<or> sort attempt_numbers \<noteq> [1..tc_attempt_count parent]
         \<or> has_duplicates attempt_numbers) (Signal CHILD_MISMATCH)) (\<lambda>_.
      Inr (sort_key at_attempt_no children)))"

definition children_in_order :: "source_record \<Rightarrow> source_record list \<Rightarrow> codec_error + source_record list" where
  "children_in_order parent children = (case parent of
      TaskSource task \<Rightarrow> (case opt_map as_transition children of
          None \<Rightarrow> Inl (Uncaught ''AttributeError'')
        | Some ts \<Rightarrow> res_bind (transitions_in_order task ts) (\<lambda>sorted. Inr (map TransitionSource sorted)))
    | ToolCallSource tool_call \<Rightarrow> (case opt_map as_attempt children of
          None \<Rightarrow> Inl (Uncaught ''AttributeError'')
        | Some attempts \<Rightarrow> res_bind (attempts_in_order tool_call attempts) (\<lambda>sorted. Inr (map AttemptSource sorted)))
    | _ \<Rightarrow> Inr children)"

text \<open>The JSON of a payload is frozen on construction (\<open>thaw_json_input\<close>, \<open>freeze_json_data\<close>).\<close>

definition payload_data :: "json_object \<Rightarrow> codec_error + json_object" where
  "payload_data data = (case thaw_object data of Inl _ \<Rightarrow> Inl (Uncaught ''ValidationError'') | Inr d \<Rightarrow> Inr d)"

fun child_rules :: "json_object \<Rightarrow> projection_decision list \<Rightarrow> codec_error + record_reference list" where
  "child_rules data [] = Inr []"
| "child_rules data (rule # rules) =
     res_bind (projected_values rule data) (\<lambda>vs.
     res_bind (if pd_classification rule = CHILD_TOP_LEVEL_P0_REFERENCE
               then res_map (reference_for_value rule) vs else Inr []) (\<lambda>refs.
     res_bind (child_rules data rules) (\<lambda>more. Inr (refs @ more))))"

definition child_payload :: "pydantic \<Rightarrow> record_code \<Rightarrow> identity_pairs \<Rightarrow> child_schema_spec \<Rightarrow> source_record \<Rightarrow>
    codec_error + (logical_child_payload \<times> record_reference list)" where
  "child_payload pyd parent_code parent_identity child_spec validated =
     res_bind (dumped pyd validated) (\<lambda>child_data.
     res_bind (child_rules child_data (cs_projection_decisions child_spec)) (\<lambda>references.
     res_bind (logical_identity pyd validated (cs_identity_fields child_spec)) (\<lambda>identity.
     res_bind (payload_data child_data) (\<lambda>data.
     Inr (\<lparr>lc_child_code = cs_child_code child_spec, lc_parent_record_code = parent_code,
           lc_parent_logical_identity = parent_identity, lc_logical_identity = identity, lc_data = data\<rparr>,
          references)))))"

definition children_payloads :: "pydantic \<Rightarrow> record_code \<Rightarrow> identity_pairs \<Rightarrow> (child_schema_spec \<times> source_record) list \<Rightarrow>
    codec_error + (logical_child_payload list \<times> record_reference list)" where
  "children_payloads pyd parent_code parent_identity children =
     res_bind (res_map (\<lambda>(child_spec, validated).
        child_payload pyd parent_code parent_identity child_spec validated) children) (\<lambda>built.
     res_bind (normalize_references True (exact_references (concat (map snd built)))) (\<lambda>references.
     Inr (map fst built, references)))"

text \<open>A family of records allows at most one family of children, so sorting the records sorts the pairs.\<close>

definition child_payloads :: "pydantic \<Rightarrow> schema_spec \<Rightarrow> source_record \<Rightarrow> identity_pairs \<Rightarrow> source_object list \<Rightarrow>
    codec_error + (logical_child_payload list \<times> record_reference list)" where
  "child_payloads pyd parent_spec parent parent_identity logical_children =
     res_bind (res_map (validated_child pyd parent_spec) logical_children) (\<lambda>validated_children.
     case ss_allowed_child_codes parent_spec of
       [] \<Rightarrow> (if validated_children \<noteq> [] then signal CHILD_MISMATCH else Inr ([], []))
     | child_code # _ \<Rightarrow>
         res_bind (children_in_order parent (map snd validated_children)) (\<lambda>ordered.
         children_payloads pyd (ss_record_code parent_spec) parent_identity
           (map (Pair (LOGICAL_CHILD_SPECS child_code)) ordered)))"

subsection \<open>The envelope\<close>

definition envelope_of :: "schema_spec \<Rightarrow> identity_pairs \<Rightarrow> pystr option \<Rightarrow> record_reference list \<Rightarrow> json_object \<Rightarrow>
    logical_child_payload list \<Rightarrow> persistence_envelope" where
  "envelope_of spec identity owner references data children =
     \<lparr>pe_record_code = ss_record_code spec, pe_record_schema_version = ss_record_schema_version spec,
      pe_logical_identity = identity, pe_direct_owner_customer_id = owner, pe_record_references = references,
      pe_payload = \<lparr>vp_record_code = ss_record_code spec, vp_record_schema_version = ss_record_schema_version spec,
                    vp_logical_children = children, vp_data = data\<rparr>\<rparr>"

definition build_envelope :: "pydantic \<Rightarrow> record_code \<Rightarrow> source_object \<Rightarrow> record_reference pyobj list \<Rightarrow>
    source_object list \<Rightarrow> codec_error + persistence_envelope" where
  "build_envelope pyd code r external_references logical_children = (case NON_RU_REGISTRY code of
      None \<Rightarrow> signal UNKNOWN_RECORD_SCHEMA_VERSION
    | Some spec \<Rightarrow>
        res_bind (strict_record pyd spec r) (\<lambda>validated.
        res_bind (logical_identity pyd validated (ss_identity_fields spec)) (\<lambda>identity.
        res_bind (top_level_projection False pyd spec validated) (\<lambda>(owner, source_references).
        res_bind (validate_external_references spec external_references) (\<lambda>external.
        res_bind (child_payloads pyd spec validated identity logical_children) (\<lambda>(children, child_references).
        res_bind (normalize_references False
          (exact_references (source_references @ external @ child_references))) (\<lambda>references.
        res_bind (dumped pyd validated) (\<lambda>dump.
        res_bind (payload_data dump) (\<lambda>data.
        Inr (envelope_of spec identity owner references data children))))))))))"

text \<open>
  What a caller of the codec sees: a bounded error with a correlation reference, or an exception
  that is not one of the codec's.
\<close>

datatype public_error = IntegrityError integrity_category uuid | PlainException string

definition public_result :: "uuid \<Rightarrow> codec_error + 'a \<Rightarrow> public_error + 'a" where
  "public_result correlation_ref m = (case m of
      Inl (Signal category) \<Rightarrow> Inl (IntegrityError category correlation_ref)
    | Inl (Uncaught e) \<Rightarrow> Inl (PlainException e)
    | Inr x \<Rightarrow> Inr x)"

text \<open>A code or version is \<open>None\<close> when the argument is not of its type; \<open>fresh\<close> is the value of \<open>uuid4()\<close>.\<close>

definition encode_persistence_record :: "pydantic \<Rightarrow> uuid \<Rightarrow> record_code option \<Rightarrow> source_object \<Rightarrow>
    record_reference pyobj list \<Rightarrow> source_object list \<Rightarrow> public_error + persistence_envelope" where
  "encode_persistence_record pyd fresh record_code r external_references logical_children =
     public_result fresh (case record_code of
        None \<Rightarrow> signal UNKNOWN_RECORD_CODE
      | Some code \<Rightarrow>
          if code = REQUEST_UNDERSTANDING_RECORD then signal UNKNOWN_RECORD_SCHEMA_VERSION
          else build_envelope pyd code r external_references logical_children)"

subsection \<open>The versioned entry point\<close>

definition versioned_pair_spec :: "record_code option \<Rightarrow> pystr option \<Rightarrow> codec_error + schema_spec" where
  "versioned_pair_spec record_code schema_version = (case record_code of
      None \<Rightarrow> signal UNKNOWN_RECORD_CODE
    | Some code \<Rightarrow> (case schema_version of
          None \<Rightarrow> signal UNKNOWN_RECORD_SCHEMA_VERSION
        | Some version \<Rightarrow> (case map_of RECORD_SCHEMA_VERSION_CATALOG (code, version) of
              Some selected \<Rightarrow> Inr selected
            | None \<Rightarrow>
                signal (if version \<in> set (map (snd \<circ> fst) RECORD_SCHEMA_VERSION_CATALOG)
                        then RECORD_SCHEMA_VERSION_MISMATCH else UNKNOWN_RECORD_SCHEMA_VERSION))))"

text \<open>
  \<open>_versioned_undeclared_model_state_keys\<close> of a stored record: only an observation nests models that
  the model keeps as objects of their own.
\<close>

definition undeclared_model_state :: "source_record \<Rightarrow> bool" where
  "undeclared_model_state r = (case r of
      ObservationSource observation \<Rightarrow> (case oo_normalized_value observation of
          Foreign \<Rightarrow> True
        | Obj summary extra \<Rightarrow> extra \<noteq> [] \<or> list_ex (\<lambda>line. \<not> is_exact_instance line) (os_line_items summary))
    | _ \<Rightarrow> False)"

text \<open>
  \<open>_versioned_runtime_values_match_exactly\<close> is equality of the record and its re-validated copy:
  fields of the declared types are equal as values of the model (timestamps of a validated record are
  in UTC, where equal instants are equal). A validated copy has all its fields with values of the declared
  types, so it never matches an instance that lacks some or holds others.
\<close>

definition strict_versioned_model ::
  "pydantic \<Rightarrow> source_object \<Rightarrow> model_class \<Rightarrow> integrity_category \<Rightarrow> codec_error + source_record" where
  "strict_versioned_model pyd v source_model failure_category =
     (if object_class v \<noteq> Some source_model then signal failure_category
      else if (case v of ModelObject r extra \<Rightarrow> extra \<noteq> [] \<or> undeclared_model_state r | _ \<Rightarrow> False) then signal failure_category
      else case revalidated_object pyd source_model v of
            None \<Rightarrow> signal failure_category
          | Some rebuilt \<Rightarrow>
              if \<not> (case v of ModelObject r _ \<Rightarrow> rebuilt = r | _ \<Rightarrow> False) then signal failure_category else Inr rebuilt)"

text \<open>The attribute \<open>schema_version\<close> of an instance, \<open>None\<close> when it has none.\<close>

definition mirror_version :: "source_object \<Rightarrow> json option" where
  "mirror_version x = (case x of
      NotAModel \<Rightarrow> None | ModelObject r _ \<Rightarrow> map_option JStr (schema_version_of r) | PartialObject p \<Rightarrow> po_version p)"

definition strict_request_understanding_v2 :: "pydantic \<Rightarrow> source_object \<Rightarrow> codec_error + ru_record" where
  "strict_request_understanding_v2 pyd v =
     (if object_class v \<noteq> Some RequestUnderstandingModel then signal SOURCE_MODEL_MISMATCH
      else case mirror_version v of
        None \<Rightarrow> signal PAYLOAD_VALIDATION_FAILED
      | Some version \<Rightarrow>
          res_bind (raise_if (version \<noteq> JStr (ss_record_schema_version REQUEST_UNDERSTANDING_V2_SPEC))
            (Signal RECORD_SCHEMA_VERSION_MISMATCH)) (\<lambda>_.
          res_bind (strict_versioned_model pyd v RequestUnderstandingModel PAYLOAD_VALIDATION_FAILED) (\<lambda>rebuilt.
          case rebuilt of RequestUnderstandingSource r \<Rightarrow> Inr r | _ \<Rightarrow> Inl (Uncaught ''AttributeError''))))"

definition mirror_field_checks :: "schema_spec \<Rightarrow> source_object \<Rightarrow> codec_error + unit" where
  "mirror_field_checks spec v =
     (if ss_version_mirror_field spec = None then Inr ()
      else case mirror_version v of
        None \<Rightarrow> signal PAYLOAD_VALIDATION_FAILED
      | Some version \<Rightarrow>
          raise_if (version \<noteq> JStr (ss_record_schema_version spec)) (Signal RECORD_SCHEMA_VERSION_MISMATCH))"

definition strict_selected_versioned_record ::
  "pydantic \<Rightarrow> schema_spec \<Rightarrow> source_object \<Rightarrow> codec_error + source_record" where
  "strict_selected_versioned_record pyd spec v =
     (if object_class v \<noteq> Some (ss_source_model spec) then signal SOURCE_MODEL_MISMATCH
      else res_bind (mirror_field_checks spec v) (\<lambda>_.
        case specialized_version_matches spec v of
          None \<Rightarrow> signal PAYLOAD_VALIDATION_FAILED
        | Some matches \<Rightarrow>
            res_bind (raise_if (\<not> matches) (Signal SPECIALIZED_VERSION_MISMATCH)) (\<lambda>_.
            strict_versioned_model pyd v (ss_source_model spec) PAYLOAD_VALIDATION_FAILED)))"

definition strict_selected_versioned_child ::
  "pydantic \<Rightarrow> schema_spec \<Rightarrow> source_object \<Rightarrow> codec_error + source_record" where
  "strict_selected_versioned_child pyd spec child = (case child_code_of (ss_allowed_child_codes spec) child of
      None \<Rightarrow> signal CHILD_MISMATCH
    | Some code \<Rightarrow> strict_versioned_model pyd child (cs_source_model (LOGICAL_CHILD_SPECS code)) CHILD_MISMATCH)"

subsection \<open>The children of a Request Understanding record\<close>

text \<open>The versions of the children of one Task, in the order of the candidates, form a chain.\<close>

fun child_version_chain :: "ru_record \<Rightarrow> (uuid \<times> accepted_task_delta) list \<Rightarrow> (uuid \<times> int) list \<Rightarrow>
    durable_task_delta_candidate list \<Rightarrow> codec_error + unit" where
  "child_version_chain parent child_by_candidate previous [] = Inr ()"
| "child_version_chain parent child_by_candidate previous (candidate # candidates) =
     (case map_of child_by_candidate (dtd_candidate_id candidate) of
        None \<Rightarrow> child_version_chain parent child_by_candidate previous candidates
      | Some child \<Rightarrow>
          res_bind (raise_if (ad_operation child \<noteq> dtd_operation candidate \<or> ad_goal_text child \<noteq> dtd_goal_patch candidate
              \<or> ad_message_ref child \<noteq> rc_message_ref parent \<or> instant (ad_accepted_at child) \<noteq> instant (rc_created_at parent))
            (Signal CHILD_MISMATCH)) (\<lambda>_.
          res_bind (raise_if (case map_of previous (ad_task_id child) of
                None \<Rightarrow> (case ad_base_task_state_version child of
                    None \<Rightarrow> False | Some base \<Rightarrow> ad_result_task_state_version child \<noteq> base + 1)
              | Some result \<Rightarrow> ad_base_task_state_version child \<noteq> Some result
                  \<or> ad_result_task_state_version child \<noteq> result + 1) (Signal CHILD_MISMATCH)) (\<lambda>_.
          child_version_chain parent child_by_candidate
            (dict_set previous (ad_task_id child) (ad_result_task_state_version child)) candidates)))"

definition request_understanding_children :: "ru_record \<Rightarrow> accepted_task_delta list \<Rightarrow> codec_error + unit" where
  "request_understanding_children parent children =
     (let candidate_order = map dtd_candidate_id (rc_task_delta_candidates parent);
          decisions_by_id = dict_by cv_candidate_ref (rc_candidate_validation parent);
          accepted_candidate_ids = map fst (filter (\<lambda>(_, d). cv_decision d = DECISION_ACCEPT) decisions_by_id);
          child_candidate_ids = map ad_candidate_ref children;
          child_ids = map ad_accepted_delta_id children
      in res_bind (raise_if (has_duplicates candidate_order) (Signal CHILD_MISMATCH)) (\<lambda>_.
         res_bind (raise_if (length decisions_by_id \<noteq> length (rc_candidate_validation parent)
             \<or> fst ` set decisions_by_id \<noteq> set candidate_order) (Signal CHILD_MISMATCH)) (\<lambda>_.
         res_bind (raise_if (has_duplicates child_candidate_ids
             \<or> set child_candidate_ids \<noteq> set accepted_candidate_ids
             \<or> set child_candidate_ids \<inter> (set candidate_order - set accepted_candidate_ids) \<noteq> {}
             \<or> has_duplicates child_ids
             \<or> has_duplicates (map (\<lambda>c. (ad_accepted_delta_id c, ad_task_id c)) children)
             \<or> has_duplicates (rc_accepted_delta_refs parent)
             \<or> set (rc_accepted_delta_refs parent) \<noteq> set child_ids) (Signal CHILD_MISMATCH)) (\<lambda>_.
         child_version_chain parent (dict_by ad_candidate_ref children) [] (rc_task_delta_candidates parent)))))"

definition request_understanding_child :: "pydantic \<Rightarrow> source_object \<Rightarrow> codec_error + accepted_task_delta" where
  "request_understanding_child pyd child =
     res_bind (strict_versioned_model pyd child AcceptedDeltaModel CHILD_MISMATCH) (\<lambda>rebuilt.
     case rebuilt of AcceptedDeltaSource d \<Rightarrow> Inr d | _ \<Rightarrow> Inl (Uncaught ''AttributeError''))"

definition request_understanding_child_payloads :: "pydantic \<Rightarrow> ru_record \<Rightarrow> identity_pairs \<Rightarrow> source_object list \<Rightarrow>
    codec_error + (logical_child_payload list \<times> record_reference list)" where
  "request_understanding_child_payloads pyd parent parent_identity logical_children =
     res_bind (res_map (request_understanding_child pyd) logical_children) (\<lambda>children.
     res_bind (request_understanding_children parent children) (\<lambda>_.
     children_payloads pyd REQUEST_UNDERSTANDING_RECORD parent_identity
       (map (\<lambda>d. (LOGICAL_CHILD_SPECS CHILD_ACCEPTED_TASK_DELTA, AcceptedDeltaSource d))
         (sort_key (\<lambda>d. uuid_text (ad_accepted_delta_id d)) children))))"

definition build_request_understanding_v2_envelope :: "pydantic \<Rightarrow> source_object \<Rightarrow> record_reference pyobj list \<Rightarrow>
    source_object list \<Rightarrow> codec_error + persistence_envelope" where
  "build_request_understanding_v2_envelope pyd r external_references logical_children =
     (let spec = REQUEST_UNDERSTANDING_V2_SPEC
      in res_bind (strict_request_understanding_v2 pyd r) (\<lambda>validated.
         let source = RequestUnderstandingSource validated
         in res_bind (logical_identity pyd source (ss_identity_fields spec)) (\<lambda>identity.
            res_bind (top_level_projection True pyd spec source) (\<lambda>(owner, source_references).
            res_bind (validate_external_references spec external_references) (\<lambda>external.
            res_bind (request_understanding_child_payloads pyd validated identity logical_children)
              (\<lambda>(children, child_references).
            res_bind (normalize_references True
              (exact_references (source_references @ external @ child_references))) (\<lambda>references.
            res_bind (dumped pyd source) (\<lambda>dump.
            res_bind (payload_data dump) (\<lambda>data.
            Inr (envelope_of spec identity owner references data children))))))))))"

definition encode_persistence_record_versioned :: "pydantic \<Rightarrow> uuid \<Rightarrow> record_code option \<Rightarrow> pystr option \<Rightarrow>
    source_object \<Rightarrow> record_reference pyobj list \<Rightarrow> source_object list \<Rightarrow> public_error + persistence_envelope" where
  "encode_persistence_record_versioned pyd fresh record_code schema_version r external_references logical_children =
     public_result fresh (
       res_bind (versioned_pair_spec record_code schema_version) (\<lambda>selected.
       res_bind (raise_if (list_ex (\<lambda>reference. \<not> is_exact_instance reference) external_references)
         (Signal LINK_PROJECTION_MISMATCH)) (\<lambda>_.
       if ss_record_code selected = REQUEST_UNDERSTANDING_RECORD
       then build_request_understanding_v2_envelope pyd r external_references logical_children
       else
         res_bind (strict_selected_versioned_record pyd selected r) (\<lambda>validated.
         res_bind (res_map (strict_selected_versioned_child pyd selected) logical_children) (\<lambda>children.
         build_envelope pyd (ss_record_code selected) (ModelObject validated []) external_references
           (map (\<lambda>c. ModelObject c []) children))))))"

end
