(* ===== verification/Native_Graph.thy ===== *)
theory Native_Graph
  imports Json_Store
begin

section \<open>Checking an object graph for native JSON (application/persistence.py, lines 1513--1564)\<close>

text \<open>
  \<open>_is_native_json_value\<close> walks the object graph of a value with an explicit stack. A container is
  pushed twice: to be entered, and, below its items, to be left again. The ids of the containers
  that were entered and not yet left are the active ones: meeting one again is a cycle. The ids of
  those that were left are complete and not entered a second time, so sharing is allowed.

  The walk is compared with the inductive predicate \<open>native_graph\<close>, which only holds for values
  whose containers are well-founded.
\<close>

subsection \<open>Objects\<close>

text \<open>
  A scalar is \<open>None\<close> or of exactly the type \<open>str\<close>, \<open>bool\<close>, \<open>int\<close> or \<open>float\<close>; everything else is an
  object of the store. Its entries are what \<open>items()\<close> or the iteration yields: a key of a mapping is
  \<open>None\<close> when it is not exactly a \<open>str\<close>, an item of a sequence has no key.
\<close>

datatype container_kind =
    NativeDict | NativeList | FrozenDict | FrozenList | OtherMapping | OtherObject

datatype gval = GNull | GBool bool | GInt int | GFloat pyfloat | GStr pystr | GRef nat

record gobject =
  go_kind :: container_kind
  go_entries :: "(pystr option \<times> gval) list"

definition go_keys :: "gobject \<Rightarrow> pystr option list" where
  "go_keys ob = map fst (go_entries ob)"

definition go_items :: "gobject \<Rightarrow> gval list" where
  "go_items ob = map snd (go_entries ob)"

type_synonym gstore = "gobject list"

fun is_native_json_scalar :: "gval \<Rightarrow> bool" where
  "is_native_json_scalar (GFloat f) = isfinite f"
| "is_native_json_scalar (GRef a) = False"
| "is_native_json_scalar v = True"

definition is_mapping :: "gobject \<Rightarrow> bool" where
  "is_mapping ob \<longleftrightarrow> go_kind ob \<in> {NativeDict, FrozenDict, OtherMapping}"

definition admitted_kind :: "bool \<Rightarrow> gobject \<Rightarrow> bool" where
  "admitted_kind frozen_containers ob =
     (if is_mapping ob then \<not> frozen_containers \<or> go_kind ob = FrozenDict
      else go_kind ob = (if frozen_containers then FrozenList else NativeList))"

definition keys_are_text :: "gobject \<Rightarrow> bool" where
  "keys_are_text ob \<longleftrightarrow> \<not> (is_mapping ob
     \<and> (list_ex (\<lambda>k. k = None) (go_keys ob) \<or> has_duplicates (go_keys ob)))"

subsection \<open>The walk\<close>

lemma unvisited_shrinks:
  "a < length h \<Longrightarrow> a \<notin> set visited \<Longrightarrow>
   card ({..<length (h :: gstore)} - insert a (set visited)) < card ({..<length h} - set visited)"
  by (intro psubset_card_mono) auto

lemma unvisited_antimono:
  "set visited \<subseteq> set visited' \<Longrightarrow>
   card ({..<length (h :: gstore)} - set visited') \<le> card ({..<length h} - set visited)"
  by (intro card_mono) auto

text \<open>The stack is a list with its top first: \<open>pending.extend\<close> leaves the last item on top.\<close>

function native_walk :: "bool \<Rightarrow> gstore \<Rightarrow> (gval \<times> bool) list \<Rightarrow> nat list \<Rightarrow> nat list \<Rightarrow> bool" where
  "native_walk frozen h [] active completed = True"
| "native_walk frozen h ((current, exiting) # pending) active completed =
     (if is_native_json_scalar current then native_walk frozen h pending active completed
      else case current of
        GRef a \<Rightarrow>
          if length h \<le> a then False
          else if \<not> admitted_kind frozen (h ! a) then False
          else if exiting then native_walk frozen h pending (filter (\<lambda>b. b \<noteq> a) active) (a # completed)
          else if a \<in> set active then False
          else if a \<in> set completed then native_walk frozen h pending active completed
          else if \<not> keys_are_text (h ! a) then False
          else native_walk frozen h
            (rev (map (\<lambda>v. (v, False)) (go_items (h ! a))) @ (current, True) # pending) (a # active) completed
      | _ \<Rightarrow> False)"
  by pat_completeness auto
termination
proof (relation "measures [\<lambda>(_, h, _, active, completed). card ({..<length h} - set (active @ completed)),
    \<lambda>(_, _, pending, _, _). length pending]", simp, simp, goal_cases)
  case (1 frozen h current exiting pending active completed a)
  from unvisited_antimono[of "active @ completed" "filter (\<lambda>b. b \<noteq> a) active @ a # completed" h]
  show ?case by (auto simp: le_less)
next
  case (2 frozen h current exiting pending active completed a)
  then show ?case by simp
next
  case (3 frozen h current exiting pending active completed a)
  with unvisited_shrinks[of a h "active @ completed"] show ?case by simp
qed

definition is_native_json_value :: "bool \<Rightarrow> gstore \<Rightarrow> gval \<Rightarrow> bool" where
  "is_native_json_value frozen_containers h v = native_walk frozen_containers h [(v, False)] [] []"

subsection \<open>Well-founded native graphs\<close>

inductive native_graph :: "bool \<Rightarrow> gstore \<Rightarrow> gval \<Rightarrow> bool" for frozen h where
  native_scalar: "is_native_json_scalar v \<Longrightarrow> native_graph frozen h v"
| native_container: "a < length h \<Longrightarrow> admitted_kind frozen (h ! a) \<Longrightarrow> keys_are_text (h ! a) \<Longrightarrow>
     (\<And>x. x \<in> set (go_items (h ! a)) \<Longrightarrow> native_graph frozen h x) \<Longrightarrow> native_graph frozen h (GRef a)"

inductive_cases native_graph_refE: "native_graph frozen h (GRef a)"

definition contained :: "gstore \<Rightarrow> (nat \<times> nat) set" where
  "contained h = {(a, b). a < length h \<and> GRef b \<in> set (go_items (h ! a))}"

lemma native_items: "native_graph frozen h (GRef a) \<Longrightarrow> x \<in> set (go_items (h ! a)) \<Longrightarrow> native_graph frozen h x"
  by (auto elim: native_graph_refE)

lemma native_not_cyclic: "native_graph frozen h v \<Longrightarrow> v = GRef a \<Longrightarrow> (a, a) \<notin> (contained h)\<^sup>+"
proof (induction arbitrary: a rule: native_graph.induct)
  case (native_container b)
  show ?case
  proof
    assume "(a, a) \<in> (contained h)\<^sup>+"
    then obtain c where c: "(a, c) \<in> contained h" "(c, a) \<in> (contained h)\<^sup>*" by (meson tranclD)
    then have "(c, c) \<in> (contained h)\<^sup>+" by (meson rtrancl_into_trancl1)
    with c(1) native_container show False by (auto simp: contained_def)
  qed
qed simp

subsection \<open>What the walk keeps\<close>

text \<open>
  \<open>markers\<close>: the containers to be left, top first. \<open>above\<close>: the entries that lie on the marker of a
  container, which is where its items are until they have been dealt with.
\<close>

fun markers :: "(gval \<times> bool) list \<Rightarrow> nat list" where
  "markers [] = []"
| "markers ((GRef a, True) # pending) = a # markers pending"
| "markers (entry # pending) = markers pending"

fun above :: "nat \<Rightarrow> (gval \<times> bool) list \<Rightarrow> gval set" where
  "above a [] = {}"
| "above a ((v, exiting) # pending) = (if v = GRef a \<and> exiting then {} else insert v (above a pending))"

definition dealt_with :: "nat list \<Rightarrow> gval set \<Rightarrow> gval \<Rightarrow> bool" where
  "dealt_with completed waiting v \<longleftrightarrow>
     is_native_json_scalar v \<or> v \<in> waiting \<or> (\<exists>a\<in>set completed. v = GRef a)"

lemma markers_append: "markers (xs @ ys) = markers xs @ markers ys"
  by (induction xs rule: markers.induct) auto

lemma markers_entering: "list_all (\<lambda>(_, exiting). \<not> exiting) xs \<Longrightarrow> markers xs = []"
  by (induction xs rule: markers.induct) auto

lemma above_append: "a \<notin> set (markers xs) \<Longrightarrow> above a (xs @ ys) = fst ` set xs \<union> above a ys"
  by (induction xs rule: markers.induct) auto

lemma markers_of_items [simp]: "markers (rev (map (\<lambda>v. (v, False)) vs)) = []"
  by (rule markers_entering) (auto simp: list_all_iff)

lemma above_items:
  "above b (rev (map (\<lambda>v. (v, False)) vs) @ pending) = set vs \<union> above b pending"
  using above_append[of b "rev (map (\<lambda>v. (v, False)) vs)" pending] by (simp add: image_image)

lemma dealt_with_mono:
  "dealt_with completed waiting v \<Longrightarrow>
   (\<And>x. x \<in> waiting \<Longrightarrow> dealt_with completed' waiting' x) \<Longrightarrow> set completed \<subseteq> set completed' \<Longrightarrow>
   dealt_with completed' waiting' v"
  by (auto simp: dealt_with_def)

text \<open>What makes the answer \<open>True\<close> right.\<close>

definition walk_sound :: "bool \<Rightarrow> gstore \<Rightarrow> gval \<Rightarrow> (gval \<times> bool) list \<Rightarrow> nat list \<Rightarrow> nat list \<Rightarrow> bool" where
  "walk_sound frozen h root pending active completed \<longleftrightarrow>
     markers pending = active \<and> distinct active
     \<and> (\<forall>a\<in>set completed. native_graph frozen h (GRef a))
     \<and> (\<forall>a\<in>set active. a < length h \<and> admitted_kind frozen (h ! a) \<and> keys_are_text (h ! a)
          \<and> (\<forall>x\<in>set (go_items (h ! a)). dealt_with completed (above a pending) x))
     \<and> dealt_with completed (fst ` set pending) root"

lemma above_marker: "a \<in> set (markers pending) \<Longrightarrow> above a ((v, False) # pending) = insert v (above a pending)"
  by simp

lemma not_marker: "is_native_json_scalar v \<or> \<not> exiting \<Longrightarrow> markers ((v, exiting) # pending) = markers pending"
  by (cases v; cases exiting) auto

lemma not_marker_above:
  "is_native_json_scalar v \<or> \<not> exiting \<Longrightarrow> above a ((v, exiting) # pending) = insert v (above a pending)"
  by (cases v) auto

lemma sound_skip:
  assumes "walk_sound frozen h root ((v, exiting) # pending) active completed"
    and v: "is_native_json_scalar v \<or> \<not> exiting \<and> (\<exists>a\<in>set completed. v = GRef a)"
  shows "walk_sound frozen h root pending active completed"
proof -
  have marker: "is_native_json_scalar v \<or> \<not> exiting" using v by blast
  have waiting: "dealt_with completed W x" if "x \<in> insert v W" for x W
    using that v by (auto simp: dealt_with_def)
  have drop: "dealt_with completed W x" if "dealt_with completed (insert v W) x" for x W
    using that waiting by (rule dealt_with_mono) simp_all
  show ?thesis
    using assms(1) drop
    unfolding walk_sound_def not_marker[OF marker] not_marker_above[OF marker] by auto
qed

lemma sound_exit:
  assumes "walk_sound frozen h root ((GRef a, True) # pending) active completed"
  shows "walk_sound frozen h root pending (filter (\<lambda>b. b \<noteq> a) active) (a # completed)"
proof -
  have active: "active = a # markers pending" "distinct active"
    and finished: "\<forall>b\<in>set completed. native_graph frozen h (GRef b)"
    and items: "\<forall>b\<in>set active. b < length h \<and> admitted_kind frozen (h ! b) \<and> keys_are_text (h ! b)
          \<and> (\<forall>x\<in>set (go_items (h ! b)). dealt_with completed (above b ((GRef a, True) # pending)) x)"
    and root: "dealt_with completed (fst ` set ((GRef a, True) # pending)) root"
    using assms unfolding walk_sound_def by auto
  have left: "filter (\<lambda>b. b \<noteq> a) active = markers pending" "a \<notin> set (markers pending)"
    using active by (auto simp: filter_id_conv)
  have "native_graph frozen h (GRef a)"
  proof (rule native_container)
    fix x assume "x \<in> set (go_items (h ! a))"
    with items active(1) have "dealt_with completed {} x" by simp
    with finished show "native_graph frozen h x" by (auto simp: dealt_with_def intro: native_scalar)
  qed (use items active(1) in auto)
  moreover have "dealt_with (a # completed) (above b pending) x"
    if b: "b \<in> set (markers pending)" and x: "x \<in> set (go_items (h ! b))" for b x
  proof -
    from b left(2) have "a \<noteq> b" by auto
    with b x items active(1) have "dealt_with completed (insert (GRef a) (above b pending)) x" by auto
    then show ?thesis by (rule dealt_with_mono) (auto simp: dealt_with_def)
  qed
  moreover have "dealt_with (a # completed) (fst ` set pending) root"
    using root by (rule dealt_with_mono) (auto simp: dealt_with_def)
  ultimately show ?thesis
    using active finished items unfolding walk_sound_def left(1) by auto
qed

lemma sound_enter:
  assumes inv: "walk_sound frozen h root ((GRef a, False) # pending) active completed"
    and a: "a < length h" "admitted_kind frozen (h ! a)" "keys_are_text (h ! a)" "a \<notin> set active"
  shows "walk_sound frozen h root
    (rev (map (\<lambda>v. (v, False)) (go_items (h ! a))) @ (GRef a, True) # pending) (a # active) completed"
    (is "walk_sound _ _ _ ?pending _ _")
proof -
  have active: "active = markers pending" "distinct active"
    and items: "\<And>b x. b \<in> set active \<Longrightarrow> x \<in> set (go_items (h ! b)) \<Longrightarrow>
        dealt_with completed (insert (GRef a) (above b pending)) x"
    and root: "dealt_with completed (insert (GRef a) (fst ` set pending)) root"
    using inv unfolding walk_sound_def by auto
  have "dealt_with completed (above b ?pending) x"
    if b: "b \<in> set (a # active)" and x: "x \<in> set (go_items (h ! b))" for b x
  proof (cases "b = a")
    case True
    with x show ?thesis by (simp add: above_items dealt_with_def)
  next
    case False
    with b x items have "dealt_with completed (insert (GRef a) (above b pending)) x" by simp
    then show ?thesis by (rule dealt_with_mono) (use False in \<open>auto simp: above_items dealt_with_def\<close>)
  qed
  moreover have "dealt_with completed (fst ` set ?pending) root"
    using root by (rule dealt_with_mono) (auto simp: dealt_with_def)
  ultimately show ?thesis
    using inv a active unfolding walk_sound_def by (auto simp: markers_append)
qed

lemma walk_sound_True:
  "native_walk frozen h pending active completed \<Longrightarrow> walk_sound frozen h root pending active completed \<Longrightarrow>
   native_graph frozen h root"
proof (induction frozen h pending active completed rule: native_walk.induct)
  case (1 frozen h active completed)
  then show ?case by (auto simp: walk_sound_def dealt_with_def intro: native_scalar)
next
  case (2 frozen h current exiting pending active completed)
  show ?case
  proof (cases "is_native_json_scalar current")
    case True
    with "2.prems"(1) have "native_walk frozen h pending active completed" by simp
    moreover have "walk_sound frozen h root pending active completed"
      by (rule sound_skip[OF "2.prems"(2)]) (use True in simp)
    ultimately show ?thesis using "2.IH"(1)[OF True] by blast
  next
    case False
    with "2.prems"(1) obtain a where a: "current = GRef a" "a < length h" "admitted_kind frozen (h ! a)"
      by (cases current) (auto split: if_splits)
    note walk = "2.prems"(1)[simplified a(1)] and inv = "2.prems"(2)[unfolded a(1)]
    consider (exit) exiting | (skip) "\<not> exiting" "a \<in> set completed" "a \<notin> set active"
      | (enter) "\<not> exiting" "a \<notin> set completed" "a \<notin> set active" "keys_are_text (h ! a)"
      using walk a(2,3) by (auto split: if_splits)
    then show ?thesis
    proof cases
      case exit
      with "2.IH"(2)[OF False a(1)] a walk inv sound_exit show ?thesis by auto
    next
      case skip
      with "2.IH"(3)[OF False a(1)] a walk inv sound_skip show ?thesis by auto
    next
      case enter
      with "2.IH"(4)[OF False a(1)] a walk inv sound_enter show ?thesis by auto
    qed
  qed
qed

text \<open>What makes the walk answer \<open>True\<close>: whatever lies on the marker of a container is inside it.\<close>

definition walk_live :: "bool \<Rightarrow> gstore \<Rightarrow> (gval \<times> bool) list \<Rightarrow> nat list \<Rightarrow> bool" where
  "walk_live frozen h pending active \<longleftrightarrow>
     markers pending = active \<and> distinct active
     \<and> (\<forall>v\<in>fst ` set pending. native_graph frozen h v)
     \<and> (\<forall>a\<in>set active. \<forall>b. GRef b \<in> above a pending \<longrightarrow> (a, b) \<in> (contained h)\<^sup>+)"

lemma live_skip:
  assumes "walk_live frozen h ((v, exiting) # pending) active" "is_native_json_scalar v \<or> \<not> exiting"
  shows "walk_live frozen h pending active"
  using assms(1) unfolding walk_live_def not_marker[OF assms(2)] not_marker_above[OF assms(2)] by auto

lemma live_exit:
  assumes "walk_live frozen h ((GRef a, True) # pending) active"
  shows "walk_live frozen h pending (filter (\<lambda>b. b \<noteq> a) active)"
proof -
  have active: "active = a # markers pending" "distinct active" using assms unfolding walk_live_def by auto
  then have "filter (\<lambda>b. b \<noteq> a) active = markers pending" by (auto simp: filter_id_conv)
  moreover have "GRef b \<in> above c ((GRef a, True) # pending)"
    if "c \<in> set (markers pending)" "GRef b \<in> above c pending" for b c
    using that active by auto
  ultimately show ?thesis using assms active unfolding walk_live_def by auto
qed

lemma live_enter:
  assumes live: "walk_live frozen h ((GRef a, False) # pending) active" and a: "a < length h" "a \<notin> set active"
  shows "walk_live frozen h (rev (map (\<lambda>v. (v, False)) (go_items (h ! a))) @ (GRef a, True) # pending) (a # active)"
    (is "walk_live _ _ ?pending _")
proof -
  have active: "active = markers pending" "distinct active"
    and native: "native_graph frozen h (GRef a)" "\<forall>v\<in>fst ` set pending. native_graph frozen h v"
    and inside: "\<And>c b. c \<in> set active \<Longrightarrow> GRef b \<in> insert (GRef a) (above c pending) \<Longrightarrow> (c, b) \<in> (contained h)\<^sup>+"
    using live unfolding walk_live_def by auto
  have item: "(a, b) \<in> contained h" if "GRef b \<in> set (go_items (h ! a))" for b
    using that a(1) by (simp add: contained_def)
  have "(c, b) \<in> (contained h)\<^sup>+" if c: "c \<in> set (a # active)" and b: "GRef b \<in> above c ?pending" for b c
  proof (cases "c = a")
    case True
    with b item show ?thesis by (auto simp: above_items)
  next
    case False
    with c have "(c, a) \<in> (contained h)\<^sup>+" using inside[of c a] by simp
    then have "GRef b \<in> set (go_items (h ! a)) \<Longrightarrow> ?thesis" using item by (meson trancl_into_trancl)
    with False b c inside[of c b] show ?thesis by (auto simp: above_items)
  qed
  then show ?thesis
    using active a native native_items unfolding walk_live_def by (auto simp: markers_append)
qed

lemma live_walk: "walk_live frozen h pending active \<Longrightarrow> native_walk frozen h pending active completed"
proof (induction frozen h pending active completed rule: native_walk.induct)
  case (2 frozen h current exiting pending active completed)
  show ?case
  proof (cases "is_native_json_scalar current")
    case True
    then have "walk_live frozen h pending active" by (intro live_skip[OF "2.prems"]) simp
    with True "2.IH"(1) show ?thesis by simp
  next
    case False
    have native: "native_graph frozen h current" using "2.prems" by (simp add: walk_live_def)
    with False obtain a where a: "current = GRef a" "a < length h" "admitted_kind frozen (h ! a)"
      "keys_are_text (h ! a)" by (auto elim: native_graph.cases)
    note live = "2.prems"[unfolded a(1)]
    show ?thesis
    proof (cases exiting)
      case True
      with "2.IH"(2)[OF False a(1)] a live live_exit show ?thesis by auto
    next
      case entering: False
      have "a \<notin> set active"
      proof
        assume "a \<in> set active"
        with live entering have "(a, a) \<in> (contained h)\<^sup>+" unfolding walk_live_def by auto
        with native_not_cyclic[OF native a(1)] show False by blast
      qed
      with "2.IH"(3,4)[OF False a(1)] entering a live live_skip[of frozen h "GRef a" False] live_enter
      show ?thesis by auto
    qed
  qed
qed simp

theorem native_value_iff: "is_native_json_value frozen h v \<longleftrightarrow> native_graph frozen h v"
proof
  assume "is_native_json_value frozen h v"
  then show "native_graph frozen h v" unfolding is_native_json_value_def
    by (rule walk_sound_True) (cases v, simp_all add: walk_sound_def dealt_with_def)
next
  assume "native_graph frozen h v"
  then have "walk_live frozen h [(v, False)] []" by (cases v) (simp_all add: walk_live_def)
  then show "is_native_json_value frozen h v" unfolding is_native_json_value_def by (rule live_walk)
qed

subsection \<open>The values it stands for\<close>

text \<open>
  The specification: the tree of a graph is its unfolding in the sense of \<open>Json_Store\<close>.
\<close>

fun plain_value :: "gval \<Rightarrow> hval" where
  "plain_value GNull = HNull"
| "plain_value (GBool b) = HBool b"
| "plain_value (GInt i) = HInt i"
| "plain_value (GFloat f) = HFloat f"
| "plain_value (GStr s) = HStr s"
| "plain_value (GRef a) = HRef a"

definition key_text :: "pystr option \<Rightarrow> pystr" where
  "key_text k = (case k of Some s \<Rightarrow> s | None \<Rightarrow> [])"

definition plain_object :: "gobject \<Rightarrow> hobj" where
  "plain_object ob =
     (if is_mapping ob then HMapping (map (\<lambda>(k, v). (key_text k, plain_value v)) (go_entries ob))
      else HSequence (map plain_value (go_items ob)))"

definition graph_tree :: "gstore \<Rightarrow> gval \<Rightarrow> json \<Rightarrow> bool" where
  "graph_tree h v t \<longleftrightarrow> unfolds (map plain_object h) (plain_value v) t"

subsection \<open>Its JSON text\<close>

text \<open>
  \<open>json.dumps(thaw_json_value(v))\<close>: thawing copies the graph container by container. It fails on a cycle
  and on a non-finite number, which the walk above has excluded, and, being recursive, when the nesting of
  the graph exceeds the calls the interpreter still allows: \<open>room\<close> is their number, and the encoder of
  \<open>json.dumps\<close>, which descends into containers only, is granted the same.
\<close>

definition recursion_msg :: string where
  "recursion_msg = ''RecursionError''"

fun thaw_value :: "nat \<Rightarrow> gstore \<Rightarrow> nat list \<Rightarrow> gval \<Rightarrow> string + json" where
  "thaw_value 0 h active v = Inl recursion_msg"
| "thaw_value (Suc room) h active (GFloat f) = (if \<not> isfinite f then Inl non_finite_msg else Inr (JFloat f))"
| "thaw_value (Suc room) h active (GRef a) =
     (if length h \<le> a then Inl dangling_msg
      else if a \<in> set active then Inl cyclic_msg
      else (case res_map (thaw_value room h (a # active)) (go_items (h ! a)) of
          Inl e \<Rightarrow> Inl e
        | Inr ts \<Rightarrow> Inr (if is_mapping (h ! a) then JDict (zip (map key_text (go_keys (h ! a))) ts) else JList ts)))"
| "thaw_value (Suc room) h active GNull = Inr JNull"
| "thaw_value (Suc room) h active (GBool b) = Inr (JBool b)"
| "thaw_value (Suc room) h active (GInt i) = Inr (JInt i)"
| "thaw_value (Suc room) h active (GStr s) = Inr (JStr s)"

definition thaw_graph :: "nat \<Rightarrow> gstore \<Rightarrow> gval \<Rightarrow> string + json" where
  "thaw_graph room h v = thaw_value room h [] v"

text \<open>The nesting of a tree, its scalars included.\<close>

fun json_depth :: "json \<Rightarrow> nat"
  and json_depth_list :: "json list \<Rightarrow> nat"
  and json_depth_items :: "(pystr \<times> json) list \<Rightarrow> nat"
where
  "json_depth (JList xs) = Suc (json_depth_list xs)"
| "json_depth (JDict kvs) = Suc (json_depth_items kvs)"
| "json_depth v = 1"
| "json_depth_list [] = 0"
| "json_depth_list (x # xs) = max (json_depth x) (json_depth_list xs)"
| "json_depth_items [] = 0"
| "json_depth_items ((k, x) # xs) = max (json_depth x) (json_depth_items xs)"

lemma depth_list_le: "json_depth_list ts \<le> n \<longleftrightarrow> (\<forall>t\<in>set ts. json_depth t \<le> n)"
  by (induction ts) auto

lemma depth_items_le: "json_depth_items kvs \<le> n \<longleftrightarrow> (\<forall>t\<in>snd ` set kvs. json_depth t \<le> n)"
  by (induction kvs) auto

lemma depth_dict_le:
  "length ks = length ts \<Longrightarrow> json_depth_items (zip ks ts) \<le> n \<longleftrightarrow> (\<forall>t\<in>set ts. json_depth t \<le> n)"
  unfolding depth_items_le set_map[symmetric] by simp

lemma depth_pos: "0 < json_depth t"
  by (cases t) auto

lemma res_map_limited:
  "list_all2 (\<lambda>x t. f x = (if P t then Inr t else Inl e)) xs ts \<Longrightarrow>
   res_map f xs = (if \<forall>t\<in>set ts. P t then Inr ts else Inl e)"
  by (induction rule: list_all2_induct) auto

lemma tree_container:
  assumes "graph_tree h (GRef a) t" "a < length h"
  obtains ts where "list_all2 (graph_tree h) (go_items (h ! a)) ts"
    "t = (if is_mapping (h ! a) then JDict (zip (map key_text (go_keys (h ! a))) ts) else JList ts)"
proof -
  have keys: "map fst (map (\<lambda>(k, v). (key_text k, plain_value v)) (go_entries ob)) = map key_text (go_keys ob)"
    and items: "map snd (map (\<lambda>(k, v). (key_text k, plain_value v)) (go_entries ob)) = map plain_value (go_items ob)" for ob
    by (auto simp: go_keys_def go_items_def)
  from assms(1) have "unfolds (map plain_object h) (HRef a) t" by (simp add: graph_tree_def)
  then show ?thesis
  proof (rule unfolds_refE)
    fix kvs ts assume m: "t = JDict (zip (map fst kvs) ts)" "map plain_object h ! a = HMapping kvs"
      "list_all2 (unfolds (map plain_object h)) (map snd kvs) ts"
    then have "is_mapping (h ! a)" "kvs = map (\<lambda>(k, v). (key_text k, plain_value v)) (go_entries (h ! a))"
      using assms(2) by (auto simp: plain_object_def split: if_splits)
    then have kv: "map fst kvs = map key_text (go_keys (h ! a))" "map snd kvs = map plain_value (go_items (h ! a))"
      by (simp_all only: keys items)
    have "list_all2 (graph_tree h) (go_items (h ! a)) ts"
      using m(3) unfolding kv by (simp add: list_all2_map1 graph_tree_def[abs_def])
    then show ?thesis using that[of ts] m(1) \<open>is_mapping (h ! a)\<close> unfolding kv by simp
  next
    fix xs ts assume m: "t = JList ts" "map plain_object h ! a = HSequence xs"
      "list_all2 (unfolds (map plain_object h)) xs ts"
    then have "\<not> is_mapping (h ! a)" "xs = map plain_value (go_items (h ! a))"
      using assms(2) by (auto simp: plain_object_def split: if_splits)
    with m show ?thesis using that[of ts] by (simp add: list_all2_map1 graph_tree_def[abs_def])
  qed
qed

text \<open>No active container is met again: the value lies inside all of them, and on no cycle.\<close>

definition inside_of :: "gstore \<Rightarrow> nat list \<Rightarrow> gval \<Rightarrow> bool" where
  "inside_of h active v \<longleftrightarrow> (\<forall>a\<in>set active. \<forall>b. v = GRef b \<longrightarrow> (a, b) \<in> (contained h)\<^sup>+)"

lemma inside_item:
  assumes "inside_of h active (GRef a)" "x \<in> set (go_items (h ! a))" "a < length h"
  shows "inside_of h (a # active) x"
  using assms unfolding inside_of_def contained_def by (auto intro: trancl_into_trancl)

lemma thaw_graph_native:
  assumes "native_graph frozen h v" "graph_tree h v t" "inside_of h active v"
  shows "thaw_value room h active v = (if json_depth t \<le> room then Inr t else Inl recursion_msg)"
  using assms
proof (induction arbitrary: t active room rule: native_graph.induct)
  case (native_scalar v)
  then show ?case by (cases v; cases room) (auto simp: graph_tree_def elim: unfolds.cases)
next
  case (native_container a)
  from native_container.hyps have "native_graph frozen h (GRef a)" by (rule native_graph.native_container)
  then have free: "a \<notin> set active"
    using native_container.prems(2) native_not_cyclic unfolding inside_of_def by blast
  obtain ts where ts: "list_all2 (graph_tree h) (go_items (h ! a)) ts"
    and t: "t = (if is_mapping (h ! a) then JDict (zip (map key_text (go_keys (h ! a))) ts) else JList ts)"
    by (rule tree_container[OF native_container.prems(1) native_container.hyps(1)])
  have items: "list_all2 (\<lambda>x t. thaw_value n h (a # active) x = (if json_depth t \<le> n then Inr t else Inl recursion_msg))
      (go_items (h ! a)) ts" for n
    by (rule list.rel_mono_strong[OF ts])
       (rule native_container.IH, use inside_item[OF native_container.prems(2)] native_container.hyps(1) in auto)
  have len: "length (map key_text (go_keys (h ! a))) = length ts"
    using list_all2_lengthD[OF ts] by (simp add: go_items_def go_keys_def)
  show ?case
  proof (cases room)
    case 0
    then show ?thesis using depth_pos[of t] by simp
  next
    case (Suc n)
    have "json_depth t \<le> Suc n \<longleftrightarrow> (\<forall>s\<in>set ts. json_depth s \<le> n)"
      using depth_dict_le[OF len] by (simp add: t depth_list_le)
    then show ?thesis using native_container.hyps(1) free t by (simp add: Suc res_map_limited[OF items])
  qed
qed

lemma unfolds_scalar:
  "is_native_json_scalar v \<Longrightarrow> \<exists>t. unfolds h (plain_value v) t \<and> native_json t"
  by (cases v) (auto intro: unfolds.intros)

lemma text_keys_distinct:
  assumes "keys_are_text ob" "is_mapping ob"
  shows "distinct (map (\<lambda>(k, v). key_text k) (go_entries ob))"
proof -
  have "\<forall>k\<in>fst ` set (go_entries ob). k \<noteq> None" "distinct (map fst (go_entries ob))"
    using assms by (auto simp: keys_are_text_def go_keys_def list_ex_iff) (metis fst_conv image_eqI not_None_eq)
  then have "inj_on (\<lambda>k. key_text k) (set (map fst (go_entries ob)))"
    by (auto simp: inj_on_def key_text_def split: option.splits)
  with \<open>distinct (map fst (go_entries ob))\<close>
  have "distinct (map (\<lambda>k. key_text k) (map fst (go_entries ob)))"
    by (simp only: distinct_map)
  then show ?thesis by (simp add: comp_def split_def cong: option.case_cong)
qed

lemma native_items_unfold:
  assumes "\<And>x. x \<in> set xs \<Longrightarrow> \<exists>t. unfolds h (plain_value x) t \<and> native_json t"
  shows "\<exists>ts. list_all2 (unfolds h) (map plain_value xs) ts \<and> native_json_list ts \<and> (\<forall>t\<in>set ts. native_json t)"
  using assms
proof (induction xs)
  case (Cons x xs)
  from Cons.prems obtain t where "unfolds h (plain_value x) t" "native_json t" by auto
  moreover from Cons obtain ts where "list_all2 (unfolds h) (map plain_value xs) ts" "native_json_list ts"
    "\<forall>t\<in>set ts. native_json t" by auto
  ultimately show ?case by (intro exI[of _ "t # ts"]) simp
qed simp

lemma native_graph_unfolds:
  "native_graph frozen h v \<Longrightarrow> \<exists>t. unfolds (map plain_object h) (plain_value v) t \<and> native_json t"
proof (induction rule: native_graph.induct)
  case (native_scalar v)
  then show ?case by (rule unfolds_scalar)
next
  case (native_container a)
  let ?ob = "h ! a"
  obtain ts where ts: "list_all2 (unfolds (map plain_object h)) (map plain_value (go_items ?ob)) ts"
    "native_json_list ts" "\<forall>t\<in>set ts. native_json t"
    using native_items_unfold[of "go_items ?ob" "map plain_object h"] native_container.IH by blast
  show ?case
  proof (cases "is_mapping ?ob")
    case True
    let ?kvs = "map (\<lambda>(k, v). (key_text k, plain_value v)) (go_entries ?ob)"
    have snd: "map snd ?kvs = map plain_value (go_items ?ob)" by (auto simp: go_items_def)
    have fst: "map fst ?kvs = map (\<lambda>(k, v). key_text k) (go_entries ?ob)" by auto
    have len: "length (map fst ?kvs) = length ts"
      using list_all2_lengthD[OF ts(1)] by (simp add: go_items_def)
    have "unfolds (map plain_object h) (HRef a) (JDict (zip (map fst ?kvs) ts))"
      by (rule unfolds.unfolds_mapping)
        (use native_container.hyps True ts(1) in \<open>simp_all only: snd length_map nth_map plain_object_def if_True\<close>)
    moreover have "native_json (JDict (zip (map fst ?kvs) ts))"
      using ts(3) len text_keys_distinct[OF native_container.hyps(3) True]
      unfolding fst[symmetric] by (auto simp: native_json_items_iff simp del: map_map dest: set_zip_rightD)
    ultimately show ?thesis by auto
  next
    case False
    then have "unfolds (map plain_object h) (HRef a) (JList ts)"
      using native_container.hyps(1) ts(1) by (intro unfolds.unfolds_sequence) (auto simp: plain_object_def)
    with ts(2) show ?thesis by auto
  qed
qed

text \<open>So an admitted graph has exactly one tree, and thawing fails only when the tree is too deep.\<close>

lemma native_value_thaws:
  assumes "native_graph frozen h v"
  shows "\<exists>t. native_json t \<and> (\<forall>u. graph_tree h v u \<longleftrightarrow> u = t)
    \<and> (\<forall>room. thaw_graph room h v = (if json_depth t \<le> room then Inr t else Inl recursion_msg))"
proof -
  obtain t where t: "graph_tree h v t" "native_json t"
    using native_graph_unfolds[OF assms] by (auto simp: graph_tree_def)
  have "inside_of h [] v" by (simp add: inside_of_def)
  from thaw_graph_native[OF assms t(1) this] t unfolds_unique show ?thesis
    unfolding thaw_graph_def graph_tree_def by metis
qed

text \<open>A chain of \<open>n\<close> nested mappings is admitted, and too deep for \<open>n\<close> or fewer nested calls.\<close>

definition nested_mappings :: "nat \<Rightarrow> gstore" where
  "nested_mappings n = map (\<lambda>i. \<lparr>go_kind = NativeDict,
     go_entries = if i = 0 then [] else [(Some (str ''nested''), GRef (i - 1))]\<rparr>) [0..<Suc n]"

fun nested_tree :: "nat \<Rightarrow> json" where
  "nested_tree 0 = JDict []"
| "nested_tree (Suc n) = JDict [(str ''nested'', nested_tree n)]"

lemma nested_entry: "i \<le> n \<Longrightarrow> nested_mappings n ! i = \<lparr>go_kind = NativeDict,
    go_entries = if i = 0 then [] else [(Some (str ''nested''), GRef (i - 1))]\<rparr>"
  by (simp add: nested_mappings_def nth_append del: upt_Suc)

lemma nested_native: "i \<le> n \<Longrightarrow> native_graph False (nested_mappings n) (GRef i)"
proof (induction i)
  case 0
  show ?case
    by (rule native_container) (simp_all add: nested_entry admitted_kind_def is_mapping_def keys_are_text_def go_keys_def
        go_items_def has_duplicates_def, simp add: nested_mappings_def)
next
  case (Suc i)
  then show ?case
    by (intro native_container) (auto simp add: nested_entry admitted_kind_def is_mapping_def keys_are_text_def go_keys_def
        go_items_def has_duplicates_def, simp add: nested_mappings_def)
qed

lemma nested_graph_tree: "i \<le> n \<Longrightarrow> graph_tree (nested_mappings n) (GRef i) (nested_tree i)"
proof (induction i)
  case 0
  have "unfolds (map plain_object (nested_mappings n)) (HRef 0) (JDict (zip (map fst ([] :: (pystr \<times> hval) list)) []))"
    by (rule unfolds_mapping)
       (simp_all add: nested_mappings_def nested_entry[unfolded nested_mappings_def] plain_object_def is_mapping_def del: upt_Suc)
  then show ?case by (simp add: graph_tree_def)
next
  case (Suc i)
  have "unfolds (map plain_object (nested_mappings n)) (HRef (Suc i))
      (JDict (zip (map fst [(str ''nested'', HRef i)]) [nested_tree i]))"
    by (rule unfolds_mapping)
       (use Suc in \<open>simp_all add: nested_mappings_def nested_entry[unfolded nested_mappings_def] plain_object_def
          is_mapping_def key_text_def graph_tree_def del: upt_Suc\<close>)
  then show ?case by (simp add: graph_tree_def)
qed

lemma nested_depth: "json_depth (nested_tree n) = Suc n"
  by (induction n) simp_all

lemma nested_too_deep: "room \<le> n \<Longrightarrow> thaw_graph room (nested_mappings n) (GRef n) = Inl recursion_msg"
  using thaw_graph_native[OF nested_native nested_graph_tree, of n n "[]" room]
  by (simp add: thaw_graph_def inside_of_def nested_depth)

end
