(* ===== verification/Persistence_Decode.thy ===== *)
theory Persistence_Decode
  imports Persistence_Codec Native_Graph
begin

section \<open>Decoding envelopes (application/persistence.py, lines 1567--1922 and 2720--2951)\<close>

text \<open>
  An envelope comes back from the store as an instance, as a mapping or as JSON text. It is brought
  to text, classified by its outer code and version, validated against the envelope class, its
  payload against the source model; then the envelope is built again from the decoded record and
  children and compared with the stored one. The JSON text of an input is given by its value: no key
  occurs twice in an object that \<open>json.loads\<close> returns.
\<close>

subsection \<open>The JSON form of an envelope\<close>

definition reference_json :: "record_reference \<Rightarrow> json" where
  "reference_json r = JDict
     [(str ''relation'', JStr (rf_relation r)),
      (str ''target_record_code'', JStr (record_code_text (rf_target_record_code r))),
      (str ''target_logical_identity'', identity_json (rf_target_logical_identity r))]"

definition child_payload_json :: "logical_child_payload \<Rightarrow> json" where
  "child_payload_json c = JDict
     [(str ''data'', JDict (lc_data c)),
      (str ''child_code'', JStr (child_code_text (lc_child_code c))),
      (str ''parent_record_code'', JStr (record_code_text (lc_parent_record_code c))),
      (str ''parent_logical_identity'', identity_json (lc_parent_logical_identity c)),
      (str ''logical_identity'', identity_json (lc_logical_identity c))]"

definition payload_json :: "versioned_payload \<Rightarrow> json" where
  "payload_json p = JDict
     [(str ''data'', JDict (vp_data p)),
      (str ''record_code'', JStr (record_code_text (vp_record_code p))),
      (str ''record_schema_version'', JStr (vp_record_schema_version p)),
      (str ''logical_children'', JList (map child_payload_json (vp_logical_children p)))]"

definition envelope_json :: "persistence_envelope \<Rightarrow> json" where
  "envelope_json e = JDict
     [(str ''record_code'', JStr (record_code_text (pe_record_code e))),
      (str ''record_schema_version'', JStr (pe_record_schema_version e)),
      (str ''logical_identity'', identity_json (pe_logical_identity e)),
      (str ''direct_owner_customer_id'', opt_json JStr (pe_direct_owner_customer_id e)),
      (str ''record_references'', JList (map reference_json (pe_record_references e))),
      (str ''payload'', payload_json (pe_payload e))]"

subsection \<open>Validating an envelope\<close>

text \<open>
  \<open>P0PersistenceEnvelope.model_validate_json(raw_json, strict=True)\<close>, field by field: every object has
  exactly the declared fields (those with a default may be missing), codes are the texts of their
  enumerations. The model keeps of a \<open>ValidationError\<close> whether one of its locations lies below
  \<open>payload.logical_children\<close>, which is all \<open>_envelope_validation_category\<close> looks at.
\<close>

definition fields_declared :: "string list \<Rightarrow> string list \<Rightarrow> json_object \<Rightarrow> bool" where
  "fields_declared required optional d \<longleftrightarrow>
     list_all (\<lambda>f. str f \<in> set (map fst d)) required \<and>
     list_all (\<lambda>(k, _). k \<in> set (map str (required @ optional))) d"

definition text_field :: "json_object \<Rightarrow> string \<Rightarrow> pystr option" where
  "text_field d f = (case map_of d (str f) of Some (JStr s) \<Rightarrow> Some s | _ \<Rightarrow> None)"

definition record_code_of_text :: "pystr \<Rightarrow> record_code option" where
  "record_code_of_text s = find (\<lambda>code. record_code_text code = s) record_codes"

definition child_code_of_text :: "pystr \<Rightarrow> child_code option" where
  "child_code_of_text s = find (\<lambda>code. child_code_text code = s) child_codes"

definition identity_pair_of_json :: "json \<Rightarrow> (pystr \<times> json) option" where
  "identity_pair_of_json v = (case v of
      JList [JStr k, x] \<Rightarrow> if json_scalar x \<and> native_json x then Some (k, x) else None | _ \<Rightarrow> None)"

definition identity_field :: "json_object \<Rightarrow> string \<Rightarrow> identity_pairs option" where
  "identity_field d f = (case map_of d (str f) of
      Some (JList pairs) \<Rightarrow> opt_map identity_pair_of_json pairs | _ \<Rightarrow> None)"

definition data_field :: "json_object \<Rightarrow> json_object option" where
  "data_field d = (case map_of d (str ''data'') of
      Some (JDict data) \<Rightarrow> (case thaw_object data of Inl _ \<Rightarrow> None | Inr data' \<Rightarrow> Some data') | _ \<Rightarrow> None)"

definition reference_of_json :: "json \<Rightarrow> record_reference option" where
  "reference_of_json v = (case v of
      JDict d \<Rightarrow>
        if \<not> fields_declared [''relation'', ''target_record_code'', ''target_logical_identity''] [] d then None
        else (case (text_field d ''relation'', Option.bind (text_field d ''target_record_code'') record_code_of_text,
            identity_field d ''target_logical_identity'') of
          (Some relation, Some code, Some identity) \<Rightarrow>
            Some \<lparr>rf_relation = relation, rf_target_record_code = code, rf_target_logical_identity = identity\<rparr>
        | _ \<Rightarrow> None)
    | _ \<Rightarrow> None)"

definition child_payload_of_json :: "json \<Rightarrow> logical_child_payload option" where
  "child_payload_of_json v = (case v of
      JDict d \<Rightarrow>
        if \<not> fields_declared [''data'', ''child_code'', ''parent_record_code'', ''parent_logical_identity'',
            ''logical_identity''] [] d then None
        else (case (data_field d, Option.bind (text_field d ''child_code'') child_code_of_text,
            Option.bind (text_field d ''parent_record_code'') record_code_of_text,
            identity_field d ''parent_logical_identity'', identity_field d ''logical_identity'') of
          (Some data, Some code, Some parent, Some parent_identity, Some identity) \<Rightarrow>
            Some \<lparr>lc_child_code = code, lc_parent_record_code = parent,
                  lc_parent_logical_identity = parent_identity, lc_logical_identity = identity, lc_data = data\<rparr>
        | _ \<Rightarrow> None)
    | _ \<Rightarrow> None)"

definition children_field :: "json_object \<Rightarrow> logical_child_payload list option" where
  "children_field d = (case map_of d (str ''logical_children'') of
      None \<Rightarrow> Some [] | Some (JList vs) \<Rightarrow> opt_map child_payload_of_json vs | Some _ \<Rightarrow> None)"

definition payload_of_json :: "json \<Rightarrow> integrity_category + versioned_payload" where
  "payload_of_json v = (case v of
      JDict d \<Rightarrow> (case children_field d of
          None \<Rightarrow> Inl CHILD_MISMATCH
        | Some children \<Rightarrow>
            if \<not> fields_declared [''data'', ''record_code'', ''record_schema_version''] [''logical_children''] d
            then Inl PAYLOAD_VALIDATION_FAILED
            else (case (data_field d, Option.bind (text_field d ''record_code'') record_code_of_text,
                text_field d ''record_schema_version'') of
              (Some data, Some code, Some version) \<Rightarrow>
                Inr \<lparr>vp_record_code = code, vp_record_schema_version = version,
                     vp_logical_children = children, vp_data = data\<rparr>
            | _ \<Rightarrow> Inl PAYLOAD_VALIDATION_FAILED))
    | _ \<Rightarrow> Inl PAYLOAD_VALIDATION_FAILED)"

definition owner_field :: "json_object \<Rightarrow> pystr option option" where
  "owner_field d = (case map_of d (str ''direct_owner_customer_id'') of
      None \<Rightarrow> Some None | Some JNull \<Rightarrow> Some None | Some (JStr s) \<Rightarrow> Some (Some s) | Some _ \<Rightarrow> None)"

definition references_field :: "json_object \<Rightarrow> record_reference list option" where
  "references_field d = (case map_of d (str ''record_references'') of
      None \<Rightarrow> Some [] | Some (JList vs) \<Rightarrow> opt_map reference_of_json vs | Some _ \<Rightarrow> None)"

definition envelope_of_json :: "json \<Rightarrow> integrity_category + persistence_envelope" where
  "envelope_of_json v = (case v of
      JDict d \<Rightarrow>
        (case payload_of_json (case map_of d (str ''payload'') of Some p \<Rightarrow> p | None \<Rightarrow> JNull) of
           Inl category \<Rightarrow> Inl category
         | Inr payload \<Rightarrow>
            if \<not> fields_declared [''record_code'', ''record_schema_version'', ''logical_identity'', ''payload'']
                [''direct_owner_customer_id'', ''record_references''] d
            then Inl PAYLOAD_VALIDATION_FAILED
            else (case (Option.bind (text_field d ''record_code'') record_code_of_text,
                text_field d ''record_schema_version'', identity_field d ''logical_identity'',
                owner_field d, references_field d) of
              (Some code, Some version, Some identity, Some owner, Some references) \<Rightarrow>
                Inr \<lparr>pe_record_code = code, pe_record_schema_version = version, pe_logical_identity = identity,
                     pe_direct_owner_customer_id = owner, pe_record_references = references, pe_payload = payload\<rparr>
            | _ \<Rightarrow> Inl PAYLOAD_VALIDATION_FAILED))
    | _ \<Rightarrow> Inl PAYLOAD_VALIDATION_FAILED)"

subsection \<open>The input as JSON\<close>

text \<open>
  A text is \<open>None\<close> when \<open>json.loads\<close> refuses it. An envelope that is not an instance of exactly the
  envelope class (\<open>Foreign\<close>) is refused like one with values that are not native JSON. With a mapping comes
  the number of nested calls the interpreter allows while it is thawed.
\<close>

datatype stored_input =
    EnvelopeInput "persistence_envelope pyobj"
  | MappingInput nat gstore gval
  | TextInput "json option"
  | OtherInput

fun json_utf8 :: "json \<Rightarrow> bool"
  and json_utf8_list :: "json list \<Rightarrow> bool"
  and json_utf8_items :: "(pystr \<times> json) list \<Rightarrow> bool"
where
  "json_utf8 (JStr s) = utf8_text s"
| "json_utf8 (JList xs) = json_utf8_list xs"
| "json_utf8 (JDict kvs) = json_utf8_items kvs"
| "json_utf8 v = True"
| "json_utf8_list [] = True"
| "json_utf8_list (x # xs) = (json_utf8 x \<and> json_utf8_list xs)"
| "json_utf8_items [] = True"
| "json_utf8_items ((k, x) # xs) = (utf8_text k \<and> json_utf8 x \<and> json_utf8_items xs)"

definition native_logical_identity :: "identity_pairs \<Rightarrow> bool" where
  "native_logical_identity identity \<longleftrightarrow> list_all (\<lambda>(_, v). json_scalar v \<and> native_json v) identity"

definition envelope_has_native_json :: "persistence_envelope \<Rightarrow> bool" where
  "envelope_has_native_json e \<longleftrightarrow>
     native_logical_identity (pe_logical_identity e)
     \<and> list_all (\<lambda>r. native_logical_identity (rf_target_logical_identity r)) (pe_record_references e)
     \<and> native_json (JDict (vp_data (pe_payload e)))
     \<and> list_all (\<lambda>c. native_logical_identity (lc_parent_logical_identity c)
          \<and> native_logical_identity (lc_logical_identity c) \<and> native_json (JDict (lc_data c)))
        (vp_logical_children (pe_payload e))"

definition json_input :: "stored_input \<Rightarrow> codec_error + json option" where
  "json_input stored = (case stored of
      EnvelopeInput Foreign \<Rightarrow> signal PAYLOAD_VALIDATION_FAILED
    | EnvelopeInput (Obj e _) \<Rightarrow>
        if envelope_has_native_json e \<and> json_utf8 (envelope_json e) then Inr (Some (envelope_json e))
        else signal PAYLOAD_VALIDATION_FAILED
    | MappingInput room h v \<Rightarrow>
        if is_native_json_value False h v
        then (case thaw_graph room h v of Inl _ \<Rightarrow> signal PAYLOAD_VALIDATION_FAILED | Inr raw \<Rightarrow> Inr (Some raw))
        else signal PAYLOAD_VALIDATION_FAILED
    | TextInput raw \<Rightarrow> Inr raw
    | OtherInput \<Rightarrow> signal PAYLOAD_VALIDATION_FAILED)"

subsection \<open>Outer code and version\<close>

definition outer_object :: "json option \<Rightarrow> record_code \<Rightarrow> codec_error + json_object" where
  "outer_object raw expected_record_code = (case raw of
      None \<Rightarrow> signal PAYLOAD_VALIDATION_FAILED
    | Some (JDict parsed) \<Rightarrow> (case map_of parsed (str ''record_code'') of
          None \<Rightarrow> signal MISSING_RECORD_CODE
        | Some raw_code \<Rightarrow> (case (case raw_code of JStr s \<Rightarrow> record_code_of_text s | _ \<Rightarrow> None) of
              None \<Rightarrow> signal UNKNOWN_RECORD_CODE
            | Some code \<Rightarrow>
                res_bind (raise_if (code \<noteq> expected_record_code) (Signal RECORD_CODE_MISMATCH)) (\<lambda>_. Inr parsed)))
    | Some _ \<Rightarrow> signal MISSING_RECORD_CODE)"

text \<open>\<open>raw_version in known_versions\<close> hashes the value: an array or an object raises \<open>TypeError\<close>.\<close>

definition classify_outer :: "json option \<Rightarrow> record_code \<Rightarrow> codec_error + (schema_spec \<times> json_object)" where
  "classify_outer raw expected_record_code =
     res_bind (outer_object raw expected_record_code) (\<lambda>parsed.
     case map_of parsed (str ''record_schema_version'') of
       None \<Rightarrow> signal MISSING_RECORD_SCHEMA_VERSION
     | Some raw_version \<Rightarrow> (case NON_RU_REGISTRY expected_record_code of
           None \<Rightarrow> Inl (Uncaught ''KeyError'')
         | Some spec \<Rightarrow>
             if raw_version = JStr (ss_record_schema_version spec) then Inr (spec, parsed)
             else if \<not> json_scalar raw_version then Inl (Uncaught ''TypeError'')
             else signal
               (if raw_version \<in> set (map (\<lambda>code. JStr (ss_record_schema_version (record_schema_spec code)))
                    (filter (\<lambda>code. code \<noteq> REQUEST_UNDERSTANDING_RECORD) record_codes))
                then RECORD_SCHEMA_VERSION_MISMATCH else UNKNOWN_RECORD_SCHEMA_VERSION)))"

definition classify_outer_versioned :: "json option \<Rightarrow> record_code \<Rightarrow> pystr \<Rightarrow> codec_error + json_object" where
  "classify_outer_versioned raw expected_record_code expected_schema_version =
     res_bind (outer_object raw expected_record_code) (\<lambda>parsed.
     case map_of parsed (str ''record_schema_version'') of
       None \<Rightarrow> signal MISSING_RECORD_SCHEMA_VERSION
     | Some (JStr version) \<Rightarrow>
         if version = expected_schema_version then Inr parsed
         else signal
           (if version \<in> set (map (snd \<circ> fst) RECORD_SCHEMA_VERSION_CATALOG)
            then RECORD_SCHEMA_VERSION_MISMATCH else UNKNOWN_RECORD_SCHEMA_VERSION)
     | Some _ \<Rightarrow> signal UNKNOWN_RECORD_SCHEMA_VERSION)"

text \<open>The code and version inside the payload repeat the outer ones.\<close>

definition payload_repeats :: "json_object \<Rightarrow> record_code \<Rightarrow> pystr \<Rightarrow> bool" where
  "payload_repeats outer_data code version = (case map_of outer_data (str ''payload'') of
      Some (JDict inner) \<Rightarrow> map_of inner (str ''record_code'') = Some (JStr (record_code_text code))
        \<and> map_of inner (str ''record_schema_version'') = Some (JStr version)
    | _ \<Rightarrow> False)"

definition validated_envelope ::
  "json option \<Rightarrow> json_object \<Rightarrow> record_code \<Rightarrow> pystr \<Rightarrow> codec_error + persistence_envelope" where
  "validated_envelope raw outer_data code version =
     res_bind (raise_if (\<not> payload_repeats outer_data code version) (Signal METADATA_PAYLOAD_MISMATCH)) (\<lambda>_.
     case raw of None \<Rightarrow> signal PAYLOAD_VALIDATION_FAILED
     | Some v \<Rightarrow>
         res_bind (raise_if (\<not> json_utf8 v) (Signal PAYLOAD_VALIDATION_FAILED)) (\<lambda>_.
         case envelope_of_json v of
           Inl category \<Rightarrow> signal category
         | Inr e \<Rightarrow>
             res_bind (raise_if (vp_record_code (pe_payload e) \<noteq> code
                 \<or> vp_record_schema_version (pe_payload e) \<noteq> version) (Signal METADATA_PAYLOAD_MISMATCH)) (\<lambda>_. Inr e)))"

subsection \<open>Python equality of the parts of an envelope\<close>

definition identity_eq :: "identity_pairs \<Rightarrow> identity_pairs \<Rightarrow> bool" where
  "identity_eq = list_all2 (\<lambda>(k, v) (k', v'). k = k' \<and> py_eq v v')"

definition reference_eq :: "record_reference \<Rightarrow> record_reference \<Rightarrow> bool" where
  "reference_eq a b \<longleftrightarrow> rf_relation a = rf_relation b \<and> rf_target_record_code a = rf_target_record_code b
     \<and> identity_eq (rf_target_logical_identity a) (rf_target_logical_identity b)"

definition child_payload_eq :: "logical_child_payload \<Rightarrow> logical_child_payload \<Rightarrow> bool" where
  "child_payload_eq a b \<longleftrightarrow> lc_child_code a = lc_child_code b \<and> lc_parent_record_code a = lc_parent_record_code b
     \<and> identity_eq (lc_parent_logical_identity a) (lc_parent_logical_identity b)
     \<and> identity_eq (lc_logical_identity a) (lc_logical_identity b) \<and> py_eq (JDict (lc_data a)) (JDict (lc_data b))"

subsection \<open>Decoding\<close>

definition decoded_source :: "pydantic \<Rightarrow> model_class \<Rightarrow> json_object \<Rightarrow> integrity_category \<Rightarrow> codec_error + source_record" where
  "decoded_source pyd source_model data category =
     (case thaw_object data of Inl _ \<Rightarrow> signal category
      | Inr native \<Rightarrow> (case p_validate pyd source_model native of
            None \<Rightarrow> signal category | Some r \<Rightarrow> Inr r))"

definition decoded_child :: "pydantic \<Rightarrow> logical_child_payload \<Rightarrow> codec_error + source_record" where
  "decoded_child pyd payload =
     decoded_source pyd (cs_source_model (LOGICAL_CHILD_SPECS (lc_child_code payload))) (lc_data payload) CHILD_MISMATCH"

definition compare_envelopes :: "persistence_envelope \<Rightarrow> persistence_envelope \<Rightarrow> bool \<Rightarrow> codec_error + unit" where
  "compare_envelopes expected stored payload_compared =
     res_bind (raise_if (\<not> identity_eq (pe_logical_identity expected) (pe_logical_identity stored))
       (Signal IDENTITY_MISMATCH)) (\<lambda>_.
     res_bind (raise_if (pe_direct_owner_customer_id expected \<noteq> pe_direct_owner_customer_id stored)
       (Signal OWNER_PROJECTION_MISMATCH)) (\<lambda>_.
     res_bind (raise_if (\<not> list_all2 reference_eq (pe_record_references expected) (pe_record_references stored))
       (Signal LINK_PROJECTION_MISMATCH)) (\<lambda>_.
     res_bind (raise_if (payload_compared
         \<and> \<not> py_eq (JDict (vp_data (pe_payload expected))) (JDict (vp_data (pe_payload stored))))
       (Signal PAYLOAD_VALIDATION_FAILED)) (\<lambda>_.
     raise_if (\<not> list_all2 child_payload_eq (vp_logical_children (pe_payload expected))
         (vp_logical_children (pe_payload stored))) (Signal CHILD_MISMATCH)))))"

definition decode_generic :: "pydantic \<Rightarrow> json option \<Rightarrow> record_code \<Rightarrow> codec_error + decoded_record" where
  "decode_generic pyd raw expected_record_code =
     res_bind (classify_outer raw expected_record_code) (\<lambda>(spec, outer_data).
     res_bind (validated_envelope raw outer_data expected_record_code (ss_record_schema_version spec)) (\<lambda>e.
     res_bind (decoded_source pyd (ss_source_model spec) (vp_data (pe_payload e)) PAYLOAD_VALIDATION_FAILED) (\<lambda>source.
     res_bind (res_map (decoded_child pyd) (vp_logical_children (pe_payload e))) (\<lambda>children.
     let external = filter (\<lambda>r. Some (rf_relation r) \<in> set (map pd_relation (external_rules spec))) (pe_record_references e)
     in res_bind (build_envelope pyd expected_record_code (ModelObject source []) (exact_references external)
          (map (\<lambda>c. ModelObject c []) children)) (\<lambda>expected.
        res_bind (compare_envelopes expected e False) (\<lambda>_.
        Inr \<lparr>dr_record_code = expected_record_code, dr_record_schema_version = ss_record_schema_version spec,
             dr_source_record = source, dr_logical_children = children\<rparr>))))))"

definition decode_persistence_record ::
  "pydantic \<Rightarrow> stored_input \<Rightarrow> record_code \<Rightarrow> uuid \<Rightarrow> public_error + decoded_record" where
  "decode_persistence_record pyd stored expected_record_code correlation_ref =
     public_result correlation_ref
       (if expected_record_code = REQUEST_UNDERSTANDING_RECORD then signal UNKNOWN_RECORD_SCHEMA_VERSION
        else res_bind (json_input stored) (\<lambda>raw. decode_generic pyd raw expected_record_code))"

definition request_understanding_decoded_child :: "pydantic \<Rightarrow> logical_child_payload \<Rightarrow> codec_error + source_record" where
  "request_understanding_decoded_child pyd payload =
     (if lc_child_code payload \<noteq> CHILD_ACCEPTED_TASK_DELTA then signal CHILD_MISMATCH
      else decoded_source pyd AcceptedDeltaModel (lc_data payload) CHILD_MISMATCH)"

definition decode_request_understanding_v2 ::
  "pydantic \<Rightarrow> json option \<Rightarrow> pystr \<Rightarrow> codec_error + decoded_record" where
  "decode_request_understanding_v2 pyd raw expected_schema_version =
     res_bind (classify_outer_versioned raw REQUEST_UNDERSTANDING_RECORD expected_schema_version) (\<lambda>outer_data.
     res_bind (validated_envelope raw outer_data REQUEST_UNDERSTANDING_RECORD expected_schema_version) (\<lambda>e.
     res_bind (decoded_source pyd RequestUnderstandingModel (vp_data (pe_payload e)) PAYLOAD_VALIDATION_FAILED) (\<lambda>source.
     res_bind (res_map (request_understanding_decoded_child pyd) (vp_logical_children (pe_payload e))) (\<lambda>children.
     res_bind (build_request_understanding_v2_envelope pyd (ModelObject source []) [] (map (\<lambda>c. ModelObject c []) children)) (\<lambda>expected.
     res_bind (compare_envelopes expected e True) (\<lambda>_.
     Inr \<lparr>dr_record_code = REQUEST_UNDERSTANDING_RECORD, dr_record_schema_version = expected_schema_version,
          dr_source_record = source, dr_logical_children = children\<rparr>))))))"

text \<open>An envelope instance must not carry undeclared state.\<close>

definition undeclared_envelope_state :: "stored_input \<Rightarrow> bool" where
  "undeclared_envelope_state stored = (case stored of
      EnvelopeInput (Obj _ extra) \<Rightarrow> extra \<noteq> [] | _ \<Rightarrow> False)"

definition decode_persistence_record_versioned ::
  "pydantic \<Rightarrow> stored_input \<Rightarrow> record_code option \<Rightarrow> pystr option \<Rightarrow> uuid \<Rightarrow> public_error + decoded_record" where
  "decode_persistence_record_versioned pyd stored expected_record_code expected_schema_version correlation_ref =
     public_result correlation_ref (
       res_bind (versioned_pair_spec expected_record_code expected_schema_version) (\<lambda>selected.
       res_bind (raise_if (undeclared_envelope_state stored) (Signal PAYLOAD_VALIDATION_FAILED)) (\<lambda>_.
       res_bind (json_input stored) (\<lambda>raw.
       if ss_record_code selected = REQUEST_UNDERSTANDING_RECORD
       then decode_request_understanding_v2 pyd raw (ss_record_schema_version selected)
       else
         res_bind (classify_outer_versioned raw (ss_record_code selected) (ss_record_schema_version selected)) (\<lambda>_.
         decode_generic pyd raw (ss_record_code selected))))))"

end
