(* ===== verification/Envelope_Facts.thy ===== *)
theory Envelope_Facts
  imports Persistence_Decode "HOL-Library.Multiset"
begin


section \<open>Canonical reference lists\<close>

text \<open>
  What \<open>_normalize_references\<close> returns: references that survive their own validation, in strictly
  increasing order of their keys. Such a list is a fixed point, and it is determined by its set of
  references.
\<close>

subsection \<open>JSON texts\<close>

lemma json_dumps_scalar: "json_scalar v \<Longrightarrow> native_json v \<Longrightarrow> \<exists>p. json_dumps v = Inr p"
  by (rule json_dumps_native(1))

lemma native_list: "native_json_list xs \<longleftrightarrow> list_all native_json xs"
  by (induction xs) auto

lemma identity_json_native: "native_json (identity_json identity) \<longleftrightarrow> list_all (\<lambda>(_, v). native_json v) identity"
  by (simp add: identity_json_def native_list list_all_iff) auto

lemma opt_map_Some_iff: "opt_map f xs = Some ys \<longleftrightarrow> list_all2 (\<lambda>x y. f x = Some y) xs ys"
  by (induction xs arbitrary: ys) (auto split: option.splits simp: list_all2_Cons1)

lemma opt_map_total: "(\<And>x. x \<in> set xs \<Longrightarrow> f x = Some (g x)) \<Longrightarrow> opt_map f xs = Some (map g xs)"
  by (induction xs) auto

lemma opt_map_same: "(\<And>x. x \<in> set xs \<Longrightarrow> f x = Some x) \<Longrightarrow> opt_map f xs = Some xs"
  using opt_map_total[of xs f "\<lambda>x. x"] by simp

subsection \<open>Strict references\<close>

definition strict_ref :: "record_reference \<Rightarrow> bool" where
  "strict_ref r \<longleftrightarrow> strict_reference (Obj r []) = Inr r"

lemma strict_scalar_Some: "strict_scalar v = Some w \<Longrightarrow> json_scalar w \<and> native_json w \<and> json_utf8 w"
  by (cases v) (auto simp: strict_scalar_def json_scalar_def split: if_splits)

lemma strict_scalar_same: "strict_scalar v = Some v \<longleftrightarrow> json_scalar v \<and> native_json v \<and> json_utf8 v"
  by (cases v) (auto simp: strict_scalar_def json_scalar_def)

lemma strict_scalar_id: "json_scalar v \<Longrightarrow> native_json v \<Longrightarrow> json_utf8 v \<Longrightarrow> strict_scalar v = Some v"
  by (simp add: strict_scalar_same)

lemma strict_identity_Some:
  assumes "strict_identity i = Some j"
  shows "strict_identity j = Some j"
    and "list_all (\<lambda>(k, v). utf8_text k \<and> json_scalar v \<and> native_json v \<and> json_utf8 v) j" and "map fst j = map fst i"
proof -
  from assms have "list_all2 (\<lambda>x y. (case x of (k, v) \<Rightarrow> if utf8_text k then map_option (Pair k) (strict_scalar v) else None) = Some y) i j"
    by (simp add: strict_identity_def opt_map_Some_iff)
  then have "strict_identity j = Some j
    \<and> list_all (\<lambda>(k, v). utf8_text k \<and> json_scalar v \<and> native_json v \<and> json_utf8 v) j \<and> map fst j = map fst i"
    by (induction rule: list_all2_induct)
      (auto simp: strict_identity_def strict_scalar_id split: if_splits dest!: strict_scalar_Some)
  then show "strict_identity j = Some j"
    "list_all (\<lambda>(k, v). utf8_text k \<and> json_scalar v \<and> native_json v \<and> json_utf8 v) j" "map fst j = map fst i" by auto
qed

lemma strict_reference_Inr:
  assumes "strict_reference v = Inr r"
  shows "strict_ref r"
    and "\<exists>r0 extra. v = Obj r0 extra \<and> rf_relation r = rf_relation r0
      \<and> rf_target_record_code r = rf_target_record_code r0
      \<and> strict_identity (rf_target_logical_identity r0) = Some (rf_target_logical_identity r)"
  using assms strict_identity_Some(1)
  by (auto simp: strict_reference_def strict_ref_def split: pyobj.splits if_splits option.splits)

lemma strict_ref_iff:
  "strict_ref r \<longleftrightarrow> utf8_text (rf_relation r)
     \<and> list_all (\<lambda>(k, v). utf8_text k \<and> json_scalar v \<and> native_json v \<and> json_utf8 v) (rf_target_logical_identity r)"
proof
  assume "strict_ref r"
  then have "utf8_text (rf_relation r)" "strict_identity (rf_target_logical_identity r) = Some (rf_target_logical_identity r)"
    by (cases r; auto simp: strict_ref_def strict_reference_def split: if_splits option.splits)+
  with strict_identity_Some(2) show "utf8_text (rf_relation r)
     \<and> list_all (\<lambda>(k, v). utf8_text k \<and> json_scalar v \<and> native_json v \<and> json_utf8 v) (rf_target_logical_identity r)"
    by blast
next
  assume *: "utf8_text (rf_relation r)
     \<and> list_all (\<lambda>(k, v). utf8_text k \<and> json_scalar v \<and> native_json v \<and> json_utf8 v) (rf_target_logical_identity r)"
  then have "strict_identity (rf_target_logical_identity r) = Some (rf_target_logical_identity r)"
    unfolding strict_identity_def by (intro opt_map_same) (auto simp: list_all_iff strict_scalar_same)
  with * show "strict_ref r" by (simp add: strict_ref_def strict_reference_def)
qed

subsection \<open>Keys\<close>

definition key_of :: "record_reference \<Rightarrow> reference_order" where
  "key_of r = (case reference_key r of Inr key \<Rightarrow> key | Inl _ \<Rightarrow> ([], [], []))"

lemma strict_key: "strict_ref r \<Longrightarrow> reference_key r = Inr (key_of r)"
proof -
  assume "strict_ref r"
  then have "native_json (identity_json (rf_target_logical_identity r))"
    by (auto simp: strict_ref_iff identity_json_native list_all_iff)
  from json_dumps_native(1)[OF this] show ?thesis by (auto simp: key_of_def reference_key_def)
qed

lemma sort_pairs: "map snd (sort_key fst (map (\<lambda>r. (f r, r)) rs)) = sort_key f rs"
proof -
  have insort: "map snd (insort_key fst (f r, r) ps) = insort_key f r (map snd ps)"
    if "\<forall>(k, x)\<in>set ps. k = f x" for r ps
    using that by (induction ps) auto
  have "\<forall>(k, x)\<in>set (sort_key fst (map (\<lambda>r. (f r, r)) xs)). k = f x" for xs by auto
  then show ?thesis by (induction rs) (simp_all add: insort)
qed

lemma references_by_key_distinct:
  "distinct (map fst d) \<Longrightarrow>
   references_by_key False d refs = Inr d' \<longleftrightarrow>
     (\<exists>rs. list_all2 (\<lambda>x r. strict_reference x = Inr r) refs rs \<and> distinct (map fst d @ map key_of rs)
        \<and> d' = d @ map (\<lambda>r. (key_of r, r)) rs)"
proof (induction refs arbitrary: d)
  case (Cons x refs)
  show ?case
  proof (cases "strict_reference x")
    case (Inr r)
    then have key: "reference_key r = Inr (key_of r)" by (simp add: strict_key strict_reference_Inr(1))
    show ?thesis
    proof (cases "key_of r \<in> set (map fst d)")
      case True
      with Inr key show ?thesis by (auto simp: list_all2_Cons1)
    next
      case False
      then have d: "dict_set d (key_of r) r = d @ [(key_of r, r)]" by (simp add: dict_set_fresh)
      with False Cons.prems have "distinct (map fst (dict_set d (key_of r) r))" by simp
      note IH = Cons.IH[OF this]
      have shift: "(\<exists>rs. list_all2 (\<lambda>x r. strict_reference x = Inr r) (x # refs) rs \<and> Q rs) \<longleftrightarrow>
          (\<exists>rs. list_all2 (\<lambda>x r. strict_reference x = Inr r) refs rs \<and> Q (r # rs))" for Q
        using Inr by (auto simp: list_all2_Cons1)
      have "references_by_key False d (x # refs) = Inr d' \<longleftrightarrow>
          references_by_key False (dict_set d (key_of r) r) refs = Inr d'"
        using False Inr key by simp
      also have "\<dots> \<longleftrightarrow> (\<exists>rs. list_all2 (\<lambda>x r. strict_reference x = Inr r) refs rs
          \<and> distinct (map fst d @ map key_of (r # rs)) \<and> d' = d @ map (\<lambda>r. (key_of r, r)) (r # rs))"
        by (subst IH) (simp add: d)
      also have "\<dots> \<longleftrightarrow> (\<exists>rs. list_all2 (\<lambda>x r. strict_reference x = Inr r) (x # refs) rs
          \<and> distinct (map fst d @ map key_of rs) \<and> d' = d @ map (\<lambda>r. (key_of r, r)) rs)"
        unfolding shift ..
      finally show ?thesis .
    qed
  qed (simp add: list_all2_Cons1)
qed auto

lemma normalize_False_Inr:
  "normalize_references False refs = Inr ys \<longleftrightarrow>
     (\<exists>rs. list_all2 (\<lambda>x r. strict_reference x = Inr r) refs rs \<and> distinct (map key_of rs) \<and> ys = sort_key key_of rs)"
  unfolding normalize_references_def res_bind_Inr_iff references_by_key_distinct[of "[]", simplified]
  by (auto simp: sort_pairs)

lemma normalize_exact:
  assumes "list_all strict_ref rs"
  shows "normalize_references False (exact_references rs) = Inr ys \<longleftrightarrow>
     distinct (map key_of rs) \<and> ys = sort_key key_of rs"
proof -
  have "list_all2 (\<lambda>x r. strict_reference x = Inr r) (exact_references rs) rs' \<longleftrightarrow> rs' = rs" for rs'
    using assms by (induction rs arbitrary: rs') (auto simp: list_all2_Cons1 strict_ref_def)
  then show ?thesis by (auto simp: normalize_False_Inr)
qed

text \<open>A normalized list holds strict references in increasing order of their keys.\<close>

lemma references_by_key_wf:
  "references_by_key collapse d refs = Inr d' \<Longrightarrow> distinct (map fst d) \<Longrightarrow> \<forall>(k, r)\<in>set d. strict_ref r \<and> k = key_of r \<Longrightarrow>
   distinct (map fst d') \<and> (\<forall>(k, r)\<in>set d'. strict_ref r \<and> k = key_of r)"
proof (induction refs arbitrary: d)
  case (Cons x refs)
  from Cons.prems(1) obtain r key where r: "strict_reference x = Inr r" "reference_key r = Inr key"
    "references_by_key collapse (dict_set d key r) refs = Inr d'"
    by (auto simp: res_bind_Inr_iff)
  have strict: "strict_ref r" "key = key_of r"
    using strict_reference_Inr(1)[OF r(1)] strict_key r(2) by auto
  have "\<forall>(k, r)\<in>set (dict_set d key r). strict_ref r \<and> k = key_of r"
    using Cons.prems(3) strict by (auto simp: dict_set_def split: if_splits)
  with Cons.IH[OF r(3) distinct_dict_set[OF Cons.prems(2)]] show ?case by blast
qed simp

lemma normalized_references:
  assumes "normalize_references collapse refs = Inr ys"
  shows "list_all strict_ref ys" "sorted (map key_of ys)" "distinct (map key_of ys)"
proof -
  obtain d where d: "references_by_key collapse [] refs = Inr d" "ys = map snd (sort_key fst d)"
    using assms by (auto simp: normalize_references_def res_bind_Inr_iff)
  note wf = references_by_key_wf[OF d(1)]
  have pairs: "\<forall>(k, r)\<in>set d. strict_ref r \<and> k = key_of r" "distinct (map fst d)" using wf by simp_all
  have keys: "map key_of ys = map fst (sort_key fst d)" unfolding d(2) using pairs(1) by auto
  show "list_all strict_ref ys" using pairs(1) by (auto simp: d(2) list_all_iff)
  show "sorted (map key_of ys)" unfolding keys by simp
  have "mset (map fst (sort_key fst d)) = mset (map fst d)" by simp
  with pairs(2) show "distinct (map key_of ys)" unfolding keys by (metis mset_eq_imp_distinct_iff)
qed

lemma normalize_fixed:
  assumes "normalize_references collapse refs = Inr ys"
  shows "normalize_references False (exact_references ys) = Inr ys"
  using normalized_references[OF assms] by (simp add: normalize_exact sort_key_id_if_sorted)

lemma normalize_perm:
  assumes "normalize_references False (exact_references xs) = Inr ys" "list_all strict_ref xs"
  shows "mset ys = mset xs" "distinct (map key_of xs)"
  using assms by (auto simp: normalize_exact)

section \<open>An envelope and its JSON form\<close>

text \<open>
  Envelopes whose values are native JSON that UTF-8 can carry are written to JSON and read back
  unchanged; the codec only builds such envelopes (\<open>Codec_Facts\<close>).
\<close>

definition stored_identity :: "identity_pairs \<Rightarrow> bool" where
  "stored_identity i \<longleftrightarrow> list_all (\<lambda>(k, v). utf8_text k \<and> json_scalar v \<and> native_json v \<and> json_utf8 v) i"

definition stored_data :: "json_object \<Rightarrow> bool" where
  "stored_data d \<longleftrightarrow> native_json (JDict d) \<and> json_utf8 (JDict d)"

definition stored_child :: "logical_child_payload \<Rightarrow> bool" where
  "stored_child c \<longleftrightarrow> stored_identity (lc_parent_logical_identity c) \<and> stored_identity (lc_logical_identity c)
     \<and> stored_data (lc_data c)"

definition stored_envelope :: "persistence_envelope \<Rightarrow> bool" where
  "stored_envelope e \<longleftrightarrow> utf8_text (pe_record_schema_version e) \<and> stored_identity (pe_logical_identity e)
     \<and> opt_all utf8_text (pe_direct_owner_customer_id e) \<and> list_all strict_ref (pe_record_references e)
     \<and> utf8_text (vp_record_schema_version (pe_payload e)) \<and> stored_data (vp_data (pe_payload e))
     \<and> list_all stored_child (vp_logical_children (pe_payload e))"

subsection \<open>Texts\<close>

lemma utf8_codes [simp]: "utf8_text (record_code_text code)" "utf8_text (child_code_text child)"
  by (cases code; simp) (cases child; simp)

lemma record_code_round_trip [simp]: "record_code_of_text (record_code_text code) = Some code"
  by (cases code) (simp_all add: record_code_of_text_def record_codes_def)

lemma record_code_text_inj [simp]: "record_code_text a = record_code_text b \<longleftrightarrow> a = b"
  by (metis record_code_round_trip option.inject)

lemma child_code_round_trip [simp]: "child_code_of_text (child_code_text code) = Some code"
  by (cases code) (simp_all add: child_code_of_text_def child_codes_def)

lemma utf8_list: "json_utf8_list xs \<longleftrightarrow> list_all json_utf8 xs"
  by (induction xs) auto

lemma utf8_items: "json_utf8_items kvs \<longleftrightarrow> list_all (\<lambda>(k, v). utf8_text k \<and> json_utf8 v) kvs"
  by (induction kvs) auto

lemma thaw_stored: "stored_data d \<Longrightarrow> thaw_object d = Inr d"
  by (simp add: stored_data_def thaw_object_def thaw_native dict_of_items_distinct)

subsection \<open>Parts\<close>

lemma identity_round_trip: "stored_identity i \<Longrightarrow>
    opt_map identity_pair_of_json (map (\<lambda>(k, v). JList [JStr k, v]) i) = Some i"
  by (induction i) (auto simp: stored_identity_def identity_pair_of_json_def)

lemma identity_field_json: "map_of d (str f) = Some (identity_json i) \<Longrightarrow> stored_identity i \<Longrightarrow>
    identity_field d f = Some i"
  by (simp add: identity_field_def identity_json_def identity_round_trip)

lemma identity_json_stored: "stored_identity i \<Longrightarrow> native_json (identity_json i) \<and> json_utf8 (identity_json i)"
  by (auto simp: identity_json_def utf8_list native_list stored_identity_def list_all_iff)

lemma strict_ref_stored: "strict_ref r \<Longrightarrow> stored_identity (rf_target_logical_identity r) \<and> utf8_text (rf_relation r)"
  by (simp add: strict_ref_iff stored_identity_def)

lemma reference_round_trip: "strict_ref r \<Longrightarrow> reference_of_json (reference_json r) = Some r"
  by (simp add: strict_ref_iff reference_json_def reference_of_json_def fields_declared_def text_field_def
      identity_field_json stored_identity_def)

lemma child_round_trip: "stored_child c \<Longrightarrow> child_payload_of_json (child_payload_json c) = Some c"
  by (simp add: stored_child_def child_payload_json_def child_payload_of_json_def fields_declared_def text_field_def
      identity_field_json data_field_def thaw_stored)

lemma opt_map_round_trip:
  "list_all P xs \<Longrightarrow> (\<And>x. P x \<Longrightarrow> g (f x) = Some x) \<Longrightarrow> opt_map g (map f xs) = Some xs"
  by (induction xs) auto

lemma payload_round_trip:
  "stored_data (vp_data p) \<Longrightarrow> list_all stored_child (vp_logical_children p) \<Longrightarrow>
   payload_of_json (payload_json p) = Inr p"
  by (simp add: payload_json_def payload_of_json_def fields_declared_def text_field_def children_field_def
      data_field_def thaw_stored opt_map_round_trip[of stored_child _ child_payload_of_json child_payload_json, OF _ child_round_trip])

lemma envelope_round_trip:
  assumes "stored_envelope e"
  shows "envelope_of_json (envelope_json e) = Inr e"
proof -
  have refs: "opt_map reference_of_json (map reference_json (pe_record_references e)) = Some (pe_record_references e)"
    using assms by (intro opt_map_round_trip[of strict_ref] reference_round_trip) (auto simp: stored_envelope_def)
  have payload: "payload_of_json (payload_json (pe_payload e)) = Inr (pe_payload e)"
    using assms by (intro payload_round_trip) (auto simp: stored_envelope_def)
  have owner: "owner_field [(k1, v1), (k2, v2), (k3, v3), (str ''direct_owner_customer_id'', opt_json JStr owner), x, y] = Some owner"
    if "k1 \<noteq> str ''direct_owner_customer_id''" "k2 \<noteq> str ''direct_owner_customer_id''"
      "k3 \<noteq> str ''direct_owner_customer_id''" for k1 k2 k3 v1 v2 v3 x y owner
    using that by (cases owner) (simp_all add: owner_field_def opt_json_def)
  show ?thesis
    using assms
    by (simp add: envelope_json_def envelope_of_json_def payload fields_declared_def text_field_def
        identity_field_json owner references_field_def refs stored_envelope_def)
qed

lemma stored_native:
  assumes "stored_envelope e"
  shows "envelope_has_native_json e" "json_utf8 (envelope_json e)"
proof -
  have ident: "stored_identity i \<Longrightarrow> native_logical_identity i" for i
    by (auto simp: stored_identity_def native_logical_identity_def list_all_iff)
  show "envelope_has_native_json e"
    using assms ident strict_ref_stored
    by (auto simp: stored_envelope_def envelope_has_native_json_def stored_child_def stored_data_def list_all_iff)
  have ref: "strict_ref r \<Longrightarrow> json_utf8 (reference_json r)" for r
    using identity_json_stored[of "rf_target_logical_identity r"]
    by (simp add: strict_ref_iff reference_json_def stored_identity_def)
  have child: "stored_child c \<Longrightarrow> json_utf8 (child_payload_json c)" for c
    using identity_json_stored by (simp add: stored_child_def child_payload_json_def stored_data_def)
  have owner: "opt_all utf8_text x \<Longrightarrow> json_utf8 (opt_json JStr x)" for x
    by (cases x) (simp_all add: opt_json_def)
  show "json_utf8 (envelope_json e)"
    using assms identity_json_stored ref child owner
    by (auto simp: stored_envelope_def envelope_json_def payload_json_def utf8_list list_all_iff stored_data_def)
qed

subsection \<open>Python equality of a value with itself\<close>

lemma py_eq_entries_same:
  "distinct (map fst (a @ b)) \<Longrightarrow> set seen \<inter> fst ` set b = {} \<Longrightarrow> \<forall>(k, v)\<in>set b. py_eq v v \<Longrightarrow>
   py_eq_entries seen b (a @ b)"
proof (induction b arbitrary: a seen)
  case (Cons x b)
  obtain k v where x: "x = (k, v)" by (cases x)
  have "map_of (a @ x # b) k = Some v"
  proof -
    have "map_of a k = None" using Cons.prems(1) x by (simp add: map_of_eq_None_iff)
    then show ?thesis using x by (simp add: map_add_def)
  qed
  moreover have "py_eq_entries (k # seen) b ((a @ [x]) @ b)"
    using Cons.prems x by (intro Cons.IH) auto
  ultimately show ?case using Cons.prems x by simp
qed simp

lemma py_eq_refl:
  "native_json v \<Longrightarrow> py_eq v v" "native_json_list xs \<Longrightarrow> py_eq_list xs xs"
  "native_json_items kvs \<Longrightarrow> \<forall>(k, v)\<in>set kvs. py_eq v v"
proof (induction v and xs and kvs rule: native_json_native_json_list_native_json_items.induct)
  case (1 f)
  then show ?case by (cases f) (simp_all add: num_value_def isfinite_def)
next
  case (2 kvs)
  then show ?case using py_eq_entries_same[of "[]" kvs "[]"] by simp
qed (auto simp: num_value_def)

lemma identity_eq_refl: "stored_identity i \<Longrightarrow> identity_eq i i"
  by (induction i) (auto simp: stored_identity_def identity_eq_def py_eq_refl)

lemma compare_same:
  assumes "stored_envelope e"
  shows "compare_envelopes e e b = Inr ()"
proof -
  have "list_all2 reference_eq (pe_record_references e) (pe_record_references e)"
    using assms identity_eq_refl strict_ref_stored
    by (auto simp: stored_envelope_def list_all2_same list_all_iff reference_eq_def)
  moreover have "list_all2 child_payload_eq (vp_logical_children (pe_payload e)) (vp_logical_children (pe_payload e))"
    using assms identity_eq_refl py_eq_refl(1)[of "JDict d" for d]
    by (fastforce simp: stored_envelope_def list_all2_same list_all_iff child_payload_eq_def stored_child_def stored_data_def
        simp del: py_eq.simps)
  ultimately show ?thesis
    using assms identity_eq_refl py_eq_refl(1)[of "JDict (vp_data (pe_payload e))"]
    by (auto simp: compare_envelopes_def stored_envelope_def stored_data_def simp del: py_eq.simps)
qed
end
