(* ===== verification/Codec_Facts.thy ===== *)
theory Codec_Facts
  imports Envelope_Facts
begin

section \<open>What the codec builds\<close>

text \<open>
  The codec in isolation from pydantic: the law it relies on, the projection tables against the JSON forms of the records, and the steps that only raise the codec's own signals.
\<close>

subsection \<open>What it relies on\<close>

text \<open>
  \<open>valid_source\<close>: the validators of the class accept the record. \<open>reads_back\<close>: its JSON form is native
  JSON that UTF-8 can carry and validates to the same record. \<open>pydantic_law\<close> is what the codec relies
  on pydantic for: a record that validation returns is of the class, valid, and reads back.
\<close>

fun valid_source :: "source_record \<Rightarrow> bool" where
  "valid_source (ConversationSource r) = accepts new_conversation_record r"
| "valid_source (MessageSource r) = accepts new_message_record r"
| "valid_source (TaskSource r) = accepts new_task_record r"
| "valid_source (RequestUnitSource r) = accepts new_request_unit_record r"
| "valid_source (ConversationTaskLinkSource r) = accepts new_conversation_task_link_record r"
| "valid_source (RunTaskLinkSource r) = accepts new_run_task_link_record r"
| "valid_source (InputBindingSource r) = accepts new_input_binding r"
| "valid_source (ToolsetArtifactSource r) = accepts new_toolset_artifact r"
| "valid_source (AgentRunSource r) = accepts new_agent_run_record r"
| "valid_source (GateDecisionSource r) = accepts new_gate_decision r"
| "valid_source (ToolCallSource r) = accepts new_tool_call_record r"
| "valid_source (ObservationSource r) = accepts new_order_observation r"
| "valid_source (ContextManifestSource r) = accepts new_context_manifest r"
| "valid_source (TraceEventSource r) = accepts new_trace_event r"
| "valid_source (EvalResultSource r) = accepts new_eval_result_record r"
| "valid_source (EvalFailureSource r) = accepts new_eval_execution_failure_record r"
| "valid_source (RequestUnderstandingSource r) = canonical_ru_record r"
| "valid_source (TransitionSource r) = accepts new_task_state_transition r"
| "valid_source (AttemptSource r) = accepts new_tool_attempt_record r"
| "valid_source (AcceptedDeltaSource r) = accepts new_accepted_task_delta r"

definition reads_back :: "pydantic \<Rightarrow> source_record \<Rightarrow> bool" where
  "reads_back pyd r \<longleftrightarrow> (case model_dump (p_writer pyd) r of
      Inl _ \<Rightarrow> False
    | Inr data \<Rightarrow> stored_data data \<and> p_validate pyd (class_of r) data = Some r)"

definition pydantic_law :: "pydantic \<Rightarrow> bool" where
  "pydantic_law pyd \<longleftrightarrow> (\<forall>m data r. p_validate pyd m data = Some r \<longrightarrow>
     class_of r = m \<and> valid_source r \<and> reads_back pyd r)"

lemma reads_backE:
  assumes "reads_back pyd r"
  obtains data where "model_dump (p_writer pyd) r = Inr data" "stored_data data"
    "p_validate pyd (class_of r) data = Some r" "dumped pyd r = Inr data" "payload_data data = Inr data"
    "revalidated pyd (class_of r) r = Some r"
  using assms thaw_stored
  by (auto simp: reads_back_def dumped_def payload_data_def revalidated_def split: sum.splits)

lemma law_revalidated:
  "pydantic_law pyd \<Longrightarrow> revalidated pyd m r = Some v \<Longrightarrow> class_of v = m \<and> valid_source v \<and> reads_back pyd v"
  by (auto simp: pydantic_law_def revalidated_def split: sum.splits)

lemma law_revalidated_object:
  "pydantic_law pyd \<Longrightarrow> revalidated_object pyd m x = Some v \<Longrightarrow> class_of v = m \<and> valid_source v \<and> reads_back pyd v"
proof (cases x)
  case (PartialObject p)
  assume law: "pydantic_law pyd" and "revalidated_object pyd m x = Some v"
  then obtain data where "p_validate pyd m data = Some v"
    by (auto simp: PartialObject revalidated_object_def bind_eq_Some_conv)
  with law show ?thesis unfolding pydantic_law_def by blast
qed (simp_all add: revalidated_object_def law_revalidated)

lemma model_object [simp]:
  "object_class (ModelObject r extra) = Some (class_of r)"
  "revalidated_object pyd m (ModelObject r extra) = revalidated pyd m r"
  "object_class NotAModel = None" "revalidated_object pyd m NotAModel = None"
  "object_class (PartialObject p) = Some (po_class p)"
  by (simp_all add: object_class_def revalidated_object_def)

lemma stored_member: "stored_data data \<Longrightarrow> map_of data f = Some v \<Longrightarrow> native_json v \<and> json_utf8 v \<and> utf8_text f"
  by (drule map_of_SomeD) (auto simp: stored_data_def native_json_items_iff utf8_items list_all_iff)

subsection \<open>The tables fit the records\<close>

lemma registry_code: "NON_RU_REGISTRY code = Some spec \<Longrightarrow> ss_record_code spec = code"
  by (cases code) (auto simp: record_spec_def)

lemma registry_total: "code \<noteq> REQUEST_UNDERSTANDING_RECORD \<Longrightarrow> \<exists>spec. NON_RU_REGISTRY code = Some spec"
  by (cases code) auto

lemmas record_data_defs = conversation_record_data_def message_record_data_def task_record_data_def
  request_unit_record_data_def conversation_task_link_record_data_def run_task_link_record_data_def
  input_binding_data_def agent_run_record_data_def gate_decision_data_def tool_call_record_data_def
  order_observation_data_def context_manifest_data_def trace_event_data_def eval_result_record_data_def
  eval_execution_failure_record_data_def task_state_transition_data_def tool_attempt_record_data_def
  accepted_task_delta_data_def ru_record_data_def

lemma dumped_iff: "dumped pyd r = Inr data \<longleftrightarrow> model_dump (p_writer pyd) r = Inr data"
  by (simp add: dumped_def split: sum.splits)

lemma class_of_iff:
  "class_of r = ConversationModel \<longleftrightarrow> (\<exists>x. r = ConversationSource x)"
  "class_of r = MessageModel \<longleftrightarrow> (\<exists>x. r = MessageSource x)"
  "class_of r = TaskModel \<longleftrightarrow> (\<exists>x. r = TaskSource x)"
  "class_of r = RequestUnitModel \<longleftrightarrow> (\<exists>x. r = RequestUnitSource x)"
  "class_of r = ConversationTaskLinkModel \<longleftrightarrow> (\<exists>x. r = ConversationTaskLinkSource x)"
  "class_of r = RunTaskLinkModel \<longleftrightarrow> (\<exists>x. r = RunTaskLinkSource x)"
  "class_of r = InputBindingModel \<longleftrightarrow> (\<exists>x. r = InputBindingSource x)"
  "class_of r = ToolsetArtifactModel \<longleftrightarrow> (\<exists>x. r = ToolsetArtifactSource x)"
  "class_of r = AgentRunModel \<longleftrightarrow> (\<exists>x. r = AgentRunSource x)"
  "class_of r = GateDecisionModel \<longleftrightarrow> (\<exists>x. r = GateDecisionSource x)"
  "class_of r = ToolCallModel \<longleftrightarrow> (\<exists>x. r = ToolCallSource x)"
  "class_of r = ObservationModel \<longleftrightarrow> (\<exists>x. r = ObservationSource x)"
  "class_of r = ContextManifestModel \<longleftrightarrow> (\<exists>x. r = ContextManifestSource x)"
  "class_of r = TraceEventModel \<longleftrightarrow> (\<exists>x. r = TraceEventSource x)"
  "class_of r = EvalResultModel \<longleftrightarrow> (\<exists>x. r = EvalResultSource x)"
  "class_of r = EvalFailureModel \<longleftrightarrow> (\<exists>x. r = EvalFailureSource x)"
  "class_of r = RequestUnderstandingModel \<longleftrightarrow> (\<exists>x. r = RequestUnderstandingSource x)"
  "class_of r = TransitionModel \<longleftrightarrow> (\<exists>x. r = TransitionSource x)"
  "class_of r = AttemptModel \<longleftrightarrow> (\<exists>x. r = AttemptSource x)"
  "class_of r = AcceptedDeltaModel \<longleftrightarrow> (\<exists>x. r = AcceptedDeltaSource x)"
  by (cases r; simp)+

text \<open>The fields that identify a record are scalars of its JSON form.\<close>

definition scalar_fields :: "json_object \<Rightarrow> pystr list \<Rightarrow> bool" where
  "scalar_fields data fs \<longleftrightarrow> list_all (\<lambda>f. case map_of data f of None \<Rightarrow> False | Some v \<Rightarrow> json_scalar v) fs"

lemma scalar_opt_json [simp]: "(\<And>x. json_scalar (f x)) \<Longrightarrow> json_scalar (opt_json f v)"
  by (cases v) (simp_all add: opt_json_def json_scalar_def)

lemma scalar_values [simp]:
  "json_scalar (uuid_json u)" "json_scalar (time_json w d)" "json_scalar (JStr s)" "json_scalar (JInt i)"
  by (simp_all add: uuid_json_def time_json_def json_scalar_def)

lemma identity_fields_scalar:
  "NON_RU_REGISTRY code = Some spec \<Longrightarrow> class_of r = ss_source_model spec \<Longrightarrow> model_dump w r = Inr data \<Longrightarrow>
   scalar_fields data (ss_identity_fields spec)"
  by (cases code)
    (auto simp: record_spec_def class_of_iff scalar_fields_def record_data_defs toolset_artifact_data_def res_bind_Inr_iff)

lemma child_identity_fields_scalar:
  "class_of r = cs_source_model (LOGICAL_CHILD_SPECS code) \<Longrightarrow> model_dump w r = Inr data \<Longrightarrow>
   scalar_fields data (cs_identity_fields (LOGICAL_CHILD_SPECS code))"
  by (cases code) (auto simp: class_of_iff scalar_fields_def record_data_defs)

lemma scalar_fields_identity:
  assumes "scalar_fields data fs" "stored_data data"
  shows "\<exists>i. opt_map (\<lambda>f. map_option (Pair f) (map_of data f)) fs = Some i \<and> stored_identity i"
  using assms(1)
proof (induction fs)
  case (Cons f fs)
  then obtain v i where "map_of data f = Some v" "json_scalar v"
    "opt_map (\<lambda>f. map_option (Pair f) (map_of data f)) fs = Some i" "stored_identity i"
    by (auto simp: scalar_fields_def split: option.splits)
  with stored_member[OF assms(2)] show ?case by (auto simp: stored_identity_def)
qed (simp add: stored_identity_def)

lemma logical_identity_stored:
  assumes "reads_back pyd r" "\<And>data. model_dump (p_writer pyd) r = Inr data \<Longrightarrow> scalar_fields data fs"
  shows "\<exists>i. logical_identity pyd r fs = Inr i \<and> stored_identity i"
proof -
  from assms(1) obtain data where data: "model_dump (p_writer pyd) r = Inr data" "stored_data data" "dumped pyd r = Inr data"
    by (rule reads_backE)
  with scalar_fields_identity[OF assms(2)[OF data(1)] data(2)] show ?thesis
    by (auto simp: logical_identity_def)
qed

subsection \<open>Projected values are texts\<close>

definition is_text :: "json \<Rightarrow> bool" where
  "is_text v \<longleftrightarrow> (\<exists>s. v = JStr s)"

definition text_values :: "projector \<Rightarrow> json_object \<Rightarrow> bool" where
  "text_values project data \<longleftrightarrow> (\<exists>vs. project data = Some vs \<and> list_all is_text vs)"

lemma is_text_simps [simp]:
  "is_text (JStr s)" "is_text (uuid_json u)" "is_text (time_json w d)" "\<not> is_text JNull" "\<not> is_text (JDict kvs)"
  by (auto simp: is_text_def uuid_json_def time_json_def)

lemma opt_json_text [simp]: "(\<And>x. is_text (f x)) \<Longrightarrow> opt_json f v = JNull \<or> is_text (opt_json f v)"
  by (cases v) (simp_all add: opt_json_def)

lemma opt_map_texts:
  "list_all (\<lambda>x. \<exists>v. f x = Some v \<and> is_text v) xs \<longleftrightarrow> (\<exists>vs. opt_map f xs = Some vs \<and> list_all is_text vs)"
  by (induction xs) (auto split: option.splits)

lemma text_one: "text_values (project_one f) data \<longleftrightarrow> (\<exists>v. map_of data f = Some v \<and> is_text v)"
  by (auto simp: text_values_def project_one_def)

lemma text_optional:
  "text_values (project_optional f) data \<longleftrightarrow> (\<exists>v. map_of data f = Some v \<and> (v = JNull \<or> is_text v))"
  by (cases "map_of data f") (auto simp: text_values_def project_optional_def)

lemma text_many:
  "text_values (project_many f) data \<longleftrightarrow> (\<exists>vs. map_of data f = Some (JList vs) \<and> list_all is_text vs)"
  by (auto simp: text_values_def project_many_def split: option.splits json.splits)

lemma text_nested_many:
  "text_values (project_nested_many f g) data \<longleftrightarrow>
     (\<exists>items. map_of data f = Some (JList items) \<and> list_all (\<lambda>x. \<exists>v. json_member g x = Some v \<and> is_text v) items)"
  by (auto simp: text_values_def project_nested_many_def opt_map_texts split: option.splits json.splits)

lemma text_nested_optional:
  "map_of data f = Some JNull \<or> (\<exists>d v. map_of data f = Some (JDict d) \<and> map_of d g = Some v \<and> is_text v) \<Longrightarrow>
   text_values (project_nested_optional f g) data"
  by (auto simp: text_values_def project_nested_optional_def json_member_def)

lemma text_combined: "text_values (project_combined ps) data \<longleftrightarrow> list_all (\<lambda>p. text_values p data) ps"
proof -
  have "(\<exists>vss. opt_map (\<lambda>p. p data) ps = Some vss \<and> list_all is_text (concat vss)) \<longleftrightarrow> list_all (\<lambda>p. text_values p data) ps"
    by (induction ps) (auto simp: text_values_def split: option.splits)
  then show ?thesis by (auto simp: text_values_def project_combined_def)
qed

lemma text_context_refs:
  "text_values request_understanding_v2_context_source_refs data \<longleftrightarrow>
     (\<exists>c. map_of data (str ''contextualization'') = Some (JDict c) \<and> text_values (project_many (str ''source_message_refs'')) c)"
  by (auto simp: text_values_def request_understanding_v2_context_source_refs_def split: option.splits json.splits)

lemma text_resolved_refs:
  "text_values request_understanding_v2_resolved_source_refs data \<longleftrightarrow>
     (\<exists>c. map_of data (str ''contextualization'') = Some (JDict c)
        \<and> text_values (project_nested_many (str ''resolved_reference_candidates'') (str ''source_ref'')) c)"
  by (auto simp: text_values_def request_understanding_v2_resolved_source_refs_def split: option.splits json.splits)

lemma text_input_refs:
  "map_of data (str ''task_delta_candidates'') = Some (JList (map (\<lambda>c. JDict (f c)) cs)) \<Longrightarrow>
   list_all (\<lambda>c. text_values (project_nested_many (str ''input_candidates'') (str ''source_ref'')) (f c)) cs \<Longrightarrow>
   text_values request_understanding_v2_input_source_refs data"
proof -
  assume m: "map_of data (str ''task_delta_candidates'') = Some (JList (map (\<lambda>c. JDict (f c)) cs))"
  assume "list_all (\<lambda>c. text_values (project_nested_many (str ''input_candidates'') (str ''source_ref'')) (f c)) cs"
  then have "\<exists>vss. opt_map (\<lambda>candidate. case candidate of
        JDict c \<Rightarrow> project_nested_many (str ''input_candidates'') (str ''source_ref'') c | _ \<Rightarrow> None)
      (map (\<lambda>c. JDict (f c)) cs) = Some vss \<and> list_all is_text (concat vss)"
    by (induction cs) (auto simp: text_values_def)
  with m show ?thesis by (auto simp: text_values_def request_understanding_v2_input_source_refs_def)
qed

lemmas text_projectors = text_one text_optional text_many text_nested_many text_combined
  text_context_refs text_resolved_refs

lemma texts_of_map [simp]: "(\<And>x. is_text (f x)) \<Longrightarrow> list_all is_text (map f xs)"
  by (induction xs) auto

lemma members_of_map [simp]:
  "(\<And>x. \<exists>v. json_member g (f x) = Some v \<and> is_text v) \<Longrightarrow>
   list_all (\<lambda>x. \<exists>v. json_member g x = Some v \<and> is_text v) (map f xs)"
  by (induction xs) auto

text \<open>A rule projects texts, except one that demands emptiness.\<close>

definition rule_fits :: "json_object \<Rightarrow> projection_decision \<Rightarrow> bool" where
  "rule_fits data rule \<longleftrightarrow> (case pd_value_projector rule of
      None \<Rightarrow> True
    | Some project \<Rightarrow> text_values project data
        \<or> pd_classification rule = P0_FIRST_SLICE_MUST_BE_EMPTY \<and> \<not> pd_unique rule \<and> project data \<noteq> None)"

lemma evidence_projects:
  "map_of data f = Some (JList xs) \<Longrightarrow> map_of data g = Some (JList ys) \<Longrightarrow>
   \<exists>vs. project_combined [project_many f, project_many g] data = Some vs"
  by (simp add: project_combined_def project_many_def)

lemmas table_defs = decision_def conversation_record_rules_def message_record_rules_def task_record_rules_def
  request_unit_record_rules_def conversation_task_link_record_rules_def run_task_link_record_rules_def
  input_binding_record_rules_def model_visible_toolset_artifact_rules_def agent_run_record_rules_def
  gate_decision_record_rules_def tool_call_record_rules_def observation_record_rules_def
  context_manifest_record_rules_def trace_event_record_rules_def eval_result_record_rules_def
  eval_execution_failure_record_rules_def request_understanding_record_rules_def task_state_transition_rules_def
  tool_attempt_record_rules_def accepted_task_delta_rules_def

lemma nested_task_ref: "text_values (project_nested_optional (str ''task_state_ref_and_version'') (str ''task_id''))
    (context_manifest_data w m)"
  by (rule text_nested_optional)
    (cases "cm_task_state_ref_and_version m"; simp add: context_manifest_data_def opt_json_def task_state_ref_and_version_data_def)

lemma rules_fit:
  "NON_RU_REGISTRY code = Some spec \<Longrightarrow> class_of r = ss_source_model spec \<Longrightarrow> model_dump w r = Inr data \<Longrightarrow>
   list_all (rule_fits data) (ss_projection_decisions spec)"
proof (cases code)
  case CONTEXT_MANIFEST_RECORD
  moreover assume "NON_RU_REGISTRY code = Some spec" "class_of r = ss_source_model spec" "model_dump w r = Inr data"
  ultimately obtain m where m: "ss_projection_decisions spec = context_manifest_record_rules" "data = context_manifest_data w m"
    by (auto simp: record_spec_def class_of_iff)
  have "list_all (\<lambda>x. \<exists>v. json_member (str ''record_ref'') x = Some v \<and> is_text v)
      (map (\<lambda>v. JDict (versioned_record_ref_data v)) xs)"
    "list_all (\<lambda>x. \<exists>v. json_member (str ''source_ref'') x = Some v \<and> is_text v)
      (map (\<lambda>v. JDict (truncation_decision_data v)) ys)" for xs ys
    by (rule members_of_map; simp add: json_member_def versioned_record_ref_data_def truncation_decision_data_def)+
  then show ?thesis unfolding m
    using nested_task_ref[of w m]
    by (simp add: context_manifest_record_rules_def decision_def rule_fits_def text_projectors)
      (simp add: context_manifest_data_def evidence_projects)
qed (clarsimp simp: record_spec_def class_of_iff toolset_artifact_data_def res_bind_Inr_iff,
  simp add: table_defs rule_fits_def text_projectors record_data_defs)+

section \<open>The codec fails with its own errors only\<close>

text \<open>\<open>tame\<close>: a step returns or raises an integrity signal.\<close>

definition tame :: "codec_error + 'a \<Rightarrow> bool" where
  "tame m \<longleftrightarrow> (\<forall>e. m \<noteq> Inl (Uncaught e))"

named_theorems tame_steps

lemma tame_simps [simp]: "tame (Inr x)" "tame (signal c)" "\<not> tame (Inl (Uncaught e))"
  by (simp_all add: tame_def)

lemma tame_raise_if [tame_steps]: "tame (raise_if b (Signal c))"
  by (cases b) simp_all

lemma tame_bind [tame_steps]: "tame m \<Longrightarrow> (\<And>x. m = Inr x \<Longrightarrow> tame (f x)) \<Longrightarrow> tame (res_bind m f)"
  by (cases m) (auto simp: tame_def)

lemma tame_map [tame_steps]: "(\<And>x. x \<in> set xs \<Longrightarrow> tame (f x)) \<Longrightarrow> tame (res_map f xs)"
  by (induction xs) (auto simp: tame_def split: sum.splits)

lemma tame_if [tame_steps]: "(b \<Longrightarrow> tame m) \<Longrightarrow> (\<not> b \<Longrightarrow> tame n) \<Longrightarrow> tame (if b then m else n)"
  by simp

lemma tame_option [tame_steps]:
  "(x = None \<Longrightarrow> tame m) \<Longrightarrow> (\<And>y. x = Some y \<Longrightarrow> tame (f y)) \<Longrightarrow> tame (case x of None \<Rightarrow> m | Some y \<Rightarrow> f y)"
  by (cases x) simp_all

lemma tame_object [tame_steps]:
  "(x = Foreign \<Longrightarrow> tame m) \<Longrightarrow> (\<And>r extra. x = Obj r extra \<Longrightarrow> tame (f r extra)) \<Longrightarrow>
   tame (case x of Foreign \<Rightarrow> m | Obj r extra \<Rightarrow> f r extra)"
  by (cases x) simp_all

lemma tame_pair [tame_steps]: "(\<And>a b. p = (a, b) \<Longrightarrow> tame (f a b)) \<Longrightarrow> tame (case p of (a, b) \<Rightarrow> f a b)"
  by (cases p) simp

subsection \<open>References\<close>

lemma tame_strict_reference: "tame (strict_reference r)"
  by (auto simp: strict_reference_def split: pyobj.splits option.splits)

lemma tame_reference_key: "strict_ref r \<Longrightarrow> tame (reference_key r)"
  by (simp add: strict_key)

lemma tame_references_by_key: "tame (references_by_key collapse d refs)"
proof (induction refs arbitrary: d)
  case (Cons r refs)
  show ?case
    unfolding references_by_key.simps
    by (intro tame_bind tame_strict_reference tame_reference_key tame_raise_if Cons.IH strict_reference_Inr(1))
qed simp

lemma tame_normalize: "tame (normalize_references collapse refs)"
  unfolding normalize_references_def by (intro tame_bind tame_references_by_key) simp

lemma registry_targets:
  "code \<noteq> REQUEST_UNDERSTANDING_RECORD \<Longrightarrow> \<exists>spec. NON_RU_REGISTRY code = Some spec"
  by (rule registry_total)

definition rule_targets :: "projection_decision \<Rightarrow> bool" where
  "rule_targets rule \<longleftrightarrow> pd_target_record_code rule \<noteq> Some REQUEST_UNDERSTANDING_RECORD"

lemma rules_target:
  "list_all rule_targets (TOP_LEVEL_PROJECTIONS code)"
  "list_all rule_targets (cs_projection_decisions (LOGICAL_CHILD_SPECS child))"
  by (cases code; simp add: table_defs rule_targets_def) (cases child; simp add: table_defs rule_targets_def)

lemma tame_reference_for_value:
  assumes "rule_targets rule" "json_scalar v" "native_json v"
  shows "tame (reference_for_value rule v)"
  using assms registry_total
  by (fastforce simp: reference_for_value_def rule_targets_def split: option.splits list.splits)

lemma tame_external:
  assumes "list_all rule_targets (external_rules spec)"
  shows "tame (validate_external_references spec refs)"
proof -
  have "tame (external_reference normalized rule)" if "rule \<in> set (external_rules spec)" for normalized rule
  proof (cases "filter (\<lambda>r. Some (rf_relation r) = pd_relation rule) normalized")
    case (Cons r rs)
    show ?thesis
    proof (cases "rs = [] \<and> Some (rf_target_record_code r) = pd_target_record_code rule")
      case True
      with that assms have "rf_target_record_code r \<noteq> REQUEST_UNDERSTANDING_RECORD"
        by (auto simp: rule_targets_def list_all_iff)
      with registry_total obtain target where "NON_RU_REGISTRY (rf_target_record_code r) = Some target" by blast
      with Cons True show ?thesis
        by (auto simp: external_reference_def canonical_target_identity_def intro!: tame_bind tame_raise_if)
    qed (use Cons in \<open>auto simp: external_reference_def split: list.splits\<close>)
  qed (simp add: external_reference_def)
  then show ?thesis
    unfolding validate_external_references_def by (intro tame_bind tame_normalize tame_raise_if tame_map)
qed

subsection \<open>Projections\<close>

lemma text_scalar: "is_text v \<Longrightarrow> json_scalar v \<and> native_json v"
  by (auto simp: is_text_def json_scalar_def)

lemma dumps_texts: "list_all is_text vs \<Longrightarrow> \<exists>ks. res_map json_dumps vs = Inr ks"
proof -
  assume "list_all is_text vs"
  then have "native_json_list vs" by (auto simp: native_list list_all_iff text_scalar)
  from json_dumps_native(2)[OF this] obtain ks where "json_dumps_list vs = Inr ks" ..
  moreover have "res_map json_dumps vs = json_dumps_list vs" by (induction vs) (auto split: sum.splits)
  ultimately show ?thesis by simp
qed

lemma projected_texts:
  assumes "rule_fits data rule"
  shows "tame (projected_values rule data)"
    and "projected_values rule data = Inr vs \<Longrightarrow> pd_classification rule \<noteq> P0_FIRST_SLICE_MUST_BE_EMPTY \<Longrightarrow> list_all is_text vs"
proof -
  show "tame (projected_values rule data)"
  proof (cases "pd_value_projector rule")
    case (Some project)
    with assms obtain ws where ws: "project data = Some ws" "pd_unique rule \<Longrightarrow> list_all is_text ws"
      by (auto simp: rule_fits_def text_values_def)
    then show ?thesis
      unfolding projected_values_def using Some dumps_texts[of ws]
      by (auto simp: res_bind_def raise_if_def tame_def split: sum.splits if_splits)
  qed (simp add: projected_values_def)
  show "list_all is_text vs" if "projected_values rule data = Inr vs"
    "pd_classification rule \<noteq> P0_FIRST_SLICE_MUST_BE_EMPTY"
    using that assms
    by (auto simp: projected_values_def rule_fits_def text_values_def res_bind_Inr_iff split: option.splits if_splits sum.splits)
qed

lemma tame_apply_rules:
  "list_all (rule_fits data) rules \<Longrightarrow> list_all rule_targets rules \<Longrightarrow> tame (apply_rules data acc rules)"
proof (induction rules arbitrary: acc)
  case (Cons rule rules)
  obtain owner refs where acc: "acc = (owner, refs)" by (cases acc)
  have texts: "list_all is_text vs" if "projected_values rule data = Inr vs"
    "pd_classification rule \<noteq> P0_FIRST_SLICE_MUST_BE_EMPTY" for vs
    using projected_texts(2)[of data rule] that Cons.prems(1) by simp
  have values_tame: "tame (res_map (reference_for_value rule) vs)" if "list_all is_text vs" for vs
    using that Cons.prems(2) by (intro tame_map tame_reference_for_value) (auto simp: list_all_iff text_scalar)
  have "tame (case pd_classification rule of
       DIRECT_OWNER \<Rightarrow>
         (case vs of [JStr owner] \<Rightarrow> apply_rules data (Some owner, refs) rules
          | _ \<Rightarrow> signal OWNER_PROJECTION_MISMATCH)
     | TOP_LEVEL_P0_REFERENCE \<Rightarrow>
         res_bind (res_map (reference_for_value rule) vs) (\<lambda>rs. apply_rules data (owner, refs @ rs) rules)
     | P0_FIRST_SLICE_MUST_BE_EMPTY \<Rightarrow>
         (if vs \<noteq> [] then signal LINK_CARDINALITY_MISMATCH else apply_rules data (owner, refs) rules)
     | _ \<Rightarrow> apply_rules data (owner, refs) rules)" if "projected_values rule data = Inr vs" for vs
  proof (cases "pd_classification rule")
    case TOP_LEVEL_P0_REFERENCE
    with Cons texts[OF that] show ?thesis by (auto intro!: tame_bind values_tame)
  qed (use Cons in \<open>auto split: list.splits json.splits\<close>)
  with Cons.prems(1) projected_texts(1) show ?case
    unfolding acc apply_rules.simps by (intro tame_bind) auto
qed simp

subsection \<open>Children\<close>

lemma child_rules_fit:
  "class_of r = cs_source_model (LOGICAL_CHILD_SPECS code) \<Longrightarrow> model_dump w r = Inr data \<Longrightarrow>
   list_all (rule_fits data) (cs_projection_decisions (LOGICAL_CHILD_SPECS code))"
  by (cases code) (auto simp: class_of_iff table_defs rule_fits_def text_projectors record_data_defs)

lemma request_understanding_rules_fit: "list_all (rule_fits (ru_record_data w r)) request_understanding_record_rules"
proof -
  let ?data = "ru_record_data w r"
  have contextualization: "map_of ?data (str ''contextualization'') = Some (JDict (durable_contextualization_data (rc_contextualization r)))"
    "map_of ?data (str ''task_delta_candidates'') = Some (JList (map (\<lambda>v. JDict (durable_task_delta_candidate_data v)) (rc_task_delta_candidates r)))"
    by (simp_all add: ru_record_data_def)
  have members: "list_all (\<lambda>x. \<exists>v. json_member (str ''source_ref'') x = Some v \<and> is_text v)
      (map (\<lambda>v. JDict (durable_resolved_reference_data v)) xs)"
    "list_all (\<lambda>x. \<exists>v. json_member (str ''source_ref'') x = Some v \<and> is_text v)
      (map (\<lambda>v. JDict (durable_input_candidate_data v)) ys)"
    "list_all (\<lambda>x. \<exists>v. json_member (str ''candidate_ref'') x = Some v \<and> is_text v)
      (map (\<lambda>v. JDict (candidate_validation_record_data v)) zs)" for xs ys zs
    by (rule members_of_map; simp add: json_member_def durable_resolved_reference_data_def
        durable_input_candidate_data_def candidate_validation_record_data_def)+
  have "text_values request_understanding_v2_resolved_source_refs ?data"
    "text_values request_understanding_v2_context_source_refs ?data"
    unfolding text_resolved_refs text_context_refs contextualization
    using members(1) by (simp_all add: text_nested_many text_many durable_contextualization_data_def)
  moreover have "text_values request_understanding_v2_input_source_refs ?data"
    by (rule text_input_refs[OF contextualization(2)])
      (use members(2) in \<open>simp add: list_all_iff text_nested_many durable_task_delta_candidate_data_def\<close>)
  moreover have "text_values (project_nested_many (str ''candidate_validation'') (str ''candidate_ref'')) ?data"
    unfolding text_nested_many using members(3) by (simp add: ru_record_data_def)
  ultimately show ?thesis
    by (simp add: request_understanding_record_rules_def decision_def rule_fits_def)
      (simp add: text_projectors ru_record_data_def)
qed

lemma tame_child_rules:
  "list_all (rule_fits data) rules \<Longrightarrow> list_all rule_targets rules \<Longrightarrow> tame (child_rules data rules)"
proof (induction rules)
  case (Cons rule rules)
  have "tame (res_map (reference_for_value rule) vs)"
    if "projected_values rule data = Inr vs" "pd_classification rule = CHILD_TOP_LEVEL_P0_REFERENCE" for vs
    using projected_texts(2)[of data rule vs] that Cons.prems
    by (intro tame_map tame_reference_for_value) (auto simp: list_all_iff text_scalar)
  with Cons projected_texts(1)[of data rule] show ?case
    unfolding child_rules.simps by (auto intro!: tame_bind tame_if)
qed simp

text \<open>A validated child of a family.\<close>

definition child_of :: "pydantic \<Rightarrow> child_code \<Rightarrow> source_record \<Rightarrow> bool" where
  "child_of pyd code r \<longleftrightarrow> class_of r = cs_source_model (LOGICAL_CHILD_SPECS code) \<and> reads_back pyd r"

lemma child_data:
  assumes "child_of pyd code r"
  obtains data i where "dumped pyd r = Inr data" "payload_data data = Inr data" "stored_data data"
    "logical_identity pyd r (cs_identity_fields (LOGICAL_CHILD_SPECS code)) = Inr i" "stored_identity i"
    "tame (child_rules data (cs_projection_decisions (LOGICAL_CHILD_SPECS code)))"
proof -
  from assms obtain data where data: "model_dump (p_writer pyd) r = Inr data" "stored_data data"
    "dumped pyd r = Inr data" "payload_data data = Inr data"
    unfolding child_of_def by (auto elim: reads_backE)
  moreover obtain i where "logical_identity pyd r (cs_identity_fields (LOGICAL_CHILD_SPECS code)) = Inr i" "stored_identity i"
    using logical_identity_stored[of pyd r "cs_identity_fields (LOGICAL_CHILD_SPECS code)"]
      child_identity_fields_scalar assms unfolding child_of_def by metis
  moreover have "tame (child_rules data (cs_projection_decisions (LOGICAL_CHILD_SPECS code)))"
    using child_rules_fit data(1) assms rules_target(2) by (intro tame_child_rules) (auto simp: child_of_def)
  ultimately show ?thesis using that by blast
qed

lemma tame_child_payload:
  "child_of pyd code r \<Longrightarrow> tame (child_payload pyd parent_code parent_identity (LOGICAL_CHILD_SPECS code) r)"
  unfolding child_payload_def by (erule child_data) (auto intro!: tame_bind)

lemma child_payload_stored:
  assumes "child_of pyd code r" "stored_identity parent_identity"
    and "child_payload pyd parent_code parent_identity (LOGICAL_CHILD_SPECS code) r = Inr (payload, refs)"
  shows "stored_child payload" "lc_child_code payload = code" "lc_parent_record_code payload = parent_code"
    "model_dump (p_writer pyd) r = Inr (lc_data payload)"
proof -
  from assms(1) obtain data i where *: "dumped pyd r = Inr data" "payload_data data = Inr data" "stored_data data"
    "logical_identity pyd r (cs_identity_fields (LOGICAL_CHILD_SPECS code)) = Inr i" "stored_identity i"
    by (rule child_data)
  have code: "cs_child_code (LOGICAL_CHILD_SPECS code) = code" by (cases code) simp_all
  from * assms(2,3) code show "stored_child payload" "lc_child_code payload = code"
    "lc_parent_record_code payload = parent_code" "model_dump (p_writer pyd) r = Inr (lc_data payload)"
    by (auto simp: child_payload_def res_bind_Inr_iff stored_child_def dumped_iff)
qed

lemma tame_children_payloads:
  assumes "list_all (child_of pyd code) children"
  shows "tame (children_payloads pyd parent_code parent_identity (map (Pair (LOGICAL_CHILD_SPECS code)) children))"
  unfolding children_payloads_def
  using assms by (intro tame_bind tame_map tame_normalize) (auto simp: list_all_iff tame_child_payload)
end
