(* ===== verification/Codec_Build.thy ===== *)
theory Codec_Build
  imports Codec_Facts
begin

section \<open>The envelopes the codec builds\<close>

text \<open>
  What \<open>build_envelope\<close> returns is built again, unchanged, from the record and the children it holds: the children are in canonical order, the external references can be told from the others by their relation.
\<close>

subsection \<open>Ordering the children\<close>

lemma distinct_sorted_map [simp]: "distinct (map g (sort_key f xs)) \<longleftrightarrow> distinct (map g xs)"
  by (rule mset_eq_imp_distinct_iff) simp

lemma list_ex_sorted [simp]: "list_ex P (sort_key f xs) \<longleftrightarrow> list_ex P xs"
  by (simp add: list_ex_iff)

lemma sort_twice [simp]: "sort_key f (sort_key f xs) = sort_key f xs"
  by (simp add: sort_key_id_if_sorted)

lemma sort_map_sorted [simp]: "sort (map f (sort_key g xs)) = sort (map f xs)"
  by (metis mset_map mset_sort sorted_list_of_multiset_mset)

lemma transitions_in_order_again:
  "transitions_in_order t xs = Inr ys \<Longrightarrow> transitions_in_order t ys = Inr ys \<and> mset ys = mset xs"
  by (auto simp: transitions_in_order_def res_bind_Inr_iff)

lemma attempts_in_order_again:
  "attempts_in_order t xs = Inr ys \<Longrightarrow> attempts_in_order t ys = Inr ys \<and> mset ys = mset xs"
  by (auto simp: attempts_in_order_def res_bind_Inr_iff Let_def)

lemma as_records:
  "opt_map as_transition cs = Some ts \<longleftrightarrow> cs = map TransitionSource ts"
  "opt_map as_attempt cs = Some ats \<longleftrightarrow> cs = map AttemptSource ats"
proof -
  have "as_transition c = Some t \<longleftrightarrow> c = TransitionSource t" "as_attempt c = Some a \<longleftrightarrow> c = AttemptSource a" for c t a
    by (cases c; auto)+
  then show "opt_map as_transition cs = Some ts \<longleftrightarrow> cs = map TransitionSource ts"
    "opt_map as_attempt cs = Some ats \<longleftrightarrow> cs = map AttemptSource ats"
    by (auto simp: opt_map_Some_iff list_all2_conv_all_nth intro: nth_equalityI)
qed

lemma children_in_order_again:
  assumes "children_in_order parent cs = Inr ds"
  shows "children_in_order parent ds = Inr ds" "mset ds = mset cs"
proof -
  have "children_in_order parent ds = Inr ds \<and> mset ds = mset cs"
  proof (cases parent)
    case (TaskSource t)
    with assms obtain ts us where "cs = map TransitionSource ts" "transitions_in_order t ts = Inr us" "ds = map TransitionSource us"
      by (auto simp: children_in_order_def as_records res_bind_Inr_iff split: option.splits)
    with transitions_in_order_again as_records(1)[of ds us] TaskSource show ?thesis
      by (auto simp: children_in_order_def)
  next
    case (ToolCallSource t)
    with assms obtain ts us where "cs = map AttemptSource ts" "attempts_in_order t ts = Inr us" "ds = map AttemptSource us"
      by (auto simp: children_in_order_def as_records res_bind_Inr_iff split: option.splits)
    with attempts_in_order_again as_records(2)[of ds us] ToolCallSource show ?thesis
      by (auto simp: children_in_order_def)
  qed (use assms in \<open>auto simp: children_in_order_def\<close>)
  then show "children_in_order parent ds = Inr ds" "mset ds = mset cs" by auto
qed

subsection \<open>Validated children\<close>

lemma child_code_of_Some: "child_code_of codes x = Some code \<Longrightarrow> code \<in> set codes \<and> object_class x = Some (cs_source_model (LOGICAL_CHILD_SPECS code))"
  by (auto simp: child_code_of_def find_Some_iff)

lemma child_code_of_class: "class_of r = cs_source_model (LOGICAL_CHILD_SPECS code) \<Longrightarrow> child_code_of child_codes (ModelObject r extra) = Some code"
proof -
  assume "class_of r = cs_source_model (LOGICAL_CHILD_SPECS code)"
  then have "child_code_of child_codes (ModelObject r extra) =
      find (\<lambda>c. Some (cs_source_model (LOGICAL_CHILD_SPECS code)) = Some (cs_source_model (LOGICAL_CHILD_SPECS c))) child_codes"
    by (simp only: child_code_of_def model_object)
  also have "\<dots> = Some code" by (cases code) (simp_all add: child_codes_def)
  finally show ?thesis .
qed

lemma allowed_children:
  assumes "NON_RU_REGISTRY code = Some spec"
  shows "ss_allowed_child_codes spec = [] \<or>
    (\<exists>child. ss_allowed_child_codes spec = [child] \<and> cs_parent_record_code (LOGICAL_CHILD_SPECS child) = code
       \<and> external_rules spec = [])"
    and "class_of v = ss_source_model spec \<Longrightarrow> ss_allowed_child_codes spec = [child] \<Longrightarrow> list_all (child_of pyd child) cs \<Longrightarrow>
      tame (children_in_order v cs)"
proof -
  show "ss_allowed_child_codes spec = [] \<or>
    (\<exists>child. ss_allowed_child_codes spec = [child] \<and> cs_parent_record_code (LOGICAL_CHILD_SPECS child) = code
       \<and> external_rules spec = [])"
    using assms by (cases code) (auto simp: record_spec_def external_rules_def table_defs)
  have "\<exists>ts. opt_map as_transition cs = Some ts" if "list_all (child_of pyd CHILD_TASK_STATE_TRANSITION) cs"
    using that by (induction cs) (auto simp: child_of_def class_of_iff)
  moreover have "\<exists>ts. opt_map as_attempt cs = Some ts" if "list_all (child_of pyd CHILD_TOOL_ATTEMPT_RECORD) cs"
    using that by (induction cs) (auto simp: child_of_def class_of_iff)
  ultimately show "tame (children_in_order v cs)" if "class_of v = ss_source_model spec"
    "ss_allowed_child_codes spec = [child]" "list_all (child_of pyd child) cs"
    using that assms
    by (cases code) (auto simp: record_spec_def class_of_iff children_in_order_def transitions_in_order_def attempts_in_order_def
        Let_def intro!: tame_bind tame_raise_if)
qed

lemma validated_child_Inr:
  assumes "pydantic_law pyd" "validated_child pyd spec child = Inr (sp, v)"
  shows "\<exists>code. code \<in> set (ss_allowed_child_codes spec) \<and> sp = LOGICAL_CHILD_SPECS code \<and> child_of pyd code v"
  using assms(2) law_revalidated_object[OF assms(1)]
  by (auto simp: validated_child_def Let_def child_of_def split: option.splits if_splits)

lemma validated_child_again:
  assumes "child_of pyd code v" "code \<in> set (ss_allowed_child_codes spec)"
    "cs_parent_record_code (LOGICAL_CHILD_SPECS code) = ss_record_code spec"
  shows "validated_child pyd spec (ModelObject v extra) = Inr (LOGICAL_CHILD_SPECS code, v)"
proof -
  from assms(1) have "class_of v = cs_source_model (LOGICAL_CHILD_SPECS code)" "revalidated pyd (class_of v) v = Some v"
    by (auto simp: child_of_def elim: reads_backE)
  with child_code_of_class[of v code extra] assms(2,3) show ?thesis by (simp add: validated_child_def Let_def)
qed

text \<open>An object handed to the codec and the record it validates to.\<close>

definition validates_to :: "pydantic \<Rightarrow> source_object \<Rightarrow> source_record \<Rightarrow> bool" where
  "validates_to pyd x v \<longleftrightarrow> (\<exists>m. object_class x = Some m \<and> revalidated_object pyd m x = Some v)"

lemma validated_child_validates: "validated_child pyd spec child = Inr (sp, v) \<Longrightarrow> validates_to pyd child v"
  by (auto simp: validated_child_def validates_to_def Let_def dest!: child_code_of_Some
      split: option.splits if_splits)

lemma validated_children_validate:
  "res_map (validated_child pyd spec) children = Inr vcs \<Longrightarrow> list_all2 (validates_to pyd) children (map snd vcs)"
  unfolding res_map_Inr_iff list.rel_map
  by (erule list_all2_mono) (auto intro: validated_child_validates)

lemma tame_validated_child: "tame (validated_child pyd spec child)"
  by (auto simp: validated_child_def Let_def split: option.splits)

subsection \<open>Children and their payloads\<close>

lemma children_payloads_parts:
  assumes "children_payloads pyd code i (map (Pair (LOGICAL_CHILD_SPECS child)) cs) = Inr (kids, refs)"
    and "list_all (child_of pyd child) cs" "stored_identity i"
  shows "list_all stored_child kids" "res_map (decoded_child pyd) kids = Inr cs"
    "list_all (\<lambda>k. lc_child_code k = child \<and> lc_parent_record_code k = code) kids"
proof -
  from assms(1) obtain built where built: "kids = map fst built"
    "list_all2 (\<lambda>c b. child_payload pyd code i (LOGICAL_CHILD_SPECS child) c = Inr b) cs built"
    by (auto simp: children_payloads_def res_bind_Inr_iff res_map_Inr_iff list_all2_map1)
  have step: "stored_child (fst b) \<and> decoded_child pyd (fst b) = Inr c \<and> lc_child_code (fst b) = child
      \<and> lc_parent_record_code (fst b) = code"
    if c: "child_of pyd child c" and b: "child_payload pyd code i (LOGICAL_CHILD_SPECS child) c = Inr b" for c b
  proof -
    obtain k rs where "b = (k, rs)" by (cases b)
    with child_payload_stored[OF c assms(3)] b have k: "stored_child k" "lc_child_code k = child"
      "lc_parent_record_code k = code" "model_dump (p_writer pyd) c = Inr (lc_data k)" "fst b = k" by auto
    from c obtain data where "model_dump (p_writer pyd) c = Inr data" "p_validate pyd (class_of c) data = Some c"
      unfolding child_of_def by (auto elim: reads_backE)
    with k c thaw_stored[of "lc_data k"] show ?thesis
      by (simp add: decoded_child_def decoded_source_def child_of_def stored_child_def)
  qed
  have "list_all stored_child kids \<and> res_map (decoded_child pyd) kids = Inr cs
      \<and> list_all (\<lambda>k. lc_child_code k = child \<and> lc_parent_record_code k = code) kids"
    using built(2) assms(2) unfolding built(1)
  proof (induction rule: list_all2_induct)
    case (Cons c cs b built)
    then show ?case using step[of c b] by simp
  qed simp
  then show "list_all stored_child kids" "res_map (decoded_child pyd) kids = Inr cs"
    "list_all (\<lambda>k. lc_child_code k = child \<and> lc_parent_record_code k = code) kids" by auto
qed

lemma child_payloads_Inr:
  assumes "NON_RU_REGISTRY code = Some spec" "pydantic_law pyd" "stored_identity i"
    and "child_payloads pyd spec v i children = Inr (kids, refs)"
  obtains cs where "list_all stored_child kids" "res_map (decoded_child pyd) kids = Inr cs"
    "child_payloads pyd spec v i (map (\<lambda>c. ModelObject c []) cs) = Inr (kids, refs)"
    "\<exists>vs. list_all2 (validates_to pyd) children vs \<and> mset cs = mset vs"
proof (cases "ss_allowed_child_codes spec = []")
  case True
  with assms(4) have "kids = []" "refs = []" "children = []"
    by (auto simp: child_payloads_def res_bind_Inr_iff res_map_Inr_iff split: if_splits)
  with True that[of "[]"] show ?thesis by (simp add: child_payloads_def)
next
  case False
  with allowed_children(1)[OF assms(1)] obtain child where child: "ss_allowed_child_codes spec = [child]"
    "cs_parent_record_code (LOGICAL_CHILD_SPECS child) = ss_record_code spec"
    using registry_code[OF assms(1)] by auto
  with assms(4) obtain vcs cs where vcs: "res_map (validated_child pyd spec) children = Inr vcs"
    "children_in_order v (map snd vcs) = Inr cs"
    "children_payloads pyd (ss_record_code spec) i (map (Pair (LOGICAL_CHILD_SPECS child)) cs) = Inr (kids, refs)"
    by (auto simp: child_payloads_def res_bind_Inr_iff)
  have "child_of pyd child (snd p)" if "p \<in> set vcs" for p
  proof -
    from res_map_set[OF vcs(1) that] obtain x where "validated_child pyd spec x = Inr p" by blast
    with validated_child_Inr[OF assms(2), of spec x "fst p" "snd p"] child(1) show ?thesis by auto
  qed
  moreover have "set cs = set (map snd vcs)"
    using children_in_order_again(2)[OF vcs(2)] by (rule mset_eq_setD)
  ultimately have cs: "list_all (child_of pyd child) cs" by (auto simp: list_all_iff)
  have "res_map (validated_child pyd spec) (map (\<lambda>c. ModelObject c []) cs) = Inr (map (Pair (LOGICAL_CHILD_SPECS child)) cs)"
    using cs validated_child_again[of pyd child _ spec] child
    by (induction cs) auto
  then have "child_payloads pyd spec v i (map (\<lambda>c. ModelObject c []) cs) = Inr (kids, refs)"
    using child vcs(3) children_in_order_again(1)[OF vcs(2)] by (simp add: child_payloads_def comp_def)
  with children_payloads_parts[OF vcs(3) cs assms(3)] validated_children_validate[OF vcs(1)]
    children_in_order_again(2)[OF vcs(2)] that[of cs]
  show ?thesis by blast
qed

section \<open>Building an envelope again from its parts\<close>

subsection \<open>What the tables promise\<close>

lemma owner_rules:
  "list_all (\<lambda>rule. pd_classification rule = DIRECT_OWNER \<longrightarrow> (\<exists>f. pd_value_projector rule = Some (project_one f)))
     (TOP_LEVEL_PROJECTIONS code)"
  by (cases code) (auto simp: table_defs)

lemma external_relations:
  assumes "NON_RU_REGISTRY code = Some spec"
  shows "distinct (map pd_relation (external_rules spec))"
    and "list_all (\<lambda>rule. pd_classification rule = TOP_LEVEL_P0_REFERENCE \<longrightarrow>
        pd_relation rule \<notin> set (map pd_relation (external_rules spec))) (ss_projection_decisions spec)"
  using assms by (cases code; clarsimp simp: record_spec_def; simp add: external_rules_def table_defs)+

lemma spec_rules: "NON_RU_REGISTRY code = Some spec \<Longrightarrow> ss_projection_decisions spec = TOP_LEVEL_PROJECTIONS code"
  by (cases code) (auto simp: record_spec_def)

lemma spec_rule_targets:
  assumes "NON_RU_REGISTRY code = Some spec"
  shows "list_all rule_targets (ss_projection_decisions spec)" "list_all rule_targets (external_rules spec)"
  using rules_target(1)[of code] spec_rules[OF assms] by (auto simp: external_rules_def list_all_iff)

lemma spec_version: "NON_RU_REGISTRY code = Some spec \<Longrightarrow> utf8_text (ss_record_schema_version spec)"
proof -
  have "utf8_text (s @ t) \<longleftrightarrow> utf8_text s \<and> utf8_text t" for s t by (simp add: utf8_text_def)
  then show "NON_RU_REGISTRY code = Some spec \<Longrightarrow> utf8_text (ss_record_schema_version spec)"
    by (cases code) (auto simp: record_spec_def)
qed

subsection \<open>The record\<close>

lemma strict_model_Inr:
  "strict_record pyd spec (ModelObject r extra) = Inr v \<longleftrightarrow>
     class_of r = ss_source_model spec \<and> opt_all (\<lambda>valid. valid r) (ss_specialized_version_validator spec)
     \<and> revalidated pyd (ss_source_model spec) r = Some v
     \<and> (ss_version_mirror_field spec = None \<or> schema_version_of v = Some (ss_record_schema_version spec))"
  by (auto simp: strict_record_def specialized_version_matches_def res_bind_Inr_iff split: option.splits)

lemma strict_record_Inr:
  assumes "pydantic_law pyd" "NON_RU_REGISTRY code = Some spec" "strict_record pyd spec r = Inr v"
  shows "class_of v = ss_source_model spec" "valid_source v" "reads_back pyd v"
    "strict_record pyd spec (ModelObject v []) = Inr v"
proof -
  from assms(3) obtain "revalidated_object pyd (ss_source_model spec) r = Some v"
    and mirror: "ss_version_mirror_field spec = None \<or> schema_version_of v = Some (ss_record_schema_version spec)"
    by (auto simp: strict_record_def res_bind_Inr_iff split: option.splits if_splits)
  from law_revalidated_object[OF assms(1) this(1)]
  show v: "class_of v = ss_source_model spec" "valid_source v" "reads_back pyd v" by auto
  have "opt_all (\<lambda>valid. valid v) (ss_specialized_version_validator spec)"
    using assms(2) v(1,2)
    by (cases code) (auto simp: record_spec_def class_of_iff toolset_artifact_version_valid_def accepts_def
        new_toolset_artifact_def construct_with_Inr_iff split: sum.splits)
  moreover have "revalidated pyd (class_of v) v = Some v" using v(3) by (auto elim: reads_backE)
  ultimately show "strict_record pyd spec (ModelObject v []) = Inr v"
    using v(1) mirror
    by (auto simp: strict_record_def specialized_version_matches_def split: option.splits)
qed

subsection \<open>References of the record\<close>

lemma apply_rules_owner:
  assumes "apply_rules data acc rules = Inr (owner, refs)" "stored_data data"
    and "list_all (\<lambda>rule. pd_classification rule = DIRECT_OWNER \<longrightarrow> (\<exists>f. pd_value_projector rule = Some (project_one f))) rules"
    and "opt_all utf8_text (fst acc)"
  shows "opt_all utf8_text owner"
  using assms
proof (induction rules arbitrary: acc)
  case (Cons rule rules)
  obtain owner0 refs0 where acc: "acc = (owner0, refs0)" by (cases acc)
  from Cons.prems(1)[unfolded acc] obtain vs where vs: "projected_values rule data = Inr vs"
    by (auto simp: res_bind_Inr_iff)
  show ?case
  proof (cases "pd_classification rule")
    case DIRECT_OWNER
    with vs Cons.prems(1)[unfolded acc] obtain s where s: "vs = [JStr s]" "apply_rules data (Some s, refs0) rules = Inr (owner, refs)"
      by (auto split: list.splits json.splits)
    from DIRECT_OWNER Cons.prems(3) vs s(1) obtain f where "map_of data f = Some (JStr s)"
      by (auto simp: projected_values_def project_one_def res_bind_Inr_iff split: option.splits if_splits sum.splits)
    with stored_member[OF Cons.prems(2)] have "utf8_text s" by force
    with Cons.IH[OF s(2)] Cons.prems show ?thesis by simp
  qed (use vs Cons acc in \<open>auto simp: res_bind_Inr_iff split: if_splits\<close>)
qed simp

lemma reference_for_value_relation:
  "reference_for_value rule v = Inr r \<Longrightarrow> Some (rf_relation r) = pd_relation rule"
  by (auto simp: reference_for_value_def res_bind_Inr_iff split: option.splits list.splits)

lemma apply_rules_relations:
  assumes "apply_rules data acc rules = Inr (owner, refs)"
    and "list_all (\<lambda>rule. pd_classification rule = TOP_LEVEL_P0_REFERENCE \<longrightarrow> pd_relation rule \<notin> R) rules"
    and "\<forall>r\<in>set (snd acc). Some (rf_relation r) \<notin> R"
  shows "\<forall>r\<in>set refs. Some (rf_relation r) \<notin> R"
  using assms
proof (induction rules arbitrary: acc)
  case (Cons rule rules)
  obtain owner0 refs0 where acc: "acc = (owner0, refs0)" by (cases acc)
  from Cons.prems(1)[unfolded acc] obtain vs where vs: "projected_values rule data = Inr vs"
    by (auto simp: res_bind_Inr_iff)
  show ?case
  proof (cases "pd_classification rule")
    case TOP_LEVEL_P0_REFERENCE
    with vs Cons.prems(1)[unfolded acc] obtain rs where rs: "res_map (reference_for_value rule) vs = Inr rs"
      "apply_rules data (owner0, refs0 @ rs) rules = Inr (owner, refs)"
      by (auto simp: res_bind_Inr_iff)
    have "Some (rf_relation r) \<notin> R" if "r \<in> set rs" for r
      using res_map_set[OF rs(1) that] reference_for_value_relation[of rule _ r] TOP_LEVEL_P0_REFERENCE Cons.prems(2) by auto
    with Cons.IH[OF rs(2)] Cons.prems(2,3) acc show ?thesis by auto
  qed (use vs Cons acc in \<open>auto simp: res_bind_Inr_iff split: if_splits list.splits json.splits\<close>)
qed simp

lemma normalize_relations:
  assumes "normalize_references False refs = Inr ys" "y \<in> set ys"
  shows "\<exists>r extra. Obj r extra \<in> set refs \<and> rf_relation r = rf_relation y"
proof -
  obtain rs where rs: "list_all2 (\<lambda>x r. strict_reference x = Inr r) refs rs" "y \<in> set rs"
    using assms by (auto simp: normalize_False_Inr)
  then have "\<exists>x\<in>set refs. strict_reference x = Inr y" by (induction rule: list_all2_induct) auto
  then obtain x where "x \<in> set refs" "strict_reference x = Inr y" ..
  with strict_reference_Inr(2) show ?thesis by force
qed

lemma source_projection:
  assumes "NON_RU_REGISTRY code = Some spec" "reads_back pyd v"
    and "top_level_projection False pyd spec v = Inr (owner, refs)"
  shows "opt_all utf8_text owner" "list_all strict_ref refs"
    "\<forall>r\<in>set refs. Some (rf_relation r) \<notin> set (map pd_relation (external_rules spec))"
proof -
  from assms(2,3) obtain data raw where data: "stored_data data"
    "apply_rules data (None, []) (ss_projection_decisions spec) = Inr (owner, raw)"
    "normalize_references False (exact_references raw) = Inr refs"
    by (auto simp: top_level_projection_def res_bind_Inr_iff elim: reads_backE)
  show "opt_all utf8_text owner"
    using apply_rules_owner[OF data(2,1)] owner_rules[of code] spec_rules[OF assms(1)] by simp
  show "list_all strict_ref refs" by (rule normalized_references(1)[OF data(3)])
  show "\<forall>r\<in>set refs. Some (rf_relation r) \<notin> set (map pd_relation (external_rules spec))"
    using apply_rules_relations[OF data(2) external_relations(2)[OF assms(1)]] normalize_relations[OF data(3)] by fastforce
qed

subsection \<open>External references\<close>

lemma external_reference_Inr:
  "external_reference normalized rule = Inr r \<Longrightarrow> filter (\<lambda>r. Some (rf_relation r) = pd_relation rule) normalized = [r]"
  by (auto simp: external_reference_def canonical_target_identity_def res_bind_Inr_iff
      split: list.splits option.splits if_splits)

lemma external_reference_same:
  "external_reference normalized rule = Inr r \<Longrightarrow> filter (\<lambda>r. Some (rf_relation r) = pd_relation rule) refs = [r] \<Longrightarrow>
   external_reference refs rule = Inr r"
  by (frule external_reference_Inr) (simp add: external_reference_def)

lemma filter_by_relation:
  assumes "list_all2 (\<lambda>rule r. Some (rf_relation r) = pd_relation rule) rules refs" "distinct (map pd_relation rules)"
    and "(rule, r) \<in> set (zip rules refs)"
  shows "filter (\<lambda>r. Some (rf_relation r) = pd_relation rule) refs = [r]"
  using assms
proof (induction rule: list_all2_induct)
  case (Cons rule0 rules r0 refs)
  show ?case
  proof (cases "rule = rule0 \<and> r = r0")
    case True
    have "pd_relation rule0 \<notin> Some ` rf_relation ` set refs"
    proof
      assume "pd_relation rule0 \<in> Some ` rf_relation ` set refs"
      then have "pd_relation rule0 \<in> pd_relation ` set rules"
        using Cons.hyps(2) by (fastforce simp: list_all2_conv_all_nth in_set_conv_nth image_iff)
      with Cons.prems show False by simp
    qed
    then have "filter (\<lambda>r. Some (rf_relation r) = pd_relation rule0) refs = []" by (auto simp: filter_empty_conv image_iff)
    with True Cons.hyps(1) show ?thesis by simp
  next
    case False
    with Cons.prems(2) have z: "(rule, r) \<in> set (zip rules refs)" by auto
    then have "rule \<in> set rules" by (rule set_zip_leftD)
    with Cons.prems(1) Cons.hyps(1) have "Some (rf_relation r0) \<noteq> pd_relation rule" by auto
    with Cons.IH Cons.prems(1) z show ?thesis by simp
  qed
qed simp

lemma external_again:
  assumes "validate_external_references spec ext = Inr refs" "distinct (map pd_relation (external_rules spec))"
  shows "list_all strict_ref refs"
    and "\<forall>r\<in>set refs. Some (rf_relation r) \<in> set (map pd_relation (external_rules spec))"
    and "distinct (map key_of refs) \<Longrightarrow>
      validate_external_references spec (exact_references (sort_key key_of refs)) = Inr refs"
proof -
  from assms(1) obtain normalized where n: "normalize_references False ext = Inr normalized"
    "list_all2 (\<lambda>rule r. external_reference normalized rule = Inr r) (external_rules spec) refs"
    by (auto simp: validate_external_references_def res_bind_Inr_iff res_map_Inr_iff)
  have pick: "r \<in> set normalized \<and> Some (rf_relation r) = pd_relation rule"
    if "external_reference normalized rule = Inr r" for rule r
  proof -
    from external_reference_Inr[OF that] have "r \<in> set (filter (\<lambda>r. Some (rf_relation r) = pd_relation rule) normalized)" by simp
    then show ?thesis by simp
  qed
  have rel: "list_all2 (\<lambda>rule r. Some (rf_relation r) = pd_relation rule) (external_rules spec) refs"
    using n(2) by (rule list_all2_mono) (simp add: pick)
  have sub: "set refs \<subseteq> set normalized"
    using n(2) pick by (fastforce simp: list_all2_conv_all_nth in_set_conv_nth)
  show strict: "list_all strict_ref refs" using sub normalized_references(1)[OF n(1)] by (auto simp: list_all_iff)
  show "\<forall>r\<in>set refs. Some (rf_relation r) \<in> set (map pd_relation (external_rules spec))"
    using rel by (fastforce simp: list_all2_conv_all_nth in_set_conv_nth)
  show "validate_external_references spec (exact_references (sort_key key_of refs)) = Inr refs"
    if "distinct (map key_of refs)"
  proof -
    have "normalize_references False (exact_references (sort_key key_of refs)) = Inr (sort_key key_of refs)"
      using strict that by (subst normalize_exact) (auto simp: list_all_iff)
    moreover have "list_all2 (\<lambda>rule r. external_reference (sort_key key_of refs) rule = Inr r) (external_rules spec) refs"
    proof (rule list_all2_all_nthI)
      show "length (external_rules spec) = length refs" using rel by (rule list_all2_lengthD)
      fix i assume i: "i < length (external_rules spec)"
      then have "i < length refs" using rel by (simp add: list_all2_lengthD)
      with i have "(external_rules spec ! i, refs ! i) \<in> set (zip (external_rules spec) refs)"
        by (auto simp: set_zip)
      from filter_by_relation[OF rel assms(2) this]
      have "filter (\<lambda>r. Some (rf_relation r) = pd_relation (external_rules spec ! i)) (sort_key key_of refs) = [refs ! i]"
        unfolding filter_sort by (simp only: sort_key_simps insort_key.simps)
      with list_all2_nthD[OF n(2) i]
      show "external_reference (sort_key key_of refs) (external_rules spec ! i) = Inr (refs ! i)"
        by (rule external_reference_same)
    qed
    ultimately show ?thesis
      using rel by (simp add: validate_external_references_def res_bind_Inr_iff res_map_Inr_iff list_all2_lengthD)
  qed
qed

subsection \<open>The whole envelope\<close>

abbreviation external_part :: "schema_spec \<Rightarrow> record_reference list \<Rightarrow> record_reference list" where
  "external_part spec \<equiv> filter (\<lambda>r. Some (rf_relation r) \<in> set (map pd_relation (external_rules spec)))"

lemma normalized_external_part:
  assumes "normalize_references False (exact_references (source @ external @ kids)) = Inr refs"
    and "list_all strict_ref (source @ external @ kids)"
    and "\<forall>r\<in>set source. Some (rf_relation r) \<notin> set (map pd_relation (external_rules spec))"
    and "\<forall>r\<in>set external. Some (rf_relation r) \<in> set (map pd_relation (external_rules spec))"
    and "\<forall>r\<in>set kids. Some (rf_relation r) \<notin> set (map pd_relation (external_rules spec))"
  shows "external_part spec refs = sort_key key_of external" "distinct (map key_of external)"
proof -
  have refs: "refs = sort_key key_of (source @ external @ kids)" "distinct (map key_of (source @ external @ kids))"
    using assms(1)[unfolded normalize_exact[OF assms(2)]] by (rule conjunct2, rule conjunct1)
  have "external_part spec source = []" by (rule filter_False) (use assms(3) in blast)
  moreover have "external_part spec external = external" by (rule filter_True) (use assms(4) in blast)
  moreover have "external_part spec kids = []" by (rule filter_False) (use assms(5) in blast)
  ultimately have "external_part spec (source @ external @ kids) = external" by (simp only: filter_append append_Nil append_Nil2)
  then show "external_part spec refs = sort_key key_of external" by (simp only: refs(1) filter_sort)
  show "distinct (map key_of external)" using refs(2) by simp
qed

lemma child_references:
  assumes "NON_RU_REGISTRY code = Some spec" "child_payloads pyd spec v i kids = Inr (children, refs)"
  shows "list_all strict_ref refs" "external_rules spec \<noteq> [] \<Longrightarrow> refs = []"
proof -
  show "list_all strict_ref refs"
    using assms(2)
    by (cases "ss_allowed_child_codes spec")
      (auto simp: child_payloads_def children_payloads_def res_bind_Inr_iff split: if_splits intro: normalized_references(1))
  show "refs = []" if "external_rules spec \<noteq> []"
    using allowed_children(1)[OF assms(1)] assms(2) that
    by (auto simp: child_payloads_def res_bind_Inr_iff split: if_splits)
qed

lemma rebuilt_envelope:
  assumes law: "pydantic_law pyd" and built: "build_envelope pyd code r ext kids = Inr e"
  obtains spec v cs where
    "NON_RU_REGISTRY code = Some spec" "strict_record pyd spec r = Inr v" "stored_envelope e"
    "pe_record_code e = code" "vp_record_code (pe_payload e) = code"
    "pe_record_schema_version e = ss_record_schema_version spec"
    "vp_record_schema_version (pe_payload e) = ss_record_schema_version spec"
    "\<And>category. decoded_source pyd (ss_source_model spec) (vp_data (pe_payload e)) category = Inr v"
    "res_map (decoded_child pyd) (vp_logical_children (pe_payload e)) = Inr cs"
    "build_envelope pyd code (ModelObject v []) (exact_references (external_part spec (pe_record_references e)))
       (map (\<lambda>c. ModelObject c []) cs) = Inr e"
    "\<exists>vs. list_all2 (validates_to pyd) kids vs \<and> mset cs = mset vs"
proof -
  from built obtain spec v identity owner source external children child_refs refs dump data where
    spec: "NON_RU_REGISTRY code = Some spec" and v: "strict_record pyd spec r = Inr v"
    and identity: "logical_identity pyd v (ss_identity_fields spec) = Inr identity"
    and source: "top_level_projection False pyd spec v = Inr (owner, source)"
    and external: "validate_external_references spec ext = Inr external"
    and children: "child_payloads pyd spec v identity kids = Inr (children, child_refs)"
    and refs: "normalize_references False (exact_references (source @ external @ child_refs)) = Inr refs"
    and data: "dumped pyd v = Inr dump" "payload_data dump = Inr data"
    and e: "e = envelope_of spec identity owner refs data children"
    by (auto simp: build_envelope_def res_bind_Inr_iff split: option.splits)
  note recorded = strict_record_Inr[OF law spec v]
  from recorded(3) have native: "model_dump (p_writer pyd) v = Inr data" "stored_data data"
    "p_validate pyd (ss_source_model spec) data = Some v"
    using data recorded(1) by (auto elim!: reads_backE simp: dumped_iff)
  have stored_id: "stored_identity identity"
    using logical_identity_stored[OF recorded(3)] identity identity_fields_scalar[OF spec recorded(1)] by fastforce
  obtain cs where cs: "list_all stored_child children" "res_map (decoded_child pyd) children = Inr cs"
    "child_payloads pyd spec v identity (map (\<lambda>c. ModelObject c []) cs) = Inr (children, child_refs)"
    "\<exists>vs. list_all2 (validates_to pyd) kids vs \<and> mset cs = mset vs"
    by (rule child_payloads_Inr[OF spec law stored_id children])
  note ext_strict = external_again[OF external external_relations(1)[OF spec]]
  note part = normalized_external_part[OF refs _ source_projection(3)[OF spec recorded(3) source] ext_strict(2)]
  have "list_all strict_ref (source @ external @ child_refs)"
    using source_projection(2)[OF spec recorded(3) source] ext_strict(1) child_references(1)[OF spec children] by simp
  moreover have "\<forall>r\<in>set child_refs. Some (rf_relation r) \<notin> set (map pd_relation (external_rules spec))"
    using child_references(2)[OF spec children] by (cases "external_rules spec = []") simp_all
  ultimately have again: "validate_external_references spec (exact_references (external_part spec refs)) = Inr external"
    using part ext_strict(3) by simp
  have code: "ss_record_code spec = code" by (rule registry_code[OF spec])
  show ?thesis
  proof (rule that[OF spec v])
    show "stored_envelope e"
      using stored_id cs(1) native(2) normalized_references(1)[OF refs] source_projection(1)[OF spec recorded(3) source] spec_version[OF spec]
      by (simp add: e envelope_of_def stored_envelope_def)
    show "decoded_source pyd (ss_source_model spec) (vp_data (pe_payload e)) category = Inr v" for category
      using native(3) thaw_stored[OF native(2)] by (simp add: e envelope_of_def decoded_source_def)
    show "build_envelope pyd code (ModelObject v []) (exact_references (external_part spec (pe_record_references e)))
       (map (\<lambda>c. ModelObject c []) cs) = Inr e"
      using spec recorded(4) identity source again cs(3) refs data
      by (simp add: build_envelope_def e envelope_of_def)
  qed (simp_all add: e envelope_of_def code cs(2,4))
qed
end
