(* ===== verification/Codec_Entry_Points.thy ===== *)
theory Codec_Entry_Points
  imports Codec_Build
begin

section \<open>Decoding what was encoded\<close>

text \<open>
  The two encode and the two decode entry points: decoding inverts encoding, and every step either returns or raises a signal of the codec.
\<close>

subsection \<open>Stored forms of an envelope\<close>

text \<open>The input holds the envelope: the instance itself, a mapping or a text with its JSON form.\<close>

definition carries :: "stored_input \<Rightarrow> persistence_envelope \<Rightarrow> bool" where
  "carries stored e \<longleftrightarrow> (case stored of
      EnvelopeInput (Obj e' extra) \<Rightarrow> e' = e \<and> extra = []
    | MappingInput room h v \<Rightarrow> is_native_json_value False h v \<and> thaw_graph room h v = Inr (envelope_json e)
    | TextInput raw \<Rightarrow> raw = Some (envelope_json e)
    | _ \<Rightarrow> False)"

lemma carries_input:
  assumes "carries stored e" "stored_envelope e"
  shows "json_input stored = Inr (Some (envelope_json e))" "\<not> undeclared_envelope_state stored"
  using assms stored_native[OF assms(2)]
  by (auto simp: carries_def json_input_def undeclared_envelope_state_def split: stored_input.splits pyobj.splits)

definition envelope_items :: "persistence_envelope \<Rightarrow> json_object" where
  "envelope_items e =
     [(str ''record_code'', JStr (record_code_text (pe_record_code e))),
      (str ''record_schema_version'', JStr (pe_record_schema_version e)),
      (str ''logical_identity'', identity_json (pe_logical_identity e)),
      (str ''direct_owner_customer_id'', opt_json JStr (pe_direct_owner_customer_id e)),
      (str ''record_references'', JList (map reference_json (pe_record_references e))),
      (str ''payload'', payload_json (pe_payload e))]"

lemma outer_stored: "outer_object (Some (envelope_json e)) (pe_record_code e) = Inr (envelope_items e)"
  by (simp add: outer_object_def envelope_json_def envelope_items_def)

lemma version_stored: "map_of (envelope_items e) (str ''record_schema_version'') = Some (JStr (pe_record_schema_version e))"
  by (simp add: envelope_items_def)

lemma classify_stored:
  "NON_RU_REGISTRY (pe_record_code e) = Some spec \<Longrightarrow> pe_record_schema_version e = ss_record_schema_version spec \<Longrightarrow>
   classify_outer (Some (envelope_json e)) (pe_record_code e) = Inr (spec, envelope_items e)"
  "classify_outer_versioned (Some (envelope_json e)) (pe_record_code e) (pe_record_schema_version e) = Inr (envelope_items e)"
  by (simp_all add: classify_outer_def classify_outer_versioned_def outer_stored version_stored)

lemma validated_stored:
  assumes "stored_envelope e" "vp_record_code (pe_payload e) = pe_record_code e"
    and "vp_record_schema_version (pe_payload e) = pe_record_schema_version e"
  shows "validated_envelope (Some (envelope_json e)) (envelope_items e) (pe_record_code e) (pe_record_schema_version e) = Inr e"
proof -
  have "payload_repeats (envelope_items e) (pe_record_code e) (pe_record_schema_version e)"
    using assms(2,3) by (simp add: payload_repeats_def envelope_items_def payload_json_def)
  with assms envelope_round_trip stored_native(2) show ?thesis by (simp add: validated_envelope_def)
qed

subsection \<open>The generic families\<close>

lemma decode_generic_built:
  assumes "pydantic_law pyd" "build_envelope pyd code r ext kids = Inr e"
  shows "\<exists>spec v cs. NON_RU_REGISTRY code = Some spec \<and> strict_record pyd spec r = Inr v \<and> stored_envelope e
    \<and> pe_record_code e = code \<and> pe_record_schema_version e = ss_record_schema_version spec
    \<and> (\<exists>vs. list_all2 (validates_to pyd) kids vs \<and> mset cs = mset vs)
    \<and> decode_generic pyd (Some (envelope_json e)) code =
        Inr \<lparr>dr_record_code = code, dr_record_schema_version = ss_record_schema_version spec,
             dr_source_record = v, dr_logical_children = cs\<rparr>"
proof -
  from rebuilt_envelope[OF assms] obtain spec v cs where
    spec: "NON_RU_REGISTRY code = Some spec" "strict_record pyd spec r = Inr v" and stored: "stored_envelope e"
    and e: "pe_record_code e = code" "vp_record_code (pe_payload e) = code"
      "pe_record_schema_version e = ss_record_schema_version spec"
      "vp_record_schema_version (pe_payload e) = ss_record_schema_version spec"
    and decoded: "\<And>category. decoded_source pyd (ss_source_model spec) (vp_data (pe_payload e)) category = Inr v"
      "res_map (decoded_child pyd) (vp_logical_children (pe_payload e)) = Inr cs"
    and again: "build_envelope pyd code (ModelObject v []) (exact_references (external_part spec (pe_record_references e)))
       (map (\<lambda>c. ModelObject c []) cs) = Inr e"
    and kept: "\<exists>vs. list_all2 (validates_to pyd) kids vs \<and> mset cs = mset vs" by blast
  have "classify_outer (Some (envelope_json e)) code = Inr (spec, envelope_items e)"
    using classify_stored(1)[of e spec] spec(1) e(1,3) by simp
  moreover have "validated_envelope (Some (envelope_json e)) (envelope_items e) code (ss_record_schema_version spec) = Inr e"
    using validated_stored[OF stored] e by simp
  ultimately have "decode_generic pyd (Some (envelope_json e)) code =
        Inr \<lparr>dr_record_code = code, dr_record_schema_version = ss_record_schema_version spec,
             dr_source_record = v, dr_logical_children = cs\<rparr>"
    by (simp add: decode_generic_def decoded again[unfolded list.set_map] compare_same[OF stored] Let_def)
  with spec stored e(1,3) kept show ?thesis by blast
qed

subsection \<open>The Request Understanding record\<close>

lemma versioned_model_Inr:
  "strict_versioned_model pyd x m category = Inr v \<longleftrightarrow>
    x = ModelObject v [] \<and> class_of v = m \<and> \<not> undeclared_model_state v \<and> revalidated pyd m v = Some v"
  by (cases x) (auto simp: strict_versioned_model_def split: option.splits)

lemma version_chain_cong:
  "(\<And>k. map_of d k = map_of d' k) \<Longrightarrow> child_version_chain parent d previous cs = child_version_chain parent d' previous cs"
  by (induction cs arbitrary: previous) (auto split: option.splits)

lemma distinct_perm: "mset xs = mset ys \<Longrightarrow> distinct (map f xs) \<longleftrightarrow> distinct (map f ys)"
  by (rule mset_eq_imp_distinct_iff) simp

lemma dict_by_perm:
  assumes "mset xs = mset ys" "distinct (map f xs)"
  shows "map_of (dict_by f xs) = map_of (dict_by f ys)"
proof -
  have "distinct (map f ys)" using assms distinct_perm by blast
  with assms show ?thesis
    by (subst map_of_inject_set) (simp_all add: dict_by_distinct comp_def mset_eq_setD[OF assms(1)])
qed

lemma request_understanding_children_perm:
  assumes "request_understanding_children parent cs = Inr ()" "mset ds = mset cs"
  shows "request_understanding_children parent ds = Inr ()"
proof -
  have "distinct (map ad_candidate_ref cs)"
    using assms(1) by (auto simp: request_understanding_children_def Let_def res_bind_Inr_iff)
  with dict_by_perm[of cs ds ad_candidate_ref] assms(2)
  have "child_version_chain parent (dict_by ad_candidate_ref ds) [] candidates
      = child_version_chain parent (dict_by ad_candidate_ref cs) [] candidates" for candidates
    by (intro version_chain_cong) simp
  with assms(1) show ?thesis
    by (simp add: request_understanding_children_def Let_def res_bind_Inr_iff distinct_perm[OF assms(2)]
        mset_eq_setD[OF assms(2)])
qed

lemma request_understanding_child_Inr:
  "request_understanding_child pyd x = Inr d \<longleftrightarrow>
     x = ModelObject (AcceptedDeltaSource d) [] \<and> revalidated pyd AcceptedDeltaModel (AcceptedDeltaSource d) = Some (AcceptedDeltaSource d)"
  unfolding request_understanding_child_def res_bind_Inr_iff versioned_model_Inr class_of_iff
  by (auto simp: undeclared_model_state_def)

lemma accepted_child: "pydantic_law pyd \<Longrightarrow> revalidated pyd AcceptedDeltaModel (AcceptedDeltaSource d) = Some (AcceptedDeltaSource d) \<Longrightarrow>
    child_of pyd CHILD_ACCEPTED_TASK_DELTA (AcceptedDeltaSource d)"
  using law_revalidated by (fastforce simp: child_of_def)

lemma request_understanding_kids:
  assumes law: "pydantic_law pyd" and i: "stored_identity i"
    and kids: "request_understanding_child_payloads pyd parent i kids = Inr (children, refs)"
  obtains ds cs where "kids = map (\<lambda>d. ModelObject (AcceptedDeltaSource d) []) ds" "mset cs = mset ds"
    "list_all stored_child children"
    "res_map (request_understanding_decoded_child pyd) children = Inr (map AcceptedDeltaSource cs)"
    "request_understanding_child_payloads pyd parent i (map (\<lambda>d. ModelObject (AcceptedDeltaSource d) []) cs) = Inr (children, refs)"
proof -
  from kids obtain ds where ds: "res_map (request_understanding_child pyd) kids = Inr ds"
    "request_understanding_children parent ds = Inr ()"
    "children_payloads pyd REQUEST_UNDERSTANDING_RECORD i
       (map (\<lambda>d. (LOGICAL_CHILD_SPECS CHILD_ACCEPTED_TASK_DELTA, AcceptedDeltaSource d))
         (sort_key (\<lambda>d. uuid_text (ad_accepted_delta_id d)) ds)) = Inr (children, refs)"
    by (auto simp: request_understanding_child_payloads_def res_bind_Inr_iff)
  define cs where "cs = sort_key (\<lambda>d. uuid_text (ad_accepted_delta_id d)) ds"
  have perm: "mset cs = mset ds" by (simp add: cs_def)
  have "list_all2 (\<lambda>x d. request_understanding_child pyd x = Inr d) kids ds"
    using ds(1) by (simp add: res_map_Inr_iff)
  then have kids_ds: "kids = map (\<lambda>d. ModelObject (AcceptedDeltaSource d) []) ds
      \<and> list_all (\<lambda>d. revalidated pyd AcceptedDeltaModel (AcceptedDeltaSource d) = Some (AcceptedDeltaSource d)) ds"
    by (induction rule: list_all2_induct) (auto simp: request_understanding_child_Inr)
  then have valid: "list_all (\<lambda>d. revalidated pyd AcceptedDeltaModel (AcceptedDeltaSource d) = Some (AcceptedDeltaSource d)) cs"
    by (simp add: cs_def list_all_iff)
  then have of_child: "list_all (child_of pyd CHILD_ACCEPTED_TASK_DELTA) (map AcceptedDeltaSource cs)"
    using accepted_child[OF law] by (simp add: list_all_iff)
  have payloads: "children_payloads pyd REQUEST_UNDERSTANDING_RECORD i
      (map (Pair (LOGICAL_CHILD_SPECS CHILD_ACCEPTED_TASK_DELTA)) (map AcceptedDeltaSource cs)) = Inr (children, refs)"
    using ds(3) by (simp add: cs_def comp_def)
  note parts = children_payloads_parts[OF payloads of_child i]
  have "res_map (request_understanding_decoded_child pyd) children = res_map (decoded_child pyd) children"
    using parts(3) by (intro res_map_cong) (auto simp: request_understanding_decoded_child_def decoded_child_def list_all_iff)
  moreover have "res_map (request_understanding_child pyd) (map (\<lambda>d. ModelObject (AcceptedDeltaSource d) []) cs) = Inr cs"
    using valid by (induction cs) (auto simp: request_understanding_child_Inr[THEN iffD2])
  moreover have "sort_key (\<lambda>d. uuid_text (ad_accepted_delta_id d)) cs = cs" by (simp add: cs_def)
  ultimately show ?thesis
    using that[OF _ perm parts(1)] kids_ds parts(2) payloads request_understanding_children_perm[OF ds(2) perm]
    by (simp add: request_understanding_child_payloads_def comp_def)
qed

lemma strict_request_understanding_Inr:
  "strict_request_understanding_v2 pyd x = Inr record0 \<longleftrightarrow>
     x = ModelObject (RequestUnderstandingSource record0) []
     \<and> rc_schema_version record0 = ss_record_schema_version REQUEST_UNDERSTANDING_V2_SPEC
     \<and> revalidated pyd RequestUnderstandingModel (RequestUnderstandingSource record0) = Some (RequestUnderstandingSource record0)"
proof (cases x)
  case (ModelObject r extra)
  then show ?thesis
    by (cases r) (auto simp: strict_request_understanding_v2_def mirror_version_def res_bind_Inr_iff versioned_model_Inr
        undeclared_model_state_def)
qed (auto simp: strict_request_understanding_v2_def res_bind_Inr_iff versioned_model_Inr split: option.splits)

lemma no_external_rules: "external_rules REQUEST_UNDERSTANDING_V2_SPEC = []"
  by (simp add: external_rules_def REQUEST_UNDERSTANDING_V2_SPEC_def request_understanding_record_rules_def decision_def)

lemma no_externals:
  "validate_external_references REQUEST_UNDERSTANDING_V2_SPEC ext = Inr external \<Longrightarrow> external = []"
  "validate_external_references REQUEST_UNDERSTANDING_V2_SPEC [] = Inr []"
  by (auto simp: validate_external_references_def no_external_rules res_bind_Inr_iff normalize_False_Inr)

lemma request_understanding_identity:
  "reads_back pyd (RequestUnderstandingSource r) \<Longrightarrow>
   \<exists>i. logical_identity pyd (RequestUnderstandingSource r) (ss_identity_fields REQUEST_UNDERSTANDING_V2_SPEC) = Inr i
     \<and> stored_identity i"
  by (rule logical_identity_stored)
    (auto simp: scalar_fields_def REQUEST_UNDERSTANDING_V2_SPEC_def ru_record_data_def)

lemma request_understanding_built:
  assumes law: "pydantic_law pyd" and built: "build_request_understanding_v2_envelope pyd x ext kids = Inr e"
  shows "\<exists>r ds cs. x = ModelObject (RequestUnderstandingSource r) [] \<and> kids = map (\<lambda>d. ModelObject (AcceptedDeltaSource d) []) ds
    \<and> mset cs = mset ds \<and> stored_envelope e \<and> pe_record_code e = REQUEST_UNDERSTANDING_RECORD
    \<and> pe_record_schema_version e = ss_record_schema_version REQUEST_UNDERSTANDING_V2_SPEC
    \<and> decode_request_understanding_v2 pyd (Some (envelope_json e)) (ss_record_schema_version REQUEST_UNDERSTANDING_V2_SPEC) =
        Inr \<lparr>dr_record_code = REQUEST_UNDERSTANDING_RECORD,
             dr_record_schema_version = ss_record_schema_version REQUEST_UNDERSTANDING_V2_SPEC,
             dr_source_record = RequestUnderstandingSource r, dr_logical_children = map AcceptedDeltaSource cs\<rparr>"
proof -
  let ?spec = REQUEST_UNDERSTANDING_V2_SPEC
  from built obtain r identity owner source external children child_refs refs dump data where
    r: "strict_request_understanding_v2 pyd x = Inr r"
    and identity: "logical_identity pyd (RequestUnderstandingSource r) (ss_identity_fields ?spec) = Inr identity"
    and source: "top_level_projection True pyd ?spec (RequestUnderstandingSource r) = Inr (owner, source)"
    and external: "validate_external_references ?spec ext = Inr external"
    and children: "request_understanding_child_payloads pyd r identity kids = Inr (children, child_refs)"
    and refs: "normalize_references True (exact_references (source @ external @ child_refs)) = Inr refs"
    and data: "dumped pyd (RequestUnderstandingSource r) = Inr dump" "payload_data dump = Inr data"
    and e: "e = envelope_of ?spec identity owner refs data children"
    by (auto simp: build_request_understanding_v2_envelope_def res_bind_Inr_iff Let_def)
  from r have x: "x = ModelObject (RequestUnderstandingSource r) []"
    and valid: "revalidated pyd RequestUnderstandingModel (RequestUnderstandingSource r) = Some (RequestUnderstandingSource r)"
    by (auto simp: strict_request_understanding_Inr)
  have reads: "reads_back pyd (RequestUnderstandingSource r)" using law_revalidated[OF law valid] by simp
  then have native: "model_dump (p_writer pyd) (RequestUnderstandingSource r) = Inr data" "stored_data data"
    "p_validate pyd RequestUnderstandingModel data = Some (RequestUnderstandingSource r)"
    using data by (auto elim!: reads_backE simp: dumped_iff)
  have stored_id: "stored_identity identity"
    using request_understanding_identity[OF reads] identity by auto
  obtain ds cs where cs: "kids = map (\<lambda>d. ModelObject (AcceptedDeltaSource d) []) ds" "mset cs = mset ds"
    "list_all stored_child children"
    "res_map (request_understanding_decoded_child pyd) children = Inr (map AcceptedDeltaSource cs)"
    "request_understanding_child_payloads pyd r identity (map (\<lambda>d. ModelObject (AcceptedDeltaSource d) []) cs) = Inr (children, child_refs)"
    by (rule request_understanding_kids[OF law stored_id children])
  have no_ext: "external = []" by (rule no_externals(1)[OF external])
  have again: "build_request_understanding_v2_envelope pyd (ModelObject (RequestUnderstandingSource r) []) []
      (map (\<lambda>c. ModelObject c []) (map AcceptedDeltaSource cs)) = Inr e"
    using r x identity source cs(5) refs data no_ext
    by (simp add: build_request_understanding_v2_envelope_def no_externals(2) e comp_def)
  have fields: "pe_record_code e = REQUEST_UNDERSTANDING_RECORD" "vp_record_code (pe_payload e) = REQUEST_UNDERSTANDING_RECORD"
    "pe_record_schema_version e = ss_record_schema_version ?spec"
    "vp_record_schema_version (pe_payload e) = ss_record_schema_version ?spec"
    "vp_data (pe_payload e) = data" "vp_logical_children (pe_payload e) = children"
    by (simp_all add: e envelope_of_def REQUEST_UNDERSTANDING_V2_SPEC_def)
  have owner: "opt_all utf8_text owner"
  proof -
    from source obtain raw where "apply_rules dump (None, []) request_understanding_record_rules = Inr (owner, raw)"
      using data(1) by (auto simp: top_level_projection_def res_bind_Inr_iff REQUEST_UNDERSTANDING_V2_SPEC_def)
    moreover have "dump = data" using data native(1) by (simp add: dumped_iff)
    ultimately show ?thesis
      using apply_rules_owner[of data "(None, [])"] native(2) owner_rules[of REQUEST_UNDERSTANDING_RECORD] by simp
  qed
  have stored: "stored_envelope e"
    using stored_id cs(3) native(2) normalized_references(1)[OF refs] owner
    by (simp add: e envelope_of_def stored_envelope_def REQUEST_UNDERSTANDING_V2_SPEC_def)
  have "classify_outer_versioned (Some (envelope_json e)) REQUEST_UNDERSTANDING_RECORD (ss_record_schema_version ?spec)
      = Inr (envelope_items e)" using classify_stored(2)[of e] fields by simp
  moreover have "validated_envelope (Some (envelope_json e)) (envelope_items e) REQUEST_UNDERSTANDING_RECORD
      (ss_record_schema_version ?spec) = Inr e" using validated_stored[OF stored] fields by simp
  moreover have "decoded_source pyd RequestUnderstandingModel data PAYLOAD_VALIDATION_FAILED = Inr (RequestUnderstandingSource r)"
    using native(3) thaw_stored[OF native(2)] by (simp add: decoded_source_def)
  ultimately have "decode_request_understanding_v2 pyd (Some (envelope_json e)) (ss_record_schema_version ?spec) =
        Inr \<lparr>dr_record_code = REQUEST_UNDERSTANDING_RECORD, dr_record_schema_version = ss_record_schema_version ?spec,
             dr_source_record = RequestUnderstandingSource r, dr_logical_children = map AcceptedDeltaSource cs\<rparr>"
    using again cs(4) by (simp only: decode_request_understanding_v2_def res_bind_simps split_beta fst_conv snd_conv
        fields(5,6) compare_same[OF stored])
  with x cs(1,2) stored fields(1,3) show ?thesis by blast
qed

section \<open>The entry points of the codec fail with its own errors\<close>

text \<open>The one object the generic encoder stumbles over: a toolset artifact without its version attribute.\<close>

definition versionless_artifact :: "record_code \<Rightarrow> source_object \<Rightarrow> bool" where
  "versionless_artifact code x \<longleftrightarrow> code = MODEL_VISIBLE_TOOLSET_ARTIFACT
     \<and> (\<exists>p. x = PartialObject p \<and> po_class p = ToolsetArtifactModel \<and> po_version p = None)"

lemma version_unreadable:
  assumes "NON_RU_REGISTRY code = Some spec" "object_class x = Some (ss_source_model spec)"
  shows "specialized_version_matches spec x = None \<longleftrightarrow> versionless_artifact code x"
  using assms
  by (cases code; cases x) (auto simp: specialized_version_matches_def versionless_artifact_def record_spec_def)

lemma tame_strict_record:
  assumes "NON_RU_REGISTRY code = Some spec" "\<not> versionless_artifact code x"
  shows "tame (strict_record pyd spec x)"
  unfolding strict_record_def using version_unreadable[OF assms(1)] assms(2)
  by (intro tame_if tame_option tame_bind tame_raise_if) auto

lemma versionless_record:
  assumes "NON_RU_REGISTRY code = Some spec" "versionless_artifact code x"
  shows "strict_record pyd spec x = Inl (Uncaught ''AttributeError'')"
  using assms by (auto simp: versionless_artifact_def strict_record_def specialized_version_matches_def record_spec_def)

lemma strict_model_object [simp]: "\<not> versionless_artifact code (ModelObject r extra)"
  by (simp add: versionless_artifact_def)

lemma tame_top_level:
  assumes "reads_back pyd v" "\<And>data. model_dump (p_writer pyd) v = Inr data \<Longrightarrow> list_all (rule_fits data) (ss_projection_decisions spec)"
    and "list_all rule_targets (ss_projection_decisions spec)"
  shows "tame (top_level_projection collapse pyd spec v)"
proof -
  from assms(1) obtain data where "model_dump (p_writer pyd) v = Inr data" "dumped pyd v = Inr data" by (rule reads_backE)
  with assms(2,3) show ?thesis
    unfolding top_level_projection_def by (auto intro!: tame_bind tame_apply_rules tame_normalize)
qed

lemma tame_child_payloads:
  assumes "NON_RU_REGISTRY code = Some spec" "pydantic_law pyd" "class_of v = ss_source_model spec"
  shows "tame (child_payloads pyd spec v i kids)"
proof (cases "ss_allowed_child_codes spec")
  case Nil
  then show ?thesis unfolding child_payloads_def by (auto intro!: tame_bind tame_map tame_validated_child)
next
  case (Cons child others)
  with allowed_children(1)[OF assms(1)] have child: "ss_allowed_child_codes spec = [child]" by auto
  have kids: "list_all (child_of pyd child) (map snd vcs)" if "res_map (validated_child pyd spec) kids = Inr vcs" for vcs
  proof -
    have "child_of pyd child (snd p)" if p: "p \<in> set vcs" for p
    proof -
      from res_map_set[OF \<open>res_map (validated_child pyd spec) kids = Inr vcs\<close> p] obtain x
        where "validated_child pyd spec x = Inr p" by blast
      with validated_child_Inr[OF assms(2), of spec x "fst p" "snd p"] child show ?thesis by auto
    qed
    then show ?thesis by (simp add: list_all_iff)
  qed
  have "tame (children_in_order v (map snd vcs))" if "res_map (validated_child pyd spec) kids = Inr vcs" for vcs
    by (rule allowed_children(2)[OF assms(1,3) child kids[OF that]])
  moreover have "tame (children_payloads pyd (ss_record_code spec) i (map (Pair (LOGICAL_CHILD_SPECS child)) cs))"
    if "res_map (validated_child pyd spec) kids = Inr vcs" "children_in_order v (map snd vcs) = Inr cs" for vcs cs
  proof -
    have "set cs = set (map snd vcs)" using children_in_order_again(2)[OF that(2)] by (rule mset_eq_setD)
    with kids[OF that(1)] show ?thesis by (intro tame_children_payloads) (auto simp: list_all_iff)
  qed
  ultimately show ?thesis
    unfolding child_payloads_def child list.case by (intro tame_bind tame_map tame_validated_child)
qed

lemma tame_build_envelope:
  assumes law: "pydantic_law pyd" and readable: "\<not> versionless_artifact code r"
  shows "tame (build_envelope pyd code r external kids)"
proof (cases "NON_RU_REGISTRY code")
  case (Some spec)
  have rest: "tame (logical_identity pyd v (ss_identity_fields spec))" "tame (top_level_projection False pyd spec v)"
    "\<exists>data. dumped pyd v = Inr data \<and> payload_data data = Inr data" "class_of v = ss_source_model spec"
    if "strict_record pyd spec r = Inr v" for v
  proof -
    note v = strict_record_Inr[OF law Some that]
    show "class_of v = ss_source_model spec" by (rule v(1))
    show "tame (logical_identity pyd v (ss_identity_fields spec))"
      using logical_identity_stored[OF v(3)] identity_fields_scalar[OF Some v(1)] by fastforce
    show "tame (top_level_projection False pyd spec v)"
      using rules_fit[OF Some v(1)] spec_rule_targets(1)[OF Some] by (rule tame_top_level[OF v(3)])
    show "\<exists>data. dumped pyd v = Inr data \<and> payload_data data = Inr data" using v(3) by (auto elim: reads_backE)
  qed
  show ?thesis
    unfolding build_envelope_def Some option.case
  proof (intro tame_bind tame_pair tame_strict_record[OF Some readable] tame_external[OF spec_rule_targets(2)[OF Some]] tame_normalize)
    fix v assume v: "strict_record pyd spec r = Inr v"
    show "tame (logical_identity pyd v (ss_identity_fields spec))" "tame (top_level_projection False pyd spec v)"
      by (rule rest[OF v])+
    show "tame (child_payloads pyd spec v i kids)" for i by (rule tame_child_payloads[OF Some law rest(4)[OF v]])
    show "tame (dumped pyd v)" using rest(3)[OF v] by auto
    show "tame (payload_data dump)" if "dumped pyd v = Inr dump" for dump using rest(3)[OF v] that by auto
  qed simp
qed (simp add: build_envelope_def)

lemma versionless_envelope:
  "versionless_artifact code r \<Longrightarrow> build_envelope pyd code r external kids = Inl (Uncaught ''AttributeError'')"
  using registry_total[of code] versionless_record[of code]
  by (auto simp: build_envelope_def versionless_artifact_def split: option.splits)

lemma tame_versioned_model: "tame (strict_versioned_model pyd x m category)"
  by (auto simp: strict_versioned_model_def split: option.splits)

lemma tame_strict_request_understanding: "tame (strict_request_understanding_v2 pyd x)"
proof -
  have "tame (case rebuilt of RequestUnderstandingSource r' \<Rightarrow> Inr r' | _ \<Rightarrow> Inl (Uncaught ''AttributeError''))"
    if "strict_versioned_model pyd x RequestUnderstandingModel PAYLOAD_VALIDATION_FAILED = Inr rebuilt" for rebuilt
    using that by (auto simp: versioned_model_Inr class_of_iff)
  then show ?thesis
    unfolding strict_request_understanding_v2_def
    by (intro tame_if tame_option tame_bind tame_raise_if tame_versioned_model) simp_all
qed

lemma tame_request_understanding_child: "tame (request_understanding_child pyd x)"
proof -
  have "tame (case rebuilt of AcceptedDeltaSource d \<Rightarrow> Inr d | _ \<Rightarrow> Inl (Uncaught ''AttributeError''))"
    if "strict_versioned_model pyd x AcceptedDeltaModel CHILD_MISMATCH = Inr rebuilt" for rebuilt
    using that by (auto simp: versioned_model_Inr class_of_iff)
  then show ?thesis unfolding request_understanding_child_def by (intro tame_bind tame_versioned_model)
qed

lemma tame_version_chain: "tame (child_version_chain parent d previous cs)"
  by (induction cs arbitrary: previous) (auto intro!: tame_bind tame_raise_if split: option.splits)

lemma tame_request_understanding_children: "tame (request_understanding_children parent cs)"
  unfolding request_understanding_children_def Let_def by (intro tame_bind tame_raise_if tame_version_chain)

lemma tame_request_understanding_payloads:
  assumes "pydantic_law pyd"
  shows "tame (request_understanding_child_payloads pyd parent i kids)"
proof -
  have "tame (children_payloads pyd REQUEST_UNDERSTANDING_RECORD i
      (map (\<lambda>d. (LOGICAL_CHILD_SPECS CHILD_ACCEPTED_TASK_DELTA, AcceptedDeltaSource d))
        (sort_key (\<lambda>d. uuid_text (ad_accepted_delta_id d)) ds)))"
    if ds: "res_map (request_understanding_child pyd) kids = Inr ds" for ds
  proof -
    have "child_of pyd CHILD_ACCEPTED_TASK_DELTA (AcceptedDeltaSource d)" if "d \<in> set ds" for d
      using res_map_set[OF ds that] accepted_child[OF assms] by (auto simp: request_understanding_child_Inr)
    then have "list_all (child_of pyd CHILD_ACCEPTED_TASK_DELTA)
        (map AcceptedDeltaSource (sort_key (\<lambda>d. uuid_text (ad_accepted_delta_id d)) ds))"
      by (simp add: list_all_iff)
    from tame_children_payloads[OF this] show ?thesis by (simp add: comp_def)
  qed
  then show ?thesis
    unfolding request_understanding_child_payloads_def
    by (intro tame_bind tame_map tame_request_understanding_child tame_request_understanding_children)
qed

lemma tame_build_request_understanding:
  assumes law: "pydantic_law pyd"
  shows "tame (build_request_understanding_v2_envelope pyd x external kids)"
proof -
  let ?spec = REQUEST_UNDERSTANDING_V2_SPEC
  have rest: "tame (logical_identity pyd (RequestUnderstandingSource r) (ss_identity_fields ?spec))"
    "tame (top_level_projection True pyd ?spec (RequestUnderstandingSource r))"
    "\<exists>data. dumped pyd (RequestUnderstandingSource r) = Inr data \<and> payload_data data = Inr data"
    if "strict_request_understanding_v2 pyd x = Inr r" for r
  proof -
    have reads: "reads_back pyd (RequestUnderstandingSource r)"
      using that law_revalidated[OF law] by (fastforce simp: strict_request_understanding_Inr)
    show "tame (logical_identity pyd (RequestUnderstandingSource r) (ss_identity_fields ?spec))"
      using request_understanding_identity[OF reads] by auto
    show "tame (top_level_projection True pyd ?spec (RequestUnderstandingSource r))"
      using request_understanding_rules_fit rules_target(1)[of REQUEST_UNDERSTANDING_RECORD]
      by (intro tame_top_level[OF reads]) (auto simp: REQUEST_UNDERSTANDING_V2_SPEC_def)
    show "\<exists>data. dumped pyd (RequestUnderstandingSource r) = Inr data \<and> payload_data data = Inr data"
      using reads by (auto elim: reads_backE)
  qed
  have "list_all rule_targets (external_rules ?spec)" by (simp add: no_external_rules)
  then show ?thesis
    unfolding build_request_understanding_v2_envelope_def Let_def
  proof (intro tame_bind tame_pair tame_strict_request_understanding tame_external tame_normalize
      tame_request_understanding_payloads[OF law])
    fix r assume r: "strict_request_understanding_v2 pyd x = Inr r"
    show "tame (logical_identity pyd (RequestUnderstandingSource r) (ss_identity_fields ?spec))"
      "tame (top_level_projection True pyd ?spec (RequestUnderstandingSource r))" by (rule rest[OF r])+
    show "tame (dumped pyd (RequestUnderstandingSource r))" using rest(3)[OF r] by auto
    show "tame (payload_data dump)" if "dumped pyd (RequestUnderstandingSource r) = Inr dump" for dump
      using rest(3)[OF r] that by auto
  qed simp_all
qed

subsection \<open>Decoding\<close>

lemma tame_decoded_source: "tame (decoded_source pyd m data category)"
  by (auto simp: decoded_source_def split: sum.splits option.splits)

lemma decoded_source_reads:
  "pydantic_law pyd \<Longrightarrow> decoded_source pyd m data category = Inr r \<Longrightarrow> class_of r = m \<and> valid_source r \<and> reads_back pyd r"
  by (auto simp: decoded_source_def pydantic_law_def split: sum.splits option.splits)

lemma tame_compare: "tame (compare_envelopes a b c)"
  unfolding compare_envelopes_def by (intro tame_bind tame_raise_if)

lemma tame_validated_envelope: "tame (validated_envelope raw outer_data code version)"
  unfolding validated_envelope_def by (auto intro!: tame_bind tame_raise_if split: option.splits sum.splits)

lemma tame_json_input: "tame (json_input stored)"
  by (auto simp: json_input_def split: stored_input.splits pyobj.splits sum.splits)

lemma tame_outer: "tame (outer_object raw code)"
  by (auto simp: outer_object_def split: option.splits json.splits intro!: tame_raise_if tame_bind)

lemma tame_classify_versioned: "tame (classify_outer_versioned raw code version)"
  unfolding classify_outer_versioned_def by (auto intro!: tame_bind tame_outer split: option.splits json.splits)

lemma tame_versioned_pair: "tame (versioned_pair_spec code version)"
  by (auto simp: versioned_pair_spec_def split: option.splits)

text \<open>The rest of a generic decoding, once the outer metadata is classified.\<close>

lemma tame_generic_rest:
  assumes "pydantic_law pyd" "tame (classify_outer raw code)"
  shows "tame (decode_generic pyd raw code)"
  unfolding decode_generic_def Let_def
  by (intro tame_bind tame_pair assms(2) tame_validated_envelope tame_decoded_source tame_map
      tame_build_envelope[OF assms(1)] strict_model_object tame_compare) (auto simp: decoded_child_def tame_decoded_source)

lemma classify_uncaught:
  assumes "code \<noteq> REQUEST_UNDERSTANDING_RECORD"
  shows "classify_outer raw code = Inl (Uncaught e) \<longleftrightarrow>
    e = ''TypeError'' \<and> (\<exists>d v. raw = Some (JDict d) \<and> map_of d (str ''record_code'') = Some (JStr (record_code_text code))
      \<and> map_of d (str ''record_schema_version'') = Some v \<and> \<not> json_scalar v)"
proof -
  have code_text: "record_code_of_text s = Some code \<longleftrightarrow> s = record_code_text code" for s
    using record_code_round_trip by (auto simp: record_code_of_text_def find_Some_iff)
  have outer: "outer_object raw code = Inr d \<longleftrightarrow>
      raw = Some (JDict d) \<and> map_of d (str ''record_code'') = Some (JStr (record_code_text code))" for d
    by (auto simp: outer_object_def code_text res_bind_Inr_iff split: option.splits json.splits)
  have not_text: "\<not> json_scalar v \<Longrightarrow> v \<noteq> JStr s" for v s by (auto simp: json_scalar_def)
  obtain spec where spec: "NON_RU_REGISTRY code = Some spec" using registry_total[OF assms] by blast
  have "outer_object raw code \<noteq> Inl (Uncaught e)" using tame_outer by (auto simp: tame_def)
  then show ?thesis
    using not_text spec
    by (auto simp: classify_outer_def res_bind_Inl_iff outer split: option.splits if_splits)
qed

lemma generic_uncaught:
  assumes "pydantic_law pyd" "code \<noteq> REQUEST_UNDERSTANDING_RECORD"
  shows "decode_generic pyd raw code = Inl (Uncaught e) \<longleftrightarrow> classify_outer raw code = Inl (Uncaught e)"
proof (cases "tame (classify_outer raw code)")
  case True
  with tame_generic_rest[OF assms(1) True] show ?thesis by (auto simp: tame_def)
next
  case False
  then show ?thesis by (auto simp: tame_def decode_generic_def)
qed

lemma tame_request_understanding_decode:
  assumes "pydantic_law pyd"
  shows "tame (decode_request_understanding_v2 pyd raw version)"
  unfolding decode_request_understanding_v2_def
  by (intro tame_bind tame_classify_versioned tame_validated_envelope tame_decoded_source tame_map
      tame_build_request_understanding[OF assms] tame_compare)
    (auto simp: request_understanding_decoded_child_def tame_decoded_source)

lemma classify_versioned_generic:
  assumes "classify_outer_versioned raw code (ss_record_schema_version spec) = Inr d" "NON_RU_REGISTRY code = Some spec"
  shows "classify_outer raw code = Inr (spec, d)"
proof -
  from assms(1) obtain d0 where d0: "outer_object raw code = Inr d0"
    "(case map_of d0 (str ''record_schema_version'') of
       None \<Rightarrow> signal MISSING_RECORD_SCHEMA_VERSION
     | Some (JStr version) \<Rightarrow>
         if version = ss_record_schema_version spec then Inr d0
         else signal
           (if version \<in> set (map (snd \<circ> fst) RECORD_SCHEMA_VERSION_CATALOG)
            then RECORD_SCHEMA_VERSION_MISMATCH else UNKNOWN_RECORD_SCHEMA_VERSION)
     | Some _ \<Rightarrow> signal UNKNOWN_RECORD_SCHEMA_VERSION) = Inr d"
    unfolding classify_outer_versioned_def res_bind_Inr_iff by blast
  from d0(2) have "map_of d0 (str ''record_schema_version'') = Some (JStr (ss_record_schema_version spec))" "d0 = d"
    by (simp_all split: option.splits json.splits if_splits)
  with d0(1) assms(2) show ?thesis by (simp add: classify_outer_def)
qed

text \<open>What the caller of an entry point gets from a tame computation.\<close>

definition bounded_error :: "uuid \<Rightarrow> public_error + 'a \<Rightarrow> bool" where
  "bounded_error correlation_ref m \<longleftrightarrow> (case m of
      Inl (IntegrityError _ u) \<Rightarrow> u = correlation_ref | Inl (PlainException _) \<Rightarrow> False | Inr _ \<Rightarrow> True)"

lemma bounded_public: "tame m \<Longrightarrow> bounded_error c (public_result c m)"
  by (cases m) (auto simp: tame_def public_result_def bounded_error_def split: codec_error.splits)

lemma public_plain: "public_result c m = Inl (PlainException e) \<longleftrightarrow> m = Inl (Uncaught e)"
  by (cases m) (auto simp: public_result_def split: codec_error.splits)
end
