(* ===== verification/Codec_Properties.thy ===== *)
theory Codec_Properties
  imports Codec_Entry_Points Sample_Evidence
begin

section \<open>A pydantic that knows a few records, used by the witnesses\<close>

text \<open>
  Round trips, error behaviour and integrity of the codec, with the witnesses on the ToolCall of \<open>Sample_Case\<close> and its attempt.
\<close>

definition sample_writer :: json_writer where
  "sample_writer = \<lparr>jw_time = (\<lambda>_. str ''1970-01-01T00:00:00.001000Z''), jw_foreign = JNull\<rparr>"

definition sample_pydantic :: "source_record list \<Rightarrow> pydantic" where
  "sample_pydantic rs = \<lparr>p_writer = sample_writer,
     p_validate = (\<lambda>m data. find (\<lambda>r. class_of r = m \<and> model_dump sample_writer r = Inr data) rs)\<rparr>"

definition writable :: "source_record \<Rightarrow> bool" where
  "writable r \<longleftrightarrow> (case model_dump sample_writer r of Inl _ \<Rightarrow> False | Inr data \<Rightarrow> stored_data data)"

lemma find_only: "distinct (map f xs) \<Longrightarrow> x \<in> set xs \<Longrightarrow> P x \<Longrightarrow> (\<And>y. P y \<Longrightarrow> f y = f x) \<Longrightarrow> find P xs = Some x"
proof (induction xs)
  case (Cons a xs)
  show ?case
  proof (cases "P a")
    case True
    with Cons.prems(4) have "f a = f x" by blast
    with Cons.prems(1,2) have "a = x" by (auto simp: rev_image_eqI)
    with True show ?thesis by simp
  next
    case False
    with Cons.prems(2,3) have "x \<in> set xs" by auto
    moreover have "distinct (map f xs)" using Cons.prems(1) by simp
    ultimately have "find P xs = Some x" using Cons.prems(3,4) by (intro Cons.IH)
    with False show ?thesis by simp
  qed
qed simp

lemma sample_law:
  assumes "distinct (map class_of rs)" "list_all (\<lambda>r. valid_source r \<and> writable r) rs"
  shows "pydantic_law (sample_pydantic rs)"
proof -
  have "class_of r = m \<and> valid_source r \<and> reads_back (sample_pydantic rs) r"
    if found: "p_validate (sample_pydantic rs) m data = Some r" for m data r
  proof -
    from found have "find (\<lambda>r. class_of r = m \<and> model_dump sample_writer r = Inr data) rs = Some r"
      by (simp add: sample_pydantic_def)
    then have r: "class_of r = m" "model_dump sample_writer r = Inr data" "r \<in> set rs"
      by (auto simp only: find_Some_iff nth_mem)
    have "find (\<lambda>x. class_of x = class_of r \<and> model_dump sample_writer x = Inr data) rs = Some r"
      by (rule find_only[OF assms(1) r(3)]) (simp_all add: r(2))
    with r assms(2) show ?thesis by (auto simp: reads_back_def sample_pydantic_def list_all_iff writable_def)
  qed
  then show ?thesis by (auto simp: pydantic_law_def)
qed

lemma utf8_hex [simp]: "utf8_text (hex_digits n)"
proof (induction n rule: hex_digits.induct)
  case (1 n)
  then show ?case
    by (subst hex_digits.simps) (auto simp: utf8_text_def hex_digit_def)
qed

lemma utf8_uuid [simp]: "utf8_text (uuid_text u)"
  using utf8_hex[of u] by (auto simp: uuid_text_def Let_def utf8_text_def list_all_iff dest: in_set_takeD in_set_dropD)

lemma stored_values [simp]:
  "native_json (uuid_json u)" "json_utf8 (uuid_json u)" "native_json (time_json sample_writer d)" "json_utf8 (time_json sample_writer d)"
  by (simp_all add: uuid_json_def time_json_def sample_writer_def)

definition sample_call_records :: "source_record list" where
  "sample_call_records = [ToolCallSource case_call, AttemptSource case_attempt]"

abbreviation codec_sample :: pydantic where
  "codec_sample \<equiv> sample_pydantic sample_call_records"

lemma call_valid: "accepts new_tool_call_record case_call" "accepts new_tool_attempt_record case_attempt"
proof -
  have "case_call\<lparr>tc_argument_binding_refs := [54]\<rparr> = case_call" by (simp add: case_call_def)
  with sample_ended_records_valid(7)[of 54] show "accepts new_tool_call_record case_call" by simp
  show "accepts new_tool_attempt_record case_attempt" using case_records_valid by simp
qed

lemma call_writable: "writable (ToolCallSource case_call)" "writable (AttemptSource case_attempt)"
  by (simp_all add: writable_def stored_data_def record_data_defs case_call_def case_attempt_def opt_json_def)

lemma call_law: "pydantic_law codec_sample"
  by (rule sample_law) (simp_all add: sample_call_records_def call_valid call_writable)

text \<open>The ToolCall of the graded case with its attempt can be encoded.\<close>

lemma call_revalidated:
  "r \<in> set sample_call_records \<Longrightarrow> revalidated codec_sample (class_of r) r = Some r"
  by (auto simp: sample_call_records_def revalidated_def sample_pydantic_def)

abbreviation call_data :: json_object where
  "call_data \<equiv> tool_call_record_data sample_writer case_call"

lemma call_dumped:
  "dumped codec_sample (ToolCallSource case_call) = Inr call_data" "payload_data call_data = Inr call_data"
  "dumped codec_sample (AttemptSource case_attempt) = Inr (tool_attempt_record_data sample_writer case_attempt)"
  "payload_data (tool_attempt_record_data sample_writer case_attempt) = Inr (tool_attempt_record_data sample_writer case_attempt)"
  using call_writable thaw_stored by (simp_all add: dumped_def sample_pydantic_def writable_def payload_data_def)

lemma dumps_one: "is_text v \<Longrightarrow> \<exists>k. res_map json_dumps [v] = Inr [k]"
  using dumps_texts[of "[v]"] by (auto simp: res_map_Inr_iff list_all2_Cons1 split: sum.splits)

lemma call_rules: "\<exists>refs. apply_rules call_data (None, []) tool_call_record_rules = Inr (None, refs)
    \<and> list_all strict_ref refs \<and> distinct (map rf_relation refs)"
proof -
  obtain k where "json_dumps (uuid_json 54) = Inr k" using json_dumps_scalar[of "uuid_json 54"] by auto
  then show ?thesis
    by (simp add: tool_call_record_rules_def decision_def projected_values_def project_one_def project_optional_def
        project_many_def project_combined_def tool_call_record_data_def case_call_def opt_json_def
        reference_for_value_def record_spec_def strict_ref_iff)
qed

lemma relations_distinct: "distinct (map rf_relation refs) \<Longrightarrow> list_all strict_ref refs \<Longrightarrow> distinct (map key_of refs)"
proof -
  assume "distinct (map rf_relation refs)" "list_all strict_ref refs"
  moreover have "strict_ref r \<Longrightarrow> fst (key_of r) = rf_relation r" for r
    using strict_key[of r] by (auto simp: reference_key_def split: sum.splits dest!: sym[of _ "key_of r"])
  ultimately have "map fst (map key_of refs) = map rf_relation refs" by (auto simp: list_all_iff)
  with \<open>distinct (map rf_relation refs)\<close> show ?thesis by (metis distinct_map)
qed

lemma call_reads: "r \<in> set sample_call_records \<Longrightarrow> reads_back codec_sample r"
  using law_revalidated[OF call_law call_revalidated] by blast

lemma call_children: "\<exists>kids. child_payloads codec_sample (record_schema_spec TOOL_CALL_RECORD) (ToolCallSource case_call) i
    [ModelObject (AttemptSource case_attempt) []] = Inr (kids, [])"
proof -
  have child: "child_of codec_sample CHILD_TOOL_ATTEMPT_RECORD (AttemptSource case_attempt)"
    using call_reads[of "AttemptSource case_attempt"] by (simp add: child_of_def) (simp add: sample_call_records_def)
  have spec: "ss_allowed_child_codes (record_schema_spec TOOL_CALL_RECORD) = [CHILD_TOOL_ATTEMPT_RECORD]"
    "ss_record_code (record_schema_spec TOOL_CALL_RECORD) = TOOL_CALL_RECORD"
    by (simp_all add: record_schema_spec_def record_spec_def)
  have v: "validated_child codec_sample (record_schema_spec TOOL_CALL_RECORD) (ModelObject (AttemptSource case_attempt) [])
      = Inr (LOGICAL_CHILD_SPECS CHILD_TOOL_ATTEMPT_RECORD, AttemptSource case_attempt)"
    by (rule validated_child_again[OF child]) (simp_all add: spec)
  have order: "children_in_order (ToolCallSource case_call) [AttemptSource case_attempt] = Inr [AttemptSource case_attempt]"
    by (simp add: children_in_order_def attempts_in_order_def case_call_def case_attempt_def Let_def)
  have "\<exists>k. child_payload codec_sample TOOL_CALL_RECORD i (LOGICAL_CHILD_SPECS CHILD_TOOL_ATTEMPT_RECORD) (AttemptSource case_attempt)
      = Inr (k, [])"
    by (simp add: child_payload_def call_dumped logical_identity_def tool_attempt_record_rules_def decision_def
        projected_values_def project_one_def tool_attempt_record_data_def call_dumped(4)[unfolded tool_attempt_record_data_def])
  then show ?thesis
    by (auto simp: child_payloads_def v spec order children_payloads_def normalize_references_def)
qed

lemma call_encodes: "\<exists>e. build_envelope codec_sample TOOL_CALL_RECORD (ModelObject (ToolCallSource case_call) []) []
    [ModelObject (AttemptSource case_attempt) []] = Inr e"
proof -
  have spec: "NON_RU_REGISTRY TOOL_CALL_RECORD = Some (record_schema_spec TOOL_CALL_RECORD)"
    "ss_projection_decisions (record_schema_spec TOOL_CALL_RECORD) = tool_call_record_rules"
    "ss_source_model (record_schema_spec TOOL_CALL_RECORD) = ToolCallModel"
    "ss_identity_fields (record_schema_spec TOOL_CALL_RECORD) = [str ''tool_call_id'']"
    "ss_version_mirror_field (record_schema_spec TOOL_CALL_RECORD) = None"
    "ss_specialized_version_validator (record_schema_spec TOOL_CALL_RECORD) = None"
    by (simp_all add: record_schema_spec_def record_spec_def)
  have strict: "strict_record codec_sample (record_schema_spec TOOL_CALL_RECORD) (ModelObject (ToolCallSource case_call) [])
      = Inr (ToolCallSource case_call)"
    using call_revalidated[of "ToolCallSource case_call"]
    by (simp add: strict_model_Inr spec sample_call_records_def)
  obtain refs where refs: "apply_rules call_data (None, []) tool_call_record_rules = Inr (None, refs)"
    "list_all strict_ref refs" "distinct (map rf_relation refs)" using call_rules by blast
  have normal: "normalize_references False (exact_references refs) = Inr (sort_key key_of refs)"
    using refs(2,3) by (simp add: normalize_exact relations_distinct)
  have "external_rules (record_schema_spec TOOL_CALL_RECORD) = []"
    by (simp add: external_rules_def spec(2) tool_call_record_rules_def decision_def)
  then have external: "validate_external_references (record_schema_spec TOOL_CALL_RECORD) [] = Inr []"
    by (simp add: validate_external_references_def normalize_references_def)
  obtain i where identity: "logical_identity codec_sample (ToolCallSource case_call) [str ''tool_call_id''] = Inr i"
    by (simp add: logical_identity_def call_dumped) (simp add: tool_call_record_data_def)
  obtain kids where kids: "child_payloads codec_sample (record_schema_spec TOOL_CALL_RECORD) (ToolCallSource case_call) i
      [ModelObject (AttemptSource case_attempt) []] = Inr (kids, [])" using call_children by blast
  have "top_level_projection False codec_sample (record_schema_spec TOOL_CALL_RECORD) (ToolCallSource case_call)
      = Inr (None, sort_key key_of refs)"
    by (simp add: top_level_projection_def call_dumped spec(2) refs(1) normal)
  with normalize_fixed[OF normal] show ?thesis
    by (simp add: build_envelope_def spec(1,4) strict identity external kids call_dumped del: NON_RU_REGISTRY.simps)
qed

section \<open>Properties of the persistence codec\<close>

subsection \<open>The selected spec\<close>

lemma catalog_lookup:
  "map_of RECORD_SCHEMA_VERSION_CATALOG (code, version) =
     (if version = ss_record_schema_version (record_schema_spec code) then Some (record_schema_spec code) else None)"
proof -
  have "map_of (map (\<lambda>c. ((c, f c), g c)) codes) (code, version)
      = (if code \<in> set codes \<and> version = f code then Some (g code) else None)"
    for f :: "record_code \<Rightarrow> pystr" and g :: "record_code \<Rightarrow> schema_spec" and codes
    by (induction codes) auto
  moreover have "code \<in> set record_codes" by (cases code) (simp_all add: record_codes_def)
  ultimately show ?thesis by (simp add: RECORD_SCHEMA_VERSION_CATALOG_def)
qed

lemma versioned_pair_Inr:
  "versioned_pair_spec code version = Inr selected \<longleftrightarrow>
     (\<exists>c. code = Some c \<and> version = Some (ss_record_schema_version selected) \<and> selected = record_schema_spec c)"
  by (auto simp: versioned_pair_spec_def catalog_lookup split: option.splits if_splits)

lemma record_schema_code: "ss_record_code (record_schema_spec c) = c"
  by (cases c) (simp_all add: record_schema_spec_def record_spec_def REQUEST_UNDERSTANDING_V2_SPEC_def)

lemma record_schema_generic: "c \<noteq> REQUEST_UNDERSTANDING_RECORD \<Longrightarrow> NON_RU_REGISTRY c = Some (record_schema_spec c)"
  by (cases c) (simp_all add: record_schema_spec_def)

lemma record_schema_ru: "record_schema_spec REQUEST_UNDERSTANDING_RECORD = REQUEST_UNDERSTANDING_V2_SPEC"
  by (simp add: record_schema_spec_def)

lemma selected_record_Inr:
  "strict_selected_versioned_record pyd spec x = Inr v \<Longrightarrow>
     x = ModelObject v [] \<and> class_of v = ss_source_model spec \<and> revalidated pyd (class_of v) v = Some v"
  by (auto simp: strict_selected_versioned_record_def res_bind_Inr_iff versioned_model_Inr split: option.splits if_splits)

lemma selected_children_Inr:
  "res_map (strict_selected_versioned_child pyd spec) kids = Inr cs \<Longrightarrow>
     kids = map (\<lambda>c. ModelObject c []) cs \<and> list_all (\<lambda>c. revalidated pyd (class_of c) c = Some c) cs"
proof -
  assume "res_map (strict_selected_versioned_child pyd spec) kids = Inr cs"
  then have "list_all2 (\<lambda>x c. strict_selected_versioned_child pyd spec x = Inr c) kids cs" by (simp add: res_map_Inr_iff)
  then show ?thesis
    by (induction rule: list_all2_induct)
      (auto simp: strict_selected_versioned_child_def versioned_model_Inr split: option.splits)
qed

lemma validated_same:
  "list_all (\<lambda>c. revalidated pyd (class_of c) c = Some c) cs \<Longrightarrow>
   list_all2 (validates_to pyd) (map (\<lambda>c. ModelObject c []) cs) vs \<Longrightarrow> vs = cs"
  by (induction cs arbitrary: vs) (auto simp: validates_to_def list_all2_Cons1)

lemma public_result_Inr [simp]: "public_result c m = Inr x \<longleftrightarrow> m = Inr x"
  by (cases m) (auto simp: public_result_def split: codec_error.splits)

subsection \<open>Round trips\<close>

text \<open>
  C36. What the generic entry point encodes, the generic entry point decodes, whichever form the envelope
  is stored in: the result is the record that validation made of the input, under the code and version
  of its family, with the validated children (those of a Task and of a ToolCall in their canonical order).
\<close>

theorem decoded_encoding:
  assumes "pydantic_law pyd"
    and "encode_persistence_record pyd fresh code r external kids = Inr e"
    and "carries stored e"
  shows "\<exists>c spec v vs cs. code = Some c \<and> NON_RU_REGISTRY c = Some spec \<and> strict_record pyd spec r = Inr v
    \<and> list_all2 (validates_to pyd) kids vs \<and> mset cs = mset vs
    \<and> decode_persistence_record pyd stored c correlation_ref =
        Inr \<lparr>dr_record_code = c, dr_record_schema_version = ss_record_schema_version spec,
             dr_source_record = v, dr_logical_children = cs\<rparr>"
proof -
  from assms(2) obtain c where c: "code = Some c" "c \<noteq> REQUEST_UNDERSTANDING_RECORD"
    "build_envelope pyd c r external kids = Inr e"
    by (auto simp: encode_persistence_record_def split: option.splits if_splits)
  from decode_generic_built[OF assms(1) c(3)] obtain spec v vs cs where
    d: "NON_RU_REGISTRY c = Some spec" "strict_record pyd spec r = Inr v" "stored_envelope e"
    "list_all2 (validates_to pyd) kids vs" "mset cs = mset vs"
    "decode_generic pyd (Some (envelope_json e)) c =
        Inr \<lparr>dr_record_code = c, dr_record_schema_version = ss_record_schema_version spec,
             dr_source_record = v, dr_logical_children = cs\<rparr>" by blast
  from d(6) c(2) carries_input(1)[OF assms(3) d(3)]
  have "decode_persistence_record pyd stored c correlation_ref =
        Inr \<lparr>dr_record_code = c, dr_record_schema_version = ss_record_schema_version spec,
             dr_source_record = v, dr_logical_children = cs\<rparr>"
    by (simp add: decode_persistence_record_def)
  with c(1) d show ?thesis by blast
qed

lemma call_encoded: "\<exists>e. encode_persistence_record codec_sample fresh (Some TOOL_CALL_RECORD) (ModelObject (ToolCallSource case_call) []) []
    [ModelObject (AttemptSource case_attempt) []] = Inr e"
  using call_encodes by (simp add: encode_persistence_record_def)

theorem decoded_encoding_witness:
  "\<exists>e. encode_persistence_record codec_sample 8 (Some TOOL_CALL_RECORD) (ModelObject (ToolCallSource case_call) []) []
        [ModelObject (AttemptSource case_attempt) []] = Inr e
    \<and> (\<exists>d. decode_persistence_record codec_sample (EnvelopeInput (Obj e [])) TOOL_CALL_RECORD 9 = Inr d
        \<and> dr_logical_children d = [AttemptSource case_attempt])"
proof -
  obtain e where e: "encode_persistence_record codec_sample 8 (Some TOOL_CALL_RECORD) (ModelObject (ToolCallSource case_call) []) []
      [ModelObject (AttemptSource case_attempt) []] = Inr e" using call_encoded by blast
  have "carries (EnvelopeInput (Obj e [])) e" by (simp add: carries_def)
  from decoded_encoding[OF call_law e this, of 9] obtain d vs cs where
    "decode_persistence_record codec_sample (EnvelopeInput (Obj e [])) TOOL_CALL_RECORD 9 = Inr d"
    "dr_logical_children d = cs" "list_all2 (validates_to codec_sample) [ModelObject (AttemptSource case_attempt) []] vs" "mset cs = mset vs"
    by auto
  moreover from this(3) have "vs = [AttemptSource case_attempt]"
    using call_revalidated[of "AttemptSource case_attempt"]
    by (auto simp: validates_to_def list_all2_Cons1 sample_call_records_def)
  ultimately show ?thesis using e by auto
qed

text \<open>
  C35. What the versioned entry point encodes under a code and a version, the Request Understanding
  record included, it decodes under the same code and version to the very same record, with the same
  children, whichever form the envelope is stored in.
\<close>

theorem versioned_decoded_encoding:
  assumes "pydantic_law pyd"
    and "encode_persistence_record_versioned pyd fresh code version r external kids = Inr e"
    and "carries stored e"
  shows "\<exists>c ver v cs ds. code = Some c \<and> version = Some ver \<and> r = ModelObject v [] \<and> kids = map (\<lambda>x. ModelObject x []) ds
    \<and> mset cs = mset ds
    \<and> decode_persistence_record_versioned pyd stored code version correlation_ref =
        Inr \<lparr>dr_record_code = c, dr_record_schema_version = ver, dr_source_record = v, dr_logical_children = cs\<rparr>"
proof -
  from assms(2) obtain c where c: "code = Some c" "version = Some (ss_record_schema_version (record_schema_spec c))"
    and pair: "versioned_pair_spec code version = Inr (record_schema_spec c)"
    by (auto simp: encode_persistence_record_versioned_def res_bind_Inr_iff versioned_pair_Inr)
  show ?thesis
  proof (cases "c = REQUEST_UNDERSTANDING_RECORD")
    case True
    with assms(2) pair have "build_request_understanding_v2_envelope pyd r external kids = Inr e"
      by (simp add: encode_persistence_record_versioned_def record_schema_code res_bind_Inr_iff)
    from request_understanding_built[OF assms(1) this] obtain r0 ds cs where
      b: "r = ModelObject (RequestUnderstandingSource r0) []" "kids = map (\<lambda>d. ModelObject (AcceptedDeltaSource d) []) ds"
      "mset cs = mset ds" "stored_envelope e"
      "decode_request_understanding_v2 pyd (Some (envelope_json e)) (ss_record_schema_version REQUEST_UNDERSTANDING_V2_SPEC) =
        Inr \<lparr>dr_record_code = REQUEST_UNDERSTANDING_RECORD,
             dr_record_schema_version = ss_record_schema_version REQUEST_UNDERSTANDING_V2_SPEC,
             dr_source_record = RequestUnderstandingSource r0, dr_logical_children = map AcceptedDeltaSource cs\<rparr>"
      by blast
    have "decode_persistence_record_versioned pyd stored code version correlation_ref =
        Inr \<lparr>dr_record_code = c, dr_record_schema_version = ss_record_schema_version REQUEST_UNDERSTANDING_V2_SPEC,
             dr_source_record = RequestUnderstandingSource r0, dr_logical_children = map AcceptedDeltaSource cs\<rparr>"
      using pair True b(5) carries_input[OF assms(3) b(4)]
      by (simp add: decode_persistence_record_versioned_def record_schema_ru REQUEST_UNDERSTANDING_V2_SPEC_def)
    moreover have "kids = map (\<lambda>x. ModelObject x []) (map AcceptedDeltaSource ds)" "mset (map AcceptedDeltaSource cs) = mset (map AcceptedDeltaSource ds)"
      using b(2,3) by simp_all
    ultimately show ?thesis using c b(1) True record_schema_ru by metis
  next
    case False
    with assms(2) pair obtain v ds where r: "strict_selected_versioned_record pyd (record_schema_spec c) r = Inr v"
      and kids: "res_map (strict_selected_versioned_child pyd (record_schema_spec c)) kids = Inr ds"
      and built: "build_envelope pyd c (ModelObject v []) external (map (\<lambda>x. ModelObject x []) ds) = Inr e"
      by (auto simp: encode_persistence_record_versioned_def record_schema_code res_bind_Inr_iff)
    from decode_generic_built[OF assms(1) built] record_schema_generic[OF False] obtain w vs cs where
      d: "strict_record pyd (record_schema_spec c) (ModelObject v []) = Inr w" "stored_envelope e" "pe_record_code e = c"
      "pe_record_schema_version e = ss_record_schema_version (record_schema_spec c)"
      "list_all2 (validates_to pyd) (map (\<lambda>x. ModelObject x []) ds) vs" "mset cs = mset vs"
      "decode_generic pyd (Some (envelope_json e)) c =
        Inr \<lparr>dr_record_code = c, dr_record_schema_version = ss_record_schema_version (record_schema_spec c),
             dr_source_record = w, dr_logical_children = cs\<rparr>" by auto
    have "w = v" using d(1) selected_record_Inr[OF r] by (auto simp: strict_model_Inr)
    moreover have "vs = ds" using validated_same d(5) selected_children_Inr[OF kids] by blast
    moreover have "decode_persistence_record_versioned pyd stored code version correlation_ref =
        Inr \<lparr>dr_record_code = c, dr_record_schema_version = ss_record_schema_version (record_schema_spec c),
             dr_source_record = w, dr_logical_children = cs\<rparr>"
      using pair False d(3,4,7) classify_stored(2)[of e] carries_input[OF assms(3) d(2)]
      by (simp add: decode_persistence_record_versioned_def record_schema_code)
    ultimately show ?thesis
      using c selected_record_Inr[OF r] selected_children_Inr[OF kids] d(6) by blast
  qed
qed

lemma call_encoded_versioned:
  "\<exists>e. encode_persistence_record_versioned codec_sample fresh (Some TOOL_CALL_RECORD) (Some (str ''tool_call_record.p0.v1''))
     (ModelObject (ToolCallSource case_call) []) [] [ModelObject (AttemptSource case_attempt) []] = Inr e"
proof -
  have spec: "versioned_pair_spec (Some TOOL_CALL_RECORD) (Some (str ''tool_call_record.p0.v1'')) = Inr (record_schema_spec TOOL_CALL_RECORD)"
    by (simp add: versioned_pair_spec_def catalog_lookup record_schema_spec_def record_spec_def str_def)
  have r: "strict_selected_versioned_record codec_sample (record_schema_spec TOOL_CALL_RECORD) (ModelObject (ToolCallSource case_call) [])
      = Inr (ToolCallSource case_call)"
    using call_revalidated[of "ToolCallSource case_call"]
    by (simp add: strict_selected_versioned_record_def mirror_field_checks_def specialized_version_matches_def res_bind_Inr_iff
        versioned_model_Inr record_schema_spec_def record_spec_def undeclared_model_state_def sample_call_records_def)
  have c: "strict_selected_versioned_child codec_sample (record_schema_spec TOOL_CALL_RECORD) (ModelObject (AttemptSource case_attempt) [])
      = Inr (AttemptSource case_attempt)"
    using call_revalidated[of "AttemptSource case_attempt"]
    by (simp add: strict_selected_versioned_child_def versioned_model_Inr record_schema_spec_def record_spec_def child_code_of_def
        undeclared_model_state_def sample_call_records_def)
  show ?thesis
    using call_encodes
    by (simp add: encode_persistence_record_versioned_def spec r c record_schema_code)
qed

theorem versioned_decoded_encoding_witness:
  "\<exists>e d. encode_persistence_record_versioned codec_sample 8 (Some TOOL_CALL_RECORD) (Some (str ''tool_call_record.p0.v1''))
        (ModelObject (ToolCallSource case_call) []) [] [ModelObject (AttemptSource case_attempt) []] = Inr e
    \<and> decode_persistence_record_versioned codec_sample (TextInput (Some (envelope_json e)))
        (Some TOOL_CALL_RECORD) (Some (str ''tool_call_record.p0.v1'')) 9 = Inr d
    \<and> dr_source_record d = ToolCallSource case_call"
proof -
  obtain e where e: "encode_persistence_record_versioned codec_sample 8 (Some TOOL_CALL_RECORD) (Some (str ''tool_call_record.p0.v1''))
      (ModelObject (ToolCallSource case_call) []) [] [ModelObject (AttemptSource case_attempt) []] = Inr e"
    using call_encoded_versioned by blast
  have "carries (TextInput (Some (envelope_json e))) e" by (simp add: carries_def)
  from versioned_decoded_encoding[OF call_law e this, of 9] e show ?thesis by auto
qed

subsection \<open>Errors\<close>





text \<open>
  C38. The generic \<open>decode_persistence_record\<close> lets exactly one other exception out: a \<open>TypeError\<close>, exactly
  when the stored object names the expected family and its schema version is a JSON array or object
  (the membership test hashes it).
\<close>

theorem decode_escape_iff:
  assumes "pydantic_law pyd"
  shows "decode_persistence_record pyd stored code correlation_ref = Inl (PlainException e) \<longleftrightarrow>
    e = ''TypeError'' \<and> code \<noteq> REQUEST_UNDERSTANDING_RECORD
    \<and> (\<exists>d v. json_input stored = Inr (Some (JDict d))
         \<and> map_of d (str ''record_code'') = Some (JStr (record_code_text code))
         \<and> map_of d (str ''record_schema_version'') = Some v \<and> \<not> json_scalar v)"
proof (cases "code = REQUEST_UNDERSTANDING_RECORD")
  case False
  have "json_input stored \<noteq> Inl (Uncaught e)" using tame_json_input by (auto simp: tame_def)
  with False show ?thesis
    by (auto simp: decode_persistence_record_def public_plain res_bind_Inl_iff generic_uncaught[OF assms]
        classify_uncaught)
qed (simp add: decode_persistence_record_def public_plain)

theorem decode_escape_iff_witness:
  "decode_persistence_record codec_sample
     (TextInput (Some (JDict [(str ''record_code'', JStr (str ''task_record'')), (str ''record_schema_version'', JList [])])))
     TASK_RECORD 9 = Inl (PlainException ''TypeError'')"
  unfolding decode_escape_iff[OF call_law] by (simp add: json_input_def json_scalar_def)

subsection \<open>A decoded envelope says what its payload says\<close>

text \<open>
  C39. A stored object that the generic entry point decodes is an envelope of the expected family whose
  identity, owner, references and children are, up to Python equality, those of the envelope that
  encoding the decoded record and children gives: metadata that the payload does not back is refused.
\<close>

theorem decoded_metadata_is_projected:
  assumes "decode_persistence_record pyd stored code correlation_ref = Inr d"
  shows "\<exists>raw e external expected. json_input stored = Inr (Some raw) \<and> envelope_of_json raw = Inr e
    \<and> vp_record_code (pe_payload e) = code
    \<and> set external \<subseteq> set (pe_record_references e)
    \<and> encode_persistence_record pyd fresh (Some code) (ModelObject (dr_source_record d) []) (exact_references external)
        (map (\<lambda>c. ModelObject c []) (dr_logical_children d)) = Inr expected
    \<and> identity_eq (pe_logical_identity expected) (pe_logical_identity e)
    \<and> pe_direct_owner_customer_id expected = pe_direct_owner_customer_id e
    \<and> list_all2 reference_eq (pe_record_references expected) (pe_record_references e)
    \<and> list_all2 child_payload_eq (vp_logical_children (pe_payload expected)) (vp_logical_children (pe_payload e))"
proof -
  from assms have code: "code \<noteq> REQUEST_UNDERSTANDING_RECORD"
    by (auto simp: decode_persistence_record_def split: if_splits)
  with assms obtain raw where raw: "json_input stored = Inr raw" "decode_generic pyd raw code = Inr d"
    by (auto simp: decode_persistence_record_def res_bind_Inr_iff)
  from raw(2) obtain spec outer_data e source children expected where
    e: "validated_envelope raw outer_data code (ss_record_schema_version spec) = Inr e"
    and built: "build_envelope pyd code (ModelObject source [])
        (exact_references (filter (\<lambda>r. Some (rf_relation r) \<in> pd_relation ` set (external_rules spec)) (pe_record_references e)))
        (map (\<lambda>c. ModelObject c []) children) = Inr expected"
    and same: "compare_envelopes expected e False = Inr ()"
    and d: "dr_source_record d = source" "dr_logical_children d = children"
    by (auto simp: decode_generic_def Let_def res_bind_Inr_iff)
  from e obtain v where "raw = Some v" "envelope_of_json v = Inr e" "vp_record_code (pe_payload e) = code"
    by (auto simp: validated_envelope_def res_bind_Inr_iff split: option.splits sum.splits)
  moreover have "encode_persistence_record pyd fresh (Some code) (ModelObject (dr_source_record d) [])
      (exact_references (filter (\<lambda>r. Some (rf_relation r) \<in> pd_relation ` set (external_rules spec)) (pe_record_references e)))
      (map (\<lambda>c. ModelObject c []) (dr_logical_children d)) = Inr expected"
    using built code d by (simp add: encode_persistence_record_def)
  moreover have "set (filter (\<lambda>r. Some (rf_relation r) \<in> pd_relation ` set (external_rules spec)) (pe_record_references e))
      \<subseteq> set (pe_record_references e)" by (rule filter_is_subset)
  ultimately show ?thesis
    using raw(1) same unfolding compare_envelopes_def res_bind_Inr_iff raise_if_Inr_iff by blast
qed

theorem decoded_metadata_is_projected_witness:
  "\<exists>e d external expected. decode_persistence_record codec_sample (EnvelopeInput (Obj e [])) TOOL_CALL_RECORD 9 = Inr d
    \<and> encode_persistence_record codec_sample 8 (Some TOOL_CALL_RECORD) (ModelObject (dr_source_record d) []) (exact_references external)
        (map (\<lambda>c. ModelObject c []) (dr_logical_children d)) = Inr expected"
proof -
  obtain e where e: "encode_persistence_record codec_sample 8 (Some TOOL_CALL_RECORD) (ModelObject (ToolCallSource case_call) []) []
      [ModelObject (AttemptSource case_attempt) []] = Inr e" using call_encoded by blast
  have "carries (EnvelopeInput (Obj e [])) e" by (simp add: carries_def)
  moreover from e have "build_envelope codec_sample TOOL_CALL_RECORD (ModelObject (ToolCallSource case_call) []) []
      [ModelObject (AttemptSource case_attempt) []] = Inr e" by (simp add: encode_persistence_record_def)
  from decode_generic_built[OF call_law this] obtain d0 where
    "stored_envelope e" "decode_generic codec_sample (Some (envelope_json e)) TOOL_CALL_RECORD = Inr d0" by blast
  ultimately have d: "decode_persistence_record codec_sample (EnvelopeInput (Obj e [])) TOOL_CALL_RECORD 9 = Inr d0"
    using carries_input(1) by (simp add: decode_persistence_record_def)
  from decoded_metadata_is_projected[OF d, of 8] d show ?thesis by blast
qed

subsection \<open>What a mapping may hold\<close>


text \<open>The mapping of 20000 nested mappings, with the default limit of 1000 nested calls.\<close>

lemma deep_mapping_fails:
  "decode_persistence_record pyd (MappingInput 1000 (nested_mappings 20000) (GRef 20000)) MESSAGE_RECORD correlation_ref
     = Inl (IntegrityError PAYLOAD_VALIDATION_FAILED correlation_ref)"
  using nested_too_deep[of 1000 20000] nested_native[of 20000 20000]
  by (simp add: decode_persistence_record_def json_input_def native_value_iff public_result_def)

end
