(* ===== verification/Http_Session.thy ===== *)
theory Http_Session
  imports Run_Liveness
begin

section \<open>The HTTP boundary and its sessions (api/http.py, infrastructure/auth/p0_session.py)\<close>

text \<open>
  \<open>POST /v1/agent/runs\<close>: the opaque session cookie is resolved to a server-side fixture by its
  SHA-256, the fixture gives the trusted \<open>CustomerContext\<close>, and only then is the Run handled. The route
  is modelled from its function on: FastAPI has parsed the body to an \<open>agent_run_request\<close> and the cookie
  to an optional string. The time the adapter reads is an argument.
\<close>

subsection \<open>Sessions\<close>

record p0_session_fixture =
  sf_subject_ref :: pystr
  sf_customer_id :: pystr
  sf_auth_scopes :: "pystr list"
  sf_expires_at :: datetime
  sf_disabled :: bool

definition new_p0_session_fixture :: "p0_session_fixture \<Rightarrow> validation_error + p0_session_fixture" where
  "new_p0_session_fixture f = construct
     [(''subject_ref'', NonEmptyString (sf_subject_ref f)),
      (''customer_id'', NonEmptyString (sf_customer_id f)),
      (''expires_at'', is_utc (sf_expires_at f))] [] f"

datatype session_error =
    UnicodeEncodeError | SessionValueError string | SessionContextInvalid validation_error

definition session_hash :: "pystr \<Rightarrow> session_error + pystr" where
  "session_hash opaque_session_id =
     (if utf8_text opaque_session_id then Inr (sha256_hexdigest (utf8 opaque_session_id)) else Inl UnicodeEncodeError)"

text \<open>\<open>__init__\<close>: the dictionary from digests to fixtures, which are instances already and pass as they are.\<close>

fun hash_fixtures ::
  "(pystr \<times> p0_session_fixture) list \<Rightarrow> (pystr \<times> p0_session_fixture) list
    \<Rightarrow> session_error + (pystr \<times> p0_session_fixture) list" where
  "hash_fixtures hashed [] = Inr hashed"
| "hash_fixtures hashed ((opaque_session_id, fixture) # items) =
     (if opaque_session_id = [] then Inl (SessionValueError ''P0 Session fixture key cannot be empty'')
      else case session_hash opaque_session_id of
        Inl e \<Rightarrow> Inl e
      | Inr digest \<Rightarrow>
          if digest \<in> fst ` set hashed then Inl (SessionValueError ''P0 Session fixture hash collision'')
          else hash_fixtures (hashed @ [(digest, fixture)]) items)"

record session_adapter =
  sa_fixtures_by_hash :: "(pystr \<times> p0_session_fixture) list"

definition new_session_adapter :: "(pystr \<times> p0_session_fixture) list \<Rightarrow> session_error + session_adapter" where
  "new_session_adapter fixtures =
     res_bind (hash_fixtures [] fixtures) (\<lambda>hashed. Inr \<lparr>sa_fixtures_by_hash = hashed\<rparr>)"

definition session_context :: "p0_session_fixture \<Rightarrow> datetime \<Rightarrow> pystr \<Rightarrow> customer_context" where
  "session_context fixture authenticated_at session_ref_hash =
     \<lparr>cc_provenance = str ''SERVER_AUTH_ADAPTER'', cc_subject_ref = sf_subject_ref fixture,
      cc_customer_id = sf_customer_id fixture, cc_auth_scopes = sf_auth_scopes fixture,
      cc_authenticated_at = authenticated_at, cc_session_ref_hash = session_ref_hash\<rparr>"

definition authenticate ::
  "session_adapter \<Rightarrow> datetime \<Rightarrow> pystr \<Rightarrow> session_error + customer_context option" where
  "authenticate adapter now opaque_session_id =
     (if opaque_session_id = [] then Inr None
      else res_bind (session_hash opaque_session_id) (\<lambda>session_ref_hash.
        case map_of (sa_fixtures_by_hash adapter) session_ref_hash of
          None \<Rightarrow> Inr None
        | Some fixture \<Rightarrow>
            (case require_utc now ''session authentication time'' of
               Inl message \<Rightarrow> Inl (SessionValueError message)
             | Inr authenticated_at \<Rightarrow>
                 if sf_disabled fixture \<or> instant (sf_expires_at fixture) \<le> instant authenticated_at then Inr None
                 else case new_customer_context (session_context fixture authenticated_at session_ref_hash) of
                   Inl e \<Rightarrow> Inl (SessionContextInvalid e)
                 | Inr c \<Rightarrow> Inr (Some c))))"

subsection \<open>The route\<close>

record agent_run_request =
  hr_message :: pystr

definition new_agent_run_request :: "agent_run_request \<Rightarrow> validation_error + agent_run_request" where
  "new_agent_run_request r =
     construct [(''message'', 1 \<le> length (hr_message r) \<and> length (hr_message r) \<le> 4000)] [] r"

datatype http_error =
    HttpUnauthorized | SessionRaised session_error | CommandRefused validation_error | HandlerRaised service_error

definition run_handler :: "run_env \<Rightarrow> agent_run_command pyobj \<Rightarrow> (run_state, http_error, agent_run_result) computation" where
  "run_handler env command = (\<lambda>st.
     case handle env command st of (Inl e, st') \<Rightarrow> (Inl (HandlerRaised e), st') | (Inr result, st') \<Rightarrow> (Inr result, st'))"

definition create_agent_run ::
  "(pystr \<Rightarrow> session_error + customer_context option) \<Rightarrow> run_env \<Rightarrow> agent_run_request \<Rightarrow> pystr option
    \<Rightarrow> (run_state, http_error, agent_run_result) computation" where
  "create_agent_run session_auth env request opaque_session_id =
     (case (case opaque_session_id of None \<Rightarrow> Inr None | Some s \<Rightarrow> session_auth s) of
        Inl e \<Rightarrow> exec_raise (SessionRaised e)
      | Inr None \<Rightarrow> exec_raise HttpUnauthorized
      | Inr (Some customer_context) \<Rightarrow>
          (case new_agent_run_command \<lparr>rq_customer_context = Obj customer_context [], rq_message = hr_message request\<rparr> of
             Inl e \<Rightarrow> exec_raise (CommandRefused e)
           | Inr command \<Rightarrow> run_handler env (Obj command [])))"

subsection \<open>The port\<close>

text \<open>
  What the route relies on (\<open>SessionAuthPort\<close>): the identity it is given for a cookie is the one the
  cookie stands for. Nothing is asked of a port, and no order is read, for anybody else.
\<close>

locale session_auth =
  fixes session_auth :: "pystr \<Rightarrow> session_error + customer_context option"
    and stands_for :: "pystr \<Rightarrow> customer_context \<Rightarrow> bool"
  assumes authentic: "session_auth s = Inr (Some c) \<Longrightarrow> stands_for s c"
begin

lemma served:
  obtains (refused) e where "create_agent_run session_auth env request cookie st = (Inl e, st)"
  | (handled) s customer command where "cookie = Some s" "stands_for s customer"
      "command = \<lparr>rq_customer_context = Obj customer [], rq_message = hr_message request\<rparr>"
      "create_agent_run session_auth env request cookie st = run_handler env (Obj command []) st"
proof (cases cookie)
  case None
  then show ?thesis using refused by (simp add: create_agent_run_def exec_raise_def)
next
  case (Some s)
  show ?thesis
  proof (cases "session_auth s")
    case (Inl e)
    with Some show ?thesis using refused by (simp add: create_agent_run_def exec_raise_def)
  next
    case (Inr found)
    show ?thesis
    proof (cases found)
      case None
      with Some Inr show ?thesis using refused by (simp add: create_agent_run_def exec_raise_def)
    next
      fix customer assume c: "found = Some customer"
      let ?command = "\<lparr>rq_customer_context = Obj customer [], rq_message = hr_message request\<rparr>"
      show ?thesis
      proof (cases "new_agent_run_command ?command")
        case (Inl e)
        with Some Inr c show ?thesis using refused by (simp add: create_agent_run_def exec_raise_def)
      next
        case (Inr command)
        then have "command = ?command" by (simp add: new_agent_run_command_def construct_Inr_iff)
        with Some c \<open>session_auth s = Inr found\<close> Inr show ?thesis
          using handled[of s customer command] authentic by (simp add: create_agent_run_def)
      qed
    qed
  qed
qed

lemma reads_of_the_session:
  assumes "ExecutorAction (GetOrder q) \<in> set (rn_log (snd (create_agent_run session_auth env request cookie initial_run_state)))"
  shows "\<exists>s customer output extra. cookie = Some s \<and> stands_for s customer \<and> gq_customer_id q = cc_customer_id customer
    \<and> ev_propose env = Proposes (Obj output extra) \<and> claimed_order (hr_message request) output (gq_order_id q)"
proof (rule served[of env request cookie initial_run_state])
  fix e assume "create_agent_run session_auth env request cookie initial_run_state = (Inl e, initial_run_state)"
  with assms show ?thesis by (simp add: initial_run_state_def)
next
  fix s customer command
  assume c: "cookie = Some s" "stands_for s customer" "command = \<lparr>rq_customer_context = Obj customer [], rq_message = hr_message request\<rparr>"
    "create_agent_run session_auth env request cookie initial_run_state = run_handler env (Obj command []) initial_run_state"
  have "rn_log (snd (create_agent_run session_auth env request cookie initial_run_state))
      = rn_log (snd (handle env (Obj command []) initial_run_state))"
    by (simp add: c(4) run_handler_def split: prod.splits sum.splits)
  moreover have "list_all (order_asked (read_claimed env (Obj command []))) (rn_log (snd (handle env (Obj command []) initial_run_state)))"
    by (rule handle_asks)
  ultimately have "order_asked (read_claimed env (Obj command [])) (ExecutorAction (GetOrder q))"
    using assms by (metis list_all_iff)
  then show ?thesis using c(1-3) by (auto simp: order_asked_def read_claimed_def)
qed

lemma untouched_unless_handled:
  assumes "rn_log (snd (create_agent_run session_auth env request cookie initial_run_state)) \<noteq> []"
  shows "\<exists>s customer. cookie = Some s \<and> stands_for s customer"
  by (rule served[of env request cookie initial_run_state]) (use assms in \<open>auto simp: initial_run_state_def\<close>)

end

subsection \<open>The dictionary of sessions\<close>

text \<open>The session a cookie stands for, by the fixtures the adapter was configured with.\<close>

definition session_of :: "(pystr \<times> p0_session_fixture) list \<Rightarrow> pystr \<Rightarrow> p0_session_fixture \<Rightarrow> bool" where
  "session_of fixtures cookie fixture \<longleftrightarrow>
     cookie \<noteq> [] \<and> (\<exists>key digest. (key, fixture) \<in> set fixtures \<and> session_hash key = Inr digest \<and> session_hash cookie = Inr digest)"

definition live_session :: "(pystr \<times> p0_session_fixture) list \<Rightarrow> datetime \<Rightarrow> pystr \<Rightarrow> p0_session_fixture \<Rightarrow> bool" where
  "live_session fixtures now cookie fixture \<longleftrightarrow>
     session_of fixtures cookie fixture \<and> \<not> sf_disabled fixture \<and> instant now < instant (sf_expires_at fixture)"

lemma hash_fixtures_Inr:
  assumes "hash_fixtures hashed fixtures = Inr out" "distinct (map fst hashed)"
  shows "distinct (map fst out)
    \<and> set out = set hashed \<union> {(digest, f). \<exists>key. (key, f) \<in> set fixtures \<and> session_hash key = Inr digest}"
  using assms
proof (induction hashed fixtures rule: hash_fixtures.induct)
  case (2 hashed key fixture items)
  then obtain digest where d: "session_hash key = Inr digest" "digest \<notin> fst ` set hashed" "key \<noteq> []"
    "hash_fixtures (hashed @ [(digest, fixture)]) items = Inr out"
    by (auto split: if_splits sum.splits)
  from 2(1)[OF d(3,1,2,4)] d(2) 2(3) d(1) show ?case by auto
qed simp

lemma adapter_lookup:
  assumes "new_session_adapter fixtures = Inr adapter" "cookie \<noteq> []" "session_hash cookie = Inr digest"
  shows "map_of (sa_fixtures_by_hash adapter) digest = Some f \<longleftrightarrow> session_of fixtures cookie f"
proof -
  from assms(1) obtain out where "hash_fixtures [] fixtures = Inr out" "sa_fixtures_by_hash adapter = out"
    by (auto simp: new_session_adapter_def res_bind_Inr_iff)
  with hash_fixtures_Inr[of "[]" fixtures out] assms(2,3) show ?thesis
    by (auto simp: session_of_def)
qed

lemma session_of_unique:
  assumes "new_session_adapter fixtures = Inr adapter" "session_of fixtures cookie f" "session_of fixtures cookie g"
  shows "f = g"
proof -
  from assms(2) obtain digest where "cookie \<noteq> []" "session_hash cookie = Inr digest" by (auto simp: session_of_def)
  with adapter_lookup[OF assms(1)] assms(2,3) show ?thesis by (metis option.inject)
qed

lemma session_hash_not_empty: "session_hash s = Inr digest \<Longrightarrow> NonEmptyString digest"
  using sha256_hexdigest_is_hex64[of "utf8 s"] by (auto simp: session_hash_def is_hex64_def NonEmptyString_def split: if_splits)

lemma session_context_accepted:
  assumes "accepts new_p0_session_fixture f" "session_hash s = Inr digest"
  shows "new_customer_context (session_context f now digest) = Inr c \<longleftrightarrow>
    c = session_context f now digest \<and> is_utc now \<and> [] \<notin> set (sf_auth_scopes f)"
  using assms session_hash_not_empty[OF assms(2)]
  by (auto simp: new_customer_context_def construct_Inr_iff session_context_def accepts_iff new_p0_session_fixture_def
      list_all_iff NonEmptyString_def)

definition session_identity :: "session_adapter \<Rightarrow> datetime \<Rightarrow> pystr \<Rightarrow> customer_context \<Rightarrow> bool" where
  "session_identity adapter now cookie customer \<longleftrightarrow>
     (\<exists>fixture digest. cookie \<noteq> [] \<and> session_hash cookie = Inr digest \<and> map_of (sa_fixtures_by_hash adapter) digest = Some fixture
        \<and> \<not> sf_disabled fixture \<and> instant now < instant (sf_expires_at fixture) \<and> customer = session_context fixture now digest)"

lemma authenticate_known:
  assumes "s \<noteq> []" "session_hash s = Inr digest" "map_of (sa_fixtures_by_hash adapter) digest = Some f"
  shows "authenticate adapter now s = Inr found \<longleftrightarrow> is_utc now
    \<and> (if sf_disabled f \<or> instant (sf_expires_at f) \<le> instant now then found = None
       else \<exists>c. new_customer_context (session_context f now digest) = Inr c \<and> found = Some c)"
proof (cases "require_utc now ''session authentication time''")
  case (Inl message)
  then have "\<not> is_utc now" by (metis Inr_Inl_False require_utc_iff)
  with Inl assms show ?thesis by (simp add: authenticate_def)
next
  case (Inr at)
  then have at: "is_utc now" "at = now" by simp_all
  show ?thesis unfolding authenticate_def using assms at(1) by (auto simp: Inr at(2) split: sum.splits)
qed

lemma authenticate_unknown:
  assumes "s \<noteq> []" "session_hash s = Inr digest" "map_of (sa_fixtures_by_hash adapter) digest = None"
  shows "authenticate adapter now s = Inr None"
  using assms by (simp add: authenticate_def)

lemma authenticate_hashed: "authenticate adapter now s = Inr (Some c) \<Longrightarrow> s \<noteq> [] \<and> (\<exists>digest. session_hash s = Inr digest)"
  by (auto simp: authenticate_def res_bind_Inr_iff split: if_splits)

interpretation p0_session: session_auth "authenticate adapter now" "session_identity adapter now"
proof
  fix s c assume auth: "authenticate adapter now s = Inr (Some c)"
  then obtain digest where d: "s \<noteq> []" "session_hash s = Inr digest" using authenticate_hashed by blast
  with auth authenticate_unknown obtain f where f: "map_of (sa_fixtures_by_hash adapter) digest = Some f"
    by (metis Inr_inject not_None_eq option.distinct(1))
  from authenticate_known[OF d f, of now "Some c"] auth d f show "session_identity adapter now s c"
    by (auto simp: session_identity_def new_customer_context_def construct_Inr_iff split: if_splits)
qed

lemma identity_of_live_session:
  assumes "new_session_adapter fixtures = Inr adapter" "session_identity adapter now cookie customer"
  shows "\<exists>fixture. live_session fixtures now cookie fixture \<and> cc_customer_id customer = sf_customer_id fixture"
  using assms(2) adapter_lookup[OF assms(1)]
  by (auto simp: session_identity_def live_session_def session_context_def)

subsection \<open>Properties\<close>

text \<open>C27. What authentication answers, for sessions that were configured: an identity exactly for the key of a live session,
  which is the identity of its fixture; nothing for an empty cookie, an unknown key, a disabled or an expired session.
  Otherwise it raises: for a cookie that UTF-8 cannot carry, for a known session when the clock is not UTC, and for a live
  session one of whose scopes is empty, which the fixture accepts and \<open>CustomerContext\<close> does not.\<close>

theorem authentication_outcome:
  assumes "new_session_adapter fixtures = Inr adapter" "list_all (\<lambda>(key, f). accepts new_p0_session_fixture f) fixtures"
  shows "authenticate adapter now cookie = Inr found \<longleftrightarrow>
     (case found of
        Some c \<Rightarrow> \<exists>f digest. live_session fixtures now cookie f \<and> is_utc now \<and> [] \<notin> set (sf_auth_scopes f)
          \<and> session_hash cookie = Inr digest \<and> c = session_context f now digest
      | None \<Rightarrow> cookie = [] \<or> utf8_text cookie
          \<and> (\<forall>f. session_of fixtures cookie f \<longrightarrow> is_utc now \<and> (sf_disabled f \<or> instant (sf_expires_at f) \<le> instant now)))"
proof (cases "cookie \<noteq> [] \<and> utf8_text cookie")
  case False
  then show ?thesis
    by (cases found) (auto simp: authenticate_def session_hash_def live_session_def session_of_def)
next
  case True
  then obtain digest where d: "cookie \<noteq> []" "session_hash cookie = Inr digest" by (simp add: session_hash_def)
  note lookup = adapter_lookup[OF assms(1) d]
  show ?thesis
  proof (cases "map_of (sa_fixtures_by_hash adapter) digest")
    case None
    with lookup True authenticate_unknown[OF d] show ?thesis
      by (cases found) (auto simp: live_session_def)
  next
    case (Some f)
    then have f: "session_of fixtures cookie g \<longleftrightarrow> g = f" for g using lookup[of g] by auto
    then have "accepts new_p0_session_fixture f" using assms(2) by (fastforce simp: session_of_def list_all_iff)
    from session_context_accepted[OF this d(2)] authenticate_known[OF d Some] f True d(2) show ?thesis
      by (cases found) (auto simp: live_session_def)
  qed
qed

text \<open>C25. Serving a request reads only orders of the customer whose live session the cookie stands for, and only the
  order number the model quoted from the message of this request; without such a session no port is asked at all.\<close>

theorem served_reads_are_the_sessions:
  assumes "new_session_adapter fixtures = Inr adapter"
  shows "let log = rn_log (snd (create_agent_run (authenticate adapter now) env request cookie initial_run_state))
     in list_all (\<lambda>a. case a of
          ExecutorAction (GetOrder q) \<Rightarrow> \<exists>s f output extra. cookie = Some s \<and> live_session fixtures now s f
            \<and> gq_customer_id q = sf_customer_id f \<and> ev_propose env = Proposes (Obj output extra)
            \<and> claimed_order (hr_message request) output (gq_order_id q)
        | _ \<Rightarrow> True) log
      \<and> (log = [] \<or> (\<exists>s f. cookie = Some s \<and> live_session fixtures now s f))"
proof -
  let ?log = "rn_log (snd (create_agent_run (authenticate adapter now) env request cookie initial_run_state))"
  have "\<exists>s f output extra. cookie = Some s \<and> live_session fixtures now s f \<and> gq_customer_id q = sf_customer_id f
        \<and> ev_propose env = Proposes (Obj output extra) \<and> claimed_order (hr_message request) output (gq_order_id q)"
    if "ExecutorAction (GetOrder q) \<in> set ?log" for q
    using p0_session.reads_of_the_session[of q adapter now env request cookie] that
      identity_of_live_session[OF assms] by fastforce
  then have "list_all (\<lambda>a. case a of
          ExecutorAction (GetOrder q) \<Rightarrow> \<exists>s f output extra. cookie = Some s \<and> live_session fixtures now s f
            \<and> gq_customer_id q = sf_customer_id f \<and> ev_propose env = Proposes (Obj output extra)
            \<and> claimed_order (hr_message request) output (gq_order_id q)
        | _ \<Rightarrow> True) ?log"
    by (auto simp: list_all_iff split: run_action.splits port_action.splits)
  moreover have "?log = [] \<or> (\<exists>s f. cookie = Some s \<and> live_session fixtures now s f)"
    using p0_session.untouched_unless_handled[of adapter now env request cookie]
      identity_of_live_session[OF assms] by fastforce
  ultimately show ?thesis unfolding Let_def by blast
qed

subsection \<open>A sample session\<close>

definition sample_session_fixture :: p0_session_fixture where
  "sample_session_fixture = \<lparr>sf_subject_ref = str ''subject'', sf_customer_id = str ''cust-1'', sf_auth_scopes = [str ''orders:read''],
     sf_expires_at = utc_us 10, sf_disabled = False\<rparr>"

definition sample_sessions :: "(pystr \<times> p0_session_fixture) list" where
  "sample_sessions = [(str ''key-1'', sample_session_fixture)]"

definition sample_adapter :: session_adapter where
  "sample_adapter = \<lparr>sa_fixtures_by_hash = [(sha256_hexdigest (utf8 (str ''key-1'')), sample_session_fixture)]\<rparr>"

lemma sample_adapter_made: "new_session_adapter sample_sessions = Inr sample_adapter"
  by (simp add: new_session_adapter_def sample_sessions_def sample_adapter_def session_hash_def)

lemma sample_sessions_valid: "list_all (\<lambda>(key, f). accepts new_p0_session_fixture f) sample_sessions"
  by (simp add: sample_sessions_def sample_session_fixture_def accepts_iff new_p0_session_fixture_def construct_Inr_iff)

lemma sample_session_live: "live_session sample_sessions (utc_us 5) (str ''key-1'') sample_session_fixture"
  by (simp add: live_session_def session_of_def sample_sessions_def session_hash_def) (simp add: sample_session_fixture_def)

theorem authentication_outcome_witness:
  "\<exists>c. authenticate sample_adapter (utc_us 5) (str ''key-1'') = Inr (Some c) \<and> cc_customer_id c = str ''cust-1''"
proof -
  let ?c = "session_context sample_session_fixture (utc_us 5) (sha256_hexdigest (utf8 (str ''key-1'')))"
  have "session_hash (str ''key-1'') = Inr (sha256_hexdigest (utf8 (str ''key-1'')))" by (simp add: session_hash_def)
  then have "authenticate sample_adapter (utc_us 5) (str ''key-1'') = Inr (Some ?c)"
    unfolding authentication_outcome[OF sample_adapter_made sample_sessions_valid]
    using sample_session_live by (auto simp: sample_session_fixture_def)
  then show ?thesis by (simp add: session_context_def sample_session_fixture_def)
qed

lemma sample_session_expires: "\<not> live_session sample_sessions (utc_us 20) s f"
  by (auto simp: live_session_def session_of_def sample_sessions_def) (simp add: sample_session_fixture_def)

theorem served_reads_are_the_sessions_witness:
  "rn_log (snd (create_agent_run (authenticate sample_adapter (utc_us 20)) sample_run_env \<lparr>hr_message = sample_message\<rparr>
      (Some (str ''key-1'')) initial_run_state)) = []"
  using served_reads_are_the_sessions[OF sample_adapter_made, of "utc_us 20" sample_run_env "\<lparr>hr_message = sample_message\<rparr>"
      "Some (str ''key-1'')"] sample_session_expires unfolding Let_def by blast

end
