(* ===== verification/Spec2Isabelle.thy ===== *)
theory Spec2Isabelle
  imports Text_Properties Recovery_Properties Run_Properties Run_Liveness Grading_Properties Run_Evidence_Properties Codec_Properties Http_Session
begin

text \<open>
  Verification library for mini-agent: the Python package under src/src/mini_agent. Paths below are
  relative to that directory.

  \<^bold>\<open>The program.\<close> A customer asks for the status of an order. \<open>AgentRunService.handle\<close>
  (application/agent_run_service.py) opens a Run, asks a language model to understand the message,
  has the reducer of core/request_processing.py decide what durable Task the answer justifies, stores
  that Task graph under a condition on what was read, lets core/control_gateway.py decide on the one
  tool call, executes it by application/read_tool_executor.py behind a dispatch fence, renders the
  validated order by application/deterministic_renderer.py and closes the Run with one conditional
  write. The model proposes; only deterministic code accepts. A process that dies leaves records that
  application/restart_recovery_service.py blocks at the next start. All records of
  application/records.py are stored in envelopes by the codec of application/persistence.py. The
  evaluation (evaluation/) loads the records of one Run as an exact evidence closure and grades them.

  \<^bold>\<open>Conventions\<close> (\<open>Prelude\<close>). A call that may raise returns \<open>'e + 'a\<close>. A pydantic class is a
  \<open>record\<close> whose constructor \<open>new_...\<close> first collects the violated field constraints and then runs the
  guards of its validators in source order; \<open>canonical_...\<close> is deep validity, what a strict rebuild
  establishes. An object whose run-time shape the code distrusts is a \<open>pyobj\<close>: an instance of exactly
  the expected class with the names of its undeclared state, or anything else. A \<open>str\<close> is its list of
  code points, a \<open>datetime\<close> its instant in microseconds with its UTC offset, a \<open>UUID\<close> the number it
  stands for, an \<open>int\<close> unbounded; SHA-256 is computed over 32-bit words (\<open>Py_Hash\<close>).
\<close>

subsection \<open>Theories and sources\<close>

text \<open>
  \<^item> Shared. \<open>Prelude\<close>: results, constructors, the locales \<open>validated_class\<close>, \<open>plain_record\<close> (a
    class whose constructor is idempotent), \<open>ranked_machine\<close> and \<open>audited_machine\<close> (step relations
    that move forward). \<open>Computation\<close>: code that awaits ports, as a function of the state of its
    world, with rules for what a step keeps and for steps that return. \<open>Py_Hash\<close>: UTF-8, SHA-256,
    \<open>json.dumps\<close>.
  \<^item> core/common.py: \<open>Common\<close> (frozen JSON, trusted names, UTC), \<open>Json_Store\<close> (freezing object graphs
    with sharing and cycles).
  \<^item> core/identity.py, order.py, memory.py, presentation.py, presentation_policy.py: \<open>Order_Core\<close>.
  \<^item> core/tool_system.py: \<open>Tool_System\<close>, \<open>Tool_Calls\<close>, \<open>Registry_Facts\<close>. core/task_state.py:
    \<open>Task_State\<close>. core/trace.py: \<open>Trace\<close>. core/request_understanding.py: \<open>Request_Understanding\<close>.
  \<^item> core/request_processing.py: \<open>Order_Id_Text\<close> (\<open>normalize_order_id\<close> and the token search),
    \<open>Provenance\<close> (spans of quotes), \<open>Closure\<close> (durable candidates), \<open>Reduction\<close> with \<open>Graph_Acceptance\<close>
    and \<open>Reduction_Facts\<close> (\<open>validate_and_reduce_initial_request_v2\<close> and its specification),
    \<open>Seal\<close> (registry of sealed decisions as a step relation), \<open>Revalidation\<close>
    (\<open>revalidate_next_move_v2\<close>).
  \<^item> core/control_gateway.py: \<open>Control_Gateway\<close>.
  \<^item> application/deterministic_renderer.py: \<open>Renderer\<close>.
  \<^item> application/records.py: \<open>Run_Records\<close>, \<open>Tool_Commands\<close> (the tool-call store as a step relation),
    \<open>Initial_Graph\<close>, \<open>Recovery_Records\<close>, \<open>Eval_Records\<close>, \<open>Run_Evidence\<close> and \<open>Run_Evidence_Closure\<close> (the
    exact evidence of a Run), \<open>Supersedes\<close> (its chains).
  \<^item> application/read_tool_executor.py: \<open>Order_Result_Guard\<close>, \<open>Read_Tool_Executor\<close>,
    \<open>Executor_Facts\<close>.
  \<^item> application/agent_run_service.py: \<open>Agent_Run\<close>, \<open>Agent_Handle\<close>; facts in \<open>Run_Protocol\<close>,
    \<open>Run_Reads\<close>, \<open>Run_Closing\<close>, \<open>Run_Finish\<close>, \<open>Run_Answered\<close>, \<open>Run_Completion\<close>.
  \<^item> application/restart_recovery_service.py: \<open>Restart_Recovery\<close>.
  \<^item> api/http.py and infrastructure/auth/p0_session.py: \<open>Http_Session\<close>, with the locale \<open>session_auth\<close> for
    the port between them.
  \<^item> application/persistence.py: \<open>Record_Json\<close> (\<open>model_dump(mode="json")\<close> of the stored classes),
    \<open>Persistence_Rules\<close> (the projection tables), \<open>Persistence_Codec\<close> (encoding), \<open>Persistence_Decode\<close>,
    \<open>Native_Graph\<close> (\<open>_is_native_json_value\<close>); facts in \<open>Envelope_Facts\<close>, \<open>Codec_Facts\<close>,
    \<open>Codec_Build\<close>, \<open>Codec_Entry_Points\<close>.
  \<^item> evaluation/graders.py: \<open>Eval_Evidence\<close>, \<open>Grader_Records\<close>, \<open>Grader_Graphs\<close>, \<open>Grader_Messages\<close>,
    \<open>Grader_Precedence\<close>, \<open>Grader_Trace\<close>, \<open>Grading\<close>, \<open>Grading_Facts\<close>. evaluation/harness.py:
    \<open>Harness_Mapping\<close> (the mapping of evidence), \<open>Run_Evidence_Claims\<close> and \<open>Run_Evidence_Grading\<close>.
  \<^item> Properties with their witnesses: the theories \<open>..._Properties\<close>, \<open>Run_Liveness\<close>; samples in \<open>Sample_Request\<close>,
    \<open>Sample_Case\<close>, \<open>Sample_Evidence\<close>.
\<close>

subsection \<open>What is shown\<close>

text \<open>
  \<^item> Request understanding (C1--C3, C21): the reducer is its specification; what it stores is certified
    by a unique quote; the Tasks it creates are owned and bound to the normal form of the quoted number.
  \<^item> Control (C4--C8): the gateway decides by nine checks, its reason is the first that fails;
    a revalidated move is for the sealed graph (exactly: \<open>revalidation_exact\<close>); only the reducer makes a matching seal.
  \<^item> Execution (C9--C15, C19, C20): one fenced read at most, every write a step of the store, a result
    consistent with the writes, cancellation recorded, termination of the call; rendering is complete.
  \<^item> Recovery (C16--C18): what a recovery plan does, when there is one, and what startup answers.
  \<^item> A whole Run (C22--C26): for all environments, the order of its actions, the one commit, the origin of
    every order query, from the HTTP session on; and that a Run with answering ports returns.
  \<^item> Sessions (C27): what a cookie authenticates.
  \<^item> Grading (C28--C31): the verdict is the conjunction of the checks; what a passing case and a
    complete trace say; the messages approved are the messages rendered.
  \<^item> Evidence (C32--C34): the supersedes walk; every ToolCall of accepted evidence goes back to an
    accepted claim; accepted evidence maps to gradeable evidence.
  \<^item> Persistence (C35--C40): decoding inverts encoding; failures are bounded, with the one exception
    characterised; metadata is what the payload determines; the native JSON walk.

  Findings: \<open>long_message_is_refused\<close> (C20), \<open>recovery_outcome\<close> (C18), \<open>spelling_is_graded\<close>
  (\<open>Grading_Facts\<close>), \<open>rogue_call_is_accepted\<close> (\<open>Run_Evidence_Properties\<close>), \<open>decode_escape_iff\<close> (C38),
  \<open>authentication_outcome\<close> (C27) state where the code does not do what its own documentation asks of it.

  \<^bold>\<open>Termination.\<close> No definition uses fuel. Recursions that are not structural have a measure: the
  rest of the text (\<open>finditer\<close>), the two occurrences that decide (\<open>collect_occurrences\<close>), the containers
  not yet active (\<open>freeze_value\<close>), the containers not yet entered and then the stack (\<open>native_walk\<close>), the
  identities not yet on the path (\<open>supersedes_path\<close>). Code that awaits ports has no loop that waits.
\<close>

subsection \<open>Parameters and idealisations\<close>

text \<open>
  \<^item> The environment. Every await of the service, the executor and the recovery is a reply of an
    environment record, indexed by how many actions came before, and may be an exception or a
    cancellation; clocks and identity factories are sequences of answers. Properties quantify over all
    environments; a hypothesis on one is named (\<open>answering\<close> ports, a clock that runs forward).
  \<^item> The remaining time budget of a Run is computed exactly from elapsed microseconds
    (\<open>remaining_run_time_budget_ms\<close>); the code does the same sum in floating point.
  \<^item> pydantic writes JSON text. The digest a seal covers is over \<open>serialise\<close>, a parameter; the codec has
    \<open>p_writer\<close> (timestamps, foreign objects) and \<open>p_validate\<close> (validation of JSON against a class) with the
    law \<open>pydantic_law\<close>; a JSON text is represented by its value.
  \<^item> Undeclared instance state is that of the outer object of a \<open>pyobj\<close>: the recursive walks over the
    state of nested objects, over storage and over pickled state compare nothing else on records of the
    model, which hold declared fields only. The generic exact comparisons of run-time values are then
    equality; where the code compares which fields were set explicitly, the set is part of the model.
  \<^item> Copies made by a JSON round trip (the evaluation) are the identity on canonical records. The legacy
    \<open>*_assertions_pass\<close> flags, which no grader reads, are left out.
  \<^item> Weak references of the seal registry are steps that collect an entry.
\<close>

subsection \<open>Not modelled\<close>

text \<open>
  infrastructure/persistence (SQL and its transactions through SQLAlchemy: what the store does is an answer of the
  environment), infrastructure/order (the same), bootstrap.py (configuration and wiring of the process),
  FastAPI (which parses body and cookie and calls the route), infrastructure/model/qwen_responses.py (the
  remote model: its answer is the environment's), evaluation/artifacts.py and scripted_provider.py (files
  and scripted replies), the lanes of evaluation/harness.py (subprocesses, fixtures, result files),
  application/ports.py (protocols without code), \<open>repr\<close> and \<open>deepcopy\<close> of the frozen containers.
\<close>

end
